(* ===== verification/Prelude.thy ===== *)
theory Prelude
  imports Main "HOL-Library.Word" "HOL-Library.Multiset" "HOL-Library.AList" "HOL-Library.Signed_Division"
begin

text \<open>
  What every component of the SDK model shares: Go's error values, its fixed-width signed
  integers, its maps (association lists, with iteration orders as permutations), effectful
  calls as state transformers, and the hint collections the component proofs use.
\<close>

named_theorems i64_simps \<open>facts that remove a 64-bit or 32-bit wrap-around\<close>
named_theorems gomap_simps \<open>lookup after an operation on a Go map\<close>

section \<open>Error values\<close>

text \<open>
  \<open>GoError\<close> is \<^verbatim>\<open>errors.New\<close> or \<^verbatim>\<open>fmt.Errorf\<close>, \<open>CodeError\<close> an error with an API code,
  \<open>Wrapped\<close> what \<^verbatim>\<open>utils.Wrap\<close> makes of an error (without the caller's name and line, which
  only serve the log). A nil error is \<open>None\<close>.
\<close>

datatype go_error =
    GoError string
  | CodeError int string
  | Wrapped go_error string

type_synonym 's action = "'s \<Rightarrow> go_error option \<times> 's"

definition wrap_err :: "go_error option \<Rightarrow> string \<Rightarrow> go_error option" where
  "wrap_err err message = map_option (\<lambda>e. Wrapped e message) err"

lemma wrap_err_None [simp]: "wrap_err err m = None \<longleftrightarrow> err = None"
  by (simp add: wrap_err_def)

lemma wrap_err_nil [simp]: "wrap_err None m = None"
  by (simp add: wrap_err_def)

text \<open>
  An effectful call that can fail is an \<open>action\<close>; \<open>and_then\<close> is the pattern
  \<^verbatim>\<open>if err := a(); err != nil { return err }; b()\<close>.
\<close>

definition and_then :: "'s action \<Rightarrow> 's action \<Rightarrow> 's action" where
  "and_then a b s = (case a s of (Some e, s') \<Rightarrow> (Some e, s') | (None, s') \<Rightarrow> b s')"

definition skip_act :: "'s action" where
  "skip_act s = (None, s)"

lemma and_then_None:
  "and_then a b s = (None, s'') \<longleftrightarrow> (\<exists>s'. a s = (None, s') \<and> b s' = (None, s''))"
  by (auto simp: and_then_def split: prod.splits option.splits)

lemma and_then_Some:
  "and_then a b s = (Some e, s'') \<longleftrightarrow>
     a s = (Some e, s'') \<or> (\<exists>s'. a s = (None, s') \<and> b s' = (Some e, s''))"
  by (auto simp: and_then_def split: prod.splits option.splits)

text \<open>An operation with a loop that may run for ever has the value \<open>None\<close> when it does.\<close>

type_synonym 's loop_act = "'s \<Rightarrow> (go_error option \<times> 's) option"

definition done_act :: "'s action \<Rightarrow> 's loop_act" where
  "done_act a s = Some (a s)"

definition then_act :: "'s loop_act \<Rightarrow> 's loop_act \<Rightarrow> 's loop_act" where
  "then_act a b s = (case a s of None \<Rightarrow> None | Some (Some e, s1) \<Rightarrow> Some (Some e, s1) | Some (None, s1) \<Rightarrow> b s1)"

text \<open>\<^verbatim>\<open>utils.Unwrap\<close> follows the chain of wrapped errors to its root.\<close>

primrec unwrap_err :: "go_error \<Rightarrow> go_error" where
  "unwrap_err (GoError m) = GoError m"
| "unwrap_err (CodeError c m) = CodeError c m"
| "unwrap_err (Wrapped e m) = unwrap_err e"

section \<open>Go's signed integers\<close>

text \<open>
  An \<^verbatim>\<open>int64\<close> (and an \<^verbatim>\<open>int\<close>, on the 64-bit targets) is an \<open>int\<close> in the range of \<open>is_i64\<close>;
  the result of an operation that may leave the range is wrapped by \<open>i64\<close>. Division
  truncates: \<open>sdiv\<close> and \<open>smod\<close> of the library.
\<close>

definition i64 :: "int \<Rightarrow> int" where
  "i64 x = signed_take_bit 63 x"

definition i32 :: "int \<Rightarrow> int" where
  "i32 x = signed_take_bit 31 x"

definition is_i64 :: "int \<Rightarrow> bool" where
  "is_i64 x \<longleftrightarrow> - (2 ^ 63) \<le> x \<and> x < 2 ^ 63"

definition is_i32 :: "int \<Rightarrow> bool" where
  "is_i32 x \<longleftrightarrow> - (2 ^ 31) \<le> x \<and> x < 2 ^ 31"

lemma is_i64_i64 [simp]: "is_i64 (i64 x)"
  using signed_take_bit_int_less_exp [of 63 x] signed_take_bit_int_greater_eq_minus_exp [of 63 x]
  by (simp add: is_i64_def i64_def)

lemma is_i32_i32 [simp]: "is_i32 (i32 x)"
  using signed_take_bit_int_less_exp [of 31 x] signed_take_bit_int_greater_eq_minus_exp [of 31 x]
  by (simp add: is_i32_def i32_def)

lemma i64_id [i64_simps]: "is_i64 x \<Longrightarrow> i64 x = x"
  by (simp add: is_i64_def i64_def signed_take_bit_int_eq_self)

lemma i32_id [i64_simps]: "is_i32 x \<Longrightarrow> i32 x = x"
  by (simp add: is_i32_def i32_def signed_take_bit_int_eq_self)

lemma sdiv_nonneg: "0 \<le> (a::int) \<Longrightarrow> 0 < b \<Longrightarrow> a sdiv b = a div b"
  by (cases "a = 0") (simp_all add: signed_divide_int_def)

lemma smod_nonneg: "0 \<le> (a::int) \<Longrightarrow> 0 < b \<Longrightarrow> a smod b = a mod b"
  by (cases "a = 0") (simp_all add: signed_modulo_int_def)

text \<open>The verbs \<^verbatim>\<open>%d\<close> and \<^verbatim>\<open>%t\<close> of \<^verbatim>\<open>fmt.Sprintf\<close>.\<close>

fun nat_digits :: "nat \<Rightarrow> string" where
  "nat_digits n = (if n < 10 then [''0123456789'' ! n] else nat_digits (n div 10) @ [''0123456789'' ! (n mod 10)])"

declare nat_digits.simps [simp del]

definition decimal :: "int \<Rightarrow> string" where
  "decimal x = (if x < 0 then ''-'' @ nat_digits (nat (- x)) else nat_digits (nat x))"

definition bool_text :: "bool \<Rightarrow> string" where
  "bool_text b = (if b then ''true'' else ''false'')"

section \<open>Go maps\<close>

text \<open>
  A Go map is an association list with distinct keys. Its order is not observable in Go:
  a \<^verbatim>\<open>range\<close> loop visits the entries in an unspecified order, so an operation that ranges over
  a map takes the order as a parameter \<open>iter\<close>, of which only \<open>any_order iter\<close> is known.
\<close>

type_synonym ('k, 'v) gomap = "('k \<times> 'v) list"

definition gomap_ok :: "('k, 'v) gomap \<Rightarrow> bool" where
  "gomap_ok m \<longleftrightarrow> distinct (map fst m)"

abbreviation gget :: "('k, 'v) gomap \<Rightarrow> 'k \<Rightarrow> 'v option" where
  "gget m k \<equiv> map_of m k"

abbreviation gput :: "'k \<Rightarrow> 'v \<Rightarrow> ('k, 'v) gomap \<Rightarrow> ('k, 'v) gomap" where
  "gput k v m \<equiv> AList.update k v m"

abbreviation gdel :: "'k \<Rightarrow> ('k, 'v) gomap \<Rightarrow> ('k, 'v) gomap" where
  "gdel k m \<equiv> AList.delete k m"

definition any_order :: "(('k, 'v) gomap \<Rightarrow> ('k, 'v) gomap) \<Rightarrow> bool" where
  "any_order iter \<longleftrightarrow> (\<forall>m. mset (iter m) = mset m)"

lemma gget_gput [gomap_simps]: "gget (gput k v m) = (gget m)(k \<mapsto> v)"
  by (rule update_conv')

lemma gget_gdel [gomap_simps]: "gget (gdel k m) = (gget m)(k := None)"
  by (rule delete_conv')

lemma gomap_ok_Nil [simp]: "gomap_ok []"
  by (simp add: gomap_ok_def)

lemma gomap_ok_gput [simp]: "gomap_ok m \<Longrightarrow> gomap_ok (gput k v m)"
  by (simp add: gomap_ok_def distinct_update)

lemma gomap_ok_gdel [simp]: "gomap_ok m \<Longrightarrow> gomap_ok (gdel k m)"
  by (simp add: gomap_ok_def distinct_delete)

lemma gget_in: "gget m k = Some v \<Longrightarrow> (k, v) \<in> set m"
  by (rule map_of_SomeD)

lemma in_keys_gget: "k \<in> fst ` set m \<longleftrightarrow> gget m k \<noteq> None"
  by (simp add: map_of_eq_None_iff)

lemma in_gget: "gomap_ok m \<Longrightarrow> (k, v) \<in> set m \<Longrightarrow> gget m k = Some v"
  by (simp add: gomap_ok_def)

lemma any_order_id [simp]: "any_order (\<lambda>m. m)"
  by (simp add: any_order_def)

lemma any_order_rev [simp]: "any_order rev"
  by (simp add: any_order_def)

lemma iter_set: "any_order iter \<Longrightarrow> set (iter m) = set m"
  unfolding any_order_def by (metis set_mset_mset)

lemma iter_distinct: "any_order iter \<Longrightarrow> gomap_ok m \<Longrightarrow> gomap_ok (iter m)"
  unfolding any_order_def gomap_ok_def
  by (rule mset_eq_imp_distinct_iff [THEN iffD2]) (simp_all add: mset_map)

lemma iter_gget:
  assumes "any_order iter" and "gomap_ok m"
  shows "gget (iter m) = gget m"
proof
  fix k
  show "gget (iter m) k = gget m k"
    using iter_distinct [OF assms] assms(2) iter_set [OF assms(1), of m]
    by (metis gget_in in_gget not_None_eq)
qed

text \<open>The map a loop \<^verbatim>\<open>for i, item := range data { m[key(item)] = data[i] }\<close> builds.\<close>

definition slice_to_map :: "('a \<Rightarrow> 'k) \<Rightarrow> 'a list \<Rightarrow> ('k, 'a) gomap" where
  "slice_to_map key xs = fold (\<lambda>x m. gput (key x) x m) xs []"

lemma gomap_ok_fold_gput: "gomap_ok m \<Longrightarrow> gomap_ok (fold (\<lambda>x m. gput (f x) (g x) m) xs m)"
  by (induction xs arbitrary: m) simp_all

lemma gomap_ok_slice_to_map [simp]: "gomap_ok (slice_to_map key xs)"
  by (simp add: slice_to_map_def gomap_ok_fold_gput)

lemma find_SomeD: "find p xs = Some x \<Longrightarrow> x \<in> set xs \<and> p x"
  by (auto simp: find_Some_iff)

lemma find_append_case:
  "find P (xs @ ys) = (case find P xs of Some x \<Rightarrow> Some x | None \<Rightarrow> find P ys)"
  by (induction xs) simp_all

lemma gget_fold_gput:
  "gget (fold (\<lambda>x m. gput (key x) x m) xs m) k =
     (case find (\<lambda>x. key x = k) (rev xs) of Some x \<Rightarrow> Some x | None \<Rightarrow> gget m k)"
  by (induction xs arbitrary: m)
    (auto simp: gomap_simps find_append_case split: option.splits)

lemma gget_slice_to_map:
  "gget (slice_to_map key xs) k = find (\<lambda>x. key x = k) (rev xs)"
  by (simp add: slice_to_map_def gget_fold_gput split: option.splits)

end
