(* ===== verification/Models.thy ===== *)
theory Models
  imports Prelude
begin

text \<open>
  \<^verbatim>\<open>pkg/db/model_struct\<close>: the rows of the local database, one record per struct, with the
  source's fields in the source's order. A record's fields carry the record's short prefix
  (\<open>cv_\<close> for \<^verbatim>\<open>LocalConversation\<close>, \<open>cl_\<close> for \<^verbatim>\<open>LocalChatLog\<close>, and so on), since Go's field names
  repeat between structs. Integers are \<open>int\<close>; \<open>zero_\<close> constants are Go's zero values.
\<close>

record LocalFriend =
  fr_OwnerUserID :: string
  fr_FriendUserID :: string
  fr_Remark :: string
  fr_CreateTime :: int
  fr_AddSource :: int
  fr_OperatorUserID :: string
  fr_Nickname :: string
  fr_FaceURL :: string
  fr_Ex :: string
  fr_AttachedInfo :: string
  fr_IsPinned :: bool

record LocalFriendRequest =
  frq_FromUserID :: string
  frq_FromNickname :: string
  frq_FromFaceURL :: string
  frq_ToUserID :: string
  frq_ToNickname :: string
  frq_ToFaceURL :: string
  frq_HandleResult :: int
  frq_ReqMsg :: string
  frq_CreateTime :: int
  frq_HandlerUserID :: string
  frq_HandleMsg :: string
  frq_HandleTime :: int
  frq_Ex :: string
  frq_AttachedInfo :: string

record LocalGroup =
  gr_GroupID :: string
  gr_GroupName :: string
  gr_Notification :: string
  gr_Introduction :: string
  gr_FaceURL :: string
  gr_CreateTime :: int
  gr_Status :: int
  gr_CreatorUserID :: string
  gr_GroupType :: int
  gr_OwnerUserID :: string
  gr_MemberCount :: int
  gr_Ex :: string
  gr_AttachedInfo :: string
  gr_NeedVerification :: int
  gr_LookMemberInfo :: int
  gr_ApplyMemberFriend :: int
  gr_NotificationUpdateTime :: int
  gr_NotificationUserID :: string

record LocalGroupMember =
  gm_GroupID :: string
  gm_UserID :: string
  gm_Nickname :: string
  gm_FaceURL :: string
  gm_RoleLevel :: int
  gm_JoinTime :: int
  gm_JoinSource :: int
  gm_InviterUserID :: string
  gm_MuteEndTime :: int
  gm_OperatorUserID :: string
  gm_Ex :: string
  gm_AttachedInfo :: string

record LocalGroupRequest =
  grq_GroupID :: string
  grq_GroupName :: string
  grq_Notification :: string
  grq_Introduction :: string
  grq_GroupFaceURL :: string
  grq_CreateTime :: int
  grq_Status :: int
  grq_CreatorUserID :: string
  grq_GroupType :: int
  grq_OwnerUserID :: string
  grq_MemberCount :: int
  grq_UserID :: string
  grq_Nickname :: string
  grq_UserFaceURL :: string
  grq_HandleResult :: int
  grq_ReqMsg :: string
  grq_HandledMsg :: string
  grq_ReqTime :: int
  grq_HandleUserID :: string
  grq_HandledTime :: int
  grq_Ex :: string
  grq_AttachedInfo :: string
  grq_JoinSource :: int
  grq_InviterUserID :: string

record LocalUser =
  us_UserID :: string
  us_Nickname :: string
  us_FaceURL :: string
  us_CreateTime :: int
  us_AppMangerLevel :: int
  us_Ex :: string
  us_AttachedInfo :: string
  us_GlobalRecvMsgOpt :: int

record LocalBlack =
  bl_OwnerUserID :: string
  bl_BlockUserID :: string
  bl_Nickname :: string
  bl_FaceURL :: string
  bl_CreateTime :: int
  bl_AddSource :: int
  bl_OperatorUserID :: string
  bl_Ex :: string
  bl_AttachedInfo :: string

record LocalChatLog =
  cl_ClientMsgID :: string
  cl_ServerMsgID :: string
  cl_SendID :: string
  cl_RecvID :: string
  cl_SenderPlatformID :: int
  cl_SenderNickname :: string
  cl_SenderFaceURL :: string
  cl_SessionType :: int
  cl_MsgFrom :: int
  cl_ContentType :: int
  cl_Content :: string
  cl_IsRead :: bool
  cl_Status :: int
  cl_Seq :: int
  cl_SendTime :: int
  cl_CreateTime :: int
  cl_AttachedInfo :: string
  cl_Ex :: string
  cl_LocalEx :: string
  cl_IsReact :: bool
  cl_IsExternalExtensions :: bool
  cl_MsgFirstModifyTime :: int

record LocalErrChatLog =
  ecl_Seq :: int
  ecl_ClientMsgID :: string
  ecl_ServerMsgID :: string
  ecl_SendID :: string
  ecl_RecvID :: string
  ecl_SenderPlatformID :: int
  ecl_SenderNickname :: string
  ecl_SenderFaceURL :: string
  ecl_SessionType :: int
  ecl_MsgFrom :: int
  ecl_ContentType :: int
  ecl_Content :: string
  ecl_IsRead :: bool
  ecl_Status :: int
  ecl_SendTime :: int
  ecl_CreateTime :: int
  ecl_AttachedInfo :: string
  ecl_Ex :: string

record LocalConversation =
  cv_ConversationID :: string
  cv_ConversationType :: int
  cv_UserID :: string
  cv_GroupID :: string
  cv_ShowName :: string
  cv_FaceURL :: string
  cv_RecvMsgOpt :: int
  cv_UnreadCount :: int
  cv_GroupAtType :: int
  cv_LatestMsg :: string
  cv_LatestMsgSendTime :: int
  cv_DraftText :: string
  cv_DraftTextTime :: int
  cv_IsPinned :: bool
  cv_IsPrivateChat :: bool
  cv_BurnDuration :: int
  cv_IsNotInGroup :: bool
  cv_UpdateUnreadCountTime :: int
  cv_AttachedInfo :: string
  cv_Ex :: string
  cv_MaxSeq :: int
  cv_MinSeq :: int
  cv_HasReadSeq :: int
  cv_MsgDestructTime :: int
  cv_IsMsgDestruct :: bool

record LocalConversationUnreadMessage =
  um_ConversationID :: string
  um_ClientMsgID :: string
  um_SendTime :: int
  um_Ex :: string

record NotificationSeqs =
  ns_ConversationID :: string
  ns_Seq :: int

record LocalUpload =
  up_PartHash :: string
  up_UploadID :: string
  up_UploadInfo :: string
  up_ExpireTime :: int
  up_CreateTime :: int

record LocalStranger =
  st_UserID :: string
  st_Nickname :: string
  st_FaceURL :: string
  st_CreateTime :: int
  st_AppMangerLevel :: int
  st_Ex :: string
  st_AttachedInfo :: string
  st_GlobalRecvMsgOpt :: int

record LocalSendingMessages =
  sm_ConversationID :: string
  sm_ClientMsgID :: string
  sm_Ex :: string

end
