(* ===== verification/Gorm.thy ===== *)
theory Gorm
  imports Prelude
begin

text \<open>
  The relational engine under \<^verbatim>\<open>pkg/db\<close> is gorm over SQLite, a third-party library. The model
  takes it as a parameter: a record of the calls the SDK makes on one table, with the table's
  state as a type variable. The locale \<open>gorm_table\<close> states what the calls' documentation
  promises of the rows, for calls that succeed and for calls that fail. The instance
  \<open>list_gorm\<close> is a list of rows together with a schedule of injected faults, so every
  pattern of failing calls is one of its states.
\<close>

record ('r, 't) gorm =
  gorm_find :: "('r \<Rightarrow> bool) \<Rightarrow> 't \<Rightarrow> (go_error + 'r list) \<times> 't"
  gorm_take :: "('r \<Rightarrow> bool) \<Rightarrow> 't \<Rightarrow> (go_error + 'r) \<times> 't"
  gorm_create :: "'r list \<Rightarrow> 't \<Rightarrow> go_error option \<times> 't"
  gorm_updates :: "('r \<Rightarrow> bool) \<Rightarrow> ('r \<Rightarrow> 'r) \<Rightarrow> 't \<Rightarrow> (go_error option \<times> nat) \<times> 't"
  gorm_delete :: "('r \<Rightarrow> bool) \<Rightarrow> 't \<Rightarrow> go_error option \<times> 't"

text \<open>
  \<^verbatim>\<open>Updates\<close> of a struct with a two-column primary key restricts the statement by the key
  columns that are not empty and refuses to run with none. The columns set are those the
  update function changes: all of them after \<^verbatim>\<open>Select("*")\<close>, otherwise the non-zero ones
  (\<open>nz_str\<close>, \<open>nz_int\<close>, \<open>nz_bool\<close>).
\<close>

definition missing_where :: go_error where
  "missing_where = GoError ''WHERE conditions required''"

definition gorm_updates_pk2 ::
  "('r, 't) gorm \<Rightarrow> ('r \<Rightarrow> string) \<Rightarrow> string \<Rightarrow> ('r \<Rightarrow> string) \<Rightarrow> string \<Rightarrow> ('r \<Rightarrow> 'r) \<Rightarrow>
   't \<Rightarrow> (go_error option \<times> nat) \<times> 't" where
  "gorm_updates_pk2 G col1 v1 col2 v2 f t =
     (if v1 = [] \<and> v2 = [] then ((Some missing_where, 0), t)
      else gorm_updates G (\<lambda>r. (v1 = [] \<or> col1 r = v1) \<and> (v2 = [] \<or> col2 r = v2)) f t)"

definition gorm_updates_pk ::
  "('r, 't) gorm \<Rightarrow> ('r \<Rightarrow> string) \<Rightarrow> string \<Rightarrow> ('r \<Rightarrow> 'r) \<Rightarrow>
   't \<Rightarrow> (go_error option \<times> nat) \<times> 't" where
  "gorm_updates_pk G col v f t =
     (if v = [] then ((Some missing_where, 0), t) else gorm_updates G (\<lambda>r. col r = v) f t)"

definition nz_str :: "string \<Rightarrow> string \<Rightarrow> string" where
  "nz_str new old = (if new = [] then old else new)"

definition nz_int :: "int \<Rightarrow> int \<Rightarrow> int" where
  "nz_int new old = (if new = 0 then old else new)"

definition nz_bool :: "bool \<Rightarrow> bool \<Rightarrow> bool" where
  "nz_bool new old = (new \<or> old)"

text \<open>
  The tail shared by the update functions of \<^verbatim>\<open>pkg/db\<close>: no row affected is an error of its own,
  checked before the statement's error.
\<close>

definition update_result :: "string \<Rightarrow> (go_error option \<times> nat) \<times> 't \<Rightarrow> go_error option \<times> 't" where
  "update_result msg res =
     (case res of ((err, n), t') \<Rightarrow>
        (if n = 0 then wrap_err (Some (GoError ''RowsAffected == 0'')) ''no update''
         else wrap_err err msg, t'))"

text \<open>
  \<^verbatim>\<open>Find\<close> returns the matching rows in some order, \<^verbatim>\<open>Take\<close> one of them (an error when there is
  none), \<^verbatim>\<open>Create\<close> fails on a duplicate primary key, \<^verbatim>\<open>Updates\<close> reports the number of rows
  affected, and a call that returns an error leaves the table as it was.
\<close>

locale gorm_table =
  fixes G :: "('r, 't) gorm"
    and rows :: "'t \<Rightarrow> 'r list"
    and pk :: "'r \<Rightarrow> 'k"
  assumes find_rows: "gorm_find G p t = (r, t') \<Longrightarrow> rows t' = rows t"
    and find_mset: "gorm_find G p t = (Inr rs, t') \<Longrightarrow> mset rs = mset (filter p (rows t))"
    and take_rows: "gorm_take G p t = (tr, t') \<Longrightarrow> rows t' = rows t"
    and take_in: "gorm_take G p t = (Inr x, t') \<Longrightarrow> x \<in> set (rows t) \<and> p x"
    and create_ok: "gorm_create G xs t = (None, t') \<Longrightarrow>
          rows t' = rows t @ xs \<and> (distinct (map pk (rows t)) \<longrightarrow> distinct (map pk (rows t')))"
    and create_err: "gorm_create G xs t = (Some e, t') \<Longrightarrow> rows t' = rows t"
    and updates_ok: "gorm_updates G p f t = ((None, n), t') \<Longrightarrow>
          rows t' = map (\<lambda>r. if p r then f r else r) (rows t) \<and> n = length (filter p (rows t))"
    and updates_err: "gorm_updates G p f t = ((Some e, n), t') \<Longrightarrow> rows t' = rows t \<and> n = 0"
    and delete_ok: "gorm_delete G p t = (None, t') \<Longrightarrow> rows t' = filter (\<lambda>r. \<not> p r) (rows t)"
    and delete_err: "gorm_delete G p t = (Some e, t') \<Longrightarrow> rows t' = rows t"
begin

lemma find_set: "gorm_find G p t = (Inr rs, t') \<Longrightarrow> set rs = {r \<in> set (rows t). p r}"
  by (metis find_mset set_filter set_mset_mset)

lemma find_distinct:
  "gorm_find G p t = (Inr rs, t') \<Longrightarrow> distinct (map pk (rows t)) \<Longrightarrow> distinct (map pk rs)"
proof -
  assume f: "gorm_find G p t = (Inr rs, t')" and d: "distinct (map pk (rows t))"
  have "mset (map pk rs) = mset (map pk (filter p (rows t)))"
    using find_mset [OF f] by (metis mset_map)
  moreover have "distinct (map pk (filter p (rows t)))"
    using d by (rule distinct_map_filter)
  ultimately show "distinct (map pk rs)"
    by (metis mset_eq_imp_distinct_iff)
qed

end

section \<open>The reference engine with injected faults\<close>

record 'r ftable =
  ft_rows :: "'r list"
  ft_faults :: "bool list"

definition db_fault :: go_error where
  "db_fault = GoError ''database error''"

definition record_not_found :: go_error where
  "record_not_found = GoError ''record not found''"

definition next_fault :: "'r ftable \<Rightarrow> bool \<times> 'r ftable" where
  "next_fault t = (case ft_faults t of [] \<Rightarrow> (False, t) | b # bs \<Rightarrow> (b, t\<lparr>ft_faults := bs\<rparr>))"

definition list_gorm :: "('r \<Rightarrow> 'k) \<Rightarrow> ('r, 'r ftable) gorm" where
  "list_gorm key = \<lparr>
     gorm_find = (\<lambda>p t. case next_fault t of (b, t') \<Rightarrow>
       if b then (Inl db_fault, t') else (Inr (filter p (ft_rows t')), t')),
     gorm_take = (\<lambda>p t. case next_fault t of (b, t') \<Rightarrow>
       if b then (Inl db_fault, t')
       else (case find p (ft_rows t') of None \<Rightarrow> Inl record_not_found | Some r \<Rightarrow> Inr r, t')),
     gorm_create = (\<lambda>xs t. case next_fault t of (b, t') \<Rightarrow>
       if b \<or> \<not> distinct (map key (ft_rows t' @ xs)) then (Some db_fault, t')
       else (None, t'\<lparr>ft_rows := ft_rows t' @ xs\<rparr>)),
     gorm_updates = (\<lambda>p f t. case next_fault t of (b, t') \<Rightarrow>
       if b then ((Some db_fault, 0), t')
       else ((None, length (filter p (ft_rows t'))),
             t'\<lparr>ft_rows := map (\<lambda>r. if p r then f r else r) (ft_rows t')\<rparr>)),
     gorm_delete = (\<lambda>p t. case next_fault t of (b, t') \<Rightarrow>
       if b then (Some db_fault, t')
       else (None, t'\<lparr>ft_rows := filter (\<lambda>r. \<not> p r) (ft_rows t')\<rparr>))\<rparr>"

lemma next_fault_rows: "next_fault t = (b, t') \<Longrightarrow> ft_rows t' = ft_rows t"
  by (auto simp: next_fault_def split: list.splits)

interpretation lg: gorm_table "list_gorm key" ft_rows key
  by unfold_locales
    (auto simp: list_gorm_def dest!: find_SomeD next_fault_rows
      split: prod.splits if_splits option.splits)

end
