(* ===== verification/Syncer.thy ===== *)
theory Syncer
  imports Prelude
begin

text \<open>
  \<^verbatim>\<open>pkg/syncer\<close>: the generic reconciliation of local rows with the server's rows. The callbacks
  of a \<^verbatim>\<open>Syncer\<close> act on a state \<open>'s\<close> (the database and the listeners) and may fail;
  \<^verbatim>\<open>go-cmp\<close>'s default equality and Go's zero value of the row type are parameters. The locale
  \<open>sync_store\<close> is the contract between \<^verbatim>\<open>Sync\<close> and the storage behind its callbacks, and
  holds what \<^verbatim>\<open>Sync\<close> achieves for any such storage.
\<close>

section \<open>The syncer and its operations\<close>

datatype sync_state = Unchanged | Insert | Update | Delete

fun sync_state_code :: "sync_state \<Rightarrow> int" where
  "sync_state_code Unchanged = 0"
| "sync_state_code Insert = 1"
| "sync_state_code Update = 2"
| "sync_state_code Delete = 3"

type_synonym ('s, 'a) notice = "sync_state \<Rightarrow> 'a \<Rightarrow> 'a \<Rightarrow> 's action"

record ('s, 'a, 'k) syncer =
  sy_insert :: "'a \<Rightarrow> 's action"
  sy_update :: "'a \<Rightarrow> 'a \<Rightarrow> 's action"
  sy_delete :: "'a \<Rightarrow> 's action"
  sy_notice :: "('s, 'a) notice option"
  sy_equal :: "('a \<Rightarrow> 'a \<Rightarrow> bool) option"
  sy_uuid :: "'a \<Rightarrow> 'k"

text \<open>\<^verbatim>\<open>New\<close> panics (\<open>None\<close>) unless the four mandatory callbacks are given.\<close>

definition new_syncer ::
  "('a \<Rightarrow> 's action) option \<Rightarrow> ('a \<Rightarrow> 's action) option \<Rightarrow> ('a \<Rightarrow> 'a \<Rightarrow> 's action) option \<Rightarrow>
   ('a \<Rightarrow> 'k) option \<Rightarrow> ('a \<Rightarrow> 'a \<Rightarrow> bool) option \<Rightarrow> ('s, 'a) notice option \<Rightarrow>
   ('s, 'a, 'k) syncer option" where
  "new_syncer ins del up uuid equal notice =
     (case (ins, up, del, uuid) of
        (Some i, Some u, Some d, Some k) \<Rightarrow>
          Some \<lparr>sy_insert = i, sy_update = u, sy_delete = d, sy_notice = notice,
                sy_equal = equal, sy_uuid = k\<rparr>
      | _ \<Rightarrow> None)"

definition sy_eq :: "('a \<Rightarrow> 'a \<Rightarrow> bool) \<Rightarrow> ('s, 'a, 'k) syncer \<Rightarrow> 'a \<Rightarrow> 'a \<Rightarrow> bool" where
  "sy_eq cmp_Equal S server loc =
     (case sy_equal S of Some equal \<Rightarrow> equal server loc | None \<Rightarrow> cmp_Equal server loc)"

definition onNotice ::
  "('s, 'a, 'k) syncer \<Rightarrow> sync_state \<Rightarrow> 'a \<Rightarrow> 'a \<Rightarrow> ('s, 'a) notice option \<Rightarrow> 's action" where
  "onNotice S state server loc fn =
     and_then (case sy_notice S of None \<Rightarrow> skip_act | Some notice \<Rightarrow> notice state server loc)
              (case fn of None \<Rightarrow> skip_act | Some f \<Rightarrow> f state server loc)"

text \<open>
  The first loop of \<^verbatim>\<open>Sync\<close>, over the server's rows; the local map shrinks as rows are found.
  In the \<open>Unchanged\<close> case the code passes \<^verbatim>\<open>local, server\<close> where the callback's parameters
  are \<^verbatim>\<open>server, local\<close>; in the \<open>Insert\<close> case the local row is the zero value the map lookup
  returned.
\<close>

fun sync_server ::
  "('a \<Rightarrow> 'a \<Rightarrow> bool) \<Rightarrow> 'a \<Rightarrow> ('s, 'a, 'k) syncer \<Rightarrow> ('s, 'a) notice option \<Rightarrow>
   'a list \<Rightarrow> ('k, 'a) gomap \<Rightarrow> 's \<Rightarrow> go_error option \<times> ('k, 'a) gomap \<times> 's" where
  "sync_server cmp_Equal zero S fn [] localMap s = (None, localMap, s)"
| "sync_server cmp_Equal zero S fn (server # rest) localMap s =
     (let key = sy_uuid S server in
      case gget localMap key of
        None \<Rightarrow>
          (case and_then (sy_insert S server) (onNotice S Insert server zero fn) s of
             (Some e, s') \<Rightarrow> (Some e, localMap, s')
           | (None, s') \<Rightarrow> sync_server cmp_Equal zero S fn rest localMap s')
      | Some loc \<Rightarrow>
          (let localMap' = gdel key localMap in
           case (if sy_eq cmp_Equal S server loc then onNotice S Unchanged loc server fn s
                 else and_then (sy_update S server loc) (onNotice S Update server loc fn) s) of
             (Some e, s') \<Rightarrow> (Some e, localMap', s')
           | (None, s') \<Rightarrow> sync_server cmp_Equal zero S fn rest localMap' s'))"

text \<open>The second loop, over the entries left in the local map.\<close>

fun sync_delete ::
  "'a \<Rightarrow> ('s, 'a, 'k) syncer \<Rightarrow> ('s, 'a) notice option \<Rightarrow> ('k \<times> 'a) list \<Rightarrow> 's action" where
  "sync_delete zero S fn [] s = (None, s)"
| "sync_delete zero S fn ((key, loc) # rest) s =
     and_then (and_then (sy_delete S loc) (onNotice S Delete zero loc fn))
              (sync_delete zero S fn rest) s"

definition Sync ::
  "('a \<Rightarrow> 'a \<Rightarrow> bool) \<Rightarrow> 'a \<Rightarrow> (('k, 'a) gomap \<Rightarrow> ('k, 'a) gomap) \<Rightarrow> ('s, 'a, 'k) syncer \<Rightarrow>
   'a list \<Rightarrow> 'a list \<Rightarrow> ('s, 'a) notice option \<Rightarrow> bool list \<Rightarrow> 's action" where
  "Sync cmp_Equal zero iter S serverData localData fn noDel s =
     (if serverData = [] \<and> localData = [] then (None, s)
      else case sync_server cmp_Equal zero S fn serverData (slice_to_map (sy_uuid S) localData) s of
             (Some e, _, s') \<Rightarrow> (Some e, s')
           | (None, localMap, s') \<Rightarrow>
               if noDel \<noteq> [] \<and> hd noDel then (None, s')
               else sync_delete zero S fn (iter localMap) s')"

lemma sync_server_ok:
  "sync_server cmp_Equal zero S fn xs m s = (r, m', s') \<Longrightarrow> gomap_ok m \<Longrightarrow> gomap_ok m'"
  by (induction cmp_Equal zero S fn xs m s rule: sync_server.induct)
    (auto simp: Let_def split: option.splits prod.splits if_splits)

section \<open>The contract of the storage, and what Sync achieves\<close>

text \<open>
  What \<^verbatim>\<open>Sync\<close> is to make of the row with key \<open>k\<close>, given the rows \<open>t\<close> before: \<open>upd server local\<close> is
  the row an update leaves.
\<close>

definition sync_target ::
  "('a \<Rightarrow> 'a \<Rightarrow> bool) \<Rightarrow> ('s, 'a, 'k) syncer \<Rightarrow> ('a \<Rightarrow> 'a \<Rightarrow> 'a) \<Rightarrow>
   'a list \<Rightarrow> bool \<Rightarrow> ('k \<Rightarrow> 'a option) \<Rightarrow> 'k \<Rightarrow> 'a option" where
  "sync_target cmp_Equal S upd serverData keep t k =
     (case find (\<lambda>x. sy_uuid S x = k) serverData of
        Some x \<Rightarrow>
          (case t k of
             None \<Rightarrow> Some x
           | Some y \<Rightarrow> Some (if sy_eq cmp_Equal S x y then y else upd x y))
      | None \<Rightarrow> if keep then t k else None)"

definition notice_keeps :: "('s \<Rightarrow> 't) \<Rightarrow> ('s, 'a) notice option \<Rightarrow> bool" where
  "notice_keeps tab fn \<longleftrightarrow>
     (\<forall>f st x y s r s'. fn = Some f \<longrightarrow> f st x y s = (r, s') \<longrightarrow> tab s' = tab s)"

definition keys_of :: "('s, 'a, 'k) syncer \<Rightarrow> 'a list \<Rightarrow> 'k set" where
  "keys_of S xs = sy_uuid S ` set xs"

text \<open>
  \<open>tab\<close> reads the stored rows by key, \<open>upd server local\<close> is the row an update leaves, and
  \<open>good\<close> the rows the callbacks are made for. A callback that fails leaves the rows as they
  were; a notice never touches them.
\<close>

locale sync_store =
  fixes cmp_Equal :: "'a \<Rightarrow> 'a \<Rightarrow> bool"
    and S :: "('s, 'a, 'k) syncer"
    and tab :: "'s \<Rightarrow> 'k \<Rightarrow> 'a option"
    and upd :: "'a \<Rightarrow> 'a \<Rightarrow> 'a"
    and good :: "'a \<Rightarrow> bool"
  assumes insert_tab: "good x \<Longrightarrow> tab s (sy_uuid S x) = None \<Longrightarrow> sy_insert S x s = (r, s') \<Longrightarrow>
            tab s' = (if r = None then (tab s)(sy_uuid S x \<mapsto> x) else tab s)"
    and update_tab: "good x \<Longrightarrow> good y \<Longrightarrow> sy_uuid S x = sy_uuid S y \<Longrightarrow>
            tab s (sy_uuid S y) = Some y \<Longrightarrow> sy_update S x y s = (r, s') \<Longrightarrow>
            tab s' = (if r = None then (tab s)(sy_uuid S y \<mapsto> upd x y) else tab s)"
    and delete_tab: "good y \<Longrightarrow> sy_delete S y s = (r, s') \<Longrightarrow>
            tab s' = (if r = None then (tab s)(sy_uuid S y := None) else tab s)"
    and notice_tab: "sy_notice S = Some f \<Longrightarrow> f st x y s = (r, s') \<Longrightarrow> tab s' = tab s"
begin

lemma onNotice_tab:
  assumes "notice_keeps tab fn" and "onNotice S st x y fn s = (r, s')"
  shows "tab s' = tab s"
proof -
  have own: "tab s2 = tab s1"
    if "(case sy_notice S of None \<Rightarrow> skip_act | Some f \<Rightarrow> f st x y) s1 = (r1, s2)" for s1 r1 s2
    using that by (cases "sy_notice S") (auto simp: skip_act_def dest: notice_tab)
  have given: "tab s2 = tab s1"
    if "(case fn of None \<Rightarrow> skip_act | Some f \<Rightarrow> f st x y) s1 = (r1, s2)" for s1 r1 s2
    using that assms(1) by (cases fn) (auto simp: skip_act_def notice_keeps_def)
  show ?thesis
    using assms(2) by (cases r) (auto simp: onNotice_def and_then_None and_then_Some dest!: own given)
qed

lemma insert_step:
  assumes "notice_keeps tab fn" "good x" "tab s (sy_uuid S x) = None"
    and "and_then (sy_insert S x) (onNotice S Insert x zero fn) s = (r, s')"
  shows "tab s' = (tab s)(sy_uuid S x \<mapsto> x) \<or> r \<noteq> None \<and> tab s' = tab s"
  using assms insert_tab [of x s]
  by (cases r) (auto simp: and_then_None and_then_Some dest: onNotice_tab)

lemma update_step:
  assumes "notice_keeps tab fn" "good x" "good y" "sy_uuid S x = sy_uuid S y" "tab s (sy_uuid S y) = Some y"
    and "and_then (sy_update S x y) (onNotice S Update x y fn) s = (r, s')"
  shows "tab s' = (tab s)(sy_uuid S y \<mapsto> upd x y) \<or> r \<noteq> None \<and> tab s' = tab s"
  using assms update_tab [of x y s]
  by (cases r) (auto simp: and_then_None and_then_Some dest: onNotice_tab)

lemma delete_step:
  assumes "notice_keeps tab fn" "good y"
    and "and_then (sy_delete S y) (onNotice S Delete zero y fn) s = (r, s')"
  shows "tab s' = (tab s)(sy_uuid S y := None) \<or> r \<noteq> None \<and> tab s' = tab s"
  using assms delete_tab [of y s]
  by (cases r) (auto simp: and_then_None and_then_Some dest: onNotice_tab)

text \<open>
  One turn of the first loop writes at most the row of its server item, and writes the
  target there unless it fails before.
\<close>

lemma server_turn:
  assumes "notice_keeps tab fn" "good x" "\<forall>y. gget m (sy_uuid S x) = Some y \<longrightarrow> good y \<and> sy_uuid S y = sy_uuid S x"
    and "gget m (sy_uuid S x) = tab s (sy_uuid S x)"
    and "(case gget m (sy_uuid S x) of
            None \<Rightarrow> and_then (sy_insert S x) (onNotice S Insert x zero fn) s
          | Some y \<Rightarrow> (if sy_eq cmp_Equal S x y then onNotice S Unchanged y x fn s
                 else and_then (sy_update S x y) (onNotice S Update x y fn) s)) = (r, s')"
  shows "tab s' = (tab s)(sy_uuid S x := sync_target cmp_Equal S upd (x # xs) keep (tab s) (sy_uuid S x))
         \<or> r \<noteq> None \<and> tab s' = tab s"
proof (cases "gget m (sy_uuid S x)")
  case None
  then have none: "tab s (sy_uuid S x) = None" using assms(4) by simp
  have "tab s' = (tab s)(sy_uuid S x \<mapsto> x) \<or> r \<noteq> None \<and> tab s' = tab s"
    by (rule insert_step [OF assms(1,2) none]) (use assms(5) None in simp)
  moreover have "sync_target cmp_Equal S upd (x # xs) keep (tab s) (sy_uuid S x) = Some x"
    using none by (simp add: sync_target_def)
  ultimately show ?thesis by metis
next
  case (Some y)
  have y: "good y" "sy_uuid S x = sy_uuid S y" "tab s (sy_uuid S y) = Some y"
    using Some assms(3,4) by metis+
  show ?thesis
  proof (cases "sy_eq cmp_Equal S x y")
    case True
    with assms(5) Some have "onNotice S Unchanged y x fn s = (r, s')" by simp
    then have "tab s' = tab s" by (rule onNotice_tab [OF assms(1)])
    with True y show ?thesis by (simp add: sync_target_def fun_upd_idem)
  next
    case False
    have "tab s' = (tab s)(sy_uuid S y \<mapsto> upd x y) \<or> r \<noteq> None \<and> tab s' = tab s"
      by (rule update_step [OF assms(1,2) y]) (use assms(5) Some False in simp)
    moreover have "sync_target cmp_Equal S upd (x # xs) keep (tab s) (sy_uuid S x) = Some (upd x y)"
      using y False by (simp add: sync_target_def)
    ultimately show ?thesis using y(2) by metis
  qed
qed

lemma sync_server_Cons:
  "sync_server cmp_Equal zero S fn (x # xs) m s =
     (case (case gget m (sy_uuid S x) of
            None \<Rightarrow> and_then (sy_insert S x) (onNotice S Insert x zero fn) s
          | Some y \<Rightarrow> (if sy_eq cmp_Equal S x y then onNotice S Unchanged y x fn s
                 else and_then (sy_update S x y) (onNotice S Update x y fn) s)) of
        (Some e, s') \<Rightarrow> (Some e, gdel (sy_uuid S x) m, s')
      | (None, s') \<Rightarrow> sync_server cmp_Equal zero S fn xs (gdel (sy_uuid S x) m) s')"
proof (cases "gget m (sy_uuid S x)")
  case None
  then have "gdel (sy_uuid S x) m = m"
    by (simp add: delete_idem map_of_eq_None_iff)
  with None show ?thesis by (simp split: prod.split option.split)
next
  case (Some y)
  then show ?thesis by (simp add: Let_def)
qed

lemma target_tail:
  "k \<noteq> sy_uuid S x \<Longrightarrow> sync_target cmp_Equal S upd xs keep (t(sy_uuid S x := v)) k = sync_target cmp_Equal S upd (x # xs) keep t k"
  by (simp add: sync_target_def split: option.splits)

lemma sync_server_tab:
  assumes "notice_keeps tab fn" and "\<forall>x \<in> set xs. good x" and "distinct (map (sy_uuid S) xs)"
    and "\<forall>k \<in> keys_of S xs. gget m k = tab s k"
    and "\<forall>k y. gget m k = Some y \<longrightarrow> good y \<and> sy_uuid S y = k"
    and "sync_server cmp_Equal zero S fn xs m s = (r, m', s')"
  shows "(\<forall>k. tab s' k = tab s k \<or> k \<in> keys_of S xs \<and> tab s' k = sync_target cmp_Equal S upd xs keep (tab s) k) \<and>
    (r = None \<longrightarrow>
      (\<forall>k. tab s' k = (if k \<in> keys_of S xs then sync_target cmp_Equal S upd xs keep (tab s) k else tab s k)) \<and>
      (\<forall>k. gget m' k = (if k \<in> keys_of S xs then None else gget m k)))"
  using assms
proof (induction xs arbitrary: m s)
  case Nil
  then show ?case by (simp add: keys_of_def)
next
  case (Cons x xs)
  let ?k = "sy_uuid S x"
  let ?turn = "case gget m ?k of
            None \<Rightarrow> and_then (sy_insert S x) (onNotice S Insert x zero fn) s
          | Some y \<Rightarrow> (if sy_eq cmp_Equal S x y then onNotice S Unchanged y x fn s
                 else and_then (sy_update S x y) (onNotice S Update x y fn) s)"
  obtain r1 s1 where turn: "?turn = (r1, s1)" by fastforce
  have k_notin: "?k \<notin> keys_of S xs" using Cons.prems(3) by (simp add: keys_of_def)
  have keys_Cons: "keys_of S (x # xs) = insert ?k (keys_of S xs)" by (simp add: keys_of_def)
  have t1: "tab s1 = (tab s)(?k := sync_target cmp_Equal S upd (x # xs) keep (tab s) ?k) \<or> r1 \<noteq> None \<and> tab s1 = tab s"
    by (rule server_turn [OF Cons.prems(1) _ _ _ turn])
      (use Cons.prems(2,4,5) in \<open>auto simp: keys_Cons\<close>)
  show ?case
  proof (cases r1)
    case (Some e)
    with Cons.prems(6) turn have rs: "r = Some e" "s' = s1"
      by (simp_all add: sync_server_Cons del: sync_server.simps)
    have at: "tab s1 k = (if k = ?k then sync_target cmp_Equal S upd (x # xs) keep (tab s) ?k else tab s k) \<or>
        tab s1 k = tab s k" for k
      using t1 by (metis fun_upd_apply)
    have "tab s' k = tab s k \<or> k \<in> keys_of S (x # xs) \<and> tab s' k = sync_target cmp_Equal S upd (x # xs) keep (tab s) k" for k
      using at [of k] rs keys_Cons by (auto split: if_splits)
    with rs show ?thesis by simp
  next
    case None
    with t1 have t1': "tab s1 = (tab s)(?k := sync_target cmp_Equal S upd (x # xs) keep (tab s) ?k)" by simp
    have rec: "sync_server cmp_Equal zero S fn xs (gdel ?k m) s1 = (r, m', s')"
      using Cons.prems(6) turn None by (simp add: sync_server_Cons del: sync_server.simps)
    have agree: "\<forall>k \<in> keys_of S xs. gget (gdel ?k m) k = tab s1 k"
      using Cons.prems(4) k_notin by (auto simp: gomap_simps t1' keys_Cons)
    have vals: "\<forall>k y. gget (gdel ?k m) k = Some y \<longrightarrow> good y \<and> sy_uuid S y = k"
      using Cons.prems(5) by (auto simp: gomap_simps)
    have tl: "sync_target cmp_Equal S upd xs keep (tab s1) k = sync_target cmp_Equal S upd (x # xs) keep (tab s) k" if "k \<in> keys_of S xs" for k
      using that k_notin by (subst t1') (rule target_tail, auto)
    have IH: "(\<forall>k. tab s' k = tab s1 k \<or> k \<in> keys_of S xs \<and> tab s' k = sync_target cmp_Equal S upd xs keep (tab s1) k) \<and>
      (r = None \<longrightarrow>
        (\<forall>k. tab s' k = (if k \<in> keys_of S xs then sync_target cmp_Equal S upd xs keep (tab s1) k else tab s1 k)) \<and>
        (\<forall>k. gget m' k = (if k \<in> keys_of S xs then None else gget (gdel ?k m) k)))"
      by (rule Cons.IH [OF Cons.prems(1) _ _ agree vals rec]) (use Cons.prems(2,3) in simp_all)
    have at: "tab s1 k = (if k = ?k then sync_target cmp_Equal S upd (x # xs) keep (tab s) ?k else tab s k)" for k
      using t1' by simp
    have m1: "gget (gdel ?k m) k = (if k = ?k then None else gget m k)" for k
      by (simp add: gomap_simps)
    have "tab s' k = tab s k \<or> k \<in> keys_of S (x # xs) \<and> tab s' k = sync_target cmp_Equal S upd (x # xs) keep (tab s) k" for k
      using spec [OF conjunct1 [OF IH], of k] at [of k] tl [of k] keys_Cons
      by (auto split: if_splits)
    moreover have "tab s' k = (if k \<in> keys_of S (x # xs) then sync_target cmp_Equal S upd (x # xs) keep (tab s) k else tab s k)"
      if "r = None" for k
      using spec [OF conjunct1 [OF mp [OF conjunct2 [OF IH] that]], of k] at [of k] tl [of k] keys_Cons k_notin
      by auto
    moreover have "gget m' k = (if k \<in> keys_of S (x # xs) then None else gget m k)" if "r = None" for k
      using spec [OF conjunct2 [OF mp [OF conjunct2 [OF IH] that]], of k] m1 [of k] keys_Cons by auto
    ultimately show ?thesis by blast
  qed
qed

lemma sync_delete_tab:
  assumes "notice_keeps tab fn" and "\<forall>(k, y) \<in> set L. good y \<and> sy_uuid S y = k"
    and "sync_delete zero S fn L s = (r, s')"
  shows "(\<forall>k. tab s' k = tab s k \<or> k \<in> fst ` set L \<and> tab s' k = None) \<and>
    (r = None \<longrightarrow> (\<forall>k. tab s' k = (if k \<in> fst ` set L then None else tab s k)))"
  using assms
proof (induction L arbitrary: s)
  case Nil
  then show ?case by simp
next
  case (Cons p L)
  obtain k0 y where p: "p = (k0, y)" by fastforce
  obtain r1 s1 where turn: "and_then (sy_delete S y) (onNotice S Delete zero y fn) s = (r1, s1)"
    by fastforce
  have t1: "tab s1 = (tab s)(k0 := None) \<or> r1 \<noteq> None \<and> tab s1 = tab s"
    using delete_step [OF Cons.prems(1) _ turn] Cons.prems(2) p by auto
  show ?case
  proof (cases r1)
    case (Some e)
    with Cons.prems(3) p turn have "r = Some e" "s' = s1" by (simp_all add: and_then_def [of "and_then _ _"])
    with t1 p show ?thesis by auto
  next
    case None
    with Cons.prems(3) p turn have rec: "sync_delete zero S fn L s1 = (r, s')"
      by (simp add: and_then_def [of "and_then _ _"])
    have IH: "(\<forall>k. tab s' k = tab s1 k \<or> k \<in> fst ` set L \<and> tab s' k = None) \<and>
      (r = None \<longrightarrow> (\<forall>k. tab s' k = (if k \<in> fst ` set L then None else tab s1 k)))"
        by (rule Cons.IH [OF Cons.prems(1) _ rec]) (use Cons.prems(2) in auto)
    have at: "tab s1 k = (if k = k0 then None else tab s k)" for k using t1 None by simp
    have "tab s' k = tab s k \<or> k \<in> fst ` set (p # L) \<and> tab s' k = None" for k
      using spec [OF conjunct1 [OF IH], of k] at [of k] p by (auto split: if_splits)
    moreover have "tab s' k = (if k \<in> fst ` set (p # L) then None else tab s k)" if "r = None" for k
      using spec [OF mp [OF conjunct2 [OF IH] that], of k] at [of k] p by auto
    ultimately show ?thesis by blast
  qed
qed

text \<open>
  The two lemmas meet in \<^verbatim>\<open>Sync\<close>: whatever happens, a row is either what it was or what it is
  to become; and when \<^verbatim>\<open>Sync\<close> reports success, every row is what it is to become.
\<close>

lemma Sync_tab:
  assumes fn: "notice_keeps tab fn" and server: "\<forall>x \<in> set serverData. good x" "distinct (map (sy_uuid S) serverData)"
    and loc: "\<forall>y \<in> set localData. good y"
    and read: "\<forall>k. tab s k = find (\<lambda>y. sy_uuid S y = k) (rev localData)"
    and iter: "any_order iter"
    and run: "Sync cmp_Equal zero iter S serverData localData fn noDel s = (r, s')"
    and keep_def: "keep \<longleftrightarrow> noDel \<noteq> [] \<and> hd noDel"
  shows "(\<forall>k. tab s' k = tab s k \<or> tab s' k = sync_target cmp_Equal S upd serverData keep (tab s) k) \<and>
         (r = None \<longrightarrow> (\<forall>k. tab s' k = sync_target cmp_Equal S upd serverData keep (tab s) k))"
proof (cases "serverData = [] \<and> localData = []")
  case True
  with run read show ?thesis by (simp add: Sync_def sync_target_def)
next
  case False
  let ?m = "slice_to_map (sy_uuid S) localData"
  obtain r1 m1 s1 where first: "sync_server cmp_Equal zero S fn serverData ?m s = (r1, m1, s1)"
    by (metis prod_cases3)
  have m_tab: "gget ?m k = tab s k" for k
    using read by (simp add: gget_slice_to_map)
  have vals: "\<forall>k y. gget ?m k = Some y \<longrightarrow> good y \<and> sy_uuid S y = k"
    using loc by (auto simp: gget_slice_to_map dest: find_SomeD)
  have T: "(\<forall>k. tab s1 k = tab s k \<or> k \<in> keys_of S serverData \<and> tab s1 k = sync_target cmp_Equal S upd serverData keep (tab s) k) \<and>
    (r1 = None \<longrightarrow>
      (\<forall>k. tab s1 k = (if k \<in> keys_of S serverData then sync_target cmp_Equal S upd serverData keep (tab s) k else tab s k)) \<and>
      (\<forall>k. gget m1 k = (if k \<in> keys_of S serverData then None else gget ?m k)))"
    by (rule sync_server_tab [OF fn server _ vals first]) (simp add: m_tab)
  have gone: "sync_target cmp_Equal S upd serverData keep (tab s) k = (if keep then tab s k else None)"
    if "k \<notin> keys_of S serverData" for k
    using that by (auto simp: sync_target_def keys_of_def find_None_iff split: option.splits dest: find_SomeD)
  show ?thesis
  proof (cases r1)
    case (Some e)
    with run False first have "r = Some e" "s' = s1" by (simp_all add: Sync_def)
    with T show ?thesis by auto
  next
    case None
    show ?thesis
    proof (cases keep)
      case True
      with run False first None have "r = None" "s' = s1" by (simp_all add: Sync_def keep_def)
      with T None True gone show ?thesis by auto
    next
      case nokeep: False
      with run False first None have del: "sync_delete zero S fn (iter m1) s1 = (r, s')"
        by (auto simp: Sync_def keep_def split: if_splits)
      have m1_ok: "gomap_ok m1"
        using sync_server_ok [OF first] by simp
      have m1_keys: "k \<in> fst ` set (iter m1) \<longleftrightarrow> k \<notin> keys_of S serverData \<and> tab s k \<noteq> None" for k
        using T None m_tab by (auto simp: iter_set [OF iter] in_keys_gget split: if_splits)
      have D: "(\<forall>k. tab s' k = tab s1 k \<or> k \<in> fst ` set (iter m1) \<and> tab s' k = None) \<and>
        (r = None \<longrightarrow> (\<forall>k. tab s' k = (if k \<in> fst ` set (iter m1) then None else tab s1 k)))"
      proof (rule sync_delete_tab [OF fn _ del], clarify)
        fix k y
        assume "(k, y) \<in> set (iter m1)"
        then have "gget m1 k = Some y"
          by (simp add: iter_set [OF iter] in_gget [OF m1_ok])
        with T None have "gget ?m k = Some y"
          by (metis option.distinct(1))
        with vals show "good y \<and> sy_uuid S y = k" by blast
      qed
      have first: "tab s1 k = (if k \<in> keys_of S serverData then sync_target cmp_Equal S upd serverData keep (tab s) k else tab s k)" for k
        using T None by blast
      have "tab s' k = tab s k \<or> tab s' k = sync_target cmp_Equal S upd serverData keep (tab s) k" for k
        using spec [OF conjunct1 [OF D], of k] first [of k] gone [of k] nokeep m1_keys [of k]
        by (auto split: if_splits)
      moreover have "tab s' k = sync_target cmp_Equal S upd serverData keep (tab s) k" if "r = None" for k
        using spec [OF mp [OF conjunct2 [OF D] that], of k] first [of k] gone [of k] nokeep m1_keys [of k]
        by (auto split: if_splits)
      ultimately show ?thesis by blast
    qed
  qed
qed

end

section \<open>A run of the syncer, one step after another\<close>

definition steps :: "('s \<Rightarrow> 's \<Rightarrow> bool) \<Rightarrow> 's action \<Rightarrow> bool" where
  "steps R a \<longleftrightarrow> (\<forall>s r s'. a s = (r, s') \<longrightarrow> R s s')"

text \<open>What every callback does to the state, a whole run does; \<open>okx\<close> holds of the rows of the server.\<close>

locale stepwise =
  fixes S :: "('s, 'a, 'k) syncer" and R :: "'s \<Rightarrow> 's \<Rightarrow> bool" and okx :: "'a \<Rightarrow> bool"
  assumes R_refl: "R s s" and R_trans: "R s s' \<Longrightarrow> R s' s'' \<Longrightarrow> R s s''"
    and R_insert: "okx x \<Longrightarrow> steps R (sy_insert S x)"
    and R_update: "okx x \<Longrightarrow> steps R (sy_update S x y)"
    and R_delete: "steps R (sy_delete S y)"
    and R_notice: "sy_notice S = Some f \<Longrightarrow> steps R (f st x y)"
begin

lemma steps_and_then: "steps R a \<Longrightarrow> steps R b \<Longrightarrow> steps R (and_then a b)"
  unfolding steps_def and_then_def by (fastforce split: prod.splits option.splits dest: R_trans)

lemma onNotice_step: "steps R (onNotice S st x y None)"
  unfolding onNotice_def
  by (rule steps_and_then) (auto simp: steps_def skip_act_def R_refl split: option.split dest: R_notice [unfolded steps_def, rule_format])

lemmas turn_steps = R_refl onNotice_step steps_and_then [OF R_insert onNotice_step] steps_and_then [OF R_update onNotice_step]
  steps_and_then [OF R_delete onNotice_step]

lemma sync_server_step:
  "sync_server cmp_Equal zero S None xs m s = (r, m', s') \<Longrightarrow> \<forall>x \<in> set xs. okx x \<Longrightarrow> R s s'"
proof (induction xs arbitrary: m s r m' s')
  case Nil
  then show ?case by (simp add: R_refl)
next
  case (Cons x xs)
  have go_on: "R s s'" if "steps R a" "a s = (r1, s1)"
      "s' = s1 \<or> (\<exists>r' m1 m2. sync_server cmp_Equal zero S None xs m1 s1 = (r', m2, s'))" for a r1 s1
    using that Cons.IH Cons.prems(2) R_trans unfolding steps_def by fastforce
  show ?case
  proof (cases "gget m (sy_uuid S x)")
    case None
    obtain r1 s1 where one: "and_then (sy_insert S x) (onNotice S Insert x zero None) s = (r1, s1)" by fastforce
    show ?thesis
      by (rule go_on [where a = "and_then (sy_insert S x) (onNotice S Insert x zero None)", OF _ one])
        (use turn_steps Cons.prems None one in \<open>auto split: option.splits\<close>)
  next
    case (Some y)
    let ?turn = "if sy_eq cmp_Equal S x y then onNotice S Unchanged y x None
        else and_then (sy_update S x y) (onNotice S Update x y None)"
    obtain r1 s1 where one: "?turn s = (r1, s1)" by fastforce
    show ?thesis
      by (rule go_on [where a = ?turn, OF _ one]) (use turn_steps Cons.prems Some one in \<open>auto simp: Let_def split: option.splits if_splits\<close>)
  qed
qed

lemma sync_delete_step: "steps R (sync_delete zero S None kvs)"
proof (induction kvs)
  case Nil
  show ?case by (simp add: steps_def R_refl)
next
  case (Cons kv kvs)
  have "sync_delete zero S None (kv # kvs) =
      and_then (and_then (sy_delete S (snd kv)) (onNotice S Delete zero (snd kv) None)) (sync_delete zero S None kvs)"
    by (cases kv) (simp add: fun_eq_iff)
  then show ?case by (simp only: steps_and_then [OF turn_steps(5) Cons.IH])
qed

lemma Sync_step: "\<forall>x \<in> set serverData. okx x \<Longrightarrow> steps R (Sync cmp_Equal zero iter S serverData localData None noDel)"
  unfolding steps_def
proof (intro allI impI)
  fix s r s'
  assume good: "\<forall>x \<in> set serverData. okx x"
    and run: "Sync cmp_Equal zero iter S serverData localData None noDel s = (r, s')"
  obtain r1 m1 s1 where first: "sync_server cmp_Equal zero S None serverData (slice_to_map (sy_uuid S) localData) s = (r1, m1, s1)"
    by (metis prod_cases3)
  have "R s s1" by (rule sync_server_step [OF first good])
  moreover from run first have "s' = s \<or> s' = s1 \<or> (\<exists>kvs r'. sync_delete zero S None kvs s1 = (r', s'))"
    by (auto simp: Sync_def split: if_splits option.splits)
  ultimately show "R s s'" using R_refl R_trans sync_delete_step unfolding steps_def by blast
qed

end

end
