(* ===== verification/TableSync.thy ===== *)
theory TableSync
  imports Gorm Syncer
begin

text \<open>
  Where the syncer meets the database: a table of a gorm engine read by primary key, what the
  keyed statements of \<^verbatim>\<open>pkg/db\<close> do to it, and the contract \<open>sync_store\<close> for every syncer whose
  callbacks are such statements.
\<close>

section \<open>Rows by key\<close>

definition rows_by_key :: "('r \<Rightarrow> 'k) \<Rightarrow> 'r list \<Rightarrow> 'k \<Rightarrow> 'r option" where
  "rows_by_key key rs k = find (\<lambda>r. key r = k) rs"

lemma rows_by_key_append:
  "rows_by_key key (rs @ [x]) k =
     (case rows_by_key key rs k of Some r \<Rightarrow> Some r | None \<Rightarrow> if key x = k then Some x else None)"
  by (simp add: rows_by_key_def find_append_case split: option.splits)

lemma rows_by_key_filter:
  "rows_by_key key (filter (\<lambda>r. key r \<noteq> k0) rs) = (rows_by_key key rs)(k0 := None)"
proof
  fix k
  show "rows_by_key key (filter (\<lambda>r. key r \<noteq> k0) rs) k = ((rows_by_key key rs)(k0 := None)) k"
    by (induction rs) (auto simp: rows_by_key_def)
qed

lemma rows_by_key_map:
  "(\<And>r. key r = k0 \<Longrightarrow> key (f r) = k0) \<Longrightarrow>
   rows_by_key key (map (\<lambda>r. if key r = k0 then f r else r) rs) k =
     (if k = k0 then map_option f (rows_by_key key rs k) else rows_by_key key rs k)"
  by (induction rs) (auto simp: rows_by_key_def)

definition view :: "('k \<Rightarrow> bool) \<Rightarrow> ('k \<Rightarrow> 'v option) \<Rightarrow> 'k \<Rightarrow> 'v option" where
  "view P m k = (if P k then m k else None)"

lemma view_upd: "P k \<Longrightarrow> view P (m(k := v)) = (view P m)(k := v)"
  by (auto simp: view_def)

lemma rows_by_key_insert:
  "rows_by_key key rs (key x) = None \<Longrightarrow> rows_by_key key (rs @ [x]) = (rows_by_key key rs)(key x \<mapsto> x)"
  by (rule ext) (auto simp: rows_by_key_append split: option.splits)

lemma rows_by_key_update:
  assumes "\<And>r. key r = k0 \<Longrightarrow> key (f r) = k0" and "rows_by_key key rs k0 = Some r"
  shows "rows_by_key key (map (\<lambda>r. if key r = k0 then f r else r) rs) = (rows_by_key key rs)(k0 \<mapsto> f r)"
  using assms by (intro ext) (simp add: rows_by_key_map)

text \<open>
  A table of a gorm engine used through its key: what \<^verbatim>\<open>Create\<close>, the keyed \<^verbatim>\<open>Updates\<close> and the keyed
  \<^verbatim>\<open>Delete\<close> of \<^verbatim>\<open>pkg/db\<close> do to the rows by key, with the wrapping of errors.
\<close>

lemma update_result_None:
  "update_result msg res = (r, t') \<Longrightarrow> \<exists>e n. res = ((e, n), t') \<and> (r = None \<longleftrightarrow> n \<noteq> 0 \<and> e = None)"
  by (auto simp: update_result_def wrap_err_def split: prod.splits if_splits)

context gorm_table
begin

lemma create_by_key:
  assumes "rows_by_key pk (rows t) (pk x) = None" and "gorm_create G [x] t = (e, t')"
  shows "rows_by_key pk (rows t') = (if e = None then (rows_by_key pk (rows t))(pk x \<mapsto> x) else rows_by_key pk (rows t))"
  using assms create_ok [of "[x]" t t'] create_err [of "[x]" t _ t']
  by (cases e) (simp_all add: rows_by_key_insert)

lemma delete_by_key:
  assumes "gorm_delete G (\<lambda>r. pk r = k) t = (e, t')"
  shows "rows_by_key pk (rows t') = (if e = None then (rows_by_key pk (rows t))(k := None) else rows_by_key pk (rows t))"
  using assms delete_ok [of "\<lambda>r. pk r = k" t t'] delete_err [of "\<lambda>r. pk r = k" t _ t']
  by (cases e) (simp_all add: rows_by_key_filter)

lemma updates_by_key:
  assumes "rows_by_key pk (rows t) k = Some r" and keep: "\<And>r. pk r = k \<Longrightarrow> pk (f r) = k"
    and u: "gorm_updates G (\<lambda>r. pk r = k) f t = ((e1, n), t')" and e: "e = None \<longleftrightarrow> n \<noteq> 0 \<and> e1 = None"
  shows "rows_by_key pk (rows t') = (if e = None then (rows_by_key pk (rows t))(k \<mapsto> f r) else rows_by_key pk (rows t))"
proof (cases e1)
  case None
  have "\<exists>r \<in> set (rows t). pk r = k"
    using assms(1) by (auto simp: rows_by_key_def dest: find_SomeD)
  then have "filter (\<lambda>r. pk r = k) (rows t) \<noteq> []" by (auto simp: filter_empty_conv)
  with updates_ok u None have "n \<noteq> 0" and r': "rows t' = map (\<lambda>r. if pk r = k then f r else r) (rows t)"
    by fastforce+
  with e None have "e = None" by simp
  moreover have "rows_by_key pk (rows t') = (rows_by_key pk (rows t))(k \<mapsto> f r)"
    unfolding r' by (rule rows_by_key_update) (use keep assms(1) in simp_all)
  ultimately show ?thesis by simp
next
  case (Some e2)
  with updates_err u have rows: "rows t' = rows t" and "n = 0" by blast+
  with e have "e \<noteq> None" by simp
  with rows show ?thesis by auto
qed

end

lemma find_unique:
  assumes "distinct (map key xs)" and "x \<in> set xs"
  shows "find (\<lambda>r. key r = key x) xs = Some x"
  using assms by (induction xs) auto

lemma find_by_key_view:
  assumes "distinct (map pk rs)" and "distinct (map pk ls)" and "set ls = {r \<in> set rs. P (pk r)}"
  shows "find (\<lambda>y. pk y = k) (rev ls) = (if P k then rows_by_key pk rs k else None)"
proof (cases "find (\<lambda>y. pk y = k) (rev ls)")
  case None
  then have "P k \<Longrightarrow> rows_by_key pk rs k = None"
    using assms(3) by (auto simp: find_None_iff rows_by_key_def)
  with None show ?thesis by simp
next
  case (Some x)
  then have "x \<in> set ls" and k: "pk x = k" by (auto dest: find_SomeD)
  with assms(3) have "x \<in> set rs" "P k" by auto
  with find_unique [OF assms(1), of x] k Some show ?thesis by (simp add: rows_by_key_def)
qed

definition tab_of :: "('t \<Rightarrow> 'r list) \<Rightarrow> ('r \<Rightarrow> 'k) \<Rightarrow> ('s \<Rightarrow> 't) \<Rightarrow> ('k \<Rightarrow> bool) \<Rightarrow> 's \<Rightarrow> 'k \<Rightarrow> 'r option" where
  "tab_of rows pk get P s = view P (rows_by_key pk (rows (get s)))"

text \<open>
  A syncer whose callbacks insert into, update in and delete from one table. \<open>get\<close> is that
  table within the whole state, \<open>P\<close> the keys the syncer is responsible for.
\<close>

locale table_syncer = gorm_table G rows pk
  for G :: "('r, 't) gorm" and rows :: "'t \<Rightarrow> 'r list" and pk :: "'r \<Rightarrow> 'k" +
  fixes cmp_Equal :: "'r \<Rightarrow> 'r \<Rightarrow> bool"
    and S :: "('s, 'r, 'k) syncer"
    and get :: "'s \<Rightarrow> 't"
    and P :: "'k \<Rightarrow> bool"
    and upd :: "'r \<Rightarrow> 'r \<Rightarrow> 'r"
    and good :: "'r \<Rightarrow> bool"
  assumes uuid: "sy_uuid S x = pk x"
    and good_P: "good x \<Longrightarrow> P (pk x)"
    and upd_key: "pk (upd x y) = pk y \<or> pk (upd x y) = pk x"
    and ins: "sy_insert S x s = (r, s') \<Longrightarrow>
          \<exists>e. gorm_create G [x] (get s) = (e, get s') \<and> (r = None \<longleftrightarrow> e = None)"
    and upds: "good x \<Longrightarrow> pk x = pk y \<Longrightarrow> sy_update S x y s = (r, s') \<Longrightarrow>
          (\<exists>e n. gorm_updates G (\<lambda>r. pk r = pk y) (upd x) (get s) = ((e, n), get s') \<and> (r = None \<longleftrightarrow> n \<noteq> 0 \<and> e = None)) \<or>
          r \<noteq> None \<and> get s' = get s"
    and del: "good y \<Longrightarrow> sy_delete S y s = (r, s') \<Longrightarrow>
          \<exists>e. gorm_delete G (\<lambda>r. pk r = pk y) (get s) = (e, get s') \<and> (r = None \<longleftrightarrow> e = None)"
    and ntc: "sy_notice S = Some f \<Longrightarrow> f st x y s = (r, s') \<Longrightarrow> get s' = get s"
begin

sublocale sync_store cmp_Equal S "tab_of rows pk get P" upd good
proof unfold_locales
  fix x s r s'
  assume "good x" and none: "tab_of rows pk get P s (sy_uuid S x) = None" and "sy_insert S x s = (r, s')"
  then obtain e where c: "gorm_create G [x] (get s) = (e, get s')" and r: "r = None \<longleftrightarrow> e = None"
    using ins by blast
  have P: "P (pk x)" using \<open>good x\<close> by (rule good_P)
  with none have "rows_by_key pk (rows (get s)) (pk x) = None" by (simp add: uuid tab_of_def view_def)
  from create_by_key [OF this c] P r
  show "tab_of rows pk get P s' = (if r = None then (tab_of rows pk get P s)(sy_uuid S x \<mapsto> x) else tab_of rows pk get P s)"
    by (simp add: uuid tab_of_def view_upd)
next
  fix x y s r s'
  assume "good x" and "good y" and same: "sy_uuid S x = sy_uuid S y"
    and at: "tab_of rows pk get P s (sy_uuid S y) = Some y" and run: "sy_update S x y s = (r, s')"
  have P: "P (pk y)" using \<open>good y\<close> by (rule good_P)
  have same': "pk x = pk y" using same by (simp add: uuid)
  have cached: "rows_by_key pk (rows (get s)) (pk y) = Some y" using at P by (simp add: uuid tab_of_def view_def)
  have "rows_by_key pk (rows (get s')) = (if r = None then (rows_by_key pk (rows (get s)))(pk y \<mapsto> upd x y) else rows_by_key pk (rows (get s)))"
    using upds [OF \<open>good x\<close> same' run]
  proof (elim disjE exE conjE)
    fix e n assume u: "gorm_updates G (\<lambda>r. pk r = pk y) (upd x) (get s) = ((e, n), get s')" "r = None \<longleftrightarrow> n \<noteq> 0 \<and> e = None"
    from updates_by_key [OF cached _ u] upd_key same' show ?thesis by metis
  qed auto
  with P show "tab_of rows pk get P s' = (if r = None then (tab_of rows pk get P s)(sy_uuid S y \<mapsto> upd x y) else tab_of rows pk get P s)"
    by (simp add: uuid tab_of_def view_upd)
next
  fix y s r s'
  assume "good y" and run: "sy_delete S y s = (r, s')"
  then obtain e where d: "gorm_delete G (\<lambda>r. pk r = pk y) (get s) = (e, get s')"
      and r: "r = None \<longleftrightarrow> e = None"
    using del by blast
  have P: "P (pk y)" using \<open>good y\<close> by (rule good_P)
  from delete_by_key [OF d] P r
  show "tab_of rows pk get P s' = (if r = None then (tab_of rows pk get P s)(sy_uuid S y := None) else tab_of rows pk get P s)"
    by (simp add: uuid tab_of_def view_upd)
next
  fix f st x y s r s'
  assume "sy_notice S = Some f" and "f st x y s = (r, s')"
  then show "tab_of rows pk get P s' = tab_of rows pk get P s" using ntc by (simp add: tab_of_def)
qed

text \<open>
  With the rows read by \<^verbatim>\<open>Find\<close> for the keys in \<open>P\<close>, a run of \<^verbatim>\<open>Sync\<close> that reports success leaves
  exactly the target rows, and a run that reports an error leaves each row old or done. The client may do
  other things between the reading and the run, and be told of each change, if both leave the table alone.
\<close>

lemma sync_found_noticed:
  assumes "\<forall>x \<in> set serverData. good x" and "distinct (map pk serverData)"
    and found: "gorm_find G Q (get s) = (Inr localData, get s1)" and "\<And>y. Q y \<longleftrightarrow> P (pk y)"
    and uniq: "distinct (map pk (rows (get s)))" and goods: "\<forall>y \<in> set (rows (get s)). P (pk y) \<longrightarrow> good y"
    and "any_order iter" and between: "rows (get s2) = rows (get s1)" and fn: "notice_keeps (tab_of rows pk get P) fn"
    and run: "Sync cmp_Equal zero iter S serverData localData fn noDel s2 = (r, s')"
  shows "(\<forall>k. tab_of rows pk get P s' k = tab_of rows pk get P s k \<or>
              tab_of rows pk get P s' k = sync_target cmp_Equal S upd serverData (noDel \<noteq> [] \<and> hd noDel) (tab_of rows pk get P s) k) \<and>
         (r = None \<longrightarrow> (\<forall>k. tab_of rows pk get P s' k = sync_target cmp_Equal S upd serverData (noDel \<noteq> [] \<and> hd noDel) (tab_of rows pk get P s) k))"
proof -
  have Q: "Q = (\<lambda>y. P (pk y))" using assms(4) by blast
  have "rows (get s1) = rows (get s)" by (rule find_rows [OF found])
  then have tab1: "tab_of rows pk get P s2 = tab_of rows pk get P s" using between by (simp add: tab_of_def)
  have set_l: "set localData = {r \<in> set (rows (get s)). P (pk r)}" using find_set [OF found] by (simp add: Q)
  have dist_l: "distinct (map pk localData)" by (rule find_distinct [OF found uniq])
  have "tab_of rows pk get P s2 k = find (\<lambda>y. sy_uuid S y = k) (rev localData)" for k
    unfolding tab1 by (simp add: tab_of_def view_def uuid find_by_key_view [OF uniq dist_l set_l])
  then show ?thesis
    using Sync_tab [of fn serverData localData s2 iter zero noDel r s' "noDel \<noteq> [] \<and> hd noDel"] assms set_l tab1
    by (simp add: uuid [abs_def])
qed

lemma sync_found_rows:
  assumes "\<forall>x \<in> set serverData. good x" and "distinct (map pk serverData)"
    and "gorm_find G (\<lambda>r. P (pk r)) (get s) = (Inr localData, get s1)"
    and "distinct (map pk (rows (get s)))" and "\<forall>y \<in> set (rows (get s)). P (pk y) \<longrightarrow> good y"
    and "any_order iter"
    and "Sync cmp_Equal zero iter S serverData localData None noDel s1 = (r, s')"
  shows "(\<forall>k. tab_of rows pk get P s' k = tab_of rows pk get P s k \<or>
              tab_of rows pk get P s' k = sync_target cmp_Equal S upd serverData (noDel \<noteq> [] \<and> hd noDel) (tab_of rows pk get P s) k) \<and>
         (r = None \<longrightarrow> (\<forall>k. tab_of rows pk get P s' k = sync_target cmp_Equal S upd serverData (noDel \<noteq> [] \<and> hd noDel) (tab_of rows pk get P s) k))"
  using assms by (intro sync_found_noticed) (auto simp: notice_keeps_def)

end

end
