(* ===== verification/SdkErrs.thy ===== *)
theory SdkErrs
  imports Prelude
begin

text \<open>
  \<^verbatim>\<open>pkg/sdkerrs\<close>: the SDK's error codes and predefined errors. \<^verbatim>\<open>err.Wrap(msg)\<close> and
  \<^verbatim>\<open>New(code, msg, dtl)\<close> keep the code error at the root of the chain.
\<close>

definition NetworkError :: int where "NetworkError = 10000"
definition NetworkTimeoutError :: int where "NetworkTimeoutError = 10001"
definition ArgsError :: int where "ArgsError = 10002"
definition CtxDeadlineExceededError :: int where "CtxDeadlineExceededError = 10003"
definition SdkInternalError :: int where "SdkInternalError = 10006"
definition UserIDNotFoundError :: int where "UserIDNotFoundError = 10100"
definition LoginOutError :: int where "LoginOutError = 10101"
definition MsgDeCompressionError :: int where "MsgDeCompressionError = 10201"
definition MsgDecodeBinaryWsError :: int where "MsgDecodeBinaryWsError = 10202"
definition MsgBinaryTypeNotSupportError :: int where "MsgBinaryTypeNotSupportError = 10203"
definition MsgHasNoSeqError :: int where "MsgHasNoSeqError = 10206"
definition UnreadCountError :: int where "UnreadCountError = 10303"
definition GroupIDNotFoundError :: int where "GroupIDNotFoundError = 10400"

definition ErrArgs :: go_error where
  "ErrArgs = CodeError ArgsError ''ArgsError''"
definition ErrCtxDeadline :: go_error where
  "ErrCtxDeadline = CodeError CtxDeadlineExceededError ''CtxDeadlineExceededError''"
definition ErrSdkInternal :: go_error where
  "ErrSdkInternal = CodeError SdkInternalError ''SdkInternalError''"
definition ErrNetwork :: go_error where
  "ErrNetwork = CodeError NetworkError ''NetworkError''"
definition ErrNetworkTimeOut :: go_error where
  "ErrNetworkTimeOut = CodeError NetworkTimeoutError ''NetworkTimeoutError''"
definition ErrUserIDNotFound :: go_error where
  "ErrUserIDNotFound = CodeError UserIDNotFoundError ''UserIDNotFoundError''"
definition ErrMsgDecodeBinaryWs :: go_error where
  "ErrMsgDecodeBinaryWs = CodeError MsgDecodeBinaryWsError ''MsgDecodeBinaryWsError''"
definition ErrMsgDeCompression :: go_error where
  "ErrMsgDeCompression = CodeError MsgDeCompressionError ''MsgDeCompressionError''"
definition ErrMsgBinaryTypeNotSupport :: go_error where
  "ErrMsgBinaryTypeNotSupport = CodeError MsgBinaryTypeNotSupportError ''MsgTypeNotSupportError''"
definition ErrMsgHasNoSeq :: go_error where
  "ErrMsgHasNoSeq = CodeError MsgHasNoSeqError ''msg has no seq''"
definition ErrUnreadCount :: go_error where
  "ErrUnreadCount = CodeError UnreadCountError ''unread count has zero''"
definition ErrLoginOut :: go_error where
  "ErrLoginOut = CodeError LoginOutError ''LoginOutError''"

definition sdkerrs_New :: "int \<Rightarrow> string \<Rightarrow> string \<Rightarrow> go_error" where
  "sdkerrs_New code msg dtl = Wrapped (CodeError code msg) dtl"

lemmas sdkerrs_defs =
  ErrArgs_def ErrCtxDeadline_def ErrSdkInternal_def ErrNetwork_def ErrNetworkTimeOut_def
  ErrUserIDNotFound_def ErrMsgDecodeBinaryWs_def ErrMsgDeCompression_def
  ErrMsgBinaryTypeNotSupport_def ErrMsgHasNoSeq_def ErrUnreadCount_def ErrLoginOut_def

text \<open>\<^verbatim>\<open>errs.Unwrap(err).(errs.CodeError)\<close>: the code at the root, if it is a code error.\<close>

definition code_of :: "go_error \<Rightarrow> (int \<times> string) option" where
  "code_of e = (case unwrap_err e of CodeError c m \<Rightarrow> Some (c, m) | _ \<Rightarrow> None)"

lemma code_of_simps [simp]:
  "code_of (CodeError c m) = Some (c, m)"
  "code_of (GoError m) = None"
  "code_of (Wrapped e m) = code_of e"
  by (simp_all add: code_of_def)

end
