(* ===== verification/Api.thy ===== *)
theory Api
  imports SdkErrs
begin

text \<open>
  \<^verbatim>\<open>internal/util/post.go\<close>: one API call and the page loop over it. The HTTP transport, the
  JSON codec and the callback for API error codes are the fields of \<open>api_io\<close>; what is modelled
  is the SDK's own handling of every outcome.
\<close>

section \<open>One call\<close>

record api_response =
  ar_ErrCode :: int
  ar_ErrMsg :: string
  ar_ErrDlt :: string
  ar_Data :: string

datatype http_result = DoFailed string | ReadFailed string | HttpBody string

record ('s, 'req, 'resp) api_io =
  io_operationID :: string
  io_marshal :: "'req \<Rightarrow> string + string"
  io_new_request :: "string \<Rightarrow> string option"
  io_do :: "string \<Rightarrow> string \<Rightarrow> 's \<Rightarrow> http_result \<times> 's"
  io_parse :: "string \<Rightarrow> string + api_response"
  io_parse_data :: "(string \<Rightarrow> string + 'resp) option"
  io_on_error :: "go_error \<Rightarrow> 's \<Rightarrow> 's"
  io_api_addr :: string

definition ApiPost ::
  "('s, 'req, 'resp) api_io \<Rightarrow> string \<Rightarrow> 'req \<Rightarrow> 's \<Rightarrow> (go_error + 'resp option) \<times> 's" where
  "ApiPost io api req s =
     (if io_operationID io = [] then (Inl (Wrapped ErrArgs ''call api operationID is empty''), s)
      else case io_marshal io req of
        Inl msg \<Rightarrow> (Inl (Wrapped ErrSdkInternal (''json.Marshal(req) failed '' @ msg)), s)
      | Inr reqBody \<Rightarrow>
        (let reqUrl = io_api_addr io @ api in
         case io_new_request io reqUrl of
           Some msg \<Rightarrow> (Inl (Wrapped ErrSdkInternal (''sdk http.NewRequestWithContext failed '' @ msg)), s)
         | None \<Rightarrow>
           (case io_do io reqUrl reqBody s of
              (DoFailed msg, s') \<Rightarrow> (Inl (Wrapped ErrNetwork (''ApiPost http.Client.Do failed '' @ msg)), s')
            | (ReadFailed msg, s') \<Rightarrow> (Inl (Wrapped ErrSdkInternal (''io.ReadAll(ApiResponse) failed '' @ msg)), s')
            | (HttpBody respBody, s') \<Rightarrow>
              (case io_parse io respBody of
                 Inl msg \<Rightarrow> (Inl (Wrapped ErrSdkInternal (''api json.Unmarshal failed '' @ msg)), s')
               | Inr baseApi \<Rightarrow>
                 (if ar_ErrCode baseApi \<noteq> 0
                  then (let err = sdkerrs_New (ar_ErrCode baseApi) (ar_ErrMsg baseApi) (ar_ErrDlt baseApi)
                        in (Inl err, io_on_error io err s'))
                  else if io_parse_data io = None \<or> ar_Data baseApi = [] \<or> ar_Data baseApi = ''null''
                  then (Inr None, s')
                  else case the (io_parse_data io) (ar_Data baseApi) of
                         Inl msg \<Rightarrow> (Inl (Wrapped ErrSdkInternal (''json.Unmarshal failed '' @ msg)), s')
                       | Inr resp \<Rightarrow> (Inr (Some resp), s'))))))"

text \<open>\<^verbatim>\<open>CallApi\<close> starts from the zero value of the response type.\<close>

definition CallApi ::
  "'resp \<Rightarrow> ('s, 'req, 'resp) api_io \<Rightarrow> string \<Rightarrow> 'req \<Rightarrow> 's \<Rightarrow> (go_error + 'resp) \<times> 's" where
  "CallApi zero io api req s =
     (case ApiPost io api req s of
        (Inl e, s') \<Rightarrow> (Inl e, s')
      | (Inr None, s') \<Rightarrow> (Inr zero, s')
      | (Inr (Some resp), s') \<Rightarrow> (Inr resp, s'))"

section \<open>The page loop\<close>

text \<open>
  \<open>call p s\<close> is the request for page \<open>p\<close>; \<open>get_pages\<close> is the loop of \<^verbatim>\<open>GetPageAll\<close> from page
  index \<open>i\<close> with the rows collected so far. A server that never returns a short page keeps the
  loop running, so the loop's value is an option, \<open>None\<close> when it does not end.
\<close>

partial_function (option) get_pages ::
  "(int \<Rightarrow> 's \<Rightarrow> (go_error + 'c list) \<times> 's) \<Rightarrow> int \<Rightarrow> int \<Rightarrow> 'c list \<Rightarrow> 's \<Rightarrow>
   ((go_error + 'c list) \<times> 's) option" where
  "get_pages call showNumber i res s =
     (case call (i32 (i + 1)) s of (r, s') \<Rightarrow>
        (case r of
           Inl e \<Rightarrow> Some (Inl e, s')
         | Inr page \<Rightarrow>
             if int (length page) < showNumber then Some (Inr (res @ page), s')
             else get_pages call showNumber (i32 (i + 1)) (res @ page) s'))"

definition GetPageAll ::
  "(int \<Rightarrow> int \<Rightarrow> 's \<Rightarrow> (go_error + 'c list) \<times> 's) \<Rightarrow> int \<Rightarrow> 's \<Rightarrow>
   ((go_error + 'c list) \<times> 's) option" where
  "GetPageAll request showNumber s =
     (let n = (if showNumber \<le> 0 then 50 else showNumber)
      in get_pages (request n) n 0 [] s)"

text \<open>\<^verbatim>\<open>Batch\<close> maps a conversion over a slice.\<close>

definition Batch :: "('a \<Rightarrow> 'b) \<Rightarrow> 'a list \<Rightarrow> 'b list" where
  "Batch fn ts = map fn ts"

section \<open>What the loop returns\<close>

text \<open>The pages of a server that serves the list \<open>xs\<close>, \<open>n\<close> rows a page, counted from 1.\<close>

definition page_of :: "nat \<Rightarrow> 'c list \<Rightarrow> int \<Rightarrow> 'c list" where
  "page_of n xs p = take n (drop (n * nat (p - 1)) xs)"

lemma get_pages_collects:
  assumes serve: "\<And>p s. call p s = (Inr (page_of n xs p), s)" and n: "0 < n"
    and bound: "length xs < n * 2 ^ 30" and i: "n * i \<le> length xs"
  shows "get_pages call (int n) (int i) (take (n * i) xs) s = Some (Inr xs, s)"
  using i
proof (induction "length xs - n * i" arbitrary: i rule: less_induct)
  case less
  let ?page = "take n (drop (n * i) xs)"
  have "n * i < n * 2 ^ 30" using less.prems bound by linarith
  then have i_lt: "i < 2 ^ 30" using n by (simp add: mult_less_cancel1)
  then have wrap: "i32 (int i + 1) = int (Suc i)"
    by (simp add: i32_id is_i32_def)
  have page: "page_of n xs (int (Suc i)) = ?page"
    by (simp add: page_of_def)
  have take: "take (n * i) xs @ ?page = take (n * Suc i) xs"
    using take_add [of "n * i" n xs] by (simp add: add.commute)
  show ?case
  proof (cases "length ?page < n")
    case True
    then have "length xs < n * Suc i" using less.prems by simp
    then have whole: "take (n * Suc i) xs = xs" by simp
    have "int (length ?page) < int n" using True by simp
    with take whole show ?thesis
      by (subst get_pages.simps) (simp add: wrap page serve del: of_nat_Suc length_take)
  next
    case False
    then have le: "n * Suc i \<le> length xs" using less.prems by simp
    have "get_pages call (int n) (int (Suc i)) (take (n * Suc i) xs) s = Some (Inr xs, s)"
      by (rule less.hyps) (use le n in \<open>auto simp: less_diff_conv\<close>)
    moreover have "\<not> int (length ?page) < int n" using False by simp
    ultimately show ?thesis
      by (subst get_pages.simps) (simp add: wrap page serve take del: of_nat_Suc)
  qed
qed

section \<open>A server that answers every request with one value\<close>

definition replying :: "'resp \<Rightarrow> ('n, 'req, 'resp) api_io" where
  "replying resp = \<lparr>io_operationID = ''op'', io_marshal = \<lambda>_. Inr [], io_new_request = \<lambda>_. None,
     io_do = \<lambda>_ _ n. (HttpBody [], n), io_parse = \<lambda>_. Inr \<lparr>ar_ErrCode = 0, ar_ErrMsg = [], ar_ErrDlt = [], ar_Data = ''{}''\<rparr>,
     io_parse_data = Some (\<lambda>_. Inr resp), io_on_error = \<lambda>_ n. n, io_api_addr = []\<rparr>"

lemma CallApi_replying: "CallApi zero (replying resp) api req n = (Inr resp, n)"
  by (simp add: CallApi_def ApiPost_def replying_def)

end
