(* ===== verification/Friend.thy ===== *)
theory Friend
  imports Models TableSync Api
begin

text \<open>
  \<^verbatim>\<open>internal/friend\<close> with its tables in \<^verbatim>\<open>pkg/db\<close>: friends, the black list and the friend
  requests, each kept in step with the server by a \<^verbatim>\<open>Syncer\<close>. The state holds the three tables
  and the listener calls and channel commands issued so far.
\<close>

section \<open>State\<close>

datatype friend_event =
    OnFriendAdded LocalFriend
  | OnFriendDeleted LocalFriend
  | OnFriendInfoChanged LocalFriend
  | OnBlackAdded LocalBlack
  | OnBlackDeleted LocalBlack
  | OnFriendApplicationAdded LocalFriendRequest
  | OnFriendApplicationDeleted LocalFriendRequest
  | OnFriendApplicationAccepted LocalFriendRequest
  | OnFriendApplicationRejected LocalFriendRequest
  | UpdateConFaceUrlAndNickName string string string
  | UpdateMsgFaceUrlAndNickName string string string

record ('tf, 'tb, 'tr) friend_state =
  fs_friends :: 'tf
  fs_blacks :: 'tb
  fs_requests :: 'tr
  fs_events :: "friend_event list"

definition emit :: "friend_event list \<Rightarrow> ('tf, 'tb, 'tr, 'm) friend_state_scheme action" where
  "emit es s = (None, s\<lparr>fs_events := fs_events s @ es\<rparr>)"

definition on_friends :: "('tf \<Rightarrow> 'x \<times> 'tf) \<Rightarrow> ('tf, 'tb, 'tr, 'm) friend_state_scheme \<Rightarrow> 'x \<times> ('tf, 'tb, 'tr, 'm) friend_state_scheme" where
  "on_friends a s = (case a (fs_friends s) of (r, t) \<Rightarrow> (r, s\<lparr>fs_friends := t\<rparr>))"

definition on_blacks :: "('tb \<Rightarrow> 'x \<times> 'tb) \<Rightarrow> ('tf, 'tb, 'tr, 'm) friend_state_scheme \<Rightarrow> 'x \<times> ('tf, 'tb, 'tr, 'm) friend_state_scheme" where
  "on_blacks a s = (case a (fs_blacks s) of (r, t) \<Rightarrow> (r, s\<lparr>fs_blacks := t\<rparr>))"

definition on_requests :: "('tr \<Rightarrow> 'x \<times> 'tr) \<Rightarrow> ('tf, 'tb, 'tr, 'm) friend_state_scheme \<Rightarrow> 'x \<times> ('tf, 'tb, 'tr, 'm) friend_state_scheme" where
  "on_requests a s = (case a (fs_requests s) of (r, t) \<Rightarrow> (r, s\<lparr>fs_requests := t\<rparr>))"

section \<open>The database functions\<close>

definition InsertFriend :: "(LocalFriend, 't) gorm \<Rightarrow> LocalFriend \<Rightarrow> 't action" where
  "InsertFriend G friend t =
     (case gorm_create G [friend] t of (err, t') \<Rightarrow> (wrap_err err ''InsertFriend failed'', t'))"

definition DeleteFriendDB :: "(LocalFriend, 't) gorm \<Rightarrow> string \<Rightarrow> string \<Rightarrow> 't action" where
  "DeleteFriendDB G loginUserID friendUserID t =
     (case gorm_delete G (\<lambda>r. fr_OwnerUserID r = loginUserID \<and> fr_FriendUserID r = friendUserID) t of
        (err, t') \<Rightarrow> (wrap_err err ''DeleteFriend failed'', t'))"

definition UpdateFriend :: "(LocalFriend, 't) gorm \<Rightarrow> LocalFriend \<Rightarrow> 't action" where
  "UpdateFriend G friend t =
     update_result [] (gorm_updates_pk2 G fr_OwnerUserID (fr_OwnerUserID friend)
       fr_FriendUserID (fr_FriendUserID friend) (\<lambda>r. friend) t)"

definition GetAllFriendList ::
  "(LocalFriend, 't) gorm \<Rightarrow> string \<Rightarrow> 't \<Rightarrow> (go_error + LocalFriend list) \<times> 't" where
  "GetAllFriendList G loginUserID t =
     (case gorm_find G (\<lambda>r. fr_OwnerUserID r = loginUserID) t of
        (Inl e, t') \<Rightarrow> (Inl (Wrapped e ''GetFriendList failed''), t') | (Inr rs, t') \<Rightarrow> (Inr rs, t'))"

definition GetFriendInfoList ::
  "(LocalFriend, 't) gorm \<Rightarrow> string list \<Rightarrow> 't \<Rightarrow> (go_error + LocalFriend list) \<times> 't" where
  "GetFriendInfoList G friendUserIDList t =
     (case gorm_find G (\<lambda>r. fr_FriendUserID r \<in> set friendUserIDList) t of
        (Inl e, t') \<Rightarrow> (Inl (Wrapped e ''GetFriendInfoListByFriendUserID failed''), t')
      | (Inr rs, t') \<Rightarrow> (Inr rs, t'))"

definition InsertBlack :: "(LocalBlack, 't) gorm \<Rightarrow> LocalBlack \<Rightarrow> 't action" where
  "InsertBlack G black t =
     (case gorm_create G [black] t of (err, t') \<Rightarrow> (wrap_err err ''InsertBlack failed'', t'))"

definition DeleteBlack :: "(LocalBlack, 't) gorm \<Rightarrow> string \<Rightarrow> string \<Rightarrow> 't action" where
  "DeleteBlack G loginUserID blockUserID t =
     (case gorm_delete G (\<lambda>r. bl_OwnerUserID r = loginUserID \<and> bl_BlockUserID r = blockUserID) t of
        (err, t') \<Rightarrow> (wrap_err err ''DeleteBlack failed'', t'))"

text \<open>
  \<^verbatim>\<open>UpdateBlack\<close> has no \<^verbatim>\<open>Select("*")\<close>: only the non-zero fields of \<open>black\<close> are written. Without such a field besides the key there is
  nothing to set, and gorm runs no statement.
\<close>

definition black_nonzero_over :: "LocalBlack \<Rightarrow> LocalBlack \<Rightarrow> LocalBlack" where
  "black_nonzero_over black r = r\<lparr>
     bl_Nickname := nz_str (bl_Nickname black) (bl_Nickname r),
     bl_FaceURL := nz_str (bl_FaceURL black) (bl_FaceURL r),
     bl_CreateTime := nz_int (bl_CreateTime black) (bl_CreateTime r),
     bl_AddSource := nz_int (bl_AddSource black) (bl_AddSource r),
     bl_OperatorUserID := nz_str (bl_OperatorUserID black) (bl_OperatorUserID r),
     bl_Ex := nz_str (bl_Ex black) (bl_Ex r),
     bl_AttachedInfo := nz_str (bl_AttachedInfo black) (bl_AttachedInfo r)\<rparr>"

definition black_blank :: "LocalBlack \<Rightarrow> bool" where
  "black_blank black \<longleftrightarrow> bl_Nickname black = [] \<and> bl_FaceURL black = [] \<and> bl_CreateTime black = 0 \<and> bl_AddSource black = 0 \<and>
     bl_OperatorUserID black = [] \<and> bl_Ex black = [] \<and> bl_AttachedInfo black = []"

definition UpdateBlack :: "(LocalBlack, 't) gorm \<Rightarrow> LocalBlack \<Rightarrow> 't action" where
  "UpdateBlack G black t =
     update_result ''UpdateBlack failed''
       (if black_blank black then ((None, 0), t)
        else gorm_updates_pk2 G bl_OwnerUserID (bl_OwnerUserID black) bl_BlockUserID (bl_BlockUserID black) (black_nonzero_over black) t)"

definition GetBlackListDB :: "(LocalBlack, 't) gorm \<Rightarrow> 't \<Rightarrow> (go_error + LocalBlack list) \<times> 't" where
  "GetBlackListDB G t = gorm_find G (\<lambda>r. True) t"

definition GetBlackInfoList ::
  "(LocalBlack, 't) gorm \<Rightarrow> string list \<Rightarrow> 't \<Rightarrow> (go_error + LocalBlack list) \<times> 't" where
  "GetBlackInfoList G blockUserIDList t =
     (case gorm_find G (\<lambda>r. bl_BlockUserID r \<in> set blockUserIDList) t of
        (Inl e, t') \<Rightarrow> (Inl (Wrapped e ''GetBlackInfoList failed''), t') | (Inr rs, t') \<Rightarrow> (Inr rs, t'))"

definition InsertFriendRequest :: "(LocalFriendRequest, 't) gorm \<Rightarrow> LocalFriendRequest \<Rightarrow> 't action" where
  "InsertFriendRequest G friendRequest t =
     (case gorm_create G [friendRequest] t of
        (err, t') \<Rightarrow> (wrap_err err ''InsertFriendRequest failed'', t'))"

definition DeleteFriendRequestBothUserID ::
  "(LocalFriendRequest, 't) gorm \<Rightarrow> string \<Rightarrow> string \<Rightarrow> 't action" where
  "DeleteFriendRequestBothUserID G fromUserID toUserID t =
     (case gorm_delete G (\<lambda>r. frq_FromUserID r = fromUserID \<and> frq_ToUserID r = toUserID) t of
        (err, t') \<Rightarrow> (wrap_err err ''DeleteFriendRequestBothUserID failed'', t'))"

definition UpdateFriendRequest :: "(LocalFriendRequest, 't) gorm \<Rightarrow> LocalFriendRequest \<Rightarrow> 't action" where
  "UpdateFriendRequest G friendRequest t =
     update_result [] (gorm_updates_pk2 G frq_FromUserID (frq_FromUserID friendRequest)
       frq_ToUserID (frq_ToUserID friendRequest) (\<lambda>r. friendRequest) t)"

definition GetRecvFriendApplication ::
  "(LocalFriendRequest, 't) gorm \<Rightarrow> string \<Rightarrow> 't \<Rightarrow> (go_error + LocalFriendRequest list) \<times> 't" where
  "GetRecvFriendApplication G loginUserID t =
     (case gorm_find G (\<lambda>r. frq_ToUserID r = loginUserID) t of
        (Inl e, t') \<Rightarrow> (Inl (Wrapped (Wrapped e ''GetRecvFriendApplication failed'') ''GetRecvFriendApplication failed''), t')
      | (Inr rs, t') \<Rightarrow> (Inr rs, t'))"

definition GetSendFriendApplication ::
  "(LocalFriendRequest, 't) gorm \<Rightarrow> string \<Rightarrow> 't \<Rightarrow> (go_error + LocalFriendRequest list) \<times> 't" where
  "GetSendFriendApplication G loginUserID t =
     (case gorm_find G (\<lambda>r. frq_FromUserID r = loginUserID) t of
        (Inl e, t') \<Rightarrow> (Inl (Wrapped (Wrapped e ''GetSendFriendApplication failed'') ''GetSendFriendApplication failed''), t')
      | (Inr rs, t') \<Rightarrow> (Inr rs, t'))"

definition GetBothFriendReq ::
  "(LocalFriendRequest, 't) gorm \<Rightarrow> string \<Rightarrow> string \<Rightarrow> 't \<Rightarrow> (go_error + LocalFriendRequest list) \<times> 't" where
  "GetBothFriendReq G fromUserID toUserID t =
     (case gorm_find G (\<lambda>r. frq_FromUserID r = fromUserID \<and> frq_ToUserID r = toUserID \<or>
                            frq_FromUserID r = toUserID \<and> frq_ToUserID r = fromUserID) t of
        (Inl e, t') \<Rightarrow> (Inl (Wrapped (Wrapped e ''GetFriendApplicationByBothID failed'') ''GetFriendApplicationByBothID failed''), t')
      | (Inr rs, t') \<Rightarrow> (Inr rs, t'))"

section \<open>The four syncers\<close>

text \<open>
  After an update that changed name, face or remark, the notice shows the remark as the name in
  the two commands for the conversation goroutine. (It writes the remark into the server row's
  \<^verbatim>\<open>Nickname\<close> after the row was stored, so the table is not touched by that.)
\<close>

definition friend_notice :: "(('tf, 'tb, 'tr, 'm) friend_state_scheme, LocalFriend) notice" where
  "friend_notice state server loc =
     (case state of
        Insert \<Rightarrow> emit [OnFriendAdded server]
      | Delete \<Rightarrow> emit [OnFriendDeleted loc]
      | Update \<Rightarrow> emit (OnFriendInfoChanged server #
          (if fr_Nickname loc \<noteq> fr_Nickname server \<or> fr_FaceURL loc \<noteq> fr_FaceURL server \<or>
              fr_Remark loc \<noteq> fr_Remark server
           then let name = (if fr_Remark server \<noteq> [] then fr_Remark server else fr_Nickname server)
                in [UpdateConFaceUrlAndNickName (fr_FriendUserID server) (fr_FaceURL server) name,
                    UpdateMsgFaceUrlAndNickName (fr_FriendUserID server) (fr_FaceURL server) name]
           else []))
      | Unchanged \<Rightarrow> emit [])"

definition friendSyncer ::
  "(LocalFriend, 'tf) gorm \<Rightarrow> string \<Rightarrow>
   (('tf, 'tb, 'tr, 'm) friend_state_scheme, LocalFriend, string \<times> string) syncer" where
  "friendSyncer G loginUserID = the (new_syncer
     (Some (\<lambda>value. on_friends (InsertFriend G value)))
     (Some (\<lambda>value. on_friends (DeleteFriendDB G loginUserID (fr_FriendUserID value))))
     (Some (\<lambda>server loc. on_friends (UpdateFriend G server)))
     (Some (\<lambda>value. (fr_OwnerUserID value, fr_FriendUserID value)))
     None
     (Some friend_notice))"

definition black_notice :: "(('tf, 'tb, 'tr, 'm) friend_state_scheme, LocalBlack) notice" where
  "black_notice state server loc =
     (case state of
        Insert \<Rightarrow> emit [OnBlackAdded server]
      | Delete \<Rightarrow> emit [OnBlackDeleted loc]
      | _ \<Rightarrow> emit [])"

definition blockSyncer ::
  "(LocalBlack, 'tb) gorm \<Rightarrow> string \<Rightarrow>
   (('tf, 'tb, 'tr, 'm) friend_state_scheme, LocalBlack, string \<times> string) syncer" where
  "blockSyncer G loginUserID = the (new_syncer
     (Some (\<lambda>value. on_blacks (InsertBlack G value)))
     (Some (\<lambda>value. on_blacks (DeleteBlack G loginUserID (bl_BlockUserID value))))
     (Some (\<lambda>server loc. on_blacks (UpdateBlack G server)))
     (Some (\<lambda>value. (bl_OwnerUserID value, bl_BlockUserID value)))
     None
     (Some black_notice))"

definition FriendResponseAgree :: int where "FriendResponseAgree = 1"
definition FriendResponseRefuse :: int where "FriendResponseRefuse = - 1"
definition FriendResponseDefault :: int where "FriendResponseDefault = 0"

definition request_recv_notice :: "(('tf, 'tb, 'tr, 'm) friend_state_scheme, LocalFriendRequest) notice" where
  "request_recv_notice state server loc =
     (case state of
        Insert \<Rightarrow> emit [OnFriendApplicationAdded server]
      | Delete \<Rightarrow> emit [OnFriendApplicationDeleted loc]
      | Update \<Rightarrow>
          (if frq_HandleResult server = FriendResponseAgree then emit [OnFriendApplicationAccepted server]
           else if frq_HandleResult server = FriendResponseRefuse then emit [OnFriendApplicationRejected server]
           else if frq_HandleResult server = FriendResponseDefault then emit [OnFriendApplicationAdded server]
           else emit [])
      | Unchanged \<Rightarrow> emit [])"

definition request_send_notice :: "(('tf, 'tb, 'tr, 'm) friend_state_scheme, LocalFriendRequest) notice" where
  "request_send_notice state server loc =
     (case state of
        Insert \<Rightarrow> emit [OnFriendApplicationAdded server]
      | Delete \<Rightarrow> emit [OnFriendApplicationDeleted loc]
      | Update \<Rightarrow>
          (if frq_HandleResult server = FriendResponseAgree then emit [OnFriendApplicationAccepted server]
           else if frq_HandleResult server = FriendResponseRefuse then emit [OnFriendApplicationRejected server]
           else emit [])
      | Unchanged \<Rightarrow> emit [])"

definition requestSyncer ::
  "(LocalFriendRequest, 'tr) gorm \<Rightarrow> (('tf, 'tb, 'tr, 'm) friend_state_scheme, LocalFriendRequest) notice \<Rightarrow>
   (('tf, 'tb, 'tr, 'm) friend_state_scheme, LocalFriendRequest, string \<times> string) syncer" where
  "requestSyncer G notice = the (new_syncer
     (Some (\<lambda>value. on_requests (InsertFriendRequest G value)))
     (Some (\<lambda>value. on_requests (DeleteFriendRequestBothUserID G (frq_FromUserID value) (frq_ToUserID value))))
     (Some (\<lambda>server loc. on_requests (UpdateFriendRequest G server)))
     (Some (\<lambda>value. (frq_FromUserID value, frq_ToUserID value)))
     None
     (Some notice))"

definition requestRecvSyncer where
  "requestRecvSyncer G = requestSyncer G request_recv_notice"

definition requestSendSyncer where
  "requestSendSyncer G = requestSyncer G request_send_notice"

section \<open>Rows from the server\<close>

text \<open>
  The protocol messages of \<^verbatim>\<open>sdkws\<close>, with the fields the conversions read. The nested user
  records are present in every message the conversions get.
\<close>

record user_info =
  ui_UserID :: string
  ui_Nickname :: string
  ui_FaceURL :: string

record FriendInfo =
  fi_OwnerUserID :: string
  fi_Remark :: string
  fi_CreateTime :: int
  fi_FriendUser :: user_info
  fi_AddSource :: int
  fi_OperatorUserID :: string
  fi_Ex :: string
  fi_IsPinned :: bool

record BlackInfo =
  bi_OwnerUserID :: string
  bi_CreateTime :: int
  bi_BlackUserInfo :: user_info
  bi_AddSource :: int
  bi_OperatorUserID :: string
  bi_Ex :: string

record FriendRequest =
  fq_FromUserID :: string
  fq_FromNickname :: string
  fq_FromFaceURL :: string
  fq_ToUserID :: string
  fq_ToNickname :: string
  fq_ToFaceURL :: string
  fq_HandleResult :: int
  fq_ReqMsg :: string
  fq_CreateTime :: int
  fq_HandlerUserID :: string
  fq_HandleMsg :: string
  fq_HandleTime :: int
  fq_Ex :: string

definition ServerFriendRequestToLocalFriendRequest :: "FriendRequest \<Rightarrow> LocalFriendRequest" where
  "ServerFriendRequestToLocalFriendRequest info = \<lparr>
     frq_FromUserID = fq_FromUserID info, frq_FromNickname = fq_FromNickname info,
     frq_FromFaceURL = fq_FromFaceURL info, frq_ToUserID = fq_ToUserID info,
     frq_ToNickname = fq_ToNickname info, frq_ToFaceURL = fq_ToFaceURL info,
     frq_HandleResult = fq_HandleResult info, frq_ReqMsg = fq_ReqMsg info,
     frq_CreateTime = fq_CreateTime info, frq_HandlerUserID = fq_HandlerUserID info,
     frq_HandleMsg = fq_HandleMsg info, frq_HandleTime = fq_HandleTime info,
     frq_Ex = fq_Ex info, frq_AttachedInfo = []\<rparr>"

definition ServerFriendToLocalFriend :: "FriendInfo \<Rightarrow> LocalFriend" where
  "ServerFriendToLocalFriend info = \<lparr>
     fr_OwnerUserID = fi_OwnerUserID info, fr_FriendUserID = ui_UserID (fi_FriendUser info),
     fr_Remark = fi_Remark info, fr_CreateTime = fi_CreateTime info,
     fr_AddSource = fi_AddSource info, fr_OperatorUserID = fi_OperatorUserID info,
     fr_Nickname = ui_Nickname (fi_FriendUser info), fr_FaceURL = ui_FaceURL (fi_FriendUser info),
     fr_Ex = fi_Ex info, fr_AttachedInfo = [], fr_IsPinned = fi_IsPinned info\<rparr>"

definition ServerBlackToLocalBlack :: "BlackInfo \<Rightarrow> LocalBlack" where
  "ServerBlackToLocalBlack info = \<lparr>
     bl_OwnerUserID = bi_OwnerUserID info, bl_BlockUserID = ui_UserID (bi_BlackUserInfo info),
     bl_Nickname = ui_Nickname (bi_BlackUserInfo info), bl_FaceURL = ui_FaceURL (bi_BlackUserInfo info),
     bl_CreateTime = bi_CreateTime info, bl_AddSource = bi_AddSource info,
     bl_OperatorUserID = bi_OperatorUserID info, bl_Ex = bi_Ex info, bl_AttachedInfo = []\<rparr>"

section \<open>The sync operations\<close>

text \<open>
  Each fetches all pages from the server (a parameter: the request for a page of a given
  length), reads the local rows and runs the syncer. A \<^verbatim>\<open>ShowNumber\<close> of 0 is what the requests
  carry, which \<^verbatim>\<open>GetPageAll\<close> turns into 50. The result is \<open>None\<close> when the server keeps
  sending full pages for ever.
\<close>

definition fetch_and_sync ::
  "(int \<Rightarrow> int \<Rightarrow> 's \<Rightarrow> (go_error + 'w list) \<times> 's) \<Rightarrow> ('w \<Rightarrow> 'a) \<Rightarrow>
   ('s \<Rightarrow> (go_error + 'a list) \<times> 's) \<Rightarrow> ('a list \<Rightarrow> 'a list \<Rightarrow> 's action) \<Rightarrow>
   's \<Rightarrow> (go_error option \<times> 's) option" where
  "fetch_and_sync request conv read_local sync s =
     (case GetPageAll request 0 s of
        None \<Rightarrow> None
      | Some (Inl e, s1) \<Rightarrow> Some (Some e, s1)
      | Some (Inr serverRows, s1) \<Rightarrow>
          (case read_local s1 of
             (Inl e, s2) \<Rightarrow> Some (Some e, s2)
           | (Inr localData, s2) \<Rightarrow> Some (sync (Batch conv serverRows) localData s2)))"

definition SyncAllFriendList where
  "SyncAllFriendList cmp_Equal zero iter G loginUserID request =
     fetch_and_sync request ServerFriendToLocalFriend (on_friends (GetAllFriendList G loginUserID))
       (\<lambda>server loc. Sync cmp_Equal zero iter (friendSyncer G loginUserID) server loc None [])"

definition SyncAllBlackList where
  "SyncAllBlackList cmp_Equal zero iter G loginUserID request =
     fetch_and_sync request ServerBlackToLocalBlack (on_blacks (GetBlackListDB G))
       (\<lambda>server loc. Sync cmp_Equal zero iter (blockSyncer G loginUserID) server loc None [])"

definition SyncAllFriendApplication where
  "SyncAllFriendApplication cmp_Equal zero iter G loginUserID request =
     fetch_and_sync request ServerFriendRequestToLocalFriendRequest
       (on_requests (GetRecvFriendApplication G loginUserID))
       (\<lambda>server loc. Sync cmp_Equal zero iter (requestRecvSyncer G) server loc None [])"

definition SyncAllSelfFriendApplication where
  "SyncAllSelfFriendApplication cmp_Equal zero iter G loginUserID request =
     fetch_and_sync request ServerFriendRequestToLocalFriendRequest
       (on_requests (GetSendFriendApplication G loginUserID))
       (\<lambda>server loc. Sync cmp_Equal zero iter (requestSendSyncer G) server loc None [])"

text \<open>\<^verbatim>\<open>SyncFriends\<close> is the same for a given list of users, answered by one call.\<close>

definition SyncFriends where
  "SyncFriends cmp_Equal zero iter G loginUserID request friendIDs s =
     (case request friendIDs s of
        (Inl e, s1) \<Rightarrow> (Some e, s1)
      | (Inr friendsInfo, s1) \<Rightarrow>
          (case on_friends (GetFriendInfoList G friendIDs) s1 of
             (Inl e, s2) \<Rightarrow> (Some e, s2)
           | (Inr localData, s2) \<Rightarrow>
               Sync cmp_Equal zero iter (friendSyncer G loginUserID)
                 (Batch ServerFriendToLocalFriend friendsInfo) localData None [] s2))"

definition SyncBothFriendRequest where
  "SyncBothFriendRequest cmp_Equal zero iter G loginUserID request fromUserID toUserID s =
     (case request fromUserID toUserID s of
        (Inl e, s1) \<Rightarrow> (None, s1)
      | (Inr friendRequests, s1) \<Rightarrow>
          (case on_requests (GetBothFriendReq G fromUserID toUserID) s1 of
             (Inl e, s2) \<Rightarrow> (Some e, s2)
           | (Inr localData, s2) \<Rightarrow>
               (let server = Batch ServerFriendRequestToLocalFriendRequest friendRequests in
                if toUserID = loginUserID
                then Sync cmp_Equal zero iter (requestRecvSyncer G) server localData None [] s2
                else if fromUserID = loginUserID
                then Sync cmp_Equal zero iter (requestSendSyncer G) server localData None [] s2
                else (None, s2))))"

definition deleteFriend where
  "deleteFriend G loginUserID friendUserID s =
     (case on_friends (GetFriendInfoList G [friendUserID]) s of
        (Inl e, s1) \<Rightarrow> (Some e, s1)
      | (Inr [], s1) \<Rightarrow> (Some (Wrapped ErrUserIDNotFound ''friendUserID not found''), s1)
      | (Inr (f # _), s1) \<Rightarrow>
          and_then (on_friends (DeleteFriendDB G loginUserID friendUserID)) (emit [OnFriendDeleted f]) s1)"

section \<open>The tables satisfy the contract of the syncer\<close>

definition fr_key :: "LocalFriend \<Rightarrow> string \<times> string" where
  "fr_key r = (fr_OwnerUserID r, fr_FriendUserID r)"

definition bl_key :: "LocalBlack \<Rightarrow> string \<times> string" where
  "bl_key r = (bl_OwnerUserID r, bl_BlockUserID r)"

definition frq_key :: "LocalFriendRequest \<Rightarrow> string \<times> string" where
  "frq_key r = (frq_FromUserID r, frq_ToUserID r)"

lemma friend_uuid [simp]: "sy_uuid (friendSyncer G u) x = fr_key x"
  by (simp add: friendSyncer_def new_syncer_def fr_key_def)

lemma black_uuid [simp]: "sy_uuid (blockSyncer G u) x = bl_key x"
  by (simp add: blockSyncer_def new_syncer_def bl_key_def)

lemma request_uuid [simp]: "sy_uuid (requestSyncer G notice) x = frq_key x"
  by (simp add: requestSyncer_def new_syncer_def frq_key_def)

section \<open>The syncers' callbacks keep the contract\<close>

text \<open>
  A row is \<open>good\<close> for a syncer when its key columns are filled in and it belongs to the login
  user, as the rows the server sends to the user do.
\<close>

definition good_friend :: "string \<Rightarrow> LocalFriend \<Rightarrow> bool" where
  "good_friend u x \<longleftrightarrow> u \<noteq> [] \<and> fr_OwnerUserID x = u \<and> fr_FriendUserID x \<noteq> []"

definition good_black :: "string \<Rightarrow> LocalBlack \<Rightarrow> bool" where
  "good_black u x \<longleftrightarrow> u \<noteq> [] \<and> bl_OwnerUserID x = u \<and> bl_BlockUserID x \<noteq> []"

definition good_request :: "(string \<times> string \<Rightarrow> bool) \<Rightarrow> LocalFriendRequest \<Rightarrow> bool" where
  "good_request P x \<longleftrightarrow> P (frq_key x) \<and> frq_FromUserID x \<noteq> [] \<and> frq_ToUserID x \<noteq> []"

lemma notices_keep_tables:
  "friend_notice st x y s = (r, s') \<Longrightarrow> fs_friends s' = fs_friends s"
  "black_notice st u v s = (r, s') \<Longrightarrow> fs_blacks s' = fs_blacks s"
  "request_recv_notice st a b s = (r, s') \<Longrightarrow> fs_requests s' = fs_requests s"
  "request_send_notice st a b s = (r, s') \<Longrightarrow> fs_requests s' = fs_requests s"
  by (auto simp: friend_notice_def black_notice_def request_recv_notice_def request_send_notice_def
      emit_def Let_def split: sync_state.splits if_splits)

text \<open>On good rows the keyed statements address exactly the rows with the key.\<close>

lemma update_by_key:
  "good_friend u x \<Longrightarrow>
     UpdateFriend G x t = update_result [] (gorm_updates G (\<lambda>r. fr_key r = fr_key x) (\<lambda>r. x) t)"
  "good_black u b \<Longrightarrow> \<not> black_blank b \<Longrightarrow>
     UpdateBlack H b t' = update_result ''UpdateBlack failed'' (gorm_updates H (\<lambda>r. bl_key r = bl_key b) (black_nonzero_over b) t')"
  "good_request P q \<Longrightarrow>
     UpdateFriendRequest K q t'' = update_result [] (gorm_updates K (\<lambda>r. frq_key r = frq_key q) (\<lambda>r. q) t'')"
  by (auto simp: UpdateFriend_def UpdateBlack_def UpdateFriendRequest_def gorm_updates_pk2_def
      good_friend_def good_black_def good_request_def fr_key_def bl_key_def frq_key_def)

lemma delete_by_key_of:
  "good_friend u y \<Longrightarrow> DeleteFriendDB G u (fr_FriendUserID y) t =
     (case gorm_delete G (\<lambda>r. fr_key r = fr_key y) t of (err, t1) \<Rightarrow> (wrap_err err ''DeleteFriend failed'', t1))"
  "good_black u b \<Longrightarrow> DeleteBlack H u (bl_BlockUserID b) t' =
     (case gorm_delete H (\<lambda>r. bl_key r = bl_key b) t' of (err, t1) \<Rightarrow> (wrap_err err ''DeleteBlack failed'', t1))"
  "DeleteFriendRequestBothUserID K (frq_FromUserID q) (frq_ToUserID q) t'' =
     (case gorm_delete K (\<lambda>r. frq_key r = frq_key q) t'' of (err, t1) \<Rightarrow> (wrap_err err ''DeleteFriendRequestBothUserID failed'', t1))"
  by (auto simp: DeleteFriendDB_def DeleteBlack_def DeleteFriendRequestBothUserID_def
      good_friend_def good_black_def fr_key_def bl_key_def frq_key_def)

lemma friend_ops:
  "sy_insert (friendSyncer G u) x = on_friends (InsertFriend G x)"
  "sy_update (friendSyncer G u) x y = on_friends (UpdateFriend G x)"
  "sy_delete (friendSyncer G u) y = on_friends (DeleteFriendDB G u (fr_FriendUserID y))"
  "sy_notice (friendSyncer G u) = Some friend_notice"
  "sy_equal (friendSyncer G u) = None"
  by (simp_all add: friendSyncer_def new_syncer_def)

lemma black_ops:
  "sy_insert (blockSyncer G u) x = on_blacks (InsertBlack G x)"
  "sy_update (blockSyncer G u) x y = on_blacks (UpdateBlack G x)"
  "sy_delete (blockSyncer G u) y = on_blacks (DeleteBlack G u (bl_BlockUserID y))"
  "sy_notice (blockSyncer G u) = Some black_notice"
  "sy_equal (blockSyncer G u) = None"
  by (simp_all add: blockSyncer_def new_syncer_def)

lemma request_ops:
  "sy_insert (requestSyncer G n) x = on_requests (InsertFriendRequest G x)"
  "sy_update (requestSyncer G n) x y = on_requests (UpdateFriendRequest G x)"
  "sy_delete (requestSyncer G n) y = on_requests (DeleteFriendRequestBothUserID G (frq_FromUserID y) (frq_ToUserID y))"
  "sy_notice (requestSyncer G n) = Some n"
  "sy_equal (requestSyncer G n) = None"
  by (simp_all add: requestSyncer_def new_syncer_def)

lemma friend_table_syncer:
  assumes "gorm_table G rows fr_key"
  shows "table_syncer G rows fr_key (friendSyncer G u) fs_friends (\<lambda>k. fst k = u) (\<lambda>x y. x) (good_friend u)"
proof (rule table_syncer.intro [OF assms], rule table_syncer_axioms.intro)
  fix x y :: LocalFriend and s r s'
  assume good: "good_friend u x" and same: "fr_key x = fr_key y" and run: "sy_update (friendSyncer G u) x y s = (r, s')"
  show "(\<exists>e n. gorm_updates G (\<lambda>r. fr_key r = fr_key y) (\<lambda>r. x) (fs_friends s) = ((e, n), fs_friends s') \<and> (r = None \<longleftrightarrow> n \<noteq> 0 \<and> e = None)) \<or>
      r \<noteq> None \<and> fs_friends s' = fs_friends s"
    using run unfolding friend_ops on_friends_def update_by_key(1) [OF good] same
    by (auto split: prod.splits dest: update_result_None)
next
  fix y :: LocalFriend and s r s'
  assume good: "good_friend u y" and run: "sy_delete (friendSyncer G u) y s = (r, s')"
  show "\<exists>e. gorm_delete G (\<lambda>r. fr_key r = fr_key y) (fs_friends s) = (e, fs_friends s') \<and> (r = None \<longleftrightarrow> e = None)"
    using run by (auto simp: friend_ops on_friends_def delete_by_key_of(1) [OF good] split: prod.splits)
qed (auto simp: friend_ops on_friends_def InsertFriend_def good_friend_def fr_key_def
    dest: notices_keep_tables split: prod.splits)

lemma black_key_upd [simp]: "bl_key (black_nonzero_over x y) = bl_key y"
  by (simp add: black_nonzero_over_def bl_key_def)

lemma black_table_syncer:
  assumes "gorm_table G rows bl_key"
  shows "table_syncer G rows bl_key (blockSyncer G u) fs_blacks (\<lambda>k. True) black_nonzero_over (good_black u)"
proof (rule table_syncer.intro [OF assms], rule table_syncer_axioms.intro)
  fix x y :: LocalBlack and s r s'
  assume good: "good_black u x" and same: "bl_key x = bl_key y" and run: "sy_update (blockSyncer G u) x y s = (r, s')"
  show "(\<exists>e n. gorm_updates G (\<lambda>r. bl_key r = bl_key y) (black_nonzero_over x) (fs_blacks s) = ((e, n), fs_blacks s') \<and>
      (r = None \<longleftrightarrow> n \<noteq> 0 \<and> e = None)) \<or> r \<noteq> None \<and> fs_blacks s' = fs_blacks s"
  proof (cases "black_blank x")
    case True
    with run show ?thesis by (auto simp: black_ops on_blacks_def UpdateBlack_def update_result_def wrap_err_def)
  next
    case False
    show ?thesis
      using run unfolding black_ops on_blacks_def update_by_key(2) [OF good False] same
      by (auto split: prod.splits dest: update_result_None)
  qed
next
  fix y :: LocalBlack and s r s'
  assume good: "good_black u y" and run: "sy_delete (blockSyncer G u) y s = (r, s')"
  show "\<exists>e. gorm_delete G (\<lambda>r. bl_key r = bl_key y) (fs_blacks s) = (e, fs_blacks s') \<and> (r = None \<longleftrightarrow> e = None)"
    using run by (auto simp: black_ops on_blacks_def delete_by_key_of(2) [OF good] split: prod.splits)
qed (auto simp: black_ops on_blacks_def InsertBlack_def dest: notices_keep_tables split: prod.splits)

lemma request_table_syncer:
  assumes "gorm_table G rows frq_key" and "notice = request_recv_notice \<or> notice = request_send_notice"
  shows "table_syncer G rows frq_key (requestSyncer G notice) fs_requests P (\<lambda>x y. x) (good_request P)"
proof (rule table_syncer.intro [OF assms(1)], rule table_syncer_axioms.intro)
  fix x y :: LocalFriendRequest and s r s'
  assume good: "good_request P x" and same: "frq_key x = frq_key y" and run: "sy_update (requestSyncer G notice) x y s = (r, s')"
  show "(\<exists>e n. gorm_updates G (\<lambda>r. frq_key r = frq_key y) (\<lambda>r. x) (fs_requests s) = ((e, n), fs_requests s') \<and> (r = None \<longleftrightarrow> n \<noteq> 0 \<and> e = None)) \<or>
      r \<noteq> None \<and> fs_requests s' = fs_requests s"
    using run unfolding request_ops on_requests_def update_by_key(3) [OF good] same
    by (auto split: prod.splits dest: update_result_None)
next
  fix y :: LocalFriendRequest and s r s'
  assume run: "sy_delete (requestSyncer G notice) y s = (r, s')"
  show "\<exists>e. gorm_delete G (\<lambda>r. frq_key r = frq_key y) (fs_requests s) = (e, fs_requests s') \<and> (r = None \<longleftrightarrow> e = None)"
    using run by (auto simp: request_ops on_requests_def delete_by_key_of(3) split: prod.splits)
qed (use assms(2) in \<open>auto simp: request_ops on_requests_def InsertFriendRequest_def good_request_def
      dest: notices_keep_tables split: prod.splits\<close>)

interpretation friends: table_syncer "list_gorm fr_key" ft_rows fr_key "(=)"
    "friendSyncer (list_gorm fr_key) u" fs_friends "\<lambda>k. fst k = u" "\<lambda>x y. x" "good_friend u"
  by (rule friend_table_syncer) (rule lg.gorm_table_axioms)

interpretation blacks: table_syncer "list_gorm bl_key" ft_rows bl_key "(=)"
    "blockSyncer (list_gorm bl_key) u" fs_blacks "\<lambda>k. True" black_nonzero_over "good_black u"
  by (rule black_table_syncer) (rule lg.gorm_table_axioms)

interpretation requests: table_syncer "list_gorm frq_key" ft_rows frq_key "(=)"
    "requestRecvSyncer (list_gorm frq_key)" fs_requests P "\<lambda>x y. x" "good_request P"
  unfolding requestRecvSyncer_def by (rule request_table_syncer) (rule lg.gorm_table_axioms, simp)

end
