(* ===== verification/FriendSync.thy ===== *)
theory FriendSync
  imports Friend
begin

text \<open>
  What the sync operations of \<^verbatim>\<open>internal/friend\<close> achieve: the friends, the black list and the
  received friend requests after a run, for every database that meets gorm's documentation and
  every iteration order of Go's maps.
\<close>

section \<open>Shared facts\<close>

text \<open>A server that serves the list \<open>xs\<close> page by page, without touching the client's state.\<close>

definition serves_pages :: "(int \<Rightarrow> int \<Rightarrow> 's \<Rightarrow> (go_error + 'w list) \<times> 's) \<Rightarrow> 'w list \<Rightarrow> bool" where
  "serves_pages request xs \<longleftrightarrow>
     (\<forall>p s. request 50 p s = (Inr (page_of 50 xs p), s)) \<and> length xs < 50 * 2 ^ 30"

lemma GetPageAll_serves:
  assumes "serves_pages request xs"
  shows "GetPageAll request 0 s = Some (Inr xs, s)"
  using get_pages_collects [of "request 50" 50 xs 0 s] assms
  by (simp add: GetPageAll_def serves_pages_def Let_def)

lemma fetch_and_sync_serves:
  assumes "serves_pages request xs"
  shows "fetch_and_sync request conv read_local sync s =
    Some (case read_local s of (Inl e, s2) \<Rightarrow> (Some e, s2) | (Inr localData, s2) \<Rightarrow> sync (map conv xs) localData s2)"
  by (simp add: fetch_and_sync_def GetPageAll_serves [OF assms] Batch_def split: prod.split sum.split)

lemma sync_target_copy:
  "sy_equal S = None \<Longrightarrow>
   sync_target (=) S (\<lambda>x y. x) xs False t k = find (\<lambda>x. sy_uuid S x = k) xs"
  by (auto simp: sync_target_def sy_eq_def split: option.splits)

text \<open>What a run of the syncer over rows found by key makes of the rows of one table.\<close>

definition reconciled ::
  "('k \<Rightarrow> bool) \<Rightarrow> ('k \<Rightarrow> 'r option) \<Rightarrow> ('k \<Rightarrow> 'r option) \<Rightarrow> ('k \<Rightarrow> 'r option) \<Rightarrow> go_error option \<Rightarrow> bool" where
  "reconciled P old target new r \<longleftrightarrow>
     (\<forall>k. P k \<longrightarrow> new k = old k \<or> new k = target k) \<and>
     (r = None \<longrightarrow> (\<forall>k. P k \<longrightarrow> new k = target k))"

context table_syncer
begin

lemma read_failed:
  assumes "gorm_find G p (get s) = (Inl e, get s')"
  shows "rows_by_key pk (rows (get s')) = rows_by_key pk (rows (get s))"
  using find_rows [OF assms] by simp

text \<open>The tail of every \<^verbatim>\<open>SyncAll\<close> function: read the local rows, then run the syncer.\<close>

lemma fetched_sync:
  assumes "\<forall>x \<in> set server. good x" and "distinct (map pk server)"
    and uniq: "distinct (map pk (rows (get s)))" and goods: "\<forall>y \<in> set (rows (get s)). P (pk y) \<longrightarrow> good y"
    and iter: "any_order iter"
    and rd: "\<And>r s1. read_local s = (r, s1) \<Longrightarrow> (\<exists>r0. gorm_find G (\<lambda>r. P (pk r)) (get s) = (r0, get s1) \<and>
          (\<forall>ls. r = Inr ls \<longleftrightarrow> r0 = Inr ls))"
    and run: "(case read_local s of (Inl e, s2) \<Rightarrow> (Some e, s2)
          | (Inr localData, s2) \<Rightarrow> Sync cmp_Equal zero iter S server localData None [] s2) = (r, s')"
    and target: "\<And>k. P k \<Longrightarrow> sync_target cmp_Equal S upd server False (tab_of rows pk get P s) k = target k"
  shows "reconciled P (rows_by_key pk (rows (get s))) target (rows_by_key pk (rows (get s'))) r"
proof -
  obtain r1 s1 where r1: "read_local s = (r1, s1)" by fastforce
  obtain r0 where found: "gorm_find G (\<lambda>r. P (pk r)) (get s) = (r0, get s1)"
    and same: "\<forall>ls. r1 = Inr ls \<longleftrightarrow> r0 = Inr ls"
    using rd [OF r1] by blast
  show ?thesis
  proof (cases r1)
    case (Inl e)
    with r1 run have "r = Some e" "s' = s1" by simp_all
    with find_rows [OF found] show ?thesis by (simp add: reconciled_def)
  next
    case (Inr ls)
    with same have "r0 = Inr ls" by blast
    with found have "gorm_find G (\<lambda>r. P (pk r)) (get s) = (Inr ls, get s1)" by simp
    from sync_found_rows [OF assms(1,2) this uniq goods iter, of zero "[]" r s'] run r1 Inr
    have "(tab_of rows pk get P s' k = tab_of rows pk get P s k \<or>
           tab_of rows pk get P s' k = sync_target cmp_Equal S upd server False (tab_of rows pk get P s) k) \<and>
          (r = None \<longrightarrow> tab_of rows pk get P s' k = sync_target cmp_Equal S upd server False (tab_of rows pk get P s) k)" for k
      by simp
    note at = this [unfolded tab_of_def]
    have "(rows_by_key pk (rows (get s')) k = rows_by_key pk (rows (get s)) k \<or>
           rows_by_key pk (rows (get s')) k = target k) \<and>
          (r = None \<longrightarrow> rows_by_key pk (rows (get s')) k = target k)" if "P k" for k
      using at [of k] target [OF that] that
      by (metis tab_of_def view_def)
    then show ?thesis
      by (simp add: reconciled_def)
  qed
qed

end

section \<open>Friends\<close>

lemma fst_fr_key: "fst (fr_key r) = fr_OwnerUserID r"
  by (simp add: fr_key_def)

lemma friend_read:
  "on_friends (GetAllFriendList G u) s = (r, s1) \<Longrightarrow>
   \<exists>r0. gorm_find G (\<lambda>r. fr_OwnerUserID r = u) (fs_friends s) = (r0, fs_friends s1) \<and> (\<forall>ls. r = Inr ls \<longleftrightarrow> r0 = Inr ls)"
  by (auto simp: on_friends_def GetAllFriendList_def split: prod.splits sum.splits)

lemma friend_target:
  "sync_target (=) (friendSyncer G u) (\<lambda>x y. x) xs False t k = rows_by_key fr_key xs k"
  by (simp add: sync_target_copy friend_ops rows_by_key_def)

text \<open>
  The friend list is reconciled with the server. With a database that does what gorm's
  documentation promises (and may fail at any call), a server that pages out the user's friends
  \<open>infos\<close>, and any iteration order of the local map, \<^verbatim>\<open>SyncAllFriendList\<close> returns; every row of the
  login user is afterwards what it was or exactly the server's row (deleted when the server has
  none); and if it returns no error, the user's rows are exactly the server's.
\<close>
theorem SyncAllFriendList_reconciles:
  assumes "gorm_table G rows fr_key" and "any_order iter"
    and "serves_pages request infos"
    and "\<forall>x \<in> set infos. good_friend u (ServerFriendToLocalFriend x)"
    and "distinct (map fr_key (map ServerFriendToLocalFriend infos))"
    and "distinct (map fr_key (rows (fs_friends s)))"
    and "\<forall>y \<in> set (rows (fs_friends s)). fr_OwnerUserID y = u \<longrightarrow> good_friend u y"
  shows "\<exists>r s'. SyncAllFriendList (=) zero iter G u request s = Some (r, s') \<and>
    reconciled (\<lambda>k. fst k = u) (rows_by_key fr_key (rows (fs_friends s)))
      (rows_by_key fr_key (map ServerFriendToLocalFriend infos))
      (rows_by_key fr_key (rows (fs_friends s'))) r"
proof -
  let ?run = "case on_friends (GetAllFriendList G u) s of (Inl e, s2) \<Rightarrow> (Some e, s2)
    | (Inr localData, s2) \<Rightarrow> Sync (=) zero iter (friendSyncer G u) (map ServerFriendToLocalFriend infos) localData None [] s2"
  obtain r s' where run: "?run = (r, s')" by fastforce
  have "reconciled (\<lambda>k. fst k = u) (rows_by_key fr_key (rows (fs_friends s)))
      (rows_by_key fr_key (map ServerFriendToLocalFriend infos))
      (rows_by_key fr_key (rows (fs_friends s'))) r"
    by (rule table_syncer.fetched_sync [OF friend_table_syncer [OF assms(1)], where iter = iter and zero = zero
          and server = "map ServerFriendToLocalFriend infos" and read_local = "on_friends (GetAllFriendList G u)"])
      (use run assms friend_read [of G u s] in
        \<open>simp_all add: fst_fr_key\<close>, rule friend_target)
  with run show ?thesis
    by (simp add: SyncAllFriendList_def fetch_and_sync_serves [OF assms(3)])
qed

text \<open>A sample server row, for the witnesses: everything but the two names is empty.\<close>

definition sample_friend :: "string \<Rightarrow> string \<Rightarrow> FriendInfo" where
  "sample_friend owner friend = \<lparr>fi_OwnerUserID = owner, fi_Remark = [], fi_CreateTime = 0,
     fi_FriendUser = \<lparr>ui_UserID = friend, ui_Nickname = friend, ui_FaceURL = []\<rparr>,
     fi_AddSource = 0, fi_OperatorUserID = [], fi_Ex = [], fi_IsPinned = False\<rparr>"

definition page_server :: "'w list \<Rightarrow> int \<Rightarrow> int \<Rightarrow> 's \<Rightarrow> (go_error + 'w list) \<times> 's" where
  "page_server xs n p s = (Inr (page_of (nat n) xs p), s)"

lemma page_server_serves: "length xs < 50 * 2 ^ 30 \<Longrightarrow> serves_pages (page_server xs) xs"
  by (simp add: serves_pages_def page_server_def)

definition sample_state :: "'f list \<Rightarrow> 'b list \<Rightarrow> 'q list \<Rightarrow> bool list \<Rightarrow> ('f ftable, 'b ftable, 'q ftable) friend_state" where
  "sample_state fs bs qs faults = \<lparr>fs_friends = \<lparr>ft_rows = fs, ft_faults = faults\<rparr>,
     fs_blacks = \<lparr>ft_rows = bs, ft_faults = faults\<rparr>, fs_requests = \<lparr>ft_rows = qs, ft_faults = faults\<rparr>, fs_events = []\<rparr>"

lemmas sample_simps = sample_friend_def sample_state_def ServerFriendToLocalFriend_def
  fr_key_def good_friend_def page_server_serves

theorem SyncAllFriendList_reconciles_witness:
  "let u = ''u''; infos = [sample_friend u ''a'', sample_friend u ''b''];
       old = [ServerFriendToLocalFriend (sample_friend u ''c'')];
       s = sample_state old ([] :: LocalBlack list) ([] :: LocalFriendRequest list) [False, False, True]
   in \<exists>r s'. SyncAllFriendList (=) (hd old) rev (list_gorm fr_key) u (page_server infos) s = Some (r, s') \<and>
      reconciled (\<lambda>k. fst k = u) (rows_by_key fr_key old)
        (rows_by_key fr_key (map ServerFriendToLocalFriend infos))
        (rows_by_key fr_key (ft_rows (fs_friends s'))) r"
  using SyncAllFriendList_reconciles [OF lg.gorm_table_axioms any_order_rev, of
      "page_server [sample_friend ''u'' ''a'', sample_friend ''u'' ''b'']"
      "[sample_friend ''u'' ''a'', sample_friend ''u'' ''b'']" "''u''"
      "sample_state [ServerFriendToLocalFriend (sample_friend ''u'' ''c'')] ([] :: LocalBlack list) ([] :: LocalFriendRequest list) [False, False, True]"
      "ServerFriendToLocalFriend (sample_friend ''u'' ''c'')"]
  by (simp add: sample_simps)

section \<open>The black list\<close>

text \<open>What an update leaves of a black-list row: the server's non-empty columns over the old row.\<close>

definition black_target :: "LocalBlack list \<Rightarrow> (string \<times> string \<Rightarrow> LocalBlack option) \<Rightarrow> string \<times> string \<Rightarrow> LocalBlack option" where
  "black_target server old k =
     (case rows_by_key bl_key server k of
        None \<Rightarrow> None
      | Some x \<Rightarrow> (case old k of None \<Rightarrow> Some x | Some y \<Rightarrow> Some (if x = y then y else black_nonzero_over x y)))"

lemma black_read:
  "on_blacks (GetBlackListDB G) s = (r, s1) \<Longrightarrow>
   \<exists>r0. gorm_find G (\<lambda>r. True) (fs_blacks s) = (r0, fs_blacks s1) \<and> (\<forall>ls. r = Inr ls \<longleftrightarrow> r0 = Inr ls)"
  by (auto simp: on_blacks_def GetBlackListDB_def split: prod.splits)

lemma black_sync_target:
  "sync_target (=) (blockSyncer G u) black_nonzero_over xs False (tab_of rows bl_key fs_blacks (\<lambda>k. True) s) k =
     black_target xs (rows_by_key bl_key (rows (fs_blacks s))) k"
  by (simp add: sync_target_def black_target_def sy_eq_def black_ops rows_by_key_def tab_of_def view_def
      split: option.splits)

text \<open>
  The black list after \<^verbatim>\<open>SyncAllBlackList\<close>. As for the friends, except that an existing row
  that differs from the server's keeps every column that is empty or 0 on the server, because
  \<^verbatim>\<open>UpdateBlack\<close> leaves those out of its statement (and fails if it leaves out all): with no error reported, each row is the
  server's only up to such columns.
\<close>
theorem SyncAllBlackList_reconciles:
  assumes "gorm_table G rows bl_key" and "any_order iter"
    and "serves_pages request infos"
    and "\<forall>x \<in> set infos. good_black u (ServerBlackToLocalBlack x)"
    and "distinct (map bl_key (map ServerBlackToLocalBlack infos))"
    and "distinct (map bl_key (rows (fs_blacks s)))"
    and "\<forall>y \<in> set (rows (fs_blacks s)). good_black u y"
  shows "\<exists>r s'. SyncAllBlackList (=) zero iter G u request s = Some (r, s') \<and>
    reconciled (\<lambda>k. True) (rows_by_key bl_key (rows (fs_blacks s)))
      (black_target (map ServerBlackToLocalBlack infos) (rows_by_key bl_key (rows (fs_blacks s))))
      (rows_by_key bl_key (rows (fs_blacks s'))) r"
proof -
  let ?run = "case on_blacks (GetBlackListDB G) s of (Inl e, s2) \<Rightarrow> (Some e, s2)
    | (Inr localData, s2) \<Rightarrow> Sync (=) zero iter (blockSyncer G u) (map ServerBlackToLocalBlack infos) localData None [] s2"
  obtain r s' where run: "?run = (r, s')" by fastforce
  have "reconciled (\<lambda>k. True) (rows_by_key bl_key (rows (fs_blacks s)))
      (black_target (map ServerBlackToLocalBlack infos) (rows_by_key bl_key (rows (fs_blacks s))))
      (rows_by_key bl_key (rows (fs_blacks s'))) r"
    by (rule table_syncer.fetched_sync [OF black_table_syncer [OF assms(1)], where iter = iter and zero = zero
          and server = "map ServerBlackToLocalBlack infos" and read_local = "on_blacks (GetBlackListDB G)"])
      (use run assms black_read [of G s] in simp_all, rule black_sync_target)
  with run show ?thesis
    by (simp add: SyncAllBlackList_def fetch_and_sync_serves [OF assms(3)])
qed

definition sample_black :: "string \<Rightarrow> string \<Rightarrow> string \<Rightarrow> BlackInfo" where
  "sample_black owner other ex = \<lparr>bi_OwnerUserID = owner, bi_CreateTime = 0,
     bi_BlackUserInfo = \<lparr>ui_UserID = other, ui_Nickname = other, ui_FaceURL = []\<rparr>,
     bi_AddSource = 0, bi_OperatorUserID = [], bi_Ex = ex\<rparr>"

theorem SyncAllBlackList_reconciles_witness:
  "let u = ''u''; infos = [sample_black u ''a'' []];
       old = [ServerBlackToLocalBlack (sample_black u ''a'' ''x'')];
       s = sample_state ([] :: LocalFriend list) old ([] :: LocalFriendRequest list) []
   in \<exists>r s'. SyncAllBlackList (=) (hd old) rev (list_gorm bl_key) u (page_server infos) s = Some (r, s') \<and>
      reconciled (\<lambda>k. True) (rows_by_key bl_key old)
        (black_target (map ServerBlackToLocalBlack infos) (rows_by_key bl_key old))
        (rows_by_key bl_key (ft_rows (fs_blacks s'))) r"
  using SyncAllBlackList_reconciles [OF lg.gorm_table_axioms any_order_rev, of
      "page_server [sample_black ''u'' ''a'' []]" "[sample_black ''u'' ''a'' []]" "''u''"
      "sample_state ([] :: LocalFriend list) [ServerBlackToLocalBlack (sample_black ''u'' ''a'' ''x'')] ([] :: LocalFriendRequest list) []"
      "ServerBlackToLocalBlack (sample_black ''u'' ''a'' ''x'')"]
  by (simp add: sample_black_def sample_state_def ServerBlackToLocalBlack_def bl_key_def good_black_def page_server_serves)

text \<open>
  A column cleared on the server stays in the local black list although the run reports
  success: the server's row for \<open>a\<close> has an empty \<^verbatim>\<open>Ex\<close>, the local row keeps \<open>x\<close>.
\<close>
theorem SyncAllBlackList_stale_column:
  "let u = ''u''; old = ServerBlackToLocalBlack (sample_black u ''a'' ''x'');
       s = sample_state ([] :: LocalFriend list) [old] ([] :: LocalFriendRequest list) []
   in \<exists>s'. SyncAllBlackList (=) old (\<lambda>m. m) (list_gorm bl_key) u (page_server [sample_black u ''a'' []]) s = Some (None, s') \<and>
        map bl_Ex (ft_rows (fs_blacks s')) = [''x'']"
  by (simp add: SyncAllBlackList_def fetch_and_sync_serves [OF page_server_serves] Let_def
      sample_black_def sample_state_def ServerBlackToLocalBlack_def on_blacks_def GetBlackListDB_def
      list_gorm_def next_fault_def Sync_def slice_to_map_def bl_key_def sy_eq_def black_ops
      UpdateBlack_def black_blank_def gorm_updates_pk2_def update_result_def black_nonzero_over_def
      nz_str_def nz_int_def and_then_def onNotice_def black_notice_def emit_def skip_act_def)

section \<open>Received friend requests\<close>

lemma request_read:
  "on_requests (GetRecvFriendApplication G u) s = (r, s1) \<Longrightarrow>
   \<exists>r0. gorm_find G (\<lambda>r. snd (frq_key r) = u) (fs_requests s) = (r0, fs_requests s1) \<and> (\<forall>ls. r = Inr ls \<longleftrightarrow> r0 = Inr ls)"
  by (auto simp: on_requests_def GetRecvFriendApplication_def frq_key_def split: prod.splits sum.splits)

lemma request_target:
  "sync_target (=) (requestRecvSyncer G) (\<lambda>x y. x) xs False t k = rows_by_key frq_key xs k"
  by (simp add: requestRecvSyncer_def sync_target_copy request_ops rows_by_key_def)

text \<open>
  The friend requests sent to the login user are reconciled by \<^verbatim>\<open>SyncAllFriendApplication\<close>,
  under the same conditions as the friends.
\<close>
theorem SyncAllFriendApplication_reconciles:
  assumes "gorm_table G rows frq_key" and "any_order iter"
    and "serves_pages request infos"
    and "\<forall>x \<in> set infos. good_request (\<lambda>k. snd k = u) (ServerFriendRequestToLocalFriendRequest x)"
    and "distinct (map frq_key (map ServerFriendRequestToLocalFriendRequest infos))"
    and "distinct (map frq_key (rows (fs_requests s)))"
    and "\<forall>y \<in> set (rows (fs_requests s)). snd (frq_key y) = u \<longrightarrow> good_request (\<lambda>k. snd k = u) y"
  shows "\<exists>r s'. SyncAllFriendApplication (=) zero iter G u request s = Some (r, s') \<and>
    reconciled (\<lambda>k. snd k = u) (rows_by_key frq_key (rows (fs_requests s)))
      (rows_by_key frq_key (map ServerFriendRequestToLocalFriendRequest infos))
      (rows_by_key frq_key (rows (fs_requests s'))) r"
proof -
  let ?run = "case on_requests (GetRecvFriendApplication G u) s of (Inl e, s2) \<Rightarrow> (Some e, s2)
    | (Inr localData, s2) \<Rightarrow> Sync (=) zero iter (requestRecvSyncer G) (map ServerFriendRequestToLocalFriendRequest infos) localData None [] s2"
  obtain r s' where run: "?run = (r, s')" by fastforce
  have recv: "table_syncer G rows frq_key (requestRecvSyncer G) fs_requests (\<lambda>k. snd k = u) (\<lambda>x y. x) (good_request (\<lambda>k. snd k = u))"
    unfolding requestRecvSyncer_def by (rule request_table_syncer [OF assms(1)]) simp
  have "reconciled (\<lambda>k. snd k = u) (rows_by_key frq_key (rows (fs_requests s)))
      (rows_by_key frq_key (map ServerFriendRequestToLocalFriendRequest infos))
      (rows_by_key frq_key (rows (fs_requests s'))) r"
    by (rule table_syncer.fetched_sync [OF recv, where iter = iter and zero = zero
          and server = "map ServerFriendRequestToLocalFriendRequest infos"
          and read_local = "on_requests (GetRecvFriendApplication G u)"])
      (use run assms request_read [of G u s] in simp_all, rule request_target)
  with run show ?thesis
    by (simp add: SyncAllFriendApplication_def fetch_and_sync_serves [OF assms(3)])
qed

definition sample_request :: "string \<Rightarrow> string \<Rightarrow> int \<Rightarrow> FriendRequest" where
  "sample_request src dst result = \<lparr>fq_FromUserID = src, fq_FromNickname = src, fq_FromFaceURL = [],
     fq_ToUserID = dst, fq_ToNickname = dst, fq_ToFaceURL = [], fq_HandleResult = result, fq_ReqMsg = [],
     fq_CreateTime = 0, fq_HandlerUserID = [], fq_HandleMsg = [], fq_HandleTime = 0, fq_Ex = []\<rparr>"

theorem SyncAllFriendApplication_reconciles_witness:
  "let u = ''u''; infos = [sample_request ''a'' u 1];
       old = [ServerFriendRequestToLocalFriendRequest (sample_request ''a'' u 0)];
       s = sample_state ([] :: LocalFriend list) ([] :: LocalBlack list) old []
   in \<exists>r s'. SyncAllFriendApplication (=) (hd old) rev (list_gorm frq_key) u (page_server infos) s = Some (r, s') \<and>
      reconciled (\<lambda>k. snd k = u) (rows_by_key frq_key old)
        (rows_by_key frq_key (map ServerFriendRequestToLocalFriendRequest infos))
        (rows_by_key frq_key (ft_rows (fs_requests s'))) r"
  using SyncAllFriendApplication_reconciles [OF lg.gorm_table_axioms any_order_rev, of
      "page_server [sample_request ''a'' ''u'' 1]" "[sample_request ''a'' ''u'' 1]" "''u''"
      "sample_state ([] :: LocalFriend list) ([] :: LocalBlack list)
         [ServerFriendRequestToLocalFriendRequest (sample_request ''a'' ''u'' 0)] []"
      "ServerFriendRequestToLocalFriendRequest (sample_request ''a'' ''u'' 0)"]
  by (simp add: sample_request_def sample_state_def ServerFriendRequestToLocalFriendRequest_def
      frq_key_def good_request_def page_server_serves)

end
