(* ===== verification/Messages.thy ===== *)
theory Messages
  imports Prelude
begin

text \<open>
  The messages the components exchange: \<^verbatim>\<open>sdk_struct\<close>'s message structures and, as far as the SDK
  reads them, the \<^verbatim>\<open>sdkws\<close> messages of the protocol. A pointer that can be nil is an option. The
  type \<open>'q\<close> is that of a message quoted inside another, which no component looks into.
\<close>

section \<open>Structures of sdk_struct\<close>

record OfflinePushInfo =
  opi_Title :: string
  opi_Desc :: string

record MessageEntity =
  men_Type :: string
  men_Offset :: int
  men_Length :: int
  men_Url :: string
  men_Ex :: string

record AtInfo =
  ai_AtUserID :: string
  ai_GroupNickname :: string

record GroupHasReadInfo =
  ghr_HasReadUserIDList :: "string list"
  ghr_HasReadCount :: int
  ghr_GroupMemberCount :: int

record UploadProgress =
  upg_Total :: int
  upg_Save :: int
  upg_Current :: int
  upg_UploadID :: string

record AttachedInfoElem =
  ae_GroupHasReadInfo :: GroupHasReadInfo
  ae_IsPrivateChat :: bool
  ae_BurnDuration :: int
  ae_HasReadTime :: int
  ae_MessageEntityList :: "MessageEntity list"
  ae_IsEncryption :: bool
  ae_InEncryptStatus :: bool
  ae_Progress :: "UploadProgress option"

record PictureBaseInfo =
  pbi_UUID :: string
  pbi_Type :: string
  pbi_Size :: int
  pbi_Width :: int
  pbi_Height :: int
  pbi_Url :: string

record SoundBaseInfo =
  sbi_UUID :: string
  sbi_SoundPath :: string
  sbi_SourceURL :: string
  sbi_DataSize :: int
  sbi_Duration :: int
  sbi_SoundType :: string

record VideoBaseInfo =
  vbi_VideoPath :: string
  vbi_VideoUUID :: string
  vbi_VideoURL :: string
  vbi_VideoType :: string
  vbi_VideoSize :: int
  vbi_Duration :: int
  vbi_SnapshotPath :: string
  vbi_SnapshotUUID :: string
  vbi_SnapshotSize :: int
  vbi_SnapshotURL :: string
  vbi_SnapshotWidth :: int
  vbi_SnapshotHeight :: int
  vbi_SnapshotType :: string

record FileBaseInfo =
  fbi_FilePath :: string
  fbi_UUID :: string
  fbi_SourceURL :: string
  fbi_FileName :: string
  fbi_FileSize :: int
  fbi_FileType :: string

record TextElem =
  te_Content :: string

record CardElem =
  ce_UserID :: string
  ce_Nickname :: string
  ce_FaceURL :: string
  ce_Ex :: string

record PictureElem =
  pe_SourcePath :: string
  pe_SourcePicture :: "PictureBaseInfo option"
  pe_BigPicture :: "PictureBaseInfo option"
  pe_SnapshotPicture :: "PictureBaseInfo option"

record SoundElem =
  se_UUID :: string
  se_SoundPath :: string
  se_SourceURL :: string
  se_DataSize :: int
  se_Duration :: int
  se_SoundType :: string

record VideoElem =
  ve_VideoPath :: string
  ve_VideoUUID :: string
  ve_VideoURL :: string
  ve_VideoType :: string
  ve_VideoSize :: int
  ve_Duration :: int
  ve_SnapshotPath :: string
  ve_SnapshotUUID :: string
  ve_SnapshotSize :: int
  ve_SnapshotURL :: string
  ve_SnapshotWidth :: int
  ve_SnapshotHeight :: int
  ve_SnapshotType :: string

record FileElem =
  fe_FilePath :: string
  fe_UUID :: string
  fe_SourceURL :: string
  fe_FileName :: string
  fe_FileSize :: int
  fe_FileType :: string

record 'q MergeElem =
  me_Title :: string
  me_AbstractList :: "string list"
  me_MultiMessage :: "'q list"
  me_MessageEntityList :: "MessageEntity list"

record 'q AtTextElem =
  ate_Text :: string
  ate_AtUserList :: "string list"
  ate_AtUsersInfo :: "AtInfo list"
  ate_QuoteMessage :: "'q option"
  ate_IsAtSelf :: bool

record FaceElem =
  fae_Index :: int
  fae_Data :: string

record LocationElem =
  le_Description :: string
  le_Longitude :: "64 word"
  le_Latitude :: "64 word"

record CustomElem =
  cue_Data :: string
  cue_Description :: string
  cue_Extension :: string

record 'q QuoteElem =
  qe_Text :: string
  qe_QuoteMessage :: "'q option"
  qe_MessageEntityList :: "MessageEntity list"

record NotificationElem =
  ne_Detail :: string

record AdvancedTextElem =
  ade_Text :: string
  ade_MessageEntityList :: "MessageEntity list"

record TypingElem =
  tye_MsgTips :: string

record 'q MsgStruct =
  ms_ClientMsgID :: string
  ms_ServerMsgID :: string
  ms_CreateTime :: int
  ms_SendTime :: int
  ms_SessionType :: int
  ms_SendID :: string
  ms_RecvID :: string
  ms_MsgFrom :: int
  ms_ContentType :: int
  ms_SenderPlatformID :: int
  ms_SenderNickname :: string
  ms_SenderFaceURL :: string
  ms_GroupID :: string
  ms_Content :: string
  ms_Seq :: int
  ms_IsRead :: bool
  ms_Status :: int
  ms_IsReact :: bool
  ms_IsExternalExtensions :: bool
  ms_OfflinePush :: "OfflinePushInfo option"
  ms_AttachedInfo :: string
  ms_Ex :: string
  ms_LocalEx :: string
  ms_TextElem :: "TextElem option"
  ms_CardElem :: "CardElem option"
  ms_PictureElem :: "PictureElem option"
  ms_SoundElem :: "SoundElem option"
  ms_VideoElem :: "VideoElem option"
  ms_FileElem :: "FileElem option"
  ms_MergeElem :: "'q MergeElem option"
  ms_AtTextElem :: "'q AtTextElem option"
  ms_FaceElem :: "FaceElem option"
  ms_LocationElem :: "LocationElem option"
  ms_CustomElem :: "CustomElem option"
  ms_QuoteElem :: "'q QuoteElem option"
  ms_NotificationElem :: "NotificationElem option"
  ms_AdvancedTextElem :: "AdvancedTextElem option"
  ms_TypingElem :: "TypingElem option"
  ms_AttachedInfoElem :: "AttachedInfoElem option"

record MessageReceipt =
  mrc_GroupID :: string
  mrc_UserID :: string
  mrc_MsgIDList :: "string list"
  mrc_ReadTime :: int
  mrc_MsgFrom :: int
  mrc_ContentType :: int
  mrc_SessionType :: int

record MessageRevoked =
  mrv_RevokerID :: string
  mrv_RevokerRole :: int
  mrv_ClientMsgID :: string
  mrv_RevokerNickname :: string
  mrv_RevokeTime :: int
  mrv_SourceMessageSendTime :: int
  mrv_SourceMessageSendID :: string
  mrv_SourceMessageSenderNickname :: string
  mrv_SessionType :: int
  mrv_Seq :: int
  mrv_Ex :: string
  mrv_IsAdminRevoke :: bool

section \<open>Protocol messages\<close>

record MsgData =
  md_SendID :: string
  md_RecvID :: string
  md_GroupID :: string
  md_ClientMsgID :: string
  md_ServerMsgID :: string
  md_SenderPlatformID :: int
  md_SenderNickname :: string
  md_SenderFaceURL :: string
  md_SessionType :: int
  md_MsgFrom :: int
  md_ContentType :: int
  md_Content :: string
  md_Seq :: int
  md_SendTime :: int
  md_CreateTime :: int
  md_Status :: int
  md_IsRead :: bool
  md_Options :: "(string, bool) gomap"
  md_OfflinePushInfo :: "OfflinePushInfo option"
  md_AttachedInfo :: string
  md_Ex :: string

record PullMsgs =
  pm_Msgs :: "MsgData list"
  pm_IsEnd :: bool

record PushMessages =
  push_Msgs :: "(string, PullMsgs) gomap"
  push_NotificationMsgs :: "(string, PullMsgs) gomap"

record SeqRange =
  sr_ConversationID :: string
  sr_Begin :: int
  sr_End :: int
  sr_Num :: int

record PullMessageBySeqsResp =
  pr_Msgs :: "(string, PullMsgs) gomap"
  pr_NotificationMsgs :: "(string, PullMsgs) gomap"

record CmdNewMsgComeToConversation =
  cnm_Msgs :: "(string, PullMsgs) gomap"
  cnm_SyncFlag :: int

section \<open>Constants\<close>

definition SingleChatType :: int where "SingleChatType = 1"
definition GroupChatType :: int where "GroupChatType = 2"
definition SuperGroupChatType :: int where "SuperGroupChatType = 3"
definition NotificationChatType :: int where "NotificationChatType = 4"

definition MsgStatusDefault :: int where "MsgStatusDefault = 0"
definition MsgStatusSending :: int where "MsgStatusSending = 1"
definition MsgStatusSendSuccess :: int where "MsgStatusSendSuccess = 2"
definition MsgStatusSendFailed :: int where "MsgStatusSendFailed = 3"
definition MsgStatusHasDeleted :: int where "MsgStatusHasDeleted = 4"
definition MsgStatusFiltered :: int where "MsgStatusFiltered = 5"

definition MsgSyncBegin :: int where "MsgSyncBegin = 1001"
definition MsgSyncProcessing :: int where "MsgSyncProcessing = 1002"
definition MsgSyncEnd :: int where "MsgSyncEnd = 1003"
definition MsgSyncFailed :: int where "MsgSyncFailed = 1004"

lemmas session_types = SingleChatType_def GroupChatType_def SuperGroupChatType_def NotificationChatType_def
lemmas msg_status = MsgStatusDefault_def MsgStatusSending_def MsgStatusSendSuccess_def
  MsgStatusSendFailed_def MsgStatusHasDeleted_def MsgStatusFiltered_def

end
