(* ===== verification/Channel.thy ===== *)
theory Channel
  imports Messages Models
begin

text \<open>
  \<^verbatim>\<open>pkg/common/trigger_channel.go\<close>: the commands the components send each other over buffered
  channels. A send waits at most 100 ms for room, so its outcome depends on the receiver: a
  channel is the list of values accepted so far together with a schedule that says of each
  send whether it finds room in time (once the schedule is used up, it does). \<open>None\<close> is a nil
  channel, on which a send can only time out.
\<close>

record DeleteConNode =
  dcn_SourceID :: string
  dcn_ConversationID :: string
  dcn_SessionType :: int

record SourceIDAndSessionType =
  sst_SourceID :: string
  sst_SessionType :: int
  sst_FaceURL :: string
  sst_Nickname :: string

record UpdateMessageInfo =
  umi_SessionType :: int
  umi_UserID :: string
  umi_FaceURL :: string
  umi_Nickname :: string
  umi_GroupID :: string

text \<open>The types the \<^verbatim>\<open>interface\<close> field \<^verbatim>\<open>Args\<close> holds in this code.\<close>

datatype con_args =
    ArgNil
  | ArgConversation LocalConversation
  | ArgSource SourceIDAndSessionType
  | ArgIDs "string list"
  | ArgText string
  | ArgReadList "(string, string list) gomap"

record UpdateConNode =
  ucn_ConID :: string
  ucn_Action :: int
  ucn_Args :: con_args

record UpdateMessageNode =
  umn_Action :: int
  umn_Args :: "UpdateMessageInfo option"

datatype cmd_payload =
    PNil
  | PNewMsgs CmdNewMsgComeToConversation
  | PMaxSeq "(string, int) gomap"
  | PPush PushMessages
  | PDeleteCon DeleteConNode
  | PUpdateCon UpdateConNode
  | PUpdateMsg UpdateMessageNode
  | PText string

record Cmd2Value =
  c2v_Cmd :: string
  c2v_Value :: cmd_payload

definition CmdNotification :: string where "CmdNotification = ''003''"
definition CmdDeleteConversation :: string where "CmdDeleteConversation = ''004''"
definition CmdNewMsgCome :: string where "CmdNewMsgCome = ''005''"
definition CmdSuperGroupMsgCome :: string where "CmdSuperGroupMsgCome = ''006''"
definition CmdUpdateConversation :: string where "CmdUpdateConversation = ''007''"
definition CmdUnInit :: string where "CmdUnInit = ''014''"
definition CmdJoinedSuperGroup :: string where "CmdJoinedSuperGroup = ''018''"
definition CmdUpdateMessage :: string where "CmdUpdateMessage = ''019''"
definition CmdMaxSeq :: string where "CmdMaxSeq = ''maxSeq''"
definition CmdPushMsg :: string where "CmdPushMsg = ''pushMsg''"
definition CmdConnSuccesss :: string where "CmdConnSuccesss = ''connSuccess''"
definition CmdWakeUp :: string where "CmdWakeUp = ''wakeUp''"
definition CmdLogOut :: string where "CmdLogOut = ''loginOut''"

section \<open>Channels\<close>

record chan =
  ch_sent :: "Cmd2Value list"
  ch_room :: "bool list"

definition sendCmd :: "Cmd2Value \<Rightarrow> chan option action" where
  "sendCmd v ch =
     (case ch of
        None \<Rightarrow> (Some (GoError ''send cmd timeout''), None)
      | Some c \<Rightarrow>
          (case ch_room c of
             False # rest \<Rightarrow> (Some (GoError ''send cmd timeout''), Some (c\<lparr>ch_room := rest\<rparr>))
           | rooms \<Rightarrow> (None, Some (c\<lparr>ch_sent := ch_sent c @ [v], ch_room := drop 1 rooms\<rparr>))))"

definition send_unless_nil :: "Cmd2Value \<Rightarrow> chan option action" where
  "send_unless_nil v ch =
     (case ch of None \<Rightarrow> (wrap_err (Some (GoError ''ch == nil'')) [], ch) | Some _ \<Rightarrow> sendCmd v ch)"

definition TriggerCmdJoinedSuperGroup :: "string \<Rightarrow> chan option action" where
  "TriggerCmdJoinedSuperGroup operationID = send_unless_nil \<lparr>c2v_Cmd = CmdJoinedSuperGroup, c2v_Value = PText operationID\<rparr>"

definition TriggerCmdNewMsgCome :: "CmdNewMsgComeToConversation \<Rightarrow> chan option action" where
  "TriggerCmdNewMsgCome msg = send_unless_nil \<lparr>c2v_Cmd = CmdNewMsgCome, c2v_Value = PNewMsgs msg\<rparr>"

definition TriggerCmdSuperGroupMsgCome :: "CmdNewMsgComeToConversation \<Rightarrow> chan option action" where
  "TriggerCmdSuperGroupMsgCome msg = send_unless_nil \<lparr>c2v_Cmd = CmdSuperGroupMsgCome, c2v_Value = PNewMsgs msg\<rparr>"

definition TriggerCmdNotification :: "CmdNewMsgComeToConversation \<Rightarrow> chan option action" where
  "TriggerCmdNotification msg = send_unless_nil \<lparr>c2v_Cmd = CmdNotification, c2v_Value = PNewMsgs msg\<rparr>"

definition TriggerCmdWakeUp :: "chan option action" where
  "TriggerCmdWakeUp = send_unless_nil \<lparr>c2v_Cmd = CmdWakeUp, c2v_Value = PNil\<rparr>"

definition TriggerCmdDeleteConversationAndMessage :: "string \<Rightarrow> string \<Rightarrow> int \<Rightarrow> chan option action" where
  "TriggerCmdDeleteConversationAndMessage sourceID conversationID sessionType =
     send_unless_nil \<lparr>c2v_Cmd = CmdDeleteConversation, c2v_Value =
       PDeleteCon \<lparr>dcn_SourceID = sourceID, dcn_ConversationID = conversationID, dcn_SessionType = sessionType\<rparr>\<rparr>"

definition TriggerCmdUpdateConversation :: "UpdateConNode \<Rightarrow> chan option action" where
  "TriggerCmdUpdateConversation node = sendCmd \<lparr>c2v_Cmd = CmdUpdateConversation, c2v_Value = PUpdateCon node\<rparr>"

definition TriggerCmdUpdateMessage :: "UpdateMessageNode \<Rightarrow> chan option action" where
  "TriggerCmdUpdateMessage node = sendCmd \<lparr>c2v_Cmd = CmdUpdateMessage, c2v_Value = PUpdateMsg node\<rparr>"

definition TriggerCmdPushMsg :: "PushMessages \<Rightarrow> chan option action" where
  "TriggerCmdPushMsg msg = send_unless_nil \<lparr>c2v_Cmd = CmdPushMsg, c2v_Value = PPush msg\<rparr>"

definition TriggerCmdMaxSeq :: "(string, int) gomap \<Rightarrow> chan option action" where
  "TriggerCmdMaxSeq seq = send_unless_nil \<lparr>c2v_Cmd = CmdMaxSeq, c2v_Value = PMaxSeq seq\<rparr>"

definition TriggerCmdLogOut :: "chan option action" where
  "TriggerCmdLogOut = send_unless_nil \<lparr>c2v_Cmd = CmdLogOut, c2v_Value = PNil\<rparr>"

definition TriggerCmdConnected :: "chan option action" where
  "TriggerCmdConnected = send_unless_nil \<lparr>c2v_Cmd = CmdConnSuccesss, c2v_Value = PNil\<rparr>"

definition UnInitAll :: "chan option action" where
  "UnInitAll = sendCmd \<lparr>c2v_Cmd = CmdUnInit, c2v_Value = PNil\<rparr>"

text \<open>The values accepted so far: a send appends its value, or reports an error and leaves them.\<close>

definition accepted :: "chan option \<Rightarrow> Cmd2Value list" where
  "accepted ch = (case ch of None \<Rightarrow> [] | Some c \<Rightarrow> ch_sent c)"

lemma sendCmd_accepted:
  "sendCmd v ch = (r, ch') \<Longrightarrow> accepted ch' = accepted ch @ (if r = None then [v] else [])"
  by (auto simp: sendCmd_def accepted_def split: option.splits list.splits bool.splits)

lemma send_unless_nil_accepted:
  "send_unless_nil v ch = (r, ch') \<Longrightarrow> accepted ch' = accepted ch @ (if r = None then [v] else [])"
  by (auto simp: send_unless_nil_def wrap_err_def dest: sendCmd_accepted split: option.splits)

end
