(* ===== verification/MsgSync.thy ===== *)
theory MsgSync
  imports Channel
begin

text \<open>
  \<^verbatim>\<open>internal/interaction/msg_sync.go\<close>: the goroutine that compares the sequence numbers seen with
  those of the server and pulls what is missing. The database and the request over the long
  connection are parameters (Go interfaces and a network call); the iteration orders of the
  maps are parameters too. \<open>mx_pulled\<close> is a ghost: the ranges of the requests the server has
  answered, for stating what the recorded sequence numbers mean.
\<close>

section \<open>State and environment\<close>

record ('d, 'n) msg_syncer =
  mx_synced :: "(string, int) gomap"
  mx_reinstalled :: bool
  mx_db :: 'd
  mx_net :: 'n
  mx_conv :: "chan option"
  mx_pulled :: "SeqRange list"

type_synonym seq_map = "(string, int \<times> int) gomap"

record ('d, 'n) sync_env =
  se_GetAllConversationIDList :: "'d \<Rightarrow> (go_error + string list) \<times> 'd"
  se_GetConversationNormalMsgSeq :: "string \<Rightarrow> 'd \<Rightarrow> (go_error + int) \<times> 'd"
  se_GetNotificationAllSeqs :: "'d \<Rightarrow> (go_error + NotificationSeqs list) \<times> 'd"
  se_SetNotificationSeq :: "string \<Rightarrow> int \<Rightarrow> 'd action"
  se_GetNewestSeq :: "'n \<Rightarrow> (go_error + (string, int) gomap) \<times> 'n"
  se_PullMsgBySeqList :: "SeqRange list \<Rightarrow> 'n \<Rightarrow> (go_error + PullMessageBySeqsResp) \<times> 'n"
  se_range_ranges :: "seq_map \<Rightarrow> seq_map"
  se_range_seqs :: "(string, int) gomap \<Rightarrow> (string, int) gomap"
  se_range_msgs :: "(string, PullMsgs) gomap \<Rightarrow> (string, PullMsgs) gomap"

definition connectPullNums :: int where "connectPullNums = 1"
definition defaultPullNums :: int where "defaultPullNums = 10"
definition SplitPullMsgNum :: int where "SplitPullMsgNum = 100"

definition IsNotification :: "string \<Rightarrow> bool" where
  "IsNotification conversationID \<longleftrightarrow> take 2 conversationID = ''n_''"

text \<open>\<^verbatim>\<open>syncedMaxSeqs[k]\<close>: the zero value when there is no entry.\<close>

definition synced_seq :: "('d, 'n) msg_syncer \<Rightarrow> string \<Rightarrow> int" where
  "synced_seq m k = (case gget (mx_synced m) k of Some s \<Rightarrow> s | None \<Rightarrow> 0)"

definition set_synced :: "string \<Rightarrow> int \<Rightarrow> ('d, 'n) msg_syncer \<Rightarrow> ('d, 'n) msg_syncer" where
  "set_synced k v m = m\<lparr>mx_synced := gput k v (mx_synced m)\<rparr>"

section \<open>Loading the sequence numbers\<close>

fun load_conversations ::
  "('d, 'n) sync_env \<Rightarrow> string list \<Rightarrow> ('d, 'n) msg_syncer \<Rightarrow> ('d, 'n) msg_syncer" where
  "load_conversations E [] m = m"
| "load_conversations E (v # vs) m =
     (case se_GetConversationNormalMsgSeq E v (mx_db m) of
        (Inl e, d) \<Rightarrow> load_conversations E vs (m\<lparr>mx_db := d\<rparr>)
      | (Inr maxSyncedSeq, d) \<Rightarrow> load_conversations E vs (set_synced v maxSyncedSeq (m\<lparr>mx_db := d\<rparr>)))"

definition loadSeq :: "('d, 'n) sync_env \<Rightarrow> ('d, 'n) msg_syncer action" where
  "loadSeq E m =
     (case se_GetAllConversationIDList E (mx_db m) of
        (Inl e, d) \<Rightarrow> (Some e, m\<lparr>mx_db := d\<rparr>)
      | (Inr conversationIDList, d) \<Rightarrow>
          (let m1 = m\<lparr>mx_db := d, mx_reinstalled := (mx_reinstalled m \<or> conversationIDList = [])\<rparr>;
               m2 = load_conversations E conversationIDList m1
           in case se_GetNotificationAllSeqs E (mx_db m2) of
                (Inl e, d') \<Rightarrow> (Some e, m2\<lparr>mx_db := d'\<rparr>)
              | (Inr notificationSeqs, d') \<Rightarrow>
                  (None, fold (\<lambda>s. set_synced (ns_ConversationID s) (ns_Seq s)) notificationSeqs
                           (m2\<lparr>mx_db := d'\<rparr>))))"

text \<open>\<^verbatim>\<open>NewMsgSyncer\<close>: nil (\<open>None\<close>) with the error when the numbers cannot be loaded.\<close>

definition NewMsgSyncer ::
  "('d, 'n) sync_env \<Rightarrow> chan option \<Rightarrow> 'd \<Rightarrow> 'n \<Rightarrow> go_error option \<times> ('d, 'n) msg_syncer option" where
  "NewMsgSyncer E conversationCh d n =
     (case loadSeq E \<lparr>mx_synced = [], mx_reinstalled = False, mx_db = d, mx_net = n,
                      mx_conv = conversationCh, mx_pulled = []\<rparr> of
        (Some e, m) \<Rightarrow> (Some e, None)
      | (None, m) \<Rightarrow> (None, Some m))"

definition getSeqsNeedSync :: "int \<Rightarrow> int \<Rightarrow> int list" where
  "getSeqsNeedSync syncedMaxSeq maxSeq = [syncedMaxSeq + 1..maxSeq]"

section \<open>Pulling and triggering\<close>

definition on_conv :: "chan option action \<Rightarrow> ('d, 'n) msg_syncer action" where
  "on_conv a m = (case a (mx_conv m) of (r, c) \<Rightarrow> (r, m\<lparr>mx_conv := c\<rparr>))"

definition triggerConversation :: "(string, PullMsgs) gomap \<Rightarrow> ('d, 'n) msg_syncer action" where
  "triggerConversation msgs =
     on_conv (TriggerCmdNewMsgCome \<lparr>cnm_Msgs = msgs, cnm_SyncFlag = 0\<rparr>)"

definition triggerNotification :: "(string, PullMsgs) gomap \<Rightarrow> ('d, 'n) msg_syncer action" where
  "triggerNotification msgs =
     on_conv (TriggerCmdNotification \<lparr>cnm_Msgs = msgs, cnm_SyncFlag = 0\<rparr>)"

definition sync_flag :: "int \<Rightarrow> ('d, 'n) msg_syncer \<Rightarrow> ('d, 'n) msg_syncer" where
  "sync_flag flag m = snd (on_conv (TriggerCmdNotification \<lparr>cnm_Msgs = [], cnm_SyncFlag = flag\<rparr>) m)"

definition pullMsgBySeqRange ::
  "('d, 'n) sync_env \<Rightarrow> seq_map \<Rightarrow> int \<Rightarrow> ('d, 'n) msg_syncer \<Rightarrow>
   (go_error + PullMessageBySeqsResp) \<times> ('d, 'n) msg_syncer" where
  "pullMsgBySeqRange E seqMap syncMsgNum m =
     (let ranges = map (\<lambda>(k, b, e). \<lparr>sr_ConversationID = k, sr_Begin = b, sr_End = e, sr_Num = syncMsgNum\<rparr>)
                     (se_range_ranges E seqMap)
      in case se_PullMsgBySeqList E ranges (mx_net m) of
           (Inl e, n) \<Rightarrow> (Inl e, m\<lparr>mx_net := n\<rparr>)
         | (Inr resp, n) \<Rightarrow> (Inr resp, m\<lparr>mx_net := n, mx_pulled := mx_pulled m @ ranges\<rparr>))"

text \<open>
  The step that occurs three times in \<^verbatim>\<open>syncAndTriggerMsgs\<close>: pull the ranges of \<open>pull\<close>, hand the
  messages on (whatever becomes of the send) and record the ends of the ranges of \<open>done\<close>.
\<close>

definition pull_and_record ::
  "('d, 'n) sync_env \<Rightarrow> seq_map \<Rightarrow> seq_map \<Rightarrow> int \<Rightarrow> ('d, 'n) msg_syncer action" where
  "pull_and_record E pull recd syncMsgNum m =
     (case pullMsgBySeqRange E pull syncMsgNum m of
        (Inl e, m1) \<Rightarrow> (Some e, m1)
      | (Inr resp, m1) \<Rightarrow>
          (let m2 = snd (triggerConversation (pr_Msgs resp) m1);
               m3 = snd (triggerNotification (pr_NotificationMsgs resp) m2)
           in (None, fold (\<lambda>(k, seqs). set_synced k (snd seqs)) (se_range_ranges E recd) m3)))"

text \<open>
  The inner loop for a notification conversation with at least 200 sequence numbers: chunks of
  101 numbers, the counter forced to its last value when a chunk reaches the end.
\<close>

function split_loop ::
  "('d, 'n) sync_env \<Rightarrow> string \<Rightarrow> int \<times> int \<Rightarrow> int \<Rightarrow> int \<Rightarrow> int \<Rightarrow> int \<Rightarrow> int \<Rightarrow> ('d, 'n) msg_syncer action" where
  "split_loop E k v syncMsgNum cnt i startSeq fin m =
     (if cnt < i then (None, m)
      else
        (case (if i = cnt then ((startSeq, snd v), fin, i)
               else let e = i64 (startSeq + SplitPullMsgNum)
                    in if e > snd v then ((startSeq, snd v), snd v, cnt)
                       else ((startSeq, e), e, i)) of
           (seqs, fin', i') \<Rightarrow>
             (case pull_and_record E [(k, seqs)] [(k, seqs)] syncMsgNum m of
                (Some err, m') \<Rightarrow> (Some err, m')
              | (None, m') \<Rightarrow> split_loop E k v syncMsgNum cnt (i' + 1) (i64 (fin' + 1)) fin' m')))"
  by pat_completeness auto
termination split_loop
  by (relation "measure (\<lambda>(E, k, v, n, cnt, i, s, e, m). nat (cnt + 1 - i))")
    (auto simp: Let_def split: if_splits)

declare split_loop.simps [simp del]

fun sync_loop ::
  "('d, 'n) sync_env \<Rightarrow> int \<Rightarrow> (string \<times> int \<times> int) list \<Rightarrow> seq_map \<Rightarrow> int \<Rightarrow>
   ('d, 'n) msg_syncer \<Rightarrow> go_error option \<times> seq_map \<times> ('d, 'n) msg_syncer" where
  "sync_loop E syncMsgNum [] tempSeqMap msgNum m = (None, tempSeqMap, m)"
| "sync_loop E syncMsgNum ((k, v) # rest) tempSeqMap msgNum m =
     (let num = i64 (snd v - fst v + 1) in
      if num sdiv SplitPullMsgNum > 1 \<and> IsNotification k then
        (case split_loop E k v syncMsgNum (num sdiv SplitPullMsgNum) 0 (fst v) 0 m of
           (Some e, m') \<Rightarrow> (Some e, tempSeqMap, m')
         | (None, m') \<Rightarrow> sync_loop E syncMsgNum rest tempSeqMap msgNum m')
      else
        (let temp = gput k v tempSeqMap;
             msgNum' = (if num > 0 then i64 (msgNum + num) else msgNum)
         in if msgNum' \<ge> SplitPullMsgNum then
              (case pull_and_record E temp temp syncMsgNum m of
                 (Some e, m') \<Rightarrow> (Some e, temp, m')
               | (None, m') \<Rightarrow> sync_loop E syncMsgNum rest [] 0 m')
            else sync_loop E syncMsgNum rest temp msgNum' m))"

definition syncAndTriggerMsgs ::
  "('d, 'n) sync_env \<Rightarrow> seq_map \<Rightarrow> int \<Rightarrow> ('d, 'n) msg_syncer action" where
  "syncAndTriggerMsgs E seqMap syncMsgNum m =
     (if seqMap = [] then (None, m)
      else case sync_loop E syncMsgNum (se_range_ranges E seqMap) [] 0 m of
             (Some e, temp, m') \<Rightarrow> (Some e, m')
           | (None, temp, m') \<Rightarrow> pull_and_record E temp seqMap syncMsgNum m')"

section \<open>The events\<close>

text \<open>The loop that fills \<^verbatim>\<open>needSyncSeqMap\<close>, the same in both branches of \<^verbatim>\<open>compareSeqsAndBatchSync\<close>.\<close>

definition need_sync ::
  "('d, 'n) msg_syncer \<Rightarrow> (string \<times> int) list \<Rightarrow> seq_map" where
  "need_sync m seqs = fold (\<lambda>(conversationID, maxSeq) need.
     case gget (mx_synced m) conversationID of
       Some syncedMaxSeq \<Rightarrow>
         if maxSeq > syncedMaxSeq then gput conversationID (i64 (syncedMaxSeq + 1), maxSeq) need else need
     | None \<Rightarrow> gput conversationID (0, maxSeq) need) seqs []"

fun set_notification_seqs ::
  "('d, 'n) sync_env \<Rightarrow> (string \<times> int) list \<Rightarrow> ('d, 'n) msg_syncer \<Rightarrow> ('d, 'n) msg_syncer" where
  "set_notification_seqs E [] m = m"
| "set_notification_seqs E ((k, seq) # rest) m =
     (case se_SetNotificationSeq E k seq (mx_db m) of
        (Some e, d) \<Rightarrow> set_notification_seqs E rest (m\<lparr>mx_db := d\<rparr>)
      | (None, d) \<Rightarrow> set_notification_seqs E rest (set_synced k seq (m\<lparr>mx_db := d\<rparr>)))"

definition compareSeqsAndBatchSync ::
  "('d, 'n) sync_env \<Rightarrow> (string, int) gomap \<Rightarrow> int \<Rightarrow> ('d, 'n) msg_syncer \<Rightarrow> ('d, 'n) msg_syncer" where
  "compareSeqsAndBatchSync E maxSeqToSync pullNums m =
     (if mx_reinstalled m then
        (let notificationsSeqMap = fold (\<lambda>(k, s). gput k s) (filter (IsNotification \<circ> fst) (se_range_seqs E maxSeqToSync)) [];
             messagesSeqMap = fold (\<lambda>(k, s). gput k s) (filter (Not \<circ> IsNotification \<circ> fst) (se_range_seqs E maxSeqToSync)) [];
             m1 = set_notification_seqs E (se_range_seqs E notificationsSeqMap) m;
             need = need_sync m1 (se_range_seqs E messagesSeqMap)
         in snd (syncAndTriggerMsgs E need pullNums (m1\<lparr>mx_reinstalled := False\<rparr>)))
      else snd (syncAndTriggerMsgs E (need_sync m (se_range_seqs E maxSeqToSync)) pullNums m))"

definition doConnected :: "('d, 'n) sync_env \<Rightarrow> ('d, 'n) msg_syncer \<Rightarrow> ('d, 'n) msg_syncer" where
  "doConnected E m =
     (let m1 = sync_flag MsgSyncBegin m
      in case se_GetNewestSeq E (mx_net m1) of
           (Inl e, n) \<Rightarrow> sync_flag MsgSyncFailed (m1\<lparr>mx_net := n\<rparr>)
         | (Inr maxSeqs, n) \<Rightarrow>
             sync_flag MsgSyncEnd (compareSeqsAndBatchSync E maxSeqs connectPullNums (m1\<lparr>mx_net := n\<rparr>)))"

text \<open>
  A push: the two loops of \<^verbatim>\<open>pushTriggerAndSync\<close>. \<open>lastSeq\<close> and \<open>storageMsgs\<close> are declared outside
  the loop over the conversations and keep their values from one to the next.
\<close>

fun push_msgs ::
  "((string, PullMsgs) gomap \<Rightarrow> ('d, 'n) msg_syncer action) \<Rightarrow> string \<Rightarrow> MsgData list \<Rightarrow>
   int \<Rightarrow> MsgData list \<Rightarrow> ('d, 'n) msg_syncer \<Rightarrow> int \<times> MsgData list \<times> ('d, 'n) msg_syncer" where
  "push_msgs trigger k [] lastSeq storageMsgs m = (lastSeq, storageMsgs, m)"
| "push_msgs trigger k (msg # msgs) lastSeq storageMsgs m =
     (if md_Seq msg = 0
      then push_msgs trigger k msgs lastSeq storageMsgs
             (snd (trigger [(k, \<lparr>pm_Msgs = [msg], pm_IsEnd = False\<rparr>)] m))
      else push_msgs trigger k msgs (md_Seq msg) (storageMsgs @ [msg]) m)"

fun push_loop ::
  "((string, PullMsgs) gomap \<Rightarrow> ('d, 'n) msg_syncer action) \<Rightarrow> (string \<times> PullMsgs) list \<Rightarrow>
   int \<Rightarrow> MsgData list \<Rightarrow> seq_map \<Rightarrow> ('d, 'n) msg_syncer \<Rightarrow> seq_map \<times> ('d, 'n) msg_syncer" where
  "push_loop trigger [] lastSeq storageMsgs need m = (need, m)"
| "push_loop trigger ((k, msgs) # rest) lastSeq storageMsgs need m =
     (case push_msgs trigger k (pm_Msgs msgs) lastSeq storageMsgs m of
        (lastSeq, storageMsgs, m) \<Rightarrow>
          if lastSeq = i64 (synced_seq m k + int (length storageMsgs)) \<and> lastSeq \<noteq> 0 then
            push_loop trigger rest lastSeq storageMsgs need
              (set_synced k lastSeq (snd (trigger [(k, \<lparr>pm_Msgs = storageMsgs, pm_IsEnd = False\<rparr>)] m)))
          else if lastSeq \<noteq> 0 \<and> lastSeq > synced_seq m k then
            push_loop trigger rest lastSeq storageMsgs
              (gput k (i64 (synced_seq m k + 1), lastSeq) need) m
          else push_loop trigger rest lastSeq storageMsgs need m)"

definition pushTriggerAndSync ::
  "('d, 'n) sync_env \<Rightarrow> (string, PullMsgs) gomap \<Rightarrow>
   ((string, PullMsgs) gomap \<Rightarrow> ('d, 'n) msg_syncer action) \<Rightarrow> ('d, 'n) msg_syncer \<Rightarrow> ('d, 'n) msg_syncer" where
  "pushTriggerAndSync E pullMsgs trigger m =
     (if pullMsgs = [] then m
      else case push_loop trigger (se_range_msgs E pullMsgs) 0 [] [] m of
             (need, m') \<Rightarrow> snd (syncAndTriggerMsgs E need defaultPullNums m'))"

definition doPushMsg :: "('d, 'n) sync_env \<Rightarrow> PushMessages \<Rightarrow> ('d, 'n) msg_syncer \<Rightarrow> ('d, 'n) msg_syncer" where
  "doPushMsg E push m =
     pushTriggerAndSync E (push_NotificationMsgs push) triggerNotification
       (pushTriggerAndSync E (push_Msgs push) triggerConversation m)"

definition handlePushMsgAndEvent :: "('d, 'n) sync_env \<Rightarrow> Cmd2Value \<Rightarrow> ('d, 'n) msg_syncer \<Rightarrow> ('d, 'n) msg_syncer" where
  "handlePushMsgAndEvent E cmd m =
     (if c2v_Cmd cmd = CmdConnSuccesss then doConnected E m
      else if c2v_Cmd cmd = CmdMaxSeq then
        (case c2v_Value cmd of PMaxSeq seqs \<Rightarrow> compareSeqsAndBatchSync E seqs defaultPullNums m | _ \<Rightarrow> m)
      else if c2v_Cmd cmd = CmdPushMsg then
        (case c2v_Value cmd of PPush push \<Rightarrow> doPushMsg E push m | _ \<Rightarrow> m)
      else m)"

text \<open>\<^verbatim>\<open>DoListener\<close> over the commands received until the context is done.\<close>

definition MsgSyncer_DoListener :: "('d, 'n) sync_env \<Rightarrow> Cmd2Value list \<Rightarrow> ('d, 'n) msg_syncer \<Rightarrow> ('d, 'n) msg_syncer" where
  "MsgSyncer_DoListener E cmds m = fold (handlePushMsgAndEvent E) cmds m"

section \<open>Pulling by sequence numbers\<close>

text \<open>
  \<^verbatim>\<open>splitSeqs\<close>: the loop steps by \<open>split\<close>, so it would not end for a \<open>split\<close> of 0. The loop of
  \<^verbatim>\<open>syncMsgBySeqs\<close> sends the same request for every chunk (the request's ranges are never filled
  in) and repeats it as long as it fails; an answer without the conversation is a nil entry,
  whose use panics.
\<close>

partial_function (option) split_from :: "nat \<Rightarrow> nat \<Rightarrow> int list \<Rightarrow> int list list \<Rightarrow> int list list option" where
  "split_from split i seqsNeedSync acc =
     (if i < length seqsNeedSync
      then (let fin = (if i + split > length seqsNeedSync then length seqsNeedSync else i + split)
            in split_from split (i + split) seqsNeedSync (acc @ [take (fin - i) (drop i seqsNeedSync)]))
      else Some acc)"

definition splitSeqs :: "nat \<Rightarrow> int list \<Rightarrow> int list list option" where
  "splitSeqs split seqsNeedSync =
     (if length seqsNeedSync \<le> split then Some [seqsNeedSync] else split_from split 0 seqsNeedSync [])"

definition nil_entry :: go_error where
  "nil_entry = GoError ''panic: nil pointer dereference''"

partial_function (option) sync_by_seqs ::
  "('d, 'n) sync_env \<Rightarrow> string \<Rightarrow> int list list \<Rightarrow> MsgData list \<Rightarrow> 'n \<Rightarrow>
   ((go_error + MsgData list) \<times> 'n) option" where
  "sync_by_seqs E conversationID seqsList allMsgs n =
     (case seqsList of
        [] \<Rightarrow> Some (Inr allMsgs, n)
      | _ # rest \<Rightarrow>
          (case se_PullMsgBySeqList E [] n of
             (r, n') \<Rightarrow>
               (case r of
                  Inl e \<Rightarrow> sync_by_seqs E conversationID seqsList allMsgs n'
                | Inr resp \<Rightarrow>
                    (case gget (pr_Msgs resp) conversationID of
                       None \<Rightarrow> Some (Inl nil_entry, n')
                     | Some pm \<Rightarrow> sync_by_seqs E conversationID rest (allMsgs @ pm_Msgs pm) n'))))"

definition syncMsgBySeqs ::
  "('d, 'n) sync_env \<Rightarrow> string \<Rightarrow> int list \<Rightarrow> 'n \<Rightarrow> ((go_error + MsgData list) \<times> 'n) option" where
  "syncMsgBySeqs E conversationID seqsNeedSync n =
     (case splitSeqs 100 seqsNeedSync of
        None \<Rightarrow> None
      | Some seqsList \<Rightarrow> sync_by_seqs E conversationID seqsList [] n)"

end
