(* ===== verification/MsgSyncProps.thy ===== *)
theory MsgSyncProps
  imports MsgSync
begin

text \<open>
  What the recorded sequence numbers of the message synchroniser mean: a number recorded by a
  synchronisation has been pulled from the server, together with every missing one below it.
\<close>

section \<open>Pulled ranges\<close>

definition covered :: "SeqRange list \<Rightarrow> string \<Rightarrow> int \<Rightarrow> bool" where
  "covered L k x \<longleftrightarrow> (\<exists>r \<in> set L. sr_ConversationID r = k \<and> sr_Begin r \<le> x \<and> x \<le> sr_End r)"

lemma covered_mono: "covered L k x \<Longrightarrow> set L \<subseteq> set L' \<Longrightarrow> covered L' k x"
  by (auto simp: covered_def)

definition sane_orders :: "('d, 'n) sync_env \<Rightarrow> bool" where
  "sane_orders E \<longleftrightarrow> any_order (se_range_ranges E) \<and> any_order (se_range_seqs E) \<and> any_order (se_range_msgs E)"

definition sane_ranges :: "seq_map \<Rightarrow> bool" where
  "sane_ranges seqMap \<longleftrightarrow> gomap_ok seqMap \<and> (\<forall>(k, b, e) \<in> set seqMap. 0 \<le> b \<and> b < 2 ^ 62 \<and> 0 \<le> e \<and> e < 2 ^ 62)"

text \<open>
  \<open>pulled_to\<close>: the range that \<open>seqMap\<close> asks for in conversation \<open>k\<close> has been pulled up to \<open>x\<close>.
  From \<open>m\<close> to \<open>m'\<close> a run for \<open>seqMap\<close> only adds pulled ranges, and moves a recorded number only to
  a value up to which the range of its conversation has been pulled.
\<close>

definition pulled_to :: "seq_map \<Rightarrow> SeqRange list \<Rightarrow> string \<Rightarrow> int \<Rightarrow> bool" where
  "pulled_to seqMap L k x \<longleftrightarrow>
     (\<exists>b e. gget seqMap k = Some (b, e) \<and> x \<le> e \<and> (b \<le> e \<longrightarrow> b \<le> x) \<and>
            (\<forall>y. b \<le> y \<and> y \<le> x \<longrightarrow> covered L k y))"

lemma pulled_to_mono: "pulled_to seqMap L k x \<Longrightarrow> set L \<subseteq> set L' \<Longrightarrow> pulled_to seqMap L' k x"
  unfolding pulled_to_def using covered_mono by blast

definition pulled_progress :: "seq_map \<Rightarrow> ('d, 'n) msg_syncer \<Rightarrow> ('d, 'n) msg_syncer \<Rightarrow> bool" where
  "pulled_progress seqMap m m' \<longleftrightarrow>
     set (mx_pulled m) \<subseteq> set (mx_pulled m') \<and>
     (\<forall>k. gget (mx_synced m') k = gget (mx_synced m) k \<or>
        (\<exists>x. gget (mx_synced m') k = Some x \<and> pulled_to seqMap (mx_pulled m') k x))"

lemma progress_refl [simp]: "pulled_progress seqMap m m"
  by (simp add: pulled_progress_def)

lemma progress_trans:
  assumes "pulled_progress seqMap m1 m2" and "pulled_progress seqMap m2 m3"
  shows "pulled_progress seqMap m1 m3"
proof -
  have sub: "set (mx_pulled m1) \<subseteq> set (mx_pulled m2)" "set (mx_pulled m2) \<subseteq> set (mx_pulled m3)"
    using assms by (simp_all add: pulled_progress_def)
  have "gget (mx_synced m3) k = gget (mx_synced m1) k \<or>
        (\<exists>x. gget (mx_synced m3) k = Some x \<and> pulled_to seqMap (mx_pulled m3) k x)" for k
    using spec [OF conjunct2 [OF assms(1) [unfolded pulled_progress_def]], of k]
      spec [OF conjunct2 [OF assms(2) [unfolded pulled_progress_def]], of k]
      pulled_to_mono [OF _ sub(2)]
    by auto
  with sub show ?thesis by (auto simp: pulled_progress_def)
qed

lemma sane_iter:
  assumes "sane_orders E" and "sane_ranges seqMap"
  shows "set (se_range_ranges E seqMap) = set seqMap" and "gomap_ok (se_range_ranges E seqMap)"
    and "gget (se_range_ranges E seqMap) = gget seqMap"
  using assms iter_set iter_distinct iter_gget by (auto simp: sane_orders_def sane_ranges_def)

section \<open>One pull\<close>

definition ranges_of :: "('d, 'n) sync_env \<Rightarrow> seq_map \<Rightarrow> int \<Rightarrow> SeqRange list" where
  "ranges_of E seqMap n = map (\<lambda>(k, b, e). \<lparr>sr_ConversationID = k, sr_Begin = b, sr_End = e, sr_Num = n\<rparr>)
                            (se_range_ranges E seqMap)"

lemma ranges_of_covered:
  assumes "sane_orders E" and "(k, b, e) \<in> set seqMap" and "b \<le> y" and "y \<le> e"
  shows "covered (ranges_of E seqMap n) k y"
proof -
  have "(k, b, e) \<in> set (se_range_ranges E seqMap)"
    using assms by (simp add: iter_set sane_orders_def)
  then have "\<lparr>sr_ConversationID = k, sr_Begin = b, sr_End = e, sr_Num = n\<rparr> \<in> set (ranges_of E seqMap n)"
    by (force simp: ranges_of_def)
  with assms(3,4) show ?thesis by (force simp: covered_def)
qed

lemma fold_set_synced:
  "distinct (map fst L) \<Longrightarrow>
   gget (mx_synced (fold (\<lambda>(k, seqs). set_synced k (snd seqs)) L m)) k =
     (case map_of L k of Some v \<Rightarrow> Some (snd v) | None \<Rightarrow> gget (mx_synced m) k)"
proof (induction L arbitrary: m)
  case (Cons p L)
  obtain k0 v where p: "p = (k0, v)" by (cases p)
  with Cons.prems have "map_of L k0 = None" by (simp add: map_of_eq_None_iff)
  with Cons p show ?case
    by (cases "k = k0") (simp_all add: set_synced_def gomap_simps split: option.split)
qed simp

lemma fold_set_synced_pulled:
  "mx_pulled (fold (\<lambda>(k, seqs). set_synced k (snd seqs)) L m) = mx_pulled m"
  by (induction L arbitrary: m) (auto simp: set_synced_def)

lemma trigger_keeps [simp]:
  "mx_pulled (snd (triggerConversation x m)) = mx_pulled m"
  "mx_synced (snd (triggerConversation x m)) = mx_synced m"
  "mx_pulled (snd (triggerNotification x m)) = mx_pulled m"
  "mx_synced (snd (triggerNotification x m)) = mx_synced m"
  by (simp_all add: triggerConversation_def triggerNotification_def on_conv_def split: prod.split)

lemma pull_and_record_ok:
  assumes "sane_orders E" and "gomap_ok recd" and "pull_and_record E pull recd n m = (None, m')"
  shows "mx_pulled m' = mx_pulled m @ ranges_of E pull n"
    and "gget (mx_synced m') k = (case gget recd k of Some v \<Rightarrow> Some (snd v) | None \<Rightarrow> gget (mx_synced m) k)"
proof -
  have ok: "gomap_ok (se_range_ranges E recd)" and get: "gget (se_range_ranges E recd) = gget recd"
    using assms iter_distinct iter_gget by (auto simp: sane_orders_def)
  obtain resp n1 where p: "se_PullMsgBySeqList E (ranges_of E pull n) (mx_net m) = (Inr resp, n1)"
    and m': "m' = fold (\<lambda>(k, seqs). set_synced k (snd seqs)) (se_range_ranges E recd)
       (snd (triggerNotification (pr_NotificationMsgs resp) (snd (triggerConversation (pr_Msgs resp)
         (m\<lparr>mx_net := n1, mx_pulled := mx_pulled m @ ranges_of E pull n\<rparr>)))))"
    using assms(3)
    by (auto simp: pull_and_record_def pullMsgBySeqRange_def ranges_of_def [symmetric] Let_def
        split: prod.splits sum.splits)
  show "mx_pulled m' = mx_pulled m @ ranges_of E pull n"
    by (simp add: m' fold_set_synced_pulled)
  show "gget (mx_synced m') k = (case gget recd k of Some v \<Rightarrow> Some (snd v) | None \<Rightarrow> gget (mx_synced m) k)"
    unfolding m' using ok get by (subst fold_set_synced) (simp_all add: gomap_ok_def split: option.split)
qed

lemma pull_and_record_err:
  assumes "pull_and_record E pull recd n m = (Some e, m')"
  shows "mx_pulled m' = mx_pulled m" and "mx_synced m' = mx_synced m"
  using assms by (auto simp: pull_and_record_def pullMsgBySeqRange_def Let_def split: prod.splits sum.splits)

text \<open>A pull whose recorded ends are covered, by itself or by what was pulled before, is progress.\<close>

lemma pull_and_record_progress:
  assumes "sane_orders E" and "gomap_ok recd"
    and ends: "\<And>k b e. (k, b, e) \<in> set recd \<Longrightarrow>
          (\<exists>b0 e0. gget seqMap k = Some (b0, e0) \<and> e \<le> e0 \<and> (b0 \<le> e0 \<longrightarrow> b0 \<le> e) \<and>
             (\<forall>y. b0 \<le> y \<and> y \<le> e \<longrightarrow> covered (mx_pulled m) k y \<or> (\<exists>b1 e1. (k, b1, e1) \<in> set pull \<and> b1 \<le> y \<and> y \<le> e1)))"
    and run: "pull_and_record E pull recd n m = (r, m')"
  shows "pulled_progress seqMap m m'"
proof (cases r)
  case (Some e)
  with run pull_and_record_err [of E pull recd n m e m'] show ?thesis
    by (simp add: pulled_progress_def)
next
  case None
  note ok = pull_and_record_ok [OF assms(1,2) run [unfolded None]]
  have "gget (mx_synced m') k = gget (mx_synced m) k \<or>
        (\<exists>x. gget (mx_synced m') k = Some x \<and> pulled_to seqMap (mx_pulled m') k x)" for k
  proof (cases "gget recd k")
    case None
    with ok show ?thesis by simp
  next
    case (Some v)
    then have "(k, fst v, snd v) \<in> set recd" by (simp add: gget_in)
    from ends [OF this] obtain b0 e0 where s: "gget seqMap k = Some (b0, e0)" "snd v \<le> e0" "b0 \<le> e0 \<longrightarrow> b0 \<le> snd v"
      and cov: "\<forall>y. b0 \<le> y \<and> y \<le> snd v \<longrightarrow> covered (mx_pulled m) k y \<or> (\<exists>b1 e1. (k, b1, e1) \<in> set pull \<and> b1 \<le> y \<and> y \<le> e1)"
      by blast
    have "covered (mx_pulled m') k y" if y: "b0 \<le> y" "y \<le> snd v" for y
    proof -
      have "covered (mx_pulled m) k y \<or> covered (ranges_of E pull n) k y"
        using cov y ranges_of_covered [OF assms(1)] by blast
      then show ?thesis using covered_mono [of _ k y "mx_pulled m'"] by (auto simp: ok(1))
    qed
    with s have "pulled_to seqMap (mx_pulled m') k (snd v)" by (auto simp: pulled_to_def)
    with ok Some show ?thesis by auto
  qed
  with ok show ?thesis by (auto simp: pulled_progress_def)
qed

section \<open>The loops\<close>

lemma small_sums:
  "0 \<le> x \<Longrightarrow> x < 2 ^ 62 \<Longrightarrow> i64 (x + 100) = x + 100"
  "- 1 \<le> x \<Longrightarrow> x < 2 ^ 62 \<Longrightarrow> i64 (x + 1) = x + 1"
  by (simp_all add: i64_id is_i64_def)

text \<open>
  The chunks of a large notification conversation: started after a covered prefix of the range,
  a successful run covers the whole range and records its end.
\<close>

lemma split_loop_progress:
  assumes "sane_orders E" and "gget seqMap k = Some v" and "0 \<le> fst v" and "0 \<le> snd v" and "snd v < 2 ^ 62"
  shows "fst v \<le> startSeq \<Longrightarrow> startSeq \<le> snd v + 1 \<Longrightarrow> i \<le> cnt \<Longrightarrow>
    (\<forall>y. fst v \<le> y \<and> y < startSeq \<longrightarrow> covered (mx_pulled m) k y) \<Longrightarrow>
    split_loop E k v n cnt i startSeq fin m = (r, m') \<Longrightarrow>
    pulled_progress seqMap m m' \<and>
    (r = None \<longrightarrow> gget (mx_synced m') k = Some (snd v) \<and> (\<forall>y. fst v \<le> y \<and> y \<le> snd v \<longrightarrow> covered (mx_pulled m') k y))"
proof (induction "nat (cnt - i)" arbitrary: i startSeq fin m rule: less_induct)
  case less
  let ?last = "i = cnt \<or> startSeq + 100 > snd v"
  let ?e = "if ?last then snd v else startSeq + 100"
  have start: "0 \<le> startSeq" using less.prems(1) assms(3) by simp
  obtain r1 m1 where pull: "pull_and_record E [(k, startSeq, ?e)] [(k, startSeq, ?e)] n m = (r1, m1)"
    by fastforce
  have wrap: "i64 (startSeq + 100) = startSeq + 100"
    using start less.prems(2) assms(5) by (simp add: i64_id is_i64_def)
  have step: "split_loop E k v n cnt i startSeq fin m =
      (if r1 = None
       then (if ?last then (None, m1) else split_loop E k v n cnt (i + 1) (startSeq + 100 + 1) (startSeq + 100) m1)
       else (r1, m1))"
    using less.prems(2,3) pull wrap small_sums(2) [of "startSeq + 100"] start assms(5)
    by (subst split_loop.simps) (auto simp: SplitPullMsgNum_def Let_def split_loop.simps [of _ _ _ _ cnt "cnt + 1"] split: option.splits)
  have prog: "pulled_progress seqMap m m1"
  proof (rule pull_and_record_progress [OF assms(1) _ _ pull])
    fix k' b e
    assume "(k', b, e) \<in> set [(k, startSeq, ?e)]"
    then have new: "k' = k" "e = ?e" by simp_all
    have v: "gget seqMap k = Some (fst v, snd v)" using assms(2) by simp
    show "\<exists>b0 e0. gget seqMap k' = Some (b0, e0) \<and> e \<le> e0 \<and> (b0 \<le> e0 \<longrightarrow> b0 \<le> e) \<and>
        (\<forall>y. b0 \<le> y \<and> y \<le> e \<longrightarrow> covered (mx_pulled m) k' y \<or>
          (\<exists>b1 e1. (k', b1, e1) \<in> set [(k, startSeq, ?e)] \<and> b1 \<le> y \<and> y \<le> e1))"
      unfolding new v using less.prems(1,2,4) by (intro exI [of _ "fst v"] exI [of _ "snd v"]) auto
  qed (simp add: gomap_ok_def)
  show ?case
  proof (cases "r1 = None")
    case False
    with step less.prems(5) prog show ?thesis by auto
  next
    case True
    note ok = pull_and_record_ok [OF assms(1) _ pull [unfolded True]]
    have cov1: "covered (mx_pulled m1) k y" if "fst v \<le> y" "y \<le> ?e" for y
    proof -
      have "covered (mx_pulled m) k y \<or> covered (ranges_of E [(k, startSeq, ?e)] n) k y"
        using that less.prems(4) ranges_of_covered [OF assms(1), of k startSeq ?e "[(k, startSeq, ?e)]" y n]
        by force
      then show ?thesis
        using covered_mono [of _ k y "mx_pulled m1"] ok(1) by (auto simp: gomap_ok_def)
    qed
    show ?thesis
    proof (cases ?last)
      case True
      with step \<open>r1 = None\<close> less.prems(5) have "r = None" "m' = m1" by simp_all
      with prog cov1 True ok(2) [of k] show ?thesis by (auto simp: gomap_ok_def)
    next
      case False
      have "pulled_progress seqMap m1 m' \<and> (r = None \<longrightarrow> gget (mx_synced m') k = Some (snd v) \<and>
          (\<forall>y. fst v \<le> y \<and> y \<le> snd v \<longrightarrow> covered (mx_pulled m') k y))"
        by (rule less.hyps [of "i + 1" "startSeq + 100 + 1" m1 "startSeq + 100"])
          (use False less.prems step \<open>r1 = None\<close> cov1 in auto)
      with prog progress_trans show ?thesis by blast
    qed
  qed
qed

text \<open>
  The loop over the conversations: \<open>L\<close> are the entries still to do, \<open>temp\<close> those collected for
  the next pull. After a successful run every entry is in the final \<open>temp\<close> or covered.
\<close>

definition within :: "seq_map \<Rightarrow> seq_map \<Rightarrow> bool" where
  "within part seqMap \<longleftrightarrow> gomap_ok part \<and> (\<forall>k v. gget part k = Some v \<longrightarrow> gget seqMap k = Some v)"

definition in_hand :: "seq_map \<Rightarrow> SeqRange list \<Rightarrow> string \<times> int \<times> int \<Rightarrow> bool" where
  "in_hand temp L kv \<longleftrightarrow> (case kv of (k, b, e) \<Rightarrow>
     gget temp k = Some (b, e) \<or> (\<forall>y. b \<le> y \<and> y \<le> e \<longrightarrow> covered L k y))"

lemma in_hand_mono: "in_hand temp L kv \<Longrightarrow> set L \<subseteq> set L' \<Longrightarrow> in_hand temp L' kv"
  by (auto simp: in_hand_def dest: covered_mono)

lemma pull_temp_progress:
  assumes "sane_orders E" and "within temp seqMap" and "pull_and_record E temp temp n m = (r, m')"
  shows "pulled_progress seqMap m m'"
    and "r = None \<Longrightarrow> gget temp k = Some (b, e) \<Longrightarrow> b \<le> y \<Longrightarrow> y \<le> e \<Longrightarrow> covered (mx_pulled m') k y"
proof -
  have ok: "gomap_ok temp" and sub: "\<And>k v. gget temp k = Some v \<Longrightarrow> gget seqMap k = Some v"
    using assms(2) by (auto simp: within_def)
  show "pulled_progress seqMap m m'"
  proof (rule pull_and_record_progress [OF assms(1) ok _ assms(3)])
    fix k' b e
    assume "(k', b, e) \<in> set temp"
    with sub in_gget [OF ok] show "\<exists>b0 e0. gget seqMap k' = Some (b0, e0) \<and> e \<le> e0 \<and> (b0 \<le> e0 \<longrightarrow> b0 \<le> e) \<and>
        (\<forall>y. b0 \<le> y \<and> y \<le> e \<longrightarrow> covered (mx_pulled m) k' y \<or>
          (\<exists>b1 e1. (k', b1, e1) \<in> set temp \<and> b1 \<le> y \<and> y \<le> e1))"
      by (intro exI [of _ b] exI [of _ e]) auto
  qed
  show "covered (mx_pulled m') k y" if "r = None" "gget temp k = Some (b, e)" "b \<le> y" "y \<le> e"
  proof -
    have "mx_pulled m' = mx_pulled m @ ranges_of E temp n"
      using pull_and_record_ok(1) [OF assms(1) ok] assms(3) that(1) by blast
    moreover have "covered (ranges_of E temp n) k y"
      using ranges_of_covered [OF assms(1) gget_in [OF that(2)]] that(3,4) by simp
    ultimately show ?thesis using covered_mono by fastforce
  qed
qed

lemma sync_loop_progress:
  assumes "sane_orders E" and "sane_ranges seqMap"
  shows "set L \<subseteq> set seqMap \<Longrightarrow> distinct (map fst L) \<Longrightarrow> within temp seqMap \<Longrightarrow>
    (\<forall>k \<in> fst ` set L. gget temp k = None) \<Longrightarrow>
    sync_loop E n L temp msgNum m = (r, temp', m') \<Longrightarrow>
    pulled_progress seqMap m m' \<and>
    (r = None \<longrightarrow> within temp' seqMap \<and>
      (\<forall>kv \<in> set L. in_hand temp' (mx_pulled m') kv) \<and>
      (\<forall>kv \<in> set temp. in_hand temp' (mx_pulled m') kv))"
proof (induction L arbitrary: temp msgNum m)
  case Nil
  then show ?case by (auto simp: in_hand_def within_def in_gget)
next
  case (Cons p L)
  obtain k v where p: "p = (k, v)" by (cases p)
  have kv: "(k, v) \<in> set seqMap" using Cons.prems(1) p by simp
  have ok: "gomap_ok seqMap" and b: "0 \<le> fst v" "fst v < 2 ^ 62" "0 \<le> snd v" "snd v < 2 ^ 62"
    using assms(2) kv by (auto simp: sane_ranges_def)
  have get: "gget seqMap k = Some v" using ok kv by (rule in_gget)
  let ?num = "i64 (snd v - fst v + 1)"
  let ?temp = "gput k v temp"
  let ?msgNum = "if ?num > 0 then i64 (msgNum + ?num) else msgNum"
  have rest: "set L \<subseteq> set seqMap" "distinct (map fst L)" "\<forall>k' \<in> fst ` set L. gget temp k' = None"
    and new: "k \<notin> fst ` set L" using Cons.prems p by auto
  have temp_in: "within ?temp seqMap"
    using Cons.prems(3) get by (auto simp: within_def gomap_simps)
  have temp_out: "\<forall>k' \<in> fst ` set L. gget ?temp k' = None"
    using rest(3) new by (auto simp: gomap_simps)
  have nil: "within [] seqMap" by (simp add: within_def)
  show ?case
  proof (cases "?num sdiv SplitPullMsgNum > 1 \<and> IsNotification k")
    case True
    obtain r1 m1 where split: "split_loop E k v n (?num sdiv SplitPullMsgNum) 0 (fst v) 0 m = (r1, m1)"
      by fastforce
    have num: "?num sdiv SplitPullMsgNum > 1" using True by blast
    have "fst v \<le> snd v + 1"
    proof (rule ccontr)
      assume "\<not> fst v \<le> snd v + 1"
      then have "?num = snd v - fst v + 1" "snd v - fst v + 1 < 0" using b by (simp_all add: i64_id is_i64_def)
      then have "?num sdiv SplitPullMsgNum \<le> 0"
        by (simp add: SplitPullMsgNum_def signed_divide_int_def sgn_if)
      with num show False by simp
    qed
    then have S: "pulled_progress seqMap m m1 \<and> (r1 = None \<longrightarrow> gget (mx_synced m1) k = Some (snd v) \<and>
        (\<forall>y. fst v \<le> y \<and> y \<le> snd v \<longrightarrow> covered (mx_pulled m1) k y))"
      using num by (intro split_loop_progress [OF assms(1) get b(1,3,4) _ _ _ _ split]) auto
    show ?thesis
    proof (cases r1)
      case (Some e)
      with Cons.prems(5) True split p have "r = Some e" "m' = m1" by (simp_all add: Let_def)
      with S show ?thesis by simp
    next
      case None
      with Cons.prems(5) True split p have "sync_loop E n L temp msgNum m1 = (r, temp', m')" by (simp add: Let_def)
      from Cons.IH [OF rest(1,2) Cons.prems(3) rest(3) this]
      have IH: "pulled_progress seqMap m1 m'" "r = None \<longrightarrow> within temp' seqMap \<and>
          (\<forall>kv \<in> set L. in_hand temp' (mx_pulled m') kv) \<and> (\<forall>kv \<in> set temp. in_hand temp' (mx_pulled m') kv)"
        by blast+
      have "in_hand temp' (mx_pulled m1) p" using S None by (auto simp: in_hand_def p split: prod.split)
      then have "in_hand temp' (mx_pulled m') p"
        using in_hand_mono IH(1) by (simp add: pulled_progress_def)
      with IH progress_trans S show ?thesis by (metis set_ConsD)
    qed
  next
    case nosplit: False
    show ?thesis
    proof (cases "?msgNum \<ge> SplitPullMsgNum")
      case True
      obtain r1 m1 where pull: "pull_and_record E ?temp ?temp n m = (r1, m1)" by fastforce
      note P = pull_temp_progress [OF assms(1) temp_in pull]
      show ?thesis
      proof (cases r1)
        case (Some e)
        with Cons.prems(5) nosplit True pull p P(1) show ?thesis by (auto simp: Let_def)
      next
        case None
        with Cons.prems(5) nosplit True pull p have "sync_loop E n L [] 0 m1 = (r, temp', m')"
          by (auto simp: Let_def)
        from Cons.IH [OF rest(1,2) nil _ this]
        have IH: "pulled_progress seqMap m1 m'" "r = None \<longrightarrow> within temp' seqMap \<and>
            (\<forall>kv \<in> set L. in_hand temp' (mx_pulled m') kv)"
          by simp_all
        have sub: "set (mx_pulled m1) \<subseteq> set (mx_pulled m')" using IH(1) by (simp add: pulled_progress_def)
        have "in_hand temp' (mx_pulled m') kv" if "kv \<in> insert p (set temp)" for kv
        proof -
          obtain k' b e where kv: "kv = (k', b, e)" by (cases kv)
          have "gget ?temp k' = Some (b, e)"
            using that kv p Cons.prems(3,4) by (auto simp: gomap_simps within_def in_gget)
          with P(2) [OF None this] have "in_hand temp' (mx_pulled m1) kv" by (simp add: in_hand_def kv)
          then show ?thesis using sub by (rule in_hand_mono)
        qed
        with IH progress_trans [OF P(1)] show ?thesis by auto
      qed
    next
      case False
      with Cons.prems(5) nosplit p have "sync_loop E n L ?temp ?msgNum m = (r, temp', m')"
        by (auto simp: Let_def)
      from Cons.IH [OF rest(1,2) temp_in temp_out this]
      have IH: "pulled_progress seqMap m m'" "r = None \<longrightarrow> within temp' seqMap \<and>
          (\<forall>kv \<in> set L. in_hand temp' (mx_pulled m') kv) \<and> (\<forall>kv \<in> set ?temp. in_hand temp' (mx_pulled m') kv)"
        by blast+
      have "kv \<in> set ?temp" if "kv \<in> insert p (set temp)" for kv
      proof -
        obtain k' b e where kv: "kv = (k', b, e)" by (cases kv)
        have "gget ?temp k' = Some (b, e)"
          using that kv p Cons.prems(3,4) by (auto simp: gomap_simps within_def in_gget)
        then show ?thesis unfolding kv by (rule gget_in)
      qed
      with IH show ?thesis by auto
    qed
  qed
qed

section \<open>The whole synchronisation\<close>

lemma syncAndTriggerMsgs_progress:
  assumes "sane_orders E" and "sane_ranges seqMap" and "syncAndTriggerMsgs E seqMap n m = (r, m')"
  shows "pulled_progress seqMap m m' \<and>
    (r = None \<longrightarrow> (\<forall>k b e. gget seqMap k = Some (b, e) \<longrightarrow>
       gget (mx_synced m') k = Some e \<and> (\<forall>y. b \<le> y \<and> y \<le> e \<longrightarrow> covered (mx_pulled m') k y)))"
proof (cases "seqMap = []")
  case True
  with assms(3) show ?thesis by (simp add: syncAndTriggerMsgs_def)
next
  case False
  note it = sane_iter [OF assms(1,2)]
  have ok: "gomap_ok seqMap" using assms(2) by (simp add: sane_ranges_def)
  obtain r1 temp m1 where loop: "sync_loop E n (se_range_ranges E seqMap) [] 0 m = (r1, temp, m1)"
    by (metis prod_cases3)
  have L: "pulled_progress seqMap m m1 \<and> (r1 = None \<longrightarrow> within temp seqMap \<and>
      (\<forall>kv \<in> set (se_range_ranges E seqMap). in_hand temp (mx_pulled m1) kv) \<and> (\<forall>kv \<in> set []. in_hand temp (mx_pulled m1) kv))"
    by (rule sync_loop_progress [OF assms(1,2) _ _ _ _ loop])
      (use it in \<open>simp_all add: gomap_ok_def within_def\<close>)
  show ?thesis
  proof (cases r1)
    case (Some e)
    with loop assms(3) False have "r = Some e" "m' = m1" by (simp_all add: syncAndTriggerMsgs_def)
    with L show ?thesis by simp
  next
    case None
    with loop assms(3) False have run: "pull_and_record E temp seqMap n m1 = (r, m')"
      by (simp add: syncAndTriggerMsgs_def)
    have hand: "in_hand temp (mx_pulled m1) (k, b, e)" if "(k, b, e) \<in> set seqMap" for k b e
      using L None that it(1) by blast
    have "pulled_progress seqMap m1 m'"
    proof (rule pull_and_record_progress [OF assms(1) ok _ run])
      fix k b e
      assume k: "(k, b, e) \<in> set seqMap"
      then show "\<exists>b0 e0. gget seqMap k = Some (b0, e0) \<and> e \<le> e0 \<and> (b0 \<le> e0 \<longrightarrow> b0 \<le> e) \<and>
          (\<forall>y. b0 \<le> y \<and> y \<le> e \<longrightarrow> covered (mx_pulled m1) k y \<or>
            (\<exists>b1 e1. (k, b1, e1) \<in> set temp \<and> b1 \<le> y \<and> y \<le> e1))"
        using hand [OF k] in_gget [OF ok k]
        by (intro exI [of _ b] exI [of _ e]) (auto simp: in_hand_def dest: gget_in)
    qed
    with L progress_trans have prog: "pulled_progress seqMap m m'" by blast
    have "gget (mx_synced m') k = Some e \<and> (\<forall>y. b \<le> y \<and> y \<le> e \<longrightarrow> covered (mx_pulled m') k y)"
      if "r = None" and k: "gget seqMap k = Some (b, e)" for k b e
    proof -
      note rec = pull_and_record_ok [OF assms(1) ok run [unfolded that(1)]]
      have "covered (mx_pulled m') k y" if y: "b \<le> y" "y \<le> e" for y
      proof (cases "gget temp k = Some (b, e)")
        case True
        then have "covered (ranges_of E temp n) k y"
          using ranges_of_covered [OF assms(1) gget_in] y by blast
        then show ?thesis using covered_mono rec(1) by fastforce
      next
        case False
        with hand [OF gget_in [OF k]] y have "covered (mx_pulled m1) k y" by (simp add: in_hand_def)
        then show ?thesis using covered_mono rec(1) by fastforce
      qed
      with rec(2) [of k] k show ?thesis by simp
    qed
    with prog show ?thesis by blast
  qed
qed

section \<open>The recorded numbers never go back\<close>

definition seqs_le :: "('d, 'n) msg_syncer \<Rightarrow> ('d, 'n) msg_syncer \<Rightarrow> bool" where
  "seqs_le m m' \<longleftrightarrow>
     (\<forall>k s. gget (mx_synced m) k = Some s \<longrightarrow> (\<exists>s'. gget (mx_synced m') k = Some s' \<and> s \<le> s'))"

definition small_seq :: "int \<Rightarrow> bool" where
  "small_seq s \<longleftrightarrow> 0 \<le> s \<and> s < 2 ^ 61"

definition running :: "('d, 'n) msg_syncer \<Rightarrow> bool" where
  "running m \<longleftrightarrow> (\<forall>k s. gget (mx_synced m) k = Some s \<longrightarrow> small_seq s)"

lemma seqs_le_refl [simp]: "seqs_le m m"
  by (simp add: seqs_le_def)

lemma seqs_le_trans [trans]: "seqs_le m1 m2 \<Longrightarrow> seqs_le m2 m3 \<Longrightarrow> seqs_le m1 m3"
  unfolding seqs_le_def by (meson order_trans)

lemma trigger_reinstalled [simp]:
  "mx_reinstalled (snd (triggerConversation x m)) = mx_reinstalled m"
  "mx_reinstalled (snd (triggerNotification x m)) = mx_reinstalled m"
  by (simp_all add: triggerConversation_def triggerNotification_def on_conv_def split: prod.split)

lemma fold_set_synced_reinstalled:
  "mx_reinstalled (fold (\<lambda>(k, seqs). set_synced k (snd seqs)) L m) = mx_reinstalled m"
  by (induction L arbitrary: m) (simp_all add: set_synced_def split_beta)

lemma pull_and_record_reinstalled:
  "pull_and_record E pull recd n m = (r, m') \<Longrightarrow> mx_reinstalled m' = mx_reinstalled m"
  by (auto simp: pull_and_record_def pullMsgBySeqRange_def Let_def fold_set_synced_reinstalled
      split: prod.splits sum.splits)

lemma split_loop_reinstalled:
  "split_loop E k v n cnt i startSeq fin m = (r, m') \<Longrightarrow> mx_reinstalled m' = mx_reinstalled m"
proof (induction E k v n cnt i startSeq fin m rule: split_loop.induct)
  case (1 E k v n cnt i startSeq fin m)
  show ?case
  proof (cases "cnt < i")
    case True
    with "1.prems" show ?thesis by (simp add: split_loop.simps [of E k v n cnt i])
  next
    case False
    obtain seqs fin' i' where x: "(if i = cnt then ((startSeq, snd v), fin, i)
               else let e = i64 (startSeq + SplitPullMsgNum)
                    in if e > snd v then ((startSeq, snd v), snd v, cnt)
                       else ((startSeq, e), e, i)) = (seqs, fin', i')"
      by (metis prod_cases3)
    obtain r1 m1 where pull: "pull_and_record E [(k, seqs)] [(k, seqs)] n m = (r1, m1)" by fastforce
    note keep = pull_and_record_reinstalled [OF pull]
    have step: "split_loop E k v n cnt i startSeq fin m =
        (case r1 of Some err \<Rightarrow> (Some err, m1)
         | None \<Rightarrow> split_loop E k v n cnt (i' + 1) (i64 (fin' + 1)) fin' m1)"
      using False by (subst split_loop.simps) (simp add: x pull split: option.split)
    show ?thesis
    proof (cases r1)
      case None
      from "1.IH" [OF False x [symmetric] refl pull [symmetric] None] step None "1.prems" keep
      show ?thesis by simp
    next
      case (Some e)
      with step "1.prems" keep show ?thesis by simp
    qed
  qed
qed

lemma sync_loop_reinstalled:
  "sync_loop E n L temp msgNum m = (r, temp', m') \<Longrightarrow> mx_reinstalled m' = mx_reinstalled m"
  by (induction E n L temp msgNum m rule: sync_loop.induct)
    (auto simp: Let_def split_loop_reinstalled pull_and_record_reinstalled
      split: prod.splits option.splits if_splits)

lemma syncAndTriggerMsgs_reinstalled:
  "syncAndTriggerMsgs E seqMap n m = (r, m') \<Longrightarrow> mx_reinstalled m' = mx_reinstalled m"
  by (auto simp: syncAndTriggerMsgs_def sync_loop_reinstalled pull_and_record_reinstalled
      split: prod.splits option.splits if_splits)

text \<open>A request map that starts above the recorded numbers keeps them from going back.\<close>

definition fresh_ranges :: "('d, 'n) msg_syncer \<Rightarrow> seq_map \<Rightarrow> bool" where
  "fresh_ranges m need \<longleftrightarrow> gomap_ok need \<and>
     (\<forall>k b e. gget need k = Some (b, e) \<longrightarrow> 0 \<le> b \<and> b \<le> e \<and> small_seq e \<and>
        (\<forall>s. gget (mx_synced m) k = Some s \<longrightarrow> s < b))"

lemma sync_fresh:
  assumes "sane_orders E" and "fresh_ranges m need" and "running m"
    and "syncAndTriggerMsgs E need n m = (r, m')"
  shows "seqs_le m m' \<and> running m'"
proof -
  have ok: "gomap_ok need" using assms(2) by (simp add: fresh_ranges_def)
  have "sane_ranges need"
    unfolding sane_ranges_def
  proof (intro conjI ok ballI, clarify)
    fix k b e
    assume "(k, b, e) \<in> set need"
    then have "gget need k = Some (b, e)" by (rule in_gget [OF ok])
    with assms(2) show "0 \<le> b \<and> b < 2 ^ 62 \<and> 0 \<le> e \<and> e < 2 ^ 62"
      by (fastforce simp: fresh_ranges_def small_seq_def)
  qed
  from syncAndTriggerMsgs_progress [OF assms(1) this assms(4)]
  have P: "gget (mx_synced m') k = gget (mx_synced m) k \<or>
        (\<exists>x. gget (mx_synced m') k = Some x \<and> pulled_to need (mx_pulled m') k x)" for k
    by (simp add: pulled_progress_def)
  have Q: "gget (mx_synced m') k = gget (mx_synced m) k \<or>
        (\<exists>x. gget (mx_synced m') k = Some x \<and> small_seq x \<and> (\<forall>s. gget (mx_synced m) k = Some s \<longrightarrow> s < x))" for k
    using P [of k] assms(2) by (fastforce simp: pulled_to_def fresh_ranges_def small_seq_def)
  have le: "\<exists>s'. gget (mx_synced m') k = Some s' \<and> s \<le> s'" if "gget (mx_synced m) k = Some s" for k s
    using Q [of k] that by auto
  have small: "small_seq s" if "gget (mx_synced m') k = Some s" for k s
    using Q [of k] that assms(3) by (auto simp: running_def)
  show ?thesis
    using le small by (auto simp: seqs_le_def running_def)
qed

lemma fresh_gput:
  assumes "fresh_ranges m need" and "0 \<le> b" and "b \<le> e" and "small_seq e"
    and "\<And>s. gget (mx_synced m) k = Some s \<Longrightarrow> s < b"
  shows "fresh_ranges m (gput k (b, e) need)"
  using assms by (auto simp: fresh_ranges_def gomap_simps)

lemma need_sync_fresh:
  assumes "running m" and "\<forall>(k, s) \<in> set seqs. small_seq s"
  shows "fresh_ranges m (need_sync m seqs)"
proof -
  have "fresh_ranges m need \<Longrightarrow> fresh_ranges m (fold (\<lambda>(conversationID, maxSeq) need.
     case gget (mx_synced m) conversationID of
       Some syncedMaxSeq \<Rightarrow>
         if maxSeq > syncedMaxSeq then gput conversationID (i64 (syncedMaxSeq + 1), maxSeq) need else need
     | None \<Rightarrow> gput conversationID (0, maxSeq) need) seqs need)" for need
    using assms(2)
  proof (induction seqs arbitrary: need)
    case (Cons p seqs)
    obtain k s where p: "p = (k, s)" by (cases p)
    have s: "small_seq s" using Cons.prems(2) p by simp
    have old: "small_seq old \<and> i64 (old + 1) = old + 1" if "gget (mx_synced m) k = Some old" for old
    proof -
      have "small_seq old" using that assms(1) by (simp add: running_def)
      then show ?thesis by (simp add: small_seq_def i64_id is_i64_def)
    qed
    have "fresh_ranges m (case gget (mx_synced m) k of
       Some syncedMaxSeq \<Rightarrow> if s > syncedMaxSeq then gput k (i64 (syncedMaxSeq + 1), s) need else need
     | None \<Rightarrow> gput k (0, s) need)"
    proof (cases "gget (mx_synced m) k")
      case None
      have "fresh_ranges m (gput k (0, s) need)"
        by (rule fresh_gput [OF Cons.prems(1)]) (use s None in \<open>simp_all add: small_seq_def\<close>)
      with None show ?thesis by simp
    next
      case (Some x)
      have "fresh_ranges m (gput k (x + 1, s) need)" if "x < s"
        by (rule fresh_gput [OF Cons.prems(1)]) (use s Some that old [OF Some] in \<open>simp_all add: small_seq_def\<close>)
      with Some old [OF Some] Cons.prems(1) show ?thesis by simp
    qed
    then show ?case
      unfolding p fold.simps comp_apply prod.case
      by (rule Cons.IH) (use Cons.prems(2) in auto)
  qed simp
  moreover have "fresh_ranges m []" by (simp add: fresh_ranges_def)
  ultimately show ?thesis unfolding need_sync_def by blast
qed

text \<open>Pushed messages, with the counters the loops carry along.\<close>

definition sane_push :: "(string, PullMsgs) gomap \<Rightarrow> bool" where
  "sane_push msgs \<longleftrightarrow> gomap_ok msgs \<and> (\<forall>(k, ms) \<in> set msgs. \<forall>x \<in> set (pm_Msgs ms). small_seq (md_Seq x)) \<and>
     (\<Sum>(k, ms) \<leftarrow> msgs. int (length (pm_Msgs ms))) < 2 ^ 61"

definition keeps_seqs :: "((string, PullMsgs) gomap \<Rightarrow> ('d, 'n) msg_syncer action) \<Rightarrow> bool" where
  "keeps_seqs trigger \<longleftrightarrow> (\<forall>x m. mx_synced (snd (trigger x m)) = mx_synced m \<and>
     mx_reinstalled (snd (trigger x m)) = mx_reinstalled m)"

lemma keeps_triggers [simp]: "keeps_seqs triggerConversation" "keeps_seqs triggerNotification"
  by (simp_all add: keeps_seqs_def)

lemma push_msgs_keeps:
  assumes "keeps_seqs trigger"
  shows "push_msgs trigger k msgs lastSeq storage m = (l, st, m') \<Longrightarrow> \<forall>x \<in> set msgs. small_seq (md_Seq x) \<Longrightarrow>
     small_seq lastSeq \<Longrightarrow>
     mx_synced m' = mx_synced m \<and> mx_reinstalled m' = mx_reinstalled m \<and> small_seq l \<and>
     length st \<le> length storage + length msgs"
proof (induction msgs arbitrary: lastSeq storage m)
  case (Cons x msgs)
  show ?case
  proof (cases "md_Seq x = 0")
    case True
    with Cons.prems Cons.IH [of lastSeq storage "snd (trigger [(k, \<lparr>pm_Msgs = [x], pm_IsEnd = False\<rparr>)] m)"] assms
    show ?thesis by (simp add: keeps_seqs_def)
  next
    case False
    with Cons.prems Cons.IH [of "md_Seq x" "storage @ [x]" m] show ?thesis by simp
  qed
qed simp

lemma running_set: "running m \<Longrightarrow> small_seq s \<Longrightarrow> running (set_synced k s m)"
  by (auto simp: running_def set_synced_def gomap_simps)

lemma running_cong: "mx_synced m' = mx_synced m \<Longrightarrow> running m' = running m"
  by (simp add: running_def)

lemma fresh_cong: "mx_synced m' = mx_synced m \<Longrightarrow> fresh_ranges m' = fresh_ranges m"
  by (rule ext) (simp add: fresh_ranges_def)

lemma seqs_le_set:
  "(\<And>old. gget (mx_synced m) k = Some old \<Longrightarrow> old \<le> s) \<Longrightarrow> seqs_le m (set_synced k s m)"
  by (auto simp: seqs_le_def set_synced_def gomap_simps)

lemma fresh_set: "fresh_ranges m need \<Longrightarrow> gget need k = None \<Longrightarrow> fresh_ranges (set_synced k s m) need"
  unfolding fresh_ranges_def by (auto simp: set_synced_def gomap_simps)

lemma push_loop_keeps:
  assumes "keeps_seqs trigger"
  shows "push_loop trigger L lastSeq storage need m = (need', m') \<Longrightarrow> distinct (map fst L) \<Longrightarrow>
    (\<forall>(k, ms) \<in> set L. \<forall>x \<in> set (pm_Msgs ms). small_seq (md_Seq x)) \<Longrightarrow>
    int (length storage) + (\<Sum>(k, ms) \<leftarrow> L. int (length (pm_Msgs ms))) < 2 ^ 61 \<Longrightarrow>
    small_seq lastSeq \<Longrightarrow> (\<forall>k \<in> fst ` set L. gget need k = None) \<Longrightarrow>
    running m \<Longrightarrow> fresh_ranges m need \<Longrightarrow>
    seqs_le m m' \<and> running m' \<and> fresh_ranges m' need'"
proof (induction L arbitrary: lastSeq storage need m)
  case (Cons p L)
  obtain k ms where p: "p = (k, ms)" by (cases p)
  obtain l st m1 where pm: "push_msgs trigger k (pm_Msgs ms) lastSeq storage m = (l, st, m1)"
    by (metis prod_cases3)
  have keep: "mx_synced m1 = mx_synced m" "mx_reinstalled m1 = mx_reinstalled m" and l: "small_seq l"
    and st: "length st \<le> length storage + length (pm_Msgs ms)"
    using push_msgs_keeps [OF assms pm] Cons.prems(3,5) p by auto
  have rest: "distinct (map fst L)" "\<forall>(k, ms) \<in> set L. \<forall>x \<in> set (pm_Msgs ms). small_seq (md_Seq x)"
    "int (length st) + (\<Sum>(k, ms) \<leftarrow> L. int (length (pm_Msgs ms))) < 2 ^ 61"
    "\<forall>k \<in> fst ` set L. gget need k = None" "gget need k = None" "k \<notin> fst ` set L"
    using Cons.prems(2,3,4,6) st p by auto
  have "0 \<le> (\<Sum>(k, ms) \<leftarrow> L. int (length (pm_Msgs ms)))"
    by (rule sum_list_nonneg) auto
  with rest(3) have len: "int (length st) < 2 ^ 61" by simp
  have run1: "running m1" using Cons.prems(7) running_cong [OF keep(1)] by simp
  have fresh1: "fresh_ranges m1 need" using Cons.prems(8) fresh_cong [OF keep(1)] by simp
  have le1: "seqs_le m m1" using keep by (simp add: seqs_le_def)
  have syn: "small_seq (synced_seq m1 k)" and old: "gget (mx_synced m1) k = Some x \<Longrightarrow> x = synced_seq m1 k" for x
    using run1 by (auto simp: synced_seq_def running_def small_seq_def split: option.split)
  define m2 where "m2 = snd (trigger [(k, \<lparr>pm_Msgs = st, pm_IsEnd = False\<rparr>)] m1)"
  have keep2: "mx_synced m2 = mx_synced m1" "mx_reinstalled m2 = mx_reinstalled m1"
    using assms by (simp_all add: m2_def keeps_seqs_def)
  have sum: "i64 (synced_seq m1 k + int (length st)) = synced_seq m1 k + int (length st)"
    using syn len by (simp add: small_seq_def i64_id is_i64_def)
  have suc: "i64 (synced_seq m1 k + 1) = synced_seq m1 k + 1"
    using syn by (simp add: small_seq_def i64_id is_i64_def)
  consider (trig) "l = synced_seq m1 k + int (length st)" "l \<noteq> 0"
    | (need) "\<not> (l = synced_seq m1 k + int (length st) \<and> l \<noteq> 0)" "l \<noteq> 0" "l > synced_seq m1 k"
    | (none) "\<not> (l = synced_seq m1 k + int (length st) \<and> l \<noteq> 0)" "\<not> (l \<noteq> 0 \<and> l > synced_seq m1 k)"
    by blast
  then show ?case
  proof cases
    case trig
    then have run: "push_loop trigger L l st need (set_synced k l m2) = (need', m')"
      using Cons.prems(1) p pm sum by (simp add: m2_def)
    have "seqs_le m1 (set_synced k l m2)"
      using seqs_le_set [of m2 k l] old trig(1) keep2 by (auto simp: seqs_le_def)
    moreover have "running (set_synced k l m2)"
      using running_set [OF _ l] run1 running_cong [OF keep2(1)] by simp
    moreover have "fresh_ranges (set_synced k l m2) need"
      by (rule fresh_set [OF _ rest(5)]) (use fresh1 fresh_cong [OF keep2(1)] in simp)
    ultimately show ?thesis
      using Cons.IH [OF run rest(1-3) l rest(4)] le1 seqs_le_trans by blast
  next
    case need
    then have run: "push_loop trigger L l st (gput k (synced_seq m1 k + 1, l) need) m1 = (need', m')"
      using Cons.prems(1) p pm sum suc by (auto simp: m2_def)
    have "fresh_ranges m1 (gput k (synced_seq m1 k + 1, l) need)"
      by (rule fresh_gput [OF fresh1]) (use need syn l old in \<open>auto simp: small_seq_def\<close>)
    moreover have "\<forall>k' \<in> fst ` set L. gget (gput k (synced_seq m1 k + 1, l) need) k' = None"
      using rest(4,6) by (auto simp: gomap_simps)
    ultimately show ?thesis
      using Cons.IH [OF run rest(1-3) l _ run1] le1 seqs_le_trans by blast
  next
    case none
    then have run: "push_loop trigger L l st need m1 = (need', m')"
      using Cons.prems(1) p pm sum by (auto simp: m2_def)
    then show ?thesis
      using Cons.IH [OF run rest(1-3) l rest(4) run1 fresh1] le1 seqs_le_trans by blast
  qed
qed simp

lemma push_keeps:
  assumes "sane_orders E" and "keeps_seqs trigger" and "sane_push msgs" and "running m"
  shows "seqs_le m (pushTriggerAndSync E msgs trigger m) \<and> running (pushTriggerAndSync E msgs trigger m)"
proof (cases "msgs = []")
  case True
  with assms show ?thesis by (simp add: pushTriggerAndSync_def)
next
  case False
  let ?L = "se_range_msgs E msgs"
  have L: "mset ?L = mset msgs" and ok: "gomap_ok msgs"
    using assms by (auto simp: sane_orders_def any_order_def sane_push_def)
  have "sum_list (map (\<lambda>(k, ms). int (length (pm_Msgs ms))) ?L) = sum_list (map (\<lambda>(k, ms). int (length (pm_Msgs ms))) msgs)"
    using L by (simp flip: sum_mset_sum_list add: mset_map)
  moreover have "set ?L = set msgs" "distinct (map fst ?L)"
    using assms(1) ok iter_set iter_distinct by (auto simp: sane_orders_def gomap_ok_def)
  moreover obtain need m1 where loop: "push_loop trigger ?L 0 [] [] m = (need, m1)" by fastforce
  ultimately have P: "seqs_le m m1 \<and> running m1 \<and> fresh_ranges m1 need"
    using assms(3,4) by (intro push_loop_keeps [OF assms(2) loop]) (simp_all add: sane_push_def small_seq_def fresh_ranges_def)
  obtain r m2 where sync: "syncAndTriggerMsgs E need defaultPullNums m1 = (r, m2)" by fastforce
  from sync_fresh [OF assms(1) _ _ sync] P seqs_le_trans
  show ?thesis using False loop sync by (simp add: pushTriggerAndSync_def) blast
qed

text \<open>Commands whose numbers are in range, and a server that answers with such numbers.\<close>

definition sane_seqs :: "(string, int) gomap \<Rightarrow> bool" where
  "sane_seqs seqs \<longleftrightarrow> gomap_ok seqs \<and> (\<forall>(k, s) \<in> set seqs. small_seq s)"

definition sane_cmd :: "Cmd2Value \<Rightarrow> bool" where
  "sane_cmd cmd \<longleftrightarrow> (case c2v_Value cmd of
     PMaxSeq seqs \<Rightarrow> sane_seqs seqs
   | PPush push \<Rightarrow> sane_push (push_Msgs push) \<and> sane_push (push_NotificationMsgs push)
   | _ \<Rightarrow> True)"

definition sane_server :: "('d, 'n) sync_env \<Rightarrow> bool" where
  "sane_server E \<longleftrightarrow> (\<forall>n seqs n'. se_GetNewestSeq E n = (Inr seqs, n') \<longrightarrow> sane_seqs seqs)"

text \<open>
  After a reinstallation the first comparison takes the server's number of every notification conversation as it is: it is
  the only step that can lower a recorded number.
\<close>

definition raised_or_taken :: "bool \<Rightarrow> (string, int) gomap \<Rightarrow> ('d, 'n) msg_syncer \<Rightarrow> ('d, 'n) msg_syncer \<Rightarrow> bool" where
  "raised_or_taken fresh seqs m m' \<longleftrightarrow>
     (\<forall>k s. gget (mx_synced m) k = Some s \<longrightarrow> (\<exists>s'. gget (mx_synced m') k = Some s' \<and>
        (s \<le> s' \<or> fresh \<and> IsNotification k \<and> (\<exists>v. gget seqs k = Some v \<and> v \<le> s'))))"

lemma raised_le: "raised_or_taken fresh seqs m m1 \<Longrightarrow> seqs_le m1 m' \<Longrightarrow> raised_or_taken fresh seqs m m'"
  unfolding raised_or_taken_def seqs_le_def by (meson order_trans)

lemma raised_by_le: "seqs_le m m' \<Longrightarrow> raised_or_taken fresh seqs m m'"
  by (auto simp: raised_or_taken_def seqs_le_def)

lemma set_notification_seqs_reinstalled [simp]:
  "mx_reinstalled (set_notification_seqs E L m) = mx_reinstalled m"
  by (induction E L m rule: set_notification_seqs.induct) (auto simp: set_synced_def split: prod.split option.split)

lemma set_notification_seqs_takes:
  "gget (mx_synced (set_notification_seqs E L m)) k = gget (mx_synced m) k \<or>
   (\<exists>v. (k, v) \<in> set L \<and> gget (mx_synced (set_notification_seqs E L m)) k = Some v)"
  by (induction E L m rule: set_notification_seqs.induct)
    (fastforce simp: set_synced_def gomap_simps split: prod.split option.split if_splits)+

definition only_keys :: "(string \<Rightarrow> bool) \<Rightarrow> (string \<times> int) list \<Rightarrow> (string, int) gomap" where
  "only_keys P L = fold (\<lambda>(k, s). gput k s) (filter (P \<circ> fst) L) []"

lemma only_keys_set:
  assumes "sane_orders E" and "sane_seqs seqs" and "(k, v) \<in> set (se_range_seqs E (only_keys P (se_range_seqs E seqs)))"
  shows "P k \<and> gget seqs k = Some v \<and> small_seq v"
proof -
  have "set (fold (\<lambda>(k, s). gput k s) L M) \<subseteq> set L \<union> set M" for L and M :: "(string, int) gomap"
  proof (induction L arbitrary: M)
    case (Cons p L)
    obtain k s where p: "p = (k, s)" by (cases p)
    have "set (gput k s M) \<subseteq> insert (k, s) (set M)" by (induction M) auto
    with Cons [of "gput k s M"] show ?case by (auto simp: p)
  qed simp
  from this [of "filter (P \<circ> fst) (se_range_seqs E seqs)" "[]"] assms(1,3)
  have "P k" and "(k, v) \<in> set seqs" by (auto simp: sane_orders_def iter_set only_keys_def)
  with assms(2) show ?thesis by (auto simp: sane_seqs_def intro: in_gget)
qed

lemma compare_keeps:
  assumes "sane_orders E" and "sane_seqs seqs" and "running m"
  shows "raised_or_taken (mx_reinstalled m) seqs m (compareSeqsAndBatchSync E seqs n m) \<and>
    running (compareSeqsAndBatchSync E seqs n m) \<and> \<not> mx_reinstalled (compareSeqsAndBatchSync E seqs n m)"
proof (cases "mx_reinstalled m")
  case False
  have "\<forall>(k, s) \<in> set (se_range_seqs E seqs). small_seq s"
    using assms(1,2) by (auto simp: sane_seqs_def sane_orders_def iter_set)
  note fresh = need_sync_fresh [OF assms(3) this]
  obtain r m' where run: "syncAndTriggerMsgs E (need_sync m (se_range_seqs E seqs)) n m = (r, m')" by fastforce
  from sync_fresh [OF assms(1) fresh assms(3) run] raised_by_le syncAndTriggerMsgs_reinstalled [OF run] run False
  show ?thesis by (auto simp: compareSeqsAndBatchSync_def)
next
  case True
  let ?notes = "only_keys IsNotification (se_range_seqs E seqs)"
  let ?rest = "only_keys (Not \<circ> IsNotification) (se_range_seqs E seqs)"
  let ?m1 = "(set_notification_seqs E (se_range_seqs E ?notes) m)\<lparr>mx_reinstalled := False\<rparr>"
  let ?need = "need_sync (set_notification_seqs E (se_range_seqs E ?notes) m) (se_range_seqs E ?rest)"
  have takes: "gget (mx_synced ?m1) k = gget (mx_synced m) k \<or>
      (\<exists>v. IsNotification k \<and> gget seqs k = Some v \<and> small_seq v \<and> gget (mx_synced ?m1) k = Some v)" for k
    using set_notification_seqs_takes [of E "se_range_seqs E ?notes" m k] only_keys_set [OF assms(1,2), of k _ IsNotification]
    by auto
  have run1: "running ?m1"
    unfolding running_def
  proof (intro allI impI)
    fix k s
    assume "gget (mx_synced ?m1) k = Some s"
    with takes [of k] assms(3) show "small_seq s" by (auto simp: running_def)
  qed
  have raised: "raised_or_taken True seqs m ?m1"
    unfolding raised_or_taken_def
  proof (intro allI impI)
    fix k s
    assume "gget (mx_synced m) k = Some s"
    with takes [of k] show "\<exists>s'. gget (mx_synced ?m1) k = Some s' \<and>
        (s \<le> s' \<or> True \<and> IsNotification k \<and> (\<exists>v. gget seqs k = Some v \<and> v \<le> s'))" by auto
  qed
  have "\<forall>(k, s) \<in> set (se_range_seqs E ?rest). small_seq s"
    using only_keys_set [OF assms(1,2)] by blast
  moreover have "need_sync ?m1 = need_sync (set_notification_seqs E (se_range_seqs E ?notes) m)"
    by (rule ext) (simp add: need_sync_def)
  ultimately have fresh: "fresh_ranges ?m1 ?need" using need_sync_fresh [OF run1] by simp
  obtain r m' where run: "syncAndTriggerMsgs E ?need n ?m1 = (r, m')" by fastforce
  have "compareSeqsAndBatchSync E seqs n m = m'"
    using True run by (simp add: compareSeqsAndBatchSync_def only_keys_def Let_def)
  with sync_fresh [OF assms(1) fresh run1 run] raised_le [OF raised] syncAndTriggerMsgs_reinstalled [OF run] True
  show ?thesis by simp
qed

lemma sync_flag_keeps [simp]:
  "mx_synced (sync_flag f m) = mx_synced m" "mx_reinstalled (sync_flag f m) = mx_reinstalled m"
  by (simp_all add: sync_flag_def on_conv_def split: prod.split)

text \<open>What the server says of a conversation, in a command or when it is asked after a connection.\<close>

definition server_says :: "('d, 'n) sync_env \<Rightarrow> Cmd2Value set \<Rightarrow> string \<Rightarrow> int \<Rightarrow> bool" where
  "server_says E cmds k v \<longleftrightarrow>
     (\<exists>cmd \<in> cmds. \<exists>seqs. c2v_Value cmd = PMaxSeq seqs \<and> gget seqs k = Some v) \<or>
     (\<exists>n seqs n'. se_GetNewestSeq E n = (Inr seqs, n') \<and> gget seqs k = Some v)"

text \<open>From \<open>m\<close> to \<open>m'\<close> a number is kept or raised, or taken from the server by the one comparison after a reinstallation.\<close>

definition moves :: "('d, 'n) sync_env \<Rightarrow> Cmd2Value set \<Rightarrow> ('d, 'n) msg_syncer \<Rightarrow> ('d, 'n) msg_syncer \<Rightarrow> bool" where
  "moves E cmds m m' \<longleftrightarrow> (mx_reinstalled m' \<longrightarrow> mx_reinstalled m) \<and>
     (\<forall>k s. gget (mx_synced m) k = Some s \<longrightarrow> (\<exists>s'. gget (mx_synced m') k = Some s' \<and>
        (s \<le> s' \<or> mx_reinstalled m \<and> \<not> mx_reinstalled m' \<and> IsNotification k \<and> (\<exists>v. server_says E cmds k v \<and> v \<le> s'))))"

lemma moves_le: "seqs_le m m' \<Longrightarrow> mx_reinstalled m' = mx_reinstalled m \<Longrightarrow> moves E cmds m m'"
  by (auto simp: moves_def seqs_le_def)

lemma moves_raised:
  "raised_or_taken (mx_reinstalled m) seqs m m' \<Longrightarrow> \<not> mx_reinstalled m' \<Longrightarrow>
   (\<And>k v. gget seqs k = Some v \<Longrightarrow> server_says E cmds k v) \<Longrightarrow> moves E cmds m m'"
  unfolding moves_def raised_or_taken_def by blast

lemma moves_mono: "moves E cmds m m' \<Longrightarrow> cmds \<subseteq> cmds' \<Longrightarrow> moves E cmds' m m'"
  unfolding moves_def server_says_def by blast

lemma moves_trans:
  assumes "moves E cmds m1 m2" and "moves E cmds m2 m3"
  shows "moves E cmds m1 m3"
  unfolding moves_def
proof (intro conjI allI impI)
  show "mx_reinstalled m1" if "mx_reinstalled m3" using assms that by (simp add: moves_def)
  fix k s
  assume "gget (mx_synced m1) k = Some s"
  with assms(1) obtain s2 where s2: "gget (mx_synced m2) k = Some s2"
    "s \<le> s2 \<or> mx_reinstalled m1 \<and> \<not> mx_reinstalled m2 \<and> IsNotification k \<and> (\<exists>v. server_says E cmds k v \<and> v \<le> s2)"
    unfolding moves_def by blast
  with assms(2) obtain s3 where s3: "gget (mx_synced m3) k = Some s3"
    "s2 \<le> s3 \<or> mx_reinstalled m2 \<and> \<not> mx_reinstalled m3 \<and> IsNotification k \<and> (\<exists>v. server_says E cmds k v \<and> v \<le> s3)"
    unfolding moves_def by blast
  have "mx_reinstalled m2 \<longrightarrow> mx_reinstalled m1" and "mx_reinstalled m3 \<longrightarrow> mx_reinstalled m2"
    using assms by (simp_all add: moves_def)
  then show "\<exists>s'. gget (mx_synced m3) k = Some s' \<and>
      (s \<le> s' \<or> mx_reinstalled m1 \<and> \<not> mx_reinstalled m3 \<and> IsNotification k \<and> (\<exists>v. server_says E cmds k v \<and> v \<le> s'))"
    using s2(2) s3 by (meson order_trans)
qed

lemma connected_keeps:
  assumes "sane_orders E" and "sane_server E" and "running m"
  shows "moves E cmds m (doConnected E m) \<and> running (doConnected E m)"
proof -
  let ?m1 = "sync_flag MsgSyncBegin m"
  obtain r n where net: "se_GetNewestSeq E (mx_net ?m1) = (r, n)" by fastforce
  have run1: "running (?m1\<lparr>mx_net := n\<rparr>)" using assms(3) by (simp add: running_def)
  show ?thesis
  proof (cases r)
    case (Inl e)
    with net assms(3) show ?thesis by (auto simp: doConnected_def Let_def running_def intro!: moves_le simp: seqs_le_def)
  next
    case (Inr seqs)
    with net assms(2) have "sane_seqs seqs" unfolding sane_server_def by blast
    note keep = compare_keeps [OF assms(1) this run1, of connectPullNums]
    have says: "server_says E cmds k v" if "gget seqs k = Some v" for k v
      using net Inr that unfolding server_says_def by blast
    have "raised_or_taken (mx_reinstalled m) seqs m (doConnected E m)" and "\<not> mx_reinstalled (doConnected E m)"
      and "running (doConnected E m)"
      using keep net Inr by (simp_all add: doConnected_def Let_def raised_or_taken_def running_def)
    then show ?thesis using moves_raised [of m seqs] says by blast
  qed
qed

lemma push_loop_reinstalled:
  assumes "keeps_seqs trigger"
  shows "push_loop trigger L lastSeq storage need m = (need', m') \<Longrightarrow> mx_reinstalled m' = mx_reinstalled m"
proof (induction L arbitrary: lastSeq storage need m)
  case (Cons p L)
  obtain k ms where p: "p = (k, ms)" by (cases p)
  obtain l st m1 where pm: "push_msgs trigger k (pm_Msgs ms) lastSeq storage m = (l, st, m1)" by (metis prod_cases3)
  have "push_msgs trigger k xs lastSeq storage m = (l, st, m1) \<Longrightarrow> mx_reinstalled m1 = mx_reinstalled m" for xs l st m1 lastSeq storage m
    using assms by (induction xs arbitrary: lastSeq storage m) (fastforce simp: keeps_seqs_def split: if_splits)+
  from this [OF pm] Cons p pm assms show ?case
    by (auto simp: keeps_seqs_def set_synced_def split: if_splits)
qed simp

lemma push_reinstalled:
  assumes "keeps_seqs trigger"
  shows "mx_reinstalled (pushTriggerAndSync E msgs trigger m) = mx_reinstalled m"
proof -
  obtain need m1 where loop: "push_loop trigger (se_range_msgs E msgs) 0 [] [] m = (need, m1)" by fastforce
  obtain r m2 where sync: "syncAndTriggerMsgs E need defaultPullNums m1 = (r, m2)" by fastforce
  show ?thesis
    using push_loop_reinstalled [OF assms loop] syncAndTriggerMsgs_reinstalled [OF sync] loop sync
    by (simp add: pushTriggerAndSync_def)
qed

lemma handle_keeps:
  assumes "sane_orders E" and "sane_server E" and "sane_cmd cmd" and "running m"
  shows "moves E {cmd} m (handlePushMsgAndEvent E cmd m) \<and> running (handlePushMsgAndEvent E cmd m)"
proof -
  have same: "moves E {cmd} m m" by (rule moves_le) simp_all
  have push: "moves E {cmd} m (doPushMsg E push m) \<and> running (doPushMsg E push m)" if "c2v_Value cmd = PPush push" for push
  proof -
    let ?m1 = "pushTriggerAndSync E (push_Msgs push) triggerConversation m"
    have 1: "seqs_le m ?m1" "running ?m1"
      using push_keeps [OF assms(1) keeps_triggers(1) _ assms(4)] that assms(3) by (simp_all add: sane_cmd_def)
    then have "seqs_le ?m1 (doPushMsg E push m)" "running (doPushMsg E push m)"
      using push_keeps [OF assms(1) keeps_triggers(2)] that assms(3) by (simp_all add: sane_cmd_def doPushMsg_def)
    with 1 show ?thesis using seqs_le_trans by (auto simp: doPushMsg_def push_reinstalled intro!: moves_le)
  qed
  have cmp: "moves E {cmd} m (compareSeqsAndBatchSync E seqs n m) \<and> running (compareSeqsAndBatchSync E seqs n m)"
    if "c2v_Value cmd = PMaxSeq seqs" for seqs n
  proof -
    from that assms(3) have "sane_seqs seqs" by (simp add: sane_cmd_def)
    note keep = compare_keeps [OF assms(1) this assms(4), of n]
    have "server_says E {cmd} k v" if "gget seqs k = Some v" for k v
      using that \<open>c2v_Value cmd = PMaxSeq seqs\<close> by (simp add: server_says_def)
    with keep moves_raised show ?thesis by blast
  qed
  show ?thesis
    using connected_keeps [OF assms(1,2,4)] cmp push same assms(4)
    by (auto simp: handlePushMsgAndEvent_def split: cmd_payload.splits)
qed

lemma listener_keeps:
  assumes "sane_orders E" and "sane_server E"
  shows "\<forall>cmd \<in> set cmds. sane_cmd cmd \<Longrightarrow> running m \<Longrightarrow> moves E (set cmds) m (MsgSyncer_DoListener E cmds m)"
proof (induction cmds arbitrary: m)
  case Nil
  show ?case by (rule moves_le) (simp_all add: MsgSyncer_DoListener_def)
next
  case (Cons cmd cmds)
  let ?m1 = "handlePushMsgAndEvent E cmd m"
  note first = handle_keeps [OF assms, of cmd m]
  have "moves E {cmd} m ?m1" and run: "running ?m1" using first Cons.prems by simp_all
  have one: "moves E (set (cmd # cmds)) m ?m1" by (rule moves_mono [OF \<open>moves E {cmd} m ?m1\<close>]) simp
  have "moves E (set cmds) ?m1 (MsgSyncer_DoListener E cmds ?m1)"
    by (rule Cons.IH [OF _ run]) (use Cons.prems(1) in simp)
  then have "moves E (set (cmd # cmds)) ?m1 (MsgSyncer_DoListener E cmds ?m1)" by (rule moves_mono) auto
  from moves_trans [OF one this] show ?case by (simp add: MsgSyncer_DoListener_def)
qed

section \<open>Properties\<close>

text \<open>
  C5: a synchronisation records only what it has pulled. For ranges in bounds and any map
  iteration order, whatever the server answers and wherever the run stops: the recorded number
  of a conversation either stays or becomes a number up to which the conversation's requested
  range has been answered by the server, chunk by chunk without a gap; and when the run reports
  no error, the whole range of every conversation has been pulled and its end recorded.
\<close>
theorem syncAndTriggerMsgs_pulls:
  assumes "sane_orders E" and "sane_ranges seqMap" and "syncAndTriggerMsgs E seqMap n m = (r, m')"
  shows "pulled_progress seqMap m m' \<and>
    (r = None \<longrightarrow> (\<forall>k b e. gget seqMap k = Some (b, e) \<longrightarrow>
       gget (mx_synced m') k = Some e \<and> (\<forall>y. b \<le> y \<and> y \<le> e \<longrightarrow> covered (mx_pulled m') k y)))"
  using assms by (rule syncAndTriggerMsgs_progress)

text \<open>A server that answers every request with the pulled ranges empty, for the witnesses.\<close>

definition empty_resp :: PullMessageBySeqsResp where
  "empty_resp = \<lparr>pr_Msgs = [], pr_NotificationMsgs = []\<rparr>"

definition sample_env :: "(unit, bool list) sync_env" where
  "sample_env = \<lparr>se_GetAllConversationIDList = (\<lambda>d. (Inr [], d)),
     se_GetConversationNormalMsgSeq = (\<lambda>k d. (Inr 0, d)),
     se_GetNotificationAllSeqs = (\<lambda>d. (Inr [], d)), se_SetNotificationSeq = (\<lambda>k s d. (None, d)),
     se_GetNewestSeq = (\<lambda>n. (Inr [(''si_a_b'', 3)], n)),
     se_PullMsgBySeqList = (\<lambda>rs n. case n of [] \<Rightarrow> (Inr empty_resp, []) | b # bs \<Rightarrow> (if b then Inl (GoError ''net'') else Inr empty_resp, bs)),
     se_range_ranges = rev, se_range_seqs = (\<lambda>m. m), se_range_msgs = (\<lambda>m. m)\<rparr>"

definition sample_syncer :: "(string, int) gomap \<Rightarrow> chan option \<Rightarrow> bool list \<Rightarrow> (unit, bool list) msg_syncer" where
  "sample_syncer synced conv net = \<lparr>mx_synced = synced, mx_reinstalled = False, mx_db = (), mx_net = net,
     mx_conv = conv, mx_pulled = []\<rparr>"

lemma sample_orders: "sane_orders sample_env"
  by (simp add: sane_orders_def sample_env_def)

theorem syncAndTriggerMsgs_pulls_witness:
  "let seqMap = [(''n_a'', 1, 950), (''si_a_b'', 4, 7)]; m = sample_syncer [(''si_a_b'', 3)] None [False, False, False, True];
       (r, m') = syncAndTriggerMsgs sample_env seqMap 10 m
   in pulled_progress seqMap m m'"
  using syncAndTriggerMsgs_pulls [OF sample_orders, of "[(''n_a'', 1, 950), (''si_a_b'', 4, 7)]" 10
      "sample_syncer [(''si_a_b'', 3)] None [False, False, False, True]"]
  by (auto simp: sane_ranges_def gomap_ok_def Let_def split: prod.split)

text \<open>
  C6: the recorded numbers go back in one case only. For any sequence of commands with numbers below \<open>2 ^ 61\<close>, in any
  order of arrival, and any answers of the server, the listener keeps the recorded number of a conversation or raises it; the
  exception is the first comparison after a reinstallation, which ends the state of being reinstalled and may leave a
  notification conversation with a number that the server has named, or a higher one. Once that state is over it does not come
  back, so no later command lowers any number.
\<close>
theorem MsgSyncer_listener_monotone:
  assumes "sane_orders E" and "sane_server E" and "\<forall>cmd \<in> set cmds. sane_cmd cmd"
    and "\<forall>k s. gget (mx_synced m) k = Some s \<longrightarrow> small_seq s"
    and "gget (mx_synced m) k = Some s"
  shows "\<exists>s'. gget (mx_synced (MsgSyncer_DoListener E cmds m)) k = Some s' \<and>
    (s \<le> s' \<or> mx_reinstalled m \<and> \<not> mx_reinstalled (MsgSyncer_DoListener E cmds m) \<and> IsNotification k \<and>
       (\<exists>v. server_says E (set cmds) k v \<and> v \<le> s')) \<and>
    (mx_reinstalled (MsgSyncer_DoListener E cmds m) \<longrightarrow> mx_reinstalled m)"
proof -
  have "running m" using assms(4) by (simp add: running_def)
  from listener_keeps [OF assms(1-3) this] assms(5) show ?thesis by (simp add: moves_def)
qed

definition sample_msg :: "string \<Rightarrow> int \<Rightarrow> MsgData" where
  "sample_msg cid seq = \<lparr>md_SendID = ''a'', md_RecvID = ''b'', md_GroupID = [], md_ClientMsgID = cid,
     md_ServerMsgID = [], md_SenderPlatformID = 1, md_SenderNickname = [], md_SenderFaceURL = [],
     md_SessionType = 1, md_MsgFrom = 100, md_ContentType = 101, md_Content = [], md_Seq = seq,
     md_SendTime = seq, md_CreateTime = seq, md_Status = 2, md_IsRead = False, md_Options = [],
     md_OfflinePushInfo = None, md_AttachedInfo = [], md_Ex = []\<rparr>"

definition sample_push :: "(string \<times> int list) list \<Rightarrow> (string, PullMsgs) gomap" where
  "sample_push kss = map (\<lambda>(k, ss). (k, \<lparr>pm_Msgs = map (sample_msg k) ss, pm_IsEnd = False\<rparr>)) kss"

definition push_cmd :: "(string \<times> int list) list \<Rightarrow> Cmd2Value" where
  "push_cmd kss = \<lparr>c2v_Cmd = CmdPushMsg, c2v_Value = PPush \<lparr>push_Msgs = sample_push kss, push_NotificationMsgs = []\<rparr>\<rparr>"

theorem MsgSyncer_listener_monotone_witness:
  "\<exists>s'. gget (mx_synced (MsgSyncer_DoListener sample_env
      [push_cmd [(''si_a_b'', [2, 3])], push_cmd [(''si_a_b'', [6])], \<lparr>c2v_Cmd = CmdConnSuccesss, c2v_Value = PNil\<rparr>]
      ((sample_syncer [(''si_a_b'', 1)] None [False, True])\<lparr>mx_reinstalled := True\<rparr>))) ''si_a_b'' = Some s' \<and> 1 \<le> s'"
proof -
  let ?cmds = "[push_cmd [(''si_a_b'', [2, 3])], push_cmd [(''si_a_b'', [6])], \<lparr>c2v_Cmd = CmdConnSuccesss, c2v_Value = PNil\<rparr>]"
  have server: "sane_server sample_env"
    by (auto simp: sane_server_def sample_env_def sane_seqs_def gomap_ok_def small_seq_def)
  have cmds: "\<forall>cmd \<in> set ?cmds. sane_cmd cmd"
    by (simp add: sane_cmd_def push_cmd_def sane_push_def sample_push_def sample_msg_def gomap_ok_def small_seq_def)
  have "\<not> IsNotification ''si_a_b''" by (simp add: IsNotification_def)
  with MsgSyncer_listener_monotone [OF sample_orders server cmds,
      of "(sample_syncer [(''si_a_b'', 1)] None [False, True])\<lparr>mx_reinstalled := True\<rparr>" "''si_a_b''" 1]
  show ?thesis by (auto simp: sample_syncer_def small_seq_def split: if_splits)
qed

lemma keeps_synced [simp]: "keeps_seqs trigger \<Longrightarrow> synced_seq (snd (trigger x m)) k = synced_seq m k"
  by (simp add: keeps_seqs_def synced_seq_def)

text \<open>
  The messages of one conversation: those without a number are handed on at once, one by one, and the others are put
  behind those collected so far.
\<close>

definition numbered :: "MsgData list \<Rightarrow> MsgData list" where
  "numbered msgs = filter (\<lambda>x. md_Seq x \<noteq> 0) msgs"

definition hand_on ::
  "((string, PullMsgs) gomap \<Rightarrow> ('d, 'n) msg_syncer action) \<Rightarrow> string \<Rightarrow> MsgData list \<Rightarrow> ('d, 'n) msg_syncer \<Rightarrow>
   ('d, 'n) msg_syncer" where
  "hand_on trigger k msgs m = snd (trigger [(k, \<lparr>pm_Msgs = msgs, pm_IsEnd = False\<rparr>)] m)"

definition hand_on_unnumbered ::
  "((string, PullMsgs) gomap \<Rightarrow> ('d, 'n) msg_syncer action) \<Rightarrow> string \<Rightarrow> MsgData list \<Rightarrow> ('d, 'n) msg_syncer \<Rightarrow>
   ('d, 'n) msg_syncer" where
  "hand_on_unnumbered trigger k msgs = fold (\<lambda>x. hand_on trigger k [x]) (filter (\<lambda>x. md_Seq x = 0) msgs)"

lemma push_msgs_splits:
  "push_msgs trigger k msgs l st m =
     (if numbered msgs = [] then l else md_Seq (last (numbered msgs)), st @ numbered msgs, hand_on_unnumbered trigger k msgs m)"
  by (induction trigger k msgs l st m rule: push_msgs.induct)
    (auto simp: numbered_def hand_on_unnumbered_def hand_on_def)

lemma hand_on_keeps [simp]:
  "keeps_seqs trigger \<Longrightarrow> synced_seq (hand_on trigger k msgs m) k' = synced_seq m k'"
  "keeps_seqs trigger \<Longrightarrow> synced_seq (hand_on_unnumbered trigger k msgs m) k' = synced_seq m k'"
proof -
  show one: "synced_seq (hand_on trigger k msgs m) k' = synced_seq m k'" if "keeps_seqs trigger" for msgs m
    using that by (simp add: hand_on_def)
  have "synced_seq (fold (\<lambda>x. hand_on trigger k [x]) xs m) k' = synced_seq m k'" if "keeps_seqs trigger" for xs
    using one [OF that] by (induction xs arbitrary: m) simp_all
  then show "synced_seq (hand_on_unnumbered trigger k msgs m) k' = synced_seq m k'" if "keeps_seqs trigger"
    using that by (simp add: hand_on_unnumbered_def)
qed

text \<open>
  C7: a push for one conversation, on every branch. The messages without a number are handed on one by one. When the last
  number of the others is the recorded one plus their count, they are handed on together and the last number is recorded,
  with no request to the server; when it is larger, exactly the gap up to it is synchronised; otherwise, and when no message
  has a number, nothing more happens.
\<close>
theorem pushTriggerAndSync_single:
  assumes "sane_orders E" and "keeps_seqs trigger"
    and "small_seq (synced_seq m k)" and "length (pm_Msgs pm) < 2 ^ 61"
  shows "pushTriggerAndSync E [(k, pm)] trigger m =
    (let msgs = numbered (pm_Msgs pm); s = synced_seq m k; m1 = hand_on_unnumbered trigger k (pm_Msgs pm) m in
     if msgs = [] then m1
     else if md_Seq (last msgs) = s + int (length msgs) then set_synced k (md_Seq (last msgs)) (hand_on trigger k msgs m1)
     else if md_Seq (last msgs) > s then snd (syncAndTriggerMsgs E [(k, s + 1, md_Seq (last msgs))] defaultPullNums m1)
     else m1)"
proof -
  have order: "se_range_msgs E [(k, pm)] = [(k, pm)]"
  proof -
    have "mset (se_range_msgs E [(k, pm)]) = {#(k, pm)#}"
      using assms(1) by (simp add: sane_orders_def any_order_def)
    then show ?thesis by (simp only: mset_single_iff)
  qed
  have "length (numbered (pm_Msgs pm)) \<le> length (pm_Msgs pm)" by (simp add: numbered_def)
  then have "i64 (synced_seq m k + int (length (numbered (pm_Msgs pm)))) = synced_seq m k + int (length (numbered (pm_Msgs pm)))"
    and "i64 (synced_seq m k + 1) = synced_seq m k + 1"
    using assms(3,4) by (auto simp: small_seq_def i64_id is_i64_def)
  moreover have "md_Seq (last (numbered (pm_Msgs pm))) \<noteq> 0" if "numbered (pm_Msgs pm) \<noteq> []"
    using last_in_set [OF that] by (simp add: numbered_def)
  ultimately show ?thesis
    using assms(2) by (simp add: pushTriggerAndSync_def order push_msgs_splits Let_def syncAndTriggerMsgs_def hand_on_def)
qed

theorem pushTriggerAndSync_single_witness:
  "let m' = pushTriggerAndSync sample_env (sample_push [(''si_a_b'', [0, 2, 3])]) triggerConversation
      (sample_syncer [(''si_a_b'', 1)] (Some \<lparr>ch_sent = [], ch_room = []\<rparr>) [])
   in mx_synced m' = [(''si_a_b'', 3)] \<and> length (accepted (mx_conv m')) = 2"
  using pushTriggerAndSync_single [OF sample_orders keeps_triggers(1),
      of "sample_syncer [(''si_a_b'', 1)] (Some \<lparr>ch_sent = [], ch_room = []\<rparr>) []" "''si_a_b''"
      "\<lparr>pm_Msgs = map (sample_msg ''si_a_b'') [0, 2, 3], pm_IsEnd = False\<rparr>"]
  by (simp add: sample_msg_def sample_push_def sample_syncer_def synced_seq_def small_seq_def set_synced_def numbered_def
      hand_on_unnumbered_def hand_on_def triggerConversation_def on_conv_def TriggerCmdNewMsgCome_def send_unless_nil_def
      sendCmd_def accepted_def)

text \<open>
  C8: a push that carries two conversations mixes them up, since the collected messages are not reset between them. The
  push has numbered messages of \<open>a\<close> that are handed on (nothing is missing before them) and then numbered messages of \<open>b\<close>.
  If \<open>b\<close> lacks as many messages before the pushed ones as \<open>a\<close> had in the push, the messages of both are handed on as
  \<open>b\<close>'s and the last number is recorded for \<open>b\<close>, so that the missing ones are never asked for; and if \<open>b\<close> lacks
  nothing, its messages are not handed on but asked for again.
\<close>
theorem pushTriggerAndSync_two_conversations:
  assumes "keeps_seqs trigger" and "a \<noteq> b" and "se_range_msgs E [(a, pa), (b, pb)] = [(a, pa), (b, pb)]"
    and "\<forall>x \<in> set (pm_Msgs pa) \<union> set (pm_Msgs pb). md_Seq x \<noteq> 0" and "pm_Msgs pa \<noteq> []" and "pm_Msgs pb \<noteq> []"
    and "small_seq (synced_seq m a)" and "small_seq (synced_seq m b)"
    and "length (pm_Msgs pa) < 2 ^ 60" and "length (pm_Msgs pb) < 2 ^ 60"
    and "md_Seq (last (pm_Msgs pa)) = synced_seq m a + int (length (pm_Msgs pa))"
  shows "let m1 = set_synced a (md_Seq (last (pm_Msgs pa))) (hand_on trigger a (pm_Msgs pa) m);
             before = md_Seq (last (pm_Msgs pb)) - int (length (pm_Msgs pb)) in
    (before = synced_seq m b + int (length (pm_Msgs pa)) \<longrightarrow>
       pushTriggerAndSync E [(a, pa), (b, pb)] trigger m =
         set_synced b (md_Seq (last (pm_Msgs pb))) (hand_on trigger b (pm_Msgs pa @ pm_Msgs pb) m1)) \<and>
    (before = synced_seq m b \<longrightarrow>
       pushTriggerAndSync E [(a, pa), (b, pb)] trigger m =
         snd (syncAndTriggerMsgs E [(b, synced_seq m b + 1, md_Seq (last (pm_Msgs pb)))] defaultPullNums m1))"
proof -
  have all: "numbered (pm_Msgs pa) = pm_Msgs pa" "numbered (pm_Msgs pb) = pm_Msgs pb"
    and none: "\<And>k m. hand_on_unnumbered trigger k (pm_Msgs pa) m = m" "\<And>k m. hand_on_unnumbered trigger k (pm_Msgs pb) m = m"
    using assms(4) by (simp_all add: numbered_def hand_on_unnumbered_def filter_id_conv filter_False)
  have last0: "md_Seq (last (pm_Msgs pa)) \<noteq> 0" "md_Seq (last (pm_Msgs pb)) \<noteq> 0"
    using assms(4,5,6) last_in_set by (metis UnI1 UnI2)+
  have pos: "0 < length (pm_Msgs pa)" "0 < length (pm_Msgs pb)" using assms(5,6) by simp_all
  have wrap: "i64 (synced_seq m a + int (length (pm_Msgs pa))) = synced_seq m a + int (length (pm_Msgs pa))"
    "i64 (synced_seq m b + (int (length (pm_Msgs pa)) + int (length (pm_Msgs pb)))) =
       synced_seq m b + (int (length (pm_Msgs pa)) + int (length (pm_Msgs pb)))"
    "i64 (synced_seq m b + 1) = synced_seq m b + 1"
    using assms(7-10) by (auto simp: small_seq_def i64_id is_i64_def)
  have syn: "synced_seq (set_synced a v m') b = synced_seq m' b" for v m'
    using assms(2) by (simp add: synced_seq_def set_synced_def gomap_simps)
  note eval = pushTriggerAndSync_def push_msgs_splits all none Let_def hand_on_def wrap syn
  let ?la = "md_Seq (last (pm_Msgs pa))" and ?lb = "md_Seq (last (pm_Msgs pb))"
  let ?m1 = "set_synced a ?la (hand_on trigger a (pm_Msgs pa) m)"
  have "pushTriggerAndSync E [(a, pa), (b, pb)] trigger m =
      set_synced b ?lb (hand_on trigger b (pm_Msgs pa @ pm_Msgs pb) ?m1)"
    if "?lb = synced_seq m b + (int (length (pm_Msgs pa)) + int (length (pm_Msgs pb)))"
    using assms(1,3,5,6,11) last0 that by (simp add: eval syncAndTriggerMsgs_def)
  moreover have "pushTriggerAndSync E [(a, pa), (b, pb)] trigger m =
      snd (syncAndTriggerMsgs E [(b, synced_seq m b + 1, ?lb)] defaultPullNums ?m1)"
    if "?lb = synced_seq m b + int (length (pm_Msgs pb))"
    using assms(1,3,5,6,11) last0 that by (simp add: eval)
  ultimately show ?thesis by (simp add: Let_def algebra_simps)
qed

theorem pushTriggerAndSync_two_conversations_witness:
  "let m' = pushTriggerAndSync sample_env (sample_push [(''a'', [1]), (''b'', [2])]) triggerConversation
      (sample_syncer [] (Some \<lparr>ch_sent = [], ch_room = []\<rparr>) [])
   in mx_synced m' = [(''a'', 1), (''b'', 2)] \<and> mx_pulled m' = [] \<and>
      map c2v_Value (accepted (mx_conv m')) =
        [PNewMsgs \<lparr>cnm_Msgs = [(''a'', \<lparr>pm_Msgs = [sample_msg ''a'' 1], pm_IsEnd = False\<rparr>)], cnm_SyncFlag = 0\<rparr>,
         PNewMsgs \<lparr>cnm_Msgs = [(''b'', \<lparr>pm_Msgs = [sample_msg ''a'' 1, sample_msg ''b'' 2], pm_IsEnd = False\<rparr>)], cnm_SyncFlag = 0\<rparr>]"
  using pushTriggerAndSync_two_conversations [OF keeps_triggers(1), of "''a''" "''b''" sample_env
      "\<lparr>pm_Msgs = [sample_msg ''a'' 1], pm_IsEnd = False\<rparr>" "\<lparr>pm_Msgs = [sample_msg ''b'' 2], pm_IsEnd = False\<rparr>"
      "sample_syncer [] (Some \<lparr>ch_sent = [], ch_room = []\<rparr>) []"]
  by (simp add: sample_push_def sample_env_def sample_syncer_def sample_msg_def synced_seq_def set_synced_def small_seq_def hand_on_def
      triggerConversation_def on_conv_def TriggerCmdNewMsgCome_def send_unless_nil_def sendCmd_def accepted_def)

text \<open>
  A channel whose receiver makes no room: every send so far has timed out, and more would. What such a run sends is lost.
\<close>

definition no_room :: "chan option \<Rightarrow> chan option \<Rightarrow> bool" where
  "no_room ch ch' \<longleftrightarrow> (case (ch, ch') of
     (Some c, Some c') \<Rightarrow> set (ch_room c) \<subseteq> {False} \<longrightarrow>
       set (ch_room c') \<subseteq> {False} \<and> (ch_room c' \<noteq> [] \<longrightarrow> ch_sent c' = ch_sent c \<and> ch_room c \<noteq> [])
   | (Some c, None) \<Rightarrow> False
   | (None, _) \<Rightarrow> True)"

lemma no_room_refl [simp]: "no_room ch ch"
  by (simp add: no_room_def split: option.split)

lemma no_room_trans: "no_room c1 c2 \<Longrightarrow> no_room c2 c3 \<Longrightarrow> no_room c1 c3"
  by (cases c1; cases c2; cases c3) (auto simp: no_room_def)

lemma sendCmd_no_room: "no_room ch (snd (sendCmd v ch))"
proof (cases ch)
  case (Some c)
  show ?thesis
  proof (cases "ch_room c")
    case Nil
    with Some show ?thesis by (simp add: no_room_def sendCmd_def)
  next
    case (Cons b bs)
    with Some show ?thesis by (cases b) (auto simp: no_room_def sendCmd_def)
  qed
qed (simp add: no_room_def)

lemma trigger_no_room:
  "no_room (mx_conv m) (mx_conv (snd (triggerConversation x m)))"
  "no_room (mx_conv m) (mx_conv (snd (triggerNotification x m)))"
  using sendCmd_no_room
  by (auto simp: triggerConversation_def triggerNotification_def on_conv_def TriggerCmdNewMsgCome_def TriggerCmdNotification_def
      send_unless_nil_def split: prod.split option.split) (metis snd_conv)+

lemma fold_set_synced_conv: "mx_conv (fold (\<lambda>(k, seqs). set_synced k (snd seqs)) L m) = mx_conv m"
  by (induction L arbitrary: m) (auto simp: set_synced_def)

lemma pull_and_record_no_room:
  assumes "pull_and_record E pull recd n m = (r, m')"
  shows "no_room (mx_conv m) (mx_conv m')"
proof -
  obtain res n1 where net: "se_PullMsgBySeqList E (ranges_of E pull n) (mx_net m) = (res, n1)" by fastforce
  show ?thesis
  proof (cases res)
    case (Inl e)
    with net assms show ?thesis by (auto simp: pull_and_record_def pullMsgBySeqRange_def ranges_of_def [symmetric])
  next
    case (Inr resp)
    let ?m1 = "m\<lparr>mx_net := n1, mx_pulled := mx_pulled m @ ranges_of E pull n\<rparr>"
    let ?m2 = "snd (triggerConversation (pr_Msgs resp) ?m1)"
    have "mx_conv m' = mx_conv (snd (triggerNotification (pr_NotificationMsgs resp) ?m2))"
      using net assms Inr
      by (auto simp: pull_and_record_def pullMsgBySeqRange_def ranges_of_def [symmetric] Let_def fold_set_synced_conv)
    with no_room_trans [OF trigger_no_room(1) [of ?m1 "pr_Msgs resp"] trigger_no_room(2)] show ?thesis by simp
  qed
qed

lemma split_loop_no_room:
  "split_loop E k v n cnt i startSeq fin m = (r, m') \<Longrightarrow> no_room (mx_conv m) (mx_conv m')"
proof (induction E k v n cnt i startSeq fin m rule: split_loop.induct)
  case (1 E k v n cnt i startSeq fin m)
  show ?case
  proof (cases "cnt < i")
    case True
    with "1.prems" show ?thesis by (simp add: split_loop.simps [of E k v n cnt i])
  next
    case False
    obtain seqs fin' i' where x: "(if i = cnt then ((startSeq, snd v), fin, i)
               else let e = i64 (startSeq + SplitPullMsgNum)
                    in if e > snd v then ((startSeq, snd v), snd v, cnt)
                       else ((startSeq, e), e, i)) = (seqs, fin', i')"
      by (metis prod_cases3)
    obtain r1 m1 where pull: "pull_and_record E [(k, seqs)] [(k, seqs)] n m = (r1, m1)" by fastforce
    note keep = pull_and_record_no_room [OF pull]
    have step: "split_loop E k v n cnt i startSeq fin m =
        (case r1 of Some err \<Rightarrow> (Some err, m1)
         | None \<Rightarrow> split_loop E k v n cnt (i' + 1) (i64 (fin' + 1)) fin' m1)"
      using False by (subst split_loop.simps) (simp add: x pull split: option.split)
    show ?thesis
    proof (cases r1)
      case None
      with step "1.prems" have "split_loop E k v n cnt (i' + 1) (i64 (fin' + 1)) fin' m1 = (r, m')" by simp
      from "1.IH" [OF False x [symmetric] refl pull [symmetric] None this] keep no_room_trans show ?thesis by blast
    next
      case (Some e)
      with step "1.prems" keep show ?thesis by simp
    qed
  qed
qed

lemma sync_loop_no_room:
  "sync_loop E n L temp msgNum m = (r, temp', m') \<Longrightarrow> no_room (mx_conv m) (mx_conv m')"
proof (induction E n L temp msgNum m rule: sync_loop.induct)
  case (2 E n k v rest temp msgNum m)
  note trans = no_room_trans [OF split_loop_no_room] no_room_trans [OF pull_and_record_no_room]
  show ?case
    using "2.prems" "2.IH" split_loop_no_room pull_and_record_no_room
    by (auto simp: Let_def split: prod.splits option.splits if_splits intro: trans)
qed simp

lemma syncAndTriggerMsgs_no_room:
  assumes "syncAndTriggerMsgs E seqMap n m = (r, m')"
  shows "no_room (mx_conv m) (mx_conv m')"
proof (cases "seqMap = []")
  case False
  obtain r1 temp m1 where loop: "sync_loop E n (se_range_ranges E seqMap) [] 0 m = (r1, temp, m1)" by (metis prod_cases3)
  from sync_loop_no_room [OF loop] no_room_trans [OF _ pull_and_record_no_room] False loop assms show ?thesis
    by (cases r1) (auto simp: syncAndTriggerMsgs_def)
qed (use assms in \<open>simp add: syncAndTriggerMsgs_def\<close>)

lemma nothing_to_sync:
  "(\<And>k e. (k, e) \<in> set L \<Longrightarrow> gget (mx_synced m) k = Some e) \<Longrightarrow> need_sync m L = []"
proof -
  have "fold (\<lambda>(conversationID, maxSeq) need.
     case gget (mx_synced m) conversationID of
       Some syncedMaxSeq \<Rightarrow>
         if maxSeq > syncedMaxSeq then gput conversationID (i64 (syncedMaxSeq + 1), maxSeq) need else need
     | None \<Rightarrow> gput conversationID (0, maxSeq) need) L need = need"
    if "\<forall>(k, e) \<in> set L. gget (mx_synced m) k = Some e" for need
    using that by (induction L arbitrary: need) auto
  then show "(\<And>k e. (k, e) \<in> set L \<Longrightarrow> gget (mx_synced m) k = Some e) \<Longrightarrow> need_sync m L = []"
    unfolding need_sync_def by blast
qed

text \<open>
  C9: numbers are recorded even when the messages could not be handed on. When the conversation component makes no room in
  time for anything a synchronisation sends, whatever ranges are asked for and whatever the server answers, a run that
  reports success has handed on nothing, has recorded the end of every range, and the same numbers of the server ask for
  nothing any more: the messages are lost.
\<close>
theorem syncAndTriggerMsgs_dropped_messages:
  assumes "sane_orders E" and "sane_ranges seqMap" and "syncAndTriggerMsgs E seqMap n m = (None, m')"
    and "mx_conv m = Some c" and "set (ch_room c) \<subseteq> {False}" and "mx_conv m' = Some c'" and "ch_room c' \<noteq> []"
  shows "ch_sent c' = ch_sent c \<and>
    (\<forall>k b e. gget seqMap k = Some (b, e) \<longrightarrow> gget (mx_synced m') k = Some e) \<and>
    need_sync m' (map (\<lambda>(k, b, e). (k, e)) seqMap) = []"
proof -
  have ends: "gget (mx_synced m') k = Some e" if "gget seqMap k = Some (b, e)" for k b e
    using syncAndTriggerMsgs_progress [OF assms(1-3)] that by blast
  have "gget (mx_synced m') k = Some e" if "(k, e) \<in> set (map (\<lambda>(k, b, e). (k, e)) seqMap)" for k e
    using that ends in_gget [of seqMap] assms(2) by (auto simp: sane_ranges_def)
  then have "need_sync m' (map (\<lambda>(k, b, e). (k, e)) seqMap) = []" by (rule nothing_to_sync)
  with ends syncAndTriggerMsgs_no_room [OF assms(3)] assms(4-7) show ?thesis by (auto simp: no_room_def)
qed

theorem syncAndTriggerMsgs_dropped_messages_witness:
  "let m = sample_syncer [] (Some \<lparr>ch_sent = [], ch_room = [False, False, False]\<rparr>) [];
       (r, m') = syncAndTriggerMsgs sample_env [(''si_a_b'', 1, 5)] 10 m
   in r = None \<and> accepted (mx_conv m') = [] \<and> gget (mx_synced m') ''si_a_b'' = Some 5"
proof -
  let ?m = "sample_syncer [] (Some \<lparr>ch_sent = [], ch_room = [False, False, False]\<rparr>) []"
  obtain m' where run: "syncAndTriggerMsgs sample_env [(''si_a_b'', 1, 5)] 10 ?m = (None, m')"
    and conv: "\<exists>c'. mx_conv m' = Some c' \<and> ch_room c' \<noteq> []"
    by (simp add: syncAndTriggerMsgs_def sample_env_def sample_syncer_def SplitPullMsgNum_def IsNotification_def
      i64_def signed_take_bit_int_eq_self pull_and_record_def pullMsgBySeqRange_def empty_resp_def Let_def signed_divide_int_def sgn_if
      triggerConversation_def triggerNotification_def on_conv_def TriggerCmdNewMsgCome_def TriggerCmdNotification_def
      send_unless_nil_def sendCmd_def set_synced_def)
  from conv obtain c' where c': "mx_conv m' = Some c'" "ch_room c' \<noteq> []" by blast
  have "sane_ranges [(''si_a_b'', 1, 5)]" by (simp add: sane_ranges_def gomap_ok_def)
  from syncAndTriggerMsgs_dropped_messages [OF sample_orders this run _ _ c'] run c' show ?thesis
    by (auto simp: sample_syncer_def accepted_def)
qed

text \<open>
  \<^verbatim>\<open>splitSeqs\<close> returns for every positive chunk size, and its chunks, each of at most that
  size, put together are the given numbers in order.
\<close>
theorem splitSeqs_partition:
  assumes "0 < split"
  shows "\<exists>chunks. splitSeqs split seqs = Some chunks \<and> concat chunks = seqs \<and> (\<forall>c \<in> set chunks. length c \<le> split)"
proof -
  have "\<exists>cs. split_from split i seqs acc = Some (acc @ cs) \<and> concat cs = drop i seqs \<and> (\<forall>c \<in> set cs. length c \<le> split)" for i acc
  proof (induction "length seqs - i" arbitrary: i acc rule: less_induct)
    case less
    show ?case
    proof (cases "i < length seqs")
      case False
      then show ?thesis by (subst split_from.simps) (auto intro: exI [of _ "[]"])
    next
      case True
      let ?c = "take ((if i + split > length seqs then length seqs else i + split) - i) (drop i seqs)"
      have c: "?c = take split (drop i seqs)" by (cases "i + split > length seqs") simp_all
      have lt: "length seqs - (i + split) < length seqs - i" using True assms by simp
      obtain cs where cs: "split_from split (i + split) seqs (acc @ [?c]) = Some ((acc @ [?c]) @ cs)"
          "concat cs = drop (i + split) seqs" "\<forall>c \<in> set cs. length c \<le> split"
        using less.hyps [OF lt, of "acc @ [?c]"] by blast
      have "split_from split i seqs acc = Some (acc @ ?c # cs)"
        using True cs(1) by (subst split_from.simps) (simp add: Let_def)
      moreover have "concat (?c # cs) = drop i seqs"
        using cs(2) append_take_drop_id [of split "drop i seqs"] by (simp add: c add.commute)
      moreover have "\<forall>c \<in> set (?c # cs). length c \<le> split" using cs(3) by (simp add: c)
      ultimately show ?thesis by blast
    qed
  qed
  from this [of 0 "[]"] show ?thesis by (auto simp: splitSeqs_def)
qed

theorem splitSeqs_partition_witness:
  "\<exists>chunks. splitSeqs 100 [1..250] = Some chunks \<and> concat chunks = [1..250] \<and> (\<forall>c \<in> set chunks. length c \<le> 100)"
  by (rule splitSeqs_partition) simp

end
