(* ===== verification/Utils.thy ===== *)
theory Utils
  imports Messages "HOL-Library.Char_ord" "HOL-Library.List_Lexorder" "HOL-Library.Sublist"
begin

text \<open>
  \<^verbatim>\<open>pkg/utils/utils.go\<close>: the pure helpers the components use: membership and differences of
  lists, message switches, the names of conversations and tables, and the substring search.
  Strings are byte strings; \<^verbatim>\<open>strings.ToLower\<close>, which needs the Unicode tables, is a parameter.
\<close>

section \<open>Lists\<close>

fun IsContain :: "string \<Rightarrow> string list \<Rightarrow> bool" where
  "IsContain target [] = False"
| "IsContain target (element # rest) = (if target = element then True else IsContain target rest)"

fun IsContainInt :: "int \<Rightarrow> int list \<Rightarrow> bool" where
  "IsContainInt target [] = False"
| "IsContainInt target (element # rest) = (if target = element then True else IsContainInt target rest)"

fun dedup_loop :: "'a list \<Rightarrow> ('a, unit) gomap \<Rightarrow> 'a list \<Rightarrow> 'a list" where
  "dedup_loop [] tempMap result = result"
| "dedup_loop (e # slc) tempMap result =
     (if gget tempMap e = None then dedup_loop slc (gput e () tempMap) (result @ [e])
      else dedup_loop slc tempMap result)"

definition RemoveRepeatedElementsInList :: "'a list \<Rightarrow> 'a list" where
  "RemoveRepeatedElementsInList slc = dedup_loop slc [] []"

fun RemoveOneInList :: "'a list \<Rightarrow> 'a \<Rightarrow> 'a list" where
  "RemoveOneInList [] val = []"
| "RemoveOneInList (v # slc) val = (if v = val then slc else v # RemoveOneInList slc val)"

definition trim_spaces :: "string \<Rightarrow> string" where
  "trim_spaces s = rev (dropWhile (\<lambda>c. c = CHR '' '') (rev (dropWhile (\<lambda>c. c = CHR '' '') s)))"

definition TrimStringList :: "string list \<Rightarrow> string list" where
  "TrimStringList list = filter (\<lambda>v. length (trim_spaces v) \<noteq> 0) list"

definition seen_map :: "'a list \<Rightarrow> ('a, bool) gomap" where
  "seen_map slc = fold (\<lambda>v m. gput v True m) slc []"

definition flag_of :: "('a, bool) gomap \<Rightarrow> 'a \<Rightarrow> bool" where
  "flag_of m v = (case gget m v of Some b \<Rightarrow> b | None \<Rightarrow> False)"

definition Intersect :: "int list \<Rightarrow> int list \<Rightarrow> int list" where
  "Intersect sl1 sl2 = (let m = seen_map sl1 in filter (\<lambda>v. flag_of m v) sl2)"

definition DifferenceSubset :: "int list \<Rightarrow> int list \<Rightarrow> int list" where
  "DifferenceSubset mainSlice subSlice = (let m = seen_map subSlice in filter (\<lambda>v. \<not> flag_of m v) mainSlice)"

definition DifferenceSubsetString :: "string list \<Rightarrow> string list \<Rightarrow> string list" where
  "DifferenceSubsetString mainSlice subSlice = (let m = seen_map subSlice in filter (\<lambda>v. \<not> flag_of m v) mainSlice)"

lemma IsContain_set [simp]: "IsContain x xs \<longleftrightarrow> x \<in> set xs"
  by (induction xs) auto

lemma IsContainInt_set [simp]: "IsContainInt x xs \<longleftrightarrow> x \<in> set xs"
  by (induction xs) auto

lemma flag_seen [simp]: "flag_of (seen_map xs) v \<longleftrightarrow> v \<in> set xs"
proof -
  have "gget (fold (\<lambda>v m. gput v True m) xs m) v = (if v \<in> set xs then Some True else gget m v)" for m
    by (induction xs arbitrary: m) (auto simp: gomap_simps)
  then show ?thesis by (simp add: flag_of_def seen_map_def)
qed

lemma DifferenceSubset_filter [simp]: "DifferenceSubset xs ys = filter (\<lambda>v. v \<notin> set ys) xs"
  by (simp add: DifferenceSubset_def Let_def)

lemma dedup_loop_spec:
  "\<forall>x. gget m x \<noteq> None \<longleftrightarrow> x \<in> set acc \<Longrightarrow> distinct acc \<Longrightarrow>
   distinct (dedup_loop xs m acc) \<and> set (dedup_loop xs m acc) = set acc \<union> set xs \<and> prefix acc (dedup_loop xs m acc)"
proof (induction xs arbitrary: m acc)
  case (Cons x xs)
  show ?case
  proof (cases "gget m x = None")
    case True
    have "\<forall>y. gget (gput x () m) y \<noteq> None \<longleftrightarrow> y \<in> set (acc @ [x])"
      using Cons.prems(1) by (simp add: gomap_simps)
    moreover have "distinct (acc @ [x])"
      using Cons.prems(1) [rule_format, of x] Cons.prems(2) True by simp
    ultimately have "distinct (dedup_loop xs (gput x () m) (acc @ [x])) \<and>
        set (dedup_loop xs (gput x () m) (acc @ [x])) = set (acc @ [x]) \<union> set xs \<and>
        prefix (acc @ [x]) (dedup_loop xs (gput x () m) (acc @ [x]))"
      by (rule Cons.IH)
    with True show ?thesis by (auto dest: append_prefixD)
  next
    case False
    then have "x \<in> set acc" using Cons.prems(1) by blast
    with False Cons.IH [OF Cons.prems] show ?thesis by auto
  qed
qed simp

section \<open>Switches and names\<close>

definition GetSwitchFromOptions :: "(string, bool) gomap \<Rightarrow> string \<Rightarrow> bool" where
  "GetSwitchFromOptions options key = (case gget options key of None \<Rightarrow> True | Some flag \<Rightarrow> flag)"

definition SetSwitchFromOptions :: "(string, bool) gomap \<Rightarrow> string \<Rightarrow> bool \<Rightarrow> (string, bool) gomap" where
  "SetSwitchFromOptions options key val = gput key val options"

lemma switch_get_set: "GetSwitchFromOptions (SetSwitchFromOptions options key val) key' =
    (if key' = key then val else GetSwitchFromOptions options key')"
  by (simp add: GetSwitchFromOptions_def SetSwitchFromOptions_def gomap_simps)

definition join_underscore :: "string list \<Rightarrow> string" where
  "join_underscore l = concat (case l of [] \<Rightarrow> [] | x # xs \<Rightarrow> x # map (\<lambda>y. ''_'' @ y) xs)"

definition GetConversationIDByMsg :: "'q MsgStruct \<Rightarrow> string" where
  "GetConversationIDByMsg msg =
     (if ms_SessionType msg = SingleChatType
      then ''si_'' @ join_underscore (sort [ms_SendID msg, ms_RecvID msg])
      else if ms_SessionType msg = GroupChatType then ''g_'' @ ms_GroupID msg
      else if ms_SessionType msg = SuperGroupChatType then ''sg_'' @ ms_GroupID msg
      else if ms_SessionType msg = NotificationChatType then ''sn_'' @ ms_SendID msg @ ''_'' @ ms_RecvID msg
      else [])"

definition GetConversationIDByGroupID :: "string \<Rightarrow> string" where
  "GetConversationIDByGroupID groupID = ''sg_'' @ groupID"

definition ChatLogsTableNamePre :: string where "ChatLogsTableNamePre = ''chat_logs_''"
definition SuperGroupErrChatLogsTableNamePre :: string where "SuperGroupErrChatLogsTableNamePre = ''local_sg_err_chat_logs_''"

definition GetConversationTableName :: "string \<Rightarrow> string" where
  "GetConversationTableName conversationID = ChatLogsTableNamePre @ conversationID"

definition GetTableName :: "string \<Rightarrow> string" where
  "GetTableName conversationID = ChatLogsTableNamePre @ conversationID"

definition GetErrTableName :: "string \<Rightarrow> string" where
  "GetErrTableName conversationID = SuperGroupErrChatLogsTableNamePre @ conversationID"

definition GetUserIDForMinSeq :: "string \<Rightarrow> string" where
  "GetUserIDForMinSeq userID = ''u_'' @ userID"

definition GetGroupIDForMinSeq :: "string \<Rightarrow> string" where
  "GetGroupIDForMinSeq groupID = ''g_'' @ groupID"

section \<open>The substring search\<close>

partial_function (option) next_loop :: "string \<Rightarrow> nat list \<Rightarrow> nat \<Rightarrow> nat \<Rightarrow> nat list option" where
  "next_loop subString next index i =
     (if i < length subString then
        (if subString ! i = subString ! index then next_loop subString (next[i := index + 1]) (index + 1) (i + 1)
         else if index \<noteq> 0 then next_loop subString next (next ! (index - 1)) i
         else next_loop subString next index (i + 1))
      else Some next)"

definition computeNextArray :: "string \<Rightarrow> nat list option" where
  "computeNextArray subString = next_loop subString (replicate (length subString) 0) 0 1"

partial_function (option) kmp_loop :: "string \<Rightarrow> string \<Rightarrow> nat list \<Rightarrow> nat \<Rightarrow> nat \<Rightarrow> (nat \<times> nat) option" where
  "kmp_loop mainString subString next mainIdx subIdx =
     (if mainIdx \<ge> length mainString \<or> subIdx \<ge> length subString then Some (mainIdx, subIdx)
      else if mainString ! mainIdx = subString ! subIdx
      then kmp_loop mainString subString next (mainIdx + 1) (subIdx + 1)
      else if subIdx \<noteq> 0 then kmp_loop mainString subString next mainIdx (next ! (subIdx - 1))
      else kmp_loop mainString subString next (mainIdx + 1) subIdx)"

definition KMP :: "(string \<Rightarrow> string) \<Rightarrow> string \<Rightarrow> string \<Rightarrow> bool option" where
  "KMP ToLower rMainString rSubString =
     (let mainString = ToLower rMainString; subString = ToLower rSubString
      in case computeNextArray subString of
           None \<Rightarrow> None
         | Some next \<Rightarrow>
             (case kmp_loop mainString subString next 0 0 of
                None \<Rightarrow> None
              | Some (mainIdx, subIdx) \<Rightarrow>
                  Some (subIdx \<ge> length subString \<and> int mainIdx - int (length subString) \<ge> 0)))"

text \<open>A border of the prefix of length \<open>i\<close>: a shorter prefix that is also its suffix.\<close>

definition border :: "string \<Rightarrow> nat \<Rightarrow> nat \<Rightarrow> bool" where
  "border p k i \<longleftrightarrow> k < i \<and> (\<forall>x < k. p ! x = p ! (i - k + x))"

lemma border_0 [simp]: "border p 0 i \<longleftrightarrow> 0 < i"
  by (simp add: border_def)

lemma border_Suc: "border p (Suc k) (Suc i) \<longleftrightarrow> border p k i \<and> p ! k = p ! i"
  by (auto simp: border_def less_Suc_eq)

lemma border_trans: "border p k j \<Longrightarrow> border p j i \<Longrightarrow> border p k i"
proof -
  assume kj: "border p k j" and ji: "border p j i"
  have "p ! x = p ! (i - k + x)" if "x < k" for x
  proof -
    have "p ! x = p ! (j - k + x)" using kj that by (simp add: border_def)
    also have "\<dots> = p ! (i - j + (j - k + x))"
    proof -
      have "k < j" using kj by (simp add: border_def)
      then have "j - k + x < j" using that by linarith
      then show ?thesis using ji unfolding border_def by blast
    qed
    also have "i - j + (j - k + x) = i - k + x" using kj ji by (simp add: border_def)
    finally show ?thesis .
  qed
  with kj ji show ?thesis by (simp add: border_def)
qed

lemma border_nested: "border p k i \<Longrightarrow> border p j i \<Longrightarrow> k < j \<Longrightarrow> border p k j"
proof -
  assume ki: "border p k i" and ji: "border p j i" and "k < j"
  have "p ! x = p ! (j - k + x)" if "x < k" for x
  proof -
    have "p ! (j - k + x) = p ! (i - j + (j - k + x))" using ji that \<open>k < j\<close> by (simp add: border_def)
    also have "i - j + (j - k + x) = i - k + x" using ki ji \<open>k < j\<close> by (simp add: border_def)
    finally show ?thesis using ki that by (simp add: border_def)
  qed
  with \<open>k < j\<close> show ?thesis by (simp add: border_def)
qed

definition longest_border :: "string \<Rightarrow> nat \<Rightarrow> nat \<Rightarrow> bool" where
  "longest_border p k i \<longleftrightarrow> border p k i \<and> (\<forall>k'. border p k' i \<longrightarrow> k' \<le> k)"

definition next_table :: "string \<Rightarrow> nat list \<Rightarrow> nat \<Rightarrow> bool" where
  "next_table p nxt i \<longleftrightarrow> length nxt = length p \<and> (\<forall>j. 1 \<le> j \<and> j \<le> i \<and> j \<le> length p \<longrightarrow> longest_border p (nxt ! (j - 1)) j)"

lemma next_loop_spec:
  "next_table p nxt i \<Longrightarrow> (\<forall>j. i \<le> j \<and> j < length p \<longrightarrow> nxt ! j = 0) \<Longrightarrow> 1 \<le> i \<Longrightarrow> i \<le> length p \<Longrightarrow>
   border p index i \<Longrightarrow> (\<forall>k. border p k (Suc i) \<longrightarrow> k \<le> Suc index) \<Longrightarrow>
   \<exists>nxt'. next_loop p nxt index i = Some nxt' \<and> next_table p nxt' (length p)"
proof (induction "2 * (length p - i) + index" arbitrary: nxt index i rule: less_induct)
  case less
  have idx: "index < i" using less.prems(5) by (simp add: border_def)
  show ?case
  proof (cases "i < length p")
    case False
    with less.prems(1,4) show ?thesis by (subst next_loop.simps) (simp add: next_table_def)
  next
    case True
    have none: "border p k (Suc i) \<Longrightarrow> k = 0 \<or> (border p (k - 1) i \<and> p ! (k - 1) = p ! i)" for k
      by (cases k) (simp_all add: border_Suc)
    show ?thesis
    proof (cases "p ! i = p ! index")
      case match: True
      let ?nxt = "nxt[i := index + 1]"
      have b: "border p (Suc index) (Suc i)" using less.prems(5) match by (simp add: border_Suc)
      have "next_table p ?nxt (Suc i)"
      proof -
        have "longest_border p (?nxt ! (j - 1)) j" if "1 \<le> j" "j \<le> Suc i" "j \<le> length p" for j
        proof (cases "j = Suc i")
          case True
          with b less.prems(1,6) \<open>i < length p\<close> show ?thesis by (simp add: longest_border_def next_table_def)
        next
          case False
          with less.prems(1) that show ?thesis by (simp add: next_table_def)
        qed
        with less.prems(1) show ?thesis by (simp add: next_table_def)
      qed
      moreover have "k \<le> Suc (Suc index)" if "border p k (Suc (Suc i))" for k
        using that less.prems(6) by (cases k) (simp_all add: border_Suc)
      ultimately have "\<exists>nxt'. next_loop p ?nxt (Suc index) (Suc i) = Some nxt' \<and> next_table p nxt' (length p)"
        using less.hyps [of "Suc i" "Suc index" ?nxt] less.prems(2,3) True b by simp
      then show ?thesis using True match by (subst next_loop.simps) simp
    next
      case miss: False
      show ?thesis
      proof (cases "index = 0")
        case False
        let ?index = "nxt ! (index - 1)"
        have lb: "longest_border p ?index index"
          using less.prems(1) False idx True by (simp add: next_table_def)
        then have lt: "?index < index" by (simp add: longest_border_def border_def)
        have "border p ?index i" using border_trans lb less.prems(5) by (auto simp: longest_border_def)
        moreover have "k \<le> Suc ?index" if k: "border p k (Suc i)" for k
        proof (cases k)
          case (Suc k0)
          with k have k0: "border p k0 i" "p ! k0 = p ! i" by (simp_all add: border_Suc)
          have "k0 \<le> index" using less.prems(6) k Suc by fastforce
          with k0(2) miss have "k0 < index" by (cases "k0 = index") auto
          with border_nested [OF k0(1) less.prems(5)] lb show ?thesis by (auto simp: longest_border_def Suc)
        qed simp
        ultimately have "\<exists>nxt'. next_loop p nxt ?index i = Some nxt' \<and> next_table p nxt' (length p)"
          using less.hyps [of i ?index nxt] less.prems(1-4) lt by simp
        then show ?thesis using True miss False by (subst next_loop.simps) simp
      next
        case zero: True
        have only0: "k = 0" if k: "border p k (Suc i)" for k
          using none [OF k] less.prems(6) k zero miss by fastforce
        have "next_table p nxt (Suc i)"
        proof -
          have "longest_border p (nxt ! i) (Suc i)"
            using less.prems(2) True only0 by (auto simp: longest_border_def)
          with less.prems(1) show ?thesis by (auto simp: next_table_def le_Suc_eq)
        qed
        moreover have "k \<le> Suc 0" if "border p k (Suc (Suc i))" for k
          using that only0 by (cases k) (auto simp: border_Suc)
        ultimately have "\<exists>nxt'. next_loop p nxt 0 (Suc i) = Some nxt' \<and> next_table p nxt' (length p)"
          using less.hyps [of "Suc i" 0 nxt] less.prems(2) True zero by simp
        then show ?thesis using True miss zero by (subst next_loop.simps) simp
      qed
    qed
  qed
qed

lemma computeNextArray_table: "\<exists>nxt. computeNextArray p = Some nxt \<and> next_table p nxt (length p)"
proof (cases "p = []")
  case True
  then show ?thesis by (simp add: computeNextArray_def next_table_def next_loop.simps [of "[]"])
next
  case False
  let ?nxt = "replicate (length p) (0 :: nat)"
  have b: "border p 0 1" and one: "border p k 1 \<Longrightarrow> k = 0" and two: "border p k (Suc 1) \<Longrightarrow> k \<le> Suc 0" for k
    by (auto simp: border_def)
  have "next_table p ?nxt 1"
  proof -
    have "longest_border p (?nxt ! (j - 1)) j" if "1 \<le> j" "j \<le> 1" for j
    proof -
      have "j = 1" using that by simp
      with False b one show ?thesis by (auto simp: longest_border_def)
    qed
    then show ?thesis by (auto simp: next_table_def dest: le_antisym)
  qed
  moreover have "1 \<le> length p" using False by (cases p) simp_all
  ultimately show ?thesis
    unfolding computeNextArray_def using b two by (intro next_loop_spec) simp_all
qed

text \<open>\<open>occurs p s t\<close>: the pattern stands in the text at position \<open>t\<close>.\<close>

definition occurs :: "string \<Rightarrow> string \<Rightarrow> nat \<Rightarrow> bool" where
  "occurs p s t \<longleftrightarrow> t + length p \<le> length s \<and> (\<forall>x < length p. p ! x = s ! (t + x))"

lemma occurs_sublist: "(\<exists>t. occurs p s t) \<longleftrightarrow> sublist p s"
proof
  assume "\<exists>t. occurs p s t"
  then obtain t where t: "occurs p s t" ..
  have "take (length p) (drop t s) = p"
    using t by (intro nth_equalityI) (auto simp: occurs_def)
  then have "s = take t s @ p @ drop (length p) (drop t s)"
    by (metis append_take_drop_id)
  then show "sublist p s" unfolding sublist_def by metis
next
  assume "sublist p s"
  then obtain ps ss where s: "s = ps @ p @ ss" by (auto simp: sublist_def)
  have "occurs p s (length ps)" by (simp add: s occurs_def nth_append)
  then show "\<exists>t. occurs p s t" ..
qed

lemma kmp_loop_spec:
  assumes "next_table p nxt (length p)"
  shows "b \<le> a \<Longrightarrow> a \<le> length s \<Longrightarrow> b \<le> length p \<Longrightarrow> (\<forall>x < b. p ! x = s ! (a - b + x)) \<Longrightarrow>
   (\<forall>t < a - b. \<not> occurs p s t) \<Longrightarrow>
   \<exists>a' b'. kmp_loop s p nxt a b = Some (a', b') \<and> b' \<le> a' \<and> (b' \<ge> length p \<longleftrightarrow> (\<exists>t. occurs p s t))"
proof (induction "2 * (length s - a) + b" arbitrary: a b rule: less_induct)
  case less
  show ?case
  proof (cases "a \<ge> length s \<or> b \<ge> length p")
    case True
    have "b \<ge> length p \<longleftrightarrow> (\<exists>t. occurs p s t)"
    proof
      assume "b \<ge> length p"
      with less.prems have "occurs p s (a - b)" by (simp add: occurs_def)
      then show "\<exists>t. occurs p s t" ..
    next
      assume "\<exists>t. occurs p s t"
      then obtain t where t: "occurs p s t" ..
      with less.prems(5) have "a - b \<le> t" using not_less by blast
      with t True less.prems(1,2) show "b \<ge> length p" by (auto simp: occurs_def)
    qed
    with True less.prems(1) show ?thesis by (subst kmp_loop.simps) simp
  next
    case False
    then have lt: "a < length s" "b < length p" by simp_all
    show ?thesis
    proof (cases "s ! a = p ! b")
      case match: True
      have m: "\<forall>x < Suc b. p ! x = s ! (Suc a - Suc b + x)"
        using less.prems(1,4) match by (auto simp: less_Suc_eq)
      have "\<exists>a' b'. kmp_loop s p nxt (Suc a) (Suc b) = Some (a', b') \<and> b' \<le> a' \<and> (b' \<ge> length p \<longleftrightarrow> (\<exists>t. occurs p s t))"
        by (rule less.hyps) (use lt less.prems m in simp_all)
      then show ?thesis using False match by (subst kmp_loop.simps) simp
    next
      case miss: False
      have here: "\<not> occurs p s (a - b)"
      proof
        assume "occurs p s (a - b)"
        then have "p ! b = s ! (a - b + b)" using lt by (auto simp: occurs_def)
        with miss less.prems(1) show False by simp
      qed
      show ?thesis
      proof (cases "b = 0")
        case True
        have "\<exists>a' b'. kmp_loop s p nxt (Suc a) 0 = Some (a', b') \<and> b' \<le> a' \<and> (b' \<ge> length p \<longleftrightarrow> (\<exists>t. occurs p s t))"
          by (rule less.hyps) (use lt less.prems(5) here True in \<open>auto simp: less_Suc_eq\<close>)
        then show ?thesis using False miss True by (subst kmp_loop.simps) simp
      next
        case pos: False
        let ?b = "nxt ! (b - 1)"
        have lb: "longest_border p ?b b"
          using assms pos lt by (simp add: next_table_def)
        then have b_lt: "?b < b" and bb: "\<forall>x < ?b. p ! x = p ! (b - ?b + x)"
          by (simp_all add: longest_border_def border_def)
        have m: "p ! x = s ! (a - ?b + x)" if "x < ?b" for x
        proof -
          have "p ! x = p ! (b - ?b + x)" using bb that by simp
          also have "\<dots> = s ! (a - b + (b - ?b + x))" using less.prems(4) that b_lt by simp
          also have "a - b + (b - ?b + x) = a - ?b + x" using b_lt less.prems(1) by simp
          finally show ?thesis .
        qed
        have none: "\<not> occurs p s t" if "t < a - ?b" for t
        proof (cases "t \<le> a - b")
          case True
          with here less.prems(5) show ?thesis by (cases "t = a - b") auto
        next
          case after: False
          show ?thesis
          proof
            assume occ: "occurs p s t"
            let ?k = "a - t"
            have k: "?b < ?k" "?k < b" "t \<le> a" using that after less.prems(1) by auto
            have "p ! x = p ! (b - ?k + x)" if "x < ?k" for x
            proof -
              have "p ! x = s ! (t + x)" using occ that k lt by (auto simp: occurs_def)
              also have "t + x = a - b + (b - ?k + x)" using k less.prems(1) by simp
              also have "s ! (a - b + (b - ?k + x)) = p ! (b - ?k + x)" using less.prems(4) that k by simp
              finally show ?thesis .
            qed
            with k have "border p ?k b" by (simp add: border_def)
            with lb k show False by (auto simp: longest_border_def)
          qed
        qed
        have "\<exists>a' b'. kmp_loop s p nxt a ?b = Some (a', b') \<and> b' \<le> a' \<and> (b' \<ge> length p \<longleftrightarrow> (\<exists>t. occurs p s t))"
          by (rule less.hyps) (use lt less.prems b_lt m none in simp_all)
        then show ?thesis using False miss pos by (subst kmp_loop.simps) simp
      qed
    qed
  qed
qed

section \<open>Properties\<close>

text \<open>
  \<^verbatim>\<open>KMP\<close> always returns, and it returns true exactly when the lower-case pattern is a
  substring of the lower-case text: the failure table holds the longest borders, and neither
  loop reads outside its string.
\<close>
theorem KMP_substring:
  "KMP ToLower rMain rSub = Some (sublist (ToLower rSub) (ToLower rMain))"
proof -
  obtain nxt where nxt: "computeNextArray (ToLower rSub) = Some nxt" "next_table (ToLower rSub) nxt (length (ToLower rSub))"
    using computeNextArray_table by blast
  obtain a b where loop: "kmp_loop (ToLower rMain) (ToLower rSub) nxt 0 0 = Some (a, b)" "b \<le> a"
      "b \<ge> length (ToLower rSub) \<longleftrightarrow> (\<exists>t. occurs (ToLower rSub) (ToLower rMain) t)"
    using kmp_loop_spec [OF nxt(2), of 0 0 "ToLower rMain"] by auto
  then show ?thesis by (auto simp: KMP_def nxt occurs_sublist)
qed

text \<open>
  \<^verbatim>\<open>RemoveRepeatedElementsInList\<close> keeps exactly the elements of its argument, each once.
\<close>
theorem RemoveRepeatedElementsInList_distinct:
  "distinct (RemoveRepeatedElementsInList slc) \<and> set (RemoveRepeatedElementsInList slc) = set slc"
  using dedup_loop_spec [of "[]" "[]" slc] by (simp add: RemoveRepeatedElementsInList_def)

text \<open>
  The conversation of a single chat has the same identifier on both sides: exchanging
  sender and receiver does not change it.
\<close>
theorem GetConversationIDByMsg_symmetric:
  "GetConversationIDByMsg (msg\<lparr>ms_SessionType := SingleChatType, ms_SendID := a, ms_RecvID := b\<rparr>) =
   GetConversationIDByMsg (msg\<lparr>ms_SessionType := SingleChatType, ms_SendID := b, ms_RecvID := a\<rparr>)"
proof -
  have "sort [b, a] = sort [a, b]"
  proof -
    have "mset [b, a] = mset [a, b]" by simp
    then show ?thesis unfolding sorted_list_of_multiset_mset [symmetric] by (rule arg_cong)
  qed
  then show ?thesis by (simp add: GetConversationIDByMsg_def)
qed

end
