(* ===== verification/ChatLog.thy ===== *)
theory ChatLog
  imports Gorm Models Utils
begin

text \<open>
  \<^verbatim>\<open>pkg/db/chat_log_model_v3.go\<close>: the messages of the conversations, one table per conversation.
  The engine is \<open>G name\<close>, gorm on the table of that name; all tables share one state. The
  tables exist when they are used (\<^verbatim>\<open>initChatLog\<close> creates them), so only statements on rows are
  modelled. The keyword searches, which splice their keywords into SQL text, are in \<^theory_text>\<open>ConvSearch\<close>.
\<close>

section \<open>Shared statement forms\<close>

type_synonym 't chat_db = "string \<Rightarrow> (LocalChatLog, 't) gorm"

definition wrap_res :: "string \<Rightarrow> (go_error + 'a) \<times> 't \<Rightarrow> (go_error + 'a) \<times> 't" where
  "wrap_res msg res = (case res of (Inl e, t) \<Rightarrow> (Inl (Wrapped e msg), t) | (Inr x, t) \<Rightarrow> (Inr x, t))"

definition wrap_act :: "string \<Rightarrow> go_error option \<times> 't \<Rightarrow> go_error option \<times> 't" where
  "wrap_act msg res = (case res of (err, t) \<Rightarrow> (wrap_err err msg, t))"

text \<open>The statement's error, without the check of the rows affected.\<close>

definition stmt_err :: "(go_error option \<times> nat) \<times> 't \<Rightarrow> go_error option \<times> 't" where
  "stmt_err res = (case res of ((err, n), t) \<Rightarrow> (err, t))"

text \<open>
  \<^verbatim>\<open>Order(key).Offset(off).Limit(n)\<close> on a \<^verbatim>\<open>Find\<close>; in the gorm version the
  SDK builds with, a limit that is not positive is no limit. The order of equal
  keys is that in which \<^verbatim>\<open>Find\<close> returns the rows, that is any order.
\<close>

definition limit_rows :: "int \<Rightarrow> 'r list \<Rightarrow> 'r list" where
  "limit_rows n rs = (if n \<le> 0 then rs else take (nat n) rs)"

definition ordered_find ::
  "('r, 't) gorm \<Rightarrow> ('r \<Rightarrow> bool) \<Rightarrow> ('r \<Rightarrow> 'k :: linorder) \<Rightarrow> nat \<Rightarrow> int \<Rightarrow> 't \<Rightarrow> (go_error + 'r list) \<times> 't" where
  "ordered_find G p key off n t =
     (case gorm_find G p t of
        (Inl e, t') \<Rightarrow> (Inl e, t')
      | (Inr rs, t') \<Rightarrow> (Inr (limit_rows n (drop off (sort_key key rs))), t'))"

text \<open>The columns an \<^verbatim>\<open>Updates\<close> with the struct \<open>c\<close> writes into a row.\<close>

definition chat_nonzero_over :: "LocalChatLog \<Rightarrow> LocalChatLog \<Rightarrow> LocalChatLog" where
  "chat_nonzero_over c r = \<lparr>
     cl_ClientMsgID = cl_ClientMsgID r,
     cl_ServerMsgID = nz_str (cl_ServerMsgID c) (cl_ServerMsgID r),
     cl_SendID = nz_str (cl_SendID c) (cl_SendID r),
     cl_RecvID = nz_str (cl_RecvID c) (cl_RecvID r),
     cl_SenderPlatformID = nz_int (cl_SenderPlatformID c) (cl_SenderPlatformID r),
     cl_SenderNickname = nz_str (cl_SenderNickname c) (cl_SenderNickname r),
     cl_SenderFaceURL = nz_str (cl_SenderFaceURL c) (cl_SenderFaceURL r),
     cl_SessionType = nz_int (cl_SessionType c) (cl_SessionType r),
     cl_MsgFrom = nz_int (cl_MsgFrom c) (cl_MsgFrom r),
     cl_ContentType = nz_int (cl_ContentType c) (cl_ContentType r),
     cl_Content = nz_str (cl_Content c) (cl_Content r),
     cl_IsRead = nz_bool (cl_IsRead c) (cl_IsRead r),
     cl_Status = nz_int (cl_Status c) (cl_Status r),
     cl_Seq = nz_int (cl_Seq c) (cl_Seq r),
     cl_SendTime = nz_int (cl_SendTime c) (cl_SendTime r),
     cl_CreateTime = nz_int (cl_CreateTime c) (cl_CreateTime r),
     cl_AttachedInfo = nz_str (cl_AttachedInfo c) (cl_AttachedInfo r),
     cl_Ex = nz_str (cl_Ex c) (cl_Ex r),
     cl_LocalEx = nz_str (cl_LocalEx c) (cl_LocalEx r),
     cl_IsReact = nz_bool (cl_IsReact c) (cl_IsReact r),
     cl_IsExternalExtensions = nz_bool (cl_IsExternalExtensions c) (cl_IsExternalExtensions r),
     cl_MsgFirstModifyTime = nz_int (cl_MsgFirstModifyTime c) (cl_MsgFirstModifyTime r)\<rparr>"

section \<open>Writing\<close>

definition UpdateMessage :: "'t chat_db \<Rightarrow> string \<Rightarrow> LocalChatLog \<Rightarrow> 't action" where
  "UpdateMessage G conversationID c t =
     (case gorm_updates_pk (G (GetTableName conversationID)) cl_ClientMsgID (cl_ClientMsgID c) (chat_nonzero_over c) t of
        ((err, n), t') \<Rightarrow>
          (if n = 0 then wrap_err (Some (GoError ''RowsAffected == 0'')) ''no update ''
           else wrap_err err ''UpdateMessage failed'', t'))"

definition UpdateMessageBySeq :: "'t chat_db \<Rightarrow> string \<Rightarrow> LocalChatLog \<Rightarrow> 't action" where
  "UpdateMessageBySeq G conversationID c t =
     wrap_act ''UpdateMessage failed'' (stmt_err (gorm_updates (G (GetTableName conversationID))
       (\<lambda>r. cl_Seq r = cl_Seq c \<and> (cl_ClientMsgID c = [] \<or> cl_ClientMsgID r = cl_ClientMsgID c))
       (chat_nonzero_over c) t))"

text \<open>A nil list is not told from an empty one here; gorm refuses to create from an empty list.\<close>

definition BatchInsertMessageList :: "'t chat_db \<Rightarrow> string \<Rightarrow> LocalChatLog list \<Rightarrow> 't action" where
  "BatchInsertMessageList G conversationID MessageList t =
     (if MessageList = [] then (None, t)
      else wrap_act ''BatchInsertMessageList failed'' (gorm_create (G (GetTableName conversationID)) MessageList t))"

definition InsertMessage :: "'t chat_db \<Rightarrow> string \<Rightarrow> LocalChatLog \<Rightarrow> 't action" where
  "InsertMessage G conversationID Message t =
     wrap_act ''InsertMessage failed'' (gorm_create (G (GetTableName conversationID)) [Message] t)"

definition UpdateMessageTimeAndStatus :: "'t chat_db \<Rightarrow> string \<Rightarrow> string \<Rightarrow> string \<Rightarrow> int \<Rightarrow> int \<Rightarrow> 't action" where
  "UpdateMessageTimeAndStatus G conversationID clientMsgID serverMsgID sendTime status t =
     wrap_act ''UpdateMessageStatusBySourceID failed'' (stmt_err (gorm_updates (G (GetTableName conversationID))
       (\<lambda>r. cl_ClientMsgID r = clientMsgID \<and> cl_Seq r = 0)
       (\<lambda>r. r\<lparr>cl_Status := nz_int status (cl_Status r), cl_SendTime := nz_int sendTime (cl_SendTime r),
              cl_ServerMsgID := nz_str serverMsgID (cl_ServerMsgID r)\<rparr>) t))"

definition DeleteConversationAllMessages :: "'t chat_db \<Rightarrow> string \<Rightarrow> 't action" where
  "DeleteConversationAllMessages G conversationID t =
     wrap_act ''DeleteConversationAllMessages failed'' (gorm_delete (G (GetTableName conversationID)) (\<lambda>r. True) t)"

definition MarkDeleteConversationAllMessages :: "'t chat_db \<Rightarrow> string \<Rightarrow> 't action" where
  "MarkDeleteConversationAllMessages G conversationID t =
     wrap_act ''DeleteConversationAllMessages failed'' (stmt_err (gorm_updates (G (GetTableName conversationID))
       (\<lambda>r. True) (\<lambda>r. r\<lparr>cl_Status := MsgStatusHasDeleted\<rparr>) t))"

definition DeleteConversationMsgs :: "'t chat_db \<Rightarrow> string \<Rightarrow> string list \<Rightarrow> 't action" where
  "DeleteConversationMsgs G conversationID msgIDs t =
     wrap_act ''DeleteConversationMsgs failed'' (gorm_delete (G (GetTableName conversationID)) (\<lambda>r. cl_ClientMsgID r \<in> set msgIDs) t)"

definition DeleteConversationMsgsBySeqs :: "'t chat_db \<Rightarrow> string \<Rightarrow> int list \<Rightarrow> 't action" where
  "DeleteConversationMsgsBySeqs G conversationID seqs t =
     wrap_act ''DeleteConversationMsgs failed'' (gorm_delete (G (GetTableName conversationID)) (\<lambda>r. cl_Seq r \<in> set seqs) t)"

definition UpdateMsgSenderFaceURLAndSenderNickname :: "'t chat_db \<Rightarrow> string \<Rightarrow> string \<Rightarrow> string \<Rightarrow> string \<Rightarrow> 't action" where
  "UpdateMsgSenderFaceURLAndSenderNickname G conversationID sendID faceURL nickname t =
     wrap_act ''UpdateMsgSenderFaceURLAndSenderNickname failed'' (stmt_err (gorm_updates (G (GetTableName conversationID))
       (\<lambda>r. cl_SendID r = sendID) (\<lambda>r. r\<lparr>cl_SenderFaceURL := faceURL, cl_SenderNickname := nickname\<rparr>) t))"

text \<open>The columns of \<^verbatim>\<open>args\<close> are given as the update they make of a row.\<close>

definition UpdateColumnsMessage :: "'t chat_db \<Rightarrow> string \<Rightarrow> string \<Rightarrow> (LocalChatLog \<Rightarrow> LocalChatLog) \<Rightarrow> 't action" where
  "UpdateColumnsMessage G conversationID ClientMsgID args t =
     update_result ''UpdateColumnsConversation failed''
       (gorm_updates_pk (G (GetConversationTableName conversationID)) cl_ClientMsgID ClientMsgID args t)"

section \<open>Reading\<close>

definition GetMessage :: "'t chat_db \<Rightarrow> string \<Rightarrow> string \<Rightarrow> 't \<Rightarrow> (go_error + LocalChatLog) \<times> 't" where
  "GetMessage G conversationID clientMsgID t =
     wrap_res ''GetMessage failed'' (gorm_take (G (GetTableName conversationID)) (\<lambda>r. cl_ClientMsgID r = clientMsgID) t)"

definition GetMessageBySeq :: "'t chat_db \<Rightarrow> string \<Rightarrow> int \<Rightarrow> 't \<Rightarrow> (go_error + LocalChatLog) \<times> 't" where
  "GetMessageBySeq G conversationID seq t =
     wrap_res ''GetMessage failed'' (gorm_take (G (GetTableName conversationID)) (\<lambda>r. cl_Seq r = seq) t)"

definition GetMessageListNoTime :: "'t chat_db \<Rightarrow> string \<Rightarrow> int \<Rightarrow> bool \<Rightarrow> 't \<Rightarrow> (go_error + LocalChatLog list) \<times> 't" where
  "GetMessageListNoTime G conversationID cnt isReverse t =
     wrap_res ''GetMessageList failed'' (ordered_find (G (GetTableName conversationID)) (\<lambda>r. True)
       (\<lambda>r. if isReverse then cl_SendTime r else - cl_SendTime r) 0 cnt t)"

definition GetMessageList :: "'t chat_db \<Rightarrow> string \<Rightarrow> int \<Rightarrow> int \<Rightarrow> bool \<Rightarrow> 't \<Rightarrow> (go_error + LocalChatLog list) \<times> 't" where
  "GetMessageList G conversationID cnt startTime isReverse t =
     wrap_res ''GetMessageList failed'' (ordered_find (G (GetTableName conversationID))
       (\<lambda>r. if isReverse then cl_SendTime r > startTime else cl_SendTime r < startTime)
       (\<lambda>r. if isReverse then cl_SendTime r else - cl_SendTime r) 0 cnt t)"

definition SearchMessageByContentType :: "'t chat_db \<Rightarrow> int list \<Rightarrow> string \<Rightarrow> int \<Rightarrow> int \<Rightarrow> nat \<Rightarrow> int \<Rightarrow> 't \<Rightarrow> (go_error + LocalChatLog list) \<times> 't" where
  "SearchMessageByContentType G contentType conversationID startTime endTime offset cnt t =
     wrap_res ''SearchMessage failed'' (ordered_find (G (GetTableName conversationID))
       (\<lambda>r. startTime \<le> cl_SendTime r \<and> cl_SendTime r \<le> endTime \<and> cl_Status r \<le> MsgStatusSendFailed \<and>
            cl_ContentType r \<in> set contentType)
       (\<lambda>r. - cl_SendTime r) offset cnt t)"

definition GetAlreadyExistSeqList :: "'t chat_db \<Rightarrow> string \<Rightarrow> int list \<Rightarrow> 't \<Rightarrow> (go_error + int list) \<times> 't" where
  "GetAlreadyExistSeqList G conversationID lostSeqList t =
     (case wrap_res ''GetAlreadyExistSeqList failed''
             (gorm_find (G (GetConversationTableName conversationID)) (\<lambda>r. cl_Seq r \<in> set lostSeqList) t) of
        (Inl e, t') \<Rightarrow> (Inl e, t')
      | (Inr rs, t') \<Rightarrow> (Inr (map cl_Seq rs), t'))"

definition SearchAllMessageByContentType :: "'t chat_db \<Rightarrow> string \<Rightarrow> int \<Rightarrow> 't \<Rightarrow> (go_error + LocalChatLog list) \<times> 't" where
  "SearchAllMessageByContentType G conversationID contentType t =
     gorm_find (G (GetTableName conversationID)) (\<lambda>r. cl_ContentType r = contentType) t"

definition GetUnreadMessage :: "'t chat_db \<Rightarrow> string \<Rightarrow> string \<Rightarrow> 't \<Rightarrow> (go_error + LocalChatLog list) \<times> 't" where
  "GetUnreadMessage G loginUserID conversationID t =
     wrap_res ''GetMessageList failed'' (gorm_find (G (GetConversationTableName conversationID))
       (\<lambda>r. cl_SendID r \<noteq> loginUserID \<and> \<not> cl_IsRead r) t)"

definition GetMessagesByClientMsgIDs :: "'t chat_db \<Rightarrow> string \<Rightarrow> string list \<Rightarrow> 't \<Rightarrow> (go_error + LocalChatLog list) \<times> 't" where
  "GetMessagesByClientMsgIDs G conversationID msgIDs t =
     wrap_res ''GetMessagesByClientMsgIDs error'' (ordered_find (G (GetConversationTableName conversationID))
       (\<lambda>r. cl_ClientMsgID r \<in> set msgIDs) (\<lambda>r. - cl_SendTime r) 0 (- 1) t)"

definition GetMessagesBySeqs :: "'t chat_db \<Rightarrow> string \<Rightarrow> int list \<Rightarrow> 't \<Rightarrow> (go_error + LocalChatLog list) \<times> 't" where
  "GetMessagesBySeqs G conversationID seqs t =
     wrap_res ''GetMessagesBySeqs error'' (ordered_find (G (GetConversationTableName conversationID))
       (\<lambda>r. cl_Seq r \<in> set seqs) (\<lambda>r. - cl_SendTime r) 0 (- 1) t)"

text \<open>\<^verbatim>\<open>IFNULL(max(seq), 0)\<close>; the Go variable keeps its 0 when the query fails.\<close>

definition max_seq_of :: "LocalChatLog list \<Rightarrow> int" where
  "max_seq_of rs = (if rs = [] then 0 else fold max (map cl_Seq (tl rs)) (cl_Seq (hd rs)))"

definition GetConversationNormalMsgSeq :: "'t chat_db \<Rightarrow> string \<Rightarrow> 't \<Rightarrow> (go_error + int) \<times> 't" where
  "GetConversationNormalMsgSeq G conversationID t =
     (case gorm_find (G (GetConversationTableName conversationID)) (\<lambda>r. True) t of
        (Inl e, t') \<Rightarrow> (Inl (Wrapped e ''GetConversationNormalMsgSeq''), t')
      | (Inr rs, t') \<Rightarrow> (Inr (max_seq_of rs), t'))"

definition GetConversationPeerNormalMsgSeq :: "'t chat_db \<Rightarrow> string \<Rightarrow> string \<Rightarrow> 't \<Rightarrow> (go_error + int) \<times> 't" where
  "GetConversationPeerNormalMsgSeq G loginUserID conversationID t =
     (case gorm_find (G (GetConversationTableName conversationID)) (\<lambda>r. cl_SendID r \<noteq> loginUserID) t of
        (Inl e, t') \<Rightarrow> (Inl (Wrapped e ''GetConversationPeerNormalMsgSeq''), t')
      | (Inr rs, t') \<Rightarrow> (Inr (max_seq_of rs), t'))"

section \<open>Marking as read\<close>

definition rows_result :: "string \<Rightarrow> (go_error option \<times> nat) \<times> 't \<Rightarrow> (go_error + nat) \<times> 't" where
  "rows_result msg res =
     (case res of ((err, n), t) \<Rightarrow>
        (if n = 0 then Inl (Wrapped (GoError ''RowsAffected == 0'') ''no update'')
         else case err of Some e \<Rightarrow> Inl (Wrapped e msg) | None \<Rightarrow> Inr n, t))"

definition MarkConversationMessageAsReadBySeqs :: "'t chat_db \<Rightarrow> string \<Rightarrow> string \<Rightarrow> int list \<Rightarrow> 't \<Rightarrow> (go_error + nat) \<times> 't" where
  "MarkConversationMessageAsReadBySeqs G loginUserID conversationID seqs t =
     rows_result ''UpdateMessageStatusBySourceID failed'' (gorm_updates (G (GetConversationTableName conversationID))
       (\<lambda>r. cl_Seq r \<in> set seqs \<and> cl_SendID r \<noteq> loginUserID) (\<lambda>r. r\<lparr>cl_IsRead := True\<rparr>) t)"

definition MarkConversationAllMessageAsRead :: "'t chat_db \<Rightarrow> string \<Rightarrow> string \<Rightarrow> 't \<Rightarrow> (go_error + nat) \<times> 't" where
  "MarkConversationAllMessageAsRead G loginUserID conversationID t =
     rows_result ''UpdateMessageStatusBySourceID failed'' (gorm_updates (G (GetConversationTableName conversationID))
       (\<lambda>r. cl_SendID r \<noteq> loginUserID \<and> \<not> cl_IsRead r) (\<lambda>r. r\<lparr>cl_IsRead := True\<rparr>) t)"

text \<open>
  The loop of \<^verbatim>\<open>MarkConversationMessageAsReadDB\<close>: \<open>stamp\<close> decodes the attached information, sets its
  reading time and encodes it again (JSON and the clock are parameters); a failed row is logged
  and not counted.
\<close>

fun mark_read_loop :: "'t chat_db \<Rightarrow> (string \<Rightarrow> string) \<Rightarrow> string \<Rightarrow> LocalChatLog list \<Rightarrow> nat \<Rightarrow> 't \<Rightarrow> nat \<times> 't" where
  "mark_read_loop G stamp conversationID [] rowsAffected t = (rowsAffected, t)"
| "mark_read_loop G stamp conversationID (msg # rest) rowsAffected t =
     (let msg' = msg\<lparr>cl_IsRead := True, cl_AttachedInfo := stamp (cl_AttachedInfo msg)\<rparr>
      in case gorm_updates (G (GetConversationTableName conversationID)) (\<lambda>r. cl_ClientMsgID r = cl_ClientMsgID msg)
                (chat_nonzero_over msg') t of
           ((Some e, n), t') \<Rightarrow> mark_read_loop G stamp conversationID rest rowsAffected t'
         | ((None, n), t') \<Rightarrow> mark_read_loop G stamp conversationID rest (rowsAffected + 1) t')"

definition MarkConversationMessageAsReadDB ::
  "'t chat_db \<Rightarrow> (string \<Rightarrow> string) \<Rightarrow> string \<Rightarrow> string \<Rightarrow> string list \<Rightarrow> 't \<Rightarrow> (go_error + nat) \<times> 't" where
  "MarkConversationMessageAsReadDB G stamp loginUserID conversationID msgIDs t =
     (case gorm_find (G (GetConversationTableName conversationID))
             (\<lambda>r. cl_ClientMsgID r \<in> set msgIDs \<and> cl_SendID r \<noteq> loginUserID) t of
        (Inl e, t') \<Rightarrow> (Inl (Wrapped e ''MarkConversationMessageAsReadDB failed''), t')
      | (Inr msgs, t') \<Rightarrow> (case mark_read_loop G stamp conversationID msgs 0 t' of (n, t'') \<Rightarrow> (Inr n, t'')))"

end
