(* ===== verification/ConvDb.thy ===== *)
theory ConvDb
  imports ChatLog "HOL-Library.Product_Lexorder"
begin

text \<open>
  \<^verbatim>\<open>pkg/db/conversation_model.go\<close>, \<^verbatim>\<open>notification_model.go\<close> and \<^verbatim>\<open>upload_model.go\<close>: the tables of
  the conversations, of the notification sequence numbers and of the unfinished uploads.
\<close>

section \<open>Conversations\<close>

definition ReceiveNotNotifyMessage :: int where "ReceiveNotNotifyMessage = 2"

text \<open>The columns an \<^verbatim>\<open>Updates\<close> with the struct \<open>c\<close> writes into a row.\<close>

definition conv_nonzero_over :: "LocalConversation \<Rightarrow> LocalConversation \<Rightarrow> LocalConversation" where
  "conv_nonzero_over c r = \<lparr>
     cv_ConversationID = cv_ConversationID r,
     cv_ConversationType = nz_int (cv_ConversationType c) (cv_ConversationType r),
     cv_UserID = nz_str (cv_UserID c) (cv_UserID r),
     cv_GroupID = nz_str (cv_GroupID c) (cv_GroupID r),
     cv_ShowName = nz_str (cv_ShowName c) (cv_ShowName r),
     cv_FaceURL = nz_str (cv_FaceURL c) (cv_FaceURL r),
     cv_RecvMsgOpt = nz_int (cv_RecvMsgOpt c) (cv_RecvMsgOpt r),
     cv_UnreadCount = nz_int (cv_UnreadCount c) (cv_UnreadCount r),
     cv_GroupAtType = nz_int (cv_GroupAtType c) (cv_GroupAtType r),
     cv_LatestMsg = nz_str (cv_LatestMsg c) (cv_LatestMsg r),
     cv_LatestMsgSendTime = nz_int (cv_LatestMsgSendTime c) (cv_LatestMsgSendTime r),
     cv_DraftText = nz_str (cv_DraftText c) (cv_DraftText r),
     cv_DraftTextTime = nz_int (cv_DraftTextTime c) (cv_DraftTextTime r),
     cv_IsPinned = nz_bool (cv_IsPinned c) (cv_IsPinned r),
     cv_IsPrivateChat = nz_bool (cv_IsPrivateChat c) (cv_IsPrivateChat r),
     cv_BurnDuration = nz_int (cv_BurnDuration c) (cv_BurnDuration r),
     cv_IsNotInGroup = nz_bool (cv_IsNotInGroup c) (cv_IsNotInGroup r),
     cv_UpdateUnreadCountTime = nz_int (cv_UpdateUnreadCountTime c) (cv_UpdateUnreadCountTime r),
     cv_AttachedInfo = nz_str (cv_AttachedInfo c) (cv_AttachedInfo r),
     cv_Ex = nz_str (cv_Ex c) (cv_Ex r),
     cv_MaxSeq = nz_int (cv_MaxSeq c) (cv_MaxSeq r),
     cv_MinSeq = nz_int (cv_MinSeq c) (cv_MinSeq r),
     cv_HasReadSeq = nz_int (cv_HasReadSeq c) (cv_HasReadSeq r),
     cv_MsgDestructTime = nz_int (cv_MsgDestructTime c) (cv_MsgDestructTime r),
     cv_IsMsgDestruct = nz_bool (cv_IsMsgDestruct c) (cv_IsMsgDestruct r)\<rparr>"

text \<open>The conversation's primary key restricts an \<^verbatim>\<open>Updates\<close>; without it gorm refuses to run.\<close>

definition updates_conv ::
  "(LocalConversation, 't) gorm \<Rightarrow> string \<Rightarrow> (LocalConversation \<Rightarrow> LocalConversation) \<Rightarrow> 't \<Rightarrow> (go_error option \<times> nat) \<times> 't" where
  "updates_conv G conversationID f t = gorm_updates_pk G cv_ConversationID conversationID f t"

definition list_order :: "LocalConversation \<Rightarrow> int \<times> int" where
  "list_order r = (if cv_IsPinned r then 0 else 1, - max (cv_LatestMsgSendTime r) (cv_DraftTextTime r))"

definition GetAllConversationListDB :: "(LocalConversation, 't) gorm \<Rightarrow> 't \<Rightarrow> (go_error + LocalConversation list) \<times> 't" where
  "GetAllConversationListDB G t =
     wrap_res ''GetAllConversationList failed'' (ordered_find G (\<lambda>r. cv_LatestMsgSendTime r > 0) list_order 0 0 t)"

definition FindAllConversationConversationID :: "(LocalConversation, 't) gorm \<Rightarrow> 't \<Rightarrow> (go_error + string list) \<times> 't" where
  "FindAllConversationConversationID G t =
     (case wrap_res [] (gorm_find G (\<lambda>r. cv_LatestMsgSendTime r > 0) t) of
        (Inl e, t') \<Rightarrow> (Inl e, t') | (Inr rs, t') \<Rightarrow> (Inr (map cv_ConversationID rs), t'))"

definition GetHiddenConversationList :: "(LocalConversation, 't) gorm \<Rightarrow> 't \<Rightarrow> (go_error + LocalConversation list) \<times> 't" where
  "GetHiddenConversationList G t =
     wrap_res ''GetHiddenConversationList failed'' (gorm_find G (\<lambda>r. cv_LatestMsgSendTime r = 0) t)"

definition GetAllConversations :: "(LocalConversation, 't) gorm \<Rightarrow> 't \<Rightarrow> (go_error + LocalConversation list) \<times> 't" where
  "GetAllConversations G t = wrap_res ''GetAllConversations failed'' (gorm_find G (\<lambda>r. True) t)"

definition GetAllConversationIDList :: "(LocalConversation, 't) gorm \<Rightarrow> 't \<Rightarrow> (go_error + string list) \<times> 't" where
  "GetAllConversationIDList G t =
     (case wrap_res ''GetAllConversationIDList failed '' (gorm_find G (\<lambda>r. True) t) of
        (Inl e, t') \<Rightarrow> (Inl e, t') | (Inr rs, t') \<Rightarrow> (Inr (map cv_ConversationID rs), t'))"

definition GetAllSingleConversationIDList :: "(LocalConversation, 't) gorm \<Rightarrow> 't \<Rightarrow> (go_error + string list) \<times> 't" where
  "GetAllSingleConversationIDList G t =
     (case wrap_res ''GetAllConversationIDList failed '' (gorm_find G (\<lambda>r. cv_ConversationType r = SingleChatType) t) of
        (Inl e, t') \<Rightarrow> (Inl e, t') | (Inr rs, t') \<Rightarrow> (Inr (map cv_ConversationID rs), t'))"

definition GetConversationListSplitDB :: "(LocalConversation, 't) gorm \<Rightarrow> nat \<Rightarrow> int \<Rightarrow> 't \<Rightarrow> (go_error + LocalConversation list) \<times> 't" where
  "GetConversationListSplitDB G offset cnt t =
     wrap_res ''GetFriendList failed'' (ordered_find G (\<lambda>r. cv_LatestMsgSendTime r > 0) list_order offset cnt t)"

definition BatchInsertConversationList :: "(LocalConversation, 't) gorm \<Rightarrow> LocalConversation list \<Rightarrow> 't action" where
  "BatchInsertConversationList G conversationList t =
     (if conversationList = [] then (None, t)
      else wrap_act ''BatchInsertConversationList failed'' (gorm_create G conversationList t))"

fun update_unread_counts :: "(LocalConversation, 't) gorm \<Rightarrow> LocalConversation list \<Rightarrow> 't action" where
  "update_unread_counts G [] t = (None, t)"
| "update_unread_counts G (v # rest) t =
     and_then (\<lambda>t. stmt_err (gorm_updates G (\<lambda>r. cv_ConversationID r = cv_ConversationID v)
                  (\<lambda>r. r\<lparr>cv_UnreadCount := cv_UnreadCount v\<rparr>) t))
              (update_unread_counts G rest) t"

definition UpdateOrCreateConversations :: "(LocalConversation, 't) gorm \<Rightarrow> LocalConversation list \<Rightarrow> 't action" where
  "UpdateOrCreateConversations G conversationList t =
     (case gorm_find G (\<lambda>r. True) t of
        (Inl e, t1) \<Rightarrow> (Some e, t1)
      | (Inr rs, t1) \<Rightarrow>
          (let conversationIDs = map cv_ConversationID rs;
               exist = filter (\<lambda>v. IsContain (cv_ConversationID v) conversationIDs) conversationList;
               notExist = filter (\<lambda>v. \<not> IsContain (cv_ConversationID v) conversationIDs) conversationList
           in and_then (if notExist = [] then skip_act else gorm_create G notExist) (update_unread_counts G exist) t1))"

definition InsertConversation :: "(LocalConversation, 't) gorm \<Rightarrow> LocalConversation \<Rightarrow> 't action" where
  "InsertConversation G c t = wrap_act ''InsertConversation failed'' (gorm_create G [c] t)"

definition DeleteConversation :: "(LocalConversation, 't) gorm \<Rightarrow> string \<Rightarrow> 't action" where
  "DeleteConversation G conversationID t =
     wrap_act ''DeleteConversation failed'' (gorm_delete G (\<lambda>r. cv_ConversationID r = conversationID) t)"

definition GetConversation :: "(LocalConversation, 't) gorm \<Rightarrow> string \<Rightarrow> 't \<Rightarrow> (go_error + LocalConversation) \<times> 't" where
  "GetConversation G conversationID t =
     wrap_res (''GetConversation failed, conversationID: '' @ conversationID)
       (gorm_take G (\<lambda>r. cv_ConversationID r = conversationID) t)"

definition UpdateConversation :: "(LocalConversation, 't) gorm \<Rightarrow> LocalConversation \<Rightarrow> 't action" where
  "UpdateConversation G c t =
     update_result ''UpdateConversation failed'' (updates_conv G (cv_ConversationID c) (conv_nonzero_over c) t)"

definition UpdateConversationForSync :: "(LocalConversation, 't) gorm \<Rightarrow> LocalConversation \<Rightarrow> 't action" where
  "UpdateConversationForSync G c t =
     update_result ''UpdateConversation failed'' (gorm_updates G (\<lambda>r. cv_ConversationID r = cv_ConversationID c)
       (\<lambda>r. r\<lparr>cv_RecvMsgOpt := cv_RecvMsgOpt c, cv_IsPinned := cv_IsPinned c, cv_IsPrivateChat := cv_IsPrivateChat c,
              cv_GroupAtType := cv_GroupAtType c, cv_IsNotInGroup := cv_IsNotInGroup c,
              cv_UpdateUnreadCountTime := cv_UpdateUnreadCountTime c, cv_Ex := cv_Ex c,
              cv_AttachedInfo := cv_AttachedInfo c, cv_BurnDuration := cv_BurnDuration c,
              cv_MsgDestructTime := cv_MsgDestructTime c, cv_IsMsgDestruct := cv_IsMsgDestruct c\<rparr>) t)"

fun BatchUpdateConversationList :: "(LocalConversation, 't) gorm \<Rightarrow> LocalConversation list \<Rightarrow> 't action" where
  "BatchUpdateConversationList G [] t = (None, t)"
| "BatchUpdateConversationList G (v # rest) t =
     and_then (\<lambda>t. wrap_act ''BatchUpdateConversationList failed'' (UpdateConversation G v t))
              (BatchUpdateConversationList G rest) t"

definition ConversationIfExists :: "(LocalConversation, 't) gorm \<Rightarrow> string \<Rightarrow> 't \<Rightarrow> (go_error + bool) \<times> 't" where
  "ConversationIfExists G conversationID t =
     (case wrap_res ''ConversationIfExists get failed'' (gorm_find G (\<lambda>r. cv_ConversationID r = conversationID) t) of
        (Inl e, t') \<Rightarrow> (Inl e, t') | (Inr rs, t') \<Rightarrow> (Inr (length rs = 1), t'))"

definition reset_columns :: "LocalConversation \<Rightarrow> LocalConversation" where
  "reset_columns r = r\<lparr>cv_UnreadCount := 0, cv_LatestMsg := [], cv_LatestMsgSendTime := 0,
     cv_DraftText := [], cv_DraftTextTime := 0\<rparr>"

definition ResetConversation :: "(LocalConversation, 't) gorm \<Rightarrow> string \<Rightarrow> 't action" where
  "ResetConversation G conversationID t =
     update_result ''ResetConversation failed'' (updates_conv G conversationID reset_columns t)"

definition ResetAllConversation :: "(LocalConversation, 't) gorm \<Rightarrow> 't action" where
  "ResetAllConversation G t =
     update_result ''ResetConversation failed'' (gorm_updates G (\<lambda>r. True) reset_columns t)"

definition ClearConversation :: "(LocalConversation, 't) gorm \<Rightarrow> string \<Rightarrow> 't action" where
  "ClearConversation G conversationID t =
     update_result ''ClearConversation failed'' (updates_conv G conversationID
       (\<lambda>r. r\<lparr>cv_UnreadCount := 0, cv_LatestMsg := [], cv_DraftText := [], cv_DraftTextTime := 0\<rparr>) t)"

definition SetConversationDraftDB :: "(LocalConversation, 't) gorm \<Rightarrow> int \<Rightarrow> string \<Rightarrow> string \<Rightarrow> 't action" where
  "SetConversationDraftDB G nowTime conversationID draftText t =
     update_result ''SetConversationDraft failed'' (gorm_updates G (\<lambda>r. cv_ConversationID r = conversationID)
       (\<lambda>r. r\<lparr>cv_DraftText := draftText, cv_DraftTextTime := nowTime,
              cv_LatestMsgSendTime := (if cv_LatestMsgSendTime r = 0 then nowTime else cv_LatestMsgSendTime r)\<rparr>) t)"

definition RemoveConversationDraft :: "(LocalConversation, 't) gorm \<Rightarrow> string \<Rightarrow> string \<Rightarrow> 't action" where
  "RemoveConversationDraft G conversationID draftText t =
     update_result ''RemoveConversationDraft failed'' (updates_conv G conversationID
       (\<lambda>r. r\<lparr>cv_DraftText := draftText, cv_DraftTextTime := 0\<rparr>) t)"

definition UnPinConversation :: "(LocalConversation, 't) gorm \<Rightarrow> string \<Rightarrow> int \<Rightarrow> 't action" where
  "UnPinConversation G conversationID isPinned t =
     update_result ''UnPinConversation failed'' (gorm_updates G (\<lambda>r. cv_ConversationID r = conversationID)
       (\<lambda>r. r\<lparr>cv_IsPinned := isPinned \<noteq> 0,
              cv_DraftTextTime := (if cv_DraftText r = [] then 0 else cv_DraftTextTime r)\<rparr>) t)"

text \<open>The columns of \<^verbatim>\<open>args\<close> are given as the update they make of a row.\<close>

definition ErrRecordNotFound :: go_error where
  "ErrRecordNotFound = GoError ''RecordNotFoundError''"

definition UpdateColumnsConversation :: "(LocalConversation, 't) gorm \<Rightarrow> string \<Rightarrow> (LocalConversation \<Rightarrow> LocalConversation) \<Rightarrow> 't action" where
  "UpdateColumnsConversation G conversationID args t =
     (case updates_conv G conversationID args t of
        ((err, n), t') \<Rightarrow>
          (if n = 0 then wrap_err (Some ErrRecordNotFound) ''no update''
           else wrap_err err ''UpdateColumnsConversation failed'', t'))"

definition UpdateAllConversation :: "(LocalConversation, 't) gorm \<Rightarrow> LocalConversation \<Rightarrow> 't action" where
  "UpdateAllConversation G conversation t =
     (if cv_ConversationID conversation \<noteq> []
      then (wrap_err (Some (GoError ''not update all conversation'')) ''UpdateAllConversation failed'', t)
      else update_result ''UpdateColumnsConversation failed''
             (updates_conv G (cv_ConversationID conversation) (conv_nonzero_over conversation) t))"

definition IncrConversationUnreadCount :: "(LocalConversation, 't) gorm \<Rightarrow> string \<Rightarrow> 't action" where
  "IncrConversationUnreadCount G conversationID t =
     update_result ''IncrConversationUnreadCount failed'' (updates_conv G conversationID
       (\<lambda>r. r\<lparr>cv_UnreadCount := cv_UnreadCount r + 1\<rparr>) t)"

definition GetTotalUnreadMsgCountDB :: "(LocalConversation, 't) gorm \<Rightarrow> 't \<Rightarrow> (go_error + int) \<times> 't" where
  "GetTotalUnreadMsgCountDB G t =
     (case gorm_find G (\<lambda>r. cv_RecvMsgOpt r < ReceiveNotNotifyMessage \<and> cv_LatestMsgSendTime r > 0) t of
        (Inl e, t') \<Rightarrow> (Inl (Wrapped (GoError ''GetTotalUnreadMsgCount err'') ''GetTotalUnreadMsgCount err''), t')
      | (Inr rs, t') \<Rightarrow> (Inr (fold (\<lambda>r total. i32 (total + i32 (cv_UnreadCount r))) rs 0), t'))"

definition SetMultipleConversationRecvMsgOpt :: "(LocalConversation, 't) gorm \<Rightarrow> string list \<Rightarrow> int \<Rightarrow> 't action" where
  "SetMultipleConversationRecvMsgOpt G conversationIDList opt t =
     update_result ''SetMultipleConversationRecvMsgOpt failed'' (gorm_updates G
       (\<lambda>r. cv_ConversationID r \<in> set conversationIDList) (\<lambda>r. r\<lparr>cv_RecvMsgOpt := opt\<rparr>) t)"

definition GetMultipleConversationDB :: "(LocalConversation, 't) gorm \<Rightarrow> string list \<Rightarrow> 't \<Rightarrow> (go_error + LocalConversation list) \<times> 't" where
  "GetMultipleConversationDB G conversationIDList t =
     wrap_res ''GetMultipleConversation failed'' (gorm_find G (\<lambda>r. cv_ConversationID r \<in> set conversationIDList) t)"

text \<open>
  \<^verbatim>\<open>DecrConversationUnreadCount\<close> runs in a transaction; \<open>rollback old t\<close> undoes what happened since
  the table was \<open>old\<close>. When the first statement fails, the transaction is left open.
\<close>

definition DecrConversationUnreadCount ::
  "(LocalConversation, 't) gorm \<Rightarrow> ('t \<Rightarrow> 't \<Rightarrow> 't) \<Rightarrow> string \<Rightarrow> int \<Rightarrow> 't action" where
  "DecrConversationUnreadCount G rollback conversationID cnt t =
     (case updates_conv G conversationID (\<lambda>r. r\<lparr>cv_UnreadCount := cv_UnreadCount r - cnt\<rparr>) t of
        ((Some e, n), t1) \<Rightarrow> (wrap_err (Some (GoError ''RowsAffected == 0'')) ''no update'', t1)
      | ((None, n), t1) \<Rightarrow>
          (case gorm_take G (\<lambda>r. cv_ConversationID r = conversationID) t1 of
             (Inl e, t2) \<Rightarrow> (wrap_err (Some (GoError ''get conversation err'')) [], rollback t t2)
           | (Inr c, t2) \<Rightarrow>
               (if cv_UnreadCount c < 0
                then case updates_conv G conversationID (\<lambda>r. r\<lparr>cv_UnreadCount := 0\<rparr>) t2 of
                       ((Some e, n), t3) \<Rightarrow> (wrap_err (Some (GoError ''RowsAffected == 0'')) ''no update'', rollback t t3)
                     | ((None, n), t3) \<Rightarrow> (None, t3)
                else (None, t2))))"

section \<open>Notification sequence numbers\<close>

definition SetNotificationSeq :: "(NotificationSeqs, 't) gorm \<Rightarrow> string \<Rightarrow> int \<Rightarrow> 't action" where
  "SetNotificationSeq G conversationID seq t =
     (case gorm_updates G (\<lambda>r. ns_ConversationID r = conversationID) (\<lambda>r. r\<lparr>ns_Seq := seq\<rparr>) t of
        ((Some e, n), t') \<Rightarrow> (wrap_err (Some e) ''Updates failed'', t')
      | ((None, n), t') \<Rightarrow>
          (if n = 0 then wrap_act ''Create failed''
             (gorm_create G [\<lparr>ns_ConversationID = conversationID, ns_Seq = seq\<rparr>] t')
           else (None, t')))"

definition GetNotificationAllSeqs :: "(NotificationSeqs, 't) gorm \<Rightarrow> 't \<Rightarrow> (go_error + NotificationSeqs list) \<times> 't" where
  "GetNotificationAllSeqs G t = wrap_res ''GetNotificationAllSeqs failed'' (gorm_find G (\<lambda>r. True) t)"

section \<open>Uploads\<close>

definition upload_nonzero_over :: "LocalUpload \<Rightarrow> LocalUpload \<Rightarrow> LocalUpload" where
  "upload_nonzero_over c r = r\<lparr>up_UploadID := nz_str (up_UploadID c) (up_UploadID r),
     up_UploadInfo := nz_str (up_UploadInfo c) (up_UploadInfo r),
     up_ExpireTime := nz_int (up_ExpireTime c) (up_ExpireTime r),
     up_CreateTime := nz_int (up_CreateTime c) (up_CreateTime r)\<rparr>"

definition GetUpload :: "(LocalUpload, 't) gorm \<Rightarrow> string \<Rightarrow> 't \<Rightarrow> (go_error + LocalUpload) \<times> 't" where
  "GetUpload G partHash t = wrap_res [] (gorm_take G (\<lambda>r. up_PartHash r = partHash) t)"

definition InsertUpload :: "(LocalUpload, 't) gorm \<Rightarrow> LocalUpload \<Rightarrow> 't action" where
  "InsertUpload G upload t = wrap_act [] (gorm_create G [upload] t)"

definition UpdateUpload :: "(LocalUpload, 't) gorm \<Rightarrow> LocalUpload \<Rightarrow> 't action" where
  "UpdateUpload G upload t =
     wrap_act [] (stmt_err (gorm_updates_pk G up_PartHash (up_PartHash upload) (upload_nonzero_over upload) t))"

definition DeleteUpload :: "(LocalUpload, 't) gorm \<Rightarrow> string \<Rightarrow> 't action" where
  "DeleteUpload G partHash t = wrap_act [] (gorm_delete G (\<lambda>r. up_PartHash r = partHash) t)"

fun delete_uploads :: "(LocalUpload, 't) gorm \<Rightarrow> LocalUpload list \<Rightarrow> 't action" where
  "delete_uploads G [] t = (None, t)"
| "delete_uploads G (u # us) t = and_then (DeleteUpload G (up_PartHash u)) (delete_uploads G us) t"

definition DeleteExpireUpload :: "(LocalUpload, 't) gorm \<Rightarrow> int \<Rightarrow> 't action" where
  "DeleteExpireUpload G nowMilli t =
     (case gorm_find G (\<lambda>r. up_ExpireTime r \<le> nowMilli) t of
        (Inl e, t') \<Rightarrow> (Some (Wrapped e []), t')
      | (Inr uploads, t') \<Rightarrow> delete_uploads G uploads t')"

end
