(* ===== verification/DbProps.thy ===== *)
theory DbProps
  imports ConvDb TableSync
begin

text \<open>
  What the database functions of \<^verbatim>\<open>pkg/db\<close> promise, for every engine that does what gorm's
  documentation says.
\<close>

section \<open>Reading a page of messages\<close>

lemma take_sorted_page:
  assumes "sorted (map f xs)" and "x \<in> set (take n xs)" and "y \<in> set xs" and "y \<notin> set (take n xs)"
  shows "f x \<le> f y"
proof -
  have split: "xs = take n xs @ drop n xs" by simp
  then have "y \<in> set (drop n xs)" using assms(3,4) by (metis Un_iff set_append)
  moreover have "sorted (map f (take n xs @ drop n xs))" using assms(1) by simp
  ultimately show ?thesis using assms(2) by (simp only: map_append sorted_append) auto
qed

context gorm_table
begin

lemma ordered_find_page:
  assumes "ordered_find G p key off n t = (Inr rs, t')" and "off = 0" and "0 < n"
  shows "sorted (map key rs)" and "length rs \<le> nat n" and "set rs \<subseteq> {r \<in> set (rows t). p r}"
    and "\<And>x y. x \<in> set rs \<Longrightarrow> y \<in> set (rows t) \<Longrightarrow> p y \<Longrightarrow> y \<notin> set rs \<Longrightarrow> key x \<le> key y"
    and "rows t' = rows t"
    and "\<And>y. y \<in> set (rows t) \<Longrightarrow> p y \<Longrightarrow> y \<notin> set rs \<Longrightarrow> length rs = nat n"
proof -
  obtain xs where f: "gorm_find G p t = (Inr xs, t')" and rs: "rs = take (nat n) (sort_key key xs)"
    using assms by (auto simp: ordered_find_def limit_rows_def split: prod.splits sum.splits)
  have set_xs: "set xs = {r \<in> set (rows t). p r}" by (rule find_set [OF f])
  show "sorted (map key rs)" unfolding rs by (simp add: take_map [symmetric] sorted_wrt_take)
  show "length rs \<le> nat n" by (simp add: rs)
  show "set rs \<subseteq> {r \<in> set (rows t). p r}" using set_xs set_take_subset [of "nat n" "sort_key key xs"] by (auto simp: rs)
  show "key x \<le> key y" if "x \<in> set rs" "y \<in> set (rows t)" "p y" "y \<notin> set rs" for x y
    using take_sorted_page [of key "sort_key key xs" x "nat n" y] that set_xs by (simp add: rs)
  show "rows t' = rows t" by (rule find_rows [OF f])
  show "length rs = nat n" if "y \<in> set (rows t)" "p y" "y \<notin> set rs" for y
  proof (rule ccontr)
    assume "length rs \<noteq> nat n"
    then have "rs = sort_key key xs" by (simp add: rs)
    with that set_xs show False by simp
  qed
qed

end

text \<open>Sample rows, for the witnesses.\<close>

definition sample_chat :: "string \<Rightarrow> int \<Rightarrow> int \<Rightarrow> LocalChatLog" where
  "sample_chat cid seq sendTime = \<lparr>cl_ClientMsgID = cid, cl_ServerMsgID = [], cl_SendID = ''a'',
     cl_RecvID = ''b'', cl_SenderPlatformID = 0, cl_SenderNickname = [], cl_SenderFaceURL = [], cl_SessionType
     = 0, cl_MsgFrom = 0, cl_ContentType = 0, cl_Content = [], cl_IsRead = False, cl_Status = 2, cl_Seq = seq,
     cl_SendTime = sendTime, cl_CreateTime = 0, cl_AttachedInfo = [], cl_Ex = [], cl_LocalEx = [], cl_IsReact
     = False, cl_IsExternalExtensions = False, cl_MsgFirstModifyTime = 0\<rparr>"

definition sample_conv :: "string \<Rightarrow> int \<Rightarrow> LocalConversation" where
  "sample_conv cid unread = \<lparr>cv_ConversationID = cid, cv_ConversationType = 1, cv_UserID = [],
     cv_GroupID = [], cv_ShowName = [], cv_FaceURL = [], cv_RecvMsgOpt = 0, cv_UnreadCount = unread,
     cv_GroupAtType = 0, cv_LatestMsg = [], cv_LatestMsgSendTime = 1, cv_DraftText = [], cv_DraftTextTime = 0,
     cv_IsPinned = False, cv_IsPrivateChat = False, cv_BurnDuration = 0, cv_IsNotInGroup = False,
     cv_UpdateUnreadCountTime = 0, cv_AttachedInfo = [], cv_Ex = [], cv_MaxSeq = 0, cv_MinSeq = 0,
     cv_HasReadSeq = 0, cv_MsgDestructTime = 0, cv_IsMsgDestruct = False\<rparr>"

definition ftab :: "'r list \<Rightarrow> 'r ftable" where
  "ftab rs = \<lparr>ft_rows = rs, ft_faults = []\<rparr>"

text \<open>
  A page of the history. For a positive count, \<^verbatim>\<open>GetMessageList\<close> towards the past returns
  stored messages sent before the start time, newest first, at most \<open>count\<close> of them; a message
  before the start time that it leaves out is not newer than any it returns, and is left out only
  because the page is full.
\<close>
theorem GetMessageList_page:
  assumes "gorm_table (G (GetTableName conversationID)) rows pk" and "0 < cnt"
    and "GetMessageList G conversationID cnt startTime False t = (Inr rs, t')"
  shows "sorted (map (\<lambda>r. - cl_SendTime r) rs) \<and> length rs \<le> nat cnt \<and>
    set rs \<subseteq> {r \<in> set (rows t). cl_SendTime r < startTime} \<and>
    (\<forall>y \<in> set (rows t). cl_SendTime y < startTime \<longrightarrow> y \<notin> set rs \<longrightarrow>
       length rs = nat cnt \<and> (\<forall>x \<in> set rs. cl_SendTime y \<le> cl_SendTime x))"
proof -
  have "ordered_find (G (GetTableName conversationID)) (\<lambda>r. cl_SendTime r < startTime) (\<lambda>r. - cl_SendTime r) 0 cnt t = (Inr rs, t')"
    using assms(3) by (auto simp: GetMessageList_def wrap_res_def split: prod.splits sum.splits)
  note page = gorm_table.ordered_find_page [OF assms(1) this refl assms(2)]
  show ?thesis using page(1-3) page(4) page(6) by fastforce
qed

theorem GetMessageList_page_witness:
  "let rs = [sample_chat ''m2'' 2 20, sample_chat ''m1'' 1 10];
       t = ftab [sample_chat ''m1'' 1 10, sample_chat ''m3'' 3 30, sample_chat ''m2'' 2 20]
   in set rs \<subseteq> {r \<in> set (ft_rows t). cl_SendTime r < 30} \<and> length rs \<le> nat 2"
  using GetMessageList_page [of "\<lambda>_. list_gorm cl_ClientMsgID" "''c''" ft_rows cl_ClientMsgID 2 30
      "ftab [sample_chat ''m1'' 1 10, sample_chat ''m3'' 3 30, sample_chat ''m2'' 2 20]"
      "[sample_chat ''m2'' 2 20, sample_chat ''m1'' 1 10]"
      "ftab [sample_chat ''m1'' 1 10, sample_chat ''m3'' 3 30, sample_chat ''m2'' 2 20]", OF lg.gorm_table_axioms]
  by (simp add: GetMessageList_def wrap_res_def ordered_find_def list_gorm_def next_fault_def ftab_def
      limit_rows_def sample_chat_def)

section \<open>Notification sequence numbers\<close>

definition ns_key :: "NotificationSeqs \<Rightarrow> string" where
  "ns_key r = ns_ConversationID r"

lemma map_no_match: "filter p rs = [] \<Longrightarrow> map (\<lambda>r. if p r then f r else r) rs = rs"
  by (induction rs) (auto split: if_splits)

lemma ns_pred: "(\<lambda>r. ns_ConversationID r = k) = (\<lambda>r. ns_key r = k)"
  by (simp add: ns_key_def)

text \<open>
  \<^verbatim>\<open>SetNotificationSeq\<close> stores: when it reports no error, the conversation's number is the
  given one, whether there was a row or not, and no other conversation's number changes; when it
  reports an error, nothing has changed.
\<close>
theorem SetNotificationSeq_stores:
  assumes "gorm_table G rows ns_key" and "SetNotificationSeq G k seq t = (r, t')"
  shows "map_option ns_Seq \<circ> rows_by_key ns_key (rows t') =
    (if r = None then (map_option ns_Seq \<circ> rows_by_key ns_key (rows t))(k \<mapsto> seq)
     else map_option ns_Seq \<circ> rows_by_key ns_key (rows t))"
proof -
  let ?f = "\<lambda>r. r\<lparr>ns_Seq := seq\<rparr>"
  obtain e n t1 where u: "gorm_updates G (\<lambda>r. ns_key r = k) ?f t = ((e, n), t1)"
    by (metis prod.collapse)
  show ?thesis
  proof (cases e)
    case (Some e')
    then have "rows t1 = rows t" using gorm_table.updates_err [OF assms(1)] u by blast
    moreover have "r \<noteq> None" "t' = t1"
      using assms(2) u Some by (auto simp: SetNotificationSeq_def ns_pred wrap_err_def)
    ultimately show ?thesis by auto
  next
    case None
    then have t1: "rows t1 = map (\<lambda>r. if ns_key r = k then ?f r else r) (rows t)"
        "n = length (filter (\<lambda>r. ns_key r = k) (rows t))"
      using gorm_table.updates_ok [OF assms(1)] u by blast+
    show ?thesis
    proof (cases "n = 0")
      case True
      then have none: "filter (\<lambda>r. ns_key r = k) (rows t) = []" using t1(2) by simp
      then have same: "rows t1 = rows t" using t1(1) by (simp add: map_no_match)
      have absent: "rows_by_key ns_key (rows t1) (ns_key \<lparr>ns_ConversationID = k, ns_Seq = seq\<rparr>) = None"
        using none by (auto simp: same rows_by_key_def ns_key_def find_None_iff filter_empty_conv)
      obtain e2 where c: "gorm_create G [\<lparr>ns_ConversationID = k, ns_Seq = seq\<rparr>] t1 = (e2, t')"
          and r: "r = wrap_err e2 ''Create failed''"
        using assms(2) u None True by (auto simp: SetNotificationSeq_def ns_pred wrap_act_def split: prod.splits)
      have key: "ns_key \<lparr>ns_ConversationID = k, ns_Seq = seq\<rparr> = k" by (simp add: ns_key_def)
      from gorm_table.create_by_key [OF assms(1) absent c] r show ?thesis
        by (auto simp: same key fun_eq_iff)
    next
      case False
      then have "r = None" "t' = t1" using assms(2) u None by (auto simp: SetNotificationSeq_def ns_pred)
      moreover have "\<exists>x \<in> set (rows t). ns_key x = k"
        using False t1(2) by (auto simp: filter_empty_conv)
      then obtain x where "rows_by_key ns_key (rows t) k = Some x"
        by (cases "rows_by_key ns_key (rows t) k") (auto simp: rows_by_key_def find_None_iff)
      then have "rows_by_key ns_key (rows t1) = (rows_by_key ns_key (rows t))(k \<mapsto> ?f x)"
        unfolding t1(1) by (intro rows_by_key_update) (simp_all add: ns_key_def)
      ultimately show ?thesis by (simp add: fun_eq_iff)
    qed
  qed
qed

theorem SetNotificationSeq_stores_witness:
  "map_option ns_Seq \<circ> rows_by_key ns_key (ft_rows (snd (SetNotificationSeq (list_gorm ns_key) ''n_a'' 7 (ftab []))))
     = Map.empty(''n_a'' \<mapsto> 7)"
  using SetNotificationSeq_stores [of "list_gorm ns_key" ft_rows "''n_a''" 7 "ftab []" None
      "snd (SetNotificationSeq (list_gorm ns_key) ''n_a'' 7 (ftab []))", OF lg.gorm_table_axioms]
  by (simp add: SetNotificationSeq_def list_gorm_def next_fault_def ftab_def wrap_act_def rows_by_key_def fun_eq_iff)

section \<open>Conversations\<close>

definition cv_key :: "LocalConversation \<Rightarrow> string" where
  "cv_key r = cv_ConversationID r"

lemma cv_pred: "(\<lambda>r. cv_ConversationID r = k) = (\<lambda>r. cv_key r = k)"
  by (simp add: cv_key_def)

text \<open>
  \<^verbatim>\<open>DecrConversationUnreadCount\<close> never leaves a negative count behind when it reports success:
  the conversation's unread count is lowered by \<open>count\<close>, but not below 0, and no other
  conversation changes.
\<close>
theorem DecrConversationUnreadCount_bounded:
  assumes "gorm_table G rows cv_key" and "k \<noteq> []" and "distinct (map cv_key (rows t))"
    and "rows_by_key cv_key (rows t) k = Some c"
    and "DecrConversationUnreadCount G rollback k cnt t = (None, t')"
  shows "rows_by_key cv_key (rows t') =
    (rows_by_key cv_key (rows t))(k \<mapsto> c\<lparr>cv_UnreadCount := max 0 (cv_UnreadCount c - cnt)\<rparr>)"
proof -
  let ?dec = "\<lambda>r. r\<lparr>cv_UnreadCount := cv_UnreadCount r - cnt\<rparr>"
  let ?zero = "\<lambda>r. r\<lparr>cv_UnreadCount := 0\<rparr>"
  note updates = gorm_table.updates_ok [OF assms(1)]
  have upd: "updates_conv G k f s = gorm_updates G (\<lambda>r. cv_key r = k) f s" for f s
    using assms(2) by (simp add: updates_conv_def gorm_updates_pk_def cv_pred)
  obtain n t1 c1 t2 where u: "gorm_updates G (\<lambda>r. cv_key r = k) ?dec t = ((None, n), t1)"
    and g: "gorm_take G (\<lambda>r. cv_key r = k) t1 = (Inr c1, t2)"
    and rest: "(if cv_UnreadCount c1 < 0
                then case updates_conv G k ?zero t2 of
                       ((Some e, n), t3) \<Rightarrow> (wrap_err (Some (GoError ''RowsAffected == 0'')) ''no update'', rollback t t3)
                     | ((None, n), t3) \<Rightarrow> (None, t3)
                else (None, t2)) = (None, t')"
    using assms(5) upd
    by (auto simp: DecrConversationUnreadCount_def cv_pred wrap_err_def split: prod.splits option.splits sum.splits if_splits)
  have t1: "rows t1 = map (\<lambda>r. if cv_key r = k then ?dec r else r) (rows t)" using updates [OF u] by blast
  have rk1: "rows_by_key cv_key (rows t1) = (rows_by_key cv_key (rows t))(k \<mapsto> ?dec c)"
    unfolding t1 by (rule rows_by_key_update) (simp_all add: cv_key_def assms(4))
  have t2: "rows t2 = rows t1" by (rule gorm_table.take_rows [OF assms(1) g])
  have "c1 \<in> set (rows t1)" "cv_key c1 = k" using gorm_table.take_in [OF assms(1) g] by simp_all
  moreover have "map cv_key (rows t1) = map cv_key (rows t)" by (simp add: t1 cv_key_def)
  then have "distinct (map cv_key (rows t1))" using assms(3) by simp
  ultimately have "rows_by_key cv_key (rows t1) k = Some c1"
    using find_unique [of cv_key "rows t1" c1] by (simp add: rows_by_key_def)
  with rk1 have c1: "c1 = ?dec c" by simp
  show ?thesis
  proof (cases "cv_UnreadCount c1 < 0")
    case False
    with rest have "t' = t2" by simp
    with rk1 t2 False c1 show ?thesis by simp
  next
    case True
    with rest upd obtain n2 where u2: "gorm_updates G (\<lambda>r. cv_key r = k) ?zero t2 = ((None, n2), t')"
      by (auto split: prod.splits option.splits simp: wrap_err_def)
    have "rows t' = map (\<lambda>r. if cv_key r = k then ?zero r else r) (rows t2)" using updates [OF u2] by blast
    then have "rows_by_key cv_key (rows t') = (rows_by_key cv_key (rows t2))(k \<mapsto> ?zero (?dec c))"
      by (simp only:) (rule rows_by_key_update, simp_all add: cv_key_def t2 rk1)
    with t2 rk1 c1 True show ?thesis by simp
  qed
qed

theorem DecrConversationUnreadCount_bounded_witness:
  "rows_by_key cv_key (ft_rows (snd (DecrConversationUnreadCount (list_gorm cv_key) (\<lambda>old new. old) ''c'' 5
       (ftab [sample_conv ''c'' 3])))) ''c'' = Some (sample_conv ''c'' 0)"
  using DecrConversationUnreadCount_bounded [of "list_gorm cv_key" ft_rows "''c''" "ftab [sample_conv ''c'' 3]"
      "sample_conv ''c'' 3" "\<lambda>old new. old" 5
      "snd (DecrConversationUnreadCount (list_gorm cv_key) (\<lambda>old new. old) ''c'' 5 (ftab [sample_conv ''c'' 3]))",
      OF lg.gorm_table_axioms]
  by (simp add: DecrConversationUnreadCount_def updates_conv_def gorm_updates_pk_def list_gorm_def next_fault_def
      ftab_def sample_conv_def rows_by_key_def cv_key_def)

text \<open>
  \<^verbatim>\<open>UpdateAllConversation\<close> cannot succeed: with a conversation identifier it refuses, and
  without one the statement has no condition, which gorm refuses; the table is never changed.
\<close>
theorem UpdateAllConversation_fails:
  "\<exists>e. UpdateAllConversation G conversation t = (Some e, t)"
  by (simp add: UpdateAllConversation_def updates_conv_def gorm_updates_pk_def update_result_def wrap_err_def)

section \<open>Uploads\<close>

definition up_key :: "LocalUpload \<Rightarrow> string" where
  "up_key r = up_PartHash r"

lemma delete_uploads_rows:
  assumes "gorm_table G rows up_key"
  shows "delete_uploads G us t = (None, t') \<Longrightarrow>
    rows t' = filter (\<lambda>r. up_key r \<notin> up_key ` set us) (rows t)"
proof (induction us arbitrary: t)
  case Nil
  then show ?case by simp
next
  case (Cons u us)
  obtain t1 where d: "DeleteUpload G (up_PartHash u) t = (None, t1)" and r: "delete_uploads G us t1 = (None, t')"
    using Cons.prems by (auto simp: and_then_None)
  have "rows t1 = filter (\<lambda>r. \<not> up_key r = up_key u) (rows t)"
    using d gorm_table.delete_ok [OF assms, of "\<lambda>r. up_key r = up_key u" t t1]
    by (auto simp: DeleteUpload_def wrap_act_def up_key_def split: prod.splits)
  with Cons.IH [OF r] show ?case by (simp add: conj_commute)
qed

text \<open>
  When \<^verbatim>\<open>DeleteExpireUpload\<close> reports no error, exactly the uploads that have not expired
  are left, in their order.
\<close>
theorem DeleteExpireUpload_keeps_live:
  assumes "gorm_table G rows up_key" and "distinct (map up_key (rows t))"
    and "DeleteExpireUpload G now t = (None, t')"
  shows "rows t' = filter (\<lambda>r. up_ExpireTime r > now) (rows t)"
proof -
  obtain us t1 where f: "gorm_find G (\<lambda>r. up_ExpireTime r \<le> now) t = (Inr us, t1)" and d: "delete_uploads G us t1 = (None, t')"
    using assms(3) by (auto simp: DeleteExpireUpload_def split: prod.splits sum.splits)
  have set_us: "set us = {r \<in> set (rows t). up_ExpireTime r \<le> now}" by (rule gorm_table.find_set [OF assms(1) f])
  have live: "up_key r \<in> up_key ` set us \<longleftrightarrow> up_ExpireTime r \<le> now" if "r \<in> set (rows t)" for r
    using that set_us assms(2) by (auto simp: distinct_map dest: inj_onD)
  have "filter (\<lambda>r. up_key r \<notin> up_key ` set us) (rows t) = filter (\<lambda>r. up_ExpireTime r > now) (rows t)"
    by (rule filter_cong) (simp_all add: live not_le)
  with delete_uploads_rows [OF assms(1) d] gorm_table.find_rows [OF assms(1) f] show ?thesis by simp
qed

theorem DeleteExpireUpload_keeps_live_witness:
  "let u = (\<lambda>h e. \<lparr>up_PartHash = h, up_UploadID = h, up_UploadInfo = [], up_ExpireTime = e, up_CreateTime = 0\<rparr>)
   in ft_rows (snd (DeleteExpireUpload (list_gorm up_key) 10 (ftab [u ''a'' 5, u ''b'' 15]))) = [u ''b'' 15]"
  using DeleteExpireUpload_keeps_live [of "list_gorm up_key" ft_rows
      "ftab [\<lparr>up_PartHash = ''a'', up_UploadID = ''a'', up_UploadInfo = [], up_ExpireTime = 5, up_CreateTime = 0\<rparr>,
             \<lparr>up_PartHash = ''b'', up_UploadID = ''b'', up_UploadInfo = [], up_ExpireTime = 15, up_CreateTime = 0\<rparr>]" 10
      "snd (DeleteExpireUpload (list_gorm up_key) 10 (ftab
            [\<lparr>up_PartHash = ''a'', up_UploadID = ''a'', up_UploadInfo = [], up_ExpireTime = 5, up_CreateTime = 0\<rparr>,
             \<lparr>up_PartHash = ''b'', up_UploadID = ''b'', up_UploadInfo = [], up_ExpireTime = 15, up_CreateTime = 0\<rparr>]))",
      OF lg.gorm_table_axioms]
  by (simp add: DeleteExpireUpload_def DeleteUpload_def list_gorm_def next_fault_def ftab_def up_key_def
      and_then_def wrap_act_def)

end
