(* ===== verification/UserGroupDb.thy ===== *)
theory UserGroupDb
  imports ConvDb
begin

text \<open>
  The tables of the users and groups: \<^verbatim>\<open>pkg/db/user_model.go\<close>, \<^verbatim>\<open>group_model.go\<close>,
  \<^verbatim>\<open>group_member_model.go\<close>, \<^verbatim>\<open>group_request_model.go\<close>, \<^verbatim>\<open>admin_group_request_model.go\<close>,
  \<^verbatim>\<open>sending_messages_model.go\<close> and \<^verbatim>\<open>stranger_model.go\<close>. The keyword searches, which build SQL
  text, and the functions whose result depends on the order in which Go evaluates a returned
  variable and the call that fills it are not modelled.
\<close>

definition gorm_delete_pk :: "('r, 't) gorm \<Rightarrow> ('r \<Rightarrow> string) \<Rightarrow> string \<Rightarrow> 't action" where
  "gorm_delete_pk G col v t =
     (if v = [] then (Some missing_where, t) else gorm_delete G (\<lambda>r. col r = v) t)"

section \<open>The login user\<close>

definition GetLoginUser :: "(LocalUser, 't) gorm \<Rightarrow> string \<Rightarrow> 't \<Rightarrow> (go_error + LocalUser) \<times> 't" where
  "GetLoginUser G userID t = wrap_res ''GetLoginUserInfo failed'' (gorm_take G (\<lambda>r. us_UserID r = userID) t)"

definition UpdateLoginUser :: "(LocalUser, 't) gorm \<Rightarrow> LocalUser \<Rightarrow> 't action" where
  "UpdateLoginUser G user t =
     update_result ''UpdateLoginUser failed'' (gorm_updates_pk G us_UserID (us_UserID user) (\<lambda>_. user) t)"

text \<open>The columns of \<^verbatim>\<open>args\<close> are given as the update they make of a row.\<close>

definition UpdateLoginUserByMap :: "(LocalUser, 't) gorm \<Rightarrow> LocalUser \<Rightarrow> (LocalUser \<Rightarrow> LocalUser) \<Rightarrow> 't action" where
  "UpdateLoginUserByMap G user args t =
     update_result ''UpdateColumnsConversation failed'' (gorm_updates_pk G us_UserID (us_UserID user) args t)"

definition InsertLoginUser :: "(LocalUser, 't) gorm \<Rightarrow> LocalUser \<Rightarrow> 't action" where
  "InsertLoginUser G user t = wrap_act ''InsertLoginUser failed'' (gorm_create G [user] t)"

section \<open>Groups\<close>

definition InsertGroup :: "(LocalGroup, 't) gorm \<Rightarrow> LocalGroup \<Rightarrow> 't action" where
  "InsertGroup G groupInfo t = wrap_act ''InsertGroup failed'' (gorm_create G [groupInfo] t)"

definition DeleteGroup :: "(LocalGroup, 't) gorm \<Rightarrow> string \<Rightarrow> 't action" where
  "DeleteGroup G groupID t = wrap_act ''DeleteGroup failed'' (gorm_delete_pk G gr_GroupID groupID t)"

definition UpdateGroup :: "(LocalGroup, 't) gorm \<Rightarrow> LocalGroup \<Rightarrow> 't action" where
  "UpdateGroup G groupInfo t =
     update_result [] (gorm_updates_pk G gr_GroupID (gr_GroupID groupInfo) (\<lambda>_. groupInfo) t)"

definition GetJoinedGroupListDB :: "(LocalGroup, 't) gorm \<Rightarrow> 't \<Rightarrow> (go_error + LocalGroup list) \<times> 't" where
  "GetJoinedGroupListDB G t = wrap_res ''GetJoinedGroupList failed '' (gorm_find G (\<lambda>r. True) t)"

definition GetGroups :: "(LocalGroup, 't) gorm \<Rightarrow> string list \<Rightarrow> 't \<Rightarrow> (go_error + LocalGroup list) \<times> 't" where
  "GetGroups G groupIDs t = wrap_res ''GetGroups failed '' (gorm_find G (\<lambda>r. gr_GroupID r \<in> set groupIDs) t)"

definition GetGroupInfoByGroupID :: "(LocalGroup, 't) gorm \<Rightarrow> string \<Rightarrow> 't \<Rightarrow> (go_error + LocalGroup) \<times> 't" where
  "GetGroupInfoByGroupID G groupID t =
     wrap_res ''GetGroupList failed'' (gorm_take G (\<lambda>r. gr_GroupID r = groupID) t)"

definition AddMemberCount :: "(LocalGroup, 't) gorm \<Rightarrow> string \<Rightarrow> 't action" where
  "AddMemberCount G groupID t = wrap_act [] (stmt_err (gorm_updates_pk G gr_GroupID groupID
     (\<lambda>r. r\<lparr>gr_MemberCount := gr_MemberCount r + 1\<rparr>) t))"

definition SubtractMemberCount :: "(LocalGroup, 't) gorm \<Rightarrow> string \<Rightarrow> 't action" where
  "SubtractMemberCount G groupID t = wrap_act [] (stmt_err (gorm_updates_pk G gr_GroupID groupID
     (\<lambda>r. r\<lparr>gr_MemberCount := gr_MemberCount r - 1\<rparr>) t))"

section \<open>Group members\<close>

definition GroupOwner :: int where "GroupOwner = 100"
definition GroupAdmin :: int where "GroupAdmin = 60"
definition GroupOrdinaryUsers :: int where "GroupOrdinaryUsers = 20"
definition GroupFilterAll :: int where "GroupFilterAll = 0"
definition GroupFilterOwner :: int where "GroupFilterOwner = 1"
definition GroupFilterAdmin :: int where "GroupFilterAdmin = 2"
definition GroupFilterOrdinaryUsers :: int where "GroupFilterOrdinaryUsers = 3"
definition GroupFilterAdminAndOrdinaryUsers :: int where "GroupFilterAdminAndOrdinaryUsers = 4"
definition GroupFilterOwnerAndAdmin :: int where "GroupFilterOwnerAndAdmin = 5"

type_synonym 't member_db = "(LocalGroupMember, 't) gorm"

definition GetGroupMemberInfoByGroupIDUserID :: "'t member_db \<Rightarrow> string \<Rightarrow> string \<Rightarrow> 't \<Rightarrow> (go_error + LocalGroupMember) \<times> 't" where
  "GetGroupMemberInfoByGroupIDUserID G groupID userID t =
     wrap_res ''GetGroupMemberInfoByGroupIDUserID failed''
       (gorm_take G (\<lambda>r. gm_GroupID r = groupID \<and> gm_UserID r = userID) t)"

definition GetGroupMemberCount :: "'t member_db \<Rightarrow> string \<Rightarrow> 't \<Rightarrow> (go_error + int) \<times> 't" where
  "GetGroupMemberCount G groupID t =
     (case wrap_res ''GetGroupMemberCount failed'' (gorm_find G (\<lambda>r. gm_GroupID r = groupID) t) of
        (Inl e, t') \<Rightarrow> (Inl e, t') | (Inr rs, t') \<Rightarrow> (Inr (i32 (int (length rs))), t'))"

definition GetGroupSomeMemberInfo :: "'t member_db \<Rightarrow> string \<Rightarrow> string list \<Rightarrow> 't \<Rightarrow> (go_error + LocalGroupMember list) \<times> 't" where
  "GetGroupSomeMemberInfo G groupID userIDList t =
     wrap_res ''GetGroupMemberListByGroupID failed ''
       (gorm_find G (\<lambda>r. gm_GroupID r = groupID \<and> gm_UserID r \<in> set userIDList) t)"

definition GetGroupMemberListByGroupID :: "'t member_db \<Rightarrow> string \<Rightarrow> 't \<Rightarrow> (go_error + LocalGroupMember list) \<times> 't" where
  "GetGroupMemberListByGroupID G groupID t =
     wrap_res ''GetGroupMemberListByGroupID failed '' (gorm_find G (\<lambda>r. gm_GroupID r = groupID) t)"

definition by_role_then_time :: "LocalGroupMember \<Rightarrow> int \<times> int" where
  "by_role_then_time r = (- gm_RoleLevel r, gm_JoinTime r)"

definition GetGroupMemberListSplit ::
  "'t member_db \<Rightarrow> string \<Rightarrow> int \<Rightarrow> nat \<Rightarrow> int \<Rightarrow> 't \<Rightarrow> (go_error + LocalGroupMember list) \<times> 't" where
  "GetGroupMemberListSplit G groupID flt offset cnt t =
     (let page = (\<lambda>p key. wrap_res ''GetGroupMemberListSplit failed ''
                    (ordered_find G (\<lambda>r. gm_GroupID r = groupID \<and> p (gm_RoleLevel r)) key offset cnt t));
          byTime = (\<lambda>r. (0, gm_JoinTime r))
      in if flt = GroupFilterAll then page (\<lambda>role. True) by_role_then_time
         else if flt = GroupFilterOwner then page (\<lambda>role. role = GroupOwner) (\<lambda>r. (0, 0))
         else if flt = GroupFilterAdmin then page (\<lambda>role. role = GroupAdmin) byTime
         else if flt = GroupFilterOrdinaryUsers then page (\<lambda>role. role = GroupOrdinaryUsers) byTime
         else if flt = GroupFilterAdminAndOrdinaryUsers
              then page (\<lambda>role. role = GroupAdmin \<or> role = GroupOrdinaryUsers) by_role_then_time
         else if flt = GroupFilterOwnerAndAdmin
              then page (\<lambda>role. role = GroupOwner \<or> role = GroupAdmin) by_role_then_time
         else (Inl (GoError ''filter args failed''), t))"

definition GetGroupMemberOwnerAndAdminDB :: "'t member_db \<Rightarrow> string \<Rightarrow> 't \<Rightarrow> (go_error + LocalGroupMember list) \<times> 't" where
  "GetGroupMemberOwnerAndAdminDB G groupID t =
     wrap_res ''GetGroupMemberListSplit failed '' (ordered_find G
       (\<lambda>r. gm_GroupID r = groupID \<and> (gm_RoleLevel r = GroupOwner \<or> gm_RoleLevel r = GroupAdmin))
       (\<lambda>r. - gm_JoinTime r) 0 0 t)"

definition zero_member :: LocalGroupMember where
  "zero_member = \<lparr>gm_GroupID = [], gm_UserID = [], gm_Nickname = [], gm_FaceURL = [], gm_RoleLevel = 0,
     gm_JoinTime = 0, gm_JoinSource = 0, gm_InviterUserID = [], gm_MuteEndTime = 0, gm_OperatorUserID = [],
     gm_Ex = [], gm_AttachedInfo = []\<rparr>"

text \<open>\<^verbatim>\<open>Find\<close> into a struct reads one row and leaves the zero value, without an error, when there is none.\<close>

definition GetGroupMemberOwner :: "'t member_db \<Rightarrow> string \<Rightarrow> 't \<Rightarrow> (go_error + LocalGroupMember) \<times> 't" where
  "GetGroupMemberOwner G groupID t =
     (case wrap_res ''GetGroupMemberListSplit failed ''
             (gorm_find G (\<lambda>r. gm_GroupID r = groupID \<and> gm_RoleLevel r = GroupOwner) t) of
        (Inl e, t') \<Rightarrow> (Inl e, t')
      | (Inr [], t') \<Rightarrow> (Inr zero_member, t')
      | (Inr (r # rs), t') \<Rightarrow> (Inr r, t'))"

definition GetGroupMemberListSplitByJoinTimeFilter ::
  "'t member_db \<Rightarrow> string \<Rightarrow> nat \<Rightarrow> int \<Rightarrow> int \<Rightarrow> int \<Rightarrow> string list \<Rightarrow> 't \<Rightarrow> (go_error + LocalGroupMember list) \<times> 't" where
  "GetGroupMemberListSplitByJoinTimeFilter G groupID offset cnt joinTimeBegin joinTimeEnd userIDList t =
     wrap_res ''GetGroupMemberListSplitByJoinTimeFilter failed '' (ordered_find G
       (\<lambda>r. gm_GroupID r = groupID \<and> joinTimeBegin \<le> gm_JoinTime r \<and> gm_JoinTime r \<le> joinTimeEnd \<and>
            (userIDList = [] \<or> gm_UserID r \<notin> set userIDList))
       (\<lambda>r. - gm_JoinTime r) offset cnt t)"

definition GetGroupOwnerAndAdminByGroupID :: "'t member_db \<Rightarrow> string \<Rightarrow> 't \<Rightarrow> (go_error + LocalGroupMember list) \<times> 't" where
  "GetGroupOwnerAndAdminByGroupID G groupID t =
     wrap_res ''GetGroupMemberListByGroupID failed '' (gorm_find G
       (\<lambda>r. gm_GroupID r = groupID \<and> (gm_RoleLevel r = GroupOwner \<or> gm_RoleLevel r = GroupAdmin)) t)"

definition GetGroupMemberUIDListByGroupID :: "'t member_db \<Rightarrow> string \<Rightarrow> 't \<Rightarrow> (go_error + string list) \<times> 't" where
  "GetGroupMemberUIDListByGroupID G groupID t =
     (case wrap_res ''GetGroupMemberListByGroupID failed '' (gorm_find G (\<lambda>r. gm_GroupID r = groupID) t) of
        (Inl e, t') \<Rightarrow> (Inl e, t') | (Inr rs, t') \<Rightarrow> (Inr (map gm_UserID rs), t'))"

definition InsertGroupMember :: "'t member_db \<Rightarrow> LocalGroupMember \<Rightarrow> 't action" where
  "InsertGroupMember G groupMember t = wrap_act [] (gorm_create G [groupMember] t)"

text \<open>A nil list is refused; an empty one that is not nil is refused by gorm, with another text.\<close>

definition BatchInsertGroupMember :: "'t member_db \<Rightarrow> LocalGroupMember list \<Rightarrow> 't action" where
  "BatchInsertGroupMember G groupMemberList t =
     (if groupMemberList = [] then (Some (GoError ''nil''), t)
      else wrap_act ''BatchInsertMessageList failed'' (gorm_create G groupMemberList t))"

definition DeleteGroupMember :: "'t member_db \<Rightarrow> string \<Rightarrow> string \<Rightarrow> 't action" where
  "DeleteGroupMember G groupID userID t = gorm_delete G (\<lambda>r. gm_GroupID r = groupID \<and> gm_UserID r = userID) t"

definition DeleteGroupAllMembers :: "'t member_db \<Rightarrow> string \<Rightarrow> 't action" where
  "DeleteGroupAllMembers G groupID t = gorm_delete G (\<lambda>r. gm_GroupID r = groupID) t"

definition UpdateGroupMember :: "'t member_db \<Rightarrow> LocalGroupMember \<Rightarrow> 't action" where
  "UpdateGroupMember G m t = update_result []
     (gorm_updates_pk2 G gm_GroupID (gm_GroupID m) gm_UserID (gm_UserID m) (\<lambda>_. m) t)"

definition UpdateGroupMemberField ::
  "'t member_db \<Rightarrow> string \<Rightarrow> string \<Rightarrow> (LocalGroupMember \<Rightarrow> LocalGroupMember) \<Rightarrow> 't action" where
  "UpdateGroupMemberField G groupID userID args t = update_result ''UpdateGroupMemberField failed''
     (gorm_updates_pk2 G gm_GroupID groupID gm_UserID userID args t)"

fun owners_and_admins :: "'t member_db \<Rightarrow> LocalGroup list \<Rightarrow> LocalGroupMember list \<Rightarrow> 't \<Rightarrow> (go_error + LocalGroupMember list) \<times> 't" where
  "owners_and_admins G [] ownerAndAdminList t = (Inr ownerAndAdminList, t)"
| "owners_and_admins G (v # vs) ownerAndAdminList t =
     (case GetGroupOwnerAndAdminByGroupID G (gr_GroupID v) t of
        (Inl e, t') \<Rightarrow> (Inl (Wrapped e []), t')
      | (Inr memberList, t') \<Rightarrow> owners_and_admins G vs (ownerAndAdminList @ memberList) t')"

definition GetGroupMemberInfoIfOwnerOrAdmin ::
  "(LocalGroup, 't) gorm \<Rightarrow> 't member_db \<Rightarrow> 't \<Rightarrow> (go_error + LocalGroupMember list) \<times> 't" where
  "GetGroupMemberInfoIfOwnerOrAdmin GG GM t =
     (case GetJoinedGroupListDB GG t of
        (Inl e, t') \<Rightarrow> (Inl (Wrapped e []), t')
      | (Inr groupList, t') \<Rightarrow> owners_and_admins GM groupList [] t')"

text \<open>\<^verbatim>\<open>SELECT DISTINCT\<close>: one of each, in an order the statement does not fix.\<close>

definition GetGroupMemberAllGroupIDs :: "'t member_db \<Rightarrow> 't \<Rightarrow> (go_error + string list) \<times> 't" where
  "GetGroupMemberAllGroupIDs G t =
     (case gorm_find G (\<lambda>r. True) t of
        (Inl e, t') \<Rightarrow> (Inl e, t') | (Inr rs, t') \<Rightarrow> (Inr (remdups (map gm_GroupID rs)), t'))"

section \<open>Group requests\<close>

definition InsertGroupRequest :: "(LocalGroupRequest, 't) gorm \<Rightarrow> LocalGroupRequest \<Rightarrow> 't action" where
  "InsertGroupRequest G r t = wrap_act ''InsertGroupRequest failed'' (gorm_create G [r] t)"

definition DeleteGroupRequest :: "(LocalGroupRequest, 't) gorm \<Rightarrow> string \<Rightarrow> string \<Rightarrow> 't action" where
  "DeleteGroupRequest G groupID userID t = wrap_act ''DeleteGroupRequest failed''
     (gorm_delete G (\<lambda>r. grq_GroupID r = groupID \<and> grq_UserID r = userID) t)"

definition UpdateGroupRequest :: "(LocalGroupRequest, 't) gorm \<Rightarrow> LocalGroupRequest \<Rightarrow> 't action" where
  "UpdateGroupRequest G r t = update_result []
     (gorm_updates_pk2 G grq_GroupID (grq_GroupID r) grq_UserID (grq_UserID r) (\<lambda>_. r) t)"

definition GetSendGroupApplication :: "(LocalGroupRequest, 't) gorm \<Rightarrow> 't \<Rightarrow> (go_error + LocalGroupRequest list) \<times> 't" where
  "GetSendGroupApplication G t =
     wrap_res [] (wrap_res [] (ordered_find G (\<lambda>r. True) (\<lambda>r. - grq_CreateTime r) 0 0 t))"

type_synonym LocalAdminGroupRequest = LocalGroupRequest

definition InsertAdminGroupRequest :: "(LocalAdminGroupRequest, 't) gorm \<Rightarrow> LocalAdminGroupRequest \<Rightarrow> 't action" where
  "InsertAdminGroupRequest G r t = wrap_act ''InsertAdminGroupRequest failed'' (gorm_create G [r] t)"

definition DeleteAdminGroupRequest :: "(LocalAdminGroupRequest, 't) gorm \<Rightarrow> string \<Rightarrow> string \<Rightarrow> 't action" where
  "DeleteAdminGroupRequest G groupID userID t = wrap_act ''DeleteAdminGroupRequest failed''
     (gorm_delete G (\<lambda>r. grq_GroupID r = groupID \<and> grq_UserID r = userID) t)"

definition UpdateAdminGroupRequest :: "(LocalAdminGroupRequest, 't) gorm \<Rightarrow> LocalAdminGroupRequest \<Rightarrow> 't action" where
  "UpdateAdminGroupRequest G r t = update_result []
     (gorm_updates_pk2 G grq_GroupID (grq_GroupID r) grq_UserID (grq_UserID r) (\<lambda>_. r) t)"

definition GetAdminGroupApplication :: "(LocalAdminGroupRequest, 't) gorm \<Rightarrow> 't \<Rightarrow> (go_error + LocalAdminGroupRequest list) \<times> 't" where
  "GetAdminGroupApplication G t =
     wrap_res [] (wrap_res [] (ordered_find G (\<lambda>r. True) (\<lambda>r. - grq_CreateTime r) 0 0 t))"

section \<open>Messages being sent\<close>

definition InsertSendingMessage :: "(LocalSendingMessages, 't) gorm \<Rightarrow> LocalSendingMessages \<Rightarrow> 't action" where
  "InsertSendingMessage G m t = wrap_act ''InsertSendingMessage failed'' (gorm_create G [m] t)"

definition DeleteSendingMessage :: "(LocalSendingMessages, 't) gorm \<Rightarrow> string \<Rightarrow> string \<Rightarrow> 't action" where
  "DeleteSendingMessage G conversationID clientMsgID t = wrap_act ''DeleteSendingMessage failed''
     (if conversationID = [] \<and> clientMsgID = [] then (Some missing_where, t)
      else gorm_delete G (\<lambda>r. (conversationID = [] \<or> sm_ConversationID r = conversationID) \<and>
                               (clientMsgID = [] \<or> sm_ClientMsgID r = clientMsgID)) t)"

definition GetAllSendingMessages :: "(LocalSendingMessages, 't) gorm \<Rightarrow> 't \<Rightarrow> (go_error + LocalSendingMessages list) \<times> 't" where
  "GetAllSendingMessages G t =
     wrap_res ''GetAllSendingMessages failed'' (wrap_res ''GetAllSendingMessages failed'' (gorm_find G (\<lambda>r. True) t))"

section \<open>Strangers\<close>

definition GetStrangerInfo :: "(LocalStranger, 't) gorm \<Rightarrow> string list \<Rightarrow> 't \<Rightarrow> (go_error + LocalStranger list) \<times> 't" where
  "GetStrangerInfo G userIDs t =
     wrap_res ''GetFriendInfoListByFriendUserID failed'' (gorm_find G (\<lambda>r. st_UserID r \<in> set userIDs) t)"

text \<open>
  \<^verbatim>\<open>First(&existingData)\<close> overwrites the new data with the stored row; \<^verbatim>\<open>Save\<close> writes every column
  back by primary key. The error of a missing row is told by \<open>not_found\<close>, which stands for
  \<^verbatim>\<open>errors.Is(err, gorm.ErrRecordNotFound)\<close>.
\<close>

fun SetStrangerInfo :: "(LocalStranger, 't) gorm \<Rightarrow> (go_error \<Rightarrow> bool) \<Rightarrow> LocalStranger list \<Rightarrow> 't action" where
  "SetStrangerInfo G not_found [] t = (None, t)"
| "SetStrangerInfo G not_found (existingData # rest) t =
     (case gorm_take G (\<lambda>r. st_UserID r = st_UserID existingData) t of
        (Inl e, t1) \<Rightarrow> (if not_found e then gorm_create G [existingData] t1 else (Some e, t1))
      | (Inr stored, t1) \<Rightarrow>
          and_then (\<lambda>t. stmt_err (gorm_updates G (\<lambda>r. st_UserID r = st_UserID stored) (\<lambda>_. stored) t))
            (SetStrangerInfo G not_found rest) t1)"

end
