(* ===== verification/Slices.thy ===== *)
theory Slices
  imports Prelude
begin

text \<open>
  Go's slices of pointers, for the code whose result depends on which slices share a backing
  array. A slice is an array's number with a length and a capacity; \<open>append\<close> writes into the
  array while the capacity lasts and copies into a new array, of a capacity the language leaves
  to the run time (the parameter \<open>grow\<close>), when it does not. Elements are the addresses of objects.
\<close>

record slice =
  sl_arr :: nat
  sl_len :: nat
  sl_cap :: nat

type_synonym arrays = "nat list list"

definition nil_slice :: slice where
  "nil_slice = \<lparr>sl_arr = 0, sl_len = 0, sl_cap = 0\<rparr>"

definition elems :: "arrays \<Rightarrow> slice \<Rightarrow> nat list" where
  "elems as s = take (sl_len s) (as ! sl_arr s)"

definition append_slice :: "(nat \<Rightarrow> nat \<Rightarrow> nat) \<Rightarrow> slice \<Rightarrow> nat list \<Rightarrow> arrays \<Rightarrow> slice \<times> arrays" where
  "append_slice grow s xs as =
     (let n = sl_len s + length xs
      in if n \<le> sl_cap s
         then (s\<lparr>sl_len := n\<rparr>,
               if xs = [] then as
               else as[sl_arr s := take (sl_len s) (as ! sl_arr s) @ xs @ drop n (as ! sl_arr s)])
         else (\<lparr>sl_arr = length as, sl_len = n, sl_cap = grow (sl_cap s) n\<rparr>,
               as @ [elems as s @ xs @ replicate (grow (sl_cap s) n - n) 0]))"

text \<open>A slice that the arrays back: its capacity is the array's length; a nil slice has no array.\<close>

definition backed :: "arrays \<Rightarrow> slice \<Rightarrow> bool" where
  "backed as s \<longleftrightarrow> sl_len s \<le> sl_cap s \<and> (sl_cap s = 0 \<or> sl_arr s < length as \<and> length (as ! sl_arr s) = sl_cap s)"

definition grows :: "(nat \<Rightarrow> nat \<Rightarrow> nat) \<Rightarrow> bool" where
  "grows grow \<longleftrightarrow> (\<forall>c n. n \<le> grow c n)"

text \<open>The growth of the current run time for small slices: double, or what is needed.\<close>

definition doubling :: "nat \<Rightarrow> nat \<Rightarrow> nat" where
  "doubling c n = max (2 * c) n"

lemma grows_doubling [simp]: "grows doubling"
  by (simp add: grows_def doubling_def)

lemma backed_nil [simp]: "backed as nil_slice"
  by (simp add: backed_def nil_slice_def)

lemma elems_nil [simp]: "elems as nil_slice = []"
  by (simp add: elems_def nil_slice_def)

text \<open>\<open>append\<close> returns the elements followed by the new ones, and its slice is backed again.\<close>

lemma append_slice_elems:
  assumes "grows grow" and "backed as s" and "append_slice grow s xs as = (s', as')"
  shows "elems as' s' = elems as s @ xs" and "backed as' s'" and "length as \<le> length as'"
proof -
  let ?n = "sl_len s + length xs"
  have g: "?n \<le> grow (sl_cap s) ?n" using assms(1) by (simp add: grows_def)
  have "elems as' s' = elems as s @ xs \<and> backed as' s' \<and> length as \<le> length as'"
  proof (cases "?n \<le> sl_cap s")
    case True
    show ?thesis
    proof (cases "xs = []")
      case True
      with assms \<open>?n \<le> sl_cap s\<close> show ?thesis by (auto simp: append_slice_def Let_def elems_def backed_def)
    next
      case False
      with True have pos: "0 < sl_cap s" by (cases xs) auto
      with assms True False show ?thesis
        by (auto simp: append_slice_def Let_def elems_def backed_def)
    qed
  next
    case False
    have len: "length (elems as s) = sl_len s"
      using assms(2) by (cases "sl_cap s = 0") (auto simp: elems_def backed_def)
    with assms False g show ?thesis
      by (auto simp: append_slice_def Let_def elems_def backed_def nth_append)
  qed
  then show "elems as' s' = elems as s @ xs" "backed as' s'" "length as \<le> length as'" by simp_all
qed

text \<open>An append to one slice leaves the elements of the slices of other arrays alone.\<close>

lemma append_slice_other:
  assumes "append_slice grow s xs as = (s', as')" and "backed as u" and "sl_cap s = 0 \<or> sl_arr u \<noteq> sl_arr s"
  shows "elems as' u = elems as u"
proof (cases "sl_cap u = 0")
  case True
  with assms(2) show ?thesis by (simp add: backed_def elems_def)
next
  case False
  with assms show ?thesis
    by (auto simp: append_slice_def Let_def elems_def backed_def nth_append split: if_splits)
qed

text \<open>What an append may write lies behind the elements, so the slice itself still reads the same.\<close>

lemma append_slice_same:
  assumes "append_slice grow s xs as = (s', as')" and "backed as s"
  shows "elems as' s = elems as s"
proof (cases "sl_cap s = 0")
  case True
  with assms(2) show ?thesis by (simp add: backed_def elems_def)
next
  case False
  with assms show ?thesis
    by (auto simp: append_slice_def Let_def elems_def backed_def nth_append split: if_splits)
qed

lemma append_slice_backed:
  assumes "append_slice grow s xs as = (s', as')" and "backed as u" and "backed as s"
  shows "backed as' u"
  using assms by (auto simp: append_slice_def Let_def backed_def nth_append nth_list_update split: if_splits)

text \<open>A new slice never shares the array of an old one, except that of the slice it extends.\<close>

lemma append_slice_arr:
  assumes "append_slice grow s xs as = (s', as')"
  shows "sl_arr s' = sl_arr s \<and> sl_cap s' = sl_cap s \<or> sl_arr s' = length as"
  using assms by (auto simp: append_slice_def Let_def split: if_splits)

end
