(* ===== verification/ConvState.thy ===== *)
theory ConvState
  imports Channel UserGroupDb Slices
begin

text \<open>
  What the operations of \<^verbatim>\<open>internal/conversation_msg\<close> share: the component's state (the database,
  the network, the command channel, the sequence recorder and the callbacks made so far), its
  environment, the conversions between the forms of a message (\<^verbatim>\<open>sdk.go\<close>,
  \<^verbatim>\<open>conversation_msg.go\<close>), \<^verbatim>\<open>max_seq_recorder.go\<close> and \<^verbatim>\<open>message_controller.go\<close>. The JSON codec is a
  record of parameters; \<^verbatim>\<open>copier.Copy\<close> copies the fields of equal name. \<^verbatim>\<open>string(bytes)\<close> and
  \<^verbatim>\<open>[]byte(string)\<close> are the identity.
\<close>

section \<open>The largest sequence number seen\<close>

type_synonym MaxSeqRecorder = "(string, int) gomap"

definition NewMaxSeqRecorder :: MaxSeqRecorder where
  "NewMaxSeqRecorder = []"

definition recorder_Get :: "MaxSeqRecorder \<Rightarrow> string \<Rightarrow> int" where
  "recorder_Get m conversationID = (case gget m conversationID of Some s \<Rightarrow> s | None \<Rightarrow> 0)"

definition recorder_Set :: "string \<Rightarrow> int \<Rightarrow> MaxSeqRecorder \<Rightarrow> MaxSeqRecorder" where
  "recorder_Set conversationID seq m = gput conversationID seq m"

definition recorder_Incr :: "string \<Rightarrow> int \<Rightarrow> MaxSeqRecorder \<Rightarrow> MaxSeqRecorder" where
  "recorder_Incr conversationID num m = gput conversationID (i64 (recorder_Get m conversationID + num)) m"

definition IsNewMsg :: "MaxSeqRecorder \<Rightarrow> string \<Rightarrow> int \<Rightarrow> bool" where
  "IsNewMsg m conversationID seq \<longleftrightarrow> seq > recorder_Get m conversationID"

section \<open>Content types and the codec\<close>

definition Text :: int where "Text = 101"
definition Picture :: int where "Picture = 102"
definition Sound :: int where "Sound = 103"
definition Video :: int where "Video = 104"
definition File :: int where "File = 105"
definition AtText :: int where "AtText = 106"
definition Merger :: int where "Merger = 107"
definition Card :: int where "Card = 108"
definition Location :: int where "Location = 109"
definition Custom :: int where "Custom = 110"
definition Typing :: int where "Typing = 113"
definition Quote :: int where "Quote = 114"
definition Face :: int where "Face = 115"
definition AdvancedText :: int where "AdvancedText = 117"
definition CustomMsgNotTriggerConversation :: int where "CustomMsgNotTriggerConversation = 119"
definition CustomMsgOnlineOnly :: int where "CustomMsgOnlineOnly = 120"

lemmas content_types = Text_def Picture_def Sound_def Video_def File_def AtText_def Merger_def Card_def
  Location_def Custom_def Typing_def Quote_def Face_def AdvancedText_def CustomMsgNotTriggerConversation_def CustomMsgOnlineOnly_def

text \<open>
  Decoding returns the error and what has been filled in so far; \<open>dec_Msg\<close> decodes into an existing
  structure, whose fields the text does not name keep their values. Encoding a nil pointer is encoding \<open>None\<close>.
\<close>

record 'q json_codec =
  dec_TextElem :: "string \<Rightarrow> go_error option \<times> TextElem"
  dec_CardElem :: "string \<Rightarrow> go_error option \<times> CardElem"
  dec_PictureElem :: "string \<Rightarrow> go_error option \<times> PictureElem"
  dec_SoundElem :: "string \<Rightarrow> go_error option \<times> SoundElem"
  dec_VideoElem :: "string \<Rightarrow> go_error option \<times> VideoElem"
  dec_FileElem :: "string \<Rightarrow> go_error option \<times> FileElem"
  dec_MergeElem :: "string \<Rightarrow> go_error option \<times> 'q MergeElem"
  dec_AtTextElem :: "string \<Rightarrow> go_error option \<times> 'q AtTextElem"
  dec_FaceElem :: "string \<Rightarrow> go_error option \<times> FaceElem"
  dec_LocationElem :: "string \<Rightarrow> go_error option \<times> LocationElem"
  dec_CustomElem :: "string \<Rightarrow> go_error option \<times> CustomElem"
  dec_QuoteElem :: "string \<Rightarrow> go_error option \<times> 'q QuoteElem"
  dec_NotificationElem :: "string \<Rightarrow> go_error option \<times> NotificationElem"
  dec_AdvancedTextElem :: "string \<Rightarrow> go_error option \<times> AdvancedTextElem"
  dec_TypingElem :: "string \<Rightarrow> go_error option \<times> TypingElem"
  dec_AttachedInfoElem :: "string \<Rightarrow> go_error option \<times> AttachedInfoElem"
  enc_TextElem :: "TextElem option \<Rightarrow> string"
  enc_CardElem :: "CardElem option \<Rightarrow> string"
  enc_PictureElem :: "PictureElem option \<Rightarrow> string"
  enc_SoundElem :: "SoundElem option \<Rightarrow> string"
  enc_VideoElem :: "VideoElem option \<Rightarrow> string"
  enc_FileElem :: "FileElem option \<Rightarrow> string"
  enc_MergeElem :: "'q MergeElem option \<Rightarrow> string"
  enc_AtTextElem :: "'q AtTextElem option \<Rightarrow> string"
  enc_FaceElem :: "FaceElem option \<Rightarrow> string"
  enc_LocationElem :: "LocationElem option \<Rightarrow> string"
  enc_CustomElem :: "CustomElem option \<Rightarrow> string"
  enc_QuoteElem :: "'q QuoteElem option \<Rightarrow> string"
  enc_NotificationElem :: "NotificationElem option \<Rightarrow> string"
  enc_AdvancedTextElem :: "AdvancedTextElem option \<Rightarrow> string"
  enc_TypingElem :: "TypingElem option \<Rightarrow> string"
  enc_AttachedInfoElem :: "AttachedInfoElem option \<Rightarrow> string"
  dec_Msg :: "string \<Rightarrow> 'q MsgStruct \<Rightarrow> go_error option \<times> 'q MsgStruct"
  enc_Msg :: "'q MsgStruct \<Rightarrow> string"
  enc_Msgs :: "'q MsgStruct list \<Rightarrow> string"
  enc_Conversations :: "LocalConversation list \<Rightarrow> string"

definition zero_msg :: "'q MsgStruct" where
  "zero_msg = \<lparr>ms_ClientMsgID = [], ms_ServerMsgID = [], ms_CreateTime = 0, ms_SendTime = 0,
     ms_SessionType = 0, ms_SendID = [], ms_RecvID = [], ms_MsgFrom = 0, ms_ContentType = 0,
     ms_SenderPlatformID = 0, ms_SenderNickname = [], ms_SenderFaceURL = [], ms_GroupID = [],
     ms_Content = [], ms_Seq = 0, ms_IsRead = False, ms_Status = 0, ms_IsReact = False,
     ms_IsExternalExtensions = False, ms_OfflinePush = None, ms_AttachedInfo = [], ms_Ex = [],
     ms_LocalEx = [], ms_TextElem = None, ms_CardElem = None, ms_PictureElem = None,
     ms_SoundElem = None, ms_VideoElem = None, ms_FileElem = None, ms_MergeElem = None,
     ms_AtTextElem = None, ms_FaceElem = None, ms_LocationElem = None, ms_CustomElem = None,
     ms_QuoteElem = None, ms_NotificationElem = None, ms_AdvancedTextElem = None,
     ms_TypingElem = None, ms_AttachedInfoElem = None\<rparr>"

definition zero_chat_log :: LocalChatLog where
  "zero_chat_log = \<lparr>cl_ClientMsgID = [], cl_ServerMsgID = [], cl_SendID = [], cl_RecvID = [],
     cl_SenderPlatformID = 0, cl_SenderNickname = [], cl_SenderFaceURL = [], cl_SessionType = 0,
     cl_MsgFrom = 0, cl_ContentType = 0, cl_Content = [], cl_IsRead = False, cl_Status = 0,
     cl_Seq = 0, cl_SendTime = 0, cl_CreateTime = 0, cl_AttachedInfo = [], cl_Ex = [],
     cl_LocalEx = [], cl_IsReact = False, cl_IsExternalExtensions = False, cl_MsgFirstModifyTime = 0\<rparr>"

definition zero_conversation :: LocalConversation where
  "zero_conversation = \<lparr>cv_ConversationID = [], cv_ConversationType = 0, cv_UserID = [], cv_GroupID = [],
     cv_ShowName = [], cv_FaceURL = [], cv_RecvMsgOpt = 0, cv_UnreadCount = 0, cv_GroupAtType = 0,
     cv_LatestMsg = [], cv_LatestMsgSendTime = 0, cv_DraftText = [], cv_DraftTextTime = 0,
     cv_IsPinned = False, cv_IsPrivateChat = False, cv_BurnDuration = 0, cv_IsNotInGroup = False,
     cv_UpdateUnreadCountTime = 0, cv_AttachedInfo = [], cv_Ex = [], cv_MaxSeq = 0, cv_MinSeq = 0,
     cv_HasReadSeq = 0, cv_MsgDestructTime = 0, cv_IsMsgDestruct = False\<rparr>"

section \<open>State and environment\<close>

datatype conv_event =
    OnNewConversation string
  | OnConversationChanged string
  | OnTotalUnreadMessageCountChanged int
  | OnRecvNewMessage string
  | OnRecvNewMessages string
  | OnRecvC2CReadReceipt string
  | OnRecvOfflineNewMessage string
  | OnRecvOnlineOnlyMessage string
  | OnNewRecvMessageRevoked string
  | OnMsgDeleted string
  | OnProgress int
  | OnSyncServerStart
  | OnSyncServerFailed
  | OnSyncServerFinish
  | OnRecvCustomBusinessMessage string

text \<open>\<^verbatim>\<open>user.BasicInfo\<close>, of which \<^verbatim>\<open>UserBasicCache\<close> is a map.\<close>

record BasicInfo =
  bi_Nickname :: string
  bi_FaceURL :: string

text \<open>The messages \<^verbatim>\<open>UserInfo\<close> and \<^verbatim>\<open>GroupInfo\<close> of the protocol, as far as the SDK reads them.\<close>

record UserInfo =
  usi_UserID :: string
  usi_Nickname :: string
  usi_FaceURL :: string
  usi_Ex :: string
  usi_CreateTime :: int
  usi_AppMangerLevel :: int
  usi_GlobalRecvMsgOpt :: int

record GroupInfo =
  gi_GroupID :: string
  gi_GroupName :: string
  gi_Notification :: string
  gi_Introduction :: string
  gi_FaceURL :: string
  gi_OwnerUserID :: string
  gi_CreateTime :: int
  gi_MemberCount :: "32 word"
  gi_Ex :: string
  gi_Status :: int
  gi_CreatorUserID :: string
  gi_GroupType :: int
  gi_NeedVerification :: int
  gi_LookMemberInfo :: int
  gi_ApplyMemberFriend :: int
  gi_NotificationUpdateTime :: int
  gi_NotificationUserID :: string

record ('t, 'n) conv_state =
  co_db :: 't
  co_net :: 'n
  co_ch :: "chan option"
  co_maxSeq :: MaxSeqRecorder
  co_events :: "conv_event list"
  co_users :: "(string, BasicInfo) gomap"
  co_background :: bool

text \<open>
  \<open>cx_ErrorText\<close> is the text of an error; \<open>cx_sort\<close> is \<^verbatim>\<open>sort.Sort\<close> on a \<^verbatim>\<open>NewMsgList\<close>, which orders by
  send time and leaves the order of equal times open; \<open>cx_grow\<close> the growth of slices; the \<open>cx_range_\<close> fields are
  the iteration orders of the maps; \<open>cx_now_nano\<close> reads the clock; \<open>cx_batch_listener\<close> says whether a
  \<^verbatim>\<open>batchMsgListener\<close> is set; \<open>cx_SliceSub\<close> is \<^verbatim>\<open>SliceSub\<close> of the tools library.
\<close>

record ('q, 't, 'n) conv_env =
  cx_chat :: "'t chat_db"
  cx_conv :: "(LocalConversation, 't) gorm"
  cx_user :: "(LocalUser, 't) gorm"
  cx_members :: "(LocalGroupMember, 't) gorm"
  cx_loginUserID :: string
  cx_codec :: "'q json_codec"
  cx_IsConnected :: "'n \<Rightarrow> bool"
  cx_PullMsgBySeqList :: "SeqRange list \<Rightarrow> 'n \<Rightarrow> (go_error + PullMessageBySeqsResp) \<times> 'n"
  cx_ErrorText :: "go_error \<Rightarrow> string"
  cx_sort :: "'q MsgStruct list \<Rightarrow> 'q MsgStruct list"
  cx_grow :: "nat \<Rightarrow> nat \<Rightarrow> nat"
  cx_range_pull :: "(string, PullMsgs) gomap \<Rightarrow> (string, PullMsgs) gomap"
  cx_range_logs :: "(string, LocalChatLog list) gomap \<Rightarrow> (string, LocalChatLog list) gomap"
  cx_range_convs :: "(string, LocalConversation) gomap \<Rightarrow> (string, LocalConversation) gomap"
  cx_range_read :: "(string, string list) gomap \<Rightarrow> (string, string list) gomap"
  cx_friends :: "(LocalFriend, 't) gorm"
  cx_groups :: "(LocalGroup, 't) gorm"
  cx_GetServerUserInfo :: "string list \<Rightarrow> 'n \<Rightarrow> (go_error + UserInfo list) \<times> 'n"
  cx_getGroupsInfoFromSvr :: "string list \<Rightarrow> 'n \<Rightarrow> (go_error + GroupInfo list) \<times> 'n"
  cx_now_nano :: "'n \<Rightarrow> int \<times> 'n"
  cx_batch_listener :: bool
  cx_SliceSub :: "string list \<Rightarrow> string list \<Rightarrow> string list"

definition on_db :: "('t \<Rightarrow> 'r \<times> 't) \<Rightarrow> ('t, 'n) conv_state \<Rightarrow> 'r \<times> ('t, 'n) conv_state" where
  "on_db f s = (case f (co_db s) of (r, t) \<Rightarrow> (r, s\<lparr>co_db := t\<rparr>))"

definition on_net :: "('n \<Rightarrow> 'r \<times> 'n) \<Rightarrow> ('t, 'n) conv_state \<Rightarrow> 'r \<times> ('t, 'n) conv_state" where
  "on_net f s = (case f (co_net s) of (r, n) \<Rightarrow> (r, s\<lparr>co_net := n\<rparr>))"

definition on_ch :: "chan option action \<Rightarrow> ('t, 'n) conv_state action" where
  "on_ch a s = (case a (co_ch s) of (r, c) \<Rightarrow> (r, s\<lparr>co_ch := c\<rparr>))"

definition emit :: "conv_event \<Rightarrow> ('t, 'n) conv_state \<Rightarrow> ('t, 'n) conv_state" where
  "emit ev s = s\<lparr>co_events := co_events s @ [ev]\<rparr>"

section \<open>Conversions\<close>

definition is_group_session :: "int \<Rightarrow> bool" where
  "is_group_session sessionType \<longleftrightarrow> sessionType = GroupChatType \<or> sessionType = SuperGroupChatType"

definition msgDataToLocalChatLog :: "MsgData \<Rightarrow> LocalChatLog" where
  "msgDataToLocalChatLog src = \<lparr>cl_ClientMsgID = md_ClientMsgID src, cl_ServerMsgID = md_ServerMsgID src,
     cl_SendID = md_SendID src,
     cl_RecvID = (if is_group_session (md_SessionType src) then md_GroupID src else md_RecvID src),
     cl_SenderPlatformID = md_SenderPlatformID src, cl_SenderNickname = md_SenderNickname src,
     cl_SenderFaceURL = md_SenderFaceURL src, cl_SessionType = md_SessionType src, cl_MsgFrom = md_MsgFrom src,
     cl_ContentType = md_ContentType src, cl_Content = md_Content src, cl_IsRead = md_IsRead src,
     cl_Status = md_Status src, cl_Seq = md_Seq src, cl_SendTime = md_SendTime src,
     cl_CreateTime = md_CreateTime src, cl_AttachedInfo = md_AttachedInfo src, cl_Ex = md_Ex src,
     cl_LocalEx = [], cl_IsReact = False, cl_IsExternalExtensions = False, cl_MsgFirstModifyTime = 0\<rparr>"

definition msgDataToLocalErrChatLog :: "LocalChatLog \<Rightarrow> LocalErrChatLog" where
  "msgDataToLocalErrChatLog src = \<lparr>ecl_Seq = cl_Seq src, ecl_ClientMsgID = cl_ClientMsgID src,
     ecl_ServerMsgID = cl_ServerMsgID src, ecl_SendID = cl_SendID src, ecl_RecvID = cl_RecvID src,
     ecl_SenderPlatformID = cl_SenderPlatformID src, ecl_SenderNickname = cl_SenderNickname src,
     ecl_SenderFaceURL = cl_SenderFaceURL src, ecl_SessionType = cl_SessionType src, ecl_MsgFrom = cl_MsgFrom src,
     ecl_ContentType = cl_ContentType src, ecl_Content = cl_Content src, ecl_IsRead = cl_IsRead src,
     ecl_Status = cl_Status src, ecl_SendTime = cl_SendTime src, ecl_CreateTime = cl_CreateTime src,
     ecl_AttachedInfo = cl_AttachedInfo src, ecl_Ex = cl_Ex src\<rparr>"

definition msg_content :: "'q json_codec \<Rightarrow> 'q MsgStruct \<Rightarrow> string" where
  "msg_content J src = (let ct = ms_ContentType src in
     if ct = Text then enc_TextElem J (ms_TextElem src)
     else if ct = Picture then enc_PictureElem J (ms_PictureElem src)
     else if ct = Sound then enc_SoundElem J (ms_SoundElem src)
     else if ct = Video then enc_VideoElem J (ms_VideoElem src)
     else if ct = File then enc_FileElem J (ms_FileElem src)
     else if ct = AtText then enc_AtTextElem J (ms_AtTextElem src)
     else if ct = Merger then enc_MergeElem J (ms_MergeElem src)
     else if ct = Card then enc_CardElem J (ms_CardElem src)
     else if ct = Location then enc_LocationElem J (ms_LocationElem src)
     else if ct = Custom then enc_CustomElem J (ms_CustomElem src)
     else if ct = Quote then enc_QuoteElem J (ms_QuoteElem src)
     else if ct = Face then enc_FaceElem J (ms_FaceElem src)
     else if ct = AdvancedText then enc_AdvancedTextElem J (ms_AdvancedTextElem src)
     else enc_NotificationElem J (ms_NotificationElem src))"

definition msgStructToLocalChatLog :: "'q json_codec \<Rightarrow> 'q MsgStruct \<Rightarrow> LocalChatLog" where
  "msgStructToLocalChatLog J src = \<lparr>cl_ClientMsgID = ms_ClientMsgID src, cl_ServerMsgID = ms_ServerMsgID src,
     cl_SendID = ms_SendID src,
     cl_RecvID = (if is_group_session (ms_SessionType src) then ms_GroupID src else ms_RecvID src),
     cl_SenderPlatformID = ms_SenderPlatformID src, cl_SenderNickname = ms_SenderNickname src,
     cl_SenderFaceURL = ms_SenderFaceURL src, cl_SessionType = ms_SessionType src, cl_MsgFrom = ms_MsgFrom src,
     cl_ContentType = ms_ContentType src, cl_Content = msg_content J src, cl_IsRead = ms_IsRead src,
     cl_Status = ms_Status src, cl_Seq = ms_Seq src, cl_SendTime = ms_SendTime src,
     cl_CreateTime = ms_CreateTime src, cl_AttachedInfo = enc_AttachedInfoElem J (ms_AttachedInfoElem src),
     cl_Ex = ms_Ex src, cl_LocalEx = ms_LocalEx src, cl_IsReact = ms_IsReact src,
     cl_IsExternalExtensions = ms_IsExternalExtensions src, cl_MsgFirstModifyTime = 0\<rparr>"

definition msgStructToLocalErrChatLog :: "'q MsgStruct \<Rightarrow> LocalErrChatLog" where
  "msgStructToLocalErrChatLog m = \<lparr>ecl_Seq = ms_Seq m, ecl_ClientMsgID = ms_ClientMsgID m,
     ecl_ServerMsgID = ms_ServerMsgID m, ecl_SendID = ms_SendID m,
     ecl_RecvID = (if is_group_session (ms_SessionType m) then ms_GroupID m else ms_RecvID m),
     ecl_SenderPlatformID = ms_SenderPlatformID m, ecl_SenderNickname = ms_SenderNickname m,
     ecl_SenderFaceURL = ms_SenderFaceURL m, ecl_SessionType = ms_SessionType m, ecl_MsgFrom = ms_MsgFrom m,
     ecl_ContentType = ms_ContentType m, ecl_Content = ms_Content m, ecl_IsRead = ms_IsRead m,
     ecl_Status = ms_Status m, ecl_SendTime = ms_SendTime m, ecl_CreateTime = ms_CreateTime m,
     ecl_AttachedInfo = ms_AttachedInfo m, ecl_Ex = ms_Ex m\<rparr>"

text \<open>
  \<^verbatim>\<open>msgHandleByContentType\<close> decodes the content into the element of its type, whether or not the
  decoding fails, and clears the content.
\<close>

definition msgHandleByContentType :: "'q json_codec \<Rightarrow> string \<Rightarrow> 'q MsgStruct \<Rightarrow> go_error option \<times> 'q MsgStruct" where
  "msgHandleByContentType J loginUserID msg =
     (let ct = ms_ContentType msg; c = ms_Content msg;
          fin = (\<lambda>(err, m). (wrap_err err [], m\<lparr>ms_Content := []\<rparr>))
      in fin (
        if ct = Text then case dec_TextElem J c of (err, t) \<Rightarrow> (err, msg\<lparr>ms_TextElem := Some t\<rparr>)
        else if ct = Picture then case dec_PictureElem J c of (err, t) \<Rightarrow> (err, msg\<lparr>ms_PictureElem := Some t\<rparr>)
        else if ct = Sound then case dec_SoundElem J c of (err, t) \<Rightarrow> (err, msg\<lparr>ms_SoundElem := Some t\<rparr>)
        else if ct = Video then case dec_VideoElem J c of (err, t) \<Rightarrow> (err, msg\<lparr>ms_VideoElem := Some t\<rparr>)
        else if ct = File then case dec_FileElem J c of (err, t) \<Rightarrow> (err, msg\<lparr>ms_FileElem := Some t\<rparr>)
        else if ct = AdvancedText
             then case dec_AdvancedTextElem J c of (err, t) \<Rightarrow> (err, msg\<lparr>ms_AdvancedTextElem := Some t\<rparr>)
        else if ct = AtText
             then case dec_AtTextElem J c of (err, t) \<Rightarrow>
               (err, msg\<lparr>ms_AtTextElem := Some (if err = None \<and> IsContain loginUserID (ate_AtUserList t)
                                               then t\<lparr>ate_IsAtSelf := True\<rparr> else t)\<rparr>)
        else if ct = Location then case dec_LocationElem J c of (err, t) \<Rightarrow> (err, msg\<lparr>ms_LocationElem := Some t\<rparr>)
        else if ct = Custom \<or> ct = CustomMsgNotTriggerConversation \<or> ct = CustomMsgOnlineOnly
             then case dec_CustomElem J c of (err, t) \<Rightarrow> (err, msg\<lparr>ms_CustomElem := Some t\<rparr>)
        else if ct = Typing then case dec_TypingElem J c of (err, t) \<Rightarrow> (err, msg\<lparr>ms_TypingElem := Some t\<rparr>)
        else if ct = Quote then case dec_QuoteElem J c of (err, t) \<Rightarrow> (err, msg\<lparr>ms_QuoteElem := Some t\<rparr>)
        else if ct = Merger then case dec_MergeElem J c of (err, t) \<Rightarrow> (err, msg\<lparr>ms_MergeElem := Some t\<rparr>)
        else if ct = Face then case dec_FaceElem J c of (err, t) \<Rightarrow> (err, msg\<lparr>ms_FaceElem := Some t\<rparr>)
        else if ct = Card then case dec_CardElem J c of (err, t) \<Rightarrow> (err, msg\<lparr>ms_CardElem := Some t\<rparr>)
        else case dec_NotificationElem J c of (err, t) \<Rightarrow> (err, msg\<lparr>ms_NotificationElem := Some t\<rparr>)))"

definition msgConvert :: "'q json_codec \<Rightarrow> string \<Rightarrow> 'q MsgStruct \<Rightarrow> go_error option \<times> 'q MsgStruct" where
  "msgConvert J loginUserID msg =
     (case msgHandleByContentType J loginUserID msg of
        (Some e, m) \<Rightarrow> (Some e, m)
      | (None, m) \<Rightarrow>
          (None, if ms_SessionType m = GroupChatType then m\<lparr>ms_GroupID := ms_RecvID m, ms_RecvID := loginUserID\<rparr> else m))"

definition getConversationIDBySessionType :: "string \<Rightarrow> string \<Rightarrow> int \<Rightarrow> string" where
  "getConversationIDBySessionType loginUserID sourceID sessionType =
     (if sessionType = SingleChatType then ''si_'' @ join_underscore (sort [loginUserID, sourceID])
      else if sessionType = GroupChatType then ''g_'' @ sourceID
      else if sessionType = SuperGroupChatType then ''sg_'' @ sourceID
      else if sessionType = NotificationChatType then ''sn_'' @ sourceID @ ''_'' @ loginUserID
      else [])"

section \<open>The message controller\<close>

text \<open>\<^verbatim>\<open>constant.AddConOrUpLatMsg\<close>.\<close>

definition AddConOrUpLatMsg :: int where "AddConOrUpLatMsg = 2"

fun update_messages ::
  "('q, 't, 'n) conv_env \<Rightarrow> string \<Rightarrow> LocalChatLog list \<Rightarrow> 'q MsgStruct \<Rightarrow> LocalConversation \<Rightarrow> ('t, 'n) conv_state action" where
  "update_messages E conversationID [] latestMsg conversation s = (None, s)"
| "update_messages E conversationID (v # messages) latestMsg conversation s =
     (let v1 = zero_chat_log\<lparr>cl_ClientMsgID := cl_ClientMsgID v, cl_Seq := cl_Seq v, cl_Status := cl_Status v,
                 cl_RecvID := cl_RecvID v, cl_SessionType := cl_SessionType v, cl_ServerMsgID := cl_ServerMsgID v,
                 cl_SendTime := cl_SendTime v\<rparr>
      in case on_db (UpdateMessage (cx_chat E) conversationID v1) s of
           (Some e, s1) \<Rightarrow> (Some (Wrapped e ''BatchUpdateMessageList failed''), s1)
         | (None, s1) \<Rightarrow>
             (if ms_ClientMsgID latestMsg = cl_ClientMsgID v
              then let latestMsg' = latestMsg\<lparr>ms_ServerMsgID := cl_ServerMsgID v, ms_Seq := cl_Seq v, ms_SendTime := cl_SendTime v\<rparr>;
                       conversation' = conversation\<lparr>cv_LatestMsg := enc_Msg (cx_codec E) latestMsg'\<rparr>;
                       s2 = snd (on_ch (TriggerCmdUpdateConversation \<lparr>ucn_ConID = cv_ConversationID conversation',
                              ucn_Action = AddConOrUpLatMsg, ucn_Args = ArgConversation conversation'\<rparr>) s1)
                   in update_messages E conversationID messages latestMsg' conversation' s2
              else update_messages E conversationID messages latestMsg conversation s1))"

fun update_lists :: "('q, 't, 'n) conv_env \<Rightarrow> (string \<times> LocalChatLog list) list \<Rightarrow> ('t, 'n) conv_state action" where
  "update_lists E [] s = (None, s)"
| "update_lists E ((conversationID, messages) # rest) s =
     (case on_db (GetConversation (cx_conv E) conversationID) s of
        (Inl e, s1) \<Rightarrow> update_lists E rest s1
      | (Inr conversation, s1) \<Rightarrow>
          (case dec_Msg (cx_codec E) (cv_LatestMsg conversation) zero_msg of
             (Some e, latestMsg) \<Rightarrow> update_lists E rest s1
           | (None, latestMsg) \<Rightarrow>
               and_then (update_messages E conversationID messages latestMsg conversation) (update_lists E rest) s1))"

definition controller_BatchUpdateMessageList ::
  "('q, 't, 'n) conv_env \<Rightarrow> (string, LocalChatLog list) gomap \<Rightarrow> ('t, 'n) conv_state action" where
  "controller_BatchUpdateMessageList E updateMsg = update_lists E (cx_range_logs E updateMsg)"

text \<open>When the batch cannot be inserted, the messages are inserted one by one, errors apart.\<close>

fun insert_each :: "('q, 't, 'n) conv_env \<Rightarrow> string \<Rightarrow> LocalChatLog list \<Rightarrow> ('t, 'n) conv_state \<Rightarrow> ('t, 'n) conv_state" where
  "insert_each E conversationID [] s = s"
| "insert_each E conversationID (v # messages) s =
     insert_each E conversationID messages (snd (on_db (InsertMessage (cx_chat E) conversationID v) s))"

fun insert_lists :: "('q, 't, 'n) conv_env \<Rightarrow> (string \<times> LocalChatLog list) list \<Rightarrow> ('t, 'n) conv_state \<Rightarrow> ('t, 'n) conv_state" where
  "insert_lists E [] s = s"
| "insert_lists E ((conversationID, messages) # rest) s =
     (if messages = [] then insert_lists E rest s
      else case on_db (BatchInsertMessageList (cx_chat E) conversationID messages) s of
             (Some e, s1) \<Rightarrow> insert_lists E rest (insert_each E conversationID messages s1)
           | (None, s1) \<Rightarrow> insert_lists E rest s1)"

definition controller_BatchInsertMessageList ::
  "('q, 't, 'n) conv_env \<Rightarrow> (string, LocalChatLog list) gomap \<Rightarrow> ('t, 'n) conv_state \<Rightarrow> ('t, 'n) conv_state" where
  "controller_BatchInsertMessageList E insertMsg s = insert_lists E (cx_range_logs E insertMsg) s"

section \<open>The names and pictures of the senders\<close>

text \<open>
  The messages are changed in place; the model returns the change made to each of the user's own
  messages and to each of the others'.
\<close>

type_synonym log_update = "LocalChatLog \<Rightarrow> LocalChatLog"

definition set_sender :: "string \<Rightarrow> string \<Rightarrow> log_update" where
  "set_sender faceURL nickname chatLog = chatLog\<lparr>cl_SenderFaceURL := faceURL, cl_SenderNickname := nickname\<rparr>"

definition singleHandle ::
  "('q, 't, 'n) conv_env \<Rightarrow> LocalConversation \<Rightarrow> ('t, 'n) conv_state \<Rightarrow> (log_update \<times> log_update) \<times> ('t, 'n) conv_state" where
  "singleHandle E lc s =
     (case on_db (GetLoginUser (cx_user E) (cx_loginUserID E)) s of (r, s1) \<Rightarrow>
        ((case r of Inr userInfo \<Rightarrow> set_sender (us_FaceURL userInfo) (us_Nickname userInfo) | Inl e \<Rightarrow> (\<lambda>l. l),
          if cv_FaceURL lc \<noteq> [] \<and> cv_ShowName lc \<noteq> [] then set_sender (cv_FaceURL lc) (cv_ShowName lc) else (\<lambda>l. l)), s1))"

definition groupHandle ::
  "('q, 't, 'n) conv_env \<Rightarrow> LocalChatLog list \<Rightarrow> LocalConversation \<Rightarrow> ('t, 'n) conv_state \<Rightarrow> (log_update \<times> log_update) \<times> ('t, 'n) conv_state" where
  "groupHandle E allMessage lc s =
     (case on_db (GetGroupSomeMemberInfo (cx_members E) (cv_GroupID lc) (map cl_SendID allMessage)) s of
        (Inl e, s1) \<Rightarrow> ((\<lambda>l. l, \<lambda>l. l), s1)
      | (Inr localGroupMemberInfo, s1) \<Rightarrow>
          (let groupMap = slice_to_map gm_UserID localGroupMemberInfo;
               f = (\<lambda>chatLog. case gget groupMap (cl_SendID chatLog) of
                      Some g \<Rightarrow> if gm_FaceURL g \<noteq> [] \<and> gm_Nickname g \<noteq> []
                                then set_sender (gm_FaceURL g) (gm_Nickname g) chatLog else chatLog
                    | None \<Rightarrow> chatLog)
           in ((f, f), s1)))"

definition faceURLAndNicknameHandle ::
  "('q, 't, 'n) conv_env \<Rightarrow> LocalChatLog list \<Rightarrow> LocalChatLog list \<Rightarrow> string \<Rightarrow> ('t, 'n) conv_state \<Rightarrow>
   (log_update \<times> log_update) \<times> ('t, 'n) conv_state" where
  "faceURLAndNicknameHandle E self others conversationID s =
     (case on_db (GetConversation (cx_conv E) conversationID) s of
        (Inl e, s1) \<Rightarrow> ((\<lambda>l. l, \<lambda>l. l), s1)
      | (Inr lc, s1) \<Rightarrow>
          (if cv_ConversationType lc = SingleChatType then singleHandle E lc s1
           else if cv_ConversationType lc = SuperGroupChatType then groupHandle E (self @ others) lc s1
           else ((\<lambda>l. l, \<lambda>l. l), s1)))"

end
