(* ===== verification/MessageCheck.thy ===== *)
theory MessageCheck
  imports ConvState
begin

text \<open>
  \<^verbatim>\<open>internal/conversation_msg/message_check.go\<close> and \<^verbatim>\<open>getAdvancedHistoryMessageList\<close> of
  \<^verbatim>\<open>conversation.go\<close>: reading a page of the history checks whether the sequence numbers of the
  page are contiguous, inside the page, with the page before and at its end, and pulls what is
  missing from the server. Sequence numbers are far from the bounds of \<^verbatim>\<open>int64\<close>, where the
  counting loops of the code would not end; sums are wrapped.
\<close>

definition PullMsgNumForReadDiffusion :: int where "PullMsgNumForReadDiffusion = 50"

record GetAdvancedHistoryMessageListParams =
  hp_LastMinSeq :: int
  hp_ConversationID :: string
  hp_StartClientMsgID :: string
  hp_Count :: int

record 'q GetAdvancedHistoryMessageListCallback =
  hc_MessageList :: "'q MsgStruct list"
  hc_LastMinSeq :: int
  hc_IsEnd :: bool
  hc_ErrCode :: int
  hc_ErrMsg :: string

text \<open>The arguments every check hands on, and what it changes: the page, the callback and the state.\<close>

record hist_query =
  hq_conversationID :: string
  hq_notStartTime :: bool
  hq_isReverse :: bool
  hq_count :: int
  hq_startTime :: int

type_synonym ('q, 't, 'n) hist_step =
  "LocalChatLog list \<times> 'q GetAdvancedHistoryMessageListCallback \<times> ('t, 'n) conv_state \<Rightarrow>
   LocalChatLog list \<times> 'q GetAdvancedHistoryMessageListCallback \<times> ('t, 'n) conv_state"

section \<open>Storing pulled messages\<close>

text \<open>
  \<^verbatim>\<open>pullMessageIntoTable\<close> collects pointers to messages in slices that share backing arrays: the
  list stored for a conversation is appended to \<^verbatim>\<open>insertMessage\<close>, which later messages extend.
  \<open>pv_objs\<close> are the messages by address, \<open>pv_arrs\<close> the backing arrays. The slices are declared
  outside the loop over the conversations. The list of exceptional messages only serves the log.
\<close>

record pull_vars =
  pv_objs :: "LocalChatLog list"
  pv_arrs :: arrays
  pv_insert :: slice
  pv_self :: slice
  pv_others :: slice
  pv_update :: slice
  pv_insertMsg :: "(string, slice) gomap"
  pv_updateMsg :: "(string, slice) gomap"

definition no_vars :: pull_vars where
  "no_vars = \<lparr>pv_objs = [], pv_arrs = [], pv_insert = nil_slice, pv_self = nil_slice, pv_others = nil_slice,
     pv_update = nil_slice, pv_insertMsg = [], pv_updateMsg = []\<rparr>"

definition deref :: "pull_vars \<Rightarrow> slice \<Rightarrow> LocalChatLog list" where
  "deref p sl = map (\<lambda>a. pv_objs p ! a) (elems (pv_arrs p) sl)"

definition lists_of :: "pull_vars \<Rightarrow> (string, slice) gomap \<Rightarrow> (string, LocalChatLog list) gomap" where
  "lists_of p m = map (\<lambda>(k, sl). (k, deref p sl)) m"

text \<open>\<^verbatim>\<open>list = append(list, msg)\<close> for a new message.\<close>

definition push_msg :: "(nat \<Rightarrow> nat \<Rightarrow> nat) \<Rightarrow> slice \<Rightarrow> LocalChatLog \<Rightarrow> pull_vars \<Rightarrow> slice \<times> pull_vars" where
  "push_msg grow sl msg p =
     (case append_slice grow sl [length (pv_objs p)] (pv_arrs p) of
        (sl', as) \<Rightarrow> (sl', p\<lparr>pv_objs := pv_objs p @ [msg], pv_arrs := as\<rparr>))"

definition to_insert :: "(nat \<Rightarrow> nat \<Rightarrow> nat) \<Rightarrow> LocalChatLog \<Rightarrow> pull_vars \<Rightarrow> pull_vars" where
  "to_insert grow msg p = (case push_msg grow (pv_insert p) msg p of (sl, p') \<Rightarrow> p'\<lparr>pv_insert := sl\<rparr>)"

definition to_self :: "(nat \<Rightarrow> nat \<Rightarrow> nat) \<Rightarrow> LocalChatLog \<Rightarrow> pull_vars \<Rightarrow> pull_vars" where
  "to_self grow msg p = (case push_msg grow (pv_self p) msg p of (sl, p') \<Rightarrow> p'\<lparr>pv_self := sl\<rparr>)"

definition to_others :: "(nat \<Rightarrow> nat \<Rightarrow> nat) \<Rightarrow> LocalChatLog \<Rightarrow> pull_vars \<Rightarrow> pull_vars" where
  "to_others grow msg p = (case push_msg grow (pv_others p) msg p of (sl, p') \<Rightarrow> p'\<lparr>pv_others := sl\<rparr>)"

definition to_update :: "(nat \<Rightarrow> nat \<Rightarrow> nat) \<Rightarrow> LocalChatLog \<Rightarrow> pull_vars \<Rightarrow> pull_vars" where
  "to_update grow msg p = (case push_msg grow (pv_update p) msg p of (sl, p') \<Rightarrow> p'\<lparr>pv_update := sl\<rparr>)"

definition change_objs :: "log_update \<Rightarrow> nat list \<Rightarrow> LocalChatLog list \<Rightarrow> LocalChatLog list" where
  "change_objs f addrs objs = fold (\<lambda>a os. os[a := f (os ! a)]) addrs objs"

text \<open>
  \<^verbatim>\<open>insertMsg[conversationID] = append(insertMessage, c.faceURLAndNicknameHandle(...)...)\<close> and
  \<^verbatim>\<open>updateMsg[conversationID] = updateMessage\<close>.
\<close>

definition set_lists ::
  "('q, 't, 'n) conv_env \<Rightarrow> string \<Rightarrow> pull_vars \<times> ('t, 'n) conv_state \<Rightarrow> pull_vars \<times> ('t, 'n) conv_state" where
  "set_lists E conversationID ps =
     (case ps of (p, s) \<Rightarrow>
      case faceURLAndNicknameHandle E (deref p (pv_self p)) (deref p (pv_others p)) conversationID s of
        ((fself, fothers), s1) \<Rightarrow>
          (let selfs = elems (pv_arrs p) (pv_self p); others = elems (pv_arrs p) (pv_others p);
               objs = change_objs fothers others (change_objs fself selfs (pv_objs p))
           in case append_slice (cx_grow E) (pv_self p) others (pv_arrs p) of
                (joined, as1) \<Rightarrow>
                  (case append_slice (cx_grow E) (pv_insert p) (elems as1 joined) as1 of
                     (sl, as2) \<Rightarrow>
                       (p\<lparr>pv_objs := objs, pv_arrs := as2, pv_insertMsg := gput conversationID sl (pv_insertMsg p),
                          pv_updateMsg := gput conversationID (pv_update p) (pv_updateMsg p)\<rparr>, s1))))"

definition pull_message ::
  "('q, 't, 'n) conv_env \<Rightarrow> string \<Rightarrow> MsgData \<Rightarrow> pull_vars \<times> ('t, 'n) conv_state \<Rightarrow> pull_vars \<times> ('t, 'n) conv_state" where
  "pull_message E conversationID v ps =
     (case ps of (p, s) \<Rightarrow>
      (let g = cx_grow E; msg0 = msgDataToLocalChatLog v in
       if cl_Status msg0 = MsgStatusHasDeleted then (to_insert g msg0 p, s)
       else let msg = msg0\<lparr>cl_Status := MsgStatusSendSuccess\<rparr> in
       if cl_ClientMsgID msg = [] then (p, s)
       else case on_db (GetMessage (cx_chat E) conversationID (cl_ClientMsgID msg)) s of
              (r, s1) \<Rightarrow>
                set_lists E conversationID
                  (if md_SendID v = cx_loginUserID E
                   then case r of Inr m \<Rightarrow> if cl_Seq m = 0 then to_update g msg p else p
                                | Inl e \<Rightarrow> to_self g msg p
                   else case r of Inl e \<Rightarrow> to_others g msg p
                                | Inr oldMessage \<Rightarrow> if cl_Seq oldMessage = 0 then to_update g msg p else p, s1)))"

definition flush_lists :: "('q, 't, 'n) conv_env \<Rightarrow> pull_vars \<times> ('t, 'n) conv_state \<Rightarrow> pull_vars \<times> ('t, 'n) conv_state" where
  "flush_lists E ps =
     (case ps of (p, s) \<Rightarrow>
        (p, controller_BatchInsertMessageList E (lists_of p (pv_insertMsg p))
              (snd (controller_BatchUpdateMessageList E (lists_of p (pv_updateMsg p)) s))))"

fun pull_conversations ::
  "('q, 't, 'n) conv_env \<Rightarrow> (string \<times> PullMsgs) list \<Rightarrow> pull_vars \<times> ('t, 'n) conv_state \<Rightarrow> pull_vars \<times> ('t, 'n) conv_state" where
  "pull_conversations E [] ps = ps"
| "pull_conversations E ((conversationID, msgs) # rest) ps =
     pull_conversations E rest (flush_lists E (fold (pull_message E conversationID) (pm_Msgs msgs) ps))"

definition pullMessageIntoTable ::
  "('q, 't, 'n) conv_env \<Rightarrow> (string, PullMsgs) gomap \<Rightarrow> ('t, 'n) conv_state \<Rightarrow> ('t, 'n) conv_state" where
  "pullMessageIntoTable E pullMsgData s = snd (pull_conversations E (cx_range_pull E pullMsgData) (no_vars, s))"

section \<open>Pulling what is missing\<close>

text \<open>On an error the page is cut where the missing numbers begin.\<close>

fun cut_page :: "int \<Rightarrow> LocalChatLog list \<Rightarrow> LocalChatLog list" where
  "cut_page needPullMaxSeq [] = []"
| "cut_page needPullMaxSeq (chatLog # rest) =
     (if cl_Seq chatLog = 0 \<or> cl_Seq chatLog > needPullMaxSeq then chatLog # cut_page needPullMaxSeq rest else [])"

definition errHandle ::
  "(go_error \<Rightarrow> string) \<Rightarrow> int list \<Rightarrow> go_error \<Rightarrow> LocalChatLog list \<Rightarrow> 'q GetAdvancedHistoryMessageListCallback \<Rightarrow>
   LocalChatLog list \<times> 'q GetAdvancedHistoryMessageListCallback" where
  "errHandle text seqList err list cb =
     (cut_page (last seqList) list, cb\<lparr>hc_ErrCode := 100, hc_ErrMsg := text err\<rparr>)"

definition read_page :: "('q, 't, 'n) conv_env \<Rightarrow> hist_query \<Rightarrow> ('t, 'n) conv_state \<Rightarrow> (go_error + LocalChatLog list) \<times> ('t, 'n) conv_state" where
  "read_page E q s =
     (if hq_notStartTime q then on_db (GetMessageListNoTime (cx_chat E) (hq_conversationID q) (hq_count q) (hq_isReverse q)) s
      else on_db (GetMessageList (cx_chat E) (hq_conversationID q) (hq_count q) (hq_startTime q) (hq_isReverse q)) s)"

definition pullMessageAndReGetHistoryMessages ::
  "('q, 't, 'n) conv_env \<Rightarrow> hist_query \<Rightarrow> int list \<Rightarrow> ('q, 't, 'n) hist_step" where
  "pullMessageAndReGetHistoryMessages E q seqList lcs =
     (case lcs of (list, cb, s) \<Rightarrow>
      case on_db (GetAlreadyExistSeqList (cx_chat E) (hq_conversationID q) seqList) s of
        (Inl e, s1) \<Rightarrow> (list, cb, s1)
      | (Inr existedSeqList, s1) \<Rightarrow>
         (if length existedSeqList = length seqList then (list, cb, s1)
          else let newSeqList = DifferenceSubset seqList existedSeqList in
          if newSeqList = [] then (list, cb, s1)
          else if hq_notStartTime q \<and> \<not> cx_IsConnected E (co_net s1) then (list, cb, s1)
          else let seqRange = \<lparr>sr_ConversationID = hq_conversationID q, sr_Begin = hd newSeqList,
                               sr_End = last newSeqList, sr_Num = int (length newSeqList)\<rparr>
          in case cx_PullMsgBySeqList E [seqRange] (co_net s1) of
               (Inl err, n) \<Rightarrow>
                 (case errHandle (cx_ErrorText E) newSeqList err list cb of (list', cb') \<Rightarrow> (list', cb', s1\<lparr>co_net := n\<rparr>))
             | (Inr pullMsgResp, n) \<Rightarrow>
                 (let s2 = s1\<lparr>co_net := n\<rparr> in
                  case gget (pr_Msgs pullMsgResp) (hq_conversationID q) of
                    None \<Rightarrow> (list, cb, s2)
                  | Some v \<Rightarrow>
                      (case read_page E q (pullMessageIntoTable E (pr_Msgs pullMsgResp) s2) of
                         (r, s3) \<Rightarrow> (case r of Inr list' \<Rightarrow> list' | Inl e \<Rightarrow> [], cb\<lparr>hc_IsEnd := pm_IsEnd v\<rparr>, s3)))))"

section \<open>The continuity checks\<close>

definition max_min_step :: "LocalChatLog \<Rightarrow> int \<times> int \<times> int list \<Rightarrow> int \<times> int \<times> int list" where
  "max_min_step m acc =
     (case acc of (mx, mn, seqList) \<Rightarrow>
        (let seqList' = (if cl_Seq m \<noteq> 0 then seqList @ [cl_Seq m] else seqList);
             first = (cl_Seq m \<noteq> 0 \<and> mn = 0 \<and> mx = 0);
             mn1 = (if first then cl_Seq m else mn);
             mx1 = (if first then cl_Seq m else mx);
             mn2 = (if cl_Seq m < mn1 \<and> cl_Seq m \<noteq> 0 then cl_Seq m else mn1);
             mx2 = (if cl_Seq m > mx1 then cl_Seq m else mx1)
         in (mx2, mn2, seqList')))"

definition getMaxAndMinHaveSeqList :: "LocalChatLog list \<Rightarrow> int \<times> int \<times> int list" where
  "getMaxAndMinHaveSeqList messages = fold max_min_step messages (0, 0, [])"

definition successiveSeqList :: "int \<Rightarrow> int \<Rightarrow> int list" where
  "successiveSeqList mx mn = [mn..mx]"

definition messageBlocksInternalContinuityCheck ::
  "('q, 't, 'n) conv_env \<Rightarrow> hist_query \<Rightarrow>
   LocalChatLog list \<times> 'q GetAdvancedHistoryMessageListCallback \<times> ('t, 'n) conv_state \<Rightarrow>
   (int \<times> int \<times> nat) \<times> LocalChatLog list \<times> 'q GetAdvancedHistoryMessageListCallback \<times> ('t, 'n) conv_state" where
  "messageBlocksInternalContinuityCheck E q lcs =
     (case lcs of (list, cb, s) \<Rightarrow>
      case getMaxAndMinHaveSeqList list of (maxSeq, minSeq, haveSeqList) \<Rightarrow>
        (if maxSeq \<noteq> 0 \<and> minSeq \<noteq> 0
         then let lostSeqList = DifferenceSubset (successiveSeqList maxSeq minSeq) haveSeqList;
                  lostSeqListLength = length lostSeqList in
              if 0 < lostSeqListLength
              then let pullSeqList =
                         (if int lostSeqListLength \<le> PullMsgNumForReadDiffusion then lostSeqList
                          else drop (lostSeqListLength - nat PullMsgNumForReadDiffusion) lostSeqList)
                   in ((maxSeq, minSeq, lostSeqListLength), pullMessageAndReGetHistoryMessages E q pullSeqList lcs)
              else ((maxSeq, minSeq, lostSeqListLength), lcs)
         else ((maxSeq, minSeq, 0), lcs)))"

definition messageBlocksBetweenContinuityCheck ::
  "('q, 't, 'n) conv_env \<Rightarrow> hist_query \<Rightarrow> int \<Rightarrow> int \<Rightarrow>
   LocalChatLog list \<times> 'q GetAdvancedHistoryMessageListCallback \<times> ('t, 'n) conv_state \<Rightarrow>
   bool \<times> LocalChatLog list \<times> 'q GetAdvancedHistoryMessageListCallback \<times> ('t, 'n) conv_state" where
  "messageBlocksBetweenContinuityCheck E q lastMinSeq maxSeq lcs =
     (if lastMinSeq \<noteq> 0 then
        if maxSeq \<noteq> 0 then
          if i64 (maxSeq + 1) \<noteq> lastMinSeq then
            (let start0 = i64 (lastMinSeq - PullMsgNumForReadDiffusion);
                 startSeq = (if start0 \<le> maxSeq then i64 (maxSeq + 1) else start0);
                 seqs = successiveSeqList (i64 (lastMinSeq - 1)) startSeq
             in (False, if seqs \<noteq> [] then pullMessageAndReGetHistoryMessages E q seqs lcs else lcs))
          else (True, lcs)
        else (True, lcs)
      else (True, lcs))"

definition end_seqs :: "int \<Rightarrow> int list" where
  "end_seqs seq =
     (let start0 = i64 (seq - PullMsgNumForReadDiffusion); startSeq = (if start0 \<le> 0 then 1 else start0)
      in [startSeq..seq - 1])"

definition messageBlocksEndContinuityCheck :: "('q, 't, 'n) conv_env \<Rightarrow> hist_query \<Rightarrow> int \<Rightarrow> ('q, 't, 'n) hist_step" where
  "messageBlocksEndContinuityCheck E q minSeq lcs =
     (if minSeq \<noteq> 0
      then if end_seqs minSeq \<noteq> [] then pullMessageAndReGetHistoryMessages E q (end_seqs minSeq) lcs else lcs
      else pullMessageAndReGetHistoryMessages E q [0, 0] lcs)"

section \<open>Reading the history\<close>

definition zero_callback :: "'q GetAdvancedHistoryMessageListCallback" where
  "zero_callback = \<lparr>hc_MessageList = [], hc_LastMinSeq = 0, hc_IsEnd = False, hc_ErrCode = 0, hc_ErrMsg = []\<rparr>"

definition check_page ::
  "('q, 't, 'n) conv_env \<Rightarrow> hist_query \<Rightarrow> int \<Rightarrow> ('q, 't, 'n) hist_step" where
  "check_page E q lastMinSeq lcs =
     (case lcs of (list, cb, s) \<Rightarrow>
      if int (length list) < hq_count q
      then case messageBlocksInternalContinuityCheck E q lcs of ((maxSeq, minSeq, lostSeqListLength), lcs1) \<Rightarrow>
           case messageBlocksBetweenContinuityCheck E q lastMinSeq maxSeq lcs1 of (ok, (list2, cb2, s2)) \<Rightarrow>
             (if minSeq = 1 \<and> lostSeqListLength = 0 then (list2, cb2\<lparr>hc_IsEnd := True\<rparr>, s2)
              else messageBlocksEndContinuityCheck E q minSeq (list2, cb2, s2))
      else case messageBlocksInternalContinuityCheck E q lcs of ((maxSeq, minSeq, lostSeqListLength), lcs1) \<Rightarrow>
             snd (messageBlocksBetweenContinuityCheck E q lastMinSeq maxSeq lcs1))"

text \<open>One stored message as the caller sees it; \<open>None\<close> when it is left out.\<close>

definition history_msg :: "('q, 't, 'n) conv_env \<Rightarrow> int \<Rightarrow> int \<Rightarrow> LocalChatLog \<Rightarrow> 'q MsgStruct option" where
  "history_msg E sessionType nowUnix v =
     (if cl_Status v \<ge> MsgStatusHasDeleted then None
      else let attachedInfo = snd (dec_AttachedInfoElem (cx_codec E) (cl_AttachedInfo v));
               temp = zero_msg\<lparr>ms_ClientMsgID := cl_ClientMsgID v, ms_ServerMsgID := cl_ServerMsgID v,
                 ms_CreateTime := cl_CreateTime v, ms_SendTime := cl_SendTime v, ms_SessionType := cl_SessionType v,
                 ms_SendID := cl_SendID v, ms_RecvID := cl_RecvID v, ms_MsgFrom := cl_MsgFrom v,
                 ms_ContentType := cl_ContentType v, ms_SenderPlatformID := cl_SenderPlatformID v,
                 ms_SenderNickname := cl_SenderNickname v, ms_SenderFaceURL := cl_SenderFaceURL v,
                 ms_Content := cl_Content v, ms_Seq := cl_Seq v, ms_IsRead := cl_IsRead v, ms_Status := cl_Status v,
                 ms_AttachedInfoElem := Some attachedInfo, ms_Ex := cl_Ex v, ms_LocalEx := cl_LocalEx v\<rparr>
           in case msgHandleByContentType (cx_codec E) (cx_loginUserID E) temp of
                (Some e, m) \<Rightarrow> None
              | (None, m) \<Rightarrow>
                  (let m' = (if is_group_session sessionType
                             then m\<lparr>ms_GroupID := ms_RecvID m, ms_RecvID := cx_loginUserID E\<rparr> else m)
                   in if ae_IsPrivateChat attachedInfo \<and> i64 (ms_SendTime m' + ae_BurnDuration attachedInfo) < nowUnix
                      then None else Some m'))"

definition least_seq :: "LocalChatLog list \<Rightarrow> int" where
  "least_seq list = fold (\<lambda>v mn. let mn1 = (if cl_Seq v \<noteq> 0 \<and> mn = 0 then cl_Seq v else mn)
     in if cl_Seq v < mn1 \<and> cl_Seq v \<noteq> 0 then cl_Seq v else mn1) list 0"

definition getAdvancedHistoryMessageList ::
  "('q, 't, 'n) conv_env \<Rightarrow> int \<Rightarrow> GetAdvancedHistoryMessageListParams \<Rightarrow> bool \<Rightarrow> ('t, 'n) conv_state \<Rightarrow>
   (go_error + 'q GetAdvancedHistoryMessageListCallback) \<times> ('t, 'n) conv_state" where
  "getAdvancedHistoryMessageList E nowUnix req isReverse s =
     (let conversationID = hp_ConversationID req in
      case on_db (GetConversation (cx_conv E) conversationID) s of
        (Inl e, s1) \<Rightarrow> (Inl e, s1)
      | (Inr lc, s1) \<Rightarrow>
         (case (if hp_StartClientMsgID req = [] then (Inr None, s1)
                else case on_db (GetMessage (cx_chat E) conversationID (hp_StartClientMsgID req)) s1 of
                       (Inl e, s2) \<Rightarrow> (Inl e, s2) | (Inr m, s2) \<Rightarrow> (Inr (Some (cl_SendTime m)), s2)) of
            (Inl e, s2) \<Rightarrow> (Inl e, s2)
          | (Inr start, s2) \<Rightarrow>
             (let q = \<lparr>hq_conversationID = conversationID, hq_notStartTime = (start = None), hq_isReverse = isReverse,
                       hq_count = hp_Count req, hq_startTime = (case start of Some st \<Rightarrow> st | None \<Rightarrow> 0)\<rparr>
              in case read_page E q s2 of
                   (Inl e, s3) \<Rightarrow> (Inl e, s3)
                 | (Inr list, s3) \<Rightarrow>
                    (case check_page E q (hp_LastMinSeq req) (list, zero_callback, s3) of
                       (list', cb, s4) \<Rightarrow>
                         (let messageList = List.map_filter (history_msg E (cv_ConversationType lc) nowUnix) list';
                              thisMinSeq = least_seq list'
                          in (Inr (cb\<lparr>hc_MessageList := (if isReverse then messageList else cx_sort E messageList),
                                hc_LastMinSeq := (if thisMinSeq = 0 then hp_LastMinSeq req else thisMinSeq)\<rparr>), s4))))))"

end
