(* ===== verification/ConvWorld.thy ===== *)
theory ConvWorld
  imports ConvState
begin

text \<open>
  The database as the conversation component uses it: many tables behind one connection. The
  locale \<open>conv_tables\<close> says what the component relies on: each table behaves as gorm documents,
  and a statement on one table leaves the others alone. The instance is a record of tables.
\<close>

section \<open>Independent tables\<close>

definition keeps :: "('r, 't) gorm \<Rightarrow> ('t \<Rightarrow> 'x) \<Rightarrow> bool" where
  "keeps G obs \<longleftrightarrow>
     (\<forall>p t. obs (snd (gorm_find G p t)) = obs t) \<and>
     (\<forall>p t. obs (snd (gorm_take G p t)) = obs t) \<and>
     (\<forall>xs t. obs (snd (gorm_create G xs t)) = obs t) \<and>
     (\<forall>p f t. obs (snd (gorm_updates G p f t)) = obs t) \<and>
     (\<forall>p t. obs (snd (gorm_delete G p t)) = obs t)"

lemma keepsD:
  assumes "keeps G obs"
  shows "gorm_find G p t = (fr, t') \<Longrightarrow> obs t' = obs t"
    and "gorm_take G p t = (tr, t') \<Longrightarrow> obs t' = obs t"
    and "gorm_create G xs t = (e, t') \<Longrightarrow> obs t' = obs t"
    and "gorm_updates G p f t = (ur, t') \<Longrightarrow> obs t' = obs t"
    and "gorm_delete G p t = (e, t') \<Longrightarrow> obs t' = obs t"
  using assms unfolding keeps_def by (metis snd_conv)+

locale conv_tables =
  fixes E :: "('q, 't, 'n) conv_env"
    and chat_rows :: "string \<Rightarrow> 't \<Rightarrow> LocalChatLog list"
    and conv_rows :: "'t \<Rightarrow> LocalConversation list"
  assumes chat_table: "gorm_table (cx_chat E name) (chat_rows name) cl_ClientMsgID"
    and conv_table: "gorm_table (cx_conv E) conv_rows cv_ConversationID"
    and conv_keeps_chat: "keeps (cx_conv E) (chat_rows name)"
    and user_keeps_chat: "keeps (cx_user E) (chat_rows name)"
    and members_keep_chat: "keeps (cx_members E) (chat_rows name)"
    and chat_keeps_chat: "name' \<noteq> name \<Longrightarrow> keeps (cx_chat E name') (chat_rows name)"
    and chat_keeps_conv: "keeps (cx_chat E name) conv_rows"
    and user_keeps_conv: "keeps (cx_user E) conv_rows"
    and members_keep_conv: "keeps (cx_members E) conv_rows"
begin

lemma face_keeps_chat:
  assumes "faceURLAndNicknameHandle E self others k s = (fs, s')"
  shows "chat_rows name (co_db s') = chat_rows name (co_db s)"
proof -
  note take = keepsD(2) [OF conv_keeps_chat [of name]] keepsD(2) [OF user_keeps_chat [of name]]
    keepsD(1) [OF members_keep_chat [of name]]
  show ?thesis
    using assms
    by (auto simp: faceURLAndNicknameHandle_def on_db_def GetConversation_def wrap_res_def singleHandle_def
        GetLoginUser_def groupHandle_def GetGroupSomeMemberInfo_def Let_def
        dest!: take split: prod.splits sum.splits if_splits)
qed

end

text \<open>A database without faults: creating rows with new keys succeeds.\<close>

definition stays :: "('r, 't) gorm \<Rightarrow> ('t \<Rightarrow> bool) \<Rightarrow> bool" where
  "stays G P \<longleftrightarrow>
     (\<forall>p t. P t \<longrightarrow> P (snd (gorm_find G p t))) \<and>
     (\<forall>p t. P t \<longrightarrow> P (snd (gorm_take G p t))) \<and>
     (\<forall>xs t. P t \<longrightarrow> P (snd (gorm_create G xs t))) \<and>
     (\<forall>p f t. P t \<longrightarrow> P (snd (gorm_updates G p f t))) \<and>
     (\<forall>p t. P t \<longrightarrow> P (snd (gorm_delete G p t)))"

lemma staysD:
  assumes "stays G P"
  shows "gorm_find G p t = (fr, t') \<Longrightarrow> P t \<Longrightarrow> P t'"
    and "gorm_take G p t = (tr, t') \<Longrightarrow> P t \<Longrightarrow> P t'"
    and "gorm_create G xs t = (e, t') \<Longrightarrow> P t \<Longrightarrow> P t'"
    and "gorm_updates G p f t = (ur, t') \<Longrightarrow> P t \<Longrightarrow> P t'"
    and "gorm_delete G p t = (e, t') \<Longrightarrow> P t \<Longrightarrow> P t'"
  using assms unfolding stays_def by (metis snd_conv)+

locale healthy_tables = conv_tables E chat_rows conv_rows
  for E :: "('q, 't, 'n) conv_env"
    and chat_rows :: "string \<Rightarrow> 't \<Rightarrow> LocalChatLog list"
    and conv_rows :: "'t \<Rightarrow> LocalConversation list" +
  fixes healthy :: "'t \<Rightarrow> bool"
  assumes chat_create: "healthy t \<Longrightarrow> distinct (map cl_ClientMsgID (chat_rows name t @ xs)) \<Longrightarrow>
      gorm_create (cx_chat E name) xs t = (e, t') \<Longrightarrow> e = None"
    and chat_stays: "stays (cx_chat E name) healthy"
    and conv_stays: "stays (cx_conv E) healthy"
    and user_stays: "stays (cx_user E) healthy"
    and members_stay: "stays (cx_members E) healthy"
begin

lemma face_stays:
  assumes "faceURLAndNicknameHandle E self others k s = (fs, s')" and "healthy (co_db s)"
  shows "healthy (co_db s')"
proof -
  note take = staysD(2) [OF conv_stays] staysD(2) [OF user_stays] staysD(1) [OF members_stay]
  show ?thesis
    using assms
    by (auto simp: faceURLAndNicknameHandle_def on_db_def GetConversation_def wrap_res_def singleHandle_def
        GetLoginUser_def groupHandle_def GetGroupSomeMemberInfo_def Let_def
        dest!: take split: prod.splits sum.splits if_splits)
qed

end

section \<open>The instance: a record of tables\<close>

definition at_table :: "('s \<Rightarrow> 't) \<Rightarrow> ('t \<Rightarrow> 's \<Rightarrow> 's) \<Rightarrow> ('r, 't) gorm \<Rightarrow> ('r, 's) gorm" where
  "at_table get put G = \<lparr>
     gorm_find = (\<lambda>p s. case gorm_find G p (get s) of (r, t) \<Rightarrow> (r, put t s)),
     gorm_take = (\<lambda>p s. case gorm_take G p (get s) of (r, t) \<Rightarrow> (r, put t s)),
     gorm_create = (\<lambda>xs s. case gorm_create G xs (get s) of (r, t) \<Rightarrow> (r, put t s)),
     gorm_updates = (\<lambda>p f s. case gorm_updates G p f (get s) of (r, t) \<Rightarrow> (r, put t s)),
     gorm_delete = (\<lambda>p s. case gorm_delete G p (get s) of (r, t) \<Rightarrow> (r, put t s))\<rparr>"

lemma at_table_gorm:
  assumes "gorm_table G rows pk" and "\<And>t s. get (put t s) = t"
  shows "gorm_table (at_table get put G) (\<lambda>s. rows (get s)) pk"
  using assms
  by (unfold_locales) (auto simp: at_table_def split: prod.splits
      dest: gorm_table.find_rows [OF assms(1)] gorm_table.find_mset [OF assms(1)] gorm_table.take_rows [OF assms(1)]
        gorm_table.take_in [OF assms(1)] gorm_table.create_ok [OF assms(1)] gorm_table.create_err [OF assms(1)]
        gorm_table.updates_ok [OF assms(1)] gorm_table.updates_err [OF assms(1)] gorm_table.delete_ok [OF assms(1)]
        gorm_table.delete_err [OF assms(1)])

lemma at_table_keeps: "(\<And>t s. obs (put t s) = obs s) \<Longrightarrow> keeps (at_table get put G) obs"
  by (simp add: keeps_def at_table_def split: prod.split)

record world =
  w_chat :: "string \<Rightarrow> LocalChatLog ftable"
  w_conv :: "LocalConversation ftable"
  w_user :: "LocalUser ftable"
  w_members :: "LocalGroupMember ftable"
  w_friends :: "LocalFriend ftable"
  w_groups :: "LocalGroup ftable"
  w_sending :: "LocalSendingMessages ftable"

definition world_chat :: "world chat_db" where
  "world_chat name = at_table (\<lambda>w. w_chat w name) (\<lambda>t w. w\<lparr>w_chat := (w_chat w)(name := t)\<rparr>) (list_gorm cl_ClientMsgID)"

definition world_conv :: "(LocalConversation, world) gorm" where
  "world_conv = at_table w_conv (\<lambda>t w. w\<lparr>w_conv := t\<rparr>) (list_gorm cv_ConversationID)"

definition world_user :: "(LocalUser, world) gorm" where
  "world_user = at_table w_user (\<lambda>t w. w\<lparr>w_user := t\<rparr>) (list_gorm us_UserID)"

definition world_members :: "(LocalGroupMember, world) gorm" where
  "world_members = at_table w_members (\<lambda>t w. w\<lparr>w_members := t\<rparr>) (list_gorm (\<lambda>m. (gm_GroupID m, gm_UserID m)))"

definition world_friends :: "(LocalFriend, world) gorm" where
  "world_friends = at_table w_friends (\<lambda>t w. w\<lparr>w_friends := t\<rparr>) (list_gorm (\<lambda>f. (fr_OwnerUserID f, fr_FriendUserID f)))"

definition world_groups :: "(LocalGroup, world) gorm" where
  "world_groups = at_table w_groups (\<lambda>t w. w\<lparr>w_groups := t\<rparr>) (list_gorm gr_GroupID)"

definition world_sending :: "(LocalSendingMessages, world) gorm" where
  "world_sending = at_table w_sending (\<lambda>t w. w\<lparr>w_sending := t\<rparr>) (list_gorm (\<lambda>r. (sm_ConversationID r, sm_ClientMsgID r)))"

text \<open>The environment on this database, for any codec, network and iteration orders.\<close>

definition on_world :: "('q, world, 'n) conv_env \<Rightarrow> ('q, world, 'n) conv_env" where
  "on_world E = E\<lparr>cx_chat := world_chat, cx_conv := world_conv, cx_user := world_user, cx_members := world_members,
     cx_friends := world_friends, cx_groups := world_groups\<rparr>"

interpretation wt: conv_tables "on_world E" "\<lambda>name w. ft_rows (w_chat w name)" "\<lambda>w. ft_rows (w_conv w)"
proof (rule conv_tables.intro)
  show "gorm_table (cx_chat (on_world E) name) (\<lambda>w. ft_rows (w_chat w name)) cl_ClientMsgID" for name
    unfolding on_world_def world_chat_def by simp (rule at_table_gorm [OF lg.gorm_table_axioms], simp)
  show "gorm_table (cx_conv (on_world E)) (\<lambda>w. ft_rows (w_conv w)) cv_ConversationID"
    unfolding on_world_def world_conv_def by simp (rule at_table_gorm [OF lg.gorm_table_axioms], simp)
qed (auto simp: on_world_def world_chat_def world_conv_def world_user_def world_members_def intro!: at_table_keeps)

definition no_faults :: "world \<Rightarrow> bool" where
  "no_faults w \<longleftrightarrow> (\<forall>name. ft_faults (w_chat w name) = []) \<and> ft_faults (w_conv w) = [] \<and>
     ft_faults (w_user w) = [] \<and> ft_faults (w_members w) = [] \<and> ft_faults (w_friends w) = [] \<and>
     ft_faults (w_groups w) = [] \<and> ft_faults (w_sending w) = []"

interpretation wh: healthy_tables "on_world E" "\<lambda>name w. ft_rows (w_chat w name)" "\<lambda>w. ft_rows (w_conv w)" no_faults
proof (intro healthy_tables.intro wt.conv_tables_axioms healthy_tables_axioms.intro)
qed (auto simp: on_world_def world_chat_def world_conv_def world_user_def world_members_def at_table_def
    list_gorm_def next_fault_def no_faults_def stays_def split: if_splits option.splits)

end
