(* ===== verification/MessageStore.thy ===== *)
theory MessageStore
  imports MessageCheck ConvWorld
begin

text \<open>
  What \<^verbatim>\<open>pullMessageIntoTable\<close> stores. If the last message of a conversation in the response is not one deleted on the
  server, every new message of it is stored. A deleted message after the last ordinary one is lost, or takes the place of
  a message to be stored, since both are appended to the same backing array.
\<close>

section \<open>A message up to its sender's name and picture\<close>

definition anon :: log_update where
  "anon l = set_sender [] [] l"

definition sender_only :: "log_update \<Rightarrow> bool" where
  "sender_only f \<longleftrightarrow> (\<forall>l. anon (f l) = anon l)"

lemma anon_id [simp]: "cl_ClientMsgID (anon l) = cl_ClientMsgID l"
  by (simp add: anon_def set_sender_def)

lemma sender_only_set [simp]: "sender_only (set_sender a b)"
  by (simp add: sender_only_def anon_def set_sender_def)

lemma sender_only_id [simp]: "sender_only (\<lambda>l. l)"
  by (simp add: sender_only_def)

lemma face_sender_only:
  "faceURLAndNicknameHandle E self others k s = ((f, g), s') \<Longrightarrow> sender_only f \<and> sender_only g"
  by (auto simp: faceURLAndNicknameHandle_def singleHandle_def groupHandle_def Let_def sender_only_def anon_def
      set_sender_def split: prod.splits sum.splits if_splits option.splits)

lemma change_objs_anon:
  "sender_only f \<Longrightarrow> map anon (change_objs f addrs objs) = map anon objs"
proof (induction addrs arbitrary: objs)
  case (Cons a addrs)
  have "map anon (objs[a := f (objs ! a)]) = map anon objs"
    using Cons.prems by (cases "a < length objs") (auto intro!: nth_equalityI simp: sender_only_def nth_list_update)
  with Cons show ?case by (simp add: change_objs_def)
qed (simp add: change_objs_def)

lemma change_objs_length: "length (change_objs f addrs objs) = length objs"
  unfolding change_objs_def by (induction addrs arbitrary: objs) simp_all

lemma deref_anon:
  "\<forall>a \<in> set (elems (pv_arrs p) sl). a < length (pv_objs p) \<Longrightarrow>
   map anon (deref p sl) = map (\<lambda>a. map anon (pv_objs p) ! a) (elems (pv_arrs p) sl)"
  by (simp add: deref_def)

section \<open>The loop over the messages of one conversation\<close>

definition owns :: "pull_vars \<Rightarrow> slice \<Rightarrow> bool" where
  "owns p sl \<longleftrightarrow> backed (pv_arrs p) sl \<and> (\<forall>a \<in> set (elems (pv_arrs p) sl). a < length (pv_objs p))"

definition sep :: "slice \<Rightarrow> slice \<Rightarrow> bool" where
  "sep a b \<longleftrightarrow> sl_cap a = 0 \<or> sl_cap b = 0 \<or> sl_arr a \<noteq> sl_arr b"

text \<open>
  The state after the deleted messages \<open>ds\<close> and the new messages \<open>ms\<close>: nothing is collected in \<^verbatim>\<open>updateMessage\<close>, the
  deleted ones are in \<^verbatim>\<open>insertMessage\<close>, the lists of the user's own and of the others' messages are, up to names, the new ones,
  and the three lists are in arrays of their own.
\<close>

definition lists_ok :: "LocalChatLog list \<Rightarrow> LocalChatLog list \<Rightarrow> pull_vars \<Rightarrow> bool" where
  "lists_ok ds ms p \<longleftrightarrow> pv_update p = nil_slice \<and> owns p (pv_insert p) \<and> owns p (pv_self p) \<and> owns p (pv_others p) \<and>
     sep (pv_insert p) (pv_self p) \<and> sep (pv_insert p) (pv_others p) \<and> sep (pv_self p) (pv_others p) \<and>
     map anon (deref p (pv_insert p)) = map anon ds \<and>
     mset (map anon (deref p (pv_self p) @ deref p (pv_others p))) = mset (map anon ms)"

lemma push_elems:
  assumes "grows grow" and "owns p sl" and "push_msg grow sl msg p = (sl', p')"
  shows "owns p' sl'" and "map anon (deref p' sl') = map anon (deref p sl) @ [anon msg]"
    and "pv_objs p' = pv_objs p @ [msg]"
    and "sl_arr sl' = sl_arr sl \<and> sl_cap sl' = sl_cap sl \<or> sl_arr sl' = length (pv_arrs p)"
    and "\<exists>as. p' = p\<lparr>pv_objs := pv_objs p @ [msg], pv_arrs := as\<rparr> \<and> append_slice grow sl [length (pv_objs p)] (pv_arrs p) = (sl', as)"
proof -
  obtain as where a: "append_slice grow sl [length (pv_objs p)] (pv_arrs p) = (sl', as)"
    and p': "p' = p\<lparr>pv_objs := pv_objs p @ [msg], pv_arrs := as\<rparr>"
    using assms(3) by (auto simp: push_msg_def split: prod.splits)
  have b: "backed (pv_arrs p) sl" using assms(2) by (simp add: owns_def)
  note e = append_slice_elems [OF assms(1) b a]
  show "owns p' sl'" using e assms(2) by (auto simp: owns_def p' less_SucI)
  show "map anon (deref p' sl') = map anon (deref p sl) @ [anon msg]"
    using e(1) assms(2) by (auto simp: deref_def p' owns_def nth_append)
  show "pv_objs p' = pv_objs p @ [msg]" by (simp add: p')
  show "sl_arr sl' = sl_arr sl \<and> sl_cap sl' = sl_cap sl \<or> sl_arr sl' = length (pv_arrs p)"
    by (rule append_slice_arr [OF a])
  show "\<exists>as. p' = p\<lparr>pv_objs := pv_objs p @ [msg], pv_arrs := as\<rparr> \<and> append_slice grow sl [length (pv_objs p)] (pv_arrs p) = (sl', as)"
    using p' a by blast
qed

lemma push_other:
  assumes "owns p sl" and "owns p u" and "push_msg grow sl msg p = (sl', p')" and "sep sl u"
  shows "owns p' u" and "deref p' u = deref p u" and "sep sl' u"
proof -
  obtain as where a: "append_slice grow sl [length (pv_objs p)] (pv_arrs p) = (sl', as)"
    and p': "p' = p\<lparr>pv_objs := pv_objs p @ [msg], pv_arrs := as\<rparr>"
    using assms(3) by (auto simp: push_msg_def split: prod.splits)
  have b: "backed (pv_arrs p) sl" "backed (pv_arrs p) u" using assms(1,2) by (simp_all add: owns_def)
  have e: "elems as u = elems (pv_arrs p) u"
  proof (cases "sl_cap u = 0")
    case True
    with b(2) show ?thesis by (simp add: backed_def elems_def)
  next
    case False
    with append_slice_other [OF a b(2)] assms(4) show ?thesis by (auto simp: sep_def)
  qed
  show "owns p' u" using e append_slice_backed [OF a b(2,1)] assms(2) by (auto simp: owns_def p' less_SucI)
  show "deref p' u = deref p u" using e assms(2) by (auto simp: deref_def p' owns_def nth_append)
  show "sep sl' u" using append_slice_arr [OF a] assms(4) b(2) by (auto simp: backed_def sep_def)
qed

lemma sep_sym: "sep a b \<Longrightarrow> sep b a"
  by (auto simp: sep_def)

text \<open>One message is appended to one of the three lists.\<close>

lemma push_keeps_lists:
  assumes "push_msg grow sl msg p = (sl', p')"
  shows "pv_insert p' = pv_insert p" "pv_self p' = pv_self p" "pv_others p' = pv_others p" "pv_update p' = pv_update p"
    "pv_insertMsg p' = pv_insertMsg p" "pv_updateMsg p' = pv_updateMsg p"
  using assms by (auto simp: push_msg_def split: prod.splits)

lemma field_views [simp]:
  "deref (p\<lparr>pv_self := u\<rparr>) x = deref p x" "deref (p\<lparr>pv_others := u\<rparr>) x = deref p x" "deref (p\<lparr>pv_insert := u\<rparr>) x = deref p x"
  "owns (p\<lparr>pv_self := u\<rparr>) x = owns p x" "owns (p\<lparr>pv_others := u\<rparr>) x = owns p x" "owns (p\<lparr>pv_insert := u\<rparr>) x = owns p x"
  by (simp_all add: deref_def owns_def)

lemma lists_okD:
  assumes "lists_ok ds ms p"
  shows "owns p (pv_insert p)" "owns p (pv_self p)" "owns p (pv_others p)"
    "sep (pv_insert p) (pv_self p)" "sep (pv_insert p) (pv_others p)" "sep (pv_self p) (pv_others p)"
  using assms by (simp_all add: lists_ok_def)

lemma to_self_ok:
  assumes "grows grow" and "lists_ok ds ms p"
  shows "lists_ok ds (ms @ [msg]) (to_self grow msg p)"
    and "pv_insertMsg (to_self grow msg p) = pv_insertMsg p" and "pv_updateMsg (to_self grow msg p) = pv_updateMsg p"
proof -
  obtain sl' p' where push: "push_msg grow (pv_self p) msg p = (sl', p')" by (metis prod.collapse)
  note own = lists_okD [OF assms(2)] and keep = push_keeps_lists [OF push]
  note e = push_elems [OF assms(1) own(2) push]
  note o = push_other [OF own(2,3) push own(6)] and i = push_other [OF own(2,1) push sep_sym [OF own(4)]]
  show "lists_ok ds (ms @ [msg]) (to_self grow msg p)"
    using assms(2) e(1,2) o i(1,2) sep_sym [OF i(3)] keep by (simp add: lists_ok_def to_self_def push)
  show "pv_insertMsg (to_self grow msg p) = pv_insertMsg p" "pv_updateMsg (to_self grow msg p) = pv_updateMsg p"
    by (simp_all add: to_self_def push keep)
qed

lemma to_others_ok:
  assumes "grows grow" and "lists_ok ds ms p"
  shows "lists_ok ds (ms @ [msg]) (to_others grow msg p)"
    and "pv_insertMsg (to_others grow msg p) = pv_insertMsg p" and "pv_updateMsg (to_others grow msg p) = pv_updateMsg p"
proof -
  obtain sl' p' where push: "push_msg grow (pv_others p) msg p = (sl', p')" by (metis prod.collapse)
  note own = lists_okD [OF assms(2)] and keep = push_keeps_lists [OF push]
  note e = push_elems [OF assms(1) own(3) push]
  note o = push_other [OF own(3,2) push sep_sym [OF own(6)]] and i = push_other [OF own(3,1) push sep_sym [OF own(5)]]
  show "lists_ok ds (ms @ [msg]) (to_others grow msg p)"
    using assms(2) e(1,2) o(1,2) i(1,2) sep_sym [OF o(3)] sep_sym [OF i(3)] keep
    by (simp add: lists_ok_def to_others_def push)
  show "pv_insertMsg (to_others grow msg p) = pv_insertMsg p" "pv_updateMsg (to_others grow msg p) = pv_updateMsg p"
    by (simp_all add: to_others_def push keep)
qed

lemma to_insert_ok:
  assumes "grows grow" and "lists_ok ds ms p"
  shows "lists_ok (ds @ [msg]) ms (to_insert grow msg p)"
    and "pv_insertMsg (to_insert grow msg p) = pv_insertMsg p" and "pv_updateMsg (to_insert grow msg p) = pv_updateMsg p"
proof -
  obtain sl' p' where push: "push_msg grow (pv_insert p) msg p = (sl', p')" by (metis prod.collapse)
  note own = lists_okD [OF assms(2)] and keep = push_keeps_lists [OF push]
  note e = push_elems [OF assms(1) own(1) push]
  note o = push_other [OF own(1,2) push own(4)] and i = push_other [OF own(1,3) push own(5)]
  show "lists_ok (ds @ [msg]) ms (to_insert grow msg p)"
    using assms(2) e(1,2) o i keep by (simp add: lists_ok_def to_insert_def push)
  show "pv_insertMsg (to_insert grow msg p) = pv_insertMsg p" "pv_updateMsg (to_insert grow msg p) = pv_updateMsg p"
    by (simp_all add: to_insert_def push keep)
qed

lemma lists_ok_start: "lists_ok [] [] no_vars"
  by (simp add: lists_ok_def no_vars_def owns_def deref_def nil_slice_def backed_def elems_def sep_def)

text \<open>
  Where an append of \<open>n\<close> elements leaves its result: in the same array when there is room, in an array of its own otherwise.
  A slice \<open>u\<close> \<open>lags\<close> behind \<open>s\<close> if appending to \<open>s\<close> does not change it.
\<close>

definition in_place :: "nat \<Rightarrow> slice \<Rightarrow> slice \<Rightarrow> bool" where
  "in_place n s s' \<longleftrightarrow> (if sl_len s + n \<le> sl_cap s then s' = s\<lparr>sl_len := sl_len s + n\<rparr> else sep s s')"

definition lags :: "slice \<Rightarrow> slice \<Rightarrow> bool" where
  "lags u s \<longleftrightarrow> sep s u \<or> u = s\<lparr>sl_len := sl_len u\<rparr> \<and> sl_len u \<le> sl_len s"

lemma append_in_place:
  assumes "append_slice grow s xs as = (s', as')" and "backed as s"
  shows "in_place (length xs) s s'"
  using assms by (auto simp: append_slice_def Let_def in_place_def sep_def backed_def split: if_splits)

lemma append_lags:
  assumes "append_slice grow s xs as = (s', as')" and "backed as s" and "backed as u" and "lags u s"
  shows "elems as' u = elems as u" and "lags u s'"
proof -
  have "elems as' u = elems as u \<and> lags u s'"
  proof (cases "sep s u")
    case True
    have "elems as' u = elems as u"
    proof (cases "sl_cap u = 0")
      case True
      with assms(3) show ?thesis by (simp add: backed_def elems_def)
    next
      case False
      with append_slice_other [OF assms(1,3)] \<open>sep s u\<close> show ?thesis by (auto simp: sep_def)
    qed
    moreover have "sep s' u" using append_slice_arr [OF assms(1)] True assms(3) by (auto simp: backed_def sep_def)
    ultimately show ?thesis by (simp add: lags_def)
  next
    case False
    with assms(4) have u: "u = s\<lparr>sl_len := sl_len u\<rparr>" "sl_len u \<le> sl_len s" by (auto simp: lags_def)
    then have arr: "sl_arr u = sl_arr s" by (metis slice.select_convs(1) slice.surjective slice.update_convs(2))
    have "take (sl_len u) (elems as' s) = take (sl_len u) (elems as s)"
      using append_slice_same [OF assms(1,2)] by simp
    then have "elems as' u = elems as u" using u(2) arr by (simp add: elems_def min_def)
    moreover have "lags u s'"
      using u assms(1-3) by (cases s) (auto simp: append_slice_def Let_def lags_def sep_def backed_def split: if_splits)
    ultimately show ?thesis by simp
  qed
  then show "elems as' u = elems as u" "lags u s'" by simp_all
qed

lemma to_insert_lags:
  assumes "lists_ok ds ms p" and "owns p u" and "lags u (pv_insert p)"
  shows "owns (to_insert grow msg p) u" and "deref (to_insert grow msg p) u = deref p u"
    and "lags u (pv_insert (to_insert grow msg p))"
proof -
  obtain sl' as where a: "append_slice grow (pv_insert p) [length (pv_objs p)] (pv_arrs p) = (sl', as)" by (metis prod.collapse)
  have b: "backed (pv_arrs p) (pv_insert p)" "backed (pv_arrs p) u"
    using lists_okD(1) [OF assms(1)] assms(2) by (simp_all add: owns_def)
  note l = append_lags [OF a b assms(3)]
  have "backed as u" by (rule append_slice_backed [OF a b(2,1)])
  with l assms(2) show "owns (to_insert grow msg p) u" "deref (to_insert grow msg p) u = deref p u"
      "lags u (pv_insert (to_insert grow msg p))"
    by (auto simp: to_insert_def push_msg_def a owns_def deref_def nth_append less_SucI)
qed

text \<open>
  The list to be stored is put together anew: the deleted messages, then the user's own and the others'.
\<close>

lemma set_lists_ok:
  assumes "grows (cx_grow E)" and "lists_ok ds ms p" and "set_lists E k (p, s) = (p', s')"
  shows "lists_ok ds ms p'"
    and "\<exists>sl rest. pv_insertMsg p' = gput k sl (pv_insertMsg p) \<and> map anon (deref p' sl) = map anon ds @ rest \<and>
      mset rest = mset (map anon ms) \<and> owns p' sl \<and> in_place (length ms) (pv_insert p) sl"
    and "pv_updateMsg p' = gput k nil_slice (pv_updateMsg p)" and "pv_insert p' = pv_insert p"
proof -
  let ?as = "pv_arrs p" let ?ins = "elems ?as (pv_insert p)" let ?selfs = "elems ?as (pv_self p)" let ?oths = "elems ?as (pv_others p)"
  obtain f g where face: "faceURLAndNicknameHandle E (deref p (pv_self p)) (deref p (pv_others p)) k s = ((f, g), s')"
    and p'1: "\<exists>objs joined as1 sl as2. objs = change_objs g ?oths (change_objs f ?selfs (pv_objs p)) \<and>
       append_slice (cx_grow E) (pv_self p) ?oths ?as = (joined, as1) \<and>
       append_slice (cx_grow E) (pv_insert p) (elems as1 joined) as1 = (sl, as2) \<and>
       p' = p\<lparr>pv_objs := objs, pv_arrs := as2, pv_insertMsg := gput k sl (pv_insertMsg p),
               pv_updateMsg := gput k (pv_update p) (pv_updateMsg p)\<rparr>"
    using assms(3) by (simp add: set_lists_def Let_def split: prod.splits)
  then obtain objs joined as1 sl as2
    where objs: "objs = change_objs g ?oths (change_objs f ?selfs (pv_objs p))"
      and a1: "append_slice (cx_grow E) (pv_self p) ?oths ?as = (joined, as1)"
      and a2: "append_slice (cx_grow E) (pv_insert p) (elems as1 joined) as1 = (sl, as2)"
      and p': "p' = p\<lparr>pv_objs := objs, pv_arrs := as2, pv_insertMsg := gput k sl (pv_insertMsg p),
               pv_updateMsg := gput k nil_slice (pv_updateMsg p)\<rparr>"
    using assms(2) by (auto simp: lists_ok_def)
  have so: "sender_only f" "sender_only g" using face_sender_only [OF face] by simp_all
  have an: "map anon objs = map anon (pv_objs p)" "length objs = length (pv_objs p)"
    using so by (simp_all add: objs change_objs_anon change_objs_length)
  note own = lists_okD [OF assms(2)]
  then have b: "backed ?as (pv_insert p)" "backed ?as (pv_self p)" "backed ?as (pv_others p)" by (simp_all add: owns_def)
  note e1 = append_slice_elems [OF assms(1) b(2) a1]
  have b1: "backed as1 (pv_insert p)" "backed as1 (pv_self p)" "backed as1 (pv_others p)" using append_slice_backed [OF a1] b by blast+
  have other: "elems bs' u = elems bs u"
    if "append_slice gr sl0 xs bs = (sl1, bs')" "backed bs u" "sep sl0 u" for gr sl0 xs bs sl1 bs' u
  proof (cases "sl_cap u = 0")
    case True
    with that(2) show ?thesis by (simp add: backed_def elems_def)
  next
    case False
    with append_slice_other [OF that(1,2)] that(3) show ?thesis by (auto simp: sep_def)
  qed
  have 1: "elems as1 (pv_insert p) = ?ins" "elems as1 (pv_self p) = ?selfs" "elems as1 (pv_others p) = ?oths"
    using other [OF a1 b(1)] other [OF a1 b(3)] append_slice_same [OF a1 b(2)] own sep_sym by blast+
  have 2: "elems as2 (pv_insert p) = ?ins" "elems as2 (pv_self p) = ?selfs" "elems as2 (pv_others p) = ?oths"
    using other [OF a2 b1(2)] other [OF a2 b1(3)] append_slice_same [OF a2 b1(1)] own 1 by simp_all
  have b2: "backed as2 (pv_insert p)" "backed as2 (pv_self p)" "backed as2 (pv_others p)"
    using append_slice_backed [OF a2 _ b1(1)] b1 by blast+
  have sl: "elems as2 sl = ?ins @ ?selfs @ ?oths"
    using append_slice_elems(1) [OF assms(1) b1(1) a2] e1(1) 1(1) by simp
  have lt: "\<forall>a \<in> set ?ins. a < length objs" "\<forall>a \<in> set ?selfs. a < length objs" "\<forall>a \<in> set ?oths. a < length objs"
    using own an(2) by (simp_all add: owns_def)
  have deref_eq: "map anon (map (\<lambda>a. objs ! a) addrs) = map anon (map (\<lambda>a. pv_objs p ! a) addrs)"
    if "\<forall>a \<in> set addrs. a < length objs" for addrs
  proof -
    have "anon (objs ! a) = anon (pv_objs p ! a)" if "a < length objs" for a
      using that an by (metis nth_map)
    with that show ?thesis by simp
  qed
  have de: "map anon (deref p' (pv_insert p)) = map anon (deref p (pv_insert p))"
      "map anon (deref p' (pv_self p)) = map anon (deref p (pv_self p))"
      "map anon (deref p' (pv_others p)) = map anon (deref p (pv_others p))"
    using 2 deref_eq [OF lt(1)] deref_eq [OF lt(2)] deref_eq [OF lt(3)] unfolding deref_def by (simp_all add: p')
  have ow: "owns p' (pv_insert p)" "owns p' (pv_self p)" "owns p' (pv_others p)"
    using b2 2 lt by (simp_all add: owns_def p')
  have f: "pv_self p' = pv_self p" "pv_others p' = pv_others p" "pv_insert p' = pv_insert p" "pv_update p' = pv_update p"
    by (simp_all add: p')
  show "lists_ok ds ms p'"
    using assms(2) ow unfolding lists_ok_def f map_append de by blast
  have "map anon (deref p' sl) = map anon (deref p (pv_insert p) @ deref p (pv_self p) @ deref p (pv_others p))"
    using sl deref_eq [of "?ins @ ?selfs @ ?oths"] lt by (auto simp: p' deref_def)
  moreover have "owns p' sl"
    using append_slice_elems(2) [OF assms(1) b1(1) a2] sl lt by (auto simp: owns_def p')
  moreover have "length (elems as1 joined) = length ms"
  proof -
    have "length (map anon (deref p (pv_self p) @ deref p (pv_others p))) = length (map anon ms)"
      using assms(2) mset_eq_length unfolding lists_ok_def by blast
    then show ?thesis using e1(1) by (simp add: deref_def)
  qed
  then have "in_place (length ms) (pv_insert p) sl"
    using append_in_place [OF a2 b1(1)] by simp
  ultimately show "\<exists>sl rest. pv_insertMsg p' = gput k sl (pv_insertMsg p) \<and> map anon (deref p' sl) = map anon ds @ rest \<and>
      mset rest = mset (map anon ms) \<and> owns p' sl \<and> in_place (length ms) (pv_insert p) sl"
    using assms(2) by (intro exI [of _ sl] exI [of _ "map anon (deref p (pv_self p) @ deref p (pv_others p))"])
      (simp add: p' lists_ok_def)
  show "pv_insert p' = pv_insert p" by (rule f(3))
  show "pv_updateMsg p' = gput k nil_slice (pv_updateMsg p)" by (simp add: p')
qed

definition as_sent :: "MsgData \<Rightarrow> LocalChatLog" where
  "as_sent v = (msgDataToLocalChatLog v)\<lparr>cl_Status := MsgStatusSendSuccess\<rparr>"

lemma as_sent_id [simp]: "cl_ClientMsgID (as_sent v) = md_ClientMsgID v"
  by (simp add: as_sent_def msgDataToLocalChatLog_def)

lemma as_sent_eq: "(msgDataToLocalChatLog v)\<lparr>cl_Status := MsgStatusSendSuccess\<rparr> = as_sent v"
  by (simp add: as_sent_def)

lemma data_status [simp]: "cl_Status (msgDataToLocalChatLog v) = md_Status v"
  by (simp add: msgDataToLocalChatLog_def)

definition ordinary :: "MsgData \<Rightarrow> bool" where
  "ordinary v \<longleftrightarrow> md_Status v \<noteq> MsgStatusHasDeleted \<and> md_ClientMsgID v \<noteq> []"

definition removed :: "MsgData \<Rightarrow> bool" where
  "removed v \<longleftrightarrow> md_Status v = MsgStatusHasDeleted"

text \<open>The row a pulled message becomes.\<close>

definition as_pulled :: "MsgData \<Rightarrow> LocalChatLog" where
  "as_pulled v = (if removed v then msgDataToLocalChatLog v else as_sent v)"

lemma as_pulled_id [simp]: "cl_ClientMsgID (as_pulled v) = md_ClientMsgID v"
  by (simp add: as_pulled_def msgDataToLocalChatLog_def)

text \<open>
  After the deleted messages \<open>ds\<close> and the others \<open>ms\<close> the map of the lists to be stored has an entry once there was an
  ordinary message; that entry is up to date right after an ordinary message.
\<close>

definition collected :: "string \<Rightarrow> LocalChatLog list \<Rightarrow> LocalChatLog list \<Rightarrow> pull_vars \<Rightarrow> bool" where
  "collected k ds ms p \<longleftrightarrow> lists_ok ds ms p \<and>
     (if ms = [] then pv_insertMsg p = [] \<and> pv_updateMsg p = []
      else pv_updateMsg p = [(k, nil_slice)] \<and> (\<exists>sl. pv_insertMsg p = [(k, sl)]))"

definition to_store :: "string \<Rightarrow> LocalChatLog list \<Rightarrow> LocalChatLog list \<Rightarrow> nat \<Rightarrow> slice \<Rightarrow> pull_vars \<Rightarrow> bool" where
  "to_store k ds ms n ins p \<longleftrightarrow> pv_insert p = ins \<and>
     (\<exists>sl rest. pv_updateMsg p = [(k, nil_slice)] \<and> pv_insertMsg p = [(k, sl)] \<and> map anon (deref p sl) = map anon ds @ rest \<and>
       mset rest = mset (map anon ms) \<and> owns p sl \<and> in_place n ins sl)"

lemma mset_map_split: "mset (map f xs) = mset (map f (filter P xs)) + mset (map f (filter (\<lambda>x. \<not> P x) xs))"
  by (induction xs) simp_all

lemma anon_ids: "map anon xs = map anon ys \<Longrightarrow> map cl_ClientMsgID xs = map cl_ClientMsgID ys"
proof -
  have "map cl_ClientMsgID zs = map cl_ClientMsgID (map anon zs)" for zs by simp
  then show "map anon xs = map anon ys \<Longrightarrow> map cl_ClientMsgID xs = map cl_ClientMsgID ys" by metis
qed

lemma insert_collected:
  assumes "grows (cx_grow E)" and "collected k ds ms p" and "removed v" and "pull_message E k v (p, s) = (p', s')"
  shows "collected k (ds @ [as_pulled v]) ms p'" and "s' = s" and "p' = to_insert (cx_grow E) (as_pulled v) p"
proof -
  show p: "p' = to_insert (cx_grow E) (as_pulled v) p" and "s' = s"
    using assms(3,4) by (auto simp: pull_message_def as_pulled_def removed_def Let_def)
  note ok = to_insert_ok [OF assms(1), of ds ms p "as_pulled v"]
  show "collected k (ds @ [as_pulled v]) ms p'"
    using assms(2) ok by (auto simp: collected_def p)
qed

text \<open>The capacity of a list that was filled by single appends.\<close>

fun cap_after :: "(nat \<Rightarrow> nat \<Rightarrow> nat) \<Rightarrow> nat \<Rightarrow> nat" where
  "cap_after grow 0 = 0"
| "cap_after grow (Suc n) = (if Suc n \<le> cap_after grow n then cap_after grow n else grow (cap_after grow n) (Suc n))"

lemma to_insert_cap:
  "sl_cap (pv_insert (to_insert grow msg p)) =
     (if Suc (sl_len (pv_insert p)) \<le> sl_cap (pv_insert p) then sl_cap (pv_insert p)
      else grow (sl_cap (pv_insert p)) (Suc (sl_len (pv_insert p))))"
  by (simp add: to_insert_def push_msg_def append_slice_def Let_def)

lemma insert_len: "lists_ok ds ms p \<Longrightarrow> sl_len (pv_insert p) = length ds"
proof -
  assume l: "lists_ok ds ms p"
  then have "length (map anon (deref p (pv_insert p))) = length (map anon ds)" by (simp only: lists_ok_def)
  moreover have "length (deref p (pv_insert p)) = sl_len (pv_insert p)"
    using lists_okD(1) [OF l] by (cases "sl_cap (pv_insert p) = 0") (auto simp: owns_def backed_def deref_def elems_def)
  ultimately show ?thesis by simp
qed

text \<open>A run of deleted messages only extends \<^verbatim>\<open>insertMessage\<close>; a list that lags behind it stays as it is.\<close>

lemma run_of_deleted:
  assumes "grows (cx_grow E)"
  shows "collected k xs ms p \<Longrightarrow> \<forall>v \<in> set ds. removed v \<Longrightarrow> fold (pull_message E k) ds (p, s) = (p', s') \<Longrightarrow>
    collected k (xs @ map as_pulled ds) ms p' \<and> s' = s \<and>
    (sl_cap (pv_insert p) = cap_after (cx_grow E) (length xs) \<longrightarrow>
     sl_cap (pv_insert p') = cap_after (cx_grow E) (length xs + length ds)) \<and>
    pv_insertMsg p' = pv_insertMsg p \<and> pv_updateMsg p' = pv_updateMsg p \<and>
    (\<forall>u. owns p u \<and> lags u (pv_insert p) \<longrightarrow> deref p' u = deref p u)"
proof (induction ds arbitrary: xs p)
  case (Cons d ds)
  obtain p1 s1 where st: "pull_message E k d (p, s) = (p1, s1)" by (metis prod.collapse)
  have d: "removed d" using Cons.prems(2) by simp
  note i = insert_collected [OF assms Cons.prems(1) d st]
  have ok: "lists_ok xs ms p" using Cons.prems(1) by (simp add: collected_def)
  have "fold (pull_message E k) ds (p1, s) = (p', s')" using Cons.prems(3) st i(2) by simp
  note ih = Cons.IH [OF i(1) _ this]
  have cap: "sl_cap (pv_insert p1) = cap_after (cx_grow E) (length (xs @ [as_pulled d]))"
    if "sl_cap (pv_insert p) = cap_after (cx_grow E) (length xs)"
    using that by (simp add: i(3) to_insert_cap insert_len [OF ok])
  show ?case
    using ih cap Cons.prems(2) to_insert_lags [OF ok] to_insert_ok(2,3) [OF assms ok] by (simp add: i(3))
qed simp

context healthy_tables
begin

lemma pull_ordinary:
  assumes "grows (cx_grow E)" and "collected k ds ms p" and "healthy (co_db s)" and "ordinary v"
    and "\<forall>r \<in> set (chat_rows (GetTableName k) (co_db s)). cl_ClientMsgID r \<noteq> md_ClientMsgID v"
    and "pull_message E k v (p, s) = (p', s')"
  shows "collected k ds (ms @ [as_pulled v]) p'" and "to_store k ds (ms @ [as_pulled v]) (Suc (length ms)) (pv_insert p) p'"
    and "healthy (co_db s')" and "chat_rows name (co_db s') = chat_rows name (co_db s)"
proof -
  let ?T = "GetTableName k" let ?msg = "as_sent v"
  have pulled: "as_pulled v = ?msg" using assms(4) by (simp add: as_pulled_def removed_def ordinary_def)
  obtain r s1 where g: "on_db (GetMessage (cx_chat E) k (cl_ClientMsgID ?msg)) s = (r, s1)" by (metis prod.collapse)
  obtain r0 t1 where t: "gorm_take (cx_chat E ?T) (\<lambda>r. cl_ClientMsgID r = md_ClientMsgID v) (co_db s) = (r0, t1)"
    by (metis prod.collapse)
  have "\<not> isl r0 \<Longrightarrow> False"
    using gorm_table.take_in [OF chat_table, of ?T "\<lambda>r. cl_ClientMsgID r = md_ClientMsgID v" "co_db s"] t assms(5)
    by (cases r0) auto
  then have s1: "s1 = s\<lparr>co_db := t1\<rparr>" and inl: "isl r"
    using g t by (auto simp: on_db_def GetMessage_def wrap_res_def split: prod.splits sum.splits)
  have rows1: "chat_rows name t1 = chat_rows name (co_db s)" for name
    using gorm_table.take_rows [OF chat_table t] keepsD(2) [OF chat_keeps_chat t] by (cases "name = ?T") auto
  have h1: "healthy t1" by (rule staysD(2) [OF chat_stays t assms(3)])
  let ?p = "if md_SendID v = cx_loginUserID E then to_self (cx_grow E) ?msg p else to_others (cx_grow E) ?msg p"
  have sl: "set_lists E k (?p, s1) = (p', s')"
    using assms(4,6) g inl
    by (cases r) (auto simp: pull_message_def Let_def as_sent_eq ordinary_def split: prod.splits if_splits)
  have lists: "lists_ok ds (ms @ [?msg]) ?p" and keep: "pv_insertMsg ?p = pv_insertMsg p" "pv_updateMsg ?p = pv_updateMsg p"
    using to_self_ok [OF assms(1)] to_others_ok [OF assms(1)] assms(2) by (auto simp: collected_def)
  have ins: "pv_insert ?p = pv_insert p"
    by (auto simp: to_self_def to_others_def push_msg_def split: prod.splits)
  note ok = set_lists_ok [OF assms(1) lists sl]
  have store: "to_store k ds (ms @ [?msg]) (Suc (length ms)) (pv_insert p) p'"
    using assms(2) ok ins keep by (auto simp: to_store_def collected_def split: if_splits)
  then show "to_store k ds (ms @ [as_pulled v]) (Suc (length ms)) (pv_insert p) p'" by (simp add: pulled)
  show "collected k ds (ms @ [as_pulled v]) p'"
    using store ok(1) by (auto simp: collected_def to_store_def pulled)
  obtain fs where face: "faceURLAndNicknameHandle E (deref ?p (pv_self ?p)) (deref ?p (pv_others ?p)) k s1 = (fs, s')"
    using sl by (auto simp: set_lists_def Let_def split: prod.splits)
  show "chat_rows name (co_db s') = chat_rows name (co_db s)"
    using face_keeps_chat [OF face] rows1 by (simp add: s1)
  show "healthy (co_db s')" using face_stays [OF face] h1 by (simp add: s1)
qed

lemma pull_messages_ok:
  assumes "grows (cx_grow E)"
  shows "collected k ds ms p \<Longrightarrow> healthy (co_db s) \<Longrightarrow> \<forall>v \<in> set vs. removed v \<or> ordinary v \<Longrightarrow>
    \<forall>v \<in> set vs. \<forall>r \<in> set (chat_rows (GetTableName k) (co_db s)). cl_ClientMsgID r \<noteq> md_ClientMsgID v \<Longrightarrow>
    fold (pull_message E k) vs (p, s) = (p', s') \<Longrightarrow>
    collected k (ds @ map as_pulled (filter removed vs)) (ms @ map as_pulled (filter (\<lambda>v. \<not> removed v) vs)) p' \<and>
    healthy (co_db s') \<and> (\<forall>name. chat_rows name (co_db s') = chat_rows name (co_db s))"
proof (induction vs arbitrary: ds ms p s)
  case (Cons v vs)
  obtain p1 s1 where st: "pull_message E k v (p, s) = (p1, s1)" by (metis prod.collapse)
  have rest: "fold (pull_message E k) vs (p1, s1) = (p', s')" using Cons.prems(5) st by simp
  show ?case
  proof (cases "removed v")
    case True
    note i = insert_collected [OF assms Cons.prems(1) True st]
    show ?thesis
      using Cons.IH [OF i(1) _ _ _ rest] Cons.prems(2-4) i(2) True by simp
  next
    case False
    with Cons.prems(3) have "ordinary v" by simp
    note o = pull_ordinary [OF assms Cons.prems(1,2) this _ st]
    show ?thesis
      using Cons.IH [OF o(1) o(3) _ _ rest] Cons.prems(3,4) o(4) False by simp
  qed
qed simp

lemma update_nothing:
  assumes "controller_BatchUpdateMessageList E [(k, [])] s = (r, s')" and "any_order (cx_range_logs E)" and "healthy (co_db s)"
  shows "healthy (co_db s')" and "chat_rows name (co_db s') = chat_rows name (co_db s)"
proof -
  have "cx_range_logs E [(k, [])] = [(k, [])]"
    using assms(2) by (metis any_order_def mset_single_iff)
  then show "healthy (co_db s')" "chat_rows name (co_db s') = chat_rows name (co_db s)"
    using assms(1,3)
    by (auto simp: controller_BatchUpdateMessageList_def on_db_def GetConversation_def wrap_res_def and_then_def
        dest: staysD(2) [OF conv_stays] keepsD(2) [OF conv_keeps_chat] split: prod.splits sum.splits option.splits)
qed

lemma insert_new:
  assumes "controller_BatchInsertMessageList E [(k, xs)] s = s'" and "any_order (cx_range_logs E)"
    and "healthy (co_db s)" and "xs \<noteq> []"
    and "distinct (map cl_ClientMsgID (chat_rows (GetTableName k) (co_db s) @ xs))"
  shows "chat_rows (GetTableName k) (co_db s') = chat_rows (GetTableName k) (co_db s) @ xs"
proof -
  let ?T = "GetTableName k"
  have order: "cx_range_logs E [(k, xs)] = [(k, xs)]"
    using assms(2) by (metis any_order_def mset_single_iff)
  obtain e t where c: "gorm_create (cx_chat E ?T) xs (co_db s) = (e, t)" by (metis prod.collapse)
  have "e = None" by (rule chat_create [OF assms(3,5) c])
  then have "chat_rows ?T t = chat_rows ?T (co_db s) @ xs"
    using gorm_table.create_ok [OF chat_table] c by blast
  with assms(1,4) order c \<open>e = None\<close> show ?thesis
    by (auto simp: controller_BatchInsertMessageList_def on_db_def BatchInsertMessageList_def wrap_act_def)
qed

lemma flush_ok:
  assumes "any_order (cx_range_logs E)" and "healthy (co_db s)"
    and "pv_updateMsg p = [(k, nil_slice)]" and "pv_insertMsg p = [(k, sl)]" and "map anon (deref p sl) = map anon xs" and "xs \<noteq> []"
    and "distinct (map cl_ClientMsgID (chat_rows (GetTableName k) (co_db s)))" and "distinct (map cl_ClientMsgID xs)"
    and "\<forall>x \<in> set xs. \<forall>r \<in> set (chat_rows (GetTableName k) (co_db s)). cl_ClientMsgID r \<noteq> cl_ClientMsgID x"
  shows "chat_rows (GetTableName k) (co_db (snd (flush_lists E (p, s)))) = chat_rows (GetTableName k) (co_db s) @ deref p sl"
proof -
  let ?T = "GetTableName k" let ?xs = "deref p sl"
  obtain r s2 where u: "controller_BatchUpdateMessageList E [(k, [])] s = (r, s2)" by (metis prod.collapse)
  note un = update_nothing [OF u assms(1,2)]
  have ids: "map cl_ClientMsgID ?xs = map cl_ClientMsgID xs" by (rule anon_ids [OF assms(5)])
  have ne: "?xs \<noteq> []" using assms(5,6) by (metis list.map_disc_iff)
  have "set (map cl_ClientMsgID (chat_rows ?T (co_db s))) \<inter> set (map cl_ClientMsgID ?xs) = {}"
    using assms(9) unfolding ids by auto
  then have "distinct (map cl_ClientMsgID (chat_rows ?T (co_db s2) @ ?xs))"
    using assms(7,8) ids un(2) [of ?T] by simp
  from insert_new [OF refl assms(1) un(1) ne this] un(2) [of ?T] show ?thesis
    by (simp add: flush_lists_def assms(3,4) lists_of_def u deref_def)
qed

text \<open>One conversation whose last message is an ordinary one.\<close>

lemma pull_stores:
  assumes "grows (cx_grow E)" and "any_order (cx_range_pull E)" and "any_order (cx_range_logs E)" and "healthy (co_db s)"
    and ord: "\<forall>v \<in> set vs. removed v \<or> ordinary v" and dist: "distinct (map md_ClientMsgID vs)"
    and new: "\<forall>v \<in> set vs. \<forall>r \<in> set (chat_rows (GetTableName k) (co_db s)). cl_ClientMsgID r \<noteq> md_ClientMsgID v"
    and keys: "distinct (map cl_ClientMsgID (chat_rows (GetTableName k) (co_db s)))"
    and "pm_Msgs msgs = vs" and last: "vs \<noteq> [] \<Longrightarrow> \<not> removed (last vs)"
  shows "\<exists>stored. mset (map anon stored) = mset (map (\<lambda>v. anon (as_pulled v)) vs) \<and>
    chat_rows (GetTableName k) (co_db (pullMessageIntoTable E [(k, msgs)] s)) =
      chat_rows (GetTableName k) (co_db s) @ stored"
proof (cases vs rule: rev_cases)
  case Nil
  have "cx_range_pull E [(k, msgs)] = [(k, msgs)]" "cx_range_logs E [] = []"
    using assms(2,3) by (metis any_order_def mset_single_iff, metis any_order_def mset_zero_iff)
  then show ?thesis
    by (intro exI [of _ "[]"])
      (simp add: Nil assms(9) pullMessageIntoTable_def flush_lists_def lists_of_def no_vars_def
        controller_BatchInsertMessageList_def controller_BatchUpdateMessageList_def)
next
  case (snoc ws w)
  let ?T = "GetTableName k" let ?ds = "map as_pulled (filter removed ws)" let ?ms = "map as_pulled (filter (\<lambda>v. \<not> removed v) ws)"
  obtain p1 s1 where f: "fold (pull_message E k) ws (no_vars, s) = (p1, s1)" by (metis prod.collapse)
  have start: "collected k [] [] no_vars" using lists_ok_start by (simp add: collected_def no_vars_def)
  have g: "collected k ?ds ?ms p1" "healthy (co_db s1)" "\<And>name. chat_rows name (co_db s1) = chat_rows name (co_db s)"
    using pull_messages_ok [OF assms(1) start assms(4) _ _ f] ord new by (simp_all add: snoc)
  obtain p2 s2 where st: "pull_message E k w (p1, s1) = (p2, s2)" by (metis prod.collapse)
  have w: "ordinary w" using ord last by (simp add: snoc)
  have neww: "\<forall>r \<in> set (chat_rows ?T (co_db s1)). cl_ClientMsgID r \<noteq> md_ClientMsgID w" using new g(3) by (simp add: snoc)
  note o = pull_ordinary [OF assms(1) g(1,2) w neww st]
  obtain sl rest where sl: "pv_updateMsg p2 = [(k, nil_slice)]" "pv_insertMsg p2 = [(k, sl)]"
      "map anon (deref p2 sl) = map anon ?ds @ rest" "mset rest = mset (map anon (?ms @ [as_pulled w]))"
    using o(2) by (auto simp: to_store_def)
  have all: "mset (map anon (deref p2 sl)) = mset (map (\<lambda>v. anon (as_pulled v)) vs)"
    using sl(3,4) mset_map_split [of "\<lambda>v. anon (as_pulled v)" ws removed] by (simp add: snoc comp_def del: mset_map)
  have "mset (map cl_ClientMsgID (map anon (deref p2 sl))) = mset (map cl_ClientMsgID (map (\<lambda>v. anon (as_pulled v)) vs))"
    using all by (metis mset_map)
  then have ids: "mset (map cl_ClientMsgID (deref p2 sl)) = mset (map md_ClientMsgID vs)" by (simp add: comp_def)
  then have "distinct (map cl_ClientMsgID (deref p2 sl))" "set (map cl_ClientMsgID (deref p2 sl)) = set (map md_ClientMsgID vs)"
    using dist by (metis mset_eq_imp_distinct_iff, metis mset_eq_setD)
  moreover from this new have "\<forall>x \<in> set (deref p2 sl). \<forall>r \<in> set (chat_rows ?T (co_db s)). cl_ClientMsgID r \<noteq> cl_ClientMsgID x"
    by (metis (no_types, lifting) image_iff list.set_map)
  moreover have "deref p2 sl \<noteq> []" using all snoc by (metis list.map_disc_iff mset_zero_iff snoc_eq_iff_butlast)
  ultimately have "chat_rows ?T (co_db (snd (flush_lists E (p2, s2)))) = chat_rows ?T (co_db s) @ deref p2 sl"
    using flush_ok [OF assms(3) o(3) sl(1,2) refl] o(4) [of ?T] g(3) [of ?T] keys by simp
  moreover have "cx_range_pull E [(k, msgs)] = [(k, msgs)]"
    using assms(2) by (metis any_order_def mset_single_iff)
  ultimately show ?thesis
    using all by (intro exI [of _ "deref p2 sl"]) (simp add: pullMessageIntoTable_def assms(9) f st snoc)
qed

text \<open>
  One ordinary message between deleted ones: where the list has room, the next deleted message takes its place.
\<close>

lemma deleted_after_ordinary:
  assumes "grows (cx_grow E)" and "healthy (co_db s)"
    and ds: "\<forall>v \<in> set ds. removed v" and es: "\<forall>v \<in> set (d # es). removed v" and m: "ordinary m"
    and new: "\<forall>r \<in> set (chat_rows (GetTableName k) (co_db s)). cl_ClientMsgID r \<noteq> md_ClientMsgID m"
    and f: "fold (pull_message E k) (ds @ m # d # es) (no_vars, s) = (p', s')"
  shows "\<exists>sl. pv_updateMsg p' = [(k, nil_slice)] \<and> pv_insertMsg p' = [(k, sl)] \<and>
      map anon (deref p' sl) = map anon (map as_pulled (ds @ [if length ds < cap_after (cx_grow E) (length ds) then d else m]))"
    and "healthy (co_db s')" and "chat_rows name (co_db s') = chat_rows name (co_db s)"
proof -
  obtain p1 s1 where f1: "fold (pull_message E k) ds (no_vars, s) = (p1, s1)" by (metis prod.collapse)
  have start: "collected k [] [] no_vars" "sl_cap (pv_insert no_vars) = cap_after (cx_grow E) (length [])"
    using lists_ok_start by (simp_all add: collected_def no_vars_def nil_slice_def)
  have c1: "collected k (map as_pulled ds) [] p1" "s1 = s" "sl_cap (pv_insert p1) = cap_after (cx_grow E) (length ds)"
    using run_of_deleted [OF assms(1) start(1) ds f1] start(2) by simp_all
  obtain p2 s2 where f2: "pull_message E k m (p1, s) = (p2, s2)" by (metis prod.collapse)
  note o = pull_ordinary [OF assms(1) c1(1) assms(2) m new f2]
  obtain sl rest where p2: "pv_insert p2 = pv_insert p1" "pv_updateMsg p2 = [(k, nil_slice)]" "pv_insertMsg p2 = [(k, sl)]"
      "map anon (deref p2 sl) = map anon (map as_pulled ds) @ rest" "mset rest = mset (map anon ([] @ [as_pulled m]))"
      "owns p2 sl" "in_place (Suc (length [])) (pv_insert p1) sl"
    using o(2) by (auto simp: to_store_def)
  have "rest = [anon (as_pulled m)]" using p2(5) by simp
  then have with_m: "map anon (deref p2 sl) = map anon (map as_pulled (ds @ [m]))" using p2(4) by simp
  have ok2: "lists_ok (map as_pulled ds) [as_pulled m] p2" using o(1) by (simp add: collected_def)
  obtain p3 s3 where f3: "pull_message E k d (p2, s2) = (p3, s3)" by (metis prod.collapse)
  have d: "removed d" using es by simp
  note i = insert_collected [OF assms(1) o(1) d f3]
  have ok3: "lists_ok (map as_pulled ds @ [as_pulled d]) [as_pulled m] p3" using i(1) by (simp add: collected_def)
  have f4: "fold (pull_message E k) es (p3, s2) = (p', s')" using f by (simp add: f1 c1(2) f2 f3 i(2))
  have es': "\<forall>v \<in> set es. removed v" using es by simp
  note r = run_of_deleted [OF assms(1) i(1) es' f4]
  have len: "sl_len (pv_insert p1) = length ds" using insert_len c1(1) by (fastforce simp: collected_def)
  have maps: "pv_updateMsg p' = [(k, nil_slice)]" "pv_insertMsg p' = [(k, sl)]"
    using r p2(2,3) to_insert_ok(2,3) [OF assms(1) ok2] by (simp_all add: i(3))
  have "map anon (deref p' sl) = map anon (map as_pulled (ds @ [if length ds < cap_after (cx_grow E) (length ds) then d else m]))"
  proof (cases "length ds < cap_after (cx_grow E) (length ds)")
    case True
    then have "sl = (pv_insert p1)\<lparr>sl_len := Suc (length ds)\<rparr>" using p2(7) len c1(3) by (simp add: in_place_def)
    then have "sl = pv_insert p3"
      using True len c1(3) p2(1) by (simp add: i(3) to_insert_def push_msg_def append_slice_def Let_def)
    then have "deref p' sl = deref p3 sl" "map anon (deref p3 sl) = map anon (map as_pulled ds @ [as_pulled d])"
      using r lists_okD(1) [OF ok3] ok3 by (simp_all add: lags_def lists_ok_def)
    with True show ?thesis by simp
  next
    case False
    then have "lags sl (pv_insert p2)" using p2(1,7) len c1(3) by (simp add: in_place_def lags_def)
    note l = to_insert_lags [OF ok2 p2(6) this]
    have "deref p' sl = deref p2 sl" using r l by (simp add: i(3))
    with False with_m show ?thesis by simp
  qed
  with maps show "\<exists>sl. pv_updateMsg p' = [(k, nil_slice)] \<and> pv_insertMsg p' = [(k, sl)] \<and>
      map anon (deref p' sl) = map anon (map as_pulled (ds @ [if length ds < cap_after (cx_grow E) (length ds) then d else m]))"
    by blast
  show "healthy (co_db s')" "chat_rows name (co_db s') = chat_rows name (co_db s)" using r o(3,4) by simp_all
qed

lemma pull_overwrites:
  assumes "grows (cx_grow E)" and "any_order (cx_range_pull E)" and "any_order (cx_range_logs E)" and "healthy (co_db s)"
    and msgs: "pm_Msgs msgs = ds @ m # d # es"
    and ds: "\<forall>v \<in> set ds. removed v" and es: "\<forall>v \<in> set (d # es). removed v" and m: "ordinary m"
    and dist: "distinct (map md_ClientMsgID (pm_Msgs msgs))"
    and new: "\<forall>v \<in> set (pm_Msgs msgs). \<forall>r \<in> set (chat_rows (GetTableName k) (co_db s)). cl_ClientMsgID r \<noteq> md_ClientMsgID v"
    and keys: "distinct (map cl_ClientMsgID (chat_rows (GetTableName k) (co_db s)))"
  shows "\<exists>stored. chat_rows (GetTableName k) (co_db (pullMessageIntoTable E [(k, msgs)] s)) =
      chat_rows (GetTableName k) (co_db s) @ stored \<and>
    map anon stored = map anon (map as_pulled (ds @ [if length ds < cap_after (cx_grow E) (length ds) then d else m]))"
proof -
  let ?x = "if length ds < cap_after (cx_grow E) (length ds) then d else m"
  obtain p' s' where f: "fold (pull_message E k) (ds @ m # d # es) (no_vars, s) = (p', s')" by (metis prod.collapse)
  have newm: "\<forall>r \<in> set (chat_rows (GetTableName k) (co_db s)). cl_ClientMsgID r \<noteq> md_ClientMsgID m"
    using new by (simp add: msgs)
  note r = deleted_after_ordinary [OF assms(1,4) ds es m newm f]
  then obtain sl where sl: "pv_updateMsg p' = [(k, nil_slice)]" "pv_insertMsg p' = [(k, sl)]"
      "map anon (deref p' sl) = map anon (map as_pulled (ds @ [?x]))"
    by blast
  have "chat_rows (GetTableName k) (co_db (snd (flush_lists E (p', s')))) = chat_rows (GetTableName k) (co_db s') @ deref p' sl"
    using dist new keys r(3)
    by (intro flush_ok [OF assms(3) r(2) sl]) (auto simp: msgs comp_def)
  moreover have "cx_range_pull E [(k, msgs)] = [(k, msgs)]"
    using assms(2) by (metis any_order_def mset_single_iff)
  ultimately show ?thesis
    using sl(3) r(3) f by (intro exI [of _ "deref p' sl"]) (simp add: pullMessageIntoTable_def msgs)
qed

end

section \<open>The properties\<close>

text \<open>Samples: an empty database, the environment over it, and messages.\<close>

definition empty_world :: world where
  "empty_world = \<lparr>w_chat = (\<lambda>_. \<lparr>ft_rows = [], ft_faults = []\<rparr>), w_conv = \<lparr>ft_rows = [], ft_faults = []\<rparr>,
     w_user = \<lparr>ft_rows = [], ft_faults = []\<rparr>, w_members = \<lparr>ft_rows = [], ft_faults = []\<rparr>,
     w_friends = \<lparr>ft_rows = [], ft_faults = []\<rparr>, w_groups = \<lparr>ft_rows = [], ft_faults = []\<rparr>, w_sending = \<lparr>ft_rows = [], ft_faults = []\<rparr>\<rparr>"

definition plain_env :: "('q, world, 'n) conv_env \<Rightarrow> ('q, world, 'n) conv_env" where
  "plain_env E = on_world (E\<lparr>cx_loginUserID := ''me'', cx_grow := doubling, cx_range_pull := (\<lambda>m. m), cx_range_logs := (\<lambda>m. m)\<rparr>)"

definition sample_state :: "'n \<Rightarrow> (world, 'n) conv_state" where
  "sample_state n = \<lparr>co_db = empty_world, co_net = n, co_ch = None, co_maxSeq = [], co_events = [], co_users = [], co_background = False\<rparr>"

definition sample_data :: "string \<Rightarrow> string \<Rightarrow> int \<Rightarrow> int \<Rightarrow> MsgData" where
  "sample_data cid sender seq status = \<lparr>md_SendID = sender, md_RecvID = ''me'', md_GroupID = [], md_ClientMsgID = cid,
     md_ServerMsgID = [], md_SenderPlatformID = 1, md_SenderNickname = [], md_SenderFaceURL = [], md_SessionType = 1,
     md_MsgFrom = 100, md_ContentType = 101, md_Content = [], md_Seq = seq, md_SendTime = 1000 + seq, md_CreateTime = 0,
     md_Status = status, md_IsRead = False, md_Options = [], md_OfflinePushInfo = None, md_AttachedInfo = [], md_Ex = []\<rparr>"

text \<open>
  C22: what is pulled is stored. A response for one conversation is handled, the database does not fail, the messages
  are new with distinct identifiers, each is deleted on the server or has an identifier, and the last one is not deleted.
  Then one row for each message, and nothing else, is appended to the conversation's table: a deleted message as it came,
  any other as sent, up to the sender's name and picture, which the local tables provide. (Deleted messages
  at the end are the case below.)
\<close>
theorem pullMessageIntoTable_stores:
  assumes "healthy_tables E chat_rows conv_rows healthy" and "healthy (co_db s)"
    and "grows (cx_grow E)" and "any_order (cx_range_pull E)" and "any_order (cx_range_logs E)"
    and "\<forall>v \<in> set (pm_Msgs msgs). md_Status v = MsgStatusHasDeleted \<or> md_ClientMsgID v \<noteq> []"
    and "pm_Msgs msgs \<noteq> [] \<Longrightarrow> md_Status (last (pm_Msgs msgs)) \<noteq> MsgStatusHasDeleted"
    and "distinct (map md_ClientMsgID (pm_Msgs msgs))"
    and "\<forall>v \<in> set (pm_Msgs msgs). \<forall>r \<in> set (chat_rows (GetTableName k) (co_db s)). cl_ClientMsgID r \<noteq> md_ClientMsgID v"
    and "distinct (map cl_ClientMsgID (chat_rows (GetTableName k) (co_db s)))"
  shows "\<exists>stored. mset (map anon stored) = mset (map (\<lambda>v. anon (as_pulled v)) (pm_Msgs msgs)) \<and>
    chat_rows (GetTableName k) (co_db (pullMessageIntoTable E [(k, msgs)] s)) =
      chat_rows (GetTableName k) (co_db s) @ stored"
  using healthy_tables.pull_stores [OF assms(1,3,4,5,2) _ assms(8,9,10) refl] assms(6,7)
  by (auto simp: ordinary_def removed_def)

theorem pullMessageIntoTable_stores_witness:
  "\<forall>(E :: ('q, world, 'n) conv_env) n.
     \<exists>stored. mset (map anon stored) = mset (map (\<lambda>v. anon (as_pulled v)) [sample_data ''m1'' ''a'' 1 0, sample_data ''d1'' ''a'' 2 4, sample_data ''m2'' ''me'' 3 0]) \<and>
       ft_rows (w_chat (co_db (pullMessageIntoTable (plain_env E)
         [(''c'', \<lparr>pm_Msgs = [sample_data ''m1'' ''a'' 1 0, sample_data ''d1'' ''a'' 2 4, sample_data ''m2'' ''me'' 3 0], pm_IsEnd = True\<rparr>)]
         (sample_state n))) (GetTableName ''c'')) = stored"
proof (intro allI)
  fix E :: "('q, world, 'n) conv_env" and n
  show "\<exists>stored. mset (map anon stored) = mset (map (\<lambda>v. anon (as_pulled v)) [sample_data ''m1'' ''a'' 1 0, sample_data ''d1'' ''a'' 2 4, sample_data ''m2'' ''me'' 3 0]) \<and>
       ft_rows (w_chat (co_db (pullMessageIntoTable (plain_env E)
         [(''c'', \<lparr>pm_Msgs = [sample_data ''m1'' ''a'' 1 0, sample_data ''d1'' ''a'' 2 4, sample_data ''m2'' ''me'' 3 0], pm_IsEnd = True\<rparr>)]
         (sample_state n))) (GetTableName ''c'')) = stored"
    using pullMessageIntoTable_stores [of "plain_env E" "\<lambda>name w. ft_rows (w_chat w name)" "\<lambda>w. ft_rows (w_conv w)"
        no_faults "sample_state n"
        "\<lparr>pm_Msgs = [sample_data ''m1'' ''a'' 1 0, sample_data ''d1'' ''a'' 2 4, sample_data ''m2'' ''me'' 3 0], pm_IsEnd = True\<rparr>" "''c''"]
      wh.healthy_tables_axioms [of "E\<lparr>cx_loginUserID := ''me'', cx_grow := doubling, cx_range_pull := (\<lambda>m. m), cx_range_logs := (\<lambda>m. m)\<rparr>"]
    by (simp add: plain_env_def [symmetric])
      (simp add: plain_env_def on_world_def sample_state_def empty_world_def no_faults_def sample_data_def MsgStatusHasDeleted_def)
qed

text \<open>
  C23: a pulled message can be lost. The response for one conversation holds messages deleted on the server (\<open>ds\<close>), then an
  ordinary message \<open>m\<close>, then more deleted ones, \<open>d\<close> first. Only \<open>ds\<close> and one further message are stored: \<open>m\<close> if the backing
  array of the deleted ones has no room left, and \<open>d\<close>, which overwrote \<open>m\<close> in the list to be stored, if it has. The
  messages after \<open>d\<close> are never stored.
\<close>
theorem pullMessageIntoTable_overwrites:
  assumes "healthy_tables E chat_rows conv_rows healthy" and "healthy (co_db s)"
    and "grows (cx_grow E)" and "any_order (cx_range_pull E)" and "any_order (cx_range_logs E)"
    and "pm_Msgs msgs = ds @ m # d # es"
    and "\<forall>v \<in> set ds. md_Status v = MsgStatusHasDeleted" and "\<forall>v \<in> set (d # es). md_Status v = MsgStatusHasDeleted"
    and "md_Status m \<noteq> MsgStatusHasDeleted" and "md_ClientMsgID m \<noteq> []"
    and "distinct (map md_ClientMsgID (pm_Msgs msgs))"
    and "\<forall>v \<in> set (pm_Msgs msgs). \<forall>r \<in> set (chat_rows (GetTableName k) (co_db s)). cl_ClientMsgID r \<noteq> md_ClientMsgID v"
    and "distinct (map cl_ClientMsgID (chat_rows (GetTableName k) (co_db s)))"
  shows "\<exists>stored. chat_rows (GetTableName k) (co_db (pullMessageIntoTable E [(k, msgs)] s)) =
      chat_rows (GetTableName k) (co_db s) @ stored \<and>
    map anon stored = map (\<lambda>v. anon (as_pulled v)) (ds @ [if length ds < cap_after (cx_grow E) (length ds) then d else m])"
  using healthy_tables.pull_overwrites [OF assms(1,3,4,5,2,6) _ _ _ assms(11,12,13)] assms(7,8,9,10)
  by (simp add: ordinary_def removed_def comp_def)

theorem pullMessageIntoTable_overwrites_witness:
  "\<forall>(E :: ('q, world, 'n) conv_env) n.
     map cl_ClientMsgID (ft_rows (w_chat (co_db (pullMessageIntoTable (plain_env E)
       [(''c'', \<lparr>pm_Msgs = [sample_data ''d1'' ''a'' 1 4, sample_data ''d2'' ''a'' 2 4, sample_data ''d3'' ''a'' 3 4,
                       sample_data ''m'' ''a'' 4 0, sample_data ''d4'' ''a'' 5 4], pm_IsEnd = True\<rparr>)]
       (sample_state n))) (GetTableName ''c''))) = [''d1'', ''d2'', ''d3'', ''d4'']"
proof (intro allI)
  fix E :: "('q, world, 'n) conv_env" and n
  let ?d = "\<lambda>cid seq. sample_data cid ''a'' seq 4"
  let ?msgs = "\<lparr>pm_Msgs = [?d ''d1'' 1, ?d ''d2'' 2, ?d ''d3'' 3, sample_data ''m'' ''a'' 4 0, ?d ''d4'' 5], pm_IsEnd = True\<rparr>"
  let ?rows = "\<lambda>s. ft_rows (w_chat (co_db s) (GetTableName ''c''))"
  have "healthy_tables (plain_env E) (\<lambda>name w. ft_rows (w_chat w name)) (\<lambda>w. ft_rows (w_conv w)) no_faults"
    using wh.healthy_tables_axioms [of "E\<lparr>cx_loginUserID := ''me'', cx_grow := doubling, cx_range_pull := (\<lambda>m. m), cx_range_logs := (\<lambda>m. m)\<rparr>"]
    by (simp add: plain_env_def)
  from pullMessageIntoTable_overwrites [OF this, of "sample_state n" ?msgs "[?d ''d1'' 1, ?d ''d2'' 2, ?d ''d3'' 3]" "sample_data ''m'' ''a'' 4 0"
      "?d ''d4'' 5" "[]" "''c''"]
  obtain stored where "?rows (pullMessageIntoTable (plain_env E) [(''c'', ?msgs)] (sample_state n)) = stored"
      "map anon stored = map anon (map as_pulled [?d ''d1'' 1, ?d ''d2'' 2, ?d ''d3'' 3, ?d ''d4'' 5])"
    by (auto simp: plain_env_def on_world_def sample_state_def empty_world_def no_faults_def sample_data_def MsgStatusHasDeleted_def
        doubling_def eval_nat_numeral)
  with anon_ids [OF this(2)] show "map cl_ClientMsgID (?rows (pullMessageIntoTable (plain_env E) [(''c'', ?msgs)] (sample_state n))) =
      [''d1'', ''d2'', ''d3'', ''d4'']"
    by (simp add: sample_data_def)
qed

end
