(* ===== verification/MessageCheckProps.thy ===== *)
theory MessageCheckProps
  imports MessageStore DbProps
begin

text \<open>
  What the continuity checks of the message history do: they find exactly the gaps of a page,
  ask the server only for numbers that are missing, at most 50 of them, and cut a page at the
  gap when the server cannot be reached.
\<close>

lemma sample_sel [simp]:
  "cl_Seq (sample_chat cid seq sendTime) = seq" "cl_SendTime (sample_chat cid seq sendTime) = sendTime"
  "cl_ClientMsgID (sample_chat cid seq sendTime) = cid" "ft_rows (ftab rs) = rs" "ft_faults (ftab rs) = []"
  by (simp_all add: sample_chat_def ftab_def)

section \<open>The largest and smallest number of a page\<close>

definition page_seqs :: "LocalChatLog list \<Rightarrow> int list" where
  "page_seqs list = filter (\<lambda>n. n \<noteq> 0) (map cl_Seq list)"

lemma Max_snoc: "xs \<noteq> [] \<Longrightarrow> Max (set (xs @ [x])) = max (Max (set xs)) (x::int)"
  by (simp add: Max_insert max.commute)

lemma Min_snoc: "xs \<noteq> [] \<Longrightarrow> Min (set (xs @ [x])) = min (Min (set xs)) (x::int)"
  by (simp add: Min_insert min.commute)

definition range_of :: "int list \<Rightarrow> int \<times> int \<times> int list" where
  "range_of S = (if S = [] then (0, 0, []) else (Max (set S), Min (set S), S))"

lemma page_seqs_pos:
  assumes "\<forall>m \<in> set list. 0 \<le> cl_Seq m" and "n \<in> set (page_seqs list)"
  shows "0 < n"
  using assms by (auto simp: page_seqs_def order_less_le)

lemma max_min_step_pos:
  "0 < mx \<Longrightarrow> 0 < mn \<Longrightarrow> 0 \<le> cl_Seq m \<Longrightarrow> max_min_step m (mx, mn, S) =
     (if cl_Seq m = 0 then (mx, mn, S) else (max mx (cl_Seq m), min mn (cl_Seq m), S @ [cl_Seq m]))"
  by (simp add: max_min_step_def Let_def max_def min_def)

lemma max_min_range:
  assumes "\<forall>m \<in> set list. 0 \<le> cl_Seq m"
  shows "getMaxAndMinHaveSeqList list = range_of (page_seqs list)"
  using assms
proof (induction list rule: rev_induct)
  case Nil
  then show ?case by (simp add: getMaxAndMinHaveSeqList_def range_of_def page_seqs_def)
next
  case (snoc m list)
  let ?S = "page_seqs list"
  have IH: "fold max_min_step list (0, 0, []) = range_of ?S"
    using snoc by (simp add: getMaxAndMinHaveSeqList_def)
  have S: "page_seqs (list @ [m]) = (if cl_Seq m = 0 then ?S else ?S @ [cl_Seq m])"
    by (simp add: page_seqs_def)
  have m: "0 \<le> cl_Seq m" using snoc.prems by simp
  show ?case
  proof (cases "?S = []")
    case True
    with IH m show ?thesis
      by (simp add: getMaxAndMinHaveSeqList_def S range_of_def max_min_step_def Let_def)
  next
    case False
    then have "Max (set ?S) \<in> set ?S" "Min (set ?S) \<in> set ?S" by simp_all
    then have pos: "0 < Max (set ?S)" "0 < Min (set ?S)"
      using page_seqs_pos [of list] snoc.prems by auto
    have "fold max_min_step (list @ [m]) (0, 0, []) = max_min_step m (Max (set ?S), Min (set ?S), ?S)"
      using IH False by (simp add: range_of_def)
    also have "\<dots> = (if cl_Seq m = 0 then (Max (set ?S), Min (set ?S), ?S)
        else (max (Max (set ?S)) (cl_Seq m), min (Min (set ?S)) (cl_Seq m), ?S @ [cl_Seq m]))"
      by (rule max_min_step_pos [OF pos m])
    also have "\<dots> = range_of (page_seqs (list @ [m]))"
      unfolding S range_of_def using False by (cases "cl_Seq m = 0") (simp_all only: Max_snoc Min_snoc if_False if_True append_is_Nil_conv simp_thms)
    finally show ?thesis by (simp add: getMaxAndMinHaveSeqList_def)
  qed
qed

section \<open>Gaps inside a page\<close>

definition page_gaps :: "LocalChatLog list \<Rightarrow> int set" where
  "page_gaps list = (let S = set (page_seqs list) in if S = {} then {} else {Min S..Max S} - S)"

lemma top_of_sorted:
  assumes "sorted xs" and "distinct xs" and "x \<in> set xs" and "x \<notin> set (drop k xs)" and "y \<in> set (drop k xs)"
  shows "x < (y::int)"
proof -
  have "x \<in> set (take k xs)"
    using assms(3,4) by (metis Un_iff append_take_drop_id set_append)
  moreover have "sorted (take k xs @ drop k xs)" "distinct (take k xs @ drop k xs)" using assms by simp_all
  ultimately show ?thesis
    using assms(5) by (metis IntI distinct_append empty_iff order_less_le sorted_append)
qed

text \<open>
  The check inside a page counts exactly the sequence numbers missing between the smallest
  and the largest of the page. With none missing it does nothing; otherwise it asks for missing
  numbers only, for at most 50, and for the highest ones.
\<close>
theorem internal_check_gaps:
  assumes "\<forall>m \<in> set list. 0 \<le> cl_Seq m"
    and "messageBlocksInternalContinuityCheck E q (list, cb, s) = ((maxSeq, minSeq, n), out)"
  shows "n = card (page_gaps list) \<and>
    (if n = 0 then out = (list, cb, s)
     else \<exists>pull. out = pullMessageAndReGetHistoryMessages E q pull (list, cb, s) \<and>
            distinct pull \<and> set pull \<subseteq> page_gaps list \<and> length pull = min n 50 \<and>
            (\<forall>x \<in> page_gaps list - set pull. \<forall>y \<in> set pull. x < y))"
proof -
  let ?S = "page_seqs list"
  note range = max_min_range [OF assms(1)]
  show ?thesis
  proof (cases "?S = []")
    case True
    with assms(2) range show ?thesis
      by (simp add: messageBlocksInternalContinuityCheck_def range_of_def page_gaps_def)
  next
    case False
    let ?lost = "filter (\<lambda>v. v \<notin> set ?S) [Min (set ?S)..Max (set ?S)]"
    have "Max (set ?S) \<in> set ?S" "Min (set ?S) \<in> set ?S" using False by simp_all
    then obtain mx mn where mxmn: "mx = Max (set ?S)" "mn = Min (set ?S)" "mx \<noteq> 0" "mn \<noteq> 0"
      using page_seqs_pos [OF assms(1)] by fastforce
    have lost: "set ?lost = page_gaps list" "distinct ?lost" "sorted ?lost"
      using False by (auto simp: page_gaps_def Let_def sorted_wrt_filter)
    then have card: "card (page_gaps list) = length ?lost" by (metis distinct_card)
    let ?k = "if length ?lost \<le> 50 then 0 else length ?lost - 50"
    have r: "getMaxAndMinHaveSeqList list = (mx, mn, ?S)"
      unfolding range range_of_def mxmn(1,2) using False by simp
    have chk: "messageBlocksInternalContinuityCheck E q (list, cb, s) =
        ((mx, mn, length ?lost),
         if ?lost = [] then (list, cb, s) else pullMessageAndReGetHistoryMessages E q (drop ?k ?lost) (list, cb, s))"
      unfolding messageBlocksInternalContinuityCheck_def r prod.case mxmn(1,2) [symmetric]
      using mxmn(3,4)
      by (simp add: successiveSeqList_def PullMsgNumForReadDiffusion_def Let_def
          del: filter_empty_conv length_filter_conv_card)
    have out: "n = length ?lost \<and> out = (if n = 0 then (list, cb, s)
        else pullMessageAndReGetHistoryMessages E q (drop ?k ?lost) (list, cb, s))"
      using assms(2) unfolding chk by auto
    have "set (drop ?k ?lost) \<subseteq> page_gaps list" using lost(1) set_drop_subset [of ?k ?lost] by blast
    moreover have "\<forall>x \<in> page_gaps list - set (drop ?k ?lost). \<forall>y \<in> set (drop ?k ?lost). x < y"
      using top_of_sorted [OF lost(3,2)] lost(1) by blast
    moreover have "distinct (drop ?k ?lost)" using lost(2) by (rule distinct_drop)
    moreover have "length (drop ?k ?lost) = min (length ?lost) 50" by auto
    moreover have "n = card (page_gaps list)" using out card by simp
    ultimately show ?thesis using out by metis
  qed
qed

theorem internal_check_gaps_witness:
  "let page = [sample_chat ''m5'' 5 50, sample_chat ''m2'' 2 20, sample_chat ''m0'' 0 10] in
     \<forall>(E :: ('q, 't, 'n) conv_env) q cb s. snd (snd (fst (messageBlocksInternalContinuityCheck E q (page, cb, s)))) = card (page_gaps page)"
proof -
  let ?page = "[sample_chat ''m5'' 5 50, sample_chat ''m2'' 2 20, sample_chat ''m0'' 0 10]"
  have nonneg: "\<forall>m \<in> set ?page. 0 \<le> cl_Seq m" by (simp add: sample_chat_def)
  have "snd (snd (fst (messageBlocksInternalContinuityCheck E q (?page, cb, s)))) = card (page_gaps ?page)"
    for E :: "('q, 't, 'n) conv_env" and q cb s
    using internal_check_gaps [OF nonneg, of E q cb s] by (cases "messageBlocksInternalContinuityCheck E q (?page, cb, s)") auto
  then show ?thesis by simp
qed

section \<open>Gaps between pages and before the first page\<close>

lemma small_i64: "0 \<le> x \<Longrightarrow> x \<le> 2 ^ 62 \<Longrightarrow> i64 x = x \<and> i64 (x + 1) = x + 1 \<and> i64 (x - 1) = x - 1 \<and> i64 (x - 50) = x - 50"
  by (simp add: i64_id is_i64_def)

text \<open>
  The check against the page before. It reports contiguity exactly when one of the pages has
  no number or the numbers meet; then it does nothing. With a gap it asks for the numbers of the
  gap next to the page before, at most 50. When the pages overlap it does nothing either, but
  reports that they are not contiguous.
\<close>
theorem between_check_gap:
  assumes "0 \<le> maxSeq" and "maxSeq \<le> 2 ^ 62" and "0 \<le> lastMinSeq" and "lastMinSeq \<le> 2 ^ 62"
  shows "messageBlocksBetweenContinuityCheck E q lastMinSeq maxSeq lcs =
    (if lastMinSeq = 0 \<or> maxSeq = 0 \<or> maxSeq + 1 = lastMinSeq then (True, lcs)
     else if maxSeq + 1 < lastMinSeq
     then (False, pullMessageAndReGetHistoryMessages E q [max (maxSeq + 1) (lastMinSeq - 50)..lastMinSeq - 1] lcs)
     else (False, lcs))"
  using small_i64 [OF assms(1,2)] small_i64 [OF assms(3,4)]
  by (simp add: messageBlocksBetweenContinuityCheck_def successiveSeqList_def PullMsgNumForReadDiffusion_def Let_def max_def)

theorem between_check_gap_witness:
  "\<forall>(E :: ('q, 't, 'n) conv_env) q lcs. messageBlocksBetweenContinuityCheck E q 5 2 lcs =
     (False, pullMessageAndReGetHistoryMessages E q [3..4] lcs)"
proof (intro allI)
  fix E :: "('q, 't, 'n) conv_env" and q lcs
  show "messageBlocksBetweenContinuityCheck E q 5 2 lcs = (False, pullMessageAndReGetHistoryMessages E q [3..4] lcs)"
    using between_check_gap [of 2 5 E q lcs] by simp
qed

text \<open>The rows of the conversation that are stored, among the numbers asked about.\<close>

lemma exist_seqs:
  assumes "gorm_table (cx_chat E (GetTableName k)) rows pk"
    and "on_db (GetAlreadyExistSeqList (cx_chat E) k seqs) s = (Inr ex, s1)"
  shows "mset ex = mset (filter (\<lambda>n. n \<in> set seqs) (map cl_Seq (rows (co_db s))))"
    and "co_net s1 = co_net s" and "rows (co_db s1) = rows (co_db s)"
proof -
  have T: "GetConversationTableName k = GetTableName k" by (simp add: GetConversationTableName_def GetTableName_def)
  obtain rs t1 where f: "gorm_find (cx_chat E (GetTableName k)) (\<lambda>r. cl_Seq r \<in> set seqs) (co_db s) = (Inr rs, t1)"
    and ex: "ex = map cl_Seq rs" and s1: "s1 = s\<lparr>co_db := t1\<rparr>"
    using assms(2) by (auto simp: on_db_def GetAlreadyExistSeqList_def wrap_res_def T split: prod.splits sum.splits)
  have "mset ex = image_mset cl_Seq (mset (filter (\<lambda>r. cl_Seq r \<in> set seqs) (rows (co_db s))))"
    using gorm_table.find_mset [OF assms(1) f] by (simp add: ex)
  also have "\<dots> = mset (filter (\<lambda>n. n \<in> set seqs) (map cl_Seq (rows (co_db s))))"
    by (simp add: filter_map comp_def)
  finally show "mset ex = mset (filter (\<lambda>n. n \<in> set seqs) (map cl_Seq (rows (co_db s))))" .
  show "co_net s1 = co_net s" "rows (co_db s1) = rows (co_db s)"
    using gorm_table.find_rows [OF assms(1) f] by (simp_all add: s1)
qed

text \<open>Storing what was pulled does not use the network.\<close>

lemma on_db_net: "on_db f s = (r, s') \<Longrightarrow> co_net s' = co_net s"
  by (auto simp: on_db_def split: prod.splits)

lemma on_ch_net: "co_net (snd (on_ch a s)) = co_net s"
  by (simp add: on_ch_def split: prod.split)

lemma face_net: "faceURLAndNicknameHandle E self others k s = (fs, s') \<Longrightarrow> co_net s' = co_net s"
  by (auto simp: faceURLAndNicknameHandle_def singleHandle_def groupHandle_def Let_def
      dest!: on_db_net split: prod.splits sum.splits if_splits)

lemma update_messages_net: "co_net (snd (update_messages E k ms l c s)) = co_net s"
  by (induction E k ms l c s rule: update_messages.induct)
    (auto simp: Let_def on_ch_net dest!: on_db_net split: prod.splits option.splits)

lemma update_lists_net: "co_net (snd (update_lists E m s)) = co_net s"
proof (induction m arbitrary: s)
  case (Cons km rest)
  obtain k ms where km: "km = (k, ms)" by (cases km)
  obtain r s1 where g: "on_db (GetConversation (cx_conv E) k) s = (r, s1)" by (metis prod.collapse)
  have "co_net (snd (and_then (update_messages E k ms l c) (update_lists E rest) s1)) = co_net s1" for l c
    using update_messages_net [of E k ms l c s1] Cons.IH by (auto simp: and_then_def split: prod.split option.split)
  then show ?case
    using Cons.IH on_db_net [OF g] by (auto simp: km g split: sum.split prod.split option.split)
qed simp

lemma insert_each_net: "co_net (insert_each E k ms s) = co_net s"
  by (induction E k ms s rule: insert_each.induct) (auto simp: on_db_def split: prod.split)

lemma insert_lists_net: "co_net (insert_lists E m s) = co_net s"
  by (induction E m s rule: insert_lists.induct)
    (auto simp: insert_each_net dest!: on_db_net split: prod.splits option.splits)

lemma pull_message_net: "co_net (snd (pull_message E k v ps)) = co_net (snd ps)"
  by (auto simp: pull_message_def set_lists_def Let_def dest!: on_db_net face_net split: prod.splits)

lemma fold_pull_net: "co_net (snd (fold (pull_message E k) vs ps)) = co_net (snd ps)"
  by (induction vs arbitrary: ps) (simp_all add: pull_message_net)

lemma flush_net: "co_net (snd (flush_lists E ps)) = co_net (snd ps)"
  by (auto simp: flush_lists_def controller_BatchInsertMessageList_def controller_BatchUpdateMessageList_def
      insert_lists_net update_lists_net split: prod.split)

lemma pull_table_net: "co_net (pullMessageIntoTable E m s) = co_net s"
proof -
  have "co_net (snd (pull_conversations E xs ps)) = co_net (snd ps)" for xs ps
    by (induction E xs ps rule: pull_conversations.induct) (simp_all add: flush_net fold_pull_net)
  then show ?thesis by (simp add: pullMessageIntoTable_def)
qed

lemma read_page_net: "read_page E q s = (r, s') \<Longrightarrow> co_net s' = co_net s"
  by (auto simp: read_page_def dest: on_db_net split: if_splits)

text \<open>
  C21: what is asked of the server. If no number is stored twice, a pull asks the server for the
  range from the first to the last number of its list that is not stored, once; it asks for
  nothing, and leaves the page alone, when all are stored, when the database cannot be read, and
  when the newest messages are read while there is no connection.
\<close>
theorem pull_asks_for_missing:
  fixes E :: "('q, 't, 'n) conv_env"
  assumes "gorm_table (cx_chat E (GetTableName (hq_conversationID q))) rows pk" and "distinct seqList"
    and "distinct (filter (\<lambda>n. n \<in> set seqList) (map cl_Seq (rows (co_db s))))"
    and "pullMessageAndReGetHistoryMessages E q seqList (list, cb, s) = (list', cb', s')"
    and "missing = filter (\<lambda>n. n \<notin> cl_Seq ` set (rows (co_db s))) seqList"
  shows "if missing = [] \<or> hq_notStartTime q \<and> \<not> cx_IsConnected E (co_net s) \<or>
            isl (fst (on_db (GetAlreadyExistSeqList (cx_chat E) (hq_conversationID q) seqList) s))
         then list' = list \<and> cb' = cb \<and> co_net s' = co_net s
         else case cx_PullMsgBySeqList E
                [\<lparr>sr_ConversationID = hq_conversationID q, sr_Begin = hd missing, sr_End = last missing,
                  sr_Num = int (length missing)\<rparr>] (co_net s) of
              (Inl e, n) \<Rightarrow> co_net s' = n \<and> hc_ErrCode cb' = 100 \<and>
                list' = takeWhile (\<lambda>m. cl_Seq m = 0 \<or> cl_Seq m > last missing) list
            | (Inr resp, n) \<Rightarrow> co_net s' = n"
proof -
  let ?k = "hq_conversationID q"
  obtain r s1 where g: "on_db (GetAlreadyExistSeqList (cx_chat E) ?k seqList) s = (r, s1)" by (metis prod.collapse)
  show ?thesis
  proof (cases r)
    case (Inl e)
    with g assms(4) show ?thesis
      by (auto simp: pullMessageAndReGetHistoryMessages_def on_db_def split: prod.splits)
  next
    case (Inr ex)
    note e = exist_seqs [OF assms(1) g [unfolded Inr]]
    have "set ex = set seqList \<inter> cl_Seq ` set (rows (co_db s))"
      using arg_cong [OF e(1), of set_mset] by auto
    moreover have "distinct ex" using e(1) assms(3) by (metis mset_eq_imp_distinct_iff)
    ultimately have all: "length ex = length seqList \<longleftrightarrow> missing = []"
      and diff: "DifferenceSubset seqList ex = missing"
    proof -
      assume ex: "set ex = set seqList \<inter> cl_Seq ` set (rows (co_db s))" "distinct ex"
      have "length ex = length seqList \<longleftrightarrow> set ex = set seqList"
        using ex assms(2) by (metis Int_lower1 card_subset_eq distinct_card finite_set)
      then show "length ex = length seqList \<longleftrightarrow> missing = []"
        using ex(1) by (auto simp: assms(5) filter_empty_conv)
      show "DifferenceSubset seqList ex = missing"
        using ex(1) by (auto simp: assms(5) intro: filter_cong)
    qed
    have cut: "cut_page n l = takeWhile (\<lambda>m. cl_Seq m = 0 \<or> cl_Seq m > n) l" for n l
      by (induction l) simp_all
    have pull: "pullMessageAndReGetHistoryMessages E q seqList (list, cb, s) =
       (if missing = [] \<or> hq_notStartTime q \<and> \<not> cx_IsConnected E (co_net s) then (list, cb, s1)
        else case cx_PullMsgBySeqList E [\<lparr>sr_ConversationID = ?k, sr_Begin = hd missing, sr_End = last missing,
               sr_Num = int (length missing)\<rparr>] (co_net s) of
             (Inl err, n) \<Rightarrow> (cut_page (last missing) list, cb\<lparr>hc_ErrCode := 100, hc_ErrMsg := cx_ErrorText E err\<rparr>, s1\<lparr>co_net := n\<rparr>)
           | (Inr resp, n) \<Rightarrow>
               (case gget (pr_Msgs resp) ?k of
                  None \<Rightarrow> (list, cb, s1\<lparr>co_net := n\<rparr>)
                | Some v \<Rightarrow> (case read_page E q (pullMessageIntoTable E (pr_Msgs resp) (s1\<lparr>co_net := n\<rparr>)) of
                     (r, s3) \<Rightarrow> (case r of Inr list' \<Rightarrow> list' | Inl e \<Rightarrow> [], cb\<lparr>hc_IsEnd := pm_IsEnd v\<rparr>, s3))))"
      unfolding pullMessageAndReGetHistoryMessages_def prod.case g Inr sum.case all diff
      by (auto simp: Let_def errHandle_def e(2) split: prod.split sum.split)
    show ?thesis
    proof (cases "missing = [] \<or> hq_notStartTime q \<and> \<not> cx_IsConnected E (co_net s)")
      case True
      with assms(4) e(2) show ?thesis unfolding pull by auto
    next
      case False
      obtain r2 n where p: "cx_PullMsgBySeqList E [\<lparr>sr_ConversationID = ?k, sr_Begin = hd missing,
          sr_End = last missing, sr_Num = int (length missing)\<rparr>] (co_net s) = (r2, n)" by (metis prod.collapse)
      have read: "read_page E q (pullMessageIntoTable E m (s1\<lparr>co_net := n\<rparr>)) = (x, y) \<Longrightarrow> co_net y = n" for m x y
        by (drule read_page_net) (simp add: pull_table_net)
      have "isl (fst (on_db (GetAlreadyExistSeqList (cx_chat E) ?k seqList) s)) = False" by (simp add: g Inr)
      with False assms(4) show ?thesis
        unfolding pull p by (auto simp: cut split: sum.splits option.splits prod.splits dest: read)
    qed
  qed
qed

theorem pull_asks_for_missing_witness:
  "\<forall>(E :: ('q, world, SeqRange list) conv_env) cb.
     (case pullMessageAndReGetHistoryMessages
        (on_world (E\<lparr>cx_PullMsgBySeqList := (\<lambda>ranges n. (Inl (GoError ''timeout''), ranges))\<rparr>))
        \<lparr>hq_conversationID = ''c'', hq_notStartTime = False, hq_isReverse = False, hq_count = 10, hq_startTime = 99\<rparr> [1, 2, 3]
        ([sample_chat ''m3'' 3 30, sample_chat ''m1'' 1 10], cb,
         \<lparr>co_db = empty_world\<lparr>w_chat := (\<lambda>_. ftab [sample_chat ''m1'' 1 10, sample_chat ''m3'' 3 30])\<rparr>, co_net = [],
          co_ch = None, co_maxSeq = [], co_events = [], co_users = [], co_background = False\<rparr>) of
      (page, cb', s) \<Rightarrow> map cl_Seq page = [3] \<and> hc_ErrCode cb' = 100 \<and>
        co_net s = [\<lparr>sr_ConversationID = ''c'', sr_Begin = 2, sr_End = 2, sr_Num = 1\<rparr>])"
proof (intro allI)
  fix E :: "('q, world, SeqRange list) conv_env" and cb :: "'q GetAdvancedHistoryMessageListCallback"
  let ?E0 = "E\<lparr>cx_PullMsgBySeqList := (\<lambda>ranges n. (Inl (GoError ''timeout''), ranges))\<rparr>"
  let ?q = "\<lparr>hq_conversationID = ''c'', hq_notStartTime = False, hq_isReverse = False, hq_count = 10, hq_startTime = 99\<rparr>"
  let ?s = "\<lparr>co_db = empty_world\<lparr>w_chat := (\<lambda>_. ftab [sample_chat ''m1'' 1 10, sample_chat ''m3'' 3 30])\<rparr>, co_net = [],
          co_ch = None, co_maxSeq = [], co_events = [], co_users = [], co_background = False\<rparr> :: (world, SeqRange list) conv_state"
  let ?page = "[sample_chat ''m3'' 3 30, sample_chat ''m1'' 1 10]"
  obtain page cb' s where r: "pullMessageAndReGetHistoryMessages (on_world ?E0) ?q [1, 2, 3] (?page, cb, ?s) = (page, cb', s)"
    by (metis prod_cases3)
  have inr: "\<not> isl (fst (on_db (GetAlreadyExistSeqList (cx_chat (on_world ?E0)) ''c'' [1, 2, 3]) ?s))"
    by (simp add: on_db_def GetAlreadyExistSeqList_def wrap_res_def on_world_def world_chat_def at_table_def
        list_gorm_def next_fault_def ftab_def)
  have t: "gorm_table (cx_chat (on_world ?E0) (GetTableName (hq_conversationID ?q))) (\<lambda>w. ft_rows (w_chat w (GetTableName ''c''))) cl_ClientMsgID"
    using wt.chat_table [of ?E0 "GetTableName ''c''"] by simp
  have "map cl_Seq page = [3] \<and> hc_ErrCode cb' = 100 \<and>
        co_net s = [\<lparr>sr_ConversationID = ''c'', sr_Begin = 2, sr_End = 2, sr_Num = 1\<rparr>]"
    using pull_asks_for_missing [OF t _ _ r refl] inr
    by simp (simp add: on_world_def)
  with r show "case pullMessageAndReGetHistoryMessages (on_world ?E0) ?q [1, 2, 3] (?page, cb, ?s) of
      (page, cb', s) \<Rightarrow> map cl_Seq page = [3] \<and> hc_ErrCode cb' = 100 \<and>
        co_net s = [\<lparr>sr_ConversationID = ''c'', sr_Begin = 2, sr_End = 2, sr_Num = 1\<rparr>]"
    by simp
qed

text \<open>
  The check at the end of the history, when the page has no sequence number, is meant to fetch
  the first messages from the server. It asks for the number 0 twice; a message of the
  conversation that has not been sent has the number 0 in the local table, so the check takes the
  numbers as present and never asks the server, whatever the server holds.
\<close>
theorem end_check_unsent_message:
  assumes "gorm_table (cx_chat E (GetTableName (hq_conversationID q))) rows pk"
    and "r \<in> set (rows (co_db s))" and "cl_Seq r = 0"
    and "messageBlocksEndContinuityCheck E q 0 (list, cb, s) = (list', cb', s')"
  shows "list' = list \<and> cb' = cb \<and> co_net s' = co_net s"
proof -
  let ?k = "hq_conversationID q"
  obtain x s1 where g: "on_db (GetAlreadyExistSeqList (cx_chat E) ?k [0, 0]) s = (x, s1)" by (metis prod.collapse)
  show ?thesis
  proof (cases x)
    case (Inl e)
    with g assms(4) show ?thesis
      by (auto simp: messageBlocksEndContinuityCheck_def pullMessageAndReGetHistoryMessages_def on_db_def split: prod.splits)
  next
    case (Inr ex)
    note e = exist_seqs [OF assms(1) g [unfolded Inr]]
    have "0 \<in> set ex" using arg_cong [OF e(1), of set_mset] assms(2,3) by force
    then have "DifferenceSubset [0, 0] ex = []" by simp
    with assms(4) e(2) show ?thesis
      by (auto simp: messageBlocksEndContinuityCheck_def pullMessageAndReGetHistoryMessages_def g Inr split: if_splits)
  qed
qed

theorem end_check_unsent_message_witness:
  "\<forall>(E :: ('q, world, 'n) conv_env) q cb n. let s = \<lparr>co_db = empty_world\<lparr>w_chat := (\<lambda>_. ftab [sample_chat ''m'' 0 10])\<rparr>, co_net = n,
          co_ch = None, co_maxSeq = [], co_events = [], co_users = [], co_background = False\<rparr>
     in co_net (snd (snd (messageBlocksEndContinuityCheck (on_world E) q 0 ([sample_chat ''m'' 0 10], cb, s)))) = n"
proof (intro allI)
  fix E :: "('q, world, 'n) conv_env" and q n and cb :: "'q GetAdvancedHistoryMessageListCallback"
  let ?s = "\<lparr>co_db = empty_world\<lparr>w_chat := (\<lambda>_. ftab [sample_chat ''m'' 0 10])\<rparr>, co_net = n,
          co_ch = None, co_maxSeq = [], co_events = [], co_users = [], co_background = False\<rparr> :: (world, 'n) conv_state"
  obtain a b c where r: "messageBlocksEndContinuityCheck (on_world E) q 0 ([sample_chat ''m'' 0 10], cb, ?s) = (a, b, c)"
    by (metis prod_cases3)
  show "let s = ?s in co_net (snd (snd (messageBlocksEndContinuityCheck (on_world E) q 0 ([sample_chat ''m'' 0 10], cb, s)))) = n"
    using end_check_unsent_message [OF wt.chat_table _ _ r, of "sample_chat ''m'' 0 10"]
    unfolding Let_def r by simp
qed

end
