(* ===== verification/UserGroupProps.thy ===== *)
theory UserGroupProps
  imports UserGroupDb DbProps
begin

text \<open>What the functions on the tables of strangers and groups do.\<close>

lemma write_back:
  assumes "distinct (map st_UserID rs)" and "x \<in> set rs"
  shows "map (\<lambda>r. if st_UserID r = st_UserID x then x else r) rs = rs"
  using assms by (auto intro!: map_idI simp: distinct_map dest: inj_onD)

text \<open>
  \<^verbatim>\<open>SetStrangerInfo\<close> never stores new data of a stranger it already has: reading the row
  overwrites the new data before they are saved. If all strangers of the list are stored, the
  table does not change, whatever the list says and whether or not the database fails.
\<close>
theorem SetStrangerInfo_keeps_old:
  assumes "gorm_table G rows st_UserID" and "distinct (map st_UserID (rows t))"
    and "\<And>p t e t'. gorm_take G p t = (Inl e, t') \<Longrightarrow> not_found e \<Longrightarrow> filter p (rows t) = []"
    and "\<forall>x \<in> set localStrangerList. st_UserID x \<in> st_UserID ` set (rows t)"
    and "SetStrangerInfo G not_found localStrangerList t = (r, t')"
  shows "rows t' = rows t"
  using assms(2,4,5)
proof (induction localStrangerList arbitrary: t)
  case (Cons x xs)
  obtain y t1 where g: "gorm_take G (\<lambda>r. st_UserID r = st_UserID x) t = (y, t1)" by (metis prod.collapse)
  have t1: "rows t1 = rows t" by (rule gorm_table.take_rows [OF assms(1) g])
  show ?case
  proof (cases y)
    case (Inl e)
    have "filter (\<lambda>r. st_UserID r = st_UserID x) (rows t) \<noteq> []"
      using Cons.prems(2) by (auto simp: filter_empty_conv)
    then have "\<not> not_found e" using assms(3) g Inl by blast
    with Inl Cons.prems(3) g t1 show ?thesis by simp
  next
    case (Inr stored)
    then have "stored \<in> set (rows t)" using gorm_table.take_in [OF assms(1)] g by blast
    obtain e n t2 where u: "gorm_updates G (\<lambda>r. st_UserID r = st_UserID stored) (\<lambda>_. stored) t1 = ((e, n), t2)"
      by (metis prod.collapse)
    have t2: "rows t2 = rows t"
      using gorm_table.updates_ok [OF assms(1)] gorm_table.updates_err [OF assms(1)] u
        write_back [OF Cons.prems(1) \<open>stored \<in> set (rows t)\<close>] t1
      by (cases e) fastforce+
    show ?thesis
    proof (cases e)
      case None
      with Cons.prems(3) g Inr u have "SetStrangerInfo G not_found xs t2 = (r, t')"
        by (simp add: and_then_def stmt_err_def)
      with Cons.IH [of t2] Cons.prems(1,2) t2 show ?thesis by simp
    next
      case (Some e')
      with Cons.prems(3) g Inr u t2 show ?thesis by (simp add: and_then_def stmt_err_def)
    qed
  qed
qed simp

definition sample_stranger :: "string \<Rightarrow> string \<Rightarrow> LocalStranger" where
  "sample_stranger uid name = \<lparr>st_UserID = uid, st_Nickname = name, st_FaceURL = [], st_CreateTime = 0,
     st_AppMangerLevel = 0, st_Ex = [], st_AttachedInfo = [], st_GlobalRecvMsgOpt = 0\<rparr>"

theorem SetStrangerInfo_keeps_old_witness:
  "ft_rows (snd (SetStrangerInfo (list_gorm st_UserID) (\<lambda>e. e = record_not_found) [sample_stranger ''u'' ''new'']
     (ftab [sample_stranger ''u'' ''old'']))) = [sample_stranger ''u'' ''old'']"
proof -
  let ?t = "ftab [sample_stranger ''u'' ''old'']"
  obtain r t' where set: "SetStrangerInfo (list_gorm st_UserID) (\<lambda>e. e = record_not_found) [sample_stranger ''u'' ''new''] ?t = (r, t')"
    by (metis prod.collapse)
  have "ft_rows t' = ft_rows ?t"
    by (rule SetStrangerInfo_keeps_old [OF lg.gorm_table_axioms _ _ _ set])
      (auto simp: ftab_def sample_stranger_def list_gorm_def next_fault_def db_fault_def record_not_found_def
        filter_empty_conv find_None_iff split: list.splits if_splits option.splits prod.splits)
  with set show ?thesis by (simp add: ftab_def)
qed

end
