(* ===== verification/Bitmap.thy ===== *)
theory Bitmap
  imports Prelude
begin

text \<open>
  \<^verbatim>\<open>internal/file/bitmap.go\<close>: the set of the parts of a file that have been uploaded, as 64-bit
  words, with its byte form. \<open>None\<close> is a panic. The interface \<open>part_set\<close> is what the upload uses
  of it; the interpretation says that the words implement a set of indices below the size.
\<close>

unbundle bit_operations_syntax

record bitmap =
  bm_data :: "64 word list"
  bm_size :: int

definition NewBitmap :: "int \<Rightarrow> bitmap" where
  "NewBitmap sz = \<lparr>bm_data = replicate (nat ((sz + 63) sdiv 64)) 0, bm_size = sz\<rparr>"

definition parse_word :: "8 word list \<Rightarrow> nat \<Rightarrow> 64 word" where
  "parse_word p i =
     push_bit 56 (ucast (p ! (i * 8))) OR push_bit 48 (ucast (p ! (i * 8 + 1))) OR
     push_bit 40 (ucast (p ! (i * 8 + 2))) OR push_bit 32 (ucast (p ! (i * 8 + 3))) OR
     push_bit 24 (ucast (p ! (i * 8 + 4))) OR push_bit 16 (ucast (p ! (i * 8 + 5))) OR
     push_bit 8 (ucast (p ! (i * 8 + 6))) OR ucast (p ! (i * 8 + 7))"

definition ParseBitmap :: "8 word list \<Rightarrow> int \<Rightarrow> bitmap" where
  "ParseBitmap p sz = \<lparr>bm_data = map (parse_word p) [0..<length p div 8], bm_size = sz\<rparr>"

text \<open>An index outside the size panics, and so does one whose word is missing.\<close>

definition word_at :: "bitmap \<Rightarrow> int \<Rightarrow> nat option" where
  "word_at b index =
     (if index < 0 \<or> index \<ge> bm_size b then None
      else let wordIndex = nat (index sdiv 64) in if wordIndex < length (bm_data b) then Some wordIndex else None)"

definition bit_at :: "int \<Rightarrow> 64 word" where
  "bit_at index = push_bit (nat (index smod 64)) 1"

definition bitmap_Set :: "int \<Rightarrow> bitmap \<Rightarrow> bitmap option" where
  "bitmap_Set index b =
     (case word_at b index of None \<Rightarrow> None
      | Some w \<Rightarrow> Some (b\<lparr>bm_data := (bm_data b)[w := bm_data b ! w OR bit_at index]\<rparr>))"

definition bitmap_Clear :: "int \<Rightarrow> bitmap \<Rightarrow> bitmap option" where
  "bitmap_Clear index b =
     (case word_at b index of None \<Rightarrow> None
      | Some w \<Rightarrow> Some (b\<lparr>bm_data := (bm_data b)[w := bm_data b ! w AND NOT (bit_at index)]\<rparr>))"

definition bitmap_Get :: "bitmap \<Rightarrow> int \<Rightarrow> bool option" where
  "bitmap_Get b index =
     (case word_at b index of None \<Rightarrow> None | Some w \<Rightarrow> Some (bm_data b ! w AND bit_at index \<noteq> 0))"

definition bitmap_Size :: "bitmap \<Rightarrow> int" where
  "bitmap_Size b = bm_size b"

definition word_bytes :: "64 word \<Rightarrow> 8 word list" where
  "word_bytes w = [ucast (drop_bit 56 w), ucast (drop_bit 48 w), ucast (drop_bit 40 w), ucast (drop_bit 32 w),
     ucast (drop_bit 24 w), ucast (drop_bit 16 w), ucast (drop_bit 8 w), ucast w]"

definition Serialize :: "bitmap \<Rightarrow> 8 word list" where
  "Serialize b = concat (map word_bytes (bm_data b))"

section \<open>The byte form\<close>

lemma length_word_bytes [simp]: "length (word_bytes w) = 8"
  by (simp add: word_bytes_def)

lemma length_Serialize [simp]: "length (Serialize b) = length (bm_data b) * 8"
proof -
  have "length (concat (map word_bytes ws)) = length ws * 8" for ws
    by (induction ws) simp_all
  then show ?thesis by (simp add: Serialize_def)
qed

lemma concat_word_bytes_nth:
  "i < length ws \<Longrightarrow> k < 8 \<Longrightarrow> concat (map word_bytes ws) ! (i * 8 + k) = word_bytes (ws ! i) ! k"
proof (induction ws arbitrary: i)
  case (Cons w ws)
  show ?case
  proof (cases i)
    case 0
    with Cons.prems show ?thesis by (simp add: nth_append)
  next
    case (Suc j)
    with Cons.prems have "i * 8 + k = length (word_bytes w) + (j * 8 + k)" by simp
    with Cons Suc show ?thesis by (simp only: list.map concat.simps nth_append_length_plus nth_Cons_Suc) simp
  qed
qed simp

lemma byte_part:
  "n < 64 \<Longrightarrow> bit (push_bit k (ucast (ucast (drop_bit k w) :: 8 word)) :: 64 word) n \<longleftrightarrow>
     k \<le> n \<and> n < k + 8 \<and> bit (w :: 64 word) n"
  by (auto simp: bit_push_bit_iff bit_unsigned_iff bit_drop_bit_eq)

lemma low_byte: "n < 64 \<Longrightarrow> bit (ucast (ucast (w :: 64 word) :: 8 word) :: 64 word) n \<longleftrightarrow> n < 8 \<and> bit w n"
  by (auto simp: bit_unsigned_iff)

lemma word_of_bytes:
  "push_bit 56 (ucast (ucast (drop_bit 56 w) :: 8 word)) OR push_bit 48 (ucast (ucast (drop_bit 48 w) :: 8 word)) OR
   push_bit 40 (ucast (ucast (drop_bit 40 w) :: 8 word)) OR push_bit 32 (ucast (ucast (drop_bit 32 w) :: 8 word)) OR
   push_bit 24 (ucast (ucast (drop_bit 24 w) :: 8 word)) OR push_bit 16 (ucast (ucast (drop_bit 16 w) :: 8 word)) OR
   push_bit 8 (ucast (ucast (drop_bit 8 w) :: 8 word)) OR ucast (ucast w :: 8 word) = (w :: 64 word)"
  (is "?l = w")
proof (rule bit_word_eqI)
  fix n assume "n < LENGTH(64)"
  then have n: "n < 64" by simp
  show "bit ?l n = bit w n"
    unfolding bit_or_iff byte_part [OF n] low_byte [OF n] using n by linarith
qed

lemma parse_serialized:
  assumes "i < length ws"
  shows "parse_word (concat (map word_bytes ws)) i = ws ! i"
proof -
  note at = concat_word_bytes_nth [OF assms]
  have "concat (map word_bytes ws) ! (i * 8) = word_bytes (ws ! i) ! 0" using at [of 0] by simp
  with at [of 1] at [of 2] at [of 3] at [of 4] at [of 5] at [of 6] at [of 7]
  have "parse_word (concat (map word_bytes ws)) i =
     push_bit 56 (ucast (word_bytes (ws ! i) ! 0)) OR push_bit 48 (ucast (word_bytes (ws ! i) ! 1)) OR
     push_bit 40 (ucast (word_bytes (ws ! i) ! 2)) OR push_bit 32 (ucast (word_bytes (ws ! i) ! 3)) OR
     push_bit 24 (ucast (word_bytes (ws ! i) ! 4)) OR push_bit 16 (ucast (word_bytes (ws ! i) ! 5)) OR
     push_bit 8 (ucast (word_bytes (ws ! i) ! 6)) OR ucast (word_bytes (ws ! i) ! 7)"
    by (simp only: parse_word_def)
  also have "\<dots> = ws ! i"
    by (simp add: word_bytes_def word_of_bytes)
  finally show ?thesis .
qed

text \<open>
  C26: parsing the bytes of a bitmap with its size gives the bitmap back.
\<close>
theorem ParseBitmap_Serialize:
  "ParseBitmap (Serialize b) (bitmap_Size b) = b"
proof -
  have "map (parse_word (Serialize b)) [0..<length (bm_data b)] = bm_data b"
    by (rule nth_equalityI) (simp_all add: Serialize_def parse_serialized)
  then show ?thesis by (simp add: ParseBitmap_def bitmap_Size_def)
qed

section \<open>A set of parts\<close>

text \<open>What the upload relies on: a set of the indices below a size, that can be tested and grows.\<close>

locale part_set =
  fixes mk :: "int \<Rightarrow> 'b"
    and put :: "int \<Rightarrow> 'b \<Rightarrow> 'b option"
    and get :: "'b \<Rightarrow> int \<Rightarrow> bool option"
    and inv :: "int \<Rightarrow> 'b \<Rightarrow> bool"
  assumes mk_inv: "0 \<le> n \<Longrightarrow> inv n (mk n)"
    and mk_get: "0 \<le> i \<Longrightarrow> i < n \<Longrightarrow> get (mk n) i = Some False"
    and get_in: "inv n b \<Longrightarrow> 0 \<le> i \<Longrightarrow> i < n \<Longrightarrow> get b i \<noteq> None"
    and get_out: "inv n b \<Longrightarrow> i < 0 \<or> n \<le> i \<Longrightarrow> get b i = None"
    and put_out: "inv n b \<Longrightarrow> i < 0 \<or> n \<le> i \<Longrightarrow> put i b = None"
    and put_in: "inv n b \<Longrightarrow> 0 \<le> i \<Longrightarrow> i < n \<Longrightarrow> \<exists>b'. put i b = Some b' \<and> inv n b' \<and>
          (\<forall>j. get b' j = (if j = i then Some True else get b j))"
begin

lemma put_get:
  assumes "inv n b" and "put i b = Some b'"
  shows "inv n b'" and "get b' j = (if j = i then Some True else get b j)"
proof -
  have "0 \<le> i \<and> i < n" using put_out [OF assms(1), of i] assms(2) by force
  with put_in [OF assms(1), of i] assms(2)
  show "inv n b'" "get b' j = (if j = i then Some True else get b j)" by auto
qed

lemma put_mono: "inv n b \<Longrightarrow> put i b = Some b' \<Longrightarrow> get b j = Some True \<Longrightarrow> get b' j = Some True"
  by (simp add: put_get(2))

end

definition bitmap_ok :: "int \<Rightarrow> bitmap \<Rightarrow> bool" where
  "bitmap_ok n b \<longleftrightarrow> 0 \<le> n \<and> bm_size b = n \<and> length (bm_data b) = nat ((n + 63) sdiv 64)"

lemma word_at_ok:
  assumes "bitmap_ok n b" and "0 \<le> i" and "i < n"
  shows "word_at b i = Some (nat (i div 64))" and "nat (i div 64) < length (bm_data b)"
proof -
  have "(i + 64) div 64 \<le> (n + 63) div 64" using assms(3) by (intro zdiv_mono1) simp_all
  then have "i div 64 < (n + 63) div 64" by simp
  moreover have "0 \<le> i div 64" using assms(2) by simp
  ultimately show "word_at b i = Some (nat (i div 64))" "nat (i div 64) < length (bm_data b)"
    using assms by (simp_all add: bitmap_ok_def word_at_def Let_def sdiv_nonneg)
qed

lemma word_at_out: "bitmap_ok n b \<Longrightarrow> i < 0 \<or> n \<le> i \<Longrightarrow> word_at b i = None"
  by (auto simp: bitmap_ok_def word_at_def)

lemma bit_at_test: "0 \<le> i \<Longrightarrow> w AND bit_at i \<noteq> 0 \<longleftrightarrow> bit w (nat (i mod 64))"
  by (simp add: bit_at_def smod_nonneg bit_iff_and_push_bit_not_eq_0)

lemma bit_of_bit_at: "0 \<le> i \<Longrightarrow> 0 \<le> j \<Longrightarrow> bit (bit_at i) (nat (j mod 64)) \<longleftrightarrow> i mod 64 = j mod 64"
proof -
  assume ij: "0 \<le> i" "0 \<le> j"
  have "nat (j mod 64) < 64" by (simp add: nat_less_iff)
  then have "bit (push_bit (nat (i mod 64)) (1 :: 64 word)) (nat (j mod 64)) \<longleftrightarrow> nat (i mod 64) = nat (j mod 64)"
    by (auto simp: bit_exp_iff)
  with ij show ?thesis by (auto simp: bit_at_def smod_nonneg eq_nat_nat_iff)
qed

lemma bitmap_Get_bit:
  assumes "bitmap_ok n b" and "0 \<le> i" and "i < n"
  shows "bitmap_Get b i = Some (bit (bm_data b ! nat (i div 64)) (nat (i mod 64)))"
  using word_at_ok [OF assms] assms by (simp add: bitmap_Get_def bit_at_test)

lemma same_bit: "0 \<le> i \<Longrightarrow> 0 \<le> j \<Longrightarrow> i div 64 = j div 64 \<Longrightarrow> i mod 64 = j mod 64 \<Longrightarrow> i = (j::int)"
  by (metis div_mult_mod_eq)

lemma bitmap_change:
  assumes "bitmap_ok n b" and "0 \<le> i" and "i < n"
    and "b' = b\<lparr>bm_data := (bm_data b)[nat (i div 64) := v]\<rparr>"
  shows "bitmap_ok n b'"
    and "0 \<le> j \<Longrightarrow> j < n \<Longrightarrow> bitmap_Get b' j =
       (if j div 64 = i div 64 then Some (bit v (nat (j mod 64))) else bitmap_Get b j)"
proof -
  show ok: "bitmap_ok n b'" using assms(1) by (simp add: bitmap_ok_def assms(4))
  assume j: "0 \<le> j" "j < n"
  show "bitmap_Get b' j = (if j div 64 = i div 64 then Some (bit v (nat (j mod 64))) else bitmap_Get b j)"
    using bitmap_Get_bit [OF ok j] bitmap_Get_bit [OF assms(1) j] word_at_ok(2) [OF assms(1-3)] assms(2) j
    by (auto simp: assms(4) nth_list_update eq_nat_nat_iff)
qed

lemma bitmap_Set_spec:
  assumes "bitmap_ok n b" and "0 \<le> i" and "i < n"
  shows "\<exists>b'. bitmap_Set i b = Some b' \<and> bitmap_ok n b' \<and>
     (\<forall>j. 0 \<le> j \<longrightarrow> j < n \<longrightarrow> bitmap_Get b' j = (if j = i then Some True else bitmap_Get b j))"
proof -
  let ?w = "nat (i div 64)" let ?v = "bm_data b ! ?w OR bit_at i"
  let ?b = "b\<lparr>bm_data := (bm_data b)[?w := ?v]\<rparr>"
  note ch = bitmap_change [OF assms, of ?b ?v, OF refl]
  have "bitmap_Get ?b j = (if j = i then Some True else bitmap_Get b j)" if "0 \<le> j" "j < n" for j
    using ch(2) [OF that] bitmap_Get_bit [OF assms(1) that] bit_of_bit_at [OF assms(2) that(1)]
      same_bit [OF that(1) assms(2)] by (auto simp: bit_or_iff)
  with ch(1) word_at_ok(1) [OF assms] show ?thesis by (intro exI [of _ ?b]) (simp add: bitmap_Set_def)
qed

lemma bitmap_Clear_spec:
  assumes "bitmap_ok n b" and "0 \<le> i" and "i < n"
  shows "\<exists>b'. bitmap_Clear i b = Some b' \<and> bitmap_ok n b' \<and>
     (\<forall>j. 0 \<le> j \<longrightarrow> j < n \<longrightarrow> bitmap_Get b' j = (if j = i then Some False else bitmap_Get b j))"
proof -
  let ?w = "nat (i div 64)" let ?v = "bm_data b ! ?w AND NOT (bit_at i)"
  let ?b = "b\<lparr>bm_data := (bm_data b)[?w := ?v]\<rparr>"
  note ch = bitmap_change [OF assms, of ?b ?v, OF refl]
  have "nat (j mod 64) < 64" for j :: int by (simp add: nat_less_iff)
  then have "bitmap_Get ?b j = (if j = i then Some False else bitmap_Get b j)" if "0 \<le> j" "j < n" for j
    using ch(2) [OF that] bitmap_Get_bit [OF assms(1) that] bit_of_bit_at [OF assms(2) that(1)]
      same_bit [OF that(1) assms(2)] by (auto simp: bit_and_iff bit_not_iff)
  with ch(1) word_at_ok(1) [OF assms] show ?thesis by (intro exI [of _ ?b]) (simp add: bitmap_Clear_def)
qed

lemma bitmap_Get_out: "bitmap_ok n b \<Longrightarrow> i < 0 \<or> n \<le> i \<Longrightarrow> bitmap_Get b i = None"
  by (simp add: bitmap_Get_def word_at_out)

interpretation bm: part_set NewBitmap bitmap_Set bitmap_Get bitmap_ok
proof unfold_locales
  fix n :: int assume "0 \<le> n"
  then show "bitmap_ok n (NewBitmap n)" by (simp add: bitmap_ok_def NewBitmap_def)
next
  fix i n :: int assume i: "0 \<le> i" "i < n"
  then have "bitmap_ok n (NewBitmap n)" by (simp add: bitmap_ok_def NewBitmap_def)
  with i show "bitmap_Get (NewBitmap n) i = Some False"
    using bitmap_Get_bit [of n "NewBitmap n" i] word_at_ok(2) [of n "NewBitmap n" i]
    by (simp add: NewBitmap_def)
next
  fix n b i assume "bitmap_ok n b" "0 \<le> i" "i < n"
  then show "bitmap_Get b i \<noteq> None" by (simp add: bitmap_Get_bit)
  show "\<exists>b'. bitmap_Set i b = Some b' \<and> bitmap_ok n b' \<and>
     (\<forall>j. bitmap_Get b' j = (if j = i then Some True else bitmap_Get b j))"
    using bitmap_Set_spec [OF \<open>bitmap_ok n b\<close> \<open>0 \<le> i\<close> \<open>i < n\<close>] bitmap_Get_out [of n] \<open>bitmap_ok n b\<close> \<open>0 \<le> i\<close> \<open>i < n\<close>
    by (metis linorder_not_less)
qed (simp_all add: bitmap_Get_out bitmap_Set_def word_at_out)

text \<open>The set a bitmap stands for.\<close>

definition parts_of :: "bitmap \<Rightarrow> int set" where
  "parts_of b = {i. bitmap_Get b i = Some True}"

text \<open>
  C27: the bitmap refines a set of indices below its size: a new one is empty, \<^verbatim>\<open>Set\<close> and \<^verbatim>\<open>Clear\<close> of an
  index below the size add and remove it and nothing else, \<^verbatim>\<open>Get\<close> tests it; any other index panics.
\<close>
theorem bitmap_refines_set:
  assumes "bitmap_ok n b"
  shows "parts_of (NewBitmap n) = {} \<and>
    (if 0 \<le> i \<and> i < n
     then (\<exists>b'. bitmap_Set i b = Some b' \<and> bitmap_ok n b' \<and> parts_of b' = insert i (parts_of b)) \<and>
          (\<exists>b'. bitmap_Clear i b = Some b' \<and> bitmap_ok n b' \<and> parts_of b' = parts_of b - {i}) \<and>
          bitmap_Get b i = Some (i \<in> parts_of b)
     else bitmap_Set i b = None \<and> bitmap_Clear i b = None \<and> bitmap_Get b i = None)"
proof -
  have n: "0 \<le> n" using assms by (simp add: bitmap_ok_def)
  have ext: "parts_of b' = parts_of b''"
    if "bitmap_ok n b'" "bitmap_ok n b''" "\<And>j. 0 \<le> j \<Longrightarrow> j < n \<Longrightarrow> bitmap_Get b' j = bitmap_Get b'' j" for b' b''
    using that bitmap_Get_out [of n] unfolding parts_of_def by (metis linorder_not_less)
  have empty: "parts_of (NewBitmap n) = {}"
  proof -
    have "bitmap_Get (NewBitmap n) j \<noteq> Some True" for j
      using bm.mk_get [of j n] bitmap_Get_out [OF bm.mk_inv [OF n], of j] by (cases "0 \<le> j \<and> j < n") auto
    then show ?thesis by (simp add: parts_of_def)
  qed
  show ?thesis
  proof (cases "0 \<le> i \<and> i < n")
    case False
    with assms empty show ?thesis
      by (auto simp: bitmap_Set_def bitmap_Clear_def bitmap_Get_def word_at_out not_le)
  next
    case True
    then have i: "0 \<le> i" "i < n" by simp_all
    obtain b1 where b1: "bitmap_Set i b = Some b1" "bitmap_ok n b1"
        "\<forall>j. bitmap_Get b1 j = (if j = i then Some True else bitmap_Get b j)"
      using bm.put_in [OF assms i] by blast
    obtain b2 where b2: "bitmap_Clear i b = Some b2" "bitmap_ok n b2"
        "\<forall>j. 0 \<le> j \<longrightarrow> j < n \<longrightarrow> bitmap_Get b2 j = (if j = i then Some False else bitmap_Get b j)"
      using bitmap_Clear_spec [OF assms i] by blast
    have "parts_of b1 = insert i (parts_of b)" using b1(3) by (auto simp: parts_of_def)
    moreover have "parts_of b2 = parts_of b - {i}"
      using b2 i bitmap_Get_out [OF assms] bitmap_Get_out [OF b2(2)]
      by (auto simp: parts_of_def) (metis linorder_not_less option.discI option.inject)+
    moreover have "bitmap_Get b i = Some (i \<in> parts_of b)"
      using bm.get_in [OF assms i] by (auto simp: parts_of_def)
    ultimately show ?thesis using b1(1,2) b2(1,2) empty i by auto
  qed
qed

theorem bitmap_refines_set_witness:
  "\<exists>b'. bitmap_Set 70 (NewBitmap 100) = Some b' \<and> parts_of b' = {70}"
proof -
  have ok: "bitmap_ok 100 (NewBitmap 100)" by (simp add: bitmap_ok_def NewBitmap_def)
  show ?thesis using bitmap_refines_set [OF ok, of 70] by auto
qed

end
