(* ===== verification/WsResp.thy ===== *)
theory WsResp
  imports SdkErrs
begin

text \<open>
  \<^verbatim>\<open>internal/interaction/ws_resp_asyn.go\<close> and \<^verbatim>\<open>reconnect.go\<close>: the registry that hands each response
  of the server to the goroutine that waits for it, and the back-off of the reconnection. A
  response channel has room for one value and is an address in the list of all channels made so
  far. A channel operation at a given moment panics, blocks, or returns; where a timer competes with
  it, the flag \<open>fired\<close> says that the timer's case was taken.
\<close>

record GeneralWsResp =
  wr_ReqIdentifier :: int
  wr_ErrCode :: int
  wr_ErrMsg :: string
  wr_MsgIncr :: string
  wr_OperationID :: string
  wr_Data :: "8 word list"

record GeneralWsReq =
  wq_ReqIdentifier :: int
  wq_Token :: string
  wq_SendID :: string
  wq_OperationID :: string
  wq_MsgIncr :: string
  wq_Data :: "8 word list"

record resp_chan =
  rc_buf :: "GeneralWsResp option list"
  rc_closed :: bool

record WsRespAsyn =
  wn_notification :: "(string, nat) gomap"
  wn_heap :: "resp_chan list"

datatype 'a outcome = Panics | Blocks | Returns 'a

definition NewWsRespAsyn :: WsRespAsyn where
  "NewWsRespAsyn = \<lparr>wn_notification = [], wn_heap = []\<rparr>"

definition make_chan :: "WsRespAsyn \<Rightarrow> nat \<times> WsRespAsyn" where
  "make_chan u = (length (wn_heap u), u\<lparr>wn_heap := wn_heap u @ [\<lparr>rc_buf = [], rc_closed = False\<rparr>]\<rparr>)"

text \<open>\<^verbatim>\<open>OperationIDGenerator\<close> draws from the clock and a random number: its result is the argument \<open>op\<close>.\<close>

definition GenMsgIncr :: "string \<Rightarrow> string \<Rightarrow> string" where
  "GenMsgIncr op userID = userID @ ''_'' @ op"

definition AddChByIncr :: "string \<Rightarrow> WsRespAsyn \<Rightarrow> nat \<times> WsRespAsyn" where
  "AddChByIncr msgIncr u =
     (let (ch, u1) = make_chan u in (ch, u1\<lparr>wn_notification := gput msgIncr ch (wn_notification u1)\<rparr>))"

definition AddCh :: "string \<Rightarrow> string \<Rightarrow> WsRespAsyn \<Rightarrow> (string \<times> nat) \<times> WsRespAsyn" where
  "AddCh op userID u =
     (let msgIncr = GenMsgIncr op userID; (ch, u1) = make_chan u
      in ((msgIncr, ch), u1\<lparr>wn_notification := gput msgIncr ch (wn_notification u1)\<rparr>))"

definition GetCh :: "WsRespAsyn \<Rightarrow> string \<Rightarrow> nat option" where
  "GetCh u msgIncr = gget (wn_notification u) msgIncr"

text \<open>Closing a closed channel panics.\<close>

definition DelCh :: "string \<Rightarrow> WsRespAsyn \<Rightarrow> WsRespAsyn option" where
  "DelCh msgIncr u =
     (case gget (wn_notification u) msgIncr of
        None \<Rightarrow> Some u
      | Some ch \<Rightarrow>
          if rc_closed (wn_heap u ! ch) then None
          else Some (u\<lparr>wn_heap := (wn_heap u)[ch := (wn_heap u ! ch)\<lparr>rc_closed := True\<rparr>],
                       wn_notification := gdel msgIncr (wn_notification u)\<rparr>))"

definition send_to :: "GeneralWsResp option \<Rightarrow> resp_chan \<Rightarrow> resp_chan outcome" where
  "send_to v c =
     (if rc_closed c then Panics
      else if length (rc_buf c) < 1 then Returns (c\<lparr>rc_buf := rc_buf c @ [v]\<rparr>)
      else Blocks)"

definition receive_from :: "resp_chan \<Rightarrow> ((GeneralWsResp option \<times> bool) \<times> resp_chan) outcome" where
  "receive_from c =
     (case rc_buf c of
        v # rest \<Rightarrow> Returns ((v, True), c\<lparr>rc_buf := rest\<rparr>)
      | [] \<Rightarrow> if rc_closed c then Returns ((None, False), c) else Blocks)"

definition notifyCh :: "GeneralWsResp option \<Rightarrow> bool \<Rightarrow> resp_chan \<Rightarrow> (go_error option \<times> resp_chan) outcome" where
  "notifyCh value fired c =
     (if fired then Returns (Some (GoError ''send cmd timeout''), c)
      else case send_to value c of Panics \<Rightarrow> Panics | Blocks \<Rightarrow> Blocks | Returns c1 \<Rightarrow> Returns (None, c1))"

text \<open>An operation on the channel at an address.\<close>

definition on_chan :: "nat \<Rightarrow> (resp_chan \<Rightarrow> ('a \<times> resp_chan) outcome) \<Rightarrow> WsRespAsyn \<Rightarrow> ('a \<times> WsRespAsyn) outcome" where
  "on_chan ch f u =
     (case f (wn_heap u ! ch) of Panics \<Rightarrow> Panics | Blocks \<Rightarrow> Blocks
      | Returns (x, c) \<Rightarrow> Returns (x, u\<lparr>wn_heap := (wn_heap u)[ch := c]\<rparr>))"

text \<open>
  \<^verbatim>\<open>NotifyResp\<close> looks the channel up and then tries to send, again after each time-out, with the
  registry locked all the time: one round of the loop is \<open>notify_round\<close>, which stays in the loop
  with \<open>Inl\<close> and leaves it with \<open>Inr\<close>.
\<close>

definition notify_find :: "GeneralWsResp \<Rightarrow> WsRespAsyn \<Rightarrow> go_error + nat" where
  "notify_find wsResp u =
     (case GetCh u (wr_MsgIncr wsResp) of
        None \<Rightarrow> Inl (Wrapped (GoError ''no ch'') (''GetCh failed '' @ wr_MsgIncr wsResp))
      | Some ch \<Rightarrow> Inr ch)"

definition notify_round :: "nat \<Rightarrow> GeneralWsResp \<Rightarrow> bool \<Rightarrow> WsRespAsyn \<Rightarrow> (WsRespAsyn + WsRespAsyn) outcome" where
  "notify_round ch wsResp fired u =
     (case on_chan ch (notifyCh (Some wsResp) fired) u of
        Panics \<Rightarrow> Panics
      | Blocks \<Rightarrow> Blocks
      | Returns (Some _, u1) \<Rightarrow> Returns (Inl u1)
      | Returns (None, u1) \<Rightarrow> Returns (Inr u1))"

definition WaitResp :: "nat \<Rightarrow> bool \<Rightarrow> WsRespAsyn \<Rightarrow> (GeneralWsResp option \<times> WsRespAsyn) outcome" where
  "WaitResp ch fired u =
     (if fired then Returns (None, u)
      else case on_chan ch receive_from u of
             Panics \<Rightarrow> Panics
           | Blocks \<Rightarrow> Blocks
           | Returns ((r, ok), u1) \<Rightarrow>
               if \<not> ok then Returns (None, u1)
               else (case r of None \<Rightarrow> Panics
                     | Some resp \<Rightarrow> Returns (if wr_ErrCode resp \<noteq> 0 then None else Some resp, u1)))"

section \<open>Back-off\<close>

record ExponentialRetry =
  er_attempts :: "int list"
  er_index :: int

definition NewExponentialRetry :: ExponentialRetry where
  "NewExponentialRetry = \<lparr>er_attempts = [1, 2, 4, 8, 16], er_index = -1\<rparr>"

text \<open>The interval is in seconds; a remainder below 0 indexes out of range.\<close>

definition GetSleepInterval :: "ExponentialRetry \<Rightarrow> (int \<times> ExponentialRetry) option" where
  "GetSleepInterval rs =
     (let index = i64 (er_index rs + 1); interval = index smod int (length (er_attempts rs))
      in if interval < 0 then None else Some (er_attempts rs ! nat interval, rs\<lparr>er_index := index\<rparr>))"

definition retry_Reset :: "ExponentialRetry \<Rightarrow> ExponentialRetry" where
  "retry_Reset rs = rs\<lparr>er_index := -1\<rparr>"

section \<open>Well-formed registries\<close>

text \<open>
  Every registered channel exists, is open, is registered once, and holds only responses with the
  identifier it is registered under. Nothing holds more than one value.
\<close>

definition registry_ok :: "WsRespAsyn \<Rightarrow> bool" where
  "registry_ok u \<longleftrightarrow>
     gomap_ok (wn_notification u) \<and>
     (\<forall>k ch. gget (wn_notification u) k = Some ch \<longrightarrow>
        ch < length (wn_heap u) \<and> \<not> rc_closed (wn_heap u ! ch) \<and>
        (\<forall>v \<in> set (rc_buf (wn_heap u ! ch)). \<exists>r. v = Some r \<and> wr_MsgIncr r = k)) \<and>
     (\<forall>k k' ch. gget (wn_notification u) k = Some ch \<and> gget (wn_notification u) k' = Some ch \<longrightarrow> k = k') \<and>
     (\<forall>c \<in> set (wn_heap u). length (rc_buf c) \<le> 1)"

lemma registry_ok_New: "registry_ok NewWsRespAsyn"
  by (simp add: registry_ok_def NewWsRespAsyn_def)

end
