(* ===== verification/LongConn.thy ===== *)
theory LongConn
  imports WsResp Channel
begin

text \<open>
  \<^verbatim>\<open>internal/interaction/long_conn_mgr.go\<close>: the long connection as a transition system. Its three
  goroutines (\<^verbatim>\<open>readPump\<close>, \<^verbatim>\<open>writePump\<close>, \<^verbatim>\<open>heartbeat\<close>) and the callers of \<^verbatim>\<open>SendReqWaitResp\<close> each have
  a program counter; a step is one atomic part of a function, from one operation on shared state to
  the next: the status under its mutex, the lock \<^verbatim>\<open>connWrite\<close>, the registry of responses under its
  own mutex, a channel operation, or a call on the network. What the network, the clock and the
  random numbers decide is part of the event; \<open>step\<close> is a function of the event and the state, and
  \<open>None\<close> when the event cannot happen there.
\<close>

definition GetNewestSeq :: int where "GetNewestSeq = 1001"
definition PullMsgBySeqList :: int where "PullMsgBySeqList = 1002"
definition SendMsg :: int where "SendMsg = 1003"
definition SendSignalMsg :: int where "SendSignalMsg = 1004"
definition ReqPushMsg :: int where "ReqPushMsg = 2001"
definition KickOnlineMsg :: int where "KickOnlineMsg = 2002"
definition LogoutMsg :: int where "LogoutMsg = 2003"
definition SetBackgroundStatus :: int where "SetBackgroundStatus = 2004"
definition MessageText :: int where "MessageText = 1"
definition MessageBinary :: int where "MessageBinary = 2"
definition CloseMessage :: int where "CloseMessage = 8"

lemmas request_codes = GetNewestSeq_def PullMsgBySeqList_def SendMsg_def SendSignalMsg_def
  ReqPushMsg_def KickOnlineMsg_def LogoutMsg_def SetBackgroundStatus_def

definition DefaultNotConnect :: int where "DefaultNotConnect = 0"
definition Closed :: int where "Closed = 2"
definition Connecting :: int where "Connecting = 3"
definition Connected :: int where "Connected = 4"

lemmas status_codes = DefaultNotConnect_def Closed_def Connecting_def Connected_def

definition maxReconnectAttempts :: nat where "maxReconnectAttempts = 300"

definition ErrChanClosed :: go_error where "ErrChanClosed = GoError ''send channel closed''"
definition ErrNotSupportMessageProtocol :: go_error where
  "ErrNotSupportMessageProtocol = GoError ''not support message protocol''"
definition ErrClientClosed :: go_error where
  "ErrClientClosed = GoError ''client actively close the connection''"

section \<open>State\<close>

text \<open>The position of a goroutine inside \<^verbatim>\<open>sendAndWaitResp\<close>, with the request and its channel.\<close>

datatype call_pc =
    CallAdd GeneralWsReq                              \<comment> \<open>before \<^verbatim>\<open>AddCh\<close>\<close>
  | CallCheck GeneralWsReq nat                        \<comment> \<open>before the first look at the status\<close>
  | CallTry GeneralWsReq nat nat                      \<comment> \<open>attempt \<open>i\<close>, before taking \<^verbatim>\<open>connWrite\<close>\<close>
  | CallWriting GeneralWsReq nat nat "8 word list"    \<comment> \<open>holds \<^verbatim>\<open>connWrite\<close>, before \<^verbatim>\<open>WriteMessage\<close>\<close>
  | CallFailed GeneralWsReq nat nat go_error          \<comment> \<open>the attempt failed\<close>
  | CallWaiting GeneralWsReq nat                      \<comment> \<open>in the \<^verbatim>\<open>select\<close>\<close>
  | CallReturning GeneralWsReq "go_error + GeneralWsResp option"   \<comment> \<open>before the deferred \<^verbatim>\<open>DelCh\<close>\<close>
  | CallReturned GeneralWsReq "go_error + GeneralWsResp option"

datatype reader_pc =
    ReaderTop
  | ReaderDialing
  | ReaderSleeping
  | ReaderReading
  | ReaderNotifying nat GeneralWsResp "go_error option"   \<comment> \<open>in \<^verbatim>\<open>NotifyResp\<close>; then \<^verbatim>\<open>handleMessage\<close> returns this\<close>
  | ReaderReturning
  | ReaderDone

datatype writer_pc =
    WriterIdle
  | WriterCalling nat call_pc
  | WriterReplying nat "GeneralWsResp option"
  | WriterReturning
  | WriterDone

datatype beat_pc =
    BeatIdle
  | BeatCalling call_pc
  | BeatClosing
  | BeatSleeping
  | BeatDone

text \<open>A caller of \<^verbatim>\<open>SendReqWaitResp\<close>: its request and the channel \<^verbatim>\<open>msg.Resp\<close>.\<close>

datatype client_pc = ClientSending | ClientWaiting | ClientReturned "go_error option"

record client =
  cl_pc :: client_pc
  cl_req :: GeneralWsReq
  cl_resp :: resp_chan

datatype lock_owner = ByReader | ByWriter | ByBeat

datatype net_call = NetDial string | NetWrite "8 word list" | NetWriteClose | NetClose

datatype conn_event = OnConnecting | OnConnectSuccess | OnConnectFailed int go_error | OnKickedOffline | OnApiError go_error

record long_conn =
  lc_status :: int
  lc_closedErr :: "go_error option"
  lc_compression :: bool
  lc_background :: bool
  lc_syncer :: WsRespAsyn
  lc_retry :: ExponentialRetry
  lc_send :: "(GeneralWsReq \<times> nat) list"
  lc_send_closed :: bool
  lc_connWrite :: "lock_owner option"
  lc_connNum :: int
  lc_pushCh :: "chan option"
  lc_loginCh :: "chan option"
  lc_net :: "net_call list"
  lc_events :: "conn_event list"
  lc_reader :: reader_pc
  lc_writer :: writer_pc
  lc_beat :: beat_pc
  lc_clients :: "client list"
  lc_panicked :: bool

definition NewLongConnMgr :: "chan option \<Rightarrow> chan option \<Rightarrow> long_conn" where
  "NewLongConnMgr pushCh loginCh =
     \<lparr>lc_status = DefaultNotConnect, lc_closedErr = None, lc_compression = True, lc_background = False,
      lc_syncer = NewWsRespAsyn, lc_retry = NewExponentialRetry, lc_send = [], lc_send_closed = False,
      lc_connWrite = None, lc_connNum = 0, lc_pushCh = pushCh, lc_loginCh = loginCh, lc_net = [], lc_events = [],
      lc_reader = ReaderTop, lc_writer = WriterIdle, lc_beat = BeatIdle, lc_clients = [], lc_panicked = False\<rparr>"

text \<open>
  The environment: the codecs and the compressor, the login information, and which API codes are
  token errors. An error of \<^verbatim>\<open>proto.Unmarshal\<close> leaves some contents behind.
\<close>

record long_env =
  le_userID :: string
  le_token :: string
  le_wsAddr :: string
  le_platformID :: int
  le_encode :: "GeneralWsReq \<Rightarrow> go_error + 8 word list"
  le_decode :: "8 word list \<Rightarrow> GeneralWsResp option"
  le_compress :: "8 word list \<Rightarrow> go_error + 8 word list"
  le_decompress :: "8 word list \<Rightarrow> (8 word list) option"
  le_marshal_max_seq :: "string \<Rightarrow> (8 word list) option"
  le_unmarshal_max_seq :: "8 word list \<Rightarrow> go_error option \<times> (string, int) gomap"
  le_unmarshal_push :: "8 word list \<Rightarrow> PushMessages option"
  le_unmarshal_resp :: "8 word list \<Rightarrow> bool"
  le_api_resp :: "8 word list \<Rightarrow> go_error + int \<times> string \<times> string"
  le_token_error :: "int \<Rightarrow> bool"

section \<open>Parts without blocking\<close>

definition closed_err :: "go_error \<Rightarrow> long_conn \<Rightarrow> long_conn" where
  "closed_err e s = s\<lparr>lc_closedErr := Some e\<rparr>"

definition lc_close :: "long_conn \<Rightarrow> long_conn" where
  "lc_close s =
     (if lc_status s = Closed \<or> lc_status s = Connecting \<or> lc_status s = DefaultNotConnect then s
      else s\<lparr>lc_status := Closed, lc_net := lc_net s @ [NetClose]\<rparr>)"

definition IsConnected :: "long_conn \<Rightarrow> bool" where
  "IsConnected s \<longleftrightarrow> lc_status s = Connected"

definition SetConnectionStatus :: "int \<Rightarrow> long_conn \<Rightarrow> long_conn" where
  "SetConnectionStatus status s = s\<lparr>lc_status := status\<rparr>"

definition emit_conn :: "conn_event \<Rightarrow> long_conn \<Rightarrow> long_conn" where
  "emit_conn e s = s\<lparr>lc_events := lc_events s @ [e]\<rparr>"

definition trigger_push :: "(chan option action) \<Rightarrow> long_conn \<Rightarrow> long_conn" where
  "trigger_push f s = s\<lparr>lc_pushCh := snd (f (lc_pushCh s))\<rparr>"

text \<open>A goroutine can take a lock that nobody holds; the registry is locked while the reader notifies.\<close>

definition write_lock_free :: "long_conn \<Rightarrow> bool" where
  "write_lock_free s \<longleftrightarrow> lc_connWrite s = None"

definition registry_free :: "long_conn \<Rightarrow> bool" where
  "registry_free s \<longleftrightarrow> (case lc_reader s of ReaderNotifying _ _ _ \<Rightarrow> False | _ \<Rightarrow> True)"

definition panic :: "long_conn \<Rightarrow> long_conn" where
  "panic s = s\<lparr>lc_panicked := True\<rparr>"

section \<open>Sending a request and waiting for its response\<close>

datatype call_event =
    CeAdd string                       \<comment> \<open>the identifier drawn\<close>
  | CeCheck
  | CeTry
  | CeWritten "go_error option"        \<comment> \<open>what \<^verbatim>\<open>WriteMessage\<close> returns\<close>
  | CeRetry                            \<comment> \<open>record the failure, close, sleep\<close>
  | CeReceive
  | CeTimeout
  | CeRemove

definition not_connected :: go_error where
  "not_connected = Wrapped ErrNetwork ''connection closed,conning...''"

text \<open>\<^verbatim>\<open>writeBinaryMsg\<close> up to the call of \<^verbatim>\<open>WriteMessage\<close>: an error, or the bytes to write.\<close>

definition writeBinaryMsg :: "long_env \<Rightarrow> GeneralWsReq \<Rightarrow> long_conn \<Rightarrow> go_error + 8 word list" where
  "writeBinaryMsg env req s =
     (case le_encode env req of
        Inl e \<Rightarrow> Inl e
      | Inr encodeBuf \<Rightarrow>
          if lc_status s \<noteq> Connected then Inl (Wrapped ErrNetwork ''connection closed,re conning...'')
          else if lc_compression s then le_compress env encodeBuf else Inr encodeBuf)"

text \<open>\<^verbatim>\<open>writeBinaryMsgAndRetry\<close>: the loop around it.\<close>

definition retry_after :: "GeneralWsReq \<Rightarrow> nat \<Rightarrow> nat \<Rightarrow> call_pc" where
  "retry_after req ch i =
     (if i + 1 < maxReconnectAttempts then CallTry req ch (i + 1)
      else CallReturning req (Inl (Wrapped ErrNetwork ''send binary message error'')))"

definition writeBinaryMsgAndRetry ::
    "long_env \<Rightarrow> lock_owner \<Rightarrow> call_event \<Rightarrow> call_pc \<Rightarrow> long_conn \<Rightarrow> (call_pc \<times> long_conn) option" where
  "writeBinaryMsgAndRetry env me ev pc s =
     (case (ev, pc) of
        (CeAdd op, CallAdd req) \<Rightarrow>
          if registry_free s
          then let ((msgIncr, ch), u) = AddCh op (wq_SendID req) (lc_syncer s)
               in Some (CallCheck (req\<lparr>wq_MsgIncr := msgIncr\<rparr>) ch, s\<lparr>lc_syncer := u\<rparr>)
          else None
      | (CeCheck, CallCheck req ch) \<Rightarrow>
          Some (if lc_status s \<noteq> Connected \<and> wq_ReqIdentifier req = GetNewestSeq
                then CallReturning req (Inl not_connected) else CallTry req ch 0, s)
      | (CeTry, CallTry req ch i) \<Rightarrow>
          if write_lock_free s
          then case writeBinaryMsg env req s of
                 Inl e \<Rightarrow> Some (CallFailed req ch i e, s)
               | Inr bytes \<Rightarrow> Some (CallWriting req ch i bytes, s\<lparr>lc_connWrite := Some me\<rparr>)
          else None
      | (CeWritten r, CallWriting req ch i bytes) \<Rightarrow>
          let s1 = s\<lparr>lc_connWrite := None, lc_net := lc_net s @ [NetWrite bytes]\<rparr>
          in Some (case r of Some e \<Rightarrow> (CallFailed req ch i e, s1) | None \<Rightarrow> (CallWaiting req ch, s1))
      | (CeRetry, CallFailed req ch i e) \<Rightarrow> Some (retry_after req ch i, lc_close (closed_err e s))
      | _ \<Rightarrow> None)"

definition sendAndWaitResp ::
    "long_env \<Rightarrow> lock_owner \<Rightarrow> call_event \<Rightarrow> call_pc \<Rightarrow> long_conn \<Rightarrow> (call_pc \<times> long_conn) option" where
  "sendAndWaitResp env me ev pc s =
     (case (ev, pc) of
        (CeReceive, CallWaiting req ch) \<Rightarrow>
          (case on_chan ch receive_from (lc_syncer s) of
             Returns ((resp, _), u) \<Rightarrow> Some (CallReturning req (Inr resp), s\<lparr>lc_syncer := u\<rparr>)
           | _ \<Rightarrow> None)
      | (CeTimeout, CallWaiting req ch) \<Rightarrow> Some (CallReturning req (Inl ErrNetworkTimeOut), s)
      | (CeRemove, CallReturning req result) \<Rightarrow>
          if registry_free s
          then (case DelCh (wq_MsgIncr req) (lc_syncer s) of
                  None \<Rightarrow> Some (pc, panic s)
                | Some u \<Rightarrow> Some (CallReturned req result, s\<lparr>lc_syncer := u\<rparr>))
          else None
      | _ \<Rightarrow> writeBinaryMsgAndRetry env me ev pc s)"

section \<open>readPump\<close>

datatype dial_body = BodyError go_error | DialBody "8 word list"
datatype dial_outcome = DialOk string | DialError go_error "dial_body option"
datatype read_outcome = ReadError go_error | ReadMsg int "8 word list"

definition dial_url :: "long_env \<Rightarrow> string \<Rightarrow> long_conn \<Rightarrow> string" where
  "dial_url env operationID s =
     le_wsAddr env @ ''?sendID='' @ le_userID env @ ''&token='' @ le_token env @ ''&platformID='' @
     decimal (le_platformID env) @ ''&operationID='' @ operationID @ ''&isBackground='' @ bool_text (lc_background s) @
     (if lc_compression s then ''&compression=gzip'' else [])"

text \<open>\<^verbatim>\<open>reConn\<close> up to the call of \<^verbatim>\<open>Dial\<close>, and from its return on: whether to go on, and the error.\<close>

definition reConn_start :: "long_env \<Rightarrow> string \<Rightarrow> long_conn \<Rightarrow> long_conn" where
  "reConn_start env operationID s =
     (let s1 = SetConnectionStatus Connecting (emit_conn OnConnecting (s\<lparr>lc_connWrite := Some ByReader\<rparr>))
      in s1\<lparr>lc_net := lc_net s1 @ [NetDial (dial_url env operationID s1)]\<rparr>)"

definition reConn_failed :: "long_env \<Rightarrow> go_error \<Rightarrow> dial_body option \<Rightarrow> long_conn \<Rightarrow> (bool \<times> go_error) \<times> long_conn" where
  "reConn_failed env err resp s =
     (let s1 = SetConnectionStatus Closed s
      in case resp of
           None \<Rightarrow> ((True, err), emit_conn (OnConnectFailed NetworkError err) s1)
         | Some (BodyError e) \<Rightarrow> ((True, e), s1)
         | Some (DialBody body) \<Rightarrow>
             (case le_api_resp env body of
                Inl e \<Rightarrow> ((True, e), s1)
              | Inr (code, msg, dlt) \<Rightarrow>
                  let e = Wrapped (CodeError code msg) dlt
                  in ((\<not> le_token_error env code, e), emit_conn (OnApiError e) s1)))"

definition reConn_done :: "long_conn \<Rightarrow> long_conn" where
  "reConn_done s =
     (let s1 = SetConnectionStatus Connected (emit_conn OnConnectSuccess s)
      in trigger_push TriggerCmdConnected
           (s1\<lparr>lc_connNum := i64 (lc_connNum s1 + 1), lc_retry := retry_Reset (lc_retry s1)\<rparr>))"

definition reConn_finish :: "long_env \<Rightarrow> dial_outcome \<Rightarrow> long_conn \<Rightarrow> long_conn" where
  "reConn_finish env r s =
     (case r of
        DialOk localAddr \<Rightarrow> (reConn_done s)\<lparr>lc_connWrite := None, lc_reader := ReaderReading\<rparr>
      | DialError err resp \<Rightarrow>
          let ((needRecon, e), s1) = reConn_failed env err resp s; s2 = s1\<lparr>lc_connWrite := None\<rparr>
          in if \<not> needRecon then (closed_err e s2)\<lparr>lc_reader := ReaderReturning\<rparr>
             else s2\<lparr>lc_reader := ReaderSleeping\<rparr>)"

definition doPushMsg_conn :: "long_env \<Rightarrow> GeneralWsResp \<Rightarrow> long_conn \<Rightarrow> long_conn" where
  "doPushMsg_conn env wsResp s =
     (case le_unmarshal_push env (wr_Data wsResp) of
        None \<Rightarrow> s
      | Some msg \<Rightarrow> trigger_push (TriggerCmdPushMsg msg) s)"

text \<open>Where the reader goes when \<^verbatim>\<open>handleMessage\<close> has returned.\<close>

definition handled :: "go_error option \<Rightarrow> long_conn \<Rightarrow> long_conn" where
  "handled r s =
     (case r of None \<Rightarrow> s\<lparr>lc_reader := ReaderTop\<rparr>
      | Some e \<Rightarrow> (closed_err e s)\<lparr>lc_reader := ReaderReturning\<rparr>)"

definition notify_then :: "GeneralWsResp \<Rightarrow> go_error option \<Rightarrow> long_conn \<Rightarrow> long_conn" where
  "notify_then wsResp after s =
     (case notify_find wsResp (lc_syncer s) of
        Inl _ \<Rightarrow> handled after s
      | Inr ch \<Rightarrow> s\<lparr>lc_reader := ReaderNotifying ch wsResp after\<rparr>)"

definition response_ids :: "int list" where
  "response_ids = [GetNewestSeq, PullMsgBySeqList, SendMsg, SendSignalMsg, SetBackgroundStatus]"

definition dispatch :: "long_env \<Rightarrow> GeneralWsResp \<Rightarrow> long_conn \<Rightarrow> long_conn" where
  "dispatch env wsResp s =
     (if wr_ReqIdentifier wsResp = ReqPushMsg then handled None (doPushMsg_conn env wsResp s)
      else if wr_ReqIdentifier wsResp = LogoutMsg then notify_then wsResp (Some ErrLoginOut) s
      else if wr_ReqIdentifier wsResp = KickOnlineMsg
      then let s1 = emit_conn OnKickedOffline s
           in handled (Some (GoError ''client kicked offline'')) (s1\<lparr>lc_loginCh := snd (TriggerCmdLogOut (lc_loginCh s1))\<rparr>)
      else if wr_ReqIdentifier wsResp \<in> set response_ids then notify_then wsResp None s
      else handled (Some ErrMsgBinaryTypeNotSupport) s)"

definition handleMessage :: "long_env \<Rightarrow> 8 word list \<Rightarrow> long_conn \<Rightarrow> long_conn" where
  "handleMessage env message s =
     (case (if lc_compression s then le_decompress env message else Some message) of
        None \<Rightarrow> handled (Some ErrMsgDeCompression) s
      | Some plain \<Rightarrow>
          (case le_decode env plain of
             None \<Rightarrow> handled (Some ErrMsgDecodeBinaryWs) s
           | Some wsResp \<Rightarrow> dispatch env wsResp s))"

definition read_message :: "long_env \<Rightarrow> read_outcome \<Rightarrow> long_conn \<Rightarrow> long_conn" where
  "read_message env r s =
     (case r of
        ReadError _ \<Rightarrow> (lc_close s)\<lparr>lc_reader := ReaderTop\<rparr>
      | ReadMsg messageType message \<Rightarrow>
          if messageType = MessageBinary then handleMessage env message s
          else if messageType = MessageText then handled (Some ErrNotSupportMessageProtocol) s
          else if messageType = CloseMessage then handled (Some ErrClientClosed) s
          else s\<lparr>lc_reader := ReaderTop\<rparr>)"

definition notify_step :: "nat \<Rightarrow> GeneralWsResp \<Rightarrow> go_error option \<Rightarrow> bool \<Rightarrow> long_conn \<Rightarrow> long_conn option" where
  "notify_step ch wsResp after fired s =
     (case notify_round ch wsResp fired (lc_syncer s) of
        Panics \<Rightarrow> Some (panic s)
      | Blocks \<Rightarrow> None
      | Returns (Inl u) \<Rightarrow> Some (s\<lparr>lc_syncer := u\<rparr>)
      | Returns (Inr u) \<Rightarrow> Some (handled after (s\<lparr>lc_syncer := u\<rparr>)))"

datatype reader_event =
    ReTop string                 \<comment> \<open>the operation id drawn\<close>
  | ReDialed dial_outcome
  | ReSleep
  | ReRead read_outcome
  | ReNotify bool
  | ReClose

definition readPump :: "long_env \<Rightarrow> reader_event \<Rightarrow> long_conn \<Rightarrow> long_conn option" where
  "readPump env ev s =
     (case lc_reader s of
        ReaderTop \<Rightarrow>
          (case ev of
             ReTop operationID \<Rightarrow>
               if IsConnected s then Some (s\<lparr>lc_reader := ReaderReading\<rparr>)
               else if write_lock_free s then Some ((reConn_start env operationID s)\<lparr>lc_reader := ReaderDialing\<rparr>)
               else None
           | _ \<Rightarrow> None)
      | ReaderDialing \<Rightarrow> (case ev of ReDialed r \<Rightarrow> Some (reConn_finish env r s) | _ \<Rightarrow> None)
      | ReaderSleeping \<Rightarrow>
          (case ev of
             ReSleep \<Rightarrow>
               (case GetSleepInterval (lc_retry s) of
                  None \<Rightarrow> Some (panic s)
                | Some (_, retry) \<Rightarrow> Some (s\<lparr>lc_retry := retry, lc_reader := ReaderTop\<rparr>))
           | _ \<Rightarrow> None)
      | ReaderReading \<Rightarrow> (case ev of ReRead r \<Rightarrow> Some (read_message env r s) | _ \<Rightarrow> None)
      | ReaderNotifying ch wsResp after \<Rightarrow>
          (case ev of ReNotify fired \<Rightarrow> notify_step ch wsResp after fired s | _ \<Rightarrow> None)
      | ReaderReturning \<Rightarrow> (case ev of ReClose \<Rightarrow> Some ((lc_close s)\<lparr>lc_reader := ReaderDone\<rparr>) | _ \<Rightarrow> None)
      | ReaderDone \<Rightarrow> None)"

section \<open>writePump\<close>

definition error_resp :: "GeneralWsReq \<Rightarrow> go_error \<Rightarrow> GeneralWsResp" where
  "error_resp req err =
     (let (code, msg) = (case code_of err of Some cm \<Rightarrow> cm | None \<Rightarrow> (0, []))
      in \<lparr>wr_ReqIdentifier = wq_ReqIdentifier req, wr_ErrCode = code, wr_ErrMsg = msg, wr_MsgIncr = [],
          wr_OperationID = wq_OperationID req, wr_Data = []\<rparr>)"

definition answer :: "GeneralWsReq \<Rightarrow> go_error + GeneralWsResp option \<Rightarrow> GeneralWsResp option" where
  "answer req result = (case result of Inr resp \<Rightarrow> resp | Inl err \<Rightarrow> Some (error_resp req err))"

datatype writer_event =
    WeTake
  | WeStop go_error                    \<comment> \<open>\<^verbatim>\<open>ctx.Done()\<close>, with \<^verbatim>\<open>ctx.Err()\<close>\<close>
  | WeDrained                          \<comment> \<open>\<^verbatim>\<open>send\<close> is closed and empty\<close>
  | WeCall call_event
  | WeReply bool
  | WeClose

definition reply_step :: "nat \<Rightarrow> GeneralWsResp option \<Rightarrow> bool \<Rightarrow> long_conn \<Rightarrow> long_conn option" where
  "reply_step cl resp fired s =
     (case notifyCh resp fired (cl_resp (lc_clients s ! cl)) of
        Panics \<Rightarrow> Some (panic s)
      | Blocks \<Rightarrow> None
      | Returns (_, c) \<Rightarrow>
          Some (s\<lparr>lc_clients := (lc_clients s)[cl := (lc_clients s ! cl)\<lparr>cl_resp := c\<rparr>], lc_writer := WriterIdle\<rparr>))"

definition writer_idle :: "writer_event \<Rightarrow> long_conn \<Rightarrow> long_conn option" where
  "writer_idle ev s =
     (case ev of
        WeStop e \<Rightarrow> Some ((closed_err e s)\<lparr>lc_writer := WriterReturning\<rparr>)
      | WeTake \<Rightarrow>
          (case lc_send s of
             (req, cl) # rest \<Rightarrow> Some (s\<lparr>lc_send := rest, lc_writer := WriterCalling cl (CallAdd req)\<rparr>)
           | [] \<Rightarrow> None)
      | WeDrained \<Rightarrow>
          if lc_send_closed s \<and> lc_send s = []
          then Some ((closed_err ErrChanClosed s)\<lparr>lc_net := lc_net s @ [NetWriteClose], lc_writer := WriterReturning\<rparr>)
          else None
      | _ \<Rightarrow> None)"

definition writer_call :: "long_env \<Rightarrow> nat \<Rightarrow> call_pc \<Rightarrow> writer_event \<Rightarrow> long_conn \<Rightarrow> long_conn option" where
  "writer_call env cl pc ev s =
     (case ev of
        WeCall ce \<Rightarrow>
          (case sendAndWaitResp env ByWriter ce pc s of
             None \<Rightarrow> None
           | Some (pc1, s1) \<Rightarrow>
               (case pc1 of
                  CallReturned req result \<Rightarrow> Some (s1\<lparr>lc_writer := WriterReplying cl (answer req result)\<rparr>)
                | _ \<Rightarrow> Some (s1\<lparr>lc_writer := WriterCalling cl pc1\<rparr>)))
      | _ \<Rightarrow> None)"

text \<open>Closing \<^verbatim>\<open>send\<close> twice would panic.\<close>

definition writePump :: "long_env \<Rightarrow> writer_event \<Rightarrow> long_conn \<Rightarrow> long_conn option" where
  "writePump env ev s =
     (case lc_writer s of
        WriterIdle \<Rightarrow> writer_idle ev s
      | WriterCalling cl pc \<Rightarrow> writer_call env cl pc ev s
      | WriterReplying cl resp \<Rightarrow> (case ev of WeReply fired \<Rightarrow> reply_step cl resp fired s | _ \<Rightarrow> None)
      | WriterReturning \<Rightarrow>
          (case ev of
             WeClose \<Rightarrow>
               if lc_send_closed s then Some (panic (lc_close s))
               else Some ((lc_close s)\<lparr>lc_send_closed := True, lc_writer := WriterDone\<rparr>)
           | _ \<Rightarrow> None)
      | WriterDone \<Rightarrow> None)"

section \<open>heartbeat\<close>

text \<open>\<^verbatim>\<open>c.conn\<close> is set by \<^verbatim>\<open>NewLongConnMgr\<close> and never nil.\<close>

datatype beat_event =
    BeStop
  | BePing string                      \<comment> \<open>the ticker or \<^verbatim>\<open>heartbeatCh\<close>, with the operation id drawn\<close>
  | BeCall call_event
  | BeClose
  | BeSleep

definition ping_request :: "long_env \<Rightarrow> string \<Rightarrow> 8 word list \<Rightarrow> GeneralWsReq" where
  "ping_request env opID data =
     \<lparr>wq_ReqIdentifier = GetNewestSeq, wq_Token = [], wq_SendID = le_userID env, wq_OperationID = opID,
      wq_MsgIncr = [], wq_Data = data\<rparr>"

text \<open>A nil response would panic; its error code only makes it log.\<close>

definition ping_done :: "long_env \<Rightarrow> go_error + GeneralWsResp option \<Rightarrow> long_conn \<Rightarrow> long_conn" where
  "ping_done env result s =
     (case result of
        Inl _ \<Rightarrow> s\<lparr>lc_beat := BeatClosing\<rparr>
      | Inr None \<Rightarrow> panic s
      | Inr (Some resp) \<Rightarrow>
          trigger_push (TriggerCmdMaxSeq (snd (le_unmarshal_max_seq env (wr_Data resp)))) (s\<lparr>lc_beat := BeatIdle\<rparr>))"

definition beat_call :: "long_env \<Rightarrow> call_pc \<Rightarrow> beat_event \<Rightarrow> long_conn \<Rightarrow> long_conn option" where
  "beat_call env pc ev s =
     (case ev of
        BeCall ce \<Rightarrow>
          (case sendAndWaitResp env ByBeat ce pc s of
             None \<Rightarrow> None
           | Some (pc1, s1) \<Rightarrow>
               (case pc1 of
                  CallReturned req result \<Rightarrow> Some (ping_done env result s1)
                | _ \<Rightarrow> Some (s1\<lparr>lc_beat := BeatCalling pc1\<rparr>)))
      | _ \<Rightarrow> None)"

definition heartbeat :: "long_env \<Rightarrow> beat_event \<Rightarrow> long_conn \<Rightarrow> long_conn option" where
  "heartbeat env ev s =
     (case lc_beat s of
        BeatIdle \<Rightarrow>
          (case ev of
             BeStop \<Rightarrow> Some (s\<lparr>lc_beat := BeatDone\<rparr>)
           | BePing opID \<Rightarrow>
               (case le_marshal_max_seq env (le_userID env) of
                  None \<Rightarrow> Some s
                | Some data \<Rightarrow> Some (s\<lparr>lc_beat := BeatCalling (CallAdd (ping_request env opID data))\<rparr>))
           | _ \<Rightarrow> None)
      | BeatCalling pc \<Rightarrow> beat_call env pc ev s
      | BeatClosing \<Rightarrow> (case ev of BeClose \<Rightarrow> Some ((lc_close s)\<lparr>lc_beat := BeatSleeping\<rparr>) | _ \<Rightarrow> None)
      | BeatSleeping \<Rightarrow> (case ev of BeSleep \<Rightarrow> Some (s\<lparr>lc_beat := BeatIdle\<rparr>) | _ \<Rightarrow> None)
      | BeatDone \<Rightarrow> None)"

section \<open>SendReqWaitResp\<close>

definition client_request :: "int \<Rightarrow> string \<Rightarrow> string \<Rightarrow> 8 word list \<Rightarrow> GeneralWsReq" where
  "client_request reqIdentifier userID operationID data =
     \<lparr>wq_ReqIdentifier = reqIdentifier, wq_Token = [], wq_SendID = userID, wq_OperationID = operationID,
      wq_MsgIncr = [], wq_Data = data\<rparr>"

datatype client_event =
    ClStart int string string "(8 word list) option"   \<comment> \<open>a new call; the marshalled message, if it can be marshalled\<close>
  | ClSend nat
  | ClReceive nat
  | ClDone nat

definition set_client :: "nat \<Rightarrow> client \<Rightarrow> long_conn \<Rightarrow> long_conn" where
  "set_client cl c s = s\<lparr>lc_clients := (lc_clients s)[cl := c]\<rparr>"

definition new_client :: "int \<Rightarrow> string \<Rightarrow> string \<Rightarrow> (8 word list) option \<Rightarrow> client" where
  "new_client reqIdentifier userID operationID marshalled =
     \<lparr>cl_pc = (case marshalled of None \<Rightarrow> ClientReturned (Some ErrArgs) | Some _ \<Rightarrow> ClientSending),
      cl_req = client_request reqIdentifier userID operationID (case marshalled of None \<Rightarrow> [] | Some data \<Rightarrow> data),
      cl_resp = \<lparr>rc_buf = [], rc_closed = False\<rparr>\<rparr>"

text \<open>What the caller makes of a response; a nil response panics.\<close>

definition client_result :: "long_env \<Rightarrow> GeneralWsResp option \<times> bool \<Rightarrow> go_error option option" where
  "client_result env r =
     (if \<not> snd r then Some (Some (GoError ''response channel closed''))
      else case fst r of
             None \<Rightarrow> None
           | Some v \<Rightarrow>
               if wr_ErrCode v \<noteq> 0 then Some (Some (CodeError (wr_ErrCode v) (wr_ErrMsg v)))
               else if \<not> le_unmarshal_resp env (wr_Data v) then Some (Some ErrArgs)
               else Some None)"

definition send_cap :: nat where "send_cap = 10"

definition at_client :: "nat \<Rightarrow> client_pc \<Rightarrow> long_conn \<Rightarrow> bool" where
  "at_client cl pc s \<longleftrightarrow> cl < length (lc_clients s) \<and> cl_pc (lc_clients s ! cl) = pc"

definition client_send :: "nat \<Rightarrow> long_conn \<Rightarrow> long_conn option" where
  "client_send cl s =
     (if lc_send_closed s then Some (panic s)
      else if length (lc_send s) < send_cap
      then let c = lc_clients s ! cl
           in Some (set_client cl (c\<lparr>cl_pc := ClientWaiting\<rparr>) (s\<lparr>lc_send := lc_send s @ [(cl_req c, cl)]\<rparr>))
      else None)"

definition client_receive :: "long_env \<Rightarrow> nat \<Rightarrow> long_conn \<Rightarrow> long_conn option" where
  "client_receive env cl s =
     (case receive_from (cl_resp (lc_clients s ! cl)) of
        Returns (r, ch) \<Rightarrow>
          (case client_result env r of
             None \<Rightarrow> Some (panic s)
           | Some err \<Rightarrow> Some (set_client cl ((lc_clients s ! cl)\<lparr>cl_pc := ClientReturned err, cl_resp := ch\<rparr>) s))
      | _ \<Rightarrow> None)"

definition SendReqWaitResp :: "long_env \<Rightarrow> client_event \<Rightarrow> long_conn \<Rightarrow> long_conn option" where
  "SendReqWaitResp env ev s =
     (case ev of
        ClStart reqIdentifier userID operationID marshalled \<Rightarrow>
          Some (s\<lparr>lc_clients := lc_clients s @ [new_client reqIdentifier userID operationID marshalled]\<rparr>)
      | ClSend cl \<Rightarrow> if at_client cl ClientSending s then client_send cl s else None
      | ClReceive cl \<Rightarrow> if at_client cl ClientWaiting s then client_receive env cl s else None
      | ClDone cl \<Rightarrow>
          if at_client cl ClientWaiting s
          then Some (set_client cl ((lc_clients s ! cl)\<lparr>cl_pc := ClientReturned (Some ErrCtxDeadline)\<rparr>) s)
          else None)"

section \<open>The whole connection\<close>

definition lc_Close :: "long_conn \<Rightarrow> long_conn" where
  "lc_Close s =
     (if lc_status s = Connected
      then lc_close (closed_err (GoError ''closed by client network change'') s) else s)"

definition SetBackground :: "bool \<Rightarrow> long_conn \<Rightarrow> long_conn" where
  "SetBackground b s = s\<lparr>lc_background := b\<rparr>"

datatype event =
    Reader reader_event
  | Writer writer_event
  | Beat beat_event
  | Client client_event
  | NetworkChange
  | Background bool

definition step :: "long_env \<Rightarrow> event \<Rightarrow> long_conn \<Rightarrow> long_conn option" where
  "step env ev s =
     (if lc_panicked s then None
      else case ev of
             Reader e \<Rightarrow> readPump env e s
           | Writer e \<Rightarrow> writePump env e s
           | Beat e \<Rightarrow> heartbeat env e s
           | Client e \<Rightarrow> SendReqWaitResp env e s
           | NetworkChange \<Rightarrow> Some (lc_Close s)
           | Background b \<Rightarrow> Some (SetBackground b s))"

inductive reachable :: "long_env \<Rightarrow> long_conn \<Rightarrow> bool" for env where
  start: "reachable env (NewLongConnMgr pushCh loginCh)"
| step: "reachable env s \<Longrightarrow> step env ev s = Some s' \<Longrightarrow> reachable env s'"

fun run :: "long_env \<Rightarrow> event list \<Rightarrow> long_conn \<Rightarrow> long_conn option" where
  "run env [] s = Some s"
| "run env (ev # evs) s = (case step env ev s of None \<Rightarrow> None | Some s' \<Rightarrow> run env evs s')"

lemma reachable_run: "reachable env s \<Longrightarrow> run env evs s = Some s' \<Longrightarrow> reachable env s'"
  by (induction evs arbitrary: s) (auto split: option.splits intro: reachable.step)

end
