(* ===== verification/LongConnProps.thy ===== *)
theory LongConnProps
  imports LongConn
begin

text \<open>
  Invariants of the long connection, by induction over its reachable states: who holds the write
  lock and what the status says, which responses a waiting goroutine can get, what the registry
  holds, and that an answer always finds room. Then what the code does where it goes wrong: after
  \<^verbatim>\<open>writePump\<close> has returned, and when a response arrives twice.
\<close>

section \<open>What a step can change\<close>

fun is_writing :: "call_pc \<Rightarrow> bool" where
  "is_writing (CallWriting _ _ _ _) = True"
| "is_writing _ = False"

definition writer_writing :: "writer_pc \<Rightarrow> bool" where
  "writer_writing w \<longleftrightarrow> (\<exists>cl pc. w = WriterCalling cl pc \<and> is_writing pc)"

definition beat_writing :: "beat_pc \<Rightarrow> bool" where
  "beat_writing b \<longleftrightarrow> (\<exists>pc. b = BeatCalling pc \<and> is_writing pc)"

lemma writer_writing_simps [simp]:
  "\<not> writer_writing WriterIdle" "\<not> writer_writing (WriterReplying cl r)"
  "\<not> writer_writing WriterReturning" "\<not> writer_writing WriterDone"
  "writer_writing (WriterCalling cl pc) = is_writing pc"
  by (simp_all add: writer_writing_def)

lemma beat_writing_simps [simp]:
  "\<not> beat_writing BeatIdle" "\<not> beat_writing BeatClosing" "\<not> beat_writing BeatSleeping" "\<not> beat_writing BeatDone"
  "beat_writing (BeatCalling pc) = is_writing pc"
  by (simp_all add: beat_writing_def)

lemmas call_defs = sendAndWaitResp_def writeBinaryMsgAndRetry_def

lemma lc_close_frame [simp]:
  "lc_connWrite (lc_close s) = lc_connWrite s" "lc_reader (lc_close s) = lc_reader s"
  "lc_writer (lc_close s) = lc_writer s" "lc_beat (lc_close s) = lc_beat s"
  "lc_syncer (lc_close s) = lc_syncer s" "lc_clients (lc_close s) = lc_clients s"
  "lc_send (lc_close s) = lc_send s" "lc_send_closed (lc_close s) = lc_send_closed s"
  "lc_panicked (lc_close s) = lc_panicked s" "lc_retry (lc_close s) = lc_retry s"
  by (simp_all add: lc_close_def)

lemma lc_close_status:
  "lc_status (lc_close s) = (if lc_status s = Connecting \<or> lc_status s = DefaultNotConnect then lc_status s else Closed)"
  by (auto simp: lc_close_def)

text \<open>The cases of a call's step.\<close>

lemma call_cases:
  assumes "sendAndWaitResp env me ev pc s = Some (pc', s')"
  obtains
    (add) op req ch u where "ev = CeAdd op" "pc = CallAdd req" "registry_free s"
      "AddCh op (wq_SendID req) (lc_syncer s) = ((GenMsgIncr op (wq_SendID req), ch), u)"
      "pc' = CallCheck (req\<lparr>wq_MsgIncr := GenMsgIncr op (wq_SendID req)\<rparr>) ch" "s' = s\<lparr>lc_syncer := u\<rparr>"
  | (refuse) req ch where "ev = CeCheck" "pc = CallCheck req ch" "pc' = CallReturning req (Inl not_connected)" "s' = s"
  | (check) req ch where "ev = CeCheck" "pc = CallCheck req ch" "pc' = CallTry req ch 0" "s' = s"
  | (failed) req ch i e where "ev = CeTry" "pc = CallTry req ch i" "write_lock_free s" "pc' = CallFailed req ch i e" "s' = s"
      "writeBinaryMsg env req s = Inl e"
  | (lock) req ch i bytes where "ev = CeTry" "pc = CallTry req ch i" "write_lock_free s" "pc' = CallWriting req ch i bytes"
      "s' = s\<lparr>lc_connWrite := Some me\<rparr>" "writeBinaryMsg env req s = Inr bytes"
  | (write_failed) req ch i bytes e where "ev = CeWritten (Some e)" "pc = CallWriting req ch i bytes" "pc' = CallFailed req ch i e"
      "s' = s\<lparr>lc_connWrite := None, lc_net := lc_net s @ [NetWrite bytes]\<rparr>"
  | (written) req ch i bytes where "ev = CeWritten None" "pc = CallWriting req ch i bytes" "pc' = CallWaiting req ch"
      "s' = s\<lparr>lc_connWrite := None, lc_net := lc_net s @ [NetWrite bytes]\<rparr>"
  | (retry) req ch i e where "ev = CeRetry" "pc = CallFailed req ch i e" "pc' = retry_after req ch i" "s' = lc_close (closed_err e s)"
  | (receive) req ch resp ok u where "ev = CeReceive" "pc = CallWaiting req ch"
      "on_chan ch receive_from (lc_syncer s) = Returns ((resp, ok), u)"
      "pc' = CallReturning req (Inr resp)" "s' = s\<lparr>lc_syncer := u\<rparr>"
  | (timeout) req ch where "ev = CeTimeout" "pc = CallWaiting req ch" "pc' = CallReturning req (Inl ErrNetworkTimeOut)" "s' = s"
  | (panicked) req result where "ev = CeRemove" "pc = CallReturning req result" "registry_free s"
      "DelCh (wq_MsgIncr req) (lc_syncer s) = None" "pc' = pc" "s' = panic s"
  | (remove) req result u where "ev = CeRemove" "pc = CallReturning req result" "registry_free s"
      "DelCh (wq_MsgIncr req) (lc_syncer s) = Some u" "pc' = CallReturned req result" "s' = s\<lparr>lc_syncer := u\<rparr>"
proof (cases pc)
  case (CallAdd req)
  with assms obtain op where ev: "ev = CeAdd op" by (cases ev) (simp_all add: call_defs)
  obtain ch u where u: "AddCh op (wq_SendID req) (lc_syncer s) = ((GenMsgIncr op (wq_SendID req), ch), u)"
    by (simp add: AddCh_def make_chan_def Let_def)
  with assms CallAdd ev show ?thesis by (intro add [of op req ch u]) (simp_all add: call_defs split: if_splits)
next
  case (CallCheck req ch)
  with assms have ev: "ev = CeCheck" by (cases ev) (simp_all add: call_defs)
  show ?thesis
  proof (cases "lc_status s \<noteq> Connected \<and> wq_ReqIdentifier req = GetNewestSeq")
    case True
    with assms CallCheck ev show ?thesis by (intro refuse [of req ch]) (simp_all add: call_defs)
  next
    case False
    with assms CallCheck ev show ?thesis by (intro check [of req ch]) (simp_all add: call_defs split: if_splits)
  qed
next
  case (CallTry req ch i)
  with assms have ev: "ev = CeTry" by (cases ev) (simp_all add: call_defs)
  with assms CallTry have free: "write_lock_free s" by (simp add: call_defs split: if_splits)
  show ?thesis
  proof (cases "writeBinaryMsg env req s")
    case (Inl e)
    with assms CallTry ev free show ?thesis by (intro failed [of req ch i e]) (simp_all add: call_defs)
  next
    case (Inr bytes)
    with assms CallTry ev free show ?thesis by (intro lock [of req ch i bytes]) (simp_all add: call_defs)
  qed
next
  case (CallWriting req ch i bytes)
  with assms obtain r where ev: "ev = CeWritten r" by (cases ev) (simp_all add: call_defs)
  show ?thesis
  proof (cases r)
    case None
    with assms CallWriting ev show ?thesis by (intro written [of req ch i bytes]) (simp_all add: call_defs)
  next
    case (Some e)
    with assms CallWriting ev show ?thesis by (intro write_failed [of e req ch i bytes]) (simp_all add: call_defs)
  qed
next
  case (CallFailed req ch i e)
  with assms have ev: "ev = CeRetry" by (cases ev) (simp_all add: call_defs)
  with assms CallFailed show ?thesis by (intro retry [of req ch i e]) (simp_all add: call_defs)
next
  case (CallWaiting req ch)
  with assms have "ev = CeReceive \<or> ev = CeTimeout" by (cases ev) (simp_all add: call_defs)
  then show ?thesis
  proof
    assume ev: "ev = CeTimeout"
    with assms CallWaiting show ?thesis by (intro timeout [of req ch]) (simp_all add: call_defs)
  next
    assume ev: "ev = CeReceive"
    with assms CallWaiting obtain resp ok u
      where "on_chan ch receive_from (lc_syncer s) = Returns ((resp, ok), u)"
      by (auto simp: call_defs split: outcome.splits)
    with assms CallWaiting ev show ?thesis by (intro receive [of req ch resp ok u]) (simp_all add: call_defs)
  qed
next
  case (CallReturning req result)
  with assms have ev: "ev = CeRemove" by (cases ev) (simp_all add: call_defs)
  with assms CallReturning have free: "registry_free s" by (simp add: call_defs split: if_splits)
  show ?thesis
  proof (cases "DelCh (wq_MsgIncr req) (lc_syncer s)")
    case None
    with assms CallReturning ev free show ?thesis by (intro panicked [of req result]) (simp_all add: call_defs)
  next
    case (Some u)
    with assms CallReturning ev free show ?thesis by (intro remove [of req result u]) (simp_all add: call_defs)
  qed
next
  case (CallReturned req result)
  with assms show ?thesis by (cases ev) (simp_all add: call_defs)
qed

lemma closed_err_frame [simp]:
  "lc_connWrite (closed_err e s) = lc_connWrite s" "lc_reader (closed_err e s) = lc_reader s"
  "lc_writer (closed_err e s) = lc_writer s" "lc_beat (closed_err e s) = lc_beat s"
  "lc_syncer (closed_err e s) = lc_syncer s" "lc_clients (closed_err e s) = lc_clients s"
  "lc_send (closed_err e s) = lc_send s" "lc_send_closed (closed_err e s) = lc_send_closed s"
  "lc_panicked (closed_err e s) = lc_panicked s" "lc_status (closed_err e s) = lc_status s"
  "lc_retry (closed_err e s) = lc_retry s"
  by (simp_all add: closed_err_def)

lemma panic_frame [simp]:
  "lc_connWrite (panic s) = lc_connWrite s" "lc_reader (panic s) = lc_reader s"
  "lc_writer (panic s) = lc_writer s" "lc_beat (panic s) = lc_beat s"
  "lc_syncer (panic s) = lc_syncer s" "lc_clients (panic s) = lc_clients s"
  "lc_send (panic s) = lc_send s" "lc_send_closed (panic s) = lc_send_closed s"
  "lc_panicked (panic s)" "lc_status (panic s) = lc_status s" "lc_retry (panic s) = lc_retry s"
  by (simp_all add: panic_def)

lemma call_frame:
  assumes "sendAndWaitResp env me ev pc s = Some (pc', s')"
  shows "lc_reader s' = lc_reader s" "lc_writer s' = lc_writer s" "lc_beat s' = lc_beat s"
    "lc_clients s' = lc_clients s" "lc_send s' = lc_send s" "lc_send_closed s' = lc_send_closed s"
    "lc_retry s' = lc_retry s"
    "lc_status s' = lc_status s \<or> lc_status s' = lc_status (lc_close s)"
  using assms by (cases rule: call_cases; simp add: lc_close_def closed_err_def)+

lemma not_writing_retry [simp]: "\<not> is_writing (retry_after req ch i)"
  by (simp add: retry_after_def)

lemma call_lock:
  assumes "sendAndWaitResp env me ev pc s = Some (pc', s')"
    and "is_writing pc \<longleftrightarrow> lc_connWrite s = Some me"
  shows "is_writing pc' \<longleftrightarrow> lc_connWrite s' = Some me"
    and "other \<noteq> me \<Longrightarrow> lc_connWrite s' = Some other \<longleftrightarrow> lc_connWrite s = Some other"
  using assms by (cases rule: call_cases; auto simp: write_lock_free_def)+

section \<open>The status and the write lock\<close>

definition status_ok :: "long_conn \<Rightarrow> bool" where
  "status_ok s \<longleftrightarrow>
     lc_status s \<in> {DefaultNotConnect, Closed, Connecting, Connected} \<and>
     (lc_status s = Connecting \<longleftrightarrow> lc_reader s = ReaderDialing) \<and>
     (lc_reader s = ReaderDone \<longrightarrow> lc_status s \<noteq> Connected) \<and>
     (lc_connWrite s = Some ByReader \<longleftrightarrow> lc_reader s = ReaderDialing) \<and>
     (lc_connWrite s = Some ByWriter \<longleftrightarrow> writer_writing (lc_writer s)) \<and>
     (lc_connWrite s = Some ByBeat \<longleftrightarrow> beat_writing (lc_beat s))"

lemma status_okI:
  assumes "lc_status s \<in> {DefaultNotConnect, Closed, Connecting, Connected}"
    and "lc_status s = Connecting \<longleftrightarrow> lc_reader s = ReaderDialing"
    and "lc_reader s = ReaderDone \<Longrightarrow> lc_status s \<noteq> Connected"
    and "lc_connWrite s = Some ByReader \<longleftrightarrow> lc_reader s = ReaderDialing"
    and "lc_connWrite s = Some ByWriter \<longleftrightarrow> writer_writing (lc_writer s)"
    and "lc_connWrite s = Some ByBeat \<longleftrightarrow> beat_writing (lc_beat s)"
  shows "status_ok s"
  using assms unfolding status_ok_def by blast

text \<open>A step that leaves the pieces of \<open>status_ok\<close> alone, or only closes the connection.\<close>

lemma status_ok_same:
  assumes "status_ok s" and "lc_status s' = lc_status s" and "lc_connWrite s' = lc_connWrite s"
    and "lc_reader s' = lc_reader s" and "writer_writing (lc_writer s') = writer_writing (lc_writer s)"
    and "beat_writing (lc_beat s') = beat_writing (lc_beat s)"
  shows "status_ok s'"
  using assms unfolding status_ok_def by metis

lemma status_ok_close:
  assumes "status_ok s" and "lc_status s' = lc_status (lc_close s)" and "lc_connWrite s' = lc_connWrite s"
    and "lc_reader s' = lc_reader s" and "writer_writing (lc_writer s') = writer_writing (lc_writer s)"
    and "beat_writing (lc_beat s') = beat_writing (lc_beat s)"
  shows "status_ok s'"
  using assms by (auto simp: status_ok_def lc_close_status status_codes)

text \<open>A reader that moves between positions where it does not dial.\<close>

lemma status_ok_reader:
  assumes "status_ok s" and "lc_reader s \<noteq> ReaderDialing" and "lc_reader s' \<noteq> ReaderDialing"
    and "lc_reader s' = ReaderDone \<Longrightarrow> lc_status s' \<noteq> Connected"
    and "lc_status s' = lc_status s \<or> lc_status s' = lc_status (lc_close s)" and "lc_connWrite s' = lc_connWrite s"
    and "lc_writer s' = lc_writer s" and "lc_beat s' = lc_beat s"
  shows "status_ok s'"
  using assms by (auto simp: status_ok_def lc_close_status status_codes)

lemma handled_frame [simp]:
  "lc_status (handled r s) = lc_status s" "lc_connWrite (handled r s) = lc_connWrite s"
  "lc_writer (handled r s) = lc_writer s" "lc_beat (handled r s) = lc_beat s"
  "lc_syncer (handled r s) = lc_syncer s" "lc_clients (handled r s) = lc_clients s"
  "lc_send (handled r s) = lc_send s" "lc_send_closed (handled r s) = lc_send_closed s"
  "lc_reader (handled r s) = (if r = None then ReaderTop else ReaderReturning)"
  "lc_retry (handled r s) = lc_retry s"
  by (simp_all add: handled_def closed_err_def split: option.splits)

lemma emit_conn_frame [simp]:
  "lc_status (emit_conn e s) = lc_status s" "lc_connWrite (emit_conn e s) = lc_connWrite s"
  "lc_writer (emit_conn e s) = lc_writer s" "lc_beat (emit_conn e s) = lc_beat s"
  "lc_syncer (emit_conn e s) = lc_syncer s" "lc_clients (emit_conn e s) = lc_clients s"
  "lc_send (emit_conn e s) = lc_send s" "lc_send_closed (emit_conn e s) = lc_send_closed s"
  "lc_reader (emit_conn e s) = lc_reader s" "lc_retry (emit_conn e s) = lc_retry s"
  by (simp_all add: emit_conn_def)

lemma trigger_push_frame [simp]:
  "lc_status (trigger_push f s) = lc_status s" "lc_connWrite (trigger_push f s) = lc_connWrite s"
  "lc_writer (trigger_push f s) = lc_writer s" "lc_beat (trigger_push f s) = lc_beat s"
  "lc_syncer (trigger_push f s) = lc_syncer s" "lc_clients (trigger_push f s) = lc_clients s"
  "lc_send (trigger_push f s) = lc_send s" "lc_send_closed (trigger_push f s) = lc_send_closed s"
  "lc_reader (trigger_push f s) = lc_reader s" "lc_retry (trigger_push f s) = lc_retry s"
  by (simp_all add: trigger_push_def)

text \<open>Where \<^verbatim>\<open>readMessage\<close> and \<^verbatim>\<open>handleMessage\<close> lead.\<close>

definition reader_moved :: "long_conn \<Rightarrow> long_conn \<Rightarrow> bool" where
  "reader_moved s s' \<longleftrightarrow>
     lc_connWrite s' = lc_connWrite s \<and> lc_writer s' = lc_writer s \<and> lc_beat s' = lc_beat s \<and>
     lc_syncer s' = lc_syncer s \<and> lc_clients s' = lc_clients s \<and> lc_send s' = lc_send s \<and>
     lc_send_closed s' = lc_send_closed s \<and> lc_retry s' = lc_retry s \<and>
     (lc_status s' = lc_status s \<or> lc_status s' = lc_status (lc_close s)) \<and>
     (lc_reader s' \<in> {ReaderTop, ReaderReturning} \<or>
      (\<exists>ch resp after. lc_reader s' = ReaderNotifying ch resp after \<and>
         gget (wn_notification (lc_syncer s)) (wr_MsgIncr resp) = Some ch))"

lemma notify_then_moved: "reader_moved s (notify_then resp after s)"
  by (auto simp: notify_then_def notify_find_def GetCh_def reader_moved_def split: option.splits sum.splits)

lemma dispatch_moved: "reader_moved s (dispatch env resp s)"
proof -
  have "reader_moved s (handled r s')" if "lc_connWrite s' = lc_connWrite s" "lc_writer s' = lc_writer s"
    "lc_beat s' = lc_beat s" "lc_syncer s' = lc_syncer s" "lc_clients s' = lc_clients s" "lc_send s' = lc_send s"
    "lc_send_closed s' = lc_send_closed s" "lc_retry s' = lc_retry s" "lc_status s' = lc_status s" for r s'
    using that by (auto simp: reader_moved_def)
  then show ?thesis
    by (auto simp: dispatch_def doPushMsg_conn_def notify_then_moved Let_def split: option.splits)
qed

lemma read_message_moved: "reader_moved s (read_message env r s)"
  by (auto simp: read_message_def handleMessage_def dispatch_moved split: read_outcome.splits option.splits)
    (auto simp: reader_moved_def)

lemma readPump_status:
  assumes "readPump env ev s = Some s'" and "status_ok s"
  shows "status_ok s'"
proof (cases "lc_reader s")
  case ReaderTop
  with assms show ?thesis
    by (auto simp: readPump_def status_ok_def IsConnected_def write_lock_free_def reConn_start_def SetConnectionStatus_def
        Let_def status_codes split: reader_event.splits if_splits)
next
  case ReaderDialing
  with assms obtain r where "s' = reConn_finish env r s" by (auto simp: readPump_def split: reader_event.splits)
  with assms(2) ReaderDialing show ?thesis
    by (auto simp: reConn_finish_def reConn_failed_def reConn_done_def SetConnectionStatus_def status_ok_def Let_def
        status_codes split: dial_outcome.splits option.splits dial_body.splits sum.splits prod.splits)
next
  case ReaderSleeping
  with assms show ?thesis
    by (auto simp: readPump_def split: reader_event.splits option.splits
        intro: status_ok_reader [OF assms(2)] status_ok_same [OF assms(2)])
next
  case ReaderReading
  with assms(1) obtain r where s': "s' = read_message env r s" by (auto simp: readPump_def split: reader_event.splits)
  with read_message_moved [of s env r] ReaderReading show ?thesis
    by (intro status_ok_reader [OF assms(2)]) (auto simp: reader_moved_def)
next
  case (ReaderNotifying ch resp after)
  with assms(1) obtain fired where step: "notify_step ch resp after fired s = Some s'"
    by (auto simp: readPump_def split: reader_event.splits)
  show ?thesis
  proof (cases "lc_reader s' = lc_reader s")
    case True
    with step show ?thesis
      by (intro status_ok_same [OF assms(2)]) (auto simp: notify_step_def split: outcome.splits sum.splits)
  next
    case False
    with step ReaderNotifying show ?thesis
      by (intro status_ok_reader [OF assms(2)]) (auto simp: notify_step_def split: outcome.splits sum.splits if_splits)
  qed
next
  case ReaderReturning
  with assms show ?thesis
    by (intro status_ok_reader [OF assms(2)])
      (auto simp: readPump_def lc_close_status status_codes split: reader_event.splits if_splits)
next
  case ReaderDone
  with assms show ?thesis by (simp add: readPump_def)
qed

text \<open>A call's step keeps \<open>status_ok\<close>, for whichever goroutine makes it.\<close>

lemma call_status:
  assumes "sendAndWaitResp env me ev pc s = Some (pc', s')" and "status_ok s" and "is_writing pc \<longleftrightarrow> lc_connWrite s = Some me"
    and "lc_status s'' = lc_status s'" and "lc_connWrite s'' = lc_connWrite s'" and "lc_reader s'' = lc_reader s'"
    and "me = ByWriter \<and> writer_writing (lc_writer s'') = is_writing pc' \<and> lc_beat s'' = lc_beat s' \<or>
         me = ByBeat \<and> beat_writing (lc_beat s'') = is_writing pc' \<and> lc_writer s'' = lc_writer s'"
  shows "status_ok s''"
proof -
  note fr = call_frame [OF assms(1)] and lk = call_lock [OF assms(1,3)]
  have st: "lc_status s'' = lc_status s \<or> lc_status s'' = lc_status (lc_close s)" using fr(8) assms(4) by simp
  show ?thesis
  proof (rule status_okI)
    show "lc_status s'' \<in> {DefaultNotConnect, Closed, Connecting, Connected}"
      using st assms(2) by (auto simp: status_ok_def lc_close_status status_codes)
    show "lc_status s'' = Connecting \<longleftrightarrow> lc_reader s'' = ReaderDialing"
      using st assms(2,6) fr(1) by (auto simp: status_ok_def lc_close_status status_codes)
    show "lc_status s'' \<noteq> Connected" if "lc_reader s'' = ReaderDone"
      using st assms(2,6) fr(1) that by (auto simp: status_ok_def lc_close_status status_codes)
    show "lc_connWrite s'' = Some ByReader \<longleftrightarrow> lc_reader s'' = ReaderDialing"
      using lk(2) [of ByReader] assms(2,5,6,7) fr(1) by (auto simp: status_ok_def)
    show "lc_connWrite s'' = Some ByWriter \<longleftrightarrow> writer_writing (lc_writer s'')"
      using lk(1) lk(2) [of ByWriter] assms(2,5,7) fr(2) by (auto simp: status_ok_def)
    show "lc_connWrite s'' = Some ByBeat \<longleftrightarrow> beat_writing (lc_beat s'')"
      using lk(1) lk(2) [of ByBeat] assms(2,5,7) fr(3) by (auto simp: status_ok_def)
  qed
qed

lemma writer_call_cases:
  assumes "writer_call env cl pc ev s = Some s'"
  obtains (still) ce pc1 s1 where "ev = WeCall ce" "sendAndWaitResp env ByWriter ce pc s = Some (pc1, s1)"
      "\<nexists>req result. pc1 = CallReturned req result" "s' = s1\<lparr>lc_writer := WriterCalling cl pc1\<rparr>"
  | (returned) ce req result s1 where "ev = WeCall ce" "sendAndWaitResp env ByWriter ce pc s = Some (CallReturned req result, s1)"
      "s' = s1\<lparr>lc_writer := WriterReplying cl (answer req result)\<rparr>"
proof -
  from assms obtain ce where ev: "ev = WeCall ce" by (cases ev) (simp_all add: writer_call_def)
  with assms obtain pc1 s1 where call: "sendAndWaitResp env ByWriter ce pc s = Some (pc1, s1)"
    by (auto simp: writer_call_def split: option.splits)
  show ?thesis
  proof (cases pc1)
    case (CallReturned req result)
    with assms ev call show ?thesis by (intro returned [of ce req result s1]) (simp_all add: writer_call_def)
  qed (use assms ev call in \<open>intro still [of ce pc1 s1]; simp add: writer_call_def\<close>)+
qed

lemma beat_call_cases:
  assumes "beat_call env pc ev s = Some s'"
  obtains (still) ce pc1 s1 where "ev = BeCall ce" "sendAndWaitResp env ByBeat ce pc s = Some (pc1, s1)"
      "\<nexists>req result. pc1 = CallReturned req result" "s' = s1\<lparr>lc_beat := BeatCalling pc1\<rparr>"
  | (returned) ce req result s1 where "ev = BeCall ce" "sendAndWaitResp env ByBeat ce pc s = Some (CallReturned req result, s1)"
      "s' = ping_done env result s1"
proof -
  from assms obtain ce where ev: "ev = BeCall ce" by (cases ev) (simp_all add: beat_call_def)
  with assms obtain pc1 s1 where call: "sendAndWaitResp env ByBeat ce pc s = Some (pc1, s1)"
    by (auto simp: beat_call_def split: option.splits)
  show ?thesis
  proof (cases pc1)
    case (CallReturned req result)
    with assms ev call show ?thesis by (intro returned [of ce req result s1]) (simp_all add: beat_call_def)
  qed (use assms ev call in \<open>intro still [of ce pc1 s1]; simp add: beat_call_def\<close>)+
qed

lemma ping_done_frame [simp]:
  "lc_status (ping_done env r s) = lc_status s" "lc_connWrite (ping_done env r s) = lc_connWrite s"
  "lc_writer (ping_done env r s) = lc_writer s" "lc_syncer (ping_done env r s) = lc_syncer s"
  "lc_clients (ping_done env r s) = lc_clients s" "lc_send (ping_done env r s) = lc_send s"
  "lc_send_closed (ping_done env r s) = lc_send_closed s" "lc_reader (ping_done env r s) = lc_reader s"
  by (simp_all add: ping_done_def split: sum.splits option.splits)

lemma ping_done_beat: "r \<noteq> Inr None \<Longrightarrow> lc_beat (ping_done env r s) \<in> {BeatIdle, BeatClosing}"
  by (auto simp: ping_done_def split: sum.splits option.splits)

lemma writePump_status:
  assumes "writePump env ev s = Some s'" and "status_ok s"
  shows "status_ok s'"
proof (cases "lc_writer s")
  case WriterIdle
  with assms(1) show ?thesis
    by (intro status_ok_same [OF assms(2)])
      (auto simp: writePump_def writer_idle_def split: writer_event.splits list.splits if_splits)
next
  case (WriterCalling cl pc)
  then have pc: "is_writing pc \<longleftrightarrow> lc_connWrite s = Some ByWriter" using assms(2) by (simp add: status_ok_def)
  from assms(1) WriterCalling have "writer_call env cl pc ev s = Some s'" by (simp add: writePump_def)
  then show ?thesis
  proof (cases rule: writer_call_cases)
    case still
    then show ?thesis by (intro call_status [OF still(2) assms(2) pc]) simp_all
  next
    case returned
    then show ?thesis by (intro call_status [OF returned(2) assms(2) pc]) simp_all
  qed
next
  case (WriterReplying cl resp)
  with assms(1) show ?thesis
    by (intro status_ok_same [OF assms(2)])
      (auto simp: writePump_def reply_step_def split: writer_event.splits outcome.splits prod.splits)
next
  case WriterReturning
  with assms(1) show ?thesis
    by (intro status_ok_close [OF assms(2)]) (auto simp: writePump_def split: writer_event.splits if_splits)
next
  case WriterDone
  with assms show ?thesis by (simp add: writePump_def)
qed

lemma heartbeat_status:
  assumes "heartbeat env ev s = Some s'" and "status_ok s"
  shows "status_ok s'"
proof (cases "lc_beat s")
  case BeatIdle
  with assms(1) show ?thesis
    by (intro status_ok_same [OF assms(2)]) (auto simp: heartbeat_def split: beat_event.splits option.splits)
next
  case (BeatCalling pc)
  then have pc: "is_writing pc \<longleftrightarrow> lc_connWrite s = Some ByBeat" using assms(2) by (simp add: status_ok_def)
  from assms(1) BeatCalling have "beat_call env pc ev s = Some s'" by (simp add: heartbeat_def)
  then show ?thesis
  proof (cases rule: beat_call_cases)
    case still
    then show ?thesis by (intro call_status [OF still(2) assms(2) pc]) simp_all
  next
    case (returned ce req result s1)
    have "\<not> is_writing pc" using returned(2) by (cases rule: call_cases) simp_all
    with BeatCalling have "\<not> beat_writing (lc_beat s)" by simp
    with call_frame(3) [OF returned(2)] have "\<not> beat_writing (lc_beat s')"
      using ping_done_beat [of result env s1] returned(3)
      by (cases "result = Inr None") (auto simp: ping_done_def)
    with returned show ?thesis by (intro call_status [OF returned(2) assms(2) pc]) simp_all
  qed
next
  case BeatClosing
  with assms(1) show ?thesis
    by (intro status_ok_close [OF assms(2)]) (auto simp: heartbeat_def split: beat_event.splits)
next
  case BeatSleeping
  with assms(1) show ?thesis
    by (intro status_ok_same [OF assms(2)]) (auto simp: heartbeat_def split: beat_event.splits)
next
  case BeatDone
  with assms show ?thesis by (simp add: heartbeat_def)
qed

lemma client_frame:
  assumes "SendReqWaitResp env ev s = Some s'"
  shows "lc_status s' = lc_status s" "lc_connWrite s' = lc_connWrite s" "lc_reader s' = lc_reader s"
    "lc_writer s' = lc_writer s" "lc_beat s' = lc_beat s" "lc_syncer s' = lc_syncer s"
    "lc_send_closed s' = lc_send_closed s" "lc_retry s' = lc_retry s"
  using assms
  by (auto simp: SendReqWaitResp_def client_send_def client_receive_def set_client_def Let_def
      split: client_event.splits if_splits outcome.splits option.splits)

lemma step_cases:
  assumes "step env ev s = Some s'"
  obtains (reader) e where "ev = Reader e" "readPump env e s = Some s'"
  | (writer) e where "ev = Writer e" "writePump env e s = Some s'"
  | (beat) e where "ev = Beat e" "heartbeat env e s = Some s'"
  | (client) e where "ev = Client e" "SendReqWaitResp env e s = Some s'"
  | (change) "ev = NetworkChange" "s' = lc_Close s"
  | (background) b where "ev = Background b" "s' = SetBackground b s"
  using assms by (cases ev) (auto simp: step_def split: if_splits)

theorem reachable_status:
  assumes "reachable env s"
  shows "status_ok s"
  using assms
proof (induction rule: reachable.induct)
  case (start pushCh loginCh)
  show ?case by (simp add: status_ok_def NewLongConnMgr_def status_codes)
next
  case (step s ev s')
  from step.hyps(2) step.IH show ?case
  proof (cases rule: step_cases)
    case change
    with step.IH show ?thesis
      by (cases "lc_status s = Connected") (auto simp: lc_Close_def status_ok_def lc_close_status status_codes)
  next
    case background
    with step.IH show ?thesis by (intro status_ok_same [OF step.IH]) (simp_all add: SetBackground_def)
  next
    case client
    with client_frame [OF client(2)] show ?thesis by (intro status_ok_same [OF step.IH]) simp_all
  qed (simp_all add: readPump_status writePump_status heartbeat_status)
qed

section \<open>The registry of responses\<close>

text \<open>The identifier a call has registered, and the channel it may still receive from.\<close>

fun call_keys :: "call_pc \<Rightarrow> string set" where
  "call_keys (CallAdd req) = {}"
| "call_keys (CallCheck req ch) = {wq_MsgIncr req}"
| "call_keys (CallTry req ch i) = {wq_MsgIncr req}"
| "call_keys (CallWriting req ch i bytes) = {wq_MsgIncr req}"
| "call_keys (CallFailed req ch i e) = {wq_MsgIncr req}"
| "call_keys (CallWaiting req ch) = {wq_MsgIncr req}"
| "call_keys (CallReturning req result) = {wq_MsgIncr req}"
| "call_keys (CallReturned req result) = {}"

fun call_chans :: "call_pc \<Rightarrow> (string \<times> nat) set" where
  "call_chans (CallCheck req ch) = {(wq_MsgIncr req, ch)}"
| "call_chans (CallTry req ch i) = {(wq_MsgIncr req, ch)}"
| "call_chans (CallWriting req ch i bytes) = {(wq_MsgIncr req, ch)}"
| "call_chans (CallFailed req ch i e) = {(wq_MsgIncr req, ch)}"
| "call_chans (CallWaiting req ch) = {(wq_MsgIncr req, ch)}"
| "call_chans _ = {}"

definition writer_of :: "(call_pc \<Rightarrow> 'a set) \<Rightarrow> writer_pc \<Rightarrow> 'a set" where
  "writer_of f w = (case w of WriterCalling cl pc \<Rightarrow> f pc | _ \<Rightarrow> {})"

definition beat_of :: "(call_pc \<Rightarrow> 'a set) \<Rightarrow> beat_pc \<Rightarrow> 'a set" where
  "beat_of f b = (case b of BeatCalling pc \<Rightarrow> f pc | _ \<Rightarrow> {})"

lemma writer_of_simps [simp]:
  "writer_of f WriterIdle = {}" "writer_of f (WriterReplying cl r) = {}" "writer_of f WriterReturning = {}"
  "writer_of f WriterDone = {}" "writer_of f (WriterCalling cl pc) = f pc"
  by (simp_all add: writer_of_def)

lemma beat_of_simps [simp]:
  "beat_of f BeatIdle = {}" "beat_of f BeatClosing = {}" "beat_of f BeatSleeping = {}" "beat_of f BeatDone = {}"
  "beat_of f (BeatCalling pc) = f pc"
  by (simp_all add: beat_of_def)

definition labelled :: "string \<Rightarrow> resp_chan \<Rightarrow> bool" where
  "labelled k c \<longleftrightarrow> (\<forall>v \<in> set (rc_buf c). \<exists>r. v = Some r \<and> wr_MsgIncr r = k)"

definition held_ok :: "WsRespAsyn \<Rightarrow> string \<times> nat \<Rightarrow> bool" where
  "held_ok u h \<longleftrightarrow> snd h < length (wn_heap u) \<and> labelled (fst h) (wn_heap u ! snd h) \<and>
     (\<forall>k. gget (wn_notification u) k = Some (snd h) \<longrightarrow> k = fst h)"

text \<open>The registry against the identifiers \<open>K\<close> in flight and the channels \<open>H\<close> held.\<close>

definition reg_ok :: "WsRespAsyn \<Rightarrow> string set \<Rightarrow> (string \<times> nat) set \<Rightarrow> bool" where
  "reg_ok u K H \<longleftrightarrow> registry_ok u \<and> (\<forall>k. gget (wn_notification u) k \<noteq> None \<longrightarrow> k \<in> K) \<and> (\<forall>h \<in> H. held_ok u h)"

lemma reg_ok_mono: "reg_ok u K H \<Longrightarrow> K \<subseteq> K' \<Longrightarrow> H' \<subseteq> H \<Longrightarrow> reg_ok u K' H'"
  by (auto simp: reg_ok_def)

lemma registry_okD:
  assumes "registry_ok u" and "gget (wn_notification u) k = Some ch"
  shows "ch < length (wn_heap u)" "\<not> rc_closed (wn_heap u ! ch)" "labelled k (wn_heap u ! ch)"
    and "gget (wn_notification u) k' = Some ch \<Longrightarrow> k' = k"
  using assms by (auto simp: registry_ok_def labelled_def)

lemma registry_ok_cap: "registry_ok u \<Longrightarrow> c \<in> set (wn_heap u) \<Longrightarrow> length (rc_buf c) \<le> 1"
  by (simp add: registry_ok_def)

lemma registry_okI:
  assumes "gomap_ok (wn_notification u)"
    and "\<And>k ch. gget (wn_notification u) k = Some ch \<Longrightarrow>
       ch < length (wn_heap u) \<and> \<not> rc_closed (wn_heap u ! ch) \<and> labelled k (wn_heap u ! ch)"
    and "\<And>k k' ch. gget (wn_notification u) k = Some ch \<Longrightarrow> gget (wn_notification u) k' = Some ch \<Longrightarrow> k = k'"
    and "\<And>c. c \<in> set (wn_heap u) \<Longrightarrow> length (rc_buf c) \<le> 1"
  shows "registry_ok u"
  using assms unfolding registry_ok_def labelled_def by blast

lemma AddCh_reg:
  assumes "reg_ok u K H" and "AddCh op userID u = ((k, ch), u')"
  shows "reg_ok u' (insert k K) (insert (k, ch) H)"
proof -
  have ok: "registry_ok u" using assms(1) by (simp add: reg_ok_def)
  have ch: "ch = length (wn_heap u)" and u': "wn_heap u' = wn_heap u @ [\<lparr>rc_buf = [], rc_closed = False\<rparr>]"
      "wn_notification u' = gput k ch (wn_notification u)"
    using assms(2) by (auto simp: AddCh_def make_chan_def Let_def)
  note D = registry_okD [OF ok]
  have old: "ch \<noteq> ch'" if "gget (wn_notification u) k' = Some ch'" for k' ch' using D(1) [OF that] ch by simp
  have "registry_ok u'"
  proof (rule registry_okI)
    show "gomap_ok (wn_notification u')" using ok by (simp add: registry_ok_def u')
    show "k1 = k2" if "gget (wn_notification u') k1 = Some c" "gget (wn_notification u') k2 = Some c" for k1 k2 c
      using that D(4) [of k1 c k2] old [of k1 c] old [of k2 c] by (auto simp: u' gomap_simps split: if_splits)
    show "c < length (wn_heap u') \<and> \<not> rc_closed (wn_heap u' ! c) \<and> labelled k1 (wn_heap u' ! c)"
      if "gget (wn_notification u') k1 = Some c" for k1 c
      using that D(1-3) [of k1 c] by (auto simp: u' gomap_simps ch nth_append labelled_def split: if_splits)
    show "length (rc_buf c) \<le> 1" if "c \<in> set (wn_heap u')" for c
      using that registry_ok_cap [OF ok] by (auto simp: u')
  qed
  moreover have "held_ok u' h" if "h \<in> insert (k, ch) H" for h
  proof (cases "h = (k, ch)")
    case True
    with old show ?thesis by (auto simp: held_ok_def u' ch nth_append labelled_def gomap_simps)
  next
    case False
    with that assms(1) have "held_ok u h" by (simp add: reg_ok_def)
    then show ?thesis by (auto simp: held_ok_def u' ch nth_append gomap_simps)
  qed
  ultimately show ?thesis using assms(1) by (auto simp: reg_ok_def u' gomap_simps)
qed

text \<open>A channel that gets a buffer with the same label, of at most one value.\<close>

lemma heap_update_reg:
  assumes "reg_ok u K H" and "ch < length (wn_heap u)" and "length (rc_buf c) \<le> 1"
    and "rc_closed c = rc_closed (wn_heap u ! ch)"
    and "\<And>k. labelled k (wn_heap u ! ch) \<Longrightarrow> gget (wn_notification u) k = Some ch \<or> (k, ch) \<in> H \<Longrightarrow> labelled k c"
  shows "reg_ok (u\<lparr>wn_heap := (wn_heap u)[ch := c]\<rparr>) K H"
proof -
  have ok: "registry_ok u" using assms(1) by (simp add: reg_ok_def)
  note D = registry_okD [OF ok]
  have at: "(wn_heap u)[ch := c] ! i = (if i = ch then c else wn_heap u ! i)" for i
    using assms(2) by (simp add: nth_list_update)
  let ?u = "u\<lparr>wn_heap := (wn_heap u)[ch := c]\<rparr>"
  have "registry_ok ?u"
  proof (rule registry_okI)
    show "gomap_ok (wn_notification ?u)" using ok by (simp add: registry_ok_def)
    show "k1 = k2" if "gget (wn_notification ?u) k1 = Some i" "gget (wn_notification ?u) k2 = Some i" for k1 k2 i
      using D(4) [of k2 i k1] that by simp
    show "i < length (wn_heap ?u) \<and> \<not> rc_closed (wn_heap ?u ! i) \<and> labelled k (wn_heap ?u ! i)"
      if "gget (wn_notification ?u) k = Some i" for k i
      using D(1-3) [of k i] assms(4,5) that by (auto simp: at)
    show "length (rc_buf x) \<le> 1" if "x \<in> set (wn_heap ?u)" for x
    proof -
      have "x \<in> insert c (set (wn_heap u))" using that set_update_subset_insert by fastforce
      with assms(3) registry_ok_cap [OF ok] show ?thesis by auto
    qed
  qed
  moreover have "held_ok (u\<lparr>wn_heap := (wn_heap u)[ch := c]\<rparr>) h" if "h \<in> H" for h
  proof -
    obtain k i where h: "h = (k, i)" by (cases h)
    from assms(1) that have "held_ok u h" by (simp add: reg_ok_def)
    with assms(5) [of k] that h show ?thesis by (auto simp: held_ok_def at)
  qed
  ultimately show ?thesis using assms(1) by (simp add: reg_ok_def)
qed

lemma receive_reg:
  assumes "reg_ok u K H" and "(k, ch) \<in> H" and "on_chan ch receive_from u = Returns (x, u')"
  shows "reg_ok u' K H" and "wn_notification u' = wn_notification u"
    and "fst x = Some r \<Longrightarrow> wr_MsgIncr r = k"
proof -
  have h: "held_ok u (k, ch)" using assms(1,2) by (auto simp: reg_ok_def)
  then have lt: "ch < length (wn_heap u)" and lab: "labelled k (wn_heap u ! ch)" by (simp_all add: held_ok_def)
  from assms(3) obtain c where rc: "receive_from (wn_heap u ! ch) = Returns (x, c)"
    and u': "u' = u\<lparr>wn_heap := (wn_heap u)[ch := c]\<rparr>"
    by (auto simp: on_chan_def split: outcome.splits)
  have len: "length (rc_buf (wn_heap u ! ch)) \<le> 1"
    using registry_ok_cap [of u "wn_heap u ! ch"] assms(1) lt by (simp add: reg_ok_def)
  have c: "set (rc_buf c) \<subseteq> set (rc_buf (wn_heap u ! ch))" "rc_closed c = rc_closed (wn_heap u ! ch)"
      "length (rc_buf c) \<le> length (rc_buf (wn_heap u ! ch))"
    using rc by (auto simp: receive_from_def split: list.splits if_splits)
  show "reg_ok u' K H" unfolding u'
    by (rule heap_update_reg [OF assms(1) lt]) (use c len in \<open>auto simp: labelled_def\<close>)
  show "wn_notification u' = wn_notification u" by (simp add: u')
  show "wr_MsgIncr r = k" if "fst x = Some r"
    using rc that lab by (auto simp: receive_from_def labelled_def split: list.splits if_splits)
qed

lemma DelCh_reg:
  assumes "reg_ok u K H" and "DelCh k u = Some u'"
  shows "reg_ok u' (K - {k}) H"
proof (cases "gget (wn_notification u) k")
  case None
  with assms show ?thesis by (auto simp: DelCh_def reg_ok_def)
next
  case (Some ch)
  have ok: "registry_ok u" using assms(1) by (simp add: reg_ok_def)
  note D = registry_okD [OF ok]
  have u': "wn_heap u' = (wn_heap u)[ch := (wn_heap u ! ch)\<lparr>rc_closed := True\<rparr>]"
      "wn_notification u' = gdel k (wn_notification u)"
    using assms(2) Some by (auto simp: DelCh_def split: if_splits)
  have other: "i \<noteq> ch" if "gget (wn_notification u) k' = Some i" "k' \<noteq> k" for k' i using D(4) [OF Some] that by blast
  have "registry_ok u'"
  proof (rule registry_okI)
    show "gomap_ok (wn_notification u')" using ok by (simp add: registry_ok_def u')
    show "k1 = k2" if "gget (wn_notification u') k1 = Some i" "gget (wn_notification u') k2 = Some i" for k1 k2 i
      using that D(4) [of k1 i k2] by (auto simp: u' gomap_simps split: if_splits)
    show "i < length (wn_heap u') \<and> \<not> rc_closed (wn_heap u' ! i) \<and> labelled k1 (wn_heap u' ! i)"
      if "gget (wn_notification u') k1 = Some i" for k1 i
    proof -
      from that have k1: "gget (wn_notification u) k1 = Some i" "k1 \<noteq> k" by (auto simp: u' gomap_simps split: if_splits)
      from D(1-3) [OF k1(1)] other [OF k1] show ?thesis by (simp add: u')
    qed
    show "length (rc_buf c) \<le> 1" if "c \<in> set (wn_heap u')" for c
    proof -
      have "c \<in> insert ((wn_heap u ! ch)\<lparr>rc_closed := True\<rparr>) (set (wn_heap u))"
        using that set_update_subset_insert unfolding u' by fastforce
      with registry_ok_cap [OF ok] D(1) [OF Some] show ?thesis by auto
    qed
  qed
  moreover have "held_ok u' h" if "h \<in> H" for h
  proof -
    from assms(1) that have "held_ok u h" by (simp add: reg_ok_def)
    with D(1) [OF Some] show ?thesis
      by (auto simp: held_ok_def u' nth_list_update labelled_def gomap_simps split: if_splits)
  qed
  ultimately show ?thesis using assms(1) by (auto simp: reg_ok_def u' gomap_simps split: if_splits)
qed

lemma DelCh_open: "registry_ok u \<Longrightarrow> DelCh k u \<noteq> None"
  by (auto simp: DelCh_def registry_ok_def split: option.splits)

lemma retry_after_calls:
  "call_keys (retry_after req ch i) = {wq_MsgIncr req}"
  "call_chans (retry_after req ch i) \<subseteq> {(wq_MsgIncr req, ch)}"
  by (simp_all add: retry_after_def)

lemma call_reg:
  assumes "sendAndWaitResp env me ev pc s = Some (pc', s')"
    and "reg_ok (lc_syncer s) (call_keys pc \<union> K) (call_chans pc \<union> H)"
  shows "reg_ok (lc_syncer s') (call_keys pc' \<union> K) (call_chans pc' \<union> H) \<and>
    (registry_free s \<or> wn_notification (lc_syncer s') = wn_notification (lc_syncer s))"
  using assms(1)
proof (cases rule: call_cases)
  case (add op req ch u)
  with assms(2) AddCh_reg [OF _ add(4), of K H] show ?thesis by simp
next
  case (receive req ch resp ok u)
  have "(wq_MsgIncr req, ch) \<in> call_chans pc \<union> H" using receive(2) by simp
  note r = receive_reg(1,2) [OF assms(2) this receive(3)]
  have "reg_ok u (call_keys pc' \<union> K) (call_chans pc' \<union> H)"
    by (rule reg_ok_mono [OF r(1)]) (use receive in auto)
  with r(2) receive show ?thesis by simp
next
  case (remove req result u)
  have "reg_ok (lc_syncer s) (insert (wq_MsgIncr req) K) H" using assms(2) remove(2) by simp
  from DelCh_reg [OF this remove(4)] have "reg_ok u K H" by (rule reg_ok_mono) auto
  with remove show ?thesis by simp
next
  case (retry req ch i e)
  have "reg_ok (lc_syncer s) (call_keys pc' \<union> K) (call_chans pc' \<union> H)"
    by (rule reg_ok_mono [OF assms(2)]) (use retry retry_after_calls [of req ch i] in auto)
  with retry show ?thesis by simp
qed (use assms(2) in \<open>auto simp: reg_ok_def\<close>)

definition reg_inv :: "long_conn \<Rightarrow> bool" where
  "reg_inv s \<longleftrightarrow>
     reg_ok (lc_syncer s) (writer_of call_keys (lc_writer s) \<union> beat_of call_keys (lc_beat s))
       (writer_of call_chans (lc_writer s) \<union> beat_of call_chans (lc_beat s)) \<and>
     (\<forall>ch resp after. lc_reader s = ReaderNotifying ch resp after \<longrightarrow>
        gget (wn_notification (lc_syncer s)) (wr_MsgIncr resp) = Some ch)"

lemma reg_inv_same:
  assumes "reg_inv s" and "lc_syncer s' = lc_syncer s" and "lc_reader s' = lc_reader s"
    and "writer_of call_keys (lc_writer s') = writer_of call_keys (lc_writer s)"
    and "writer_of call_chans (lc_writer s') = writer_of call_chans (lc_writer s)"
    and "beat_of call_keys (lc_beat s') = beat_of call_keys (lc_beat s)"
    and "beat_of call_chans (lc_beat s') = beat_of call_chans (lc_beat s)"
  shows "reg_inv s'"
  using assms by (simp add: reg_inv_def)

lemma notify_reg:
  assumes "reg_ok u K H" and "gget (wn_notification u) (wr_MsgIncr resp) = Some ch"
    and "notify_round ch resp fired u = Returns r"
  shows "\<exists>u'. (r = Inl u' \<or> r = Inr u') \<and> reg_ok u' K H \<and> wn_notification u' = wn_notification u"
proof -
  have ok: "registry_ok u" using assms(1) by (simp add: reg_ok_def)
  note D = registry_okD [OF ok assms(2)]
  from assms(3) obtain err c where c: "notifyCh (Some resp) fired (wn_heap u ! ch) = Returns (err, c)"
    and r: "r = Inl (u\<lparr>wn_heap := (wn_heap u)[ch := c]\<rparr>) \<or> r = Inr (u\<lparr>wn_heap := (wn_heap u)[ch := c]\<rparr>)"
    by (auto simp: notify_round_def on_chan_def split: outcome.splits prod.splits option.splits)
  have cap: "length (rc_buf (wn_heap u ! ch)) \<le> 1" using registry_ok_cap [OF ok, of "wn_heap u ! ch"] D(1) by simp
  have buf: "rc_buf c = rc_buf (wn_heap u ! ch) \<or> rc_buf c = [Some resp] \<and> rc_buf (wn_heap u ! ch) = []"
    and cl: "rc_closed c = rc_closed (wn_heap u ! ch)"
    using c by (auto simp: notifyCh_def send_to_def split: if_splits)
  have "reg_ok (u\<lparr>wn_heap := (wn_heap u)[ch := c]\<rparr>) K H"
  proof (rule heap_update_reg [OF assms(1) D(1) _ cl])
    show "length (rc_buf c) \<le> 1" using buf cap by auto
    fix k assume lab: "labelled k (wn_heap u ! ch)" and k: "gget (wn_notification u) k = Some ch \<or> (k, ch) \<in> H"
    from k have "k = wr_MsgIncr resp"
    proof
      assume "gget (wn_notification u) k = Some ch" with D(4) show ?thesis by simp
    next
      assume "(k, ch) \<in> H"
      with assms(1) have "held_ok u (k, ch)" by (auto simp: reg_ok_def)
      with assms(2) show ?thesis by (auto simp: held_ok_def)
    qed
    with buf lab show "labelled k c" by (auto simp: labelled_def)
  qed
  with r show ?thesis by (intro exI [of _ "u\<lparr>wn_heap := (wn_heap u)[ch := c]\<rparr>"]) auto
qed

lemma readPump_reg:
  assumes "readPump env ev s = Some s'" and "reg_inv s"
  shows "reg_inv s'"
proof (cases "lc_reader s")
  case ReaderTop
  with assms show ?thesis
    by (auto simp: readPump_def reg_inv_def reConn_start_def SetConnectionStatus_def Let_def
        split: reader_event.splits if_splits)
next
  case ReaderDialing
  with assms show ?thesis
    by (auto simp: readPump_def reConn_finish_def reConn_failed_def reConn_done_def SetConnectionStatus_def reg_inv_def Let_def
        split: if_splits reader_event.splits dial_outcome.splits option.splits dial_body.splits sum.splits prod.splits)
next
  case ReaderSleeping
  with assms show ?thesis
    by (auto simp: readPump_def reg_inv_def split: reader_event.splits option.splits)
next
  case ReaderReading
  with assms(1) obtain r where "s' = read_message env r s" by (auto simp: readPump_def split: reader_event.splits)
  with read_message_moved [of s env r] assms(2) show ?thesis
    by (auto simp: reader_moved_def reg_inv_def)
next
  case (ReaderNotifying ch resp after)
  with assms(1) obtain fired where step: "notify_step ch resp after fired s = Some s'"
    by (auto simp: readPump_def split: reader_event.splits)
  have at: "gget (wn_notification (lc_syncer s)) (wr_MsgIncr resp) = Some ch"
    using assms(2) ReaderNotifying by (simp add: reg_inv_def)
  show ?thesis
  proof (cases "notify_round ch resp fired (lc_syncer s)")
    case (Returns r)
    with notify_reg [OF _ at Returns] assms(2) obtain u where
      u: "r = Inl u \<or> r = Inr u" "wn_notification u = wn_notification (lc_syncer s)"
        "reg_ok u (writer_of call_keys (lc_writer s) \<union> beat_of call_keys (lc_beat s))
          (writer_of call_chans (lc_writer s) \<union> beat_of call_chans (lc_beat s))"
      unfolding reg_inv_def by blast
    with Returns step assms(2) show ?thesis by (auto simp: notify_step_def reg_inv_def split: if_splits)
  qed (use step assms(2) in \<open>auto simp: notify_step_def reg_inv_def\<close>)
next
  case ReaderReturning
  with assms show ?thesis by (auto simp: readPump_def reg_inv_def split: reader_event.splits)
next
  case ReaderDone
  with assms show ?thesis by (simp add: readPump_def)
qed

lemma registry_free_notifying: "registry_free s \<Longrightarrow> lc_reader s \<noteq> ReaderNotifying ch resp after"
  by (auto simp: registry_free_def)

lemma writePump_reg:
  assumes "writePump env ev s = Some s'" and "reg_inv s"
  shows "reg_inv s'"
proof (cases "lc_writer s")
  case WriterIdle
  with assms(1) show ?thesis
    by (intro reg_inv_same [OF assms(2)])
      (auto simp: writePump_def writer_idle_def split: writer_event.splits list.splits if_splits)
next
  case (WriterCalling cl pc)
  let ?K = "beat_of call_keys (lc_beat s)" and ?H = "beat_of call_chans (lc_beat s)"
  have reg: "reg_ok (lc_syncer s) (call_keys pc \<union> ?K) (call_chans pc \<union> ?H)"
    using assms(2) WriterCalling by (simp add: reg_inv_def)
  from assms(1) WriterCalling have "writer_call env cl pc ev s = Some s'" by (simp add: writePump_def)
  then show ?thesis
  proof (cases rule: writer_call_cases)
    case still
    with call_reg [OF still(2) reg] call_frame [OF still(2)] assms(2) show ?thesis
      by (auto simp: reg_inv_def registry_free_notifying)
  next
    case returned
    with call_reg [OF returned(2) reg] call_frame [OF returned(2)] assms(2) show ?thesis
      by (auto simp: reg_inv_def registry_free_notifying)
  qed
next
  case (WriterReplying cl resp)
  with assms(1) show ?thesis
    by (intro reg_inv_same [OF assms(2)])
      (auto simp: writePump_def reply_step_def split: writer_event.splits outcome.splits prod.splits)
next
  case WriterReturning
  with assms(1) show ?thesis
    by (intro reg_inv_same [OF assms(2)]) (auto simp: writePump_def split: writer_event.splits if_splits)
next
  case WriterDone
  with assms show ?thesis by (simp add: writePump_def)
qed

lemma heartbeat_reg:
  assumes "heartbeat env ev s = Some s'" and "reg_inv s"
  shows "reg_inv s'"
proof (cases "lc_beat s")
  case BeatIdle
  with assms(1) show ?thesis
    by (intro reg_inv_same [OF assms(2)]) (auto simp: heartbeat_def split: beat_event.splits option.splits)
next
  case (BeatCalling pc)
  let ?K = "writer_of call_keys (lc_writer s)" and ?H = "writer_of call_chans (lc_writer s)"
  have reg: "reg_ok (lc_syncer s) (call_keys pc \<union> ?K) (call_chans pc \<union> ?H)"
    using assms(2) BeatCalling by (simp add: reg_inv_def Un_commute)
  from assms(1) BeatCalling have "beat_call env pc ev s = Some s'" by (simp add: heartbeat_def)
  then show ?thesis
  proof (cases rule: beat_call_cases)
    case still
    with call_reg [OF still(2) reg] call_frame [OF still(2)] assms(2) show ?thesis
      by (auto simp: reg_inv_def registry_free_notifying Un_commute)
  next
    case (returned ce req result s1)
    have k: "reg_ok (lc_syncer s1) ?K ?H" using call_reg [OF returned(2) reg] by simp
    have fr: "lc_writer s1 = lc_writer s" "lc_reader s1 = lc_reader s" using call_frame [OF returned(2)] by simp_all
    have "reg_ok (lc_syncer s') (writer_of call_keys (lc_writer s') \<union> beat_of call_keys (lc_beat s'))
       (writer_of call_chans (lc_writer s') \<union> beat_of call_chans (lc_beat s'))"
    proof (cases "result = Inr None")
      case True
      then have "lc_beat s' = BeatCalling pc" using returned(3) call_frame(3) [OF returned(2)] BeatCalling
        by (simp add: ping_done_def)
      moreover have "call_chans pc = {}" using returned(2) by (cases rule: call_cases) (simp_all add: retry_after_def split: if_splits)
      ultimately show ?thesis using reg_ok_mono [OF k] returned(3) fr by (auto intro: reg_ok_mono [OF k])
    next
      case False
      with ping_done_beat [of result env s1] have "lc_beat s' = BeatIdle \<or> lc_beat s' = BeatClosing"
        using returned(3) by simp
      with k fr returned(3) show ?thesis by (auto simp del: Un_insert_left)
    qed
    with call_reg [OF returned(2) reg] fr assms(2) returned(3) show ?thesis
      by (auto simp: reg_inv_def registry_free_notifying)
  qed
next
  case BeatClosing
  with assms(1) show ?thesis
    by (intro reg_inv_same [OF assms(2)]) (auto simp: heartbeat_def split: beat_event.splits)
next
  case BeatSleeping
  with assms(1) show ?thesis
    by (intro reg_inv_same [OF assms(2)]) (auto simp: heartbeat_def split: beat_event.splits)
next
  case BeatDone
  with assms show ?thesis by (simp add: heartbeat_def)
qed

theorem reachable_reg:
  assumes "reachable env s"
  shows "reg_inv s"
  using assms
proof (induction rule: reachable.induct)
  case (start pushCh loginCh)
  show ?case by (simp add: reg_inv_def reg_ok_def NewLongConnMgr_def registry_ok_New) (simp add: NewWsRespAsyn_def)
next
  case (step s ev s')
  from step.hyps(2) step.IH show ?case
  proof (cases rule: step_cases)
    case change
    then show ?thesis by (intro reg_inv_same [OF step.IH]) (auto simp: lc_Close_def)
  next
    case background
    then show ?thesis by (intro reg_inv_same [OF step.IH]) (simp_all add: SetBackground_def)
  next
    case client
    with client_frame [OF client(2)] show ?thesis by (intro reg_inv_same [OF step.IH]) simp_all
  qed (simp_all add: readPump_reg writePump_reg heartbeat_reg)
qed

section \<open>No request in flight is missing\<close>

text \<open>
  \<^verbatim>\<open>OperationIDGenerator\<close> makes an identifier of the time and a random number. \<open>apart\<close> are the histories in which no call draws the
  identifier of the other call in flight; there are two at most, one of the writer and one of the heartbeat.
\<close>

definition fresh_draw :: "event \<Rightarrow> long_conn \<Rightarrow> bool" where
  "fresh_draw ev s \<longleftrightarrow>
     (\<forall>op cl req. ev = Writer (WeCall (CeAdd op)) \<and> lc_writer s = WriterCalling cl (CallAdd req) \<longrightarrow>
        GenMsgIncr op (wq_SendID req) \<notin> beat_of call_keys (lc_beat s)) \<and>
     (\<forall>op req. ev = Beat (BeCall (CeAdd op)) \<and> lc_beat s = BeatCalling (CallAdd req) \<longrightarrow>
        GenMsgIncr op (wq_SendID req) \<notin> writer_of call_keys (lc_writer s))"

inductive apart :: "long_env \<Rightarrow> long_conn \<Rightarrow> bool" for env where
  start: "apart env (NewLongConnMgr pushCh loginCh)"
| step: "apart env s \<Longrightarrow> step env ev s = Some s' \<Longrightarrow> fresh_draw ev s \<Longrightarrow> apart env s'"

lemma apart_reachable: "apart env s \<Longrightarrow> reachable env s"
  by (induction rule: apart.induct) (auto intro: reachable.intros)

definition reg_full :: "(string, nat) gomap \<Rightarrow> string set \<Rightarrow> (string \<times> nat) set \<Rightarrow> bool" where
  "reg_full m K H \<longleftrightarrow> (\<forall>k \<in> K. gget m k \<noteq> None) \<and> (\<forall>(k, ch) \<in> H. gget m k = Some ch)"

lemma reg_fullD: "reg_full m K H \<Longrightarrow> K' \<subseteq> K \<Longrightarrow> H' \<subseteq> H \<Longrightarrow> reg_full m K' H'"
  by (auto simp: reg_full_def)

lemma chans_keys: "fst ` call_chans pc \<subseteq> call_keys pc"
  by (cases pc) auto

text \<open>One step of a call, while the calls of the other goroutine have \<open>K\<close> and \<open>H\<close>.\<close>

lemma call_full:
  assumes "sendAndWaitResp env me ev pc s = Some (pc', s')"
    and "reg_full (wn_notification (lc_syncer s)) (call_keys pc \<union> K) (call_chans pc \<union> H)" and "call_keys pc \<inter> K = {}" and "fst ` H \<subseteq> K"
    and "\<And>op req. ev = CeAdd op \<Longrightarrow> pc = CallAdd req \<Longrightarrow> GenMsgIncr op (wq_SendID req) \<notin> K" and "\<not> lc_panicked s'"
  shows "reg_full (wn_notification (lc_syncer s')) (call_keys pc' \<union> K) (call_chans pc' \<union> H) \<and> call_keys pc' \<inter> K = {}"
  using assms(1)
proof (cases rule: call_cases)
  case (add op req ch u)
  then have "wn_notification u = gput (GenMsgIncr op (wq_SendID req)) ch (wn_notification (lc_syncer s))"
    by (auto simp: AddCh_def make_chan_def Let_def)
  with add assms(2,4) assms(5) [OF add(1,2)] show ?thesis
    by (fastforce simp: reg_full_def gomap_simps)
next
  case (receive req ch resp ok u)
  then have "wn_notification u = wn_notification (lc_syncer s)" by (auto simp: on_chan_def split: outcome.splits prod.splits)
  with receive assms(2,3) show ?thesis by (auto simp: reg_full_def)
next
  case (remove req result u)
  then have "wn_notification u = gdel (wq_MsgIncr req) (wn_notification (lc_syncer s)) \<or>
      gget (wn_notification (lc_syncer s)) (wq_MsgIncr req) = None"
    by (auto simp: DelCh_def split: option.splits if_splits)
  with remove assms(2-4) show ?thesis by (fastforce simp: reg_full_def gomap_simps)
next
  case (retry req ch i e)
  have "call_keys pc' \<union> K \<subseteq> call_keys pc \<union> K" "call_chans pc' \<union> H \<subseteq> call_chans pc \<union> H"
    using retry retry_after_calls [of req ch i] by auto
  from reg_fullD [OF assms(2) this] retry assms(3) retry_after_calls(1) [of req ch i] show ?thesis by simp
qed (use assms in \<open>auto simp: reg_full_def\<close>)

definition exact :: "long_conn \<Rightarrow> bool" where
  "exact s \<longleftrightarrow> writer_of call_keys (lc_writer s) \<inter> beat_of call_keys (lc_beat s) = {} \<and>
     reg_full (wn_notification (lc_syncer s)) (writer_of call_keys (lc_writer s) \<union> beat_of call_keys (lc_beat s))
       (writer_of call_chans (lc_writer s) \<union> beat_of call_chans (lc_beat s))"

lemma exact_same:
  assumes "exact s" and "wn_notification (lc_syncer s') = wn_notification (lc_syncer s)"
    and "writer_of call_keys (lc_writer s') = writer_of call_keys (lc_writer s)"
    and "writer_of call_chans (lc_writer s') = writer_of call_chans (lc_writer s)"
    and "beat_of call_keys (lc_beat s') = beat_of call_keys (lc_beat s)"
    and "beat_of call_chans (lc_beat s') = beat_of call_chans (lc_beat s)"
  shows "exact s'"
  using assms by (simp add: exact_def)

lemma readPump_registry:
  assumes "readPump env ev s = Some s'"
  shows "wn_notification (lc_syncer s') = wn_notification (lc_syncer s)" "lc_writer s' = lc_writer s" "lc_beat s' = lc_beat s"
proof -
  have "wn_notification (lc_syncer s') = wn_notification (lc_syncer s) \<and> lc_writer s' = lc_writer s \<and> lc_beat s' = lc_beat s"
  proof (cases "lc_reader s")
    case ReaderReading
    with assms obtain r where "s' = read_message env r s" by (auto simp: readPump_def split: reader_event.splits)
    with read_message_moved [of s env r] show ?thesis by (auto simp: reader_moved_def)
  next
    case (ReaderNotifying ch resp after)
    with assms show ?thesis
      by (auto simp: readPump_def notify_step_def notify_round_def on_chan_def split: reader_event.splits outcome.splits prod.splits option.splits sum.splits)
  qed (use assms in \<open>auto simp: readPump_def reConn_start_def reConn_finish_def reConn_failed_def reConn_done_def
      SetConnectionStatus_def Let_def split: reader_event.splits if_splits dial_outcome.splits option.splits
      dial_body.splits sum.splits prod.splits\<close>)
  then show "wn_notification (lc_syncer s') = wn_notification (lc_syncer s)" "lc_writer s' = lc_writer s" "lc_beat s' = lc_beat s"
    by simp_all
qed

lemma writePump_exact:
  assumes "writePump env ev s = Some s'" and "exact s" and "fresh_draw (Writer ev) s" and "\<not> lc_panicked s'"
  shows "exact s'"
proof (cases "lc_writer s")
  case WriterIdle
  with assms(1) show ?thesis
    by (intro exact_same [OF assms(2)])
      (auto simp: writePump_def writer_idle_def split: writer_event.splits list.splits if_splits)
next
  case (WriterCalling cl pc)
  let ?K = "beat_of call_keys (lc_beat s)" and ?H = "beat_of call_chans (lc_beat s)"
  have full: "reg_full (wn_notification (lc_syncer s)) (call_keys pc \<union> ?K) (call_chans pc \<union> ?H)" "call_keys pc \<inter> ?K = {}"
    using assms(2) WriterCalling by (simp_all add: exact_def)
  have H: "fst ` ?H \<subseteq> ?K" using chans_keys by (cases "lc_beat s") auto
  have fresh: "GenMsgIncr op (wq_SendID req) \<notin> ?K" if "ev = WeCall (CeAdd op)" "pc = CallAdd req" for op req
    using assms(3) that WriterCalling by (auto simp: fresh_draw_def)
  from assms(1) WriterCalling have "writer_call env cl pc ev s = Some s'" by (simp add: writePump_def)
  then show ?thesis
  proof (cases rule: writer_call_cases)
    case still
    with call_full [OF still(2) full H] fresh call_frame [OF still(2)] assms(4) show ?thesis
      by (simp add: exact_def)
  next
    case returned
    with call_full [OF returned(2) full H] fresh call_frame [OF returned(2)] assms(4) show ?thesis
      by (simp add: exact_def)
  qed
next
  case (WriterReplying cl resp)
  with assms(1) show ?thesis
    by (intro exact_same [OF assms(2)])
      (auto simp: writePump_def reply_step_def split: writer_event.splits outcome.splits prod.splits)
next
  case WriterReturning
  with assms(1) show ?thesis
    by (intro exact_same [OF assms(2)]) (auto simp: writePump_def split: writer_event.splits if_splits)
next
  case WriterDone
  with assms show ?thesis by (simp add: writePump_def)
qed

lemma heartbeat_exact:
  assumes "heartbeat env ev s = Some s'" and "exact s" and "fresh_draw (Beat ev) s" and "\<not> lc_panicked s'"
  shows "exact s'"
proof (cases "lc_beat s")
  case (BeatCalling pc)
  let ?K = "writer_of call_keys (lc_writer s)" and ?H = "writer_of call_chans (lc_writer s)"
  have full: "reg_full (wn_notification (lc_syncer s)) (call_keys pc \<union> ?K) (call_chans pc \<union> ?H)" "call_keys pc \<inter> ?K = {}"
    using assms(2) BeatCalling by (simp_all add: exact_def Un_commute Int_commute)
  have H: "fst ` ?H \<subseteq> ?K" using chans_keys by (cases "lc_writer s") auto
  have fresh: "GenMsgIncr op (wq_SendID req) \<notin> ?K" if "ev = BeCall (CeAdd op)" "pc = CallAdd req" for op req
    using assms(3) that BeatCalling by (auto simp: fresh_draw_def)
  from assms(1) BeatCalling have "beat_call env pc ev s = Some s'" by (simp add: heartbeat_def)
  then show ?thesis
  proof (cases rule: beat_call_cases)
    case still
    with call_full [OF still(2) full H] fresh call_frame [OF still(2)] assms(4) show ?thesis
      by (simp add: exact_def Un_commute Int_commute)
  next
    case (returned ce req result s1)
    have "result \<noteq> Inr None" "\<not> lc_panicked s1"
      using assms(4) returned(3) by (auto simp: ping_done_def trigger_push_def split: sum.splits option.splits)
    moreover from this ping_done_beat [of result env s1] returned(3) have "lc_beat s' \<in> {BeatIdle, BeatClosing}" by simp
    ultimately show ?thesis
      using call_full [OF returned(2) full H] fresh returned(1,3) call_frame [OF returned(2)] by (auto simp: exact_def)
  qed
qed (use assms in \<open>auto simp: heartbeat_def intro!: exact_same [OF assms(2)] split: beat_event.splits option.splits\<close>)

theorem apart_exact:
  assumes "apart env s" and "\<not> lc_panicked s"
  shows "exact s"
  using assms
proof (induction rule: apart.induct)
  case (start pushCh loginCh)
  show ?case by (simp add: exact_def reg_full_def NewLongConnMgr_def)
next
  case (step s ev s')
  have "\<not> lc_panicked s" using step.hyps(2) by (auto simp: step_def)
  then have ex: "exact s" by (rule step.IH)
  from step.hyps(2) show ?case
  proof (cases rule: step_cases)
    case reader
    with readPump_registry [OF reader(2)] show ?thesis by (intro exact_same [OF ex]) simp_all
  next
    case client
    with client_frame [OF client(2)] show ?thesis by (intro exact_same [OF ex]) simp_all
  next
    case change
    then show ?thesis by (intro exact_same [OF ex]) (auto simp: lc_Close_def)
  next
    case background
    then show ?thesis by (intro exact_same [OF ex]) (simp_all add: SetBackground_def)
  next
    case writer
    with ex step.hyps(3) step.prems show ?thesis by (simp add: writePump_exact)
  next
    case beat
    with ex step.hyps(3) step.prems show ?thesis by (simp add: heartbeat_exact)
  qed
qed

section \<open>Answers to callers\<close>

text \<open>The callers whose request is on its way: queued, or in the hands of the writer.\<close>

definition writer_client :: "writer_pc \<Rightarrow> nat list" where
  "writer_client w = (case w of WriterCalling cl _ \<Rightarrow> [cl] | WriterReplying cl _ \<Rightarrow> [cl] | _ \<Rightarrow> [])"

lemma writer_client_simps [simp]:
  "writer_client WriterIdle = []" "writer_client (WriterReplying cl r) = [cl]" "writer_client WriterReturning = []"
  "writer_client WriterDone = []" "writer_client (WriterCalling cl pc) = [cl]"
  by (simp_all add: writer_client_def)

definition on_the_way :: "long_conn \<Rightarrow> nat list" where
  "on_the_way s = writer_client (lc_writer s) @ map snd (lc_send s)"

definition clients_ok :: "long_conn \<Rightarrow> bool" where
  "clients_ok s \<longleftrightarrow>
     distinct (on_the_way s) \<and>
     (\<forall>cl \<in> set (on_the_way s). cl < length (lc_clients s) \<and> cl_pc (lc_clients s ! cl) \<noteq> ClientSending \<and>
        rc_buf (cl_resp (lc_clients s ! cl)) = []) \<and>
     (\<forall>cl < length (lc_clients s). \<not> rc_closed (cl_resp (lc_clients s ! cl)) \<and>
        (cl_pc (lc_clients s ! cl) = ClientSending \<longrightarrow> rc_buf (cl_resp (lc_clients s ! cl)) = []))"

lemma clients_ok_same:
  "clients_ok s \<Longrightarrow> lc_clients s' = lc_clients s \<Longrightarrow> lc_send s' = lc_send s \<Longrightarrow>
     writer_client (lc_writer s') = writer_client (lc_writer s) \<Longrightarrow> clients_ok s'"
  by (simp add: clients_ok_def on_the_way_def)

lemma clients_ok_way:
  "clients_ok s \<Longrightarrow> lc_clients s' = lc_clients s \<Longrightarrow> on_the_way s' = on_the_way s \<Longrightarrow> clients_ok s'"
  by (simp add: clients_ok_def)

lemma readPump_clients:
  assumes "readPump env ev s = Some s'"
  shows "lc_clients s' = lc_clients s" "lc_send s' = lc_send s" "lc_writer s' = lc_writer s" "lc_send_closed s' = lc_send_closed s"
proof -
  have "lc_clients s' = lc_clients s \<and> lc_send s' = lc_send s \<and> lc_writer s' = lc_writer s \<and> lc_send_closed s' = lc_send_closed s"
  proof (cases "lc_reader s")
    case ReaderReading
    with assms obtain r where "s' = read_message env r s" by (auto simp: readPump_def split: reader_event.splits)
    with read_message_moved [of s env r] show ?thesis by (auto simp: reader_moved_def)
  qed (use assms in \<open>auto simp: readPump_def reConn_start_def reConn_finish_def reConn_failed_def reConn_done_def
      SetConnectionStatus_def notify_step_def Let_def split: reader_event.splits if_splits dial_outcome.splits option.splits
      dial_body.splits sum.splits prod.splits outcome.splits\<close>)
  then show "lc_clients s' = lc_clients s" "lc_send s' = lc_send s" "lc_writer s' = lc_writer s" "lc_send_closed s' = lc_send_closed s"
    by simp_all
qed

lemma heartbeat_clients:
  assumes "heartbeat env ev s = Some s'"
  shows "lc_clients s' = lc_clients s" "lc_send s' = lc_send s" "lc_writer s' = lc_writer s" "lc_send_closed s' = lc_send_closed s"
proof -
  have "lc_clients s' = lc_clients s \<and> lc_send s' = lc_send s \<and> lc_writer s' = lc_writer s \<and> lc_send_closed s' = lc_send_closed s"
  proof (cases "lc_beat s")
    case (BeatCalling pc)
    with assms have "beat_call env pc ev s = Some s'" by (simp add: heartbeat_def)
    then show ?thesis
    proof (cases rule: beat_call_cases)
      case still
      with call_frame [OF still(2)] show ?thesis by simp
    next
      case returned
      with call_frame [OF returned(2)] show ?thesis by simp
    qed
  qed (use assms in \<open>auto simp: heartbeat_def split: beat_event.splits option.splits\<close>)
  then show "lc_clients s' = lc_clients s" "lc_send s' = lc_send s" "lc_writer s' = lc_writer s" "lc_send_closed s' = lc_send_closed s"
    by simp_all
qed

text \<open>An answer finds its channel empty and open.\<close>

lemma reply_accepted:
  assumes "clients_ok s" and "lc_writer s = WriterReplying cl resp"
  shows "cl < length (lc_clients s)"
    and "reply_step cl resp False s =
      Some (s\<lparr>lc_clients := (lc_clients s)[cl := (lc_clients s ! cl)
        \<lparr>cl_resp := (cl_resp (lc_clients s ! cl))\<lparr>rc_buf := [resp]\<rparr>\<rparr>], lc_writer := WriterIdle\<rparr>)"
proof -
  have "cl \<in> set (on_the_way s)" using assms(2) by (simp add: on_the_way_def)
  with assms(1) have cl: "cl < length (lc_clients s)" "rc_buf (cl_resp (lc_clients s ! cl)) = []"
      "\<not> rc_closed (cl_resp (lc_clients s ! cl))"
    by (simp_all add: clients_ok_def)
  show "cl < length (lc_clients s)" by (rule cl(1))
  show "reply_step cl resp False s =
      Some (s\<lparr>lc_clients := (lc_clients s)[cl := (lc_clients s ! cl)
        \<lparr>cl_resp := (cl_resp (lc_clients s ! cl))\<lparr>rc_buf := [resp]\<rparr>\<rparr>], lc_writer := WriterIdle\<rparr>)"
    using cl by (simp add: reply_step_def notifyCh_def send_to_def)
qed

lemma writePump_clients:
  assumes "writePump env ev s = Some s'" and "clients_ok s"
  shows "clients_ok s'"
proof (cases "lc_writer s")
  case WriterIdle
  with assms(1) show ?thesis
    by (intro clients_ok_way [OF assms(2)])
      (auto simp: writePump_def writer_idle_def on_the_way_def split: writer_event.splits list.splits if_splits)
next
  case (WriterCalling cl pc)
  from assms(1) WriterCalling have "writer_call env cl pc ev s = Some s'" by (simp add: writePump_def)
  then show ?thesis
  proof (cases rule: writer_call_cases)
    case still
    with call_frame [OF still(2)] WriterCalling show ?thesis by (intro clients_ok_same [OF assms(2)]) simp_all
  next
    case returned
    with call_frame [OF returned(2)] WriterCalling show ?thesis by (intro clients_ok_same [OF assms(2)]) simp_all
  qed
next
  case (WriterReplying cl resp)
  with assms(1) obtain fired where step: "reply_step cl resp fired s = Some s'"
    by (auto simp: writePump_def split: writer_event.splits)
  note acc = reply_accepted [OF assms(2) WriterReplying]
  have "s' = s\<lparr>lc_clients := (lc_clients s)[cl := (lc_clients s ! cl)\<lparr>cl_resp := (cl_resp (lc_clients s ! cl))
        \<lparr>rc_buf := if fired then rc_buf (cl_resp (lc_clients s ! cl)) else [resp]\<rparr>\<rparr>], lc_writer := WriterIdle\<rparr>"
    using step acc(2) by (cases fired) (simp_all add: reply_step_def notifyCh_def)
  then have send: "lc_send s' = lc_send s" "lc_writer s' = WriterIdle" "length (lc_clients s') = length (lc_clients s)"
    and other: "\<And>i. i \<noteq> cl \<Longrightarrow> lc_clients s' ! i = lc_clients s ! i"
    and pc: "cl_pc (lc_clients s' ! cl) = cl_pc (lc_clients s ! cl)"
    and closed: "rc_closed (cl_resp (lc_clients s' ! cl)) = rc_closed (cl_resp (lc_clients s ! cl))"
    using acc(1) by simp_all
  have cl: "cl \<notin> snd ` set (lc_send s)" "cl_pc (lc_clients s ! cl) \<noteq> ClientSending" "distinct (map snd (lc_send s))"
    using assms(2) WriterReplying by (auto simp: clients_ok_def on_the_way_def)
  have way: "on_the_way s' = map snd (lc_send s)" "on_the_way s = cl # map snd (lc_send s)"
    using WriterReplying send by (simp_all add: on_the_way_def)
  show ?thesis unfolding clients_ok_def
  proof (intro conjI allI ballI impI)
    show "distinct (on_the_way s')" using cl(3) by (simp add: way)
  next
    fix i assume "i \<in> set (on_the_way s')"
    with cl(1) have i: "i \<in> set (on_the_way s)" "i \<noteq> cl" by (auto simp: way)
    with assms(2) other [OF i(2)] send(3)
    show "i < length (lc_clients s')" "cl_pc (lc_clients s' ! i) \<noteq> ClientSending"
      "rc_buf (cl_resp (lc_clients s' ! i)) = []"
      by (simp_all add: clients_ok_def)
  next
    fix i assume i: "i < length (lc_clients s')"
    with assms(2) send(3) other [of i] closed show "\<not> rc_closed (cl_resp (lc_clients s' ! i))"
      by (cases "i = cl") (simp_all add: clients_ok_def)
    assume "cl_pc (lc_clients s' ! i) = ClientSending"
    with cl(2) pc have "i \<noteq> cl" by auto
    with \<open>cl_pc (lc_clients s' ! i) = ClientSending\<close> i assms(2) send(3) other [of i]
    show "rc_buf (cl_resp (lc_clients s' ! i)) = []" by (simp add: clients_ok_def)
  qed
next
  case WriterReturning
  with assms(1) show ?thesis
    by (intro clients_ok_same [OF assms(2)]) (auto simp: writePump_def split: writer_event.splits if_splits)
next
  case WriterDone
  with assms show ?thesis by (simp add: writePump_def)
qed

text \<open>A step that replaces one caller, which is then no longer sending.\<close>

lemma clients_ok_set:
  assumes "clients_ok s" and "cl < length (lc_clients s)"
    and "lc_clients s' = (lc_clients s)[cl := c]" and "\<not> rc_closed (cl_resp c)" and "cl_pc c \<noteq> ClientSending"
    and "distinct (on_the_way s')" and "set (on_the_way s') \<subseteq> insert cl (set (on_the_way s))"
    and "cl \<in> set (on_the_way s') \<Longrightarrow> rc_buf (cl_resp c) = []"
  shows "clients_ok s'"
proof -
  have at: "lc_clients s' ! i = (if i = cl then c else lc_clients s ! i)" for i
    using assms(2,3) by (simp add: nth_list_update)
  have len: "length (lc_clients s') = length (lc_clients s)" by (simp add: assms(3))
  show ?thesis unfolding clients_ok_def len
  proof (intro conjI allI ballI impI)
    show "distinct (on_the_way s')" by (rule assms(6))
  next
    fix i assume i: "i \<in> set (on_the_way s')"
    show "i < length (lc_clients s)" "cl_pc (lc_clients s' ! i) \<noteq> ClientSending" "rc_buf (cl_resp (lc_clients s' ! i)) = []"
      using i assms by (cases "i = cl"; auto simp: at clients_ok_def)+
  next
    fix i assume "i < length (lc_clients s)"
    with assms(1,4) show "\<not> rc_closed (cl_resp (lc_clients s' ! i))" by (simp add: at clients_ok_def)
    assume "cl_pc (lc_clients s' ! i) = ClientSending"
    with assms(1,5) \<open>i < length (lc_clients s)\<close> show "rc_buf (cl_resp (lc_clients s' ! i)) = []"
      by (auto simp: at clients_ok_def split: if_splits)
  qed
qed

lemma client_clients:
  assumes "SendReqWaitResp env ev s = Some s'" and "clients_ok s"
  shows "clients_ok s'"
proof (cases ev)
  case (ClStart a b c d)
  with assms(1) obtain x where s': "s' = s\<lparr>lc_clients := lc_clients s @ [x]\<rparr>" and x: "rc_buf (cl_resp x) = []" "\<not> rc_closed (cl_resp x)"
    by (intro that [of "new_client a b c d"]) (simp_all add: SendReqWaitResp_def new_client_def)
  have way: "on_the_way s' = on_the_way s" by (simp add: on_the_way_def s')
  have at: "lc_clients s' ! i = (if i < length (lc_clients s) then lc_clients s ! i else x)"
    if "i < Suc (length (lc_clients s))" for i
    using that by (simp add: s' nth_append)
  show ?thesis unfolding clients_ok_def way
    using assms(2) at x by (auto simp: clients_ok_def s' less_SucI)
next
  case (ClSend cl)
  with assms(1) have at: "at_client cl ClientSending s" and send: "client_send cl s = Some s'"
    by (auto simp: SendReqWaitResp_def split: if_splits)
  have cl: "cl < length (lc_clients s)" "cl \<notin> set (on_the_way s)" "rc_buf (cl_resp (lc_clients s ! cl)) = []"
      "\<not> rc_closed (cl_resp (lc_clients s ! cl))" "distinct (on_the_way s)"
    using at assms(2) by (auto simp: at_client_def clients_ok_def)
  show ?thesis
  proof (cases "lc_send_closed s")
    case True
    with send have "s' = panic s" by (simp add: client_send_def)
    then show ?thesis by (intro clients_ok_way [OF assms(2)]) (simp_all add: on_the_way_def)
  next
    case False
    with send have s': "lc_clients s' = (lc_clients s)[cl := (lc_clients s ! cl)\<lparr>cl_pc := ClientWaiting\<rparr>]"
        "on_the_way s' = on_the_way s @ [cl]"
      by (auto simp: client_send_def set_client_def Let_def on_the_way_def split: if_splits)
    show ?thesis by (rule clients_ok_set [OF assms(2) cl(1) s'(1)]) (use cl s'(2) in auto)
  qed
next
  case (ClReceive cl)
  with assms(1) have at: "at_client cl ClientWaiting s" and recv: "client_receive env cl s = Some s'"
    by (auto simp: SendReqWaitResp_def split: if_splits)
  then have cl: "cl < length (lc_clients s)" "\<not> rc_closed (cl_resp (lc_clients s ! cl))"
    using assms(2) by (auto simp: at_client_def clients_ok_def)
  then obtain v rest where buf: "rc_buf (cl_resp (lc_clients s ! cl)) = v # rest"
    using recv by (auto simp: client_receive_def receive_from_def split: list.splits outcome.splits)
  then have "cl \<notin> set (on_the_way s)" using assms(2) by (auto simp: clients_ok_def)
  show ?thesis
  proof (cases "client_result env (v, True)")
    case None
    with recv buf have "s' = panic s" by (simp add: client_receive_def receive_from_def)
    then show ?thesis by (intro clients_ok_way [OF assms(2)]) (simp_all add: on_the_way_def)
  next
    case (Some err)
    with recv buf have s': "lc_clients s' = (lc_clients s)[cl := (lc_clients s ! cl)
        \<lparr>cl_pc := ClientReturned err, cl_resp := (cl_resp (lc_clients s ! cl))\<lparr>rc_buf := rest\<rparr>\<rparr>]"
        "on_the_way s' = on_the_way s"
      by (auto simp: client_receive_def receive_from_def set_client_def on_the_way_def)
    show ?thesis
      by (rule clients_ok_set [OF assms(2) cl(1) s'(1)])
        (use cl \<open>cl \<notin> set (on_the_way s)\<close> s'(2) assms(2) in \<open>auto simp: clients_ok_def\<close>)
  qed
next
  case (ClDone cl)
  with assms(1) have at: "at_client cl ClientWaiting s" and
      s': "s' = set_client cl ((lc_clients s ! cl)\<lparr>cl_pc := ClientReturned (Some ErrCtxDeadline)\<rparr>) s"
    by (auto simp: SendReqWaitResp_def split: if_splits)
  have cl: "cl < length (lc_clients s)" using at by (simp add: at_client_def)
  have s1: "lc_clients s' = (lc_clients s)[cl := (lc_clients s ! cl)\<lparr>cl_pc := ClientReturned (Some ErrCtxDeadline)\<rparr>]"
      "on_the_way s' = on_the_way s" by (simp_all add: s' set_client_def on_the_way_def)
  show ?thesis
    by (rule clients_ok_set [OF assms(2) cl s1(1)]) (use cl s1(2) assms(2) in \<open>auto simp: clients_ok_def\<close>)
qed

theorem reachable_clients:
  assumes "reachable env s"
  shows "clients_ok s"
  using assms
proof (induction rule: reachable.induct)
  case (start pushCh loginCh)
  show ?case by (simp add: clients_ok_def on_the_way_def NewLongConnMgr_def)
next
  case (step s ev s')
  from step.hyps(2) step.IH show ?case
  proof (cases rule: step_cases)
    case reader
    with readPump_clients [OF reader(2)] show ?thesis by (intro clients_ok_same [OF step.IH]) simp_all
  next
    case beat
    with heartbeat_clients [OF beat(2)] show ?thesis by (intro clients_ok_same [OF step.IH]) simp_all
  next
    case change
    then show ?thesis by (intro clients_ok_same [OF step.IH]) (auto simp: lc_Close_def)
  next
    case background
    then show ?thesis by (intro clients_ok_same [OF step.IH]) (simp_all add: SetBackground_def)
  qed (simp_all add: writePump_clients client_clients)
qed

section \<open>Failures and the end of the writer\<close>

text \<open>The errors a call can return; and \<^verbatim>\<open>send\<close> is closed exactly when the writer has returned.\<close>

definition call_errors :: "go_error set" where
  "call_errors = {not_connected, ErrNetworkTimeOut, Wrapped ErrNetwork ''send binary message error''}"

definition result_ok :: "call_pc \<Rightarrow> bool" where
  "result_ok pc \<longleftrightarrow> (\<forall>req e. pc = CallReturning req (Inl e) \<longrightarrow> e \<in> call_errors)"

definition writer_ok :: "long_conn \<Rightarrow> bool" where
  "writer_ok s \<longleftrightarrow> (lc_send_closed s \<longleftrightarrow> lc_writer s = WriterDone) \<and>
     (\<forall>cl pc. lc_writer s = WriterCalling cl pc \<longrightarrow> result_ok pc)"

lemma call_result_ok:
  assumes "sendAndWaitResp env me ev pc s = Some (pc', s')" and "result_ok pc"
  shows "result_ok pc'"
  using assms by (cases rule: call_cases) (simp_all add: result_ok_def call_errors_def retry_after_def)

lemma writePump_ok:
  assumes "writePump env ev s = Some s'" and "writer_ok s"
  shows "writer_ok s'"
proof (cases "lc_writer s")
  case WriterIdle
  with assms show ?thesis
    by (auto simp: writePump_def writer_idle_def writer_ok_def result_ok_def split: writer_event.splits list.splits if_splits)
next
  case (WriterCalling cl pc)
  then have pc: "result_ok pc" using assms(2) by (simp add: writer_ok_def)
  from assms(1) WriterCalling have "writer_call env cl pc ev s = Some s'" by (simp add: writePump_def)
  then show ?thesis
  proof (cases rule: writer_call_cases)
    case still
    with call_frame [OF still(2)] WriterCalling assms(2) call_result_ok [OF still(2) pc]
    show ?thesis by (simp add: writer_ok_def)
  next
    case returned
    with call_frame [OF returned(2)] WriterCalling assms(2) show ?thesis by (simp add: writer_ok_def)
  qed
next
  case (WriterReplying cl resp)
  with assms show ?thesis
    by (auto simp: writePump_def reply_step_def writer_ok_def split: writer_event.splits outcome.splits prod.splits)
next
  case WriterReturning
  with assms show ?thesis
    by (auto simp: writePump_def writer_ok_def split: writer_event.splits if_splits)
next
  case WriterDone
  with assms show ?thesis by (simp add: writePump_def)
qed

theorem reachable_writer:
  assumes "reachable env s"
  shows "writer_ok s"
  using assms
proof (induction rule: reachable.induct)
  case (start pushCh loginCh)
  show ?case by (simp add: writer_ok_def NewLongConnMgr_def)
next
  case (step s ev s')
  have same: "writer_ok s'" if "lc_writer s' = lc_writer s" "lc_send_closed s' = lc_send_closed s"
    using step.IH that by (simp add: writer_ok_def)
  from step.hyps(2) show ?case
  proof (cases rule: step_cases)
    case reader
    with readPump_clients [OF reader(2)] same show ?thesis by simp
  next
    case beat
    with heartbeat_clients [OF beat(2)] same show ?thesis by simp
  next
    case client
    with client_frame [OF client(2)] same show ?thesis by simp
  next
    case writer
    with step.IH show ?thesis by (simp add: writePump_ok)
  next
    case change
    then show ?thesis by (intro same) (simp_all add: lc_Close_def)
  next
    case background
    then show ?thesis by (intro same) (simp_all add: SetBackground_def)
  qed
qed

end
