(* ===== verification/LongConnClaims.thy ===== *)
theory LongConnClaims
  imports LongConnProps
begin

text \<open>
  The properties of the long connection that its users rely on, from the invariants of its
  reachable states, and two histories in which it fails them.
\<close>

section \<open>A concrete history\<close>

text \<open>
  Codecs that know one response: the one to the request with the identifier \<open>u_x\<close>.
\<close>

definition sample_resp :: GeneralWsResp where
  "sample_resp = \<lparr>wr_ReqIdentifier = SendMsg, wr_ErrCode = 0, wr_ErrMsg = [], wr_MsgIncr = ''u_x'', wr_OperationID = [], wr_Data = []\<rparr>"

definition sample_env :: long_env where
  "sample_env =
     \<lparr>le_userID = ''u'', le_token = ''t'', le_wsAddr = ''ws'', le_platformID = 1,
      le_encode = (\<lambda>_. Inr []), le_decode = (\<lambda>_. Some sample_resp), le_compress = Inr, le_decompress = Some,
      le_marshal_max_seq = (\<lambda>_. Some []), le_unmarshal_max_seq = (\<lambda>_. (None, [])), le_unmarshal_push = (\<lambda>_. None),
      le_unmarshal_resp = (\<lambda>_. True), le_api_resp = (\<lambda>_. Inl (GoError [])), le_token_error = (\<lambda>_. False)\<rparr>"

text \<open>The connection is established, a request is written, and the server answers.\<close>

definition to_written :: "event list" where
  "to_written =
     [Reader (ReTop ''o''), Reader (ReDialed (DialOk ''a'')), Client (ClStart SendMsg ''u'' ''o'' (Some [])), Client (ClSend 0),
      Writer WeTake, Writer (WeCall (CeAdd ''x'')), Writer (WeCall CeCheck), Writer (WeCall CeTry), Writer (WeCall (CeWritten None))]"

definition to_answered :: "event list" where
  "to_answered = to_written @ [Reader (ReRead (ReadMsg MessageBinary [])), Reader (ReNotify False)]"

definition history :: "event list \<Rightarrow> long_conn" where
  "history evs = the (run sample_env evs (NewLongConnMgr None None))"

lemma history_reachable:
  "run sample_env evs (NewLongConnMgr None None) \<noteq> None \<Longrightarrow> reachable sample_env (history evs)"
  by (auto simp: history_def intro: reachable_run [OF reachable.start])

text \<open>A history in which only the writer calls has no two calls in flight.\<close>

definition no_call :: "event \<Rightarrow> long_conn \<Rightarrow> bool" where
  "no_call ev s \<longleftrightarrow> lc_beat s = BeatIdle \<and> (case ev of Beat _ \<Rightarrow> False | _ \<Rightarrow> True)"

fun apart_run :: "long_env \<Rightarrow> event list \<Rightarrow> long_conn \<Rightarrow> bool" where
  "apart_run env [] s = True"
| "apart_run env (ev # evs) s \<longleftrightarrow> no_call ev s \<and> (case step env ev s of None \<Rightarrow> True | Some s' \<Rightarrow> apart_run env evs s')"

lemma no_call_fresh: "no_call ev s \<Longrightarrow> fresh_draw ev s"
  by (auto simp: no_call_def fresh_draw_def)

lemma apart_run: "apart env s \<Longrightarrow> apart_run env evs s \<Longrightarrow> run env evs s = Some s' \<Longrightarrow> apart env s'"
proof (induction evs arbitrary: s)
  case (Cons ev evs)
  obtain s1 where s1: "step env ev s = Some s1" using Cons.prems(3) by (auto split: option.splits)
  have "apart env s1" by (rule apart.step [OF Cons.prems(1) s1 no_call_fresh]) (use Cons.prems(2) in simp)
  then show ?case using Cons.IH Cons.prems(2,3) s1 by simp
qed simp

lemma to_written_runs: "run sample_env to_written (NewLongConnMgr None None) \<noteq> None"
  by code_simp

lemma to_answered_runs: "run sample_env to_answered (NewLongConnMgr None None) \<noteq> None"
  by code_simp

lemmas written_reachable = history_reachable [OF to_written_runs]
lemmas answered_reachable = history_reachable [OF to_answered_runs]

section \<open>Status and locks\<close>

text \<open>
  C28: in every reachable state the status is one of the four codes; it says \<^verbatim>\<open>Connecting\<close> exactly while
  the reader dials; the lock \<^verbatim>\<open>connWrite\<close> keeps dialing, a write of the writer and a write of the
  heartbeat apart; and once \<^verbatim>\<open>readPump\<close> has returned the status is never \<^verbatim>\<open>Connected\<close> again.
\<close>
theorem connection_status:
  assumes "reachable env s"
  shows "lc_status s \<in> {DefaultNotConnect, Closed, Connecting, Connected} \<and>
    (lc_status s = Connecting \<longleftrightarrow> lc_reader s = ReaderDialing) \<and>
    (lc_reader s = ReaderDialing \<longrightarrow> \<not> writer_writing (lc_writer s) \<and> \<not> beat_writing (lc_beat s)) \<and>
    \<not> (writer_writing (lc_writer s) \<and> beat_writing (lc_beat s)) \<and>
    (lc_reader s = ReaderDone \<longrightarrow> lc_status s \<noteq> Connected)"
  using reachable_status [OF assms] by (auto simp: status_ok_def)

theorem connection_status_witness:
  "lc_status (history to_answered) = Connected \<and> lc_reader (history to_answered) = ReaderTop \<and>
   \<not> (writer_writing (lc_writer (history to_answered)) \<and> beat_writing (lc_beat (history to_answered)))"
proof -
  have "lc_status (history to_answered) = Connected" "lc_reader (history to_answered) = ReaderTop" by code_simp+
  with connection_status [OF answered_reachable] show ?thesis by blast
qed

section \<open>Responses\<close>

text \<open>
  C29: a goroutine that waits for the response to a request receives only a response with the
  identifier of that request, whatever responses the server sends and in whichever order.
\<close>
theorem response_matches_request:
  assumes "reachable env s"
    and "lc_writer s = WriterCalling cl (CallWaiting req ch) \<or> lc_beat s = BeatCalling (CallWaiting req ch)"
    and "sendAndWaitResp env me CeReceive (CallWaiting req ch) s = Some (CallReturning req (Inr (Some resp)), s')"
  shows "wr_MsgIncr resp = wq_MsgIncr req"
proof -
  let ?K = "writer_of call_keys (lc_writer s) \<union> beat_of call_keys (lc_beat s)"
  let ?H = "writer_of call_chans (lc_writer s) \<union> beat_of call_chans (lc_beat s)"
  have reg: "reg_ok (lc_syncer s) ?K ?H" using reachable_reg [OF assms(1)] by (simp add: reg_inv_def)
  have "(wq_MsgIncr req, ch) \<in> ?H" using assms(2) by auto
  moreover obtain ok u where "on_chan ch receive_from (lc_syncer s) = Returns ((Some resp, ok), u)"
    using assms(3) by (cases rule: call_cases) auto
  ultimately show ?thesis using receive_reg(3) [OF reg] by fastforce
qed

theorem response_matches_request_witness:
  "\<exists>req ch s'. lc_writer (history to_answered) = WriterCalling 0 (CallWaiting req ch) \<and>
     sendAndWaitResp sample_env ByWriter CeReceive (CallWaiting req ch) (history to_answered) =
       Some (CallReturning req (Inr (Some sample_resp)), s') \<and> wr_MsgIncr sample_resp = wq_MsgIncr req"
proof -
  let ?req = "(client_request SendMsg ''u'' ''o'' [])\<lparr>wq_MsgIncr := ''u_x''\<rparr>"
  have w: "lc_writer (history to_answered) = WriterCalling 0 (CallWaiting ?req 0)" by code_simp
  have "map_option fst (sendAndWaitResp sample_env ByWriter CeReceive (CallWaiting ?req 0) (history to_answered)) =
      Some (CallReturning ?req (Inr (Some sample_resp)))" by code_simp
  then obtain s' where r: "sendAndWaitResp sample_env ByWriter CeReceive (CallWaiting ?req 0) (history to_answered) =
      Some (CallReturning ?req (Inr (Some sample_resp)), s')" by auto
  from response_matches_request [OF answered_reachable _ r] w have "wr_MsgIncr sample_resp = wq_MsgIncr ?req" by blast
  with w r show ?thesis by blast
qed

text \<open>
  C30: the registry of responses never leaks: in every reachable state its identifiers are those of the requests in flight
  in the writer and the heartbeat, two at most. If no call drew the identifier of the other call in flight, and nothing has
  panicked, it holds exactly these identifiers, and each goroutine that is still to receive finds its own channel there.
\<close>
theorem registry_has_no_leak:
  assumes "reachable env s"
  shows "fst ` set (wn_notification (lc_syncer s)) \<subseteq> writer_of call_keys (lc_writer s) \<union> beat_of call_keys (lc_beat s) \<and>
    length (wn_notification (lc_syncer s)) \<le> 2 \<and>
    (apart env s \<and> \<not> lc_panicked s \<longrightarrow>
      fst ` set (wn_notification (lc_syncer s)) = writer_of call_keys (lc_writer s) \<union> beat_of call_keys (lc_beat s) \<and>
      writer_of call_chans (lc_writer s) \<union> beat_of call_chans (lc_beat s) \<subseteq> set (wn_notification (lc_syncer s)))"
proof -
  let ?m = "wn_notification (lc_syncer s)"
  let ?K = "writer_of call_keys (lc_writer s) \<union> beat_of call_keys (lc_beat s)"
  let ?H = "writer_of call_chans (lc_writer s) \<union> beat_of call_chans (lc_beat s)"
  have reg: "reg_ok (lc_syncer s) ?K ?H" using reachable_reg [OF assms] by (simp add: reg_inv_def)
  then have "k \<in> ?K" if "gget ?m k \<noteq> None" for k using that by (simp only: reg_ok_def) blast
  then have sub: "fst ` set ?m \<subseteq> ?K" using in_keys_gget [of _ ?m] by blast
  have one: "finite (call_keys pc) \<and> card (call_keys pc) \<le> 1" for pc by (cases pc) simp_all
  have "finite (writer_of call_keys (lc_writer s)) \<and> card (writer_of call_keys (lc_writer s)) \<le> 1"
    "finite (beat_of call_keys (lc_beat s)) \<and> card (beat_of call_keys (lc_beat s)) \<le> 1"
    using one by (cases "lc_writer s"; simp) (use one in \<open>cases "lc_beat s"; simp\<close>)
  then have "finite ?K" "card ?K \<le> 2" using card_Un_le [of "writer_of call_keys (lc_writer s)" "beat_of call_keys (lc_beat s)"] by simp_all
  moreover have "length ?m = card (fst ` set ?m)"
    using reg distinct_card [of "map fst ?m"] by (simp add: reg_ok_def registry_ok_def gomap_ok_def)
  ultimately have two: "length ?m \<le> 2" using card_mono [OF _ sub] by simp
  have "fst ` set ?m = ?K \<and> ?H \<subseteq> set ?m" if "apart env s" "\<not> lc_panicked s"
  proof
    have full: "reg_full ?m ?K ?H" using apart_exact [OF that] unfolding exact_def by blast
    have "?K \<subseteq> fst ` set ?m" using full unfolding reg_full_def in_keys_gget subset_iff by blast
    with sub show "fst ` set ?m = ?K" by blast
    show "?H \<subseteq> set ?m"
    proof
      fix h assume "h \<in> ?H"
      then have "gget ?m (fst h) = Some (snd h)" using full by (auto simp: reg_full_def)
      then show "h \<in> set ?m" using gget_in by fastforce
    qed
  qed
  with sub two show ?thesis by blast
qed

text \<open>The request of the history is registered with the channel its goroutine waits on.\<close>

theorem registry_has_no_leak_witness:
  "reachable sample_env (history to_written) \<and> fst ` set (wn_notification (lc_syncer (history to_written))) = {''u_x''} \<and>
   (\<exists>req ch. lc_writer (history to_written) = WriterCalling 0 (CallWaiting req ch) \<and> (''u_x'', ch) \<in> set (wn_notification (lc_syncer (history to_written))))"
proof -
  let ?s = "history to_written"
  let ?req = "(client_request SendMsg ''u'' ''o'' [])\<lparr>wq_MsgIncr := ''u_x''\<rparr>"
  have w: "lc_writer ?s = WriterCalling 0 (CallWaiting ?req 0)" "lc_beat ?s = BeatIdle" "\<not> lc_panicked ?s" by code_simp+
  have "apart_run sample_env to_written (NewLongConnMgr None None)" by code_simp
  then have "apart sample_env ?s"
    using to_written_runs by (auto simp: history_def intro: apart_run [OF apart.start])
  with registry_has_no_leak [OF written_reachable] w(3)
  have "fst ` set (wn_notification (lc_syncer ?s)) = writer_of call_keys (lc_writer ?s) \<union> beat_of call_keys (lc_beat ?s)"
    "writer_of call_chans (lc_writer ?s) \<union> beat_of call_chans (lc_beat ?s) \<subseteq> set (wn_notification (lc_syncer ?s))"
    by simp_all
  with w written_reachable show ?thesis by simp
qed

text \<open>
  When \<^verbatim>\<open>writePump\<close> answers a caller of \<^verbatim>\<open>SendReqWaitResp\<close>, the caller's channel is open and empty:
  the answer is delivered without waiting, and it is the only one the channel ever holds.
\<close>
theorem answer_is_delivered:
  assumes "reachable env s" and "lc_writer s = WriterReplying cl resp" and "\<not> lc_panicked s"
  shows "\<exists>s'. step env (Writer (WeReply False)) s = Some s' \<and> \<not> lc_panicked s' \<and> lc_writer s' = WriterIdle \<and>
    rc_buf (cl_resp (lc_clients s' ! cl)) = [resp] \<and> cl_pc (lc_clients s' ! cl) \<noteq> ClientSending"
proof -
  note acc = reply_accepted [OF reachable_clients [OF assms(1)] assms(2)]
  have "cl_pc (lc_clients s ! cl) \<noteq> ClientSending"
    using reachable_clients [OF assms(1)] assms(2) by (simp add: clients_ok_def on_the_way_def)
  with acc assms(2,3) show ?thesis by (simp add: step_def writePump_def)
qed

definition to_replying :: "event list" where
  "to_replying = to_answered @ [Writer (WeCall CeReceive), Writer (WeCall CeRemove)]"

lemma to_replying_runs: "run sample_env to_replying (NewLongConnMgr None None) \<noteq> None"
  by code_simp

lemmas replying_reachable = history_reachable [OF to_replying_runs]

theorem answer_is_delivered_witness:
  "\<exists>s'. step sample_env (Writer (WeReply False)) (history to_replying) = Some s' \<and>
     rc_buf (cl_resp (lc_clients s' ! 0)) = [Some sample_resp]"
proof -
  have "lc_writer (history to_replying) = WriterReplying 0 (Some sample_resp)" "\<not> lc_panicked (history to_replying)"
    by code_simp+
  from answer_is_delivered [OF replying_reachable this] show ?thesis by blast
qed

text \<open>
  When a call of the writer fails, the caller is answered with a code of \<^verbatim>\<open>sdkerrs\<close> that is not 0,
  so that \<^verbatim>\<open>SendReqWaitResp\<close> returns an error, and never success.
\<close>
theorem failure_is_reported:
  assumes "reachable env s" and "lc_writer s = WriterCalling cl (CallReturning req (Inl e))"
    and "step env (Writer (WeCall CeRemove)) s = Some s'"
  shows "\<exists>r. lc_writer s' = WriterReplying cl (Some r) \<and> wr_ErrCode r \<in> {NetworkError, NetworkTimeoutError} \<and>
    client_result env (Some r, True) = Some (Some (CodeError (wr_ErrCode r) (wr_ErrMsg r)))"
proof -
  have e: "e \<in> call_errors" using reachable_writer [OF assms(1)] assms(2) by (simp add: writer_ok_def result_ok_def)
  have code: "wr_ErrCode (error_resp req e) \<in> {NetworkError, NetworkTimeoutError}"
    using e by (auto simp: call_errors_def error_resp_def not_connected_def sdkerrs_defs Let_def)
  have "registry_ok (lc_syncer s)" using reachable_reg [OF assms(1)] by (simp add: reg_inv_def reg_ok_def)
  then have "DelCh (wq_MsgIncr req) (lc_syncer s) \<noteq> None" by (rule DelCh_open)
  with assms(2,3) have "lc_writer s' = WriterReplying cl (Some (error_resp req e))"
    by (auto simp: step_def writePump_def writer_call_def call_defs answer_def split: if_splits option.splits)
  with code show ?thesis by (auto simp: client_result_def NetworkError_def NetworkTimeoutError_def)
qed

definition to_timed_out :: "event list" where
  "to_timed_out = to_written @ [Writer (WeCall CeTimeout)]"

lemma to_timed_out_runs: "run sample_env to_timed_out (NewLongConnMgr None None) \<noteq> None"
  by code_simp

theorem failure_is_reported_witness:
  "\<exists>s' r. step sample_env (Writer (WeCall CeRemove)) (history to_timed_out) = Some s' \<and>
     lc_writer s' = WriterReplying 0 (Some r) \<and> wr_ErrCode r \<in> {NetworkError, NetworkTimeoutError}"
proof -
  let ?req = "(client_request SendMsg ''u'' ''o'' [])\<lparr>wq_MsgIncr := ''u_x''\<rparr>"
  have w: "lc_writer (history to_timed_out) = WriterCalling 0 (CallReturning ?req (Inl ErrNetworkTimeOut))" by code_simp
  have "step sample_env (Writer (WeCall CeRemove)) (history to_timed_out) \<noteq> None" by code_simp
  then obtain s' where "step sample_env (Writer (WeCall CeRemove)) (history to_timed_out) = Some s'" by auto
  from failure_is_reported [OF history_reachable [OF to_timed_out_runs] w this] this show ?thesis by blast
qed

section \<open>After the reader has returned\<close>

definition attempts :: "nat \<Rightarrow> event list" where
  "attempts n = concat (replicate n [Writer (WeCall CeTry), Writer (WeCall CeRetry)])"

lemma attempts_Suc: "attempts (Suc n) = Writer (WeCall CeTry) # Writer (WeCall CeRetry) # attempts n"
  by (simp add: attempts_def)

lemma failed_attempt:
  assumes "lc_status s \<noteq> Connected" and "lc_status s \<noteq> Connecting" and "\<not> lc_panicked s"
    and "lc_status s \<in> {DefaultNotConnect, Closed, Connecting, Connected}"
    and "lc_writer s = WriterCalling cl (CallTry req ch i)" and "lc_connWrite s = None"
  shows "\<exists>s'. run env [Writer (WeCall CeTry), Writer (WeCall CeRetry)] s = Some s' \<and>
    lc_status s' = lc_status s \<and> \<not> lc_panicked s' \<and> lc_connWrite s' = None \<and> lc_net s' = lc_net s \<and>
    lc_writer s' = WriterCalling cl (retry_after req ch i)"
proof -
  obtain e where e: "writeBinaryMsg env req s = Inl e"
    using assms(1) by (cases "le_encode env req") (simp_all add: writeBinaryMsg_def)
  have step: "step env (Writer (WeCall CeTry)) s = Some (s\<lparr>lc_writer := WriterCalling cl (CallFailed req ch i e)\<rparr>)"
    using assms(3,5,6) e by (simp add: step_def writePump_def writer_call_def call_defs write_lock_free_def)
  have "\<nexists>r x. retry_after req ch i = CallReturned r x" by (simp add: retry_after_def)
  then show ?thesis
    using assms step
    by (auto simp: step_def writePump_def writer_call_def call_defs lc_close_def closed_err_def retry_after_def)
qed

text \<open>
  C33: once \<^verbatim>\<open>readPump\<close> has returned, a request that the writer tries to send makes all of its remaining
  attempts in vain, without a write on the network, and then the call fails: its caller is not left
  waiting for ever.
\<close>
theorem dead_connection_gives_up:
  assumes "reachable env s" and "lc_reader s = ReaderDone" and "\<not> lc_panicked s"
    and "lc_writer s = WriterCalling cl (CallTry req ch i)" and "i < maxReconnectAttempts" and "lc_connWrite s = None"
  shows "\<exists>s'. run env (attempts (maxReconnectAttempts - i)) s = Some s' \<and> lc_net s' = lc_net s \<and>
    lc_writer s' = WriterCalling cl (CallReturning req (Inl (Wrapped ErrNetwork ''send binary message error'')))"
proof -
  have st: "lc_status s \<noteq> Connected" "lc_status s \<noteq> Connecting" "lc_status s \<in> {DefaultNotConnect, Closed, Connecting, Connected}"
    using reachable_status [OF assms(1)] assms(2) by (auto simp: status_ok_def)
  define n where "n = maxReconnectAttempts - Suc i"
  then have n: "i + Suc n = maxReconnectAttempts" "maxReconnectAttempts - i = Suc n" using assms(5) by simp_all
  have "\<exists>s'. run env (attempts (Suc n)) s = Some s' \<and> lc_net s' = lc_net s \<and>
      lc_writer s' = WriterCalling cl (CallReturning req (Inl (Wrapped ErrNetwork ''send binary message error'')))"
    using st assms(3,4,6) n(1)
  proof (induction n arbitrary: s i)
    case 0
    from failed_attempt [OF "0.prems"(1,2,4,3,5,6), of env] "0.prems"(7) show ?case
      by (auto simp: attempts_def retry_after_def)
  next
    case (Suc n)
    obtain s1 where s1: "run env [Writer (WeCall CeTry), Writer (WeCall CeRetry)] s = Some s1"
        "lc_status s1 = lc_status s" "\<not> lc_panicked s1" "lc_connWrite s1 = None" "lc_net s1 = lc_net s"
        "lc_writer s1 = WriterCalling cl (CallTry req ch (Suc i))"
      using failed_attempt [OF Suc.prems(1,2,4,3,5,6), of env] Suc.prems(7) by (auto simp: retry_after_def)
    have "\<exists>s'. run env (attempts (Suc n)) s1 = Some s' \<and> lc_net s' = lc_net s1 \<and>
      lc_writer s' = WriterCalling cl (CallReturning req (Inl (Wrapped ErrNetwork ''send binary message error'')))"
    proof (rule Suc.IH)
      show "Suc i + Suc n = maxReconnectAttempts" using Suc.prems(7) by simp
    qed (use s1 Suc.prems in simp_all)
    with s1(1,5) show ?case
      unfolding attempts_Suc [of "Suc n"] by (auto split: option.splits)
  qed
  with n(2) show ?thesis by simp
qed

definition to_dead :: "event list" where
  "to_dead =
     [Reader (ReTop ''o''), Reader (ReDialed (DialOk ''a'')), Client (ClStart SendMsg ''u'' ''o'' (Some [])), Client (ClSend 0),
      Writer WeTake, Writer (WeCall (CeAdd ''x'')), Writer (WeCall CeCheck),
      Reader (ReRead (ReadMsg CloseMessage [])), Reader ReClose]"

lemma to_dead_runs: "run sample_env to_dead (NewLongConnMgr None None) \<noteq> None"
  by code_simp

theorem dead_connection_gives_up_witness:
  "\<exists>s' req. run sample_env (attempts 300) (history to_dead) = Some s' \<and> lc_net s' = lc_net (history to_dead) \<and>
     lc_writer s' = WriterCalling 0 (CallReturning req (Inl (Wrapped ErrNetwork ''send binary message error'')))"
proof -
  let ?req = "(client_request SendMsg ''u'' ''o'' [])\<lparr>wq_MsgIncr := ''u_x''\<rparr>"
  have "lc_reader (history to_dead) = ReaderDone" "\<not> lc_panicked (history to_dead)"
    "lc_writer (history to_dead) = WriterCalling 0 (CallTry ?req 0 0)" "lc_connWrite (history to_dead) = None"
    by code_simp+
  then show ?thesis
    using dead_connection_gives_up [OF history_reachable [OF to_dead_runs], of 0 ?req 0 0]
    by (auto simp: maxReconnectAttempts_def)
qed

text \<open>After \<^verbatim>\<open>writePump\<close> has returned, the next \<^verbatim>\<open>SendReqWaitResp\<close> sends on a closed channel, and panics.\<close>

theorem send_after_stop_panics:
  assumes "reachable env s" and "lc_writer s = WriterDone" and "\<not> lc_panicked s" and "at_client cl ClientSending s"
  shows "step env (Client (ClSend cl)) s = Some (panic s)"
  using reachable_writer [OF assms(1)] assms(2-4)
  by (simp add: writer_ok_def step_def SendReqWaitResp_def client_send_def)

section \<open>A response that arrives twice\<close>

text \<open>
  The reader holds the registry while it waits for room in a channel; the goroutine that could make
  room has stopped waiting, and needs the registry to remove the channel.
\<close>

definition stuck :: "nat \<Rightarrow> nat \<Rightarrow> GeneralWsReq \<Rightarrow> long_conn \<Rightarrow> bool" where
  "stuck ch cl req s \<longleftrightarrow>
     (\<exists>resp after. lc_reader s = ReaderNotifying ch resp after) \<and>
     length (rc_buf (wn_heap (lc_syncer s) ! ch)) = 1 \<and> \<not> rc_closed (wn_heap (lc_syncer s) ! ch) \<and>
     (\<exists>result. lc_writer s = WriterCalling cl (CallReturning req result)) \<and>
     (lc_beat s = BeatIdle \<or> lc_beat s = BeatDone \<or> (\<exists>r. lc_beat s = BeatCalling (CallAdd r)))"

lemma stuck_step:
  assumes "stuck ch cl req s" and "step env ev s = Some s'"
  shows "stuck ch cl req s'"
proof -
  have busy: "\<not> registry_free s" using assms(1) by (auto simp: stuck_def registry_free_def)
  from assms(2) show ?thesis
  proof (cases rule: step_cases)
    case (reader e)
    with assms(1) show ?thesis
      by (auto simp: stuck_def readPump_def notify_step_def notify_round_def on_chan_def notifyCh_def send_to_def
          split: reader_event.splits if_splits)
  next
    case (writer e)
    with assms(1) obtain result where "writer_call env cl (CallReturning req result) e s = Some s'"
      by (auto simp: stuck_def writePump_def)
    then show ?thesis
    proof (cases rule: writer_call_cases)
      case still
      from still(2) busy show ?thesis by (cases rule: call_cases) simp_all
    next
      case returned
      from returned(2) busy show ?thesis by (cases rule: call_cases) simp_all
    qed
  next
    case (beat e)
    consider "lc_beat s = BeatIdle" | "lc_beat s = BeatDone" | r where "lc_beat s = BeatCalling (CallAdd r)"
      using assms(1) by (auto simp: stuck_def)
    then show ?thesis
    proof cases
      case 1
      with beat assms(1) show ?thesis
        by (auto simp: stuck_def heartbeat_def split: beat_event.splits option.splits)
    next
      case 2
      with beat show ?thesis by (simp add: heartbeat_def)
    next
      case 3
      with beat(2) have "beat_call env (CallAdd r) e s = Some s'" by (simp add: heartbeat_def)
      then show ?thesis
      proof (cases rule: beat_call_cases)
        case still
        from still(2) busy show ?thesis by (cases rule: call_cases) simp_all
      next
        case returned
        from returned(2) show ?thesis by (cases rule: call_cases) simp_all
      qed
    qed
  next
    case (client e)
    with client_frame [OF client(2)] assms(1) show ?thesis by (simp add: stuck_def)
  next
    case change
    with assms(1) show ?thesis by (simp add: stuck_def lc_Close_def)
  next
    case background
    with assms(1) show ?thesis by (simp add: stuck_def SetBackground_def)
  qed
qed

lemma stuck_run: "stuck ch cl req s \<Longrightarrow> run env evs s = Some s' \<Longrightarrow> stuck ch cl req s'"
  by (induction evs arbitrary: s) (auto split: option.splits intro: stuck_step)

definition to_stuck :: "event list" where
  "to_stuck = to_answered @ [Reader (ReTop ''o''), Reader (ReRead (ReadMsg MessageBinary [])), Writer (WeCall CeTimeout)]"

lemma to_stuck_runs: "run sample_env to_stuck (NewLongConnMgr None None) \<noteq> None"
  by code_simp

text \<open>
  C34: when a response arrives twice and its receiver times out, the connection is dead for good: it
  reaches a state from which, whatever happens, the reader never leaves \<^verbatim>\<open>NotifyResp\<close> and the writer
  never gets past the deferred \<^verbatim>\<open>DelCh\<close>, each waiting for the other.
\<close>
theorem duplicate_response_deadlocks:
  "reachable sample_env (history to_stuck) \<and>
   (\<forall>evs. case run sample_env evs (history to_stuck) of
      None \<Rightarrow> True
    | Some s \<Rightarrow> (\<exists>ch resp after. lc_reader s = ReaderNotifying ch resp after) \<and>
        (\<exists>req result. lc_writer s = WriterCalling 0 (CallReturning req result)))"
proof -
  let ?req = "(client_request SendMsg ''u'' ''o'' [])\<lparr>wq_MsgIncr := ''u_x''\<rparr>"
  have "lc_reader (history to_stuck) = ReaderNotifying 0 sample_resp None"
    "lc_writer (history to_stuck) = WriterCalling 0 (CallReturning ?req (Inl ErrNetworkTimeOut))"
    "lc_beat (history to_stuck) = BeatIdle"
    "length (rc_buf (wn_heap (lc_syncer (history to_stuck)) ! 0)) = 1"
    "\<not> rc_closed (wn_heap (lc_syncer (history to_stuck)) ! 0)"
    by code_simp+
  then have "stuck 0 0 ?req (history to_stuck)" by (auto simp: stuck_def)
  note stuck = stuck_run [OF this]
  show ?thesis
  proof (intro conjI allI)
    show "reachable sample_env (history to_stuck)" by (rule history_reachable [OF to_stuck_runs])
    fix evs
    show "case run sample_env evs (history to_stuck) of None \<Rightarrow> True
      | Some s \<Rightarrow> (\<exists>ch resp after. lc_reader s = ReaderNotifying ch resp after) \<and>
          (\<exists>req result. lc_writer s = WriterCalling 0 (CallReturning req result))"
    proof (cases "run sample_env evs (history to_stuck)")
      case (Some s)
      from stuck [OF Some] Some show ?thesis by (auto simp: stuck_def)
    qed simp
  qed
qed

end
