(* ===== verification/ConvNames.thy ===== *)
theory ConvNames
  imports ConvState Friend
begin

text \<open>
  The names and pictures of conversations: \<^verbatim>\<open>addFaceURLAndName\<close>, \<^verbatim>\<open>batchAddFaceURLAndName\<close> and what they
  ask of the user, friend and group components (the cache of users, the friend and group tables, and
  the server, whose answers are effects on the network).
\<close>

section \<open>Users\<close>

definition GetFriendInfoByFriendUserID ::
  "(LocalFriend, 't) gorm \<Rightarrow> string \<Rightarrow> string \<Rightarrow> 't \<Rightarrow> (go_error + LocalFriend) \<times> 't" where
  "GetFriendInfoByFriendUserID G loginUserID FriendUserID t =
     wrap_res ''GetFriendInfoByFriendUserID failed''
       (gorm_take G (\<lambda>r. fr_OwnerUserID r = loginUserID \<and> fr_FriendUserID r = FriendUserID) t)"

text \<open>The name of a friend is the remark, or the nickname without one.\<close>

definition friend_name :: "LocalFriend \<Rightarrow> string" where
  "friend_name f = (if fr_Remark f \<noteq> [] then fr_Remark f else fr_Nickname f)"

definition cache_user :: "string \<Rightarrow> BasicInfo \<Rightarrow> ('t, 'n) conv_state \<Rightarrow> ('t, 'n) conv_state" where
  "cache_user userID info s = s\<lparr>co_users := gput userID info (co_users s)\<rparr>"

definition user_basic :: "UserInfo \<Rightarrow> BasicInfo" where
  "user_basic u = \<lparr>bi_Nickname = usi_Nickname u, bi_FaceURL = usi_FaceURL u\<rparr>"

text \<open>The result is the picture and the name.\<close>

definition getUserNameAndFaceURL ::
  "('q, 't, 'n) conv_env \<Rightarrow> string \<Rightarrow> ('t, 'n) conv_state \<Rightarrow> (go_error + string \<times> string) \<times> ('t, 'n) conv_state" where
  "getUserNameAndFaceURL E userID s =
     (case gget (co_users s) userID of
        Some v \<Rightarrow> (Inr (bi_FaceURL v, bi_Nickname v), s)
      | None \<Rightarrow>
          (case on_db (GetFriendInfoByFriendUserID (cx_friends E) (cx_loginUserID E) userID) s of
             (Inr f, s1) \<Rightarrow> (Inr (fr_FaceURL f, friend_name f), s1)
           | (Inl _, s1) \<Rightarrow>
               (case on_net (cx_GetServerUserInfo E [userID]) s1 of
                  (Inl e, s2) \<Rightarrow> (Inl e, s2)
                | (Inr [], s2) \<Rightarrow> (Inl (Wrapped ErrUserIDNotFound userID), s2)
                | (Inr (u # _), s2) \<Rightarrow> (Inr (usi_FaceURL u, usi_Nickname u), cache_user userID (user_basic u) s2))))"

definition friends_map :: "LocalFriend list \<Rightarrow> (string, BasicInfo) gomap" where
  "friends_map friendList =
     fold (\<lambda>f m. gput (fr_FriendUserID f) \<lparr>bi_Nickname = friend_name f, bi_FaceURL = fr_FaceURL f\<rparr> m) friendList []"

definition from_cache ::
  "(string, BasicInfo) gomap \<Rightarrow> string \<Rightarrow> (string, BasicInfo) gomap \<times> string list \<Rightarrow> (string, BasicInfo) gomap \<times> string list" where
  "from_cache cache userID mn =
     (case gget cache userID of Some v \<Rightarrow> (gput userID v (fst mn), snd mn) | None \<Rightarrow> (fst mn, snd mn @ [userID]))"

definition batchGetUserNameAndFaceURL ::
  "('q, 't, 'n) conv_env \<Rightarrow> string list \<Rightarrow> ('t, 'n) conv_state \<Rightarrow>
   (go_error + (string, BasicInfo) gomap) \<times> ('t, 'n) conv_state" where
  "batchGetUserNameAndFaceURL E userIDs s =
     (case on_db (GetFriendInfoList (cx_friends E) userIDs) s of (r, s1) \<Rightarrow>
      let friendList = (case r of Inl _ \<Rightarrow> [] | Inr fs \<Rightarrow> fs);
          notInFriend = (case r of Inl _ \<Rightarrow> userIDs | Inr fs \<Rightarrow> cx_SliceSub E userIDs (map fr_FriendUserID fs));
          (m, notCached) = fold (from_cache (co_users s1)) notInFriend (friends_map friendList, [])
      in if notCached = [] then (Inr m, s1)
         else case on_net (cx_GetServerUserInfo E notCached) s1 of
                (Inl e, s2) \<Rightarrow> (Inl e, s2)
              | (Inr users, s2) \<Rightarrow>
                  (Inr (fold (\<lambda>u m. gput (usi_UserID u) (user_basic u) m) users m),
                   fold (\<lambda>u. cache_user (usi_UserID u) (user_basic u)) users s2))"

section \<open>Groups\<close>

definition ServerGroupToLocalGroup :: "GroupInfo \<Rightarrow> LocalGroup" where
  "ServerGroupToLocalGroup info = \<lparr>gr_GroupID = gi_GroupID info, gr_GroupName = gi_GroupName info,
     gr_Notification = gi_Notification info, gr_Introduction = gi_Introduction info, gr_FaceURL = gi_FaceURL info,
     gr_CreateTime = gi_CreateTime info, gr_Status = gi_Status info, gr_CreatorUserID = gi_CreatorUserID info,
     gr_GroupType = gi_GroupType info, gr_OwnerUserID = gi_OwnerUserID info, gr_MemberCount = sint (gi_MemberCount info),
     gr_Ex = gi_Ex info, gr_AttachedInfo = [], gr_NeedVerification = gi_NeedVerification info,
     gr_LookMemberInfo = gi_LookMemberInfo info, gr_ApplyMemberFriend = gi_ApplyMemberFriend info,
     gr_NotificationUpdateTime = gi_NotificationUpdateTime info, gr_NotificationUserID = gi_NotificationUserID info\<rparr>"

definition GetGroupsInfoFromLocal2Svr ::
  "('q, 't, 'n) conv_env \<Rightarrow> string list \<Rightarrow> ('t, 'n) conv_state \<Rightarrow>
   (go_error + (string, LocalGroup) gomap) \<times> ('t, 'n) conv_state" where
  "GetGroupsInfoFromLocal2Svr E groupIDs s =
     (if groupIDs = [] then (Inr [], s)
      else case on_db (GetGroups (cx_groups E) groupIDs) s of
             (Inl e, s1) \<Rightarrow> (Inl e, s1)
           | (Inr groups, s1) \<Rightarrow>
               (let groupIDsNeedSync = filter (\<lambda>g. g \<notin> set (map gr_GroupID groups)) groupIDs
                in if groupIDsNeedSync = [] then (Inr (slice_to_map gr_GroupID groups), s1)
                   else case on_net (cx_getGroupsInfoFromSvr E groupIDsNeedSync) s1 of
                          (Inl e, s2) \<Rightarrow> (Inl e, s2)
                        | (Inr svrGroups, s2) \<Rightarrow>
                            (Inr (slice_to_map gr_GroupID (groups @ map ServerGroupToLocalGroup svrGroups)), s2)))"

section \<open>Conversations\<close>

definition is_user_conversation :: "LocalConversation \<Rightarrow> bool" where
  "is_user_conversation lc \<longleftrightarrow> cv_ConversationType lc = SingleChatType \<or> cv_ConversationType lc = NotificationChatType"

definition is_group_conversation :: "LocalConversation \<Rightarrow> bool" where
  "is_group_conversation lc \<longleftrightarrow> cv_ConversationType lc = SuperGroupChatType"

text \<open>What the batch writes into a conversation: nothing, when its user or group is not found.\<close>

definition add_name ::
  "(string, BasicInfo) gomap \<Rightarrow> (string, LocalGroup) gomap \<Rightarrow> LocalConversation \<Rightarrow> LocalConversation" where
  "add_name users groups lc =
     (if is_user_conversation lc
      then (case gget users (cv_UserID lc) of
              Some v \<Rightarrow> lc\<lparr>cv_FaceURL := bi_FaceURL v, cv_ShowName := bi_Nickname v\<rparr> | None \<Rightarrow> lc)
      else if is_group_conversation lc
      then (case gget groups (cv_GroupID lc) of
              Some g \<Rightarrow> lc\<lparr>cv_FaceURL := gr_FaceURL g, cv_ShowName := gr_GroupName g\<rparr> | None \<Rightarrow> lc)
      else lc)"

definition batchAddFaceURLAndName ::
  "('q, 't, 'n) conv_env \<Rightarrow> LocalConversation list \<Rightarrow> ('t, 'n) conv_state \<Rightarrow>
   (go_error + LocalConversation list) \<times> ('t, 'n) conv_state" where
  "batchAddFaceURLAndName E conversations s =
     (if conversations = [] then (Inr [], s)
      else case batchGetUserNameAndFaceURL E (map cv_UserID (filter is_user_conversation conversations)) s of
             (Inl e, s1) \<Rightarrow> (Inl e, s1)
           | (Inr users, s1) \<Rightarrow>
               (case GetGroupsInfoFromLocal2Svr E (map cv_GroupID (filter is_group_conversation conversations)) s1 of
                  (Inl e, s2) \<Rightarrow> (Inl e, s2)
                | (Inr groups, s2) \<Rightarrow> (Inr (map (add_name users groups) conversations), s2)))"

text \<open>A result of the batch is the conversation with another name and picture at most.\<close>

lemma add_name_keeps [simp]:
  "cv_ConversationID (add_name users groups lc) = cv_ConversationID lc"
  "cv_UnreadCount (add_name users groups lc) = cv_UnreadCount lc"
  "cv_LatestMsg (add_name users groups lc) = cv_LatestMsg lc"
  "cv_LatestMsgSendTime (add_name users groups lc) = cv_LatestMsgSendTime lc"
  by (simp_all add: add_name_def split: option.splits)

section \<open>One conversation\<close>

definition NormalGroup :: int where "NormalGroup = 0"
definition SuperGroup :: int where "SuperGroup = 1"
definition WorkingGroup :: int where "WorkingGroup = 2"

definition ErrGroupIDNotFound :: go_error where
  "ErrGroupIDNotFound = CodeError GroupIDNotFoundError ''GroupIDNotFoundError''"

definition GroupTypeErr :: int where "GroupTypeErr = 10401"
definition ErrGroupType :: go_error where "ErrGroupType = CodeError GroupTypeErr ''group type error''"

definition GetGroupInfoFromLocal2Svr ::
  "('q, 't, 'n) conv_env \<Rightarrow> string \<Rightarrow> ('t, 'n) conv_state \<Rightarrow> (go_error + LocalGroup) \<times> ('t, 'n) conv_state" where
  "GetGroupInfoFromLocal2Svr E groupID s =
     (case on_db (GetGroupInfoByGroupID (cx_groups E) groupID) s of
        (Inr localGroup, s1) \<Rightarrow> (Inr localGroup, s1)
      | (Inl _, s1) \<Rightarrow>
          (case on_net (cx_getGroupsInfoFromSvr E [groupID]) s1 of
             (Inl e, s2) \<Rightarrow> (Inl e, s2)
           | (Inr [], s2) \<Rightarrow> (Inl (Wrapped ErrGroupIDNotFound ''server not this group''), s2)
           | (Inr (g # _), s2) \<Rightarrow> (Inr (ServerGroupToLocalGroup g), s2)))"

definition full_GetGroupInfoFromLocal2Svr ::
  "('q, 't, 'n) conv_env \<Rightarrow> string \<Rightarrow> int \<Rightarrow> ('t, 'n) conv_state \<Rightarrow> (go_error + LocalGroup) \<times> ('t, 'n) conv_state" where
  "full_GetGroupInfoFromLocal2Svr E groupID sessionType s =
     (if sessionType = GroupChatType \<or> sessionType = SuperGroupChatType then GetGroupInfoFromLocal2Svr E groupID s
      else (Inl (GoError (''sessionType is not support '' @ decimal sessionType)), s))"

definition addFaceURLAndName ::
  "('q, 't, 'n) conv_env \<Rightarrow> LocalConversation \<Rightarrow> ('t, 'n) conv_state \<Rightarrow>
   (go_error + LocalConversation) \<times> ('t, 'n) conv_state" where
  "addFaceURLAndName E lc s =
     (if is_user_conversation lc
      then (case getUserNameAndFaceURL E (cv_UserID lc) s of
              (Inl e, s1) \<Rightarrow> (Inl e, s1)
            | (Inr (faceUrl, name), s1) \<Rightarrow> (Inr (lc\<lparr>cv_FaceURL := faceUrl, cv_ShowName := name\<rparr>), s1))
      else if is_group_session (cv_ConversationType lc)
      then (case full_GetGroupInfoFromLocal2Svr E (cv_GroupID lc) (cv_ConversationType lc) s of
              (Inl e, s1) \<Rightarrow> (Inl e, s1)
            | (Inr g, s1) \<Rightarrow> (Inr (lc\<lparr>cv_ShowName := gr_GroupName g, cv_FaceURL := gr_FaceURL g\<rparr>), s1))
      else (Inr lc, s))"

definition getConversationTypeByGroupID ::
  "('q, 't, 'n) conv_env \<Rightarrow> string \<Rightarrow> ('t, 'n) conv_state \<Rightarrow> (go_error + string \<times> int) \<times> ('t, 'n) conv_state" where
  "getConversationTypeByGroupID E groupID s =
     (case GetGroupInfoFromLocal2Svr E groupID s of
        (Inl e, s1) \<Rightarrow> (Inl (Wrapped e ''get group info error''), s1)
      | (Inr g, s1) \<Rightarrow>
          (if gr_GroupType g = NormalGroup
           then (Inr (getConversationIDBySessionType (cx_loginUserID E) groupID GroupChatType, GroupChatType), s1)
           else if gr_GroupType g = SuperGroup \<or> gr_GroupType g = WorkingGroup
           then (Inr (getConversationIDBySessionType (cx_loginUserID E) groupID SuperGroupChatType, SuperGroupChatType), s1)
           else (Inl ErrGroupType, s1)))"

text \<open>\<^verbatim>\<open>getSelfUserInfo\<close> of the user component: the local row, or the server's, which is then stored.\<close>

definition ServerUserToLocalUser :: "UserInfo \<Rightarrow> LocalUser" where
  "ServerUserToLocalUser user = \<lparr>us_UserID = usi_UserID user, us_Nickname = usi_Nickname user, us_FaceURL = usi_FaceURL user,
     us_CreateTime = usi_CreateTime user, us_AppMangerLevel = 0, us_Ex = usi_Ex user, us_AttachedInfo = [],
     us_GlobalRecvMsgOpt = usi_GlobalRecvMsgOpt user\<rparr>"

definition getSelfUserInfo ::
  "('q, 't, 'n) conv_env \<Rightarrow> ('t, 'n) conv_state \<Rightarrow> (go_error + LocalUser) \<times> ('t, 'n) conv_state" where
  "getSelfUserInfo E s =
     (case on_db (GetLoginUser (cx_user E) (cx_loginUserID E)) s of
        (Inr userInfo, s1) \<Rightarrow> (Inr userInfo, s1)
      | (Inl _, s1) \<Rightarrow>
          (case on_net (cx_GetServerUserInfo E [cx_loginUserID E]) s1 of
             (Inl e, s2) \<Rightarrow> (Inl e, s2)
           | (Inr [], s2) \<Rightarrow> (Inl ErrUserIDNotFound, s2)
           | (Inr (u # _), s2) \<Rightarrow>
               (let userInfo = ServerUserToLocalUser u
                in (Inr userInfo, snd (on_db (InsertLoginUser (cx_user E) userInfo) s2)))))"

end
