(* ===== verification/ConvUpdate.thy ===== *)
theory ConvUpdate
  imports ConvNames
begin

text \<open>
  The updates of conversations: how a message moves its conversation (\<^verbatim>\<open>updateConversation\<close>, \<^verbatim>\<open>diff\<close> of
  \<^verbatim>\<open>conversation_msg.go\<close>), the callbacks for new messages, and the commands \<^verbatim>\<open>doUpdateConversation\<close> and
  \<^verbatim>\<open>doUpdateMessage\<close> of \<^verbatim>\<open>conversation_notification.go\<close>.
\<close>

section \<open>Merging\<close>

text \<open>The unread messages add up; the later message wins, the stored one when they are equally late.\<close>

definition absorb :: "LocalConversation \<Rightarrow> LocalConversation \<Rightarrow> LocalConversation" where
  "absorb v old =
     (let old1 = old\<lparr>cv_UnreadCount := i32 (cv_UnreadCount old + cv_UnreadCount v)\<rparr>
      in if cv_LatestMsgSendTime v > cv_LatestMsgSendTime old
         then old1\<lparr>cv_LatestMsg := cv_LatestMsg v, cv_LatestMsgSendTime := cv_LatestMsgSendTime v\<rparr>
         else old1)"

type_synonym conv_map = "(string, LocalConversation) gomap"

definition updateConversation :: "LocalConversation \<Rightarrow> conv_map \<Rightarrow> conv_map" where
  "updateConversation lc cs =
     gput (cv_ConversationID lc)
       (case gget cs (cv_ConversationID lc) of None \<Rightarrow> lc | Some oldC \<Rightarrow> absorb lc oldC) cs"

definition listToMap :: "LocalConversation list \<Rightarrow> conv_map" where
  "listToMap list = slice_to_map cv_ConversationID list"

definition mapConversationToList :: "('q, 't, 'n) conv_env \<Rightarrow> conv_map \<Rightarrow> LocalConversation list" where
  "mapConversationToList E m = map snd (cx_range_convs E m)"

text \<open>The first loop of \<^verbatim>\<open>diff\<close>: what changes, and what is new.\<close>

definition diff_step ::
  "conv_map \<Rightarrow> LocalConversation \<Rightarrow> conv_map \<times> LocalConversation list \<Rightarrow> conv_map \<times> LocalConversation list" where
  "diff_step loc v ccn =
     (case gget loc (cv_ConversationID v) of
        Some localC \<Rightarrow> (gput (cv_ConversationID v) (absorb v localC) (fst ccn), snd ccn)
      | None \<Rightarrow> (fst ccn, snd ccn @ [v]))"

text \<open>The result is the map of the changed and the map of the new conversations.\<close>

definition diff ::
  "('q, 't, 'n) conv_env \<Rightarrow> conv_map \<Rightarrow> conv_map \<Rightarrow> ('t, 'n) conv_state \<Rightarrow> (conv_map \<times> conv_map) \<times> ('t, 'n) conv_state" where
  "diff E loc generated s =
     (let (cc, newConversations) = fold (diff_step loc) (mapConversationToList E generated) ([], [])
      in case batchAddFaceURLAndName E newConversations s of
           (Inl e, s1) \<Rightarrow> ((cc, []), s1)
         | (Inr named, s1) \<Rightarrow> ((cc, slice_to_map cv_ConversationID named), s1))"

definition AtAllString :: string where "AtAllString = ''AtAllTag''"
definition AtMe :: int where "AtMe = 1"
definition AtAll :: int where "AtAll = 2"
definition AtAllAtMe :: int where "AtAllAtMe = 3"

text \<open>A nil element panics.\<close>

definition genConversationGroupAtType ::
  "string \<Rightarrow> 'q MsgStruct \<Rightarrow> LocalConversation \<Rightarrow> LocalConversation option" where
  "genConversationGroupAtType loginUserID m lc =
     (if ms_ContentType m = AtText
      then (case ms_AtTextElem m of
              None \<Rightarrow> None
            | Some at \<Rightarrow>
                let tagMe = IsContain loginUserID (ate_AtUserList at); tagAll = IsContain AtAllString (ate_AtUserList at)
                in Some (if tagAll then lc\<lparr>cv_GroupAtType := if tagMe then AtAllAtMe else AtAll\<rparr>
                         else if tagMe then lc\<lparr>cv_GroupAtType := AtMe\<rparr> else lc))
      else Some lc)"

section \<open>Callbacks for new messages\<close>

definition ReceiveMessage :: int where "ReceiveMessage = 0"

definition received :: "conv_map \<Rightarrow> string \<Rightarrow> bool" where
  "received m conversationID =
     (case gget m conversationID of None \<Rightarrow> False | Some v \<Rightarrow> cv_RecvMsgOpt v = ReceiveMessage)"

definition offline_message ::
  "('q, 't, 'n) conv_env \<Rightarrow> conv_map \<Rightarrow> conv_map \<Rightarrow> 'q MsgStruct \<Rightarrow> ('t, 'n) conv_state \<Rightarrow> ('t, 'n) conv_state" where
  "offline_message E cc nc w s =
     (let conversationID = GetConversationIDByMsg w; ev = OnRecvOfflineNewMessage (enc_Msg (cx_codec E) w);
          s1 = (if received cc conversationID then ConvState.emit ev s else s)
      in if received nc conversationID then ConvState.emit ev s1 else s1)"

definition online_message ::
  "('q, 't, 'n) conv_env \<Rightarrow> (string \<times> string) list \<Rightarrow> 'q MsgStruct \<Rightarrow> ('t, 'n) conv_state \<Rightarrow> ('t, 'n) conv_state" where
  "online_message E onlineMsg w s =
     (if ms_ContentType w = Typing then s
      else if (ms_ClientMsgID w, ms_ServerMsgID w) \<in> set onlineMsg
      then ConvState.emit (OnRecvOnlineOnlyMessage (enc_Msg (cx_codec E) w)) s
      else ConvState.emit (OnRecvNewMessage (enc_Msg (cx_codec E) w)) s)"

definition newMessage ::
  "('q, 't, 'n) conv_env \<Rightarrow> 'q MsgStruct list \<Rightarrow> conv_map \<Rightarrow> conv_map \<Rightarrow> (string \<times> string) list \<Rightarrow>
   ('t, 'n) conv_state \<Rightarrow> ('t, 'n) conv_state" where
  "newMessage E newMessagesList cc nc onlineMsg s =
     (let msgs = cx_sort E newMessagesList
      in if co_background s
         then (case getSelfUserInfo E s of
                 (Inl e, s1) \<Rightarrow> s1
               | (Inr u, s1) \<Rightarrow>
                   if us_GlobalRecvMsgOpt u \<noteq> ReceiveMessage then s1
                   else fold (offline_message E cc nc) msgs s1)
         else fold (online_message E onlineMsg) msgs s)"

definition batchNewMessages ::
  "('q, 't, 'n) conv_env \<Rightarrow> 'q MsgStruct list \<Rightarrow> ('t, 'n) conv_state \<Rightarrow> ('t, 'n) conv_state" where
  "batchNewMessages E newMessagesList s =
     (let msgs = cx_sort E newMessagesList
      in if msgs \<noteq> [] then ConvState.emit (OnRecvNewMessages (enc_Msgs (cx_codec E) msgs)) s else s)"

section \<open>Commands\<close>

definition UnreadCountSetZero :: int where "UnreadCountSetZero = 3"
definition IncrUnread :: int where "IncrUnread = 5"
definition TotalUnreadMessageChanged :: int where "TotalUnreadMessageChanged = 6"
definition UpdateConFaceUrlAndNickName :: int where "UpdateConFaceUrlAndNickName = 7"
definition UpdateLatestMessageChange :: int where "UpdateLatestMessageChange = 8"
definition ConChange :: int where "ConChange = 9"
definition NewCon :: int where "NewCon = 10"
definition ConChangeDirect :: int where "ConChangeDirect = 11"
definition NewConDirect :: int where "NewConDirect = 12"
definition ConversationLatestMsgHasRead :: int where "ConversationLatestMsgHasRead = 13"
definition UpdateMsgFaceUrlAndNickName :: int where "UpdateMsgFaceUrlAndNickName = 14"

lemmas update_actions = AddConOrUpLatMsg_def UnreadCountSetZero_def IncrUnread_def TotalUnreadMessageChanged_def
  UpdateConFaceUrlAndNickName_def UpdateLatestMessageChange_def ConChange_def NewCon_def ConChangeDirect_def
  NewConDirect_def ConversationLatestMsgHasRead_def UpdateMsgFaceUrlAndNickName_def

definition getConversationLatestMsgClientID :: "('q, 't, 'n) conv_env \<Rightarrow> string \<Rightarrow> string" where
  "getConversationLatestMsgClientID E latestMsg = ms_ClientMsgID (snd (dec_Msg (cx_codec E) latestMsg zero_msg))"

definition emit_convs ::
  "('q, 't, 'n) conv_env \<Rightarrow> (string \<Rightarrow> conv_event) \<Rightarrow> LocalConversation list \<Rightarrow> ('t, 'n) conv_state \<Rightarrow> ('t, 'n) conv_state" where
  "emit_convs E ev list s = ConvState.emit (ev (enc_Conversations (cx_codec E) list)) s"

definition add_or_update_latest ::
  "('q, 't, 'n) conv_env \<Rightarrow> string \<Rightarrow> LocalConversation \<Rightarrow> ('t, 'n) conv_state \<Rightarrow> ('t, 'n) conv_state" where
  "add_or_update_latest E conID lc s =
     (case on_db (GetConversation (cx_conv E) (cv_ConversationID lc)) s of
        (Inr oc, s1) \<Rightarrow>
          (if cv_LatestMsgSendTime lc \<ge> cv_LatestMsgSendTime oc \<or>
              getConversationLatestMsgClientID E (cv_LatestMsg lc) = getConversationLatestMsgClientID E (cv_LatestMsg oc)
           then let latest = (\<lambda>r. r\<lparr>cv_LatestMsgSendTime := cv_LatestMsgSendTime lc, cv_LatestMsg := cv_LatestMsg lc\<rparr>)
                in case on_db (UpdateColumnsConversation (cx_conv E) conID latest) s1 of
                     (Some e, s2) \<Rightarrow> s2
                   | (None, s2) \<Rightarrow> emit_convs E OnConversationChanged [latest oc] s2
           else s1)
      | (Inl e, s1) \<Rightarrow>
          (case on_db (InsertConversation (cx_conv E) lc) s1 of
             (Some e, s2) \<Rightarrow> s2
           | (None, s2) \<Rightarrow> emit_convs E OnNewConversation [lc] s2))"

definition total_unread_changed :: "('q, 't, 'n) conv_env \<Rightarrow> ('t, 'n) conv_state \<Rightarrow> ('t, 'n) conv_state" where
  "total_unread_changed E s =
     (case on_db (GetTotalUnreadMsgCountDB (cx_conv E)) s of
        (Inl e, s1) \<Rightarrow> s1
      | (Inr totalUnreadCount, s1) \<Rightarrow> ConvState.emit (OnTotalUnreadMessageCountChanged totalUnreadCount) s1)"

definition unread_set_zero :: "('q, 't, 'n) conv_env \<Rightarrow> string \<Rightarrow> ('t, 'n) conv_state \<Rightarrow> ('t, 'n) conv_state" where
  "unread_set_zero E conID s =
     (case on_db (UpdateColumnsConversation (cx_conv E) conID (\<lambda>r. r\<lparr>cv_UnreadCount := 0\<rparr>)) s of
        (Some e, s1) \<Rightarrow> s1
      | (None, s1) \<Rightarrow> total_unread_changed E s1)"

definition conversations_changed :: "('q, 't, 'n) conv_env \<Rightarrow> string list \<Rightarrow> ('t, 'n) conv_state \<Rightarrow> ('t, 'n) conv_state" where
  "conversations_changed E conversationIDs s =
     (case on_db (GetMultipleConversationDB (cx_conv E) conversationIDs) s of
        (Inl e, s1) \<Rightarrow> s1
      | (Inr conversations, s1) \<Rightarrow>
          emit_convs E OnConversationChanged (filter (\<lambda>v. cv_LatestMsgSendTime v \<noteq> 0) conversations) s1)"

definition conversations_new :: "('q, 't, 'n) conv_env \<Rightarrow> string list \<Rightarrow> ('t, 'n) conv_state \<Rightarrow> ('t, 'n) conv_state" where
  "conversations_new E cidList s =
     (case on_db (GetMultipleConversationDB (cx_conv E) cidList) s of
        (Inl e, s1) \<Rightarrow> s1
      | (Inr cLists, s1) \<Rightarrow> if cLists \<noteq> [] then emit_convs E OnNewConversation cLists s1 else s1)"

text \<open>The conversation that a source and a session type name, or \<open>None\<close> when there is none.\<close>

definition source_conversation ::
  "('q, 't, 'n) conv_env \<Rightarrow> SourceIDAndSessionType \<Rightarrow> ('t, 'n) conv_state \<Rightarrow> LocalConversation option \<times> ('t, 'n) conv_state" where
  "source_conversation E st s =
     (if sst_SessionType st = SingleChatType \<or> sst_SessionType st = NotificationChatType
      then (Some (zero_conversation\<lparr>cv_UserID := sst_SourceID st,
              cv_ConversationID := getConversationIDBySessionType (cx_loginUserID E) (sst_SourceID st) (sst_SessionType st),
              cv_ConversationType := sst_SessionType st\<rparr>), s)
      else if sst_SessionType st = SuperGroupChatType
      then (case getConversationTypeByGroupID E (sst_SourceID st) s of
              (Inl e, s1) \<Rightarrow> (None, s1)
            | (Inr (conversationID, conversationType), s1) \<Rightarrow>
                (Some (zero_conversation\<lparr>cv_GroupID := sst_SourceID st, cv_ConversationID := conversationID,
                   cv_ConversationType := conversationType\<rparr>), s1))
      else (None, s))"

definition update_face_and_name ::
  "('q, 't, 'n) conv_env \<Rightarrow> SourceIDAndSessionType \<Rightarrow> ('t, 'n) conv_state \<Rightarrow> ('t, 'n) conv_state" where
  "update_face_and_name E st s =
     (case source_conversation E st s of
        (None, s1) \<Rightarrow> s1
      | (Some lc0, s1) \<Rightarrow>
          (let lc = lc0\<lparr>cv_ShowName := sst_Nickname st, cv_FaceURL := sst_FaceURL st\<rparr>
           in case on_db (UpdateConversation (cx_conv E) lc) s1 of
                (Some e, s2) \<Rightarrow> s2
              | (None, s2) \<Rightarrow> conversations_changed E [cv_ConversationID lc] s2))"

definition latest_message_read :: "('q, 't, 'n) conv_env \<Rightarrow> string \<Rightarrow> ('t, 'n) conv_state \<Rightarrow> ('t, 'n) conv_state" where
  "latest_message_read E conID s =
     (case on_db (GetConversation (cx_conv E) conID) s of
        (Inl e, s1) \<Rightarrow> s1
      | (Inr l, s1) \<Rightarrow>
          (case dec_Msg (cx_codec E) (cv_LatestMsg l) zero_msg of
             (Some e, _) \<Rightarrow> s1
           | (None, m) \<Rightarrow>
               (let latestMsg = m\<lparr>ms_IsRead := True\<rparr>
                in snd (on_db (UpdateColumnsConversation (cx_conv E) conID
                     (\<lambda>r. r\<lparr>cv_LatestMsgSendTime := ms_SendTime latestMsg,
                           cv_LatestMsg := enc_Msg (cx_codec E) latestMsg\<rparr>)) s1))))"

text \<open>
  \<^verbatim>\<open>latestMsg\<close> and \<^verbatim>\<open>lc\<close> are declared outside the loop: a message is decoded over the previous one,
  whose fields remain where the text does not name them.
\<close>

fun latest_read_loop ::
  "('q, 't, 'n) conv_env \<Rightarrow> (string \<times> string list) list \<Rightarrow> 'q MsgStruct \<Rightarrow> LocalConversation \<Rightarrow> LocalConversation list \<Rightarrow>
   ('t, 'n) conv_state \<Rightarrow> LocalConversation list \<times> ('t, 'n) conv_state" where
  "latest_read_loop E [] latestMsg lc result s = (result, s)"
| "latest_read_loop E ((conversationID, msgIDList) # rest) latestMsg lc result s =
     (case on_db (GetConversation (cx_conv E) conversationID) s of
        (Inl e, s1) \<Rightarrow> latest_read_loop E rest latestMsg lc result s1
      | (Inr conv, s1) \<Rightarrow>
          (case dec_Msg (cx_codec E) (cv_LatestMsg conv) latestMsg of
             (Some e, m) \<Rightarrow> latest_read_loop E rest m lc result s1
           | (None, m) \<Rightarrow>
               (if IsContain (ms_ClientMsgID m) msgIDList
                then let m1 = m\<lparr>ms_IsRead := True\<rparr>; text = enc_Msg (cx_codec E) m1;
                         lc1 = lc\<lparr>cv_ConversationID := conversationID, cv_LatestMsg := text\<rparr>
                     in case on_db (UpdateConversation (cx_conv E) lc1) s1 of
                          (Some e, s2) \<Rightarrow> latest_read_loop E rest m1 lc1 result s2
                        | (None, s2) \<Rightarrow> latest_read_loop E rest m1 lc1 (result @ [conv\<lparr>cv_LatestMsg := text\<rparr>]) s2
                else latest_read_loop E rest m lc result s1)))"

definition latest_has_read ::
  "('q, 't, 'n) conv_env \<Rightarrow> (string, string list) gomap \<Rightarrow> ('t, 'n) conv_state \<Rightarrow> ('t, 'n) conv_state" where
  "latest_has_read E hasReadMsgList s =
     (case latest_read_loop E (cx_range_read E hasReadMsgList) zero_msg zero_conversation [] s of
        (result, s1) \<Rightarrow> if result \<noteq> [] then emit_convs E OnNewConversation result s1 else s1)"

text \<open>A command whose argument has another type than its action expects panics: \<open>None\<close>.\<close>

definition doUpdateConversation ::
  "('q, 't, 'n) conv_env \<Rightarrow> UpdateConNode \<Rightarrow> ('t, 'n) conv_state \<Rightarrow> ('t, 'n) conv_state option" where
  "doUpdateConversation E node s =
     (let a = ucn_Action node in
      if a = AddConOrUpLatMsg
      then (case ucn_Args node of ArgConversation lc \<Rightarrow> Some (add_or_update_latest E (ucn_ConID node) lc s) | _ \<Rightarrow> None)
      else if a = UnreadCountSetZero then Some (unread_set_zero E (ucn_ConID node) s)
      else if a = IncrUnread then Some (snd (on_db (IncrConversationUnreadCount (cx_conv E) (ucn_ConID node)) s))
      else if a = TotalUnreadMessageChanged then Some (total_unread_changed E s)
      else if a = UpdateConFaceUrlAndNickName
      then (case ucn_Args node of ArgSource st \<Rightarrow> Some (update_face_and_name E st s) | _ \<Rightarrow> None)
      else if a = UpdateLatestMessageChange then Some (latest_message_read E (ucn_ConID node) s)
      else if a = ConChange then (case ucn_Args node of ArgIDs ids \<Rightarrow> Some (conversations_changed E ids s) | _ \<Rightarrow> None)
      else if a = NewCon then (case ucn_Args node of ArgIDs ids \<Rightarrow> Some (conversations_new E ids s) | _ \<Rightarrow> None)
      else if a = ConChangeDirect
      then (case ucn_Args node of ArgText cidList \<Rightarrow> Some (ConvState.emit (OnConversationChanged cidList) s) | _ \<Rightarrow> None)
      else if a = NewConDirect
      then (case ucn_Args node of ArgText cidList \<Rightarrow> Some (ConvState.emit (OnNewConversation cidList) s) | _ \<Rightarrow> None)
      else if a = ConversationLatestMsgHasRead
      then (case ucn_Args node of ArgReadList m \<Rightarrow> Some (latest_has_read E m s) | _ \<Rightarrow> None)
      else Some s)"

definition update_sender ::
  "('q, 't, 'n) conv_env \<Rightarrow> UpdateMessageInfo \<Rightarrow> string \<Rightarrow> ('t, 'n) conv_state \<Rightarrow> ('t, 'n) conv_state" where
  "update_sender E args conversationID s =
     snd (on_db (UpdateMsgSenderFaceURLAndSenderNickname (cx_chat E) conversationID (umi_UserID args) (umi_FaceURL args)
       (umi_Nickname args)) s)"

definition doUpdateMessage ::
  "('q, 't, 'n) conv_env \<Rightarrow> UpdateMessageNode \<Rightarrow> ('t, 'n) conv_state \<Rightarrow> ('t, 'n) conv_state option" where
  "doUpdateMessage E node s =
     (if umn_Action node = UpdateMsgFaceUrlAndNickName
      then (case umn_Args node of
              None \<Rightarrow> None
            | Some args \<Rightarrow>
                let byID = getConversationIDBySessionType (cx_loginUserID E)
                in Some (
                  if umi_SessionType args = SingleChatType
                  then if umi_UserID args = cx_loginUserID E
                       then (case on_db (GetAllSingleConversationIDList (cx_conv E)) s of
                               (Inl e, s1) \<Rightarrow> s1
                             | (Inr ids, s1) \<Rightarrow> fold (update_sender E args) ids s1)
                       else update_sender E args (byID (umi_UserID args) SingleChatType) s
                  else if umi_SessionType args = SuperGroupChatType
                  then update_sender E args (byID (umi_GroupID args) SuperGroupChatType) s
                  else if umi_SessionType args = NotificationChatType
                  then update_sender E args (byID (umi_UserID args) NotificationChatType) s
                  else s))
      else Some s)"

end
