(* ===== verification/ConvNew.thy ===== *)
theory ConvNew
  imports ConvUpdate
begin

text \<open>
  \<^verbatim>\<open>doMsgNew\<close> of \<^verbatim>\<open>conversation_msg.go\<close>: what the component does with the messages that the message
  synchroniser hands to it. Each message is decoded, checked against the stored ones, and put into
  the lists of messages to store and to announce; then the conversations are moved, everything is
  stored, and the callbacks are made.
\<close>

definition IsHistory :: string where "IsHistory = ''history''"
definition IsUnreadCount :: string where "IsUnreadCount = ''unreadCount''"
definition IsConversationUpdate :: string where "IsConversationUpdate = ''conversationUpdate''"
definition IsNotPrivate :: string where "IsNotPrivate = ''notPrivate''"
definition IsSenderConversationUpdate :: string where "IsSenderConversationUpdate = ''senderConversationUpdate''"

section \<open>The variables of the loops\<close>

record 'q new_vars =
  nv_insert :: "LocalChatLog list"
  nv_self :: "LocalChatLog list"
  nv_others :: "LocalChatLog list"
  nv_update :: "LocalChatLog list"
  nv_exception :: "LocalErrChatLog list"
  nv_newMessages :: "'q MsgStruct list"
  nv_conversationSet :: conv_map
  nv_trigger :: bool
  nv_online :: "(string \<times> string) list"
  nv_insertMsg :: "(string, LocalChatLog list) gomap"
  nv_updateMsg :: "(string, LocalChatLog list) gomap"

definition new_vars_start :: "'q new_vars" where
  "new_vars_start = \<lparr>nv_insert = [], nv_self = [], nv_others = [], nv_update = [], nv_exception = [], nv_newMessages = [],
     nv_conversationSet = [], nv_trigger = False, nv_online = [], nv_insertMsg = [], nv_updateMsg = []\<rparr>"

text \<open>\<^verbatim>\<open>copier.Copy\<close> from the message of the protocol, with the content and the attached info decoded.\<close>

definition msg_of_data :: "'q json_codec \<Rightarrow> MsgData \<Rightarrow> 'q MsgStruct" where
  "msg_of_data J v = zero_msg\<lparr>ms_ClientMsgID := md_ClientMsgID v, ms_ServerMsgID := md_ServerMsgID v,
     ms_CreateTime := md_CreateTime v, ms_SendTime := md_SendTime v, ms_SessionType := md_SessionType v,
     ms_SendID := md_SendID v, ms_RecvID := md_RecvID v, ms_MsgFrom := md_MsgFrom v, ms_ContentType := md_ContentType v,
     ms_SenderPlatformID := md_SenderPlatformID v, ms_SenderNickname := md_SenderNickname v,
     ms_SenderFaceURL := md_SenderFaceURL v, ms_GroupID := md_GroupID v, ms_Content := md_Content v, ms_Seq := md_Seq v,
     ms_IsRead := md_IsRead v, ms_Status := MsgStatusSendSuccess, ms_AttachedInfo := md_AttachedInfo v, ms_Ex := md_Ex v,
     ms_AttachedInfoElem := Some (snd (dec_AttachedInfoElem J (md_AttachedInfo v)))\<rparr>"

definition set_private :: "'q MsgStruct \<Rightarrow> 'q MsgStruct" where
  "set_private m = m\<lparr>ms_AttachedInfoElem := map_option (\<lambda>a. a\<lparr>ae_IsPrivateChat := True\<rparr>) (ms_AttachedInfoElem m)\<rparr>"

text \<open>The conversation a message makes, before it is merged into the others.\<close>

definition message_conversation :: "'q json_codec \<Rightarrow> string \<Rightarrow> MsgData \<Rightarrow> 'q MsgStruct \<Rightarrow> LocalConversation" where
  "message_conversation J conversationID v m = zero_conversation\<lparr>cv_ConversationType := md_SessionType v,
     cv_LatestMsg := enc_Msg J m, cv_LatestMsgSendTime := ms_SendTime m, cv_ConversationID := conversationID\<rparr>"

definition self_conversation :: "'q json_codec \<Rightarrow> string \<Rightarrow> MsgData \<Rightarrow> 'q MsgStruct \<Rightarrow> LocalConversation" where
  "self_conversation J conversationID v m =
     (let lc = message_conversation J conversationID v m
      in if md_SessionType v = SingleChatType then lc\<lparr>cv_UserID := md_RecvID v\<rparr>
         else if is_group_session (md_SessionType v) then lc\<lparr>cv_GroupID := md_GroupID v\<rparr> else lc)"

definition others_conversation :: "'q json_codec \<Rightarrow> string \<Rightarrow> MsgData \<Rightarrow> 'q MsgStruct \<Rightarrow> LocalConversation" where
  "others_conversation J conversationID v m =
     (let lc = message_conversation J conversationID v m
      in if md_SessionType v = SingleChatType
         then lc\<lparr>cv_UserID := md_SendID v, cv_ShowName := ms_SenderNickname m, cv_FaceURL := ms_SenderFaceURL m\<rparr>
         else if is_group_session (md_SessionType v) then lc\<lparr>cv_GroupID := md_GroupID v\<rparr>
         else if md_SessionType v = NotificationChatType then lc\<lparr>cv_UserID := md_SendID v\<rparr> else lc)"

section \<open>One message\<close>

text \<open>
  The message itself is a pointer: once it is among the new messages, a later change shows there too.
  \<open>announce n m\<close> adds it \<open>n\<close> times, as it is at the end.
\<close>

definition announce :: "nat \<Rightarrow> 'q MsgStruct \<Rightarrow> 'q new_vars \<Rightarrow> 'q new_vars" where
  "announce n m p = p\<lparr>nv_newMessages := nv_newMessages p @ replicate n m\<rparr>"

definition add_exception :: "'q MsgStruct \<Rightarrow> 'q new_vars \<Rightarrow> 'q new_vars" where
  "add_exception m p = p\<lparr>nv_exception := nv_exception p @ [msgStructToLocalErrChatLog m]\<rparr>"

type_synonym 'q flags = "string \<Rightarrow> bool"

definition own_stored ::
  "'q json_codec \<Rightarrow> nat \<Rightarrow> bool \<Rightarrow> LocalChatLog \<Rightarrow> 'q MsgStruct \<Rightarrow> 'q new_vars \<Rightarrow> 'q new_vars" where
  "own_stored J online convUpdate m msg p =
     (if cl_Seq m = 0
      then let msg1 = (if \<not> convUpdate then msg\<lparr>ms_Status := MsgStatusFiltered\<rparr> else msg)
           in announce online msg1 (p\<lparr>nv_update := nv_update p @ [msgStructToLocalChatLog J msg1]\<rparr>)
      else announce online msg (add_exception msg p))"

definition own_new ::
  "'q json_codec \<Rightarrow> (string \<Rightarrow> bool) \<Rightarrow> string \<Rightarrow> MsgData \<Rightarrow> nat \<Rightarrow> 'q MsgStruct \<Rightarrow> 'q new_vars \<Rightarrow> 'q new_vars" where
  "own_new J flag conversationID v online msg p =
     (let lc = self_conversation J conversationID v msg;
          p1 = (if flag IsConversationUpdate \<and> flag IsSenderConversationUpdate
                then p\<lparr>nv_conversationSet := updateConversation lc (nv_conversationSet p)\<rparr> else p);
          p2 = announce (online + (if flag IsConversationUpdate then 1 else 0)) msg p1
      in if flag IsHistory then p2\<lparr>nv_self := nv_self p2 @ [msgStructToLocalChatLog J msg]\<rparr> else p2)"

definition others_new ::
  "'q json_codec \<Rightarrow> (string \<Rightarrow> bool) \<Rightarrow> string \<Rightarrow> MsgData \<Rightarrow> nat \<Rightarrow> 'q MsgStruct \<Rightarrow>
   'q new_vars \<times> ('t, 'n) conv_state \<Rightarrow> 'q new_vars \<times> ('t, 'n) conv_state" where
  "others_new J flag conversationID v online msg ps =
     (case ps of (p, s) \<Rightarrow>
      let counts = flag IsUnreadCount \<and> IsNewMsg (co_maxSeq s) conversationID (ms_Seq msg);
          lc = (others_conversation J conversationID v msg)\<lparr>cv_UnreadCount := if counts then 1 else 0\<rparr>;
          s1 = (if counts then s\<lparr>co_maxSeq := recorder_Incr conversationID 1 (co_maxSeq s)\<rparr> else s);
          p1 = (if counts then p\<lparr>nv_trigger := True\<rparr> else p);
          p2 = (if flag IsConversationUpdate
                then p1\<lparr>nv_conversationSet := updateConversation lc (nv_conversationSet p1)\<rparr> else p1);
          p3 = announce (online + (if flag IsConversationUpdate then 1 else 0)) msg p2
      in (if flag IsHistory then p3\<lparr>nv_others := nv_others p3 @ [msgStructToLocalChatLog J msg]\<rparr> else p3, s1))"

text \<open>A message of others that is stored already: it is stored once more, under a new identifier.\<close>

definition others_stored ::
  "('q, 't, 'n) conv_env \<Rightarrow> nat \<Rightarrow> 'q MsgStruct \<Rightarrow> 'q new_vars \<times> ('t, 'n) conv_state \<Rightarrow> 'q new_vars \<times> ('t, 'n) conv_state" where
  "others_stored E online msg ps =
     (case ps of (p, s) \<Rightarrow>
      case on_net (cx_now_nano E) s of (now, s1) \<Rightarrow>
      let msg1 = msg\<lparr>ms_Status := MsgStatusFiltered, ms_ClientMsgID := ms_ClientMsgID msg @ decimal now\<rparr>;
          p1 = announce online msg1 (add_exception msg p)
      in (p1\<lparr>nv_others := nv_others p1 @ [msgStructToLocalChatLog (cx_codec E) msg1]\<rparr>, s1))"

definition classify ::
  "('q, 't, 'n) conv_env \<Rightarrow> string \<Rightarrow> MsgData \<Rightarrow> 'q MsgStruct \<Rightarrow>
   'q new_vars \<times> ('t, 'n) conv_state \<Rightarrow> 'q new_vars \<times> ('t, 'n) conv_state" where
  "classify E conversationID v msg ps =
     (case ps of (p, s) \<Rightarrow>
      let J = cx_codec E; flag = GetSwitchFromOptions (md_Options v);
          online = (if flag IsHistory then 0 else 1);
          p1 = (if flag IsHistory then p
                else p\<lparr>nv_online := (md_ClientMsgID v, md_ServerMsgID v) # nv_online p\<rparr>)
      in case on_db (GetMessage (cx_chat E) conversationID (ms_ClientMsgID msg)) s of (r, s1) \<Rightarrow>
         if md_SendID v = cx_loginUserID E
         then (case r of Inr m \<Rightarrow> (own_stored J online (flag IsConversationUpdate) m msg p1, s1)
                       | Inl _ \<Rightarrow> (own_new J flag conversationID v online msg p1, s1))
         else (case r of Inl _ \<Rightarrow> others_new J flag conversationID v online msg (p1, s1)
                       | Inr _ \<Rightarrow> others_stored E online msg (p1, s1)))"

definition new_message ::
  "('q, 't, 'n) conv_env \<Rightarrow> string \<Rightarrow> MsgData \<Rightarrow> 'q new_vars \<times> ('t, 'n) conv_state \<Rightarrow> 'q new_vars \<times> ('t, 'n) conv_state" where
  "new_message E conversationID v ps =
     (case ps of (p, s) \<Rightarrow>
      case msgHandleByContentType (cx_codec E) (cx_loginUserID E) (msg_of_data (cx_codec E) v) of
        (Some e, _) \<Rightarrow> (p, s)
      | (None, m) \<Rightarrow>
          (if ms_Status m = MsgStatusHasDeleted
           then (p\<lparr>nv_insert := nv_insert p @ [msgStructToLocalChatLog (cx_codec E) m]\<rparr>, s)
           else let msg = (if GetSwitchFromOptions (md_Options v) IsNotPrivate then m else set_private m)
                in if ms_ClientMsgID msg = [] then (add_exception msg p, s)
                   else if conversationID = [] then (p, s)
                   else classify E conversationID v msg (p, s)))"

section \<open>One conversation\<close>

definition new_conversation ::
  "('q, 't, 'n) conv_env \<Rightarrow> string \<times> PullMsgs \<Rightarrow> 'q new_vars \<times> ('t, 'n) conv_state \<Rightarrow> 'q new_vars \<times> ('t, 'n) conv_state" where
  "new_conversation E km ps =
     (case ps of (p0, s0) \<Rightarrow>
      case fold (new_message E (fst km)) (pm_Msgs (snd km))
             (p0\<lparr>nv_insert := [], nv_self := [], nv_others := [], nv_update := []\<rparr>, s0) of
        (p, s) \<Rightarrow>
          (case faceURLAndNicknameHandle E (nv_self p) (nv_others p) (fst km) s of ((fself, fothers), s1) \<Rightarrow>
             (p\<lparr>nv_insertMsg := gput (fst km) (nv_insert p @ map fself (nv_self p) @ map fothers (nv_others p)) (nv_insertMsg p),
                nv_updateMsg := gput (fst km) (nv_update p) (nv_updateMsg p)\<rparr>, s1)))"

section \<open>Conversations and storage\<close>

text \<open>A new conversation that has a hidden row keeps the settings of the row.\<close>

definition unhide :: "LocalConversation \<Rightarrow> LocalConversation \<Rightarrow> LocalConversation" where
  "unhide v nc =
     nc\<lparr>cv_RecvMsgOpt := cv_RecvMsgOpt v, cv_GroupAtType := cv_GroupAtType v, cv_IsPinned := cv_IsPinned v,
        cv_IsPrivateChat := cv_IsPrivateChat v,
        cv_BurnDuration := if cv_IsPrivateChat v then cv_BurnDuration v else cv_BurnDuration nc,
        cv_UnreadCount := if cv_UnreadCount v \<noteq> 0 then cv_UnreadCount v else cv_UnreadCount nc,
        cv_IsNotInGroup := cv_IsNotInGroup v, cv_AttachedInfo := cv_AttachedInfo v, cv_Ex := cv_Ex v,
        cv_IsMsgDestruct := cv_IsMsgDestruct v, cv_MsgDestructTime := cv_MsgDestructTime v\<rparr>"

text \<open>
  The loop over the hidden rows: the new conversations, which change in place, and the identifiers of
  the ones that had a row.
\<close>

definition unhide_step :: "LocalConversation \<Rightarrow> conv_map \<times> string list \<Rightarrow> conv_map \<times> string list" where
  "unhide_step v np =
     (case gget (fst np) (cv_ConversationID v) of
        None \<Rightarrow> np
      | Some nc \<Rightarrow> (gput (cv_ConversationID v) (unhide v nc) (fst np), cv_ConversationID v # snd np))"

definition store_conversations ::
  "('q, 't, 'n) conv_env \<Rightarrow> conv_map \<Rightarrow> conv_map \<Rightarrow> ('t, 'n) conv_state \<Rightarrow> conv_map \<times> ('t, 'n) conv_state" where
  "store_conversations E changed new s =
     (case on_db (GetHiddenConversationList (cx_conv E)) s of (r, s1) \<Rightarrow>
      let hList = (case r of Inl _ \<Rightarrow> [] | Inr hs \<Rightarrow> hs);
          (new1, ids) = fold unhide_step hList (new, []);
          phChanged = filter (\<lambda>(k, v). k \<in> set ids) new1;
          phNew = filter (\<lambda>(k, v). k \<notin> set ids) new1;
          s2 = snd (on_db (BatchUpdateConversationList (cx_conv E)
                 (mapConversationToList E changed @ mapConversationToList E phChanged)) s1);
          s3 = snd (on_db (BatchInsertConversationList (cx_conv E) (mapConversationToList E phNew)) s2)
      in (new1, s3))"

definition direct :: "('q, 't, 'n) conv_env \<Rightarrow> int \<Rightarrow> conv_map \<Rightarrow> ('t, 'n) conv_state \<Rightarrow> ('t, 'n) conv_state option" where
  "direct E action m s =
     (if m = [] then Some s
      else doUpdateConversation E \<lparr>ucn_ConID = [], ucn_Action = action,
             ucn_Args = ArgText (enc_Conversations (cx_codec E) (mapConversationToList E m))\<rparr> s)"

text \<open>The callbacks at the end: the new messages, then the new and the changed conversations.\<close>

definition announce_all ::
  "('q, 't, 'n) conv_env \<Rightarrow> 'q new_vars \<Rightarrow> conv_map \<Rightarrow> conv_map \<Rightarrow> ('t, 'n) conv_state \<Rightarrow> ('t, 'n) conv_state option" where
  "announce_all E p changed new s =
     (let s1 = (if cx_batch_listener E then batchNewMessages E (nv_newMessages p) s
                else newMessage E (nv_newMessages p) changed new (nv_online p) s)
      in Option.bind (direct E NewConDirect new s1) (\<lambda>s2.
         Option.bind (direct E ConChangeDirect changed s2) (\<lambda>s3.
         if nv_trigger p
         then doUpdateConversation E \<lparr>ucn_ConID = [], ucn_Action = TotalUnreadMessageChanged, ucn_Args = ArgText []\<rparr> s3
         else Some s3)))"

text \<open>The typing messages at the end go to the input states, which are not modelled.\<close>

definition doMsgNew ::
  "('q, 't, 'n) conv_env \<Rightarrow> (string, PullMsgs) gomap \<Rightarrow> ('t, 'n) conv_state \<Rightarrow> ('t, 'n) conv_state option" where
  "doMsgNew E allMsg s =
     (case fold (new_conversation E) (cx_range_pull E allMsg) (new_vars_start, s) of (p, s1) \<Rightarrow>
      case on_db (GetAllConversationListDB (cx_conv E)) s1 of (r, s2) \<Rightarrow>
      case diff E (listToMap (case r of Inl _ \<Rightarrow> [] | Inr list \<Rightarrow> list)) (nv_conversationSet p) s2 of ((changed, new), s3) \<Rightarrow>
      let s4 = snd (controller_BatchUpdateMessageList E (nv_updateMsg p) s3);
          s5 = controller_BatchInsertMessageList E (nv_insertMsg p) s4
      in case store_conversations E changed new s5 of (new1, s6) \<Rightarrow> announce_all E p changed new1 s6)"

end
