(* ===== verification/ConvNewProps.thy ===== *)
theory ConvNewProps
  imports ConvNew MessageStore
begin

text \<open>
  What \<^verbatim>\<open>updateConversation\<close>, \<^verbatim>\<open>diff\<close> and \<^verbatim>\<open>doMsgNew\<close> do to the conversations: the unread messages add
  up and the latest message wins, in whichever order the maps are visited; a first message makes its
  conversation, and a conversation whose name cannot be found is lost.
\<close>

section \<open>Merging\<close>

lemma absorb_simps [simp]:
  "cv_ConversationID (absorb v old) = cv_ConversationID old"
  "cv_UnreadCount (absorb v old) = i32 (cv_UnreadCount old + cv_UnreadCount v)"
  "cv_LatestMsgSendTime (absorb v old) = max (cv_LatestMsgSendTime old) (cv_LatestMsgSendTime v)"
  "cv_LatestMsg (absorb v old) = (if cv_LatestMsgSendTime v > cv_LatestMsgSendTime old then cv_LatestMsg v else cv_LatestMsg old)"
  by (simp_all add: absorb_def Let_def)

lemma fold_absorb:
  assumes "\<forall>v \<in> set vs. 0 \<le> cv_UnreadCount v" and "0 \<le> cv_UnreadCount c"
    and "cv_UnreadCount c + sum_list (map cv_UnreadCount vs) < 2 ^ 31"
  shows "cv_UnreadCount (fold absorb vs c) = cv_UnreadCount c + sum_list (map cv_UnreadCount vs)"
    and "cv_LatestMsgSendTime (fold absorb vs c) = Max (insert (cv_LatestMsgSendTime c) (cv_LatestMsgSendTime ` set vs))"
    and "cv_ConversationID (fold absorb vs c) = cv_ConversationID c"
proof -
  have "cv_UnreadCount (fold absorb vs c) = cv_UnreadCount c + sum_list (map cv_UnreadCount vs) \<and>
     cv_LatestMsgSendTime (fold absorb vs c) = Max (insert (cv_LatestMsgSendTime c) (cv_LatestMsgSendTime ` set vs)) \<and>
     cv_ConversationID (fold absorb vs c) = cv_ConversationID c"
    using assms
  proof (induction vs arbitrary: c)
    case (Cons v vs)
    have "0 \<le> sum_list (map cv_UnreadCount vs)" using Cons.prems(1) by (intro sum_list_nonneg) auto
    with Cons.prems have "is_i32 (cv_UnreadCount c + cv_UnreadCount v)" by (simp add: is_i32_def)
    then have u: "i32 (cv_UnreadCount c + cv_UnreadCount v) = cv_UnreadCount c + cv_UnreadCount v" by (rule i32_id)
    have "insert (max (cv_LatestMsgSendTime c) (cv_LatestMsgSendTime v)) (cv_LatestMsgSendTime ` set vs) \<subseteq>
       insert (cv_LatestMsgSendTime c) (cv_LatestMsgSendTime ` set (v # vs))" by (auto simp: max_def)
    moreover have "Max (insert (max (cv_LatestMsgSendTime c) (cv_LatestMsgSendTime v)) (cv_LatestMsgSendTime ` set vs)) =
       Max (insert (cv_LatestMsgSendTime c) (cv_LatestMsgSendTime ` set (v # vs)))"
      by (cases "vs = []") (simp_all add: ac_simps)
    ultimately show ?case using Cons.IH [of "absorb v c"] Cons.prems u by (simp add: add.assoc)
  qed simp
  then show "cv_UnreadCount (fold absorb vs c) = cv_UnreadCount c + sum_list (map cv_UnreadCount vs)"
    and "cv_LatestMsgSendTime (fold absorb vs c) = Max (insert (cv_LatestMsgSendTime c) (cv_LatestMsgSendTime ` set vs))"
    and "cv_ConversationID (fold absorb vs c) = cv_ConversationID c"
    by simp_all
qed

text \<open>The latest message is that of a conversation with the latest time.\<close>

lemma fold_absorb_latest:
  "\<exists>d \<in> set (c # vs). cv_LatestMsg (fold absorb vs c) = cv_LatestMsg d \<and>
     cv_LatestMsgSendTime d = cv_LatestMsgSendTime (fold absorb vs c)"
proof (induction vs arbitrary: c)
  case (Cons v vs)
  obtain d where d: "d \<in> set (absorb v c # vs)" "cv_LatestMsg (fold absorb vs (absorb v c)) = cv_LatestMsg d"
      "cv_LatestMsgSendTime d = cv_LatestMsgSendTime (fold absorb vs (absorb v c))"
    using Cons.IH [of "absorb v c"] by blast
  show ?case
  proof (cases "d = absorb v c")
    case True
    then have "\<exists>e \<in> {v, c}. cv_LatestMsg d = cv_LatestMsg e \<and> cv_LatestMsgSendTime d = cv_LatestMsgSendTime e"
      by auto
    with d(2,3) show ?thesis by auto
  next
    case False
    with d show ?thesis by auto
  qed
qed simp

lemma fold_update:
  "gget (fold updateConversation vs cs) k =
     (case gget cs k of
        Some c \<Rightarrow> Some (fold absorb (filter (\<lambda>v. cv_ConversationID v = k) vs) c)
      | None \<Rightarrow>
          (case filter (\<lambda>v. cv_ConversationID v = k) vs of [] \<Rightarrow> None | v # rest \<Rightarrow> Some (fold absorb rest v)))"
  by (induction vs arbitrary: cs) (auto simp: updateConversation_def gomap_simps split: option.splits list.splits)

text \<open>
  C35: however the messages of several conversations arrive, the conversation collected for an
  identifier has as many unread messages as its messages count together, and the time and text of
  a latest one; an identifier without messages gets none. (No count may leave the range of \<^verbatim>\<open>int32\<close>.)
\<close>
theorem updateConversation_collects:
  assumes "\<forall>v \<in> set vs. 0 \<le> cv_UnreadCount v" and "sum_list (map cv_UnreadCount vs) < 2 ^ 31"
  shows "(gget (fold updateConversation vs []) k = None \<longleftrightarrow> (\<forall>v \<in> set vs. cv_ConversationID v \<noteq> k)) \<and>
    (\<forall>c. gget (fold updateConversation vs []) k = Some c \<longrightarrow>
       cv_ConversationID c = k \<and>
       cv_UnreadCount c = sum_list (map cv_UnreadCount (filter (\<lambda>v. cv_ConversationID v = k) vs)) \<and>
       (\<forall>v \<in> set vs. cv_ConversationID v = k \<longrightarrow> cv_LatestMsgSendTime v \<le> cv_LatestMsgSendTime c) \<and>
       (\<exists>v \<in> set vs. cv_ConversationID v = k \<and> cv_LatestMsgSendTime v = cv_LatestMsgSendTime c \<and> cv_LatestMsg v = cv_LatestMsg c))"
proof (cases "filter (\<lambda>v. cv_ConversationID v = k) vs")
  case Nil
  then have none: "gget (fold updateConversation vs []) k = None" by (simp add: fold_update)
  from Nil have "\<forall>v \<in> set vs. cv_ConversationID v \<noteq> k" by (simp add: filter_empty_conv)
  with none show ?thesis by simp
next
  case (Cons v rest)
  let ?c = "fold absorb rest v"
  have some: "gget (fold updateConversation vs []) k = Some ?c" by (simp add: fold_update Cons)
  have mem: "u \<in> set (v # rest) \<longleftrightarrow> u \<in> set vs \<and> cv_ConversationID u = k" for u
    unfolding Cons [symmetric] by simp
  have part: "sum_list (map cv_UnreadCount (filter (\<lambda>v. cv_ConversationID v = k) vs)) \<le> sum_list (map cv_UnreadCount vs)"
    using assms(1) by (induction vs) auto
  note f = fold_absorb [of rest v]
  have pos: "\<forall>u \<in> set rest. 0 \<le> cv_UnreadCount u" "0 \<le> cv_UnreadCount v" using mem assms(1) by auto
  have lt: "cv_UnreadCount v + sum_list (map cv_UnreadCount rest) < 2 ^ 31" using part assms(2) Cons by simp
  have vk: "v \<in> set vs" "cv_ConversationID v = k" using mem [of v] by simp_all
  have time: "cv_LatestMsgSendTime u \<le> cv_LatestMsgSendTime ?c" if "u \<in> set vs" "cv_ConversationID u = k" for u
    unfolding f(2) [OF pos lt] using mem [of u] that by (intro Max_ge) auto
  obtain d where "d \<in> set (v # rest)" "cv_LatestMsg ?c = cv_LatestMsg d" "cv_LatestMsgSendTime d = cv_LatestMsgSendTime ?c"
    using fold_absorb_latest [of v rest] by blast
  then have "\<exists>u \<in> set vs. cv_ConversationID u = k \<and> cv_LatestMsgSendTime u = cv_LatestMsgSendTime ?c \<and> cv_LatestMsg u = cv_LatestMsg ?c"
    using mem [of d] by auto
  with time f(1,3) [OF pos lt] vk some Cons show ?thesis by auto
qed

theorem updateConversation_collects_witness:
  "let a = zero_conversation\<lparr>cv_ConversationID := ''a'', cv_UnreadCount := 1, cv_LatestMsgSendTime := 5\<rparr>;
       b = zero_conversation\<lparr>cv_ConversationID := ''b'', cv_UnreadCount := 1, cv_LatestMsgSendTime := 6\<rparr>;
       a' = zero_conversation\<lparr>cv_ConversationID := ''a'', cv_UnreadCount := 1, cv_LatestMsgSendTime := 7\<rparr>
   in gget (fold updateConversation [a', b, a] []) ''c'' = None \<and>
     (\<exists>c. gget (fold updateConversation [a', b, a] []) ''a'' = Some c \<and> cv_UnreadCount c = 2 \<and> 7 \<le> cv_LatestMsgSendTime c)"
proof -
  let ?a = "zero_conversation\<lparr>cv_ConversationID := ''a'', cv_UnreadCount := 1, cv_LatestMsgSendTime := 5\<rparr>"
  let ?b = "zero_conversation\<lparr>cv_ConversationID := ''b'', cv_UnreadCount := 1, cv_LatestMsgSendTime := 6\<rparr>"
  let ?a' = "zero_conversation\<lparr>cv_ConversationID := ''a'', cv_UnreadCount := 1, cv_LatestMsgSendTime := 7\<rparr>"
  have h: "\<forall>v \<in> set [?a', ?b, ?a]. 0 \<le> cv_UnreadCount v" "sum_list (map cv_UnreadCount [?a', ?b, ?a]) < 2 ^ 31" by simp_all
  note at_a = updateConversation_collects [OF h, of "''a''"]
  have "gget (fold updateConversation [?a', ?b, ?a] []) ''c'' = None"
    using updateConversation_collects [OF h, of "''c''"] by simp
  moreover obtain c where "gget (fold updateConversation [?a', ?b, ?a] []) ''a'' = Some c"
    using at_a by (cases "gget (fold updateConversation [?a', ?b, ?a] []) ''a''") auto
  ultimately show ?thesis using at_a by (auto simp: Let_def)
qed

section \<open>The order of a map does not matter\<close>

lemma diff_changed:
  "gget (fst (fold (diff_step loc) vs ccn)) k =
     (case find (\<lambda>v. cv_ConversationID v = k \<and> gget loc k \<noteq> None) (rev vs) of
        Some v \<Rightarrow> Some (absorb v (the (gget loc k))) | None \<Rightarrow> gget (fst ccn) k)"
  by (induction vs arbitrary: ccn)
    (auto simp: diff_step_def gomap_simps find_append_case split: option.splits)

lemma diff_new:
  "snd (fold (diff_step loc) vs ccn) = snd ccn @ filter (\<lambda>v. gget loc (cv_ConversationID v) = None) vs"
  by (induction vs arbitrary: ccn) (auto simp: diff_step_def split: option.splits)

text \<open>A map collected by \<^verbatim>\<open>updateConversation\<close> has its conversations under their identifiers.\<close>

definition keyed :: "conv_map \<Rightarrow> bool" where
  "keyed m \<longleftrightarrow> gomap_ok m \<and> (\<forall>k v. gget m k = Some v \<longrightarrow> cv_ConversationID v = k)"

lemma keyed_update: "keyed m \<Longrightarrow> keyed (updateConversation lc m)"
  by (auto simp: keyed_def updateConversation_def gomap_simps split: option.splits)

lemma keyed_find:
  assumes "keyed m" and "any_order iter"
  shows "find (\<lambda>v. cv_ConversationID v = k \<and> P) (rev (map snd (iter m))) = (if P then gget m k else None)"
proof (cases P)
  case True
  have set: "set (iter m) = set m" by (rule iter_set [OF assms(2)])
  show ?thesis
  proof (cases "gget m k")
    case None
    have "cv_ConversationID v \<noteq> k" if "(j, v) \<in> set m" for j v
      using assms(1) that None by (auto simp: keyed_def dest: in_gget)
    then have "find (\<lambda>v. cv_ConversationID v = k \<and> P) (rev (map snd (iter m))) = None"
      unfolding find_None_iff using set by fastforce
    with None show ?thesis by simp
  next
    case (Some c)
    then have c: "cv_ConversationID c = k" using assms(1) by (simp add: keyed_def)
    have cm: "c \<in> snd ` set m" using gget_in [OF Some] by force
    have uniq: "v = c" if "v \<in> snd ` set m" "cv_ConversationID v = k" for v
      using assms(1) that Some by (auto simp: keyed_def dest: in_gget)
    have "find (\<lambda>v. cv_ConversationID v = k \<and> P) (rev (map snd (iter m))) \<noteq> None"
      using c cm True by (auto simp: find_None_iff set)
    then obtain v where v: "find (\<lambda>v. cv_ConversationID v = k \<and> P) (rev (map snd (iter m))) = Some v" by blast
    from find_SomeD [OF v] have "v \<in> snd ` set m" "cv_ConversationID v = k" by (auto simp: set)
    with uniq v Some True show ?thesis by simp
  qed
qed (simp add: find_None_iff)

text \<open>
  C36: which conversations \<^verbatim>\<open>diff\<close> changes and how, and which ones it treats as new, does not depend on
  the order in which Go visits the map: a stored conversation absorbs the collected one, the others
  are new, each once.
\<close>
theorem diff_order_independent:
  assumes "keyed generated" and "any_order (cx_range_convs E)"
  shows "(let (cc, new) = fold (diff_step loc) (mapConversationToList E generated) ([], [])
    in (\<forall>k. gget cc k = (case (gget generated k, gget loc k) of (Some v, Some old) \<Rightarrow> Some (absorb v old) | _ \<Rightarrow> None)) \<and>
       mset new = mset (filter (\<lambda>v. gget loc (cv_ConversationID v) = None) (map snd generated)))"
proof -
  let ?vs = "map snd (cx_range_convs E generated)"
  obtain cc new where r: "fold (diff_step loc) ?vs ([], []) = (cc, new)" by (cases "fold (diff_step loc) ?vs ([], [])")
  have "gget cc k = (case (gget generated k, gget loc k) of (Some v, Some old) \<Rightarrow> Some (absorb v old) | _ \<Rightarrow> None)" for k
    using diff_changed [of loc ?vs "([], [])" k] r keyed_find [OF assms, of k "gget loc k \<noteq> None"]
    by (auto split: option.splits)
  moreover have "mset ?vs = mset (map snd generated)" using assms(2) by (simp add: any_order_def)
  then have "mset new = mset (filter (\<lambda>v. gget loc (cv_ConversationID v) = None) (map snd generated))"
    using diff_new [of loc ?vs "([], [])"] r by (simp add: mset_filter)
  ultimately show ?thesis by (simp add: r mapConversationToList_def)
qed

theorem diff_order_independent_witness:
  "\<forall>E :: ('q, 't, 'n) conv_env. \<exists>cc new. let a = zero_conversation\<lparr>cv_ConversationID := ''a'', cv_UnreadCount := 1\<rparr>;
       b = zero_conversation\<lparr>cv_ConversationID := ''b'', cv_UnreadCount := 1\<rparr>
     in fold (diff_step [(''a'', a)]) (mapConversationToList (E\<lparr>cx_range_convs := rev\<rparr>) [(''a'', a), (''b'', b)]) ([], []) = (cc, new) \<and>
        gget cc ''a'' = Some (absorb a a) \<and> gget cc ''b'' = None \<and> mset new = {#b#}"
proof
  fix E :: "('q, 't, 'n) conv_env"
  let ?a = "zero_conversation\<lparr>cv_ConversationID := ''a'', cv_UnreadCount := 1\<rparr>"
  let ?b = "zero_conversation\<lparr>cv_ConversationID := ''b'', cv_UnreadCount := 1\<rparr>"
  let ?E = "E\<lparr>cx_range_convs := rev\<rparr>"
  have k: "keyed [(''a'', ?a), (''b'', ?b)]" by (auto simp: keyed_def gomap_ok_def split: if_splits)
  obtain cc new where r: "fold (diff_step [(''a'', ?a)]) (mapConversationToList ?E [(''a'', ?a), (''b'', ?b)]) ([], []) = (cc, new)"
    by fastforce
  have "any_order (cx_range_convs ?E)" by simp
  from diff_order_independent [OF k this, of "[(''a'', ?a)]"] r
  have at: "\<And>k. gget cc k = (case (gget [(''a'', ?a), (''b'', ?b)] k, gget [(''a'', ?a)] k) of (Some v, Some old) \<Rightarrow> Some (absorb v old) | _ \<Rightarrow> None)"
    and new: "mset new = {#?b#}" by simp_all
  from at [of "''a''"] at [of "''b''"] r new
  show "\<exists>cc new. let a = ?a; b = ?b
     in fold (diff_step [(''a'', a)]) (mapConversationToList ?E [(''a'', a), (''b'', b)]) ([], []) = (cc, new) \<and>
        gget cc ''a'' = Some (absorb a a) \<and> gget cc ''b'' = None \<and> mset new = {#b#}"
    unfolding Let_def by (intro exI [of _ cc] exI [of _ new]) simp
qed

section \<open>A first message\<close>

text \<open>The sample world with a codec, a network and a sender of any kind; the iteration orders are the given ones.\<close>

definition calm_env :: "('q, world, 'n) conv_env \<Rightarrow> ('q, world, 'n) conv_env" where
  "calm_env E = on_world (E\<lparr>cx_loginUserID := ''me'', cx_range_pull := (\<lambda>m. m), cx_range_logs := (\<lambda>m. m),
     cx_range_convs := (\<lambda>m. m), cx_sort := (\<lambda>ms. ms), cx_batch_listener := False, cx_SliceSub := (\<lambda>xs ys. filter (\<lambda>x. x \<notin> set ys) xs)\<rparr>)"

lemma calm_env_simps [simp]:
  "cx_loginUserID (calm_env E) = ''me''" "cx_range_pull (calm_env E) = (\<lambda>m. m)" "cx_range_logs (calm_env E) = (\<lambda>m. m)"
  "cx_range_convs (calm_env E) = (\<lambda>m. m)" "cx_sort (calm_env E) = (\<lambda>ms. ms)" "cx_batch_listener (calm_env E) = False"
  "cx_codec (calm_env E) = cx_codec E" "cx_chat (calm_env E) = world_chat" "cx_conv (calm_env E) = world_conv"
  "cx_user (calm_env E) = world_user" "cx_members (calm_env E) = world_members" "cx_friends (calm_env E) = world_friends"
  "cx_groups (calm_env E) = world_groups" "cx_GetServerUserInfo (calm_env E) = cx_GetServerUserInfo E"
  "cx_SliceSub (calm_env E) = (\<lambda>xs ys. filter (\<lambda>x. x \<notin> set ys) xs)"
  by (simp_all add: calm_env_def on_world_def)

definition text_message :: "'q json_codec \<Rightarrow> TextElem \<Rightarrow> MsgData \<Rightarrow> 'q MsgStruct" where
  "text_message J t v = (msg_of_data J v)\<lparr>ms_TextElem := Some t, ms_Content := []\<rparr>"

definition plain_text :: "'q json_codec \<Rightarrow> TextElem \<Rightarrow> MsgData \<Rightarrow> bool" where
  "plain_text J t v \<longleftrightarrow> dec_TextElem J (md_Content v) = (None, t) \<and> md_ContentType v = Text \<and>
     md_SessionType v = SingleChatType \<and> md_SendID v \<noteq> ''me'' \<and> md_ClientMsgID v \<noteq> [] \<and> md_Options v = [] \<and>
     0 < md_Seq v \<and> 0 < md_SendTime v"

lemma text_message_fields [simp]:
  "ms_ClientMsgID (text_message J t v) = md_ClientMsgID v" "ms_ServerMsgID (text_message J t v) = md_ServerMsgID v"
  "ms_Seq (text_message J t v) = md_Seq v" "ms_SendTime (text_message J t v) = md_SendTime v"
  "ms_ContentType (text_message J t v) = md_ContentType v" "ms_Status (text_message J t v) = MsgStatusSendSuccess"
  by (simp_all add: text_message_def msg_of_data_def)

text \<open>The two tables the example looks at, and everything else empty.\<close>

definition world_of :: "string \<Rightarrow> LocalChatLog list \<Rightarrow> LocalConversation list \<Rightarrow> world" where
  "world_of k logs convs = empty_world\<lparr>w_chat := (w_chat empty_world)(GetTableName k := \<lparr>ft_rows = logs, ft_faults = []\<rparr>),
     w_conv := \<lparr>ft_rows = convs, ft_faults = []\<rparr>\<rparr>"

lemma empty_world_of: "empty_world = world_of k [] []"
  by (simp add: world_of_def empty_world_def fun_eq_iff)

lemmas world_defs = world_conv_def world_chat_def world_user_def world_friends_def world_members_def world_groups_def
  at_table_def list_gorm_def next_fault_def world_of_def empty_world_def

lemma world_reads:
  "gorm_take (world_chat (GetTableName k)) p (world_of k [] cs) = (Inl record_not_found, world_of k [] cs)"
  "gorm_take world_conv p' (world_of k ls []) = (Inl record_not_found, world_of k ls [])"
  "gorm_find world_conv q (world_of k ls cs) = (Inr (filter q cs), world_of k ls cs)"
  "gorm_find world_friends f (world_of k ls cs) = (Inr [], world_of k ls cs)"
  by (auto simp: world_defs fun_upd_idem_iff)

lemma world_writes:
  "gorm_create (world_chat (GetTableName k)) [l] (world_of k [] cs) = (None, world_of k [l] cs)"
  "gorm_create world_conv [c] (world_of k ls []) = (None, world_of k ls [c])"
  by (auto simp: world_defs)

text \<open>The message is counted, merged into no conversation, announced, and put into the list of others'.\<close>

definition first_conversation :: "'q json_codec \<Rightarrow> string \<Rightarrow> TextElem \<Rightarrow> MsgData \<Rightarrow> LocalConversation" where
  "first_conversation J k t v = (others_conversation J k v (text_message J t v))\<lparr>cv_UnreadCount := 1\<rparr>"

lemma first_parsed:
  assumes "plain_text J t v"
  shows "msgHandleByContentType J ''me'' (msg_of_data J v) = (None, text_message J t v)"
  using assms by (simp add: plain_text_def msgHandleByContentType_def msg_of_data_def text_message_def Let_def)

text \<open>Without options every switch is on.\<close>

lemma first_message:
  assumes "plain_text (cx_codec E) t v" and "k \<noteq> []" and "co_db s = world_of k [] []" and "co_maxSeq s = []"
  shows "new_message (calm_env E) k v (new_vars_start, s) =
    (new_vars_start\<lparr>nv_trigger := True, nv_conversationSet := [(k, first_conversation (cx_codec E) k t v)],
       nv_newMessages := [text_message (cx_codec E) t v], nv_others := [msgStructToLocalChatLog (cx_codec E) (text_message (cx_codec E) t v)]\<rparr>,
     s\<lparr>co_db := world_of k [] [], co_maxSeq := [(k, 1)]\<rparr>)"
  using assms first_parsed [OF assms(1)]
  by (simp add: new_message_def plain_text_def MsgStatusSendSuccess_def MsgStatusHasDeleted_def GetSwitchFromOptions_def
      classify_def on_db_def GetMessage_def wrap_res_def world_reads others_new_def announce_def Let_def IsNewMsg_def
      recorder_Get_def recorder_Incr_def updateConversation_def first_conversation_def others_conversation_def
      message_conversation_def new_vars_start_def i64_id is_i64_def)

lemma first_collected:
  assumes "plain_text (cx_codec E) t v" and "k \<noteq> []" and "co_db s = world_of k [] []" and "co_maxSeq s = []"
  shows "\<exists>p. new_conversation (calm_env E) (k, \<lparr>pm_Msgs = [v], pm_IsEnd = e\<rparr>) (new_vars_start, s) =
      (p, s\<lparr>co_db := world_of k [] [], co_maxSeq := [(k, 1)]\<rparr>) \<and>
    nv_trigger p \<and> nv_conversationSet p = [(k, first_conversation (cx_codec E) k t v)] \<and>
    nv_newMessages p = [text_message (cx_codec E) t v] \<and> nv_online p = [] \<and>
    nv_insertMsg p = [(k, [msgStructToLocalChatLog (cx_codec E) (text_message (cx_codec E) t v)])] \<and>
    nv_updateMsg p = [(k, [])]"
proof -
  have start: "new_vars_start\<lparr>nv_insert := [], nv_self := [], nv_others := [], nv_update := []\<rparr> = new_vars_start"
    by (simp add: new_vars_start_def)
  show ?thesis
    by (simp add: new_conversation_def start first_message [OF assms] faceURLAndNicknameHandle_def on_db_def
        GetConversation_def wrap_res_def world_reads) (simp add: new_vars_start_def)
qed

lemma first_conversation_fields [simp]:
  "cv_ConversationID (first_conversation J k t v) = k" "cv_UnreadCount (first_conversation J k t v) = 1"
  "cv_LatestMsgSendTime (first_conversation J k t v) = md_SendTime v"
  "cv_LatestMsg (first_conversation J k t v) = enc_Msg J (text_message J t v)"
  "cv_RecvMsgOpt (first_conversation J k t v) = 0"
  by (simp_all add: first_conversation_def others_conversation_def message_conversation_def zero_conversation_def Let_def)

lemma first_conversation_single:
  "plain_text J t v \<Longrightarrow> is_user_conversation (first_conversation J k t v) \<and> cv_UserID (first_conversation J k t v) = md_SendID v \<and>
     \<not> is_group_conversation (first_conversation J k t v)"
  by (simp add: plain_text_def first_conversation_def others_conversation_def message_conversation_def Let_def
      is_user_conversation_def is_group_conversation_def SingleChatType_def SuperGroupChatType_def)

text \<open>What \<^verbatim>\<open>diff\<close> finds on the empty tables, for a sender who is cached or unknown.\<close>

lemma first_diff:
  assumes "plain_text (cx_codec E) t v" and "co_db s = world_of k ls []"
  shows "gget (co_users s) (md_SendID v) = Some info \<Longrightarrow>
      diff (calm_env E) [] [(k, first_conversation (cx_codec E) k t v)] s =
      (([], [(k, (first_conversation (cx_codec E) k t v)\<lparr>cv_FaceURL := bi_FaceURL info, cv_ShowName := bi_Nickname info\<rparr>)]),
       s\<lparr>co_db := world_of k ls []\<rparr>)"
    and "gget (co_users s) (md_SendID v) = None \<Longrightarrow> cx_GetServerUserInfo E [md_SendID v] (co_net s) = (Inl err, n) \<Longrightarrow>
      diff (calm_env E) [] [(k, first_conversation (cx_codec E) k t v)] s =
      (([], []), s\<lparr>co_db := world_of k ls [], co_net := n\<rparr>)"
  using assms(2) first_conversation_single [OF assms(1), of k]
  by (simp_all add: diff_def mapConversationToList_def diff_step_def batchAddFaceURLAndName_def batchGetUserNameAndFaceURL_def
      on_db_def GetFriendInfoList_def world_reads friends_map_def from_cache_def GetGroupsInfoFromLocal2Svr_def
      add_name_def slice_to_map_def on_net_def)

text \<open>Storing one new message and the new conversations, and the callbacks.\<close>

lemma first_stored:
  assumes "co_db s = world_of k [] []"
  shows "snd (controller_BatchUpdateMessageList (calm_env E) [(k, [])] s) = s\<lparr>co_db := world_of k [] []\<rparr>"
    and "controller_BatchInsertMessageList (calm_env E) [(k, [l])] s = s\<lparr>co_db := world_of k [l] []\<rparr>"
  using assms
  by (simp_all add: controller_BatchUpdateMessageList_def controller_BatchInsertMessageList_def on_db_def GetConversation_def
      wrap_res_def wrap_act_def world_reads world_writes BatchInsertMessageList_def)

lemma first_conversations_stored:
  assumes "co_db s = world_of k ls []"
  shows "store_conversations (calm_env E) [] [] s = ([], s\<lparr>co_db := world_of k ls []\<rparr>)"
    and "store_conversations (calm_env E) [] [(k, c)] s = ([(k, c)], s\<lparr>co_db := world_of k ls [c]\<rparr>)"
  using assms
  by (simp_all add: store_conversations_def on_db_def GetHiddenConversationList_def wrap_res_def wrap_act_def world_reads
      world_writes mapConversationToList_def BatchInsertConversationList_def)

lemma first_announced:
  assumes "plain_text (cx_codec E) t v" and "nv_newMessages p = [text_message (cx_codec E) t v]" and "nv_online p = []"
    and "nv_trigger p" and "\<not> co_background s" and "co_db s = world_of k ls cs"
  shows "\<exists>s'. announce_all (calm_env E) p [] new s = Some s' \<and> co_db s' = world_of k ls cs \<and>
    co_events s' = co_events s @ [OnRecvNewMessage (enc_Msg (cx_codec E) (text_message (cx_codec E) t v))] @
      (if new = [] then [] else [OnNewConversation (enc_Conversations (cx_codec E) (map snd new))]) @
      [OnTotalUnreadMessageCountChanged
         (fold (\<lambda>r total. i32 (total + i32 (cv_UnreadCount r)))
            (filter (\<lambda>r. cv_RecvMsgOpt r < ReceiveNotNotifyMessage \<and> cv_LatestMsgSendTime r > 0) cs) 0)]"
proof -
  have ct: "ms_ContentType (text_message (cx_codec E) t v) \<noteq> Typing"
    using assms(1) by (simp add: plain_text_def content_types)
  show ?thesis
    using assms ct
    by (auto simp: announce_all_def newMessage_def online_message_def direct_def doUpdateConversation_def update_actions
        total_unread_changed_def on_db_def GetTotalUnreadMsgCountDB_def world_reads ConvState.emit_def
        mapConversationToList_def Let_def)
qed

lemma first_all:
  "GetAllConversationListDB world_conv (world_of k ls []) = (Inr [], world_of k ls [])"
  by (simp add: GetAllConversationListDB_def wrap_res_def ordered_find_def limit_rows_def world_reads)

text \<open>A fresh state of the component, with the users it knows.\<close>

definition fresh_state :: "(string, BasicInfo) gomap \<Rightarrow> 'n \<Rightarrow> (world, 'n) conv_state" where
  "fresh_state users n = (sample_state n)\<lparr>co_users := users\<rparr>"

lemma fresh_state_simps [simp]:
  "co_db (fresh_state users n) = world_of k [] []" "co_maxSeq (fresh_state users n) = []" "co_users (fresh_state users n) = users"
  "co_net (fresh_state users n) = n" "co_events (fresh_state users n) = []" "\<not> co_background (fresh_state users n)"
  by (simp_all add: fresh_state_def sample_state_def empty_world_of [symmetric])

text \<open>
  C37: a first text message from a known user, on an empty database, is stored; its conversation is
  stored with the name and picture of the sender, one unread message and the message as the latest;
  and the message, the new conversation and the number of unread messages are announced, in this order.
\<close>
theorem doMsgNew_first_message:
  assumes "plain_text (cx_codec E) t v" and "k \<noteq> []" and "gget users (md_SendID v) = Some info"
  shows "\<exists>s' c. doMsgNew (calm_env E) [(k, \<lparr>pm_Msgs = [v], pm_IsEnd = e\<rparr>)] (fresh_state users n) = Some s' \<and>
    co_db s' = world_of k [msgStructToLocalChatLog (cx_codec E) (text_message (cx_codec E) t v)] [c] \<and>
    cv_ConversationID c = k \<and> cv_UserID c = md_SendID v \<and> cv_ShowName c = bi_Nickname info \<and> cv_FaceURL c = bi_FaceURL info \<and>
    cv_UnreadCount c = 1 \<and> cv_LatestMsgSendTime c = md_SendTime v \<and>
    cv_LatestMsg c = enc_Msg (cx_codec E) (text_message (cx_codec E) t v) \<and>
    co_events s' = [OnRecvNewMessage (enc_Msg (cx_codec E) (text_message (cx_codec E) t v)),
      OnNewConversation (enc_Conversations (cx_codec E) [c]), OnTotalUnreadMessageCountChanged 1]"
proof -
  let ?J = "cx_codec E" and ?s = "fresh_state users n"
  let ?m = "text_message ?J t v"
  let ?l = "msgStructToLocalChatLog ?J ?m"
  let ?c = "(first_conversation ?J k t v)\<lparr>cv_FaceURL := bi_FaceURL info, cv_ShowName := bi_Nickname info\<rparr>"
  obtain p where p: "new_conversation (calm_env E) (k, \<lparr>pm_Msgs = [v], pm_IsEnd = e\<rparr>) (new_vars_start, ?s) =
      (p, ?s\<lparr>co_db := world_of k [] [], co_maxSeq := [(k, 1)]\<rparr>)"
      "nv_trigger p" "nv_conversationSet p = [(k, first_conversation ?J k t v)]" "nv_newMessages p = [?m]" "nv_online p = []"
      "nv_insertMsg p = [(k, [?l])]" "nv_updateMsg p = [(k, [])]"
    using first_collected [OF assms(1,2), of ?s e] by auto
  let ?s1 = "?s\<lparr>co_maxSeq := [(k, 1)], co_db := world_of k [?l] [?c]\<rparr>"
  obtain s' where s': "announce_all (calm_env E) p [] [(k, ?c)] ?s1 = Some s'" "co_db s' = world_of k [?l] [?c]"
      "co_events s' = [OnRecvNewMessage (enc_Msg ?J ?m), OnNewConversation (enc_Conversations ?J [?c]),
         OnTotalUnreadMessageCountChanged 1]"
    using first_announced [OF assms(1) p(4,5,2), of ?s1 k "[?l]" "[?c]" "[(k, ?c)]"] assms(1)
    by (auto simp: plain_text_def ReceiveNotNotifyMessage_def i32_id is_i32_def)
  have "doMsgNew (calm_env E) [(k, \<lparr>pm_Msgs = [v], pm_IsEnd = e\<rparr>)] ?s = Some s'"
    using p(3,6,7) s'(1) assms(3)
    by (simp add: doMsgNew_def p(1) on_db_def first_all listToMap_def slice_to_map_def
        first_diff(1) [OF assms(1), where ls = "[]" and info = info] first_stored first_conversations_stored(2))
  moreover have "cv_UserID ?c = md_SendID v" using first_conversation_single [OF assms(1), of k] by simp
  ultimately show ?thesis using s' by (intro exI [of _ s'] exI [of _ ?c]) simp
qed

text \<open>
  C38: when the name of the sender of a first message is not known and the server does not answer, the
  message is stored and announced, and counted by the recorder of sequence numbers, but no
  conversation is made for it, and no unread message is counted.
\<close>
theorem doMsgNew_lost_conversation:
  assumes "plain_text (cx_codec E) t v" and "k \<noteq> []" and "cx_GetServerUserInfo E [md_SendID v] n = (Inl err, n')"
  shows "\<exists>s'. doMsgNew (calm_env E) [(k, \<lparr>pm_Msgs = [v], pm_IsEnd = e\<rparr>)] (fresh_state [] n) = Some s' \<and>
    co_db s' = world_of k [msgStructToLocalChatLog (cx_codec E) (text_message (cx_codec E) t v)] [] \<and>
    co_events s' = [OnRecvNewMessage (enc_Msg (cx_codec E) (text_message (cx_codec E) t v)), OnTotalUnreadMessageCountChanged 0]"
proof -
  let ?J = "cx_codec E" and ?s = "fresh_state [] n"
  let ?m = "text_message ?J t v"
  let ?l = "msgStructToLocalChatLog ?J ?m"
  obtain p where p: "new_conversation (calm_env E) (k, \<lparr>pm_Msgs = [v], pm_IsEnd = e\<rparr>) (new_vars_start, ?s) =
      (p, ?s\<lparr>co_db := world_of k [] [], co_maxSeq := [(k, 1)]\<rparr>)"
      "nv_trigger p" "nv_conversationSet p = [(k, first_conversation ?J k t v)]" "nv_newMessages p = [?m]" "nv_online p = []"
      "nv_insertMsg p = [(k, [?l])]" "nv_updateMsg p = [(k, [])]"
    using first_collected [OF assms(1,2), of ?s e] by auto
  let ?s1 = "?s\<lparr>co_maxSeq := [(k, 1)], co_net := n', co_db := world_of k [?l] []\<rparr>"
  obtain s' where s': "announce_all (calm_env E) p [] [] ?s1 = Some s'" "co_db s' = world_of k [?l] []"
      "co_events s' = [OnRecvNewMessage (enc_Msg ?J ?m), OnTotalUnreadMessageCountChanged 0]"
    using first_announced [OF assms(1) p(4,5,2), of ?s1 k "[?l]" "[]" "[]"] by auto
  have "doMsgNew (calm_env E) [(k, \<lparr>pm_Msgs = [v], pm_IsEnd = e\<rparr>)] ?s = Some s'"
    using p(3,6,7) s'(1) assms(3)
    by (simp add: doMsgNew_def p(1) on_db_def first_all listToMap_def slice_to_map_def
        first_diff(2) [OF assms(1), where ls = "[]" and err = err and n = n'] first_stored first_conversations_stored(1))
  with s' show ?thesis by blast
qed

definition hello :: TextElem where
  "hello = \<lparr>te_Content = ''hello''\<rparr>"

definition hello_env :: "('q, world, 'n) conv_env \<Rightarrow> ('q, world, 'n) conv_env" where
  "hello_env E = E\<lparr>cx_codec := (cx_codec E)\<lparr>dec_TextElem := (\<lambda>_. (None, hello))\<rparr>,
     cx_GetServerUserInfo := (\<lambda>_ n. (Inl (GoError ''timeout''), n))\<rparr>"

lemma hello_plain: "plain_text (cx_codec (hello_env E)) hello (sample_data ''m1'' ''a'' 1 0)"
  by (simp add: plain_text_def hello_env_def sample_data_def content_types SingleChatType_def)

theorem doMsgNew_first_message_witness:
  "\<forall>(E :: ('q, world, 'n) conv_env) n. \<exists>s' c.
     doMsgNew (calm_env (hello_env E)) [(''c'', \<lparr>pm_Msgs = [sample_data ''m1'' ''a'' 1 0], pm_IsEnd = True\<rparr>)]
       (fresh_state [(''a'', \<lparr>bi_Nickname = ''Ann'', bi_FaceURL = ''url''\<rparr>)] n) = Some s' \<and>
     ft_rows (w_conv (co_db s')) = [c] \<and> cv_ShowName c = ''Ann'' \<and> cv_UnreadCount c = 1"
proof (intro allI)
  fix E :: "('q, world, 'n) conv_env" and n :: 'n
  let ?u = "[(''a'', \<lparr>bi_Nickname = ''Ann'', bi_FaceURL = ''url''\<rparr>)]"
  have "gget ?u (md_SendID (sample_data ''m1'' ''a'' 1 0)) = Some \<lparr>bi_Nickname = ''Ann'', bi_FaceURL = ''url''\<rparr>"
    by (simp add: sample_data_def)
  from doMsgNew_first_message [OF hello_plain _ this, of "''c''" E True n]
  show "\<exists>s' c. doMsgNew (calm_env (hello_env E)) [(''c'', \<lparr>pm_Msgs = [sample_data ''m1'' ''a'' 1 0], pm_IsEnd = True\<rparr>)]
       (fresh_state ?u n) = Some s' \<and> ft_rows (w_conv (co_db s')) = [c] \<and> cv_ShowName c = ''Ann'' \<and> cv_UnreadCount c = 1"
    by (auto simp: world_of_def)
qed

theorem doMsgNew_lost_conversation_witness:
  "\<forall>(E :: ('q, world, 'n) conv_env) n. \<exists>s'.
     doMsgNew (calm_env (hello_env E)) [(''c'', \<lparr>pm_Msgs = [sample_data ''m1'' ''a'' 1 0], pm_IsEnd = True\<rparr>)]
       (fresh_state [] n) = Some s' \<and>
     ft_rows (w_conv (co_db s')) = [] \<and> length (ft_rows (w_chat (co_db s') (GetTableName ''c''))) = 1"
proof (intro allI)
  fix E :: "('q, world, 'n) conv_env" and n :: 'n
  have "cx_GetServerUserInfo (hello_env E) [md_SendID (sample_data ''m1'' ''a'' 1 0)] n = (Inl (GoError ''timeout''), n)"
    by (simp add: hello_env_def)
  from doMsgNew_lost_conversation [OF hello_plain _ this, of "''c''" True]
  show "\<exists>s'. doMsgNew (calm_env (hello_env E)) [(''c'', \<lparr>pm_Msgs = [sample_data ''m1'' ''a'' 1 0], pm_IsEnd = True\<rparr>)]
       (fresh_state [] n) = Some s' \<and> ft_rows (w_conv (co_db s')) = [] \<and> length (ft_rows (w_chat (co_db s') (GetTableName ''c''))) = 1"
    by (auto simp: world_of_def)
qed

end
