(* ===== verification/Base64.thy ===== *)
theory Base64
  imports Prelude
begin

text \<open>
  The standard library's \<^verbatim>\<open>base64.StdEncoding\<close>, in which \<^verbatim>\<open>internal/file/upload.go\<close> keeps the
  bitmap of an upload in the local database: the alphabet, the padding, and a decoder that skips
  line breaks and does not look at the trailing bits of the last byte. \<open>None\<close> is
  \<^verbatim>\<open>CorruptInputError\<close>.
\<close>

unbundle bit_operations_syntax

definition b64_alphabet :: string where
  "b64_alphabet = ''ABCDEFGHIJKLMNOPQRSTUVWXYZabcdefghijklmnopqrstuvwxyz0123456789+/''"

definition b64_char :: "8 word \<Rightarrow> char" where
  "b64_char w = b64_alphabet ! unat (take_bit 6 w)"

fun index_in :: "char \<Rightarrow> string \<Rightarrow> nat option" where
  "index_in c [] = None"
| "index_in c (x # xs) = (if c = x then Some 0 else map_option Suc (index_in c xs))"

definition b64_value :: "char \<Rightarrow> 8 word option" where
  "b64_value c = map_option of_nat (index_in c b64_alphabet)"

fun EncodeToString :: "8 word list \<Rightarrow> string" where
  "EncodeToString [] = []"
| "EncodeToString [a] = [b64_char (drop_bit 2 a), b64_char (push_bit 4 a), CHR ''='', CHR ''='']"
| "EncodeToString [a, b] =
     [b64_char (drop_bit 2 a), b64_char (push_bit 4 a OR drop_bit 4 b), b64_char (push_bit 2 b), CHR ''='']"
| "EncodeToString (a # b # c # rest) =
     b64_char (drop_bit 2 a) # b64_char (push_bit 4 a OR drop_bit 4 b) #
     b64_char (push_bit 2 b OR drop_bit 6 c) # b64_char c # EncodeToString rest"

definition first_byte :: "8 word \<Rightarrow> 8 word \<Rightarrow> 8 word" where
  "first_byte p q = push_bit 2 p OR drop_bit 4 q"

definition second_byte :: "8 word \<Rightarrow> 8 word \<Rightarrow> 8 word" where
  "second_byte q r = push_bit 4 q OR drop_bit 2 r"

definition third_byte :: "8 word \<Rightarrow> 8 word \<Rightarrow> 8 word" where
  "third_byte r s = push_bit 6 r OR s"

fun b64_decode :: "string \<Rightarrow> 8 word list option" where
  "b64_decode [] = Some []"
| "b64_decode (w # x # y # z # rest) =
     (case (b64_value w, b64_value x) of
        (Some p, Some q) \<Rightarrow>
          (if y = CHR ''='' then (if z = CHR ''='' \<and> rest = [] then Some [first_byte p q] else None)
           else case b64_value y of
                  None \<Rightarrow> None
                | Some r \<Rightarrow>
                    (if z = CHR ''='' then (if rest = [] then Some [first_byte p q, second_byte q r] else None)
                     else case (b64_value z, b64_decode rest) of
                            (Some s, Some bs) \<Rightarrow> Some (first_byte p q # second_byte q r # third_byte r s # bs)
                          | _ \<Rightarrow> None))
      | _ \<Rightarrow> None)"
| "b64_decode _ = None"

definition DecodeString :: "string \<Rightarrow> 8 word list option" where
  "DecodeString s = b64_decode (filter (\<lambda>c. c \<noteq> CHR 0x0A \<and> c \<noteq> CHR 0x0D) s)"

section \<open>The round trip\<close>

lemma b64_alphabet_lookup: "\<forall>i \<in> set [0..<64]. index_in (b64_alphabet ! i) b64_alphabet = Some i"
  by code_simp

lemma b64_alphabet_plain: "\<forall>i \<in> set [0..<64]. b64_alphabet ! i \<notin> {CHR ''='', CHR 0x0A, CHR 0x0D}"
  by code_simp

lemma masked_lt: "unat (take_bit 6 w :: 8 word) \<in> set [0..<64]"
  using take_bit_nat_less_exp [of 6 "unat w"] by (simp add: unsigned_take_bit_eq)

lemma b64_value_char: "b64_value (b64_char w) = Some (take_bit 6 w)"
  using b64_alphabet_lookup masked_lt [of w] by (auto simp: b64_value_def b64_char_def)

lemma b64_char_plain: "b64_char w \<noteq> CHR ''=''" "b64_char w \<noteq> CHR 0x0A" "b64_char w \<noteq> CHR 0x0D"
  using b64_alphabet_plain masked_lt [of w] by (auto simp: b64_char_def)

text \<open>A byte is cut after its first \<open>m\<close> bits; its two parts are put together again.\<close>

lemma byte_parts:
  fixes a hi lo :: "8 word"
  assumes m: "2 \<le> m" "m \<le> 6"
    and hi: "\<And>i. i < 8 - m \<Longrightarrow> \<not> bit hi i" and lo: "\<And>i. 6 - m \<le> i \<Longrightarrow> \<not> bit lo i"
  shows "push_bit m (take_bit 6 (hi OR drop_bit m a)) OR drop_bit (6 - m) (take_bit 6 (push_bit (6 - m) a OR lo)) = a"
    (is "?l = a")
proof (rule bit_word_eqI)
  fix n assume "n < LENGTH(8)"
  then have n: "n < 8" by simp
  have lo_n: "\<not> bit lo (6 - m + n)" by (rule lo) simp
  have "\<not> bit hi (n - m)" if "m \<le> n" by (rule hi) (use that n in linarith)
  then show "bit ?l n = bit a n"
    using n m lo_n by (cases "m \<le> n") (auto simp: bit_or_iff bit_take_bit_iff bit_push_bit_iff bit_drop_bit_eq)
qed

lemma low_bits_clear: "i < k \<Longrightarrow> \<not> bit (push_bit k (a :: 8 word)) i"
  by (simp add: bit_push_bit_iff)

lemma high_bits_clear: "8 - k \<le> i \<Longrightarrow> \<not> bit (drop_bit k (a :: 8 word)) i"
  using bit_imp_le_length [of a "k + i"] by (auto simp: bit_drop_bit_eq)

lemma first_of: "first_byte (take_bit 6 (drop_bit 2 a)) (take_bit 6 (push_bit 4 a OR drop_bit 4 b)) = a"
  using byte_parts [of 2 0 "drop_bit 4 b" a] high_bits_clear [of 4 _ b] by (simp add: first_byte_def del: take_bit_or)

lemma first_of_last: "first_byte (take_bit 6 (drop_bit 2 a)) (take_bit 6 (push_bit 4 a)) = a"
  using first_of [of a 0] by simp

lemma second_of:
  "second_byte (take_bit 6 (push_bit 4 a OR drop_bit 4 b)) (take_bit 6 (push_bit 2 b OR drop_bit 6 c)) = b"
  using byte_parts [of 4 "push_bit 4 a" "drop_bit 6 c" b] high_bits_clear [of 6 _ c] low_bits_clear [of _ 4 a]
  by (simp add: second_byte_def del: take_bit_or)

lemma second_of_last: "second_byte (take_bit 6 (push_bit 4 a OR drop_bit 4 b)) (take_bit 6 (push_bit 2 b)) = b"
  using second_of [of a b 0] by simp

lemma third_of: "third_byte (take_bit 6 (push_bit 2 b OR drop_bit 6 c)) (take_bit 6 c) = c"
  using byte_parts [of 6 "push_bit 2 b" 0 c] low_bits_clear [of _ 2 b] by (simp add: third_byte_def del: take_bit_or)

lemma b64_decode_encode: "b64_decode (EncodeToString bs) = Some bs"
  by (induction bs rule: EncodeToString.induct)
    (simp_all add: b64_value_char b64_char_plain first_of first_of_last second_of second_of_last third_of del: take_bit_or)

lemma EncodeToString_plain: "filter (\<lambda>c. c \<noteq> CHR 0x0A \<and> c \<noteq> CHR 0x0D) (EncodeToString bs) = EncodeToString bs"
  by (induction bs rule: EncodeToString.induct) (simp_all add: b64_char_plain)

theorem DecodeString_EncodeToString: "DecodeString (EncodeToString bs) = Some bs"
  by (simp add: DecodeString_def EncodeToString_plain b64_decode_encode)

lemma EncodeToString_empty [simp]: "EncodeToString bs = [] \<longleftrightarrow> bs = []"
  by (cases bs rule: EncodeToString.cases) simp_all

lemma DecodeString_Nil [simp]: "DecodeString [] = Some []"
  by (simp add: DecodeString_def)

end
