(* ===== verification/Upload.thy ===== *)
theory Upload
  imports Bitmap Base64 Api ConvDb
begin

text \<open>
  \<^verbatim>\<open>internal/file/upload.go\<close>, with the readers of \<^verbatim>\<open>md5.go\<close> and \<^verbatim>\<open>progress.go\<close> and the callback of
  \<^verbatim>\<open>cb.go\<close>: a file is cut into parts, the parts are hashed, the upload is started or resumed from
  the bitmap in the local database, the missing parts are put one by one to signed addresses, and
  the upload is completed. The file, the digest, the transport, the parsing of addresses and the
  clock are the fields of \<open>upload_env\<close>. A result \<open>None\<close> is a panic.
\<close>

section \<open>Messages, requests and state\<close>

definition ObjectPartLimit :: string where "ObjectPartLimit = ''/object/part_limit''"
definition ObjectInitiateMultipartUpload :: string where
  "ObjectInitiateMultipartUpload = ''/object/initiate_multipart_upload''"
definition ObjectAuthSign :: string where "ObjectAuthSign = ''/object/auth_sign''"
definition ObjectCompleteMultipartUpload :: string where
  "ObjectCompleteMultipartUpload = ''/object/complete_multipart_upload''"
definition ObjectAccessURL :: string where "ObjectAccessURL = ''/object/access_url''"

text \<open>The protocol messages of the object API, with the fields the SDK reads or sets.\<close>

record PartLimitResp =
  pl_MinPartSize :: int
  pl_MaxPartSize :: int
  pl_MaxNumSize :: int

record KeyValues =
  kv_Key :: string
  kv_Values :: "string list"

record SignPart =
  sp_PartNumber :: int
  sp_Url :: string
  sp_Query :: "KeyValues list"
  sp_Header :: "KeyValues list"

record AuthSignParts =
  as_Url :: string
  as_Query :: "KeyValues list"
  as_Header :: "KeyValues list"
  as_Parts :: "SignPart list"

record ServerUploadInfo =
  su_UploadID :: string
  su_PartSize :: int
  su_Sign :: "AuthSignParts option"
  su_ExpireTime :: int

record InitiateMultipartUploadReq =
  iq_Hash :: string
  iq_Size :: int
  iq_PartSize :: int
  iq_MaxParts :: int
  iq_Cause :: string
  iq_Name :: string
  iq_ContentType :: string

record InitiateMultipartUploadResp =
  ir_Url :: string
  ir_Upload :: "ServerUploadInfo option"

record AuthSignReq =
  aq_UploadID :: string
  aq_PartNumbers :: "int list"

record CompleteMultipartUploadReq =
  mq_UploadID :: string
  mq_Parts :: "string list"
  mq_Name :: string
  mq_ContentType :: string
  mq_Cause :: string

record UploadFileReq =
  ur_Filepath :: string
  ur_Name :: string
  ur_ContentType :: string
  ur_Cause :: string
  ur_Uuid :: string

record partInfo =
  pi_ContentType :: string
  pi_PartSize :: int
  pi_PartNum :: int
  pi_FileMd5 :: string
  pi_PartMd5 :: string
  pi_PartSizes :: "int list"
  pi_PartMd5s :: "string list"

text \<open>The zero time is \<open>None\<close>.\<close>

record UploadInfo =
  ui_PartNum :: int
  ui_Bitmap :: "bitmap option"
  ui_DBInfo :: "LocalUpload option"
  ui_Resp :: InitiateMultipartUploadResp
  ui_CreateTime :: "int option"
  ui_BatchSignNum :: int

datatype UploadEvent =
    EvOpen int
  | EvPartSize int int
  | EvHashPartProgress nat int string
  | EvHashPartComplete string string
  | EvUploadID string
  | EvUploadPartComplete nat int string
  | EvUploadComplete int int int
  | EvComplete int string int

text \<open>
  The reader of the file may return less than it is asked for; \<open>ue_read_hash\<close> and \<open>ue_read_send\<close>
  give what a read of at most so many bytes at a position returns, in the pass that hashes the
  file and in the pass that sends it, and the empty list is the end of the file. \<open>ue_put\<close> is the
  transport: it is given the reads the body of the request will return and says how many of them
  it made.
\<close>

record ('n, 't, 'u) upload_env =
  ue_loginUserID :: string
  ue_open :: "UploadFileReq \<Rightarrow> go_error + int"
  ue_seek :: "go_error option"
  ue_read_hash :: "nat \<Rightarrow> nat \<Rightarrow> go_error + 8 word list"
  ue_read_send :: "nat \<Rightarrow> nat \<Rightarrow> go_error + 8 word list"
  ue_md5 :: "8 word list \<Rightarrow> string"
  ue_detect :: "8 word list \<Rightarrow> string"
  ue_limit_io :: "('n, unit, PartLimitResp) api_io"
  ue_initiate_io :: "('n, InitiateMultipartUploadReq, InitiateMultipartUploadResp) api_io"
  ue_sign_io :: "('n, AuthSignReq, AuthSignParts) api_io"
  ue_complete_io :: "('n, CompleteMultipartUploadReq, string) api_io"
  ue_db :: "(LocalUpload, 't) gorm option"
  ue_now :: "'n \<Rightarrow> int"
  ue_parse_url :: "string \<Rightarrow> go_error + 'u"
  ue_url_query :: "'u \<Rightarrow> (string, string list) gomap"
  ue_set_query :: "(string, string list) gomap \<Rightarrow> 'u \<Rightarrow> 'u"
  ue_url_string :: "'u \<Rightarrow> string"
  ue_new_request :: "string \<Rightarrow> go_error option"
  ue_put_buffer :: nat
  ue_put :: "string \<Rightarrow> (string, string list) gomap \<Rightarrow> int \<Rightarrow> 8 word list list \<times> go_error option \<Rightarrow> 'n \<Rightarrow>
    (nat \<times> (go_error + int \<times> (go_error + string))) \<times> 'n"
  ue_errs_args :: go_error
  ue_errs_internal :: go_error

record ('n, 't) upload_state =
  us_net :: 'n
  us_table :: 't
  us_partLimit :: "PartLimitResp option"
  us_pos :: nat
  us_events :: "UploadEvent list"

text \<open>An operation that may panic, fail or return.\<close>

type_synonym ('s, 'a) upload_op = "'s \<Rightarrow> ((go_error + 'a) \<times> 's) option"

definition op_then :: "('s, 'a) upload_op \<Rightarrow> ('a \<Rightarrow> ('s, 'b) upload_op) \<Rightarrow> ('s, 'b) upload_op" where
  "op_then m f s =
     (case m s of None \<Rightarrow> None | Some (Inl e, s') \<Rightarrow> Some (Inl e, s') | Some (Inr a, s') \<Rightarrow> f a s')"

definition op_return :: "'a \<Rightarrow> ('s, 'a) upload_op" where
  "op_return a s = Some (Inr a, s)"

definition op_fail :: "go_error \<Rightarrow> ('s, 'a) upload_op" where
  "op_fail e s = Some (Inl e, s)"

definition emit :: "UploadEvent \<Rightarrow> ('n, 't) upload_state \<Rightarrow> ('n, 't) upload_state" where
  "emit ev s = s\<lparr>us_events := us_events s @ [ev]\<rparr>"

definition on_server :: "('n \<Rightarrow> ('r) \<times> 'n) \<Rightarrow> ('n, 't) upload_state \<Rightarrow> 'r \<times> ('n, 't) upload_state" where
  "on_server f s = (case f (us_net s) of (r, n) \<Rightarrow> (r, s\<lparr>us_net := n\<rparr>))"

definition on_table :: "('t \<Rightarrow> 'r \<times> 't) \<Rightarrow> ('n, 't) upload_state \<Rightarrow> 'r \<times> ('n, 't) upload_state" where
  "on_table f s = (case f (us_table s) of (r, t) \<Rightarrow> (r, s\<lparr>us_table := t\<rparr>))"

section \<open>The part size\<close>

definition cleanPartLimit :: "('n, 't) upload_state \<Rightarrow> ('n, 't) upload_state" where
  "cleanPartLimit s = s\<lparr>us_partLimit := None\<rparr>"

definition zero_limit :: PartLimitResp where
  "zero_limit = \<lparr>pl_MinPartSize = 0, pl_MaxPartSize = 0, pl_MaxNumSize = 0\<rparr>"

definition load_limit :: "('n, 't, 'u) upload_env \<Rightarrow> (('n, 't) upload_state, PartLimitResp) upload_op" where
  "load_limit E s =
     (case us_partLimit s of
        Some l \<Rightarrow> Some (Inr l, s)
      | None \<Rightarrow>
          (case on_server (CallApi zero_limit (ue_limit_io E) ObjectPartLimit ()) s of
             (Inl e, s1) \<Rightarrow> Some (Inl e, s1)
           | (Inr l, s1) \<Rightarrow> Some (Inr l, s1\<lparr>us_partLimit := Some l\<rparr>)))"

definition limited_size :: "PartLimitResp \<Rightarrow> int \<Rightarrow> ('s, int) upload_op" where
  "limited_size l sz =
     (let most = i64 (pl_MaxPartSize l * pl_MaxNumSize l) in
      if sz \<le> 0 then op_fail (GoError ''size must be greater than 0'')
      else if sz > most then op_fail (GoError (''size must be less than '' @ decimal most @ ''b''))
      else if sz \<le> i64 (pl_MinPartSize l * pl_MaxNumSize l) then op_return (pl_MinPartSize l)
      else if pl_MaxNumSize l = 0 then (\<lambda>s. None)
      else op_return (sz sdiv pl_MaxNumSize l + (if sz smod pl_MaxNumSize l \<noteq> 0 then 1 else 0)))"

definition partSize :: "('n, 't, 'u) upload_env \<Rightarrow> int \<Rightarrow> (('n, 't) upload_state, int) upload_op" where
  "partSize E sz = op_then (load_limit E) (\<lambda>l. limited_size l sz)"

definition getPartNum :: "int \<Rightarrow> int \<Rightarrow> int option" where
  "getPartNum fileSize psize =
     (if psize = 0 then None
      else Some (fileSize sdiv psize + (if fileSize smod psize \<noteq> 0 then 1 else 0)))"

text \<open>The sizes of the parts; the last part has what is left. An empty slice has no last part.\<close>

definition part_sizes :: "int \<Rightarrow> int \<Rightarrow> int \<Rightarrow> int list option" where
  "part_sizes fileSize psize num =
     (if num < 1 then None
      else Some ((replicate (nat num) psize)[nat num - 1 := i64 (fileSize - i64 (psize * (num - 1)))]))"

section \<open>Hashing the parts\<close>

text \<open>
  The reads through \<^verbatim>\<open>io.LimitReader(r, limit)\<close> with a buffer of \<open>buf\<close> bytes, up to the end of the
  part or an error.
\<close>

function read_chunks ::
  "(nat \<Rightarrow> nat \<Rightarrow> go_error + 8 word list) \<Rightarrow> nat \<Rightarrow> nat \<Rightarrow> nat \<Rightarrow> 8 word list list \<times> go_error option" where
  "read_chunks rd buf pos limit =
     (if limit = 0 then ([], None)
      else case rd pos (min buf limit) of
             Inl e \<Rightarrow> ([], Some e)
           | Inr bs \<Rightarrow>
               (if bs = [] then ([], None)
                else case read_chunks rd buf (pos + length bs) (limit - length bs) of (cs, err) \<Rightarrow> (bs # cs, err)))"
  by pat_completeness auto
termination by (relation "measure (\<lambda>(rd, buf, pos, limit). limit)") auto

declare read_chunks.simps [simp del]

definition detect_type :: "('n, 't, 'u) upload_env \<Rightarrow> 8 word list list \<Rightarrow> string \<Rightarrow> string" where
  "detect_type E cs ct = fold (\<lambda>c ct. if ct = [] then ue_detect E c else ct) cs ct"

fun hash_parts ::
  "('n, 't, 'u) upload_env \<Rightarrow> int \<Rightarrow> (nat \<times> int) list \<Rightarrow> string \<times> string list \<times> 8 word list \<Rightarrow>
   (('n, 't) upload_state, string \<times> string list \<times> 8 word list) upload_op" where
  "hash_parts E psize [] acc s = Some (Inr acc, s)"
| "hash_parts E psize ((i, sz) # rest) (ct, md5s, all) s =
     (case read_chunks (ue_read_hash E) (1024 * 8) (us_pos s) (nat psize) of (cs, err) \<Rightarrow>
        let s1 = s\<lparr>us_pos := us_pos s + length (concat cs)\<rparr> in
        (case err of
           Some e \<Rightarrow> Some (Inl e, s1)
         | None \<Rightarrow>
             (let h = ue_md5 E (concat cs) in
              hash_parts E psize rest (detect_type E cs ct, md5s @ [h], all @ concat cs)
                (emit (EvHashPartProgress i sz h) s1))))"

fun join_with :: "string \<Rightarrow> string list \<Rightarrow> string" where
  "join_with sep [] = []"
| "join_with sep [x] = x"
| "join_with sep (x # xs) = x @ sep @ join_with sep xs"

definition string_bytes :: "string \<Rightarrow> 8 word list" where
  "string_bytes s = map (\<lambda>c. of_nat (of_char c)) s"

definition partMD5 :: "('n, 't, 'u) upload_env \<Rightarrow> string list \<Rightarrow> string" where
  "partMD5 E parts = ue_md5 E (string_bytes (join_with '','' parts))"

definition getPartInfo :: "('n, 't, 'u) upload_env \<Rightarrow> int \<Rightarrow> (('n, 't) upload_state, partInfo) upload_op" where
  "getPartInfo E fileSize =
     op_then (partSize E fileSize) (\<lambda>psize s.
       (case getPartNum fileSize psize of
          None \<Rightarrow> None
        | Some num \<Rightarrow>
            (case part_sizes fileSize psize num of
               None \<Rightarrow> None
             | Some sizes \<Rightarrow>
                 op_then (hash_parts E psize (enumerate 0 sizes) ([], [], [])) (\<lambda>(ct, md5s, all) s.
                   (let whole = partMD5 E md5s; file = ue_md5 E all in
                    Some (Inr \<lparr>pi_ContentType = ct, pi_PartSize = psize, pi_PartNum = num, pi_FileMd5 = file,
                            pi_PartMd5 = whole, pi_PartSizes = sizes, pi_PartMd5s = md5s\<rparr>,
                          emit (EvHashPartComplete whole file) s)))
                   (emit (EvPartSize psize num) s))))"

section \<open>Starting or resuming\<close>

definition zero_initiate :: InitiateMultipartUploadResp where
  "zero_initiate = \<lparr>ir_Url = [], ir_Upload = None\<rparr>"

definition no_sign :: AuthSignParts where
  "no_sign = \<lparr>as_Url = [], as_Query = [], as_Header = [], as_Parts = []\<rparr>"

definition initiateMultipartUploadResp ::
  "('n, 't, 'u) upload_env \<Rightarrow> InitiateMultipartUploadReq \<Rightarrow> 'n \<Rightarrow> (go_error + InitiateMultipartUploadResp) \<times> 'n" where
  "initiateMultipartUploadResp E req =
     CallApi zero_initiate (ue_initiate_io E) ObjectInitiateMultipartUpload req"

definition authSign :: "('n, 't, 'u) upload_env \<Rightarrow> AuthSignReq \<Rightarrow> 'n \<Rightarrow> (go_error + AuthSignParts) \<times> 'n" where
  "authSign E req n =
     (if aq_PartNumbers req = [] then (Inl (Wrapped (ue_errs_args E) ''partNumbers is empty''), n)
      else CallApi no_sign (ue_sign_io E) ObjectAuthSign req n)"

definition completeMultipartUpload ::
  "('n, 't, 'u) upload_env \<Rightarrow> CompleteMultipartUploadReq \<Rightarrow> 'n \<Rightarrow> (go_error + string) \<times> 'n" where
  "completeMultipartUpload E req = CallApi [] (ue_complete_io E) ObjectCompleteMultipartUpload req"

text \<open>The stored record is used while it can be decoded, has parts and is not about to expire.\<close>

definition resumable :: "int \<Rightarrow> int \<Rightarrow> LocalUpload \<Rightarrow> 8 word list option" where
  "resumable now partNum db =
     (case DecodeString (up_UploadInfo db) of
        None \<Rightarrow> None
      | Some bs \<Rightarrow>
          (if bs = [] \<or> partNum \<le> 1 \<or> up_ExpireTime db - 3600 * 1000 < now sdiv 1000000 then None else Some bs))"

definition resumed_info ::
  "InitiateMultipartUploadReq \<Rightarrow> int \<Rightarrow> (LocalUpload \<times> 8 word list) option \<Rightarrow> UploadInfo" where
  "resumed_info req partNum db =
     \<lparr>ui_PartNum = partNum,
      ui_Bitmap = Some (case db of None \<Rightarrow> NewBitmap partNum | Some (_, bs) \<Rightarrow> ParseBitmap bs partNum),
      ui_DBInfo = map_option fst db,
      ui_Resp = \<lparr>ir_Url = [], ir_Upload = Some
        \<lparr>su_UploadID = (case db of None \<Rightarrow> [] | Some (u, _) \<Rightarrow> up_UploadID u), su_PartSize = iq_PartSize req,
         su_Sign = Some no_sign, su_ExpireTime = (case db of None \<Rightarrow> 0 | Some (u, _) \<Rightarrow> up_ExpireTime u)\<rparr>\<rparr>,
      ui_CreateTime = None, ui_BatchSignNum = iq_MaxParts req\<rparr>"

definition resume_upload ::
  "('n, 't, 'u) upload_env \<Rightarrow> (LocalUpload, 't) gorm \<Rightarrow> InitiateMultipartUploadReq \<Rightarrow> int \<Rightarrow> LocalUpload \<Rightarrow>
   (('n, 't) upload_state, UploadInfo) upload_op" where
  "resume_upload E G req partNum db s =
     (case resumable (ue_now E (us_net s)) partNum db of
        Some bs \<Rightarrow> Some (Inr (resumed_info req partNum (Some (db, bs))), s)
      | None \<Rightarrow>
          (case on_table (DeleteUpload G (iq_Hash req)) s of
             (Some e, s1) \<Rightarrow> Some (Inl e, s1)
           | (None, s1) \<Rightarrow> Some (Inr (resumed_info req partNum None), s1)))"

text \<open>The server's answer names no signature: the code looks at its parts and panics.\<close>

definition start_upload ::
  "('n, 't, 'u) upload_env \<Rightarrow> InitiateMultipartUploadReq \<Rightarrow> int \<Rightarrow> (('n, 't) upload_state, UploadInfo) upload_op" where
  "start_upload E req partNum s =
     (case on_server (initiateMultipartUploadResp E req) s of
        (Inl e, s1) \<Rightarrow> Some (Inl e, s1)
      | (Inr resp, s1) \<Rightarrow>
          (case ir_Upload resp of
             None \<Rightarrow> Some (Inr \<lparr>ui_PartNum = 0, ui_Bitmap = None, ui_DBInfo = None, ui_Resp = resp, ui_CreateTime = None,
                            ui_BatchSignNum = 0\<rparr>, s1)
           | Some up \<Rightarrow>
               (let bitmap = NewBitmap partNum;
                    db = (case ue_db E of None \<Rightarrow> None | Some G \<Rightarrow> Some \<lparr>up_PartHash = iq_Hash req,
                        up_UploadID = su_UploadID up, up_UploadInfo = EncodeToString (Serialize bitmap),
                        up_ExpireTime = su_ExpireTime up, up_CreateTime = ue_now E (us_net s1) sdiv 1000000\<rparr>);
                    s2 = (case (ue_db E, db) of (Some G, Some u) \<Rightarrow> snd (on_table (InsertUpload G u) s1) | _ \<Rightarrow> s1)
                in case (iq_MaxParts req \<ge> 0, su_Sign up) of
                     (True, None) \<Rightarrow> None
                   | (counted, sign) \<Rightarrow>
                       (let up' = (case sign of None \<Rightarrow> up | Some sg \<Rightarrow>
                              (if counted \<and> int (length (as_Parts sg)) \<noteq> iq_MaxParts req
                               then up\<lparr>su_Sign := Some (sg\<lparr>as_Parts := []\<rparr>)\<rparr> else up))
                        in Some (Inr \<lparr>ui_PartNum = partNum, ui_Bitmap = Some bitmap, ui_DBInfo = db,
                             ui_Resp = resp\<lparr>ir_Upload := Some up'\<rparr>, ui_CreateTime = Some (ue_now E (us_net s2)),
                             ui_BatchSignNum = iq_MaxParts req\<rparr>, s2)))))"

definition getUpload ::
  "('n, 't, 'u) upload_env \<Rightarrow> InitiateMultipartUploadReq \<Rightarrow> (('n, 't) upload_state, UploadInfo) upload_op" where
  "getUpload E req s =
     (case getPartNum (iq_Size req) (iq_PartSize req) of
        None \<Rightarrow> None
      | Some partNum \<Rightarrow>
          (case ue_db E of
             None \<Rightarrow> start_upload E req partNum s
           | Some G \<Rightarrow>
               (case on_table (GetUpload G (iq_Hash req)) s of
                  (Inr db, s1) \<Rightarrow> resume_upload E G req partNum db s1
                | (Inl _, s1) \<Rightarrow> start_upload E req partNum s1)))"


section \<open>Signed addresses\<close>

text \<open>The index of the signature of a part, while the signatures are not older than a minute.\<close>

fun sign_index :: "nat \<Rightarrow> int \<Rightarrow> SignPart list \<Rightarrow> nat option" where
  "sign_index i partNumber [] = None"
| "sign_index i partNumber (p # ps) = (if sp_PartNumber p = partNumber then Some i else sign_index (i + 1) partNumber ps)"

definition getIndex :: "int \<Rightarrow> int option \<Rightarrow> AuthSignParts option \<Rightarrow> int \<Rightarrow> nat option" where
  "getIndex now created sign partNumber =
     (case (sign, created) of
        (Some sg, Some c) \<Rightarrow> (if now - c > 60 * 10 ^ 9 then None else sign_index 0 partNumber (as_Parts sg))
      | _ \<Rightarrow> None)"

definition put_values :: "KeyValues list \<Rightarrow> (string, string list) gomap \<Rightarrow> (string, string list) gomap" where
  "put_values kvs m = fold (\<lambda>v. gput (kv_Key v) (kv_Values v)) kvs m"

definition buildRequest ::
  "('n, 't, 'u) upload_env \<Rightarrow> AuthSignParts \<Rightarrow> SignPart \<Rightarrow> go_error + 'u \<times> (string, string list) gomap" where
  "buildRequest E sign part =
     (case ue_parse_url E (if sp_Url part \<noteq> [] then sp_Url part else as_Url sign) of
        Inl e \<Rightarrow> Inl e
      | Inr urlval \<Rightarrow>
          Inr (if length (as_Query sign) + length (sp_Query part) > 0
               then ue_set_query E (put_values (sp_Query part) (put_values (as_Query sign) (ue_url_query E urlval))) urlval
               else urlval,
               put_values (sp_Header part) (put_values (as_Header sign) [])))"

definition sign_of :: "UploadInfo \<Rightarrow> AuthSignParts option" where
  "sign_of u = (case ir_Upload (ui_Resp u) of None \<Rightarrow> None | Some up \<Rightarrow> su_Sign up)"

definition part_request ::
  "('n, 't, 'u) upload_env \<Rightarrow> UploadInfo \<Rightarrow> nat \<Rightarrow> (go_error + 'u \<times> (string, string list) gomap)" where
  "part_request E u i = buildRequest E (the (sign_of u)) (as_Parts (the (sign_of u)) ! i)"

text \<open>The numbers of the next parts, as many as are signed at once.\<close>

definition next_parts :: "int \<Rightarrow> int \<Rightarrow> int \<Rightarrow> int list" where
  "next_parts batch partNum partNumber =
     takeWhile (\<lambda>p. p \<le> partNum) (map (\<lambda>i. i32 (partNumber + int i)) [0..<nat batch])"

definition GetPartSign ::
  "('n, 't, 'u) upload_env \<Rightarrow> UploadInfo \<Rightarrow> int \<Rightarrow>
   (('n, 't) upload_state, UploadInfo \<times> 'u \<times> (string, string list) gomap) upload_op" where
  "GetPartSign E u partNumber s =
     (if partNumber < 1 \<or> partNumber > ui_PartNum u then Some (Inl (GoError ''invalid partNumber''), s)
      else case ir_Upload (ui_Resp u) of
        None \<Rightarrow> None
      | Some up \<Rightarrow>
          (case getIndex (ue_now E (us_net s)) (ui_CreateTime u) (su_Sign up) partNumber of
             Some i \<Rightarrow> Some (map_sum id (\<lambda>uh. (u, uh)) (part_request E u i), s)
           | None \<Rightarrow>
               (case on_server (authSign E \<lparr>aq_UploadID = su_UploadID up,
                   aq_PartNumbers = next_parts (ui_BatchSignNum u) (ui_PartNum u) partNumber\<rparr>) s of
                  (Inl e, s1) \<Rightarrow> Some (Inl e, s1)
                | (Inr sg, s1) \<Rightarrow>
                    (if su_Sign up = None then None
                     else let now = ue_now E (us_net s1);
                              u' = u\<lparr>ui_Resp := (ui_Resp u)\<lparr>ir_Upload := Some (up\<lparr>su_Sign := Some sg\<rparr>)\<rparr>,
                                     ui_CreateTime := Some now\<rparr>
                          in case getIndex now (ui_CreateTime u') (Some sg) partNumber of
                               None \<Rightarrow> Some (Inl (Wrapped (ue_errs_internal E) ''server part sign invalid''), s1)
                             | Some i \<Rightarrow> Some (map_sum id (\<lambda>uh. (u', uh)) (part_request E u' i), s1)))))"

section \<open>Sending the parts\<close>

text \<open>
  The body of the request is read through \<^verbatim>\<open>NewProgressReader\<close> and \<^verbatim>\<open>NewMd5Reader\<close>: every read the
  transport makes is reported and hashed.
\<close>

fun progress_events :: "int \<Rightarrow> int \<Rightarrow> int \<Rightarrow> 8 word list list \<Rightarrow> UploadEvent list" where
  "progress_events fileSize uploaded current [] = []"
| "progress_events fileSize uploaded current (c # cs) =
     (let current' = i64 (current + int (length c)) in
      EvUploadComplete fileSize (i64 (uploaded + current')) uploaded # progress_events fileSize uploaded current' cs)"

definition put_error :: "string \<Rightarrow> int \<Rightarrow> string \<Rightarrow> go_error" where
  "put_error rawURL code body =
     GoError (''PUT '' @ rawURL @ '' failed, status code '' @ decimal code @ '', body '' @ body)"

definition put_result :: "string \<Rightarrow> (go_error + int \<times> (go_error + string)) \<Rightarrow> go_error option" where
  "put_result rawURL r =
     (case r of
        Inl e \<Rightarrow> Some e
      | Inr (code, Inl e) \<Rightarrow> Some e
      | Inr (code, Inr body) \<Rightarrow> (if code sdiv 200 \<noteq> 1 then Some (put_error rawURL code body) else None))"

text \<open>\<^verbatim>\<open>doPut\<close>, with what its reader reports and leaves of the file; the bytes are those that were hashed.\<close>

definition doPut ::
  "('n, 't, 'u) upload_env \<Rightarrow> 'u \<Rightarrow> (string, string list) gomap \<Rightarrow> int \<Rightarrow> int \<Rightarrow> int \<Rightarrow>
   (('n, 't) upload_state, 8 word list) upload_op" where
  "doPut E url header fileSize uploaded sz s =
     (let rawURL = ue_url_string E url in
      case ue_new_request E rawURL of
        Some e \<Rightarrow> Some (Inl e, s)
      | None \<Rightarrow>
          (let body = read_chunks (ue_read_send E) (ue_put_buffer E) (us_pos s) (nat sz) in
           case on_server (ue_put E rawURL header sz body) s of ((k, r), s1) \<Rightarrow>
             let sent = take k (fst body);
                 s2 = s1\<lparr>us_pos := us_pos s1 + length (concat sent),
                         us_events := us_events s1 @ progress_events fileSize uploaded 0 sent\<rparr>
             in case put_result rawURL r of
                  Some e \<Rightarrow> Some (Inl e, s2)
                | None \<Rightarrow> Some (Inr (concat sent), s2)))"

text \<open>A part that is stored already is read and hashed again.\<close>

definition discard_part :: "('n, 't, 'u) upload_env \<Rightarrow> int \<Rightarrow> (('n, 't) upload_state, 8 word list) upload_op" where
  "discard_part E sz s =
     (case read_chunks (ue_read_send E) (32 * 1024) (us_pos s) (nat sz) of (cs, err) \<Rightarrow>
        let s1 = s\<lparr>us_pos := us_pos s + length (concat cs)\<rparr> in
        (case err of Some e \<Rightarrow> Some (Inl e, s1) | None \<Rightarrow> Some (Inr (concat cs), s1)))"

text \<open>After a part has been put its bit is set and the record of the upload is written.\<close>

definition record_part ::
  "('n, 't, 'u) upload_env \<Rightarrow> nat \<Rightarrow> UploadInfo \<Rightarrow> (('n, 't) upload_state, UploadInfo) upload_op" where
  "record_part E i u s =
     (case (ui_DBInfo u, ui_Bitmap u) of
        (Some db, Some b) \<Rightarrow>
          (case bitmap_Set (int i) b of
             None \<Rightarrow> None
           | Some b' \<Rightarrow>
               (let db' = db\<lparr>up_UploadInfo := EncodeToString (Serialize b')\<rparr>;
                    s1 = (case ue_db E of None \<Rightarrow> s | Some G \<Rightarrow> snd (on_table (UpdateUpload G db') s))
                in Some (Inr (u\<lparr>ui_Bitmap := Some b', ui_DBInfo := Some db'\<rparr>), s1)))
      | _ \<Rightarrow> Some (Inr u, s))"

definition bitmap_has :: "UploadInfo \<Rightarrow> nat \<Rightarrow> bool option" where
  "bitmap_has u i = (case ui_Bitmap u of None \<Rightarrow> None | Some b \<Rightarrow> bitmap_Get b (int i))"

definition send_part ::
  "('n, 't, 'u) upload_env \<Rightarrow> int \<Rightarrow> nat \<Rightarrow> int \<Rightarrow> UploadInfo \<times> int \<Rightarrow>
   (('n, 't) upload_state, 8 word list \<times> UploadInfo \<times> int) upload_op" where
  "send_part E fileSize i sz uu s =
     (case bitmap_has (fst uu) i of
        None \<Rightarrow> None
      | Some True \<Rightarrow> op_then (discard_part E sz) (\<lambda>bs. op_return (bs, uu)) s
      | Some False \<Rightarrow>
          op_then (GetPartSign E (fst uu) (int i + 1)) (\<lambda>(u', url, header).
            op_then (doPut E url header fileSize (snd uu) sz) (\<lambda>bs.
              op_then (record_part E i u') (\<lambda>u''. op_return (bs, u'', i64 (snd uu + sz))))) s)"

definition md5_error :: "nat \<Rightarrow> string \<Rightarrow> string \<Rightarrow> go_error" where
  "md5_error i expected got = GoError (''upload part '' @ nat_digits i @ '' failed, md5 not match, expect '' @ expected @ '', got '' @ got)"

fun send_parts ::
  "('n, 't, 'u) upload_env \<Rightarrow> int \<Rightarrow> (nat \<times> int \<times> string) list \<Rightarrow> UploadInfo \<times> int \<Rightarrow>
   (('n, 't) upload_state, UploadInfo \<times> int) upload_op" where
  "send_parts E fileSize [] uu s = Some (Inr uu, s)"
| "send_parts E fileSize ((i, sz, md5) # rest) uu s =
     (case send_part E fileSize i sz uu s of
        None \<Rightarrow> None
      | Some (Inl e, s1) \<Rightarrow> Some (Inl e, s1)
      | Some (Inr (bs, uu'), s1) \<Rightarrow>
          (if ue_md5 E bs \<noteq> md5 then Some (Inl (md5_error i md5 (ue_md5 E bs)), s1)
           else send_parts E fileSize rest uu' (emit (EvUploadPartComplete i sz md5) s1)))"

section \<open>The upload of a file\<close>

definition upload_name :: "string \<Rightarrow> string \<Rightarrow> string" where
  "upload_name loginUserID name =
     (let name1 = (if hd name = CHR ''/'' then tl name else name); pre = loginUserID @ ''/''
      in if take (length pre) name1 = pre then name1 else pre @ name1)"

text \<open>What is stored already, from the bitmap; \<open>None\<close> is a panic.\<close>

fun stored_size :: "UploadInfo \<Rightarrow> (nat \<times> int) list \<Rightarrow> int \<Rightarrow> int option" where
  "stored_size u [] left = Some left"
| "stored_size u ((i, sz) # rest) left =
     (case bitmap_has u i of
        None \<Rightarrow> None
      | Some has \<Rightarrow> stored_size u rest (if has then left else i64 (left - sz)))"

definition finish_upload ::
  "('n, 't, 'u) upload_env \<Rightarrow> UploadFileReq \<Rightarrow> int \<Rightarrow> partInfo \<Rightarrow> bool \<Rightarrow> UploadInfo \<Rightarrow>
   (('n, 't) upload_state, string) upload_op" where
  "finish_upload E req fileSize info resumed u s =
     (case ir_Upload (ui_Resp u) of
        None \<Rightarrow> None
      | Some up \<Rightarrow>
          (case on_server (completeMultipartUpload E \<lparr>mq_UploadID = su_UploadID up, mq_Parts = pi_PartMd5s info,
              mq_Name = ur_Name req, mq_ContentType = ur_ContentType req, mq_Cause = ur_Cause req\<rparr>) s of
             (Inl e, s1) \<Rightarrow> Some (Inl e, s1)
           | (Inr url, s1) \<Rightarrow>
               (let s2 = emit (EvComplete fileSize url (if resumed then 2 else 1)) s1;
                    s3 = (case (ui_DBInfo u, ue_db E) of
                            (Some _, Some G) \<Rightarrow> snd (on_table (DeleteUpload G (pi_PartMd5 info)) s2) | _ \<Rightarrow> s2)
                in Some (Inr url, s3))))"

definition put_parts ::
  "('n, 't, 'u) upload_env \<Rightarrow> UploadFileReq \<Rightarrow> int \<Rightarrow> partInfo \<Rightarrow> UploadInfo \<Rightarrow>
   (('n, 't) upload_state, string) upload_op" where
  "put_parts E req fileSize info u s =
     (case stored_size u (enumerate 0 (pi_PartSizes info)) fileSize of
        None \<Rightarrow> None
      | Some uploaded \<Rightarrow>
          op_then (send_parts E fileSize (enumerate 0 (zip (pi_PartSizes info) (pi_PartMd5s info))) (u, uploaded))
            (\<lambda>(u', _). finish_upload E req fileSize info (uploaded > 0) u') s)"

definition after_hashing ::
  "('n, 't, 'u) upload_env \<Rightarrow> UploadFileReq \<Rightarrow> int \<Rightarrow> partInfo \<Rightarrow> (('n, 't) upload_state, string) upload_op" where
  "after_hashing E req fileSize info s =
     (let req1 = (if ur_ContentType req = [] then req\<lparr>ur_ContentType := pi_ContentType info\<rparr> else req) in
      case ue_seek E of
        Some e \<Rightarrow> Some (Inl e, s)
      | None \<Rightarrow>
          op_then (getUpload E \<lparr>iq_Hash = pi_PartMd5 info, iq_Size = fileSize, iq_PartSize = pi_PartSize info,
              iq_MaxParts = i32 (min 20 (int (length (pi_PartSizes info)))), iq_Cause = ur_Cause req1,
              iq_Name = ur_Name req1, iq_ContentType = ur_ContentType req1\<rparr>) (\<lambda>u s.
            (case ir_Upload (ui_Resp u) of
               None \<Rightarrow> Some (Inr (ir_Url (ui_Resp u)), emit (EvComplete fileSize (ir_Url (ui_Resp u)) 0) s)
             | Some up \<Rightarrow>
                 (if su_PartSize up \<noteq> pi_PartSize info
                  then Some (Inl (GoError (''part fileSize not match, expect '' @ decimal (pi_PartSize info) @
                         '', got '' @ decimal (su_PartSize up))), cleanPartLimit s)
                  else put_parts E req1 fileSize info u (emit (EvUploadID (su_UploadID up)) s))))
            (s\<lparr>us_pos := 0\<rparr>))"

definition UploadFile :: "('n, 't, 'u) upload_env \<Rightarrow> UploadFileReq \<Rightarrow> (('n, 't) upload_state, string) upload_op" where
  "UploadFile E req0 s =
     (if ur_Name req0 = [] then Some (Inl (GoError ''name is empty''), s)
      else let req = req0\<lparr>ur_Name := upload_name (ue_loginUserID E) (ur_Name req0)\<rparr> in
        case ue_open E req of
          Inl e \<Rightarrow> Some (Inl e, s)
        | Inr fileSize \<Rightarrow>
            op_then (getPartInfo E fileSize) (after_hashing E req fileSize)
              (emit (EvOpen fileSize) (s\<lparr>us_pos := 0\<rparr>)))"

end
