(* ===== verification/UploadRuns.thy ===== *)
theory UploadRuns
  imports Upload
begin

text \<open>
  Concrete uploads: a server that signs every part and keeps what is put, a database in memory and a file of
  three bytes in two parts. They are the inputs of the witnesses.
\<close>

definition answer_io :: "'resp \<Rightarrow> ('n, 'req, 'resp) api_io" where
  "answer_io resp = \<lparr>io_operationID = ''op'', io_marshal = (\<lambda>_. Inr []), io_new_request = (\<lambda>_. None),
     io_do = (\<lambda>_ _ n. (HttpBody [], n)), io_parse = (\<lambda>_. Inr \<lparr>ar_ErrCode = 0, ar_ErrMsg = [], ar_ErrDlt = [], ar_Data = ''x''\<rparr>),
     io_parse_data = Some (\<lambda>_. Inr resp), io_on_error = (\<lambda>_ n. n), io_api_addr = []\<rparr>"

definition signed_parts :: AuthSignParts where
  "signed_parts = \<lparr>as_Url = ''u'', as_Query = [], as_Header = [], as_Parts =
     [\<lparr>sp_PartNumber = 1, sp_Url = [], sp_Query = [], sp_Header = []\<rparr>,
      \<lparr>sp_PartNumber = 2, sp_Url = [], sp_Query = [], sp_Header = []\<rparr>]\<rparr>"

definition read_list :: "8 word list \<Rightarrow> nat \<Rightarrow> nat \<Rightarrow> go_error + 8 word list" where
  "read_list bs pos most = Inr (take most (drop pos bs))"

definition take_put ::
  "string \<Rightarrow> (string, string list) gomap \<Rightarrow> int \<Rightarrow> 8 word list list \<times> go_error option \<Rightarrow> 8 word list list \<Rightarrow>
   (nat \<times> (go_error + int \<times> (go_error + string))) \<times> 8 word list list" where
  "take_put url header sz body puts = ((length (fst body), Inr (200, Inr [])), puts @ [concat (fst body)])"

definition plain_md5 :: "8 word list \<Rightarrow> string" where
  "plain_md5 bs = map (\<lambda>b. char_of (unat b)) bs"

definition plain_gorm :: "(LocalUpload, LocalUpload list) gorm" where
  "plain_gorm = \<lparr>gorm_find = (\<lambda>p t. (Inr (filter p t), t)),
     gorm_take = (\<lambda>p t. (case find p t of None \<Rightarrow> Inl record_not_found | Some r \<Rightarrow> Inr r, t)),
     gorm_create = (\<lambda>xs t. if distinct (map up_PartHash (t @ xs)) then (None, t @ xs) else (Some db_fault, t)),
     gorm_updates = (\<lambda>p f t. ((None, length (filter p t)), map (\<lambda>r. if p r then f r else r) t)),
     gorm_delete = (\<lambda>p t. (None, filter (\<lambda>r. \<not> p r) t))\<rparr>"

interpretation pg: gorm_table plain_gorm "\<lambda>t. t" up_PartHash
  by unfold_locales (auto simp: plain_gorm_def dest!: find_SomeD split: if_splits option.splits)

definition upload_run ::
  "8 word list \<Rightarrow> 8 word list \<Rightarrow> (8 word list list, LocalUpload list, string) upload_env" where
  "upload_run hashed sent = \<lparr>ue_loginUserID = ''me'', ue_open = (\<lambda>_. Inr 3), ue_seek = None,
     ue_read_hash = read_list hashed, ue_read_send = read_list sent, ue_md5 = plain_md5, ue_detect = (\<lambda>_. ''text''),
     ue_limit_io = answer_io \<lparr>pl_MinPartSize = 2, pl_MaxPartSize = 10, pl_MaxNumSize = 5\<rparr>,
     ue_initiate_io = answer_io \<lparr>ir_Url = [], ir_Upload = Some
       \<lparr>su_UploadID = ''id'', su_PartSize = 2, su_Sign = Some signed_parts, su_ExpireTime = 7200000\<rparr>\<rparr>,
     ue_sign_io = answer_io signed_parts, ue_complete_io = answer_io ''done'', ue_db = Some (plain_gorm),
     ue_now = (\<lambda>_. 0), ue_parse_url = Inr, ue_url_query = (\<lambda>_. []), ue_set_query = (\<lambda>_ u. u), ue_url_string = (\<lambda>u. u),
     ue_new_request = (\<lambda>_. None), ue_put_buffer = 10, ue_put = take_put, ue_errs_args = GoError [], ue_errs_internal = GoError []\<rparr>"

definition fresh_upload :: "(8 word list list, LocalUpload list) upload_state" where
  "fresh_upload = \<lparr>us_net = [], us_table = [], us_partLimit = None, us_pos = 0, us_events = []\<rparr>"

definition sample_req :: UploadFileReq where
  "sample_req = \<lparr>ur_Filepath = ''f'', ur_Name = ''/n'', ur_ContentType = [], ur_Cause = [], ur_Uuid = []\<rparr>"

text \<open>The two parts of the file, and an upload of it that has put nothing.\<close>

definition sample_info :: partInfo where
  "sample_info = \<lparr>pi_ContentType = ''text'', pi_PartSize = 2, pi_PartNum = 2, pi_FileMd5 = plain_md5 [1, 2, 3],
     pi_PartMd5 = ''h'', pi_PartSizes = [2, 1], pi_PartMd5s = [plain_md5 [1, 2], plain_md5 [3]]\<rparr>"

definition sample_row :: LocalUpload where
  "sample_row = \<lparr>up_PartHash = ''h'', up_UploadID = ''id'', up_UploadInfo = EncodeToString (Serialize (NewBitmap 2)),
     up_ExpireTime = 7200000, up_CreateTime = 0\<rparr>"

definition sample_upload :: UploadInfo where
  "sample_upload = \<lparr>ui_PartNum = 2, ui_Bitmap = Some (NewBitmap 2), ui_DBInfo = Some sample_row,
     ui_Resp = \<lparr>ir_Url = [], ir_Upload = Some
       \<lparr>su_UploadID = ''id'', su_PartSize = 2, su_Sign = Some signed_parts, su_ExpireTime = 7200000\<rparr>\<rparr>,
     ui_CreateTime = None, ui_BatchSignNum = 2\<rparr>"

end
