(* ===== verification/UploadProps.thy ===== *)
theory UploadProps
  imports UploadRuns
begin

text \<open>
  What the upload of a file promises: the parts cover the file, the progress stays within the file,
  and an interrupted upload is resumed with the parts it has recorded.
\<close>

section \<open>The parts\<close>

lemma ceil_div_bounds:
  fixes a b :: int
  assumes "0 < a" and "0 < b"
  defines "q \<equiv> a sdiv b + (if a smod b \<noteq> 0 then 1 else 0)"
  shows "1 \<le> q" and "a \<le> b * q" and "b * (q - 1) < a"
proof -
  have dm: "b * (a div b) + a mod b = a" and m: "0 \<le> a mod b" "a mod b < b" using assms by simp_all
  have q: "q = a div b + (if a mod b \<noteq> 0 then 1 else 0)"
    using assms(1,2) by (simp add: q_def sdiv_nonneg smod_nonneg)
  have both: "a \<le> b * q \<and> b * (q - 1) < a"
  proof (cases "a mod b = 0")
    case True
    with dm assms(2) show ?thesis by (simp add: q right_diff_distrib)
  next
    case False
    then have eq: "b * q = b * (a div b) + b" "b * (q - 1) = b * (a div b)" by (simp_all add: q distrib_left)
    define d where "d = b * (a div b)"
    have "d + a mod b = a" and "0 < a mod b" using dm m False by (simp_all add: d_def)
    with m show ?thesis unfolding eq d_def [symmetric] by linarith
  qed
  show le: "a \<le> b * q" and "b * (q - 1) < a" using both by simp_all
  have "0 < q" using le assms(1,2) by (smt (verit) zero_less_mult_iff)
  then show "1 \<le> q" by simp
qed

lemma part_sizes_spec:
  fixes a p :: int
  assumes "0 < a" and "0 < p" and "is_i64 a" and num: "getPartNum a p = Some num"
  shows "\<exists>sizes. part_sizes a p num = Some sizes \<and> length sizes = nat num \<and> 1 \<le> num \<and> sum_list sizes = a \<and>
    (\<forall>sz \<in> set sizes. 0 < sz \<and> sz \<le> p)"
proof -
  have q: "num = a sdiv p + (if a smod p \<noteq> 0 then 1 else 0)" using num assms(2) by (simp add: getPartNum_def)
  note b = ceil_div_bounds [OF assms(1,2), folded q]
  let ?last = "a - p * (num - 1)"
  have last: "0 < ?last" "?last \<le> p" using b by (auto simp: algebra_simps)
  have "0 \<le> p * (num - 1)" using b(1) assms(2) by simp
  then have "is_i64 (p * (num - 1))" "is_i64 ?last" using b(3) last assms(1,3) by (auto simp: is_i64_def)
  then have wrap: "i64 (a - i64 (p * (num - 1))) = ?last" by (simp add: i64_simps)
  obtain k where k: "nat num = Suc k" using b(1) by (cases "nat num") auto
  then have num_k: "num = int k + 1" using b(1) by linarith
  let ?sizes = "(replicate (nat num) p)[nat num - 1 := ?last]"
  have eq: "?sizes = replicate k p @ [?last]"
    by (simp add: k list_update_append replicate_append_same [symmetric])
  have "sum_list ?sizes = a" unfolding eq by (simp add: sum_list_replicate num_k)
  moreover have "\<forall>sz \<in> set ?sizes. 0 < sz \<and> sz \<le> p" unfolding eq using last assms(2) by auto
  ultimately show ?thesis using b(1) by (simp add: part_sizes_def wrap)
qed

text \<open>
  C39: for a file within the server's limits the part size lies between the limits, and the file is cut into
  at most the allowed number of parts, none empty or larger than the part size, that make up the file.
\<close>
theorem upload_parts_cover:
  assumes "us_partLimit s = Some l" and "0 < pl_MinPartSize l" and "pl_MinPartSize l \<le> pl_MaxPartSize l"
    and "0 < pl_MaxNumSize l" and "is_i64 (pl_MaxPartSize l * pl_MaxNumSize l)"
    and "0 < sz" and "sz \<le> pl_MaxPartSize l * pl_MaxNumSize l"
  shows "\<exists>psize num sizes. partSize E sz s = Some (Inr psize, s) \<and> getPartNum sz psize = Some num \<and>
     part_sizes sz psize num = Some sizes \<and> pl_MinPartSize l \<le> psize \<and> psize \<le> pl_MaxPartSize l \<and>
     int (length sizes) = num \<and> num \<le> pl_MaxNumSize l \<and> sum_list sizes = sz \<and> (\<forall>x \<in> set sizes. 0 < x \<and> x \<le> psize)"
proof -
  let ?m = "pl_MinPartSize l" and ?M = "pl_MaxPartSize l" and ?N = "pl_MaxNumSize l"
  have "0 \<le> ?m * ?N" "?m * ?N \<le> ?M * ?N" using assms(2-4) by (simp_all add: mult_right_mono)
  then have wraps: "i64 (?M * ?N) = ?M * ?N" "i64 (?m * ?N) = ?m * ?N"
    using assms(5) by (auto simp: is_i64_def i64_simps)
  define q where "q = sz sdiv ?N + (if sz smod ?N \<noteq> 0 then 1 else 0)"
  note q = ceil_div_bounds [OF assms(6,4), folded q_def]
  define psize where "psize = (if sz \<le> ?m * ?N then ?m else q)"
  have run: "partSize E sz s = Some (Inr psize, s)"
    using assms wraps by (simp add: partSize_def op_then_def load_limit_def limited_size_def Let_def op_return_def
        psize_def q_def)
  have "?m * ?N < ?N * q" if "\<not> sz \<le> ?m * ?N" using that q(2) by linarith
  then have low: "?m \<le> psize" using assms(4) unfolding psize_def by (auto simp: mult.commute)
  have "?N * (q - 1) < ?M * ?N" using q(3) assms(7) by linarith
  then have "q - 1 < ?M" using assms(4) by (simp add: mult.commute)
  then have high: "psize \<le> ?M" using assms(3) by (simp add: psize_def)
  have pos: "0 < psize" using low assms(2) by linarith
  obtain num where num: "getPartNum sz psize = Some num" using pos by (simp add: getPartNum_def)
  then have num_eq: "num = sz sdiv psize + (if sz smod psize \<noteq> 0 then 1 else 0)"
    using pos by (simp add: getPartNum_def)
  have fits: "sz \<le> psize * ?N" using q(2) by (simp add: psize_def mult.commute)
  have "psize * (num - 1) < psize * ?N"
    using ceil_div_bounds(3) [OF assms(6) pos] fits by (simp add: num_eq)
  then have "num \<le> ?N" using pos by simp
  moreover have "is_i64 sz" using assms(5-7) by (auto simp: is_i64_def)
  ultimately show ?thesis
    using part_sizes_spec [OF assms(6) pos _ num] run num low high
    by (intro exI [of _ psize] exI [of _ num]) auto
qed

theorem upload_parts_cover_witness:
  "\<exists>psize num sizes. partSize (upload_run [] []) 25 (fresh_upload\<lparr>us_partLimit :=
        Some \<lparr>pl_MinPartSize = 4, pl_MaxPartSize = 10, pl_MaxNumSize = 3\<rparr>\<rparr>) =
        Some (Inr psize, fresh_upload\<lparr>us_partLimit :=
        Some \<lparr>pl_MinPartSize = 4, pl_MaxPartSize = 10, pl_MaxNumSize = 3\<rparr>\<rparr>) \<and>
     getPartNum 25 psize = Some num \<and> part_sizes 25 psize num = Some sizes \<and> num \<le> 3 \<and> sum_list sizes = 25"
  using upload_parts_cover [of "fresh_upload\<lparr>us_partLimit :=
        Some \<lparr>pl_MinPartSize = 4, pl_MaxPartSize = 10, pl_MaxNumSize = 3\<rparr>\<rparr>"
      "\<lparr>pl_MinPartSize = 4, pl_MaxPartSize = 10, pl_MaxNumSize = 3\<rparr>" 25 "upload_run [] []"]
  by (auto simp: is_i64_def)

section \<open>The progress\<close>

text \<open>A reader returns at most what it is asked for.\<close>

definition reader_ok :: "(nat \<Rightarrow> nat \<Rightarrow> go_error + 8 word list) \<Rightarrow> bool" where
  "reader_ok rd \<longleftrightarrow> (\<forall>pos most bs. rd pos most = Inr bs \<longrightarrow> length bs \<le> most)"

lemma read_chunks_length:
  "reader_ok rd \<Longrightarrow> length (concat (fst (read_chunks rd buf pos limit))) \<le> limit"
proof (induction rd buf pos limit rule: read_chunks.induct)
  case (1 rd buf pos limit)
  show ?case
  proof (cases "limit = 0 \<or> (\<exists>e. rd pos (min buf limit) = Inl e) \<or> rd pos (min buf limit) = Inr []")
    case True
    then show ?thesis by (subst read_chunks.simps) auto
  next
    case False
    then obtain bs where bs: "rd pos (min buf limit) = Inr bs" "bs \<noteq> []" and l: "limit \<noteq> 0"
      by (cases "rd pos (min buf limit)") auto
    have "length bs \<le> min buf limit" using "1.prems" bs(1) unfolding reader_ok_def by blast
    with "1.IH" [OF l bs(1,2) "1.prems"] bs l show ?thesis
      by (subst read_chunks.simps) (auto split: prod.split)
  qed
qed

text \<open>What \<^verbatim>\<open>UploadComplete\<close> reports of a file: never more than the file, never less than before the part.\<close>

definition progress_within :: "int \<Rightarrow> UploadEvent \<Rightarrow> bool" where
  "progress_within fileSize ev \<longleftrightarrow> (\<exists>stream stored. ev = EvUploadComplete fileSize stream stored \<and>
     0 \<le> stored \<and> stored \<le> stream \<and> stream \<le> fileSize)"

lemma progress_events_within:
  "0 \<le> uploaded \<Longrightarrow> 0 \<le> current \<Longrightarrow> uploaded + current + int (length (concat cs)) \<le> fileSize \<Longrightarrow> is_i64 fileSize \<Longrightarrow>
   \<forall>ev \<in> set (progress_events fileSize uploaded current cs). progress_within fileSize ev"
proof (induction cs arbitrary: current)
  case (Cons c cs)
  have fits: "is_i64 (current + int (length c))" "is_i64 (uploaded + (current + int (length c)))"
    using Cons.prems by (auto simp: is_i64_def)
  have "\<forall>ev \<in> set (progress_events fileSize uploaded (current + int (length c)) cs). progress_within fileSize ev"
    by (rule Cons.IH) (use Cons.prems in auto)
  with Cons.prems fits show ?case by (auto simp: Let_def i64_simps progress_within_def)
qed simp

section \<open>One part\<close>

text \<open>An upload in progress over \<open>n\<close> parts, and what the request for an address does not change of it.\<close>

definition upload_at :: "int \<Rightarrow> UploadInfo \<Rightarrow> bool" where
  "upload_at n u \<longleftrightarrow> (\<exists>b. ui_Bitmap u = Some b \<and> bitmap_ok n b) \<and> ui_PartNum u = n \<and>
     (\<exists>up sg. ir_Upload (ui_Resp u) = Some up \<and> su_Sign up = Some sg)"

definition same_upload :: "UploadInfo \<Rightarrow> UploadInfo \<Rightarrow> bool" where
  "same_upload u u' \<longleftrightarrow> ui_Bitmap u' = ui_Bitmap u \<and> ui_DBInfo u' = ui_DBInfo u"

lemma map_sum_Inr: "map_sum id (\<lambda>y. (u, y)) x = Inr (u', y) \<longleftrightarrow> x = Inr y \<and> u' = u"
  by (cases x) auto

lemma on_server_cases:
  obtains r n1 where "on_server f s = (r, s\<lparr>us_net := n1\<rparr>)"
  by (cases "f (us_net s)") (simp add: on_server_def)

lemma GetPartSign_spec:
  assumes "upload_at n u" and "1 \<le> p" and "p \<le> n"
  shows "\<exists>r n1. GetPartSign E u p s = Some (r, s\<lparr>us_net := n1\<rparr>) \<and>
    (\<forall>u' uh. r = Inr (u', uh) \<longrightarrow> upload_at n u' \<and> same_upload u u')"
proof -
  obtain up sg where up: "ir_Upload (ui_Resp u) = Some up" "su_Sign up = Some sg" and num: "ui_PartNum u = n"
    using assms(1) by (auto simp: upload_at_def)
  show ?thesis
  proof (cases "getIndex (ue_now E (us_net s)) (ui_CreateTime u) (su_Sign up) p")
    case (Some i)
    with assms up num show ?thesis
      by (intro exI [of _ "us_net s"] exI [of _ "map_sum id (\<lambda>uh. (u, uh)) (part_request E u i)"])
        (simp add: GetPartSign_def same_upload_def map_sum_Inr)
  next
    case None
    obtain r n1 where call: "on_server (authSign E \<lparr>aq_UploadID = su_UploadID up,
        aq_PartNumbers = next_parts (ui_BatchSignNum u) (ui_PartNum u) p\<rparr>) s = (r, s\<lparr>us_net := n1\<rparr>)"
      by (rule on_server_cases)
    show ?thesis
    proof (cases r)
      case (Inl e)
      with None up assms num call show ?thesis
        by (intro exI [of _ "Inl e"] exI [of _ n1]) (simp add: GetPartSign_def)
    next
      case (Inr sg')
      let ?now = "ue_now E n1"
      let ?u = "u\<lparr>ui_Resp := (ui_Resp u)\<lparr>ir_Upload := Some (up\<lparr>su_Sign := Some sg'\<rparr>)\<rparr>, ui_CreateTime := Some ?now\<rparr>"
      have at: "upload_at n ?u" "same_upload u ?u" using assms(1) by (auto simp: upload_at_def same_upload_def)
      have "\<exists>r'. GetPartSign E u p s = Some (r', s\<lparr>us_net := n1\<rparr>) \<and> (\<forall>u' uh. r' = Inr (u', uh) \<longrightarrow> u' = ?u)"
        using None up assms num call Inr
        by (cases "getIndex ?now (Some ?now) (Some sg') p") (simp_all add: GetPartSign_def Let_def map_sum_Inr)
      then show ?thesis using at by metis
    qed
  qed
qed


lemma doPut_spec:
  assumes "reader_ok (ue_read_send E)" and "0 \<le> sz" and "0 \<le> uploaded" and "uploaded + sz \<le> fileSize" and "is_i64 fileSize"
  shows "\<exists>r s1 evs. doPut E url header fileSize uploaded sz s = Some (r, s1) \<and> us_table s1 = us_table s \<and>
    us_events s1 = us_events s @ evs \<and> (\<forall>ev \<in> set evs. progress_within fileSize ev)"
proof (cases "ue_new_request E (ue_url_string E url)")
  case (Some e)
  then show ?thesis by (intro exI [of _ "Inl e"] exI [of _ s] exI [of _ "[]"]) (simp add: doPut_def Let_def)
next
  case None
  define body where "body = read_chunks (ue_read_send E) (ue_put_buffer E) (us_pos s) (nat sz)"
  obtain kr n1 where put: "on_server (ue_put E (ue_url_string E url) header sz body) s = (kr, s\<lparr>us_net := n1\<rparr>)"
    by (rule on_server_cases)
  obtain k pr where kr: "kr = (k, pr)" by (cases kr)
  let ?sent = "take k (fst body)" and ?evs = "progress_events fileSize uploaded 0 (take k (fst body))"
  have "concat (fst body) = concat ?sent @ concat (drop k (fst body))"
    by (metis append_take_drop_id concat_append)
  then have "length (concat ?sent) \<le> nat sz"
    using read_chunks_length [OF assms(1), of "ue_put_buffer E" "us_pos s" "nat sz"] by (simp add: body_def)
  then have within: "\<forall>ev \<in> set ?evs. progress_within fileSize ev"
    using assms by (intro progress_events_within) simp_all
  show ?thesis
  proof (cases "put_result (ue_url_string E url) pr")
    case None
    with \<open>ue_new_request E (ue_url_string E url) = None\<close> put kr within show ?thesis
      by (intro exI [of _ "Inr (concat ?sent)"] exI [of _ "s\<lparr>us_net := n1, us_pos := us_pos s + length (concat ?sent),
          us_events := us_events s @ ?evs\<rparr>"] exI [of _ ?evs]) (simp add: doPut_def Let_def body_def)
  next
    case (Some e)
    with \<open>ue_new_request E (ue_url_string E url) = None\<close> put kr within show ?thesis
      by (intro exI [of _ "Inl e"] exI [of _ "s\<lparr>us_net := n1, us_pos := us_pos s + length (concat ?sent),
          us_events := us_events s @ ?evs\<rparr>"] exI [of _ ?evs]) (simp add: doPut_def Let_def body_def)
  qed
qed

lemma bitmap_has_at: "upload_at n u \<Longrightarrow> int i < n \<Longrightarrow> bitmap_has u i \<noteq> None"
  using bm.get_in [of n _ "int i"] by (auto simp: upload_at_def bitmap_has_def)

lemma record_part_spec:
  assumes "upload_at n u" and "int i < n"
  shows "\<exists>u' t'. record_part E i u s = Some (Inr u', s\<lparr>us_table := t'\<rparr>) \<and> upload_at n u' \<and>
    (\<forall>j. j \<noteq> i \<longrightarrow> bitmap_has u' j = bitmap_has u j)"
proof -
  obtain b where b: "ui_Bitmap u = Some b" "bitmap_ok n b" using assms(1) by (auto simp: upload_at_def)
  obtain b' where b': "bitmap_Set (int i) b = Some b'" "bitmap_ok n b'"
      "\<forall>j. bitmap_Get b' j = (if j = int i then Some True else bitmap_Get b j)"
    using bm.put_in [OF b(2), of "int i"] assms(2) by auto
  show ?thesis
  proof (cases "ui_DBInfo u")
    case None
    with assms(1) show ?thesis by (intro exI [of _ u] exI [of _ "us_table s"]) (simp add: record_part_def)
  next
    case (Some db)
    let ?db = "db\<lparr>up_UploadInfo := EncodeToString (Serialize b')\<rparr>"
    let ?u = "u\<lparr>ui_Bitmap := Some b', ui_DBInfo := Some ?db\<rparr>"
    obtain t' where t': "(case ue_db E of None \<Rightarrow> s | Some G \<Rightarrow> snd (on_table (UpdateUpload G ?db) s)) = s\<lparr>us_table := t'\<rparr>"
    proof (cases "ue_db E")
      case None
      show ?thesis by (rule that [of "us_table s"]) (simp add: None)
    next
      case (Some G)
      show ?thesis by (rule that [of "snd (UpdateUpload G ?db (us_table s))"])
          (simp add: Some on_table_def split: prod.splits)
    qed
    have "record_part E i u s = Some (Inr ?u, s\<lparr>us_table := t'\<rparr>)"
      using Some b(1) b'(1) t' by (simp add: record_part_def Let_def)
    moreover have "upload_at n ?u" using assms(1) b'(2) by (auto simp: upload_at_def)
    moreover have "\<forall>j. j \<noteq> i \<longrightarrow> bitmap_has ?u j = bitmap_has u j" using b b'(3) by (simp add: bitmap_has_def)
    ultimately show ?thesis by blast
  qed
qed

lemma bitmap_has_same: "same_upload u u' \<Longrightarrow> bitmap_has u' j = bitmap_has u j"
  by (simp add: same_upload_def bitmap_has_def)

text \<open>What is left to send of the parts.\<close>

definition missing_size :: "UploadInfo \<Rightarrow> nat \<times> int \<Rightarrow> int" where
  "missing_size u p = (if bitmap_has u (fst p) = Some True then 0 else snd p)"

lemma send_part_spec:
  assumes "upload_at n u" and "int i < n" and "reader_ok (ue_read_send E)" and "0 \<le> sz" and "0 \<le> uploaded"
    and "uploaded + missing_size u (i, sz) \<le> fileSize" and "is_i64 fileSize"
  shows "\<exists>r s1 evs. send_part E fileSize i sz (u, uploaded) s = Some (r, s1) \<and>
    us_events s1 = us_events s @ evs \<and> (\<forall>ev \<in> set evs. progress_within fileSize ev) \<and>
    (\<forall>bs u' up'. r = Inr (bs, u', up') \<longrightarrow> upload_at n u' \<and> (\<forall>j. j \<noteq> i \<longrightarrow> bitmap_has u' j = bitmap_has u j) \<and>
       up' = uploaded + missing_size u (i, sz))"
    (is "\<exists>r s1 evs. ?P r s1 evs")
proof (cases "bitmap_has u i = Some True")
  case True
  show ?thesis
  proof (cases "read_chunks (ue_read_send E) (32 * 1024) (us_pos s) (nat sz)")
    case (Pair cs err)
    with True assms(1) show ?thesis
      by (cases err) (auto simp: send_part_def discard_part_def op_then_def op_return_def missing_size_def Let_def)
  qed
next
  case False
  then have no: "bitmap_has u i = Some False" using bitmap_has_at [OF assms(1,2)] by auto
  have fits: "uploaded + sz \<le> fileSize" using assms(6) False by (simp add: missing_size_def)
  then have wrap: "i64 (uploaded + sz) = uploaded + sz" using assms(4,5,7) by (auto simp: is_i64_def i64_simps)
  obtain r1 n1 where sign: "GetPartSign E u (int i + 1) s = Some (r1, s\<lparr>us_net := n1\<rparr>)"
      "\<And>u' uh. r1 = Inr (u', uh) \<Longrightarrow> upload_at n u' \<and> same_upload u u'"
    using GetPartSign_spec [OF assms(1), of "int i + 1" E s] assms(2) by auto
  show ?thesis
  proof (cases r1)
    case (Inl e)
    then show ?thesis
      by (intro exI [of _ "Inl e"] exI [of _ "s\<lparr>us_net := n1\<rparr>"] exI [of _ "[]"])
        (simp add: send_part_def no op_then_def sign(1))
  next
    case (Inr x)
    then obtain u1 url header where x: "r1 = Inr (u1, url, header)" by (cases x) auto
    then have u1: "upload_at n u1" "same_upload u u1" using sign(2) by auto
    obtain r2 s2 evs where put: "doPut E url header fileSize uploaded sz (s\<lparr>us_net := n1\<rparr>) = Some (r2, s2)"
        "us_events s2 = us_events s @ evs" "\<forall>ev \<in> set evs. progress_within fileSize ev"
      using doPut_spec [OF assms(3-5) fits assms(7), of url header "s\<lparr>us_net := n1\<rparr>"] by auto
    show ?thesis
    proof (cases r2)
      case (Inl e)
      with put show ?thesis
        by (intro exI [of _ "Inl e"] exI [of _ s2] exI [of _ evs]) (simp add: send_part_def no op_then_def sign(1) x)
    next
      case (Inr bs)
      obtain u2 t2 where rec: "record_part E i u1 s2 = Some (Inr u2, s2\<lparr>us_table := t2\<rparr>)" "upload_at n u2"
          "\<forall>j. j \<noteq> i \<longrightarrow> bitmap_has u2 j = bitmap_has u1 j"
        using record_part_spec [OF u1(1) assms(2), of E s2] by blast
      have "?P (Inr (bs, u2, uploaded + sz)) (s2\<lparr>us_table := t2\<rparr>) evs"
        using put rec Inr no bitmap_has_same [OF u1(2)]
        by (simp add: send_part_def op_then_def op_return_def sign(1) x wrap missing_size_def)
      then show ?thesis by blast
    qed
  qed
qed


section \<open>All parts\<close>

text \<open>The parts that are reported as done.\<close>

fun done_part :: "UploadEvent \<Rightarrow> (nat \<times> int \<times> string) list" where
  "done_part (EvUploadPartComplete i sz md5) = [(i, sz, md5)]"
| "done_part _ = []"

definition done_parts :: "UploadEvent list \<Rightarrow> (nat \<times> int \<times> string) list" where
  "done_parts evs = concat (map done_part evs)"

lemma done_parts_simps [simp]:
  "done_parts [] = []" "done_parts (xs @ ys) = done_parts xs @ done_parts ys"
  "done_parts [EvUploadPartComplete i sz md5] = [(i, sz, md5)]"
  by (simp_all add: done_parts_def)

lemma done_parts_progress: "\<forall>ev \<in> set evs. progress_within fileSize ev \<Longrightarrow> done_parts evs = []"
  by (induction evs) (auto simp: done_parts_def progress_within_def)

text \<open>Every event of the loop is about a part that is done or a progress within the file.\<close>

definition loop_event :: "int \<Rightarrow> UploadEvent \<Rightarrow> bool" where
  "loop_event fileSize ev \<longleftrightarrow> progress_within fileSize ev \<or> done_part ev \<noteq> []"

definition missing_total :: "UploadInfo \<Rightarrow> (nat \<times> int) list \<Rightarrow> int" where
  "missing_total u ps = (\<Sum>p\<leftarrow>ps. missing_size u p)"

lemma missing_total_cong:
  "(\<And>j. j \<in> fst ` set ps \<Longrightarrow> bitmap_has u' j = bitmap_has u j) \<Longrightarrow> missing_total u' ps = missing_total u ps"
  unfolding missing_total_def by (rule arg_cong [of _ _ sum_list]) (simp add: missing_size_def)

lemma missing_size_nonneg: "0 \<le> snd p \<Longrightarrow> 0 \<le> missing_size u p \<and> missing_size u p \<le> snd p"
  by (simp add: missing_size_def)

lemma missing_total_bounds:
  "\<forall>p \<in> set ps. 0 \<le> snd p \<Longrightarrow> 0 \<le> missing_total u ps \<and> missing_total u ps \<le> sum_list (map snd ps)"
proof (induction ps)
  case (Cons p ps)
  with missing_size_nonneg [of p u] show ?case by (simp add: missing_total_def)
qed (simp add: missing_total_def)

definition part_size :: "nat \<times> int \<times> string \<Rightarrow> nat \<times> int" where
  "part_size p = (fst p, fst (snd p))"

lemma send_parts_spec:
  assumes "upload_at n u" and "\<forall>p \<in> set ps. int (fst p) < n \<and> 0 \<le> fst (snd p)" and "distinct (map fst ps)"
    and "reader_ok (ue_read_send E)" and "0 \<le> uploaded"
    and "uploaded + missing_total u (map part_size ps) \<le> fileSize" and "is_i64 fileSize"
  shows "\<exists>r s1 evs rest. send_parts E fileSize ps (u, uploaded) s = Some (r, s1) \<and> us_events s1 = us_events s @ evs \<and>
    (\<forall>ev \<in> set evs. loop_event fileSize ev) \<and> ps = done_parts evs @ rest \<and>
    (\<forall>u' up'. r = Inr (u', up') \<longrightarrow> upload_at n u' \<and> rest = [])"
  using assms
proof (induction ps arbitrary: u uploaded s)
  case Nil
  then show ?case by (intro exI [of _ "Inr (u, uploaded)"] exI [of _ s] exI [of _ "[]"]) simp
next
  case (Cons p ps)
  obtain i sz md5 where p: "p = (i, sz, md5)" by (cases p)
  have tot: "missing_total u (map part_size (p # ps)) = missing_size u (i, sz) + missing_total u (map part_size ps)"
    by (simp add: missing_total_def p part_size_def)
  have nonneg: "0 \<le> missing_total u (map part_size ps)" "0 \<le> missing_size u (i, sz)"
    using missing_total_bounds [of "map part_size ps" u] missing_size_nonneg [of "(i, sz)" u] Cons.prems(2)
    by (auto simp: part_size_def p)
  have le: "uploaded + missing_size u (i, sz) \<le> fileSize" using Cons.prems(6) tot nonneg by linarith
  have i: "int i < n" "0 \<le> sz" using Cons.prems(2) by (auto simp: p)
  obtain r s1 evs where one: "send_part E fileSize i sz (u, uploaded) s = Some (r, s1)"
      "us_events s1 = us_events s @ evs" "\<forall>ev \<in> set evs. progress_within fileSize ev"
      "\<And>bs u' up'. r = Inr (bs, u', up') \<Longrightarrow> upload_at n u' \<and> (\<forall>j. j \<noteq> i \<longrightarrow> bitmap_has u' j = bitmap_has u j) \<and>
         up' = uploaded + missing_size u (i, sz)"
    using send_part_spec [OF Cons.prems(1) i(1) Cons.prems(4) i(2) Cons.prems(5) le Cons.prems(7), of s] by blast
  have quiet: "done_parts evs = []" "\<forall>ev \<in> set evs. loop_event fileSize ev"
    using one(3) done_parts_progress by (auto simp: loop_event_def)
  show ?case
  proof (cases r)
    case (Inl e)
    with one quiet show ?thesis
      by (intro exI [of _ "Inl e"] exI [of _ s1] exI [of _ evs] exI [of _ "p # ps"]) (simp add: p)
  next
    case (Inr x)
    then obtain bs u1 up1 where x: "r = Inr (bs, u1, up1)" by (cases x) auto
    note after = one(4) [OF x]
    show ?thesis
    proof (cases "ue_md5 E bs = md5")
      case False
      with one quiet show ?thesis
        by (intro exI [of _ "Inl (md5_error i md5 (ue_md5 E bs))"] exI [of _ s1] exI [of _ evs] exI [of _ "p # ps"])
          (simp add: p x)
    next
      case True
      have same: "missing_total u1 (map part_size ps) = missing_total u (map part_size ps)"
        by (rule missing_total_cong) (use after Cons.prems(3) in \<open>auto simp: part_size_def p\<close>)
      obtain r2 s2 evs2 rest where more: "send_parts E fileSize ps (u1, up1) (emit (EvUploadPartComplete i sz md5) s1) = Some (r2, s2)"
          "us_events s2 = us_events (emit (EvUploadPartComplete i sz md5) s1) @ evs2"
          "\<forall>ev \<in> set evs2. loop_event fileSize ev" "ps = done_parts evs2 @ rest"
          "\<forall>u' up'. r2 = Inr (u', up') \<longrightarrow> upload_at n u' \<and> rest = []"
        using Cons.IH [of u1 up1 "emit (EvUploadPartComplete i sz md5) s1"] after Cons.prems same tot le nonneg by auto
      show ?thesis
        by (intro exI [of _ r2] exI [of _ s2] exI [of _ "evs @ [EvUploadPartComplete i sz md5] @ evs2"] exI [of _ rest])
          (use one(1,2) more quiet True in \<open>auto simp: p x emit_def loop_event_def done_parts_def\<close>)
    qed
  qed
qed

lemma stored_size_spec:
  assumes "upload_at n u" and "\<forall>p \<in> set ps. int (fst p) < n \<and> 0 \<le> snd p" and "is_i64 left" and "sum_list (map snd ps) \<le> left"
  shows "stored_size u ps left = Some (left - missing_total u ps)"
  using assms(2-)
proof (induction ps arbitrary: left)
  case (Cons p ps)
  have pos: "0 \<le> sum_list (map snd ps)" by (rule sum_list_nonneg) (use Cons.prems(1) in auto)
  obtain i sz where p: "p = (i, sz)" by (cases p)
  obtain has where has: "bitmap_has u i = Some has"
    using bitmap_has_at [OF assms(1), of i] Cons.prems(1) by (auto simp: p)
  have fit: "is_i64 (left - sz)" using Cons.prems pos by (auto simp: is_i64_def p)
  show ?case
  proof (cases has)
    case True
    with Cons.IH [of left] Cons.prems has pos show ?thesis by (simp add: p missing_total_def missing_size_def)
  next
    case False
    with Cons.IH [of "left - sz"] Cons.prems has fit show ?thesis
      by (simp add: p missing_total_def missing_size_def i64_simps)
  qed
qed (simp add: missing_total_def)

lemma finish_upload_spec:
  assumes "upload_at n u"
  shows "\<exists>r s1 evs. finish_upload E req fileSize info resumed u s = Some (r, s1) \<and> us_events s1 = us_events s @ evs \<and>
    (case r of Inl _ \<Rightarrow> evs = [] | Inr url \<Rightarrow> evs = [EvComplete fileSize url (if resumed then 2 else 1)])"
proof -
  obtain up where up: "ir_Upload (ui_Resp u) = Some up" using assms by (auto simp: upload_at_def)
  obtain r n1 where call: "on_server (completeMultipartUpload E \<lparr>mq_UploadID = su_UploadID up, mq_Parts = pi_PartMd5s info,
      mq_Name = ur_Name req, mq_ContentType = ur_ContentType req, mq_Cause = ur_Cause req\<rparr>) s = (r, s\<lparr>us_net := n1\<rparr>)"
    by (rule on_server_cases)
  have table: "us_events (snd (on_table f s')) = us_events s'" for f :: "'b \<Rightarrow> 'd \<times> 'b" and s' :: "('a, 'b) upload_state"
    by (simp add: on_table_def split: prod.splits)
  show ?thesis
    using up call by (cases r) (auto simp: finish_upload_def Let_def emit_def table split: option.splits)
qed

lemma enumerate_zip_sizes:
  "length xs = length ys \<Longrightarrow> map part_size (enumerate k (zip xs ys)) = enumerate k xs"
  by (induction xs ys arbitrary: k rule: list_induct2) (simp_all add: part_size_def)

lemma enumerate_bound: "p \<in> set (enumerate 0 xs) \<Longrightarrow> fst p < length xs \<and> snd p \<in> set xs"
  using nth_mem by (fastforce simp: in_set_enumerate_eq)

lemma done_parts_EvComplete [simp]: "done_parts [EvComplete a b c] = []"
  by (simp add: done_parts_def)

text \<open>
  C40: sending the parts of a file never panics; it reports the parts in their order, and in between a
  progress that stays between what was stored before and the size of the file; when it succeeds, every part has
  been reported and the last report is the completion, which says whether the upload was resumed.
\<close>
theorem put_parts_reports:
  assumes "upload_at n u" and "n = int (length (pi_PartSizes info))" and "length (pi_PartMd5s info) = length (pi_PartSizes info)"
    and "\<forall>sz \<in> set (pi_PartSizes info). 0 < sz" and "sum_list (pi_PartSizes info) = fileSize" and "is_i64 fileSize"
    and "reader_ok (ue_read_send E)"
  shows "\<exists>r s1 evs rest. put_parts E req fileSize info u s = Some (r, s1) \<and>
    enumerate 0 (zip (pi_PartSizes info) (pi_PartMd5s info)) = done_parts evs @ rest \<and>
    (\<forall>ev \<in> set evs. loop_event fileSize ev) \<and>
    (case r of Inl _ \<Rightarrow> us_events s1 = us_events s @ evs
     | Inr url \<Rightarrow> rest = [] \<and> us_events s1 = us_events s @ evs @ [EvComplete fileSize url
         (if missing_total u (enumerate 0 (pi_PartSizes info)) < fileSize then 2 else 1)])"
proof -
  let ?sizes = "pi_PartSizes info" and ?ps = "enumerate 0 (zip (pi_PartSizes info) (pi_PartMd5s info))"
  have ps: "map part_size ?ps = enumerate 0 ?sizes" using assms(3) by (intro enumerate_zip_sizes) simp
  have range: "\<forall>p \<in> set (enumerate 0 ?sizes). int (fst p) < n \<and> 0 \<le> snd p"
    using enumerate_bound [of _ ?sizes] assms(2,4) by force
  have range': "\<forall>p \<in> set ?ps. int (fst p) < n \<and> 0 \<le> fst (snd p)"
    using range unfolding ps [symmetric] by (auto simp: part_size_def)
  have sum: "sum_list (map snd (enumerate 0 ?sizes)) = fileSize" by (simp add: assms(5))
  let ?stored = "fileSize - missing_total u (enumerate 0 ?sizes)"
  have stored: "stored_size u (enumerate 0 ?sizes) fileSize = Some ?stored"
    using stored_size_spec [OF assms(1) range assms(6)] sum by simp
  have "0 \<le> ?stored" using missing_total_bounds [of "enumerate 0 ?sizes" u] range sum by auto
  then obtain r s1 evs rest where loop: "send_parts E fileSize ?ps (u, ?stored) s = Some (r, s1)"
      "us_events s1 = us_events s @ evs" "\<forall>ev \<in> set evs. loop_event fileSize ev" "?ps = done_parts evs @ rest"
      "\<And>u' up'. r = Inr (u', up') \<Longrightarrow> upload_at n u' \<and> rest = []"
    using send_parts_spec [OF assms(1) range' _ assms(7), of ?stored fileSize s] assms(6) ps by auto
  show ?thesis
  proof (cases r)
    case (Inl e)
    with loop stored show ?thesis
      by (intro exI [of _ "Inl e"] exI [of _ s1] exI [of _ evs] exI [of _ rest]) (simp add: put_parts_def op_then_def)
  next
    case (Inr x)
    then obtain u' up' where x: "r = Inr (u', up')" by (cases x) auto
    let ?resumed = "?stored > 0"
    obtain r2 s2 evs2 where fin: "finish_upload E req fileSize info ?resumed u' s1 = Some (r2, s2)" "us_events s2 = us_events s1 @ evs2"
        "case r2 of Inl _ \<Rightarrow> evs2 = [] | Inr url \<Rightarrow> evs2 = [EvComplete fileSize url (if ?resumed then 2 else 1)]"
      using finish_upload_spec [of n u' E req fileSize info ?resumed s1] loop(5) [OF x] by blast
    have run: "put_parts E req fileSize info u s = Some (r2, s2)"
      using loop(1) stored x fin(1) by (simp add: put_parts_def op_then_def)
    show ?thesis
      by (intro exI [of _ r2] exI [of _ s2] exI [of _ evs] exI [of _ rest])
        (use run loop fin x in \<open>auto split: sum.splits\<close>)
  qed
qed


lemma sample_upload_at: "upload_at 2 sample_upload"
  by (simp add: upload_at_def sample_upload_def bitmap_ok_def NewBitmap_def)

lemma read_list_ok: "reader_ok (read_list bs)"
  by (auto simp: reader_ok_def read_list_def)

theorem put_parts_reports_witness:
  "\<exists>r s1 evs rest. put_parts (upload_run [1, 2, 3] [1, 2, 3]) sample_req 3 sample_info sample_upload fresh_upload = Some (r, s1) \<and>
     enumerate 0 (zip [2, 1] [plain_md5 [1, 2], plain_md5 [3]]) = done_parts evs @ rest \<and>
     (\<forall>ev \<in> set evs. loop_event 3 ev)"
proof -
  have "reader_ok (ue_read_send (upload_run [1, 2, 3] [1, 2, 3]))" by (simp add: upload_run_def read_list_ok)
  from put_parts_reports [OF sample_upload_at _ _ _ _ _ this, of sample_info 3 sample_req fresh_upload]
  show ?thesis by (auto simp: sample_info_def is_i64_def)
qed

section \<open>Resuming\<close>

text \<open>A database in which no statement fails for want of anything but rows.\<close>

definition steady :: "(LocalUpload, 't) gorm \<Rightarrow> ('t \<Rightarrow> LocalUpload list) \<Rightarrow> bool" where
  "steady G rows \<longleftrightarrow> (\<forall>p t. (\<exists>x \<in> set (rows t). p x) \<longrightarrow> (\<exists>y t'. gorm_take G p t = (Inr y, t'))) \<and>
     (\<forall>p f t. fst (fst (gorm_updates G p f t)) = None)"

text \<open>The row of an upload holds its bitmap.\<close>

definition row_holds :: "int \<Rightarrow> LocalUpload list \<Rightarrow> LocalUpload \<Rightarrow> bitmap \<Rightarrow> bool" where
  "row_holds n rs R b \<longleftrightarrow> R \<in> set rs \<and> distinct (map up_PartHash rs) \<and> up_PartHash R \<noteq> [] \<and> bitmap_ok n b \<and>
     up_UploadInfo R = EncodeToString (Serialize b)"

lemma emit_table [simp]: "us_table (emit ev s) = us_table s" "us_net (emit ev s) = us_net s"
  by (simp_all add: emit_def)

definition tracked :: "int \<Rightarrow> LocalUpload list \<Rightarrow> UploadInfo \<Rightarrow> LocalUpload \<Rightarrow> bitmap \<Rightarrow> bool" where
  "tracked n rs u R b \<longleftrightarrow> row_holds n rs R b \<and> ui_DBInfo u = Some R \<and> ui_Bitmap u = Some b \<and> upload_at n u"

text \<open>Rows of the same upload.\<close>

definition same_row :: "LocalUpload \<Rightarrow> LocalUpload \<Rightarrow> bool" where
  "same_row R R' \<longleftrightarrow> R' = R\<lparr>up_UploadInfo := up_UploadInfo R'\<rparr>"

lemma same_row_fields:
  "same_row R R' \<Longrightarrow> up_PartHash R' = up_PartHash R \<and> up_UploadID R' = up_UploadID R \<and> up_ExpireTime R' = up_ExpireTime R"
  unfolding same_row_def by (metis LocalUpload.ext_inject LocalUpload.surjective LocalUpload.update_convs(3))

lemma same_row_refl [simp]: "same_row R R"
  by (simp add: same_row_def)

lemma same_row_trans: "same_row R R' \<Longrightarrow> same_row R' R'' \<Longrightarrow> same_row R R''"
  unfolding same_row_def by (cases R; cases R'; cases R'') simp

lemma Serialize_nonempty: "bitmap_ok n b \<Longrightarrow> 0 < n \<Longrightarrow> Serialize b \<noteq> []"
proof -
  assume ok: "bitmap_ok n b" and n: "0 < n"
  have "0 < length (bm_data b)" using word_at_ok(2) [OF ok, of 0] n by simp
  then show "Serialize b \<noteq> []" using length_Serialize [of b] by (metis length_0_conv mult_is_0 nat_less_le zero_neq_numeral)
qed

lemma nonzero_over_record:
  "c \<noteq> [] \<Longrightarrow> upload_nonzero_over (R\<lparr>up_UploadInfo := c\<rparr>) R = R\<lparr>up_UploadInfo := c\<rparr>"
  by (cases R) (simp add: upload_nonzero_over_def nz_str_def nz_int_def)

lemma UpdateUpload_row:
  assumes G: "gorm_table G rows up_PartHash" and "steady G rows"
    and R: "R \<in> set (rows t)" "distinct (map up_PartHash (rows t))" "up_PartHash R \<noteq> []" and c: "c \<noteq> []"
  shows "\<exists>t'. UpdateUpload G (R\<lparr>up_UploadInfo := c\<rparr>) t = (None, t') \<and> R\<lparr>up_UploadInfo := c\<rparr> \<in> set (rows t') \<and>
    distinct (map up_PartHash (rows t'))"
proof -
  let ?R = "R\<lparr>up_UploadInfo := c\<rparr>" and ?p = "\<lambda>r. up_PartHash r = up_PartHash R"
  obtain n t' where up: "gorm_updates G ?p (upload_nonzero_over ?R) t = ((None, n), t')"
    using assms(2) unfolding steady_def by (metis prod.collapse)
  have rows: "rows t' = map (\<lambda>r. if ?p r then upload_nonzero_over ?R r else r) (rows t)"
    using gorm_table.updates_ok [OF G up] by simp
  have "upload_nonzero_over ?R R \<in> set (rows t')" using R(1) by (force simp: rows)
  moreover have "map up_PartHash (rows t') = map up_PartHash (rows t)"
    by (simp add: rows upload_nonzero_over_def)
  ultimately show ?thesis
    using up R(2,3) nonzero_over_record [OF c, of R]
    by (simp add: UpdateUpload_def gorm_updates_pk_def stmt_err_def wrap_act_def)
qed

lemma record_part_tracked:
  assumes G: "gorm_table G rows up_PartHash" "steady G rows" "ue_db E = Some G"
    and tr: "tracked n (rows (us_table s)) u R b" and i: "int i < n"
  shows "\<exists>u' t' R' b'. record_part E i u s = Some (Inr u', s\<lparr>us_table := t'\<rparr>) \<and> tracked n (rows t') u' R' b' \<and>
    same_row R R' \<and> parts_of b' = insert (int i) (parts_of b)"
proof -
  have b: "bitmap_ok n b" and at: "upload_at n u" and u: "ui_DBInfo u = Some R" "ui_Bitmap u = Some b"
    using tr by (simp_all add: tracked_def row_holds_def)
  obtain b' where b': "bitmap_Set (int i) b = Some b'" "bitmap_ok n b'"
      "\<forall>j. bitmap_Get b' j = (if j = int i then Some True else bitmap_Get b j)"
    using bm.put_in [OF b, of "int i"] i by auto
  let ?c = "EncodeToString (Serialize b')" let ?R = "R\<lparr>up_UploadInfo := ?c\<rparr>"
  have "?c \<noteq> []" using Serialize_nonempty [OF b'(2)] i by simp
  then obtain t' where t': "UpdateUpload G ?R (us_table s) = (None, t')" "?R \<in> set (rows t')"
      "distinct (map up_PartHash (rows t'))"
    using UpdateUpload_row [OF G(1,2), of R "us_table s" ?c] tr by (auto simp: tracked_def row_holds_def)
  let ?u = "u\<lparr>ui_Bitmap := Some b', ui_DBInfo := Some ?R\<rparr>"
  have "record_part E i u s = Some (Inr ?u, s\<lparr>us_table := t'\<rparr>)"
    using u b'(1) G(3) t'(1) by (simp add: record_part_def Let_def on_table_def)
  moreover have "tracked n (rows t') ?u ?R b'"
    using t' b'(2) tr at by (auto simp: tracked_def row_holds_def upload_at_def)
  moreover have "parts_of b' = insert (int i) (parts_of b)" using b'(3) by (auto simp: parts_of_def)
  moreover have "same_row R ?R" by (simp add: same_row_def)
  ultimately show ?thesis by blast
qed

lemma done_parts_progress_events: "done_parts (progress_events fileSize uploaded current cs) = []"
  by (induction cs arbitrary: current) (simp_all add: Let_def done_parts_def)

lemma doPut_frame:
  assumes "doPut E url header fileSize uploaded sz s = Some (r, s1)"
  shows "us_table s1 = us_table s \<and> (\<exists>evs. us_events s1 = us_events s @ evs \<and> done_parts evs = [])"
  using assms
  by (auto simp: doPut_def Let_def on_server_def done_parts_progress_events split: option.splits prod.splits
      intro: exI [of _ "[]"])

lemma send_part_tracked:
  assumes G: "gorm_table G rows up_PartHash" "steady G rows" "ue_db E = Some G"
    and tr: "tracked n (rows (us_table s)) u R b" and i: "int i < n"
    and run: "send_part E fileSize i sz (u, uploaded) s = Some (r, s1)"
  shows "(\<exists>evs. us_events s1 = us_events s @ evs \<and> done_parts evs = []) \<and>
    (case r of Inl _ \<Rightarrow> us_table s1 = us_table s
     | Inr (_, u', _) \<Rightarrow> \<exists>R' b'. tracked n (rows (us_table s1)) u' R' b' \<and> same_row R R' \<and>
         parts_of b' = insert (int i) (parts_of b))"
proof -
  have at: "upload_at n u" and u: "ui_Bitmap u = Some b" using tr by (simp_all add: tracked_def)
  consider (stored) "bitmap_has u i = Some True" | (fresh) "bitmap_has u i = Some False"
    using bitmap_has_at [OF at i] by (cases "bitmap_has u i") auto
  then show ?thesis
  proof cases
    case stored
    then have "int i \<in> parts_of b" using u by (simp add: bitmap_has_def parts_of_def)
    then have "parts_of b = insert (int i) (parts_of b)" by blast
    with stored run tr show ?thesis
      by (auto simp: send_part_def discard_part_def op_then_def op_return_def Let_def
          intro: exI [of _ "[]"] split: prod.splits option.splits)
        (metis same_row_refl)+
  next
    case fresh
    obtain r1 n1 where sign: "GetPartSign E u (int i + 1) s = Some (r1, s\<lparr>us_net := n1\<rparr>)"
        "\<And>u' uh. r1 = Inr (u', uh) \<Longrightarrow> upload_at n u' \<and> same_upload u u'"
      using GetPartSign_spec [OF at, of "int i + 1" E s] i by auto
    show ?thesis
    proof (cases r1)
      case (Inl e)
      with run fresh sign(1) show ?thesis by (auto simp: send_part_def op_then_def intro: exI [of _ "[]"])
    next
      case (Inr x)
      then obtain u1 url header where x: "r1 = Inr (u1, url, header)" by (cases x) auto
      have tr1: "tracked n (rows (us_table s)) u1 R b"
        using tr sign(2) [OF x] by (simp add: tracked_def same_upload_def)
      obtain r2 s2 where put: "doPut E url header fileSize uploaded sz (s\<lparr>us_net := n1\<rparr>) = Some (r2, s2)"
        using run fresh sign(1) x
        by (cases "doPut E url header fileSize uploaded sz (s\<lparr>us_net := n1\<rparr>)") (auto simp: send_part_def op_then_def)
      note frame = doPut_frame [OF put]
      show ?thesis
      proof (cases r2)
        case (Inl e)
        with run fresh sign(1) x put frame show ?thesis by (auto simp: send_part_def op_then_def)
      next
        case (Inr bs)
        have "tracked n (rows (us_table s2)) u1 R b" using tr1 frame by simp
        then obtain u2 t2 R' b' where rec: "record_part E i u1 s2 = Some (Inr u2, s2\<lparr>us_table := t2\<rparr>)"
            "tracked n (rows t2) u2 R' b'" "same_row R R'" "parts_of b' = insert (int i) (parts_of b)"
          using record_part_tracked [OF G, of n s2 u1 R b i] i by blast
        have "r = Inr (bs, u2, i64 (uploaded + sz))" "s1 = s2\<lparr>us_table := t2\<rparr>"
          using run fresh sign(1) x put Inr rec(1) by (simp_all add: send_part_def op_then_def op_return_def)
        with rec(2-4) frame show ?thesis by auto
      qed
    qed
  qed
qed

text \<open>The parts of a list.\<close>

definition part_set_of :: "(nat \<times> int \<times> string) list \<Rightarrow> int set" where
  "part_set_of ps = (\<lambda>p. int (fst p)) ` set ps"

lemma send_parts_tracked:
  assumes G: "gorm_table G rows up_PartHash" "steady G rows" "ue_db E = Some G"
    and "tracked n (rows (us_table s)) u R b" and "\<forall>p \<in> set ps. int (fst p) < n"
    and "send_parts E fileSize ps (u, uploaded) s = Some (r, s1)"
  shows "\<exists>evs rest R' b'. us_events s1 = us_events s @ evs \<and> ps = done_parts evs @ rest \<and>
    row_holds n (rows (us_table s1)) R' b' \<and> same_row R R' \<and>
    (parts_of b' = parts_of b \<union> part_set_of (done_parts evs) \<or>
     (\<exists>i x y. rest \<noteq> [] \<and> fst (hd rest) = i \<and> r = Inl (md5_error i x y) \<and>
        parts_of b' = insert (int i) (parts_of b \<union> part_set_of (done_parts evs))))"
  using assms(4-)
proof (induction ps arbitrary: u uploaded s R b)
  case Nil
  then show ?case
    by (intro exI [of _ "[]"] exI [of _ R] exI [of _ b]) (auto simp: tracked_def part_set_of_def)
next
  case (Cons p ps)
  obtain i sz md5 where p: "p = (i, sz, md5)" by (cases p)
  have i: "int i < n" using Cons.prems(2) by (simp add: p)
  have holds: "row_holds n (rows (us_table s)) R b" using Cons.prems(1) by (simp add: tracked_def)
  obtain r1 s2 where one: "send_part E fileSize i sz (u, uploaded) s = Some (r1, s2)"
    using Cons.prems(3) by (cases "send_part E fileSize i sz (u, uploaded) s") (auto simp: p)
  note spec = send_part_tracked [OF G Cons.prems(1) i one]
  then obtain evs1 where evs1: "us_events s2 = us_events s @ evs1" "done_parts evs1 = []" by auto
  show ?case
  proof (cases r1)
    case (Inl e)
    with spec have "us_table s2 = us_table s" by simp
    moreover have "r = Inl e" "s1 = s2" using Cons.prems(3) one Inl by (auto simp: p)
    ultimately show ?thesis using evs1 holds
      by (intro exI [of _ evs1] exI [of _ "p # ps"] exI [of _ R] exI [of _ b]) (simp add: part_set_of_def)
  next
    case (Inr x)
    then obtain bs u1 up1 where x: "r1 = Inr (bs, u1, up1)" by (cases x) auto
    with spec obtain R1 b1 where tr: "tracked n (rows (us_table s2)) u1 R1 b1" "same_row R R1"
        "parts_of b1 = insert (int i) (parts_of b)" by auto
    show ?thesis
    proof (cases "ue_md5 E bs = md5")
      case False
      then have "r = Inl (md5_error i md5 (ue_md5 E bs))" "s1 = s2" using Cons.prems(3) one x by (auto simp: p)
      with evs1 tr show ?thesis
        by (intro exI [of _ evs1] exI [of _ "p # ps"] exI [of _ R1] exI [of _ b1])
          (simp add: part_set_of_def p tracked_def, blast)
    next
      case True
      let ?s = "emit (EvUploadPartComplete i sz md5) s2"
      have tr1: "tracked n (rows (us_table ?s)) u1 R1 b1" using tr(1) by simp
      have rest: "\<forall>p \<in> set ps. int (fst p) < n" using Cons.prems(2) by simp
      have "send_parts E fileSize ps (u1, up1) ?s = Some (r, s1)" using Cons.prems(3) one x True by (simp add: p)
      from Cons.IH [OF tr1 rest this] obtain evs rest R' b' where more: "us_events s1 = us_events ?s @ evs" "ps = done_parts evs @ rest"
          "row_holds n (rows (us_table s1)) R' b'" "same_row R1 R'"
          "parts_of b' = parts_of b1 \<union> part_set_of (done_parts evs) \<or>
             (\<exists>i x y. rest \<noteq> [] \<and> fst (hd rest) = i \<and> r = Inl (md5_error i x y) \<and>
                parts_of b' = insert (int i) (parts_of b1 \<union> part_set_of (done_parts evs)))"
        by blast
      let ?evs = "evs1 @ [EvUploadPartComplete i sz md5] @ evs"
      have "done_parts ?evs = p # done_parts evs" using evs1(2) by (simp add: p done_parts_def)
      moreover have "us_events s1 = us_events s @ ?evs" using more(1) evs1(1) by (simp add: emit_def)
      moreover have "parts_of b1 \<union> part_set_of (done_parts evs) = parts_of b \<union> part_set_of (p # done_parts evs)"
        using tr(3) by (auto simp: part_set_of_def p)
      ultimately show ?thesis
        using more(2-5) same_row_trans [OF tr(2) more(4)]
        by (intro exI [of _ ?evs] exI [of _ rest] exI [of _ R'] exI [of _ b']) simp
    qed
  qed
qed


lemma resumable_row:
  assumes "row_holds n rs R b" and "1 < n" and "now sdiv 1000000 \<le> up_ExpireTime R - 3600 * 1000"
  shows "resumable now n R = Some (Serialize b)"
  using assms Serialize_nonempty [of n b]
  by (simp add: resumable_def row_holds_def DecodeString_EncodeToString)

lemma steady_take:
  "steady G rows \<Longrightarrow> x \<in> set (rows t) \<Longrightarrow> p x \<Longrightarrow> \<exists>y t'. gorm_take G p t = (Inr y, t')"
  unfolding steady_def by fast

lemma GetUpload_row:
  assumes "gorm_table G rows up_PartHash" and "steady G rows" and "row_holds n (rows t) R b"
  shows "\<exists>t'. GetUpload G (up_PartHash R) t = (Inr R, t')"
proof -
  let ?p = "\<lambda>r. up_PartHash r = up_PartHash R"
  have R: "R \<in> set (rows t)" "distinct (map up_PartHash (rows t))" using assms(3) by (simp_all add: row_holds_def)
  obtain y t' where y: "gorm_take G ?p t = (Inr y, t')"
    using steady_take [of G rows R t ?p, OF assms(2) R(1)] by auto
  then have "y \<in> set (rows t)" "up_PartHash y = up_PartHash R"
    using gorm_table.take_in [OF assms(1) y] by simp_all
  then have "y = R" using R by (simp add: distinct_map inj_on_def)
  with y show ?thesis by (simp add: GetUpload_def wrap_res_def)
qed

text \<open>A row is resumed with the bitmap it holds.\<close>

lemma getUpload_resumes:
  assumes "gorm_table G rows up_PartHash" and "steady G rows" and "ue_db E = Some G"
    and "row_holds n (rows (us_table s)) R b" and "1 < n"
    and "iq_Hash req = up_PartHash R" and "getPartNum (iq_Size req) (iq_PartSize req) = Some n"
    and "ue_now E (us_net s) sdiv 1000000 \<le> up_ExpireTime R - 3600 * 1000"
  shows "\<exists>t'. getUpload E req s = Some (Inr (resumed_info req n (Some (R, Serialize b))), s\<lparr>us_table := t'\<rparr>)"
    and "ui_Bitmap (resumed_info req n (Some (R, Serialize b))) = Some b"
proof -
  obtain t' where t': "GetUpload G (iq_Hash req) (us_table s) = (Inr R, t')"
    using GetUpload_row [OF assms(1,2,4)] unfolding assms(6) by blast
  with resumable_row [OF assms(4,5), of "ue_now E (us_net (s\<lparr>us_table := t'\<rparr>))"] assms(3,7,8)
  show "\<exists>t'. getUpload E req s = Some (Inr (resumed_info req n (Some (R, Serialize b))), s\<lparr>us_table := t'\<rparr>)"
    by (intro exI [of _ t']) (simp add: getUpload_def on_table_def resume_upload_def)
  show "ui_Bitmap (resumed_info req n (Some (R, Serialize b))) = Some b"
    using ParseBitmap_Serialize [of b] assms(4) by (simp add: resumed_info_def row_holds_def bitmap_ok_def bitmap_Size_def)
qed

text \<open>
  C12: an upload that was interrupted while its parts were sent, by any error, is resumed from the local database
  under the same identifier, with the parts that were stored before and those reported as done, and no other,
  except the next one when its digest was wrong.
\<close>
theorem interrupted_upload_resumes:
  assumes "gorm_table G rows up_PartHash" and "steady G rows" and "ue_db E = Some G"
    and "tracked n (rows (us_table s)) u R b" and "1 < n" and "\<forall>p \<in> set ps. int (fst p) < n"
    and "send_parts E fileSize ps (u, uploaded) s = Some (r, s1)"
    and "iq_Hash req = up_PartHash R" and "getPartNum (iq_Size req) (iq_PartSize req) = Some n"
    and "ue_now E (us_net s1) sdiv 1000000 \<le> up_ExpireTime R - 3600 * 1000"
  shows "\<exists>evs rest u' s2 b' up. us_events s1 = us_events s @ evs \<and> ps = done_parts evs @ rest \<and>
    getUpload E req s1 = Some (Inr u', s2) \<and> ui_Bitmap u' = Some b' \<and> ir_Upload (ui_Resp u') = Some up \<and>
    su_UploadID up = up_UploadID R \<and>
    (parts_of b' = parts_of b \<union> part_set_of (done_parts evs) \<or>
     (\<exists>i x y. rest \<noteq> [] \<and> fst (hd rest) = i \<and> r = Inl (md5_error i x y) \<and>
        parts_of b' = insert (int i) (parts_of b \<union> part_set_of (done_parts evs))))"
proof -
  obtain evs rest R' b' where out: "us_events s1 = us_events s @ evs" "ps = done_parts evs @ rest"
      "row_holds n (rows (us_table s1)) R' b'" "same_row R R'"
      "parts_of b' = parts_of b \<union> part_set_of (done_parts evs) \<or>
       (\<exists>i x y. rest \<noteq> [] \<and> fst (hd rest) = i \<and> r = Inl (md5_error i x y) \<and>
          parts_of b' = insert (int i) (parts_of b \<union> part_set_of (done_parts evs)))"
    using send_parts_tracked [OF assms(1-4,6,7)] by blast
  note same = same_row_fields [OF out(4)]
  have "iq_Hash req = up_PartHash R'" "ue_now E (us_net s1) sdiv 1000000 \<le> up_ExpireTime R' - 3600 * 1000"
    using assms(8,10) same by simp_all
  note resume = getUpload_resumes [OF assms(1-3) out(3) assms(5) this(1) assms(9) this(2)]
  let ?u = "resumed_info req n (Some (R', Serialize b'))"
  from resume out(1,2,5) same show ?thesis
    by (intro exI [of _ evs] exI [of _ rest] exI [of _ ?u]) (auto simp: resumed_info_def)
qed

lemma sample_tracked: "tracked 2 [sample_row] sample_upload sample_row (NewBitmap 2)"
  using sample_upload_at by (auto simp: tracked_def row_holds_def sample_upload_def sample_row_def upload_at_def)

lemma steady_plain: "steady plain_gorm (\<lambda>t. t)"
  by (auto simp: steady_def plain_gorm_def find_None_iff split: option.splits)

theorem interrupted_upload_resumes_witness:
  "\<exists>r s1 u' s2 b'. send_parts (upload_run [1, 2, 3] [1, 2, 9]) 3 (enumerate 0 (zip [2, 1] [plain_md5 [1, 2], plain_md5 [3]]))
       (sample_upload, 0) (fresh_upload\<lparr>us_table := [sample_row]\<rparr>) = Some (r, s1) \<and>
     getUpload (upload_run [1, 2, 3] [1, 2, 9]) \<lparr>iq_Hash = ''h'', iq_Size = 3, iq_PartSize = 2, iq_MaxParts = 2,
       iq_Cause = [], iq_Name = ''n'', iq_ContentType = []\<rparr> s1 = Some (Inr u', s2) \<and> ui_Bitmap u' = Some b'"
proof -
  let ?E = "upload_run [1, 2, 3] [1, 2, 9]" and ?ps = "enumerate 0 (zip [2, 1] [plain_md5 [1, 2], plain_md5 [3]])"
  let ?s = "fresh_upload\<lparr>us_table := [sample_row]\<rparr>"
  let ?req = "\<lparr>iq_Hash = ''h'', iq_Size = 3, iq_PartSize = 2, iq_MaxParts = 2, iq_Cause = [], iq_Name = ''n'', iq_ContentType = []\<rparr>"
  have "case send_parts ?E 3 ?ps (sample_upload, 0) ?s of None \<Rightarrow> False | Some _ \<Rightarrow> True" by code_simp
  then obtain r s1 where run: "send_parts ?E 3 ?ps (sample_upload, 0) ?s = Some (r, s1)"
    by (auto split: option.splits)
  have tr: "tracked 2 (us_table ?s) sample_upload sample_row (NewBitmap 2)" using sample_tracked by simp
  have db: "ue_db ?E = Some plain_gorm" and now: "ue_now ?E n = 0" for n by (simp_all add: upload_run_def)
  from interrupted_upload_resumes [OF pg.gorm_table_axioms steady_plain db tr _ _ run, of ?req]
  have "\<exists>u' s2 b'. getUpload ?E ?req s1 = Some (Inr u', s2) \<and> ui_Bitmap u' = Some b'"
    by (auto simp: now sample_row_def getPartNum_def)
  with run show ?thesis by blast
qed

text \<open>
  C17: a part that was put with other bytes than were hashed makes the upload fail, but it has been recorded as
  stored by then: the next upload of the same file resumes with the part in its bitmap and does not put it again.
\<close>
theorem corrupted_part_recorded:
  assumes "gorm_table G rows up_PartHash" and "steady G rows" and "ue_db E = Some G"
    and "tracked n (rows (us_table s)) u R b" and "1 < n" and "int i < n"
    and "send_part E fileSize i sz (u, uploaded) s = Some (Inr (bs, u1, up1), s1)" and "ue_md5 E bs \<noteq> md5"
    and "iq_Hash req = up_PartHash R" and "getPartNum (iq_Size req) (iq_PartSize req) = Some n"
    and "ue_now E (us_net s1) sdiv 1000000 \<le> up_ExpireTime R - 3600 * 1000"
  shows "send_parts E fileSize ((i, sz, md5) # rest) (u, uploaded) s = Some (Inl (md5_error i md5 (ue_md5 E bs)), s1) \<and>
    (\<exists>u' s2. getUpload E req s1 = Some (Inr u', s2) \<and> bitmap_has u' i = Some True)"
proof -
  obtain R' b' where row: "tracked n (rows (us_table s1)) u1 R' b'" "same_row R R'" "parts_of b' = insert (int i) (parts_of b)"
    using send_part_tracked [OF assms(1-4,6,7)] by auto
  then have holds: "row_holds n (rows (us_table s1)) R' b'" by (simp add: tracked_def)
  note same = same_row_fields [OF row(2)]
  have "iq_Hash req = up_PartHash R'" "ue_now E (us_net s1) sdiv 1000000 \<le> up_ExpireTime R' - 3600 * 1000"
    using assms(9,11) same by simp_all
  note resume = getUpload_resumes [OF assms(1-3) holds assms(5) this(1) assms(10) this(2)]
  have "bitmap_has (resumed_info req n (Some (R', Serialize b'))) i = Some True"
    using resume(2) row(3) by (auto simp: bitmap_has_def parts_of_def)
  with resume(1) assms(7,8) show ?thesis by auto
qed

theorem corrupted_part_recorded_witness:
  "\<exists>e s1 u' s2. send_parts (upload_run [1, 2, 3] [9, 2, 3]) 3 [(0, 2, plain_md5 [1, 2]), (1, 1, plain_md5 [3])]
       (sample_upload, 0) (fresh_upload\<lparr>us_table := [sample_row]\<rparr>) = Some (Inl e, s1) \<and> us_net s1 = [[9, 2]] \<and>
     getUpload (upload_run [1, 2, 3] [9, 2, 3]) \<lparr>iq_Hash = ''h'', iq_Size = 3, iq_PartSize = 2, iq_MaxParts = 2,
       iq_Cause = [], iq_Name = ''n'', iq_ContentType = []\<rparr> s1 = Some (Inr u', s2) \<and> bitmap_has u' 0 = Some True"
proof -
  let ?E = "upload_run [1, 2, 3] [9, 2, 3]" and ?s = "fresh_upload\<lparr>us_table := [sample_row]\<rparr>"
  let ?req = "\<lparr>iq_Hash = ''h'', iq_Size = 3, iq_PartSize = 2, iq_MaxParts = 2, iq_Cause = [], iq_Name = ''n'', iq_ContentType = []\<rparr>"
  have "case send_part ?E 3 0 2 (sample_upload, 0) ?s of Some (Inr (bs, _, _), s1) \<Rightarrow> bs = [9, 2] \<and> us_net s1 = [[9, 2]] | _ \<Rightarrow> False"
    by code_simp
  then obtain u1 up1 s1 where run: "send_part ?E 3 0 2 (sample_upload, 0) ?s = Some (Inr ([9, 2], u1, up1), s1)" "us_net s1 = [[9, 2]]"
    by (auto split: option.splits prod.splits sum.splits)
  have tr: "tracked 2 (us_table ?s) sample_upload sample_row (NewBitmap 2)" using sample_tracked by simp
  have db: "ue_db ?E = Some plain_gorm" and now: "ue_now ?E n = 0" and md5: "ue_md5 ?E = plain_md5" for n
    by (simp_all add: upload_run_def)
  have diff: "ue_md5 ?E [9, 2] \<noteq> plain_md5 [1, 2]" unfolding md5 by (simp add: plain_md5_def)
  from corrupted_part_recorded [OF pg.gorm_table_axioms steady_plain db tr _ _ run(1) diff, of ?req "[(1, 1, plain_md5 [3])]"]
  show ?thesis using run(2) by (auto simp: now sample_row_def getPartNum_def)
qed

end
