(* ===== verification/ConvApi.thy ===== *)
theory ConvApi
  imports ConvUpdate Api
begin

text \<open>
  What the remaining operations of \<^verbatim>\<open>internal/conversation_msg\<close> ask of the server and of the codec: the HTTP
  requests, as one type, posted through \<open>ApiPost\<close>, and the notifications they decode. \<open>run_update\<close> is a call
  of \<^verbatim>\<open>doUpdateConversation\<close> within the component.
\<close>

section \<open>Requests\<close>

definition ClearConversationMsgRouter :: string where "ClearConversationMsgRouter = ''/msg/clear_conversation_msg''"
definition ClearAllMsgRouter :: string where "ClearAllMsgRouter = ''/msg/user_clear_all_msg''"
definition DeleteMsgsRouter :: string where "DeleteMsgsRouter = ''/msg/delete_msgs''"
definition RevokeMsgRouter :: string where "RevokeMsgRouter = ''/msg/revoke_msg''"
definition MarkMsgsAsReadRouter :: string where "MarkMsgsAsReadRouter = ''/msg/mark_msgs_as_read''"
definition MarkConversationAsRead :: string where "MarkConversationAsRead = ''/msg/mark_conversation_as_read''"
definition SetConversationHasReadSeq :: string where "SetConversationHasReadSeq = ''/msg/set_conversation_has_read_seq''"

definition RevokeNotification :: int where "RevokeNotification = 2101"

datatype conv_request =
    ClearConversationsMsgReq (req_UserID: string) (req_ConversationIDs: "string list")
  | UserClearAllMsgReq (req_UserID: string)
  | DeleteMsgsReq (req_ConversationID: string) (req_Seqs: "int list") (req_UserID: string)
  | RevokeMsgReq (req_ConversationID: string) (req_Seq: int) (req_UserID: string)
  | MarkMsgsAsReadReq (req_ConversationID: string) (req_Seqs: "int list") (req_UserID: string)
  | MarkConversationAsReadReq (req_ConversationID: string) (req_UserID: string) (req_HasReadSeq: int) (req_Seqs: "int list")
  | SetConversationHasReadSeqReq (req_ConversationID: string) (req_UserID: string) (req_HasReadSeq: int)

section \<open>Notifications\<close>

record RevokeMsgTips =
  rt_RevokerUserID :: string
  rt_ClientMsgID :: string
  rt_RevokeTime :: int
  rt_SesstionType :: int
  rt_Seq :: int
  rt_ConversationID :: string
  rt_IsAdminRevoke :: bool

record DeleteMsgsTips =
  dt_UserID :: string
  dt_ConversationID :: string
  dt_Seqs :: "int list"

record ClearConversationTips =
  ct_UserID :: string
  ct_ConversationIDs :: "string list"

record MarkAsReadTips =
  mt_MarkAsReadUserID :: string
  mt_ConversationID :: string
  mt_Seqs :: "int list"
  mt_HasReadSeq :: int

text \<open>
  The codec of these messages, the calls, and what the database operations take beside the tables: \<open>ca_rollback\<close> and
  \<open>ca_stamp\<close> are arguments of \<open>DecrConversationUnreadCount\<close> and \<open>MarkConversationMessageAsReadDB\<close>. \<open>ca_dec_QuotePtr\<close> decodes into a
  nil pointer, which stays nil when the text is not JSON. \<open>ca_quoted\<close> and
  \<open>ca_revoke_quoted\<close> read the identifier of a quoted message and replace its content and type.
\<close>

record ('q, 't, 'n) conv_api =
  ca_io :: "('n, conv_request, unit) api_io"
  ca_dec_RevokeMsgTips :: "string \<Rightarrow> go_error option \<times> RevokeMsgTips"
  ca_dec_DeleteMsgsTips :: "string \<Rightarrow> go_error option \<times> DeleteMsgsTips"
  ca_dec_ClearConversationTips :: "string \<Rightarrow> go_error option \<times> ClearConversationTips"
  ca_dec_MarkAsReadTips :: "string \<Rightarrow> go_error option \<times> MarkAsReadTips"
  ca_enc_MessageRevoked :: "MessageRevoked \<Rightarrow> string"
  ca_enc_ChatLog :: "LocalChatLog \<Rightarrow> string"
  ca_enc_Receipts :: "MessageReceipt list \<Rightarrow> string"
  ca_dec_QuotePtr :: "string \<Rightarrow> 'q QuoteElem option"
  ca_quoted :: "'q \<Rightarrow> string"
  ca_revoke_quoted :: "string \<Rightarrow> int \<Rightarrow> 'q \<Rightarrow> 'q"
  ca_rollback :: "'t \<Rightarrow> 't \<Rightarrow> 't"
  ca_stamp :: "string \<Rightarrow> string"

definition api_post ::
  "('q, 't, 'n) conv_api \<Rightarrow> string \<Rightarrow> conv_request \<Rightarrow> ('t, 'n) conv_state \<Rightarrow> go_error option \<times> ('t, 'n) conv_state" where
  "api_post A router req s =
     (case on_net (ApiPost (ca_io A) router req) s of
        (Inl e, s1) \<Rightarrow> (Some e, s1) | (Inr _, s1) \<Rightarrow> (None, s1))"

text \<open>\<^verbatim>\<open>UnmarshalNotificationElem\<close>: what could not be decoded keeps the zero value \<open>zero\<close>.\<close>

definition UnmarshalNotificationElem ::
  "'q json_codec \<Rightarrow> (string \<Rightarrow> go_error option \<times> 'a) \<Rightarrow> 'a \<Rightarrow> string \<Rightarrow> go_error option \<times> 'a" where
  "UnmarshalNotificationElem J dec zero bytes =
     (case dec_NotificationElem J bytes of
        (Some e, _) \<Rightarrow> (wrap_err (Some e) ''json Unmarshal failed'', zero)
      | (None, n) \<Rightarrow> (case dec (ne_Detail n) of (err, t) \<Rightarrow> (wrap_err err ''json Unmarshal failed'', t)))"

section \<open>Errors and updates\<close>

text \<open>\<^verbatim>\<open>x, err := f(); if err != nil { return err }\<close> and what follows.\<close>

definition get_then :: "(go_error + 'a) \<times> 's \<Rightarrow> ('a \<Rightarrow> 's \<Rightarrow> go_error option \<times> 's) \<Rightarrow> go_error option \<times> 's" where
  "get_then r k = (case r of (Inl e, s) \<Rightarrow> (Some e, s) | (Inr a, s) \<Rightarrow> k a s)"

definition act_then :: "go_error option \<times> 's \<Rightarrow> ('s \<Rightarrow> go_error option \<times> 's) \<Rightarrow> go_error option \<times> 's" where
  "act_then r k = (case r of (Some e, s) \<Rightarrow> (Some e, s) | (None, s) \<Rightarrow> k s)"

lemma get_then_simps [simp]: "get_then (Inl e, s) k = (Some e, s)" "get_then (Inr a, s) k = k a s"
  by (simp_all add: get_then_def)

lemma act_then_simps [simp]: "act_then (Some e, s) k = (Some e, s)" "act_then (None, s) k = k s"
  by (simp_all add: act_then_def)

lemma get_then_None: "get_then r k = (None, s') \<longleftrightarrow> (\<exists>a s1. r = (Inr a, s1) \<and> k a s1 = (None, s'))"
  by (auto simp: get_then_def split: prod.splits sum.splits)

lemma act_then_None: "act_then r k = (None, s') \<longleftrightarrow> (\<exists>s1. r = (None, s1) \<and> k s1 = (None, s'))"
  by (auto simp: act_then_def split: prod.splits option.splits)

text \<open>
  The commands a component gives itself have the argument their action expects, so that the call does not panic
  (\<open>run_con_change\<close> to \<open>run_latest\<close>).
\<close>

definition run_update ::
  "('q, 't, 'n) conv_env \<Rightarrow> UpdateConNode \<Rightarrow> ('t, 'n) conv_state \<Rightarrow> ('t, 'n) conv_state" where
  "run_update E node s = (case doUpdateConversation E node s of Some s' \<Rightarrow> s' | None \<Rightarrow> s)"

definition con_change :: "string \<Rightarrow> string list \<Rightarrow> UpdateConNode" where
  "con_change conID ids = \<lparr>ucn_ConID = conID, ucn_Action = ConChange, ucn_Args = ArgIDs ids\<rparr>"

definition total_changed :: UpdateConNode where
  "total_changed = \<lparr>ucn_ConID = [], ucn_Action = TotalUnreadMessageChanged, ucn_Args = ArgNil\<rparr>"

lemma run_con_change [simp]: "run_update E (con_change conID ids) s = conversations_changed E ids s"
  by (simp add: run_update_def con_change_def doUpdateConversation_def update_actions)

lemma run_total_changed [simp]: "run_update E total_changed s = total_unread_changed E s"
  by (simp add: run_update_def total_changed_def doUpdateConversation_def update_actions)

text \<open>\<^verbatim>\<open>copier.Copy\<close> from a stored message into a message structure: the fields of the same name, also empty ones.\<close>

definition copy_log :: "LocalChatLog \<Rightarrow> 'q MsgStruct \<Rightarrow> 'q MsgStruct" where
  "copy_log v m = m\<lparr>ms_ClientMsgID := cl_ClientMsgID v, ms_ServerMsgID := cl_ServerMsgID v,
     ms_CreateTime := cl_CreateTime v, ms_SendTime := cl_SendTime v, ms_SessionType := cl_SessionType v,
     ms_SendID := cl_SendID v, ms_RecvID := cl_RecvID v, ms_MsgFrom := cl_MsgFrom v, ms_ContentType := cl_ContentType v,
     ms_SenderPlatformID := cl_SenderPlatformID v, ms_SenderNickname := cl_SenderNickname v,
     ms_SenderFaceURL := cl_SenderFaceURL v, ms_Content := cl_Content v, ms_Seq := cl_Seq v, ms_IsRead := cl_IsRead v,
     ms_Status := cl_Status v, ms_IsReact := cl_IsReact v, ms_IsExternalExtensions := cl_IsExternalExtensions v,
     ms_AttachedInfo := cl_AttachedInfo v, ms_Ex := cl_Ex v, ms_LocalEx := cl_LocalEx v\<rparr>"

end
