(* ===== verification/ConvRevoke.thy ===== *)
theory ConvRevoke
  imports ConvApi
begin

text \<open>
  \<^verbatim>\<open>internal/conversation_msg/revoke.go\<close>: a revoked message is replaced by a notification, the latest message of its
  conversation and the messages that quote it follow, and the listener is told.
\<close>

text \<open>The revoker's role and name; \<open>None\<close> when the conversation cannot be read, which ends the revocation.\<close>

definition revoker ::
  "('q, 't, 'n) conv_env \<Rightarrow> RevokeMsgTips \<Rightarrow> ('t, 'n) conv_state \<Rightarrow> (int \<times> string) option \<times> ('t, 'n) conv_state" where
  "revoker E tips s =
     (if rt_IsAdminRevoke tips \<or> rt_SesstionType tips = SingleChatType
      then (case getUserNameAndFaceURL E (rt_RevokerUserID tips) s of
              (Inl e, s1) \<Rightarrow> (Some (0, []), s1) | (Inr (faceURL, userName), s1) \<Rightarrow> (Some (0, userName), s1))
      else if rt_SesstionType tips = SuperGroupChatType
      then (case on_db (GetConversation (cx_conv E) (rt_ConversationID tips)) s of
              (Inl e, s1) \<Rightarrow> (None, s1)
            | (Inr conversation, s1) \<Rightarrow>
                (case on_db (GetGroupMemberInfoByGroupIDUserID (cx_members E) (cv_GroupID conversation) (rt_RevokerUserID tips)) s1 of
                   (Inl e, s2) \<Rightarrow> (Some (0, []), s2)
                 | (Inr groupMember, s2) \<Rightarrow> (Some (gm_RoleLevel groupMember, gm_Nickname groupMember), s2)))
      else (Some (0, []), s))"

definition revoked_message :: "RevokeMsgTips \<Rightarrow> LocalChatLog \<Rightarrow> int \<times> string \<Rightarrow> MessageRevoked" where
  "revoked_message tips m role_name = \<lparr>mrv_RevokerID = rt_RevokerUserID tips, mrv_RevokerRole = fst role_name,
     mrv_ClientMsgID = cl_ClientMsgID m, mrv_RevokerNickname = snd role_name, mrv_RevokeTime = rt_RevokeTime tips,
     mrv_SourceMessageSendTime = cl_SendTime m, mrv_SourceMessageSendID = cl_SendID m,
     mrv_SourceMessageSenderNickname = cl_SenderNickname m, mrv_SessionType = rt_SesstionType tips, mrv_Seq = rt_Seq tips,
     mrv_Ex = cl_Ex m, mrv_IsAdminRevoke = rt_IsAdminRevoke tips\<rparr>"

definition revocation_row :: "('q, 't, 'n) conv_env \<Rightarrow> ('q, 't, 'n) conv_api \<Rightarrow> int \<Rightarrow> MessageRevoked \<Rightarrow> LocalChatLog" where
  "revocation_row E A seq m = zero_chat_log\<lparr>cl_Seq := seq, cl_ContentType := RevokeNotification,
     cl_Content := enc_NotificationElem (cx_codec E) (Some \<lparr>ne_Detail = ca_enc_MessageRevoked A m\<rparr>)\<rparr>"

text \<open>The conversation's latest message after the revocation; \<open>False\<close> when the operation ends there.\<close>

definition latest_revoked ::
  "('q, 't, 'n) conv_env \<Rightarrow> RevokeMsgTips \<Rightarrow> LocalConversation \<Rightarrow> ('t, 'n) conv_state \<Rightarrow> bool \<times> ('t, 'n) conv_state" where
  "latest_revoked E tips conversation s =
     (if ms_Seq (snd (dec_Msg (cx_codec E) (cv_LatestMsg conversation) zero_msg)) \<le> rt_Seq tips
      then (case on_db (GetMessageListNoTime (cx_chat E) (rt_ConversationID tips) 1 False) s of
              (Inl e, s1) \<Rightarrow> (False, s1)
            | (Inr [], s1) \<Rightarrow> (False, s1)
            | (Inr (v # _), s1) \<Rightarrow>
                (case msgConvert (cx_codec E) (cx_loginUserID E) (copy_log v zero_msg) of
                   (Some e, _) \<Rightarrow> (True, s1)
                 | (None, m) \<Rightarrow>
                     (case on_db (UpdateColumnsConversation (cx_conv E) (rt_ConversationID tips)
                         (\<lambda>r. r\<lparr>cv_LatestMsg := enc_Msg (cx_codec E) m, cv_LatestMsgSendTime := ms_SendTime m\<rparr>)) s1 of
                        (Some e, s2) \<Rightarrow> (True, s2)
                      | (None, s2) \<Rightarrow> (True, run_update E (con_change [] [rt_ConversationID tips]) s2))))
      else (True, s))"

text \<open>
  A message that quotes the revoked one. Its content is decoded into a nil \<^verbatim>\<open>*QuoteElem\<close>, which is read without a
  test: a content that leaves it nil panics (\<open>None\<close>).
\<close>

definition quoteMsgRevokeHandle ::
  "('q, 't, 'n) conv_env \<Rightarrow> ('q, 't, 'n) conv_api \<Rightarrow> string \<Rightarrow> MessageRevoked \<Rightarrow> LocalChatLog \<Rightarrow>
   ('t, 'n) conv_state \<Rightarrow> ('t, 'n) conv_state option" where
  "quoteMsgRevokeHandle E A conversationID revokedMsg v s =
     (case ca_dec_QuotePtr A (cl_Content v) of
        None \<Rightarrow> None
      | Some qe \<Rightarrow>
          (case qe_QuoteMessage qe of
             None \<Rightarrow> Some s
           | Some q \<Rightarrow>
               (if ca_quoted A q \<noteq> mrv_ClientMsgID revokedMsg then Some s
                else let qe' = qe\<lparr>qe_QuoteMessage :=
                         Some (ca_revoke_quoted A (ca_enc_MessageRevoked A revokedMsg) RevokeNotification q)\<rparr>
                     in Some (snd (on_db (UpdateMessageBySeq (cx_chat E) conversationID
                          (v\<lparr>cl_Content := enc_QuoteElem (cx_codec E) (Some qe')\<rparr>)) s)))))"

fun revoke_quotes ::
  "('q, 't, 'n) conv_env \<Rightarrow> ('q, 't, 'n) conv_api \<Rightarrow> string \<Rightarrow> MessageRevoked \<Rightarrow> LocalChatLog list \<Rightarrow>
   ('t, 'n) conv_state \<Rightarrow> ('t, 'n) conv_state option" where
  "revoke_quotes E A conversationID m [] s = Some s"
| "revoke_quotes E A conversationID m (v # rest) s =
     (case quoteMsgRevokeHandle E A conversationID m v s of
        None \<Rightarrow> None | Some s1 \<Rightarrow> revoke_quotes E A conversationID m rest s1)"

definition after_revocation ::
  "('q, 't, 'n) conv_env \<Rightarrow> ('q, 't, 'n) conv_api \<Rightarrow> RevokeMsgTips \<Rightarrow> MessageRevoked \<Rightarrow>
   ('t, 'n) conv_state \<Rightarrow> ('t, 'n) conv_state option" where
  "after_revocation E A tips m s =
     (case on_db (GetConversation (cx_conv E) (rt_ConversationID tips)) s of
        (Inl e, s1) \<Rightarrow> Some s1
      | (Inr conversation, s1) \<Rightarrow>
          (case latest_revoked E tips conversation s1 of
             (False, s2) \<Rightarrow> Some s2
           | (True, s2) \<Rightarrow>
               (let s3 = ConvState.emit (OnNewRecvMessageRevoked (ca_enc_MessageRevoked A m)) s2 in
                case on_db (SearchAllMessageByContentType (cx_chat E) (cv_ConversationID conversation) Quote) s3 of
                  (Inl e, s4) \<Rightarrow> Some s4
                | (Inr msgList, s4) \<Rightarrow> revoke_quotes E A (rt_ConversationID tips) m msgList s4)))"

definition revokeMessage ::
  "('q, 't, 'n) conv_env \<Rightarrow> ('q, 't, 'n) conv_api \<Rightarrow> RevokeMsgTips \<Rightarrow> ('t, 'n) conv_state \<Rightarrow> ('t, 'n) conv_state option" where
  "revokeMessage E A tips s =
     (case on_db (GetMessageBySeq (cx_chat E) (rt_ConversationID tips) (rt_Seq tips)) s of
        (Inl e, s1) \<Rightarrow> Some s1
      | (Inr revokedMsg, s1) \<Rightarrow>
          (case revoker E tips s1 of
             (None, s2) \<Rightarrow> Some s2
           | (Some role_name, s2) \<Rightarrow>
               (let m = revoked_message tips revokedMsg role_name in
                case on_db (UpdateMessageBySeq (cx_chat E) (rt_ConversationID tips) (revocation_row E A (rt_Seq tips) m)) s2 of
                  (Some e, s3) \<Rightarrow> Some s3
                | (None, s3) \<Rightarrow> after_revocation E A tips m s3)))"

definition doRevokeMsg ::
  "('q, 't, 'n) conv_env \<Rightarrow> ('q, 't, 'n) conv_api \<Rightarrow> MsgData \<Rightarrow> ('t, 'n) conv_state \<Rightarrow> ('t, 'n) conv_state option" where
  "doRevokeMsg E A msg s =
     (case UnmarshalNotificationElem (cx_codec E) (ca_dec_RevokeMsgTips A)
        \<lparr>rt_RevokerUserID = [], rt_ClientMsgID = [], rt_RevokeTime = 0, rt_SesstionType = 0, rt_Seq = 0,
         rt_ConversationID = [], rt_IsAdminRevoke = False\<rparr> (md_Content msg) of
        (Some e, _) \<Rightarrow> Some s
      | (None, tips) \<Rightarrow> revokeMessage E A tips s)"

section \<open>The user revokes a message\<close>

text \<open>Who may revoke a message of the conversation.\<close>

definition may_revoke ::
  "('q, 't, 'n) conv_env \<Rightarrow> LocalConversation \<Rightarrow> LocalChatLog \<Rightarrow> ('t, 'n) conv_state action" where
  "may_revoke E conversation m s =
     (if cv_ConversationType conversation = SingleChatType
      then (if cl_SendID m \<noteq> cx_loginUserID E
            then (Some (GoError ''only send by yourself message can be revoked''), s) else (None, s))
      else if cv_ConversationType conversation = SuperGroupChatType \<and> cl_SendID m \<noteq> cx_loginUserID E
      then get_then (on_db (GetGroupMemberOwnerAndAdminDB (cx_members E) (cv_GroupID conversation)) s) (\<lambda>groupAdmins s1.
             if \<exists>member \<in> set groupAdmins. gm_UserID member = cx_loginUserID E then (None, s1)
             else (Some (GoError ''only group admin can revoke message''), s1))
      else (None, s))"

text \<open>The checks and the request; then the moment of the revocation, and what it is applied to.\<close>

definition request_revocation ::
  "('q, 't, 'n) conv_env \<Rightarrow> ('q, 't, 'n) conv_api \<Rightarrow> string \<Rightarrow> string \<Rightarrow> ('t, 'n) conv_state \<Rightarrow>
   (go_error + LocalConversation \<times> LocalChatLog) \<times> ('t, 'n) conv_state" where
  "request_revocation E A conversationID clientMsgID s =
     (case on_db (GetConversation (cx_conv E) conversationID) s of
        (Inl e, s1) \<Rightarrow> (Inl e, s1)
      | (Inr conversation, s1) \<Rightarrow>
          (case on_db (GetMessage (cx_chat E) conversationID clientMsgID) s1 of
             (Inl e, s2) \<Rightarrow> (Inl e, s2)
           | (Inr m, s2) \<Rightarrow>
               (if cl_Status m \<noteq> MsgStatusSendSuccess
                then (Inl (GoError ''only send success message can be revoked''), s2)
                else case act_then (may_revoke E conversation m s2)
                    (api_post A RevokeMsgRouter (RevokeMsgReq conversationID (cl_Seq m) (cx_loginUserID E))) of
                  (Some e, s3) \<Rightarrow> (Inl e, s3)
                | (None, s3) \<Rightarrow> (Inr (conversation, m), s3))))"

definition revokeOneMessage ::
  "('q, 't, 'n) conv_env \<Rightarrow> ('q, 't, 'n) conv_api \<Rightarrow> string \<Rightarrow> string \<Rightarrow> ('t, 'n) conv_state \<Rightarrow>
   (go_error option \<times> ('t, 'n) conv_state) option" where
  "revokeOneMessage E A conversationID clientMsgID s =
     (case request_revocation E A conversationID clientMsgID s of
        (Inl e, s1) \<Rightarrow> Some (Some e, s1)
      | (Inr (conversation, m), s1) \<Rightarrow>
          (case on_net (cx_now_nano E) s1 of (now, s2) \<Rightarrow>
             map_option (Pair None) (revokeMessage E A \<lparr>rt_RevokerUserID = cx_loginUserID E, rt_ClientMsgID = clientMsgID,
                rt_RevokeTime = now sdiv 10 ^ 9, rt_SesstionType = cv_ConversationType conversation, rt_Seq = cl_Seq m,
                rt_ConversationID = conversationID, rt_IsAdminRevoke = False\<rparr> s2)))"

end
