(* ===== verification/ConvDelete.thy ===== *)
theory ConvDelete
  imports ConvApi
begin

text \<open>
  \<^verbatim>\<open>internal/conversation_msg/delete.go\<close>: clearing conversations and deleting messages, on the server and in the
  local database, with \<^verbatim>\<open>getConversationMaxSeqAndSetHasRead\<close> of \<^verbatim>\<open>read_drawing.go\<close>, which they share.
\<close>

definition setConversationHasReadSeq ::
  "('q, 't, 'n) conv_env \<Rightarrow> ('q, 't, 'n) conv_api \<Rightarrow> string \<Rightarrow> int \<Rightarrow> ('t, 'n) conv_state action" where
  "setConversationHasReadSeq E A conversationID hasReadSeq =
     api_post A SetConversationHasReadSeq (SetConversationHasReadSeqReq conversationID (cx_loginUserID E) hasReadSeq)"

definition getConversationMaxSeqAndSetHasRead ::
  "('q, 't, 'n) conv_env \<Rightarrow> ('q, 't, 'n) conv_api \<Rightarrow> string \<Rightarrow> ('t, 'n) conv_state action" where
  "getConversationMaxSeqAndSetHasRead E A conversationID s =
     get_then (on_db (GetConversationNormalMsgSeq (cx_chat E) conversationID) s) (\<lambda>maxSeq s1.
       if maxSeq = 0 then (None, s1)
       else act_then (setConversationHasReadSeq E A conversationID maxSeq s1)
         (on_db (UpdateColumnsConversation (cx_conv E) conversationID (\<lambda>r. r\<lparr>cv_HasReadSeq := maxSeq\<rparr>))))"

text \<open>\<open>f\<close> is the operation on the row of the conversation, \<^verbatim>\<open>ClearConversation\<close> or \<^verbatim>\<open>ResetConversation\<close>.\<close>

definition clearConversationAndDeleteAllMsg ::
  "('q, 't, 'n) conv_env \<Rightarrow> ('q, 't, 'n) conv_api \<Rightarrow> string \<Rightarrow> bool \<Rightarrow> (string \<Rightarrow> 't action) \<Rightarrow> ('t, 'n) conv_state action" where
  "clearConversationAndDeleteAllMsg E A conversationID markDelete f s =
     act_then (getConversationMaxSeqAndSetHasRead E A conversationID s) (\<lambda>s1.
       act_then (on_db (if markDelete then MarkDeleteConversationAllMessages (cx_chat E) conversationID
                        else DeleteConversationAllMessages (cx_chat E) conversationID) s1)
         (on_db (f conversationID)))"

definition clearConversationMsgFromSvr ::
  "('q, 't, 'n) conv_env \<Rightarrow> ('q, 't, 'n) conv_api \<Rightarrow> string \<Rightarrow> ('t, 'n) conv_state action" where
  "clearConversationMsgFromSvr E A conversationID =
     api_post A ClearConversationMsgRouter (ClearConversationsMsgReq (cx_loginUserID E) [conversationID])"

definition clearConversationFromLocalAndSvr ::
  "('q, 't, 'n) conv_env \<Rightarrow> ('q, 't, 'n) conv_api \<Rightarrow> string \<Rightarrow> (string \<Rightarrow> 't action) \<Rightarrow> ('t, 'n) conv_state action" where
  "clearConversationFromLocalAndSvr E A conversationID f s =
     get_then (on_db (GetConversation (cx_conv E) conversationID) s) (\<lambda>_ s1.
       act_then (clearConversationMsgFromSvr E A conversationID s1) (\<lambda>s2.
         act_then (clearConversationAndDeleteAllMsg E A conversationID False f s2) (\<lambda>s3.
           (None, run_update E total_changed (run_update E (con_change [] [conversationID]) s3)))))"

text \<open>The loop over the conversations goes on after an error; it gives the conversations that were cleared.\<close>

fun clear_all ::
  "('q, 't, 'n) conv_env \<Rightarrow> ('q, 't, 'n) conv_api \<Rightarrow> bool \<Rightarrow> string list \<Rightarrow> string list \<Rightarrow>
   ('t, 'n) conv_state \<Rightarrow> string list \<times> ('t, 'n) conv_state" where
  "clear_all E A markDelete [] cleared s = (cleared, s)"
| "clear_all E A markDelete (v # rest) cleared s =
     (case clearConversationAndDeleteAllMsg E A v markDelete (ClearConversation (cx_conv E)) s of
        (Some e, s1) \<Rightarrow> clear_all E A markDelete rest cleared s1
      | (None, s1) \<Rightarrow> clear_all E A markDelete rest (cleared @ [v]) s1)"

definition deleteAllMsgFromLocal ::
  "('q, 't, 'n) conv_env \<Rightarrow> ('q, 't, 'n) conv_api \<Rightarrow> bool \<Rightarrow> ('t, 'n) conv_state action" where
  "deleteAllMsgFromLocal E A markDelete s =
     get_then (on_db (GetAllConversationListDB (cx_conv E)) s) (\<lambda>conversations s1.
       case clear_all E A markDelete (map cv_ConversationID conversations) [] s1 of (successCids, s2) \<Rightarrow>
         (None, run_update E total_changed (run_update E (con_change [] successCids) s2)))"

definition deleteAllMessageFromSvr ::
  "('q, 't, 'n) conv_env \<Rightarrow> ('q, 't, 'n) conv_api \<Rightarrow> ('t, 'n) conv_state action" where
  "deleteAllMessageFromSvr E A = api_post A ClearAllMsgRouter (UserClearAllMsgReq (cx_loginUserID E))"

definition deleteAllMsgFromLocalAndSvr ::
  "('q, 't, 'n) conv_env \<Rightarrow> ('q, 't, 'n) conv_api \<Rightarrow> ('t, 'n) conv_state action" where
  "deleteAllMsgFromLocalAndSvr E A s =
     act_then (deleteAllMessageFromSvr E A s) (\<lambda>s1.
       act_then (deleteAllMsgFromLocal E A False s1) (\<lambda>s2. (None, run_update E total_changed s2)))"

section \<open>One message\<close>

definition deleteMessageFromSvr ::
  "('q, 't, 'n) conv_env \<Rightarrow> ('q, 't, 'n) conv_api \<Rightarrow> string \<Rightarrow> string \<Rightarrow> ('t, 'n) conv_state action" where
  "deleteMessageFromSvr E A conversationID clientMsgID s =
     get_then (on_db (GetMessage (cx_chat E) conversationID clientMsgID) s) (\<lambda>_ s1.
       get_then (on_db (GetMessage (cx_chat E) conversationID clientMsgID) s1) (\<lambda>localMessage s2.
         if cl_Status localMessage = MsgStatusSendFailed then (None, s2)
         else if cl_Seq localMessage = 0 then (Some ErrMsgHasNoSeq, s2)
         else api_post A DeleteMsgsRouter (DeleteMsgsReq conversationID [cl_Seq localMessage] (cx_loginUserID E)) s2))"

text \<open>
  The latest message of the conversation after it has been deleted: the stored message is copied over it, so that what
  a stored message does not have stays.
\<close>

definition next_latest ::
  "('q, 't, 'n) conv_env \<Rightarrow> 'q MsgStruct \<Rightarrow> LocalChatLog list \<Rightarrow> string \<times> int" where
  "next_latest E latestMsg msgs =
     (case msgs of
        [] \<Rightarrow> ([], ms_SendTime latestMsg)
      | v # _ \<Rightarrow> (let m = snd (msgConvert (cx_codec E) (cx_loginUserID E) (copy_log v latestMsg))
                 in (enc_Msg (cx_codec E) m, ms_SendTime m)))"

definition latest_deleted ::
  "('q, 't, 'n) conv_env \<Rightarrow> string \<Rightarrow> 'q MsgStruct \<Rightarrow> ('t, 'n) conv_state action" where
  "latest_deleted E conversationID latestMsg s =
     get_then (on_db (GetMessageListNoTime (cx_chat E) conversationID 1 False) s) (\<lambda>msgs s1.
       case next_latest E latestMsg msgs of (latestMsgStr, latestMsgSendTime) \<Rightarrow>
         act_then (on_db (UpdateColumnsConversation (cx_conv E) conversationID
             (\<lambda>r. r\<lparr>cv_LatestMsg := latestMsgStr, cv_LatestMsgSendTime := latestMsgSendTime\<rparr>)) s1)
           (\<lambda>s2. (None, run_update E (con_change [] [conversationID]) s2)))"

definition deleteMessageFromLocal ::
  "('q, 't, 'n) conv_env \<Rightarrow> ('q, 't, 'n) conv_api \<Rightarrow> string \<Rightarrow> string \<Rightarrow> ('t, 'n) conv_state action" where
  "deleteMessageFromLocal E A conversationID clientMsgID s =
     get_then (on_db (GetMessage (cx_chat E) conversationID clientMsgID) s) (\<lambda>m s1.
       act_then (on_db (DeleteConversationMsgs (cx_chat E) conversationID [clientMsgID]) s1) (\<lambda>s2.
         act_then
           (if \<not> cl_IsRead m \<and> cl_SendID m \<noteq> cx_loginUserID E
            then act_then (on_db (DecrConversationUnreadCount (cx_conv E) (ca_rollback A) conversationID 1) s2) (\<lambda>s3.
                   (None, run_update E total_changed (run_update E (con_change conversationID [conversationID]) s3)))
            else (None, s2)) (\<lambda>s4.
           get_then (on_db (GetConversation (cx_conv E) conversationID) s4) (\<lambda>conversation s5.
             let latestMsg = snd (dec_Msg (cx_codec E) (cv_LatestMsg conversation) zero_msg) in
             act_then (if ms_ClientMsgID latestMsg = clientMsgID then latest_deleted E conversationID latestMsg s5 else (None, s5))
               (\<lambda>s6. (None, ConvState.emit (OnMsgDeleted (ca_enc_ChatLog A m)) s6))))))"

definition deleteMessage ::
  "('q, 't, 'n) conv_env \<Rightarrow> ('q, 't, 'n) conv_api \<Rightarrow> string \<Rightarrow> string \<Rightarrow> ('t, 'n) conv_state action" where
  "deleteMessage E A conversationID clientMsgID s =
     act_then (deleteMessageFromSvr E A conversationID clientMsgID s) (deleteMessageFromLocal E A conversationID clientMsgID)"

section \<open>Notifications\<close>

text \<open>The message decoded before the deletion is not used.\<close>

fun delete_seqs ::
  "('q, 't, 'n) conv_env \<Rightarrow> ('q, 't, 'n) conv_api \<Rightarrow> string \<Rightarrow> int list \<Rightarrow> ('t, 'n) conv_state \<Rightarrow> ('t, 'n) conv_state" where
  "delete_seqs E A conversationID [] s = s"
| "delete_seqs E A conversationID (v # rest) s =
     (case on_db (GetMessageBySeq (cx_chat E) conversationID v) s of
        (Inl e, s1) \<Rightarrow> delete_seqs E A conversationID rest s1
      | (Inr m, s1) \<Rightarrow>
          delete_seqs E A conversationID rest (snd (deleteMessageFromLocal E A conversationID (cl_ClientMsgID m) s1)))"

definition doDeleteMsgs ::
  "('q, 't, 'n) conv_env \<Rightarrow> ('q, 't, 'n) conv_api \<Rightarrow> MsgData \<Rightarrow> ('t, 'n) conv_state \<Rightarrow> ('t, 'n) conv_state" where
  "doDeleteMsgs E A msg s =
     (let tips = snd (UnmarshalNotificationElem (cx_codec E) (ca_dec_DeleteMsgsTips A)
        \<lparr>dt_UserID = [], dt_ConversationID = [], dt_Seqs = []\<rparr> (md_Content msg))
      in delete_seqs E A (dt_ConversationID tips) (dt_Seqs tips) s)"

definition doClearConversations ::
  "('q, 't, 'n) conv_env \<Rightarrow> ('q, 't, 'n) conv_api \<Rightarrow> MsgData \<Rightarrow> ('t, 'n) conv_state \<Rightarrow> ('t, 'n) conv_state" where
  "doClearConversations E A msg s =
     (let tips = snd (UnmarshalNotificationElem (cx_codec E) (ca_dec_ClearConversationTips A)
        \<lparr>ct_UserID = [], ct_ConversationIDs = []\<rparr> (md_Content msg));
          s1 = snd (clear_all E A False (ct_ConversationIDs tips) [] s)
      in run_update E total_changed (run_update E (con_change [] (ct_ConversationIDs tips)) s1))"

end
