(* ===== verification/ConvRead.thy ===== *)
theory ConvRead
  imports ConvDelete
begin

text \<open>
  \<^verbatim>\<open>internal/conversation_msg/read_drawing.go\<close>: marking messages as read, here and on the server, and what the reading
  of a message elsewhere changes here.
\<close>

definition markMsgAsRead2Svr ::
  "('q, 't, 'n) conv_env \<Rightarrow> ('q, 't, 'n) conv_api \<Rightarrow> string \<Rightarrow> int list \<Rightarrow> ('t, 'n) conv_state action" where
  "markMsgAsRead2Svr E A conversationID seqs =
     api_post A MarkMsgsAsReadRouter (MarkMsgsAsReadReq conversationID seqs (cx_loginUserID E))"

definition markConversationAsReadSvr ::
  "('q, 't, 'n) conv_env \<Rightarrow> ('q, 't, 'n) conv_api \<Rightarrow> string \<Rightarrow> int \<Rightarrow> int list \<Rightarrow> ('t, 'n) conv_state action" where
  "markConversationAsReadSvr E A conversationID hasReadSeq seqs =
     api_post A MarkConversationAsRead (MarkConversationAsReadReq conversationID (cx_loginUserID E) hasReadSeq seqs)"

text \<open>The messages that can be marked: not read, not the user's own, with a sequence number.\<close>

definition can_mark :: "string \<Rightarrow> LocalChatLog \<Rightarrow> bool" where
  "can_mark loginUserID m \<longleftrightarrow> \<not> cl_IsRead m \<and> cl_SendID m \<noteq> loginUserID \<and> cl_Seq m \<noteq> 0"

definition getAsReadMsgMapAndList :: "string \<Rightarrow> LocalChatLog list \<Rightarrow> string list \<times> int list" where
  "getAsReadMsgMapAndList loginUserID msgs =
     (let ms = filter (can_mark loginUserID) msgs in (map cl_ClientMsgID ms, map cl_Seq ms))"

definition unreadChangeTrigger ::
  "('q, 't, 'n) conv_env \<Rightarrow> string \<Rightarrow> bool \<Rightarrow> ('t, 'n) conv_state \<Rightarrow> ('t, 'n) conv_state" where
  "unreadChangeTrigger E conversationID latestMsgIsRead s =
     (let s1 = (if latestMsgIsRead
                then run_update E \<lparr>ucn_ConID = conversationID, ucn_Action = UpdateLatestMessageChange,
                       ucn_Args = ArgIDs [conversationID]\<rparr> s else s)
      in run_update E total_changed (run_update E (con_change conversationID [conversationID]) s1))"

text \<open>An error of the last statement on the row is only logged.\<close>

definition mark_all_read ::
  "('q, 't, 'n) conv_env \<Rightarrow> string \<Rightarrow> bool \<Rightarrow> ('t, 'n) conv_state action" where
  "mark_all_read E conversationID latestMsgIsRead s =
     (case on_db (UpdateColumnsConversation (cx_conv E) conversationID (\<lambda>r. r\<lparr>cv_UnreadCount := 0\<rparr>)) s of
        (_, s1) \<Rightarrow> (None, unreadChangeTrigger E conversationID latestMsgIsRead s1))"

definition markConversationMessageAsRead ::
  "('q, 't, 'n) conv_env \<Rightarrow> ('q, 't, 'n) conv_api \<Rightarrow> string \<Rightarrow> ('t, 'n) conv_state action" where
  "markConversationMessageAsRead E A conversationID s =
     get_then (on_db (GetConversation (cx_conv E) conversationID) s) (\<lambda>conversation s1.
       if cv_UnreadCount conversation = 0 then (Some ErrUnreadCount, s1)
       else get_then (on_db (GetConversationPeerNormalMsgSeq (cx_chat E) (cx_loginUserID E) conversationID) s1) (\<lambda>peerUserMaxSeq s2.
         get_then (on_db (GetConversationNormalMsgSeq (cx_chat E) conversationID) s2) (\<lambda>maxSeq s3.
           if cv_ConversationType conversation = SingleChatType
           then get_then (on_db (GetUnreadMessage (cx_chat E) (cx_loginUserID E) conversationID) s3) (\<lambda>msgs s4.
             case getAsReadMsgMapAndList (cx_loginUserID E) msgs of (msgIDs, seqs) \<Rightarrow>
               if seqs = [] then (None, s4)
               else act_then (markConversationAsReadSvr E A conversationID maxSeq seqs s4) (\<lambda>s5.
                 case on_db (MarkConversationMessageAsReadDB (cx_chat E) (ca_stamp A) (cx_loginUserID E) conversationID msgIDs) s5 of
                   (_, s6) \<Rightarrow> mark_all_read E conversationID (peerUserMaxSeq = maxSeq) s6))
           else if cv_ConversationType conversation = SuperGroupChatType \<or> cv_ConversationType conversation = NotificationChatType
           then act_then (markConversationAsReadSvr E A conversationID maxSeq [] s3)
             (mark_all_read E conversationID (peerUserMaxSeq = maxSeq))
           else mark_all_read E conversationID (peerUserMaxSeq = maxSeq) s3)))"

definition markMessagesAsReadByMsgID ::
  "('q, 't, 'n) conv_env \<Rightarrow> ('q, 't, 'n) conv_api \<Rightarrow> string \<Rightarrow> string list \<Rightarrow> ('t, 'n) conv_state action" where
  "markMessagesAsReadByMsgID E A conversationID msgIDs s =
     get_then (on_db (GetConversation (cx_conv E) conversationID) s) (\<lambda>_ s1.
       get_then (on_db (GetMessagesByClientMsgIDs (cx_chat E) conversationID msgIDs) s1) (\<lambda>msgs s2.
         case msgs of
           [] \<Rightarrow> (None, s2)
         | m0 # _ \<Rightarrow>
             get_then (on_db (GetConversationNormalMsgSeq (cx_chat E) conversationID) s2) (\<lambda>maxSeq s3.
               case getAsReadMsgMapAndList (cx_loginUserID E) msgs of (markAsReadMsgIDs, seqs) \<Rightarrow>
                 if seqs = [] then (None, s3)
                 else act_then (markMsgAsRead2Svr E A conversationID seqs s3) (\<lambda>s4.
                   get_then (on_db (MarkConversationMessageAsReadDB (cx_chat E) (ca_stamp A) (cx_loginUserID E)
                       conversationID markAsReadMsgIDs) s4) (\<lambda>decrCount s5.
                     case on_db (DecrConversationUnreadCount (cx_conv E) (ca_rollback A) conversationID (int decrCount)) s5 of
                       (_, s6) \<Rightarrow> (None, unreadChangeTrigger E conversationID
                          (cl_Seq m0 = maxSeq \<and> cl_SendID m0 \<noteq> cx_loginUserID E) s6))))))"

section \<open>Notifications\<close>

text \<open>\<^verbatim>\<open>TriggerCmdUpdateConversation\<close> with the conversation and its new latest message; the error is dropped.\<close>

definition send_latest ::
  "('q, 't, 'n) conv_env \<Rightarrow> LocalConversation \<Rightarrow> ('t, 'n) conv_state \<Rightarrow> ('t, 'n) conv_state" where
  "send_latest E conversation s =
     snd (on_ch (TriggerCmdUpdateConversation \<lparr>ucn_ConID = cv_ConversationID conversation, ucn_Action = AddConOrUpLatMsg,
       ucn_Args = ArgConversation conversation\<rparr>) s)"

definition single_unread ::
  "('q, 't, 'n) conv_env \<Rightarrow> ('q, 't, 'n) conv_api \<Rightarrow> LocalConversation \<Rightarrow> int \<Rightarrow> int list \<Rightarrow>
   ('t, 'n) conv_state \<Rightarrow> ('t, 'n) conv_state" where
  "single_unread E A conversation hasReadSeq seqs s =
     (let conID = cv_ConversationID conversation;
          s1 = (if seqs \<noteq> []
                then snd (on_db (MarkConversationMessageAsReadBySeqs (cx_chat E) (cx_loginUserID E) conID seqs) s) else s);
          s2 = (if hasReadSeq > cv_HasReadSeq conversation
                then snd (on_db (UpdateColumnsConversation (cx_conv E) conID (\<lambda>r. r\<lparr>cv_HasReadSeq := hasReadSeq\<rparr>))
                  (snd (on_db (DecrConversationUnreadCount (cx_conv E) (ca_rollback A) conID
                     (i64 (hasReadSeq - cv_HasReadSeq conversation))) s1)))
                else s1);
          latestMsg = snd (dec_Msg (cx_codec E) (cv_LatestMsg conversation) zero_msg)
      in if \<not> ms_IsRead latestMsg \<and> ms_Seq latestMsg \<in> set seqs
         then send_latest E (conversation\<lparr>cv_LatestMsg := enc_Msg (cx_codec E) (latestMsg\<lparr>ms_IsRead := True\<rparr>)\<rparr>) s2
         else s2)"

definition doUnreadCount ::
  "('q, 't, 'n) conv_env \<Rightarrow> ('q, 't, 'n) conv_api \<Rightarrow> LocalConversation \<Rightarrow> int \<Rightarrow> int list \<Rightarrow>
   ('t, 'n) conv_state \<Rightarrow> ('t, 'n) conv_state" where
  "doUnreadCount E A conversation hasReadSeq seqs s =
     (let conID = cv_ConversationID conversation;
          s1 = (if cv_ConversationType conversation = SingleChatType
                then single_unread E A conversation hasReadSeq seqs s
                else snd (on_db (UpdateColumnsConversation (cx_conv E) conID (\<lambda>r. r\<lparr>cv_UnreadCount := 0\<rparr>)) s))
      in run_update E total_changed (run_update E (con_change conID [conID]) s1))"

text \<open>
  The loop over the messages another user has read: the message is stored as read, with the time; the latest message and
  the conversation are changed as they are found; it gives the identifiers of the messages stored.
\<close>

fun read_by_other ::
  "('q, 't, 'n) conv_env \<Rightarrow> string \<Rightarrow> int \<Rightarrow> LocalChatLog list \<Rightarrow> 'q MsgStruct \<Rightarrow> LocalConversation \<Rightarrow> string list \<Rightarrow>
   ('t, 'n) conv_state \<Rightarrow> string list \<times> ('t, 'n) conv_state" where
  "read_by_other E conversationID sendTime [] latestMsg conversation successMsgIDs s = (successMsgIDs, s)"
| "read_by_other E conversationID sendTime (m # rest) latestMsg conversation successMsgIDs s =
     (let attachInfo = (snd (dec_AttachedInfoElem (cx_codec E) (cl_AttachedInfo m)))\<lparr>ae_HasReadTime := sendTime\<rparr>;
          m' = m\<lparr>cl_AttachedInfo := enc_AttachedInfoElem (cx_codec E) (Some attachInfo), cl_IsRead := True\<rparr>
      in case on_db (UpdateMessage (cx_chat E) conversationID m') s of
           (Some e, s1) \<Rightarrow> read_by_other E conversationID sendTime rest latestMsg conversation successMsgIDs s1
         | (None, s1) \<Rightarrow>
             (let ids = successMsgIDs @ [cl_ClientMsgID m'] in
              if ms_ClientMsgID latestMsg = cl_ClientMsgID m'
              then (let latest = latestMsg\<lparr>ms_IsRead := True\<rparr>;
                        conv = conversation\<lparr>cv_LatestMsg := enc_Msg (cx_codec E) latest\<rparr>
                    in read_by_other E conversationID sendTime rest latest conv ids (send_latest E conv s1))
              else read_by_other E conversationID sendTime rest latestMsg conversation ids s1))"

definition zero_receipt :: MessageReceipt where
  "zero_receipt = \<lparr>mrc_GroupID = [], mrc_UserID = [], mrc_MsgIDList = [], mrc_ReadTime = 0, mrc_MsgFrom = 0,
     mrc_ContentType = 0, mrc_SessionType = 0\<rparr>"

definition doReadDrawing ::
  "('q, 't, 'n) conv_env \<Rightarrow> ('q, 't, 'n) conv_api \<Rightarrow> MsgData \<Rightarrow> ('t, 'n) conv_state \<Rightarrow> ('t, 'n) conv_state" where
  "doReadDrawing E A msg s =
     (case UnmarshalNotificationElem (cx_codec E) (ca_dec_MarkAsReadTips A)
        \<lparr>mt_MarkAsReadUserID = [], mt_ConversationID = [], mt_Seqs = [], mt_HasReadSeq = 0\<rparr> (md_Content msg) of
        (Some e, _) \<Rightarrow> s
      | (None, tips) \<Rightarrow>
          (case on_db (GetConversation (cx_conv E) (mt_ConversationID tips)) s of
             (Inl e, s1) \<Rightarrow> s1
           | (Inr conversation, s1) \<Rightarrow>
               (if mt_MarkAsReadUserID tips = cx_loginUserID E
                then doUnreadCount E A conversation (mt_HasReadSeq tips) (mt_Seqs tips) s1
                else if mt_Seqs tips = [] then s1
                else case on_db (GetMessagesBySeqs (cx_chat E) (mt_ConversationID tips) (mt_Seqs tips)) s1 of
                       (Inl e, s2) \<Rightarrow> s2
                     | (Inr messages, s2) \<Rightarrow>
                         (if cv_ConversationType conversation \<noteq> SingleChatType then s2
                          else case read_by_other E (mt_ConversationID tips) (md_SendTime msg) messages
                                 (snd (dec_Msg (cx_codec E) (cv_LatestMsg conversation) zero_msg)) conversation [] s2 of
                                 (successMsgIDs, s3) \<Rightarrow>
                                   ConvState.emit (OnRecvC2CReadReceipt (ca_enc_Receipts A [zero_receipt\<lparr>
                                     mrc_UserID := mt_MarkAsReadUserID tips, mrc_MsgIDList := successMsgIDs,
                                     mrc_SessionType := cv_ConversationType conversation,
                                     mrc_ReadTime := md_SendTime msg\<rparr>])) s3))))"

end
