(* ===== verification/ConvSync.thy ===== *)
theory ConvSync
  imports ConvApi TableSync
begin

text \<open>
  \<^verbatim>\<open>internal/conversation_msg/sync.go\<close> with \<^verbatim>\<open>convert.go\<close>, the syncer of \<^verbatim>\<open>conversation_msg.go\<close> and the calls of
  \<^verbatim>\<open>conversation.go\<close>: the conversations and their read positions, kept in step with the server.
\<close>

section \<open>The server's conversations\<close>

definition GetAllConversationsRouter :: string where "GetAllConversationsRouter = ''/conversation/get_all_conversations''"
definition GetConversationsRouter :: string where "GetConversationsRouter = ''/conversation/get_conversations''"
definition GetConversationsHasReadAndMaxSeqRouter :: string where
  "GetConversationsHasReadAndMaxSeqRouter = ''/msg/get_conversations_has_read_and_max_seq''"

text \<open>The message \<^verbatim>\<open>Conversation\<close> of the protocol and \<^verbatim>\<open>Seqs\<close>, as far as the SDK reads them.\<close>

record ServerConversation =
  sc_ConversationID :: string
  sc_ConversationType :: int
  sc_UserID :: string
  sc_GroupID :: string
  sc_RecvMsgOpt :: int
  sc_GroupAtType :: int
  sc_IsPinned :: bool
  sc_BurnDuration :: int
  sc_IsPrivateChat :: bool
  sc_AttachedInfo :: string
  sc_Ex :: string
  sc_MsgDestructTime :: int
  sc_IsMsgDestruct :: bool

record Seqs =
  sq_MaxSeq :: int
  sq_HasReadSeq :: int

definition ServerConversationToLocal :: "ServerConversation \<Rightarrow> LocalConversation" where
  "ServerConversationToLocal c = zero_conversation\<lparr>cv_ConversationID := sc_ConversationID c,
     cv_ConversationType := sc_ConversationType c, cv_UserID := sc_UserID c, cv_GroupID := sc_GroupID c,
     cv_RecvMsgOpt := sc_RecvMsgOpt c, cv_GroupAtType := sc_GroupAtType c, cv_IsPinned := sc_IsPinned c,
     cv_BurnDuration := sc_BurnDuration c, cv_IsPrivateChat := sc_IsPrivateChat c, cv_AttachedInfo := sc_AttachedInfo c,
     cv_Ex := sc_Ex c, cv_MsgDestructTime := sc_MsgDestructTime c, cv_IsMsgDestruct := sc_IsMsgDestruct c\<rparr>"

definition LocalConversationToServer :: "LocalConversation \<Rightarrow> ServerConversation" where
  "LocalConversationToServer c = \<lparr>sc_ConversationID = cv_ConversationID c, sc_ConversationType = cv_ConversationType c,
     sc_UserID = cv_UserID c, sc_GroupID = cv_GroupID c, sc_RecvMsgOpt = cv_RecvMsgOpt c, sc_GroupAtType = cv_GroupAtType c,
     sc_IsPinned = cv_IsPinned c, sc_BurnDuration = cv_BurnDuration c, sc_IsPrivateChat = cv_IsPrivateChat c,
     sc_AttachedInfo = cv_AttachedInfo c, sc_Ex = cv_Ex c, sc_MsgDestructTime = cv_MsgDestructTime c,
     sc_IsMsgDestruct = cv_IsMsgDestruct c\<rparr>"

lemma LocalConversationToServer_ServerConversationToLocal:
  "LocalConversationToServer (ServerConversationToLocal c) = c"
  by (simp add: LocalConversationToServer_def ServerConversationToLocal_def)

record ('n) sync_api =
  cs_all_io :: "('n, string, ServerConversation list) api_io"
  cs_by_ids_io :: "('n, string \<times> string list, ServerConversation list) api_io"
  cs_seqs_io :: "('n, string \<times> string list, (string, Seqs) gomap) api_io"
  cs_range_seqs :: "(string, Seqs) gomap \<Rightarrow> (string, Seqs) gomap"
  cs_range_local :: "(string, LocalConversation) gomap \<Rightarrow> (string, LocalConversation) gomap"

definition getServerConversationList ::
  "('q, 't, 'n) conv_env \<Rightarrow> 'n sync_api \<Rightarrow> ('t, 'n) conv_state \<Rightarrow> (go_error + LocalConversation list) \<times> ('t, 'n) conv_state" where
  "getServerConversationList E A s =
     (case on_net (CallApi [] (cs_all_io A) GetAllConversationsRouter (cx_loginUserID E)) s of
        (Inl e, s1) \<Rightarrow> (Inl e, s1) | (Inr cs, s1) \<Rightarrow> (Inr (Batch ServerConversationToLocal cs), s1))"

definition getServerConversationsByIDs ::
  "('q, 't, 'n) conv_env \<Rightarrow> 'n sync_api \<Rightarrow> string list \<Rightarrow> ('t, 'n) conv_state \<Rightarrow>
   (go_error + LocalConversation list) \<times> ('t, 'n) conv_state" where
  "getServerConversationsByIDs E A conversations s =
     (case on_net (CallApi [] (cs_by_ids_io A) GetConversationsRouter (cx_loginUserID E, conversations)) s of
        (Inl e, s1) \<Rightarrow> (Inl e, s1) | (Inr cs, s1) \<Rightarrow> (Inr (Batch ServerConversationToLocal cs), s1))"

definition getServerHasReadAndMaxSeqs ::
  "('q, 't, 'n) conv_env \<Rightarrow> 'n sync_api \<Rightarrow> string list \<Rightarrow> ('t, 'n) conv_state \<Rightarrow>
   (go_error + (string, Seqs) gomap) \<times> ('t, 'n) conv_state" where
  "getServerHasReadAndMaxSeqs E A conversationIDs =
     on_net (CallApi [] (cs_seqs_io A) GetConversationsHasReadAndMaxSeqRouter (cx_loginUserID E, conversationIDs))"

section \<open>The syncer\<close>

text \<open>The columns an update writes, and those that are compared: the name and the picture are in neither.\<close>

definition sync_columns :: "LocalConversation \<Rightarrow> LocalConversation \<Rightarrow> LocalConversation" where
  "sync_columns server r = r\<lparr>cv_RecvMsgOpt := cv_RecvMsgOpt server, cv_IsPinned := cv_IsPinned server,
     cv_IsPrivateChat := cv_IsPrivateChat server, cv_BurnDuration := cv_BurnDuration server,
     cv_IsNotInGroup := cv_IsNotInGroup server, cv_GroupAtType := cv_GroupAtType server,
     cv_UpdateUnreadCountTime := cv_UpdateUnreadCountTime server, cv_AttachedInfo := cv_AttachedInfo server,
     cv_Ex := cv_Ex server, cv_MsgDestructTime := cv_MsgDestructTime server, cv_IsMsgDestruct := cv_IsMsgDestruct server,
     cv_MaxSeq := cv_MaxSeq server, cv_MinSeq := cv_MinSeq server, cv_HasReadSeq := cv_HasReadSeq server\<rparr>"

definition same_columns :: "LocalConversation \<Rightarrow> LocalConversation \<Rightarrow> bool" where
  "same_columns server loc \<longleftrightarrow> cv_RecvMsgOpt server = cv_RecvMsgOpt loc \<and> cv_IsPinned server = cv_IsPinned loc \<and>
     cv_IsPrivateChat server = cv_IsPrivateChat loc \<and> cv_BurnDuration server = cv_BurnDuration loc \<and>
     cv_IsNotInGroup server = cv_IsNotInGroup loc \<and> cv_GroupAtType server = cv_GroupAtType loc \<and>
     cv_UpdateUnreadCountTime server = cv_UpdateUnreadCountTime loc \<and> cv_AttachedInfo server = cv_AttachedInfo loc \<and>
     cv_Ex server = cv_Ex loc \<and> cv_MaxSeq server = cv_MaxSeq loc \<and> cv_MinSeq server = cv_MinSeq loc \<and>
     cv_MsgDestructTime server = cv_MsgDestructTime loc \<and> cv_IsMsgDestruct server = cv_IsMsgDestruct loc"

definition conversationSyncer :: "(LocalConversation, 't) gorm \<Rightarrow> (('t, 'n) conv_state, LocalConversation, string) syncer" where
  "conversationSyncer G = the (new_syncer
     (Some (\<lambda>value. on_db (InsertConversation G value)))
     (Some (\<lambda>value. on_db (DeleteConversation G (cv_ConversationID value))))
     (Some (\<lambda>server loc. on_db (UpdateColumnsConversation G (cv_ConversationID server) (sync_columns server))))
     (Some cv_ConversationID)
     (Some same_columns)
     None)"

definition sync_notice :: "('q, 't, 'n) conv_env \<Rightarrow> (('t, 'n) conv_state, LocalConversation) notice" where
  "sync_notice E state server loc s =
     (if state = Update \<or> state = Insert
      then (None, run_update E (con_change (cv_ConversationID server) [cv_ConversationID server]) s)
      else (None, s))"

definition SyncConversationsAndTriggerCallback ::
  "('q, 't, 'n) conv_env \<Rightarrow> 'n sync_api \<Rightarrow> LocalConversation list \<Rightarrow> ('t, 'n) conv_state action" where
  "SyncConversationsAndTriggerCallback E A conversationsOnServer s =
     get_then (on_db (GetAllConversations (cx_conv E)) s) (\<lambda>conversationsOnLocal s1.
       get_then (batchAddFaceURLAndName E conversationsOnServer s1) (\<lambda>named.
         Sync (\<lambda>x y. False) zero_conversation (cs_range_local A) (conversationSyncer (cx_conv E)) named
           conversationsOnLocal (Some (sync_notice E)) [True]))"

definition SyncConversations ::
  "('q, 't, 'n) conv_env \<Rightarrow> 'n sync_api \<Rightarrow> string list \<Rightarrow> ('t, 'n) conv_state action" where
  "SyncConversations E A conversationIDs s =
     get_then (getServerConversationsByIDs E A conversationIDs s) (SyncConversationsAndTriggerCallback E A)"

definition SyncAllConversations ::
  "('q, 't, 'n) conv_env \<Rightarrow> 'n sync_api \<Rightarrow> ('t, 'n) conv_state action" where
  "SyncAllConversations E A s = get_then (getServerConversationList E A s) (SyncConversationsAndTriggerCallback E A)"

section \<open>Read positions\<close>

definition unread_of :: "Seqs \<Rightarrow> int" where
  "unread_of v = (if i64 (sq_MaxSeq v - sq_HasReadSeq v) < 0 then 0 else i32 (i64 (sq_MaxSeq v - sq_HasReadSeq v)))"

text \<open>The loop over the server's numbers: the conversations that changed, and those that are not stored here.\<close>

fun read_positions ::
  "('q, 't, 'n) conv_env \<Rightarrow> (string, LocalConversation) gomap \<Rightarrow> (string \<times> Seqs) list \<Rightarrow> string list \<times> string list \<Rightarrow>
   ('t, 'n) conv_state \<Rightarrow> (string list \<times> string list) \<times> ('t, 'n) conv_state" where
  "read_positions E onLocal [] (changed, missing) s = ((changed, missing), s)"
| "read_positions E onLocal ((conversationID, v) # rest) (changed, missing) s =
     (let s1 = s\<lparr>co_maxSeq := recorder_Set conversationID (sq_MaxSeq v) (co_maxSeq s)\<rparr>; unread = unread_of v in
      case gget onLocal conversationID of
        None \<Rightarrow> read_positions E onLocal rest (changed, missing @ [conversationID]) s1
      | Some conversation \<Rightarrow>
          (if cv_UnreadCount conversation \<noteq> unread \<or> cv_HasReadSeq conversation \<noteq> sq_HasReadSeq v
           then case on_db (UpdateColumnsConversation (cx_conv E) conversationID
                    (\<lambda>r. r\<lparr>cv_UnreadCount := unread, cv_HasReadSeq := sq_HasReadSeq v\<rparr>)) s1 of
                  (Some e, s2) \<Rightarrow> read_positions E onLocal rest (changed, missing) s2
                | (None, s2) \<Rightarrow> read_positions E onLocal rest (changed @ [conversationID], missing) s2
           else read_positions E onLocal rest (changed, missing) s1))"

definition with_seqs :: "(string, Seqs) gomap \<Rightarrow> LocalConversation \<Rightarrow> LocalConversation" where
  "with_seqs seqs c =
     (case gget seqs (cv_ConversationID c) of
        None \<Rightarrow> c | Some v \<Rightarrow> c\<lparr>cv_UnreadCount := unread_of v, cv_HasReadSeq := sq_HasReadSeq v\<rparr>)"

text \<open>The conversations that are not stored here; an error of the insertion is only logged.\<close>

definition add_missing ::
  "('q, 't, 'n) conv_env \<Rightarrow> 'n sync_api \<Rightarrow> (string, Seqs) gomap \<Rightarrow> string list \<Rightarrow> ('t, 'n) conv_state action" where
  "add_missing E A seqs missing s =
     (if missing = [] then (None, s)
      else get_then (getServerConversationsByIDs E A missing s) (\<lambda>onServer s1.
        get_then (batchAddFaceURLAndName E onServer s1) (\<lambda>named s2.
          (None, snd (on_db (BatchInsertConversationList (cx_conv E) (map (with_seqs seqs) named)) s2)))))"

definition SyncAllConversationHashReadSeqs ::
  "('q, 't, 'n) conv_env \<Rightarrow> 'n sync_api \<Rightarrow> ('t, 'n) conv_state action" where
  "SyncAllConversationHashReadSeqs E A s =
     get_then (getServerHasReadAndMaxSeqs E A [] s) (\<lambda>seqs s1.
       if seqs = [] then (None, s1)
       else get_then (on_db (GetAllConversations (cx_conv E)) s1) (\<lambda>onLocal s2.
         case read_positions E (slice_to_map cv_ConversationID onLocal) (cs_range_seqs A seqs) ([], []) s2 of
           ((changed, missing), s3) \<Rightarrow>
             act_then (add_missing E A seqs missing s3) (\<lambda>s4.
               (None, if changed = [] then s4
                      else snd (on_ch (TriggerCmdUpdateConversation total_changed)
                             (snd (on_ch (TriggerCmdUpdateConversation (con_change [] changed)) s4)))))))"

end
