(* ===== verification/ConvSyncProps.thy ===== *)
theory ConvSyncProps
  imports ConvSync MessageStore
begin

text \<open>
  What the synchronisation of the conversations makes of their table: the settings of the server, and, from the other
  operation, the read positions of the server. The locale \<open>conversation_tables\<close> says what both rely on.
\<close>

section \<open>The tables\<close>

lemma cache_users_db [simp]:
  "co_db (fold (\<lambda>u. cache_user (f u) (g u)) us s) = co_db s"
  "co_maxSeq (fold (\<lambda>u. cache_user (f u) (g u)) us s) = co_maxSeq s"
  by (induction us arbitrary: s) (simp_all add: cache_user_def)

definition settings_target ::
  "LocalConversation list \<Rightarrow> (string \<Rightarrow> LocalConversation option) \<Rightarrow> string \<Rightarrow> LocalConversation option" where
  "settings_target server old k =
     (case find (\<lambda>x. cv_ConversationID x = k) server of
        None \<Rightarrow> old k
      | Some x \<Rightarrow> (case old k of None \<Rightarrow> Some x | Some y \<Rightarrow> Some (if same_columns x y then y else sync_columns x y)))"

lemma found_named:
  assumes "distinct (map cv_ConversationID server)" and "x \<in> set server"
  shows "find (\<lambda>y. cv_ConversationID y = cv_ConversationID x) (map (add_name users groups) server) = Some (add_name users groups x)"
  using assms by (induction server) auto

lemma add_name_settings [simp]:
  "cv_RecvMsgOpt (add_name users groups c) = cv_RecvMsgOpt c" "cv_HasReadSeq (add_name users groups c) = cv_HasReadSeq c"
  by (simp_all add: add_name_def split: option.split)

locale conversation_tables = conv_tables E chat_rows conv_rows
  for E :: "('q, 't, 'n) conv_env"
    and chat_rows :: "string \<Rightarrow> 't \<Rightarrow> LocalChatLog list"
    and conv_rows :: "'t \<Rightarrow> LocalConversation list" +
  assumes friends_keep_conv: "keeps (cx_friends E) conv_rows"
    and groups_keep_conv: "keeps (cx_groups E) conv_rows"
begin

lemma batch_users_keep:
  "batchGetUserNameAndFaceURL E ids s = (r, s') \<Longrightarrow> conv_rows (co_db s') = conv_rows (co_db s)"
  by (auto simp: batchGetUserNameAndFaceURL_def GetFriendInfoList_def wrap_res_def on_db_def on_net_def Let_def
      dest: keepsD(1) [OF friends_keep_conv] split: prod.splits sum.splits if_splits)

lemma batch_groups_keep:
  "GetGroupsInfoFromLocal2Svr E ids s = (r, s') \<Longrightarrow> conv_rows (co_db s') = conv_rows (co_db s)"
  by (auto simp: GetGroupsInfoFromLocal2Svr_def GetGroups_def wrap_res_def on_db_def on_net_def Let_def
      dest: keepsD(1) [OF groups_keep_conv] split: prod.splits sum.splits if_splits)

lemma batch_names_keep:
  assumes "batchAddFaceURLAndName E cs s = (r, s')"
  shows "conv_rows (co_db s') = conv_rows (co_db s)"
    and "r = Inr named \<Longrightarrow> \<exists>users groups. named = map (add_name users groups) cs"
  using assms
  by (auto simp: batchAddFaceURLAndName_def dest!: batch_users_keep batch_groups_keep split: prod.splits sum.splits if_splits)

lemma batch_names_recorder:
  assumes "batchAddFaceURLAndName E cs s = (r, s')"
  shows "co_maxSeq s' = co_maxSeq s"
proof -
  have users: "co_maxSeq s2 = co_maxSeq s1" if "batchGetUserNameAndFaceURL E ids s1 = (r1, s2)" for ids s1 r1 s2
    using that by (auto simp: batchGetUserNameAndFaceURL_def on_db_def on_net_def Let_def split: prod.splits sum.splits if_splits)
  have groups: "co_maxSeq s2 = co_maxSeq s1" if "GetGroupsInfoFromLocal2Svr E ids s1 = (r1, s2)" for ids s1 r1 s2
    using that by (auto simp: GetGroupsInfoFromLocal2Svr_def on_db_def on_net_def Let_def split: prod.splits sum.splits if_splits)
  show ?thesis using assms
    by (auto simp: batchAddFaceURLAndName_def dest!: users groups split: prod.splits sum.splits if_splits)
qed

lemma changed_keeps: "conv_rows (co_db (conversations_changed E ids s)) = conv_rows (co_db s)"
  by (auto simp: conversations_changed_def GetMultipleConversationDB_def wrap_res_def on_db_def emit_convs_def ConvState.emit_def
      dest: gorm_table.find_rows [OF conv_table] split: prod.splits sum.splits)

text \<open>The table behind the conversation syncer.\<close>

lemma conversation_syncer_ops:
  "sy_insert (conversationSyncer G) = (\<lambda>value. on_db (InsertConversation G value))"
  "sy_delete (conversationSyncer G) = (\<lambda>value. on_db (DeleteConversation G (cv_ConversationID value)))"
  "sy_update (conversationSyncer G) = (\<lambda>server loc. on_db (UpdateColumnsConversation G (cv_ConversationID server) (sync_columns server)))"
  "sy_uuid (conversationSyncer G) = cv_ConversationID" "sy_notice (conversationSyncer G) = None"
  "sy_eq cmp (conversationSyncer G) x y = same_columns x y"
  by (simp_all add: conversationSyncer_def new_syncer_def sy_eq_def)

lemma conversation_table_syncer:
  "table_syncer (cx_conv E) conv_rows cv_ConversationID (conversationSyncer (cx_conv E)) co_db (\<lambda>_. True) sync_columns
     (\<lambda>c. cv_ConversationID c \<noteq> [])"
proof (rule table_syncer.intro [OF conv_table], rule table_syncer_axioms.intro)
  fix x y :: LocalConversation and s r s'
  assume "cv_ConversationID x \<noteq> []" and "cv_ConversationID x = cv_ConversationID y"
    and "sy_update (conversationSyncer (cx_conv E)) x y s = (r, s')"
  then have "\<exists>e n. gorm_updates (cx_conv E) (\<lambda>r. cv_ConversationID r = cv_ConversationID y) (sync_columns x) (co_db s) = ((e, n), co_db s') \<and>
      (r = None \<longleftrightarrow> n \<noteq> 0 \<and> e = None)"
    by (auto simp: conversation_syncer_ops on_db_def UpdateColumnsConversation_def updates_conv_def gorm_updates_pk_def wrap_err_def
        split: prod.splits if_splits)
  then show "(\<exists>e n. gorm_updates (cx_conv E) (\<lambda>r. cv_ConversationID r = cv_ConversationID y) (sync_columns x) (co_db s) = ((e, n), co_db s') \<and>
      (r = None \<longleftrightarrow> n \<noteq> 0 \<and> e = None)) \<or> r \<noteq> None \<and> co_db s' = co_db s" by blast
qed (auto simp: conversation_syncer_ops on_db_def sync_columns_def InsertConversation_def DeleteConversation_def wrap_act_def
    split: prod.splits if_splits)

text \<open>What a conversation is after a synchronisation, by its id: new, unchanged, or with the server's columns.\<close>

lemma synced_conversations:
  assumes run: "SyncConversationsAndTriggerCallback E A server s = (r, s')"
    and server: "distinct (map cv_ConversationID server)" "\<forall>x \<in> set server. cv_ConversationID x \<noteq> []"
    and stored: "distinct (map cv_ConversationID (conv_rows (co_db s)))"
      "\<forall>y \<in> set (conv_rows (co_db s)). cv_ConversationID y \<noteq> []"
    and iter: "any_order (cs_range_local A)"
  shows "\<exists>users groups. let old = rows_by_key cv_ConversationID (conv_rows (co_db s));
           new = rows_by_key cv_ConversationID (conv_rows (co_db s'));
           target = settings_target (map (add_name users groups) server) old in
         (\<forall>k. new k = old k \<or> new k = target k) \<and> (r = None \<longrightarrow> new = target)"
proof -
  let ?old = "rows_by_key cv_ConversationID (conv_rows (co_db s))"
  let ?new = "rows_by_key cv_ConversationID (conv_rows (co_db s'))"
  have tab: "tab_of conv_rows cv_ConversationID co_db (\<lambda>_. True) u = rows_by_key cv_ConversationID (conv_rows (co_db u))"
    for u :: "('t, 'n) conv_state" by (simp add: tab_of_def view_def fun_eq_iff)
  have failed: ?thesis if "?new = ?old" "r \<noteq> None" using that by (auto simp: Let_def)
  obtain r1 s1 where r1: "on_db (GetAllConversations (cx_conv E)) s = (r1, s1)" by fastforce
  obtain q where q: "gorm_find (cx_conv E) (\<lambda>r. True) (co_db s) = (q, co_db s1)" "\<And>ls. r1 = Inr ls \<Longrightarrow> q = Inr ls"
    using r1 by (auto simp: on_db_def GetAllConversations_def wrap_res_def split: prod.splits sum.splits)
  have rows1: "conv_rows (co_db s1) = conv_rows (co_db s)" by (rule gorm_table.find_rows [OF conv_table q(1)])
  show ?thesis
  proof (cases r1)
    case (Inl e)
    then show ?thesis using run r1 rows1 by (intro failed) (auto simp: SyncConversationsAndTriggerCallback_def)
  next
    case (Inr loc)
    obtain r2 s2 where r2: "batchAddFaceURLAndName E server s1 = (r2, s2)" by fastforce
    note rows2 = batch_names_keep [OF r2]
    show ?thesis
    proof (cases r2)
      case (Inl e)
      then show ?thesis using run r1 Inr r2 rows1 rows2(1)
        by (intro failed) (auto simp: SyncConversationsAndTriggerCallback_def)
    next
      case (Inr named)
      then obtain users groups where named: "named = map (add_name users groups) server" using rows2(2) by blast
      from run r1 \<open>r1 = Inr loc\<close> r2 Inr
      have sync: "Sync (\<lambda>x y. False) zero_conversation (cs_range_local A) (conversationSyncer (cx_conv E)) named loc
          (Some (sync_notice E)) [True] s2 = (r, s')"
        by (simp add: SyncConversationsAndTriggerCallback_def)
      have fn: "notice_keeps (tab_of conv_rows cv_ConversationID co_db (\<lambda>_. True)) (Some (sync_notice E))"
        by (auto simp: notice_keeps_def tab sync_notice_def changed_keeps split: if_splits)
      from q(2) [OF \<open>r1 = Inr loc\<close>] q(1) have found: "gorm_find (cx_conv E) (\<lambda>r. True) (co_db s) = (Inr loc, co_db s1)" by simp
      have "\<forall>x \<in> set named. cv_ConversationID x \<noteq> []" "distinct (map cv_ConversationID named)"
        using server by (auto simp: named comp_def)
      from table_syncer.sync_found_noticed [OF conversation_table_syncer this found _ stored(1) _ iter rows2(1) fn sync] stored(2)
      have "(\<forall>k. ?new k = ?old k \<or> ?new k = settings_target named ?old k) \<and>
          (r = None \<longrightarrow> (\<forall>k. ?new k = settings_target named ?old k))"
        unfolding tab by (simp add: settings_target_def sync_target_def conversation_syncer_ops cong: option.case_cong)
      then show ?thesis unfolding Let_def named by (intro exI [of _ users] exI [of _ groups]) (simp add: fun_eq_iff)
    qed
  qed
qed

end

interpretation wc: conversation_tables "on_world E" "\<lambda>name w. ft_rows (w_chat w name)" "\<lambda>w. ft_rows (w_conv w)"
proof (intro conversation_tables.intro wt.conv_tables_axioms conversation_tables_axioms.intro)
qed (auto simp: on_world_def world_friends_def world_groups_def intro!: at_table_keeps)


section \<open>Read positions\<close>

lemma rows_by_key_map_other:
  assumes "\<And>r. key (f r) = key r" and "\<And>r. key r = k \<Longrightarrow> f r = r"
  shows "rows_by_key key (map f rs) k = rows_by_key key rs k"
  using assms by (induction rs) (auto simp: rows_by_key_def)

lemma with_seqs_id [simp]: "cv_ConversationID (with_seqs seqs c) = cv_ConversationID c"
  by (simp add: with_seqs_def split: option.split)

lemma with_seqs_nil [simp]: "with_seqs [] = (\<lambda>c. c)"
  by (simp add: with_seqs_def fun_eq_iff)

lemma with_seqs_twice: "with_seqs seqs (with_seqs seqs c) = with_seqs seqs c"
  by (simp add: with_seqs_def split: option.split)

lemma with_seqs_one:
  "with_seqs [(k, v)] c = (if cv_ConversationID c = k then c\<lparr>cv_UnreadCount := unread_of v, cv_HasReadSeq := sq_HasReadSeq v\<rparr> else c)"
  by (simp add: with_seqs_def)

lemma with_seqs_Cons: "k \<notin> fst ` set rest \<Longrightarrow> with_seqs ((k, v) # rest) c = with_seqs rest (with_seqs [(k, v)] c)"
  by (cases "cv_ConversationID c = k") (simp_all add: with_seqs_def in_keys_gget)

lemma recorder_fold:
  "distinct (map fst todo) \<Longrightarrow> gget todo k = Some v \<Longrightarrow>
   recorder_Get (fold (\<lambda>(k, v). recorder_Set k (sq_MaxSeq v)) todo m) k = sq_MaxSeq v"
proof (induction todo rule: rev_induct)
  case (snoc kv todo)
  then show ?case
    by (cases kv) (force simp: recorder_Get_def recorder_Set_def gget_gput map_add_def split: if_splits option.splits dest: map_of_SomeD)
qed simp

locale healthy_conversations = conversation_tables E chat_rows conv_rows
  for E :: "('q, 't, 'n) conv_env"
    and chat_rows :: "string \<Rightarrow> 't \<Rightarrow> LocalChatLog list"
    and conv_rows :: "'t \<Rightarrow> LocalConversation list" +
  fixes healthy :: "'t \<Rightarrow> bool"
  assumes conv_find: "healthy t \<Longrightarrow> gorm_find (cx_conv E) q t = (r, t') \<Longrightarrow> \<exists>cs. r = Inr cs"
    and conv_updates: "healthy t \<Longrightarrow> gorm_updates (cx_conv E) q f t = ((e, n), t') \<Longrightarrow> e = None"
    and conv_healthy: "stays (cx_conv E) healthy"
begin

lemma update_stored:
  assumes "healthy (co_db s)" and "\<exists>c \<in> set (conv_rows (co_db s)). cv_ConversationID c = k" and "k \<noteq> []"
    and run: "on_db (UpdateColumnsConversation (cx_conv E) k f) s = (e, s')"
  shows "e = None" and "conv_rows (co_db s') = map (\<lambda>r. if cv_ConversationID r = k then f r else r) (conv_rows (co_db s))"
    and "healthy (co_db s')" and "co_maxSeq s' = co_maxSeq s"
proof -
  obtain e0 n t where u: "gorm_updates (cx_conv E) (\<lambda>r. cv_ConversationID r = k) f (co_db s) = ((e0, n), t)" by (metis prod.exhaust)
  have "e0 = None" by (rule conv_updates [OF assms(1) u])
  note rows = gorm_table.updates_ok [OF conv_table u [unfolded this]]
  then have "n \<noteq> 0" using assms(2) by (auto simp: filter_empty_conv)
  with u run \<open>e0 = None\<close> \<open>k \<noteq> []\<close> have "e = None" "s' = s\<lparr>co_db := t\<rparr>"
    by (simp_all add: on_db_def UpdateColumnsConversation_def updates_conv_def gorm_updates_pk_def wrap_err_def)
  then show "e = None" and "conv_rows (co_db s') = map (\<lambda>r. if cv_ConversationID r = k then f r else r) (conv_rows (co_db s))"
    and "healthy (co_db s')" and "co_maxSeq s' = co_maxSeq s"
    using rows staysD(4) [OF conv_healthy u assms(1)] by simp_all
qed

text \<open>One turn of the loop makes of the rows what \<open>with_seqs\<close> says for this conversation.\<close>

lemma read_position:
  assumes "healthy (co_db s)" and stored: "distinct (map cv_ConversationID (conv_rows (co_db s)))"
      "\<forall>y \<in> set (conv_rows (co_db s)). cv_ConversationID y \<noteq> []"
    and here: "gget onLocal k = rows_by_key cv_ConversationID (conv_rows (co_db s)) k"
    and run: "read_positions E onLocal [(k, v)] (ch, miss) s = ((ch', miss'), s')"
  shows "conv_rows (co_db s') = map (with_seqs [(k, v)]) (conv_rows (co_db s))" and "healthy (co_db s')"
    and "co_maxSeq s' = recorder_Set k (sq_MaxSeq v) (co_maxSeq s)"
    and "miss' = miss @ (if gget onLocal k = None then [k] else [])"
proof -
  define s1 where "s1 = s\<lparr>co_maxSeq := recorder_Set k (sq_MaxSeq v) (co_maxSeq s)\<rparr>"
  have s1: "co_db s1 = co_db s" "co_maxSeq s1 = recorder_Set k (sq_MaxSeq v) (co_maxSeq s)" by (simp_all add: s1_def)
  have same: "map (with_seqs [(k, v)]) (conv_rows (co_db s)) = conv_rows (co_db s)"
    if "\<And>r. r \<in> set (conv_rows (co_db s)) \<Longrightarrow> cv_ConversationID r = k \<Longrightarrow> cv_UnreadCount r = unread_of v \<and> cv_HasReadSeq r = sq_HasReadSeq v"
    by (rule map_idI) (use that in \<open>auto simp: with_seqs_one\<close>)
  have "conv_rows (co_db s') = map (with_seqs [(k, v)]) (conv_rows (co_db s)) \<and> healthy (co_db s') \<and>
    co_maxSeq s' = recorder_Set k (sq_MaxSeq v) (co_maxSeq s) \<and> miss' = miss @ (if gget onLocal k = None then [k] else [])"
  proof (cases "gget onLocal k")
    case None
    with here have "rows_by_key cv_ConversationID (conv_rows (co_db s)) k = None" by simp
    then have "\<And>r. r \<in> set (conv_rows (co_db s)) \<Longrightarrow> cv_ConversationID r \<noteq> k" by (auto simp: rows_by_key_def find_None_iff)
    with same have "map (with_seqs [(k, v)]) (conv_rows (co_db s)) = conv_rows (co_db s)" by blast
    with None run assms(1) s1 show ?thesis by (simp add: s1_def [symmetric])
  next
    case (Some c)
    with here have "rows_by_key cv_ConversationID (conv_rows (co_db s)) k = Some c" by simp
    then have c: "c \<in> set (conv_rows (co_db s))" "cv_ConversationID c = k" by (auto simp: rows_by_key_def dest: find_SomeD)
    have only: "r = c" if "r \<in> set (conv_rows (co_db s))" "cv_ConversationID r = k" for r
      using stored(1) that c by (auto simp: distinct_map dest: inj_onD)
    show ?thesis
    proof (cases "cv_UnreadCount c \<noteq> unread_of v \<or> cv_HasReadSeq c \<noteq> sq_HasReadSeq v")
      case True
      obtain e s2 where u: "on_db (UpdateColumnsConversation (cx_conv E) k
          (\<lambda>r. r\<lparr>cv_UnreadCount := unread_of v, cv_HasReadSeq := sq_HasReadSeq v\<rparr>)) s1 = (e, s2)" by fastforce
      have "k \<noteq> []" and "\<exists>c \<in> set (conv_rows (co_db s)). cv_ConversationID c = k" using c stored(2) by blast+
      note upd = update_stored [OF _ _ this(1) u, unfolded s1, OF assms(1) this(2)]
      have "s' = s2" "miss' = miss" using run True Some u upd(1) by (simp_all add: s1_def [symmetric] Let_def)
      with Some upd(2-4) show ?thesis by (simp add: with_seqs_one cong: map_cong)
    next
      case False
      with only have "map (with_seqs [(k, v)]) (conv_rows (co_db s)) = conv_rows (co_db s)" by (intro same) auto
      with False Some run assms(1) s1 show ?thesis by (simp add: s1_def [symmetric] Let_def)
    qed
  qed
  then show "conv_rows (co_db s') = map (with_seqs [(k, v)]) (conv_rows (co_db s))" and "healthy (co_db s')"
    and "co_maxSeq s' = recorder_Set k (sq_MaxSeq v) (co_maxSeq s)"
    and "miss' = miss @ (if gget onLocal k = None then [k] else [])" by simp_all
qed

lemma read_positions_Cons:
  "read_positions E onLocal (kv # rest) acc s =
     (case read_positions E onLocal [kv] acc s of (acc', s') \<Rightarrow> read_positions E onLocal rest acc' s')"
  by (cases kv; cases acc) (simp add: Let_def split: option.split prod.split)

lemma read_positions_rows:
  assumes "healthy (co_db s)" and "distinct (map cv_ConversationID (conv_rows (co_db s)))"
      "\<forall>y \<in> set (conv_rows (co_db s)). cv_ConversationID y \<noteq> []"
    and "distinct (map fst todo)"
    and "\<forall>k \<in> fst ` set todo. gget onLocal k = rows_by_key cv_ConversationID (conv_rows (co_db s)) k"
    and "read_positions E onLocal todo (ch, miss) s = ((ch', miss'), s')"
  shows "conv_rows (co_db s') = map (with_seqs todo) (conv_rows (co_db s)) \<and> healthy (co_db s') \<and>
    co_maxSeq s' = fold (\<lambda>(k, v). recorder_Set k (sq_MaxSeq v)) todo (co_maxSeq s) \<and>
    miss' = miss @ filter (\<lambda>k. gget onLocal k = None) (map fst todo)"
  using assms
proof (induction todo arbitrary: ch miss s)
  case Nil
  then show ?case by simp
next
  case (Cons kv todo)
  obtain k v where kv: "kv = (k, v)" by fastforce
  obtain ch1 miss1 s1 where one: "read_positions E onLocal [(k, v)] (ch, miss) s = ((ch1, miss1), s1)" by (metis prod.exhaust)
  with Cons.prems(6) have rest: "read_positions E onLocal todo (ch1, miss1) s1 = ((ch', miss'), s')"
    unfolding kv read_positions_Cons [of onLocal "(k, v)" todo] by simp
  have "gget onLocal k = rows_by_key cv_ConversationID (conv_rows (co_db s)) k" using Cons.prems(5) by (simp add: kv)
  note first = read_position [OF Cons.prems(1-3) this one]
  have other: "rows_by_key cv_ConversationID (conv_rows (co_db s1)) k' = rows_by_key cv_ConversationID (conv_rows (co_db s)) k'"
    if "k' \<noteq> k" for k'
    unfolding first(1) using that by (intro rows_by_key_map_other) (auto simp: with_seqs_one)
  have new: "k \<notin> fst ` set todo" using Cons.prems(4) by (simp add: kv)
  then have agree: "\<forall>k \<in> fst ` set todo. gget onLocal k = rows_by_key cv_ConversationID (conv_rows (co_db s1)) k"
    using Cons.prems(5) other by (metis (no_types, lifting) image_eqI list.set_intros(2) imageE)
  have "distinct (map cv_ConversationID (conv_rows (co_db s1)))" "\<forall>y \<in> set (conv_rows (co_db s1)). cv_ConversationID y \<noteq> []"
    using Cons.prems(2,3) by (simp_all add: first(1) comp_def)
  from Cons.IH [OF first(2) this _ agree rest] Cons.prems(4) first new
  show ?case by (simp add: kv with_seqs_Cons [OF new])
qed

text \<open>The conversations that are not stored here are added with their positions, or not at all.\<close>

lemma add_missing_rows:
  assumes "add_missing E A seqs miss s = (r, s')"
  shows "\<exists>added. conv_rows (co_db s') = conv_rows (co_db s) @ added \<and> (\<forall>c \<in> set added. with_seqs seqs c = c) \<and>
    (miss = [] \<longrightarrow> added = [] \<and> r = None)" and "co_maxSeq s' = co_maxSeq s"
proof -
  have "(\<exists>added. conv_rows (co_db s') = conv_rows (co_db s) @ added \<and> (\<forall>c \<in> set added. with_seqs seqs c = c) \<and>
    (miss = [] \<longrightarrow> added = [] \<and> r = None)) \<and> co_maxSeq s' = co_maxSeq s"
  proof (cases "miss = []")
    case True
    with assms show ?thesis by (auto simp: add_missing_def)
  next
    case False
    obtain r1 s1 where r1: "getServerConversationsByIDs E A miss s = (r1, s1)" by fastforce
    then have s1: "co_db s1 = co_db s" "co_maxSeq s1 = co_maxSeq s"
      by (auto simp: getServerConversationsByIDs_def on_net_def split: prod.splits sum.splits)
    show ?thesis
    proof (cases r1)
      case (Inl e)
      with assms False r1 s1 show ?thesis by (auto simp: add_missing_def)
    next
      case (Inr onServer)
      obtain r2 s2 where r2: "batchAddFaceURLAndName E onServer s1 = (r2, s2)" by fastforce
      note s2 = batch_names_keep(1) [OF r2] batch_names_recorder [OF r2]
      show ?thesis
      proof (cases r2)
        case (Inl e)
        with assms False r1 \<open>r1 = Inr onServer\<close> r2 s1 s2 show ?thesis by (auto simp: add_missing_def)
      next
        case (Inr named)
        obtain e t where ins: "BatchInsertConversationList (cx_conv E) (map (with_seqs seqs) named) (co_db s2) = (e, t)" by fastforce
        have "\<exists>added. conv_rows t = conv_rows (co_db s2) @ added \<and> (\<forall>c \<in> set added. with_seqs seqs c = c)"
        proof (cases "map (with_seqs seqs) named = []")
          case True
          with ins show ?thesis by (auto simp: BatchInsertConversationList_def)
        next
          case False
          then obtain e0 where create: "gorm_create (cx_conv E) (map (with_seqs seqs) named) (co_db s2) = (e0, t)"
            using ins by (auto simp: BatchInsertConversationList_def wrap_act_def split: prod.splits)
          show ?thesis
          proof (cases e0)
            case None
            from gorm_table.create_ok [OF conv_table create [unfolded None]]
            show ?thesis by (intro exI [of _ "map (with_seqs seqs) named"]) (simp add: with_seqs_twice)
          next
            case (Some e)
            from gorm_table.create_err [OF conv_table create [unfolded Some]] show ?thesis by simp
          qed
        qed
        moreover have "s' = s2\<lparr>co_db := t\<rparr>"
          using assms False r1 \<open>r1 = Inr onServer\<close> r2 Inr ins by (simp add: add_missing_def on_db_def)
        ultimately show ?thesis using s1 s2 False by simp
      qed
    qed
  qed
  then show "\<exists>added. conv_rows (co_db s') = conv_rows (co_db s) @ added \<and> (\<forall>c \<in> set added. with_seqs seqs c = c) \<and>
    (miss = [] \<longrightarrow> added = [] \<and> r = None)" and "co_maxSeq s' = co_maxSeq s" by auto
qed

lemma read_seqs_synced:
  assumes run: "SyncAllConversationHashReadSeqs E A s = (r, s')"
    and answer: "getServerHasReadAndMaxSeqs E A [] s = (Inr seqs, s0)" "gomap_ok seqs" "any_order (cs_range_seqs A)"
    and "healthy (co_db s)" and stored: "distinct (map cv_ConversationID (conv_rows (co_db s)))"
      "\<forall>y \<in> set (conv_rows (co_db s)). cv_ConversationID y \<noteq> []"
  shows "\<exists>added. conv_rows (co_db s') = map (with_seqs seqs) (conv_rows (co_db s)) @ added \<and>
      (\<forall>c \<in> set added. with_seqs seqs c = c) \<and>
      (fst ` set seqs \<subseteq> cv_ConversationID ` set (conv_rows (co_db s)) \<longrightarrow> added = [] \<and> r = None)"
    and "gget seqs k = Some v \<Longrightarrow> recorder_Get (co_maxSeq s') k = sq_MaxSeq v"
proof -
  have s0: "co_db s0 = co_db s" using answer(1) by (auto simp: getServerHasReadAndMaxSeqs_def on_net_def split: prod.splits)
  let ?todo = "cs_range_seqs A seqs"
  have todo: "gget ?todo = gget seqs" "distinct (map fst ?todo)" "fst ` set ?todo = fst ` set seqs"
    using iter_gget [OF answer(3,2)] iter_distinct [OF answer(3,2)] iter_set [OF answer(3)] by (simp_all add: gomap_ok_def)
  then have with_todo: "with_seqs ?todo = with_seqs seqs" by (simp add: with_seqs_def fun_eq_iff)
  have "(\<exists>added. conv_rows (co_db s') = map (with_seqs seqs) (conv_rows (co_db s)) @ added \<and>
      (\<forall>c \<in> set added. with_seqs seqs c = c) \<and>
      (fst ` set seqs \<subseteq> cv_ConversationID ` set (conv_rows (co_db s)) \<longrightarrow> added = [] \<and> r = None)) \<and>
      (\<forall>k v. gget seqs k = Some v \<longrightarrow> recorder_Get (co_maxSeq s') k = sq_MaxSeq v)"
  proof (cases "seqs = []")
    case True
    with run answer(1) s0 show ?thesis by (auto simp: SyncAllConversationHashReadSeqs_def)
  next
    case False
    obtain r1 t where find: "gorm_find (cx_conv E) (\<lambda>_. True) (co_db s) = (r1, t)" by fastforce
    then obtain onLocal where r1: "r1 = Inr onLocal" using conv_find [OF \<open>healthy (co_db s)\<close>] by blast
    have all: "on_db (GetAllConversations (cx_conv E)) s0 = (Inr onLocal, s0\<lparr>co_db := t\<rparr>)"
      using find r1 s0 by (simp add: on_db_def GetAllConversations_def wrap_res_def)
    have rows: "conv_rows t = conv_rows (co_db s)" and healthy: "healthy t"
      using gorm_table.find_rows [OF conv_table find] staysD(1) [OF conv_healthy find] \<open>healthy (co_db s)\<close> by simp_all
    have snapshot: "gget (slice_to_map cv_ConversationID onLocal) k = rows_by_key cv_ConversationID (conv_rows (co_db s)) k" for k
      using find_by_key_view [OF stored(1) gorm_table.find_distinct [OF conv_table find [unfolded r1] stored(1)]
          gorm_table.find_set [OF conv_table find [unfolded r1]]]
      by (simp add: gget_slice_to_map)
    obtain ch miss s3 where loop: "read_positions E (slice_to_map cv_ConversationID onLocal) ?todo ([], []) (s0\<lparr>co_db := t\<rparr>) = ((ch, miss), s3)"
      by (metis prod.exhaust)
    have loop_rows: "conv_rows (co_db s3) = map (with_seqs seqs) (conv_rows (co_db s))"
      "co_maxSeq s3 = fold (\<lambda>(k, v). recorder_Set k (sq_MaxSeq v)) ?todo (co_maxSeq s0)"
      "miss = filter (\<lambda>k. gget (slice_to_map cv_ConversationID onLocal) k = None) (map fst ?todo)"
      using read_positions_rows [OF _ _ _ todo(2) _ loop] healthy rows stored snapshot by (simp_all add: with_todo)
    obtain r4 s4 where add: "add_missing E A seqs miss s3 = (r4, s4)" by fastforce
    note added = add_missing_rows [OF add]
    have recorded: "recorder_Get (co_maxSeq s4) k = sq_MaxSeq v" if "gget seqs k = Some v" for k v
      using that recorder_fold [OF todo(2)] by (simp add: added(2) loop_rows(2) todo(1))
    have final: "co_db s' = co_db s4 \<and> co_maxSeq s' = co_maxSeq s4 \<and> r = r4"
      using run answer(1) False all loop add
      by (cases r4) (auto simp: SyncAllConversationHashReadSeqs_def on_ch_def split: prod.splits)
    have "miss = []" if "fst ` set seqs \<subseteq> cv_ConversationID ` set (conv_rows (co_db s))"
      using that todo(3) unfolding loop_rows(3) filter_empty_conv snapshot rows_by_key_def find_None_iff set_map by (metis imageE subsetD)
    with added(1) loop_rows(1) final recorded show ?thesis by metis
  qed
  then show "\<exists>added. conv_rows (co_db s') = map (with_seqs seqs) (conv_rows (co_db s)) @ added \<and>
      (\<forall>c \<in> set added. with_seqs seqs c = c) \<and>
      (fst ` set seqs \<subseteq> cv_ConversationID ` set (conv_rows (co_db s)) \<longrightarrow> added = [] \<and> r = None)"
    and "gget seqs k = Some v \<Longrightarrow> recorder_Get (co_maxSeq s') k = sq_MaxSeq v" by blast+
qed

end

lemma world_no_faults:
  assumes "no_faults w"
  shows "gorm_find (cx_conv (on_world E)) q w = (Inr (filter q (ft_rows (w_conv w))), w)"
    and "gorm_updates (cx_conv (on_world E)) q f w =
      ((None, length (filter q (ft_rows (w_conv w)))),
       w\<lparr>w_conv := (w_conv w)\<lparr>ft_rows := map (\<lambda>r. if q r then f r else r) (ft_rows (w_conv w))\<rparr>\<rparr>)"
    and "gorm_find (cx_friends (on_world E)) p w = (Inr (filter p (ft_rows (w_friends w))), w)"
  using assms
  by (simp_all add: on_world_def world_conv_def world_friends_def at_table_def list_gorm_def next_fault_def no_faults_def)

interpretation wv: healthy_conversations "on_world E" "\<lambda>name w. ft_rows (w_chat w name)" "\<lambda>w. ft_rows (w_conv w)" no_faults
proof (intro healthy_conversations.intro wc.conversation_tables_axioms healthy_conversations_axioms.intro)
  show "stays (cx_conv (on_world E)) no_faults" by (rule wh.conv_stays)
  show "\<exists>cs. r = Inr cs" if "no_faults t" "gorm_find (cx_conv (on_world E)) q t = (r, t')" for t q r t'
    using world_no_faults(1) [OF that(1), of E q] that(2) by auto
  show "e = None" if "no_faults t" "gorm_updates (cx_conv (on_world E)) q f t = ((e, n), t')" for t q f e n t'
    using world_no_faults(2) [OF that(1), of E q f] that(2) by simp
qed


section \<open>The properties\<close>

text \<open>A setting of the server and a stored conversation.\<close>

definition muted :: ServerConversation where
  "muted = \<lparr>sc_ConversationID = ''c'', sc_ConversationType = 0, sc_UserID = [], sc_GroupID = [], sc_RecvMsgOpt = 1, sc_GroupAtType = 0,
     sc_IsPinned = False, sc_BurnDuration = 0, sc_IsPrivateChat = False, sc_AttachedInfo = [], sc_Ex = [], sc_MsgDestructTime = 0,
     sc_IsMsgDestruct = False\<rparr>"

definition read_conversation :: LocalConversation where
  "read_conversation = zero_conversation\<lparr>cv_ConversationID := ''c'', cv_HasReadSeq := 7\<rparr>"

definition one_conversation :: "'n \<Rightarrow> (world, 'n) conv_state" where
  "one_conversation n = (sample_state n)\<lparr>co_db := empty_world\<lparr>w_conv := \<lparr>ft_rows = [read_conversation], ft_faults = []\<rparr>\<rparr>\<rparr>"

lemma world_tables: "conversation_tables (on_world E) (\<lambda>name w. ft_rows (w_chat w name)) (\<lambda>w. ft_rows (w_conv w))"
  "healthy_conversations (on_world E) (\<lambda>name w. ft_rows (w_chat w name)) (\<lambda>w. ft_rows (w_conv w)) no_faults"
  by (rule wc.conversation_tables_axioms, rule wv.healthy_conversations_axioms)

text \<open>
  C15: \<^verbatim>\<open>SyncConversations\<close> brings the settings of the server. Whatever fails, each conversation is afterwards
  as it was or as the server has it, and when no error is reported all are: a new one is added, one whose settings are the
  same is left, and another gets the server's columns. These include the read position, which the server's answer does not
  carry, so that a conversation whose settings have changed is left with read position 0.
\<close>
theorem SyncConversations_settings:
  assumes "conversation_tables E chat_rows conv_rows"
    and "getServerConversationsByIDs E A ids s = (Inr server, s1)" and "SyncConversations E A ids s = (r, s')"
    and "distinct (map cv_ConversationID server)" and "\<forall>x \<in> set server. cv_ConversationID x \<noteq> []"
    and "distinct (map cv_ConversationID (conv_rows (co_db s)))" and "\<forall>y \<in> set (conv_rows (co_db s)). cv_ConversationID y \<noteq> []"
    and "any_order (cs_range_local A)"
  shows "\<exists>users groups. let old = rows_by_key cv_ConversationID (conv_rows (co_db s));
           new = rows_by_key cv_ConversationID (conv_rows (co_db s'));
           target = settings_target (map (add_name users groups) server) old in
         (\<forall>k. new k = old k \<or> new k = target k) \<and>
         (r = None \<longrightarrow> new = target \<and>
            (\<forall>x \<in> set server. \<forall>y. old (cv_ConversationID x) = Some y \<longrightarrow> cv_RecvMsgOpt x \<noteq> cv_RecvMsgOpt y \<longrightarrow>
               (\<exists>z. new (cv_ConversationID x) = Some z \<and> cv_RecvMsgOpt z = cv_RecvMsgOpt x \<and> cv_HasReadSeq z = 0)))"
proof -
  from assms(2) obtain cs where server: "server = map ServerConversationToLocal cs" and s1: "co_db s1 = co_db s"
    by (auto simp: getServerConversationsByIDs_def on_net_def Batch_def split: prod.splits sum.splits)
  have "SyncConversationsAndTriggerCallback E A server s1 = (r, s')" using assms(2,3) by (simp add: SyncConversations_def)
  from conversation_tables.synced_conversations [OF assms(1) this assms(4,5)] assms(6-8) s1
  obtain users groups where ug: "let old = rows_by_key cv_ConversationID (conv_rows (co_db s));
           new = rows_by_key cv_ConversationID (conv_rows (co_db s'));
           target = settings_target (map (add_name users groups) server) old in
         (\<forall>k. new k = old k \<or> new k = target k) \<and> (r = None \<longrightarrow> new = target)" by auto
  let ?old = "rows_by_key cv_ConversationID (conv_rows (co_db s))"
  have "\<exists>z. settings_target (map (add_name users groups) server) ?old (cv_ConversationID x) = Some z \<and>
      cv_RecvMsgOpt z = cv_RecvMsgOpt x \<and> cv_HasReadSeq z = 0"
    if "x \<in> set server" "?old (cv_ConversationID x) = Some y" "cv_RecvMsgOpt x \<noteq> cv_RecvMsgOpt y" for x y
    using that(2,3) found_named [OF assms(4) that(1), of users groups] that(1)
    by (auto simp: settings_target_def same_columns_def sync_columns_def server ServerConversationToLocal_def zero_conversation_def)
  with ug show ?thesis by (intro exI [of _ users] exI [of _ groups]) (auto simp: Let_def)
qed

lemma sync_one:
  "\<exists>s'. SyncConversations (on_world (E\<lparr>cx_SliceSub := \<lambda>a b. a\<rparr>)) (A\<lparr>cs_by_ids_io := replying [muted], cs_range_local := \<lambda>m. m\<rparr>)
     [''c''] (one_conversation n) = (None, s')"
proof -
  let ?E = "on_world (E\<lparr>cx_SliceSub := \<lambda>a b. a\<rparr>)" and ?s = "one_conversation n" and ?c = "ServerConversationToLocal muted"
  have ok: "no_faults (co_db ?s)" and rows: "ft_rows (w_conv (co_db ?s)) = [read_conversation]" and users: "cx_SliceSub ?E [] [] = []"
    by (simp_all add: one_conversation_def no_faults_def empty_world_def on_world_def)
  have stored: "on_db (GetAllConversations (cx_conv ?E)) ?s = (Inr [read_conversation], ?s)"
    by (simp add: on_db_def GetAllConversations_def wrap_res_def world_no_faults [OF ok] rows)
  have kinds: "\<not> is_user_conversation ?c" "\<not> is_group_conversation ?c"
    by (simp_all add: is_user_conversation_def is_group_conversation_def ServerConversationToLocal_def muted_def session_types)
  have named: "batchAddFaceURLAndName ?E [?c] ?s = (Inr [?c], ?s)"
    by (simp add: batchAddFaceURLAndName_def batchGetUserNameAndFaceURL_def GetFriendInfoList_def GetGroupsInfoFromLocal2Svr_def
        on_db_def wrap_res_def world_no_faults [OF ok] kinds users friends_map_def add_name_def)
  have "\<exists>s'. Sync (\<lambda>x y. False) zero_conversation (\<lambda>m. m) (conversationSyncer (cx_conv ?E)) [?c] [read_conversation]
      (Some (sync_notice ?E)) [True] ?s = (None, s')"
  proof -
    have old: "slice_to_map cv_ConversationID [read_conversation] = [(''c'', read_conversation)]"
      by (simp add: slice_to_map_def read_conversation_def)
    have "\<not> same_columns ?c read_conversation" and id: "cv_ConversationID ?c = ''c''" "cv_ConversationID read_conversation = ''c''"
      by (simp_all add: same_columns_def ServerConversationToLocal_def muted_def read_conversation_def zero_conversation_def)
    then have differ: "\<not> sy_eq (\<lambda>x y. False) (conversationSyncer (cx_conv ?E)) ?c read_conversation"
      by (simp add: wc.conversation_syncer_ops)
    obtain s2 where upd: "sy_update (conversationSyncer (cx_conv ?E)) ?c read_conversation ?s = (None, s2)"
      by (simp add: wc.conversation_syncer_ops on_db_def UpdateColumnsConversation_def updates_conv_def gorm_updates_pk_def
          wrap_err_def world_no_faults [OF ok] rows id)
    obtain s3 where told: "onNotice (conversationSyncer (cx_conv ?E)) Update ?c read_conversation (Some (sync_notice ?E)) s2 = (None, s3)"
      by (simp add: onNotice_def wc.conversation_syncer_ops skip_act_def and_then_def sync_notice_def)
    show ?thesis using upd told
      by (simp add: Sync_def wc.conversation_syncer_ops(4) old id differ and_then_def)
  qed
  with stored named show ?thesis
    by (simp add: SyncConversations_def getServerConversationsByIDs_def on_net_def CallApi_replying Batch_def
        SyncConversationsAndTriggerCallback_def)
qed

theorem SyncConversations_settings_witness:
  "\<forall>(E :: ('q, world, 'n) conv_env) A n. \<exists>s' z.
     SyncConversations (on_world (E\<lparr>cx_SliceSub := \<lambda>a b. a\<rparr>)) (A\<lparr>cs_by_ids_io := replying [muted], cs_range_local := \<lambda>m. m\<rparr>)
       [''c''] (one_conversation n) = (None, s') \<and>
     rows_by_key cv_ConversationID (ft_rows (w_conv (co_db s'))) ''c'' = Some z \<and> cv_RecvMsgOpt z = 1 \<and> cv_HasReadSeq z = 0"
proof (intro allI)
  fix E :: "('q, world, 'n) conv_env" and A :: "'n sync_api" and n :: 'n
  let ?A = "A\<lparr>cs_by_ids_io := replying [muted], cs_range_local := \<lambda>m. m\<rparr>" and ?E = "on_world (E\<lparr>cx_SliceSub := \<lambda>a b. a\<rparr>)"
  obtain s' where run: "SyncConversations ?E ?A [''c''] (one_conversation n) = (None, s')" using sync_one [of E A n] by (elim exE)
  have "getServerConversationsByIDs ?E ?A [''c''] (one_conversation n) = (Inr [ServerConversationToLocal muted], one_conversation n)"
    by (simp add: getServerConversationsByIDs_def on_net_def CallApi_replying Batch_def)
  from SyncConversations_settings [OF world_tables(1) this run]
  show "\<exists>s' z. SyncConversations ?E ?A [''c''] (one_conversation n) = (None, s') \<and>
     rows_by_key cv_ConversationID (ft_rows (w_conv (co_db s'))) ''c'' = Some z \<and> cv_RecvMsgOpt z = 1 \<and> cv_HasReadSeq z = 0"
    using run by (auto simp: one_conversation_def read_conversation_def muted_def ServerConversationToLocal_def
        zero_conversation_def rows_by_key_def empty_world_def Let_def)
qed

text \<open>
  C18: \<^verbatim>\<open>SyncAllConversationHashReadSeqs\<close>, on a database that does not fail and for any order of the iteration, gives
  each stored conversation the read position of the server and the number of unread messages that follows from it, and
  records every largest sequence number; conversations that are not stored are added with their positions or not at all,
  and no error is reported when all are stored.
\<close>
theorem read_positions_synced:
  assumes "healthy_conversations E chat_rows conv_rows healthy"
    and "SyncAllConversationHashReadSeqs E A s = (r, s')" and "getServerHasReadAndMaxSeqs E A [] s = (Inr seqs, s0)"
    and "gomap_ok seqs" and "any_order (cs_range_seqs A)" and "healthy (co_db s)"
    and "distinct (map cv_ConversationID (conv_rows (co_db s)))" and "\<forall>y \<in> set (conv_rows (co_db s)). cv_ConversationID y \<noteq> []"
  shows "(\<exists>added. conv_rows (co_db s') = map (with_seqs seqs) (conv_rows (co_db s)) @ added \<and>
      (\<forall>c \<in> set added. with_seqs seqs c = c) \<and>
      (fst ` set seqs \<subseteq> cv_ConversationID ` set (conv_rows (co_db s)) \<longrightarrow> added = [] \<and> r = None)) \<and>
    (\<forall>k v. gget seqs k = Some v \<longrightarrow> recorder_Get (co_maxSeq s') k = sq_MaxSeq v)"
  using healthy_conversations.read_seqs_synced [OF assms] by blast

theorem read_positions_synced_witness:
  "\<forall>(E :: ('q, world, 'n) conv_env) A n. \<exists>s'.
     SyncAllConversationHashReadSeqs (on_world E)
       (A\<lparr>cs_seqs_io := replying [(''c'', \<lparr>sq_MaxSeq = 12, sq_HasReadSeq = 9\<rparr>)], cs_range_seqs := rev\<rparr>) (one_conversation n) = (None, s') \<and>
     ft_rows (w_conv (co_db s')) = [read_conversation\<lparr>cv_UnreadCount := 3, cv_HasReadSeq := 9\<rparr>] \<and> recorder_Get (co_maxSeq s') ''c'' = 12"
proof (intro allI)
  fix E :: "('q, world, 'n) conv_env" and A :: "'n sync_api" and n :: 'n
  let ?seqs = "[(''c'', \<lparr>sq_MaxSeq = 12, sq_HasReadSeq = 9\<rparr>)]"
  let ?A = "A\<lparr>cs_seqs_io := replying ?seqs, cs_range_seqs := rev\<rparr>"
  obtain r s' where run: "SyncAllConversationHashReadSeqs (on_world E) ?A (one_conversation n) = (r, s')" by fastforce
  have "getServerHasReadAndMaxSeqs (on_world E) ?A [] (one_conversation n) = (Inr ?seqs, one_conversation n)"
    by (simp add: getServerHasReadAndMaxSeqs_def on_net_def CallApi_replying)
  note synced = read_positions_synced [OF world_tables(2) run this]
  have "ft_rows (w_conv (co_db (one_conversation n))) = [read_conversation]" "no_faults (co_db (one_conversation n))"
    by (simp_all add: one_conversation_def no_faults_def empty_world_def)
  moreover have id: "cv_ConversationID read_conversation = ''c''" by (simp add: read_conversation_def)
  ultimately have "\<exists>added. ft_rows (w_conv (co_db s')) = [with_seqs ?seqs read_conversation] @ added \<and> added = [] \<and> r = None"
    and "recorder_Get (co_maxSeq s') ''c'' = 12"
    using synced by (simp_all add: gomap_ok_def)
  moreover have "unread_of \<lparr>sq_MaxSeq = 12, sq_HasReadSeq = 9\<rparr> = 3" by code_simp
  ultimately have "r = None" "ft_rows (w_conv (co_db s')) = [read_conversation\<lparr>cv_UnreadCount := 3, cv_HasReadSeq := 9\<rparr>]"
    "recorder_Get (co_maxSeq s') ''c'' = 12"
    by (auto simp: with_seqs_one id)
  then show "\<exists>s'. SyncAllConversationHashReadSeqs (on_world E) ?A (one_conversation n) = (None, s') \<and>
     ft_rows (w_conv (co_db s')) = [read_conversation\<lparr>cv_UnreadCount := 3, cv_HasReadSeq := 9\<rparr>] \<and> recorder_Get (co_maxSeq s') ''c'' = 12"
    using run by blast
qed

end
