(* ===== verification/MediaFiles.thy ===== *)
theory MediaFiles
  imports ConvNew ConvRead Upload
begin

text \<open>
  What creating and sending messages share: paths (\<^verbatim>\<open>pkg/utils/file.go\<close> and the \<^verbatim>\<open>path\<close> package), media types
  (\<^verbatim>\<open>pkg/content_type\<close>), message identifiers, and the environment of both. On the supported targets a path is
  separated by slashes.
\<close>

section \<open>Paths and media types\<close>

text \<open>\<^verbatim>\<open>path.Ext\<close>: from the last dot of the last element.\<close>

definition path_Ext :: "string \<Rightarrow> string" where
  "path_Ext p =
     (let element = takeWhile (\<lambda>c. c \<noteq> CHR ''/'') (rev p); suffix = takeWhile (\<lambda>c. c \<noteq> CHR ''.'') element
      in if suffix = element then [] else CHR ''.'' # rev suffix)"

text \<open>\<^verbatim>\<open>filepath.Base\<close>: the last element, trailing slashes apart.\<close>

definition path_Base :: "string \<Rightarrow> string" where
  "path_Base p =
     (if p = [] then ''.''
      else let element = takeWhile (\<lambda>c. c \<noteq> CHR ''/'') (dropWhile (\<lambda>c. c = CHR ''/'') (rev p))
           in if element = [] then ''/'' else rev element)"

text \<open>The first extension that is not empty.\<close>

fun filepathExt :: "string list \<Rightarrow> string" where
  "filepathExt [] = []"
| "filepathExt (p # rest) = (if path_Ext p \<noteq> [] then path_Ext p else filepathExt rest)"

definition ext_types :: "(string \<times> string) list" where
  "ext_types = [
     (''html'', ''text/html''),
     (''htm'', ''text/html''),
     (''css'', ''text/css''),
     (''js'', ''application/javascript''),
     (''json'', ''application/json''),
     (''xml'', ''application/xml''),
     (''png'', ''image/png''),
     (''jpg'', ''image/jpeg''),
     (''jpeg'', ''image/jpeg''),
     (''gif'', ''image/gif''),
     (''bmp'', ''image/bmp''),
     (''tif'', ''image/tiff''),
     (''tiff'', ''image/tiff''),
     (''ico'', ''image/x-icon''),
     (''svg'', ''image/svg+xml''),
     (''webp'', ''image/webp''),
     (''mp4'', ''video/mp4''),
     (''avi'', ''video/x-msvideo''),
     (''mkv'', ''video/x-matroska''),
     (''mov'', ''video/quicktime''),
     (''wmv'', ''video/x-ms-wmv''),
     (''flv'', ''video/x-flv''),
     (''webm'', ''video/webm''),
     (''3gp'', ''video/3gpp''),
     (''mp3'', ''audio/mpeg''),
     (''wav'', ''audio/wav''),
     (''ogg'', ''audio/ogg''),
     (''aac'', ''audio/aac''),
     (''wma'', ''audio/x-ms-wma''),
     (''flac'', ''audio/flac''),
     (''mid'', ''audio/midi''),
     (''midi'', ''audio/midi''),
     (''weba'', ''audio/webm''),
     (''pdf'', ''application/pdf''),
     (''doc'', ''application/msword''),
     (''docx'', ''application/vnd.openxmlformats-officedocument.wordprocessingml.document''),
     (''xls'', ''application/vnd.ms-excel''),
     (''xlsx'', ''application/vnd.openxmlformats-officedocument.spreadsheetml.sheet''),
     (''ppt'', ''application/vnd.ms-powerpoint''),
     (''pptx'', ''application/vnd.openxmlformats-officedocument.presentationml.presentation''),
     (''txt'', ''text/plain''),
     (''csv'', ''text/csv''),
     (''zip'', ''application/zip''),
     (''rar'', ''application/x-rar-compressed''),
     (''tar'', ''application/x-tar''),
     (''gz'', ''application/gzip''),
     (''exe'', ''application/x-msdownload''),
     (''msi'', ''application/x-msi''),
     (''deb'', ''application/x-debian-package''),
     (''rpm'', ''application/x-redhat-package-manager''),
     (''sh'', ''application/x-sh''),
     (''bat'', ''application/bat''),
     (''py'', ''application/x-python''),
     (''java'', ''text/x-java-source''),
     (''c'', ''text/x-csrc''),
     (''cpp'', ''text/x-c++src''),
     (''h'', ''text/x-chdr''),
     (''hpp'', ''text/x-c++hdr''),
     (''php'', ''application/x-php''),
     (''asp'', ''application/x-asp''),
     (''jsp'', ''application/x-jsp''),
     (''dll'', ''application/x-msdownload''),
     (''jar'', ''application/java-archive''),
     (''war'', ''application/java-archive''),
     (''ear'', ''application/java-archive'')]"

definition index_byte :: "char \<Rightarrow> string \<Rightarrow> int" where
  "index_byte c s = (if c \<in> set s then int (length (takeWhile (\<lambda>x. x \<noteq> c) s)) else -1)"

fun GetType :: "(string \<Rightarrow> string) \<Rightarrow> string list \<Rightarrow> string" where
  "GetType lower [] = []"
| "GetType lower (s # rest) =
     (if length s > 1
      then let i = index_byte CHR ''/'' s in
           if i > 0 \<and> i < int (length s) - 1 then s
           else let s' = (if take 1 s = ''.'' then drop 1 s else s) in
                (case gget ext_types s' of
                   Some v \<Rightarrow> v
                 | None \<Rightarrow> (case gget ext_types (lower s') of Some v \<Rightarrow> v | None \<Rightarrow> GetType lower rest))
      else GetType lower rest)"

section \<open>Options\<close>

definition IsPersistent :: string where "IsPersistent = ''persistent''"
definition IsOfflinePush :: string where "IsOfflinePush = ''offlinePush''"
definition IsSenderSync :: string where "IsSenderSync = ''senderSync''"
definition UserMsgType :: int where "UserMsgType = 100"
definition SysMsgType :: int where "SysMsgType = 200"

definition MsgRepeatError :: int where "MsgRepeatError = 10204"
definition MsgContentTypeNotSupportError :: int where "MsgContentTypeNotSupportError = 10205"
definition ErrMsgRepeated :: go_error where
  "ErrMsgRepeated = CodeError MsgRepeatError ''only failed message can be repeatedly send''"
definition ErrMsgContentTypeNotSupport :: go_error where
  "ErrMsgContentTypeNotSupport = CodeError MsgContentTypeNotSupportError ''contentType not support currently''"

text \<open>The message \<^verbatim>\<open>MsgData\<close> as it is sent, and the server's answer.\<close>

record WsMsgData = MsgData +
  md_AtUserIDList :: "string list"

record UserSendMsgResp =
  usr_ServerMsgID :: string
  usr_ClientMsgID :: string
  usr_SendTime :: int

record ImageInfo =
  im_Width :: int
  im_Height :: int
  im_Type :: string
  im_Size :: int

text \<open>
  The environment beside that of the conversations. The network state \<open>'n\<close> stands for everything outside the database, the
  file system included. \<open>sx_SendMsg\<close> is \<^verbatim>\<open>SendReqWaitResp\<close> of the long connection; \<open>sx_is_timeout\<close> is \<^verbatim>\<open>ErrNetworkTimeOut.Is\<close>
  of the tools library; \<open>sx_UploadFile\<close> is the upload of a file, with the callbacks it made (\<open>file_upload\<close> is the model's);
  \<open>sx_percent\<close> computes a percentage in \<^verbatim>\<open>float64\<close>; \<open>sx_snapshot_url\<close> parses an address and adds the query of a snapshot;
  \<open>sx_video_first\<close> says in which order the two uploads of a video run; \<open>sx_quote\<close> is a message as part of another.
\<close>

record ('q, 't, 'n) send_env =
  sx_platformID :: int
  sx_DataDir :: string
  sx_IsExternalExtensions :: bool
  sx_sending :: "(LocalSendingMessages, 't) gorm"
  sx_SendMsg :: "WsMsgData \<Rightarrow> 'n \<Rightarrow> (go_error + UserSendMsgResp) \<times> 'n"
  sx_is_timeout :: "go_error \<Rightarrow> bool"
  sx_UploadFile :: "UploadFileReq \<Rightarrow> 't \<times> 'n \<Rightarrow> (((go_error + string) \<times> UploadEvent list) \<times> 't \<times> 'n) option"
  sx_percent :: "int \<Rightarrow> int \<Rightarrow> int"
  sx_snapshot_url :: "string \<Rightarrow> string option"
  sx_video_first :: bool
  sx_FileExist :: "string \<Rightarrow> 'n \<Rightarrow> bool"
  sx_remove :: "string list \<Rightarrow> 'n \<Rightarrow> 'n"
  sx_CopyFile :: "string \<Rightarrow> string \<Rightarrow> 'n \<Rightarrow> go_error option \<times> 'n"
  sx_Stat :: "string \<Rightarrow> 'n \<Rightarrow> go_error + string \<times> int"
  sx_getImageInfo :: "string \<Rightarrow> 'n \<Rightarrow> go_error + ImageInfo"
  sx_Md5 :: "string \<Rightarrow> string"
  sx_ToLower :: "string \<Rightarrow> string"
  sx_rand :: "int \<Rightarrow> 'n \<Rightarrow> int \<times> 'n"
  sx_quote :: "'q MsgStruct \<Rightarrow> 'q"

definition FileTmpPath :: "('q, 't, 'n) send_env \<Rightarrow> string \<Rightarrow> string" where
  "FileTmpPath X fullPath = sx_DataDir X @ sx_Md5 X fullPath @ path_Ext fullPath"

definition GetCurrentTimestampByMill :: "('q, 't, 'n) conv_env \<Rightarrow> 'n \<Rightarrow> int \<times> 'n" where
  "GetCurrentTimestampByMill E n = (case cx_now_nano E n of (t, n') \<Rightarrow> (t sdiv 10 ^ 6, n'))"

text \<open>The clock is read twice, for the identifier and for the bound of the random number.\<close>

definition GetMsgID :: "('q, 't, 'n) conv_env \<Rightarrow> ('q, 't, 'n) send_env \<Rightarrow> string \<Rightarrow> 'n \<Rightarrow> string \<times> 'n" where
  "GetMsgID E X sendID n =
     (case cx_now_nano E n of (t, n1) \<Rightarrow> case cx_now_nano E n1 of (b, n2) \<Rightarrow> case sx_rand X b n2 of (r, n3) \<Rightarrow>
        (sx_Md5 X (decimal t @ sendID @ decimal r), n3))"

definition initBasicInfo ::
  "('q, 't, 'n) conv_env \<Rightarrow> ('q, 't, 'n) send_env \<Rightarrow> int \<Rightarrow> int \<Rightarrow> 'q MsgStruct \<Rightarrow> ('t, 'n) conv_state \<Rightarrow>
   (go_error + 'q MsgStruct) \<times> ('t, 'n) conv_state" where
  "initBasicInfo E X msgFrom contentType message s =
     (case on_net (GetCurrentTimestampByMill E) s of (now, s1) \<Rightarrow>
        (case on_db (GetLoginUser (cx_user E) (cx_loginUserID E)) s1 of
           (Inl e, s2) \<Rightarrow> (Inl e, s2)
         | (Inr userInfo, s2) \<Rightarrow>
             (case on_net (GetMsgID E X (cx_loginUserID E)) s2 of (clientMsgID, s3) \<Rightarrow>
                (Inr (message\<lparr>ms_CreateTime := now, ms_SendTime := now, ms_IsRead := False, ms_Status := MsgStatusSending,
                   ms_SendID := cx_loginUserID E, ms_SenderFaceURL := us_FaceURL userInfo,
                   ms_SenderNickname := us_Nickname userInfo, ms_ClientMsgID := clientMsgID, ms_MsgFrom := msgFrom,
                   ms_ContentType := contentType, ms_SenderPlatformID := sx_platformID X,
                   ms_IsExternalExtensions := sx_IsExternalExtensions X\<rparr>), s3))))"

text \<open>
  The file component of \<^theory_text>\<open>Upload\<close> as the upload of this environment; the limits of the server, which it keeps, are part of the
  outside state.
\<close>

definition file_upload ::
  "('m, 't, 'u) upload_env \<Rightarrow> UploadFileReq \<Rightarrow> 't \<times> 'm \<times> PartLimitResp option \<Rightarrow>
   (((go_error + string) \<times> UploadEvent list) \<times> 't \<times> 'm \<times> PartLimitResp option) option" where
  "file_upload U req w =
     (case w of (t, m, limit) \<Rightarrow>
        map_option (\<lambda>(r, u). ((r, us_events u), us_table u, us_net u, us_partLimit u))
          (UploadFile U req \<lparr>us_net = m, us_table = t, us_partLimit = limit, us_pos = 0, us_events = []\<rparr>))"

end
