(* ===== verification/ConvSend.thy ===== *)
theory ConvSend
  imports MediaFiles
begin

text \<open>
  Sending a message (\<^verbatim>\<open>internal/conversation_msg/sdk.go\<close>, \<^verbatim>\<open>progress.go\<close> and \<^verbatim>\<open>typingStatusUpdate\<close>): the message and its
  conversation are put together, stored as being sent, media are uploaded, the message goes to the server over the
  long connection, and its new status is stored. \<open>None\<close> is a panic. The state of the message after an error is not
  seen by the caller.
\<close>

section \<open>The message and its conversation\<close>

definition zero_AttachedInfoElem :: AttachedInfoElem where
  "zero_AttachedInfoElem = \<lparr>ae_GroupHasReadInfo = \<lparr>ghr_HasReadUserIDList = [], ghr_HasReadCount = 0, ghr_GroupMemberCount = 0\<rparr>,
     ae_IsPrivateChat = False, ae_BurnDuration = 0, ae_HasReadTime = 0, ae_MessageEntityList = [], ae_IsEncryption = False,
     ae_InEncryptStatus = False, ae_Progress = None\<rparr>"

record 'q outgoing =
  og_msg :: "'q MsgStruct"
  og_conv :: LocalConversation
  og_options :: "(string, bool) gomap"

text \<open>The session of a message to a group; a group of no known type leaves it and the identifier empty.\<close>

definition group_session :: "string \<Rightarrow> int \<Rightarrow> string \<Rightarrow> 'q MsgStruct \<Rightarrow> LocalConversation \<Rightarrow> 'q MsgStruct \<times> LocalConversation" where
  "group_session loginUserID groupType groupID m lc =
     (if groupType = NormalGroup
      then (m\<lparr>ms_SessionType := GroupChatType\<rparr>, lc\<lparr>cv_ConversationType := GroupChatType,
        cv_ConversationID := getConversationIDBySessionType loginUserID groupID GroupChatType\<rparr>)
      else if groupType = SuperGroup \<or> groupType = WorkingGroup
      then (m\<lparr>ms_SessionType := SuperGroupChatType\<rparr>, lc\<lparr>cv_ConversationType := SuperGroupChatType,
        cv_ConversationID := getConversationIDBySessionType loginUserID groupID SuperGroupChatType\<rparr>)
      else (m, lc))"

definition to_group ::
  "('q, 't, 'n) conv_env \<Rightarrow> string \<Rightarrow> 'q MsgStruct \<Rightarrow> LocalConversation \<Rightarrow> (string, bool) gomap \<Rightarrow> ('t, 'n) conv_state \<Rightarrow>
   (go_error + 'q outgoing) \<times> ('t, 'n) conv_state" where
  "to_group E groupID m lc options s =
     (case GetGroupInfoFromLocal2Svr E groupID s of
        (Inl e, s1) \<Rightarrow> (Inl e, s1)
      | (Inr g, s1) \<Rightarrow>
          (case group_session (cx_loginUserID E) (gr_GroupType g) groupID m
             (lc\<lparr>cv_ShowName := gr_GroupName g, cv_FaceURL := gr_FaceURL g\<rparr>) of
             (m1, lc1) \<Rightarrow>
               (case on_db (GetGroupMemberInfoByGroupIDUserID (cx_members E) groupID (cx_loginUserID E)) s1 of (gm, s2) \<Rightarrow>
                  let m2 = m1\<lparr>ms_GroupID := groupID\<rparr>;
                      m3 = (case gm of
                              Inr member \<Rightarrow> if gm_Nickname member \<noteq> [] then m2\<lparr>ms_SenderNickname := gm_Nickname member\<rparr> else m2
                            | Inl _ \<Rightarrow> m2)
                  in (Inr \<lparr>og_msg = m3\<lparr>ms_AttachedInfoElem := Some (zero_AttachedInfoElem\<lparr>ae_GroupHasReadInfo :=
                          (ae_GroupHasReadInfo zero_AttachedInfoElem)\<lparr>ghr_GroupMemberCount := gr_MemberCount g\<rparr>\<rparr>)\<rparr>,
                        og_conv = lc1\<lparr>cv_GroupID := groupID\<rparr>, og_options = options\<rparr>, s2))))"

definition to_user ::
  "('q, 't, 'n) conv_env \<Rightarrow> string \<Rightarrow> 'q MsgStruct \<Rightarrow> LocalConversation \<Rightarrow> (string, bool) gomap \<Rightarrow> ('t, 'n) conv_state \<Rightarrow>
   (go_error + 'q outgoing) \<times> ('t, 'n) conv_state" where
  "to_user E recvID m lc options s =
     (let m1 = m\<lparr>ms_SessionType := SingleChatType, ms_RecvID := recvID\<rparr>;
          lc1 = lc\<lparr>cv_ConversationID := GetConversationIDByMsg m1, cv_UserID := recvID, cv_ConversationType := SingleChatType\<rparr>
      in case on_db (GetConversation (cx_conv E) (cv_ConversationID lc1)) s of
           (Inr oldLc, s1) \<Rightarrow>
             (if cv_IsPrivateChat oldLc
              then (Inr \<lparr>og_msg = m1\<lparr>ms_AttachedInfoElem := Some (zero_AttachedInfoElem\<lparr>ae_IsPrivateChat := True,
                        ae_BurnDuration := cv_BurnDuration oldLc\<rparr>)\<rparr>,
                      og_conv = lc1, og_options = SetSwitchFromOptions options IsNotPrivate False\<rparr>, s1)
              else (Inr \<lparr>og_msg = m1, og_conv = lc1, og_options = options\<rparr>, s1))
         | (Inl _, s1) \<Rightarrow>
             (case getUserNameAndFaceURL E recvID s1 of
                (Inl e, s2) \<Rightarrow> (Inl e, s2)
              | (Inr (faceUrl, name), s2) \<Rightarrow>
                  (Inr \<lparr>og_msg = m1, og_conv = lc1\<lparr>cv_FaceURL := faceUrl, cv_ShowName := name\<rparr>, og_options = options\<rparr>, s2)))"

definition checkID ::
  "('q, 't, 'n) conv_env \<Rightarrow> ('q, 't, 'n) send_env \<Rightarrow> 'q MsgStruct \<Rightarrow> string \<Rightarrow> string \<Rightarrow> (string, bool) gomap \<Rightarrow>
   ('t, 'n) conv_state \<Rightarrow> (go_error + 'q outgoing) \<times> ('t, 'n) conv_state" where
  "checkID E X m recvID groupID options s =
     (if recvID = [] \<and> groupID = [] then (Inl ErrArgs, s)
      else let m1 = m\<lparr>ms_SendID := cx_loginUserID E, ms_SenderPlatformID := sx_platformID X\<rparr>;
               lc = zero_conversation\<lparr>cv_LatestMsgSendTime := ms_CreateTime m\<rparr>
           in if recvID = [] then to_group E groupID m1 lc options s else to_user E recvID m1 lc options s)"

section \<open>The outcome\<close>

definition updateMsgStatusAndTriggerConversation ::
  "('q, 't, 'n) conv_env \<Rightarrow> ('q, 't, 'n) send_env \<Rightarrow> string \<Rightarrow> string \<Rightarrow> int \<Rightarrow> int \<Rightarrow> 'q MsgStruct \<Rightarrow> LocalConversation \<Rightarrow> bool \<Rightarrow>
   ('t, 'n) conv_state \<Rightarrow> ('t, 'n) conv_state" where
  "updateMsgStatusAndTriggerConversation E X clientMsgID serverMsgID sendTime status m lc isOnlineOnly s =
     (if isOnlineOnly then s
      else let m' = m\<lparr>ms_SendTime := sendTime, ms_Status := status, ms_ServerMsgID := serverMsgID\<rparr>;
               s1 = snd (on_db (UpdateMessageTimeAndStatus (cx_chat E) (cv_ConversationID lc) clientMsgID serverMsgID sendTime status) s);
               s2 = snd (on_db (DeleteSendingMessage (sx_sending X) (cv_ConversationID lc) clientMsgID) s1)
           in send_latest E (lc\<lparr>cv_LatestMsg := enc_Msg (cx_codec E) m', cv_LatestMsgSendTime := sendTime\<rparr>) s2)"

definition send_failed ::
  "('q, 't, 'n) conv_env \<Rightarrow> ('q, 't, 'n) send_env \<Rightarrow> 'q MsgStruct \<Rightarrow> LocalConversation \<Rightarrow> bool \<Rightarrow>
   ('t, 'n) conv_state \<Rightarrow> ('t, 'n) conv_state" where
  "send_failed E X m lc isOnlineOnly =
     updateMsgStatusAndTriggerConversation E X (ms_ClientMsgID m) [] (ms_CreateTime m) MsgStatusSendFailed m lc isOnlineOnly"

text \<open>The goroutine that ends a successful sending, with what it was given.\<close>

record 'q sent =
  sent_msg :: "'q MsgStruct"
  sent_conv :: LocalConversation
  sent_resp :: UserSendMsgResp
  sent_delFile :: "string list"
  sent_isOnlineOnly :: bool

definition finish_sending ::
  "('q, 't, 'n) conv_env \<Rightarrow> ('q, 't, 'n) send_env \<Rightarrow> 'q sent \<Rightarrow> ('t, 'n) conv_state \<Rightarrow> ('t, 'n) conv_state" where
  "finish_sending E X d s =
     updateMsgStatusAndTriggerConversation E X (usr_ClientMsgID (sent_resp d)) (usr_ServerMsgID (sent_resp d)) (usr_SendTime (sent_resp d))
       MsgStatusSendSuccess (sent_msg d) (sent_conv d) (sent_isOnlineOnly d) (s\<lparr>co_net := sx_remove X (sent_delFile d) (co_net s)\<rparr>)"

section \<open>To the server\<close>

definition online_options :: "(string, bool) gomap \<Rightarrow> (string, bool) gomap" where
  "online_options options = fold (\<lambda>key os. SetSwitchFromOptions os key False)
     [IsHistory, IsPersistent, IsSenderSync, IsConversationUpdate, IsSenderConversationUpdate, IsUnreadCount, IsOfflinePush] options"

definition ws_message ::
  "'q json_codec \<Rightarrow> 'q MsgStruct \<Rightarrow> OfflinePushInfo option \<Rightarrow> (string, bool) gomap \<Rightarrow> string list \<Rightarrow> WsMsgData" where
  "ws_message J m push options atUsers = \<lparr>md_SendID = ms_SendID m, md_RecvID = ms_RecvID m, md_GroupID = ms_GroupID m,
     md_ClientMsgID = ms_ClientMsgID m, md_ServerMsgID = ms_ServerMsgID m, md_SenderPlatformID = ms_SenderPlatformID m,
     md_SenderNickname = ms_SenderNickname m, md_SenderFaceURL = ms_SenderFaceURL m, md_SessionType = ms_SessionType m,
     md_MsgFrom = ms_MsgFrom m, md_ContentType = ms_ContentType m, md_Content = ms_Content m, md_Seq = ms_Seq m,
     md_SendTime = 0, md_CreateTime = ms_CreateTime m, md_Status = ms_Status m, md_IsRead = ms_IsRead m,
     md_Options = options, md_OfflinePushInfo = push, md_AttachedInfo = enc_AttachedInfoElem J (ms_AttachedInfoElem m),
     md_Ex = ms_Ex m, md_AtUserIDList = atUsers\<rparr>"

text \<open>After a time-out the answer may have come as a stored message.\<close>

definition answer_of ::
  "('q, 't, 'n) conv_env \<Rightarrow> ('q, 't, 'n) send_env \<Rightarrow> string \<Rightarrow> string \<Rightarrow> bool \<Rightarrow> go_error + UserSendMsgResp \<Rightarrow>
   ('t, 'n) conv_state \<Rightarrow> (go_error + UserSendMsgResp) \<times> ('t, 'n) conv_state" where
  "answer_of E X conversationID clientMsgID isOnlineOnly r s =
     (case r of
        Inr resp \<Rightarrow> (Inr resp, s)
      | Inl e \<Rightarrow>
          (if sx_is_timeout X e \<and> \<not> isOnlineOnly
           then case on_db (GetMessage (cx_chat E) conversationID clientMsgID) s of
                  (Inr oldMessage, s1) \<Rightarrow>
                    (if cl_Status oldMessage = MsgStatusSendSuccess
                     then (Inr \<lparr>usr_ServerMsgID = cl_ServerMsgID oldMessage, usr_ClientMsgID = cl_ClientMsgID oldMessage,
                                usr_SendTime = cl_SendTime oldMessage\<rparr>, s1)
                     else (Inl e, s1))
                | (Inl _, s1) \<Rightarrow> (Inl e, s1)
           else (Inl e, s)))"

definition sendMessageToServer ::
  "('q, 't, 'n) conv_env \<Rightarrow> ('q, 't, 'n) send_env \<Rightarrow> 'q MsgStruct \<Rightarrow> LocalConversation \<Rightarrow> string list \<Rightarrow> OfflinePushInfo option \<Rightarrow>
   (string, bool) gomap \<Rightarrow> bool \<Rightarrow> (('t, 'n) conv_state, 'q sent) upload_op" where
  "sendMessageToServer E X m lc delFile push options isOnlineOnly s =
     (let options1 = (if isOnlineOnly then online_options options else options) in
      case (if ms_ContentType m = AtText then map_option ate_AtUserList (ms_AtTextElem m) else Some []) of
        None \<Rightarrow> None
      | Some atUsers \<Rightarrow>
          (let m1 = m\<lparr>ms_Content := []\<rparr> in
           case on_net (sx_SendMsg X (ws_message (cx_codec E) m push options1 atUsers)) s of (r, s1) \<Rightarrow>
             (case answer_of E X (cv_ConversationID lc) (ms_ClientMsgID m) isOnlineOnly r s1 of
                (Inl e, s2) \<Rightarrow> Some (Inl e, send_failed E X m1 lc isOnlineOnly s2)
              | (Inr resp, s2) \<Rightarrow>
                  Some (Inr \<lparr>sent_msg = m1\<lparr>ms_SendTime := usr_SendTime resp, ms_Status := MsgStatusSendSuccess,
                                         ms_ServerMsgID := usr_ServerMsgID resp\<rparr>,
                             sent_conv = lc, sent_resp = resp, sent_delFile = delFile, sent_isOnlineOnly = isOnlineOnly\<rparr>, s2))))"

section \<open>Storing the message\<close>

definition store_sending ::
  "('q, 't, 'n) conv_env \<Rightarrow> ('q, 't, 'n) send_env \<Rightarrow> string \<Rightarrow> 'q MsgStruct \<Rightarrow> ('t, 'n) conv_state \<Rightarrow>
   (go_error + 'q MsgStruct) \<times> ('t, 'n) conv_state" where
  "store_sending E X conversationID m s =
     (let sending = InsertSendingMessage (sx_sending X) \<lparr>sm_ConversationID = conversationID, sm_ClientMsgID = ms_ClientMsgID m, sm_Ex = []\<rparr>;
          with_msg = (\<lambda>m' (err, s'). (case err of Some e \<Rightarrow> Inl e | None \<Rightarrow> Inr m', s'))
      in case on_db (GetMessage (cx_chat E) conversationID (ms_ClientMsgID m)) s of
           (Inl _, s1) \<Rightarrow>
             (case on_db (InsertMessage (cx_chat E) conversationID (msgStructToLocalChatLog (cx_codec E) m)) s1 of
                (Some e, s2) \<Rightarrow> (Inl e, s2)
              | (None, s2) \<Rightarrow> with_msg m (on_db sending s2))
         | (Inr oldMessage, s1) \<Rightarrow>
             (if cl_Status oldMessage \<noteq> MsgStatusSendFailed then (Inl ErrMsgRepeated, s1)
              else with_msg (m\<lparr>ms_Status := MsgStatusSending\<rparr>) (on_db sending s1)))"

text \<open>The content of a message that is not uploaded: the text of the element of its type.\<close>

definition plain_types :: "int list" where
  "plain_types = [Text, AtText, Location, Custom, Merger, Quote, Card, Face, AdvancedText]"

definition media_types :: "int list" where
  "media_types = [Picture, Sound, Video, File]"

definition set_content :: "'q json_codec \<Rightarrow> 'q MsgStruct \<Rightarrow> 'q MsgStruct" where
  "set_content J m = m\<lparr>ms_Content := msg_content J m\<rparr>"

text \<open>A media message has been stored before its upload, and is stored again with its addresses.\<close>

definition update_media ::
  "('q, 't, 'n) conv_env \<Rightarrow> bool \<Rightarrow> 'q MsgStruct \<Rightarrow> string \<Rightarrow> ('t, 'n) conv_state action" where
  "update_media E wanted m conversationID s =
     (if ms_ContentType m \<in> set media_types \<and> wanted
      then on_db (UpdateMessage (cx_chat E) conversationID (msgStructToLocalChatLog (cx_codec E) m)) s
      else (None, s))"

end
