(* ===== verification/ConvMedia.thy ===== *)
theory ConvMedia
  imports ConvSend
begin

text \<open>
  The media of a message (\<^verbatim>\<open>internal/conversation_msg/progress.go\<close> and the switch of \<^verbatim>\<open>SendMessage\<close>), the two operations that
  send a message and the typing status. The callbacks of an upload are run when it returns, which is the same
  since the upload does not look at the messages and they do not look at the uploads.
\<close>

section \<open>The progress of an upload\<close>

definition zero_UploadProgress :: UploadProgress where
  "zero_UploadProgress = \<lparr>upg_Total = 0, upg_Save = 0, upg_Current = 0, upg_UploadID = []\<rparr>"

definition NewUploadFileCallback :: "'q MsgStruct \<Rightarrow> 'q MsgStruct" where
  "NewUploadFileCallback m =
     (let a = (case ms_AttachedInfoElem m of None \<Rightarrow> zero_AttachedInfoElem | Some a \<Rightarrow> a);
          p = (case ae_Progress a of None \<Rightarrow> zero_UploadProgress | Some p \<Rightarrow> p)
      in m\<lparr>ms_AttachedInfoElem := Some (a\<lparr>ae_Progress := Some p\<rparr>)\<rparr>)"

definition with_progress :: "(UploadProgress \<Rightarrow> UploadProgress option) \<Rightarrow> 'q MsgStruct \<Rightarrow> 'q MsgStruct option" where
  "with_progress f m =
     (case ms_AttachedInfoElem m of
        None \<Rightarrow> None
      | Some a \<Rightarrow> (case ae_Progress a of
                    None \<Rightarrow> None
                  | Some p \<Rightarrow> Some (m\<lparr>ms_AttachedInfoElem := Some (a\<lparr>ae_Progress := f p\<rparr>)\<rparr>)))"

definition store_progress ::
  "('q, 't, 'n) conv_env \<Rightarrow> string \<Rightarrow> 'q MsgStruct \<Rightarrow> ('t, 'n) conv_state \<Rightarrow> ('t, 'n) conv_state" where
  "store_progress E conversationID m s =
     snd (on_db (UpdateColumnsMessage (cx_chat E) conversationID (ms_ClientMsgID m)
       (\<lambda>r. r\<lparr>cl_AttachedInfo := enc_AttachedInfoElem (cx_codec E) (ms_AttachedInfoElem m)\<rparr>)) s)"

text \<open>
  One callback, on the message, the last percentage announced and the state. \<^verbatim>\<open>Complete\<close> sets the progress to nil, also when it
  is nil; the others write through it.
\<close>

definition upload_callback ::
  "('q, 't, 'n) conv_env \<Rightarrow> ('q, 't, 'n) send_env \<Rightarrow> string \<Rightarrow> UploadEvent \<Rightarrow>
   'q MsgStruct \<times> int \<times> ('t, 'n) conv_state \<Rightarrow> ('q MsgStruct \<times> int \<times> ('t, 'n) conv_state) option" where
  "upload_callback E X conversationID ev mvs =
     (case mvs of (m, v, s) \<Rightarrow>
        (case ev of
           EvUploadID uploadID \<Rightarrow>
             map_option (\<lambda>m'. (m', v, store_progress E conversationID m' s)) (with_progress (\<lambda>p. Some (p\<lparr>upg_UploadID := uploadID\<rparr>)) m)
         | EvUploadComplete fileSize streamSize storageSize \<Rightarrow>
             map_option (\<lambda>m'.
                 let s' = store_progress E conversationID m' s; percent = sx_percent X streamSize fileSize
                 in if v < percent then (m', percent, ConvState.emit (OnProgress percent) s') else (m', v, s'))
               (with_progress (\<lambda>p. Some (p\<lparr>upg_Save := storageSize, upg_Current := streamSize, upg_Total := fileSize\<rparr>)) m)
         | EvComplete bytes url typ \<Rightarrow>
             (let s' = (if v \<noteq> 100 then ConvState.emit (OnProgress 100) s else s) in
              case ms_AttachedInfoElem m of
                None \<Rightarrow> None
              | Some a \<Rightarrow> (let m' = m\<lparr>ms_AttachedInfoElem := Some (a\<lparr>ae_Progress := None\<rparr>)\<rparr>
                          in Some (m', v, store_progress E conversationID m' s')))
         | _ \<Rightarrow> Some mvs))"

fun upload_callbacks ::
  "('q, 't, 'n) conv_env \<Rightarrow> ('q, 't, 'n) send_env \<Rightarrow> string \<Rightarrow> UploadEvent list \<Rightarrow>
   'q MsgStruct \<times> int \<times> ('t, 'n) conv_state \<Rightarrow> ('q MsgStruct \<times> int \<times> ('t, 'n) conv_state) option" where
  "upload_callbacks E X conversationID [] mvs = Some mvs"
| "upload_callbacks E X conversationID (ev # evs) mvs =
     (case upload_callback E X conversationID ev mvs of
        None \<Rightarrow> None | Some mvs' \<Rightarrow> upload_callbacks E X conversationID evs mvs')"

text \<open>\<^verbatim>\<open>UploadFile\<close> without a callback, and with one; \<open>cb\<close> says whether the context has a callback.\<close>

definition upload_quietly ::
  "('q, 't, 'n) send_env \<Rightarrow> UploadFileReq \<Rightarrow> ('t, 'n) conv_state \<Rightarrow> ((go_error + string) \<times> UploadEvent list \<times> ('t, 'n) conv_state) option" where
  "upload_quietly X req s =
     map_option (\<lambda>((r, evs), t, n). (r, evs, s\<lparr>co_db := t, co_net := n\<rparr>)) (sx_UploadFile X req (co_db s, co_net s))"

definition upload_media ::
  "('q, 't, 'n) conv_env \<Rightarrow> ('q, 't, 'n) send_env \<Rightarrow> bool \<Rightarrow> string \<Rightarrow> UploadFileReq \<Rightarrow> 'q MsgStruct \<Rightarrow> ('t, 'n) conv_state \<Rightarrow>
   ((go_error + string) \<times> 'q MsgStruct \<times> ('t, 'n) conv_state) option" where
  "upload_media E X cb conversationID req m s =
     (if \<not> cb then None
      else case upload_quietly X req s of
             None \<Rightarrow> None
           | Some (r, evs, s1) \<Rightarrow>
               (case upload_callbacks E X conversationID evs (NewUploadFileCallback m, 0, s1) of
                  None \<Rightarrow> None | Some (m', _, s2) \<Rightarrow> Some (r, m', s2)))"

section \<open>The media of a message\<close>

definition media_name :: "string \<Rightarrow> 'q MsgStruct \<Rightarrow> string" where
  "media_name ftype m = ''msg_'' @ ftype @ ''_'' @ ms_ClientMsgID m"

text \<open>The file itself, or the copy of it that the SDK made; the copy is deleted in the end.\<close>

definition source_path :: "('q, 't, 'n) send_env \<Rightarrow> string \<Rightarrow> ('t, 'n) conv_state \<Rightarrow> string" where
  "source_path X path s = (if sx_FileExist X path (co_net s) then path else FileTmpPath X path)"

text \<open>
  The operations on the media give the message with its content and the files to delete; after an error the message has
  been marked as failed.
\<close>

type_synonym ('q, 't, 'n) media_op = "('t, 'n) conv_state \<Rightarrow> ((go_error + 'q MsgStruct \<times> string list) \<times> ('t, 'n) conv_state) option"

definition upload_then ::
  "('q, 't, 'n) conv_env \<Rightarrow> ('q, 't, 'n) send_env \<Rightarrow> bool \<Rightarrow> LocalConversation \<Rightarrow> bool \<Rightarrow> UploadFileReq \<Rightarrow> 'q MsgStruct \<Rightarrow>
   (string \<Rightarrow> 'q MsgStruct \<Rightarrow> 'q MsgStruct) \<Rightarrow> string list \<Rightarrow> ('q, 't, 'n) media_op" where
  "upload_then E X cb lc isOnlineOnly req m fill delFile s =
     map_option (\<lambda>(r, m', s1).
         case r of
           Inl e \<Rightarrow> (Inl e, send_failed E X m' lc isOnlineOnly s1)
         | Inr url \<Rightarrow> (Inr (set_content (cx_codec E) (fill url m'), delFile), s1))
       (upload_media E X cb (cv_ConversationID lc) req m s)"

definition with_urls :: "('q, 't, 'n) send_env \<Rightarrow> string \<Rightarrow> PictureElem \<Rightarrow> PictureBaseInfo \<Rightarrow> PictureElem" where
  "with_urls X url pe sp =
     (let sp' = sp\<lparr>pbi_Url := url\<rparr>
      in pe\<lparr>pe_SourcePicture := Some sp', pe_BigPicture := Some sp',
            pe_SnapshotPicture := Some (case sx_snapshot_url X url of
              Some u \<Rightarrow> \<lparr>pbi_UUID = [], pbi_Type = [], pbi_Size = 0, pbi_Width = 640, pbi_Height = 640, pbi_Url = u\<rparr>
            | None \<Rightarrow> sp')\<rparr>)"

definition send_picture ::
  "('q, 't, 'n) conv_env \<Rightarrow> ('q, 't, 'n) send_env \<Rightarrow> bool \<Rightarrow> LocalConversation \<Rightarrow> bool \<Rightarrow> 'q MsgStruct \<Rightarrow> ('q, 't, 'n) media_op" where
  "send_picture E X cb lc isOnlineOnly m s =
     (if ms_Status m = MsgStatusSendSuccess then Some (Inr (set_content (cx_codec E) m, []), s)
      else case ms_PictureElem m of
             None \<Rightarrow> None
           | Some pe \<Rightarrow>
               (case pe_SourcePicture pe of
                  None \<Rightarrow> None
                | Some sp \<Rightarrow>
                    (let path = source_path X (pe_SourcePath pe) s
                     in upload_then E X cb lc isOnlineOnly
                          \<lparr>ur_Filepath = path, ur_Name = media_name ''picture'' m @ filepathExt [pbi_UUID sp, path],
                           ur_ContentType = pbi_Type sp, ur_Cause = ''msg-picture'', ur_Uuid = pbi_UUID sp\<rparr> m
                          (\<lambda>url m'. m'\<lparr>ms_PictureElem := Some (with_urls X url pe sp)\<rparr>) [FileTmpPath X (pe_SourcePath pe)] s)))"

definition send_sound ::
  "('q, 't, 'n) conv_env \<Rightarrow> ('q, 't, 'n) send_env \<Rightarrow> bool \<Rightarrow> LocalConversation \<Rightarrow> bool \<Rightarrow> 'q MsgStruct \<Rightarrow> ('q, 't, 'n) media_op" where
  "send_sound E X cb lc isOnlineOnly m s =
     (if ms_Status m = MsgStatusSendSuccess then Some (Inr (set_content (cx_codec E) m, []), s)
      else case ms_SoundElem m of
             None \<Rightarrow> None
           | Some se \<Rightarrow>
               (let path = source_path X (se_SoundPath se) s
                in upload_then E X cb lc isOnlineOnly
                     \<lparr>ur_Filepath = path, ur_Name = media_name ''voice'' m @ filepathExt [se_UUID se, path],
                      ur_ContentType = se_SoundType se, ur_Cause = ''msg-voice'', ur_Uuid = se_UUID se\<rparr> m
                     (\<lambda>url m'. m'\<lparr>ms_SoundElem := Some (se\<lparr>se_SourceURL := url\<rparr>)\<rparr>) [FileTmpPath X (se_SoundPath se)] s))"

definition send_file ::
  "('q, 't, 'n) conv_env \<Rightarrow> ('q, 't, 'n) send_env \<Rightarrow> bool \<Rightarrow> LocalConversation \<Rightarrow> bool \<Rightarrow> 'q MsgStruct \<Rightarrow> ('q, 't, 'n) media_op" where
  "send_file E X cb lc isOnlineOnly m s =
     (if ms_Status m = MsgStatusSendSuccess then Some (Inr (set_content (cx_codec E) m, []), s)
      else case ms_FileElem m of
             None \<Rightarrow> None
           | Some fe \<Rightarrow>
               (let name = (if fe_FileName fe \<noteq> [] then fe_FileName fe
                            else if fe_FilePath fe \<noteq> [] then fe_FilePath fe
                            else ''msg_file_'' @ ms_ClientMsgID m @ ''.unknown'')
                in upload_then E X cb lc isOnlineOnly
                     \<lparr>ur_Filepath = fe_FilePath fe, ur_Name = media_name ''file'' m @ ''/'' @ path_Base name,
                      ur_ContentType = GetType (sx_ToLower X) [fe_FileType fe, path_Ext (fe_FilePath fe), path_Ext (fe_FileName fe)],
                      ur_Cause = ''msg-file'', ur_Uuid = fe_UUID fe\<rparr> m
                     (\<lambda>url m'. m'\<lparr>ms_FileElem := Some (fe\<lparr>fe_SourceURL := url\<rparr>)\<rparr>) [] s))"

text \<open>The two goroutines of a video. That of the snapshot only notes an address, that of the video also a failure.\<close>

definition upload_snapshot ::
  "('q, 't, 'n) send_env \<Rightarrow> 'q MsgStruct \<Rightarrow> VideoElem \<Rightarrow> string \<Rightarrow> ('t, 'n) conv_state \<Rightarrow> (string option \<times> ('t, 'n) conv_state) option" where
  "upload_snapshot X m ve path s =
     map_option (\<lambda>(r, _, s1). (case r of Inl e \<Rightarrow> None | Inr url \<Rightarrow> Some url, s1))
       (upload_quietly X \<lparr>ur_Filepath = path, ur_Name = media_name ''videoSnapshot'' m @ filepathExt [ve_SnapshotUUID ve, path],
          ur_ContentType = ve_SnapshotType ve, ur_Cause = ''msg-video-snapshot'', ur_Uuid = ve_SnapshotUUID ve\<rparr> s)"

definition video_req :: "('q, 't, 'n) send_env \<Rightarrow> 'q MsgStruct \<Rightarrow> VideoElem \<Rightarrow> string \<Rightarrow> UploadFileReq" where
  "video_req X m ve path = \<lparr>ur_Filepath = path, ur_Name = media_name ''video'' m @ filepathExt [ve_VideoUUID ve, path],
     ur_ContentType = GetType (sx_ToLower X) [ve_VideoType ve, path_Ext (ve_VideoPath ve)], ur_Cause = ''msg-video'',
     ur_Uuid = ve_VideoUUID ve\<rparr>"

definition set_snapshot :: "string option \<Rightarrow> 'q MsgStruct \<Rightarrow> 'q MsgStruct" where
  "set_snapshot url m = (case url of None \<Rightarrow> m
     | Some u \<Rightarrow> m\<lparr>ms_VideoElem := map_option (\<lambda>ve. ve\<lparr>ve_SnapshotURL := u\<rparr>) (ms_VideoElem m)\<rparr>)"

definition set_video :: "string \<Rightarrow> 'q MsgStruct \<Rightarrow> 'q MsgStruct" where
  "set_video url m = m\<lparr>ms_VideoElem := map_option (\<lambda>ve. ve\<lparr>ve_VideoURL := url\<rparr>) (ms_VideoElem m)\<rparr>"

definition send_video ::
  "('q, 't, 'n) conv_env \<Rightarrow> ('q, 't, 'n) send_env \<Rightarrow> bool \<Rightarrow> LocalConversation \<Rightarrow> bool \<Rightarrow> 'q MsgStruct \<Rightarrow> ('q, 't, 'n) media_op" where
  "send_video E X cb lc isOnlineOnly m s =
     (if ms_Status m = MsgStatusSendSuccess then Some (Inr (set_content (cx_codec E) m, []), s)
      else case ms_VideoElem m of
             None \<Rightarrow> None
           | Some ve \<Rightarrow>
               (let found = sx_FileExist X (ve_VideoPath ve) (co_net s);
                    videoPath = (if found then ve_VideoPath ve else FileTmpPath X (ve_VideoPath ve));
                    snapPath = (if found then ve_SnapshotPath ve else FileTmpPath X (ve_SnapshotPath ve));
                    delFile = [FileTmpPath X (ve_VideoPath ve), FileTmpPath X (ve_SnapshotPath ve)];
                    upload = (\<lambda>m'. upload_then E X cb lc isOnlineOnly (video_req X m' ve videoPath) m' set_video delFile)
                in if sx_video_first X
                   then case upload m s of
                          None \<Rightarrow> None
                        | Some (r, s1) \<Rightarrow>
                            map_option (\<lambda>(url, s2).
                                (map_sum id (\<lambda>(m', fs). (set_content (cx_codec E) (set_snapshot url m'), fs)) r, s2))
                              (upload_snapshot X m ve snapPath s1)
                   else case upload_snapshot X m ve snapPath s of
                          None \<Rightarrow> None | Some (url, s1) \<Rightarrow> upload (set_snapshot url m) s1))"

definition send_media ::
  "('q, 't, 'n) conv_env \<Rightarrow> ('q, 't, 'n) send_env \<Rightarrow> bool \<Rightarrow> LocalConversation \<Rightarrow> bool \<Rightarrow> 'q MsgStruct \<Rightarrow> ('q, 't, 'n) media_op" where
  "send_media E X cb lc isOnlineOnly m =
     (if ms_ContentType m = Picture then send_picture E X cb lc isOnlineOnly m
      else if ms_ContentType m = Sound then send_sound E X cb lc isOnlineOnly m
      else if ms_ContentType m = Video then send_video E X cb lc isOnlineOnly m
      else if ms_ContentType m = File then send_file E X cb lc isOnlineOnly m
      else if ms_ContentType m \<in> set plain_types then (\<lambda>s. Some (Inr (set_content (cx_codec E) m, []), s))
      else (\<lambda>s. Some (Inl ErrMsgContentTypeNotSupport, s)))"

section \<open>Sending\<close>

definition SendMessage ::
  "('q, 't, 'n) conv_env \<Rightarrow> ('q, 't, 'n) send_env \<Rightarrow> bool \<Rightarrow> 'q MsgStruct \<Rightarrow> string \<Rightarrow> string \<Rightarrow> OfflinePushInfo option \<Rightarrow> bool \<Rightarrow>
   (('t, 'n) conv_state, 'q sent) upload_op" where
  "SendMessage E X cb m recvID groupID push isOnlineOnly s =
     (case checkID E X m recvID groupID [] s of
        (Inl e, s1) \<Rightarrow> Some (Inl e, s1)
      | (Inr og, s1) \<Rightarrow>
          (let conID = cv_ConversationID (og_conv og) in
           case (if isOnlineOnly then (Inr (og_msg og), s1) else store_sending E X conID (og_msg og) s1) of
             (Inl e, s2) \<Rightarrow> Some (Inl e, s2)
           | (Inr m2, s2) \<Rightarrow>
               (let lc = (if isOnlineOnly then og_conv og else (og_conv og)\<lparr>cv_LatestMsg := enc_Msg (cx_codec E) m2\<rparr>) in
                op_then (send_media E X cb lc isOnlineOnly m2)
                  (\<lambda>(m3, delFile) s3.
                     case update_media E (\<not> isOnlineOnly) m3 conID s3 of
                       (Some e, s4) \<Rightarrow> Some (Inl e, s4)
                     | (None, s4) \<Rightarrow> sendMessageToServer E X m3 lc delFile push (og_options og) isOnlineOnly s4)
                  (if isOnlineOnly then s2 else send_latest E lc s2))))"

text \<open>Media that have been uploaded by other means. The test before the update is not negated here.\<close>

definition SendMessageNotOss ::
  "('q, 't, 'n) conv_env \<Rightarrow> ('q, 't, 'n) send_env \<Rightarrow> 'q MsgStruct \<Rightarrow> string \<Rightarrow> string \<Rightarrow> OfflinePushInfo option \<Rightarrow> bool \<Rightarrow>
   (('t, 'n) conv_state, 'q sent) upload_op" where
  "SendMessageNotOss E X m recvID groupID push isOnlineOnly s =
     (case checkID E X m recvID groupID [] s of
        (Inl e, s1) \<Rightarrow> Some (Inl e, s1)
      | (Inr og, s1) \<Rightarrow>
          (let conID = cv_ConversationID (og_conv og) in
           case (if isOnlineOnly then (Inr (og_msg og), s1) else store_sending E X conID (og_msg og) s1) of
             (Inl e, s2) \<Rightarrow> Some (Inl e, s2)
           | (Inr m2, s2) \<Rightarrow>
               (let lc = (og_conv og)\<lparr>cv_LatestMsg := enc_Msg (cx_codec E) m2\<rparr> in
                if ms_ContentType m2 \<notin> set (media_types @ plain_types) then Some (Inl ErrMsgContentTypeNotSupport, s2)
                else let m3 = set_content (cx_codec E) m2 in
                     case update_media E isOnlineOnly m3 conID s2 of
                       (Some e, s3) \<Rightarrow> Some (Inl e, s3)
                     | (None, s3) \<Rightarrow> sendMessageToServer E X m3 lc [] push (og_options og) isOnlineOnly s3)))"

text \<open>The typing status is a message that only those who are online receive.\<close>

definition typingStatusUpdate ::
  "('q, 't, 'n) conv_env \<Rightarrow> ('q, 't, 'n) send_env \<Rightarrow> string \<Rightarrow> string \<Rightarrow> ('t, 'n) conv_state action" where
  "typingStatusUpdate E X recvID msgTip s =
     (if recvID = [] then (Some ErrArgs, s)
      else case initBasicInfo E X UserMsgType Typing zero_msg s of
             (Inl e, s1) \<Rightarrow> (Some e, s1)
           | (Inr m, s1) \<Rightarrow>
               (let m1 = m\<lparr>ms_RecvID := recvID, ms_SessionType := SingleChatType,
                           ms_Content := enc_TypingElem (cx_codec E) (Some \<lparr>tye_MsgTips = msgTip\<rparr>)\<rparr>;
                    w = (ws_message (cx_codec E) m1 None (online_options []) [])\<lparr>md_SendTime := ms_SendTime m1,
                          md_AttachedInfo := ms_AttachedInfo m1\<rparr>
                in case on_net (sx_SendMsg X w) s1 of (Inl e, s2) \<Rightarrow> (Some e, s2) | (Inr _, s2) \<Rightarrow> (None, s2)))"

end
