(* ===== verification/CreateMsg.thy ===== *)
theory CreateMsg
  imports MediaFiles
begin

text \<open>
  \<^verbatim>\<open>internal/conversation_msg/create_message.go\<close>: the messages an application makes before it sends them. A message that is to
  be quoted is a pointer, which is read without a test: \<open>None\<close> is the panic.
\<close>

type_synonym ('q, 't, 'n) created = "(go_error + 'q MsgStruct) \<times> ('t, 'n) conv_state"

definition with_basic ::
  "('q, 't, 'n) conv_env \<Rightarrow> ('q, 't, 'n) send_env \<Rightarrow> int \<Rightarrow> ('q MsgStruct \<Rightarrow> 'q MsgStruct) \<Rightarrow>
   ('t, 'n) conv_state \<Rightarrow> ('q, 't, 'n) created" where
  "with_basic E X contentType fill s =
     (case initBasicInfo E X UserMsgType contentType zero_msg s of
        (Inl e, s1) \<Rightarrow> (Inl e, s1) | (Inr m, s1) \<Rightarrow> (Inr (fill m), s1))"

section \<open>Texts\<close>

definition CreateTextMessage ::
  "('q, 't, 'n) conv_env \<Rightarrow> ('q, 't, 'n) send_env \<Rightarrow> string \<Rightarrow> ('t, 'n) conv_state \<Rightarrow> ('q, 't, 'n) created" where
  "CreateTextMessage E X content = with_basic E X Text (\<lambda>m. m\<lparr>ms_TextElem := Some \<lparr>te_Content = content\<rparr>\<rparr>)"

definition CreateAdvancedTextMessage ::
  "('q, 't, 'n) conv_env \<Rightarrow> ('q, 't, 'n) send_env \<Rightarrow> string \<Rightarrow> MessageEntity list \<Rightarrow> ('t, 'n) conv_state \<Rightarrow> ('q, 't, 'n) created" where
  "CreateAdvancedTextMessage E X content messageEntities =
     with_basic E X AdvancedText (\<lambda>m. m\<lparr>ms_AdvancedTextElem := Some \<lparr>ade_Text = content, ade_MessageEntityList = messageEntities\<rparr>\<rparr>)"

text \<open>A quote is not quoted in turn: its own text stands for it.\<close>

definition unquoted :: "'q MsgStruct \<Rightarrow> 'q MsgStruct option" where
  "unquoted qs =
     (if ms_ContentType qs = Quote
      then map_option (\<lambda>qe. qs\<lparr>ms_ContentType := Text, ms_TextElem := Some \<lparr>te_Content = qe_Text qe\<rparr>\<rparr>) (ms_QuoteElem qs)
      else Some qs)"

definition CreateTextAtMessage ::
  "('q, 't, 'n) conv_env \<Rightarrow> ('q, 't, 'n) send_env \<Rightarrow> string \<Rightarrow> string list \<Rightarrow> AtInfo list \<Rightarrow> 'q MsgStruct option \<Rightarrow>
   ('t, 'n) conv_state \<Rightarrow> ('q, 't, 'n) created option" where
  "CreateTextAtMessage E X content userIDList usersInfo qs s =
     (if content = [] then Some (Inl (GoError ''text can not be empty''), s)
      else if length userIDList > 10 then Some (Inl ErrArgs, s)
      else case initBasicInfo E X UserMsgType AtText zero_msg s of
             (Inl e, s1) \<Rightarrow> Some (Inl e, s1)
           | (Inr m, s1) \<Rightarrow>
               (case qs of
                  None \<Rightarrow> Some (Inr (m\<lparr>ms_AtTextElem := Some \<lparr>ate_Text = content, ate_AtUserList = userIDList,
                    ate_AtUsersInfo = usersInfo, ate_QuoteMessage = None, ate_IsAtSelf = False\<rparr>\<rparr>), s1)
                | Some q \<Rightarrow> map_option (\<lambda>q'. (Inr (m\<lparr>ms_AtTextElem := Some \<lparr>ate_Text = content, ate_AtUserList = userIDList,
                    ate_AtUsersInfo = usersInfo, ate_QuoteMessage = Some (sx_quote X q'), ate_IsAtSelf = False\<rparr>\<rparr>), s1))
                    (unquoted q)))"

definition CreateLocationMessage ::
  "('q, 't, 'n) conv_env \<Rightarrow> ('q, 't, 'n) send_env \<Rightarrow> string \<Rightarrow> 64 word \<Rightarrow> 64 word \<Rightarrow> ('t, 'n) conv_state \<Rightarrow> ('q, 't, 'n) created" where
  "CreateLocationMessage E X description longitude latitude =
     with_basic E X Location (\<lambda>m. m\<lparr>ms_LocationElem :=
       Some \<lparr>le_Description = description, le_Longitude = longitude, le_Latitude = latitude\<rparr>\<rparr>)"

definition CreateCustomMessage ::
  "('q, 't, 'n) conv_env \<Rightarrow> ('q, 't, 'n) send_env \<Rightarrow> string \<Rightarrow> string \<Rightarrow> string \<Rightarrow> ('t, 'n) conv_state \<Rightarrow> ('q, 't, 'n) created" where
  "CreateCustomMessage E X data extension description =
     with_basic E X Custom (\<lambda>m. m\<lparr>ms_CustomElem :=
       Some \<lparr>cue_Data = data, cue_Description = description, cue_Extension = extension\<rparr>\<rparr>)"

definition CreateAdvancedQuoteMessage ::
  "('q, 't, 'n) conv_env \<Rightarrow> ('q, 't, 'n) send_env \<Rightarrow> string \<Rightarrow> 'q MsgStruct option \<Rightarrow> MessageEntity list \<Rightarrow>
   ('t, 'n) conv_state \<Rightarrow> ('q, 't, 'n) created option" where
  "CreateAdvancedQuoteMessage E X content qs messageEntities s =
     (case initBasicInfo E X UserMsgType Quote zero_msg s of
        (Inl e, s1) \<Rightarrow> Some (Inl e, s1)
      | (Inr m, s1) \<Rightarrow>
          (case qs of
             None \<Rightarrow> None
           | Some q \<Rightarrow> map_option (\<lambda>q'. (Inr (m\<lparr>ms_QuoteElem := Some \<lparr>qe_Text = content, qe_QuoteMessage = Some (sx_quote X q'),
               qe_MessageEntityList = messageEntities\<rparr>\<rparr>), s1)) (unquoted q)))"

definition CreateQuoteMessage ::
  "('q, 't, 'n) conv_env \<Rightarrow> ('q, 't, 'n) send_env \<Rightarrow> string \<Rightarrow> 'q MsgStruct option \<Rightarrow>
   ('t, 'n) conv_state \<Rightarrow> ('q, 't, 'n) created option" where
  "CreateQuoteMessage E X content qs s =
     (case initBasicInfo E X UserMsgType Quote zero_msg s of
        (Inl e, s1) \<Rightarrow> Some (Inl e, s1)
      | (Inr m, s1) \<Rightarrow>
          (case qs of
             None \<Rightarrow> None
           | Some q \<Rightarrow> map_option (\<lambda>q'. (Inr (m\<lparr>ms_QuoteElem := Some \<lparr>qe_Text = content, qe_QuoteMessage = Some (sx_quote X q'),
               qe_MessageEntityList = []\<rparr>\<rparr>), s1)) (unquoted q)))"

definition CreateCardMessage ::
  "('q, 't, 'n) conv_env \<Rightarrow> ('q, 't, 'n) send_env \<Rightarrow> CardElem option \<Rightarrow> ('t, 'n) conv_state \<Rightarrow> ('q, 't, 'n) created" where
  "CreateCardMessage E X e = with_basic E X Card (\<lambda>m. m\<lparr>ms_CardElem := e\<rparr>)"

definition CreateMergerMessage ::
  "('q, 't, 'n) conv_env \<Rightarrow> ('q, 't, 'n) send_env \<Rightarrow> 'q MsgStruct list \<Rightarrow> string \<Rightarrow> string list \<Rightarrow>
   ('t, 'n) conv_state \<Rightarrow> ('q, 't, 'n) created" where
  "CreateMergerMessage E X messages title summaries =
     with_basic E X Merger (\<lambda>m.
       let e = \<lparr>me_Title = title, me_AbstractList = summaries, me_MultiMessage = map (sx_quote X) messages, me_MessageEntityList = []\<rparr>
       in m\<lparr>ms_MergeElem := Some e, ms_Content := enc_MergeElem (cx_codec E) (Some e)\<rparr>)"

definition CreateFaceMessage ::
  "('q, 't, 'n) conv_env \<Rightarrow> ('q, 't, 'n) send_env \<Rightarrow> int \<Rightarrow> string \<Rightarrow> ('t, 'n) conv_state \<Rightarrow> ('q, 't, 'n) created" where
  "CreateFaceMessage E X index data =
     with_basic E X Face (\<lambda>m. let e = \<lparr>fae_Index = index, fae_Data = data\<rparr>
       in m\<lparr>ms_FaceElem := Some e, ms_Content := enc_FaceElem (cx_codec E) (Some e)\<rparr>)"

definition CreateForwardMessage ::
  "('q, 't, 'n) conv_env \<Rightarrow> ('q, 't, 'n) send_env \<Rightarrow> 'q MsgStruct \<Rightarrow> ('t, 'n) conv_state \<Rightarrow> ('q, 't, 'n) created" where
  "CreateForwardMessage E X m s =
     (if ms_Status m \<noteq> MsgStatusSendSuccess then (Inl (GoError ''only send success message can be Forward''), s)
      else case initBasicInfo E X UserMsgType (ms_ContentType m) m s of
             (Inl e, s1) \<Rightarrow> (Inl e, s1)
           | (Inr m', s1) \<Rightarrow> (Inr (m'\<lparr>ms_Seq := 0, ms_Status := MsgStatusSendSuccess\<rparr>), s1))"

section \<open>Media by address\<close>

definition CreateImageMessageByURL ::
  "('q, 't, 'n) conv_env \<Rightarrow> ('q, 't, 'n) send_env \<Rightarrow> string \<Rightarrow> PictureBaseInfo \<Rightarrow> PictureBaseInfo \<Rightarrow> PictureBaseInfo \<Rightarrow>
   ('t, 'n) conv_state \<Rightarrow> ('q, 't, 'n) created" where
  "CreateImageMessageByURL E X sourcePath sourcePicture bigPicture snapshotPicture =
     with_basic E X Picture (\<lambda>m. m\<lparr>ms_PictureElem := Some \<lparr>pe_SourcePath = sourcePath, pe_SourcePicture = Some sourcePicture,
       pe_BigPicture = Some bigPicture, pe_SnapshotPicture = Some snapshotPicture\<rparr>\<rparr>)"

definition CreateSoundMessageByURL ::
  "('q, 't, 'n) conv_env \<Rightarrow> ('q, 't, 'n) send_env \<Rightarrow> SoundBaseInfo \<Rightarrow> ('t, 'n) conv_state \<Rightarrow> ('q, 't, 'n) created" where
  "CreateSoundMessageByURL E X e =
     with_basic E X Sound (\<lambda>m. m\<lparr>ms_SoundElem := Some \<lparr>se_UUID = sbi_UUID e, se_SoundPath = sbi_SoundPath e,
       se_SourceURL = sbi_SourceURL e, se_DataSize = sbi_DataSize e, se_Duration = sbi_Duration e, se_SoundType = sbi_SoundType e\<rparr>\<rparr>)"

definition CreateVideoMessageByURL ::
  "('q, 't, 'n) conv_env \<Rightarrow> ('q, 't, 'n) send_env \<Rightarrow> VideoBaseInfo \<Rightarrow> ('t, 'n) conv_state \<Rightarrow> ('q, 't, 'n) created" where
  "CreateVideoMessageByURL E X e =
     with_basic E X Video (\<lambda>m. m\<lparr>ms_VideoElem := Some \<lparr>ve_VideoPath = vbi_VideoPath e, ve_VideoUUID = vbi_VideoUUID e,
       ve_VideoURL = vbi_VideoURL e, ve_VideoType = vbi_VideoType e, ve_VideoSize = vbi_VideoSize e, ve_Duration = vbi_Duration e,
       ve_SnapshotPath = vbi_SnapshotPath e, ve_SnapshotUUID = vbi_SnapshotUUID e, ve_SnapshotSize = vbi_SnapshotSize e,
       ve_SnapshotURL = vbi_SnapshotURL e, ve_SnapshotWidth = vbi_SnapshotWidth e, ve_SnapshotHeight = vbi_SnapshotHeight e,
       ve_SnapshotType = vbi_SnapshotType e\<rparr>\<rparr>)"

definition CreateFileMessageByURL ::
  "('q, 't, 'n) conv_env \<Rightarrow> ('q, 't, 'n) send_env \<Rightarrow> FileBaseInfo \<Rightarrow> ('t, 'n) conv_state \<Rightarrow> ('q, 't, 'n) created" where
  "CreateFileMessageByURL E X e =
     with_basic E X File (\<lambda>m. m\<lparr>ms_FileElem := Some \<lparr>fe_FilePath = fbi_FilePath e, fe_UUID = fbi_UUID e,
       fe_SourceURL = fbi_SourceURL e, fe_FileName = fbi_FileName e, fe_FileSize = fbi_FileSize e, fe_FileType = fbi_FileType e\<rparr>\<rparr>)"

section \<open>Media from files\<close>

definition zero_PictureBaseInfo :: PictureBaseInfo where
  "zero_PictureBaseInfo = \<lparr>pbi_UUID = [], pbi_Type = [], pbi_Size = 0, pbi_Width = 0, pbi_Height = 0, pbi_Url = []\<rparr>"

definition picture_of :: "string \<Rightarrow> ImageInfo \<Rightarrow> PictureElem" where
  "picture_of path i = \<lparr>pe_SourcePath = path,
     pe_SourcePicture = Some (zero_PictureBaseInfo\<lparr>pbi_Width := im_Width i, pbi_Height := im_Height i, pbi_Type := im_Type i\<rparr>),
     pe_BigPicture = None, pe_SnapshotPicture = None\<rparr>"

text \<open>What is made of a file after the message's own fields; the file is read there.\<close>

definition with_file ::
  "('q, 't, 'n) conv_env \<Rightarrow> ('q, 't, 'n) send_env \<Rightarrow> int \<Rightarrow> ('n \<Rightarrow> go_error + 'a) \<Rightarrow> ('a \<Rightarrow> 'q MsgStruct \<Rightarrow> 'q MsgStruct) \<Rightarrow>
   ('t, 'n) conv_state \<Rightarrow> ('q, 't, 'n) created" where
  "with_file E X contentType get fill s =
     (case initBasicInfo E X UserMsgType contentType zero_msg s of
        (Inl e, s1) \<Rightarrow> (Inl e, s1)
      | (Inr m, s1) \<Rightarrow> (case get (co_net s1) of Inl e \<Rightarrow> (Inl e, s1) | Inr a \<Rightarrow> (Inr (fill a m), s1)))"

definition CreateImageMessage ::
  "('q, 't, 'n) conv_env \<Rightarrow> ('q, 't, 'n) send_env \<Rightarrow> string \<Rightarrow> ('t, 'n) conv_state \<Rightarrow> ('q, 't, 'n) created" where
  "CreateImageMessage E X imagePath =
     (let path = sx_DataDir X @ imagePath
      in with_file E X Picture (sx_getImageInfo X path) (\<lambda>i m. m\<lparr>ms_PictureElem := Some (picture_of path i)\<rparr>))"

text \<open>The file is first copied to the directory of the SDK.\<close>

definition after_copy ::
  "('q, 't, 'n) send_env \<Rightarrow> string \<Rightarrow> (('t, 'n) conv_state \<Rightarrow> ('q, 't, 'n) created) \<Rightarrow>
   ('t, 'n) conv_state \<Rightarrow> ('q, 't, 'n) created" where
  "after_copy X path k s =
     (case on_net (sx_CopyFile X path (FileTmpPath X path)) s of (Some e, s1) \<Rightarrow> (Inl e, s1) | (None, s1) \<Rightarrow> k s1)"

definition CreateImageMessageFromFullPath ::
  "('q, 't, 'n) conv_env \<Rightarrow> ('q, 't, 'n) send_env \<Rightarrow> string \<Rightarrow> ('t, 'n) conv_state \<Rightarrow> ('q, 't, 'n) created" where
  "CreateImageMessageFromFullPath E X imageFullPath =
     after_copy X imageFullPath (with_file E X Picture (sx_getImageInfo X imageFullPath)
       (\<lambda>i m. m\<lparr>ms_PictureElem := Some (picture_of imageFullPath i)\<rparr>))"

definition sound_of :: "string \<Rightarrow> int \<Rightarrow> int \<Rightarrow> string \<Rightarrow> SoundElem" where
  "sound_of path duration bytes typ = \<lparr>se_UUID = [], se_SoundPath = path, se_SourceURL = [], se_DataSize = bytes,
     se_Duration = duration, se_SoundType = typ\<rparr>"

definition CreateSoundMessageFromFullPath ::
  "('q, 't, 'n) conv_env \<Rightarrow> ('q, 't, 'n) send_env \<Rightarrow> string \<Rightarrow> int \<Rightarrow> ('t, 'n) conv_state \<Rightarrow> ('q, 't, 'n) created" where
  "CreateSoundMessageFromFullPath E X soundPath duration =
     after_copy X soundPath (with_file E X Sound (sx_Stat X soundPath)
       (\<lambda>(name, bytes) m. m\<lparr>ms_SoundElem := Some (sound_of soundPath duration bytes (drop 1 (path_Ext name)))\<rparr>))"

definition CreateSoundMessage ::
  "('q, 't, 'n) conv_env \<Rightarrow> ('q, 't, 'n) send_env \<Rightarrow> string \<Rightarrow> int \<Rightarrow> ('t, 'n) conv_state \<Rightarrow> ('q, 't, 'n) created" where
  "CreateSoundMessage E X soundPath duration =
     (let path = sx_DataDir X @ soundPath
      in with_file E X Sound (sx_Stat X path) (\<lambda>(name, bytes) m. m\<lparr>ms_SoundElem := Some (sound_of path duration bytes
           (let typ = drop 1 (path_Ext name) in if typ \<noteq> [] then ''audio/'' @ sx_ToLower X typ else []))\<rparr>))"

text \<open>The size of the video, and of its snapshot when it has one.\<close>

definition video_sizes :: "('q, 't, 'n) send_env \<Rightarrow> VideoElem \<Rightarrow> 'n \<Rightarrow> go_error + VideoElem" where
  "video_sizes X v n =
     (case sx_Stat X (ve_VideoPath v) n of
        Inl e \<Rightarrow> Inl e
      | Inr (_, bytes) \<Rightarrow>
          (let v1 = v\<lparr>ve_VideoSize := bytes\<rparr> in
           if ve_SnapshotPath v = [] then Inr v1
           else case sx_getImageInfo X (ve_SnapshotPath v) n of
                  Inl e \<Rightarrow> Inl e
                | Inr i \<Rightarrow> Inr (v1\<lparr>ve_SnapshotHeight := im_Height i, ve_SnapshotWidth := im_Width i, ve_SnapshotSize := im_Size i\<rparr>)))"

definition video_of :: "string \<Rightarrow> string \<Rightarrow> int \<Rightarrow> string \<Rightarrow> VideoElem" where
  "video_of path typ duration snapshot = \<lparr>ve_VideoPath = path, ve_VideoUUID = [], ve_VideoURL = [], ve_VideoType = typ,
     ve_VideoSize = 0, ve_Duration = duration, ve_SnapshotPath = snapshot, ve_SnapshotUUID = [], ve_SnapshotSize = 0,
     ve_SnapshotURL = [], ve_SnapshotWidth = 0, ve_SnapshotHeight = 0, ve_SnapshotType = []\<rparr>"

definition CreateVideoMessage ::
  "('q, 't, 'n) conv_env \<Rightarrow> ('q, 't, 'n) send_env \<Rightarrow> string \<Rightarrow> string \<Rightarrow> int \<Rightarrow> string \<Rightarrow>
   ('t, 'n) conv_state \<Rightarrow> ('q, 't, 'n) created" where
  "CreateVideoMessage E X videoPath videoType duration snapshotPath =
     with_file E X Video (video_sizes X (video_of (sx_DataDir X @ videoPath) videoType duration
         (if snapshotPath = [] then [] else sx_DataDir X @ snapshotPath)))
       (\<lambda>v m. m\<lparr>ms_VideoElem := Some v\<rparr>)"

text \<open>Here the snapshot is copied also when there is none.\<close>

definition CreateVideoMessageFromFullPath ::
  "('q, 't, 'n) conv_env \<Rightarrow> ('q, 't, 'n) send_env \<Rightarrow> string \<Rightarrow> string \<Rightarrow> int \<Rightarrow> string \<Rightarrow>
   ('t, 'n) conv_state \<Rightarrow> ('q, 't, 'n) created" where
  "CreateVideoMessageFromFullPath E X videoFullPath videoType duration snapshotFullPath =
     after_copy X videoFullPath (after_copy X snapshotFullPath
       (with_file E X Video (video_sizes X (video_of videoFullPath videoType duration snapshotFullPath))
         (\<lambda>v m. m\<lparr>ms_VideoElem := Some v\<rparr>)))"

definition file_of :: "string \<Rightarrow> string \<Rightarrow> int \<Rightarrow> FileElem" where
  "file_of path name bytes = \<lparr>fe_FilePath = path, fe_UUID = [], fe_SourceURL = [], fe_FileName = name, fe_FileSize = bytes,
     fe_FileType = []\<rparr>"

definition CreateFileMessageFromFullPath ::
  "('q, 't, 'n) conv_env \<Rightarrow> ('q, 't, 'n) send_env \<Rightarrow> string \<Rightarrow> string \<Rightarrow> ('t, 'n) conv_state \<Rightarrow> ('q, 't, 'n) created" where
  "CreateFileMessageFromFullPath E X fileFullPath fileName =
     after_copy X fileFullPath (with_file E X File (sx_Stat X fileFullPath)
       (\<lambda>(_, bytes) m. m\<lparr>ms_FileElem := Some (file_of fileFullPath fileName bytes)\<rparr>))"

definition CreateFileMessage ::
  "('q, 't, 'n) conv_env \<Rightarrow> ('q, 't, 'n) send_env \<Rightarrow> string \<Rightarrow> string \<Rightarrow> ('t, 'n) conv_state \<Rightarrow> ('q, 't, 'n) created" where
  "CreateFileMessage E X filePath fileName =
     (let path = sx_DataDir X @ filePath
      in with_file E X File (sx_Stat X path) (\<lambda>(_, bytes) m.
           let e = file_of path fileName bytes
           in m\<lparr>ms_FileElem := Some e, ms_Content := enc_FileElem (cx_codec E) (Some e)\<rparr>))"

end
