(* ===== verification/ConvSendProps.thy ===== *)
theory ConvSendProps
  imports ConvMedia CreateMsg MessageStore
begin

text \<open>
  What becomes of a message that is sent: its stored status follows a small state machine, whatever the server
  answers. The locale \<open>sending_tables\<close> adds the table of the messages being sent to a database without faults.
\<close>

section \<open>The states of a message\<close>

text \<open>The stored status of a message, and what one attempt to send it makes of it.\<close>

definition message_status :: "LocalChatLog list \<Rightarrow> string \<Rightarrow> int option" where
  "message_status rows msgID = map_option cl_Status (find (\<lambda>r. cl_ClientMsgID r = msgID) rows)"

definition send_spec ::
  "(go_error \<Rightarrow> bool) \<Rightarrow> bool \<Rightarrow> bool \<Rightarrow> int option \<Rightarrow> go_error + UserSendMsgResp \<Rightarrow> go_error option \<times> int option" where
  "send_spec timeout online marked status answer =
     (if online then (case answer of Inl e \<Rightarrow> Some e | Inr _ \<Rightarrow> None, status)
      else if status \<noteq> None \<and> status \<noteq> Some MsgStatusSendFailed then (Some ErrMsgRepeated, status)
      else case answer of
             Inl e \<Rightarrow> if marked \<and> status = None \<and> timeout e then (None, Some MsgStatusSendSuccess)
                      else (Some e, Some MsgStatusSendFailed)
           | Inr _ \<Rightarrow> (None, Some MsgStatusSendSuccess))"

text \<open>What an answer is taken for, given the stored status: a time-out of a message that is stored as sent is a success.\<close>

definition taken_for :: "(go_error \<Rightarrow> bool) \<Rightarrow> int option \<Rightarrow> go_error + UserSendMsgResp \<Rightarrow> go_error option" where
  "taken_for timeout status answer =
     (case answer of Inl e \<Rightarrow> if timeout e \<and> status = Some MsgStatusSendSuccess then None else Some e | Inr _ \<Rightarrow> None)"

text \<open>The whole of one attempt, with the goroutine that ends it.\<close>

definition send_and_finish ::
  "('q, 't, 'n) conv_env \<Rightarrow> ('q, 't, 'n) send_env \<Rightarrow> bool \<Rightarrow> 'q MsgStruct \<Rightarrow> string \<Rightarrow> string \<Rightarrow> OfflinePushInfo option \<Rightarrow> bool \<Rightarrow>
   ('t, 'n) conv_state \<Rightarrow> (go_error option \<times> ('t, 'n) conv_state) option" where
  "send_and_finish E X cb m recvID groupID push isOnlineOnly s =
     (case SendMessage E X cb m recvID groupID push isOnlineOnly s of
        None \<Rightarrow> None
      | Some (Inl e, s1) \<Rightarrow> Some (Some e, s1)
      | Some (Inr d, s1) \<Rightarrow> Some (None, finish_sending E X d s1))"

lemma plain_media:
  assumes "ms_ContentType m \<in> set plain_types"
  shows "send_media E X cb lc isOnlineOnly m s = Some (Inr (set_content (cx_codec E) m, []), s)"
    and "update_media E wanted m conID s = (None, s)"
  using assms by (auto simp: send_media_def update_media_def plain_types_def media_types_def content_types)

lemma sendMessageToServer_answered:
  assumes "(if ms_ContentType m = AtText then map_option ate_AtUserList (ms_AtTextElem m) else Some []) = Some atUsers"
    and "sx_SendMsg X (ws_message (cx_codec E) m push options atUsers) (co_net s) = (r, n)"
    and "answer_of E X (cv_ConversationID lc) (ms_ClientMsgID m) False r (s\<lparr>co_net := n\<rparr>) = (Inr resp, s')"
  shows "sendMessageToServer E X m lc delFile push options False s =
     Some (Inr \<lparr>sent_msg = m\<lparr>ms_Content := [], ms_SendTime := usr_SendTime resp, ms_Status := MsgStatusSendSuccess,
                             ms_ServerMsgID := usr_ServerMsgID resp\<rparr>,
                sent_conv = lc, sent_resp = resp, sent_delFile = delFile, sent_isOnlineOnly = False\<rparr>, s')"
  using assms by (simp add: sendMessageToServer_def Let_def on_net_def)

lemma set_content_keeps [simp]:
  "ms_ClientMsgID (set_content J m) = ms_ClientMsgID m" "ms_ContentType (set_content J m) = ms_ContentType m"
  "ms_AtTextElem (set_content J m) = ms_AtTextElem m"
  by (simp_all add: set_content_def)

lemma checkID_keeps:
  assumes "checkID E X m recvID groupID options s = (Inr og, s')"
  shows "ms_ClientMsgID (og_msg og) = ms_ClientMsgID m \<and> ms_ContentType (og_msg og) = ms_ContentType m \<and>
    ms_Status (og_msg og) = ms_Status m \<and> ms_Seq (og_msg og) = ms_Seq m \<and> ms_AtTextElem (og_msg og) = ms_AtTextElem m"
  using assms
  by (auto simp: checkID_def to_user_def to_group_def group_session_def Let_def
      split: if_splits prod.splits sum.splits)

lemma message_status_None: "message_status rows k = None \<longleftrightarrow> k \<notin> cl_ClientMsgID ` set rows"
  by (auto simp: message_status_def find_None_iff)

lemma message_status_NoneD: "message_status rows k = None \<Longrightarrow> r \<in> set rows \<Longrightarrow> cl_ClientMsgID r \<noteq> k"
  by (auto simp: message_status_None)

lemma message_status_Some:
  assumes "message_status rows k = Some st" and "distinct (map cl_ClientMsgID rows)" and "r \<in> set rows" and "cl_ClientMsgID r = k"
  shows "cl_Status r = st"
proof -
  from assms(1) obtain r' where "find (\<lambda>r. cl_ClientMsgID r = k) rows = Some r'" and "cl_Status r' = st"
    by (auto simp: message_status_def)
  moreover from this(1) have "r' \<in> set rows" and "cl_ClientMsgID r' = k" by (auto dest: find_SomeD)
  ultimately show ?thesis using assms(2,3,4) by (metis distinct_map inj_onD)
qed

lemma message_status_map:
  assumes "\<And>r. cl_ClientMsgID (f r) = cl_ClientMsgID r"
  shows "message_status (map f rows) k = map_option (\<lambda>r. cl_Status (f r)) (find (\<lambda>r. cl_ClientMsgID r = k) rows)"
  by (induction rows) (auto simp: message_status_def assms)

lemma message_status_snoc:
  "message_status (rows @ [r]) k = (case message_status rows k of
     Some st \<Rightarrow> Some st | None \<Rightarrow> if cl_ClientMsgID r = k then Some (cl_Status r) else None)"
  by (induction rows) (auto simp: message_status_def)

text \<open>The outcome of a message without a sequence number.\<close>

lemma message_status_outcome:
  assumes "\<forall>r \<in> set rows. cl_ClientMsgID r = msgID \<longrightarrow> cl_Seq r = 0" and "status \<noteq> 0"
  shows "message_status (map (\<lambda>r. if cl_ClientMsgID r = msgID \<and> cl_Seq r = 0
               then r\<lparr>cl_Status := nz_int status (cl_Status r), cl_SendTime := nz_int t (cl_SendTime r),
                      cl_ServerMsgID := nz_str i (cl_ServerMsgID r)\<rparr> else r) rows) k =
     (if k = msgID \<and> message_status rows msgID \<noteq> None then Some status else message_status rows k)"
  using assms(1)
  by (induction rows) (auto simp: message_status_def nz_int_def assms(2))

section \<open>The tables\<close>

abbreviation sending_key :: "LocalSendingMessages \<Rightarrow> string \<times> string" where
  "sending_key r \<equiv> (sm_ConversationID r, sm_ClientMsgID r)"

locale sending_tables = healthy_tables E chat_rows conv_rows healthy
  for E :: "('q, 't, 'n) conv_env"
    and chat_rows :: "string \<Rightarrow> 't \<Rightarrow> LocalChatLog list"
    and conv_rows :: "'t \<Rightarrow> LocalConversation list"
    and healthy :: "'t \<Rightarrow> bool" +
  fixes X :: "('q, 't, 'n) send_env"
    and sending_rows :: "'t \<Rightarrow> LocalSendingMessages list"
  assumes sending_table: "gorm_table (sx_sending X) sending_rows sending_key"
    and sending_create: "healthy t \<Longrightarrow> distinct (map sending_key (sending_rows t @ xs)) \<Longrightarrow>
      gorm_create (sx_sending X) xs t = (e, t') \<Longrightarrow> e = None"
    and sending_delete: "healthy t \<Longrightarrow> gorm_delete (sx_sending X) p t = (e, t') \<Longrightarrow> e = None"
    and sending_stays: "stays (sx_sending X) healthy"
    and sending_keeps_chat: "keeps (sx_sending X) (chat_rows name)"
    and chat_keeps_sending: "keeps (cx_chat E name) sending_rows"
    and conv_keeps_sending: "keeps (cx_conv E) sending_rows"
    and chat_take: "healthy t \<Longrightarrow> \<exists>r \<in> set (chat_rows name t). cp r \<Longrightarrow> \<exists>r t'. gorm_take (cx_chat E name) cp t = (Inr r, t')"
    and chat_updates: "healthy t \<Longrightarrow> gorm_updates (cx_chat E name) cp f t = ((e, n), t') \<Longrightarrow> e = None"
    and conv_take: "healthy t \<Longrightarrow> \<exists>c \<in> set (conv_rows t). q c \<Longrightarrow> \<exists>c t'. gorm_take (cx_conv E) q t = (Inr c, t')"
begin

text \<open>Everything a run can change, for a message of one conversation.\<close>

definition same_tables :: "string \<Rightarrow> 't \<Rightarrow> 't \<Rightarrow> bool" where
  "same_tables name t t' \<longleftrightarrow> chat_rows name t' = chat_rows name t \<and> sending_rows t' = sending_rows t \<and> (healthy t \<longrightarrow> healthy t')"

lemma get_known_conversation:
  assumes "healthy (co_db s)" and "\<exists>c \<in> set (conv_rows (co_db s)). cv_ConversationID c = conID"
  obtains c t where "on_db (GetConversation (cx_conv E) conID) s = (Inr c, s\<lparr>co_db := t\<rparr>)"
    and "same_tables name (co_db s) t"
proof -
  obtain c t where take: "gorm_take (cx_conv E) (\<lambda>r. cv_ConversationID r = conID) (co_db s) = (Inr c, t)"
    using conv_take [OF assms] by auto
  moreover have "same_tables name (co_db s) t"
    using keepsD(2) [OF conv_keeps_chat take] keepsD(2) [OF conv_keeps_sending take] staysD(2) [OF conv_stays take]
    by (simp add: same_tables_def)
  ultimately show thesis using that by (simp add: on_db_def GetConversation_def wrap_res_def)
qed

lemma get_message_tables:
  assumes "on_db (GetMessage (cx_chat E) conID msgID) s = (r, s')"
  shows "\<exists>t. s' = s\<lparr>co_db := t\<rparr> \<and> same_tables (GetTableName conID) (co_db s) t \<and>
    (\<forall>m. r = Inr m \<longrightarrow> m \<in> set (chat_rows (GetTableName conID) (co_db s)) \<and> cl_ClientMsgID m = msgID) \<and>
    (healthy (co_db s) \<and> (\<exists>m \<in> set (chat_rows (GetTableName conID) (co_db s)). cl_ClientMsgID m = msgID) \<longrightarrow> (\<exists>m. r = Inr m))"
proof -
  let ?p = "\<lambda>r. cl_ClientMsgID r = msgID" and ?G = "cx_chat E (GetTableName conID)"
  obtain r0 t where take: "gorm_take ?G ?p (co_db s) = (r0, t)" by fastforce
  note T = chat_table [of "GetTableName conID"]
  have r: "r = fst (wrap_res ''GetMessage failed'' (r0, t))" and s': "s' = s\<lparr>co_db := t\<rparr>"
    using assms take by (auto simp: on_db_def GetMessage_def wrap_res_def split: prod.splits sum.splits)
  have "same_tables (GetTableName conID) (co_db s) t"
    using gorm_table.take_rows [OF T take] keepsD(2) [OF chat_keeps_sending take] staysD(2) [OF chat_stays take]
    by (simp add: same_tables_def)
  moreover have "m \<in> set (chat_rows (GetTableName conID) (co_db s)) \<and> cl_ClientMsgID m = msgID" if "r = Inr m" for m
    using that r gorm_table.take_in [OF T, of ?p "co_db s" m t] take by (auto simp: wrap_res_def split: sum.splits)
  moreover have "\<exists>m. r = Inr m"
    if "healthy (co_db s)" "\<exists>m \<in> set (chat_rows (GetTableName conID) (co_db s)). cl_ClientMsgID m = msgID"
    using chat_take [OF that] take r by (auto simp: wrap_res_def)
  ultimately show ?thesis using s' by blast
qed

text \<open>The outcome is stored in the message's row, and the message is no longer being sent.\<close>

lemma outcome_stored:
  assumes "healthy (co_db s)" and "conID \<noteq> []" and "msgID \<noteq> []" and "cv_ConversationID lc = conID"
    and s': "s' = updateMsgStatusAndTriggerConversation E X msgID serverMsgID sendTime status m lc False s"
  shows "chat_rows (GetTableName conID) (co_db s') =
      map (\<lambda>r. if cl_ClientMsgID r = msgID \<and> cl_Seq r = 0
               then r\<lparr>cl_Status := nz_int status (cl_Status r), cl_SendTime := nz_int sendTime (cl_SendTime r),
                      cl_ServerMsgID := nz_str serverMsgID (cl_ServerMsgID r)\<rparr> else r)
        (chat_rows (GetTableName conID) (co_db s))" (is "_ = ?rows")
    and "sending_rows (co_db s') = filter (\<lambda>r. sending_key r \<noteq> (conID, msgID)) (sending_rows (co_db s))"
    and "healthy (co_db s')"
proof -
  let ?G = "cx_chat E (GetTableName conID)"
  let ?p = "\<lambda>r. cl_ClientMsgID r = msgID \<and> cl_Seq r = 0"
  let ?f = "\<lambda>r. r\<lparr>cl_Status := nz_int status (cl_Status r), cl_SendTime := nz_int sendTime (cl_SendTime r),
                      cl_ServerMsgID := nz_str serverMsgID (cl_ServerMsgID r)\<rparr>"
  let ?q = "\<lambda>r. sm_ConversationID r = conID \<and> sm_ClientMsgID r = msgID"
  obtain e n t where up: "gorm_updates ?G ?p ?f (co_db s) = ((e, n), t)"
    by (cases "gorm_updates ?G ?p ?f (co_db s)") fastforce
  have e: "e = None" using chat_updates [OF assms(1) up] .
  have t: "healthy t" using staysD(4) [OF chat_stays up] assms(1) by blast
  obtain d t' where del: "gorm_delete (sx_sending X) ?q t = (d, t')" by fastforce
  have d: "d = None" using sending_delete [OF t del] .
  have "co_db s' = t'"
    using up del assms(2,3,4)
    by (simp add: s' updateMsgStatusAndTriggerConversation_def Let_def on_db_def UpdateMessageTimeAndStatus_def wrap_act_def
        stmt_err_def DeleteSendingMessage_def send_latest_def on_ch_def split: prod.split)
  moreover have "chat_rows (GetTableName conID) t' = ?rows"
    using keepsD(5) [OF sending_keeps_chat del] gorm_table.updates_ok [OF chat_table up [unfolded e]] by simp
  moreover have "sending_rows t' = filter (\<lambda>r. \<not> ?q r) (sending_rows (co_db s))"
    using gorm_table.delete_ok [OF sending_table del [unfolded d]] keepsD(4) [OF chat_keeps_sending up] by simp
  moreover have "healthy t'" using staysD(5) [OF sending_stays del t] .
  ultimately show "chat_rows (GetTableName conID) (co_db s') = ?rows"
    and "sending_rows (co_db s') = filter (\<lambda>r. sending_key r \<noteq> (conID, msgID)) (sending_rows (co_db s))"
    and "healthy (co_db s')" by simp_all
qed

text \<open>The message is stored before it is sent, unless it is there and has not failed.\<close>

lemma store_sending_repeated:
  assumes "healthy (co_db s)" and "message_status (chat_rows (GetTableName conID) (co_db s)) (ms_ClientMsgID m) = Some st"
    and "st \<noteq> MsgStatusSendFailed" and "distinct (map cl_ClientMsgID (chat_rows (GetTableName conID) (co_db s)))"
  obtains t where "store_sending E X conID m s = (Inl ErrMsgRepeated, s\<lparr>co_db := t\<rparr>)"
    and "same_tables (GetTableName conID) (co_db s) t"
proof -
  obtain r s' where get: "on_db (GetMessage (cx_chat E) conID (ms_ClientMsgID m)) s = (r, s')" by fastforce
  obtain t where s': "s' = s\<lparr>co_db := t\<rparr>" and t: "same_tables (GetTableName conID) (co_db s) t"
    and "\<exists>m0. r = Inr m0 \<and> m0 \<in> set (chat_rows (GetTableName conID) (co_db s)) \<and> cl_ClientMsgID m0 = ms_ClientMsgID m"
    using get_message_tables [OF get] assms(1,2) message_status_None [of "chat_rows (GetTableName conID) (co_db s)" "ms_ClientMsgID m"]
    by auto
  then obtain m0 where "r = Inr m0" and "cl_Status m0 = st" using message_status_Some [OF assms(2,4)] by blast
  then show thesis using that [OF _ t] get s' assms(3) by (simp add: store_sending_def Let_def)
qed

lemma store_sending_stored:
  assumes "healthy (co_db s)" and "distinct (map cl_ClientMsgID (chat_rows (GetTableName conID) (co_db s)))"
    and st: "message_status (chat_rows (GetTableName conID) (co_db s)) (ms_ClientMsgID m) \<in> {None, Some MsgStatusSendFailed}"
    and "distinct (map sending_key (sending_rows (co_db s)))"
    and new: "(conID, ms_ClientMsgID m) \<notin> sending_key ` set (sending_rows (co_db s))"
  obtains m' t where "store_sending E X conID m s = (Inr m', s\<lparr>co_db := t\<rparr>)"
    and "m' = m \<and> chat_rows (GetTableName conID) t = chat_rows (GetTableName conID) (co_db s) @ [msgStructToLocalChatLog (cx_codec E) m] \<and>
           message_status (chat_rows (GetTableName conID) (co_db s)) (ms_ClientMsgID m) = None
       \<or> m' = m\<lparr>ms_Status := MsgStatusSending\<rparr> \<and> chat_rows (GetTableName conID) t = chat_rows (GetTableName conID) (co_db s) \<and>
           message_status (chat_rows (GetTableName conID) (co_db s)) (ms_ClientMsgID m) = Some MsgStatusSendFailed"
    and "sending_rows t = sending_rows (co_db s) @ [\<lparr>sm_ConversationID = conID, sm_ClientMsgID = ms_ClientMsgID m, sm_Ex = []\<rparr>]"
    and "healthy t"
proof -
  let ?rows = "chat_rows (GetTableName conID)" and ?k = "ms_ClientMsgID m"
  let ?row = "\<lparr>sm_ConversationID = conID, sm_ClientMsgID = ?k, sm_Ex = []\<rparr>"
  obtain r s' where get: "on_db (GetMessage (cx_chat E) conID ?k) s = (r, s')" by fastforce
  obtain t where s': "s' = s\<lparr>co_db := t\<rparr>" and t: "same_tables (GetTableName conID) (co_db s) t"
    and found: "\<And>m0. r = Inr m0 \<Longrightarrow> m0 \<in> set (?rows (co_db s)) \<and> cl_ClientMsgID m0 = ?k"
    and present: "healthy (co_db s) \<Longrightarrow> \<exists>m0 \<in> set (?rows (co_db s)). cl_ClientMsgID m0 = ?k \<Longrightarrow> \<exists>m0. r = Inr m0"
    using get_message_tables [OF get] by blast
  have T: "?rows t = ?rows (co_db s)" "sending_rows t = sending_rows (co_db s)" "healthy t"
    using t assms(1) by (simp_all add: same_tables_def)
  have sending: "\<exists>u'. InsertSendingMessage (sx_sending X) ?row u = (None, u') \<and> sending_rows u' = sending_rows u @ [?row] \<and>
       ?rows u' = ?rows u \<and> healthy u'" if "healthy u" "sending_rows u = sending_rows (co_db s)" for u
  proof -
    obtain e u' where c: "gorm_create (sx_sending X) [?row] u = (e, u')" by fastforce
    have "distinct (map sending_key (sending_rows u @ [?row]))" using assms(4) new that(2) by auto
    then have "e = None" using sending_create [OF that(1) _ c] by blast
    then show ?thesis
      using c gorm_table.create_ok [OF sending_table] keepsD(3) [OF sending_keeps_chat c] staysD(3) [OF sending_stays c that(1)]
      by (auto simp: InsertSendingMessage_def wrap_act_def)
  qed
  show thesis
  proof (cases r)
    case (Inl e)
    have none: "message_status (?rows (co_db s)) ?k = None"
      using present assms(1) Inl unfolding message_status_None by fastforce
    obtain e' u where c: "gorm_create (cx_chat E (GetTableName conID)) [msgStructToLocalChatLog (cx_codec E) m] t = (e', u)" by fastforce
    have "distinct (map cl_ClientMsgID (?rows t @ [msgStructToLocalChatLog (cx_codec E) m]))"
      using assms(2) none T(1) by (auto simp: message_status_None msgStructToLocalChatLog_def)
    then have e': "e' = None" using chat_create [OF T(3) _ c] by blast
    have u: "?rows u = ?rows (co_db s) @ [msgStructToLocalChatLog (cx_codec E) m]" "sending_rows u = sending_rows (co_db s)" "healthy u"
      using gorm_table.create_ok [OF chat_table c [unfolded e']] keepsD(3) [OF chat_keeps_sending c] staysD(3) [OF chat_stays c T(3)] T
      by simp_all
    obtain u' where u': "InsertSendingMessage (sx_sending X) ?row u = (None, u')" "sending_rows u' = sending_rows u @ [?row]"
        "?rows u' = ?rows u" "healthy u'" using sending [OF u(3,2)] by blast
    have "store_sending E X conID m s = (Inr m, s\<lparr>co_db := u'\<rparr>)"
      using get Inl s' c e' u'(1) by (simp add: store_sending_def Let_def on_db_def InsertMessage_def wrap_act_def)
    then show thesis using that u u' none by metis
  next
    case (Inr m0)
    have m0: "m0 \<in> set (?rows (co_db s))" "cl_ClientMsgID m0 = ?k" using found [OF Inr] by simp_all
    then have "?k \<in> cl_ClientMsgID ` set (?rows (co_db s))" by (metis imageI)
    with st have some: "message_status (?rows (co_db s)) ?k = Some MsgStatusSendFailed" by (auto simp: message_status_None)
    then have "cl_Status m0 = MsgStatusSendFailed" using message_status_Some [OF _ assms(2) m0] by blast
    moreover obtain u' where u': "InsertSendingMessage (sx_sending X) ?row t = (None, u')" "sending_rows u' = sending_rows t @ [?row]"
        "?rows u' = ?rows t" "healthy u'" using sending [OF T(3,2)] by blast
    ultimately have "store_sending E X conID m s = (Inr (m\<lparr>ms_Status := MsgStatusSending\<rparr>), s\<lparr>co_db := u'\<rparr>)"
      using get Inr s' by (simp add: store_sending_def Let_def on_db_def)
    then show thesis using that u' T some by metis
  qed
qed

text \<open>The request, and what its answer is taken for.\<close>

lemma answer_of_taken:
  assumes "healthy (co_db s)" and "distinct (map cl_ClientMsgID (chat_rows (GetTableName conID) (co_db s)))"
  obtains r' t where "answer_of E X conID msgID False r s = (r', s\<lparr>co_db := t\<rparr>)" and "same_tables (GetTableName conID) (co_db s) t"
    and "case taken_for (sx_is_timeout X) (message_status (chat_rows (GetTableName conID) (co_db s)) msgID) r of
           None \<Rightarrow> (\<exists>resp. r' = Inr resp \<and> (r = Inr resp \<or> usr_ClientMsgID resp = msgID)) | Some e \<Rightarrow> r' = Inl e"
proof -
  let ?rows = "chat_rows (GetTableName conID) (co_db s)"
  have same: "same_tables (GetTableName conID) (co_db s) (co_db s)" "s\<lparr>co_db := co_db s\<rparr> = s" by (simp_all add: same_tables_def)
  obtain g s' where get: "on_db (GetMessage (cx_chat E) conID msgID) s = (g, s')" by fastforce
  obtain t where t: "s' = s\<lparr>co_db := t\<rparr>" "same_tables (GetTableName conID) (co_db s) t"
      "\<And>m. g = Inr m \<Longrightarrow> m \<in> set ?rows \<and> cl_ClientMsgID m = msgID"
      "\<exists>m \<in> set ?rows. cl_ClientMsgID m = msgID \<Longrightarrow> \<exists>m. g = Inr m"
    using get_message_tables [OF get] assms(1) by blast
  show thesis
  proof (cases "\<exists>e. r = Inl e \<and> sx_is_timeout X e")
    case False
    then show thesis using that [of r "co_db s"] same by (auto simp: answer_of_def taken_for_def split: sum.splits)
  next
    case True
    then obtain e where e: "r = Inl e" "sx_is_timeout X e" by blast
    show thesis
    proof (cases g)
      case (Inl e')
      then have "message_status ?rows msgID = None" using t(4) by (auto simp: message_status_None)
      then show thesis using that [of r t] get t(1,2) e Inl by (simp add: answer_of_def taken_for_def)
    next
      case (Inr m)
      from t(3) [OF Inr] have m: "m \<in> set ?rows" "cl_ClientMsgID m = msgID" by simp_all
      then have "message_status ?rows msgID \<noteq> None" by (auto simp: message_status_None)
      then have st: "message_status ?rows msgID = Some (cl_Status m)" using message_status_Some [OF _ assms(2) m] by auto
      show thesis
      proof (cases "cl_Status m = MsgStatusSendSuccess")
        case True
        then show thesis
          using that [of "Inr \<lparr>usr_ServerMsgID = cl_ServerMsgID m, usr_ClientMsgID = cl_ClientMsgID m, usr_SendTime = cl_SendTime m\<rparr>" t]
            get t(1,2) e Inr st m by (simp add: answer_of_def taken_for_def)
      next
        case False
        then show thesis using that [of r t] get t(1,2) e Inr st by (simp add: answer_of_def taken_for_def)
      qed
    qed
  qed
qed

lemma checkID_known:
  assumes "healthy (co_db s)" and "recvID \<noteq> []" and "\<exists>c \<in> set (conv_rows (co_db s)). cv_ConversationID c = conID"
    and "conID = ''si_'' @ join_underscore (sort [cx_loginUserID E, recvID])"
  obtains og t where "checkID E X m recvID groupID options s = (Inr og, s\<lparr>co_db := t\<rparr>)"
    and "same_tables (GetTableName conID) (co_db s) t" and "cv_ConversationID (og_conv og) = conID"
    and "ms_ClientMsgID (og_msg og) = ms_ClientMsgID m" and "ms_ContentType (og_msg og) = ms_ContentType m"
    and "ms_Status (og_msg og) = ms_Status m" and "ms_Seq (og_msg og) = ms_Seq m" and "ms_AtTextElem (og_msg og) = ms_AtTextElem m"
proof -
  obtain c t where c: "on_db (GetConversation (cx_conv E) conID) s = (Inr c, s\<lparr>co_db := t\<rparr>)"
    and t: "same_tables (GetTableName conID) (co_db s) t"
    by (rule get_known_conversation [OF assms(1,3)])
  have "\<exists>og. checkID E X m recvID groupID options s = (Inr og, s\<lparr>co_db := t\<rparr>) \<and> cv_ConversationID (og_conv og) = conID \<and>
     ms_ClientMsgID (og_msg og) = ms_ClientMsgID m \<and> ms_ContentType (og_msg og) = ms_ContentType m \<and>
     ms_Status (og_msg og) = ms_Status m \<and> ms_Seq (og_msg og) = ms_Seq m \<and> ms_AtTextElem (og_msg og) = ms_AtTextElem m"
    using c assms(2,4)
    by (cases "cv_IsPrivateChat c")
      (simp_all add: checkID_def to_user_def Let_def GetConversationIDByMsg_def del: sort_key_simps)
  then show thesis using that t by blast
qed

text \<open>A plain message that has been stored as being sent.\<close>

lemma send_stored:
  assumes "healthy (co_db s)" and ids: "conID \<noteq> []" "ms_ClientMsgID m \<noteq> []" and lc: "cv_ConversationID lc = conID"
    and atm: "ms_ContentType m = AtText \<Longrightarrow> ms_AtTextElem m \<noteq> None"
    and dist: "distinct (map cl_ClientMsgID (chat_rows (GetTableName conID) (co_db s)))"
    and unread: "\<forall>r \<in> set (chat_rows (GetTableName conID) (co_db s)). cl_ClientMsgID r = ms_ClientMsgID m \<longrightarrow> cl_Seq r = 0"
    and there: "message_status (chat_rows (GetTableName conID) (co_db s)) (ms_ClientMsgID m) \<noteq> None"
    and ans: "\<And>w. md_ClientMsgID w = ms_ClientMsgID m \<Longrightarrow> fst (sx_SendMsg X w (co_net s)) = ans"
    and resp: "\<And>resp. ans = Inr resp \<Longrightarrow> usr_ClientMsgID resp = ms_ClientMsgID m"
    and e: "e = taken_for (sx_is_timeout X) (message_status (chat_rows (GetTableName conID) (co_db s)) (ms_ClientMsgID m)) ans"
  obtains r s1 s2 where "sendMessageToServer E X m lc delFile push options False s = Some (r, s1)"
    and "(case r of Inl e' \<Rightarrow> s2 = s1 \<and> e = Some e' | Inr d \<Rightarrow> s2 = finish_sending E X d s1 \<and> e = None)"
    and "sending_rows (co_db s2) = filter (\<lambda>r. sending_key r \<noteq> (conID, ms_ClientMsgID m)) (sending_rows (co_db s))"
    and "\<And>k. message_status (chat_rows (GetTableName conID) (co_db s2)) k =
           (if k = ms_ClientMsgID m then Some (case e of Some _ \<Rightarrow> MsgStatusSendFailed | None \<Rightarrow> MsgStatusSendSuccess)
            else message_status (chat_rows (GetTableName conID) (co_db s)) k)"
proof -
  let ?k = "ms_ClientMsgID m" and ?rows = "chat_rows (GetTableName conID)" and ?m1 = "m\<lparr>ms_Content := []\<rparr>"
  have "\<exists>a. (if ms_ContentType m = AtText then map_option ate_AtUserList (ms_AtTextElem m) else Some []) = Some a"
    using atm by auto
  then obtain atUsers where at: "(if ms_ContentType m = AtText then map_option ate_AtUserList (ms_AtTextElem m) else Some []) = Some atUsers" ..
  let ?w = "ws_message (cx_codec E) m push options atUsers"
  obtain a n where net: "sx_SendMsg X ?w (co_net s) = (a, n)" by fastforce
  have a: "a = ans" using ans [of ?w] net by (simp add: ws_message_def)
  let ?s1 = "s\<lparr>co_net := n\<rparr>"
  obtain a' t where t: "answer_of E X conID ?k False ans ?s1 = (a', ?s1\<lparr>co_db := t\<rparr>)" "same_tables (GetTableName conID) (co_db ?s1) t"
      "case e of None \<Rightarrow> (\<exists>resp. a' = Inr resp \<and> (ans = Inr resp \<or> usr_ClientMsgID resp = ?k)) | Some e \<Rightarrow> a' = Inl e"
    using answer_of_taken [of ?s1 conID ?k ans] assms(1) dist by (auto simp: e)
  then have rows: "?rows t = ?rows (co_db s)" "sending_rows t = sending_rows (co_db s)" "healthy t"
    using assms(1) by (simp_all add: same_tables_def)
  let ?s2 = "?s1\<lparr>co_db := t\<rparr>"
  have outcome: "sending_rows (co_db s') = filter (\<lambda>r. sending_key r \<noteq> (conID, ?k)) (sending_rows (co_db s)) \<and>
      (\<forall>k. message_status (?rows (co_db s')) k = (if k = ?k then Some status else message_status (?rows (co_db s)) k))"
    if "s' = updateMsgStatusAndTriggerConversation E X ?k i st status m' lc False s3" "co_db s3 = t" "status \<noteq> 0" for s' i st status m' s3
    using outcome_stored [OF _ ids lc that(1)] that(2) rows unread there
    by (simp add: message_status_outcome [OF _ that(3)])
  show thesis
  proof (cases e)
    case (Some e')
    let ?s' = "send_failed E X ?m1 lc False ?s2"
    have "sendMessageToServer E X m lc delFile push options False s = Some (Inl e', ?s')"
      using net at t(1,3) a lc Some by (simp add: sendMessageToServer_def Let_def on_net_def)
    moreover note outcome [of ?s' _ _ MsgStatusSendFailed ?m1 ?s2, unfolded send_failed_def, simplified]
    ultimately show thesis
      by (intro that [of "Inl e'" ?s' ?s']) (simp_all add: Some send_failed_def MsgStatusSendFailed_def)
  next
    case None
    then obtain r where r: "a' = Inr r" "usr_ClientMsgID r = ?k" using t(3) resp by auto
    define d where "d = \<lparr>sent_msg = ?m1\<lparr>ms_SendTime := usr_SendTime r, ms_Status := MsgStatusSendSuccess,
                                         ms_ServerMsgID := usr_ServerMsgID r\<rparr>,
                         sent_conv = lc, sent_resp = r, sent_delFile = delFile, sent_isOnlineOnly = False\<rparr>"
    let ?s' = "finish_sending E X d ?s2"
    have "sendMessageToServer E X m lc delFile push options False s = Some (Inr d, ?s2)"
      using net at t(1) a lc r(1) by (simp add: sendMessageToServer_def Let_def on_net_def d_def)
    moreover have "?s' = updateMsgStatusAndTriggerConversation E X ?k (usr_ServerMsgID r) (usr_SendTime r) MsgStatusSendSuccess
        (sent_msg d) lc False (?s2\<lparr>co_net := sx_remove X delFile (co_net ?s2)\<rparr>)"
      using r(2) by (simp add: finish_sending_def d_def)
    note outcome [OF this]
    ultimately show thesis
      by (intro that [of "Inr d" ?s2 ?s']) (simp_all add: None MsgStatusSendSuccess_def)
  qed
qed

text \<open>A message for those who are online leaves the tables alone.\<close>

lemma send_online:
  assumes "checkID E X m recvID groupID [] s = (Inr og, s1)"
    and m: "ms_ContentType m \<in> set plain_types" "ms_ContentType m = AtText \<Longrightarrow> ms_AtTextElem m \<noteq> None"
    and ans: "\<And>w. md_ClientMsgID w = ms_ClientMsgID m \<Longrightarrow> fst (sx_SendMsg X w (co_net s1)) = ans"
  shows "\<exists>s'. send_and_finish E X cb m recvID groupID push True s = Some (case ans of Inl e \<Rightarrow> Some e | Inr _ \<Rightarrow> None, s') \<and> co_db s' = co_db s1"
proof -
  note keep = checkID_keeps [OF assms(1)]
  let ?m = "set_content (cx_codec E) (og_msg og)"
  have "\<exists>a. (if ms_ContentType ?m = AtText then map_option ate_AtUserList (ms_AtTextElem ?m) else Some []) = Some a"
    using m(2) keep by auto
  then obtain atUsers where at: "(if ms_ContentType ?m = AtText then map_option ate_AtUserList (ms_AtTextElem ?m) else Some []) = Some atUsers" ..
  let ?w = "ws_message (cx_codec E) ?m push (online_options (og_options og)) atUsers"
  obtain n where net: "sx_SendMsg X ?w (co_net s1) = (ans, n)"
    using ans [of ?w] keep by (simp add: ws_message_def) (metis prod.collapse)
  have plain: "ms_ContentType (og_msg og) \<in> set plain_types" using m(1) keep by simp
  have "SendMessage E X cb m recvID groupID push True s = sendMessageToServer E X ?m (og_conv og) [] push (og_options og) True s1"
    using assms(1) plain by (simp add: SendMessage_def Let_def op_then_def plain_media)
  then show ?thesis
    using at net
    by (cases ans) (auto simp: send_and_finish_def sendMessageToServer_def Let_def on_net_def answer_of_def send_failed_def
        updateMsgStatusAndTriggerConversation_def finish_sending_def)
qed

text \<open>The whole attempt: every branch of the machine, from the state in which the conversation has been determined.\<close>

lemma send_refines:
  assumes og: "checkID E X m recvID groupID [] s = (Inr og, s1)" and conID: "cv_ConversationID (og_conv og) = conID" "conID \<noteq> []"
    and "healthy (co_db s1)"
    and dist: "distinct (map cl_ClientMsgID (chat_rows (GetTableName conID) (co_db s1)))" "distinct (map sending_key (sending_rows (co_db s1)))"
    and m: "ms_ContentType m \<in> set plain_types" "ms_ContentType m = AtText \<Longrightarrow> ms_AtTextElem m \<noteq> None"
      "ms_ClientMsgID m \<noteq> []" "ms_Seq m = 0"
    and unlisted: "message_status (chat_rows (GetTableName conID) (co_db s1)) (ms_ClientMsgID m) \<in> {None, Some MsgStatusSendFailed} \<Longrightarrow>
      (conID, ms_ClientMsgID m) \<notin> sending_key ` set (sending_rows (co_db s1)) \<and>
      (\<forall>r \<in> set (chat_rows (GetTableName conID) (co_db s1)). cl_ClientMsgID r = ms_ClientMsgID m \<longrightarrow> cl_Seq r = 0)"
    and ans: "\<And>w. md_ClientMsgID w = ms_ClientMsgID m \<Longrightarrow> fst (sx_SendMsg X w (co_net s1)) = ans"
    and resp: "\<And>resp. ans = Inr resp \<Longrightarrow> usr_ClientMsgID resp = ms_ClientMsgID m"
  shows "\<exists>e s'. send_and_finish E X cb m recvID groupID push isOnlineOnly s = Some (e, s') \<and>
     (e, message_status (chat_rows (GetTableName conID) (co_db s')) (ms_ClientMsgID m)) =
        send_spec (sx_is_timeout X) isOnlineOnly (ms_Status m = MsgStatusSendSuccess)
          (message_status (chat_rows (GetTableName conID) (co_db s1)) (ms_ClientMsgID m)) ans \<and>
     sending_rows (co_db s') = sending_rows (co_db s1) \<and>
     (\<forall>k. k \<noteq> ms_ClientMsgID m \<longrightarrow> message_status (chat_rows (GetTableName conID) (co_db s')) k =
        message_status (chat_rows (GetTableName conID) (co_db s1)) k)"
proof -
  let ?k = "ms_ClientMsgID m" and ?rows = "chat_rows (GetTableName conID)"
  let ?st = "message_status (?rows (co_db s1)) ?k"
  note keep = checkID_keeps [OF og]
  consider (online) isOnlineOnly | (repeated) "\<not> isOnlineOnly" "?st \<notin> {None, Some MsgStatusSendFailed}"
    | (sent) "\<not> isOnlineOnly" "?st \<in> {None, Some MsgStatusSendFailed}" by blast
  then show ?thesis
  proof cases
    case online
    with send_online [OF og m(1,2) ans, of cb push] show ?thesis by (auto simp: send_spec_def)
  next
    case repeated
    then obtain st where st: "?st = Some st" "st \<noteq> MsgStatusSendFailed" by auto
    obtain u where u: "store_sending E X conID (og_msg og) s1 = (Inl ErrMsgRepeated, s1\<lparr>co_db := u\<rparr>)"
        "same_tables (GetTableName conID) (co_db s1) u"
      using store_sending_repeated [of s1 conID "og_msg og" st] st assms(4) dist keep by auto
    have "send_and_finish E X cb m recvID groupID push False s = Some (Some ErrMsgRepeated, s1\<lparr>co_db := u\<rparr>)"
      using og conID(1) u(1) by (simp add: send_and_finish_def SendMessage_def Let_def)
    then show ?thesis using u(2) st repeated(1) by (simp add: same_tables_def send_spec_def)
  next
    case sent
    then have key: "(conID, ?k) \<notin> sending_key ` set (sending_rows (co_db s1))"
      and unread: "\<forall>r \<in> set (?rows (co_db s1)). cl_ClientMsgID r = ?k \<longrightarrow> cl_Seq r = 0" using unlisted by blast+
    let ?row = "msgStructToLocalChatLog (cx_codec E) (og_msg og)"
    obtain m' u where stored: "store_sending E X conID (og_msg og) s1 = (Inr m', s1\<lparr>co_db := u\<rparr>)"
      and which: "m' = og_msg og \<and> ?rows u = ?rows (co_db s1) @ [?row] \<and> ?st = None
         \<or> m' = (og_msg og)\<lparr>ms_Status := MsgStatusSending\<rparr> \<and> ?rows u = ?rows (co_db s1) \<and> ?st = Some MsgStatusSendFailed"
      and sending: "sending_rows u = sending_rows (co_db s1) @ [\<lparr>sm_ConversationID = conID, sm_ClientMsgID = ?k, sm_Ex = []\<rparr>]"
      and u: "healthy u"
      using store_sending_stored [of s1 conID "og_msg og"] assms(4) dist keep sent(2) key by auto
    have m': "ms_ClientMsgID m' = ?k" "ms_ContentType m' = ms_ContentType m" "ms_AtTextElem m' = ms_AtTextElem m"
      using which keep by auto
    define lc where "lc = (og_conv og)\<lparr>cv_LatestMsg := enc_Msg (cx_codec E) m'\<rparr>"
    define s2 where "s2 = send_latest E lc (s1\<lparr>co_db := u\<rparr>)"
    have s2: "co_db s2 = u" "co_net s2 = co_net s1"
      by (simp_all add: s2_def send_latest_def on_ch_def split: prod.split)
    have row: "cl_ClientMsgID ?row = ?k" "cl_Status ?row = ms_Status m" "cl_Seq ?row = 0"
      using keep m(4) by (simp_all add: msgStructToLocalChatLog_def)
    have unread': "\<forall>r \<in> set (?rows u). cl_ClientMsgID r = ?k \<longrightarrow> cl_Seq r = 0"
      and distinct': "distinct (map cl_ClientMsgID (?rows u))"
      using which unread dist(1) row by (auto simp: message_status_None)
    have st': "message_status (?rows u) ?k = Some (if ?st = None then ms_Status m else MsgStatusSendFailed)"
      using which row by (auto simp: message_status_snoc)
    have others: "message_status (?rows u) k = message_status (?rows (co_db s1)) k" if "k \<noteq> ?k" for k
      using which row that by (auto simp: message_status_snoc split: option.splits)
    define e where "e = taken_for (sx_is_timeout X) (message_status (?rows u) ?k) ans"
    obtain r s3 s4 where final: "sendMessageToServer E X (set_content (cx_codec E) m') lc [] push (og_options og) False s2 = Some (r, s3)"
      and r: "case r of Inl e' \<Rightarrow> s4 = s3 \<and> e = Some e' | Inr d \<Rightarrow> s4 = finish_sending E X d s3 \<and> e = None"
      and rows: "sending_rows (co_db s4) = filter (\<lambda>r. sending_key r \<noteq> (conID, ?k)) (sending_rows u)"
        "\<And>k. message_status (?rows (co_db s4)) k = (if k = ?k then Some (case e of Some _ \<Rightarrow> MsgStatusSendFailed | None \<Rightarrow> MsgStatusSendSuccess)
            else message_status (?rows u) k)"
      using send_stored [of s2 conID "set_content (cx_codec E) m'" lc ans e "[]" push "og_options og"]
        u unread' distinct' st' ans resp m(2,3) m' s2 conID e_def
      by (auto simp: lc_def)
    have plain: "ms_ContentType m' \<in> set plain_types" using m(1) m'(2) by simp
    have "SendMessage E X cb m recvID groupID push False s = Some (r, s3)"
      using og conID(1) stored final plain
      by (simp add: SendMessage_def Let_def op_then_def plain_media flip: lc_def s2_def)
    then have "send_and_finish E X cb m recvID groupID push False s = Some (e, s4)"
      using r by (auto simp: send_and_finish_def split: sum.splits)
    moreover have "filter (\<lambda>r. sending_key r \<noteq> (conID, ?k)) (sending_rows u) = sending_rows (co_db s1)"
      using key by (auto simp: sending filter_id_conv)
    moreover have "send_spec (sx_is_timeout X) False (ms_Status m = MsgStatusSendSuccess) ?st ans =
        (e, Some (case e of Some _ \<Rightarrow> MsgStatusSendFailed | None \<Rightarrow> MsgStatusSendSuccess))"
      using sent(2) st' by (auto simp: send_spec_def e_def taken_for_def msg_status split: sum.splits)
    ultimately show ?thesis using rows others sent(1) by auto
  qed
qed

text \<open>A message that is stored as sent before it is sent: a time-out finds it so.\<close>

lemma send_marked_as_sent:
  assumes "healthy (co_db s)"
    and dist: "distinct (map cl_ClientMsgID (chat_rows (GetTableName conID) (co_db s)))" "distinct (map sending_key (sending_rows (co_db s)))"
    and recv: "recvID \<noteq> []" "\<exists>c \<in> set (conv_rows (co_db s)). cv_ConversationID c = conID"
      "conID = ''si_'' @ join_underscore (sort [cx_loginUserID E, recvID])"
    and m: "ms_ContentType m \<in> set plain_types" "ms_ContentType m = AtText \<Longrightarrow> ms_AtTextElem m \<noteq> None"
      "ms_ClientMsgID m \<noteq> []" "ms_Seq m = 0" "ms_Status m = MsgStatusSendSuccess"
    and new: "ms_ClientMsgID m \<notin> cl_ClientMsgID ` set (chat_rows (GetTableName conID) (co_db s))"
      "(conID, ms_ClientMsgID m) \<notin> sending_key ` set (sending_rows (co_db s))"
    and ans: "\<And>w. fst (sx_SendMsg X w (co_net s)) = Inl e" "sx_is_timeout X e"
  shows "\<exists>s'. send_and_finish E X cb m recvID groupID push False s = Some (None, s') \<and>
     message_status (chat_rows (GetTableName conID) (co_db s')) (ms_ClientMsgID m) = Some MsgStatusSendSuccess"
proof -
  obtain og t where og: "checkID E X m recvID groupID [] s = (Inr og, s\<lparr>co_db := t\<rparr>)" "same_tables (GetTableName conID) (co_db s) t"
      "cv_ConversationID (og_conv og) = conID"
    by (rule checkID_known [OF assms(1) recv])
  then have T: "chat_rows (GetTableName conID) t = chat_rows (GetTableName conID) (co_db s)" "sending_rows t = sending_rows (co_db s)" "healthy t"
    using assms(1) by (simp_all add: same_tables_def)
  have none: "message_status (chat_rows (GetTableName conID) (co_db s)) (ms_ClientMsgID m) = None"
    "\<forall>r \<in> set (chat_rows (GetTableName conID) (co_db s)). cl_ClientMsgID r = ms_ClientMsgID m \<longrightarrow> cl_Seq r = 0"
    using new(1) by (auto simp: message_status_None image_iff)
  have "conID \<noteq> []" by (simp add: recv(3))
  from send_refines [OF og(1,3) this _ _ _ m(1-4), of "Inl e" cb push False] T dist new none m(5) ans
  show ?thesis by (auto simp: send_spec_def ans)
qed

end

section \<open>On the record of tables\<close>

interpretation ws: sending_tables "on_world E" "\<lambda>name w. ft_rows (w_chat w name)" "\<lambda>w. ft_rows (w_conv w)" no_faults
  "X\<lparr>sx_sending := world_sending\<rparr>" "\<lambda>w. ft_rows (w_sending w)"
proof (intro sending_tables.intro wh.healthy_tables_axioms sending_tables_axioms.intro)
  show "gorm_table (sx_sending (X\<lparr>sx_sending := world_sending\<rparr>)) (\<lambda>w. ft_rows (w_sending w)) sending_key"
    unfolding world_sending_def by simp (rule at_table_gorm [OF lg.gorm_table_axioms], simp)
qed (auto simp: on_world_def world_sending_def world_chat_def world_conv_def keeps_def stays_def at_table_def list_gorm_def
    next_fault_def no_faults_def find_None_iff split: if_splits option.splits prod.splits)

section \<open>The properties\<close>

text \<open>Samples: a known conversation with \<open>''a''\<close>, a text message, a server that answers always the same.\<close>

definition known_single :: string where
  "known_single = ''si_'' @ join_underscore (sort [''me'', ''a''])"

definition single_world :: world where
  "single_world = empty_world\<lparr>w_conv := \<lparr>ft_rows = [zero_conversation\<lparr>cv_ConversationID := known_single\<rparr>], ft_faults = []\<rparr>\<rparr>"

definition text_message :: "int \<Rightarrow> 'q MsgStruct" where
  "text_message status = zero_msg\<lparr>ms_ClientMsgID := ''m1'', ms_ContentType := Text, ms_Status := status\<rparr>"

definition answering :: "go_error + UserSendMsgResp \<Rightarrow> ('q, world, 'n) send_env \<Rightarrow> ('q, world, 'n) send_env" where
  "answering ans X = X\<lparr>sx_SendMsg := \<lambda>w n. (ans, n), sx_is_timeout := \<lambda>e. e = ErrNetworkTimeOut, sx_sending := world_sending\<rparr>"

lemma sample_tables:
  "sending_tables (plain_env E) (\<lambda>name w. ft_rows (w_chat w name)) (\<lambda>w. ft_rows (w_conv w)) no_faults (answering ans X) (\<lambda>w. ft_rows (w_sending w))"
  using ws.sending_tables_axioms [of "E\<lparr>cx_loginUserID := ''me'', cx_grow := doubling, cx_range_pull := (\<lambda>m. m), cx_range_logs := (\<lambda>m. m)\<rparr>"
      "X\<lparr>sx_SendMsg := \<lambda>w n. (ans, n), sx_is_timeout := \<lambda>e. e = ErrNetworkTimeOut\<rparr>"]
  by (simp add: plain_env_def answering_def)

lemma sample_world:
  "no_faults single_world" "ft_rows (w_chat single_world name) = []" "ft_rows (w_sending single_world) = []"
  "\<exists>c \<in> set (ft_rows (w_conv single_world)). cv_ConversationID c = known_single"
  "cx_loginUserID (plain_env E) = ''me''"
  by (simp_all add: single_world_def empty_world_def no_faults_def plain_env_def on_world_def)

text \<open>
  C13: once its conversation is determined, an attempt to send a message without media refines the machine of \<open>send_spec\<close>,
  to a user or to a group, for every answer of the server that names the message, and for every error. A message for those
  who are online is only passed to the server. Another one that is not stored, or has failed, is stored as being sent and
  ends as sent or as failed, and is not left in the table of messages being sent; the error is reported, unless the message
  was marked as sent when it was created and the request times out, which is taken for a success. Any other message
  is refused and stays as it is. No other message changes its status.
\<close>
theorem SendMessage_refines_spec:
  assumes "sending_tables E chat_rows conv_rows healthy X sending_rows"
    and "checkID E X m recvID groupID [] s = (Inr og, s1)" and "cv_ConversationID (og_conv og) = conID" and "conID \<noteq> []"
    and "healthy (co_db s1)"
    and "distinct (map cl_ClientMsgID (chat_rows (GetTableName conID) (co_db s1)))" and "distinct (map sending_key (sending_rows (co_db s1)))"
    and "ms_ContentType m \<in> set plain_types" and "ms_ContentType m = AtText \<Longrightarrow> ms_AtTextElem m \<noteq> None"
    and "ms_ClientMsgID m \<noteq> []" and "ms_Seq m = 0"
    and "message_status (chat_rows (GetTableName conID) (co_db s1)) (ms_ClientMsgID m) \<in> {None, Some MsgStatusSendFailed} \<Longrightarrow>
      (conID, ms_ClientMsgID m) \<notin> sending_key ` set (sending_rows (co_db s1)) \<and>
      (\<forall>r \<in> set (chat_rows (GetTableName conID) (co_db s1)). cl_ClientMsgID r = ms_ClientMsgID m \<longrightarrow> cl_Seq r = 0)"
    and "\<And>w. md_ClientMsgID w = ms_ClientMsgID m \<Longrightarrow> fst (sx_SendMsg X w (co_net s1)) = ans"
    and "\<And>resp. ans = Inr resp \<Longrightarrow> usr_ClientMsgID resp = ms_ClientMsgID m"
  shows "\<exists>e s'. send_and_finish E X cb m recvID groupID push isOnlineOnly s = Some (e, s') \<and>
     (e, message_status (chat_rows (GetTableName conID) (co_db s')) (ms_ClientMsgID m)) =
        send_spec (sx_is_timeout X) isOnlineOnly (ms_Status m = MsgStatusSendSuccess)
          (message_status (chat_rows (GetTableName conID) (co_db s1)) (ms_ClientMsgID m)) ans \<and>
     sending_rows (co_db s') = sending_rows (co_db s1) \<and>
     (\<forall>k. k \<noteq> ms_ClientMsgID m \<longrightarrow> message_status (chat_rows (GetTableName conID) (co_db s')) k =
        message_status (chat_rows (GetTableName conID) (co_db s1)) k)"
  by (rule sending_tables.send_refines [OF assms(1)]) (use assms(2-) in blast)+

theorem SendMessage_refines_spec_witness:
  "\<forall>(E :: ('q, world, 'n) conv_env) X cb n. \<exists>s'.
     send_and_finish (plain_env E) (answering (Inl ErrNetwork) X) cb (text_message MsgStatusSending) ''a'' [] None False
       ((sample_state n)\<lparr>co_db := single_world\<rparr>) = Some (Some ErrNetwork, s') \<and>
     message_status (ft_rows (w_chat (co_db s') (GetTableName known_single))) ''m1'' = Some MsgStatusSendFailed"
proof (intro allI)
  fix E :: "('q, world, 'n) conv_env" and X :: "('q, world, 'n) send_env" and cb and n :: 'n
  let ?m = "text_message MsgStatusSending :: 'q MsgStruct" and ?s = "(sample_state n)\<lparr>co_db := single_world\<rparr>"
  let ?X = "answering (Inl ErrNetwork) X"
  obtain og where og: "checkID (plain_env E) ?X ?m ''a'' [] [] ?s = (Inr og, ?s)" "cv_ConversationID (og_conv og) = known_single"
    by (simp add: checkID_def to_user_def Let_def GetConversationIDByMsg_def on_db_def GetConversation_def wrap_res_def plain_env_def
        on_world_def world_conv_def at_table_def list_gorm_def next_fault_def single_world_def empty_world_def known_single_def
        zero_conversation_def sample_state_def del: sort_key_simps)
  have "\<exists>e s'. send_and_finish (plain_env E) ?X cb ?m ''a'' [] None False ?s = Some (e, s') \<and>
     (e, message_status (ft_rows (w_chat (co_db s') (GetTableName known_single))) (ms_ClientMsgID ?m)) =
        send_spec (sx_is_timeout ?X) False (ms_Status ?m = MsgStatusSendSuccess)
          (message_status (ft_rows (w_chat (co_db ?s) (GetTableName known_single))) (ms_ClientMsgID ?m)) (Inl ErrNetwork) \<and>
     ft_rows (w_sending (co_db s')) = ft_rows (w_sending (co_db ?s)) \<and>
     (\<forall>k. k \<noteq> ms_ClientMsgID ?m \<longrightarrow>
        message_status (ft_rows (w_chat (co_db s') (GetTableName known_single))) k =
        message_status (ft_rows (w_chat (co_db ?s) (GetTableName known_single))) k)"
    by (rule SendMessage_refines_spec [where conID = known_single and og = og, OF sample_tables og])
      (auto simp: sample_world known_single_def text_message_def plain_types_def content_types msg_status answering_def
        zero_msg_def)
  then show "\<exists>s'. send_and_finish (plain_env E) (answering (Inl ErrNetwork) X) cb (text_message MsgStatusSending) ''a'' [] None False
       ((sample_state n)\<lparr>co_db := single_world\<rparr>) = Some (Some ErrNetwork, s') \<and>
     message_status (ft_rows (w_chat (co_db s') (GetTableName known_single))) ''m1'' = Some MsgStatusSendFailed"
    by (simp add: sample_world send_spec_def message_status_def text_message_def msg_status) blast
qed

text \<open>
  C25: a forwarded message whose request times out is reported as sent, and stored as sent, although the server has not
  answered: \<^verbatim>\<open>CreateForwardMessage\<close> marks it as sent before it is, so that the look into the database after the
  time-out finds the message the SDK has stored itself.
\<close>
theorem forwarded_timeout_reported_sent:
  assumes "sending_tables E chat_rows conv_rows healthy X sending_rows" and "healthy (co_db s)"
    and "distinct (map cl_ClientMsgID (chat_rows (GetTableName conID) (co_db s)))" and "distinct (map sending_key (sending_rows (co_db s)))"
    and "recvID \<noteq> []" and "\<exists>c \<in> set (conv_rows (co_db s)). cv_ConversationID c = conID"
    and "conID = ''si_'' @ join_underscore (sort [cx_loginUserID E, recvID])"
    and forward: "CreateForwardMessage E X m0 s0 = (Inr m, s)"
    and "ms_ContentType m0 \<in> set plain_types" and "ms_ContentType m0 = AtText \<Longrightarrow> ms_AtTextElem m0 \<noteq> None"
    and "ms_ClientMsgID m \<noteq> []" and "ms_ClientMsgID m \<notin> cl_ClientMsgID ` set (chat_rows (GetTableName conID) (co_db s))"
    and "(conID, ms_ClientMsgID m) \<notin> sending_key ` set (sending_rows (co_db s))"
    and "\<And>w. fst (sx_SendMsg X w (co_net s)) = Inl e" and "sx_is_timeout X e"
  shows "\<exists>s'. send_and_finish E X cb m recvID groupID push False s = Some (None, s') \<and>
     message_status (chat_rows (GetTableName conID) (co_db s')) (ms_ClientMsgID m) = Some MsgStatusSendSuccess"
proof -
  have "ms_Status m = MsgStatusSendSuccess" "ms_Seq m = 0" "ms_ContentType m = ms_ContentType m0" "ms_AtTextElem m = ms_AtTextElem m0"
    using forward
    by (auto simp: CreateForwardMessage_def initBasicInfo_def split: if_splits prod.splits sum.splits)
  then show ?thesis
    using sending_tables.send_marked_as_sent [OF assms(1-7), of m e cb groupID push] assms(9-) by simp
qed

theorem forwarded_timeout_reported_sent_witness:
  "\<forall>(E :: ('q, world, 'n) conv_env) X cb n. \<exists>m s s'.
     CreateForwardMessage (plain_env (E\<lparr>cx_now_nano := \<lambda>n. (0, n)\<rparr>)) (answering (Inl ErrNetworkTimeOut) (X\<lparr>sx_Md5 := \<lambda>t. ''m2'', sx_rand := \<lambda>b n. (0, n)\<rparr>))
       (text_message MsgStatusSendSuccess) ((sample_state n)\<lparr>co_db := single_world\<lparr>w_user := \<lparr>ft_rows = [\<lparr>us_UserID = ''me'',
         us_Nickname = [], us_FaceURL = [], us_CreateTime = 0, us_AppMangerLevel = 0, us_Ex = [], us_AttachedInfo = [],
         us_GlobalRecvMsgOpt = 0\<rparr>], ft_faults = []\<rparr>\<rparr>\<rparr>) = (Inr m, s) \<and>
     send_and_finish (plain_env (E\<lparr>cx_now_nano := \<lambda>n. (0, n)\<rparr>)) (answering (Inl ErrNetworkTimeOut) (X\<lparr>sx_Md5 := \<lambda>t. ''m2'', sx_rand := \<lambda>b n. (0, n)\<rparr>))
       cb m ''a'' [] None False s = Some (None, s') \<and>
     message_status (ft_rows (w_chat (co_db s') (GetTableName known_single))) ''m2'' = Some MsgStatusSendSuccess"
proof (intro allI)
  fix E :: "('q, world, 'n) conv_env" and X :: "('q, world, 'n) send_env" and cb and n :: 'n
  let ?w = "single_world\<lparr>w_user := \<lparr>ft_rows = [\<lparr>us_UserID = ''me'', us_Nickname = [], us_FaceURL = [], us_CreateTime = 0,
       us_AppMangerLevel = 0, us_Ex = [], us_AttachedInfo = [], us_GlobalRecvMsgOpt = 0\<rparr>], ft_faults = []\<rparr>\<rparr>"
  let ?E = "plain_env (E\<lparr>cx_now_nano := \<lambda>n. (0, n)\<rparr>)" and ?m0 = "text_message MsgStatusSendSuccess :: 'q MsgStruct"
    and ?X = "answering (Inl ErrNetworkTimeOut) (X\<lparr>sx_Md5 := \<lambda>t. ''m2'', sx_rand := \<lambda>b n. (0, n)\<rparr>)"
  obtain m where m: "CreateForwardMessage ?E ?X ?m0 ((sample_state n)\<lparr>co_db := ?w\<rparr>) = (Inr m, (sample_state n)\<lparr>co_db := ?w\<rparr>)"
    and id: "ms_ClientMsgID m = ''m2''"
    by (simp add: CreateForwardMessage_def initBasicInfo_def text_message_def answering_def plain_env_def on_world_def on_net_def on_db_def
        GetCurrentTimestampByMill_def GetMsgID_def GetLoginUser_def wrap_res_def world_user_def at_table_def list_gorm_def next_fault_def
        sample_state_def)
  have "\<exists>s'. send_and_finish ?E ?X cb m ''a'' [] None False ((sample_state n)\<lparr>co_db := ?w\<rparr>) = Some (None, s') \<and>
     message_status (ft_rows (w_chat (co_db s') (GetTableName known_single))) (ms_ClientMsgID m) = Some MsgStatusSendSuccess"
    by (rule forwarded_timeout_reported_sent [where e = ErrNetworkTimeOut and conID = known_single, OF sample_tables _ _ _ _ _ _ m])
      (auto simp: id known_single_def text_message_def plain_types_def content_types answering_def
        single_world_def empty_world_def no_faults_def plain_env_def on_world_def)
  then show "\<exists>m s s'. CreateForwardMessage ?E ?X ?m0 ((sample_state n)\<lparr>co_db := ?w\<rparr>) = (Inr m, s) \<and>
     send_and_finish ?E ?X cb m ''a'' [] None False s = Some (None, s') \<and>
     message_status (ft_rows (w_chat (co_db s') (GetTableName known_single))) ''m2'' = Some MsgStatusSendSuccess"
    using m id by auto
qed

end
