(* ===== verification/Group.thy ===== *)
theory Group
  imports ConvApi Upload Friend
begin

text \<open>
  \<^verbatim>\<open>internal/group\<close>: its state, the conversions of \<^verbatim>\<open>conversion.go\<close>, the syncers of \<^verbatim>\<open>group.go\<close> and the calls
  to the server. The groups, their members and the requests to join are tables of one database; what the listener is
  told is kept in order. An operation is \<open>None\<close> when it panics or does not return.
\<close>

section \<open>What the server sends\<close>

record GroupMemberFullInfo =
  gfi_GroupID :: string
  gfi_UserID :: string
  gfi_RoleLevel :: int
  gfi_JoinTime :: int
  gfi_Nickname :: string
  gfi_FaceURL :: string
  gfi_AppMangerLevel :: int
  gfi_JoinSource :: int
  gfi_OperatorUserID :: string
  gfi_Ex :: string
  gfi_MuteEndTime :: int
  gfi_InviterUserID :: string

record PublicUserInfo =
  pui_UserID :: string
  pui_Nickname :: string
  pui_FaceURL :: string

record GroupRequest =
  gqi_UserInfo :: PublicUserInfo
  gqi_GroupInfo :: GroupInfo
  gqi_HandleResult :: int
  gqi_ReqMsg :: string
  gqi_HandleMsg :: string
  gqi_ReqTime :: int
  gqi_HandleUserID :: string
  gqi_HandleTime :: int
  gqi_Ex :: string
  gqi_JoinSource :: int
  gqi_InviterUserID :: string

record GroupAbstractInfo =
  gai_GroupMemberNumber :: "32 word"
  gai_GroupMemberListHash :: "64 word"

definition ServerGroupMemberToLocalGroupMember :: "GroupMemberFullInfo \<Rightarrow> LocalGroupMember" where
  "ServerGroupMemberToLocalGroupMember info = \<lparr>gm_GroupID = gfi_GroupID info, gm_UserID = gfi_UserID info,
     gm_Nickname = gfi_Nickname info, gm_FaceURL = gfi_FaceURL info, gm_RoleLevel = gfi_RoleLevel info,
     gm_JoinTime = gfi_JoinTime info, gm_JoinSource = gfi_JoinSource info, gm_InviterUserID = gfi_InviterUserID info,
     gm_MuteEndTime = gfi_MuteEndTime info, gm_OperatorUserID = gfi_OperatorUserID info, gm_Ex = gfi_Ex info,
     gm_AttachedInfo = []\<rparr>"

definition ServerGroupRequestToLocalGroupRequest :: "GroupRequest \<Rightarrow> LocalGroupRequest" where
  "ServerGroupRequestToLocalGroupRequest info = (let g = gqi_GroupInfo info; u = gqi_UserInfo info in
     \<lparr>grq_GroupID = gi_GroupID g, grq_GroupName = gi_GroupName g, grq_Notification = gi_Notification g,
      grq_Introduction = gi_Introduction g, grq_GroupFaceURL = gi_FaceURL g, grq_CreateTime = gi_CreateTime g,
      grq_Status = gi_Status g, grq_CreatorUserID = gi_CreatorUserID g, grq_GroupType = gi_GroupType g,
      grq_OwnerUserID = gi_OwnerUserID g, grq_MemberCount = sint (gi_MemberCount g), grq_UserID = pui_UserID u,
      grq_Nickname = pui_Nickname u, grq_UserFaceURL = pui_FaceURL u, grq_HandleResult = gqi_HandleResult info,
      grq_ReqMsg = gqi_ReqMsg info, grq_HandledMsg = gqi_HandleMsg info, grq_ReqTime = gqi_ReqTime info,
      grq_HandleUserID = gqi_HandleUserID info, grq_HandledTime = gqi_HandleTime info, grq_Ex = gqi_Ex info,
      grq_AttachedInfo = [], grq_JoinSource = gqi_JoinSource info, grq_InviterUserID = gqi_InviterUserID info\<rparr>)"

definition ServerGroupRequestToLocalAdminGroupRequest :: "GroupRequest \<Rightarrow> LocalAdminGroupRequest" where
  "ServerGroupRequestToLocalAdminGroupRequest info = ServerGroupRequestToLocalGroupRequest info"

section \<open>State\<close>

datatype group_event =
    OnJoinedGroupAdded LocalGroup
  | OnJoinedGroupDeleted LocalGroup
  | OnGroupInfoChanged LocalGroup
  | OnGroupDismissed LocalGroup
  | OnGroupDismissedInfo GroupInfo
  | OnGroupMemberAdded LocalGroupMember
  | OnGroupMemberDeleted LocalGroupMember
  | OnGroupMemberInfoChanged LocalGroupMember
  | OnGroupApplicationAdded LocalGroupRequest
  | OnGroupApplicationAccepted LocalGroupRequest
  | OnGroupApplicationRejected LocalGroupRequest

record ('t, 'n) group_state =
  go_db :: 't
  go_net :: 'n
  go_ch :: "chan option"
  go_events :: "group_event list"

definition on_gdb :: "('t \<Rightarrow> 'r \<times> 't) \<Rightarrow> ('t, 'n) group_state \<Rightarrow> 'r \<times> ('t, 'n) group_state" where
  "on_gdb f s = (case f (go_db s) of (r, t) \<Rightarrow> (r, s\<lparr>go_db := t\<rparr>))"

definition on_gnet :: "('n \<Rightarrow> 'r \<times> 'n) \<Rightarrow> ('t, 'n) group_state \<Rightarrow> 'r \<times> ('t, 'n) group_state" where
  "on_gnet f s = (case f (go_net s) of (r, n) \<Rightarrow> (r, s\<lparr>go_net := n\<rparr>))"

definition on_gch :: "chan option action \<Rightarrow> ('t, 'n) group_state action" where
  "on_gch a s = (case a (go_ch s) of (r, c) \<Rightarrow> (r, s\<lparr>go_ch := c\<rparr>))"

definition tell :: "group_event \<Rightarrow> ('t, 'n) group_state \<Rightarrow> ('t, 'n) group_state" where
  "tell ev s = s\<lparr>go_events := go_events s @ [ev]\<rparr>"

text \<open>
  The tables, the login user and the server. The pages of the four paged requests are given for a page size and a page
  number; \<open>gx_hash\<close> is the digest of the encoded members; \<open>gx_range_\<dots>\<close> are iteration orders of maps, and \<open>gx_order\<close>
  the order in which the goroutines of \<^verbatim>\<open>SyncAllJoinedGroupsAndMembers\<close> run, each as a whole.
\<close>

record ('t, 'n) group_env =
  gx_groups :: "(LocalGroup, 't) gorm"
  gx_supers :: "(LocalGroup, 't) gorm"
  gx_members :: "(LocalGroupMember, 't) gorm"
  gx_requests :: "(LocalGroupRequest, 't) gorm"
  gx_adminRequests :: "(LocalAdminGroupRequest, 't) gorm"
  gx_loginUserID :: string
  gx_groups_io :: "('n, string list, GroupInfo list) api_io"
  gx_abstract_io :: "('n, string list, GroupAbstractInfo list) api_io"
  gx_members_io :: "('n, string \<times> string list, GroupMemberFullInfo list) api_io"
  gx_joined_page :: "int \<Rightarrow> int \<Rightarrow> 'n \<Rightarrow> (go_error + GroupInfo list) \<times> 'n"
  gx_member_page :: "string \<Rightarrow> int \<Rightarrow> int \<Rightarrow> 'n \<Rightarrow> (go_error + GroupMemberFullInfo list) \<times> 'n"
  gx_admin_page :: "int \<Rightarrow> int \<Rightarrow> 'n \<Rightarrow> (go_error + GroupRequest list) \<times> 'n"
  gx_self_page :: "int \<Rightarrow> int \<Rightarrow> 'n \<Rightarrow> (go_error + GroupRequest list) \<times> 'n"
  gx_hash :: "GroupMemberFullInfo list \<Rightarrow> 64 word"
  gx_range_groups :: "(string, LocalGroup) gomap \<Rightarrow> (string, LocalGroup) gomap"
  gx_range_members :: "(string \<times> string, LocalGroupMember) gomap \<Rightarrow> (string \<times> string, LocalGroupMember) gomap"
  gx_range_requests :: "(string \<times> string, LocalGroupRequest) gomap \<Rightarrow> (string \<times> string, LocalGroupRequest) gomap"
  gx_range_ids :: "string list \<Rightarrow> string list"
  gx_order :: "string list \<Rightarrow> string list"

section \<open>The syncers\<close>

definition GroupStatusDismissed :: int where "GroupStatusDismissed = 2"

definition UpdateSuperGroup :: "(LocalGroup, 't) gorm \<Rightarrow> LocalGroup \<Rightarrow> 't action" where
  "UpdateSuperGroup G groupInfo t =
     update_result [] (gorm_updates_pk G gr_GroupID (gr_GroupID groupInfo) (\<lambda>_. groupInfo) t)"

text \<open>The conversation of the group gets its name and picture; an error of the channel is dropped.\<close>

definition rename_conversation :: "LocalGroup \<Rightarrow> ('t, 'n) group_state \<Rightarrow> ('t, 'n) group_state" where
  "rename_conversation g s = snd (on_gch (TriggerCmdUpdateConversation
     \<lparr>ucn_ConID = [], ucn_Action = ConvUpdate.UpdateConFaceUrlAndNickName,
      ucn_Args = ArgSource \<lparr>sst_SourceID = gr_GroupID g, sst_SessionType = SuperGroupChatType, sst_FaceURL = gr_FaceURL g,
        sst_Nickname = gr_GroupName g\<rparr>\<rparr>) s)"

definition group_notice :: "('t, 'n) group_env \<Rightarrow> (('t, 'n) group_state, LocalGroup) notice" where
  "group_notice E state server loc s =
     (None, case state of
        Insert \<Rightarrow> rename_conversation server (tell (OnJoinedGroupAdded server) s)
      | Delete \<Rightarrow> tell (OnJoinedGroupDeleted loc) s
      | Update \<Rightarrow>
          if gr_Status server = GroupStatusDismissed
          then tell (OnGroupDismissed server) (snd (on_gdb (DeleteGroupAllMembers (gx_members E) (gr_GroupID server)) s))
          else let s1 = tell (OnGroupInfoChanged server) s in
               if gr_GroupName server \<noteq> gr_GroupName loc \<or> gr_FaceURL loc \<noteq> gr_FaceURL server
               then rename_conversation server s1 else s1
      | Unchanged \<Rightarrow> s)"

definition groupSyncer :: "('t, 'n) group_env \<Rightarrow> (('t, 'n) group_state, LocalGroup, string) syncer" where
  "groupSyncer E = the (new_syncer
     (Some (\<lambda>value. on_gdb (InsertGroup (gx_groups E) value)))
     (Some (\<lambda>value. and_then (on_gdb (DeleteGroupAllMembers (gx_members E) (gr_GroupID value)))
                             (on_gdb (DeleteGroup (gx_groups E) (gr_GroupID value)))))
     (Some (\<lambda>server loc. on_gdb (UpdateGroup (gx_groups E) server)))
     (Some gr_GroupID) None (Some (group_notice E)))"

text \<open>The messages of the member get the name and picture.\<close>

definition rename_sender :: "LocalGroupMember \<Rightarrow> ('t, 'n) group_state \<Rightarrow> ('t, 'n) group_state" where
  "rename_sender m s = snd (on_gch (TriggerCmdUpdateMessage
     \<lparr>umn_Action = ConvUpdate.UpdateMsgFaceUrlAndNickName,
      umn_Args = Some \<lparr>umi_SessionType = SuperGroupChatType, umi_UserID = gm_UserID m, umi_FaceURL = gm_FaceURL m,
        umi_Nickname = gm_Nickname m, umi_GroupID = gm_GroupID m\<rparr>\<rparr>) s)"

definition member_notice :: "(('t, 'n) group_state, LocalGroupMember) notice" where
  "member_notice state server loc s =
     (None, case state of
        Insert \<Rightarrow> rename_sender server (tell (OnGroupMemberAdded server) s)
      | Delete \<Rightarrow> tell (OnGroupMemberDeleted loc) s
      | Update \<Rightarrow> let s1 = tell (OnGroupMemberInfoChanged server) s in
                  if gm_Nickname server \<noteq> gm_Nickname loc \<or> gm_FaceURL server \<noteq> gm_FaceURL loc
                  then rename_sender server s1 else s1
      | Unchanged \<Rightarrow> s)"

definition gm_key :: "LocalGroupMember \<Rightarrow> string \<times> string" where "gm_key m = (gm_GroupID m, gm_UserID m)"
definition grq_key :: "LocalGroupRequest \<Rightarrow> string \<times> string" where "grq_key r = (grq_GroupID r, grq_UserID r)"

definition groupMemberSyncer :: "('t, 'n) group_env \<Rightarrow> (('t, 'n) group_state, LocalGroupMember, string \<times> string) syncer" where
  "groupMemberSyncer E = the (new_syncer
     (Some (\<lambda>value. on_gdb (InsertGroupMember (gx_members E) value)))
     (Some (\<lambda>value. on_gdb (DeleteGroupMember (gx_members E) (gm_GroupID value) (gm_UserID value))))
     (Some (\<lambda>server loc. on_gdb (UpdateGroupMember (gx_members E) server)))
     (Some gm_key) None (Some member_notice))"

definition group_request_notice :: "(('t, 'n) group_state, LocalGroupRequest) notice" where
  "group_request_notice state server loc s =
     (None, case state of
        Insert \<Rightarrow> tell (OnGroupApplicationAdded server) s
      | Update \<Rightarrow> if grq_HandleResult server = FriendResponseAgree then tell (OnGroupApplicationAccepted server) s
                  else if grq_HandleResult server = FriendResponseRefuse then tell (OnGroupApplicationRejected server) s
                  else tell (OnGroupApplicationAdded server) s
      | _ \<Rightarrow> s)"

definition groupRequestSyncer :: "('t, 'n) group_env \<Rightarrow> (('t, 'n) group_state, LocalGroupRequest, string \<times> string) syncer" where
  "groupRequestSyncer E = the (new_syncer
     (Some (\<lambda>value. on_gdb (InsertGroupRequest (gx_requests E) value)))
     (Some (\<lambda>value. on_gdb (DeleteGroupRequest (gx_requests E) (grq_GroupID value) (grq_UserID value))))
     (Some (\<lambda>server loc. on_gdb (UpdateGroupRequest (gx_requests E) server)))
     (Some grq_key) None (Some group_request_notice))"

definition groupAdminRequestSyncer :: "('t, 'n) group_env \<Rightarrow> (('t, 'n) group_state, LocalAdminGroupRequest, string \<times> string) syncer" where
  "groupAdminRequestSyncer E = the (new_syncer
     (Some (\<lambda>value. on_gdb (InsertAdminGroupRequest (gx_adminRequests E) value)))
     (Some (\<lambda>value. on_gdb (DeleteAdminGroupRequest (gx_adminRequests E) (grq_GroupID value) (grq_UserID value))))
     (Some (\<lambda>server loc. on_gdb (UpdateAdminGroupRequest (gx_adminRequests E) server)))
     (Some grq_key) None (Some group_request_notice))"

section \<open>Calls\<close>

definition GetGroupsInfoRouter :: string where "GetGroupsInfoRouter = ''/group/get_groups_info''"
definition GetGroupMembersInfoRouter :: string where "GetGroupMembersInfoRouter = ''/group/get_group_members_info''"
definition GetGroupAbstractInfoRouter :: string where "GetGroupAbstractInfoRouter = ''/group/get_group_abstract_info''"

definition getGroupsInfoFromSvr ::
  "('t, 'n) group_env \<Rightarrow> string list \<Rightarrow> ('t, 'n) group_state \<Rightarrow> (go_error + GroupInfo list) \<times> ('t, 'n) group_state" where
  "getGroupsInfoFromSvr E groupIDs = on_gnet (CallApi [] (gx_groups_io E) GetGroupsInfoRouter groupIDs)"

definition getGroupAbstractInfoFromSvr ::
  "('t, 'n) group_env \<Rightarrow> string list \<Rightarrow> ('t, 'n) group_state \<Rightarrow> (go_error + GroupAbstractInfo list) \<times> ('t, 'n) group_state" where
  "getGroupAbstractInfoFromSvr E groupIDs = on_gnet (CallApi [] (gx_abstract_io E) GetGroupAbstractInfoRouter groupIDs)"

definition GetGroupAbstractInfo ::
  "('t, 'n) group_env \<Rightarrow> string \<Rightarrow> ('t, 'n) group_state \<Rightarrow> (go_error + GroupAbstractInfo) \<times> ('t, 'n) group_state" where
  "GetGroupAbstractInfo E groupID s =
     (case getGroupAbstractInfoFromSvr E [groupID] s of
        (Inl e, s1) \<Rightarrow> (Inl e, s1)
      | (Inr [], s1) \<Rightarrow> (Inl (GoError ''group not found''), s1)
      | (Inr (info # _), s1) \<Rightarrow> (Inr info, s1))"

definition GetDesignatedGroupMembers ::
  "('t, 'n) group_env \<Rightarrow> string \<Rightarrow> string list \<Rightarrow> ('t, 'n) group_state \<Rightarrow>
   (go_error + GroupMemberFullInfo list) \<times> ('t, 'n) group_state" where
  "GetDesignatedGroupMembers E groupID userID = on_gnet (CallApi [] (gx_members_io E) GetGroupMembersInfoRouter (groupID, userID))"

text \<open>The paged requests leave the page size at 0, for which \<^verbatim>\<open>GetPageAll\<close> takes 50.\<close>

definition GetServerJoinGroup :: "('t, 'n) group_env \<Rightarrow> (('t, 'n) group_state, GroupInfo list) upload_op" where
  "GetServerJoinGroup E = GetPageAll (\<lambda>n p. on_gnet (gx_joined_page E n p)) 0"

definition GetServerAdminGroupApplicationList :: "('t, 'n) group_env \<Rightarrow> (('t, 'n) group_state, GroupRequest list) upload_op" where
  "GetServerAdminGroupApplicationList E = GetPageAll (\<lambda>n p. on_gnet (gx_admin_page E n p)) 0"

definition GetServerSelfGroupApplication :: "('t, 'n) group_env \<Rightarrow> (('t, 'n) group_state, GroupRequest list) upload_op" where
  "GetServerSelfGroupApplication E = GetPageAll (\<lambda>n p. on_gnet (gx_self_page E n p)) 0"

definition GetServerGroupMembers :: "('t, 'n) group_env \<Rightarrow> string \<Rightarrow> (('t, 'n) group_state, GroupMemberFullInfo list) upload_op" where
  "GetServerGroupMembers E groupID = GetPageAll (\<lambda>n p. on_gnet (gx_member_page E groupID n p)) 0"

definition GetJoinedDiffusionGroupIDListFromSvr :: "('t, 'n) group_env \<Rightarrow> (('t, 'n) group_state, string list) upload_op" where
  "GetJoinedDiffusionGroupIDListFromSvr E =
     op_then (GetServerJoinGroup E) (\<lambda>groups. op_return (map gi_GroupID (filter (\<lambda>g. gi_GroupType g = WorkingGroup) groups)))"

end
