(* ===== verification/GroupSync.thy ===== *)
theory GroupSync
  imports Group
begin

text \<open>
  \<^verbatim>\<open>internal/group/sync.go\<close>, with what it needs of \<^verbatim>\<open>sdk.go\<close> and the remaining operations of \<^verbatim>\<open>group.go\<close>: the joined groups, their
  members and the requests, kept in step with the server.
\<close>

type_synonym ('t, 'n) group_act = "('t, 'n) group_state loop_act"

definition with_res :: "(('t, 'n) group_state, 'a) upload_op \<Rightarrow> ('a \<Rightarrow> ('t, 'n) group_act) \<Rightarrow> ('t, 'n) group_act" where
  "with_res r k s = (case r s of None \<Rightarrow> None | Some (Inl e, s1) \<Rightarrow> Some (Some e, s1) | Some (Inr a, s1) \<Rightarrow> k a s1)"

definition return_op :: "(('t, 'n) group_state \<Rightarrow> 'r \<times> ('t, 'n) group_state) \<Rightarrow> ('t, 'n) group_state \<Rightarrow> ('r \<times> ('t, 'n) group_state) option" where
  "return_op f s = Some (f s)"

section \<open>Groups known here or there\<close>

text \<open>The groups of the list whose identifier is still wanted, and the identifiers that are left.\<close>

fun pick_groups :: "LocalGroup list \<Rightarrow> string list \<Rightarrow> LocalGroup list \<times> string list" where
  "pick_groups [] ids = ([], ids)"
| "pick_groups (g # gs) ids =
     (if gr_GroupID g \<in> set ids
      then map_prod ((#) g) id (pick_groups gs (removeAll (gr_GroupID g) ids))
      else pick_groups gs ids)"

text \<open>A group that is only on the server is given without members; an error of the server is only logged.\<close>

definition GetSpecifiedGroupsInfo ::
  "('t, 'n) group_env \<Rightarrow> string list \<Rightarrow> ('t, 'n) group_state \<Rightarrow> (go_error + LocalGroup list) \<times> ('t, 'n) group_state" where
  "GetSpecifiedGroupsInfo E groupIDs s =
     (case on_gdb (GetJoinedGroupListDB (gx_groups E)) s of
        (Inl e, s1) \<Rightarrow> (Inl e, s1)
      | (Inr groupList, s1) \<Rightarrow>
          (case pick_groups groupList (remdups groupIDs) of (res, rest) \<Rightarrow>
             if rest = [] then (Inr res, s1)
             else case getGroupsInfoFromSvr E (gx_range_ids E rest) s1 of
                    (Inl e, s2) \<Rightarrow> (Inr res, s2)
                  | (Inr infos, s2) \<Rightarrow>
                      (Inr (res @ Batch ServerGroupToLocalGroup (map (\<lambda>i. i\<lparr>gi_MemberCount := 0\<rparr>) infos)), s2)))"

definition deleteGroup :: "('t, 'n) group_env \<Rightarrow> string \<Rightarrow> ('t, 'n) group_state action" where
  "deleteGroup E groupID s =
     get_then (on_gdb (GetGroupInfoByGroupID (gx_groups E) groupID) s) (\<lambda>groupInfo s1.
       act_then (on_gdb (DeleteGroup (gx_groups E) groupID) s1) (\<lambda>s2. (None, tell (OnJoinedGroupDeleted groupInfo) s2)))"

section \<open>Members\<close>

definition full_info :: "LocalGroupMember \<Rightarrow> GroupMemberFullInfo" where
  "full_info m = \<lparr>gfi_GroupID = gm_GroupID m, gfi_UserID = gm_UserID m, gfi_RoleLevel = gm_RoleLevel m,
     gfi_JoinTime = gm_JoinTime m, gfi_Nickname = gm_Nickname m, gfi_FaceURL = gm_FaceURL m, gfi_AppMangerLevel = 0,
     gfi_JoinSource = gm_JoinSource m, gfi_OperatorUserID = gm_OperatorUserID m, gfi_Ex = gm_Ex m,
     gfi_MuteEndTime = gm_MuteEndTime m, gfi_InviterUserID = gm_InviterUserID m\<rparr>"

definition getGroupHash :: "('t, 'n) group_env \<Rightarrow> LocalGroupMember list \<Rightarrow> 64 word" where
  "getGroupHash E members =
     (let memberMap = fold (\<lambda>m. gput (gm_UserID m) (full_info m)) members []
      in gx_hash E (map (\<lambda>userID. the (gget memberMap userID)) (sort (map gm_UserID members))))"

text \<open>The number of members is written back when it is not the number of rows; the error of that is only logged.\<close>

definition update_count :: "('t, 'n) group_env \<Rightarrow> string \<Rightarrow> LocalGroup list \<Rightarrow> ('t, 'n) group_state action" where
  "update_count E groupID gs s =
     (case gs of
        [] \<Rightarrow> (None, s)
      | v # _ \<Rightarrow> get_then (on_gdb (GetGroupMemberCount (gx_members E) groupID) s) (\<lambda>cnt s1.
          if gr_MemberCount v = cnt then (None, s1)
          else let v' = v\<lparr>gr_MemberCount := cnt\<rparr>;
                   s2 = snd (on_gdb (if gr_GroupType v' = SuperGroupChatType then UpdateSuperGroup (gx_supers E) v'
                                     else UpdateGroup (gx_groups E) v') s1)
               in (None, tell (OnGroupInfoChanged v') s2)))"

definition syncGroupMembers ::
  "('t, 'n) group_env \<Rightarrow> string \<Rightarrow> GroupMemberFullInfo list \<Rightarrow> LocalGroupMember list \<Rightarrow> ('t, 'n) group_state action" where
  "syncGroupMembers E groupID members localData s =
     act_then (Sync (=) zero_member (gx_range_members E) (groupMemberSyncer E) (Batch ServerGroupMemberToLocalGroupMember members)
                localData None [] s)
       (\<lambda>s1. get_then (GetSpecifiedGroupsInfo E [groupID] s1) (update_count E groupID))"

text \<open>The server's digest of the members says whether the members have to be fetched.\<close>

definition SyncAllGroupMember :: "('t, 'n) group_env \<Rightarrow> string \<Rightarrow> ('t, 'n) group_act" where
  "SyncAllGroupMember E groupID =
     with_res (return_op (GetGroupAbstractInfo E groupID)) (\<lambda>absInfo.
     with_res (return_op (on_gdb (GetGroupMemberListSplit (gx_members E) groupID 0 0 9999999))) (\<lambda>localData.
       if int (length localData) = uint (gai_GroupMemberNumber absInfo) \<and> getGroupHash E localData = gai_GroupMemberListHash absInfo
       then done_act (\<lambda>s. (None, s))
       else with_res (GetServerGroupMembers E groupID) (\<lambda>members.
              done_act (syncGroupMembers E groupID members localData))))"

definition SyncGroupMembers :: "('t, 'n) group_env \<Rightarrow> string \<Rightarrow> string list \<Rightarrow> ('t, 'n) group_state action" where
  "SyncGroupMembers E groupID userIDs s =
     get_then (GetDesignatedGroupMembers E groupID userIDs s) (\<lambda>members s1.
       get_then (on_gdb (GetGroupSomeMemberInfo (gx_members E) groupID userIDs) s1) (\<lambda>localData.
         syncGroupMembers E groupID members localData))"

section \<open>Groups\<close>

definition zero_group :: LocalGroup where
  "zero_group = \<lparr>gr_GroupID = [], gr_GroupName = [], gr_Notification = [], gr_Introduction = [], gr_FaceURL = [], gr_CreateTime = 0,
     gr_Status = 0, gr_CreatorUserID = [], gr_GroupType = 0, gr_OwnerUserID = [], gr_MemberCount = 0, gr_Ex = [],
     gr_AttachedInfo = [], gr_NeedVerification = 0, gr_LookMemberInfo = 0, gr_ApplyMemberFriend = 0,
     gr_NotificationUpdateTime = 0, gr_NotificationUserID = []\<rparr>"

definition sync_groups :: "('t, 'n) group_env \<Rightarrow> GroupInfo list \<Rightarrow> LocalGroup list \<Rightarrow> ('t, 'n) group_state action" where
  "sync_groups E groups localData =
     Sync (=) zero_group (gx_range_groups E) (groupSyncer E) (Batch ServerGroupToLocalGroup groups) localData None []"

definition SyncGroups :: "('t, 'n) group_env \<Rightarrow> string list \<Rightarrow> ('t, 'n) group_state action" where
  "SyncGroups E groupIDs s =
     get_then (getGroupsInfoFromSvr E groupIDs s) (\<lambda>groups s1.
       get_then (on_gdb (GetGroups (gx_groups E) groupIDs) s1) (sync_groups E groups))"

definition syncAllJoinedGroups :: "('t, 'n) group_env \<Rightarrow> ('t, 'n) group_act" where
  "syncAllJoinedGroups E =
     with_res (GetServerJoinGroup E) (\<lambda>groups.
     with_res (return_op (on_gdb (GetJoinedGroupListDB (gx_groups E)))) (\<lambda>localData. done_act (sync_groups E groups localData)))"

text \<open>An error of one group's members is only logged.\<close>

fun sync_members_of :: "('t, 'n) group_env \<Rightarrow> string list \<Rightarrow> ('t, 'n) group_act" where
  "sync_members_of E [] s = Some (None, s)"
| "sync_members_of E (groupID # rest) s =
     (case SyncAllGroupMember E groupID s of None \<Rightarrow> None | Some (_, s1) \<Rightarrow> sync_members_of E rest s1)"

definition SyncAllJoinedGroupsAndMembers :: "('t, 'n) group_env \<Rightarrow> ('t, 'n) group_act" where
  "SyncAllJoinedGroupsAndMembers E =
     then_act (syncAllJoinedGroups E)
       (with_res (return_op (on_gdb (GetJoinedGroupListDB (gx_groups E)))) (\<lambda>groups.
          sync_members_of E (gx_order E (map gr_GroupID groups))))"

text \<open>The members of groups that are not stored are deleted; errors are only logged.\<close>

definition DeleteGroupAndMemberInfo :: "('t, 'n) group_env \<Rightarrow> ('t, 'n) group_state \<Rightarrow> ('t, 'n) group_state" where
  "DeleteGroupAndMemberInfo E s =
     (case on_gdb (GetGroupMemberAllGroupIDs (gx_members E)) s of
        (Inl e, s1) \<Rightarrow> s1
      | (Inr memberGroupIDs, s1) \<Rightarrow>
          (if memberGroupIDs = [] then s1
           else case on_gdb (GetJoinedGroupListDB (gx_groups E)) s1 of
                  (Inl e, s2) \<Rightarrow> s2
                | (Inr groups, s2) \<Rightarrow>
                    fold (\<lambda>groupID s. snd (on_gdb (DeleteGroupAllMembers (gx_members E) groupID) s))
                      (gx_range_ids E (filter (\<lambda>i. i \<notin> set (map gr_GroupID groups)) (remdups memberGroupIDs))) s2))"

section \<open>Requests\<close>

definition zero_request :: LocalGroupRequest where
  "zero_request = \<lparr>grq_GroupID = [], grq_GroupName = [], grq_Notification = [], grq_Introduction = [], grq_GroupFaceURL = [],
     grq_CreateTime = 0, grq_Status = 0, grq_CreatorUserID = [], grq_GroupType = 0, grq_OwnerUserID = [], grq_MemberCount = 0,
     grq_UserID = [], grq_Nickname = [], grq_UserFaceURL = [], grq_HandleResult = 0, grq_ReqMsg = [], grq_HandledMsg = [],
     grq_ReqTime = 0, grq_HandleUserID = [], grq_HandledTime = 0, grq_Ex = [], grq_AttachedInfo = [], grq_JoinSource = 0,
     grq_InviterUserID = []\<rparr>"

definition SyncAllSelfGroupApplication :: "('t, 'n) group_env \<Rightarrow> ('t, 'n) group_act" where
  "SyncAllSelfGroupApplication E =
     with_res (GetServerSelfGroupApplication E) (\<lambda>requests.
     with_res (return_op (on_gdb (GetSendGroupApplication (gx_requests E)))) (\<lambda>localData.
       done_act (Sync (=) zero_request (gx_range_requests E) (groupRequestSyncer E)
         (Batch ServerGroupRequestToLocalGroupRequest requests) localData None [])))"

definition SyncSelfGroupApplications :: "('t, 'n) group_env \<Rightarrow> string list \<Rightarrow> ('t, 'n) group_act" where
  "SyncSelfGroupApplications E groupIDs = SyncAllSelfGroupApplication E"

definition SyncAllAdminGroupApplication :: "('t, 'n) group_env \<Rightarrow> ('t, 'n) group_act" where
  "SyncAllAdminGroupApplication E =
     with_res (GetServerAdminGroupApplicationList E) (\<lambda>requests.
     with_res (return_op (on_gdb (GetAdminGroupApplication (gx_adminRequests E)))) (\<lambda>localData.
       done_act (Sync (=) zero_request (gx_range_requests E) (groupAdminRequestSyncer E)
         (Batch ServerGroupRequestToLocalAdminGroupRequest requests) localData None [])))"

definition SyncAdminGroupApplications :: "('t, 'n) group_env \<Rightarrow> string list \<Rightarrow> ('t, 'n) group_act" where
  "SyncAdminGroupApplications E groupIDs = SyncAllAdminGroupApplication E"

end
