(* ===== verification/GroupSdk.thy ===== *)
theory GroupSdk
  imports GroupSync
begin

text \<open>
  \<^verbatim>\<open>internal/group/sdk.go\<close> and \<^verbatim>\<open>notification.go\<close>: what the application asks for, and what the server tells. The two keyword
  searches build SQL text and are not modelled.
\<close>

section \<open>Requests of the application\<close>

definition CreateGroupRouter :: string where "CreateGroupRouter = ''/group/create_group''"
definition JoinGroupRouter :: string where "JoinGroupRouter = ''/group/join_group''"
definition QuitGroupRouter :: string where "QuitGroupRouter = ''/group/quit_group''"
definition DismissGroupRouter :: string where "DismissGroupRouter = ''/group/dismiss_group''"
definition MuteGroupRouter :: string where "MuteGroupRouter = ''/group/mute_group''"
definition CancelMuteGroupRouter :: string where "CancelMuteGroupRouter = ''/group/cancel_mute_group''"
definition MuteGroupMemberRouter :: string where "MuteGroupMemberRouter = ''/group/mute_group_member''"
definition CancelMuteGroupMemberRouter :: string where "CancelMuteGroupMemberRouter = ''/group/cancel_mute_group_member''"
definition SetGroupMemberInfoRouter :: string where "SetGroupMemberInfoRouter = ''/group/set_group_member_info''"
definition SetGroupInfoRouter :: string where "SetGroupInfoRouter = ''/group/set_group_info''"
definition KickGroupMemberRouter :: string where "KickGroupMemberRouter = ''/group/kick_group''"
definition TransferGroupRouter :: string where "TransferGroupRouter = ''/group/transfer_group''"
definition InviteUserToGroupRouter :: string where "InviteUserToGroupRouter = ''/group/invite_user_to_group''"
definition AcceptGroupApplicationRouter :: string where "AcceptGroupApplicationRouter = ''/group/group_application_response''"

definition GroupResponseAgree :: int where "GroupResponseAgree = 1"
definition GroupResponseRefuse :: int where "GroupResponseRefuse = -1"

text \<open>The messages of the protocol, as far as the SDK fills them in.\<close>

record SetGroupMemberInfoMsg =
  sgm_GroupID :: string
  sgm_UserID :: string
  sgm_Nickname :: "string option"
  sgm_RoleLevel :: "int option"

record GroupInfoForSet =
  gis_GroupID :: string
  gis_NeedVerification :: "int option"
  gis_LookMemberInfo :: "int option"
  gis_ApplyMemberFriend :: "int option"

record CreateGroupReq =
  cgr_OwnerUserID :: string
  cgr_GroupInfo :: GroupInfo
  cgr_MemberUserIDs :: "string list"
  cgr_AdminUserIDs :: "string list"

datatype group_post =
    JoinGroupReq string string int string string
  | GroupIDReq string
  | MuteGroupMemberReq string string "32 word"
  | GroupMemberReq string string
  | SetGroupMemberInfoReq "SetGroupMemberInfoMsg list"
  | SetGroupInfoReq GroupInfoForSet
  | KickGroupMemberReq string "string list" string
  | TransferGroupOwnerReq string string string
  | InviteUserToGroupReq string string "string list"
  | GroupApplicationResponseReq string string string int

record ('t, 'n) group_api =
  gp_post_io :: "('n, group_post, unit) api_io"
  gp_create_io :: "('n, CreateGroupReq, GroupInfo option) api_io"

definition post_group :: "('t, 'n) group_api \<Rightarrow> string \<Rightarrow> group_post \<Rightarrow> ('t, 'n) group_state action" where
  "post_group A router req s =
     (case on_gnet (ApiPost (gp_post_io A) router req) s of (Inl e, s1) \<Rightarrow> (Some e, s1) | (Inr _, s1) \<Rightarrow> (None, s1))"

text \<open>\<^verbatim>\<open>req.GroupInfo\<close> is there; a reply without a group makes the client panic.\<close>

definition CreateGroup ::
  "('t, 'n) group_env \<Rightarrow> ('t, 'n) group_api \<Rightarrow> CreateGroupReq \<Rightarrow> (('t, 'n) group_state, GroupInfo) upload_op" where
  "CreateGroup E A req s =
     (let req1 = (if cgr_OwnerUserID req = [] then req\<lparr>cgr_OwnerUserID := gx_loginUserID E\<rparr> else req) in
      if gi_GroupType (cgr_GroupInfo req1) \<noteq> WorkingGroup then Some (Inl ErrGroupType, s)
      else case on_gnet (CallApi None (gp_create_io A) CreateGroupRouter
                  (req1\<lparr>cgr_GroupInfo := (cgr_GroupInfo req1)\<lparr>gi_CreatorUserID := gx_loginUserID E\<rparr>\<rparr>)) s of
             (Inl e, s1) \<Rightarrow> Some (Inl e, s1)
           | (Inr None, s1) \<Rightarrow> None
           | (Inr (Some g), s1) \<Rightarrow>
               map_option (map_prod (\<lambda>e. case e of Some e' \<Rightarrow> Inl e' | None \<Rightarrow> Inr g) id)
                 (then_act (done_act (SyncGroups E [gi_GroupID g])) (SyncAllGroupMember E (gi_GroupID g)) s1))"

definition JoinGroup ::
  "('t, 'n) group_env \<Rightarrow> ('t, 'n) group_api \<Rightarrow> string \<Rightarrow> string \<Rightarrow> int \<Rightarrow> string \<Rightarrow> ('t, 'n) group_act" where
  "JoinGroup E A groupID reqMsg joinSource ex =
     then_act (done_act (post_group A JoinGroupRouter (JoinGroupReq groupID reqMsg joinSource (gx_loginUserID E) ex)))
       (SyncSelfGroupApplications E [groupID])"

definition QuitGroup :: "('t, 'n) group_env \<Rightarrow> ('t, 'n) group_api \<Rightarrow> string \<Rightarrow> ('t, 'n) group_state action" where
  "QuitGroup E A groupID =
     and_then (post_group A QuitGroupRouter (GroupIDReq groupID))
       (and_then (on_gdb (DeleteGroupAllMembers (gx_members E) groupID)) (deleteGroup E groupID))"

definition DismissGroup :: "('t, 'n) group_env \<Rightarrow> ('t, 'n) group_api \<Rightarrow> string \<Rightarrow> ('t, 'n) group_state action" where
  "DismissGroup E A groupID =
     and_then (post_group A DismissGroupRouter (GroupIDReq groupID))
       (and_then (deleteGroup E groupID) (on_gdb (DeleteGroupAllMembers (gx_members E) groupID)))"

definition ChangeGroupMute :: "('t, 'n) group_env \<Rightarrow> ('t, 'n) group_api \<Rightarrow> string \<Rightarrow> bool \<Rightarrow> ('t, 'n) group_state action" where
  "ChangeGroupMute E A groupID isMute =
     and_then (post_group A (if isMute then MuteGroupRouter else CancelMuteGroupRouter) (GroupIDReq groupID))
       (SyncGroups E [groupID])"

definition ChangeGroupMemberMute ::
  "('t, 'n) group_env \<Rightarrow> ('t, 'n) group_api \<Rightarrow> string \<Rightarrow> string \<Rightarrow> int \<Rightarrow> ('t, 'n) group_state action" where
  "ChangeGroupMemberMute E A groupID userID mutedSeconds =
     and_then (if mutedSeconds = 0 then post_group A CancelMuteGroupMemberRouter (GroupMemberReq groupID userID)
               else post_group A MuteGroupMemberRouter (MuteGroupMemberReq groupID userID (word_of_int mutedSeconds)))
       (and_then (SyncGroups E [groupID]) (SyncGroupMembers E groupID [userID]))"

definition SetGroupMemberInfo :: "('t, 'n) group_env \<Rightarrow> ('t, 'n) group_api \<Rightarrow> SetGroupMemberInfoMsg \<Rightarrow> ('t, 'n) group_state action" where
  "SetGroupMemberInfo E A info =
     and_then (post_group A SetGroupMemberInfoRouter (SetGroupMemberInfoReq [info]))
       (SyncGroupMembers E (sgm_GroupID info) [sgm_UserID info])"

definition SetGroupMemberRoleLevel ::
  "('t, 'n) group_env \<Rightarrow> ('t, 'n) group_api \<Rightarrow> string \<Rightarrow> string \<Rightarrow> int \<Rightarrow> ('t, 'n) group_state action" where
  "SetGroupMemberRoleLevel E A groupID userID roleLevel = SetGroupMemberInfo E A
     \<lparr>sgm_GroupID = groupID, sgm_UserID = userID, sgm_Nickname = None, sgm_RoleLevel = Some (i32 roleLevel)\<rparr>"

definition SetGroupMemberNickname ::
  "('t, 'n) group_env \<Rightarrow> ('t, 'n) group_api \<Rightarrow> string \<Rightarrow> string \<Rightarrow> string \<Rightarrow> ('t, 'n) group_state action" where
  "SetGroupMemberNickname E A groupID userID nickname = SetGroupMemberInfo E A
     \<lparr>sgm_GroupID = groupID, sgm_UserID = userID, sgm_Nickname = Some nickname, sgm_RoleLevel = None\<rparr>"

definition SetGroupInfo :: "('t, 'n) group_env \<Rightarrow> ('t, 'n) group_api \<Rightarrow> GroupInfoForSet \<Rightarrow> ('t, 'n) group_state action" where
  "SetGroupInfo E A info =
     and_then (post_group A SetGroupInfoRouter (SetGroupInfoReq info)) (SyncGroups E [gis_GroupID info])"

definition SetGroupVerification :: "('t, 'n) group_env \<Rightarrow> ('t, 'n) group_api \<Rightarrow> string \<Rightarrow> int \<Rightarrow> ('t, 'n) group_state action" where
  "SetGroupVerification E A groupID verification = SetGroupInfo E A
     \<lparr>gis_GroupID = groupID, gis_NeedVerification = Some verification, gis_LookMemberInfo = None, gis_ApplyMemberFriend = None\<rparr>"

definition SetGroupLookMemberInfo :: "('t, 'n) group_env \<Rightarrow> ('t, 'n) group_api \<Rightarrow> string \<Rightarrow> int \<Rightarrow> ('t, 'n) group_state action" where
  "SetGroupLookMemberInfo E A groupID r = SetGroupInfo E A
     \<lparr>gis_GroupID = groupID, gis_NeedVerification = None, gis_LookMemberInfo = Some r, gis_ApplyMemberFriend = None\<rparr>"

definition SetGroupApplyMemberFriend :: "('t, 'n) group_env \<Rightarrow> ('t, 'n) group_api \<Rightarrow> string \<Rightarrow> int \<Rightarrow> ('t, 'n) group_state action" where
  "SetGroupApplyMemberFriend E A groupID r = SetGroupInfo E A
     \<lparr>gis_GroupID = groupID, gis_NeedVerification = None, gis_LookMemberInfo = None, gis_ApplyMemberFriend = Some r\<rparr>"

definition KickGroupMember ::
  "('t, 'n) group_env \<Rightarrow> ('t, 'n) group_api \<Rightarrow> string \<Rightarrow> string \<Rightarrow> string list \<Rightarrow> ('t, 'n) group_state action" where
  "KickGroupMember E A groupID reason userIDList =
     and_then (post_group A KickGroupMemberRouter (KickGroupMemberReq groupID userIDList reason))
       (SyncGroupMembers E groupID userIDList)"

definition TransferGroupOwner ::
  "('t, 'n) group_env \<Rightarrow> ('t, 'n) group_api \<Rightarrow> string \<Rightarrow> string \<Rightarrow> ('t, 'n) group_state action" where
  "TransferGroupOwner E A groupID newOwnerUserID s =
     get_then (on_gdb (GetGroupMemberOwner (gx_members E) groupID) s) (\<lambda>oldOwner.
       and_then (post_group A TransferGroupRouter (TransferGroupOwnerReq groupID (gx_loginUserID E) newOwnerUserID))
         (and_then (SyncGroups E [groupID]) (SyncGroupMembers E groupID [newOwnerUserID, gm_UserID oldOwner])))"

definition InviteUserToGroup ::
  "('t, 'n) group_env \<Rightarrow> ('t, 'n) group_api \<Rightarrow> string \<Rightarrow> string \<Rightarrow> string list \<Rightarrow> ('t, 'n) group_state action" where
  "InviteUserToGroup E A groupID reason userIDList =
     and_then (post_group A InviteUserToGroupRouter (InviteUserToGroupReq groupID reason userIDList))
       (and_then (SyncGroups E [groupID]) (SyncGroupMembers E groupID userIDList))"

definition HandlerGroupApplication :: "('t, 'n) group_api \<Rightarrow> string \<Rightarrow> string \<Rightarrow> string \<Rightarrow> int \<Rightarrow> ('t, 'n) group_state action" where
  "HandlerGroupApplication A groupID fromUserID handleMsg result =
     post_group A AcceptGroupApplicationRouter (GroupApplicationResponseReq groupID fromUserID handleMsg result)"

definition AcceptGroupApplication :: "('t, 'n) group_api \<Rightarrow> string \<Rightarrow> string \<Rightarrow> string \<Rightarrow> ('t, 'n) group_state action" where
  "AcceptGroupApplication A groupID fromUserID handleMsg = HandlerGroupApplication A groupID fromUserID handleMsg GroupResponseAgree"

definition RefuseGroupApplication :: "('t, 'n) group_api \<Rightarrow> string \<Rightarrow> string \<Rightarrow> string \<Rightarrow> ('t, 'n) group_state action" where
  "RefuseGroupApplication A groupID fromUserID handleMsg = HandlerGroupApplication A groupID fromUserID handleMsg GroupResponseRefuse"

section \<open>Questions of the application\<close>

definition GetJoinedGroupList :: "('t, 'n) group_env \<Rightarrow> ('t, 'n) group_state \<Rightarrow> (go_error + LocalGroup list) \<times> ('t, 'n) group_state" where
  "GetJoinedGroupList E = on_gdb (GetJoinedGroupListDB (gx_groups E))"

definition GetGroupMemberList ::
  "('t, 'n) group_env \<Rightarrow> string \<Rightarrow> int \<Rightarrow> nat \<Rightarrow> int \<Rightarrow> ('t, 'n) group_state \<Rightarrow> (go_error + LocalGroupMember list) \<times> ('t, 'n) group_state" where
  "GetGroupMemberList E groupID flt offset cnt = on_gdb (GetGroupMemberListSplit (gx_members E) groupID flt offset cnt)"

definition GetGroupMemberOwnerAndAdmin ::
  "('t, 'n) group_env \<Rightarrow> string \<Rightarrow> ('t, 'n) group_state \<Rightarrow> (go_error + LocalGroupMember list) \<times> ('t, 'n) group_state" where
  "GetGroupMemberOwnerAndAdmin E groupID = on_gdb (GetGroupMemberOwnerAndAdminDB (gx_members E) groupID)"

text \<open>Without an end the present is the end; \<open>now\<close> reads the clock in milliseconds.\<close>

definition GetGroupMemberListByJoinTimeFilter ::
  "('t, 'n) group_env \<Rightarrow> ('n \<Rightarrow> int \<times> 'n) \<Rightarrow> string \<Rightarrow> nat \<Rightarrow> int \<Rightarrow> int \<Rightarrow> int \<Rightarrow> string list \<Rightarrow> ('t, 'n) group_state \<Rightarrow>
   (go_error + LocalGroupMember list) \<times> ('t, 'n) group_state" where
  "GetGroupMemberListByJoinTimeFilter E now groupID offset cnt joinTimeBegin joinTimeEnd userIDs s =
     (case (if joinTimeEnd = 0 then on_gnet now s else (joinTimeEnd, s)) of (end_time, s1) \<Rightarrow>
        on_gdb (GetGroupMemberListSplitByJoinTimeFilter (gx_members E) groupID offset cnt joinTimeBegin end_time userIDs) s1)"

definition GetSpecifiedGroupMembersInfo ::
  "('t, 'n) group_env \<Rightarrow> string \<Rightarrow> string list \<Rightarrow> ('t, 'n) group_state \<Rightarrow> (go_error + LocalGroupMember list) \<times> ('t, 'n) group_state" where
  "GetSpecifiedGroupMembersInfo E groupID userIDList = on_gdb (GetGroupSomeMemberInfo (gx_members E) groupID userIDList)"

definition GetGroupApplicationListAsRecipient ::
  "('t, 'n) group_env \<Rightarrow> ('t, 'n) group_state \<Rightarrow> (go_error + LocalAdminGroupRequest list) \<times> ('t, 'n) group_state" where
  "GetGroupApplicationListAsRecipient E = on_gdb (GetAdminGroupApplication (gx_adminRequests E))"

definition GetGroupApplicationListAsApplicant ::
  "('t, 'n) group_env \<Rightarrow> ('t, 'n) group_state \<Rightarrow> (go_error + LocalGroupRequest list) \<times> ('t, 'n) group_state" where
  "GetGroupApplicationListAsApplicant E = on_gdb (GetSendGroupApplication (gx_requests E))"

definition IsJoinGroup :: "('t, 'n) group_env \<Rightarrow> string \<Rightarrow> ('t, 'n) group_state \<Rightarrow> (go_error + bool) \<times> ('t, 'n) group_state" where
  "IsJoinGroup E groupID s =
     (case on_gdb (GetJoinedGroupListDB (gx_groups E)) s of
        (Inl e, s1) \<Rightarrow> (Inl e, s1) | (Inr groups, s1) \<Rightarrow> (Inr (groupID \<in> gr_GroupID ` set groups), s1))"

end
