(* ===== verification/GroupNotify.thy ===== *)
theory GroupNotify
  imports GroupSdk
begin

text \<open>
  \<^verbatim>\<open>internal/group/notification.go\<close>: what a notification of the server makes the client do.
\<close>

definition GroupCreatedNotification :: int where "GroupCreatedNotification = 1501"
definition GroupInfoSetNotification :: int where "GroupInfoSetNotification = 1502"
definition JoinGroupApplicationNotification :: int where "JoinGroupApplicationNotification = 1503"
definition MemberQuitNotification :: int where "MemberQuitNotification = 1504"
definition GroupApplicationAcceptedNotification :: int where "GroupApplicationAcceptedNotification = 1505"
definition GroupApplicationRejectedNotification :: int where "GroupApplicationRejectedNotification = 1506"
definition GroupOwnerTransferredNotification :: int where "GroupOwnerTransferredNotification = 1507"
definition MemberKickedNotification :: int where "MemberKickedNotification = 1508"
definition MemberInvitedNotification :: int where "MemberInvitedNotification = 1509"
definition MemberEnterNotification :: int where "MemberEnterNotification = 1510"
definition GroupDismissedNotification :: int where "GroupDismissedNotification = 1511"
definition GroupMemberMutedNotification :: int where "GroupMemberMutedNotification = 1512"
definition GroupMemberCancelMutedNotification :: int where "GroupMemberCancelMutedNotification = 1513"
definition GroupMutedNotification :: int where "GroupMutedNotification = 1514"
definition GroupCancelMutedNotification :: int where "GroupCancelMutedNotification = 1515"
definition GroupMemberInfoSetNotification :: int where "GroupMemberInfoSetNotification = 1516"
definition GroupMemberSetToAdminNotification :: int where "GroupMemberSetToAdminNotification = 1517"
definition GroupMemberSetToOrdinaryUserNotification :: int where "GroupMemberSetToOrdinaryUserNotification = 1518"
definition GroupInfoSetAnnouncementNotification :: int where "GroupInfoSetAnnouncementNotification = 1519"
definition GroupInfoSetNameNotification :: int where "GroupInfoSetNameNotification = 1520"

lemmas group_notifications = GroupCreatedNotification_def GroupInfoSetNotification_def JoinGroupApplicationNotification_def
  MemberQuitNotification_def GroupApplicationAcceptedNotification_def GroupApplicationRejectedNotification_def
  GroupOwnerTransferredNotification_def MemberKickedNotification_def MemberInvitedNotification_def
  MemberEnterNotification_def GroupDismissedNotification_def GroupMemberMutedNotification_def
  GroupMemberCancelMutedNotification_def GroupMutedNotification_def GroupCancelMutedNotification_def
  GroupMemberInfoSetNotification_def GroupMemberSetToAdminNotification_def GroupMemberSetToOrdinaryUserNotification_def
  GroupInfoSetAnnouncementNotification_def GroupInfoSetNameNotification_def

text \<open>
  The details of all notifications in one record; which of them the details of one type hold is decided by the decoder
  \<open>tips\<close>, which takes the type. A missing message is \<open>None\<close>; reading a field of it panics. The users of a list are
  given by their identifiers.
\<close>

record group_tips =
  gt_Group :: "GroupInfo option"
  gt_User :: "string option"
  gt_Users :: "string list"
  gt_ReceiverAs :: int

type_synonym tips_decoder = "int \<Rightarrow> string \<Rightarrow> go_error + group_tips"

definition on_group :: "group_tips \<Rightarrow> (string \<Rightarrow> ('t, 'n) group_act) \<Rightarrow> ('t, 'n) group_act" where
  "on_group d k = (case gt_Group d of None \<Rightarrow> (\<lambda>s. None) | Some g \<Rightarrow> k (gi_GroupID g))"

definition on_user :: "group_tips \<Rightarrow> (string \<Rightarrow> ('t, 'n) group_act) \<Rightarrow> ('t, 'n) group_act" where
  "on_user d k = (case gt_User d of None \<Rightarrow> (\<lambda>s. None) | Some u \<Rightarrow> k u)"

definition sync_groups_act :: "('t, 'n) group_env \<Rightarrow> string list \<Rightarrow> ('t, 'n) group_act" where
  "sync_groups_act E groupIDs = done_act (SyncGroups E groupIDs)"

definition sync_members_act :: "('t, 'n) group_env \<Rightarrow> string \<Rightarrow> string list \<Rightarrow> ('t, 'n) group_act" where
  "sync_members_act E groupID userIDs = done_act (SyncGroupMembers E groupID userIDs)"

definition group_and_members :: "('t, 'n) group_env \<Rightarrow> string \<Rightarrow> ('t, 'n) group_act" where
  "group_and_members E groupID = then_act (sync_groups_act E [groupID]) (SyncAllGroupMember E groupID)"

definition application_answered :: "('t, 'n) group_env \<Rightarrow> string \<Rightarrow> group_tips \<Rightarrow> ('t, 'n) group_act" where
  "application_answered E name d =
     (if gt_ReceiverAs d = 0 then SyncAllSelfGroupApplication E
      else if gt_ReceiverAs d = 1 then on_group d (\<lambda>groupID. SyncAdminGroupApplications E [groupID])
      else (\<lambda>s. Some (Some (GoError (name @ '' ReceiverAs unknown '' @ decimal (gt_ReceiverAs d))), s)))"

text \<open>The login user has left the group: its members and then the group are deleted, and the listener is told of all.\<close>

definition left_group :: "('t, 'n) group_env \<Rightarrow> bool \<Rightarrow> string \<Rightarrow> ('t, 'n) group_state action" where
  "left_group E kicked groupID s =
     get_then (on_gdb (GetGroupMemberListSplit (gx_members E) groupID 0 0 999999) s) (\<lambda>members s1.
     act_then (on_gdb (DeleteGroupAllMembers (gx_members E) groupID) s1) (\<lambda>s2.
     get_then (on_gdb (GetGroupInfoByGroupID (gx_groups E) groupID) (fold (\<lambda>m. tell (OnGroupMemberDeleted m)) members s2)) (\<lambda>g s3.
     act_then (on_gdb (DeleteGroup (gx_groups E) groupID) s3) (\<lambda>s4.
       let g' = g\<lparr>gr_MemberCount := 0\<rparr>; s5 = tell (OnGroupInfoChanged g') s4
       in (None, if kicked then tell (OnJoinedGroupDeleted g') s5 else s5)))))"

definition dismissed_group :: "('t, 'n) group_env \<Rightarrow> GroupInfo \<Rightarrow> ('t, 'n) group_act" where
  "dismissed_group E g s =
     then_act (done_act (and_then (on_gdb (DeleteGroupAllMembers (gx_members E) (gi_GroupID g)))
                                  (on_gdb (DeleteGroup (gx_groups E) (gi_GroupID g)))))
       (SyncAllGroupMember E (gi_GroupID g)) (tell (OnGroupDismissedInfo g) s)"

text \<open>The notification with its details.\<close>

definition notified :: "('t, 'n) group_env \<Rightarrow> int \<Rightarrow> group_tips \<Rightarrow> ('t, 'n) group_act" where
  "notified E contentType d =
     (if contentType = GroupCreatedNotification then on_group d (group_and_members E)
      else if contentType \<in> {GroupInfoSetNotification, GroupInfoSetAnnouncementNotification, GroupInfoSetNameNotification}
      then on_group d (\<lambda>groupID. sync_groups_act E [groupID])
      else if contentType = JoinGroupApplicationNotification
      then on_user d (\<lambda>u. on_group d (\<lambda>groupID.
             if u = gx_loginUserID E then SyncSelfGroupApplications E [groupID] else SyncAdminGroupApplications E [groupID]))
      else if contentType = GroupApplicationAcceptedNotification then application_answered E ''GroupApplicationAcceptedNotification'' d
      else if contentType = GroupApplicationRejectedNotification then application_answered E ''GroupApplicationRejectedNotification'' d
      else if contentType = GroupOwnerTransferredNotification then on_group d (group_and_members E)
      else if contentType = MemberKickedNotification
      then on_group d (\<lambda>groupID. if gx_loginUserID E \<in> set (gt_Users d) then done_act (left_group E True groupID)
                                 else sync_members_act E groupID (gt_Users d))
      else if contentType = MemberQuitNotification
      then on_user d (\<lambda>u. on_group d (\<lambda>groupID. if u = gx_loginUserID E then done_act (left_group E False groupID)
                                               else sync_members_act E groupID [u]))
      else if contentType = MemberInvitedNotification
      then on_group d (\<lambda>groupID. if gx_loginUserID E \<in> set (gt_Users d) then group_and_members E groupID
                                 else then_act (sync_groups_act E [groupID]) (sync_members_act E groupID (gt_Users d)))
      else if contentType = MemberEnterNotification
      then on_user d (\<lambda>u. on_group d (\<lambda>groupID. if u = gx_loginUserID E then group_and_members E groupID
                                               else sync_members_act E groupID [u]))
      else if contentType = GroupDismissedNotification
      then (case gt_Group d of None \<Rightarrow> (\<lambda>s. None) | Some g \<Rightarrow> dismissed_group E g)
      else if contentType \<in> {GroupMemberMutedNotification, GroupMemberCancelMutedNotification, GroupMemberInfoSetNotification,
                              GroupMemberSetToAdminNotification, GroupMemberSetToOrdinaryUserNotification}
      then on_group d (\<lambda>groupID. on_user d (\<lambda>u. sync_members_act E groupID [u]))
      else (\<lambda>s. Some (Some (GoError (''unknown tips type: '' @ decimal contentType)), s)))"

text \<open>The notifications of a muted group name the group in the message itself.\<close>

definition doNotification ::
  "('t, 'n) group_env \<Rightarrow> tips_decoder \<Rightarrow> int \<Rightarrow> string \<Rightarrow> string \<Rightarrow> ('t, 'n) group_act" where
  "doNotification E tips contentType groupID content s =
     (if contentType = GroupMutedNotification \<or> contentType = GroupCancelMutedNotification
      then sync_groups_act E [groupID] s
      else if contentType < GroupCreatedNotification \<or> GroupInfoSetNameNotification < contentType
      then Some (Some (GoError (''unknown tips type: '' @ decimal contentType)), s)
      else case tips contentType content of Inl e \<Rightarrow> Some (Some e, s) | Inr d \<Rightarrow> notified E contentType d s)"

end
