(* ===== verification/GroupProps.thy ===== *)
theory GroupProps
  imports GroupNotify FriendSync ConvSyncProps
begin

text \<open>
  What the group operations make of the tables. The locale \<open>group_tables\<close> says what they rely on: tables that do what gorm
  documents, of which each leaves the other alone.
\<close>

section \<open>The tables\<close>

locale group_tables =
  fixes E :: "('t, 'n) group_env"
    and group_rows :: "'t \<Rightarrow> LocalGroup list"
    and member_rows :: "'t \<Rightarrow> LocalGroupMember list"
  assumes groups_table: "gorm_table (gx_groups E) group_rows gr_GroupID"
    and members_table: "gorm_table (gx_members E) member_rows gm_key"
    and members_keep_groups: "keeps (gx_members E) group_rows"
    and groups_keep_members: "keeps (gx_groups E) member_rows"
begin

lemma group_ops:
  "sy_insert (groupSyncer E') = (\<lambda>value. on_gdb (InsertGroup (gx_groups E') value))"
  "sy_delete (groupSyncer E') = (\<lambda>value. and_then (on_gdb (DeleteGroupAllMembers (gx_members E') (gr_GroupID value)))
                             (on_gdb (DeleteGroup (gx_groups E') (gr_GroupID value))))"
  "sy_update (groupSyncer E') = (\<lambda>server loc. on_gdb (UpdateGroup (gx_groups E') server))"
  "sy_uuid (groupSyncer E') = gr_GroupID" "sy_notice (groupSyncer E') = Some (group_notice E')" "sy_equal (groupSyncer E') = None"
  by (simp_all add: groupSyncer_def new_syncer_def)

lemma told [simp]: "go_db (tell ev s) = go_db s" "go_net (tell ev s) = go_net s"
  by (simp_all add: tell_def)

lemma renamed [simp]: "go_db (rename_conversation g s) = go_db s" "go_db (rename_sender m s) = go_db s"
  by (simp_all add: rename_conversation_def rename_sender_def on_gch_def split: prod.split)

lemma delete_members_rows:
  assumes "on_gdb (DeleteGroupAllMembers (gx_members E) groupID) s = (e, s')"
  shows "group_rows (go_db s') = group_rows (go_db s)"
    and "member_rows (go_db s') = (if e = None then filter (\<lambda>m. gm_GroupID m \<noteq> groupID) (member_rows (go_db s)) else member_rows (go_db s))"
    and "go_events s' = go_events s"
proof -
  obtain t where d: "gorm_delete (gx_members E) (\<lambda>r. gm_GroupID r = groupID) (go_db s) = (e, t)" and s': "s' = s\<lparr>go_db := t\<rparr>"
    using assms by (auto simp: on_gdb_def DeleteGroupAllMembers_def split: prod.splits)
  show "group_rows (go_db s') = group_rows (go_db s)" using keepsD(5) [OF members_keep_groups d] s' by simp
  show "member_rows (go_db s') = (if e = None then filter (\<lambda>m. gm_GroupID m \<noteq> groupID) (member_rows (go_db s)) else member_rows (go_db s))"
    using d s' gorm_table.delete_ok [OF members_table, of _ "go_db s" t] gorm_table.delete_err [OF members_table, of _ "go_db s" _ t]
    by (cases e) auto
  show "go_events s' = go_events s" using s' by simp
qed

lemma delete_group_rows:
  assumes "on_gdb (DeleteGroup (gx_groups E) groupID) s = (e, s')"
  shows "member_rows (go_db s') = member_rows (go_db s)"
    and "group_rows (go_db s') = (if e = None then filter (\<lambda>g. gr_GroupID g \<noteq> groupID) (group_rows (go_db s)) else group_rows (go_db s))"
    and "go_events s' = go_events s"
proof -
  obtain e' t where d: "gorm_delete_pk (gx_groups E) gr_GroupID groupID (go_db s) = (e', t)" and s': "s' = s\<lparr>go_db := t\<rparr>"
      and e: "e = None \<longleftrightarrow> e' = None"
    using assms by (auto simp: on_gdb_def DeleteGroup_def wrap_act_def wrap_err_def split: prod.splits option.splits)
  have "member_rows t = member_rows (go_db s) \<and>
      group_rows t = (if e = None then filter (\<lambda>g. gr_GroupID g \<noteq> groupID) (group_rows (go_db s)) else group_rows (go_db s))"
  proof (cases "groupID = []")
    case True
    with d e show ?thesis by (auto simp: gorm_delete_pk_def)
  next
    case False
    with d have del: "gorm_delete (gx_groups E) (\<lambda>r. gr_GroupID r = groupID) (go_db s) = (e', t)" by (simp add: gorm_delete_pk_def)
    from keepsD(5) [OF groups_keep_members del] del e gorm_table.delete_ok [OF groups_table, of _ "go_db s" t]
      gorm_table.delete_err [OF groups_table, of _ "go_db s" _ t]
    show ?thesis by (cases e') auto
  qed
  then show "member_rows (go_db s') = member_rows (go_db s)"
    and "group_rows (go_db s') = (if e = None then filter (\<lambda>g. gr_GroupID g \<noteq> groupID) (group_rows (go_db s)) else group_rows (go_db s))"
    and "go_events s' = go_events s" using s' by simp_all
qed

lemma group_notice_rows:
  assumes "group_notice E st x y s = (r, s')"
  shows "group_rows (go_db s') = group_rows (go_db s)" and "set (member_rows (go_db s')) \<subseteq> set (member_rows (go_db s))"
proof -
  obtain e s1 where d: "on_gdb (DeleteGroupAllMembers (gx_members E) (gr_GroupID x)) s = (e, s1)" by fastforce
  note rows = delete_members_rows [OF d]
  have "s' \<in> {s, tell (OnJoinedGroupDeleted y) s, tell (OnGroupDismissed x) s1, rename_conversation x (tell (OnJoinedGroupAdded x) s),
      tell (OnGroupInfoChanged x) s, rename_conversation x (tell (OnGroupInfoChanged x) s)}"
    using assms d by (auto simp: group_notice_def Let_def split: sync_state.splits if_splits)
  with rows show "group_rows (go_db s') = group_rows (go_db s)" and "set (member_rows (go_db s')) \<subseteq> set (member_rows (go_db s))"
    by (auto split: if_splits)
qed

abbreviation groups_tab :: "('t, 'n) group_state \<Rightarrow> string \<Rightarrow> LocalGroup option" where
  "groups_tab s \<equiv> rows_by_key gr_GroupID (group_rows (go_db s))"

lemma group_sync_store: "sync_store (groupSyncer E) (groups_tab :: ('t, 'n) group_state \<Rightarrow> _) (\<lambda>x y. x) (\<lambda>g. gr_GroupID g \<noteq> [])"
proof
  fix x s r s'
  assume "groups_tab s (sy_uuid (groupSyncer E) x) = None" and run: "sy_insert (groupSyncer E) x s = (r, s')"
  moreover from run obtain e where "gorm_create (gx_groups E) [x] (go_db s) = (e, go_db s')" and "r = None \<longleftrightarrow> e = None"
    by (auto simp: group_ops on_gdb_def InsertGroup_def wrap_act_def wrap_err_def split: prod.splits option.splits)
  ultimately show "groups_tab s' = (if r = None then (groups_tab s)(sy_uuid (groupSyncer E) x \<mapsto> x) else groups_tab s)"
    using gorm_table.create_by_key [OF groups_table] by (simp add: group_ops)
next
  fix x y s r s'
  assume "gr_GroupID x \<noteq> []" and same: "sy_uuid (groupSyncer E) x = sy_uuid (groupSyncer E) y"
    and stored: "groups_tab s (sy_uuid (groupSyncer E) y) = Some y" and run: "sy_update (groupSyncer E) x y s = (r, s')"
  obtain e n t where u: "gorm_updates (gx_groups E) (\<lambda>r. gr_GroupID r = gr_GroupID y) (\<lambda>_. x) (go_db s) = ((e, n), t)"
    by (metis prod.exhaust)
  then have "gorm_updates (gx_groups E) (\<lambda>r. gr_GroupID r = gr_GroupID y) (\<lambda>_. x) (go_db s) = ((e, n), go_db s')"
      and "r = None \<longleftrightarrow> n \<noteq> 0 \<and> e = None"
    using run \<open>gr_GroupID x \<noteq> []\<close> same
    by (auto simp: group_ops on_gdb_def UpdateGroup_def gorm_updates_pk_def update_result_def wrap_err_def split: if_splits option.splits)
  from gorm_table.updates_by_key [OF groups_table _ _ this] stored same
  show "groups_tab s' = (if r = None then (groups_tab s)(sy_uuid (groupSyncer E) y \<mapsto> x) else groups_tab s)"
    by (simp add: group_ops)
next
  fix y s r s'
  assume run: "sy_delete (groupSyncer E) y s = (r, s')"
  obtain e1 s1 where one: "on_gdb (DeleteGroupAllMembers (gx_members E) (gr_GroupID y)) s = (e1, s1)" by fastforce
  show "groups_tab s' = (if r = None then (groups_tab s)(sy_uuid (groupSyncer E) y := None) else groups_tab s)"
  proof (cases e1)
    case None
    with run one have two: "on_gdb (DeleteGroup (gx_groups E) (gr_GroupID y)) s1 = (r, s')" by (simp add: group_ops and_then_def)
    from delete_group_rows(2) [OF two] delete_members_rows(1) [OF one] show ?thesis by (simp add: group_ops rows_by_key_filter)
  next
    case (Some e)
    with run one have "r = Some e" "s' = s1" by (simp_all add: group_ops and_then_def)
    with delete_members_rows(1) [OF one] show ?thesis by simp
  qed
next
  fix f st x y s r s'
  assume "sy_notice (groupSyncer E) = Some f" and "f st x y s = (r, s')"
  then show "groups_tab s' = groups_tab s" using group_notice_rows(1) by (simp add: group_ops)
qed

end

lemma sync_server_others:
  "sync_server cmp_Equal zero S fn xs m s = (r, m', s') \<Longrightarrow> k \<notin> sy_uuid S ` set xs \<Longrightarrow> gget m' k = gget m k"
proof (induction xs arbitrary: m s r m' s')
  case (Cons x xs)
  have rest: "gget m' k = gget m1 k" if "sync_server cmp_Equal zero S fn xs m1 s1 = (r, m', s')" for m1 s1
    using Cons.IH [OF that] Cons.prems(2) by simp
  show ?case
    using Cons.prems by (auto simp: Let_def gget_gdel dest!: rest split: option.splits prod.splits)
qed simp

context group_tables
begin

lemma group_stepwise: "stepwise (groupSyncer E) (\<lambda>s s' :: ('t, 'n) group_state. set (member_rows (go_db s')) \<subseteq> set (member_rows (go_db s))) (\<lambda>x. True)"
proof
  fix x :: LocalGroup
  show "steps (\<lambda>s s' :: ('t, 'n) group_state. set (member_rows (go_db s')) \<subseteq> set (member_rows (go_db s))) (sy_insert (groupSyncer E) x)"
    by (auto simp: steps_def group_ops on_gdb_def InsertGroup_def wrap_act_def dest!: keepsD(3) [OF groups_keep_members] split: prod.splits)
next
  fix x y :: LocalGroup
  show "steps (\<lambda>s s' :: ('t, 'n) group_state. set (member_rows (go_db s')) \<subseteq> set (member_rows (go_db s))) (sy_update (groupSyncer E) x y)"
    by (auto simp: steps_def group_ops on_gdb_def UpdateGroup_def update_result_def gorm_updates_pk_def
        dest!: keepsD(4) [OF groups_keep_members] split: prod.splits if_splits)
next
  fix y :: LocalGroup
  have "set (member_rows (go_db s')) \<subseteq> set (member_rows (go_db s))"
    if "on_gdb (DeleteGroupAllMembers (gx_members E) k) s = (e, s')" for s s' :: "('t, 'n) group_state" and k e
    using delete_members_rows(2) [OF that] by auto
  then show "steps (\<lambda>s s' :: ('t, 'n) group_state. set (member_rows (go_db s')) \<subseteq> set (member_rows (go_db s))) (sy_delete (groupSyncer E) y)"
    by (fastforce simp: steps_def group_ops and_then_def dest: delete_group_rows(1) split: prod.splits option.splits)
next
  fix f st and x y :: LocalGroup
  assume "sy_notice (groupSyncer E) = Some f"
  then show "steps (\<lambda>s s' :: ('t, 'n) group_state. set (member_rows (go_db s')) \<subseteq> set (member_rows (go_db s))) (f st x y)"
    using group_notice_rows(2) by (auto simp: steps_def group_ops)
qed auto

lemma deleted_groups_have_no_members:
  assumes "sync_delete zero (groupSyncer E) None kvs s = (None, s')" and "(k, y) \<in> set kvs" and "m \<in> set (member_rows (go_db s'))"
  shows "gm_GroupID m \<noteq> gr_GroupID y"
  using assms
proof (induction kvs arbitrary: s)
  case (Cons kv kvs)
  obtain k0 y0 where kv: "kv = (k0, y0)" by fastforce
  obtain s1 where one: "and_then (sy_delete (groupSyncer E) y0) (onNotice (groupSyncer E) Delete zero y0 None) s = (None, s1)"
    and rest: "sync_delete zero (groupSyncer E) None kvs s1 = (None, s')"
    using Cons.prems(1) by (auto simp: kv and_then_def split: prod.splits option.splits)
  show ?case
  proof (cases "(k, y) \<in> set kvs")
    case True
    then show ?thesis using Cons.IH rest Cons.prems(3) by blast
  next
    case False
    with Cons.prems(2) kv have "y0 = y" by auto
    obtain s2 where del: "on_gdb (DeleteGroupAllMembers (gx_members E) (gr_GroupID y)) s = (None, s2)"
      and more: "\<exists>r s3. on_gdb (DeleteGroup (gx_groups E) (gr_GroupID y)) s2 = (r, s3) \<and>
        onNotice (groupSyncer E) Delete zero y None s3 = (None, s1)"
      using one \<open>y0 = y\<close> by (auto simp: group_ops and_then_def split: prod.splits option.splits)
    have "set (member_rows (go_db s1)) \<subseteq> set (member_rows (go_db s2))"
      using more stepwise.onNotice_step [OF group_stepwise] delete_group_rows(1) unfolding steps_def by (metis (no_types, lifting))
    moreover have "set (member_rows (go_db s')) \<subseteq> set (member_rows (go_db s1))"
      using rest stepwise.sync_delete_step [OF group_stepwise] unfolding steps_def by blast
    ultimately have "m \<in> set (member_rows (go_db s2))" using Cons.prems(3) by blast
    then show ?thesis using delete_members_rows(2) [OF del] by simp
  qed
qed simp

text \<open>The groups are reconciled, and what is left of the members belongs to none of the groups that went.\<close>

lemma sync_groups_rows:
  assumes found: "on_gdb (GetJoinedGroupListDB (gx_groups E)) s = (Inr localData, s1)"
    and run: "sync_groups E infos localData s1 = (r, s')"
    and infos: "distinct (map gi_GroupID infos)" "\<forall>i \<in> set infos. gi_GroupID i \<noteq> []"
    and stored: "distinct (map gr_GroupID (group_rows (go_db s)))" "\<forall>g \<in> set (group_rows (go_db s)). gr_GroupID g \<noteq> []"
    and iter: "any_order (gx_range_groups E)"
  shows "reconciled (\<lambda>_. True) (groups_tab s) (rows_by_key gr_GroupID (map ServerGroupToLocalGroup infos)) (groups_tab s') r"
    and "set (member_rows (go_db s')) \<subseteq> set (member_rows (go_db s))"
    and "r = None \<Longrightarrow> g \<in> set (group_rows (go_db s)) \<Longrightarrow> gr_GroupID g \<notin> gi_GroupID ` set infos \<Longrightarrow>
      m \<in> set (member_rows (go_db s')) \<Longrightarrow> gm_GroupID m \<noteq> gr_GroupID g"
proof -
  obtain t where find: "gorm_find (gx_groups E) (\<lambda>r. True) (go_db s) = (Inr localData, t)" and s1: "s1 = s\<lparr>go_db := t\<rparr>"
    using found by (auto simp: on_gdb_def GetJoinedGroupListDB_def wrap_res_def split: prod.splits sum.splits)
  have rows1: "group_rows t = group_rows (go_db s)" by (rule gorm_table.find_rows [OF groups_table find])
  have members1: "member_rows t = member_rows (go_db s)" by (rule keepsD(1) [OF groups_keep_members find])
  have set_l: "set localData = {g \<in> set (group_rows (go_db s)). True}" using gorm_table.find_set [OF groups_table find] by simp
  have dist_l: "distinct (map gr_GroupID localData)" by (rule gorm_table.find_distinct [OF groups_table find stored(1)])
  have id: "gr_GroupID (ServerGroupToLocalGroup i) = gi_GroupID i" for i by (simp add: ServerGroupToLocalGroup_def)
  let ?server = "map ServerGroupToLocalGroup infos"
  have sync: "Sync (=) zero_group (gx_range_groups E) (groupSyncer E) ?server localData None [] s1 = (r, s')"
    using run by (simp add: sync_groups_def Batch_def)
  have "(\<forall>k. groups_tab s' k = groups_tab s1 k \<or> groups_tab s' k = sync_target (=) (groupSyncer E) (\<lambda>x y. x) ?server False (groups_tab s1) k) \<and>
        (r = None \<longrightarrow> (\<forall>k. groups_tab s' k = sync_target (=) (groupSyncer E) (\<lambda>x y. x) ?server False (groups_tab s1) k))"
  proof (rule sync_store.Sync_tab [OF group_sync_store _ _ _ _ _ iter sync])
    show "\<forall>k. groups_tab s1 k = find (\<lambda>y. sy_uuid (groupSyncer E) y = k) (rev localData)"
      using find_by_key_view [OF stored(1) dist_l set_l] by (simp add: group_ops s1 rows1)
  qed (use infos stored set_l in \<open>auto simp: notice_keeps_def group_ops id comp_def\<close>)
  moreover have "sync_target (=) (groupSyncer E) (\<lambda>x y. x) ?server False (groups_tab s1) k = rows_by_key gr_GroupID ?server k" for k
    by (simp add: sync_target_copy group_ops rows_by_key_def)
  ultimately show "reconciled (\<lambda>_. True) (groups_tab s) (rows_by_key gr_GroupID ?server) (groups_tab s') r"
    by (simp add: reconciled_def s1 rows1)
  show "set (member_rows (go_db s')) \<subseteq> set (member_rows (go_db s))"
    using sync stepwise.Sync_step [OF group_stepwise] members1 unfolding steps_def s1 by fastforce
  assume "r = None" and g: "g \<in> set (group_rows (go_db s))" "gr_GroupID g \<notin> gi_GroupID ` set infos"
    and m: "m \<in> set (member_rows (go_db s'))"
  from g set_l have "localData \<noteq> []" by auto
  with sync \<open>r = None\<close> obtain m1 s2 where
    first: "sync_server (=) zero_group (groupSyncer E) None ?server (slice_to_map (sy_uuid (groupSyncer E)) localData) s1 = (None, m1, s2)"
    and del: "sync_delete zero_group (groupSyncer E) None (gx_range_groups E m1) s2 = (None, s')"
    by (auto simp: Sync_def split: prod.splits option.splits)
  have "gget m1 (gr_GroupID g) = gget (slice_to_map (sy_uuid (groupSyncer E)) localData) (gr_GroupID g)"
    using g(2) by (intro sync_server_others [OF first]) (auto simp: group_ops id)
  then have "gget m1 (gr_GroupID g) = groups_tab s (gr_GroupID g)"
    using find_by_key_view [OF stored(1) dist_l set_l] by (simp add: gget_slice_to_map group_ops)
  moreover obtain g' where "groups_tab s (gr_GroupID g) = Some g'" "gr_GroupID g' = gr_GroupID g"
    using g(1) by (cases "groups_tab s (gr_GroupID g)") (auto simp: rows_by_key_def find_None_iff dest: find_SomeD)
  ultimately have "(gr_GroupID g, g') \<in> set (gx_range_groups E m1)" by (auto simp: iter_set [OF iter] dest: gget_in)
  from deleted_groups_have_no_members [OF del this m] \<open>gr_GroupID g' = gr_GroupID g\<close>
  show "gm_GroupID m \<noteq> gr_GroupID g" by simp
qed

end

section \<open>Leaving a group\<close>

text \<open>
  What has to hold when the login user has left a group: nothing of it is stored, and the listener has been told of each
  member, once, and of the group. After an error the group is still stored. Other groups are left alone in any case.
\<close>

definition left_spec ::
  "bool \<Rightarrow> string \<Rightarrow> LocalGroup list \<times> LocalGroupMember list \<Rightarrow> LocalGroup list \<times> LocalGroupMember list \<Rightarrow>
   group_event list \<Rightarrow> go_error option \<Rightarrow> bool" where
  "left_spec kicked groupID old new told r \<longleftrightarrow>
     filter (\<lambda>g. gr_GroupID g \<noteq> groupID) (fst new) = filter (\<lambda>g. gr_GroupID g \<noteq> groupID) (fst old) \<and>
     filter (\<lambda>m. gm_GroupID m \<noteq> groupID) (snd new) = filter (\<lambda>m. gm_GroupID m \<noteq> groupID) (snd old) \<and>
     (if r \<noteq> None then fst new = fst old
      else groupID \<notin> gr_GroupID ` set (fst new) \<and> groupID \<notin> gm_GroupID ` set (snd new) \<and>
        (\<exists>ms g. mset ms = mset (filter (\<lambda>m. gm_GroupID m = groupID) (snd old)) \<and> g \<in> set (fst old) \<and> gr_GroupID g = groupID \<and>
           told = map OnGroupMemberDeleted ms @ OnGroupInfoChanged (g\<lparr>gr_MemberCount := 0\<rparr>) #
             (if kicked then [OnJoinedGroupDeleted (g\<lparr>gr_MemberCount := 0\<rparr>)] else [])))"

context group_tables
begin

lemma tell_all [simp]: "go_db (fold (\<lambda>m. tell (ev m)) ms s) = go_db s" "go_events (fold (\<lambda>m. tell (ev m)) ms s) = go_events s @ map ev ms"
  by (induction ms arbitrary: s) (simp_all add: tell_def)

lemma list_members_rows:
  assumes "on_gdb (GetGroupMemberListSplit (gx_members E) groupID 0 0 n) s = (r, s')"
  shows "member_rows (go_db s') = member_rows (go_db s)" and "group_rows (go_db s') = group_rows (go_db s)" and "go_events s' = go_events s"
    and "r = Inr ms \<Longrightarrow> 0 < n \<Longrightarrow> int (length (member_rows (go_db s))) \<le> n \<Longrightarrow> mset ms = mset (filter (\<lambda>m. gm_GroupID m = groupID) (member_rows (go_db s)))"
proof -
  obtain r0 t where find: "gorm_find (gx_members E) (\<lambda>m. gm_GroupID m = groupID) (go_db s) = (r0, t)" and s': "s' = s\<lparr>go_db := t\<rparr>"
      and ms: "\<And>ms. r = Inr ms \<Longrightarrow> \<exists>rs. r0 = Inr rs \<and> ms = limit_rows n (sort_key by_role_then_time rs)"
    using assms by (auto simp: on_gdb_def GetGroupMemberListSplit_def GroupFilterAll_def ordered_find_def wrap_res_def split: prod.splits sum.splits)
  show "member_rows (go_db s') = member_rows (go_db s)" and "group_rows (go_db s') = group_rows (go_db s)" and "go_events s' = go_events s"
    using gorm_table.find_rows [OF members_table find] keepsD(1) [OF members_keep_groups find] by (simp_all add: s')
  assume "r = Inr ms" and n: "0 < n" "int (length (member_rows (go_db s))) \<le> n"
  then obtain rs where rs: "r0 = Inr rs" "ms = take (nat n) (sort_key by_role_then_time rs)" using ms by (auto simp: limit_rows_def)
  have "mset rs = mset (filter (\<lambda>m. gm_GroupID m = groupID) (member_rows (go_db s)))"
    using gorm_table.find_mset [OF members_table find [unfolded rs(1)]] .
  moreover from this have "length rs \<le> length (member_rows (go_db s))" by (metis length_filter_le mset_eq_length)
  ultimately show "mset ms = mset (filter (\<lambda>m. gm_GroupID m = groupID) (member_rows (go_db s)))" using n by (simp add: rs(2))
qed

lemma left_group_rows:
  assumes run: "left_group E kicked groupID s = (r, s')" and small: "length (member_rows (go_db s)) \<le> 999999"
  shows "\<exists>told. go_events s' = go_events s @ told \<and>
    left_spec kicked groupID (group_rows (go_db s), member_rows (go_db s)) (group_rows (go_db s'), member_rows (go_db s')) told r"
proof -
  obtain r1 s1 where list: "on_gdb (GetGroupMemberListSplit (gx_members E) groupID 0 0 999999) s = (r1, s1)" by fastforce
  note rows1 = list_members_rows [OF list]
  obtain r2 s2 where del: "on_gdb (DeleteGroupAllMembers (gx_members E) groupID) s1 = (r2, s2)" by fastforce
  note rows2 = delete_members_rows [OF del]
  show ?thesis
  proof (cases r1)
    case (Inl e)
    with run list have "r = Some e" "s' = s1" by (simp_all add: left_group_def)
    with rows1 show ?thesis by (simp add: left_spec_def)
  next
    case (Inr ms)
    let ?s2 = "fold (\<lambda>m. tell (OnGroupMemberDeleted m)) ms s2"
    have ms: "mset ms = mset (filter (\<lambda>m. gm_GroupID m = groupID) (member_rows (go_db s)))" using rows1(4) Inr small by simp
    show ?thesis
    proof (cases r2)
      case (Some e)
      with run list Inr del have "r = Some e" "s' = s2" by (simp_all add: left_group_def)
      with Some rows1 rows2 show ?thesis by (simp add: left_spec_def)
    next
      case None
      obtain r3 s3 where take: "on_gdb (GetGroupInfoByGroupID (gx_groups E) groupID) ?s2 = (r3, s3)" by fastforce
      then obtain r0 t where tk: "gorm_take (gx_groups E) (\<lambda>r. gr_GroupID r = groupID) (go_db s2) = (r0, t)" and s3: "s3 = ?s2\<lparr>go_db := t\<rparr>"
          and r0: "\<And>g. r3 = Inr g \<Longrightarrow> r0 = Inr g"
        by (auto simp: on_gdb_def GetGroupInfoByGroupID_def wrap_res_def split: prod.splits sum.splits)
      have rows3: "group_rows (go_db s3) = group_rows (go_db s2)" "member_rows (go_db s3) = member_rows (go_db s2)"
          "go_events s3 = go_events s2 @ map OnGroupMemberDeleted ms"
        using gorm_table.take_rows [OF groups_table tk] keepsD(2) [OF groups_keep_members tk] by (simp_all add: s3)
      show ?thesis
      proof (cases r3)
        case (Inl e)
        with run list \<open>r1 = Inr ms\<close> del None take have "r = Some e" "s' = s3" by (simp_all add: left_group_def)
        with None rows1 rows2 rows3 show ?thesis by (simp add: left_spec_def)
      next
        case (Inr g)
        from gorm_table.take_in [OF groups_table tk [unfolded r0 [OF this]]] rows2 rows1
        have g: "g \<in> set (group_rows (go_db s))" "gr_GroupID g = groupID" by simp_all
        obtain r4 s4 where del4: "on_gdb (DeleteGroup (gx_groups E) groupID) s3 = (r4, s4)" by fastforce
        note rows4 = delete_group_rows [OF del4]
        show ?thesis
        proof (cases r4)
          case (Some e)
          with run list \<open>r1 = Inr ms\<close> del None take Inr del4 have "r = Some e" "s' = s4" by (simp_all add: left_group_def)
          with Some None rows1 rows2 rows3 rows4 show ?thesis by (simp add: left_spec_def)
        next
          case gone: None
          let ?g = "g\<lparr>gr_MemberCount := 0\<rparr>"
          have "r = None" and s': "s' = (if kicked then tell (OnJoinedGroupDeleted ?g) (tell (OnGroupInfoChanged ?g) s4) else tell (OnGroupInfoChanged ?g) s4)"
            using run list \<open>r1 = Inr ms\<close> del None take Inr del4 gone by (simp_all add: left_group_def Let_def)
          have "go_events s' = go_events s @ map OnGroupMemberDeleted ms @ OnGroupInfoChanged ?g # (if kicked then [OnJoinedGroupDeleted ?g] else [])"
            using rows1 rows2 rows3 rows4 by (simp add: s' tell_def)
          moreover have "group_rows (go_db s') = filter (\<lambda>g. gr_GroupID g \<noteq> groupID) (group_rows (go_db s))"
            "member_rows (go_db s') = filter (\<lambda>m. gm_GroupID m \<noteq> groupID) (member_rows (go_db s))"
            using rows1 rows2 rows3 rows4 None gone by (simp_all add: s')
          ultimately show ?thesis using \<open>r = None\<close> ms g by (auto simp: left_spec_def image_iff)
        qed
      qed
    qed
  qed
qed

end

section \<open>The members of a group\<close>

lemma member_ops:
  "sy_insert (groupMemberSyncer E) = (\<lambda>value. on_gdb (InsertGroupMember (gx_members E) value))"
  "sy_delete (groupMemberSyncer E) = (\<lambda>value. on_gdb (DeleteGroupMember (gx_members E) (gm_GroupID value) (gm_UserID value)))"
  "sy_update (groupMemberSyncer E) = (\<lambda>server loc. on_gdb (UpdateGroupMember (gx_members E) server))"
  "sy_uuid (groupMemberSyncer E) = gm_key" "sy_notice (groupMemberSyncer E) = Some member_notice" "sy_equal (groupMemberSyncer E) = None"
  by (simp_all add: groupMemberSyncer_def new_syncer_def)

context table_syncer
begin

lemma is_store: "sync_store S (tab_of rows pk get P) upd good"
  by (rule sync_store_axioms)

end

definition good_member :: "string \<Rightarrow> LocalGroupMember \<Rightarrow> bool" where
  "good_member groupID m \<longleftrightarrow> gm_GroupID m = groupID \<and> groupID \<noteq> [] \<and> gm_UserID m \<noteq> []"

lemma gm_key_eq: "gm_key x = gm_key y \<longleftrightarrow> gm_GroupID x = gm_GroupID y \<and> gm_UserID x = gm_UserID y"
  by (auto simp: gm_key_def)

context group_tables
begin

lemma member_notice_db: "member_notice st x y s = (r, s') \<Longrightarrow> go_db s' = go_db s"
  by (auto simp: member_notice_def Let_def split: sync_state.splits if_splits)

lemma member_table_syncer:
  "table_syncer (gx_members E) member_rows gm_key (groupMemberSyncer E) (go_db :: ('t, 'n) group_state \<Rightarrow> 't)
     (\<lambda>k. fst k = groupID) (\<lambda>x y. x) (good_member groupID)"
proof (rule table_syncer.intro [OF members_table], rule table_syncer_axioms.intro)
  fix x y s r s'
  assume "good_member groupID x" and "gm_key x = gm_key y" and "sy_update (groupMemberSyncer E) x y s = (r, s')"
  then have "\<exists>e n. gorm_updates (gx_members E) (\<lambda>r. gm_key r = gm_key y) (\<lambda>_. x) (go_db s) = ((e, n), go_db s') \<and>
      (r = None \<longleftrightarrow> n \<noteq> 0 \<and> e = None)"
    by (auto simp: member_ops on_gdb_def UpdateGroupMember_def gorm_updates_pk2_def good_member_def gm_key_eq
        split: prod.splits dest: update_result_None)
  then show "(\<exists>e n. gorm_updates (gx_members E) (\<lambda>r. gm_key r = gm_key y) (\<lambda>_. x) (go_db s) = ((e, n), go_db s') \<and>
      (r = None \<longleftrightarrow> n \<noteq> 0 \<and> e = None)) \<or> r \<noteq> None \<and> go_db s' = go_db s" by blast
next
  fix f st x y s r s'
  assume "sy_notice (groupMemberSyncer E) = Some f" and "f st x y s = (r, s')"
  then show "go_db s' = go_db s" using member_notice_db by (simp add: member_ops)
qed (auto simp: member_ops on_gdb_def InsertGroupMember_def DeleteGroupMember_def good_member_def gm_key_def wrap_act_def wrap_err_def
    split: prod.splits option.splits)

lemma member_stepwise: "stepwise (groupMemberSyncer E) (\<lambda>s s' :: ('t, 'n) group_state. group_rows (go_db s') = group_rows (go_db s)) (\<lambda>x. True)"
  by (unfold_locales)
    (auto simp: steps_def member_ops on_gdb_def InsertGroupMember_def UpdateGroupMember_def DeleteGroupMember_def wrap_act_def
      update_result_def gorm_updates_pk2_def member_notice_db
      dest!: keepsD(3-5) [OF members_keep_groups] split: prod.splits if_splits)

text \<open>The members of one group are made those of the server, whatever order they have been listed in.\<close>

lemma sync_members_rows:
  assumes run: "Sync (=) zero_member (gx_range_members E) (groupMemberSyncer E) (Batch ServerGroupMemberToLocalGroupMember infos) localData None [] s = (r, s')"
    and loc: "mset localData = mset (filter (\<lambda>m. gm_GroupID m = groupID) (member_rows (go_db s)))"
    and infos: "distinct (map gfi_UserID infos)" "\<forall>i \<in> set infos. gfi_GroupID i = groupID \<and> gfi_UserID i \<noteq> []" "groupID \<noteq> []"
    and stored: "distinct (map gm_key (member_rows (go_db s)))" "\<forall>m \<in> set (member_rows (go_db s)). gm_UserID m \<noteq> []"
    and iter: "any_order (gx_range_members E)"
  shows "reconciled (\<lambda>k. fst k = groupID) (rows_by_key gm_key (member_rows (go_db s)))
      (rows_by_key gm_key (map ServerGroupMemberToLocalGroupMember infos)) (rows_by_key gm_key (member_rows (go_db s'))) r"
    and "group_rows (go_db s') = group_rows (go_db s)"
proof -
  let ?server = "map ServerGroupMemberToLocalGroupMember infos" and ?P = "\<lambda>k :: string \<times> string. fst k = groupID"
  let ?tab = "tab_of member_rows gm_key (go_db :: ('t, 'n) group_state \<Rightarrow> 't) ?P"
  have key: "gm_key (ServerGroupMemberToLocalGroupMember i) = (gfi_GroupID i, gfi_UserID i)" for i
    by (simp add: gm_key_def ServerGroupMemberToLocalGroupMember_def)
  have set_l: "set localData = {m \<in> set (member_rows (go_db s)). ?P (gm_key m)}"
    using arg_cong [OF loc, of set_mset] by (auto simp: gm_key_def)
  have "distinct (map gm_key (filter (\<lambda>m. gm_GroupID m = groupID) (member_rows (go_db s))))" using stored(1) by (rule distinct_map_filter)
  moreover have "mset (map gm_key localData) = mset (map gm_key (filter (\<lambda>m. gm_GroupID m = groupID) (member_rows (go_db s))))"
    using loc by (metis mset_map)
  ultimately have dist_l: "distinct (map gm_key localData)" by (metis mset_eq_imp_distinct_iff)
  have dist_s: "distinct (map gm_key ?server)"
  proof -
    have "map gm_key ?server = map (\<lambda>i. (groupID, gfi_UserID i)) infos" using infos(2) by (auto simp: key)
    then show ?thesis unfolding \<open>map gm_key ?server = _\<close> using infos(1) by (auto simp: distinct_map inj_on_def)
  qed
  have "(\<forall>k. ?tab s' k = ?tab s k \<or> ?tab s' k = sync_target (=) (groupMemberSyncer E) (\<lambda>x y. x) ?server False (?tab s) k) \<and>
        (r = None \<longrightarrow> (\<forall>k. ?tab s' k = sync_target (=) (groupMemberSyncer E) (\<lambda>x y. x) ?server False (?tab s) k))"
  proof (rule sync_store.Sync_tab [OF table_syncer.is_store [OF member_table_syncer] _ _ _ _ _ iter run [unfolded Batch_def]])
    show "\<forall>k. ?tab s k = find (\<lambda>y. sy_uuid (groupMemberSyncer E) y = k) (rev localData)"
      using find_by_key_view [OF stored(1) dist_l set_l] by (simp add: member_ops tab_of_def view_def)
    show "\<forall>x \<in> set ?server. good_member groupID x" using infos by (auto simp: good_member_def ServerGroupMemberToLocalGroupMember_def)
    show "\<forall>y \<in> set localData. good_member groupID y" using set_l stored(2) infos(3) by (auto simp: good_member_def gm_key_def)
  qed (use dist_s in \<open>auto simp: notice_keeps_def member_ops\<close>)
  note synced = this
  have target: "sync_target (=) (groupMemberSyncer E) (\<lambda>x y. x) ?server False t k = rows_by_key gm_key ?server k" for t k
    by (simp add: sync_target_copy member_ops rows_by_key_def)
  have at: "rows_by_key gm_key (member_rows (go_db u)) k = ?tab u k" if "?P k" for u :: "('t, 'n) group_state" and k
    using that by (simp add: tab_of_def view_def)
  show "reconciled ?P (rows_by_key gm_key (member_rows (go_db s))) (rows_by_key gm_key ?server) (rows_by_key gm_key (member_rows (go_db s'))) r"
    using synced unfolding target by (simp add: reconciled_def at)
  show "group_rows (go_db s') = group_rows (go_db s)"
    using run stepwise.Sync_step [OF member_stepwise] unfolding steps_def by blast
qed

end

text \<open>
  What has to hold after the members of one group have been synchronised: each is as before or as the server has it, all
  are when no error is reported, and then a stored group records how many there are.
\<close>

definition member_sync_spec ::
  "string \<Rightarrow> LocalGroupMember list \<Rightarrow> LocalGroupMember list \<Rightarrow> LocalGroup list \<Rightarrow> LocalGroupMember list \<Rightarrow> go_error option \<Rightarrow> bool" where
  "member_sync_spec groupID server old groups new r \<longleftrightarrow>
     reconciled (\<lambda>k. fst k = groupID) (rows_by_key gm_key old) (rows_by_key gm_key server) (rows_by_key gm_key new) r \<and>
     (r = None \<longrightarrow> (\<forall>g \<in> set groups. gr_GroupID g = groupID \<longrightarrow>
        gr_MemberCount g = i32 (int (length (filter (\<lambda>m. gm_GroupID m = groupID) new)))))"

lemma pick_groups_one:
  "distinct (map gr_GroupID gs) \<Longrightarrow>
   pick_groups gs [k] = (case find (\<lambda>g. gr_GroupID g = k) gs of None \<Rightarrow> ([], [k]) | Some g \<Rightarrow> ([g], []))"
proof (induction gs)
  case (Cons g gs)
  have "pick_groups hs [] = ([], [])" for hs by (induction hs) simp_all
  with Cons show ?case by (auto split: option.splits)
qed simp

locale healthy_groups = group_tables E group_rows member_rows
  for E :: "('t, 'n) group_env"
    and group_rows :: "'t \<Rightarrow> LocalGroup list"
    and member_rows :: "'t \<Rightarrow> LocalGroupMember list" +
  fixes healthy :: "'t \<Rightarrow> bool"
  assumes groups_find: "healthy t \<Longrightarrow> gorm_find (gx_groups E) q t = (r, t') \<Longrightarrow> \<exists>gs. r = Inr gs"
    and members_find: "healthy t \<Longrightarrow> gorm_find (gx_members E) p t = (r', t') \<Longrightarrow> \<exists>ms. r' = Inr ms"
    and groups_update: "healthy t \<Longrightarrow> gorm_updates (gx_groups E) q f t = ((e, n), t') \<Longrightarrow> e = None"
    and groups_stay: "stays (gx_groups E) healthy"
    and members_stay: "stays (gx_members E) healthy"
    and supers_keep: "keeps (gx_supers E) group_rows" "keeps (gx_supers E) member_rows"
begin

lemma member_stays: "stepwise (groupMemberSyncer E) (\<lambda>s s' :: ('t, 'n) group_state. healthy (go_db s) \<longrightarrow> healthy (go_db s')) (\<lambda>x. True)"
  by (unfold_locales)
    (auto simp: steps_def member_ops on_gdb_def InsertGroupMember_def UpdateGroupMember_def DeleteGroupMember_def wrap_act_def
      update_result_def gorm_updates_pk2_def member_notice_db
      dest: staysD(3-5) [OF members_stay] split: prod.splits if_splits)

text \<open>The number of members of a stored group is written back.\<close>

lemma update_group_rows:
  assumes run: "UpdateGroup (gx_groups E) v t = (e, t')" and "healthy t"
  shows "member_rows t' = member_rows t"
    and "group_rows t' = (if gr_GroupID v = [] then group_rows t else map (\<lambda>r. if gr_GroupID r = gr_GroupID v then v else r) (group_rows t))"
proof -
  have "member_rows t' = member_rows t \<and>
      group_rows t' = (if gr_GroupID v = [] then group_rows t else map (\<lambda>r. if gr_GroupID r = gr_GroupID v then v else r) (group_rows t))"
  proof (cases "gr_GroupID v = []")
    case True
    with run show ?thesis by (auto simp: UpdateGroup_def gorm_updates_pk_def update_result_def)
  next
    case False
    obtain e0 n where u: "gorm_updates (gx_groups E) (\<lambda>r. gr_GroupID r = gr_GroupID v) (\<lambda>_. v) t = ((e0, n), t')"
      using run False by (auto simp: UpdateGroup_def gorm_updates_pk_def update_result_def split: prod.splits)
    have "e0 = None" by (rule groups_update [OF \<open>healthy t\<close> u])
    with u keepsD(4) [OF groups_keep_members u] gorm_table.updates_ok [OF groups_table, of _ _ t n t'] False show ?thesis by auto
  qed
  then show "member_rows t' = member_rows t"
    and "group_rows t' = (if gr_GroupID v = [] then group_rows t else map (\<lambda>r. if gr_GroupID r = gr_GroupID v then v else r) (group_rows t))"
    by auto
qed

lemma update_count_rows:
  assumes "healthy (go_db s)" and "update_count E groupID (v # vs) s = (r, s')"
    and cnt: "cnt = i32 (int (length (filter (\<lambda>m. gm_GroupID m = groupID) (member_rows (go_db s)))))"
  shows "r = None" and "member_rows (go_db s') = member_rows (go_db s)"
    and "group_rows (go_db s') = group_rows (go_db s) \<and> (gr_MemberCount v = cnt \<or> gr_GroupID v = [] \<or> gr_GroupType v = SuperGroupChatType) \<or>
      group_rows (go_db s') = map (\<lambda>r. if gr_GroupID r = gr_GroupID v then v\<lparr>gr_MemberCount := cnt\<rparr> else r) (group_rows (go_db s))"
proof -
  let ?v = "v\<lparr>gr_MemberCount := cnt\<rparr>"
  obtain r0 t where find: "gorm_find (gx_members E) (\<lambda>m. gm_GroupID m = groupID) (go_db s) = (r0, t)" by fastforce
  obtain ms where ms: "r0 = Inr ms" using members_find [OF assms(1) find] by blast
  have rows1: "group_rows t = group_rows (go_db s)" "member_rows t = member_rows (go_db s)" "healthy t"
    using gorm_table.find_rows [OF members_table find] keepsD(1) [OF members_keep_groups find] staysD(1) [OF members_stay find] assms(1)
    by simp_all
  have "length ms = length (filter (\<lambda>m. gm_GroupID m = groupID) (member_rows (go_db s)))"
    using gorm_table.find_mset [OF members_table find [unfolded ms]] by (metis size_mset)
  then have count: "on_gdb (GetGroupMemberCount (gx_members E) groupID) s = (Inr cnt, s\<lparr>go_db := t\<rparr>)"
    using find ms cnt by (simp add: on_gdb_def GetGroupMemberCount_def wrap_res_def)
  obtain e1 t1 where super: "UpdateSuperGroup (gx_supers E) ?v t = (e1, t1)" by fastforce
  obtain e2 t2 where plain: "UpdateGroup (gx_groups E) ?v t = (e2, t2)" by fastforce
  have rows_super: "group_rows t1 = group_rows t" "member_rows t1 = member_rows t"
    using super keepsD(4) [OF supers_keep(1)] keepsD(4) [OF supers_keep(2)]
    by (auto simp: UpdateSuperGroup_def gorm_updates_pk_def update_result_def split: prod.splits if_splits)
  have final: "r = None \<and> go_db s' = (if gr_MemberCount v = cnt then t else if gr_GroupType v = SuperGroupChatType then t1 else t2)"
    using assms(2) count super plain by (auto simp: update_count_def Let_def on_gdb_def tell_def split: if_splits)
  then show "r = None" by simp
  show "member_rows (go_db s') = member_rows (go_db s)"
    using final rows1 rows_super update_group_rows(1) [OF plain rows1(3)] by simp
  show "group_rows (go_db s') = group_rows (go_db s) \<and> (gr_MemberCount v = cnt \<or> gr_GroupID v = [] \<or> gr_GroupType v = SuperGroupChatType) \<or>
      group_rows (go_db s') = map (\<lambda>r. if gr_GroupID r = gr_GroupID v then ?v else r) (group_rows (go_db s))"
    using final rows1 rows_super update_group_rows(2) [OF plain rows1(3)] by auto
qed

lemma count_stored:
  assumes "healthy (go_db s)" and stored: "distinct (map gr_GroupID (group_rows (go_db s)))" "groupID \<noteq> []"
    and kinds: "\<forall>g \<in> set (group_rows (go_db s)). gr_GroupType g \<noteq> SuperGroupChatType"
    and run: "get_then (GetSpecifiedGroupsInfo E [groupID] s) (update_count E groupID) = (r, s')"
  shows "member_rows (go_db s') = member_rows (go_db s)"
    and "g \<in> set (group_rows (go_db s')) \<Longrightarrow> gr_GroupID g = groupID \<Longrightarrow>
      gr_MemberCount g = i32 (int (length (filter (\<lambda>m. gm_GroupID m = groupID) (member_rows (go_db s)))))"
proof -
  define cnt where cnt: "cnt = i32 (int (length (filter (\<lambda>m. gm_GroupID m = groupID) (member_rows (go_db s)))))"
  obtain r0 t where find: "gorm_find (gx_groups E) (\<lambda>_. True) (go_db s) = (r0, t)" by fastforce
  obtain gs where gs: "r0 = Inr gs" using groups_find [OF assms(1) find] by blast
  have rows1: "group_rows t = group_rows (go_db s)" "member_rows t = member_rows (go_db s)" "healthy t"
    using gorm_table.find_rows [OF groups_table find] keepsD(1) [OF groups_keep_members find] staysD(1) [OF groups_stay find] assms(1)
    by simp_all
  let ?s1 = "s\<lparr>go_db := t\<rparr>"
  have all: "on_gdb (GetJoinedGroupListDB (gx_groups E)) s = (Inr gs, ?s1)"
    using find gs by (simp add: on_gdb_def GetJoinedGroupListDB_def wrap_res_def)
  have set_gs: "set gs = set (group_rows (go_db s))" and dist: "distinct (map gr_GroupID gs)"
    using gorm_table.find_set [OF groups_table find [unfolded gs]] gorm_table.find_distinct [OF groups_table find [unfolded gs] stored(1)]
    by auto
  have "member_rows (go_db s') = member_rows (go_db s) \<and>
      (\<forall>g \<in> set (group_rows (go_db s')). gr_GroupID g = groupID \<longrightarrow> gr_MemberCount g = cnt)"
  proof (cases "find (\<lambda>g. gr_GroupID g = groupID) gs")
    case (Some v)
    then have v: "gr_GroupID v = groupID" "v \<in> set (group_rows (go_db s))" using set_gs by (auto dest: find_SomeD)
    have "update_count E groupID [v] ?s1 = (r, s')"
      using run all Some by (simp add: GetSpecifiedGroupsInfo_def pick_groups_one [OF dist])
    note upd = update_count_rows [OF _ this, simplified, OF rows1(3) refl, unfolded rows1, folded cnt]
    have "gr_MemberCount g = cnt" if "gr_MemberCount v = cnt" "g \<in> set (group_rows (go_db s))" "gr_GroupID g = groupID" for g
    proof -
      have "inj_on gr_GroupID (set (group_rows (go_db s)))" using stored(1) by (simp add: distinct_map)
      then have "g = v" by (rule inj_onD) (use that v in simp_all)
      then show ?thesis using that(1) by simp
    qed
    note same = this
    have "\<forall>g \<in> set (group_rows (go_db s')). gr_GroupID g = groupID \<longrightarrow> gr_MemberCount g = cnt"
      using upd(3)
    proof (elim disjE)
      assume "group_rows (go_db s') = group_rows (go_db s) \<and> (gr_MemberCount v = cnt \<or> gr_GroupID v = [] \<or> gr_GroupType v = SuperGroupChatType)"
      with kinds v stored(2) same show ?thesis by metis
    next
      assume "group_rows (go_db s') = map (\<lambda>r. if gr_GroupID r = gr_GroupID v then v\<lparr>gr_MemberCount := cnt\<rparr> else r) (group_rows (go_db s))"
      with v(1) show ?thesis by auto
    qed
    with upd(2) show ?thesis by blast
  next
    case None
    then have none: "\<forall>g \<in> set (group_rows (go_db s)). gr_GroupID g \<noteq> groupID" using set_gs by (auto simp: find_None_iff)
    obtain q s2 where svr: "getGroupsInfoFromSvr E (gx_range_ids E [groupID]) ?s1 = (q, s2)" by fastforce
    then have s2: "go_db s2 = t" by (auto simp: getGroupsInfoFromSvr_def on_gnet_def split: prod.splits)
    obtain res where res: "update_count E groupID res s2 = (r, s')"
      using run all None svr by (cases q) (auto simp: GetSpecifiedGroupsInfo_def pick_groups_one [OF dist])
    show ?thesis
    proof (cases res)
      case Nil
      with res none rows1 s2 show ?thesis by (simp add: update_count_def)
    next
      case (Cons v vs)
      note upd = update_count_rows [OF _ res [unfolded Cons] refl, unfolded s2, OF rows1(3), unfolded rows1, folded cnt]
      with none show ?thesis by (auto split: if_splits)
    qed
  qed
  then show "member_rows (go_db s') = member_rows (go_db s)"
    and "g \<in> set (group_rows (go_db s')) \<Longrightarrow> gr_GroupID g = groupID \<Longrightarrow>
      gr_MemberCount g = i32 (int (length (filter (\<lambda>m. gm_GroupID m = groupID) (member_rows (go_db s)))))"
    by (auto simp: cnt)
qed

end

context healthy_groups
begin

lemma sync_group_members:
  assumes run: "syncGroupMembers E groupID infos localData s = (r, s')" and "healthy (go_db s)"
    and loc: "mset localData = mset (filter (\<lambda>m. gm_GroupID m = groupID) (member_rows (go_db s)))"
    and infos: "distinct (map gfi_UserID infos)" "\<forall>i \<in> set infos. gfi_GroupID i = groupID \<and> gfi_UserID i \<noteq> []" "groupID \<noteq> []"
    and stored: "distinct (map gm_key (member_rows (go_db s)))" "\<forall>m \<in> set (member_rows (go_db s)). gm_UserID m \<noteq> []"
      "distinct (map gr_GroupID (group_rows (go_db s)))" "\<forall>g \<in> set (group_rows (go_db s)). gr_GroupType g \<noteq> SuperGroupChatType"
    and iter: "any_order (gx_range_members E)"
  shows "member_sync_spec groupID (map ServerGroupMemberToLocalGroupMember infos) (member_rows (go_db s))
     (group_rows (go_db s')) (member_rows (go_db s')) r"
proof -
  obtain r1 s1 where sync: "Sync (=) zero_member (gx_range_members E) (groupMemberSyncer E)
      (Batch ServerGroupMemberToLocalGroupMember infos) localData None [] s = (r1, s1)" by fastforce
  note rows1 = sync_members_rows [OF sync loc infos stored(1,2) iter]
  have "healthy (go_db s1)" using sync stepwise.Sync_step [OF member_stays] assms(2) unfolding steps_def by blast
  show ?thesis
  proof (cases r1)
    case (Some e)
    with run sync have "r = Some e" "s' = s1" by (simp_all add: syncGroupMembers_def)
    with rows1 Some show ?thesis by (simp add: member_sync_spec_def)
  next
    case None
    with run sync have rest: "get_then (GetSpecifiedGroupsInfo E [groupID] s1) (update_count E groupID) = (r, s')"
      by (simp add: syncGroupMembers_def)
    note counted = count_stored [OF \<open>healthy (go_db s1)\<close> _ infos(3) _ rest, unfolded rows1(2), OF stored(3,4)]
    from rows1(1) None counted show ?thesis
      by (auto simp: member_sync_spec_def reconciled_def)
  qed
qed

lemma sync_all_members:
  assumes serve: "serves_pages (\<lambda>n p. on_gnet (gx_member_page E groupID n p) :: ('t, 'n) group_state \<Rightarrow> _) infos"
    and abs: "GetGroupAbstractInfo E groupID s = (Inr absInfo, s0)" and "healthy (go_db s)"
    and differs: "uint (gai_GroupMemberNumber absInfo) \<noteq> int (length (filter (\<lambda>m. gm_GroupID m = groupID) (member_rows (go_db s))))"
    and small: "length (member_rows (go_db s)) \<le> 9999999"
    and infos: "distinct (map gfi_UserID infos)" "\<forall>i \<in> set infos. gfi_GroupID i = groupID \<and> gfi_UserID i \<noteq> []" "groupID \<noteq> []"
    and stored: "distinct (map gm_key (member_rows (go_db s)))" "\<forall>m \<in> set (member_rows (go_db s)). gm_UserID m \<noteq> []"
      "distinct (map gr_GroupID (group_rows (go_db s)))" "\<forall>g \<in> set (group_rows (go_db s)). gr_GroupType g \<noteq> SuperGroupChatType"
    and iter: "any_order (gx_range_members E)"
  shows "\<exists>r s'. SyncAllGroupMember E groupID s = Some (r, s') \<and>
     member_sync_spec groupID (map ServerGroupMemberToLocalGroupMember infos) (member_rows (go_db s))
       (group_rows (go_db s')) (member_rows (go_db s')) r"
proof -
  have s0: "go_db s0 = go_db s"
    using abs by (auto simp: GetGroupAbstractInfo_def getGroupAbstractInfoFromSvr_def on_gnet_def split: prod.splits sum.splits list.splits)
  obtain r1 t where find: "gorm_find (gx_members E) (\<lambda>m. gm_GroupID m = groupID) (go_db s0) = (r1, t)" by fastforce
  have "healthy (go_db s0)" using assms(3) s0 by simp
  then obtain ms where "r1 = Inr ms" using members_find find by blast
  then obtain loc where list: "on_gdb (GetGroupMemberListSplit (gx_members E) groupID 0 0 9999999) s0 = (Inr loc, s0\<lparr>go_db := t\<rparr>)"
    using find by (simp add: on_gdb_def GetGroupMemberListSplit_def GroupFilterAll_def ordered_find_def wrap_res_def)
  note rows1 = list_members_rows [OF list, unfolded s0]
  have healthy: "healthy t" using staysD(1) [OF members_stay find] \<open>healthy (go_db s0)\<close> by simp
  have loc: "mset loc = mset (filter (\<lambda>m. gm_GroupID m = groupID) (member_rows (go_db s)))" using rows1(4) small by simp
  then have "length loc = length (filter (\<lambda>m. gm_GroupID m = groupID) (member_rows (go_db s)))" by (metis size_mset)
  with differs have changed: "int (length loc) \<noteq> uint (gai_GroupMemberNumber absInfo)" by simp
  obtain r s' where run: "syncGroupMembers E groupID infos loc (s0\<lparr>go_db := t\<rparr>) = (r, s')" by fastforce
  have "SyncAllGroupMember E groupID s = Some (r, s')"
    using abs list changed run GetPageAll_serves [OF serve, of "s0\<lparr>go_db := t\<rparr>"]
    by (simp add: SyncAllGroupMember_def with_res_def return_op_def done_act_def GetServerGroupMembers_def)
  moreover have "member_sync_spec groupID (map ServerGroupMemberToLocalGroupMember infos) (member_rows (go_db s))
       (group_rows (go_db s')) (member_rows (go_db s')) r"
    using sync_group_members [OF run _ _ infos _ _ _ _ iter] healthy loc stored rows1 by simp
  ultimately show ?thesis by blast
qed

end

section \<open>The instance\<close>

text \<open>The groups and members of the world; a table of super groups does not exist there, and each statement on it fails.\<close>

definition no_table :: "('r, 't) gorm" where
  "no_table = \<lparr>gorm_find = (\<lambda>p t. (Inl db_fault, t)), gorm_take = (\<lambda>p t. (Inl db_fault, t)), gorm_create = (\<lambda>xs t. (Some db_fault, t)),
     gorm_updates = (\<lambda>p f t. ((Some db_fault, 0), t)), gorm_delete = (\<lambda>p t. (Some db_fault, t))\<rparr>"

definition on_group_world :: "(world, 'n) group_env \<Rightarrow> (world, 'n) group_env" where
  "on_group_world E = E\<lparr>gx_groups := world_groups, gx_members := world_members, gx_supers := no_table\<rparr>"

interpretation gw: group_tables "on_group_world E" "\<lambda>w. ft_rows (w_groups w)" "\<lambda>w. ft_rows (w_members w)"
proof (rule group_tables.intro)
  show "gorm_table (gx_groups (on_group_world E)) (\<lambda>w. ft_rows (w_groups w)) gr_GroupID"
    unfolding on_group_world_def world_groups_def by simp (rule at_table_gorm [OF lg.gorm_table_axioms], simp)
  show "gorm_table (gx_members (on_group_world E)) (\<lambda>w. ft_rows (w_members w)) gm_key"
    unfolding on_group_world_def world_members_def gm_key_def [abs_def, symmetric] by simp (rule at_table_gorm [OF lg.gorm_table_axioms], simp)
qed (auto simp: on_group_world_def world_groups_def world_members_def intro!: at_table_keeps)

interpretation gs: stepwise "groupSyncer (on_group_world E)"
    "\<lambda>s s' :: (world, 'n) group_state. set (ft_rows (w_members (go_db s'))) \<subseteq> set (ft_rows (w_members (go_db s)))" "\<lambda>x. True"
  by (rule gw.group_stepwise)

lemma group_world_reads:
  assumes "no_faults w"
  shows "gorm_find (gx_groups (on_group_world E)) q w = (Inr (filter q (ft_rows (w_groups w))), w)"
    and "gorm_find (gx_members (on_group_world E)) p w = (Inr (filter p (ft_rows (w_members w))), w)"
    and "fst (fst (gorm_updates (gx_groups (on_group_world E)) q f w)) = None"
  using assms by (simp_all add: on_group_world_def world_groups_def world_members_def at_table_def list_gorm_def next_fault_def no_faults_def)

lemma at_table_stays:
  assumes "\<And>s. P s \<Longrightarrow> ft_faults (get s) = []" and "\<And>s t. P s \<Longrightarrow> ft_faults t = [] \<Longrightarrow> P (put t s)"
  shows "stays (at_table get put (list_gorm key)) P"
  using assms by (auto simp: stays_def at_table_def list_gorm_def next_fault_def split: prod.splits list.splits option.splits)

interpretation gh: healthy_groups "on_group_world E" "\<lambda>w. ft_rows (w_groups w)" "\<lambda>w. ft_rows (w_members w)" no_faults
proof (intro healthy_groups.intro gw.group_tables_axioms healthy_groups_axioms.intro)
  show "\<exists>gs. r = Inr gs" if "no_faults t" "gorm_find (gx_groups (on_group_world E)) q t = (r, t')" for t q r t'
    using group_world_reads(1) [OF that(1), of E q] that(2) by simp
  show "\<exists>ms. r = Inr ms" if "no_faults t" "gorm_find (gx_members (on_group_world E)) q t = (r, t')" for t q r t'
    using group_world_reads(2) [OF that(1), of E q] that(2) by simp
  show "e = None" if "no_faults t" "gorm_updates (gx_groups (on_group_world E)) q f t = ((e, n), t')" for t q f e n t'
    using group_world_reads(3) [OF that(1), of E q f] that(2) by simp
  show "stays (gx_groups (on_group_world E)) no_faults" "stays (gx_members (on_group_world E)) no_faults"
    unfolding on_group_world_def world_groups_def world_members_def
    by (simp_all, (rule at_table_stays; simp add: no_faults_def)+)
qed (auto simp: on_group_world_def no_table_def keeps_def)

section \<open>The properties\<close>

text \<open>Samples: a group of the server, a stored one, members, and a state of the world.\<close>

definition sample_group :: "string \<Rightarrow> GroupInfo" where
  "sample_group groupID = \<lparr>gi_GroupID = groupID, gi_GroupName = groupID, gi_Notification = [], gi_Introduction = [], gi_FaceURL = [],
     gi_OwnerUserID = [], gi_CreateTime = 0, gi_MemberCount = 0, gi_Ex = [], gi_Status = 0, gi_CreatorUserID = [], gi_GroupType = 2,
     gi_NeedVerification = 0, gi_LookMemberInfo = 0, gi_ApplyMemberFriend = 0, gi_NotificationUpdateTime = 0, gi_NotificationUserID = []\<rparr>"

definition sample_full :: "string \<Rightarrow> string \<Rightarrow> GroupMemberFullInfo" where
  "sample_full groupID userID = full_info (zero_member\<lparr>gm_GroupID := groupID, gm_UserID := userID\<rparr>)"

definition sample_member :: "string \<Rightarrow> string \<Rightarrow> LocalGroupMember" where
  "sample_member groupID userID = zero_member\<lparr>gm_GroupID := groupID, gm_UserID := userID\<rparr>"

definition group_world :: "LocalGroup list \<Rightarrow> LocalGroupMember list \<Rightarrow> 'n \<Rightarrow> (world, 'n) group_state" where
  "group_world gs ms n = \<lparr>go_db = empty_world\<lparr>w_groups := \<lparr>ft_rows = gs, ft_faults = []\<rparr>, w_members := \<lparr>ft_rows = ms, ft_faults = []\<rparr>\<rparr>,
     go_net = n, go_ch = None, go_events = []\<rparr>"

lemma group_world_rows [simp]:
  "ft_rows (w_groups (go_db (group_world gs ms n))) = gs" "ft_rows (w_members (go_db (group_world gs ms n))) = ms"
  "no_faults (go_db (group_world gs ms n))" "go_events (group_world gs ms n) = []"
  by (simp_all add: group_world_def no_faults_def empty_world_def)

lemma serves_on_net: "length xs < 50 * 2 ^ 30 \<Longrightarrow> serves_pages (\<lambda>n p. on_gnet (page_server xs n p)) xs"
  by (simp add: serves_pages_def page_server_def on_gnet_def)

text \<open>
  C4: the joined groups are reconciled with the server. Whatever fails, each stored group is afterwards as before or as the
  server has it, and when no error is reported all are; groups the server does not list are deleted, and then none of their
  members is left. No member is ever added.
\<close>
theorem joined_groups_reconciled:
  fixes E :: "('t, 'n) group_env"
  assumes "group_tables E group_rows member_rows" and "any_order (gx_range_groups E)"
    and "serves_pages (\<lambda>n p. on_gnet (gx_joined_page E n p) :: ('t, 'n) group_state \<Rightarrow> _) infos"
    and "distinct (map gi_GroupID infos)" and "\<forall>i \<in> set infos. gi_GroupID i \<noteq> []"
    and "distinct (map gr_GroupID (group_rows (go_db s)))" and "\<forall>g \<in> set (group_rows (go_db s)). gr_GroupID g \<noteq> []"
  shows "\<exists>r s'. syncAllJoinedGroups E s = Some (r, s') \<and>
     reconciled (\<lambda>_. True) (rows_by_key gr_GroupID (group_rows (go_db s)))
       (rows_by_key gr_GroupID (map ServerGroupToLocalGroup infos)) (rows_by_key gr_GroupID (group_rows (go_db s'))) r \<and>
     set (member_rows (go_db s')) \<subseteq> set (member_rows (go_db s)) \<and>
     (r = None \<longrightarrow> (\<forall>g \<in> set (group_rows (go_db s)). gr_GroupID g \<notin> gi_GroupID ` set infos \<longrightarrow>
        (\<forall>m \<in> set (member_rows (go_db s')). gm_GroupID m \<noteq> gr_GroupID g)))"
proof -
  obtain r1 s1 where list: "on_gdb (GetJoinedGroupListDB (gx_groups E)) s = (r1, s1)" by fastforce
  have all: "GetServerJoinGroup E s = Some (Inr infos, s)"
    unfolding GetServerJoinGroup_def by (rule GetPageAll_serves [OF assms(3)])
  show ?thesis
  proof (cases r1)
    case (Inl e)
    have "group_rows (go_db s1) = group_rows (go_db s)" "member_rows (go_db s1) = member_rows (go_db s)"
      using list gorm_table.find_rows [OF group_tables.groups_table [OF assms(1)]]
        keepsD(1) [OF group_tables.groups_keep_members [OF assms(1)]]
      by (auto simp: on_gdb_def GetJoinedGroupListDB_def wrap_res_def split: prod.splits sum.splits)
    moreover have "syncAllJoinedGroups E s = Some (Some e, s1)"
      using all list Inl by (simp add: syncAllJoinedGroups_def with_res_def return_op_def)
    ultimately show ?thesis by (simp add: reconciled_def)
  next
    case (Inr loc)
    obtain r s' where run: "sync_groups E infos loc s1 = (r, s')" by fastforce
    note rows = group_tables.sync_groups_rows [OF assms(1) list [unfolded Inr] run assms(4-7) assms(2)]
    have "syncAllJoinedGroups E s = Some (r, s')"
      using all list Inr run by (simp add: syncAllJoinedGroups_def with_res_def return_op_def done_act_def)
    then show ?thesis using rows by blast
  qed
qed

theorem joined_groups_reconciled_witness:
  "\<forall>(E :: (world, 'n) group_env) n. \<exists>r s'.
     syncAllJoinedGroups (on_group_world (E\<lparr>gx_joined_page := page_server [sample_group ''a''], gx_range_groups := rev\<rparr>))
       (group_world [ServerGroupToLocalGroup (sample_group ''b'')] [sample_member ''b'' ''me''] n) = Some (r, s') \<and>
     reconciled (\<lambda>_. True) (rows_by_key gr_GroupID [ServerGroupToLocalGroup (sample_group ''b'')])
       (rows_by_key gr_GroupID [ServerGroupToLocalGroup (sample_group ''a'')]) (rows_by_key gr_GroupID (ft_rows (w_groups (go_db s')))) r \<and>
     set (ft_rows (w_members (go_db s'))) \<subseteq> {sample_member ''b'' ''me''}"
proof (intro allI)
  fix E :: "(world, 'n) group_env" and n :: 'n
  let ?E = "on_group_world (E\<lparr>gx_joined_page := page_server [sample_group ''a''], gx_range_groups := rev\<rparr>)"
  let ?s = "group_world [ServerGroupToLocalGroup (sample_group ''b'')] [sample_member ''b'' ''me''] n"
  have serve: "serves_pages (\<lambda>n p. on_gnet (gx_joined_page ?E n p) :: (world, 'n) group_state \<Rightarrow> _) [sample_group ''a'']"
    by (simp add: on_group_world_def serves_on_net)
  have "any_order (gx_range_groups ?E)" by (simp add: on_group_world_def)
  from joined_groups_reconciled [OF gw.group_tables_axioms this serve, of ?s]
  show "\<exists>r s'. syncAllJoinedGroups ?E ?s = Some (r, s') \<and>
     reconciled (\<lambda>_. True) (rows_by_key gr_GroupID [ServerGroupToLocalGroup (sample_group ''b'')])
       (rows_by_key gr_GroupID [ServerGroupToLocalGroup (sample_group ''a'')]) (rows_by_key gr_GroupID (ft_rows (w_groups (go_db s')))) r \<and>
     set (ft_rows (w_members (go_db s'))) \<subseteq> {sample_member ''b'' ''me''}"
    by (auto simp: sample_group_def ServerGroupToLocalGroup_def)
qed

text \<open>
  C16: a user who is told to have been kicked out of a group keeps nothing of it. The notification deletes the members and
  the group and tells the listener of each member once, of the empty group and of its deletion; after an error the group is
  still stored; other groups are left alone in any case.
\<close>
theorem kicked_user_leaves:
  assumes "group_tables E group_rows member_rows" and "length (member_rows (go_db s)) \<le> 999999"
    and "tips MemberKickedNotification content = Inr d" and "gt_Group d = Some g" and "gx_loginUserID E \<in> set (gt_Users d)"
  shows "\<exists>r s' told. doNotification E tips MemberKickedNotification msgGroupID content s = Some (r, s') \<and>
     go_events s' = go_events s @ told \<and>
     left_spec True (gi_GroupID g) (group_rows (go_db s), member_rows (go_db s)) (group_rows (go_db s'), member_rows (go_db s')) told r"
proof -
  obtain r s' where run: "left_group E True (gi_GroupID g) s = (r, s')" by fastforce
  have "doNotification E tips MemberKickedNotification msgGroupID content s = Some (r, s')"
    using assms(3-5) run by (simp add: doNotification_def notified_def on_group_def done_act_def group_notifications)
  with group_tables.left_group_rows [OF assms(1) run assms(2)] show ?thesis by blast
qed

theorem kicked_user_leaves_witness:
  "\<forall>(E :: (world, 'n) group_env) n. \<exists>r s' told.
     doNotification (on_group_world (E\<lparr>gx_loginUserID := ''me''\<rparr>))
       (\<lambda>_ _. Inr \<lparr>gt_Group = Some (sample_group ''b''), gt_User = None, gt_Users = [''me''], gt_ReceiverAs = 0\<rparr>)
       MemberKickedNotification [] [] (group_world [ServerGroupToLocalGroup (sample_group ''b'')] [sample_member ''b'' ''me''] n) = Some (r, s') \<and>
     go_events s' = told \<and>
     left_spec True ''b'' ([ServerGroupToLocalGroup (sample_group ''b'')], [sample_member ''b'' ''me''])
       (ft_rows (w_groups (go_db s')), ft_rows (w_members (go_db s'))) told r"
proof (intro allI)
  fix E :: "(world, 'n) group_env" and n :: 'n
  let ?E = "on_group_world (E\<lparr>gx_loginUserID := ''me''\<rparr>)" and ?d = "\<lparr>gt_Group = Some (sample_group ''b''), gt_User = None, gt_Users = [''me''], gt_ReceiverAs = 0\<rparr>"
  let ?s = "group_world [ServerGroupToLocalGroup (sample_group ''b'')] [sample_member ''b'' ''me''] n"
  from kicked_user_leaves [OF gw.group_tables_axioms, of ?s "\<lambda>_ _. Inr ?d" "[]" ?d "sample_group ''b''" "E\<lparr>gx_loginUserID := ''me''\<rparr>" "[]"]
  show "\<exists>r s' told. doNotification ?E (\<lambda>_ _. Inr ?d) MemberKickedNotification [] [] ?s = Some (r, s') \<and> go_events s' = told \<and>
     left_spec True ''b'' ([ServerGroupToLocalGroup (sample_group ''b'')], [sample_member ''b'' ''me''])
       (ft_rows (w_groups (go_db s')), ft_rows (w_members (go_db s'))) told r"
    by (auto simp: on_group_world_def sample_group_def)
qed

text \<open>
  C14: the members of a group. When the server's number of members differs from the stored rows, all are fetched; each
  stored member is then as before or as the server has it, and when no error is reported all are, and the stored group
  records their number.
\<close>
theorem SyncAllGroupMember_members:
  fixes E :: "('t, 'n) group_env"
  assumes "healthy_groups E group_rows member_rows healthy" and "healthy (go_db s)" and "any_order (gx_range_members E)"
    and "serves_pages (\<lambda>n p. on_gnet (gx_member_page E groupID n p) :: ('t, 'n) group_state \<Rightarrow> _) infos"
    and "GetGroupAbstractInfo E groupID s = (Inr absInfo, s0)"
    and "uint (gai_GroupMemberNumber absInfo) \<noteq> int (length (filter (\<lambda>m. gm_GroupID m = groupID) (member_rows (go_db s))))"
    and "length (member_rows (go_db s)) \<le> 9999999"
    and "distinct (map gfi_UserID infos)" and "\<forall>i \<in> set infos. gfi_GroupID i = groupID \<and> gfi_UserID i \<noteq> []" and "groupID \<noteq> []"
    and "distinct (map gm_key (member_rows (go_db s)))" and "\<forall>m \<in> set (member_rows (go_db s)). gm_UserID m \<noteq> []"
    and "distinct (map gr_GroupID (group_rows (go_db s)))" and "\<forall>g \<in> set (group_rows (go_db s)). gr_GroupType g \<noteq> SuperGroupChatType"
  shows "\<exists>r s'. SyncAllGroupMember E groupID s = Some (r, s') \<and>
     member_sync_spec groupID (map ServerGroupMemberToLocalGroupMember infos) (member_rows (go_db s))
       (group_rows (go_db s')) (member_rows (go_db s')) r"
  by (rule healthy_groups.sync_all_members [OF assms(1,4,5,2,6-14,3)])

theorem SyncAllGroupMember_members_witness:
  "\<forall>(E :: (world, 'n) group_env) n. \<exists>r s'.
     SyncAllGroupMember (on_group_world (E\<lparr>gx_abstract_io := replying [\<lparr>gai_GroupMemberNumber = 2, gai_GroupMemberListHash = 0\<rparr>],
         gx_member_page := \<lambda>_. page_server [sample_full ''b'' ''me'', sample_full ''b'' ''you''], gx_range_members := rev\<rparr>)) ''b''
       (group_world [ServerGroupToLocalGroup (sample_group ''b'')] [sample_member ''b'' ''me''] n) = Some (r, s') \<and>
     member_sync_spec ''b'' (map ServerGroupMemberToLocalGroupMember [sample_full ''b'' ''me'', sample_full ''b'' ''you'']) [sample_member ''b'' ''me'']
       (ft_rows (w_groups (go_db s'))) (ft_rows (w_members (go_db s'))) r"
proof (intro allI)
  fix E :: "(world, 'n) group_env" and n :: 'n
  let ?abs = "\<lparr>gai_GroupMemberNumber = 2, gai_GroupMemberListHash = 0\<rparr>" and ?infos = "[sample_full ''b'' ''me'', sample_full ''b'' ''you'']"
  let ?E = "on_group_world (E\<lparr>gx_abstract_io := replying [?abs], gx_member_page := \<lambda>_. page_server ?infos, gx_range_members := rev\<rparr>)"
  let ?s = "group_world [ServerGroupToLocalGroup (sample_group ''b'')] [sample_member ''b'' ''me''] n"
  have serve: "serves_pages (\<lambda>n p. on_gnet (gx_member_page ?E ''b'' n p) :: (world, 'n) group_state \<Rightarrow> _) ?infos"
    by (simp add: on_group_world_def serves_on_net)
  have answer: "GetGroupAbstractInfo ?E ''b'' ?s = (Inr ?abs, ?s)"
    by (simp add: GetGroupAbstractInfo_def getGroupAbstractInfoFromSvr_def on_gnet_def on_group_world_def CallApi_replying)
  show "\<exists>r s'. SyncAllGroupMember ?E ''b'' ?s = Some (r, s') \<and>
     member_sync_spec ''b'' (map ServerGroupMemberToLocalGroupMember ?infos) [sample_member ''b'' ''me'']
       (ft_rows (w_groups (go_db s'))) (ft_rows (w_members (go_db s'))) r"
    using SyncAllGroupMember_members [OF gh.healthy_groups_axioms _ _ serve answer]
    by (simp add: on_group_world_def sample_full_def sample_member_def full_info_def zero_member_def sample_group_def
        ServerGroupToLocalGroup_def session_types)
qed

end
