(* ===== verification/Typing.thy ===== *)
theory Typing
  imports ConvMedia
begin

text \<open>
  Who is typing (\<^verbatim>\<open>internal/conversation_msg/entering.go\<close>). The cache library is not part of the repository: its
  operations are a parameter, with the documented behaviour as a locale. Times are in nanoseconds; the clock is read once for each
  call of a cache, and here every operation happens at one time \<open>t\<close>.
\<close>

section \<open>The platforms\<close>

definition PlatformID2Name :: "(int, string) gomap" where
  "PlatformID2Name = [(1, ''IOS''), (2, ''Android''), (3, ''Windows''), (4, ''OSX''), (5, ''Web''), (6, ''MiniWeb''), (7, ''Linux''),
     (8, ''APad''), (9, ''IPad'')]"

definition platformIDs :: "int list" where
  "platformIDs = sort (map fst PlatformID2Name)"

section \<open>The caches\<close>

text \<open>
  \<open>ca_Get\<close> is \<^verbatim>\<open>Get\<close> and \<^verbatim>\<open>GetWithExpiration\<close>, \<open>ca_Delete\<close> says whether there was an item, and \<open>ca_DeleteExpired\<close> is what
  the cache does by itself at intervals; it gives the keys of what it has deleted.
\<close>

record ('c, 'v) cache_ops =
  ca_Get :: "int \<Rightarrow> string \<Rightarrow> 'c \<Rightarrow> ('v \<times> int) option"
  ca_Set :: "int \<Rightarrow> string \<Rightarrow> 'v \<Rightarrow> int \<Rightarrow> 'c \<Rightarrow> 'c"
  ca_Delete :: "string \<Rightarrow> 'c \<Rightarrow> bool \<times> 'c"
  ca_DeleteExpired :: "int \<Rightarrow> 'c \<Rightarrow> string list \<times> 'c"

definition stateCodeSuccess :: int where "stateCodeSuccess = 1"
definition stateCodeEnd :: int where "stateCodeEnd = 2"

definition inputStatesSendTime :: int where "inputStatesSendTime = 10 * 10 ^ 9"
definition inputStatesTimeout :: int where "inputStatesTimeout = inputStatesSendTime + inputStatesSendTime sdiv 2"

section \<open>State\<close>

record inputStatesKey =
  isk_ConversationID :: string
  isk_UserID :: string
  isk_PlatformID :: int

record InputStatesChangedData =
  isc_ConversationID :: string
  isc_UserID :: string
  isc_PlatformIDs :: "int list"

text \<open>\<open>te_encode\<close> and \<open>te_decode\<close> are the JSON text of a key and its reading.\<close>

record ('c, 'd) typing_env =
  te_send :: "('c, int) cache_ops"
  te_state :: "('d, unit) cache_ops"
  te_encode :: "inputStatesKey \<Rightarrow> string"
  te_decode :: "string \<Rightarrow> inputStatesKey option"

record ('c, 'd) typing =
  ty_send :: 'c
  ty_state :: 'd
  ty_events :: "InputStatesChangedData list"

definition getStateKey :: "('c, 'd) typing_env \<Rightarrow> string \<Rightarrow> string \<Rightarrow> int \<Rightarrow> string" where
  "getStateKey T conversationID userID platformID =
     te_encode T \<lparr>isk_ConversationID = conversationID, isk_UserID = userID, isk_PlatformID = platformID\<rparr>"

definition GetInputStates :: "('c, 'd) typing_env \<Rightarrow> int \<Rightarrow> string \<Rightarrow> string \<Rightarrow> ('c, 'd) typing \<Rightarrow> int list" where
  "GetInputStates T t conversationID userID s =
     filter (\<lambda>p. ca_Get (te_state T) t (getStateKey T conversationID userID p) (ty_state s) \<noteq> None) platformIDs"

definition changes :: "('c, 'd) typing_env \<Rightarrow> int \<Rightarrow> string \<Rightarrow> string \<Rightarrow> ('c, 'd) typing \<Rightarrow> ('c, 'd) typing" where
  "changes T t conversationID userID s = s\<lparr>ty_events := ty_events s @
     [\<lparr>isc_ConversationID = conversationID, isc_UserID = userID, isc_PlatformIDs = GetInputStates T t conversationID userID s\<rparr>]\<rparr>"

text \<open>What \<^verbatim>\<open>newTyping\<close> gives the cache to do with a key it has deleted.\<close>

definition evicted :: "('c, 'd) typing_env \<Rightarrow> int \<Rightarrow> string \<Rightarrow> ('c, 'd) typing \<Rightarrow> ('c, 'd) typing" where
  "evicted T t key s =
     (case te_decode T key of None \<Rightarrow> s | Some k \<Rightarrow> changes T t (isk_ConversationID k) (isk_UserID k) s)"

definition delete_state :: "('c, 'd) typing_env \<Rightarrow> int \<Rightarrow> string \<Rightarrow> ('c, 'd) typing \<Rightarrow> ('c, 'd) typing" where
  "delete_state T t key s =
     (case ca_Delete (te_state T) key (ty_state s) of (found, d) \<Rightarrow>
        if found then evicted T t key (s\<lparr>ty_state := d\<rparr>) else s\<lparr>ty_state := d\<rparr>)"

definition sweep_states :: "('c, 'd) typing_env \<Rightarrow> int \<Rightarrow> ('c, 'd) typing \<Rightarrow> ('c, 'd) typing" where
  "sweep_states T t s =
     (case ca_DeleteExpired (te_state T) t (ty_state s) of (keys, d) \<Rightarrow> fold (evicted T t) keys (s\<lparr>ty_state := d\<rparr>))"

section \<open>A message about typing\<close>

definition onNewMsg :: "('c, 'd) typing_env \<Rightarrow> 'q json_codec \<Rightarrow> string \<Rightarrow> int \<Rightarrow> MsgData \<Rightarrow> ('c, 'd) typing \<Rightarrow> ('c, 'd) typing" where
  "onNewMsg T J loginUserID t msg s =
     (case dec_TypingElem J (md_Content msg) of
        (Some e, elem) \<Rightarrow> s
      | (None, elem) \<Rightarrow>
          if md_SendID msg = loginUserID \<or> md_SenderPlatformID msg \<notin> set platformIDs then s
          else let now = t sdiv 10 ^ 6; expirationTimestamp = i64 (md_SendTime msg + inputStatesSendTime sdiv 10 ^ 6) in
            if md_SendTime msg > now \<or> expirationTimestamp \<le> now then s
            else let sourceID = (if md_GroupID msg = [] then md_SendID msg else md_GroupID msg);
                     conversationID = getConversationIDBySessionType loginUserID sourceID (md_SessionType msg);
                     key = getStateKey T conversationID (md_SendID msg) (md_SenderPlatformID msg)
                 in case ca_Get (te_state T) t key (ty_state s) of
                      Some (v, expiration) \<Rightarrow>
                        if tye_MsgTips elem \<noteq> ''yes'' then delete_state T t key s
                        else if expiration sdiv 10 ^ 6 \<ge> expirationTimestamp then s
                        else s\<lparr>ty_state := ca_Set (te_state T) t key v (i64 (i64 (expirationTimestamp - now) * 10 ^ 6)) (ty_state s)\<rparr>
                    | None \<Rightarrow>
                        if tye_MsgTips elem \<noteq> ''yes'' then s
                        else changes T t conversationID (md_SendID msg)
                               (s\<lparr>ty_state := ca_Set (te_state T) t key () (i64 (i64 (expirationTimestamp - now) * 10 ^ 6)) (ty_state s)\<rparr>))"

section \<open>The own state\<close>

definition typing_sendMsg ::
  "('q, 't, 'n) conv_env \<Rightarrow> ('q, 't, 'n) send_env \<Rightarrow> LocalConversation \<Rightarrow> bool \<Rightarrow> ('t, 'n) conv_state action" where
  "typing_sendMsg E X conversation focus s =
     (case initBasicInfo E X UserMsgType Typing zero_msg s of
        (Inl e, s1) \<Rightarrow> (Some e, s1)
      | (Inr m, s1) \<Rightarrow>
          (let m1 = m\<lparr>ms_RecvID := cv_UserID conversation, ms_GroupID := cv_GroupID conversation,
                      ms_SessionType := cv_ConversationType conversation,
                      ms_Content := enc_TypingElem (cx_codec E) (Some \<lparr>tye_MsgTips = (if focus then ''yes'' else ''no'')\<rparr>)\<rparr>;
               w = (ws_message (cx_codec E) m1 None (online_options []) [])\<lparr>md_SendTime := ms_SendTime m1,
                     md_AttachedInfo := ms_AttachedInfo m1\<rparr>
           in case on_net (sx_SendMsg X w) s1 of (Inl e, s2) \<Rightarrow> (Some e, s2) | (Inr _, s2) \<Rightarrow> (None, s2)))"

text \<open>What is remembered of the last message of a conversation, and whether another one is due.\<close>

definition send_due :: "('c, 'd) typing_env \<Rightarrow> int \<Rightarrow> string \<Rightarrow> bool \<Rightarrow> 'c \<Rightarrow> bool" where
  "send_due T t key focus c =
     (case ca_Get (te_send T) t key c of
        None \<Rightarrow> focus
      | Some (code, _) \<Rightarrow> code \<noteq> (if focus then stateCodeSuccess else stateCodeEnd))"

definition ChangeInputStates ::
  "('c, 'd) typing_env \<Rightarrow> ('q, 't, 'n) conv_env \<Rightarrow> ('q, 't, 'n) send_env \<Rightarrow> int \<Rightarrow> string \<Rightarrow> bool \<Rightarrow>
   (('t, 'n) conv_state \<times> ('c, 'd) typing) action" where
  "ChangeInputStates T E X t conversationID focus = (\<lambda>(s, y).
     if conversationID = [] then (Some ErrArgs, s, y)
     else case on_db (GetConversation (cx_conv E) conversationID) s of
        (Inl e, s1) \<Rightarrow> (Some e, s1, y)
      | (Inr conversation, s1) \<Rightarrow>
          let key = cv_ConversationID conversation in
          if \<not> send_due T t key focus (ty_send y) then (None, s1, y)
          else let y1 = y\<lparr>ty_send := ca_Set (te_send T) t key (if focus then stateCodeSuccess else stateCodeEnd) inputStatesSendTime (ty_send y)\<rparr>
               in case typing_sendMsg E X conversation focus s1 of
                    (None, s2) \<Rightarrow> (None, s2, y1)
                  | (Some e, s2) \<Rightarrow> (Some e, s2, y1\<lparr>ty_send := snd (ca_Delete (te_send T) key (ty_send y1))\<rparr>))"

end
