(* ===== verification/TypingProps.thy ===== *)
theory TypingProps
  imports Typing
begin

text \<open>
  The cache library as a locale, the invariant of who is shown as typing, and its proof for every order of messages and
  clean-ups.
\<close>

section \<open>The cache\<close>

text \<open>
  \<open>items\<close> is what is stored, with the time until which it can be read. An item that has expired stays until it is deleted or the
  cache cleans up.
\<close>

locale expiring_cache =
  fixes C :: "('c, 'v) cache_ops" and items :: "'c \<Rightarrow> string \<Rightarrow> ('v \<times> int) option"
  assumes Get: "ca_Get C t k c = (case items c k of None \<Rightarrow> None | Some (v, e) \<Rightarrow> if t \<le> e then Some (v, e) else None)"
    and Set: "0 < d \<Longrightarrow> items (ca_Set C t k v d c) = (items c)(k \<mapsto> (v, t + d))"
    and Delete: "ca_Delete C k c = (found, c') \<Longrightarrow> found = (items c k \<noteq> None) \<and> items c' = (items c)(k := None)"
    and DeleteExpired: "ca_DeleteExpired C t c = (ks, c') \<Longrightarrow> set ks = {k. \<exists>v e. items c k = Some (v, e) \<and> e < t} \<and>
          items c' = (\<lambda>k. if k \<in> set ks then None else items c k)"
begin

lemma Get_Some: "ca_Get C t k c = Some (v, e) \<longleftrightarrow> items c k = Some (v, e) \<and> t \<le> e"
  by (auto simp: Get split: option.splits)

lemma Get_None: "ca_Get C t k c = None \<longleftrightarrow> (\<forall>v e. items c k = Some (v, e) \<longrightarrow> e < t)"
  by (auto simp: Get split: option.splits)

end

section \<open>What the listener has been told\<close>

definition last_report :: "string \<Rightarrow> string \<Rightarrow> InputStatesChangedData list \<Rightarrow> int list" where
  "last_report c u events =
     (case filter (\<lambda>e. isc_ConversationID e = c \<and> isc_UserID e = u) (rev events) of [] \<Rightarrow> [] | e # _ \<Rightarrow> isc_PlatformIDs e)"

lemma last_report_changes:
  "last_report c' u' (ty_events (changes T t c u s)) =
     (if c' = c \<and> u' = u then GetInputStates T t c u s else last_report c' u' (ty_events s))"
  by (simp add: changes_def last_report_def)

lemma changes_state [simp]: "ty_state (changes T t c u s) = ty_state s"
  by (simp add: changes_def)

lemma GetInputStates_cong: "ty_state s' = ty_state s \<Longrightarrow> GetInputStates T t c u s' = GetInputStates T t c u s"
  by (simp add: GetInputStates_def)

locale typing_cache = expiring_cache "te_state T" items
  for T :: "('c, 'd) typing_env" and items :: "'d \<Rightarrow> string \<Rightarrow> (unit \<times> int) option" +
  assumes codec: "te_decode T (te_encode T k) = Some k"
begin

lemma key_eq [simp]: "getStateKey T c u p = getStateKey T c' u' p' \<longleftrightarrow> c = c' \<and> u = u' \<and> p = p'"
proof
  assume "getStateKey T c u p = getStateKey T c' u' p'"
  then have "te_decode T (getStateKey T c u p) = te_decode T (getStateKey T c' u' p')" by simp
  then show "c = c' \<and> u = u' \<and> p = p'" by (simp add: getStateKey_def codec)
qed simp

lemma evicted_key [simp]: "evicted T t (getStateKey T c u p) s = changes T t c u s"
  by (simp add: evicted_def getStateKey_def codec)

lemma states_filter: "GetInputStates T t c u s =
    filter (\<lambda>p. \<exists>e. items (ty_state s) (getStateKey T c u p) = Some ((), e) \<and> t \<le> e) platformIDs"
  unfolding GetInputStates_def by (rule filter_cong) (auto simp: Get split: option.splits)

lemma live: "p \<in> set (GetInputStates T t c u s) \<longleftrightarrow>
    p \<in> set platformIDs \<and> (\<exists>e. items (ty_state s) (getStateKey T c u p) = Some ((), e) \<and> t \<le> e)"
  by (simp add: states_filter)

lemma states_own: "filter (\<lambda>p. p \<in> set (GetInputStates T t c u s)) platformIDs = GetInputStates T t c u s"
  unfolding live by (simp add: states_filter cong: filter_cong)

definition stored :: "string \<Rightarrow> string \<Rightarrow> ('c, 'd) typing \<Rightarrow> int set" where
  "stored c u s = {p. items (ty_state s) (getStateKey T c u p) \<noteq> None}"

definition reported :: "int \<Rightarrow> string \<Rightarrow> string \<Rightarrow> ('c, 'd) typing \<Rightarrow> bool" where
  "reported t c u s \<longleftrightarrow> (let r = last_report c u (ty_events s) in
     set (GetInputStates T t c u s) \<subseteq> set r \<and> set r \<subseteq> stored c u s \<and> r = filter (\<lambda>p. p \<in> set r) platformIDs)"

definition good_items :: "string \<Rightarrow> int \<Rightarrow> ('c, 'd) typing \<Rightarrow> bool" where
  "good_items loginUserID t s \<longleftrightarrow> (\<forall>k v e. items (ty_state s) k = Some (v, e) \<longrightarrow>
     (\<exists>c u p. k = getStateKey T c u p \<and> u \<noteq> loginUserID \<and> p \<in> set platformIDs) \<and> e \<le> t + inputStatesSendTime)"

definition told :: "string \<Rightarrow> int \<Rightarrow> ('c, 'd) typing \<Rightarrow> bool" where
  "told loginUserID t s \<longleftrightarrow> good_items loginUserID t s \<and> (\<forall>c u. reported t c u s)"

lemma told_later: "told loginUserID t s \<Longrightarrow> t \<le> t' \<Longrightarrow> told loginUserID t' s"
  by (fastforce simp: told_def good_items_def reported_def Let_def live)

lemma reported_now: "last_report c u (ty_events s) = GetInputStates T t c u s \<Longrightarrow> reported t c u s"
  by (simp add: reported_def states_own) (auto simp: live stored_def)

text \<open>A change of the items of one user is covered by a report about the user.\<close>

lemma reported_same:
  assumes "reported t c u s" and "last_report c u (ty_events s') = last_report c u (ty_events s)"
    and "\<And>p. items (ty_state s') (getStateKey T c u p) = items (ty_state s) (getStateKey T c u p)"
  shows "reported t c u s'"
proof -
  have "set (GetInputStates T t c u s') = set (GetInputStates T t c u s)" using assms(3) by (auto simp: live)
  with assms show ?thesis by (simp add: reported_def stored_def Let_def)
qed

lemma told_changes:
  assumes "good_items loginUserID t s'" and "\<And>c' u'. c' \<noteq> c \<or> u' \<noteq> u \<Longrightarrow> reported t c' u' s'"
  shows "told loginUserID t (changes T t c u s')"
proof -
  have "reported t c' u' (changes T t c u s')" for c' u'
  proof (cases "c' = c \<and> u' = u")
    case True then show ?thesis
      using GetInputStates_cong [OF changes_state, of T t c u T t c u s'] by (intro reported_now) (simp add: last_report_changes)
  next
    case False then show ?thesis by (intro reported_same [OF assms(2)]) (auto simp: last_report_changes)
  qed
  with assms(1) show ?thesis by (simp add: told_def good_items_def)
qed

lemma evicted_state [simp]: "ty_state (fold (evicted T t) ks s) = ty_state s"
  by (induction ks arbitrary: s) (simp_all add: evicted_def split: option.split)

lemma sweep_reports:
  assumes "\<forall>k \<in> set ks. \<exists>c u p. k = getStateKey T c u p"
  shows "last_report c u (ty_events (fold (evicted T t) ks s)) =
           (if \<exists>p. getStateKey T c u p \<in> set ks then GetInputStates T t c u s else last_report c u (ty_events s))"
  using assms
proof (induction ks arbitrary: s)
  case (Cons k ks)
  then obtain c' u' p' where k: "k = getStateKey T c' u' p'" by auto
  have "\<forall>k \<in> set ks. \<exists>c u p. k = getStateKey T c u p" using Cons.prems by simp
  note rest = Cons.IH [OF this, of "changes T t c' u' s"]
  have same: "GetInputStates T t c u (changes T t c' u' s) = GetInputStates T t c u s" for c u
    by (rule GetInputStates_cong) simp
  show ?case unfolding k fold_Cons o_apply evicted_key rest same last_report_changes by auto
qed simp

lemma told_sweep:
  assumes "told loginUserID t s"
  shows "told loginUserID t (sweep_states T t s)"
    and "last_report c u (ty_events (sweep_states T t s)) = GetInputStates T t c u (sweep_states T t s)"
proof -
  obtain ks d where del: "ca_DeleteExpired (te_state T) t (ty_state s) = (ks, d)" by fastforce
  note gone = DeleteExpired [OF del]
  let ?s = "s\<lparr>ty_state := d\<rparr>"
  have run: "sweep_states T t s = fold (evicted T t) ks ?s" by (simp add: sweep_states_def del)
  have keys: "\<forall>k \<in> set ks. \<exists>c u p. k = getStateKey T c u p"
  proof
    fix k assume "k \<in> set ks"
    then obtain v e where "items (ty_state s) k = Some (v, e)" using gone by blast
    then show "\<exists>c u p. k = getStateKey T c u p" using assms unfolding told_def good_items_def by blast
  qed
  have good: "good_items loginUserID t ?s" using assms gone by (auto simp: told_def good_items_def split: if_splits)
  have "last_report c u (ty_events (sweep_states T t s)) = GetInputStates T t c u (sweep_states T t s)" for c u
  proof (cases "\<exists>p. getStateKey T c u p \<in> set ks")
    case True then show ?thesis
      using sweep_reports [OF keys] by (simp add: run GetInputStates_cong [OF evicted_state])
  next
    case False
    let ?r = "last_report c u (ty_events s)"
    have same: "items d (getStateKey T c u p) = items (ty_state s) (getStateKey T c u p)" for p
      using False gone by (metis (lifting))
    have stored: "stored c u s = {p. \<exists>e. items (ty_state s) (getStateKey T c u p) = Some ((), e) \<and> t \<le> e}"
    proof (intro set_eqI iffI; clarsimp simp: stored_def)
      fix p e assume e: "items (ty_state s) (getStateKey T c u p) = Some ((), e)"
      have "getStateKey T c u p \<notin> {k. \<exists>v e. items (ty_state s) k = Some (v, e) \<and> e < t}" using False gone by blast
      with e show "t \<le> e" by simp
    qed
    have rep: "set (GetInputStates T t c u s) \<subseteq> set ?r" "set ?r \<subseteq> stored c u s" "?r = filter (\<lambda>p. p \<in> set ?r) platformIDs"
      using assms by (simp_all add: told_def reported_def Let_def)
    have "set (GetInputStates T t c u s) = set platformIDs \<inter> stored c u s"
      "set (GetInputStates T t c u ?s) = set platformIDs \<inter> stored c u s"
      by (auto simp: live stored same)
    moreover have "set ?r \<subseteq> set platformIDs" using rep(3) by (metis filter_is_subset)
    ultimately have "set ?r = set (GetInputStates T t c u ?s)" using rep(1,2) by blast
    then have "?r = GetInputStates T t c u ?s" using states_own [of t c u ?s] rep(3) by simp
    then show ?thesis using sweep_reports [OF keys] False by (simp add: run GetInputStates_cong [OF evicted_state])
  qed
  note told = this
  show "last_report c u (ty_events (sweep_states T t s)) = GetInputStates T t c u (sweep_states T t s)" by (rule told)
  show "told loginUserID t (sweep_states T t s)"
    using good reported_now [OF told] by (simp add: told_def good_items_def run)
qed

lemma told_delete:
  assumes "told loginUserID t s" and "items (ty_state s) (getStateKey T c u p) \<noteq> None"
  shows "told loginUserID t (delete_state T t (getStateKey T c u p) s)"
proof -
  obtain found d where del: "ca_Delete (te_state T) (getStateKey T c u p) (ty_state s) = (found, d)" by fastforce
  note gone = Delete [OF del]
  have "delete_state T t (getStateKey T c u p) s = changes T t c u (s\<lparr>ty_state := d\<rparr>)"
    using gone assms(2) by (simp add: delete_state_def del)
  moreover have "told loginUserID t (changes T t c u (s\<lparr>ty_state := d\<rparr>))"
  proof (rule told_changes)
    show "good_items loginUserID t (s\<lparr>ty_state := d\<rparr>)" using assms(1) gone by (auto simp: told_def good_items_def split: if_splits)
    show "reported t c' u' (s\<lparr>ty_state := d\<rparr>)" if "c' \<noteq> c \<or> u' \<noteq> u" for c' u'
      by (rule reported_same [of t c' u' s]) (use that assms(1) gone in \<open>auto simp: told_def\<close>)
  qed
  ultimately show ?thesis by simp
qed

lemma told_set:
  assumes "told loginUserID t s" and "0 < d" and "d \<le> inputStatesSendTime" and "u \<noteq> loginUserID" and "p \<in> set platformIDs"
    and s': "s' = s\<lparr>ty_state := ca_Set (te_state T) t (getStateKey T c u p) () d (ty_state s)\<rparr>"
  shows "good_items loginUserID t s'" and "c' \<noteq> c \<or> u' \<noteq> u \<Longrightarrow> reported t c' u' s'"
proof -
  have items: "items (ty_state s') = (items (ty_state s))(getStateKey T c u p \<mapsto> ((), t + d))"
    using assms(2) by (simp add: s' Set)
  show "good_items loginUserID t s'"
    unfolding good_items_def items using assms(1,3-5) by (auto simp: told_def good_items_def)
  show "reported t c' u' s'" if "c' \<noteq> c \<or> u' \<noteq> u"
    by (rule reported_same [of t c' u' s]) (use that assms(1) items in \<open>auto simp: told_def s'\<close>)
qed

lemma told_refresh:
  assumes told: "told loginUserID t s" and old: "items (ty_state s) (getStateKey T c u p) = Some ((), e)" "t \<le> e" and d: "0 < d" "d \<le> inputStatesSendTime"
    and s': "s' = s\<lparr>ty_state := ca_Set (te_state T) t (getStateKey T c u p) () d (ty_state s)\<rparr>"
  shows "told loginUserID t s'"
proof -
  have "u \<noteq> loginUserID \<and> p \<in> set platformIDs" using told old by (fastforce simp: told_def good_items_def)
  note set = told_set [OF told d conjunct1 [OF this] conjunct2 [OF this] s']
  have items: "items (ty_state s') = (items (ty_state s))(getStateKey T c u p \<mapsto> ((), t + d))" using d by (simp add: s' Set)
  have "set (GetInputStates T t c u s') = set (GetInputStates T t c u s)" "stored c u s' = stored c u s"
    using old d by (auto simp: live items stored_def split: if_splits)
  then have "reported t c u s'" using told by (simp add: told_def reported_def Let_def s')
  with set show ?thesis by (fastforce simp: told_def)
qed

lemma told_onNewMsg:
  assumes told: "told loginUserID t s" and t: "0 \<le> t" "t < 2 ^ 63" and sent: "is_i64 (md_SendTime msg)"
  shows "told loginUserID t (onNewMsg T J loginUserID t msg s)"
proof -
  let ?now = "t sdiv 10 ^ 6" and ?exp = "i64 (md_SendTime msg + inputStatesSendTime sdiv 10 ^ 6)"
  let ?d = "i64 (i64 (?exp - ?now) * 10 ^ 6)"
  have d: "0 < ?d \<and> ?d \<le> inputStatesSendTime" if "md_SendTime msg \<le> ?now" "?now < ?exp"
  proof -
    have now: "?now = t div 10 ^ 6" using t by (simp add: sdiv_nonneg)
    then have "?now \<le> 2 ^ 63 div 10 ^ 6" using t zdiv_mono1 [of t "2 ^ 63" "10 ^ 6"] by simp
    then have "?exp = md_SendTime msg + 10000"
      using that(1) sent by (simp add: i64_simps is_i64_def inputStatesSendTime_def sdiv_nonneg)
    then show ?thesis using that by (simp add: i64_simps is_i64_def inputStatesSendTime_def)
  qed
  let ?c = "getConversationIDBySessionType loginUserID (if md_GroupID msg = [] then md_SendID msg else md_GroupID msg) (md_SessionType msg)"
  let ?u = "md_SendID msg" and ?p = "md_SenderPlatformID msg"
  let ?s = "s\<lparr>ty_state := ca_Set (te_state T) t (getStateKey T ?c ?u ?p) () ?d (ty_state s)\<rparr>"
  obtain err elem where elem: "dec_TypingElem J (md_Content msg) = (err, elem)" by fastforce
  show ?thesis
  proof (cases "err = None \<and> ?u \<noteq> loginUserID \<and> ?p \<in> set platformIDs \<and> md_SendTime msg \<le> ?now \<and> ?now < ?exp")
    case False then show ?thesis using told by (auto simp: onNewMsg_def elem Let_def split: option.splits)
  next
    case here: True
    then have d: "0 < ?d" "?d \<le> inputStatesSendTime" using d by blast+
    show ?thesis
    proof (cases "ca_Get (te_state T) t (getStateKey T ?c ?u ?p) (ty_state s)")
      case None
      have "told loginUserID t (changes T t ?c ?u ?s)" using told_set [OF told d _ _ refl, of ?u ?p] here by (intro told_changes) auto
      with here None told show ?thesis by (simp add: onNewMsg_def elem Let_def)
    next
      case (Some ve)
      then obtain e where e: "ve = ((), e)" by (cases ve) auto
      with Some have old: "items (ty_state s) (getStateKey T ?c ?u ?p) = Some ((), e)" "t \<le> e" by (simp_all add: Get_Some)
      have "told loginUserID t ?s" by (rule told_refresh [OF told old d refl])
      moreover have "told loginUserID t (delete_state T t (getStateKey T ?c ?u ?p) s)" using told_delete [OF told] old by blast
      ultimately show ?thesis using here Some e told by (simp add: onNewMsg_def elem Let_def)
    qed
  qed
qed

end

section \<open>Every order of messages and clean-ups\<close>

text \<open>The states that are reached from \<open>s0\<close>, with the time of the last step. The clock never goes back.\<close>

inductive typing_reach ::
  "('c, 'd) typing_env \<Rightarrow> 'q json_codec \<Rightarrow> string \<Rightarrow> ('c, 'd) typing \<Rightarrow> int \<Rightarrow> ('c, 'd) typing \<Rightarrow> bool"
  for T J loginUserID s0 where
  start: "typing_reach T J loginUserID s0 0 s0"
| received: "typing_reach T J loginUserID s0 t s \<Longrightarrow> t \<le> t' \<Longrightarrow> t' < 2 ^ 63 \<Longrightarrow> is_i64 (md_SendTime msg) \<Longrightarrow>
    typing_reach T J loginUserID s0 t' (onNewMsg T J loginUserID t' msg s)"
| swept: "typing_reach T J loginUserID s0 t s \<Longrightarrow> t \<le> t' \<Longrightarrow> typing_reach T J loginUserID s0 t' (sweep_states T t' s)"
| changed: "typing_reach T J loginUserID s0 t s \<Longrightarrow> typing_reach T J loginUserID s0 t (s\<lparr>ty_send := c\<rparr>)"

lemma reach_time: "typing_reach T J loginUserID s0 t s \<Longrightarrow> 0 \<le> t"
  by (induction rule: typing_reach.induct) auto

context typing_cache
begin

lemma told_reach:
  assumes "typing_reach T J loginUserID s0 t s" and "\<forall>k. items (ty_state s0) k = None" and "ty_events s0 = []"
  shows "told loginUserID t s"
  using assms
proof (induction rule: typing_reach.induct)
  case start
  then show ?case by (simp add: told_def good_items_def reported_def last_report_def Let_def states_filter)
next
  case (received t s t' msg)
  then have "told loginUserID t' s" by (blast intro: told_later)
  then show ?case using received.hyps reach_time [OF received.hyps(1)] by (intro told_onNewMsg) auto
next
  case (swept t s t')
  then have "told loginUserID t' s" by (blast intro: told_later)
  then show ?case by (rule told_sweep)
next
  case (changed t s c)
  then show ?case by (simp add: told_def good_items_def reported_def stored_def GetInputStates_def Let_def)
qed

lemma sweep_live: "GetInputStates T t c u (sweep_states T t s) = GetInputStates T t c u s"
proof -
  obtain ks d where del: "ca_DeleteExpired (te_state T) t (ty_state s) = (ks, d)" by fastforce
  have "ty_state (sweep_states T t s) = d" by (simp add: sweep_states_def del)
  then show ?thesis unfolding states_filter using DeleteExpired [OF del] by (auto intro!: filter_cong split: if_splits)
qed

end

section \<open>A cache\<close>

definition item_cache :: "((string, 'v \<times> int) gomap, 'v) cache_ops" where
  "item_cache = \<lparr>ca_Get = (\<lambda>t k c. case gget c k of None \<Rightarrow> None | Some (v, e) \<Rightarrow> if t \<le> e then Some (v, e) else None),
     ca_Set = (\<lambda>t k v d c. gput k (v, t + d) c), ca_Delete = (\<lambda>k c. (gget c k \<noteq> None, gdel k c)),
     ca_DeleteExpired = (\<lambda>t c.
       let ks = filter (\<lambda>k. case gget c k of None \<Rightarrow> False | Some (v, e) \<Rightarrow> e < t) (remdups (map fst c)) in (ks, fold gdel ks c))\<rparr>"

lemma gget_fold_gdel: "gget (fold gdel ks c) k = (if k \<in> set ks then None else gget c k)"
  by (induction ks arbitrary: c) (auto simp: gomap_simps)

fun quote_text :: "string \<Rightarrow> string" where
  "quote_text [] = ''e''"
| "quote_text (x # xs) = CHR ''c'' # x # quote_text xs"

fun read_text :: "string \<Rightarrow> (string \<times> string) option" where
  "read_text (m # rest) =
     (if m = CHR ''e'' then Some ([], rest)
      else case rest of [] \<Rightarrow> None | x # rest' \<Rightarrow> (case read_text rest' of None \<Rightarrow> None | Some (xs, r) \<Rightarrow> Some (x # xs, r)))"
| "read_text [] = None"

lemma read_quoted [simp]: "read_text (quote_text s @ r) = Some (s, r)"
  by (induction s) auto

definition sample_typing :: "((string, int \<times> int) gomap, (string, unit \<times> int) gomap) typing_env" where
  "sample_typing = \<lparr>te_send = item_cache, te_state = item_cache,
     te_encode = (\<lambda>k. quote_text (isk_ConversationID k) @ quote_text (isk_UserID k) @
       (if isk_PlatformID k < 0 then ''m'' else ''p'') @ replicate (nat \<bar>isk_PlatformID k\<bar>) CHR ''1''),
     te_decode = (\<lambda>x. case read_text x of None \<Rightarrow> None | Some (c, r) \<Rightarrow> (case read_text r of None \<Rightarrow> None | Some (u, r') \<Rightarrow>
       Some \<lparr>isk_ConversationID = c, isk_UserID = u, isk_PlatformID = (if hd r' = CHR ''m'' then - int (length (tl r')) else int (length (tl r')))\<rparr>))\<rparr>"

interpretation tc: typing_cache sample_typing gget
proof unfold_locales
  show "ca_Get (te_state sample_typing) t k c = (case gget c k of None \<Rightarrow> None | Some (v, e) \<Rightarrow> if t \<le> e then Some (v, e) else None)" for t k c
    by (simp add: sample_typing_def item_cache_def)
  show "gget (ca_Set (te_state sample_typing) t k v d c) = (gget c)(k \<mapsto> (v, t + d))" if "0 < d" for d t k v c
    by (auto simp: sample_typing_def item_cache_def gomap_simps)
  show "found = (gget c k \<noteq> None) \<and> gget c' = (gget c)(k := None)"
    if "ca_Delete (te_state sample_typing) k c = (found, c')" for k c found c'
    using that by (auto simp: sample_typing_def item_cache_def gomap_simps)
  show "set ks = {k. \<exists>v e. gget c k = Some (v, e) \<and> e < t} \<and> gget c' = (\<lambda>k. if k \<in> set ks then None else gget c k)"
    if "ca_DeleteExpired (te_state sample_typing) t c = (ks, c')" for t c ks c'
    using that by (auto simp: sample_typing_def item_cache_def Let_def gget_fold_gdel split: option.splits dest: map_of_SomeD intro!: image_eqI [where x = "(_, (), _)"])
  show "te_decode sample_typing (te_encode sample_typing k) = Some k" for k
    by (simp add: sample_typing_def)
qed

section \<open>The property\<close>

text \<open>
  C10: who is shown as typing. In every order of messages and clean-ups, the platforms on which a user is shown as typing have all
  been reported to the listener; after a clean-up the last report is what is shown. Nobody is shown for longer than ten seconds after
  the last step, and the login user never.
\<close>
theorem typing_reported:
  assumes "typing_cache T items" and "typing_reach T J loginUserID s0 t s"
    and "\<forall>k. items (ty_state s0) k = None" and "ty_events s0 = []"
  shows "set (GetInputStates T t conversationID userID s) \<subseteq> set (last_report conversationID userID (ty_events s)) \<and>
     last_report conversationID userID (ty_events (sweep_states T t s)) = GetInputStates T t conversationID userID s \<and>
     GetInputStates T t conversationID loginUserID s = [] \<and>
     GetInputStates T (t + inputStatesSendTime + 1) conversationID userID s = []"
proof -
  note told = typing_cache.told_reach [OF assms]
  have good: "typing_cache.good_items T items loginUserID t s" using told typing_cache.told_def [OF assms(1)] by blast
  have "GetInputStates T t conversationID loginUserID s = []" "GetInputStates T (t + inputStatesSendTime + 1) conversationID userID s = []"
    using good unfolding typing_cache.good_items_def [OF assms(1)] typing_cache.states_filter [OF assms(1)] filter_empty_conv
    by (metis typing_cache.key_eq [OF assms(1)], fastforce)
  with told typing_cache.told_sweep(2) [OF assms(1) told] typing_cache.sweep_live [OF assms(1)] show ?thesis
    by (simp add: typing_cache.told_def [OF assms(1)] typing_cache.reported_def [OF assms(1)] Let_def)
qed


definition yes_message :: MsgData where
  "yes_message = \<lparr>md_SendID = ''you'', md_RecvID = ''me'', md_GroupID = [], md_ClientMsgID = [], md_ServerMsgID = [],
     md_SenderPlatformID = 1, md_SenderNickname = [], md_SenderFaceURL = [], md_SessionType = SingleChatType, md_MsgFrom = 0,
     md_ContentType = 0, md_Content = [], md_Seq = 0, md_SendTime = 0, md_CreateTime = 0, md_Status = 0, md_IsRead = False,
     md_Options = [], md_OfflinePushInfo = None, md_AttachedInfo = [], md_Ex = []\<rparr>"

theorem typing_reported_witness:
  "\<forall>J :: 'q json_codec. let s = onNewMsg sample_typing (J\<lparr>dec_TypingElem := \<lambda>_. (None, \<lparr>tye_MsgTips = ''yes''\<rparr>)\<rparr>) ''me'' 0 yes_message
        \<lparr>ty_send = [], ty_state = [], ty_events = []\<rparr> in
     GetInputStates sample_typing 0 ''si_me_you'' ''you'' s = [1] \<and>
     set (GetInputStates sample_typing 0 ''si_me_you'' ''you'' s) \<subseteq> set (last_report ''si_me_you'' ''you'' (ty_events s)) \<and>
     GetInputStates sample_typing (10 * 10 ^ 9 + 1) ''si_me_you'' ''you'' s = []"
proof
  fix J :: "'q json_codec"
  let ?J = "J\<lparr>dec_TypingElem := \<lambda>_. (None, \<lparr>tye_MsgTips = ''yes''\<rparr>)\<rparr>" and ?start = "\<lparr>ty_send = [], ty_state = [], ty_events = []\<rparr>"
  let ?s = "onNewMsg sample_typing ?J ''me'' 0 yes_message ?start"
  have "typing_reach sample_typing ?J ''me'' ?start 0 ?s"
    by (rule typing_reach.received [OF typing_reach.start]) (simp_all add: yes_message_def is_i64_def)
  from typing_reported [OF tc.typing_cache_axioms this, of "''si_me_you''" "''you''"]
  have "set (GetInputStates sample_typing 0 ''si_me_you'' ''you'' ?s) \<subseteq> set (last_report ''si_me_you'' ''you'' (ty_events ?s))"
    "GetInputStates sample_typing (10 * 10 ^ 9 + 1) ''si_me_you'' ''you'' ?s = []"
    by (simp_all add: inputStatesSendTime_def)
  moreover have "getConversationIDBySessionType ''me'' ''you'' SingleChatType = ''si_me_you''"
    by (simp add: getConversationIDBySessionType_def join_underscore_def)
  moreover have platforms: "platformIDs = [1, 2, 3, 4, 5, 6, 7, 8, 9]" by (simp add: platformIDs_def PlatformID2Name_def)
  have "?s = changes sample_typing 0 ''si_me_you'' ''you''
      (?start\<lparr>ty_state := ca_Set (te_state sample_typing) 0 (getStateKey sample_typing ''si_me_you'' ''you'' 1) () (10 * 10 ^ 9) []\<rparr>)"
    using calculation(3) by (simp add: onNewMsg_def yes_message_def platforms inputStatesSendTime_def i64_simps is_i64_def tc.Get Let_def)
  then have "GetInputStates sample_typing 0 ''si_me_you'' ''you'' ?s = [1]"
    by (simp add: tc.states_filter tc.Set platforms)
  ultimately show "let s = ?s in GetInputStates sample_typing 0 ''si_me_you'' ''you'' s = [1] \<and>
     set (GetInputStates sample_typing 0 ''si_me_you'' ''you'' s) \<subseteq> set (last_report ''si_me_you'' ''you'' (ty_events s)) \<and>
     GetInputStates sample_typing (10 * 10 ^ 9 + 1) ''si_me_you'' ''you'' s = []" by simp
qed

end
