(* ===== verification/Login.thy ===== *)
theory Login
  imports ConvMedia MsgSync LongConn
begin

text \<open>
  The life of the SDK (\<^verbatim>\<open>open_im_sdk/userRelated.go\<close>, \<^verbatim>\<open>init_login.go\<close>, \<^verbatim>\<open>apicb.go\<close>, the guards of \<^verbatim>\<open>caller.go\<close> and the opening of
  the database in \<^verbatim>\<open>pkg/db/db_init.go\<close>): initialisation, login with the recovery of messages that were being sent, logout, and the
  errors of the API that end a session. The components made at login are named by the user they are made for; their operations are
  in the other theories.
\<close>

section \<open>Messages whose sending was interrupted\<close>

definition handlerSendingMsg :: "('q, 't, 'n) conv_env \<Rightarrow> LocalSendingMessages \<Rightarrow> 't action" where
  "handlerSendingMsg E m t =
     (case GetMessage (cx_chat E) (sm_ConversationID m) (sm_ClientMsgID m) t of
        (Inl e, t1) \<Rightarrow> (Some e, t1)
      | (Inr tableMessage, t1) \<Rightarrow>
          if cl_Status tableMessage \<noteq> MsgStatusSending then (None, t1)
          else (case UpdateMessage (cx_chat E) (sm_ConversationID m)
                  (zero_chat_log\<lparr>cl_ClientMsgID := sm_ClientMsgID m, cl_Status := MsgStatusSendFailed\<rparr>) t1 of
             (Some e, t2) \<Rightarrow> (Some e, t2)
           | (None, t2) \<Rightarrow>
               (case GetConversation (cx_conv E) (sm_ConversationID m) t2 of
                  (Inl e, t3) \<Rightarrow> (Some e, t3)
                | (Inr conversation, t3) \<Rightarrow>
                    (case dec_Msg (cx_codec E) (cv_LatestMsg conversation) zero_msg of
                       (Some e, latestMsg) \<Rightarrow> (Some e, t3)
                     | (None, latestMsg) \<Rightarrow>
                         if ms_ClientMsgID latestMsg = sm_ClientMsgID m
                         then UpdateConversation (cx_conv E) (conversation\<lparr>cv_LatestMsg :=
                                enc_Msg (cx_codec E) (latestMsg\<lparr>ms_Status := MsgStatusSendFailed\<rparr>)\<rparr>) t3
                         else (None, t3)))))"

text \<open>Errors are only logged.\<close>

definition recover_message :: "('q, 't, 'n) conv_env \<Rightarrow> ('q, 't, 'n) send_env \<Rightarrow> LocalSendingMessages \<Rightarrow> 't \<Rightarrow> 't" where
  "recover_message E X m t =
     snd (DeleteSendingMessage (sx_sending X) (sm_ConversationID m) (sm_ClientMsgID m) (snd (handlerSendingMsg E m t)))"

definition checkSendingMessage :: "('q, 't, 'n) conv_env \<Rightarrow> ('q, 't, 'n) send_env \<Rightarrow> 't \<Rightarrow> 't" where
  "checkSendingMessage E X t =
     (case GetAllSendingMessages (sx_sending X) t of
        (Inl e, t1) \<Rightarrow> t1
      | (Inr sendingMessages, t1) \<Rightarrow> fold (recover_message E X) sendingMessages t1)"

section \<open>The manager\<close>

definition LogoutStatus :: int where "LogoutStatus = 1"
definition Logging :: int where "Logging = 2"
definition Logged :: int where "Logged = 3"
definition LogoutTips :: string where "LogoutTips = ''js sdk socket close''"

definition LoginRepeatError :: int where "LoginRepeatError = 10102"
definition ResourceLoadNotCompleteError :: int where "ResourceLoadNotCompleteError = 10004"
definition ErrLoginRepeat :: go_error where "ErrLoginRepeat = CodeError LoginRepeatError ''LoginRepeatError''"
definition ErrResourceLoad :: go_error where
  "ErrResourceLoad = CodeError ResourceLoadNotCompleteError ''ResourceLoadNotCompleteError''"

record IMConfig =
  ic_PlatformID :: int
  ic_ApiAddr :: string
  ic_WsAddr :: string
  ic_DataDir :: string
  ic_LogLevel :: int

record GlobalConfig = IMConfig +
  gc_UserID :: string
  gc_Token :: string

text \<open>The database is nil, or its connection is, before the first login; a closed one is still there.\<close>

datatype 't db_handle = NoDb | OpenDb 't | ClosedDb 't

record apiErrCallback =
  tokenExpiredState :: bool
  kickedOfflineState :: bool

datatype conn_event = OnUserTokenExpired | OnKickedOffline

text \<open>
  \<open>lm_components\<close> is the user the components were made for, \<open>lm_ctx\<close> the number of the present context and \<open>lm_cancelled\<close> those
  that have been cancelled; \<open>lm_connStatus\<close> and \<open>lm_background\<close> belong to the long connection.
\<close>

record ('t, 'n) login_mgr =
  lm_info :: "GlobalConfig option"
  lm_loginStatus :: int
  lm_token :: string
  lm_loginUserID :: string
  lm_db :: "'t db_handle"
  lm_components :: "string option"
  lm_msgSyncer :: "('t, 'n) msg_syncer option"
  lm_conversationCh :: "chan option"
  lm_heartbeatCmdCh :: "chan option"
  lm_pushMsgAndMaxSeqCh :: "chan option"
  lm_loginMgrCh :: "chan option"
  lm_apiErr :: apiErrCallback
  lm_ctx :: nat
  lm_cancelled :: "nat list"
  lm_connStatus :: int
  lm_background :: bool
  lm_net :: 'n
  lm_events :: "conn_event list"

text \<open>
  \<open>le_config\<close> reads the configuration; \<open>le_open\<close> opens and migrates the database of a user: an error, and the connection if there is
  one; \<open>le_text\<close> is the text of an error; the codes of the API errors belong to the tools library; \<open>le_room\<close> says how the receivers of
  the channels keep up.
\<close>

record ('q, 't, 'n) login_env =
  le_conv :: "('q, 't, 'n) conv_env"
  le_send :: "('q, 't, 'n) send_env"
  le_sync :: "('t, 'n) sync_env"
  le_config :: "string \<Rightarrow> IMConfig option"
  le_open :: "string \<Rightarrow> string \<Rightarrow> 'n \<Rightarrow> (go_error option \<times> 't option) \<times> 'n"
  le_text :: "go_error \<Rightarrow> string"
  le_DelToken :: "string \<Rightarrow> int \<Rightarrow> 'n \<Rightarrow> go_error option \<times> 'n"
  le_SetBackground :: "string \<Rightarrow> bool \<Rightarrow> 'n \<Rightarrow> go_error option \<times> 'n"
  le_expired_codes :: "int list"
  le_kicked_code :: int
  le_room :: "bool list"

text \<open>
  A call returns, panics with the state it has got to, or panics in a goroutine of its own, which ends the process.
\<close>

datatype 's outcome = Returned "go_error option" 's | Panics 's | Crashes

definition make_cmd_chan :: "('q, 't, 'n) login_env \<Rightarrow> chan option" where
  "make_cmd_chan E = Some \<lparr>ch_sent = [], ch_room = le_room E\<rparr>"

definition initResources :: "('q, 't, 'n) login_env \<Rightarrow> ('t, 'n) login_mgr \<Rightarrow> ('t, 'n) login_mgr" where
  "initResources E u = u\<lparr>lm_ctx := Suc (lm_ctx u), lm_conversationCh := make_cmd_chan E, lm_heartbeatCmdCh := make_cmd_chan E,
     lm_pushMsgAndMaxSeqCh := make_cmd_chan E, lm_loginMgrCh := make_cmd_chan E, lm_connStatus := DefaultNotConnect, lm_background := False,
     lm_apiErr := \<lparr>tokenExpiredState = False, kickedOfflineState = False\<rparr>, lm_loginStatus := LogoutStatus\<rparr>"

definition new_mgr :: "'n \<Rightarrow> ('t, 'n) login_mgr" where
  "new_mgr n = \<lparr>lm_info = None, lm_loginStatus = 0, lm_token = [], lm_loginUserID = [], lm_db = NoDb, lm_components = None,
     lm_msgSyncer = None, lm_conversationCh = None, lm_heartbeatCmdCh = None, lm_pushMsgAndMaxSeqCh = None, lm_loginMgrCh = None,
     lm_apiErr = \<lparr>tokenExpiredState = False, kickedOfflineState = False\<rparr>, lm_ctx = 0, lm_cancelled = [],
     lm_connStatus = DefaultNotConnect, lm_background = False, lm_net = n, lm_events = []\<rparr>"

definition mgr_InitSDK :: "('q, 't, 'n) login_env \<Rightarrow> IMConfig \<Rightarrow> ('t, 'n) login_mgr \<Rightarrow> ('t, 'n) login_mgr" where
  "mgr_InitSDK E config u = initResources E (u\<lparr>lm_info := Some (IMConfig.extend config \<lparr>gc_UserID = [], gc_Token = []\<rparr>)\<rparr>)"

section \<open>Login and logout\<close>

definition NewDataBase ::
  "('q, 't, 'n) login_env \<Rightarrow> string \<Rightarrow> string \<Rightarrow> 'n \<Rightarrow> (go_error option \<times> 't option) \<times> 'n" where
  "NewDataBase E loginUserID dbDir n =
     (case (if loginUserID = [] then ((Some (GoError ''no uid''), None), n) else le_open E loginUserID dbDir n) of
        ((e, t), n') \<Rightarrow> ((wrap_err e (''initDB failed '' @ dbDir), t), n'))"

definition db_of :: "'t option \<Rightarrow> 't db_handle" where
  "db_of c = (case c of None \<Rightarrow> NoDb | Some t \<Rightarrow> OpenDb t)"

definition login :: "('q, 't, 'n) login_env \<Rightarrow> string \<Rightarrow> string \<Rightarrow> ('t, 'n) login_mgr \<Rightarrow> ('t, 'n) login_mgr outcome" where
  "login E userID token u =
     (if lm_loginStatus u = Logged then Returned (Some ErrLoginRepeat) u
      else case lm_info u of
        None \<Rightarrow> Panics (u\<lparr>lm_loginStatus := Logging\<rparr>)
      | Some info \<Rightarrow>
          let u1 = u\<lparr>lm_loginStatus := Logging, lm_info := Some (info\<lparr>gc_UserID := userID, gc_Token := token\<rparr>), lm_token := token,
                      lm_loginUserID := userID\<rparr>
          in case NewDataBase E userID (ic_DataDir info) (lm_net u1) of
               ((Some e, c), n) \<Rightarrow> Returned (Some (Wrapped ErrSdkInternal (''init database '' @ le_text E e))) (u1\<lparr>lm_db := db_of c, lm_net := n\<rparr>)
             | ((None, None), n) \<Rightarrow> Panics (u1\<lparr>lm_db := NoDb, lm_net := n\<rparr>)
             | ((None, Some t), n) \<Rightarrow>
                 let t1 = checkSendingMessage (le_conv E) (le_send E) t
                 in case NewMsgSyncer (le_sync E) (lm_conversationCh u1) t1 n of
                      (_, None) \<Rightarrow> Crashes
                    | (_, Some m) \<Rightarrow> Returned None (u1\<lparr>lm_db := OpenDb (mx_db m), lm_net := mx_net m, lm_components := Some userID,
                                                      lm_msgSyncer := Some m, lm_loginStatus := Logged\<rparr>))"

text \<open>
  The server is told to forget the push token unless the session has ended by itself; whatever it answers, the context is cancelled,
  the database closed and the resources made anew. The components stay.
\<close>

definition logout :: "('q, 't, 'n) login_env \<Rightarrow> string \<Rightarrow> bool \<Rightarrow> ('t, 'n) login_mgr \<Rightarrow> ('t, 'n) login_mgr outcome" where
  "logout E operationID isTokenValid u =
     (case (if operationID = LogoutTips \<or> isTokenValid then Some u
            else case lm_info u of
                   None \<Rightarrow> None
                 | Some info \<Rightarrow> Some (u\<lparr>lm_net := snd (le_DelToken E (gc_UserID info) (ic_PlatformID info) (lm_net u))\<rparr>)) of
        None \<Rightarrow> Panics u
      | Some u1 \<Rightarrow>
          let u2 = u1\<lparr>lm_cancelled := lm_cancelled u1 @ [lm_ctx u1]\<rparr>
          in case lm_db u2 of
               NoDb \<Rightarrow> Panics u2
             | OpenDb t \<Rightarrow> Returned None (initResources E (u2\<lparr>lm_db := ClosedDb t\<rparr>))
             | ClosedDb t \<Rightarrow> Returned None (initResources E u2))"

definition setAppBackgroundStatus :: "('q, 't, 'n) login_env \<Rightarrow> bool \<Rightarrow> ('t, 'n) login_mgr action" where
  "setAppBackgroundStatus E isBackground u =
     (if lm_connStatus u = DefaultNotConnect then (None, u\<lparr>lm_background := isBackground\<rparr>)
      else case le_SetBackground E (lm_loginUserID u) isBackground (lm_net u) of
             (Some e, n) \<Rightarrow> (Some e, u\<lparr>lm_net := n\<rparr>)
           | (None, n) \<Rightarrow>
               let u1 = u\<lparr>lm_net := n, lm_background := isBackground\<rparr>
               in (None, if isBackground then u1 else u1\<lparr>lm_heartbeatCmdCh := snd (TriggerCmdWakeUp (lm_heartbeatCmdCh u1))\<rparr>))"

text \<open>An error of an API call: each kind ends the session once.\<close>

definition OnError :: "('q, 't, 'n) login_env \<Rightarrow> go_error \<Rightarrow> ('t, 'n) login_mgr \<Rightarrow> ('t, 'n) login_mgr" where
  "OnError E e u =
     (case code_of e of
        None \<Rightarrow> u
      | Some (code, _) \<Rightarrow>
          if code \<in> set (le_expired_codes E)
          then (if tokenExpiredState (lm_apiErr u) then u
                else u\<lparr>lm_apiErr := (lm_apiErr u)\<lparr>tokenExpiredState := True\<rparr>, lm_events := lm_events u @ [OnUserTokenExpired],
                       lm_loginMgrCh := snd (TriggerCmdLogOut (lm_loginMgrCh u))\<rparr>)
          else if code = le_kicked_code E
          then (if kickedOfflineState (lm_apiErr u) then u
                else u\<lparr>lm_apiErr := (lm_apiErr u)\<lparr>kickedOfflineState := True\<rparr>, lm_events := lm_events u @ [OnKickedOffline],
                       lm_loginMgrCh := snd (TriggerCmdLogOut (lm_loginMgrCh u))\<rparr>)
          else u)"

section \<open>The calls of the application\<close>

definition strings_Contains :: "string \<Rightarrow> string \<Rightarrow> bool" where
  "strings_Contains s sub \<longleftrightarrow> list_ex (\<lambda>i. take (length sub) (drop i s) = sub) [0..<Suc (length s)]"

definition InitSDK :: "('q, 't, 'n) login_env \<Rightarrow> 'n \<Rightarrow> bool \<Rightarrow> string \<Rightarrow> ('t, 'n) login_mgr option \<Rightarrow> bool \<times> ('t, 'n) login_mgr option" where
  "InitSDK E n listener config sdk =
     (if sdk \<noteq> None then (True, sdk)
      else case le_config E config of
        None \<Rightarrow> (False, sdk)
      | Some args \<Rightarrow>
          if ic_PlatformID args = 0 \<or> \<not> strings_Contains (ic_ApiAddr args) ''http'' \<or> \<not> strings_Contains (ic_WsAddr args) ''ws'' \<or>
             \<not> listener \<or> config = []
          then (False, sdk)
          else (True, Some (mgr_InitSDK E args (new_mgr n))))"

text \<open>A manager that is logged in is not taken down, but the SDK forgets it all the same.\<close>

definition mgr_UnInitSDK :: "('t, 'n) login_mgr \<Rightarrow> ('t, 'n) login_mgr" where
  "mgr_UnInitSDK u = (if lm_loginStatus u = Logged then u else u\<lparr>lm_info := None, lm_loginStatus := 0\<rparr>)"

definition UnInitSDK :: "('t, 'n) login_mgr option \<Rightarrow> ('t, 'n) login_mgr option" where
  "UnInitSDK sdk = None"

definition CheckResourceLoad :: "('t, 'n) login_mgr option \<Rightarrow> string \<Rightarrow> go_error option" where
  "CheckResourceLoad sdk funcName =
     (case sdk of
        None \<Rightarrow> Some (Wrapped (GoError ''CheckResourceLoad failed uSDK == nil '') [])
      | Some u \<Rightarrow>
          if funcName = [] \<or> rev (takeWhile (\<lambda>c. c \<noteq> CHR ''.'') (rev funcName)) = ''Login-fm'' then None
          else if lm_components u = None then Some (Wrapped (GoError ''CheckResourceLoad failed, resource nil '') [])
          else None)"

definition call_guard :: "string \<Rightarrow> ('t, 'n) login_mgr option \<Rightarrow> string \<Rightarrow> go_error option" where
  "call_guard operationID sdk funcName =
     (if operationID = [] then Some (Wrapped ErrArgs ''call function operationID is empty'')
      else if CheckResourceLoad sdk funcName \<noteq> None then Some (Wrapped ErrResourceLoad ''not load resource'')
      else None)"

definition messageCall_guard :: "string \<Rightarrow> ('t, 'n) login_mgr option \<Rightarrow> go_error option" where
  "messageCall_guard operationID sdk =
     (if operationID = [] then Some (Wrapped ErrArgs ''operationID is empty'')
      else map_option (\<lambda>e. sdkerrs_New ResourceLoadNotCompleteError ''resource load error'' []) (CheckResourceLoad sdk []))"

text \<open>A panic of the called function is recovered and reported.\<close>

definition api_call ::
  "string \<Rightarrow> string \<Rightarrow> (('t, 'n) login_mgr \<Rightarrow> ('t, 'n) login_mgr outcome) \<Rightarrow> ('t, 'n) login_mgr option \<Rightarrow> ('t, 'n) login_mgr option outcome" where
  "api_call operationID funcName f sdk =
     (case call_guard operationID sdk funcName of
        Some e \<Rightarrow> Returned (Some e) sdk
      | None \<Rightarrow>
          (case f (the sdk) of
             Returned e u \<Rightarrow> Returned e (Some u)
           | Panics u \<Rightarrow> Returned (Some (GoError ''call panic'')) (Some u)
           | Crashes \<Rightarrow> Crashes))"

definition GetLoginStatus :: "('t, 'n) login_mgr option \<Rightarrow> int" where
  "GetLoginStatus sdk = (case sdk of None \<Rightarrow> -1001 | Some u \<Rightarrow> lm_loginStatus u)"

definition GetLoginUserID :: "('t, 'n) login_mgr option \<Rightarrow> string" where
  "GetLoginUserID sdk = (case sdk of None \<Rightarrow> [] | Some u \<Rightarrow> lm_loginUserID u)"

section \<open>Everything that can happen\<close>

datatype sdk_event =
    Init bool string
  | UnInit
  | Login string string string
  | Logout string
  | ApiError go_error
  | LogoutCommand

text \<open>The listener of the logout commands runs from the login on and takes one command at a time.\<close>

definition logoutListener :: "('q, 't, 'n) login_env \<Rightarrow> ('t, 'n) login_mgr \<Rightarrow> ('t, 'n) login_mgr outcome" where
  "logoutListener E u =
     (case lm_loginMgrCh u of
        None \<Rightarrow> Returned None u
      | Some c \<Rightarrow>
          (case ch_sent c of
             [] \<Rightarrow> Returned None u
           | v # rest \<Rightarrow>
               (case logout E [] True (u\<lparr>lm_loginMgrCh := Some (c\<lparr>ch_sent := rest\<rparr>)\<rparr>) of
                  Panics u' \<Rightarrow> Crashes
                | r \<Rightarrow> r)))"

fun sdk_step :: "('q, 't, 'n) login_env \<Rightarrow> 'n \<Rightarrow> sdk_event \<Rightarrow> ('t, 'n) login_mgr option \<Rightarrow> ('t, 'n) login_mgr option outcome" where
  "sdk_step E n (Init listener config) sdk = Returned None (snd (InitSDK E n listener config sdk))"
| "sdk_step E n UnInit sdk = Returned None (UnInitSDK sdk)"
| "sdk_step E n (Login operationID userID token) sdk = api_call operationID ''LoginMgr.Login-fm'' (login E userID token) sdk"
| "sdk_step E n (Logout operationID) sdk = api_call operationID ''LoginMgr.Logout-fm'' (logout E operationID False) sdk"
| "sdk_step E n (ApiError e) sdk = Returned None (map_option (OnError E e) sdk)"
| "sdk_step E n LogoutCommand sdk =
     (case sdk of
        None \<Rightarrow> Returned None sdk
      | Some u \<Rightarrow> (case logoutListener E u of Returned e u' \<Rightarrow> Returned e (Some u') | Panics u' \<Rightarrow> Crashes | Crashes \<Rightarrow> Crashes))"

end
