(* ===== verification/LoginProps.thy ===== *)
theory LoginProps
  imports Login ConvSendProps
begin

text \<open>
  What a login makes of messages whose sending was interrupted, and the invariant of the life of the SDK over everything that can
  happen.
\<close>

section \<open>Interrupted messages\<close>

text \<open>The row of a message that was being sent, after the recovery.\<close>

definition failed_row :: "LocalSendingMessages \<Rightarrow> string \<Rightarrow> LocalChatLog \<Rightarrow> LocalChatLog" where
  "failed_row m name r =
     (if name = GetTableName (sm_ConversationID m) \<and> cl_ClientMsgID r = sm_ClientMsgID m \<and> cl_Status r = MsgStatusSending
      then r\<lparr>cl_Status := MsgStatusSendFailed\<rparr> else r)"

definition failed_rows :: "LocalSendingMessages list \<Rightarrow> string \<Rightarrow> LocalChatLog \<Rightarrow> LocalChatLog" where
  "failed_rows ms name r =
     (if cl_Status r = MsgStatusSending \<and> (\<exists>m \<in> set ms. name = GetTableName (sm_ConversationID m) \<and> cl_ClientMsgID r = sm_ClientMsgID m)
      then r\<lparr>cl_Status := MsgStatusSendFailed\<rparr> else r)"

lemma statuses_differ: "MsgStatusSending \<noteq> MsgStatusSendFailed" "MsgStatusSendFailed \<noteq> 0"
  by (simp_all add: MsgStatusSending_def MsgStatusSendFailed_def)

lemma failed_row_id [simp]: "cl_ClientMsgID (failed_row m name r) = cl_ClientMsgID r"
  by (simp add: failed_row_def)

lemma failed_row_other: "name \<noteq> GetTableName (sm_ConversationID m) \<Longrightarrow> failed_row m name = (\<lambda>r. r)"
  by (auto simp: failed_row_def)

lemma failed_rows_Cons: "failed_rows (m # ms) name r = failed_rows ms name (failed_row m name r)"
proof (cases "name = GetTableName (sm_ConversationID m) \<and> cl_ClientMsgID r = sm_ClientMsgID m \<and> cl_Status r = MsgStatusSending")
  case True
  then show ?thesis using statuses_differ(1) by (simp add: failed_rows_def failed_row_def)
next
  case False
  then have "failed_row m name r = r" by (auto simp: failed_row_def)
  with False show ?thesis unfolding failed_rows_def by (cases "cl_Status r = MsgStatusSending") auto
qed

lemma only_status_over:
  "chat_nonzero_over (zero_chat_log\<lparr>cl_ClientMsgID := k, cl_Status := MsgStatusSendFailed\<rparr>) r = r\<lparr>cl_Status := MsgStatusSendFailed\<rparr>"
  using statuses_differ by (simp add: chat_nonzero_over_def zero_chat_log_def nz_str_def nz_int_def nz_bool_def)

locale recovery_tables = sending_tables E chat_rows conv_rows healthy X sending_rows
  for E :: "('q, 't, 'n) conv_env"
    and chat_rows :: "string \<Rightarrow> 't \<Rightarrow> LocalChatLog list"
    and conv_rows :: "'t \<Rightarrow> LocalConversation list"
    and healthy :: "'t \<Rightarrow> bool"
    and X :: "('q, 't, 'n) send_env"
    and sending_rows :: "'t \<Rightarrow> LocalSendingMessages list" +
  assumes sending_find: "healthy t \<Longrightarrow> gorm_find (sx_sending X) p t = (r, t') \<Longrightarrow> \<exists>ms. r = Inr ms"
begin

definition untouched :: "'t \<Rightarrow> 't \<Rightarrow> bool" where
  "untouched t t' \<longleftrightarrow> (\<forall>name. chat_rows name t' = chat_rows name t) \<and> sending_rows t' = sending_rows t \<and> (healthy t \<longrightarrow> healthy t')"

lemma untouched_trans: "untouched t t' \<Longrightarrow> untouched t' t'' \<Longrightarrow> untouched t t''"
  by (simp add: untouched_def)

lemma get_message_untouched:
  assumes "GetMessage (cx_chat E) conID msgID t = (r, t')"
  shows "untouched t t'"
proof -
  obtain r0 where take: "gorm_take (cx_chat E (GetTableName conID)) (\<lambda>r. cl_ClientMsgID r = msgID) t = (r0, t')"
    using assms by (auto simp: GetMessage_def wrap_res_def split: prod.splits sum.splits)
  have "chat_rows name t' = chat_rows name t" for name
    using gorm_table.take_rows [OF chat_table take] keepsD(2) [OF chat_keeps_chat take]
    by (cases "name = GetTableName conID") auto
  with keepsD(2) [OF chat_keeps_sending take] staysD(2) [OF chat_stays take] show ?thesis by (simp add: untouched_def)
qed

lemma get_conversation_untouched: "GetConversation (cx_conv E) conID t = (r, t') \<Longrightarrow> untouched t t'"
  using keepsD(2) [OF conv_keeps_chat] keepsD(2) [OF conv_keeps_sending] staysD(2) [OF conv_stays]
  by (fastforce simp: untouched_def GetConversation_def wrap_res_def split: prod.splits sum.splits)

lemma update_conversation_untouched: "UpdateConversation (cx_conv E) c t = (r, t') \<Longrightarrow> untouched t t'"
  using keepsD(4) [OF conv_keeps_chat] keepsD(4) [OF conv_keeps_sending] staysD(4) [OF conv_stays]
  by (fastforce simp: untouched_def UpdateConversation_def update_result_def updates_conv_def gorm_updates_pk_def
      split: prod.splits if_splits)

lemma message_failed:
  assumes "healthy t" and "msgID \<noteq> []"
    and "UpdateMessage (cx_chat E) conID (zero_chat_log\<lparr>cl_ClientMsgID := msgID, cl_Status := MsgStatusSendFailed\<rparr>) t = (e, t')"
  shows "chat_rows name t' = (if name = GetTableName conID
      then map (\<lambda>r. if cl_ClientMsgID r = msgID then r\<lparr>cl_Status := MsgStatusSendFailed\<rparr> else r) (chat_rows name t) else chat_rows name t)"
    and "sending_rows t' = sending_rows t" and "healthy t'"
proof -
  let ?G = "cx_chat E (GetTableName conID)" and ?f = "\<lambda>r. r\<lparr>cl_Status := MsgStatusSendFailed\<rparr>"
  have over: "chat_nonzero_over (zero_chat_log\<lparr>cl_ClientMsgID := msgID, cl_Status := MsgStatusSendFailed\<rparr>) = ?f"
    by (rule ext) (rule only_status_over)
  obtain e' n where up: "gorm_updates ?G (\<lambda>r. cl_ClientMsgID r = msgID) ?f t = ((e', n), t')"
    using assms(2,3) over by (auto simp: UpdateMessage_def gorm_updates_pk_def split: prod.splits)
  have "e' = None" using chat_updates [OF assms(1) up] .
  note rows = gorm_table.updates_ok [OF chat_table up [unfolded this]]
  show "chat_rows name t' = (if name = GetTableName conID then map (\<lambda>r. if cl_ClientMsgID r = msgID then ?f r else r) (chat_rows name t)
      else chat_rows name t)"
    using rows keepsD(4) [OF chat_keeps_chat up] by auto
  show "sending_rows t' = sending_rows t" by (rule keepsD(4) [OF chat_keeps_sending up])
  show "healthy t'" by (rule staysD(4) [OF chat_stays up assms(1)])
qed

lemma handled:
  assumes "healthy t" and "sm_ClientMsgID m \<noteq> []" and "handlerSendingMsg E m t = (e, t')"
    and "distinct (map cl_ClientMsgID (chat_rows (GetTableName (sm_ConversationID m)) t))"
  shows "chat_rows name t' = map (failed_row m name) (chat_rows name t) \<and> sending_rows t' = sending_rows t \<and> healthy t'"
proof -
  let ?name = "GetTableName (sm_ConversationID m)" and ?k = "sm_ClientMsgID m"
  obtain r t1 where get: "GetMessage (cx_chat E) (sm_ConversationID m) ?k t = (r, t1)" by fastforce
  note t1 = get_message_untouched [OF get]
  obtain r0 where take: "gorm_take (cx_chat E ?name) (\<lambda>r. cl_ClientMsgID r = ?k) t = (r0, t1)" and r: "r = fst (wrap_res ''GetMessage failed'' (r0, t1))"
    using get by (auto simp: GetMessage_def wrap_res_def split: prod.splits sum.splits)
  show ?thesis
  proof (cases "\<exists>x. r = Inr x \<and> cl_Status x = MsgStatusSending")
    case False
    have same: "failed_row m name x = x" if "x \<in> set (chat_rows name t)" for x
    proof (cases "name = ?name \<and> cl_ClientMsgID x = ?k")
      case True
      with that obtain y where y: "r0 = Inr y" using chat_take [OF assms(1), of ?name "\<lambda>r. cl_ClientMsgID r = ?k"] take by fastforce
      then have "y \<in> set (chat_rows ?name t)" "cl_ClientMsgID y = ?k" using gorm_table.take_in [OF chat_table take [unfolded y]] by auto
      with True that assms(4) have "x = y" by (metis distinct_map inj_onD)
      with False y r show ?thesis by (simp add: failed_row_def wrap_res_def)
    qed (auto simp: failed_row_def)
    have "t' = t1" using False assms(3) get by (auto simp: handlerSendingMsg_def split: sum.splits)
    with t1 assms(1) same show ?thesis by (simp add: untouched_def map_idI)
  next
    case True
    then obtain x where x: "r = Inr x" "cl_Status x = MsgStatusSending" by blast
    then have "r0 = Inr x" using r by (auto simp: wrap_res_def split: sum.splits)
    then have "x \<in> set (chat_rows ?name t)" "cl_ClientMsgID x = ?k" using gorm_table.take_in [OF chat_table, of ?name] take by auto
    then have only: "cl_Status y = MsgStatusSending" if "y \<in> set (chat_rows ?name t)" "cl_ClientMsgID y = ?k" for y
      using that x assms(4) by (metis distinct_map inj_onD)
    obtain e2 t2 where up: "UpdateMessage (cx_chat E) (sm_ConversationID m)
        (zero_chat_log\<lparr>cl_ClientMsgID := ?k, cl_Status := MsgStatusSendFailed\<rparr>) t1 = (e2, t2)" by fastforce
    have h1: "healthy t1" using t1 assms(1) by (simp add: untouched_def)
    note t2 = message_failed [OF h1 assms(2) up]
    have "untouched t2 t'"
      using assms(3) get x up
      by (auto simp: handlerSendingMsg_def untouched_def split: option.splits sum.splits prod.splits if_splits
          dest!: get_conversation_untouched update_conversation_untouched)
    moreover have "chat_rows name t2 = map (failed_row m name) (chat_rows name t)"
      using t1 t2(1) [of name] only
      by (cases "name = ?name") (auto simp: untouched_def failed_row_def failed_row_other)
    ultimately show ?thesis using t1 t2 by (simp add: untouched_def)
  qed
qed

lemma recovered:
  assumes "healthy t" and "sm_ConversationID m \<noteq> []" and "sm_ClientMsgID m \<noteq> []" and "recover_message E X m t = t'"
    and "distinct (map cl_ClientMsgID (chat_rows (GetTableName (sm_ConversationID m)) t))"
  shows "chat_rows name t' = map (failed_row m name) (chat_rows name t) \<and>
    sending_rows t' = filter (\<lambda>r. sending_key r \<noteq> sending_key m) (sending_rows t) \<and> healthy t'"
proof -
  obtain e t1 where h: "handlerSendingMsg E m t = (e, t1)" by fastforce
  note t1 = handled [OF assms(1,3) h assms(5)]
  let ?q = "\<lambda>r. sm_ConversationID r = sm_ConversationID m \<and> sm_ClientMsgID r = sm_ClientMsgID m"
  obtain d where del: "gorm_delete (sx_sending X) ?q t1 = (d, t')"
    using assms(2-4) h by (auto simp: recover_message_def DeleteSendingMessage_def wrap_act_def split: prod.splits)
  have "d = None" using sending_delete [OF _ del] t1 by blast
  from gorm_table.delete_ok [OF sending_table del [unfolded this]] have "sending_rows t' = filter (\<lambda>r. sending_key r \<noteq> sending_key m) (sending_rows t)"
    using t1 by simp
  with t1 keepsD(5) [OF sending_keeps_chat del] staysD(5) [OF sending_stays del] show ?thesis by auto
qed

lemma all_recovered:
  assumes "healthy t" and "\<forall>m \<in> set ms. sm_ConversationID m \<noteq> [] \<and> sm_ClientMsgID m \<noteq> []"
    and "\<forall>name. distinct (map cl_ClientMsgID (chat_rows name t))"
  shows "chat_rows name (fold (recover_message E X) ms t) = map (failed_rows ms name) (chat_rows name t) \<and>
    sending_rows (fold (recover_message E X) ms t) = filter (\<lambda>r. sending_key r \<notin> sending_key ` set ms) (sending_rows t) \<and>
    healthy (fold (recover_message E X) ms t)"
  using assms
proof (induction ms arbitrary: t)
  case Nil
  then show ?case by (simp add: failed_rows_def)
next
  case (Cons m ms)
  let ?t = "recover_message E X m t"
  have m: "sm_ConversationID m \<noteq> []" "sm_ClientMsgID m \<noteq> []" using Cons.prems(2) by simp_all
  note step = recovered [OF Cons.prems(1) m refl Cons.prems(3) [rule_format]]
  have "distinct (map cl_ClientMsgID (chat_rows name ?t))" for name
    using Cons.prems(3) step [of name] by (simp add: comp_def)
  with Cons.IH [of ?t] Cons.prems(2) step [of name] show ?case
    by (auto simp: failed_rows_Cons comp_def intro: filter_cong)
qed

lemma check_recovers:
  assumes "healthy t" and "\<forall>m \<in> set (sending_rows t). sm_ConversationID m \<noteq> [] \<and> sm_ClientMsgID m \<noteq> []"
    and "\<forall>name. distinct (map cl_ClientMsgID (chat_rows name t))" and "checkSendingMessage E X t = t'"
  shows "chat_rows name t' = map (failed_rows (sending_rows t) name) (chat_rows name t) \<and> sending_rows t' = [] \<and> healthy t'"
proof -
  obtain r t1 where find: "gorm_find (sx_sending X) (\<lambda>r. True) t = (r, t1)" by fastforce
  then obtain ms where r: "r = Inr ms" using sending_find assms(1) by blast
  have "mset ms = mset (sending_rows t)" using gorm_table.find_mset [OF sending_table find [unfolded r]] by simp
  then have ms: "set ms = set (sending_rows t)" by (rule mset_eq_setD)
  have t1: "sending_rows t1 = sending_rows t" "\<And>name. chat_rows name t1 = chat_rows name t" "healthy t1"
    using gorm_table.find_rows [OF sending_table find] keepsD(1) [OF sending_keeps_chat find] staysD(1) [OF sending_stays find assms(1)]
    by auto
  have "t' = fold (recover_message E X) ms t1"
    using assms(4) find r by (simp add: checkSendingMessage_def GetAllSendingMessages_def wrap_res_def)
  moreover have "failed_rows ms = failed_rows (sending_rows t)" by (simp add: failed_rows_def ms fun_eq_iff)
  ultimately show ?thesis using all_recovered [OF t1(3), of ms name] assms(2,3) t1 ms by (simp add: filter_empty_conv)
qed

end

section \<open>On the record of tables\<close>

interpretation wl: recovery_tables "on_world E" "\<lambda>name w. ft_rows (w_chat w name)" "\<lambda>w. ft_rows (w_conv w)" no_faults
  "X\<lparr>sx_sending := world_sending\<rparr>" "\<lambda>w. ft_rows (w_sending w)"
proof (intro recovery_tables.intro ws.sending_tables_axioms recovery_tables_axioms.intro)
  show "\<exists>ms. r = Inr ms" if "no_faults t" "gorm_find (sx_sending (X\<lparr>sx_sending := world_sending\<rparr>)) p t = (r, t')" for t p r t'
    using that by (auto simp: world_sending_def at_table_def list_gorm_def next_fault_def no_faults_def split: if_splits option.splits prod.splits)
qed

section \<open>The life of the SDK\<close>

text \<open>
  Between the calls the components work: the database changes, commands are queued, the connection changes its state. None of
  that touches the session.
\<close>

definition same_session :: "('t, 'n) login_mgr \<Rightarrow> ('t, 'n) login_mgr \<Rightarrow> bool" where
  "same_session u u' \<longleftrightarrow> lm_info u' = lm_info u \<and> lm_loginStatus u' = lm_loginStatus u \<and> lm_token u' = lm_token u \<and>
     lm_loginUserID u' = lm_loginUserID u \<and> lm_components u' = lm_components u \<and> lm_cancelled u' = lm_cancelled u \<and> lm_ctx u' = lm_ctx u \<and>
     (lm_msgSyncer u' = None \<longleftrightarrow> lm_msgSyncer u = None) \<and>
     (case lm_db u of OpenDb t \<Rightarrow> (\<exists>t'. lm_db u' = OpenDb t') | db \<Rightarrow> lm_db u' = db)"

inductive sdk_reach :: "('q, 't, 'n) login_env \<Rightarrow> ('t, 'n) login_mgr option \<Rightarrow> bool" for E where
  start: "sdk_reach E None"
| step: "sdk_reach E sdk \<Longrightarrow> sdk_step E n ev sdk = Returned e sdk' \<Longrightarrow> sdk_reach E sdk'"
| work: "sdk_reach E (Some u) \<Longrightarrow> same_session u u' \<Longrightarrow> sdk_reach E (Some u')"

definition session_ok :: "('t, 'n) login_mgr \<Rightarrow> bool" where
  "session_ok u \<longleftrightarrow> lm_loginStatus u \<in> {LogoutStatus, Logging, Logged} \<and> lm_info u \<noteq> None \<and>
     (lm_loginStatus u = Logged \<longrightarrow> (\<exists>t. lm_db u = OpenDb t) \<and> lm_components u = Some (lm_loginUserID u) \<and> lm_msgSyncer u \<noteq> None \<and>
        lm_loginUserID u \<noteq> [] \<and> gc_UserID (the (lm_info u)) = lm_loginUserID u \<and> gc_Token (the (lm_info u)) = lm_token u) \<and>
     (lm_loginStatus u = LogoutStatus \<longrightarrow> (\<forall>t. lm_db u \<noteq> OpenDb t))"

lemmas login_statuses = LogoutStatus_def Logging_def Logged_def


lemma initResources_ok: "lm_info u \<noteq> None \<Longrightarrow> (\<forall>t. lm_db u \<noteq> OpenDb t) \<Longrightarrow> session_ok (initResources E u)"
  by (simp add: initResources_def session_ok_def login_statuses)

lemma login_ok:
  assumes "session_ok u" and "login E userID token u = r"
  shows "case r of Returned e u' \<Rightarrow> session_ok u' | Panics u' \<Rightarrow> session_ok u' | Crashes \<Rightarrow> True"
proof (cases "lm_loginStatus u = Logged")
  case True
  with assms show ?thesis by (auto simp: login_def)
next
  case False
  obtain info where info: "lm_info u = Some info" using assms(1) by (auto simp: session_ok_def)
  obtain e c n where new: "NewDataBase E userID (ic_DataDir info) (lm_net u) = ((e, c), n)" by (metis surj_pair)
  have user: "userID \<noteq> []" if "e = None" using new that by (auto simp: NewDataBase_def wrap_err_def split: if_splits prod.splits)
  note run = assms(2) [symmetric, unfolded login_def, simplified False info if_False option.case Let_def, simplified, unfolded new, simplified]
  show ?thesis
  proof (cases "e = None \<and> c \<noteq> None")
    case True
    then obtain t where t: "e = None" "c = Some t" by blast
    obtain err m where sync: "NewMsgSyncer (le_sync E) (lm_conversationCh u) (checkSendingMessage (le_conv E) (le_send E) t) n = (err, m)"
      by fastforce
    show ?thesis using run user t sync by (cases m) (auto simp: session_ok_def login_statuses)
  next
    case False
    then show ?thesis using run by (cases e; cases c) (auto simp: session_ok_def login_statuses)
  qed
qed

lemma logout_ok:
  assumes "session_ok u" and "logout E operationID valid u = r"
  shows "case r of Returned e u' \<Rightarrow> session_ok u' | Panics u' \<Rightarrow> session_ok u' | Crashes \<Rightarrow> True"
  using assms
  by (auto simp: logout_def Let_def intro!: initResources_ok split: if_splits option.splits db_handle.splits)
    (auto simp: session_ok_def)

lemma same_session_ok: "same_session u u' \<Longrightarrow> session_ok u \<Longrightarrow> session_ok u'"
  by (auto simp: same_session_def session_ok_def split: db_handle.splits)

lemma OnError_same: "same_session u (OnError E e u)"
  by (auto simp: OnError_def same_session_def split: option.splits db_handle.splits)

lemma logoutListener_ok:
  assumes "session_ok u" and "logoutListener E u = Returned e u'"
  shows "session_ok u'"
proof -
  have ok: "session_ok (u\<lparr>lm_loginMgrCh := c\<rparr>)" for c using assms(1) by (simp add: session_ok_def)
  show ?thesis
  proof (cases "\<exists>c v rest. lm_loginMgrCh u = Some c \<and> ch_sent c = v # rest")
    case True
    then obtain c v rest where "lm_loginMgrCh u = Some c" "ch_sent c = v # rest" by blast
    then have "logout E [] True (u\<lparr>lm_loginMgrCh := Some (c\<lparr>ch_sent := rest\<rparr>)\<rparr>) = Returned e u'"
      using assms(2) by (simp add: logoutListener_def split: outcome.splits)
    from logout_ok [OF ok this] show ?thesis by simp
  next
    case False
    with assms show ?thesis by (simp add: logoutListener_def split: option.splits list.splits)
  qed
qed

lemma api_call_ok:
  assumes "\<And>u. sdk = Some u \<Longrightarrow> session_ok u"
    and "\<And>u. session_ok u \<Longrightarrow> case f u of Returned e u' \<Rightarrow> session_ok u' | Panics u' \<Rightarrow> session_ok u' | Crashes \<Rightarrow> True"
    and "api_call operationID name f sdk = Returned e' (Some u')"
  shows "session_ok u'"
proof (cases "call_guard operationID sdk name")
  case (Some e)
  with assms(1,3) show ?thesis by (simp add: api_call_def)
next
  case None
  then obtain u where u: "sdk = Some u" by (auto simp: call_guard_def CheckResourceLoad_def split: if_splits option.splits)
  note ok = assms(2) [OF assms(1) [OF u]]
  show ?thesis using None assms(3) ok by (cases "f u") (simp_all add: api_call_def u)
qed

lemma reach_session:
  assumes "sdk_reach E sdk"
  shows "\<forall>u. sdk = Some u \<longrightarrow> session_ok u"
  using assms
proof (induction rule: sdk_reach.induct)
  case (step sdk n ev e sdk')
  show ?case
  proof (intro allI impI)
    fix u assume u: "sdk' = Some u"
    show "session_ok u"
    proof (cases ev)
      case (Init l c)
      then have new: "InitSDK E n l c sdk = (fst (InitSDK E n l c sdk), Some u)" using step.hyps u by (cases "InitSDK E n l c sdk") simp
      have "session_ok (mgr_InitSDK E args (new_mgr n))" for args
        unfolding mgr_InitSDK_def by (rule initResources_ok) (simp_all add: new_mgr_def)
      with new step.IH show ?thesis by (cases sdk) (auto simp: InitSDK_def split: option.splits if_splits)
    next
      case (Login o' a b)
      with step.hyps u have "api_call o' ''LoginMgr.Login-fm'' (login E a b) sdk = Returned e (Some u)" by simp
      then show ?thesis by (rule api_call_ok [rotated 2]) (use step.IH login_ok [OF _ refl] in blast)+
    next
      case (Logout o')
      with step.hyps u have "api_call o' ''LoginMgr.Logout-fm'' (logout E o' False) sdk = Returned e (Some u)" by simp
      then show ?thesis by (rule api_call_ok [rotated 2]) (use step.IH logout_ok [OF _ refl] in blast)+
    next
      case (ApiError x)
      with step u show ?thesis using same_session_ok [OF OnError_same] by auto
    next
      case LogoutCommand
      with step u show ?thesis by (auto split: option.splits outcome.splits intro: logoutListener_ok)
    qed (use step u in \<open>simp add: UnInitSDK_def\<close>)
  qed
next
  case (work u u')
  then show ?case by (auto intro: same_session_ok)
qed simp


section \<open>The properties\<close>

text \<open>Samples: an SDK whose database is always empty and can be read, and a world with a message whose sending was interrupted.\<close>

definition sample_config :: IMConfig where
  "sample_config = \<lparr>ic_PlatformID = 1, ic_ApiAddr = ''http:'', ic_WsAddr = ''ws:'', ic_DataDir = [], ic_LogLevel = 0\<rparr>"

definition sample_login :: "('q, world, 'n) login_env \<Rightarrow> ('q, world, 'n) login_env" where
  "sample_login E = E\<lparr>le_config := (\<lambda>_. Some sample_config), le_open := (\<lambda>_ _ n. ((None, Some empty_world), n)),
     le_sync := (le_sync E)\<lparr>se_GetAllConversationIDList := (\<lambda>d. (Inr [], d)), se_GetNotificationAllSeqs := (\<lambda>d. (Inr [], d))\<rparr>\<rparr>"

definition interrupted_row :: LocalChatLog where
  "interrupted_row = zero_chat_log\<lparr>cl_ClientMsgID := ''m1'', cl_Status := MsgStatusSending\<rparr>"

definition interrupted_world :: world where
  "interrupted_world = empty_world\<lparr>w_chat := (\<lambda>name. \<lparr>ft_rows = (if name = GetTableName ''si_a_me'' then [interrupted_row] else []), ft_faults = []\<rparr>),
     w_sending := \<lparr>ft_rows = [\<lparr>sm_ConversationID = ''si_a_me'', sm_ClientMsgID = ''m1'', sm_Ex = []\<rparr>], ft_faults = []\<rparr>\<rparr>"

text \<open>
  C20: a login recovers the messages whose sending was interrupted. The messages that are listed as being sent and still have that
  status are stored as failed, in the table of their conversation; nothing else changes in any table of messages, and the list is empty
  afterwards.
\<close>
theorem interrupted_sends_fail:
  assumes "recovery_tables E chat_rows conv_rows healthy X sending_rows" and "healthy t"
    and "\<forall>m \<in> set (sending_rows t). sm_ConversationID m \<noteq> [] \<and> sm_ClientMsgID m \<noteq> []"
    and "\<forall>name. distinct (map cl_ClientMsgID (chat_rows name t))"
  shows "chat_rows name (checkSendingMessage E X t) = map (failed_rows (sending_rows t) name) (chat_rows name t) \<and>
     sending_rows (checkSendingMessage E X t) = []"
  using recovery_tables.check_recovers [OF assms refl] by blast

theorem interrupted_sends_fail_witness:
  "\<forall>(E :: ('q, world, 'n) conv_env) (X :: ('q, world, 'n) send_env).
     let t = checkSendingMessage (on_world E) (X\<lparr>sx_sending := world_sending\<rparr>) interrupted_world
     in ft_rows (w_chat t (GetTableName ''si_a_me'')) = [interrupted_row\<lparr>cl_Status := MsgStatusSendFailed\<rparr>] \<and> ft_rows (w_sending t) = []"
proof (intro allI)
  fix E :: "('q, world, 'n) conv_env" and X :: "('q, world, 'n) send_env"
  have "no_faults interrupted_world" by (simp add: interrupted_world_def empty_world_def no_faults_def)
  from interrupted_sends_fail [OF wl.recovery_tables_axioms [of E X] this, of "GetTableName ''si_a_me''"]
  show "let t = checkSendingMessage (on_world E) (X\<lparr>sx_sending := world_sending\<rparr>) interrupted_world
     in ft_rows (w_chat t (GetTableName ''si_a_me'')) = [interrupted_row\<lparr>cl_Status := MsgStatusSendFailed\<rparr>] \<and> ft_rows (w_sending t) = []"
    by (simp add: interrupted_world_def interrupted_row_def failed_rows_def zero_chat_log_def Let_def)
qed

lemma sample_login_returns:
  assumes "lm_info u = Some info" and "lm_loginStatus u \<noteq> Logged" and "userID \<noteq> []"
  obtains u' where "login (sample_login E) userID token u = Returned None u'" and "lm_loginStatus u' = Logged"
    and "lm_components u' = Some userID" and "lm_ctx u' = lm_ctx u" and "lm_cancelled u' = lm_cancelled u" and "lm_loginUserID u' = userID"
    and "lm_info u' = Some (info\<lparr>gc_UserID := userID, gc_Token := token\<rparr>)" and "\<exists>t. lm_db u' = OpenDb t"
  using assms that
  by (simp add: login_def sample_login_def NewDataBase_def wrap_err_def NewMsgSyncer_def loadSeq_def Let_def)

lemma sample_start:
  "lm_info (mgr_InitSDK E config u) = Some (IMConfig.extend config \<lparr>gc_UserID = [], gc_Token = []\<rparr>)"
  "lm_loginStatus (mgr_InitSDK E config u) \<noteq> Logged"
  by (simp_all add: mgr_InitSDK_def initResources_def login_statuses)

lemma sample_init: "sdk_reach (sample_login E) (Some (mgr_InitSDK (sample_login E) sample_config (new_mgr n)))"
proof -
  have "InitSDK (sample_login E) n True ''x'' None = (True, Some (mgr_InitSDK (sample_login E) sample_config (new_mgr n)))"
    by (simp add: InitSDK_def sample_login_def sample_config_def strings_Contains_def)
  then show ?thesis using sdk_reach.step [OF sdk_reach.start, of "sample_login E" n "Init True ''x''"] by simp
qed

text \<open>
  C2: the session. Whatever calls, errors and commands come, a manager that is logged in has an open database, components of the login
  user and the user's token, and another login is refused; one that is logged out has no open database.
\<close>
theorem login_sessions:
  assumes "sdk_reach E (Some u)"
  shows "session_ok u \<and> (lm_loginStatus u = Logged \<longrightarrow> login E userID token u = Returned (Some ErrLoginRepeat) u)"
  using reach_session [OF assms] by (simp add: login_def)

theorem login_sessions_witness:
  "\<forall>(E :: ('q, world, 'n) login_env) n. \<exists>u. sdk_reach (sample_login E) (Some u) \<and> lm_loginStatus u = Logged \<and> lm_loginUserID u = ''me'' \<and>
     session_ok u \<and> login (sample_login E) ''you'' [] u = Returned (Some ErrLoginRepeat) u"
proof (intro allI)
  fix E :: "('q, world, 'n) login_env" and n
  let ?u = "mgr_InitSDK (sample_login E) sample_config (new_mgr n)"
  obtain u where login: "login (sample_login E) ''me'' [] ?u = Returned None u" "lm_loginStatus u = Logged" "lm_loginUserID u = ''me''"
    using sample_login_returns [OF sample_start, of "''me''" E "[]"] by (metis list.distinct(1) option.distinct(1))
  have reach: "sdk_reach (sample_login E) (Some u)"
    by (rule sdk_reach.step [OF sample_init [of E n], where ev = "Login ''op'' ''me'' []"])
      (simp add: api_call_def call_guard_def CheckResourceLoad_def login(1))
  then show "\<exists>u. sdk_reach (sample_login E) (Some u) \<and> lm_loginStatus u = Logged \<and> lm_loginUserID u = ''me'' \<and>
     session_ok u \<and> login (sample_login E) ''you'' [] u = Returned (Some ErrLoginRepeat) u"
    using login(2,3) login_sessions [OF reach, of "''you''" "[]"] by blast
qed

text \<open>
  What can follow as long as no logout goes through and the SDK is not taken down: calls of the application, errors of the API,
  logouts that fail, and the work of the components.
\<close>

inductive until_logout :: "('q, 't, 'n) login_env \<Rightarrow> ('t, 'n) login_mgr \<Rightarrow> ('t, 'n) login_mgr \<Rightarrow> bool" for E u where
  here: "until_logout E u u"
| event: "until_logout E u u1 \<Longrightarrow> sdk_step E n ev (Some u1) = Returned e (Some u2) \<Longrightarrow> ev \<noteq> UnInit \<Longrightarrow> ev \<noteq> LogoutCommand \<Longrightarrow>
    (\<And>operationID. ev = Logout operationID \<Longrightarrow> e \<noteq> None) \<Longrightarrow> until_logout E u u2"
| working: "until_logout E u u1 \<Longrightarrow> same_session u1 u2 \<Longrightarrow> until_logout E u u2"

definition cancelled :: "('t, 'n) login_mgr \<Rightarrow> bool" where
  "cancelled u \<longleftrightarrow> lm_ctx u \<in> set (lm_cancelled u)"

lemma login_context:
  "case login E userID token u of Returned e u' \<Rightarrow> cancelled u' = cancelled u | Panics u' \<Rightarrow> cancelled u' = cancelled u | Crashes \<Rightarrow> True"
  by (auto simp: cancelled_def login_def Let_def split: option.splits prod.splits)

lemma failed_logout_context:
  "logout E operationID valid u = Panics u' \<Longrightarrow> cancelled u \<Longrightarrow> cancelled u'"
  "logout E operationID valid u = Returned (Some e) u' \<Longrightarrow> cancelled u \<Longrightarrow> cancelled u'"
  by (auto simp: cancelled_def logout_def Let_def split: option.splits db_handle.splits if_splits)

lemma until_logout_cancelled: "until_logout E u u' \<Longrightarrow> cancelled u \<Longrightarrow> cancelled u'"
proof (induction rule: until_logout.induct)
  case (event u1 n ev e u2)
  then have c: "cancelled u1" by blast
  show ?case
  proof (cases ev)
    case (Login op' userID token)
    with event.hyps c login_context [where E = E and userID = userID and token = token and u = u1] show ?thesis
      by (auto simp: api_call_def split: option.splits outcome.splits)
  next
    case (Logout op')
    with event.hyps c show ?thesis
      by (auto simp: api_call_def failed_logout_context split: option.splits outcome.splits)
  qed (use event.hyps c in \<open>auto simp: InitSDK_def OnError_def cancelled_def split: option.splits if_splits\<close>)
qed (auto simp: cancelled_def same_session_def)

text \<open>
  C24: a session that cannot be left. Components of an earlier login are there and nobody is logged in. A login whose database does not
  open, as one without a user, returns an error after the database has been replaced by one without a connection. The logout that
  follows cancels the context and panics on the database before it makes a new context. From then on, whatever logins, failed
  logouts, errors and work follow, the manager is on the cancelled context, until a logout goes through or the SDK is taken down.
\<close>
theorem failed_login_strands:
  assumes "sdk_reach E (Some u)" and "lm_loginStatus u \<noteq> Logged" and "lm_components u \<noteq> None"
    and "userID = [] \<or> (\<exists>e n'. le_open E userID (ic_DataDir (the (lm_info u))) (lm_net u) = ((Some e, None), n'))"
    and "operationID \<noteq> []" and "operationID' \<noteq> []"
  shows "\<exists>e u1 u2. sdk_step E n (Login operationID userID token) (Some u) = Returned (Some e) (Some u1) \<and> lm_db u1 = NoDb \<and>
     sdk_step E n (Logout operationID') (Some u1) = Returned (Some (GoError ''call panic'')) (Some u2) \<and>
     lm_loginStatus u2 = Logging \<and> (\<forall>u3. until_logout E u2 u3 \<longrightarrow> lm_ctx u3 \<in> set (lm_cancelled u3))"
proof -
  obtain info where info: "lm_info u = Some info" using reach_session [OF assms(1)] by (auto simp: session_ok_def)
  obtain e n' where open_db: "NewDataBase E userID (ic_DataDir info) (lm_net u) = ((Some e, None), n')"
    using assms(4) by (cases "userID = []") (auto simp: info NewDataBase_def wrap_err_def split: if_splits)
  obtain e1 u1 where u1: "login E userID token u = Returned (Some e1) u1" "lm_db u1 = NoDb" "lm_info u1 \<noteq> None"
      "lm_loginStatus u1 = Logging" "lm_components u1 = lm_components u"
    using assms(2) by (simp add: login_def info open_db db_of_def Let_def)
  obtain u2 where u2: "logout E operationID' False u1 = Panics u2" "lm_loginStatus u2 = Logging" "cancelled u2"
    using u1(2-4) by (cases "operationID' = LogoutTips") (auto simp: logout_def cancelled_def Let_def)
  have "sdk_step E n (Login operationID userID token) (Some u) = Returned (Some e1) (Some u1)"
      "sdk_step E n (Logout operationID') (Some u1) = Returned (Some (GoError ''call panic'')) (Some u2)"
    using assms(3,5,6) u1(1,5) u2(1) by (auto simp: api_call_def call_guard_def CheckResourceLoad_def)
  with u1(2) u2(2,3) show ?thesis by (metis until_logout_cancelled cancelled_def)
qed

text \<open>After a session of its own the user logs in by mistake without a name, and logs in again: the new session is on a cancelled context.\<close>

theorem failed_login_strands_witness:
  "\<forall>(E :: ('q, world, 'n) login_env) n. \<exists>u e u1 u2 u3. sdk_reach (sample_login E) (Some u) \<and>
     sdk_step (sample_login E) n (Login ''op'' [] []) (Some u) = Returned (Some e) (Some u1) \<and>
     sdk_step (sample_login E) n (Logout ''op'') (Some u1) = Returned (Some (GoError ''call panic'')) (Some u2) \<and>
     sdk_step (sample_login E) n (Login ''op'' ''me'' []) (Some u2) = Returned None (Some u3) \<and>
     lm_loginStatus u3 = Logged \<and> lm_ctx u3 \<in> set (lm_cancelled u3)"
proof (intro allI)
  fix E :: "('q, world, 'n) login_env" and n
  let ?E = "sample_login E"
  let ?u = "mgr_InitSDK ?E sample_config (new_mgr n)"
  obtain u1 where u1: "login ?E ''me'' [] ?u = Returned None u1" "lm_loginStatus u1 = Logged" "lm_components u1 = Some ''me''"
      "lm_info u1 \<noteq> None" "\<exists>t. lm_db u1 = OpenDb t"
    using sample_login_returns [OF sample_start, of "''me''" E "[]"] by (metis list.distinct(1) option.distinct(1))
  have r1: "sdk_reach ?E (Some u1)"
    by (rule sdk_reach.step [OF sample_init [of E n], where ev = "Login ''op'' ''me'' []"])
      (simp add: api_call_def call_guard_def CheckResourceLoad_def u1(1))
  obtain info t where info: "lm_info u1 = Some info" "lm_db u1 = OpenDb t" using u1(4,5) by blast
  obtain u where u: "logout ?E ''op'' False u1 = Returned None u" "lm_components u = Some ''me''" "lm_loginStatus u = LogoutStatus"
    by (simp add: logout_def info LogoutTips_def Let_def initResources_def u1(3))
  have r: "sdk_reach ?E (Some u)"
    by (rule sdk_reach.step [OF r1, where ev = "Logout ''op''" and n = n]) (simp add: api_call_def call_guard_def CheckResourceLoad_def u(1) u1(3))
  from failed_login_strands [OF r, of "[]" "''op''" "''op''" n "[]"] u(2,3)
  obtain e v1 v2 where v: "sdk_step ?E n (Login ''op'' [] []) (Some u) = Returned (Some e) (Some v1)"
      "sdk_step ?E n (Logout ''op'') (Some v1) = Returned (Some (GoError ''call panic'')) (Some v2)"
      "lm_loginStatus v2 = Logging" "\<forall>u3. until_logout ?E v2 u3 \<longrightarrow> lm_ctx u3 \<in> set (lm_cancelled u3)"
    by (auto simp: login_statuses)
  have "sdk_reach ?E (Some v2)" by (rule sdk_reach.step [OF sdk_reach.step [OF r v(1)] v(2)])
  then obtain info' where "lm_info v2 = Some info'" using reach_session by (force simp: session_ok_def)
  then obtain v3 where "login ?E ''me'' [] v2 = Returned None v3" and logged: "lm_loginStatus v3 = Logged"
    using sample_login_returns [of v2 info' "''me''" E "[]"] v(3) by (auto simp: login_statuses)
  then have step: "sdk_step ?E n (Login ''op'' ''me'' []) (Some v2) = Returned None (Some v3)"
    by (simp add: api_call_def call_guard_def CheckResourceLoad_def)
  have "until_logout ?E v2 v3" by (rule until_logout.event [OF until_logout.here step]) simp_all
  with r v step logged show "\<exists>u e u1 u2 u3. sdk_reach ?E (Some u) \<and>
     sdk_step ?E n (Login ''op'' [] []) (Some u) = Returned (Some e) (Some u1) \<and>
     sdk_step ?E n (Logout ''op'') (Some u1) = Returned (Some (GoError ''call panic'')) (Some u2) \<and>
     sdk_step ?E n (Login ''op'' ''me'' []) (Some u2) = Returned None (Some u3) \<and>
     lm_loginStatus u3 = Logged \<and> lm_ctx u3 \<in> set (lm_cancelled u3)" by blast
qed

end
