(* ===== verification/FriendSdk.thy ===== *)
theory FriendSdk
  imports FriendSync ConvDb "HOL-Library.Char_ord" "HOL-Library.List_Lexorder"
begin

text \<open>
  \<^verbatim>\<open>internal/friend/sdk.go\<close> and the notifications of \<^verbatim>\<open>friend.go\<close>: what the application asks for, and what the server
  tells. The keyword search builds SQL text and is not modelled. The client is the state of the tables with the network.
\<close>

section \<open>State\<close>

record ('tf, 'tb, 'tr, 'n) friend_client = "('tf, 'tb, 'tr) friend_state" +
  fc_net :: 'n

definition on_fnet ::
  "('n \<Rightarrow> 'x \<times> 'n) \<Rightarrow> ('tf, 'tb, 'tr, 'n) friend_client \<Rightarrow> 'x \<times> ('tf, 'tb, 'tr, 'n) friend_client" where
  "on_fnet f s = (case f (fc_net s) of (r, n) \<Rightarrow> (r, s\<lparr>fc_net := n\<rparr>))"

record ApplyToAddFriendReq =
  aaf_FromUserID :: string
  aaf_ToUserID :: string
  aaf_ReqMsg :: string
  aaf_Ex :: string

record RespondFriendApplyReq =
  rfa_FromUserID :: string
  rfa_ToUserID :: string
  rfa_HandleResult :: int
  rfa_HandleMsg :: string

text \<open>An \<open>UpdateFriendsReq\<close> leaves out what stays as it is.\<close>

datatype friend_post =
    ApplyToAddFriend ApplyToAddFriendReq
  | RespondToApply RespondFriendApplyReq
  | DeleteFriendReq string string
  | SetFriendRemarkReq string string string
  | UpdateFriendsReq string "string list" "bool option" "string option"
  | AddBlackReq string string string
  | RemoveBlackReq string string

text \<open>
  The tables, the login user and the server; the paged requests are given for a page size and a page number, and
  \<open>fx_range_\<dots>\<close> are iteration orders of maps.
\<close>

record ('tf, 'tb, 'tr, 'n) friend_env =
  fx_friends :: "(LocalFriend, 'tf) gorm"
  fx_blacks :: "(LocalBlack, 'tb) gorm"
  fx_requests :: "(LocalFriendRequest, 'tr) gorm"
  fx_loginUserID :: string
  fx_designated_io :: "('n, string \<times> string list, FriendInfo list) api_io"
  fx_both_io :: "('n, string \<times> string, FriendRequest list) api_io"
  fx_post_io :: "('n, friend_post, unit) api_io"
  fx_friend_page :: "int \<Rightarrow> int \<Rightarrow> 'n \<Rightarrow> (go_error + FriendInfo list) \<times> 'n"
  fx_black_page :: "int \<Rightarrow> int \<Rightarrow> 'n \<Rightarrow> (go_error + BlackInfo list) \<times> 'n"
  fx_recv_page :: "int \<Rightarrow> int \<Rightarrow> 'n \<Rightarrow> (go_error + FriendRequest list) \<times> 'n"
  fx_send_page :: "int \<Rightarrow> int \<Rightarrow> 'n \<Rightarrow> (go_error + FriendRequest list) \<times> 'n"
  fx_range_friends :: "(string \<times> string, LocalFriend) gomap \<Rightarrow> (string \<times> string, LocalFriend) gomap"
  fx_range_blacks :: "(string \<times> string, LocalBlack) gomap \<Rightarrow> (string \<times> string, LocalBlack) gomap"
  fx_range_requests :: "(string \<times> string, LocalFriendRequest) gomap \<Rightarrow> (string \<times> string, LocalFriendRequest) gomap"

type_synonym ('tf, 'tb, 'tr, 'n) friend_act = "('tf, 'tb, 'tr, 'n) friend_client loop_act"

definition zero_friend :: LocalFriend where
  "zero_friend = \<lparr>fr_OwnerUserID = [], fr_FriendUserID = [], fr_Remark = [], fr_CreateTime = 0, fr_AddSource = 0,
     fr_OperatorUserID = [], fr_Nickname = [], fr_FaceURL = [], fr_Ex = [], fr_AttachedInfo = [], fr_IsPinned = False\<rparr>"

definition zero_black :: LocalBlack where
  "zero_black = \<lparr>bl_OwnerUserID = [], bl_BlockUserID = [], bl_Nickname = [], bl_FaceURL = [], bl_CreateTime = 0,
     bl_AddSource = 0, bl_OperatorUserID = [], bl_Ex = [], bl_AttachedInfo = []\<rparr>"

definition zero_friend_request :: LocalFriendRequest where
  "zero_friend_request = \<lparr>frq_FromUserID = [], frq_FromNickname = [], frq_FromFaceURL = [], frq_ToUserID = [],
     frq_ToNickname = [], frq_ToFaceURL = [], frq_HandleResult = 0, frq_ReqMsg = [], frq_CreateTime = 0,
     frq_HandlerUserID = [], frq_HandleMsg = [], frq_HandleTime = 0, frq_Ex = [], frq_AttachedInfo = []\<rparr>"

definition AddFriendRouter :: string where "AddFriendRouter = ''/friend/add_friend''"
definition DeleteFriendRouter :: string where "DeleteFriendRouter = ''/friend/delete_friend''"
definition GetDesignatedFriendsApplyRouter :: string where "GetDesignatedFriendsApplyRouter = ''/friend/get_designated_friend_apply''"
definition GetDesignatedFriendsRouter :: string where "GetDesignatedFriendsRouter = ''/friend/get_designated_friends''"
definition AddFriendResponse :: string where "AddFriendResponse = ''/friend/add_friend_response''"
definition SetFriendRemarkRouter :: string where "SetFriendRemarkRouter = ''/friend/set_friend_remark''"
definition UpdateFriendsRouter :: string where "UpdateFriendsRouter = ''/friend/update_friends''"
definition AddBlackRouter :: string where "AddBlackRouter = ''/friend/add_black''"
definition RemoveBlackRouter :: string where "RemoveBlackRouter = ''/friend/remove_black''"

section \<open>The synchronisations with the server of the client\<close>

definition sync_friends :: "('tf, 'tb, 'tr, 'n) friend_env \<Rightarrow> string list \<Rightarrow> ('tf, 'tb, 'tr, 'n) friend_client action" where
  "sync_friends E =
     SyncFriends (=) zero_friend (fx_range_friends E) (fx_friends E) (fx_loginUserID E)
       (\<lambda>ids. on_fnet (CallApi [] (fx_designated_io E) GetDesignatedFriendsRouter (fx_loginUserID E, ids)))"

definition sync_both_requests :: "('tf, 'tb, 'tr, 'n) friend_env \<Rightarrow> string \<Rightarrow> string \<Rightarrow> ('tf, 'tb, 'tr, 'n) friend_client action" where
  "sync_both_requests E =
     SyncBothFriendRequest (=) zero_friend_request (fx_range_requests E) (fx_requests E) (fx_loginUserID E)
       (\<lambda>from to. on_fnet (CallApi [] (fx_both_io E) GetDesignatedFriendsApplyRouter (from, to)))"

definition sync_all_friends :: "('tf, 'tb, 'tr, 'n) friend_env \<Rightarrow> ('tf, 'tb, 'tr, 'n) friend_act" where
  "sync_all_friends E =
     SyncAllFriendList (=) zero_friend (fx_range_friends E) (fx_friends E) (fx_loginUserID E) (\<lambda>n p. on_fnet (fx_friend_page E n p))"

definition sync_blacks :: "('tf, 'tb, 'tr, 'n) friend_env \<Rightarrow> ('tf, 'tb, 'tr, 'n) friend_act" where
  "sync_blacks E =
     SyncAllBlackList (=) zero_black (fx_range_blacks E) (fx_blacks E) (fx_loginUserID E) (\<lambda>n p. on_fnet (fx_black_page E n p))"

definition sync_received :: "('tf, 'tb, 'tr, 'n) friend_env \<Rightarrow> ('tf, 'tb, 'tr, 'n) friend_act" where
  "sync_received E =
     SyncAllFriendApplication (=) zero_friend_request (fx_range_requests E) (fx_requests E) (fx_loginUserID E)
       (\<lambda>n p. on_fnet (fx_recv_page E n p))"

definition sync_sent :: "('tf, 'tb, 'tr, 'n) friend_env \<Rightarrow> ('tf, 'tb, 'tr, 'n) friend_act" where
  "sync_sent E =
     SyncAllSelfFriendApplication (=) zero_friend_request (fx_range_requests E) (fx_requests E) (fx_loginUserID E)
       (\<lambda>n p. on_fnet (fx_send_page E n p))"

definition post_friend :: "('tf, 'tb, 'tr, 'n) friend_env \<Rightarrow> string \<Rightarrow> friend_post \<Rightarrow> ('tf, 'tb, 'tr, 'n) friend_client action" where
  "post_friend E router req s =
     (case on_fnet (ApiPost (fx_post_io E) router req) s of (Inl e, s1) \<Rightarrow> (Some e, s1) | (Inr _, s1) \<Rightarrow> (None, s1))"

section \<open>Reading the tables\<close>

record PublicUser =
  pu_UserID :: string
  pu_Nickname :: string
  pu_FaceURL :: string
  pu_Ex :: string
  pu_CreateTime :: int

record FullUserInfo =
  fu_PublicInfo :: "PublicUser option"
  fu_FriendInfo :: "LocalFriend option"
  fu_BlackInfo :: "LocalBlack option"

record UserIDResult =
  ur_UserID :: string
  ur_Result :: int

text \<open>The entry of the black list that is given for a friend is the last one with the identifier.\<close>

definition blacks_map :: "LocalBlack list \<Rightarrow> (string, LocalBlack) gomap" where
  "blacks_map blackList = fold (\<lambda>b. gput (bl_BlockUserID b) b) blackList []"

definition full_infos :: "LocalFriend list \<Rightarrow> LocalBlack list \<Rightarrow> FullUserInfo list" where
  "full_infos friendList blackList = map (\<lambda>f. \<lparr>fu_PublicInfo = None, fu_FriendInfo = Some f,
     fu_BlackInfo = gget (blacks_map blackList) (fr_FriendUserID f)\<rparr>) friendList"

definition read_both ::
  "('s \<Rightarrow> (go_error + 'a) \<times> 's) \<Rightarrow> ('s \<Rightarrow> (go_error + 'b) \<times> 's) \<Rightarrow> ('a \<Rightarrow> 'b \<Rightarrow> 'c) \<Rightarrow> 's \<Rightarrow> (go_error + 'c) \<times> 's" where
  "read_both first second k s =
     (case first s of
        (Inl e, s1) \<Rightarrow> (Inl e, s1)
      | (Inr a, s1) \<Rightarrow> (case second s1 of (Inl e, s2) \<Rightarrow> (Inl e, s2) | (Inr b, s2) \<Rightarrow> (Inr (k a b), s2)))"

definition GetPageFriendList ::
  "(LocalFriend, 't) gorm \<Rightarrow> string \<Rightarrow> int \<Rightarrow> int \<Rightarrow> 't \<Rightarrow> (go_error + LocalFriend list) \<times> 't" where
  "GetPageFriendList G loginUserID offset cnt t =
     wrap_res ''GetFriendList failed'' (ordered_find G (\<lambda>r. fr_OwnerUserID r = loginUserID) fr_Nickname (nat offset) cnt t)"

definition UpdateColumnsFriend :: "(LocalFriend, 't) gorm \<Rightarrow> string list \<Rightarrow> (LocalFriend \<Rightarrow> LocalFriend) \<Rightarrow> 't action" where
  "UpdateColumnsFriend G friendIDs args t =
     wrap_act ''UpdateColumnsFriend failed''
       (case gorm_updates G (\<lambda>r. fr_FriendUserID r \<in> set friendIDs) args t of ((err, n), t') \<Rightarrow> (err, t'))"

definition GetSpecifiedFriendsInfo ::
  "('tf, 'tb, 'tr, 'n) friend_env \<Rightarrow> string list \<Rightarrow> ('tf, 'tb, 'tr, 'n) friend_client \<Rightarrow>
   (go_error + FullUserInfo list) \<times> ('tf, 'tb, 'tr, 'n) friend_client" where
  "GetSpecifiedFriendsInfo E friendUserIDList =
     read_both (on_friends (GetFriendInfoList (fx_friends E) friendUserIDList))
       (on_blacks (GetBlackInfoList (fx_blacks E) friendUserIDList)) full_infos"

definition GetFriendList ::
  "('tf, 'tb, 'tr, 'n) friend_env \<Rightarrow> ('tf, 'tb, 'tr, 'n) friend_client \<Rightarrow>
   (go_error + FullUserInfo list) \<times> ('tf, 'tb, 'tr, 'n) friend_client" where
  "GetFriendList E =
     read_both (on_friends (GetAllFriendList (fx_friends E) (fx_loginUserID E))) (on_blacks (GetBlackListDB (fx_blacks E))) full_infos"

definition GetFriendListPage ::
  "('tf, 'tb, 'tr, 'n) friend_env \<Rightarrow> int \<Rightarrow> int \<Rightarrow> ('tf, 'tb, 'tr, 'n) friend_client \<Rightarrow>
   (go_error + FullUserInfo list) \<times> ('tf, 'tb, 'tr, 'n) friend_client" where
  "GetFriendListPage E offset cnt =
     read_both (on_friends (GetPageFriendList (fx_friends E) (fx_loginUserID E) offset cnt))
       (on_blacks (GetBlackListDB (fx_blacks E))) full_infos"

definition check_results :: "string list \<Rightarrow> LocalFriend list \<Rightarrow> LocalBlack list \<Rightarrow> UserIDResult list" where
  "check_results friendUserIDList friendList blackList = map (\<lambda>v.
     let isBlack = list_ex (\<lambda>b. v = bl_BlockUserID b) blackList;
         isFriend = list_ex (\<lambda>f. v = fr_FriendUserID f) friendList
     in \<lparr>ur_UserID = v, ur_Result = (if isFriend \<and> \<not> isBlack then 1 else 0)\<rparr>) friendUserIDList"

definition CheckFriend ::
  "('tf, 'tb, 'tr, 'n) friend_env \<Rightarrow> string list \<Rightarrow> ('tf, 'tb, 'tr, 'n) friend_client \<Rightarrow>
   (go_error + UserIDResult list) \<times> ('tf, 'tb, 'tr, 'n) friend_client" where
  "CheckFriend E friendUserIDList =
     read_both (on_friends (GetFriendInfoList (fx_friends E) friendUserIDList))
       (on_blacks (GetBlackInfoList (fx_blacks E) friendUserIDList)) (check_results friendUserIDList)"

definition GetFriendApplicationListAsRecipient ::
  "('tf, 'tb, 'tr, 'n) friend_env \<Rightarrow> ('tf, 'tb, 'tr, 'n) friend_client \<Rightarrow>
   (go_error + LocalFriendRequest list) \<times> ('tf, 'tb, 'tr, 'n) friend_client" where
  "GetFriendApplicationListAsRecipient E = on_requests (GetRecvFriendApplication (fx_requests E) (fx_loginUserID E))"

definition GetFriendApplicationListAsApplicant ::
  "('tf, 'tb, 'tr, 'n) friend_env \<Rightarrow> ('tf, 'tb, 'tr, 'n) friend_client \<Rightarrow>
   (go_error + LocalFriendRequest list) \<times> ('tf, 'tb, 'tr, 'n) friend_client" where
  "GetFriendApplicationListAsApplicant E = on_requests (GetSendFriendApplication (fx_requests E) (fx_loginUserID E))"

definition GetBlackList ::
  "('tf, 'tb, 'tr, 'n) friend_env \<Rightarrow> ('tf, 'tb, 'tr, 'n) friend_client \<Rightarrow>
   (go_error + LocalBlack list) \<times> ('tf, 'tb, 'tr, 'n) friend_client" where
  "GetBlackList E = on_blacks (GetBlackListDB (fx_blacks E))"

section \<open>Requests of the application\<close>

definition AddFriend :: "('tf, 'tb, 'tr, 'n) friend_env \<Rightarrow> ApplyToAddFriendReq \<Rightarrow> ('tf, 'tb, 'tr, 'n) friend_act" where
  "AddFriend E req =
     then_act (done_act (post_friend E AddFriendRouter (ApplyToAddFriend
         (if aaf_FromUserID req = [] then req\<lparr>aaf_FromUserID := fx_loginUserID E\<rparr> else req))))
       (sync_received E)"

text \<open>After the server has taken the answer, what the synchronisations return is dropped.\<close>

definition RespondFriendApply :: "('tf, 'tb, 'tr, 'n) friend_env \<Rightarrow> RespondFriendApplyReq \<Rightarrow> ('tf, 'tb, 'tr, 'n) friend_act" where
  "RespondFriendApply E req =
     then_act (done_act (post_friend E AddFriendResponse (RespondToApply
         (if rfa_ToUserID req = [] then req\<lparr>rfa_ToUserID := fx_loginUserID E\<rparr> else req))))
       (\<lambda>s. let s1 = (if rfa_HandleResult req = FriendResponseAgree then snd (sync_friends E [rfa_FromUserID req] s) else s)
            in map_option (\<lambda>(_, s2). (None, s2)) (sync_received E s1))"

definition AcceptFriendApplication :: "('tf, 'tb, 'tr, 'n) friend_env \<Rightarrow> string \<Rightarrow> string \<Rightarrow> ('tf, 'tb, 'tr, 'n) friend_act" where
  "AcceptFriendApplication E toUserID handleMsg = RespondFriendApply E
     \<lparr>rfa_FromUserID = toUserID, rfa_ToUserID = fx_loginUserID E, rfa_HandleResult = FriendResponseAgree, rfa_HandleMsg = handleMsg\<rparr>"

definition RefuseFriendApplication :: "('tf, 'tb, 'tr, 'n) friend_env \<Rightarrow> string \<Rightarrow> string \<Rightarrow> ('tf, 'tb, 'tr, 'n) friend_act" where
  "RefuseFriendApplication E toUserID handleMsg = RespondFriendApply E
     \<lparr>rfa_FromUserID = toUserID, rfa_ToUserID = fx_loginUserID E, rfa_HandleResult = FriendResponseRefuse, rfa_HandleMsg = handleMsg\<rparr>"

definition DeleteFriend :: "('tf, 'tb, 'tr, 'n) friend_env \<Rightarrow> string \<Rightarrow> ('tf, 'tb, 'tr, 'n) friend_client action" where
  "DeleteFriend E friendUserID =
     and_then (post_friend E DeleteFriendRouter (DeleteFriendReq (fx_loginUserID E) friendUserID))
       (deleteFriend (fx_friends E) (fx_loginUserID E) friendUserID)"

definition SetFriendRemark :: "('tf, 'tb, 'tr, 'n) friend_env \<Rightarrow> string \<Rightarrow> string \<Rightarrow> ('tf, 'tb, 'tr, 'n) friend_client action" where
  "SetFriendRemark E toUserID remark =
     and_then (post_friend E SetFriendRemarkRouter (SetFriendRemarkReq (fx_loginUserID E) toUserID remark))
       (sync_friends E [toUserID])"

definition PinFriends :: "('tf, 'tb, 'tr, 'n) friend_env \<Rightarrow> string list \<Rightarrow> bool option \<Rightarrow> ('tf, 'tb, 'tr, 'n) friend_client action" where
  "PinFriends E toUserIDs isPinned =
     and_then (post_friend E UpdateFriendsRouter (UpdateFriendsReq (fx_loginUserID E) toUserIDs isPinned None))
       (sync_friends E toUserIDs)"

definition AddBlack :: "('tf, 'tb, 'tr, 'n) friend_env \<Rightarrow> string \<Rightarrow> string \<Rightarrow> ('tf, 'tb, 'tr, 'n) friend_act" where
  "AddBlack E blackUserID ex =
     then_act (done_act (post_friend E AddBlackRouter (AddBlackReq (fx_loginUserID E) blackUserID ex))) (sync_blacks E)"

definition RemoveBlack :: "('tf, 'tb, 'tr, 'n) friend_env \<Rightarrow> string \<Rightarrow> ('tf, 'tb, 'tr, 'n) friend_act" where
  "RemoveBlack E blackUserID =
     then_act (done_act (post_friend E RemoveBlackRouter (RemoveBlackReq (fx_loginUserID E) blackUserID))) (sync_blacks E)"

definition all_friends :: "string list \<Rightarrow> UserIDResult list \<Rightarrow> bool" where
  "all_friends friendIDs friendResults \<longleftrightarrow>
     list_all (\<lambda>friendID. list_ex (\<lambda>r. ur_UserID r = friendID \<and> ur_Result r = 1) friendResults) friendIDs"

definition SetFriendsEx :: "('tf, 'tb, 'tr, 'n) friend_env \<Rightarrow> string list \<Rightarrow> string \<Rightarrow> ('tf, 'tb, 'tr, 'n) friend_client action" where
  "SetFriendsEx E friendIDs ex =
     and_then (post_friend E UpdateFriendsRouter (UpdateFriendsReq (fx_loginUserID E) friendIDs None (Some ex)))
       (\<lambda>s. case CheckFriend E friendIDs s of
          (Inl e, s1) \<Rightarrow> (Some (Wrapped e ''Error checking friend status''), s1)
        | (Inr friendResults, s1) \<Rightarrow>
            if \<not> all_friends friendIDs friendResults then (Some (Wrapped ErrRecordNotFound ''Not friend''), s1)
            else wrap_act ''Error updating friend information''
                   (on_friends (UpdateColumnsFriend (fx_friends E) friendIDs (\<lambda>r. r\<lparr>fr_Ex := ex\<rparr>)) s1))"

section \<open>Notifications of the server\<close>

definition FriendApplicationApprovedNotification :: int where "FriendApplicationApprovedNotification = 1201"
definition FriendApplicationRejectedNotification :: int where "FriendApplicationRejectedNotification = 1202"
definition FriendApplicationNotification :: int where "FriendApplicationNotification = 1203"
definition FriendAddedNotification :: int where "FriendAddedNotification = 1204"
definition FriendDeletedNotification :: int where "FriendDeletedNotification = 1205"
definition FriendRemarkSetNotification :: int where "FriendRemarkSetNotification = 1206"
definition BlackAddedNotification :: int where "BlackAddedNotification = 1207"
definition BlackDeletedNotification :: int where "BlackDeletedNotification = 1208"
definition FriendInfoUpdatedNotification :: int where "FriendInfoUpdatedNotification = 1209"
definition FriendsInfoUpdateNotification :: int where "FriendsInfoUpdateNotification = 1210"

text \<open>
  The details of all notifications in one record; which of them the details of one type hold is decided by the decoder
  \<open>tips\<close>, which takes the type. A missing message is \<open>None\<close>; reading a field of it panics. The friend of a
  \<^verbatim>\<open>FriendAddedTips\<close> is its owner and, unless it is missing, its user.
\<close>

record friend_tips =
  fn_FromToUserID :: "(string \<times> string) option"
  fn_Friend :: "(string \<times> string option) option"
  fn_UserID :: string
  fn_FriendIDs :: "string list"

definition from_to ::
  "friend_tips \<Rightarrow> (string \<Rightarrow> string \<Rightarrow> ('tf, 'tb, 'tr, 'n) friend_act) \<Rightarrow> ('tf, 'tb, 'tr, 'n) friend_act" where
  "from_to d k = (case fn_FromToUserID d of None \<Rightarrow> (\<lambda>s. None) | Some (from, to) \<Rightarrow> k from to)"

definition friend_notified :: "('tf, 'tb, 'tr, 'n) friend_env \<Rightarrow> int \<Rightarrow> friend_tips \<Rightarrow> ('tf, 'tb, 'tr, 'n) friend_act" where
  "friend_notified E contentType d =
     (if contentType \<in> {FriendApplicationNotification, FriendApplicationRejectedNotification}
      then from_to d (\<lambda>from to. done_act (sync_both_requests E from to))
      else if contentType = FriendApplicationApprovedNotification
      then from_to d (\<lambda>from to. done_act (and_then
             (if from = fx_loginUserID E then sync_friends E [to]
              else if to = fx_loginUserID E then sync_friends E [from] else skip_act)
             (sync_both_requests E from to)))
      else if contentType = FriendAddedNotification
      then done_act (case fn_Friend d of
             Some (owner, Some user) \<Rightarrow>
               if user = fx_loginUserID E then sync_friends E [owner]
               else if owner = fx_loginUserID E then sync_friends E [user] else skip_act
           | _ \<Rightarrow> skip_act)
      else if contentType = FriendDeletedNotification
      then done_act (case fn_FromToUserID d of
             Some (from, to) \<Rightarrow>
               if from = fx_loginUserID E then deleteFriend (fx_friends E) (fx_loginUserID E) to else skip_act
           | None \<Rightarrow> skip_act)
      else if contentType = FriendRemarkSetNotification
      then done_act (case fn_FromToUserID d of
             Some (from, to) \<Rightarrow> if from = fx_loginUserID E then sync_friends E [to] else skip_act
           | None \<Rightarrow> skip_act)
      else if contentType = FriendInfoUpdatedNotification
      then done_act (if fn_UserID d \<noteq> fx_loginUserID E then sync_friends E [fn_UserID d] else skip_act)
      else if contentType \<in> {BlackAddedNotification, BlackDeletedNotification}
      then from_to d (\<lambda>from to. if from = fx_loginUserID E then sync_blacks E else done_act skip_act)
      else if contentType = FriendsInfoUpdateNotification
      then from_to d (\<lambda>from to. done_act (if to = fx_loginUserID E then sync_friends E (fn_FriendIDs d) else skip_act))
      else done_act (\<lambda>s. (Some (GoError (''type failed '' @ decimal contentType)), s)))"

definition friend_doNotification ::
  "('tf, 'tb, 'tr, 'n) friend_env \<Rightarrow> (int \<Rightarrow> string \<Rightarrow> go_error + friend_tips) \<Rightarrow> int \<Rightarrow> string \<Rightarrow>
   ('tf, 'tb, 'tr, 'n) friend_act" where
  "friend_doNotification E tips contentType content s =
     (if contentType < FriendApplicationApprovedNotification \<or> FriendsInfoUpdateNotification < contentType
      then Some (Some (GoError (''type failed '' @ decimal contentType)), s)
      else case tips contentType content of Inl e \<Rightarrow> Some (Some e, s) | Inr d \<Rightarrow> friend_notified E contentType d s)"

end
