(* ===== verification/FriendProps.thy ===== *)
theory FriendProps
  imports FriendSdk
begin

text \<open>
  What holds of the friends at all times: the calls of the application, the notifications of the server and the
  synchronisations are the steps of the client, and the table of the friends is well formed after each of them.
\<close>

section \<open>Pages\<close>

lemma get_pages_all:
  assumes call: "\<And>p s r s'. call p s = (r, s') \<Longrightarrow> R s s' \<and> (\<forall>page. r = Inr page \<longrightarrow> list_all Q page)"
    and R: "\<And>s. R s s" "\<And>s s' s''. R s s' \<Longrightarrow> R s' s'' \<Longrightarrow> R s s''"
    and run: "get_pages call n i res s = Some y" and res: "list_all Q res"
  shows "R s (snd y) \<and> (\<forall>xs. fst y = Inr xs \<longrightarrow> list_all Q xs)"
proof -
  have "call = call \<longrightarrow> list_all Q res \<longrightarrow> R s (snd y) \<and> (\<forall>xs. fst y = Inr xs \<longrightarrow> list_all Q xs)"
  proof (rule get_pages.raw_induct [where P = "\<lambda>call' n i res s y. call' = call \<longrightarrow> list_all Q res \<longrightarrow>
      R s (snd y) \<and> (\<forall>xs. fst y = Inr xs \<longrightarrow> list_all Q xs)", OF _ run], intro impI)
    fix gp call' n i res s y
    assume IH: "\<And>call' n i res s y. gp call' n i res s = Some y \<Longrightarrow>
        call' = call \<longrightarrow> list_all Q res \<longrightarrow> R s (snd y) \<and> (\<forall>xs. fst y = Inr xs \<longrightarrow> list_all Q xs)"
      and eq: "call' = call" and res: "list_all Q res"
      and body: "(case call' (i32 (i + 1)) s of (Inl e, s') \<Rightarrow> Some (Inl e, s')
        | (Inr page, s') \<Rightarrow> if int (length page) < n then Some (Inr (res @ page), s')
            else gp call' n (i32 (i + 1)) (res @ page) s') = Some y"
    obtain r s1 where one: "call (i32 (i + 1)) s = (r, s1)" by fastforce
    note step = call [OF one]
    show "R s (snd y) \<and> (\<forall>xs. fst y = Inr xs \<longrightarrow> list_all Q xs)"
    proof (cases r)
      case (Inl e)
      with body have "y = (Inl e, s1)" unfolding eq one by simp
      with step show ?thesis by simp
    next
      case (Inr page)
      with step res have pages: "list_all Q (res @ page)" and "R s s1" by auto
      show ?thesis
      proof (cases "int (length page) < n")
        case True
        with body have "y = (Inr (res @ page), s1)" unfolding eq one Inr by simp
        with pages \<open>R s s1\<close> show ?thesis by simp
      next
        case False
        with body have "gp call n (i32 (i + 1)) (res @ page) s1 = Some y" unfolding eq one Inr by simp
        from IH [OF this] have "R s1 (snd y) \<and> (\<forall>xs. fst y = Inr xs \<longrightarrow> list_all Q xs)" using pages by blast
        with \<open>R s s1\<close> R(2) show ?thesis by blast
      qed
    qed
  qed
  with res show ?thesis by simp
qed

section \<open>The steps of the client\<close>

datatype friend_call =
    CallAddFriend ApplyToAddFriendReq
  | CallAccept string string
  | CallRefuse string string
  | CallDeleteFriend string
  | CallSetRemark string string
  | CallPin "string list" "bool option"
  | CallAddBlack string string
  | CallRemoveBlack string
  | CallSetEx "string list" string
  | CallNotification int string
  | CallSyncFriends
  | CallSyncBlacks
  | CallSyncReceived
  | CallSyncSent
  | CallRead "string list" int int

definition read_act :: "('s \<Rightarrow> (go_error + 'a) \<times> 's) \<Rightarrow> 's action" where
  "read_act f s = (case f s of (Inl e, s1) \<Rightarrow> (Some e, s1) | (Inr _, s1) \<Rightarrow> (None, s1))"

fun friend_run ::
  "('tf, 'tb, 'tr, 'n) friend_env \<Rightarrow> (int \<Rightarrow> string \<Rightarrow> go_error + friend_tips) \<Rightarrow> friend_call \<Rightarrow> ('tf, 'tb, 'tr, 'n) friend_act" where
  "friend_run E tips (CallAddFriend req) = AddFriend E req"
| "friend_run E tips (CallAccept to msg) = AcceptFriendApplication E to msg"
| "friend_run E tips (CallRefuse to msg) = RefuseFriendApplication E to msg"
| "friend_run E tips (CallDeleteFriend friendUserID) = done_act (DeleteFriend E friendUserID)"
| "friend_run E tips (CallSetRemark to remark) = done_act (SetFriendRemark E to remark)"
| "friend_run E tips (CallPin ids isPinned) = done_act (PinFriends E ids isPinned)"
| "friend_run E tips (CallAddBlack blackUserID ex) = AddBlack E blackUserID ex"
| "friend_run E tips (CallRemoveBlack blackUserID) = RemoveBlack E blackUserID"
| "friend_run E tips (CallSetEx ids ex) = done_act (SetFriendsEx E ids ex)"
| "friend_run E tips (CallNotification contentType content) = friend_doNotification E tips contentType content"
| "friend_run E tips CallSyncFriends = sync_all_friends E"
| "friend_run E tips CallSyncBlacks = sync_blacks E"
| "friend_run E tips CallSyncReceived = sync_received E"
| "friend_run E tips CallSyncSent = sync_sent E"
| "friend_run E tips (CallRead ids offset cnt) = done_act (\<lambda>s.
     let s1 = snd (GetSpecifiedFriendsInfo E ids s); s2 = snd (GetFriendListPage E offset cnt s1); s3 = snd (GetFriendList E s2)
     in read_act (CheckFriend E ids) s3)"

text \<open>A new client has no friends; what it does, and what it is told, comes one after the other.\<close>

inductive friend_reach ::
  "('tf \<Rightarrow> LocalFriend list) \<Rightarrow> ('tf, 'tb, 'tr, 'n) friend_env \<Rightarrow> (int \<Rightarrow> string \<Rightarrow> go_error + friend_tips) \<Rightarrow>
   ('tf, 'tb, 'tr, 'n) friend_client \<Rightarrow> bool"
  for rows E tips where
  new_client: "rows (fs_friends s) = [] \<Longrightarrow> friend_reach rows E tips s"
| friend_step: "friend_reach rows E tips s \<Longrightarrow> friend_run E tips c s = Some (r, s') \<Longrightarrow> friend_reach rows E tips s'"

section \<open>What every step keeps\<close>

definition friends_ok :: "string \<Rightarrow> LocalFriend list \<Rightarrow> bool" where
  "friends_ok u rows \<longleftrightarrow> distinct (map fr_key rows) \<and> (\<forall>r \<in> set rows. good_friend u r)"

text \<open>The server gives the login user only friends of the login user, each with an identifier.\<close>

definition good_info :: "string \<Rightarrow> FriendInfo \<Rightarrow> bool" where
  "good_info u info \<longleftrightarrow> good_friend u (ServerFriendToLocalFriend info)"

definition own_friends :: "('tf, 'tb, 'tr, 'n) friend_env \<Rightarrow> bool" where
  "own_friends E \<longleftrightarrow>
     (\<forall>req n infos n'. CallApi [] (fx_designated_io E) GetDesignatedFriendsRouter req n = (Inr infos, n') \<longrightarrow>
        list_all (good_info (fx_loginUserID E)) infos) \<and>
     (\<forall>size p n infos n'. fx_friend_page E size p n = (Inr infos, n') \<longrightarrow> list_all (good_info (fx_loginUserID E)) infos)"

definition keeps_friends ::
  "('tf \<Rightarrow> LocalFriend list) \<Rightarrow> string \<Rightarrow> ('tf, 'tb, 'tr, 'm) friend_state_scheme \<Rightarrow> ('tf, 'tb, 'tr, 'm) friend_state_scheme \<Rightarrow> bool" where
  "keeps_friends rows u s s' \<longleftrightarrow> (friends_ok u (rows (fs_friends s)) \<longrightarrow> friends_ok u (rows (fs_friends s')))"

lemma keeps_refl [simp]: "keeps_friends rows u s s"
  by (simp add: keeps_friends_def)

lemma keeps_trans [trans]: "keeps_friends rows u s s' \<Longrightarrow> keeps_friends rows u s' s'' \<Longrightarrow> keeps_friends rows u s s''"
  by (simp add: keeps_friends_def)

lemma keeps_same: "fs_friends s' = fs_friends s \<Longrightarrow> keeps_friends rows u s s'"
  by (simp add: keeps_friends_def)

locale friend_store =
  fixes E :: "('tf, 'tb, 'tr, 'n) friend_env" and rows :: "'tf \<Rightarrow> LocalFriend list"
  assumes friends_table: "gorm_table (fx_friends E) rows fr_key" and own: "own_friends E"
begin

abbreviation keep :: "('tf, 'tb, 'tr, 'n) friend_client \<Rightarrow> ('tf, 'tb, 'tr, 'n) friend_client \<Rightarrow> bool" where
  "keep \<equiv> keeps_friends rows (fx_loginUserID E)"

lemma insert_keeps:
  assumes "good_friend (fx_loginUserID E) x" and "on_friends (InsertFriend (fx_friends E) x) s = (r, s')"
  shows "keep s s'"
proof -
  obtain e t where c: "gorm_create (fx_friends E) [x] (fs_friends s) = (e, t)" and "fs_friends s' = t"
    using assms(2) by (auto simp: on_friends_def InsertFriend_def split: prod.splits)
  with gorm_table.create_ok [OF friends_table] gorm_table.create_err [OF friends_table] assms(1) show ?thesis
    by (cases e) (fastforce simp: keeps_friends_def friends_ok_def)+
qed

lemma rows_deleted:
  assumes "gorm_delete (fx_friends E) p (fs_friends s) = (e, fs_friends s')"
  shows "keep s s'"
  using assms gorm_table.delete_ok [OF friends_table, of p "fs_friends s"] gorm_table.delete_err [OF friends_table, of p "fs_friends s"]
  by (cases e) (fastforce simp: keeps_friends_def friends_ok_def intro: distinct_map_filter)+

lemma delete_keeps:
  assumes "on_friends (DeleteFriendDB (fx_friends E) u friendUserID) s = (r, s')"
  shows "keep s s'"
  using assms by (auto simp: on_friends_def DeleteFriendDB_def split: prod.splits intro: rows_deleted)

lemma rows_updated:
  assumes "gorm_updates (fx_friends E) p f (fs_friends s) = ((e, n), fs_friends s')"
    and "\<And>r. p r \<Longrightarrow> good_friend (fx_loginUserID E) r \<Longrightarrow> good_friend (fx_loginUserID E) (f r) \<and> fr_key (f r) = fr_key r"
  shows "keep s s'"
proof (cases e)
  case None
  with gorm_table.updates_ok [OF friends_table] assms(1)
  have new: "rows (fs_friends s') = map (\<lambda>r. if p r then f r else r) (rows (fs_friends s))" by blast
  show ?thesis
    unfolding keeps_friends_def friends_ok_def
  proof
    assume ok: "distinct (map fr_key (rows (fs_friends s))) \<and> (\<forall>r\<in>set (rows (fs_friends s)). good_friend (fx_loginUserID E) r)"
    have "map fr_key (rows (fs_friends s')) = map fr_key (rows (fs_friends s))"
      unfolding new map_map by (rule map_cong [OF refl]) (use ok assms(2) in auto)
    with ok have "distinct (map fr_key (rows (fs_friends s')))" by simp
    moreover have "\<forall>r\<in>set (rows (fs_friends s')). good_friend (fx_loginUserID E) r" using ok assms(2) by (auto simp: new)
    ultimately show "distinct (map fr_key (rows (fs_friends s'))) \<and> (\<forall>r\<in>set (rows (fs_friends s')). good_friend (fx_loginUserID E) r)" ..
  qed
next
  case (Some e')
  with gorm_table.updates_err [OF friends_table] assms(1) show ?thesis
    by (metis keeps_friends_def)
qed

lemma update_keeps:
  assumes good: "good_friend (fx_loginUserID E) x" and run: "on_friends (UpdateFriend (fx_friends E) x) s = (r, s')"
  shows "keep s s'"
proof -
  obtain e n where "gorm_updates (fx_friends E) (\<lambda>r. fr_key r = fr_key x) (\<lambda>r. x) (fs_friends s) = ((e, n), fs_friends s')"
    using run unfolding on_friends_def update_by_key(1) [OF good] by (auto simp: update_result_def split: prod.splits)
  then show ?thesis by (rule rows_updated) (use good in auto)
qed

lemma friend_stepwise: "stepwise (friendSyncer (fx_friends E) u) keep (good_friend (fx_loginUserID E))"
  by standard (auto simp: steps_def friend_ops intro: keeps_trans insert_keeps update_keeps delete_keeps
      keeps_same dest: notices_keep_tables(1))

lemma others_stepwise: "stepwise (blockSyncer B u) keep (\<lambda>x. True)"
  by (standard; (erule (1) keeps_trans | auto simp: steps_def black_ops on_blacks_def black_notice_def emit_def
      intro!: keeps_same split: prod.splits sync_state.splits))

lemma requests_stepwise:
  "n = request_recv_notice \<or> n = request_send_notice \<Longrightarrow> stepwise (requestSyncer Q n) keep (\<lambda>x. True)"
  by (standard; (erule (1) keeps_trans | auto simp: steps_def request_ops on_requests_def request_recv_notice_def
      request_send_notice_def emit_def intro!: keeps_same split: prod.splits sync_state.splits if_splits))

end

section \<open>Every operation keeps the friends\<close>

definition loop_steps :: "('s \<Rightarrow> 's \<Rightarrow> bool) \<Rightarrow> 's loop_act \<Rightarrow> bool" where
  "loop_steps R a \<longleftrightarrow> (\<forall>s r s'. a s = Some (r, s') \<longrightarrow> R s s')"

definition reads :: "('s \<Rightarrow> 's \<Rightarrow> bool) \<Rightarrow> ('s \<Rightarrow> 'x \<times> 's) \<Rightarrow> bool" where
  "reads R f \<longleftrightarrow> (\<forall>s r s'. f s = (r, s') \<longrightarrow> R s s')"

lemma readsD: "reads R f \<Longrightarrow> f s = (r, s') \<Longrightarrow> R s s'"
  by (simp add: reads_def)

context friend_store
begin

lemma keep_and_then: "steps keep a \<Longrightarrow> steps keep b \<Longrightarrow> steps keep (and_then a b)"
  unfolding steps_def and_then_def by (fastforce split: prod.splits option.splits intro: keeps_trans)

lemma keep_skip: "steps keep skip_act"
  by (simp add: steps_def skip_act_def)

lemma keep_done: "steps keep a \<Longrightarrow> loop_steps keep (done_act a)"
  by (simp add: steps_def loop_steps_def done_act_def)

lemma keep_then: "loop_steps keep a \<Longrightarrow> loop_steps keep b \<Longrightarrow> loop_steps keep (then_act a b)"
  unfolding loop_steps_def then_act_def by (fastforce split: prod.splits option.splits intro: keeps_trans)

lemma keep_net: "reads keep (on_fnet f)"
  by (auto simp: reads_def on_fnet_def split: prod.splits intro!: keeps_same)

lemma keep_others: "reads keep (on_blacks f)" "reads keep (on_requests g)"
  by (auto simp: reads_def on_blacks_def on_requests_def split: prod.splits intro!: keeps_same)

lemma keep_found: "gorm_find (fx_friends E) p (fs_friends s) = (r, fs_friends s') \<Longrightarrow> keep s s'"
  by (simp add: keeps_friends_def gorm_table.find_rows [OF friends_table])

lemma keep_reads:
  "reads keep (on_friends (GetFriendInfoList (fx_friends E) ids))"
  "reads keep (on_friends (GetAllFriendList (fx_friends E) u))"
  "reads keep (on_friends (GetPageFriendList (fx_friends E) u offset cnt))"
  by (auto simp: reads_def on_friends_def GetFriendInfoList_def GetAllFriendList_def GetPageFriendList_def ordered_find_def
      wrap_res_def split: prod.splits sum.splits intro: keep_found)

lemma keep_read_both: "reads keep f \<Longrightarrow> reads keep g \<Longrightarrow> reads keep (read_both f g k)"
  unfolding reads_def read_both_def by (fastforce split: prod.splits sum.splits intro: keeps_trans)

lemma keep_post: "steps keep (post_friend E router req)"
  by (auto simp: steps_def post_friend_def split: prod.splits sum.splits dest: readsD [OF keep_net])

lemma keep_Sync_friends:
  "list_all (good_info (fx_loginUserID E)) infos \<Longrightarrow>
   steps keep (Sync cmp_Equal zero iter (friendSyncer (fx_friends E) u) (Batch ServerFriendToLocalFriend infos) localData None noDel)"
  by (rule stepwise.Sync_step [OF friend_stepwise]) (auto simp: Batch_def good_info_def list_all_iff)

lemma keep_sync_friends: "steps keep (sync_friends E ids)"
  unfolding steps_def
proof (intro allI impI)
  fix s r s'
  assume run: "sync_friends E ids s = (r, s')"
  obtain ra s1 where ask: "on_fnet (CallApi [] (fx_designated_io E) GetDesignatedFriendsRouter (fx_loginUserID E, ids)) s = (ra, s1)"
    by fastforce
  then have s1: "keep s s1" by (rule readsD [OF keep_net])
  show "keep s s'"
  proof (cases ra)
    case (Inl e)
    with run ask s1 show ?thesis by (simp add: sync_friends_def SyncFriends_def)
  next
    case (Inr infos)
    with ask obtain n' where "CallApi [] (fx_designated_io E) GetDesignatedFriendsRouter (fx_loginUserID E, ids) (fc_net s) = (Inr infos, n')"
      by (auto simp: on_fnet_def split: prod.splits)
    with own have good: "list_all (good_info (fx_loginUserID E)) infos" unfolding own_friends_def by blast
    obtain rb s2 where rd: "on_friends (GetFriendInfoList (fx_friends E) ids) s1 = (rb, s2)" by fastforce
    then have "keep s1 s2" by (rule readsD [OF keep_reads(1)])
    with s1 have s2: "keep s s2" by (rule keeps_trans)
    show ?thesis
    proof (cases rb)
      case (Inl e)
      with run ask \<open>ra = Inr infos\<close> rd s2 show ?thesis by (simp add: sync_friends_def SyncFriends_def)
    next
      case (Inr ls)
      with run ask \<open>ra = Inr infos\<close> rd
      have "Sync (=) zero_friend (fx_range_friends E) (friendSyncer (fx_friends E) (fx_loginUserID E))
          (Batch ServerFriendToLocalFriend infos) ls None [] s2 = (r, s')"
        by (simp add: sync_friends_def SyncFriends_def)
      with keep_Sync_friends [OF good] have "keep s2 s'" unfolding steps_def by blast
      with s2 show ?thesis by (rule keeps_trans)
    qed
  qed
qed

lemma keep_fetch:
  assumes ask: "\<And>p s r s'. request 50 p s = (r, s') \<Longrightarrow> keep s s' \<and> (\<forall>page. r = Inr page \<longrightarrow> list_all Q page)"
    and rd: "reads keep read_local"
    and sync: "\<And>infos ls. list_all Q infos \<Longrightarrow> steps keep (sync (Batch conv infos) ls)"
  shows "loop_steps keep (fetch_and_sync request conv read_local sync)"
  unfolding loop_steps_def
proof (intro allI impI)
  fix s r s'
  assume run: "fetch_and_sync request conv read_local sync s = Some (r, s')"
  obtain y where pages: "GetPageAll request 0 s = Some y"
    using run by (cases "GetPageAll request 0 s") (auto simp: fetch_and_sync_def)
  then have "get_pages (request 50) 50 0 [] s = Some y" by (simp add: GetPageAll_def)
  from get_pages_all [where R = keep and Q = Q, OF ask keeps_refl keeps_trans this]
  have y: "keep s (snd y)" "\<And>xs. fst y = Inr xs \<Longrightarrow> list_all Q xs" by simp_all
  show "keep s s'"
  proof (cases "fst y")
    case (Inl e)
    with run pages y(1) show ?thesis by (cases y) (simp add: fetch_and_sync_def)
  next
    case (Inr xs)
    obtain rb s2 where rb: "read_local (snd y) = (rb, s2)" by fastforce
    with rd have "keep (snd y) s2" unfolding reads_def by blast
    with y(1) have s2: "keep s s2" by (rule keeps_trans)
    show ?thesis
    proof (cases rb)
      case (Inl e)
      with run pages rb s2 Inr show ?thesis by (cases y) (simp add: fetch_and_sync_def)
    next
      case (Inr ls)
      with run pages rb \<open>fst y = Inr xs\<close> have "sync (Batch conv xs) ls s2 = (r, s')" by (cases y) (simp add: fetch_and_sync_def)
      with sync [OF y(2) [OF \<open>fst y = Inr xs\<close>]] have "keep s2 s'" unfolding steps_def by blast
      with s2 show ?thesis by (rule keeps_trans)
    qed
  qed
qed

end

context friend_store
begin

lemma keep_sync_both: "steps keep (sync_both_requests E a b)"
  unfolding steps_def
proof (intro allI impI)
  fix s r s'
  assume run: "sync_both_requests E a b s = (r, s')"
  obtain ra s1 where ask: "on_fnet (CallApi [] (fx_both_io E) GetDesignatedFriendsApplyRouter (a, b)) s = (ra, s1)"
    by fastforce
  then have s1: "keep s s1" by (rule readsD [OF keep_net])
  show "keep s s'"
  proof (cases ra)
    case (Inl e)
    with run ask s1 show ?thesis by (simp add: sync_both_requests_def SyncBothFriendRequest_def)
  next
    case (Inr infos)
    obtain rb s2 where rd: "on_requests (GetBothFriendReq (fx_requests E) a b) s1 = (rb, s2)" by fastforce
    then have "keep s1 s2" by (rule readsD [OF keep_others(2)])
    with s1 have s2: "keep s s2" by (rule keeps_trans)
    let ?sync = "\<lambda>n ls. Sync (=) zero_friend_request (fx_range_requests E) (requestSyncer (fx_requests E) n)
        (Batch ServerFriendRequestToLocalFriendRequest infos) ls None []"
    from run ask Inr rd have "s' = s2 \<or> (\<exists>n ls. (n = request_recv_notice \<or> n = request_send_notice) \<and> ?sync n ls s2 = (r, s'))"
      by (auto simp: sync_both_requests_def SyncBothFriendRequest_def requestRecvSyncer_def requestSendSyncer_def Let_def
          split: sum.splits if_splits)
    with stepwise.Sync_step [OF requests_stepwise] have "s' = s2 \<or> keep s2 s'" unfolding steps_def by blast
    with s2 keeps_trans show ?thesis by blast
  qed
qed

lemma keep_delete_friend: "steps keep (deleteFriend (fx_friends E) u friendUserID)"
  unfolding steps_def
proof (intro allI impI)
  fix s s' :: "('tf, 'tb, 'tr, 'n) friend_client" and r
  assume run: "deleteFriend (fx_friends E) u friendUserID s = (r, s')"
  obtain rb s1 where rd: "on_friends (GetFriendInfoList (fx_friends E) [friendUserID]) s = (rb, s1)" by fastforce
  then have s1: "keep s s1" by (rule readsD [OF keep_reads(1)])
  obtain rc s2 where del: "on_friends (DeleteFriendDB (fx_friends E) u friendUserID) s1 = (rc, s2)" by fastforce
  then have "keep s1 s2" by (rule delete_keeps)
  with s1 have s2: "keep s s2" by (rule keeps_trans)
  from run rd del have "s' = s1 \<or> fs_friends s' = fs_friends s2"
    by (auto simp: deleteFriend_def and_then_def emit_def split: sum.splits list.splits option.splits)
  with s1 s2 show "keep s s'" by (auto simp: keeps_friends_def)
qed

lemma own_page: "fx_friend_page E k p n = (Inr infos, n') \<Longrightarrow> list_all (good_info (fx_loginUserID E)) infos"
  using own unfolding own_friends_def by blast

lemma keep_all_friends: "loop_steps keep (sync_all_friends E)"
  unfolding sync_all_friends_def SyncAllFriendList_def
proof (rule keep_fetch [where Q = "good_info (fx_loginUserID E)"])
  fix p r and s s' :: "('tf, 'tb, 'tr, 'n) friend_client"
  assume "on_fnet (fx_friend_page E 50 p) s = (r, s')"
  moreover from this have "keep s s'" by (rule readsD [OF keep_net])
  ultimately show "keep s s' \<and> (\<forall>page. r = Inr page \<longrightarrow> list_all (good_info (fx_loginUserID E)) page)"
    by (auto simp: on_fnet_def split: prod.splits dest: own_page)
qed (rule keep_reads(2), erule keep_Sync_friends)

lemma keep_blacks: "loop_steps keep (sync_blacks E)"
  unfolding sync_blacks_def SyncAllBlackList_def
  by (rule keep_fetch [where Q = "\<lambda>x. True"])
    (auto intro: stepwise.Sync_step [OF others_stepwise] keep_others simp: list_all_iff dest: readsD [OF keep_net])

lemma keep_received: "loop_steps keep (sync_received E)"
  unfolding sync_received_def SyncAllFriendApplication_def requestRecvSyncer_def
  by (rule keep_fetch [where Q = "\<lambda>x. True"])
    (auto intro: stepwise.Sync_step [OF requests_stepwise] keep_others simp: list_all_iff dest: readsD [OF keep_net])

lemma keep_sent: "loop_steps keep (sync_sent E)"
  unfolding sync_sent_def SyncAllSelfFriendApplication_def requestSendSyncer_def
  by (rule keep_fetch [where Q = "\<lambda>x. True"])
    (auto intro: stepwise.Sync_step [OF requests_stepwise] keep_others simp: list_all_iff dest: readsD [OF keep_net])

lemmas keep_syncs = keep_sync_friends keep_sync_both keep_delete_friend keep_skip
lemmas keep_loops = keep_all_friends keep_blacks keep_received keep_sent

lemma keep_respond: "loop_steps keep (RespondFriendApply E req)"
  unfolding RespondFriendApply_def
proof (rule keep_then [OF keep_done [OF keep_post]], unfold loop_steps_def, intro allI impI)
  fix s r s'
  let ?s = "if rfa_HandleResult req = FriendResponseAgree then snd (sync_friends E [rfa_FromUserID req] s) else s"
  assume "(let s1 = ?s in map_option (\<lambda>(_, s2). (None, s2)) (sync_received E s1)) = Some (r, s')"
  then obtain r1 where "sync_received E ?s = Some (r1, s')" by (auto simp: Let_def split: if_splits)
  then have "keep ?s s'" using keep_received unfolding loop_steps_def by blast
  moreover have "keep s (snd (sync_friends E ids s))" for ids
    using keep_sync_friends unfolding steps_def by (metis prod.collapse)
  ultimately show "keep s s'" by (auto intro: keeps_trans split: if_splits)
qed

lemma keep_cases:
  "steps keep a \<Longrightarrow> steps keep b \<Longrightarrow> steps keep (if P then a else b)"
  "steps keep a \<Longrightarrow> (\<And>x. steps keep (f x)) \<Longrightarrow> steps keep (case o1 of None \<Rightarrow> a | Some x \<Rightarrow> f x)"
  "(\<And>x y. steps keep (g x y)) \<Longrightarrow> steps keep (case p of (x, y) \<Rightarrow> g x y)"
  "loop_steps keep c \<Longrightarrow> loop_steps keep d \<Longrightarrow> loop_steps keep (if P then c else d)"
  "(\<And>x y. loop_steps keep (k x y)) \<Longrightarrow> loop_steps keep (from_to tp k)"
  "steps keep (\<lambda>s. (Some e, s))"
  by (auto simp: from_to_def loop_steps_def steps_def split: option.split prod.split)

lemma keep_notification: "loop_steps keep (friend_doNotification E tips contentType content)"
proof -
  have "loop_steps keep (friend_notified E contentType d)" for d
    unfolding friend_notified_def by (intro keep_cases keep_done keep_and_then keep_syncs keep_loops)
  then show ?thesis
    by (auto simp: friend_doNotification_def loop_steps_def split: sum.splits if_splits)
qed

end

context friend_store
begin

lemma keep_set_ex: "steps keep (SetFriendsEx E ids ex)"
  unfolding SetFriendsEx_def
proof (rule keep_and_then [OF keep_post], unfold steps_def, intro allI impI)
  fix s s' :: "('tf, 'tb, 'tr, 'n) friend_client" and r
  obtain rb s1 where chk: "CheckFriend E ids s = (rb, s1)" by fastforce
  then have s1: "keep s s1"
    unfolding CheckFriend_def by (rule readsD [OF keep_read_both [OF keep_reads(1) keep_others(1)]])
  have upd: "keep s1 s2" if run: "on_friends (UpdateColumnsFriend (fx_friends E) ids (\<lambda>r. r\<lparr>fr_Ex := ex\<rparr>)) s1 = (ru, s2)" for ru s2
  proof -
    obtain e n where "gorm_updates (fx_friends E) (\<lambda>r. fr_FriendUserID r \<in> set ids) (\<lambda>r. r\<lparr>fr_Ex := ex\<rparr>) (fs_friends s1) = ((e, n), fs_friends s2)"
      using run by (auto simp: on_friends_def UpdateColumnsFriend_def wrap_act_def split: prod.splits)
    then show ?thesis by (rule rows_updated) (simp add: good_friend_def fr_key_def)
  qed
  assume "(case CheckFriend E ids s of (Inl e, s1) \<Rightarrow> (Some (Wrapped e ''Error checking friend status''), s1)
    | (Inr friendResults, s1) \<Rightarrow> if \<not> all_friends ids friendResults then (Some (Wrapped ErrRecordNotFound ''Not friend''), s1)
        else wrap_act ''Error updating friend information''
          (on_friends (UpdateColumnsFriend (fx_friends E) ids (\<lambda>r. r\<lparr>fr_Ex := ex\<rparr>)) s1)) = (r, s')"
  then have "s' = s1 \<or> keep s1 s'"
    by (auto simp: chk wrap_act_def split: sum.splits if_splits prod.splits dest: upd)
  with s1 show "keep s s'" using keeps_trans by blast
qed

lemma keep_all_reads: "steps keep (\<lambda>s. let s1 = snd (GetSpecifiedFriendsInfo E ids s); s2 = snd (GetFriendListPage E offset cnt s1);
     s3 = snd (GetFriendList E s2) in read_act (CheckFriend E ids) s3)"
proof -
  note both = keep_read_both [OF keep_reads(1) keep_others(1)] keep_read_both [OF keep_reads(2) keep_others(1)]
    keep_read_both [OF keep_reads(3) keep_others(1)]
  have one: "keep s (snd (f s))" if "reads keep f" for f :: "('tf, 'tb, 'tr, 'n) friend_client \<Rightarrow> 'x \<times> ('tf, 'tb, 'tr, 'n) friend_client" and s
    using readsD [OF that, of s] by (metis prod.collapse)
  have last: "steps keep (read_act (CheckFriend E ids))"
    unfolding CheckFriend_def by (auto simp: steps_def read_act_def split: prod.splits sum.splits dest: readsD [OF both(1)])
  show ?thesis
    unfolding steps_def Let_def
  proof (intro allI impI)
    fix s s' :: "('tf, 'tb, 'tr, 'n) friend_client" and r
    let ?s1 = "snd (GetSpecifiedFriendsInfo E ids s)"
    let ?s2 = "snd (GetFriendListPage E offset cnt ?s1)"
    let ?s3 = "snd (GetFriendList E ?s2)"
    assume "read_act (CheckFriend E ids) ?s3 = (r, s')"
    with last have "keep ?s3 s'" unfolding steps_def by blast
    moreover have "keep s ?s1" unfolding GetSpecifiedFriendsInfo_def by (rule one [OF both(1)])
    moreover have "keep ?s1 ?s2" unfolding GetFriendListPage_def by (rule one [OF both(3)])
    moreover have "keep ?s2 ?s3" unfolding GetFriendList_def by (rule one [OF both(2)])
    ultimately show "keep s s'" using keeps_trans by blast
  qed
qed

lemma keep_run: "loop_steps keep (friend_run E tips c)"
  by (cases c) (simp_all add: AddFriend_def AcceptFriendApplication_def RefuseFriendApplication_def DeleteFriend_def
      SetFriendRemark_def PinFriends_def AddBlack_def RemoveBlack_def keep_then keep_done keep_and_then keep_post
      keep_syncs keep_loops keep_respond keep_set_ex keep_notification keep_all_reads [unfolded Let_def] Let_def)

lemma friends_always_ok:
  assumes "friend_reach rows E tips s"
  shows "friends_ok (fx_loginUserID E) (rows (fs_friends s))"
  using assms
proof induction
  case (new_client s)
  then show ?case by (simp add: friends_ok_def)
next
  case (friend_step s c r s')
  with keep_run [of tips c] show ?case unfolding loop_steps_def keeps_friends_def by blast
qed

end

section \<open>The property\<close>

lemma serves_net: "serves_pages request xs \<Longrightarrow> serves_pages (\<lambda>n p. on_fnet (request n p)) xs"
  by (simp add: serves_pages_def on_fnet_def)

lemma served_good:
  assumes "own_friends E" and "serves_pages (fx_friend_page E) infos"
  shows "list_all (good_info (fx_loginUserID E)) infos"
proof -
  have run: "get_pages (fx_friend_page E 50) 50 0 [] n = Some (Inr infos, n)" for n
    using GetPageAll_serves [OF assms(2), of n] by (simp add: GetPageAll_def)
  have "\<forall>xs. fst (Inr infos :: go_error + FriendInfo list, undefined) = Inr xs \<longrightarrow> list_all (good_info (fx_loginUserID E)) xs"
    using get_pages_all [where R = "\<lambda>s s'. True" and Q = "good_info (fx_loginUserID E)", OF _ _ _ run [of undefined]] assms(1)
    unfolding own_friends_def by (simp, blast)
  then show ?thesis by simp
qed

lemma same_keys_same_rows:
  assumes "distinct (map key xs)" and "distinct (map key ys)" and "rows_by_key key xs = rows_by_key key ys"
  shows "mset xs = mset ys"
proof -
  have sub: "set as \<subseteq> set bs" if "distinct (map key as)" "rows_by_key key as = rows_by_key key bs" for as bs
  proof
    fix x assume "x \<in> set as"
    then have "rows_by_key key as (key x) = Some x" using that(1) by (simp add: rows_by_key_def find_unique)
    with that(2) show "x \<in> set bs" by (auto simp: rows_by_key_def dest: find_SomeD)
  qed
  have "set xs = set ys" using sub assms by (metis subset_antisym)
  moreover have "distinct xs" "distinct ys" using assms(1,2) by (simp_all add: distinct_map)
  ultimately show ?thesis by (simp add: set_eq_iff_mset_eq_distinct)
qed

text \<open>
  C1: the friends are well formed at all times and can always be brought in line with the server. Whatever the application
  has called and the server has told, in whatever order and with whatever failures of the database and the network, the
  stored friends all belong to the login user and none is stored twice. From such a state, with a server that pages out
  \<open>infos\<close>, the synchronisation of all friends returns; each row is afterwards what it was or what the server has, and if no
  error is returned the stored friends are exactly the server's.
\<close>

theorem friends_always_reconcilable:
  assumes table: "gorm_table (fx_friends E) rows fr_key" and own: "own_friends E"
    and reach: "friend_reach rows E tips s"
    and served: "any_order (fx_range_friends E)" "serves_pages (fx_friend_page E) infos"
      "distinct (map fr_key (map ServerFriendToLocalFriend infos))"
  shows "friends_ok (fx_loginUserID E) (rows (fs_friends s)) \<and>
    (\<exists>r s'. sync_all_friends E s = Some (r, s') \<and> friend_reach rows E tips s' \<and>
       (\<forall>k. fst k = fx_loginUserID E \<longrightarrow> rows_by_key fr_key (rows (fs_friends s')) k \<in>
          {rows_by_key fr_key (rows (fs_friends s)) k, rows_by_key fr_key (map ServerFriendToLocalFriend infos) k}) \<and>
       (r = None \<longrightarrow> mset (rows (fs_friends s')) = mset (map ServerFriendToLocalFriend infos)))"
proof -
  let ?u = "fx_loginUserID E" and ?server = "map ServerFriendToLocalFriend infos"
  note store = friend_store.intro [OF table own]
  have ok: "friends_ok ?u (rows (fs_friends s))" by (rule friend_store.friends_always_ok [OF store reach])
  have good: "\<forall>x \<in> set infos. good_friend ?u (ServerFriendToLocalFriend x)"
    using served_good [OF own served(2)] by (simp add: list_all_iff good_info_def)
  obtain r s' where run: "sync_all_friends E s = Some (r, s')"
    and rec: "reconciled (\<lambda>k. fst k = ?u) (rows_by_key fr_key (rows (fs_friends s))) (rows_by_key fr_key ?server)
      (rows_by_key fr_key (rows (fs_friends s'))) r"
    using SyncAllFriendList_reconciles [OF table served(1) serves_net [OF served(2)] good served(3), of s zero_friend] ok
    unfolding sync_all_friends_def friends_ok_def by blast
  have reach': "friend_reach rows E tips s'"
    by (rule friend_reach.friend_step [OF reach, of CallSyncFriends r]) (simp add: run)
  have ok': "friends_ok ?u (rows (fs_friends s'))" by (rule friend_store.friends_always_ok [OF store reach'])
  have "mset (rows (fs_friends s')) = mset ?server" if "r = None"
  proof (rule same_keys_same_rows [OF _ served(3)])
    show "distinct (map fr_key (rows (fs_friends s')))" using ok' by (simp add: friends_ok_def)
    show "rows_by_key fr_key (rows (fs_friends s')) = rows_by_key fr_key ?server"
    proof
      fix k
      have "rows_by_key fr_key (rows (fs_friends s')) k = None" "rows_by_key fr_key ?server k = None" if "fst k \<noteq> ?u"
        using ok' good that by (auto simp: rows_by_key_def find_None_iff friends_ok_def good_friend_def fr_key_def)
      with rec that show "rows_by_key fr_key (rows (fs_friends s')) k = rows_by_key fr_key ?server k"
        unfolding reconciled_def by metis
    qed
  qed
  with ok run reach' rec show ?thesis unfolding reconciled_def by blast
qed

section \<open>The reference tables and a server\<close>

text \<open>The server has the good ones among \<open>infos\<close> for the user; its answers to the other requests are empty.\<close>

definition reference_friends ::
  "string \<Rightarrow> FriendInfo list \<Rightarrow> (LocalFriend ftable, LocalBlack ftable, LocalFriendRequest ftable, 'n) friend_env" where
  "reference_friends u infos = \<lparr>fx_friends = list_gorm fr_key, fx_blacks = list_gorm bl_key, fx_requests = list_gorm frq_key,
     fx_loginUserID = u, fx_designated_io = replying (filter (good_info u) infos), fx_both_io = replying [],
     fx_post_io = replying (), fx_friend_page = page_server (filter (good_info u) infos), fx_black_page = page_server [],
     fx_recv_page = page_server [], fx_send_page = page_server [], fx_range_friends = rev, fx_range_blacks = rev,
     fx_range_requests = rev\<rparr>"

lemma reference_own: "own_friends (reference_friends u infos)"
  by (auto simp: own_friends_def reference_friends_def CallApi_replying page_server_def page_of_def list_all_iff
      dest!: in_set_takeD in_set_dropD)

interpretation fw: friend_store "reference_friends u infos" ft_rows
  by (rule friend_store.intro [OF _ reference_own]) (simp add: reference_friends_def lg.gorm_table_axioms)

definition empty_client :: "'n \<Rightarrow> (LocalFriend ftable, LocalBlack ftable, LocalFriendRequest ftable, 'n) friend_client" where
  "empty_client n = \<lparr>fs_friends = \<lparr>ft_rows = [], ft_faults = [False, False, True]\<rparr>, fs_blacks = \<lparr>ft_rows = [], ft_faults = []\<rparr>,
     fs_requests = \<lparr>ft_rows = [], ft_faults = []\<rparr>, fs_events = [], fc_net = n\<rparr>"

theorem friends_always_reconcilable_witness:
  "let infos = [sample_friend ''u'' ''a'', sample_friend ''u'' ''b'']; E = reference_friends ''u'' infos
   in \<exists>r s'. sync_all_friends E (empty_client ()) = Some (r, s') \<and> friend_reach ft_rows E (\<lambda>_ _. Inl (GoError [])) s' \<and>
        (r = None \<longrightarrow> mset (ft_rows (fs_friends s')) = mset (map ServerFriendToLocalFriend infos))"
proof -
  let ?infos = "[sample_friend ''u'' ''a'', sample_friend ''u'' ''b'']"
  have good: "filter (good_info ''u'') ?infos = ?infos"
    by (simp add: good_info_def sample_simps)
  have served: "serves_pages (fx_friend_page (reference_friends ''u'' ?infos)) ?infos"
    unfolding reference_friends_def friend_env.simps good by (rule page_server_serves) simp
  have reach: "friend_reach ft_rows (reference_friends ''u'' ?infos) (\<lambda>_ _. Inl (GoError [])) (empty_client ())"
    by (rule new_client) (simp add: empty_client_def)
  have order: "any_order (fx_range_friends (reference_friends ''u'' ?infos))"
    by (simp add: reference_friends_def any_order_rev)
  have keys: "distinct (map fr_key (map ServerFriendToLocalFriend ?infos))"
    by (simp add: sample_simps)
  from friends_always_reconcilable [OF fw.friends_table reference_own reach order served keys]
  show ?thesis unfolding Let_def by blast
qed

end
