(* ===== verification/ConvSdk.thy ===== *)
theory ConvSdk
  imports ConvSync ConvSend
begin

text \<open>
  The calls of \<^verbatim>\<open>internal/conversation_msg/sdk.go\<close> that read and set the conversations and that look up and insert messages.
\<close>

section \<open>Reading\<close>

definition GetAllConversationList ::
  "('q, 't, 'n) conv_env \<Rightarrow> ('t, 'n) conv_state \<Rightarrow> (go_error + LocalConversation list) \<times> ('t, 'n) conv_state" where
  "GetAllConversationList E = on_db (GetAllConversationListDB (cx_conv E))"

definition GetConversationListSplit ::
  "('q, 't, 'n) conv_env \<Rightarrow> int \<Rightarrow> int \<Rightarrow> ('t, 'n) conv_state \<Rightarrow> (go_error + LocalConversation list) \<times> ('t, 'n) conv_state" where
  "GetConversationListSplit E offset cnt = on_db (GetConversationListSplitDB (cx_conv E) (nat offset) cnt)"

definition GetMultipleConversation ::
  "('q, 't, 'n) conv_env \<Rightarrow> string list \<Rightarrow> ('t, 'n) conv_state \<Rightarrow> (go_error + LocalConversation list) \<times> ('t, 'n) conv_state" where
  "GetMultipleConversation E conversationIDList = on_db (GetMultipleConversationDB (cx_conv E) conversationIDList)"

definition GetConversationRecvMessageOpt ::
  "('q, 't, 'n) conv_env \<Rightarrow> string list \<Rightarrow> ('t, 'n) conv_state \<Rightarrow> (go_error + (string \<times> int) list) \<times> ('t, 'n) conv_state" where
  "GetConversationRecvMessageOpt E conversationIDs s =
     (case on_db (GetMultipleConversationDB (cx_conv E) conversationIDs) s of
        (Inl e, s1) \<Rightarrow> (Inl e, s1)
      | (Inr conversations, s1) \<Rightarrow> (Inr (map (\<lambda>c. (cv_ConversationID c, cv_RecvMsgOpt c)) conversations), s1))"

definition GetTotalUnreadMsgCount ::
  "('q, 't, 'n) conv_env \<Rightarrow> ('t, 'n) conv_state \<Rightarrow> (go_error + int) \<times> ('t, 'n) conv_state" where
  "GetTotalUnreadMsgCount E = on_db (GetTotalUnreadMsgCountDB (cx_conv E))"

definition GetAtAllTag :: string where "GetAtAllTag = AtAllString"

text \<open>
  A conversation that is not stored is made from the user or the group. Before it is stored the call sleeps; \<open>others\<close> is
  what the other goroutines do in the meantime.
\<close>

definition named_conversation ::
  "('q, 't, 'n) conv_env \<Rightarrow> string \<Rightarrow> int \<Rightarrow> string \<Rightarrow> ('t, 'n) conv_state \<Rightarrow>
   (go_error + LocalConversation) \<times> ('t, 'n) conv_state" where
  "named_conversation E conversationID sessionType sourceID s =
     (let c = zero_conversation\<lparr>cv_ConversationID := conversationID, cv_ConversationType := sessionType\<rparr> in
      if sessionType = SingleChatType
      then (case getUserNameAndFaceURL E sourceID s of
              (Inl e, s1) \<Rightarrow> (Inl e, s1)
            | (Inr (faceUrl, name), s1) \<Rightarrow> (Inr (c\<lparr>cv_UserID := sourceID, cv_ShowName := name, cv_FaceURL := faceUrl\<rparr>), s1))
      else if is_group_session sessionType
      then (case full_GetGroupInfoFromLocal2Svr E sourceID sessionType s of
              (Inl e, s1) \<Rightarrow> (Inl e, s1)
            | (Inr g, s1) \<Rightarrow> (Inr (c\<lparr>cv_GroupID := sourceID, cv_ShowName := gr_GroupName g, cv_FaceURL := gr_FaceURL g\<rparr>), s1))
      else (Inr c, s))"

definition GetOneConversation ::
  "('q, 't, 'n) conv_env \<Rightarrow> (('t, 'n) conv_state \<Rightarrow> ('t, 'n) conv_state) \<Rightarrow> int \<Rightarrow> string \<Rightarrow> ('t, 'n) conv_state \<Rightarrow>
   (go_error + LocalConversation) \<times> ('t, 'n) conv_state" where
  "GetOneConversation E others sessionType sourceID s =
     (let conversationID = getConversationIDBySessionType (cx_loginUserID E) sourceID sessionType in
      case on_db (GetConversation (cx_conv E) conversationID) s of
        (Inr lc, s1) \<Rightarrow> (Inr lc, s1)
      | (Inl _, s1) \<Rightarrow>
          (case named_conversation E conversationID sessionType sourceID s1 of
             (Inl e, s2) \<Rightarrow> (Inl e, s2)
           | (Inr newConversation, s2) \<Rightarrow>
               (case on_db (GetConversation (cx_conv E) conversationID) (others s2) of
                  (Inr lc, s3) \<Rightarrow> (Inr lc, s3)
                | (Inl _, s3) \<Rightarrow>
                    (case on_db (InsertConversation (cx_conv E) newConversation) s3 of
                       (Some e, s4) \<Rightarrow> (Inl e, s4) | (None, s4) \<Rightarrow> (Inr newConversation, s4)))))"

section \<open>Setting\<close>

definition HideConversation :: "('q, 't, 'n) conv_env \<Rightarrow> string \<Rightarrow> ('t, 'n) conv_state action" where
  "HideConversation E conversationID = on_db (ResetConversation (cx_conv E) conversationID)"

definition HideAllConversations :: "('q, 't, 'n) conv_env \<Rightarrow> ('t, 'n) conv_state action" where
  "HideAllConversations E = on_db (ResetAllConversation (cx_conv E))"

text \<open>\<open>nowTime\<close> is the clock read by \<^verbatim>\<open>SetConversationDraftDB\<close>; the error of the command is dropped.\<close>

definition SetConversationDraft ::
  "('q, 't, 'n) conv_env \<Rightarrow> int \<Rightarrow> string \<Rightarrow> string \<Rightarrow> ('t, 'n) conv_state action" where
  "SetConversationDraft E nowTime conversationID draftText s =
     act_then (on_db (if draftText \<noteq> [] then SetConversationDraftDB (cx_conv E) nowTime conversationID draftText
                      else RemoveConversationDraft (cx_conv E) conversationID draftText) s)
       (\<lambda>s1. (None, snd (on_ch (TriggerCmdUpdateConversation (con_change [] [conversationID])) s1)))"

text \<open>A request leaves out the settings that stay as they are.\<close>

record ConversationReq =
  cr_ConversationID :: string
  cr_ConversationType :: int
  cr_UserID :: string
  cr_GroupID :: string
  cr_RecvMsgOpt :: "int option"
  cr_IsPinned :: "bool option"
  cr_IsPrivateChat :: "bool option"
  cr_Ex :: "string option"
  cr_BurnDuration :: "int option"
  cr_MsgDestructTime :: "int option"
  cr_IsMsgDestruct :: "bool option"
  cr_GroupAtType :: "int option"

definition empty_req :: ConversationReq where
  "empty_req = \<lparr>cr_ConversationID = [], cr_ConversationType = 0, cr_UserID = [], cr_GroupID = [], cr_RecvMsgOpt = None,
     cr_IsPinned = None, cr_IsPrivateChat = None, cr_Ex = None, cr_BurnDuration = None, cr_MsgDestructTime = None,
     cr_IsMsgDestruct = None, cr_GroupAtType = None\<rparr>"

definition SetConversationsRouter :: string where "SetConversationsRouter = ''/conversation/set_conversations''"

type_synonym 'n set_io = "('n, ConversationReq \<times> string list, unit) api_io"

definition setConversation ::
  "('q, 't, 'n) conv_env \<Rightarrow> 'n set_io \<Rightarrow> ConversationReq \<Rightarrow> LocalConversation \<Rightarrow> ('t, 'n) conv_state action" where
  "setConversation E io req localConversation s =
     (case on_net (ApiPost io SetConversationsRouter
             (req\<lparr>cr_ConversationID := cv_ConversationID localConversation, cr_ConversationType := cv_ConversationType localConversation,
                  cr_UserID := cv_UserID localConversation, cr_GroupID := cv_GroupID localConversation\<rparr>, [cx_loginUserID E])) s of
        (Inl e, s1) \<Rightarrow> (Some e, s1) | (Inr _, s1) \<Rightarrow> (None, s1))"

text \<open>What the synchronisation after a successful request returns is dropped.\<close>

definition setConversationAndSync ::
  "('q, 't, 'n) conv_env \<Rightarrow> 'n set_io \<Rightarrow> 'n sync_api \<Rightarrow> string \<Rightarrow> ConversationReq \<Rightarrow> ('t, 'n) conv_state action" where
  "setConversationAndSync E io A conversationID req s =
     get_then (on_db (GetConversation (cx_conv E) conversationID) s) (\<lambda>lc s1.
       act_then (setConversation E io req lc s1) (\<lambda>s2. (None, snd (SyncConversations E A [conversationID] s2))))"

definition ResetConversationGroupAtType :: "('q, 't, 'n) conv_env \<Rightarrow> 'n set_io \<Rightarrow> 'n sync_api \<Rightarrow> string \<Rightarrow> ('t, 'n) conv_state action" where
  "ResetConversationGroupAtType E io A conversationID = setConversationAndSync E io A conversationID (empty_req\<lparr>cr_GroupAtType := Some 0\<rparr>)"

definition PinConversation :: "('q, 't, 'n) conv_env \<Rightarrow> 'n set_io \<Rightarrow> 'n sync_api \<Rightarrow> string \<Rightarrow> bool \<Rightarrow> ('t, 'n) conv_state action" where
  "PinConversation E io A conversationID isPinned = setConversationAndSync E io A conversationID (empty_req\<lparr>cr_IsPinned := Some isPinned\<rparr>)"

definition SetOneConversationPrivateChat ::
  "('q, 't, 'n) conv_env \<Rightarrow> 'n set_io \<Rightarrow> 'n sync_api \<Rightarrow> string \<Rightarrow> bool \<Rightarrow> ('t, 'n) conv_state action" where
  "SetOneConversationPrivateChat E io A conversationID isPrivate =
     setConversationAndSync E io A conversationID (empty_req\<lparr>cr_IsPrivateChat := Some isPrivate\<rparr>)"

definition SetConversationMsgDestructTime ::
  "('q, 't, 'n) conv_env \<Rightarrow> 'n set_io \<Rightarrow> 'n sync_api \<Rightarrow> string \<Rightarrow> int \<Rightarrow> ('t, 'n) conv_state action" where
  "SetConversationMsgDestructTime E io A conversationID msgDestructTime =
     setConversationAndSync E io A conversationID (empty_req\<lparr>cr_MsgDestructTime := Some msgDestructTime\<rparr>)"

definition SetConversationIsMsgDestruct ::
  "('q, 't, 'n) conv_env \<Rightarrow> 'n set_io \<Rightarrow> 'n sync_api \<Rightarrow> string \<Rightarrow> bool \<Rightarrow> ('t, 'n) conv_state action" where
  "SetConversationIsMsgDestruct E io A conversationID isMsgDestruct =
     setConversationAndSync E io A conversationID (empty_req\<lparr>cr_IsMsgDestruct := Some isMsgDestruct\<rparr>)"

definition SetOneConversationBurnDuration ::
  "('q, 't, 'n) conv_env \<Rightarrow> 'n set_io \<Rightarrow> 'n sync_api \<Rightarrow> string \<Rightarrow> int \<Rightarrow> ('t, 'n) conv_state action" where
  "SetOneConversationBurnDuration E io A conversationID burnDuration =
     setConversationAndSync E io A conversationID (empty_req\<lparr>cr_BurnDuration := Some burnDuration\<rparr>)"

definition SetOneConversationRecvMessageOpt ::
  "('q, 't, 'n) conv_env \<Rightarrow> 'n set_io \<Rightarrow> 'n sync_api \<Rightarrow> string \<Rightarrow> int \<Rightarrow> ('t, 'n) conv_state action" where
  "SetOneConversationRecvMessageOpt E io A conversationID opt =
     setConversationAndSync E io A conversationID (empty_req\<lparr>cr_RecvMsgOpt := Some (i32 opt)\<rparr>)"

definition SetOneConversationEx :: "('q, 't, 'n) conv_env \<Rightarrow> 'n set_io \<Rightarrow> 'n sync_api \<Rightarrow> string \<Rightarrow> string \<Rightarrow> ('t, 'n) conv_state action" where
  "SetOneConversationEx E io A conversationID ex = setConversationAndSync E io A conversationID (empty_req\<lparr>cr_Ex := Some ex\<rparr>)"

section \<open>Deleting, as called from outside\<close>

definition DeleteAllMessageFromLocalStorage :: "('q, 't, 'n) conv_env \<Rightarrow> ('q, 't, 'n) conv_api \<Rightarrow> ('t, 'n) conv_state action" where
  "DeleteAllMessageFromLocalStorage E A = deleteAllMsgFromLocal E A True"

definition ClearConversationAndDeleteAllMsg :: "('q, 't, 'n) conv_env \<Rightarrow> ('q, 't, 'n) conv_api \<Rightarrow> string \<Rightarrow> ('t, 'n) conv_state action" where
  "ClearConversationAndDeleteAllMsg E A conversationID = clearConversationFromLocalAndSvr E A conversationID (ClearConversation (cx_conv E))"

definition DeleteConversationAndDeleteAllMsg :: "('q, 't, 'n) conv_env \<Rightarrow> ('q, 't, 'n) conv_api \<Rightarrow> string \<Rightarrow> ('t, 'n) conv_state action" where
  "DeleteConversationAndDeleteAllMsg E A conversationID = clearConversationFromLocalAndSvr E A conversationID (ResetConversation (cx_conv E))"

definition SetMessageLocalEx :: "('q, 't, 'n) conv_env \<Rightarrow> string \<Rightarrow> string \<Rightarrow> string \<Rightarrow> ('t, 'n) conv_state action" where
  "SetMessageLocalEx E conversationID clientMsgID localEx =
     on_db (UpdateColumnsMessage (cx_chat E) conversationID clientMsgID (\<lambda>r. r\<lparr>cl_LocalEx := localEx\<rparr>))"

end
