(* ===== verification/ConvSearch.thy ===== *)
theory ConvSearch
  imports ConvSdk
begin

text \<open>
  Finding and inserting messages in \<^verbatim>\<open>internal/conversation_msg\<close>: \<^verbatim>\<open>FindMessageList\<close>, the two insertions of \<^verbatim>\<open>sdk.go\<close>, and
  the search of \<^verbatim>\<open>conversation.go\<close> with its statements in \<^verbatim>\<open>chat_log_model_v3.go\<close>.
\<close>

section \<open>Looking up messages\<close>

record 'q SearchByConversationResult =
  sr_ConversationID :: string
  sr_ConversationType :: int
  sr_ShowName :: string
  sr_FaceURL :: string
  sr_LatestMsgSendTime :: int
  sr_MessageCount :: int
  sr_MessageList :: "'q MsgStruct list"

record 'q search_callback =
  sc_TotalCount :: int
  sc_Items :: "'q SearchByConversationResult list"

text \<open>The fields of a stored message that every search copies.\<close>

definition found_msg :: "LocalChatLog \<Rightarrow> 'q MsgStruct" where
  "found_msg v = zero_msg\<lparr>ms_ClientMsgID := cl_ClientMsgID v, ms_ServerMsgID := cl_ServerMsgID v,
     ms_CreateTime := cl_CreateTime v, ms_SendTime := cl_SendTime v, ms_SessionType := cl_SessionType v,
     ms_SendID := cl_SendID v, ms_RecvID := cl_RecvID v, ms_MsgFrom := cl_MsgFrom v, ms_ContentType := cl_ContentType v,
     ms_SenderPlatformID := cl_SenderPlatformID v, ms_SenderNickname := cl_SenderNickname v,
     ms_SenderFaceURL := cl_SenderFaceURL v, ms_Content := cl_Content v, ms_Seq := cl_Seq v, ms_IsRead := cl_IsRead v,
     ms_Status := cl_Status v, ms_Ex := cl_Ex v, ms_LocalEx := cl_LocalEx v\<rparr>"

text \<open>A message whose content cannot be decoded is left out.\<close>

definition listed_msg :: "('q, 't, 'n) conv_env \<Rightarrow> LocalChatLog \<Rightarrow> 'q MsgStruct option" where
  "listed_msg E v =
     (case msgHandleByContentType (cx_codec E) (cx_loginUserID E) ((found_msg v)\<lparr>ms_AttachedInfo := cl_AttachedInfo v\<rparr>) of
        (Some e, m) \<Rightarrow> None
      | (None, m) \<Rightarrow> Some (if is_group_session (cl_SessionType v)
                           then m\<lparr>ms_GroupID := ms_RecvID m, ms_RecvID := cx_loginUserID E\<rparr> else m))"

fun find_conversations ::
  "('q, 't, 'n) conv_env \<Rightarrow> (string \<times> string list) list \<Rightarrow> ('t, 'n) conv_state \<Rightarrow>
   (LocalConversation \<times> string list) list \<times> ('t, 'n) conv_state" where
  "find_conversations E [] s = ([], s)"
| "find_conversations E ((conversationID, ids) # rest) s =
     (case on_db (GetConversation (cx_conv E) conversationID) s of
        (Inl e, s1) \<Rightarrow> find_conversations E rest s1
      | (Inr c, s1) \<Rightarrow> map_prod ((#) (c, ids)) id (find_conversations E rest s1))"

fun find_messages ::
  "('q, 't, 'n) conv_env \<Rightarrow> (LocalConversation \<times> string list) list \<Rightarrow> ('t, 'n) conv_state \<Rightarrow>
   'q SearchByConversationResult list \<times> ('t, 'n) conv_state" where
  "find_messages E [] s = ([], s)"
| "find_messages E ((c, ids) # rest) s =
     (case on_db (GetMessagesByClientMsgIDs (cx_chat E) (cv_ConversationID c) ids) s of
        (Inl e, s1) \<Rightarrow> find_messages E rest s1
      | (Inr messages, s1) \<Rightarrow>
          (let ms = List.map_filter (listed_msg E) messages in
           map_prod ((#) \<lparr>sr_ConversationID = cv_ConversationID c, sr_ConversationType = cv_ConversationType c,
               sr_ShowName = cv_ShowName c, sr_FaceURL = cv_FaceURL c, sr_LatestMsgSendTime = 0,
               sr_MessageCount = int (length ms), sr_MessageList = ms\<rparr>) id (find_messages E rest s1)))"

text \<open>Conversations that are not found and failed reads are only logged: the call never returns an error.\<close>

definition FindMessageList ::
  "('q, 't, 'n) conv_env \<Rightarrow> (string \<times> string list) list \<Rightarrow> ('t, 'n) conv_state \<Rightarrow> 'q search_callback \<times> ('t, 'n) conv_state" where
  "FindMessageList E req s =
     (case find_conversations E req s of (cs, s1) \<Rightarrow>
        case find_messages E cs s1 of (items, s2) \<Rightarrow>
          (\<lparr>sc_TotalCount = sum_list (map sr_MessageCount items), sc_Items = items\<rparr>, s2))"

section \<open>Inserting messages\<close>

definition insertMessageToLocalStorage ::
  "('q, 't, 'n) conv_env \<Rightarrow> string \<Rightarrow> LocalChatLog \<Rightarrow> ('t, 'n) conv_state action" where
  "insertMessageToLocalStorage E conversationID m = on_db (InsertMessage (cx_chat E) conversationID m)"

text \<open>
  A new identifier and the time are given, the message is stored as sent, and the conversation is announced with it.
  An error of \<^verbatim>\<open>getUserNameAndFaceURL\<close> for the sender is dropped, and name and picture are then empty.
\<close>

definition insert_sent ::
  "('q, 't, 'n) conv_env \<Rightarrow> ('q, 't, 'n) send_env \<Rightarrow> 'q MsgStruct \<Rightarrow> ('q MsgStruct \<Rightarrow> LocalConversation \<Rightarrow> LocalConversation) \<Rightarrow>
   LocalConversation \<Rightarrow> ('t, 'n) conv_state \<Rightarrow> (go_error + 'q MsgStruct) \<times> ('t, 'n) conv_state" where
  "insert_sent E X m names conversation s =
     (case on_net (GetMsgID E X (ms_SendID m)) s of (clientMsgID, s1) \<Rightarrow>
        case on_net (GetCurrentTimestampByMill E) s1 of (now, s2) \<Rightarrow>
          let m' = m\<lparr>ms_ClientMsgID := clientMsgID, ms_SendTime := now, ms_Status := MsgStatusSendSuccess\<rparr>;
              c = names m' (conversation\<lparr>cv_LatestMsg := enc_Msg (cx_codec E) m', cv_LatestMsgSendTime := now\<rparr>)
          in case insertMessageToLocalStorage E (cv_ConversationID c) (msgStructToLocalChatLog (cx_codec E) m') s2 of
               (Some e, s3) \<Rightarrow> (Inl e, s3)
             | (None, s3) \<Rightarrow> (Inr m', send_latest E c s3))"

definition sender_names ::
  "('q, 't, 'n) conv_env \<Rightarrow> string \<Rightarrow> ('t, 'n) conv_state \<Rightarrow> (string \<times> string) \<times> ('t, 'n) conv_state" where
  "sender_names E userID s =
     (case getUserNameAndFaceURL E userID s of (Inl e, s1) \<Rightarrow> (([], []), s1) | (Inr p, s1) \<Rightarrow> (p, s1))"

definition InsertSingleMessageToLocalStorage ::
  "('q, 't, 'n) conv_env \<Rightarrow> ('q, 't, 'n) send_env \<Rightarrow> 'q MsgStruct \<Rightarrow> string \<Rightarrow> string \<Rightarrow> ('t, 'n) conv_state \<Rightarrow>
   (go_error + 'q MsgStruct) \<times> ('t, 'n) conv_state" where
  "InsertSingleMessageToLocalStorage E X m recvID sendID s =
     (let u = cx_loginUserID E;
          store = (\<lambda>m c. insert_sent E X (m\<lparr>ms_SendID := sendID, ms_RecvID := recvID, ms_SessionType := SingleChatType\<rparr>)
                           (\<lambda>_ c. c) (c\<lparr>cv_ConversationType := SingleChatType\<rparr>))
      in if recvID = [] \<or> sendID = [] then (Inl ErrArgs, s)
      else if sendID \<noteq> u
      then (case sender_names E sendID s of ((faceUrl, name), s1) \<Rightarrow>
              store (m\<lparr>ms_SenderFaceURL := faceUrl, ms_SenderNickname := name\<rparr>)
                (zero_conversation\<lparr>cv_FaceURL := faceUrl, cv_ShowName := name, cv_UserID := sendID,
                   cv_ConversationID := getConversationIDBySessionType u sendID SingleChatType\<rparr>) s1)
      else (let c = zero_conversation\<lparr>cv_UserID := recvID,
                      cv_ConversationID := getConversationIDBySessionType u recvID SingleChatType\<rparr>
            in case on_db (GetConversation (cx_conv E) (cv_ConversationID c)) s of
                 (Inr _, s1) \<Rightarrow> store m c s1
               | (Inl _, s1) \<Rightarrow>
                   (case getUserNameAndFaceURL E recvID s1 of
                      (Inl e, s2) \<Rightarrow> (Inl e, s2)
                    | (Inr (faceUrl, name), s2) \<Rightarrow> store m (c\<lparr>cv_FaceURL := faceUrl, cv_ShowName := name\<rparr>) s2)))"

definition InsertGroupMessageToLocalStorage ::
  "('q, 't, 'n) conv_env \<Rightarrow> ('q, 't, 'n) send_env \<Rightarrow> 'q MsgStruct \<Rightarrow> string \<Rightarrow> string \<Rightarrow> ('t, 'n) conv_state \<Rightarrow>
   (go_error + 'q MsgStruct) \<times> ('t, 'n) conv_state" where
  "InsertGroupMessageToLocalStorage E X m groupID sendID s =
     (if groupID = [] \<or> sendID = [] then (Inl ErrArgs, s)
      else case getConversationTypeByGroupID E groupID s of
        (Inl e, s1) \<Rightarrow> (Inl e, s1)
      | (Inr (_, sessionType), s1) \<Rightarrow>
          (case (if sendID \<noteq> cx_loginUserID E
                 then case sender_names E sendID s1 of ((faceUrl, name), s2) \<Rightarrow>
                        (m\<lparr>ms_SenderFaceURL := faceUrl, ms_SenderNickname := name\<rparr>, s2)
                 else (m, s1)) of (m1, s2) \<Rightarrow>
             insert_sent E X
               (m1\<lparr>ms_SendID := sendID, ms_RecvID := groupID, ms_GroupID := groupID, ms_SessionType := sessionType\<rparr>)
               (\<lambda>m' c. c\<lparr>cv_FaceURL := ms_SenderFaceURL m', cv_ShowName := ms_SenderNickname m'\<rparr>)
               (zero_conversation\<lparr>cv_ConversationType := sessionType,
                  cv_ConversationID := getConversationIDBySessionType (cx_loginUserID E) groupID sessionType\<rparr>) s2))"

section \<open>The search\<close>

definition KeywordMatchOr :: int where "KeywordMatchOr = 0"

definition SearchContentType :: "int list" where "SearchContentType = [Text, AtText, File]"

record SearchLocalMessagesParams =
  sp_ConversationID :: string
  sp_KeywordList :: "string list"
  sp_KeywordListMatchType :: int
  sp_SenderUserIDList :: "string list"
  sp_MessageTypeList :: "int list"
  sp_SearchTimePosition :: int
  sp_SearchTimePeriod :: int
  sp_PageIndex :: int
  sp_Count :: int

text \<open>
  The database makes a test of the rows out of the text of a condition and the types given for its question mark, or
  fails (\<open>None\<close>): \<open>se_where\<close>. \<open>se_nested\<close> is the message inside another, \<open>None\<close> for a nil pointer, and \<open>se_depth\<close> bounds
  how deep messages are nested. \<open>se_range\<close> is the iteration order of a map, and \<open>se_sort\<close> is \<^verbatim>\<open>sort.Slice\<close> by the
  latest send time, latest first, which leaves the order of equal times open.
\<close>

record 'q search_env =
  se_where :: "string \<Rightarrow> int list \<Rightarrow> (LocalChatLog \<Rightarrow> bool) option"
  se_nested :: "'q \<Rightarrow> 'q MsgStruct option"
  se_depth :: nat
  se_ToLower :: "string \<Rightarrow> string"
  se_range :: "(string, 'q SearchByConversationResult) gomap \<Rightarrow> (string, 'q SearchByConversationResult) gomap"
  se_sort :: "'q SearchByConversationResult list \<Rightarrow> 'q SearchByConversationResult list"

text \<open>The condition on the content: each keyword stands between quotation marks in the text, as it is.\<close>

definition like_keyword :: "string \<Rightarrow> string" where
  "like_keyword kw = ''content like '' @ CHR 0x27 # ''%'' @ kw @ ''%'' @ [CHR 0x27]"

fun like_keywords :: "string \<Rightarrow> string list \<Rightarrow> string" where
  "like_keywords op [] = []"
| "like_keywords op [kw] = like_keyword kw @ '') ''"
| "like_keywords op (kw # rest) = like_keyword kw @ '' '' @ op @ '' '' @ like_keywords op rest"

definition subCondition :: "int \<Rightarrow> string list \<Rightarrow> string" where
  "subCondition keywordListMatchType keywordList =
     (if keywordList = [] then []
      else ''And ('' @ like_keywords (if keywordListMatchType = KeywordMatchOr then ''or'' else ''and'') keywordList)"

definition search_sql ::
  "'q search_env \<Rightarrow> (LocalChatLog, 't) gorm \<Rightarrow> string \<Rightarrow> int list \<Rightarrow> nat \<Rightarrow> int \<Rightarrow> 't \<Rightarrow> (go_error + LocalChatLog list) \<times> 't" where
  "search_sql W G condition contentType offset cnt t =
     (case se_where W condition contentType of
        None \<Rightarrow> (Inl (GoError ''SQL logic error''), t)
      | Some p \<Rightarrow> ordered_find G p (\<lambda>r. - cl_SendTime r) offset cnt t)"

definition SearchMessageByKeyword ::
  "'q search_env \<Rightarrow> 't chat_db \<Rightarrow> int list \<Rightarrow> string list \<Rightarrow> int \<Rightarrow> string \<Rightarrow> int \<Rightarrow> int \<Rightarrow> nat \<Rightarrow> int \<Rightarrow> 't \<Rightarrow>
   (go_error + LocalChatLog list) \<times> 't" where
  "SearchMessageByKeyword W G contentType keywordList keywordListMatchType conversationID startTime endTime offset cnt t =
     wrap_res ''InsertMessage failed'' (search_sql W (G (GetTableName conversationID))
       ('' send_time  between '' @ decimal startTime @ '' and '' @ decimal endTime @ '' AND status <='' @ decimal MsgStatusSendFailed @
        ''  And content_type IN ? '' @ subCondition keywordListMatchType keywordList) contentType offset cnt t)"

definition SearchMessageByContentTypeAndKeyword ::
  "'q search_env \<Rightarrow> 't chat_db \<Rightarrow> int list \<Rightarrow> string \<Rightarrow> string list \<Rightarrow> int \<Rightarrow> int \<Rightarrow> int \<Rightarrow> 't \<Rightarrow>
   (go_error + LocalChatLog list) \<times> 't" where
  "SearchMessageByContentTypeAndKeyword W G contentType conversationID keywordList keywordListMatchType startTime endTime t =
     wrap_res ''SearchMessage failed'' (search_sql W (G (GetTableName conversationID))
       (''send_time between '' @ decimal startTime @ '' and '' @ decimal endTime @ '' AND status <='' @ decimal MsgStatusSendFailed @
        ''  And content_type IN ? '' @ subCondition keywordListMatchType keywordList) contentType 0 (- 1) t)"

text \<open>The search over all conversations: an error is dropped, at the list of the conversations as for each of them.\<close>

fun search_conversations ::
  "'q search_env \<Rightarrow> 't chat_db \<Rightarrow> int list \<Rightarrow> string list \<Rightarrow> int \<Rightarrow> int \<Rightarrow> int \<Rightarrow> string list \<Rightarrow> 't \<Rightarrow> LocalChatLog list \<times> 't" where
  "search_conversations W G contentType kws match startTime endTime [] t = ([], t)"
| "search_conversations W G contentType kws match startTime endTime (v # rest) t =
     (case SearchMessageByContentTypeAndKeyword W G contentType v kws match startTime endTime t of
        (Inl e, t1) \<Rightarrow> search_conversations W G contentType kws match startTime endTime rest t1
      | (Inr sList, t1) \<Rightarrow> map_prod ((@) sList) id (search_conversations W G contentType kws match startTime endTime rest t1))"

definition controller_search ::
  "('q, 't, 'n) conv_env \<Rightarrow> 'q search_env \<Rightarrow> int list \<Rightarrow> string list \<Rightarrow> int \<Rightarrow> int \<Rightarrow> int \<Rightarrow> 't \<Rightarrow> LocalChatLog list \<times> 't" where
  "controller_search E W contentType kws match startTime endTime t =
     (case GetAllConversationIDList (cx_conv E) t of
        (Inl e, t1) \<Rightarrow> ([], t1)
      | (Inr ids, t1) \<Rightarrow> search_conversations W (cx_chat E) contentType kws match startTime endTime ids t1)"

subsection \<open>Which messages match\<close>

fun any_match :: "(string \<Rightarrow> string) \<Rightarrow> string \<Rightarrow> string list \<Rightarrow> bool option" where
  "any_match lower main [] = Some False"
| "any_match lower main (v # rest) =
     (case KMP lower main v of None \<Rightarrow> None | Some b \<Rightarrow> if b then Some True else any_match lower main rest)"

fun all_match :: "(string \<Rightarrow> string) \<Rightarrow> string \<Rightarrow> string list \<Rightarrow> bool option" where
  "all_match lower main [] = Some True"
| "all_match lower main (v # rest) =
     (case KMP lower main v of None \<Rightarrow> None | Some b \<Rightarrow> if b then all_match lower main rest else Some False)"

definition judgeMultipleSubString :: "(string \<Rightarrow> string) \<Rightarrow> string list \<Rightarrow> string \<Rightarrow> int \<Rightarrow> bool option" where
  "judgeMultipleSubString lower keywordList main keywordListMatchType =
     (if keywordList = [] then Some True
      else if keywordListMatchType = KeywordMatchOr then any_match lower main keywordList
      else all_match lower main keywordList)"

text \<open>The loop over the messages of a merged one ends at the first that is not left out; what it found is not used.\<close>

fun until_kept :: "bool option list \<Rightarrow> unit option" where
  "until_kept [] = Some ()"
| "until_kept (None # rest) = None"
| "until_kept (Some False # rest) = Some ()"
| "until_kept (Some True # rest) = until_kept rest"

text \<open>
  \<open>Some True\<close>: the message is left out. \<open>None\<close>: a nil pointer is read (or the messages are nested deeper than the first
  argument).
\<close>

fun filterMsg :: "'q search_env \<Rightarrow> SearchLocalMessagesParams \<Rightarrow> nat \<Rightarrow> 'q MsgStruct \<Rightarrow> bool option" where
  "filterMsg W p 0 temp = None"
| "filterMsg W p (Suc n) temp =
     (let ct = ms_ContentType temp;
          misses = (\<lambda>text. map_option Not (judgeMultipleSubString (se_ToLower W) (sp_KeywordList p) text (sp_KeywordListMatchType p)));
          nested = (\<lambda>q. case se_nested W q of None \<Rightarrow> None | Some m \<Rightarrow> filterMsg W p n m)
      in if ct = Text then Option.bind (ms_TextElem temp) (\<lambda>e. misses (te_Content e))
      else if ct = AtText then Option.bind (ms_AtTextElem temp) (\<lambda>e. misses (ate_Text e))
      else if ct = File then Option.bind (ms_FileElem temp) (\<lambda>e. misses (fe_FileName e))
      else if ct = Merger
      then (case ms_MergeElem temp of
              None \<Rightarrow> None
            | Some e \<Rightarrow>
                (case misses (me_Title e) of
                   None \<Rightarrow> None
                 | Some True \<Rightarrow> map_option (\<lambda>_. False) (until_kept (map nested (me_MultiMessage e)))
                 | Some False \<Rightarrow> Some False))
      else if ct = Card then Option.bind (ms_CardElem temp) (\<lambda>e. misses (ce_Nickname e))
      else if ct = Location then Option.bind (ms_LocationElem temp) (\<lambda>e. misses (le_Description e))
      else if ct = Custom then Option.bind (ms_CustomElem temp) (\<lambda>e. misses (cue_Description e))
      else if ct = Quote
      then (case ms_QuoteElem temp of
              None \<Rightarrow> None
            | Some e \<Rightarrow>
                (case misses (qe_Text e) of
                   None \<Rightarrow> None
                 | Some True \<Rightarrow> Option.bind (qe_QuoteMessage e) nested
                 | Some False \<Rightarrow> Some False))
      else if ct = Picture \<or> ct = Video then Some (sp_KeywordList p \<noteq> [])
      else Some True)"

subsection \<open>The result\<close>

text \<open>Seconds since the epoch to milliseconds, through the nanoseconds of a \<^verbatim>\<open>time.Time\<close>.\<close>

definition second_to_milli :: "int \<Rightarrow> int" where
  "second_to_milli sec = i64 (sec * 10 ^ 9) sdiv 10 ^ 6"

text \<open>
  The conversation of a message. Of a message with any other session type it is the one of the message before, since the
  variable is declared outside the loop.
\<close>

definition conversation_of_found :: "string \<Rightarrow> string \<Rightarrow> 'q MsgStruct \<Rightarrow> string \<times> 'q MsgStruct" where
  "conversation_of_found loginUserID previous m =
     (if ms_SessionType m = SingleChatType
      then (getConversationIDBySessionType loginUserID (if ms_SendID m = loginUserID then ms_RecvID m else ms_SendID m) SingleChatType, m)
      else if is_group_session (ms_SessionType m)
      then (getConversationIDBySessionType loginUserID (ms_RecvID m) (ms_SessionType m),
            m\<lparr>ms_GroupID := ms_RecvID m, ms_RecvID := loginUserID\<rparr>)
      else (previous, m))"

definition collect_found ::
  "('q, 't, 'n) conv_env \<Rightarrow> string \<Rightarrow> 'q MsgStruct \<Rightarrow> (string, 'q SearchByConversationResult) gomap \<Rightarrow> ('t, 'n) conv_state \<Rightarrow>
   (string, 'q SearchByConversationResult) gomap \<times> ('t, 'n) conv_state" where
  "collect_found E conversationID m cm s =
     (case gget cm conversationID of
        Some oldItem \<Rightarrow>
          (gput conversationID (oldItem\<lparr>sr_MessageCount := sr_MessageCount oldItem + 1,
             sr_MessageList := sr_MessageList oldItem @ [m]\<rparr>) cm, s)
      | None \<Rightarrow>
          (case on_db (GetConversation (cx_conv E) conversationID) s of
             (Inl e, s1) \<Rightarrow> (cm, s1)
           | (Inr c, s1) \<Rightarrow>
               (gput conversationID \<lparr>sr_ConversationID = conversationID, sr_ConversationType = cv_ConversationType c,
                  sr_ShowName = cv_ShowName c, sr_FaceURL = cv_FaceURL c, sr_LatestMsgSendTime = cv_LatestMsgSendTime c,
                  sr_MessageCount = 1, sr_MessageList = [m]\<rparr> cm, s1)))"

text \<open>One stored message after the other; a message that cannot be decoded is left out.\<close>

fun group_found ::
  "('q, 't, 'n) conv_env \<Rightarrow> 'q search_env \<Rightarrow> SearchLocalMessagesParams \<Rightarrow> LocalChatLog list \<Rightarrow> string \<Rightarrow>
   (string, 'q SearchByConversationResult) gomap \<Rightarrow> ('t, 'n) conv_state \<Rightarrow>
   ((string, 'q SearchByConversationResult) gomap \<times> ('t, 'n) conv_state) option" where
  "group_found E W p [] previous cm s = Some (cm, s)"
| "group_found E W p (v # rest) previous cm s =
     (case msgHandleByContentType (cx_codec E) (cx_loginUserID E)
             ((found_msg v)\<lparr>ms_AttachedInfoElem := Some (snd (dec_AttachedInfoElem (cx_codec E) (cl_AttachedInfo v)))\<rparr>) of
        (Some e, m) \<Rightarrow> group_found E W p rest previous cm s
      | (None, m) \<Rightarrow>
          (case filterMsg W p (se_depth W) m of
             None \<Rightarrow> None
           | Some True \<Rightarrow> group_found E W p rest previous cm s
           | Some False \<Rightarrow>
               (case conversation_of_found (cx_loginUserID E) previous m of (conversationID, m') \<Rightarrow>
                  case collect_found E conversationID m' cm s of (cm', s1) \<Rightarrow>
                    group_found E W p rest conversationID cm' s1)))"

text \<open>
  The rows that are looked through. In one conversation the error of the statement is assigned to a variable of the
  block, which hides the one that is tested after it: the result is then empty.
\<close>

definition search_rows ::
  "('q, 't, 'n) conv_env \<Rightarrow> 'q search_env \<Rightarrow> SearchLocalMessagesParams \<Rightarrow> int \<Rightarrow> int \<Rightarrow> ('t, 'n) conv_state \<Rightarrow>
   (go_error + LocalChatLog list) \<times> ('t, 'n) conv_state" where
  "search_rows E W p startTime endTime s =
     (if sp_ConversationID p \<noteq> []
      then (if sp_PageIndex p < 1 \<or> sp_Count p < 1 then (Inl (GoError ''page or count is null''), s)
            else let offset = nat (i64 (i64 (sp_PageIndex p - 1) * sp_Count p)) in
              case on_db (GetConversation (cx_conv E) (sp_ConversationID p)) s of
                (Inl e, s1) \<Rightarrow> (Inl e, s1)
              | (Inr _, s1) \<Rightarrow>
                  (case on_db (if sp_MessageTypeList p \<noteq> [] \<and> sp_KeywordList p = []
                         then SearchMessageByContentType (cx_chat E) (sp_MessageTypeList p) (sp_ConversationID p) startTime endTime
                                offset (sp_Count p)
                         else let types = filter (\<lambda>v. IsContainInt v SearchContentType) (sp_MessageTypeList p)
                              in SearchMessageByKeyword W (cx_chat E) (if types = [] then SearchContentType else types)
                                   (sp_KeywordList p) (sp_KeywordListMatchType p) (sp_ConversationID p) startTime endTime
                                   offset (sp_Count p)) s1 of
                     (Inl e, s2) \<Rightarrow> (Inr [], s2)
                   | (Inr rows, s2) \<Rightarrow> (Inr rows, s2)))
      else case on_db (controller_search E W (if sp_MessageTypeList p = [] then SearchContentType else sp_MessageTypeList p)
                    (sp_KeywordList p) (sp_KeywordListMatchType p) startTime endTime) s of
             (rows, s1) \<Rightarrow> (Inr rows, s1))"

text \<open>\<open>nowSecond\<close> is \<^verbatim>\<open>GetCurrentTimestampBySecond\<close>, read when no end of the search is given.\<close>

definition searchLocalMessages ::
  "('q, 't, 'n) conv_env \<Rightarrow> 'q search_env \<Rightarrow> int \<Rightarrow> SearchLocalMessagesParams \<Rightarrow> ('t, 'n) conv_state \<Rightarrow>
   ((go_error + 'q search_callback) \<times> ('t, 'n) conv_state) option" where
  "searchLocalMessages E W nowSecond p s =
     (let endTime = (if sp_SearchTimePosition p = 0 then nowSecond else sp_SearchTimePosition p);
          startTime = (if sp_SearchTimePeriod p \<noteq> 0 then i64 (endTime - sp_SearchTimePeriod p) else 0)
      in if sp_KeywordList p = [] \<and> sp_MessageTypeList p = []
      then Some (Inl (GoError ''keywordlist and messageTypelist all null''), s)
      else case search_rows E W p (second_to_milli startTime) (second_to_milli endTime) s of
             (Inl e, s1) \<Rightarrow> Some (Inl e, s1)
           | (Inr rows, s1) \<Rightarrow>
               map_option (\<lambda>(cm, s2). let items = map snd (se_range W cm) in
                   (Inr \<lparr>sc_TotalCount = sum_list (map sr_MessageCount items), sc_Items = se_sort W items\<rparr>, s2))
                 (group_found E W p rows [] [] s1))"

definition SearchLocalMessages ::
  "('q, 't, 'n) conv_env \<Rightarrow> 'q search_env \<Rightarrow> int \<Rightarrow> SearchLocalMessagesParams \<Rightarrow> ('t, 'n) conv_state \<Rightarrow>
   ((go_error + 'q search_callback) \<times> ('t, 'n) conv_state) option" where
  "SearchLocalMessages E W nowSecond p =
     searchLocalMessages E W nowSecond (p\<lparr>sp_KeywordList := TrimStringList (sp_KeywordList p)\<rparr>)"

end
