(* ===== verification/ConvSearchProps.thy ===== *)
theory ConvSearchProps
  imports ConvSearch ConvSyncProps DbProps
begin

text \<open>What a search over the stored messages gives.\<close>

section \<open>Keywords\<close>

text \<open>The keywords of a search occur in a text, in whatever case: one of them or all of them.\<close>

definition keywords_occur :: "(string \<Rightarrow> string) \<Rightarrow> string list \<Rightarrow> string \<Rightarrow> int \<Rightarrow> bool" where
  "keywords_occur lower kws text keywordListMatchType \<longleftrightarrow> kws = [] \<or>
     (if keywordListMatchType = KeywordMatchOr then \<exists>kw \<in> set kws. sublist (lower kw) (lower text)
      else \<forall>kw \<in> set kws. sublist (lower kw) (lower text))"

lemma any_match_occurs: "any_match lower main kws = Some (\<exists>kw \<in> set kws. sublist (lower kw) (lower main))"
  by (induction kws) (simp_all add: KMP_substring)

lemma all_match_occurs: "all_match lower main kws = Some (\<forall>kw \<in> set kws. sublist (lower kw) (lower main))"
  by (induction kws) (simp_all add: KMP_substring)

text \<open>
  C11: the test of a text against the keywords of a search always returns: its substring search never reads outside
  its two strings and never loops. Its answer is that one of the keywords (or all of them, as asked) is a substring of
  the text when both are put in lower case; with no keyword every text passes.
\<close>

theorem judge_keywords:
  "judgeMultipleSubString lower kws text keywordListMatchType = Some (keywords_occur lower kws text keywordListMatchType)"
  by (simp add: judgeMultipleSubString_def keywords_occur_def any_match_occurs all_match_occurs)

section \<open>What is kept\<close>

lemmas judge_simps = judgeMultipleSubString_def keywords_occur_def any_match_occurs all_match_occurs

text \<open>The text a message is judged by, for the types that have one.\<close>

definition judged_text :: "'q MsgStruct \<Rightarrow> string option" where
  "judged_text m = (let ct = ms_ContentType m in
     if ct = Text then map_option te_Content (ms_TextElem m)
     else if ct = AtText then map_option ate_Text (ms_AtTextElem m)
     else if ct = File then map_option fe_FileName (ms_FileElem m)
     else if ct = Card then map_option ce_Nickname (ms_CardElem m)
     else if ct = Location then map_option le_Description (ms_LocationElem m)
     else if ct = Custom then map_option cue_Description (ms_CustomElem m)
     else None)"

definition judged_types :: "int set" where
  "judged_types = {Text, AtText, File, Card, Location, Custom}"

definition searched_types :: "int set" where
  "searched_types = judged_types \<union> {Merger, Quote, Picture, Video}"

text \<open>
  A message matches a search: one that is judged by a text has the keywords in it, a quote has them in its text or quotes a message
  that matches, and a picture or a video matches a search without keywords. A merged message matches whatever it says (the
  code throws away what the loop over its messages finds).
\<close>

inductive matches_search :: "'q search_env \<Rightarrow> SearchLocalMessagesParams \<Rightarrow> 'q MsgStruct \<Rightarrow> bool"
  for W :: "'q search_env" and p :: SearchLocalMessagesParams where
  by_text: "judged_text m = Some text \<Longrightarrow>
     keywords_occur (se_ToLower W) (sp_KeywordList p) text (sp_KeywordListMatchType p) \<Longrightarrow> matches_search W p m"
| merged: "ms_ContentType m = Merger \<Longrightarrow> matches_search W p m"
| quote: "ms_ContentType m = Quote \<Longrightarrow> ms_QuoteElem m = Some e \<Longrightarrow>
     keywords_occur (se_ToLower W) (sp_KeywordList p) (qe_Text e) (sp_KeywordListMatchType p) \<Longrightarrow> matches_search W p m"
| quoted: "ms_ContentType m = Quote \<Longrightarrow> ms_QuoteElem m = Some e \<Longrightarrow> qe_QuoteMessage e = Some q \<Longrightarrow>
     se_nested W q = Some m' \<Longrightarrow> matches_search W p m' \<Longrightarrow> matches_search W p m"
| media: "ms_ContentType m \<in> {Picture, Video} \<Longrightarrow> sp_KeywordList p = [] \<Longrightarrow> matches_search W p m"

lemma judge_occurs:
  "judgeMultipleSubString lower kws text how = Some (keywords_occur lower kws text how)"
  by (simp add: judge_simps)

text \<open>Whatever the bound on the nesting: a message is left out exactly if it does not match.\<close>

lemma filterMsg_exact:
  "filterMsg W p n m = Some b \<Longrightarrow> b = (\<not> matches_search W p m)"
proof (induction n arbitrary: m b)
  case (Suc n)
  note judged = judge_occurs bind_eq_Some_conv judged_text_def Let_def
  consider (texts) "ms_ContentType m \<in> {Text, AtText, File, Card, Location, Custom}" | (merger) "ms_ContentType m = Merger"
    | (quote) "ms_ContentType m = Quote" | (media) "ms_ContentType m \<in> {Picture, Video}"
    | (other) "ms_ContentType m \<notin> {Text, AtText, File, Card, Location, Custom, Merger, Quote, Picture, Video}" by blast
  then show ?case
  proof cases
    case texts
    with Suc.prems show ?thesis by (subst matches_search.simps) (auto simp: judged content_types)
  next
    case merger
    then have "matches_search W p m" by (rule matches_search.merged)
    moreover have "b = False"
      using Suc.prems merger by (auto simp: judged content_types split: option.splits bool.splits)
    ultimately show ?thesis by simp
  next
    case quote
    then obtain e where e: "ms_QuoteElem m = Some e"
      using Suc.prems by (auto simp: judged content_types split: option.splits)
    show ?thesis
    proof (cases "keywords_occur (se_ToLower W) (sp_KeywordList p) (qe_Text e) (sp_KeywordListMatchType p)")
      case True
      with quote e Suc.prems matches_search.quote [OF quote e True] show ?thesis by (auto simp: judged content_types)
    next
      case False
      with quote e Suc.prems obtain q m' where q: "qe_QuoteMessage e = Some q" "se_nested W q = Some m'" "filterMsg W p n m' = Some b"
        by (auto simp: judged content_types split: option.splits)
      from Suc.IH [OF q(3)] have b: "b = (\<not> matches_search W p m')" .
      have "judged_text m = None" using quote by (simp add: judged_text_def content_types)
      then have "matches_search W p m = matches_search W p m'"
        using quote e q(1,2) False by (subst matches_search.simps) (auto simp: content_types)
      with b show ?thesis by simp
    qed
  next
    case media
    then have "judged_text m = None" by (auto simp: judged_text_def content_types)
    with media Suc.prems show ?thesis by (subst matches_search.simps) (auto simp: judged content_types)
  next
    case other
    then have "judged_text m = None" by (auto simp: judged_text_def)
    with other Suc.prems show ?thesis by (subst matches_search.simps) (auto simp: judged)
  qed
qed simp

text \<open>
  A message that can be looked at: the element of its type is there, and so are the messages in it, which are nested less deep than
  \<open>n\<close>.
\<close>

fun readable :: "'q search_env \<Rightarrow> nat \<Rightarrow> 'q MsgStruct \<Rightarrow> bool" where
  "readable W 0 m = False"
| "readable W (Suc n) m =
     (let inner = (\<lambda>q. case se_nested W q of None \<Rightarrow> False | Some m' \<Rightarrow> readable W n m') in
      (ms_ContentType m \<in> judged_types \<longrightarrow> judged_text m \<noteq> None) \<and>
      (ms_ContentType m = Merger \<longrightarrow> (\<exists>e. ms_MergeElem m = Some e \<and> (\<forall>q \<in> set (me_MultiMessage e). inner q))) \<and>
      (ms_ContentType m = Quote \<longrightarrow> (\<exists>e q. ms_QuoteElem m = Some e \<and> qe_QuoteMessage e = Some q \<and> inner q)))"

lemma until_kept_total: "None \<notin> set bs \<Longrightarrow> until_kept bs = Some ()"
  by (induction bs rule: until_kept.induct) auto

lemma readable_total: "readable W n m \<Longrightarrow> \<exists>b. filterMsg W p n m = Some b"
proof (induction n arbitrary: m)
  case (Suc n)
  let ?nested = "\<lambda>q. case se_nested W q of None \<Rightarrow> None | Some m \<Rightarrow> filterMsg W p n m"
  have inner: "\<exists>b. ?nested q = Some b" if "case se_nested W q of None \<Rightarrow> False | Some m' \<Rightarrow> readable W n m'" for q
    using that Suc.IH by (auto split: option.splits)
  consider (merger) "ms_ContentType m = Merger" | (quote) "ms_ContentType m = Quote"
    | (other) "ms_ContentType m \<noteq> Merger" "ms_ContentType m \<noteq> Quote" by blast
  then show ?case
  proof cases
    case merger
    with Suc.prems obtain e where e: "ms_MergeElem m = Some e"
      and all: "\<forall>q \<in> set (me_MultiMessage e). \<exists>b. ?nested q = Some b"
      using inner by (auto simp: Let_def)
    have "until_kept (map ?nested (me_MultiMessage e)) = Some ()" by (rule until_kept_total) (use all in force)
    with merger e show ?thesis by (auto simp: content_types Let_def judge_occurs split: bool.split)
  next
    case quote
    with Suc.prems obtain e q where "ms_QuoteElem m = Some e" "qe_QuoteMessage e = Some q" "\<exists>b. ?nested q = Some b"
      using inner by (auto simp: Let_def)
    with quote show ?thesis by (auto simp: content_types Let_def judge_occurs split: bool.split)
  next
    case other
    with Suc.prems show ?thesis
      by (auto simp: content_types Let_def judge_occurs judged_text_def judged_types_def split: if_splits)
  qed
qed simp

section \<open>The result of a search\<close>

definition same_message :: "LocalChatLog \<Rightarrow> 'q MsgStruct \<Rightarrow> bool" where
  "same_message v m \<longleftrightarrow> ms_ClientMsgID m = cl_ClientMsgID v \<and> ms_Seq m = cl_Seq v \<and> ms_SendTime m = cl_SendTime v \<and>
     ms_SendID m = cl_SendID v \<and> ms_ContentType m = cl_ContentType v \<and> ms_SessionType m = cl_SessionType v"

text \<open>What the decoding of the content leaves alone: anything that none of its updates changes.\<close>

lemma handled_keeps:
  fixes m0 :: "'q MsgStruct"
  assumes "msgHandleByContentType J u m0 = (r, m)"
    and "\<And>m c. f (m\<lparr>ms_Content := c\<rparr>) = f m" "\<And>m e. f (m\<lparr>ms_TextElem := e\<rparr>) = f m"
    "\<And>m e. f (m\<lparr>ms_CardElem := e\<rparr>) = f m" "\<And>m e. f (m\<lparr>ms_PictureElem := e\<rparr>) = f m"
    "\<And>m e. f (m\<lparr>ms_SoundElem := e\<rparr>) = f m" "\<And>m e. f (m\<lparr>ms_VideoElem := e\<rparr>) = f m"
    "\<And>m e. f (m\<lparr>ms_FileElem := e\<rparr>) = f m" "\<And>m e. f (m\<lparr>ms_MergeElem := e\<rparr>) = f m"
    "\<And>m e. f (m\<lparr>ms_AtTextElem := e\<rparr>) = f m" "\<And>m e. f (m\<lparr>ms_FaceElem := e\<rparr>) = f m"
    "\<And>m e. f (m\<lparr>ms_LocationElem := e\<rparr>) = f m" "\<And>m e. f (m\<lparr>ms_CustomElem := e\<rparr>) = f m"
    "\<And>m e. f (m\<lparr>ms_QuoteElem := e\<rparr>) = f m" "\<And>m e. f (m\<lparr>ms_NotificationElem := e\<rparr>) = f m"
    "\<And>m e. f (m\<lparr>ms_AdvancedTextElem := e\<rparr>) = f m" "\<And>m e. f (m\<lparr>ms_TypingElem := e\<rparr>) = f m"
  shows "f m = f m0"
proof -
  have fin: "f (snd ((\<lambda>(err, m). (wrap_err err [], m\<lparr>ms_Content := []\<rparr>)) x)) = f (snd x)" for x :: "go_error option \<times> 'q MsgStruct"
    by (simp add: assms(2) split: prod.split)
  have m: "m = snd (msgHandleByContentType J u m0)" using assms(1) by simp
  show ?thesis
    unfolding m msgHandleByContentType_def Let_def fin case_prod_beta by (simp add: assms(2-))
qed

lemma handled_same:
  assumes "msgHandleByContentType J u m0 = (r, m)"
  shows "ms_ClientMsgID m = ms_ClientMsgID m0" "ms_Seq m = ms_Seq m0" "ms_SendTime m = ms_SendTime m0"
    "ms_SendID m = ms_SendID m0" "ms_ContentType m = ms_ContentType m0" "ms_SessionType m = ms_SessionType m0"
  by (rule handled_keeps [OF assms]; simp)+

lemma moved_same:
  "same_message v (m\<lparr>ms_GroupID := x, ms_RecvID := y\<rparr>) = same_message v m"
  "matches_search W p (m\<lparr>ms_GroupID := x, ms_RecvID := y\<rparr>) = matches_search W p m"
proof -
  show "same_message v (m\<lparr>ms_GroupID := x, ms_RecvID := y\<rparr>) = same_message v m" by (simp add: same_message_def)
  have "judged_text (m\<lparr>ms_GroupID := x, ms_RecvID := y\<rparr>) = judged_text m" by (simp add: judged_text_def Let_def)
  then show "matches_search W p (m\<lparr>ms_GroupID := x, ms_RecvID := y\<rparr>) = matches_search W p m"
    by (subst (1 2) matches_search.simps) simp
qed

lemma conversation_same:
  assumes "conversation_of_found u prev m = (cid, m')"
  shows "same_message v m' = same_message v m" "matches_search W p m' = matches_search W p m"
proof -
  have "m' = m \<or> (\<exists>x y. m' = m\<lparr>ms_GroupID := x, ms_RecvID := y\<rparr>)"
    using assms by (auto simp: conversation_of_found_def split: if_splits)
  then show "same_message v m' = same_message v m" "matches_search W p m' = matches_search W p m"
    using moved_same by metis+
qed

text \<open>
  The messages a search finds among the rows, in their order, each with its conversation: those that can be decoded and
  match.
\<close>

definition decoded :: "('q, 't, 'n) conv_env \<Rightarrow> LocalChatLog \<Rightarrow> 'q MsgStruct option" where
  "decoded E v =
     (case msgHandleByContentType (cx_codec E) (cx_loginUserID E)
         ((found_msg v)\<lparr>ms_AttachedInfoElem := Some (snd (dec_AttachedInfoElem (cx_codec E) (cl_AttachedInfo v)))\<rparr>) of
        (Some e, m) \<Rightarrow> None | (None, m) \<Rightarrow> Some m)"

fun found_messages ::
  "('q, 't, 'n) conv_env \<Rightarrow> 'q search_env \<Rightarrow> SearchLocalMessagesParams \<Rightarrow> string \<Rightarrow> LocalChatLog list \<Rightarrow> (string \<times> 'q MsgStruct) list" where
  "found_messages E W p previous [] = []"
| "found_messages E W p previous (v # rows) =
     (case decoded E v of
        None \<Rightarrow> found_messages E W p previous rows
      | Some m \<Rightarrow>
          (if matches_search W p m
           then let (conversationID, m') = conversation_of_found (cx_loginUserID E) previous m
                in (conversationID, m') # found_messages E W p conversationID rows
           else found_messages E W p previous rows))"

lemma decoded_same:
  assumes "decoded E v = Some m"
  shows "same_message v m"
proof -
  from assms obtain r where
    "msgHandleByContentType (cx_codec E) (cx_loginUserID E)
       ((found_msg v)\<lparr>ms_AttachedInfoElem := Some (snd (dec_AttachedInfoElem (cx_codec E) (cl_AttachedInfo v)))\<rparr>) = (r, m)"
    by (auto simp: decoded_def split: prod.splits option.splits)
  from handled_same [OF this] show ?thesis by (simp add: same_message_def found_msg_def)
qed

lemma found_messages_sound:
  "(k, m) \<in> set (found_messages E W p previous rows) \<Longrightarrow> matches_search W p m \<and> (\<exists>v \<in> set rows. same_message v m)"
proof (induction rows arbitrary: previous)
  case (Cons v rows)
  show ?case
  proof (cases "decoded E v")
    case None
    with Cons show ?thesis by auto
  next
    case (Some m0)
    obtain cid m' where conv: "conversation_of_found (cx_loginUserID E) previous m0 = (cid, m')" by fastforce
    show ?thesis
    proof (cases "matches_search W p m0 \<and> (k, m) = (cid, m')")
      case True
      with decoded_same [OF Some] conversation_same [OF conv] show ?thesis by auto
    next
      case False
      with Cons Some conv show ?thesis by (auto split: if_splits)
    qed
  qed
qed simp

text \<open>
  The database reads a conversation exactly if it is one of \<open>known\<close>, in every state that \<open>I\<close> describes, and stays in such a
  state.
\<close>

definition reads_conversations :: "('q, 't, 'n) conv_env \<Rightarrow> ('t \<Rightarrow> bool) \<Rightarrow> string set \<Rightarrow> bool" where
  "reads_conversations E I known \<longleftrightarrow> (\<forall>t cid r t'. I t \<longrightarrow> GetConversation (cx_conv E) cid t = (r, t') \<longrightarrow>
     I t' \<and> ((\<exists>c. r = Inr c) \<longleftrightarrow> cid \<in> known))"

definition messages_of :: "string \<Rightarrow> (string \<times> 'q MsgStruct) list \<Rightarrow> 'q MsgStruct list" where
  "messages_of k found = map snd (filter (\<lambda>f. fst f = k) found)"

definition total_of :: "(string, 'q SearchByConversationResult) gomap \<Rightarrow> int" where
  "total_of cm = sum_list (map (sr_MessageCount \<circ> snd) cm)"

lemma total_gput:
  "gomap_ok cm \<Longrightarrow> total_of (gput k i cm) = total_of cm + sr_MessageCount i - (case gget cm k of Some j \<Rightarrow> sr_MessageCount j | None \<Rightarrow> 0)"
  by (induction cm) (auto simp: total_of_def gomap_ok_def split: option.split dest: map_of_eq_None_iff [THEN iffD2])

text \<open>The map holds the messages found so far, of the conversations that are known.\<close>

definition holds_found ::
  "string set \<Rightarrow> (string \<times> 'q MsgStruct) list \<Rightarrow> (string, 'q SearchByConversationResult) gomap \<Rightarrow> bool" where
  "holds_found known found cm \<longleftrightarrow> gomap_ok cm \<and> total_of cm = int (length (filter (\<lambda>f. fst f \<in> known) found)) \<and>
     (\<forall>k. gget cm k = None \<longleftrightarrow> k \<notin> known \<or> k \<notin> fst ` set found) \<and>
     (\<forall>k i. gget cm k = Some i \<longrightarrow> sr_ConversationID i = k \<and> sr_MessageList i = messages_of k found \<and>
        sr_MessageCount i = int (length (messages_of k found)))"

lemma messages_of_snoc [simp]: "messages_of k (found @ [(cid, m)]) = messages_of k found @ (if cid = k then [m] else [])"
  by (simp add: messages_of_def)

lemma messages_of_none: "k \<notin> fst ` set found \<Longrightarrow> messages_of k found = []"
  by (force simp: messages_of_def filter_empty_conv)

lemma holds_put:
  assumes "holds_found known found cm" and "cid \<in> known" and "sr_ConversationID i = cid"
    and "sr_MessageList i = messages_of cid found @ [m]" and "sr_MessageCount i = int (length (messages_of cid found)) + 1"
  shows "holds_found known (found @ [(cid, m)]) (gput cid i cm)"
proof -
  have none: "cid \<notin> fst ` set found" if "gget cm cid = None" using assms(1,2) that by (auto simp: holds_found_def)
  have "total_of (gput cid i cm) = total_of cm + 1"
    using assms(1,5) none messages_of_none [of cid found]
    by (auto simp: total_gput holds_found_def split: option.split)
  with assms show ?thesis by (auto simp: holds_found_def gomap_simps)
qed

lemma collect_holds:
  assumes reads: "reads_conversations E I known" and "I (co_db s)" and "holds_found known found cm"
    and run: "collect_found E cid m cm s = (cm', s')"
  shows "holds_found known (found @ [(cid, m)]) cm' \<and> I (co_db s')"
proof (cases "gget cm cid")
  case (Some old)
  let ?new = "old\<lparr>sr_MessageCount := sr_MessageCount old + 1, sr_MessageList := sr_MessageList old @ [m]\<rparr>"
  from assms(3) Some have old: "sr_ConversationID old = cid" "sr_MessageList old = messages_of cid found"
      "sr_MessageCount old = int (length (messages_of cid found))" and "cid \<in> known"
    by (auto simp: holds_found_def) (metis option.distinct(1))
  then have "holds_found known (found @ [(cid, m)]) (gput cid ?new cm)" by (intro holds_put [OF assms(3)]) simp_all
  with run Some assms(2) show ?thesis by (auto simp: collect_found_def)
next
  case None
  obtain r t where get: "GetConversation (cx_conv E) cid (co_db s) = (r, t)" by fastforce
  then have t: "I t" "(\<exists>c. r = Inr c) \<longleftrightarrow> cid \<in> known" using reads assms(2) unfolding reads_conversations_def by blast+
  show ?thesis
  proof (cases r)
    case (Inl e)
    with t(2) have "cid \<notin> known" by simp
    with Inl get run None assms(3) t(1) show ?thesis
      by (auto simp: collect_found_def on_db_def holds_found_def)
  next
    case (Inr c)
    with t(2) have known: "cid \<in> known" by blast
    with None assms(3) have "cid \<notin> fst ` set found" by (auto simp: holds_found_def)
    then have "messages_of cid found = []" by (rule messages_of_none)
    with known have "holds_found known (found @ [(cid, m)]) (gput cid \<lparr>sr_ConversationID = cid, sr_ConversationType = cv_ConversationType c,
        sr_ShowName = cv_ShowName c, sr_FaceURL = cv_FaceURL c, sr_LatestMsgSendTime = cv_LatestMsgSendTime c,
        sr_MessageCount = 1, sr_MessageList = [m]\<rparr> cm)"
      by (intro holds_put [OF assms(3)]) simp_all
    with Inr get run None t(1) show ?thesis by (auto simp: collect_found_def on_db_def)
  qed
qed

lemma group_holds:
  assumes reads: "reads_conversations E I known"
  shows "\<forall>v \<in> set rows. \<forall>m. decoded E v = Some m \<longrightarrow> readable W (se_depth W) m \<Longrightarrow> I (co_db s) \<Longrightarrow> holds_found known found cm \<Longrightarrow>
    \<exists>cm' s'. group_found E W p rows previous cm s = Some (cm', s') \<and>
      holds_found known (found @ found_messages E W p previous rows) cm'"
proof (induction rows arbitrary: previous cm s found)
  case (Cons v rows)
  let ?m0 = "(found_msg v)\<lparr>ms_AttachedInfoElem := Some (snd (dec_AttachedInfoElem (cx_codec E) (cl_AttachedInfo v)))\<rparr>"
  obtain r m where handled: "msgHandleByContentType (cx_codec E) (cx_loginUserID E) ?m0 = (r, m)" by fastforce
  show ?case
  proof (cases r)
    case (Some e)
    with Cons handled show ?thesis by (simp add: decoded_def)
  next
    case None
    then have dec: "decoded E v = Some m" using handled by (simp add: decoded_def)
    with Cons.prems(1) have "readable W (se_depth W) m" by simp
    then obtain b where b: "filterMsg W p (se_depth W) m = Some b" using readable_total by blast
    note exact = filterMsg_exact [OF b]
    obtain cid m' where conv: "conversation_of_found (cx_loginUserID E) previous m = (cid, m')" by fastforce
    obtain cm1 s1 where col: "collect_found E cid m' cm s = (cm1, s1)" by fastforce
    show ?thesis
    proof (cases b)
      case True
      with Cons handled None b exact dec show ?thesis by simp
    next
      case False
      from collect_holds [OF reads Cons.prems(2,3) col] Cons.IH [of s1 "found @ [(cid, m')]" cm1 cid] Cons.prems(1)
      show ?thesis using False handled None b exact dec conv col by simp
    qed
  qed
qed simp

text \<open>The time a search goes from and to, in milliseconds.\<close>

definition search_to :: "int \<Rightarrow> SearchLocalMessagesParams \<Rightarrow> int" where
  "search_to nowSecond p = (if sp_SearchTimePosition p = 0 then nowSecond else sp_SearchTimePosition p)"

definition search_from :: "int \<Rightarrow> SearchLocalMessagesParams \<Rightarrow> int" where
  "search_from nowSecond p = (if sp_SearchTimePeriod p \<noteq> 0 then i64 (search_to nowSecond p - sp_SearchTimePeriod p) else 0)"

text \<open>
  C19: a search returns, and its result is exactly what it finds. Let \<open>rows\<close> be the stored messages that its statements select. Those that
  can be decoded and match are found: a text that has the keywords in it as asked, a quote that has them in its text or in
  the message it quotes, a picture or video of a search without keywords, and every merged message, whatever it says. The result
  has one item for each stored conversation of a found message, latest first, with all found messages of the conversation in
  their order and nothing else; the counts are right. (Found messages of conversations that are not stored are left out.)
\<close>

theorem search_result_sound:
  fixes E :: "('q, 't, 'n) conv_env"
  assumes order: "any_order (se_range W)"
    and sorts: "\<And>items. mset (se_sort W items) = mset items \<and>
      sorted_wrt (\<lambda>i j. sr_LatestMsgSendTime i \<ge> sr_LatestMsgSendTime j) (se_sort W items)"
    and asked: "sp_KeywordList p \<noteq> [] \<or> sp_MessageTypeList p \<noteq> []"
    and rows: "search_rows E W p (second_to_milli (search_from nowSecond p)) (second_to_milli (search_to nowSecond p)) s = (Inr rows, s1)"
    and read: "\<forall>v \<in> set rows. \<forall>m. decoded E v = Some m \<longrightarrow> readable W (se_depth W) m"
    and reads: "reads_conversations E I known" "I (co_db s1)"
  shows "\<exists>cb s'. searchLocalMessages E W nowSecond p s = Some (Inr cb, s') \<and>
    sorted_wrt (\<lambda>i j. sr_LatestMsgSendTime i \<ge> sr_LatestMsgSendTime j) (sc_Items cb) \<and>
    distinct (map sr_ConversationID (sc_Items cb)) \<and>
    sr_ConversationID ` set (sc_Items cb) = fst ` set (found_messages E W p [] rows) \<inter> known \<and>
    (\<forall>i \<in> set (sc_Items cb). sr_MessageList i = messages_of (sr_ConversationID i) (found_messages E W p [] rows) \<and>
       sr_MessageCount i = int (length (sr_MessageList i)) \<and>
       (\<forall>m \<in> set (sr_MessageList i). matches_search W p m \<and> (\<exists>v \<in> set rows. same_message v m))) \<and>
    sc_TotalCount cb = int (length (filter (\<lambda>f. fst f \<in> known) (found_messages E W p [] rows)))"
proof -
  let ?found = "found_messages E W p [] rows"
  have "holds_found known [] []" by (simp add: holds_found_def gomap_ok_def total_of_def)
  from group_holds [OF reads(1) read reads(2) this, of p "[]"] obtain cm s' where
    group: "group_found E W p rows [] [] s1 = Some (cm, s')" and holds: "holds_found known ?found cm" by auto
  let ?items = "map snd (se_range W cm)"
  define cb where "cb = \<lparr>sc_TotalCount = sum_list (map sr_MessageCount ?items), sc_Items = se_sort W ?items\<rparr>"
  have run: "searchLocalMessages E W nowSecond p s = Some (Inr cb, s')"
    using asked rows group by (auto simp: searchLocalMessages_def Let_def search_from_def search_to_def cb_def)
  have perm: "mset (se_range W cm) = mset cm" using order by (simp add: any_order_def)
  have items: "mset (sc_Items cb) = mset (map snd cm)"
    using sorts perm by (simp add: cb_def mset_map)
  have ids: "map sr_ConversationID (map snd cm) = map fst cm"
    using holds by (auto simp: holds_found_def dest: in_gget)
  have keys: "mset (map sr_ConversationID (sc_Items cb)) = mset (map fst cm)"
    using items ids by (metis mset_map)
  have distinct: "distinct (map sr_ConversationID (sc_Items cb))"
    using keys holds unfolding holds_found_def gomap_ok_def by (metis mset_eq_imp_distinct_iff)
  have "sr_ConversationID ` set (sc_Items cb) = fst ` set cm"
    using keys by (metis list.set_map set_mset_mset)
  also have "\<dots> = {k. gget cm k \<noteq> None}" by (auto simp: map_of_eq_None_iff)
  also have "\<dots> = fst ` set ?found \<inter> known" using holds by (auto simp: holds_found_def)
  finally have names: "sr_ConversationID ` set (sc_Items cb) = fst ` set ?found \<inter> known" .
  have each: "sr_MessageList i = messages_of (sr_ConversationID i) ?found \<and> sr_MessageCount i = int (length (sr_MessageList i)) \<and>
      (\<forall>m \<in> set (sr_MessageList i). matches_search W p m \<and> (\<exists>v \<in> set rows. same_message v m))"
    if "i \<in> set (sc_Items cb)" for i
  proof -
    from that items have "i \<in> snd ` set cm" by (metis list.set_map set_mset_mset)
    then obtain k where "gget cm k = Some i" using holds by (force simp: holds_found_def dest: in_gget)
    then have "sr_ConversationID i = k" "sr_MessageList i = messages_of k ?found" "sr_MessageCount i = int (length (messages_of k ?found))"
      using holds by (auto simp: holds_found_def)
    then show ?thesis using found_messages_sound by (fastforce simp: messages_of_def)
  qed
  have "sum_list (map sr_MessageCount ?items) = sum_mset (image_mset (sr_MessageCount \<circ> snd) (mset (se_range W cm)))"
    by (simp only: map_map mset_map [symmetric] sum_mset_sum_list)
  then have "sc_TotalCount cb = total_of cm"
    using perm by (simp add: cb_def total_of_def sum_mset_sum_list [symmetric] del: sum_mset_sum_list)
  then have total: "sc_TotalCount cb = int (length (filter (\<lambda>f. fst f \<in> known) ?found))"
    using holds by (simp add: holds_found_def)
  have "sorted_wrt (\<lambda>i j. sr_LatestMsgSendTime i \<ge> sr_LatestMsgSendTime j) (sc_Items cb)"
    using sorts [of ?items] by (simp add: cb_def)
  with run distinct names each total show ?thesis by blast
qed

text \<open>A stored text of a group, found by its type.\<close>

definition group_row :: LocalChatLog where
  "group_row = (sample_chat ''m'' 1 5)\<lparr>cl_SessionType := GroupChatType, cl_ContentType := Text, cl_Content := ''hi''\<rparr>"

definition search_world :: world where
  "search_world = empty_world\<lparr>w_conv := \<lparr>ft_rows = [zero_conversation\<lparr>cv_ConversationID := ''g_b''\<rparr>], ft_faults = []\<rparr>,
     w_chat := (\<lambda>_. \<lparr>ft_rows = [group_row], ft_faults = []\<rparr>)\<rparr>"

definition plain_search :: "'q search_env" where
  "plain_search = \<lparr>se_where = \<lambda>_ _. None, se_nested = \<lambda>_. None, se_depth = 1, se_ToLower = (\<lambda>t. t), se_range = (\<lambda>m. m),
     se_sort = sort_key (\<lambda>i. - sr_LatestMsgSendTime i)\<rparr>"

definition text_search :: SearchLocalMessagesParams where
  "text_search = \<lparr>sp_ConversationID = ''g_b'', sp_KeywordList = [], sp_KeywordListMatchType = 0, sp_SenderUserIDList = [],
     sp_MessageTypeList = [Text], sp_SearchTimePosition = 10, sp_SearchTimePeriod = 0, sp_PageIndex = 1, sp_Count = 20\<rparr>"

definition reading_texts :: "('q, 't, 'n) conv_env \<Rightarrow> ('q, 't, 'n) conv_env" where
  "reading_texts E = E\<lparr>cx_codec := (cx_codec E)\<lparr>dec_TextElem := \<lambda>c. (None, \<lparr>te_Content = c\<rparr>)\<rparr>\<rparr>"

lemma latest_first: "sorted_wrt (\<lambda>i j. sr_LatestMsgSendTime i \<ge> sr_LatestMsgSendTime j) (sort_key (\<lambda>i. - sr_LatestMsgSendTime i) items)"
  using sorted_sort_key [of "\<lambda>i. - sr_LatestMsgSendTime i" items] by (simp add: sorted_wrt_map)

lemma text_search_rows:
  "search_rows (on_world E) plain_search text_search 0 10000 ((sample_state n)\<lparr>co_db := search_world\<rparr>) =
     (Inr [group_row], (sample_state n)\<lparr>co_db := search_world\<rparr>)"
  by (simp add: search_rows_def text_search_def Let_def i64_def on_db_def GetConversation_def SearchMessageByContentType_def wrap_res_def
      ordered_find_def limit_rows_def search_world_def empty_world_def on_world_def world_conv_def world_chat_def at_table_def
      list_gorm_def next_fault_def group_row_def sample_chat_def MsgStatusSendFailed_def sample_state_def fun_upd_idem)

lemma text_search_decoded:
  fixes E :: "('q, world, 'n) conv_env"
  obtains m where "decoded (on_world (reading_texts E)) group_row = Some m" and "ms_ContentType m = Text"
    and "ms_TextElem m = Some \<lparr>te_Content = ''hi''\<rparr>" and "ms_SessionType m = GroupChatType" and "ms_RecvID m = ''b''"
proof -
  let ?J = "cx_codec (on_world (reading_texts E))"
  obtain m where "msgHandleByContentType ?J (cx_loginUserID (on_world (reading_texts E)))
      ((found_msg group_row)\<lparr>ms_AttachedInfoElem := Some (snd (dec_AttachedInfoElem ?J (cl_AttachedInfo group_row)))\<rparr>) = (None, m)"
    and "ms_ContentType m = Text" "ms_TextElem m = Some \<lparr>te_Content = ''hi''\<rparr>" "ms_SessionType m = GroupChatType" "ms_RecvID m = ''b''"
    by (simp add: msgHandleByContentType_def found_msg_def group_row_def sample_chat_def on_world_def reading_texts_def Let_def)
  then show thesis using that by (simp add: decoded_def)
qed

lemma search_fields: "sp_KeywordList text_search = []" "sp_MessageTypeList text_search = [Text]"
    "search_from now text_search = 0" "search_to now text_search = 10"
  by (simp_all add: text_search_def search_from_def search_to_def)

lemma search_world_reads:
  "reads_conversations (on_world E) (\<lambda>w. w_conv w = w_conv search_world) {''g_b''}"
  by (auto simp: reads_conversations_def GetConversation_def wrap_res_def search_world_def empty_world_def on_world_def world_conv_def
      at_table_def list_gorm_def next_fault_def split: if_splits)

theorem search_result_sound_witness:
  "\<forall>(E :: ('q, world, 'n) conv_env) n. \<exists>cb s'.
     searchLocalMessages (on_world (reading_texts E)) plain_search 10 text_search ((sample_state n)\<lparr>co_db := search_world\<rparr>) = Some (Inr cb, s') \<and>
     sc_TotalCount cb = 1 \<and> sr_ConversationID ` set (sc_Items cb) = {''g_b''}"
proof (intro allI)
  fix E :: "('q, world, 'n) conv_env" and n :: 'n
  let ?s = "(sample_state n)\<lparr>co_db := search_world\<rparr>" and ?E = "on_world (reading_texts E)"
  obtain m where m: "decoded ?E group_row = Some m" "ms_ContentType m = Text" "ms_TextElem m = Some \<lparr>te_Content = ''hi''\<rparr>"
      "ms_SessionType m = GroupChatType" "ms_RecvID m = ''b''"
    by (rule text_search_decoded)
  have "matches_search plain_search text_search m"
    by (rule matches_search.by_text [of m "''hi''"]) (simp_all add: judged_text_def m keywords_occur_def search_fields)
  moreover have "fst (conversation_of_found (cx_loginUserID ?E) [] m) = ''g_b''"
    by (simp add: conversation_of_found_def m is_group_session_def session_types getConversationIDBySessionType_def)
  ultimately have found: "\<exists>m'. found_messages ?E plain_search text_search [] [group_row] = [(''g_b'', m')]"
    using m(1) by (auto split: prod.split) (metis prod.collapse)
  have "second_to_milli 0 = 0" "second_to_milli 10 = 10000"
    by (simp_all add: second_to_milli_def i64_id is_i64_def)
  then have rows: "search_rows ?E plain_search text_search (second_to_milli (search_from 10 text_search))
      (second_to_milli (search_to 10 text_search)) ?s = (Inr [group_row], ?s)"
    using text_search_rows [of "reading_texts E" n] by (simp add: search_fields)
  have order: "any_order (se_range (plain_search :: 'q search_env))" by (simp add: any_order_def plain_search_def)
  have sorts: "mset (se_sort plain_search items) = mset items \<and>
      sorted_wrt (\<lambda>i j. sr_LatestMsgSendTime i \<ge> sr_LatestMsgSendTime j) (se_sort plain_search items)" for items :: "'q SearchByConversationResult list"
    by (simp add: plain_search_def latest_first)
  have read: "\<forall>v \<in> set [group_row]. \<forall>m. decoded ?E v = Some m \<longrightarrow> readable plain_search (se_depth (plain_search :: 'q search_env)) m"
    using m by (auto simp: plain_search_def judged_text_def judged_types_def content_types)
  from search_result_sound [OF order sorts _ rows read search_world_reads] found
  obtain cb s' where "searchLocalMessages ?E plain_search 10 text_search ?s = Some (Inr cb, s')"
    "sc_TotalCount cb = 1" "sr_ConversationID ` set (sc_Items cb) = {''g_b''}"
    by (auto simp: search_fields)
  then show "\<exists>cb s'. searchLocalMessages ?E plain_search 10 text_search ?s = Some (Inr cb, s') \<and>
     sc_TotalCount cb = 1 \<and> sr_ConversationID ` set (sc_Items cb) = {''g_b''}" by blast
qed

end
