(* ===== verification/User.thy ===== *)
theory User
  imports ConvNames ConvApi ConvUpdate
begin

text \<open>
  \<^verbatim>\<open>internal/user\<close>: the user who is logged in, with a syncer for the own row, and the online status of the users that are
  subscribed to, kept in a cache. The protocol structs of the requests are given as records or tuples.
\<close>

section \<open>State\<close>

record OnlineStatus =
  os_UserID :: string
  os_Status :: int
  os_PlatformIDs :: "int list"

definition Online :: int where "Online = 1"
definition Offline :: int where "Offline = 0"

datatype user_event =
    OnSelfInfoUpdated LocalUser
  | OnUserStatusChanged OnlineStatus

record ('t, 'n) user_state =
  un_db :: 't
  un_net :: 'n
  un_ch :: "chan option"
  un_status :: "(string, OnlineStatus) gomap"
  un_events :: "user_event list"

definition on_udb :: "('t \<Rightarrow> 'r \<times> 't) \<Rightarrow> ('t, 'n) user_state \<Rightarrow> 'r \<times> ('t, 'n) user_state" where
  "on_udb f s = (case f (un_db s) of (r, t) \<Rightarrow> (r, s\<lparr>un_db := t\<rparr>))"

definition on_unet :: "('n \<Rightarrow> 'r \<times> 'n) \<Rightarrow> ('t, 'n) user_state \<Rightarrow> 'r \<times> ('t, 'n) user_state" where
  "on_unet f s = (case f (un_net s) of (r, n) \<Rightarrow> (r, s\<lparr>un_net := n\<rparr>))"

definition on_uch :: "chan option action \<Rightarrow> ('t, 'n) user_state action" where
  "on_uch a s = (case a (un_ch s) of (r, c) \<Rightarrow> (r, s\<lparr>un_ch := c\<rparr>))"

definition tell_user :: "user_event \<Rightarrow> ('t, 'n) user_state \<Rightarrow> ('t, 'n) user_state" where
  "tell_user ev s = s\<lparr>un_events := un_events s @ [ev]\<rparr>"

text \<open>The fields of a \<^verbatim>\<open>UserInfoWithEx\<close> are wrapped: those left out are nil.\<close>

record UserInfoWithEx =
  uix_UserID :: string
  uix_Nickname :: "string option"
  uix_FaceURL :: "string option"
  uix_Ex :: "string option"
  uix_GlobalRecvMsgOpt :: "int option"

text \<open>
  The tables, the login user and the server. A change of the subscriptions sends the login user, the users and what to
  do: \<open>SubscriberUser\<close> and \<open>Unsubscribe\<close>, whose numbers the protocol package fixes.
\<close>

datatype subscription = SubscriberUser | Unsubscribe

record ('t, 'n) user_env =
  ux_users :: "(LocalUser, 't) gorm"
  ux_logs :: "(LocalChatLog, 't) gorm"
  ux_loginUserID :: string
  ux_users_io :: "('n, string list, UserInfo list) api_io"
  ux_update_io :: "('n, UserInfoWithEx, unit) api_io"
  ux_opt_io :: "('n, string \<times> int, unit) api_io"
  ux_parse_io :: "('n, unit, int) api_io"
  ux_subscribe_io :: "('n, string \<times> string list \<times> subscription, OnlineStatus list) api_io"
  ux_subscribed_io :: "('n, string, OnlineStatus list) api_io"
  ux_status_io :: "('n, string \<times> string list, OnlineStatus list) api_io"
  ux_range_users :: "(string, LocalUser) gomap \<Rightarrow> (string, LocalUser) gomap"
  ux_cmp_Equal :: "LocalUser \<Rightarrow> LocalUser \<Rightarrow> bool"

definition GetUsersInfoRouter :: string where "GetUsersInfoRouter = ''/user/get_users_info''"
definition UpdateSelfUserInfoExRouter :: string where "UpdateSelfUserInfoExRouter = ''/user/update_user_info_ex''"
definition SetGlobalRecvMessageOptRouter :: string where "SetGlobalRecvMessageOptRouter = ''/user/set_global_msg_recv_opt''"
definition ParseTokenRouter :: string where "ParseTokenRouter = ''/auth/parse_token''"
definition SubscribeUsersStatusRouter :: string where "SubscribeUsersStatusRouter = ''/user/subscribe_users_status''"
definition GetSubscribeUsersStatusRouter :: string where "GetSubscribeUsersStatusRouter = ''/user/get_subscribe_users_status''"
definition GetUserStatusRouter :: string where "GetUserStatusRouter = ''/user/get_users_status''"

section \<open>The own row\<close>

text \<open>The messages of the user get the new name and picture; an error of the channel is dropped.\<close>

definition rename_self :: "LocalUser \<Rightarrow> ('t, 'n) user_state \<Rightarrow> ('t, 'n) user_state" where
  "rename_self u s = snd (on_uch (TriggerCmdUpdateMessage
     \<lparr>umn_Action = ConvUpdate.UpdateMsgFaceUrlAndNickName, umn_Args = Some \<lparr>umi_SessionType = SingleChatType, umi_UserID = us_UserID u, umi_FaceURL = us_FaceURL u,
        umi_Nickname = us_Nickname u, umi_GroupID = []\<rparr>\<rparr>) s)"

definition user_notice :: "(('t, 'n) user_state, LocalUser) notice" where
  "user_notice state server loc s =
     (None, case state of
        Update \<Rightarrow>
          (let s1 = tell_user (OnSelfInfoUpdated server) s in
           if us_Nickname server \<noteq> us_Nickname loc \<or> us_FaceURL server \<noteq> us_FaceURL loc then rename_self server s1 else s1)
      | _ \<Rightarrow> s)"

definition userSyncer :: "('t, 'n) user_env \<Rightarrow> (('t, 'n) user_state, LocalUser, string) syncer" where
  "userSyncer E = the (new_syncer
     (Some (\<lambda>value. on_udb (InsertLoginUser (ux_users E) value)))
     (Some (\<lambda>value s. (Some (GoError (''not support delete user '' @ us_UserID value)), s)))
     (Some (\<lambda>server loc. on_udb (UpdateLoginUser (ux_users E) server)))
     (Some us_UserID)
     None
     (Some user_notice))"

section \<open>The server\<close>

definition GetServerUserInfo ::
  "('t, 'n) user_env \<Rightarrow> string list \<Rightarrow> ('t, 'n) user_state \<Rightarrow> (go_error + UserInfo list) \<times> ('t, 'n) user_state" where
  "GetServerUserInfo E userIDs = on_unet (CallApi [] (ux_users_io E) GetUsersInfoRouter userIDs)"

definition GetUsersInfoFromSvr ::
  "('t, 'n) user_env \<Rightarrow> string list \<Rightarrow> ('t, 'n) user_state \<Rightarrow> (go_error + LocalUser list) \<times> ('t, 'n) user_state" where
  "GetUsersInfoFromSvr E userIDs s =
     (case on_unet (CallApi [] (ux_users_io E) GetUsersInfoRouter userIDs) s of
        (Inl e, s1) \<Rightarrow> (Inl (Wrapped e ''GetUsersInfoFromSvr failed''), s1)
      | (Inr users, s1) \<Rightarrow> (Inr (Batch ServerUserToLocalUser users), s1))"

definition GetSingleUserFromSvr ::
  "('t, 'n) user_env \<Rightarrow> string \<Rightarrow> ('t, 'n) user_state \<Rightarrow> (go_error + LocalUser) \<times> ('t, 'n) user_state" where
  "GetSingleUserFromSvr E userID s =
     (case GetUsersInfoFromSvr E [userID] s of
        (Inl e, s1) \<Rightarrow> (Inl e, s1)
      | (Inr (u # _), s1) \<Rightarrow> (Inr u, s1)
      | (Inr [], s1) \<Rightarrow> (Inl (Wrapped ErrUserIDNotFound (''getSelfUserInfo failed, userID: '' @ userID @ '' not exist'')), s1))"

text \<open>\<^verbatim>\<open>CallApi\<close> gives a nil pointer with its error, and the field is read before the error is looked at: \<open>None\<close> is the panic.\<close>

definition ParseTokenFromSvr :: "('t, 'n) user_env \<Rightarrow> ('t, 'n) user_state \<Rightarrow> (int \<times> ('t, 'n) user_state) option" where
  "ParseTokenFromSvr E s =
     (case on_unet (CallApi 0 (ux_parse_io E) ParseTokenRouter ()) s of
        (Inl e, s1) \<Rightarrow> None | (Inr expires, s1) \<Rightarrow> Some (expires, s1))"

section \<open>Synchronising\<close>

definition zero_user :: LocalUser where
  "zero_user = \<lparr>us_UserID = [], us_Nickname = [], us_FaceURL = [], us_CreateTime = 0, us_AppMangerLevel = 0, us_Ex = [],
     us_AttachedInfo = [], us_GlobalRecvMsgOpt = 0\<rparr>"

text \<open>A failed read of the own row is only logged, and taken as no row.\<close>

definition SyncLoginUserInfo :: "('t, 'n) user_env \<Rightarrow> ('t, 'n) user_state action" where
  "SyncLoginUserInfo E s =
     get_then (GetSingleUserFromSvr E (ux_loginUserID E) s) (\<lambda>remoteUser s1.
       case on_udb (GetLoginUser (ux_users E) (ux_loginUserID E)) s1 of (r, s2) \<Rightarrow>
         Sync (ux_cmp_Equal E) zero_user (ux_range_users E) (userSyncer E) [remoteUser]
           (case r of Inl e \<Rightarrow> [] | Inr localUser \<Rightarrow> [localUser]) None [] s2)"

text \<open>
  The cache holds pointers: a change of a cached status is seen there whether it is stored again or not. A platform that
  comes online is added to what is cached; the cached status itself is left as it is.
\<close>

definition SyncUserStatus :: "string \<Rightarrow> int \<Rightarrow> int \<Rightarrow> ('t, 'n) user_state \<Rightarrow> ('t, 'n) user_state" where
  "SyncUserStatus fromUserID status platformID s =
     (case gget (un_status s) fromUserID of
        Some v \<Rightarrow>
          (if status = Online
           then let v' = v\<lparr>os_PlatformIDs := RemoveRepeatedElementsInList (os_PlatformIDs v @ [platformID])\<rparr>
                in tell_user (OnUserStatusChanged v') (s\<lparr>un_status := gput fromUserID v' (un_status s)\<rparr>)
           else let v' = v\<lparr>os_PlatformIDs := RemoveOneInList (os_PlatformIDs v) platformID\<rparr>
                in if os_PlatformIDs v' = []
                   then tell_user (OnUserStatusChanged (v'\<lparr>os_Status := Offline\<rparr>))
                          (s\<lparr>un_status := gdel fromUserID (un_status s)\<rparr>)
                   else tell_user (OnUserStatusChanged v') (s\<lparr>un_status := gput fromUserID v' (un_status s)\<rparr>))
      | None \<Rightarrow>
          (if status = Online
           then let v = \<lparr>os_UserID = fromUserID, os_Status = status, os_PlatformIDs = [platformID]\<rparr>
                in tell_user (OnUserStatusChanged v) (s\<lparr>un_status := gput fromUserID v (un_status s)\<rparr>)
           else s))"

section \<open>Notifications\<close>

definition UserInfoUpdatedNotification :: int where "UserInfoUpdatedNotification = 1303"
definition UserStatusChangeNotification :: int where "UserStatusChangeNotification = 1304"

record UserStatusChangeTips =
  usc_FromUserID :: string
  usc_Status :: int
  usc_PlatformID :: int

text \<open>A notification whose details cannot be decoded (\<open>None\<close>) is only logged.\<close>

definition userInfoUpdatedNotification :: "('t, 'n) user_env \<Rightarrow> string option \<Rightarrow> ('t, 'n) user_state \<Rightarrow> ('t, 'n) user_state" where
  "userInfoUpdatedNotification E tips s =
     (case tips of
        None \<Rightarrow> s
      | Some userID \<Rightarrow> if userID = ux_loginUserID E then snd (SyncLoginUserInfo E s) else s)"

definition userStatusChangeNotification ::
  "('t, 'n) user_env \<Rightarrow> UserStatusChangeTips option \<Rightarrow> ('t, 'n) user_state \<Rightarrow> ('t, 'n) user_state" where
  "userStatusChangeNotification E tips s =
     (case tips of
        None \<Rightarrow> s
      | Some t \<Rightarrow> if usc_FromUserID t = ux_loginUserID E then s
                  else SyncUserStatus (usc_FromUserID t) (usc_Status t) (usc_PlatformID t) s)"

definition user_DoNotification ::
  "('t, 'n) user_env \<Rightarrow> (string \<Rightarrow> string option) \<Rightarrow> (string \<Rightarrow> UserStatusChangeTips option) \<Rightarrow> int \<Rightarrow> string \<Rightarrow>
   ('t, 'n) user_state \<Rightarrow> ('t, 'n) user_state" where
  "user_DoNotification E info_tips status_tips contentType content s =
     (if contentType = UserInfoUpdatedNotification then userInfoUpdatedNotification E (info_tips content) s
      else if contentType = UserStatusChangeNotification then userStatusChangeNotification E (status_tips content) s
      else s)"

section \<open>The calls of the application\<close>

definition GetUsersInfo ::
  "('t, 'n) user_env \<Rightarrow> string list \<Rightarrow> ('t, 'n) user_state \<Rightarrow> (go_error + LocalUser list) \<times> ('t, 'n) user_state" where
  "GetUsersInfo = GetUsersInfoFromSvr"

definition GetSelfUserInfo ::
  "('q, 't, 'n) conv_env \<Rightarrow> ('t, 'n) conv_state \<Rightarrow> (go_error + LocalUser) \<times> ('t, 'n) conv_state" where
  "GetSelfUserInfo = getSelfUserInfo"

text \<open>After the server has taken a change, an error of the synchronisation is dropped.\<close>

definition updateSelfUserInfo :: "('t, 'n) user_env \<Rightarrow> UserInfoWithEx \<Rightarrow> ('t, 'n) user_state action" where
  "updateSelfUserInfo E userInfo s =
     get_then (on_unet (ApiPost (ux_update_io E) UpdateSelfUserInfoExRouter (userInfo\<lparr>uix_UserID := ux_loginUserID E\<rparr>)) s)
       (\<lambda>_ s1. (None, snd (SyncLoginUserInfo E s1)))"

definition SetSelfInfo :: "('t, 'n) user_env \<Rightarrow> UserInfoWithEx \<Rightarrow> ('t, 'n) user_state action" where
  "SetSelfInfo = updateSelfUserInfo"

definition SetGlobalRecvMessageOpt :: "('t, 'n) user_env \<Rightarrow> int \<Rightarrow> ('t, 'n) user_state action" where
  "SetGlobalRecvMessageOpt E opt s =
     get_then (on_unet (ApiPost (ux_opt_io E) SetGlobalRecvMessageOptRouter (ux_loginUserID E, i32 opt)) s)
       (\<lambda>_ s1. (None, snd (SyncLoginUserInfo E s1)))"

definition UpdateMsgSenderNickname :: "(LocalChatLog, 't) gorm \<Rightarrow> string \<Rightarrow> string \<Rightarrow> int \<Rightarrow> 't action" where
  "UpdateMsgSenderNickname G sendID nickname sType t =
     wrap_act ''UpdateMsgSenderNickname failed'' (stmt_err (gorm_updates G
       (\<lambda>r. cl_SendID r = sendID \<and> cl_SessionType r = sType \<and> cl_SenderNickname r \<noteq> nickname)
       (\<lambda>r. r\<lparr>cl_SenderNickname := nickname\<rparr>) t))"

definition UpdateMsgSenderFaceURL :: "(LocalChatLog, 't) gorm \<Rightarrow> string \<Rightarrow> string \<Rightarrow> int \<Rightarrow> 't action" where
  "UpdateMsgSenderFaceURL G sendID faceURL sType t =
     wrap_act ''UpdateMsgSenderFaceURL failed'' (stmt_err (gorm_updates G
       (\<lambda>r. cl_SendID r = sendID \<and> cl_SessionType r = sType \<and> cl_SenderFaceURL r \<noteq> faceURL)
       (\<lambda>r. r\<lparr>cl_SenderFaceURL := faceURL\<rparr>) t))"

definition UpdateMsgSenderInfo :: "('t, 'n) user_env \<Rightarrow> string \<Rightarrow> string \<Rightarrow> ('t, 'n) user_state action" where
  "UpdateMsgSenderInfo E nickname faceURL =
     and_then (if nickname \<noteq> [] then on_udb (UpdateMsgSenderNickname (ux_logs E) (ux_loginUserID E) nickname SingleChatType)
               else skip_act)
       (if faceURL \<noteq> [] then on_udb (UpdateMsgSenderFaceURL (ux_logs E) (ux_loginUserID E) faceURL SingleChatType)
        else skip_act)"

definition subscribeUsersStatus ::
  "('t, 'n) user_env \<Rightarrow> string list \<Rightarrow> ('t, 'n) user_state \<Rightarrow> (go_error + OnlineStatus list) \<times> ('t, 'n) user_state" where
  "subscribeUsersStatus E userIDs =
     on_unet (CallApi [] (ux_subscribe_io E) SubscribeUsersStatusRouter (ux_loginUserID E, userIDs, SubscriberUser))"

text \<open>The new statuses take the place of all that are cached.\<close>

definition store_statuses :: "OnlineStatus list \<Rightarrow> (string, OnlineStatus) gomap" where
  "store_statuses userStatus = fold (\<lambda>v. gput (os_UserID v) v) userStatus []"

definition SubscribeUsersStatus ::
  "('t, 'n) user_env \<Rightarrow> string list \<Rightarrow> ('t, 'n) user_state \<Rightarrow> (go_error + OnlineStatus list) \<times> ('t, 'n) user_state" where
  "SubscribeUsersStatus E userIDs s =
     (case subscribeUsersStatus E userIDs s of
        (Inl e, s1) \<Rightarrow> (Inl e, s1)
      | (Inr userStatus, s1) \<Rightarrow> (Inr userStatus, s1\<lparr>un_status := store_statuses userStatus\<rparr>))"

definition unsubscribeUsersStatus :: "('t, 'n) user_env \<Rightarrow> string list \<Rightarrow> ('t, 'n) user_state action" where
  "unsubscribeUsersStatus E userIDs s =
     get_then (on_unet (CallApi [] (ux_subscribe_io E) SubscribeUsersStatusRouter (ux_loginUserID E, userIDs, Unsubscribe)) s)
       (\<lambda>_ s1. (None, s1))"

text \<open>The whole cache is emptied, also of the users whose subscription stays.\<close>

definition UnsubscribeUsersStatus :: "('t, 'n) user_env \<Rightarrow> string list \<Rightarrow> ('t, 'n) user_state action" where
  "UnsubscribeUsersStatus E userIDs s = unsubscribeUsersStatus E userIDs (s\<lparr>un_status := []\<rparr>)"

definition getSubscribeUsersStatus ::
  "('t, 'n) user_env \<Rightarrow> ('t, 'n) user_state \<Rightarrow> (go_error + OnlineStatus list) \<times> ('t, 'n) user_state" where
  "getSubscribeUsersStatus E = on_unet (CallApi [] (ux_subscribed_io E) GetSubscribeUsersStatusRouter (ux_loginUserID E))"

definition GetSubscribeUsersStatus ::
  "('t, 'n) user_env \<Rightarrow> ('t, 'n) user_state \<Rightarrow> (go_error + OnlineStatus list) \<times> ('t, 'n) user_state" where
  "GetSubscribeUsersStatus = getSubscribeUsersStatus"

definition getUserStatus ::
  "('t, 'n) user_env \<Rightarrow> string list \<Rightarrow> ('t, 'n) user_state \<Rightarrow> (go_error + OnlineStatus list) \<times> ('t, 'n) user_state" where
  "getUserStatus E userIDs = on_unet (CallApi [] (ux_status_io E) GetUserStatusRouter (ux_loginUserID E, userIDs))"

definition GetUserStatus ::
  "('t, 'n) user_env \<Rightarrow> string list \<Rightarrow> ('t, 'n) user_state \<Rightarrow> (go_error + OnlineStatus list) \<times> ('t, 'n) user_state" where
  "GetUserStatus = getUserStatus"

end
