(* ===== verification/Full.thy ===== *)
theory Full
  imports ConvNames ConvUpdate UserGroupDb Group FriendSdk
begin

text \<open>
  \<^verbatim>\<open>internal/full\<close>: what is known of some users in one answer, from the tables, the server and, without the server, from the
  strangers stored before. A conversation with a changed name is renamed on the way.
\<close>

record FullUserInfoWithCache = FullUserInfo +
  fu_GroupMemberInfo :: "LocalGroupMember option"

text \<open>The further tables, and which errors say that a row is missing.\<close>

record 't full_env =
  fl_blacks :: "(LocalBlack, 't) gorm"
  fl_strangers :: "(LocalStranger, 't) gorm"
  fl_not_found :: "go_error \<Rightarrow> bool"

text \<open>\<^verbatim>\<open>Find\<close> into one struct: a missing row is no error and leaves the zero value, of several the first is taken.\<close>

definition GetConversationByUserID ::
  "(LocalConversation, 't) gorm \<Rightarrow> string \<Rightarrow> 't \<Rightarrow> (go_error + LocalConversation) \<times> 't" where
  "GetConversationByUserID G userID t =
     (case wrap_res ''GetConversationByUserID error'' (gorm_find G (\<lambda>r. cv_UserID r = userID) t) of
        (Inl e, t1) \<Rightarrow> (Inl e, t1)
      | (Inr [], t1) \<Rightarrow> (Inr zero_conversation, t1)
      | (Inr (c # _), t1) \<Rightarrow> (Inr c, t1))"

definition public_user :: "UserInfo \<Rightarrow> PublicUser" where
  "public_user info = \<lparr>pu_UserID = usi_UserID info, pu_Nickname = usi_Nickname info, pu_FaceURL = usi_FaceURL info,
     pu_Ex = usi_Ex info, pu_CreateTime = usi_CreateTime info\<rparr>"

definition public_users :: "UserInfo list \<Rightarrow> (string, PublicUser) gomap" where
  "public_users users = fold (\<lambda>info. gput (usi_UserID info) (public_user info)) users []"

text \<open>Two commands for the conversation goroutine; their errors are dropped.\<close>

definition rename_single ::
  "('q, 't, 'n) conv_env \<Rightarrow> (string, LocalFriend) gomap \<Rightarrow> string \<Rightarrow> PublicUser \<Rightarrow> ('t, 'n) conv_state \<Rightarrow> ('t, 'n) conv_state" where
  "rename_single E friendMap userID info s =
     (case on_db (GetConversationByUserID (cx_conv E) userID) s of
        (Inl e, s1) \<Rightarrow> s1
      | (Inr c, s1) \<Rightarrow>
          (if gget friendMap userID \<noteq> None then s1
           else if cv_ShowName c \<noteq> pu_Nickname info \<or> cv_FaceURL c \<noteq> pu_FaceURL info
           then snd (on_ch (TriggerCmdUpdateMessage
                  \<lparr>umn_Action = ConvUpdate.UpdateMsgFaceUrlAndNickName,
                   umn_Args = Some \<lparr>umi_SessionType = cv_ConversationType c, umi_UserID = userID, umi_FaceURL = pu_FaceURL info,
                     umi_Nickname = pu_Nickname info, umi_GroupID = []\<rparr>\<rparr>)
                (snd (on_ch (TriggerCmdUpdateConversation
                  \<lparr>ucn_ConID = [], ucn_Action = ConvUpdate.UpdateConFaceUrlAndNickName,
                   ucn_Args = ArgSource \<lparr>sst_SourceID = userID, sst_SessionType = cv_ConversationType c,
                     sst_FaceURL = pu_FaceURL info, sst_Nickname = pu_Nickname info\<rparr>\<rparr>) s1)))
           else s1))"

text \<open>The users are answered in the order asked for; those the server does not know are left out.\<close>

fun full_users ::
  "('q, 't, 'n) conv_env \<Rightarrow> (string, LocalFriend) gomap \<Rightarrow> (string, LocalBlack) gomap \<Rightarrow> (string, PublicUser) gomap \<Rightarrow>
   string list \<Rightarrow> ('t, 'n) conv_state \<Rightarrow> FullUserInfo list \<times> ('t, 'n) conv_state" where
  "full_users E friendMap blackMap userMap [] s = ([], s)"
| "full_users E friendMap blackMap userMap (userID # rest) s =
     (case gget userMap userID of
        None \<Rightarrow> full_users E friendMap blackMap userMap rest s
      | Some info \<Rightarrow>
          map_prod ((#) \<lparr>fu_PublicInfo = Some info, fu_FriendInfo = gget friendMap userID, fu_BlackInfo = gget blackMap userID\<rparr>) id
            (full_users E friendMap blackMap userMap rest (rename_single E friendMap userID info s)))"

definition full_GetUsersInfo ::
  "('q, 't, 'n) conv_env \<Rightarrow> 't full_env \<Rightarrow> string list \<Rightarrow> ('t, 'n) conv_state \<Rightarrow> (go_error + FullUserInfo list) \<times> ('t, 'n) conv_state" where
  "full_GetUsersInfo E L userIDs s =
     (case on_db (GetFriendInfoList (cx_friends E) userIDs) s of
        (Inl e, s1) \<Rightarrow> (Inl e, s1)
      | (Inr friendList, s1) \<Rightarrow>
          (case on_db (GetBlackInfoList (fl_blacks L) userIDs) s1 of
             (Inl e, s2) \<Rightarrow> (Inl e, s2)
           | (Inr blackList, s2) \<Rightarrow>
               (case on_net (cx_GetServerUserInfo E userIDs) s2 of
                  (Inl e, s3) \<Rightarrow> (Inl e, s3)
                | (Inr users, s3) \<Rightarrow>
                    map_prod Inr id (full_users E (slice_to_map fr_FriendUserID friendList) (slice_to_map bl_BlockUserID blackList)
                      (public_users users) userIDs s3))))"

section \<open>With the strangers as a cache\<close>

text \<open>What is kept of a user the server has told of: \<^verbatim>\<open>AttachedInfo\<close> is filled from \<^verbatim>\<open>Ex\<close>.\<close>

definition stranger_of :: "UserInfo \<Rightarrow> LocalStranger" where
  "stranger_of val = \<lparr>st_UserID = usi_UserID val, st_Nickname = usi_Nickname val, st_FaceURL = usi_FaceURL val,
     st_CreateTime = usi_CreateTime val, st_AppMangerLevel = usi_AppMangerLevel val, st_Ex = usi_Ex val,
     st_AttachedInfo = usi_Ex val, st_GlobalRecvMsgOpt = usi_GlobalRecvMsgOpt val\<rparr>"

definition of_stranger :: "LocalStranger \<Rightarrow> UserInfo" where
  "of_stranger val = \<lparr>usi_UserID = st_UserID val, usi_Nickname = st_Nickname val, usi_FaceURL = st_FaceURL val,
     usi_Ex = st_Ex val, usi_CreateTime = st_CreateTime val, usi_AppMangerLevel = st_AppMangerLevel val,
     usi_GlobalRecvMsgOpt = st_GlobalRecvMsgOpt val\<rparr>"

definition users_or_strangers ::
  "('q, 't, 'n) conv_env \<Rightarrow> 't full_env \<Rightarrow> string list \<Rightarrow> ('t, 'n) conv_state \<Rightarrow> (go_error + UserInfo list) \<times> ('t, 'n) conv_state" where
  "users_or_strangers E L userIDs s =
     (case on_net (cx_GetServerUserInfo E userIDs) s of
        (Inr users, s1) \<Rightarrow>
          (case on_db (SetStrangerInfo (fl_strangers L) (fl_not_found L) (map stranger_of users)) s1 of
             (Some e, s2) \<Rightarrow> (Inl e, s2) | (None, s2) \<Rightarrow> (Inr users, s2))
      | (Inl _, s1) \<Rightarrow>
          (case on_db (GetStrangerInfo (fl_strangers L) userIDs) s1 of
             (Inl e, s2) \<Rightarrow> (Inl e, s2) | (Inr strangerList, s2) \<Rightarrow> (Inr (map of_stranger strangerList), s2)))"

definition with_member :: "(string, LocalGroupMember) gomap \<Rightarrow> FullUserInfo \<Rightarrow> FullUserInfoWithCache" where
  "with_member members u = FullUserInfo.extend u \<lparr>fu_GroupMemberInfo = (case fu_PublicInfo u of None \<Rightarrow> None | Some info \<Rightarrow> gget members (pu_UserID info))\<rparr>"

definition members_asked ::
  "('q, 't, 'n) conv_env \<Rightarrow> string \<Rightarrow> string list \<Rightarrow> ('t, 'n) conv_state \<Rightarrow>
   (go_error + LocalGroupMember list) \<times> ('t, 'n) conv_state" where
  "members_asked E groupID userIDs s =
     (if groupID = [] then (Inr [], s) else on_db (GetGroupSomeMemberInfo (cx_members E) groupID userIDs) s)"

definition full_GetUsersInfoWithCache ::
  "('q, 't, 'n) conv_env \<Rightarrow> 't full_env \<Rightarrow> string list \<Rightarrow> string \<Rightarrow> ('t, 'n) conv_state \<Rightarrow>
   (go_error + FullUserInfoWithCache list) \<times> ('t, 'n) conv_state" where
  "full_GetUsersInfoWithCache E L userIDs groupID s =
     (case on_db (GetFriendInfoList (cx_friends E) userIDs) s of
        (Inl e, s1) \<Rightarrow> (Inl e, s1)
      | (Inr friendList, s1) \<Rightarrow>
          (case on_db (GetBlackInfoList (fl_blacks L) userIDs) s1 of
             (Inl e, s2) \<Rightarrow> (Inl e, s2)
           | (Inr blackList, s2) \<Rightarrow>
               (case users_or_strangers E L userIDs s2 of
                  (Inl e, s3) \<Rightarrow> (Inl e, s3)
                | (Inr users, s3) \<Rightarrow>
                    (case members_asked E groupID userIDs s3 of
                       (Inl e, s4) \<Rightarrow> (Inl e, s4)
                     | (Inr groupMemberList, s4) \<Rightarrow>
                         map_prod (Inr \<circ> map (with_member (slice_to_map gm_UserID groupMemberList))) id
                           (full_users E (slice_to_map fr_FriendUserID friendList) (slice_to_map bl_BlockUserID blackList)
                              (public_users users) userIDs s4)))))"

definition GetReadDiffusionGroupIDList :: "('t, 'n) group_env \<Rightarrow> (('t, 'n) group_state, string list) upload_op" where
  "GetReadDiffusionGroupIDList = GetJoinedDiffusionGroupIDListFromSvr"

end
