(* ===== verification/UserProps.thy ===== *)
theory UserProps
  imports User TableSync Full
begin

text \<open>What the user component keeps: the own row, and the platforms on which the subscribed users are online.\<close>

section \<open>The own row\<close>

lemma user_syncer_ops:
  "sy_insert (userSyncer E) x = on_udb (InsertLoginUser (ux_users E) x)"
  "sy_update (userSyncer E) x y = on_udb (UpdateLoginUser (ux_users E) x)"
  "sy_uuid (userSyncer E) = us_UserID" "sy_notice (userSyncer E) = Some user_notice"
  "sy_eq cmp (userSyncer E) = cmp"
  by (simp_all add: userSyncer_def new_syncer_def sy_eq_def fun_eq_iff)

lemma user_onNotice: "onNotice (userSyncer E) st x y None s = (None, snd (user_notice st x y s))"
  by (simp add: onNotice_def user_syncer_ops and_then_def skip_act_def user_notice_def)

lemma user_events [simp]: "un_db (rename_self u s) = un_db s" "un_db (tell_user ev s) = un_db s"
  by (simp_all add: rename_self_def on_uch_def tell_user_def split: prod.split)

lemma insert_user:
  assumes "gorm_table G rows us_UserID" and "InsertLoginUser G x t = (r, t')"
  shows "if r = None then rows t' = rows t @ [x] \<and> (distinct (map us_UserID (rows t)) \<longrightarrow> distinct (map us_UserID (rows t')))
         else rows t' = rows t"
proof -
  from assms(2) obtain e where "gorm_create G [x] t = (e, t')" "r = None \<longleftrightarrow> e = None"
    by (auto simp: InsertLoginUser_def wrap_act_def wrap_err_def split: prod.splits option.splits)
  with gorm_table.create_ok [OF assms(1), of "[x]" t t'] gorm_table.create_err [OF assms(1), of "[x]" t _ t'] show ?thesis
    by (cases e) auto
qed

lemma update_user:
  assumes "gorm_table G rows us_UserID" and "rows_by_key us_UserID (rows t) (us_UserID x) = Some y" and "us_UserID x \<noteq> []"
    and "UpdateLoginUser G x t = (r, t')"
  shows "rows_by_key us_UserID (rows t') =
     (if r = None then (rows_by_key us_UserID (rows t))(us_UserID x \<mapsto> x) else rows_by_key us_UserID (rows t))"
proof -
  obtain e n where u: "gorm_updates G (\<lambda>q. us_UserID q = us_UserID x) (\<lambda>_. x) t = ((e, n), t')" and "r = None \<longleftrightarrow> n \<noteq> 0 \<and> e = None"
    using update_result_None [of _ _ r t'] assms(3,4) unfolding UpdateLoginUser_def gorm_updates_pk_def by (simp, metis)
  with gorm_table.updates_by_key [OF assms(1), of t "us_UserID x" y "\<lambda>_. x" e n t' r] assms(2) show ?thesis by simp
qed

lemma take_user:
  assumes "gorm_table G rows us_UserID" and "distinct (map us_UserID (rows t))" and "GetLoginUser G u t = (r, t')"
  shows "rows t' = rows t" and "r = Inr x \<Longrightarrow> rows_by_key us_UserID (rows t) u = Some x"
proof -
  from assms(3) obtain r0 where take: "gorm_take G (\<lambda>q. us_UserID q = u) t = (r0, t')" "r = Inr x \<Longrightarrow> r0 = Inr x"
    by (auto simp: GetLoginUser_def wrap_res_def split: prod.splits sum.splits)
  then show "rows t' = rows t" using gorm_table.take_rows [OF assms(1)] by blast
  assume "r = Inr x"
  with take gorm_table.take_in [OF assms(1)] have "x \<in> set (rows t)" "us_UserID x = u" by blast+
  with find_unique [OF assms(2), of x] show "rows_by_key us_UserID (rows t) u = Some x" by (simp add: rows_by_key_def)
qed

text \<open>
  A synchronisation of the own row succeeds with the row of the server stored, or fails with the rows as they were. The
  application is told of a change exactly when the row was there and is another now, and then the name and picture are
  passed on. A failed read of the own row makes the synchronisation fail unless there is no row.
\<close>

lemma login_user_synced:
  fixes E :: "('t, 'n) user_env"
  assumes table: "gorm_table (ux_users E) rows us_UserID" and distinct: "distinct (map us_UserID (rows (un_db s)))"
    and equal: "ux_cmp_Equal E = (=)" and order: "any_order (ux_range_users E)"
    and svr: "GetSingleUserFromSvr E (ux_loginUserID E) s = (Inr remote, s1)"
    and id: "us_UserID remote = ux_loginUserID E" "ux_loginUserID E \<noteq> []"
  defines "old \<equiv> rows_by_key us_UserID (rows (un_db s))"
  shows "\<exists>r t s'. SyncLoginUserInfo E s = (r, s') \<and>
    s' = (case old (ux_loginUserID E) of
            Some x \<Rightarrow> if r = None \<and> x \<noteq> remote then snd (user_notice Update remote x (s1\<lparr>un_db := t\<rparr>)) else s1\<lparr>un_db := t\<rparr>
          | None \<Rightarrow> s1\<lparr>un_db := t\<rparr>) \<and>
    rows_by_key us_UserID (rows (un_db s')) = (if r = None then old(ux_loginUserID E \<mapsto> remote) else old)"
proof -
  let ?u = "ux_loginUserID E"
  have db1: "un_db s1 = un_db s"
    using svr by (auto simp: GetSingleUserFromSvr_def GetUsersInfoFromSvr_def on_unet_def split: prod.splits sum.splits list.splits)
  obtain r0 t where get: "GetLoginUser (ux_users E) ?u (un_db s1) = (r0, t)" by fastforce
  have rows: "rows t = rows (un_db s)" and found: "r0 = Inr x \<Longrightarrow> old ?u = Some x" for x
    using take_user [OF table _ get] distinct by (auto simp: db1 old_def)
  let ?s2 = "s1\<lparr>un_db := t\<rparr>"
  have run: "SyncLoginUserInfo E s = Sync (=) zero_user (ux_range_users E) (userSyncer E) [remote]
      (case r0 of Inl e \<Rightarrow> [] | Inr localUser \<Rightarrow> [localUser]) None [] ?s2"
    by (simp add: SyncLoginUserInfo_def get_then_def svr on_udb_def get equal)
  have none: "ux_range_users E [] = []" using order unfolding any_order_def by (metis mset_zero_iff)
  show ?thesis
  proof (cases r0)
    case (Inl e)
    obtain r t2 where ins: "InsertLoginUser (ux_users E) remote t = (r, t2)" by fastforce
    have synced: "SyncLoginUserInfo E s = (r, s1\<lparr>un_db := t2\<rparr>)"
      by (cases r) (auto simp: run Inl Sync_def none slice_to_map_def user_syncer_ops on_udb_def ins and_then_def user_onNotice user_notice_def)
    have added: "old ?u = None \<and> rows_by_key us_UserID (rows t2) = old(?u \<mapsto> remote)" if "r = None"
    proof -
      have "rows t2 = rows (un_db s) @ [remote] \<and> (distinct (map us_UserID (rows (un_db s))) \<longrightarrow> distinct (map us_UserID (rows t2)))"
        using insert_user [OF table ins] that unfolding rows by argo
      then have new: "rows t2 = rows (un_db s) @ [remote]" and "distinct (map us_UserID (rows (un_db s) @ [remote]))"
        using distinct by metis+
      then have "old ?u = None" using id by (force simp: old_def rows_by_key_def find_None_iff)
      with new rows_by_key_insert [of us_UserID "rows (un_db s)" remote] id show ?thesis by (simp add: old_def)
    qed
    moreover have "rows t2 = rows (un_db s)" if "r \<noteq> None"
      using insert_user [OF table ins] that rows by simp
    ultimately show ?thesis
      using synced by (intro exI [of _ r] exI [of _ t2] exI [of _ "s1\<lparr>un_db := t2\<rparr>"]) (auto simp: old_def split: option.split)
  next
    case (Inr x)
    note x = found [OF Inr]
    have key: "us_UserID x = ?u" using x by (auto simp: old_def rows_by_key_def dest: find_SomeD)
    show ?thesis
    proof (cases "x = remote")
      case True
      have "SyncLoginUserInfo E s = (None, ?s2)"
        by (simp add: run Inr True Sync_def slice_to_map_def user_syncer_ops user_onNotice user_notice_def none)
      with x True show ?thesis
        by (intro exI [of _ None] exI [of _ t] exI [of _ ?s2]) (auto simp: rows old_def [symmetric] fun_upd_idem)
    next
      case False
      obtain r t2 where upd: "UpdateLoginUser (ux_users E) remote t = (r, t2)" by fastforce
      let ?s' = "if r = None then snd (user_notice Update remote x (s1\<lparr>un_db := t2\<rparr>)) else s1\<lparr>un_db := t2\<rparr>"
      have synced: "SyncLoginUserInfo E s = (r, ?s')"
        using False
        by (cases r) (simp_all add: run Inr Sync_def slice_to_map_def user_syncer_ops user_onNotice on_udb_def upd and_then_def none key id)
      have "un_db ?s' = t2" by (simp add: user_notice_def Let_def)
      moreover have "rows_by_key us_UserID (rows t2) = (if r = None then old(?u \<mapsto> remote) else old)"
        using update_user [OF table _ _ upd, of x] x id rows by (simp add: old_def)
      ultimately show ?thesis
        using synced x False by (intro exI [of _ r] exI [of _ t2] exI [of _ ?s']) auto
    qed
  qed
qed

section \<open>Who is online\<close>

text \<open>
  What the cache shows of a user: the platforms, and the status it is cached with, if it is. And what a notification should make of
  that: \<open>platform_step\<close> for the platforms; the status is that of the cached entry, and a new entry is online.
\<close>

definition shown :: "('t, 'n) user_state \<Rightarrow> string \<Rightarrow> int set \<times> int option" where
  "shown s u = (case gget (un_status s) u of None \<Rightarrow> ({}, None) | Some v \<Rightarrow> (set (os_PlatformIDs v), Some (os_Status v)))"

definition platform_step :: "string \<Rightarrow> string \<times> int \<times> int \<Rightarrow> int set \<Rightarrow> int set" where
  "platform_step u = (\<lambda>(u', status, p) P. if u' \<noteq> u then P else if status = Online then insert p P else P - {p})"

definition shown_step :: "string \<Rightarrow> string \<times> int \<times> int \<Rightarrow> int set \<times> int option \<Rightarrow> int set \<times> int option" where
  "shown_step u = (\<lambda>(u', status, p) (P, c).
     let P' = platform_step u (u', status, p) P
     in (P', if u' \<noteq> u then c else if P' = {} then None else case c of None \<Rightarrow> Some Online | Some st \<Rightarrow> Some st))"

definition status_run :: "(string \<times> int \<times> int) list \<Rightarrow> ('t, 'n) user_state \<Rightarrow> ('t, 'n) user_state" where
  "status_run = fold (\<lambda>(u, status, p). SyncUserStatus u status p)"

fun last_status :: "string \<Rightarrow> user_event list \<Rightarrow> OnlineStatus option" where
  "last_status u [] = None"
| "last_status u (OnUserStatusChanged v # rest) =
     (case last_status u rest of Some w \<Rightarrow> Some w | None \<Rightarrow> if os_UserID v = u then Some v else None)"
| "last_status u (OnSelfInfoUpdated x # rest) = last_status u rest"

lemma last_status_snoc [simp]:
  "last_status u (es @ [OnUserStatusChanged v]) = (if os_UserID v = u then Some v else last_status u es)"
  by (induction u es rule: last_status.induct) (auto split: option.splits)

text \<open>
  A user is cached under its own identifier, with each platform once. \<open>told\<close>: the last report of a user agrees with what is shown;
  a user who is not cached any more is reported offline.
\<close>

definition statuses_ok :: "('t, 'n) user_state \<Rightarrow> bool" where
  "statuses_ok s \<longleftrightarrow> gomap_ok (un_status s) \<and>
     (\<forall>u v. gget (un_status s) u = Some v \<longrightarrow> os_UserID v = u \<and> distinct (os_PlatformIDs v))"

definition agrees :: "OnlineStatus \<Rightarrow> int set \<times> int option \<Rightarrow> bool" where
  "agrees v = (\<lambda>(P, c). set (os_PlatformIDs v) = P \<and> os_Status v = (case c of None \<Rightarrow> Offline | Some st \<Rightarrow> st))"

definition status_told :: "user_event list \<Rightarrow> int set \<times> int option \<Rightarrow> string \<Rightarrow> ('t, 'n) user_state \<Rightarrow> bool" where
  "status_told es P u s \<longleftrightarrow> (\<exists>new. un_events s = es @ new \<and>
     (case last_status u new of None \<Rightarrow> shown s u = P | Some v \<Rightarrow> agrees v (shown s u)))"

lemma status_told_report:
  assumes "status_told es P u s" and "os_UserID v = u'" and "u' = u \<Longrightarrow> agrees v (shown s' u)"
    and "u' \<noteq> u \<Longrightarrow> shown s' u = shown s u" and "un_events s' = un_events s @ [OnUserStatusChanged v]"
  shows "status_told es P u s'"
proof -
  from assms(1) obtain new where "un_events s = es @ new"
      "case last_status u new of None \<Rightarrow> shown s u = P | Some v \<Rightarrow> agrees v (shown s u)"
    unfolding status_told_def by blast
  with assms(2-) show ?thesis
    unfolding status_told_def by (intro exI [of _ "new @ [OnUserStatusChanged v]"]) (auto split: option.splits)
qed

lemma RemoveOneInList_distinct: "distinct xs \<Longrightarrow> set (RemoveOneInList xs p) = set xs - {p} \<and> distinct (RemoveOneInList xs p)"
  by (induction xs p rule: RemoveOneInList.induct) auto

text \<open>A status that is stored and reported.\<close>

definition stored_status :: "OnlineStatus \<Rightarrow> ('t, 'n) user_state \<Rightarrow> ('t, 'n) user_state" where
  "stored_status v s = tell_user (OnUserStatusChanged v) (s\<lparr>un_status := gput (os_UserID v) v (un_status s)\<rparr>)"

lemma shown_stored [simp]:
  "shown (stored_status v s) u = (if os_UserID v = u then (set (os_PlatformIDs v), Some (os_Status v)) else shown s u)"
  by (simp add: shown_def stored_status_def tell_user_def gget_gput)

lemma stored_status_events: "un_events (stored_status v s) = un_events s @ [OnUserStatusChanged v]"
  by (simp add: stored_status_def tell_user_def)

lemma stored_status_told: "status_told es P u s \<Longrightarrow> status_told es P u (stored_status v s)"
  by (rule status_told_report [of _ _ _ s v "os_UserID v"]) (simp_all add: agrees_def stored_status_events)

lemma stored_status_ok: "statuses_ok s \<Longrightarrow> distinct (os_PlatformIDs v) \<Longrightarrow> statuses_ok (stored_status v s)"
  by (auto simp: statuses_ok_def stored_status_def tell_user_def gget_gput)

text \<open>One notification: what it does to the platforms, and that it reports what it does.\<close>

lemma SyncUserStatus_step:
  fixes u' :: string and status p :: int
  assumes ok: "statuses_ok s"
  defines "s' \<equiv> SyncUserStatus u' status p s"
  shows "statuses_ok s' \<and> shown s' u = shown_step u (u', status, p) (shown s u) \<and> (status_told es P u s \<longrightarrow> status_told es P u s')"
proof -
  have old: "os_UserID v = u'" "distinct (os_PlatformIDs v)" "shown s u' = (set (os_PlatformIDs v), Some (os_Status v))"
    if "gget (un_status s) u' = Some v" for v
    using that ok by (auto simp: statuses_ok_def shown_def)
  have other: "shown_step u (u', status, p) x = x" if "u' \<noteq> u" for x
    using that by (cases x) (simp add: shown_step_def platform_step_def)
  have stored: ?thesis if "s' = stored_status v s" "os_UserID v = u'" "distinct (os_PlatformIDs v)"
      "(set (os_PlatformIDs v), Some (os_Status v)) = shown_step u' (u', status, p) (shown s u')" for v
    using that stored_status_ok [OF ok, of v] stored_status_told [of es P u s v] other by auto
  consider (on) v where "gget (un_status s) u' = Some v" "status = Online"
    | (off) v where "gget (un_status s) u' = Some v" "status \<noteq> Online" "RemoveOneInList (os_PlatformIDs v) p \<noteq> []"
    | (gone) v where "gget (un_status s) u' = Some v" "status \<noteq> Online" "RemoveOneInList (os_PlatformIDs v) p = []"
    | (first) "gget (un_status s) u' = None" "status = Online"
    | (unknown) "gget (un_status s) u' = None" "status \<noteq> Online"
    by (cases "gget (un_status s) u'") auto
  then show ?thesis
  proof cases
    case on
    note dedup = RemoveRepeatedElementsInList_distinct [of "os_PlatformIDs v @ [p]"]
    let ?v = "v\<lparr>os_PlatformIDs := RemoveRepeatedElementsInList (os_PlatformIDs v @ [p])\<rparr>"
    show ?thesis
      using on old [OF on(1)] dedup
      by (intro stored [of ?v])
        (simp_all add: s'_def SyncUserStatus_def stored_status_def shown_step_def platform_step_def Let_def)
  next
    case off
    let ?v = "v\<lparr>os_PlatformIDs := RemoveOneInList (os_PlatformIDs v) p\<rparr>"
    have rem: "set (RemoveOneInList (os_PlatformIDs v) p) = set (os_PlatformIDs v) - {p}" "distinct (RemoveOneInList (os_PlatformIDs v) p)"
      using RemoveOneInList_distinct [OF old(2) [OF off(1)]] by simp_all
    then have "set (os_PlatformIDs v) - {p} \<noteq> {}" using off(3) by (metis set_empty)
    then show ?thesis
      using off old [OF off(1)] rem
      by (intro stored [of ?v])
        (simp_all add: s'_def SyncUserStatus_def stored_status_def shown_step_def platform_step_def Let_def)
  next
    case gone
    let ?v = "v\<lparr>os_PlatformIDs := [], os_Status := Offline\<rparr>"
    have s': "s' = tell_user (OnUserStatusChanged ?v) (s\<lparr>un_status := gdel u' (un_status s)\<rparr>)"
      using gone by (simp add: s'_def SyncUserStatus_def)
    then have after: "shown s' u = (if u = u' then ({}, None) else shown s u)"
      by (simp add: shown_def tell_user_def gget_gdel)
    have "set (os_PlatformIDs v) - {p} = {}"
      using RemoveOneInList_distinct [OF old(2) [OF gone(1)], of p] gone(3) by simp
    then have "shown s' u = shown_step u (u', status, p) (shown s u)"
      using after gone(2) old(3) [OF gone(1)] other by (auto simp: shown_step_def platform_step_def)
    moreover have "statuses_ok s'" using ok by (auto simp: s' statuses_ok_def tell_user_def gget_gdel)
    moreover have "status_told es P u s'" if "status_told es P u s"
      by (rule status_told_report [OF that, of ?v u']) (use old(1) [OF gone(1)] after in \<open>auto simp: s' tell_user_def agrees_def\<close>)
    ultimately show ?thesis by blast
  next
    case first
    then have "shown s u' = ({}, None)" by (simp add: shown_def)
    with first show ?thesis
      by (intro stored [of "\<lparr>os_UserID = u', os_Status = status, os_PlatformIDs = [p]\<rparr>"])
        (simp_all add: s'_def SyncUserStatus_def stored_status_def shown_step_def platform_step_def Let_def)
  next
    case unknown
    then have "s' = s" "shown s u' = ({}, None)" by (simp_all add: s'_def SyncUserStatus_def shown_def)
    with unknown ok other show ?thesis by (cases "u' = u") (auto simp: shown_step_def platform_step_def)
  qed
qed

lemma status_run_spec:
  assumes "statuses_ok s" and "status_told es P u s"
  shows "statuses_ok (status_run ns s) \<and> shown (status_run ns s) u = fold (shown_step u) ns (shown s u) \<and>
    status_told es P u (status_run ns s)"
  using assms
proof (induction ns arbitrary: s)
  case Nil
  then show ?case by (simp add: status_run_def)
next
  case (Cons n ns)
  obtain u' status p where n: "n = (u', status, p)" by (cases n)
  from Cons.IH [of "SyncUserStatus u' status p s"] SyncUserStatus_step [OF Cons.prems(1), of u' status p u es P] Cons.prems(2)
  show ?case by (simp add: status_run_def n)
qed

lemma shown_run_platforms: "fst (fold (shown_step u) ns (P, c)) = fold (platform_step u) ns P"
  by (induction ns arbitrary: P c) (auto simp: shown_step_def Let_def split: prod.splits)

text \<open>The status is right where the user was not cached, or cached as online on some platform, to begin with.\<close>

definition right_status :: "int set \<times> int option \<Rightarrow> bool" where
  "right_status = (\<lambda>(P, c). c = (if P = {} then None else Some Online))"

lemma right_status_step: "right_status x \<Longrightarrow> right_status (shown_step u n x)"
  by (cases n; cases x) (auto simp: right_status_def shown_step_def platform_step_def Let_def)

lemma right_status_run: "right_status x \<Longrightarrow> right_status (fold (shown_step u) ns x)"
  by (induction ns arbitrary: x) (simp_all add: right_status_step)

text \<open>Whatever the server answers to a subscription, with each platform of a user once, is such a cache.\<close>

lemma store_statuses_keyed:
  "gget (fold (\<lambda>v. gput (os_UserID v) v) sts m) u = Some v \<Longrightarrow> gget m u = Some v \<or> v \<in> set sts \<and> os_UserID v = u"
proof (induction sts arbitrary: m)
  case (Cons a sts)
  then have "gget (gput (os_UserID a) a m) u = Some v \<or> v \<in> set sts \<and> os_UserID v = u" by simp
  then show ?case by (auto simp: gget_gput split: if_splits)
qed simp

lemma subscribed_statuses_ok:
  assumes "SubscribeUsersStatus E ids s = (Inr sts, s1)" and "\<forall>v \<in> set sts. distinct (os_PlatformIDs v)"
  shows "statuses_ok s1"
proof -
  have "un_status s1 = store_statuses sts"
    using assms(1) by (auto simp: SubscribeUsersStatus_def split: prod.splits sum.splits)
  with assms(2) show ?thesis
    by (auto simp: statuses_ok_def store_statuses_def gomap_ok_fold_gput [of "[]"] dest!: store_statuses_keyed)
qed

text \<open>
  C32: the cache of online statuses refines a set of platforms for each user. From any cache that has each platform of a user once,
  whatever status notifications arrive and in whatever order, each user is shown on the platforms that were added and not taken away
  since. The last report of a user has exactly these platforms. Its status is right, online if there are any and offline otherwise,
  for a user who was not cached, or cached as online, at the start. A user cached with another status, as one who was offline at the
  subscription, is reported with that one until the last platform is taken away, even with platforms. Without a report nothing
  has changed.
\<close>

theorem online_status_refined:
  assumes "statuses_ok s"
  shows "statuses_ok (status_run ns s) \<and> (\<forall>u.
     shown (status_run ns s) u = fold (shown_step u) ns (shown s u) \<and>
     fst (shown (status_run ns s) u) = fold (platform_step u) ns (fst (shown s u)) \<and>
     (right_status (shown s u) \<longrightarrow> right_status (shown (status_run ns s) u)) \<and>
     status_told (un_events s) (shown s u) u (status_run ns s))"
proof -
  have "status_told (un_events s) (shown s u) u s" for u
    by (simp add: status_told_def)
  with status_run_spec [OF assms] shown_run_platforms [where P = "fst (shown s u)" and c = "snd (shown s u)" for u] right_status_run
  show ?thesis by (metis prod.collapse)
qed

definition sample_user_state :: "'t \<Rightarrow> 'n \<Rightarrow> ('t, 'n) user_state" where
  "sample_user_state t n = \<lparr>un_db = t, un_net = n, un_ch = None,
     un_status = [(''c'', \<lparr>os_UserID = ''c'', os_Status = Offline, os_PlatformIDs = []\<rparr>)], un_events = []\<rparr>"

text \<open>One user comes and goes; one who was offline when subscribed to comes online, and is shown on a platform, but offline.\<close>

theorem online_status_refined_witness:
  "\<forall>t n. let s = status_run [(''a'', Online, 1), (''b'', Online, 5), (''a'', Online, 2), (''a'', Offline, 1), (''c'', Online, 1)] (sample_user_state t n)
     in shown s ''a'' = ({2}, Some Online) \<and> shown s ''c'' = ({1}, Some Offline)"
proof (intro allI)
  fix t :: 't and n :: 'n
  let ?ns = "[(''a'', Online, 1), (''b'', Online, 5), (''a'', Online, 2), (''a'', Offline, 1 :: int), (''c'', Online, 1)]"
  have "statuses_ok (sample_user_state t n)" by (simp add: statuses_ok_def sample_user_state_def gomap_ok_def)
  note run = online_status_refined [OF this, of ?ns]
  have "shown (sample_user_state t n) ''a'' = ({}, None)" "shown (sample_user_state t n) ''c'' = ({}, Some Offline)"
    by (simp_all add: shown_def sample_user_state_def)
  with run show "let s = status_run ?ns (sample_user_state t n) in shown s ''a'' = ({2}, Some Online) \<and> shown s ''c'' = ({1}, Some Offline)"
    by (auto simp: shown_step_def platform_step_def Online_def Offline_def)
qed

text \<open>
  A user who was offline when subscribed to is cached as offline, and coming online is reported with a platform but still as offline.
\<close>

lemma store_statuses_get: "distinct (map os_UserID sts) \<Longrightarrow> v \<in> set sts \<Longrightarrow> gget (store_statuses sts) (os_UserID v) = Some v"
  using find_unique [of os_UserID "rev sts" v]
  by (simp add: store_statuses_def slice_to_map_def [symmetric] gget_slice_to_map rev_map [symmetric])

lemma subscribed_offline_user:
  assumes "SubscribeUsersStatus E ids s = (Inr sts, s1)" and "distinct (map os_UserID sts)" and "v \<in> set sts"
    and "os_Status v = Offline"
  shows "\<exists>v'. un_events (SyncUserStatus (os_UserID v) Online p s1) = un_events s1 @ [OnUserStatusChanged v'] \<and>
     os_UserID v' = os_UserID v \<and> p \<in> set (os_PlatformIDs v') \<and> os_Status v' = Offline"
proof -
  have "un_status s1 = store_statuses sts"
    using assms(1) by (auto simp: SubscribeUsersStatus_def split: prod.splits sum.splits)
  then have "gget (un_status s1) (os_UserID v) = Some v" using store_statuses_get assms(2,3) by simp
  then show ?thesis
    using assms(4) RemoveRepeatedElementsInList_distinct [of "os_PlatformIDs v @ [p]"]
    by (simp add: SyncUserStatus_def Let_def tell_user_def)
qed

end
