(* ===== verification/ConvWork.thy ===== *)
theory ConvWork
  imports ConvNew ConvDelete ConvRevoke ConvRead ConvSync User GroupNotify
begin

text \<open>
  The goroutine of the conversation component: \<^verbatim>\<open>Work\<close> takes one command of the channel after the other, and
  \<^verbatim>\<open>doNotificationNew\<close> passes notifications on (\<^verbatim>\<open>conversation_notification.go\<close>). What it starts in other goroutines is
  recorded as a task in the order of the \<^verbatim>\<open>go\<close> statements; the tasks are the operations of the other components, which
  have their own theories.
\<close>

section \<open>State\<close>

datatype task =
    GoSyncLoginUserInfo
  | GoSyncAllBlackList
  | GoSyncAllFriendList
  | GoSyncAllFriendApplication
  | GoSyncAllSelfFriendApplication
  | GoSyncAllJoinedGroupsAndMembers
  | GoSyncAllAdminGroupApplication
  | GoSyncAllSelfGroupApplication
  | GoSyncAllConversations
  | GoFriendNotification MsgData
  | GoUserNotification MsgData
  | GoGroupNotification MsgData

record ('t, 'n) work_state =
  wk_conv :: "('t, 'n) conv_state"
  wk_status :: "(string, OnlineStatus) gomap"
  wk_started :: "task list"

text \<open>
  The server, further tables, and the decoders of the details: of a \<^verbatim>\<open>ConversationUpdateTips\<close> and a
  \<^verbatim>\<open>ConversationSetPrivateTips\<close> the conversations, of a \<^verbatim>\<open>ConversationHasReadTips\<close> the conversation and the time.
\<close>

record ('q, 't, 'n) work_env =
  wv_api :: "('q, 't, 'n) conv_api"
  wv_sync :: "'n sync_api"
  wv_seqs :: "(NotificationSeqs, 't) gorm"
  wv_unread :: "(LocalConversationUnreadMessage, 't) gorm"
  wv_logs :: "(LocalChatLog, 't) gorm"
  wv_dec_Updated :: "string \<Rightarrow> go_error option \<times> string list"
  wv_dec_Private :: "string \<Rightarrow> go_error option \<times> string"
  wv_dec_HasRead :: "string \<Rightarrow> go_error option \<times> string \<times> int"

definition in_conv ::
  "(('t, 'n) conv_state \<Rightarrow> ('t, 'n) conv_state) \<Rightarrow> ('t, 'n) work_state \<Rightarrow> ('t, 'n) work_state" where
  "in_conv f s = s\<lparr>wk_conv := f (wk_conv s)\<rparr>"

definition try_conv ::
  "(('t, 'n) conv_state \<Rightarrow> ('t, 'n) conv_state option) \<Rightarrow> ('t, 'n) work_state \<Rightarrow> ('t, 'n) work_state option" where
  "try_conv f s = map_option (\<lambda>c. s\<lparr>wk_conv := c\<rparr>) (f (wk_conv s))"

definition start :: "task list \<Rightarrow> ('t, 'n) work_state \<Rightarrow> ('t, 'n) work_state" where
  "start ts s = s\<lparr>wk_started := wk_started s @ ts\<rparr>"

section \<open>Constants\<close>

definition FriendNotificationBegin :: int where "FriendNotificationBegin = 1200"
definition FriendNotificationEnd :: int where "FriendNotificationEnd = 1299"
definition ConversationChangeNotification :: int where "ConversationChangeNotification = 1300"
definition UserNotificationBegin :: int where "UserNotificationBegin = 1301"
definition UserNotificationEnd :: int where "UserNotificationEnd = 1399"
definition GroupNotificationBegin :: int where "GroupNotificationBegin = 1500"
definition GroupNotificationEnd :: int where "GroupNotificationEnd = 1599"
definition ConversationPrivateChatNotification :: int where "ConversationPrivateChatNotification = 1701"
definition ConversationUnreadNotification :: int where "ConversationUnreadNotification = 1702"
definition BusinessNotification :: int where "BusinessNotification = 2001"
definition ClearConversationNotification :: int where "ClearConversationNotification = 2101"
definition HasReadReceipt :: int where "HasReadReceipt = 2200"
definition DeleteMsgsNotification :: int where "DeleteMsgsNotification = 2102"
definition CmSyncReactionExtensions :: string where "CmSyncReactionExtensions = ''008''"

section \<open>Notifications about conversations\<close>

definition DoConversationChangedNotification ::
  "('q, 't, 'n) conv_env \<Rightarrow> ('q, 't, 'n) work_env \<Rightarrow> MsgData \<Rightarrow> ('t, 'n) conv_state \<Rightarrow> ('t, 'n) conv_state" where
  "DoConversationChangedNotification E W msg s =
     (case UnmarshalNotificationElem (cx_codec E) (wv_dec_Updated W) [] (md_Content msg) of
        (Some e, _) \<Rightarrow> s | (None, conversationIDList) \<Rightarrow> snd (SyncConversations E (wv_sync W) conversationIDList s))"

definition DoConversationIsPrivateChangedNotification ::
  "('q, 't, 'n) conv_env \<Rightarrow> ('q, 't, 'n) work_env \<Rightarrow> MsgData \<Rightarrow> ('t, 'n) conv_state \<Rightarrow> ('t, 'n) conv_state" where
  "DoConversationIsPrivateChangedNotification E W msg s =
     (case UnmarshalNotificationElem (cx_codec E) (wv_dec_Private W) [] (md_Content msg) of
        (Some e, _) \<Rightarrow> s | (None, conversationID) \<Rightarrow> snd (SyncConversations E (wv_sync W) [conversationID] s))"

definition DeleteConversationUnreadMessageList ::
  "(LocalConversationUnreadMessage, 't) gorm \<Rightarrow> string \<Rightarrow> int \<Rightarrow> 't \<Rightarrow> 't" where
  "DeleteConversationUnreadMessageList G conversationID sendTime t =
     snd (gorm_delete G (\<lambda>r. um_ConversationID r = conversationID \<and> um_SendTime r \<le> sendTime) t)"

text \<open>The details are decoded without a look at the error.\<close>

definition unread_notified ::
  "('q, 't, 'n) conv_env \<Rightarrow> ('q, 't, 'n) work_env \<Rightarrow> MsgData \<Rightarrow> ('t, 'n) conv_state \<Rightarrow> ('t, 'n) conv_state" where
  "unread_notified E W v s =
     (case snd (wv_dec_HasRead W (md_Content v)) of (conversationID, unreadCountTime) \<Rightarrow>
      let s1 = run_update E \<lparr>ucn_ConID = conversationID, ucn_Action = UnreadCountSetZero, ucn_Args = ArgNil\<rparr> s;
          s2 = s1\<lparr>co_db := DeleteConversationUnreadMessageList (wv_unread W) conversationID unreadCountTime (co_db s1)\<rparr>
      in run_update E (con_change [] [conversationID]) s2)"

definition business_DoNotification :: "('q, 't, 'n) conv_env \<Rightarrow> MsgData \<Rightarrow> ('t, 'n) conv_state \<Rightarrow> ('t, 'n) conv_state" where
  "business_DoNotification E msg s =
     (case dec_NotificationElem (cx_codec E) (md_Content msg) of
        (Some e, _) \<Rightarrow> s | (None, n) \<Rightarrow> ConvState.emit (OnRecvCustomBusinessMessage (ne_Detail n)) s)"

section \<open>One notification\<close>

text \<open>
  The first switch: what the conversation component does itself. \<open>True\<close> means that the loop goes on with the next message;
  \<open>None\<close> is a panic. The cases are tried in the order of the source.
\<close>

definition first_switch ::
  "('q, 't, 'n) conv_env \<Rightarrow> ('q, 't, 'n) work_env \<Rightarrow> MsgData \<Rightarrow> ('t, 'n) work_state \<Rightarrow> (bool \<times> ('t, 'n) work_state) option" where
  "first_switch E W v s =
     (let ct = md_ContentType v; A = wv_api W in
      if ct = ConversationChangeNotification then Some (False, in_conv (DoConversationChangedNotification E W v) s)
      else if ct = ConversationPrivateChatNotification then Some (False, in_conv (DoConversationIsPrivateChangedNotification E W v) s)
      else if ct = ConversationUnreadNotification then Some (True, in_conv (unread_notified E W v) s)
      else if ct = BusinessNotification then Some (True, in_conv (business_DoNotification E v) s)
      else if ct = RevokeNotification then map_option (Pair False) (try_conv (doRevokeMsg E A v) s)
      else if ct = ClearConversationNotification then Some (False, in_conv (doClearConversations E A v) s)
      else if ct = DeleteMsgsNotification then Some (False, in_conv (doDeleteMsgs E A v) s)
      else if ct = HasReadReceipt then Some (False, in_conv (doReadDrawing E A v) s)
      else Some (False, s))"

text \<open>The second switch: which other component takes the notification, in a goroutine of its own.\<close>

definition second_switch :: "MsgData \<Rightarrow> task list" where
  "second_switch v =
     (let ct = md_ContentType v; st = md_SessionType v in
      if st = SingleChatType
      then (if FriendNotificationBegin < ct \<and> ct < FriendNotificationEnd then [GoFriendNotification v]
            else if UserNotificationBegin < ct \<and> ct < UserNotificationEnd then [GoUserNotification v]
            else if ct \<in> {GroupApplicationRejectedNotification, GroupApplicationAcceptedNotification, JoinGroupApplicationNotification}
            then [GoGroupNotification v]
            else [])
      else if st = GroupChatType \<or> st = SuperGroupChatType
      then (if GroupNotificationBegin < ct \<and> ct < GroupNotificationEnd then [GoGroupNotification v] else [])
      else [])"

definition notify_one ::
  "('q, 't, 'n) conv_env \<Rightarrow> ('q, 't, 'n) work_env \<Rightarrow> MsgData \<Rightarrow> ('t, 'n) work_state \<Rightarrow> ('t, 'n) work_state option" where
  "notify_one E W v s =
     (case first_switch E W v s of
        None \<Rightarrow> None | Some (True, s1) \<Rightarrow> Some s1 | Some (False, s1) \<Rightarrow> Some (start (second_switch v) s1))"

fun notified_all ::
  "('q, 't, 'n) conv_env \<Rightarrow> ('q, 't, 'n) work_env \<Rightarrow> MsgData list \<Rightarrow> ('t, 'n) work_state \<Rightarrow> ('t, 'n) work_state option" where
  "notified_all E W [] s = Some s"
| "notified_all E W (v # rest) s = (case notify_one E W v s of None \<Rightarrow> None | Some s1 \<Rightarrow> notified_all E W rest s1)"

section \<open>All notifications of a command\<close>

text \<open>The number of the last message is stored before the messages are handled; an error is only logged.\<close>

definition store_notification_seq ::
  "('q, 't, 'n) work_env \<Rightarrow> string \<Rightarrow> MsgData list \<Rightarrow> ('t, 'n) conv_state \<Rightarrow> ('t, 'n) conv_state" where
  "store_notification_seq W conversationID msgs s =
     (if msgs = [] \<or> md_Seq (last msgs) = 0 then s
      else snd (on_db (SetNotificationSeq (wv_seqs W) conversationID (md_Seq (last msgs))) s))"

fun notified_conversations ::
  "('q, 't, 'n) conv_env \<Rightarrow> ('q, 't, 'n) work_env \<Rightarrow> (string, PullMsgs) gomap \<Rightarrow> ('t, 'n) work_state \<Rightarrow> ('t, 'n) work_state option" where
  "notified_conversations E W [] s = Some s"
| "notified_conversations E W ((conversationID, msgs) # rest) s =
     (case notified_all E W (pm_Msgs msgs) (in_conv (store_notification_seq W conversationID (pm_Msgs msgs)) s) of
        None \<Rightarrow> None | Some s1 \<Rightarrow> notified_conversations E W rest s1)"

definition sync_tasks :: "task list" where
  "sync_tasks = [GoSyncLoginUserInfo, GoSyncAllBlackList, GoSyncAllFriendList, GoSyncAllFriendApplication,
     GoSyncAllSelfFriendApplication, GoSyncAllJoinedGroupsAndMembers, GoSyncAllAdminGroupApplication, GoSyncAllSelfGroupApplication]"

text \<open>The begin of a synchronisation empties the online statuses; its end is told after everything else.\<close>

definition sync_flagged ::
  "('q, 't, 'n) conv_env \<Rightarrow> ('q, 't, 'n) work_env \<Rightarrow> int \<Rightarrow> ('t, 'n) work_state \<Rightarrow> ('t, 'n) work_state" where
  "sync_flagged E W syncFlag s =
     (if syncFlag = MsgSyncBegin
      then start sync_tasks ((in_conv (snd \<circ> SyncAllConversationHashReadSeqs E (wv_sync W) \<circ> ConvState.emit OnSyncServerStart) s)\<lparr>wk_status := []\<rparr>)
      else if syncFlag = MsgSyncFailed then in_conv (ConvState.emit OnSyncServerFailed) s
      else if syncFlag = MsgSyncEnd then start [GoSyncAllConversations] s
      else s)"

definition doNotificationNew ::
  "('q, 't, 'n) conv_env \<Rightarrow> ('q, 't, 'n) work_env \<Rightarrow> CmdNewMsgComeToConversation \<Rightarrow> ('t, 'n) work_state \<Rightarrow>
   ('t, 'n) work_state option" where
  "doNotificationNew E W cmd s =
     (case notified_conversations E W (cx_range_pull E (cnm_Msgs cmd)) (sync_flagged E W (cnm_SyncFlag cmd) s) of
        None \<Rightarrow> None
      | Some s1 \<Rightarrow> Some (if cnm_SyncFlag cmd = MsgSyncEnd then in_conv (ConvState.emit OnSyncServerFinish) s1 else s1))"

section \<open>Deleting a conversation\<close>

definition UpdateMessageStatusBySourceID ::
  "(LocalChatLog, 't) gorm \<Rightarrow> string \<Rightarrow> string \<Rightarrow> int \<Rightarrow> int \<Rightarrow> 't action" where
  "UpdateMessageStatusBySourceID G loginUserID sourceID status sessionType t =
     update_result ''UpdateMessageStatusBySourceID failed'' (gorm_updates G
       (\<lambda>r. (if sourceID = loginUserID \<and> sessionType = SingleChatType then cl_SendID r = sourceID \<and> cl_RecvID r = sourceID
             else cl_SendID r = sourceID \<or> cl_RecvID r = sourceID) \<and> cl_SessionType r = sessionType)
       (\<lambda>r. r\<lparr>cl_Status := nz_int status (cl_Status r)\<rparr>) t)"

definition doDeleteConversation ::
  "('q, 't, 'n) conv_env \<Rightarrow> ('q, 't, 'n) work_env \<Rightarrow> DeleteConNode \<Rightarrow> ('t, 'n) conv_state \<Rightarrow> ('t, 'n) conv_state" where
  "doDeleteConversation E W node s =
     (case on_db (UpdateMessageStatusBySourceID (wv_logs W) (cx_loginUserID E) (dcn_SourceID node) MsgStatusHasDeleted
             (i32 (dcn_SessionType node))) s of
        (Some e, s1) \<Rightarrow> s1
      | (None, s1) \<Rightarrow> run_update E total_changed (snd (on_db (ResetConversation (cx_conv E) (dcn_ConversationID node)) s1)))"

section \<open>One command\<close>

text \<open>A value of another type than the command's makes the type assertion panic.\<close>

definition Work ::
  "('q, 't, 'n) conv_env \<Rightarrow> ('q, 't, 'n) work_env \<Rightarrow> Cmd2Value \<Rightarrow> ('t, 'n) work_state \<Rightarrow> ('t, 'n) work_state option" where
  "Work E W c2v s =
     (let cmd = c2v_Cmd c2v in
      if cmd = CmdDeleteConversation
      then (case c2v_Value c2v of PDeleteCon node \<Rightarrow> Some (in_conv (doDeleteConversation E W node) s) | _ \<Rightarrow> None)
      else if cmd = CmdNewMsgCome
      then (case c2v_Value c2v of PNewMsgs m \<Rightarrow> try_conv (doMsgNew E (cnm_Msgs m)) s | _ \<Rightarrow> None)
      else if cmd = CmdSuperGroupMsgCome then Some s
      else if cmd = CmdUpdateConversation
      then (case c2v_Value c2v of PUpdateCon node \<Rightarrow> try_conv (doUpdateConversation E node) s | _ \<Rightarrow> None)
      else if cmd = CmdUpdateMessage
      then (case c2v_Value c2v of PUpdateMsg node \<Rightarrow> try_conv (doUpdateMessage E node) s | _ \<Rightarrow> None)
      else if cmd = CmSyncReactionExtensions then Some s
      else if cmd = CmdNotification
      then (case c2v_Value c2v of PNewMsgs m \<Rightarrow> doNotificationNew E W m s | _ \<Rightarrow> None)
      else Some s)"

end
