(* ===== verification/ConvWorkProps.thy ===== *)
theory ConvWorkProps
  imports ConvWork ConvSyncProps
begin

text \<open>Where notifications go, and one that goes to the wrong place.\<close>

section \<open>Routing\<close>

lemmas notification_numbers = ConversationChangeNotification_def ConversationPrivateChatNotification_def ConversationUnreadNotification_def
  BusinessNotification_def RevokeNotification_def ClearConversationNotification_def DeleteMsgsNotification_def HasReadReceipt_def
  FriendNotificationBegin_def FriendNotificationEnd_def UserNotificationBegin_def UserNotificationEnd_def GroupNotificationBegin_def
  GroupNotificationEnd_def GroupApplicationRejectedNotification_def GroupApplicationAcceptedNotification_def
  JoinGroupApplicationNotification_def session_types

text \<open>What the conversation component handles itself goes to no other component, and no notification goes to two.\<close>

lemma notification_goes_one_way:
  "length (second_switch v) \<le> 1 \<and> (second_switch v \<noteq> [] \<longrightarrow> first_switch E W v s = Some (False, s))"
  by (auto simp: second_switch_def first_switch_def Let_def notification_numbers)

section \<open>Clearing conversations\<close>

definition no_revoke_tips :: RevokeMsgTips where
  "no_revoke_tips = \<lparr>rt_RevokerUserID = [], rt_ClientMsgID = [], rt_RevokeTime = 0, rt_SesstionType = 0, rt_Seq = 0,
     rt_ConversationID = [], rt_IsAdminRevoke = False\<rparr>"

lemma clear_is_revoke:
  "md_ContentType v = ClearConversationNotification \<Longrightarrow>
   first_switch E W v s = map_option (Pair False) (try_conv (doRevokeMsg E (wv_api W) v) s) \<and> second_switch v = []"
  by (simp add: first_switch_def second_switch_def Let_def notification_numbers)

lemma GetMessageBySeq_missing:
  assumes "gorm_table (G (GetTableName c)) rows cl_ClientMsgID" and "\<forall>r \<in> set (rows t). cl_Seq r \<noteq> seq"
    and "GetMessageBySeq G c seq t = (r, t')"
  shows "\<exists>e. r = Inl e"
  using assms(2,3) gorm_table.take_in [OF assms(1)]
  by (fastforce simp: GetMessageBySeq_def wrap_res_def GetConversationTableName_def split: prod.splits sum.splits)

lemma revoke_nothing:
  assumes tables: "conv_tables E chat_rows conv_rows"
    and elem: "dec_NotificationElem (cx_codec E) (md_Content v) = (None, n)" "ca_dec_RevokeMsgTips A (ne_Detail n) = (None, no_revoke_tips)"
    and none: "\<forall>r \<in> set (chat_rows (GetTableName []) (co_db s)). cl_Seq r \<noteq> 0"
  shows "\<exists>t. doRevokeMsg E A v s = Some (s\<lparr>co_db := t\<rparr>) \<and> (\<forall>name. chat_rows name t = chat_rows name (co_db s)) \<and> conv_rows t = conv_rows (co_db s)"
proof -
  obtain r t where get: "GetMessageBySeq (cx_chat E) [] 0 (co_db s) = (r, t)" by fastforce
  with GetMessageBySeq_missing [where G = "cx_chat E" and c = "[]" and rows = "chat_rows (GetTableName [])" and seq = 0, OF conv_tables.chat_table [OF tables] none] obtain e where "r = Inl e" by blast
  then have "doRevokeMsg E A v s = Some (s\<lparr>co_db := t\<rparr>)"
    using elem get by (simp add: doRevokeMsg_def UnmarshalNotificationElem_def wrap_err_def no_revoke_tips_def [symmetric]
        revokeMessage_def on_db_def) (simp add: no_revoke_tips_def get)
  moreover obtain q where take: "gorm_take (cx_chat E (GetTableName [])) (\<lambda>r. cl_Seq r = 0) (co_db s) = (q, t)"
    using get by (auto simp: GetMessageBySeq_def wrap_res_def split: prod.splits sum.splits)
  have "chat_rows name t = chat_rows name (co_db s)" for name
    using gorm_table.take_rows [OF conv_tables.chat_table [OF tables] take]
      keepsD(2) [OF conv_tables.chat_keeps_chat [OF tables, of "GetTableName []" name] take]
    by (cases "name = GetTableName []") auto
  moreover have "conv_rows t = conv_rows (co_db s)" by (rule keepsD(2) [OF conv_tables.chat_keeps_conv [OF tables] take])
  ultimately show ?thesis by blast
qed

lemma SetNotificationSeq_keeps: "keeps G obs \<Longrightarrow> SetNotificationSeq G c n t = (r, t') \<Longrightarrow> obs t' = obs t"
  by (auto simp: SetNotificationSeq_def wrap_act_def split: prod.splits option.splits if_splits) (metis keepsD(3) keepsD(4))+

text \<open>
  C3: a notification that conversations have been cleared clears nothing. Its number is that of a revocation, whose case is
  tried first; the details of the one have none of the fields of the other, so that a message with number 0 of
  the conversation without an identifier is looked for. No message is deleted, no conversation changes, the listener is
  not told and no other component starts, whatever conversations the notification names.
\<close>

theorem clear_notification_lost:
  assumes tables: "conv_tables E chat_rows conv_rows"
    and seqs: "\<And>name. keeps (wv_seqs W) (chat_rows name)" "keeps (wv_seqs W) conv_rows"
    and order: "any_order (cx_range_pull E)"
    and v: "md_ContentType v = ClearConversationNotification"
    and elem: "dec_NotificationElem (cx_codec E) (md_Content v) = (None, n)" "ca_dec_RevokeMsgTips (wv_api W) (ne_Detail n) = (None, no_revoke_tips)"
    and none: "\<forall>r \<in> set (chat_rows (GetTableName []) (co_db (wk_conv s))). cl_Seq r \<noteq> 0"
  shows "\<exists>s'. doNotificationNew E W \<lparr>cnm_Msgs = [(cid, \<lparr>pm_Msgs = [v], pm_IsEnd = fin\<rparr>)], cnm_SyncFlag = 0\<rparr> s = Some s' \<and>
    (\<forall>name. chat_rows name (co_db (wk_conv s')) = chat_rows name (co_db (wk_conv s))) \<and>
    conv_rows (co_db (wk_conv s')) = conv_rows (co_db (wk_conv s)) \<and>
    co_events (wk_conv s') = co_events (wk_conv s) \<and> wk_started s' = wk_started s"
proof -
  let ?s1 = "in_conv (store_notification_seq W cid [v]) s"
  let ?c = "wk_conv ?s1"
  obtain t where stored: "?c = (wk_conv s)\<lparr>co_db := t\<rparr>"
    and t: "\<And>name. chat_rows name t = chat_rows name (co_db (wk_conv s))" "conv_rows t = conv_rows (co_db (wk_conv s))"
  proof (cases "md_Seq v = 0")
    case True
    then show ?thesis by (intro that [of "co_db (wk_conv s)"]) (simp_all add: in_conv_def store_notification_seq_def)
  next
    case False
    obtain r t where set: "SetNotificationSeq (wv_seqs W) cid (md_Seq v) (co_db (wk_conv s)) = (r, t)" by fastforce
    with False show ?thesis
      using SetNotificationSeq_keeps [OF seqs(1) set] SetNotificationSeq_keeps [OF seqs(2) set]
      by (intro that [of t]) (simp_all add: in_conv_def store_notification_seq_def on_db_def)
  qed
  have "\<forall>r \<in> set (chat_rows (GetTableName []) (co_db ?c)). cl_Seq r \<noteq> 0" using none t(1) by (simp add: stored)
  from revoke_nothing [OF tables elem this] obtain t2 where revoked: "doRevokeMsg E (wv_api W) v ?c = Some (?c\<lparr>co_db := t2\<rparr>)"
    and t2: "\<And>name. chat_rows name t2 = chat_rows name (co_db ?c)" "conv_rows t2 = conv_rows (co_db ?c)" by blast
  have "mset (cx_range_pull E [(cid, \<lparr>pm_Msgs = [v], pm_IsEnd = fin\<rparr>)]) = {#(cid, \<lparr>pm_Msgs = [v], pm_IsEnd = fin\<rparr>)#}"
    using order by (simp add: any_order_def)
  then have range: "cx_range_pull E [(cid, \<lparr>pm_Msgs = [v], pm_IsEnd = fin\<rparr>)] = [(cid, \<lparr>pm_Msgs = [v], pm_IsEnd = fin\<rparr>)]"
    by (metis mset_single_iff_right)
  have "notify_one E W v ?s1 = Some (?s1\<lparr>wk_conv := ?c\<lparr>co_db := t2\<rparr>\<rparr>)"
    using clear_is_revoke [OF v, of E W ?s1] revoked by (simp add: notify_one_def try_conv_def start_def)
  then have "doNotificationNew E W \<lparr>cnm_Msgs = [(cid, \<lparr>pm_Msgs = [v], pm_IsEnd = fin\<rparr>)], cnm_SyncFlag = 0\<rparr> s =
      Some (?s1\<lparr>wk_conv := ?c\<lparr>co_db := t2\<rparr>\<rparr>)"
    by (simp add: doNotificationNew_def range sync_flagged_def MsgSyncBegin_def MsgSyncFailed_def MsgSyncEnd_def)
  with t t2 stored show ?thesis by (simp add: in_conv_def)
qed

text \<open>A table whose statements all fail, and a client with one conversation.\<close>

definition failing_gorm :: "('r, 't) gorm" where
  "failing_gorm = \<lparr>gorm_find = \<lambda>p t. (Inl db_fault, t), gorm_take = \<lambda>p t. (Inl db_fault, t), gorm_create = \<lambda>xs t. (Some db_fault, t),
     gorm_updates = \<lambda>p f t. ((Some db_fault, 0), t), gorm_delete = \<lambda>p t. (Some db_fault, t)\<rparr>"

definition clear_data :: MsgData where
  "clear_data = (sample_data ''m'' ''a'' 5 2)\<lparr>md_ContentType := ClearConversationNotification\<rparr>"

definition work_one :: "'n \<Rightarrow> (world, 'n) work_state" where
  "work_one n = \<lparr>wk_conv = one_conversation n, wk_status = [], wk_started = []\<rparr>"

theorem clear_notification_lost_witness:
  "\<forall>(E :: ('q, world, 'n) conv_env) W n. \<exists>s'.
     doNotificationNew (on_world (E\<lparr>cx_range_pull := \<lambda>m. m, cx_codec := (cx_codec E)\<lparr>dec_NotificationElem := \<lambda>c. (None, \<lparr>ne_Detail = c\<rparr>)\<rparr>\<rparr>))
       (W\<lparr>wv_seqs := failing_gorm, wv_api := (wv_api W)\<lparr>ca_dec_RevokeMsgTips := \<lambda>c. (None, no_revoke_tips)\<rparr>\<rparr>)
       \<lparr>cnm_Msgs = [(''n_c'', \<lparr>pm_Msgs = [clear_data], pm_IsEnd = True\<rparr>)], cnm_SyncFlag = 0\<rparr> (work_one n) = Some s' \<and>
     ft_rows (w_conv (co_db (wk_conv s'))) = [read_conversation] \<and> wk_started s' = []"
proof (intro allI)
  fix E :: "('q, world, 'n) conv_env" and W :: "('q, world, 'n) work_env" and n :: 'n
  let ?E = "on_world (E\<lparr>cx_range_pull := \<lambda>m. m, cx_codec := (cx_codec E)\<lparr>dec_NotificationElem := \<lambda>c. (None, \<lparr>ne_Detail = c\<rparr>)\<rparr>\<rparr>)"
  let ?W = "W\<lparr>wv_seqs := failing_gorm, wv_api := (wv_api W)\<lparr>ca_dec_RevokeMsgTips := \<lambda>c. (None, no_revoke_tips)\<rparr>\<rparr>"
  have keeps: "keeps (wv_seqs ?W) obs" for obs by (simp add: keeps_def failing_gorm_def)
  have "\<exists>s'. doNotificationNew ?E ?W \<lparr>cnm_Msgs = [(''n_c'', \<lparr>pm_Msgs = [clear_data], pm_IsEnd = True\<rparr>)], cnm_SyncFlag = 0\<rparr> (work_one n) = Some s' \<and>
    (\<forall>name. ft_rows (w_chat (co_db (wk_conv s')) name) = ft_rows (w_chat (co_db (wk_conv (work_one n))) name)) \<and>
    ft_rows (w_conv (co_db (wk_conv s'))) = ft_rows (w_conv (co_db (wk_conv (work_one n)))) \<and>
    co_events (wk_conv s') = co_events (wk_conv (work_one n)) \<and> wk_started s' = wk_started (work_one n)"
    by (rule clear_notification_lost [OF wt.conv_tables_axioms keeps keeps, where n = "\<lparr>ne_Detail = md_Content clear_data\<rparr>"])
      (simp_all add: on_world_def clear_data_def work_one_def one_conversation_def empty_world_def)
  then show "\<exists>s'. doNotificationNew ?E ?W \<lparr>cnm_Msgs = [(''n_c'', \<lparr>pm_Msgs = [clear_data], pm_IsEnd = True\<rparr>)], cnm_SyncFlag = 0\<rparr> (work_one n) = Some s' \<and>
     ft_rows (w_conv (co_db (wk_conv s'))) = [read_conversation] \<and> wk_started s' = []"
    by (auto simp: work_one_def one_conversation_def)
qed

end
