(* ===== verification/UploadLocks.thy ===== *)
theory UploadLocks
  imports Prelude
begin

text \<open>
  The locks of \<^verbatim>\<open>internal/file/upload.go\<close>: uploads of the same content (the digest of the parts' digests) run one after the other,
  those of different contents at the same time. Each goroutine calls \<^verbatim>\<open>lockHash\<close>, uploads, and calls \<^verbatim>\<open>unlockHash\<close>. A section
  under \<^verbatim>\<open>mapLocker\<close> is one step; the locks are addresses in a heap.
\<close>

section \<open>State\<close>

record lockInfo =
  li_count :: int
  li_locked :: bool

text \<open>
  Where a goroutine is: before \<^verbatim>\<open>lockHash\<close>; waiting for the lock it found; uploading (the lock is noted for the
  statements only, \<^verbatim>\<open>unlockHash\<close> looks it up again); before the \<^verbatim>\<open>Unlock\<close> of the lock; and done.
\<close>

datatype upload_pc = Arriving string | Waiting string nat | Uploading string nat | Unlocking nat | Finished

record file_locks =
  fl_uploading :: "(string, nat) gomap"
  fl_heap :: "lockInfo list"
  fl_pcs :: "upload_pc list"
  fl_panicked :: bool

section \<open>The steps\<close>

definition lockHash_map :: "nat \<Rightarrow> string \<Rightarrow> file_locks \<Rightarrow> file_locks" where
  "lockHash_map g hash f =
     (let (r, m, heap) = (case gget (fl_uploading f) hash of
            Some r \<Rightarrow> (r, fl_uploading f, fl_heap f)
          | None \<Rightarrow> let r = length (fl_heap f) in
              (r, gput hash r (fl_uploading f), fl_heap f @ [\<lparr>li_count = 0, li_locked = False\<rparr>]))
      in f\<lparr>fl_uploading := m,
           fl_heap := heap[r := (heap ! r)\<lparr>li_count := i32 (li_count (heap ! r) + 1)\<rparr>],
           fl_pcs := (fl_pcs f)[g := Waiting hash r]\<rparr>)"

definition lockHash_lock :: "nat \<Rightarrow> string \<Rightarrow> nat \<Rightarrow> file_locks \<Rightarrow> file_locks" where
  "lockHash_lock g hash r f = f\<lparr>fl_heap := (fl_heap f)[r := (fl_heap f ! r)\<lparr>li_locked := True\<rparr>],
     fl_pcs := (fl_pcs f)[g := Uploading hash r]\<rparr>"

definition unlockHash_map :: "nat \<Rightarrow> string \<Rightarrow> file_locks \<Rightarrow> file_locks" where
  "unlockHash_map g hash f =
     (case gget (fl_uploading f) hash of
        None \<Rightarrow> f\<lparr>fl_pcs := (fl_pcs f)[g := Finished]\<rparr>
      | Some r \<Rightarrow>
          (let cnt = i32 (li_count (fl_heap f ! r) - 1)
           in f\<lparr>fl_uploading := (if cnt = 0 then gdel hash (fl_uploading f) else fl_uploading f),
                fl_heap := (fl_heap f)[r := (fl_heap f ! r)\<lparr>li_count := cnt\<rparr>],
                fl_pcs := (fl_pcs f)[g := Unlocking r]\<rparr>))"

text \<open>Unlocking a mutex that is not locked ends the program.\<close>

definition unlockHash_unlock :: "nat \<Rightarrow> nat \<Rightarrow> file_locks \<Rightarrow> file_locks" where
  "unlockHash_unlock g r f =
     (if li_locked (fl_heap f ! r)
      then f\<lparr>fl_heap := (fl_heap f)[r := (fl_heap f ! r)\<lparr>li_locked := False\<rparr>], fl_pcs := (fl_pcs f)[g := Finished]\<rparr>
      else f\<lparr>fl_panicked := True\<rparr>)"

inductive lock_step :: "file_locks \<Rightarrow> file_locks \<Rightarrow> bool" where
  arrive: "g < length (fl_pcs f) \<Longrightarrow> fl_pcs f ! g = Arriving hash \<Longrightarrow> lock_step f (lockHash_map g hash f)"
| acquire: "g < length (fl_pcs f) \<Longrightarrow> fl_pcs f ! g = Waiting hash r \<Longrightarrow> \<not> li_locked (fl_heap f ! r) \<Longrightarrow>
     lock_step f (lockHash_lock g hash r f)"
| leave: "g < length (fl_pcs f) \<Longrightarrow> fl_pcs f ! g = Uploading hash r \<Longrightarrow> lock_step f (unlockHash_map g hash f)"
| release: "g < length (fl_pcs f) \<Longrightarrow> fl_pcs f ! g = Unlocking r \<Longrightarrow> lock_step f (unlockHash_unlock g r f)"

inductive_cases lock_stepE: "lock_step f f'"

definition NewFile_locks :: "string list \<Rightarrow> file_locks" where
  "NewFile_locks hashes = \<lparr>fl_uploading = [], fl_heap = [], fl_pcs = map Arriving hashes, fl_panicked = False\<rparr>"

inductive lock_reach :: "string list \<Rightarrow> file_locks \<Rightarrow> bool" for hashes :: "string list" where
  start: "lock_reach hashes (NewFile_locks hashes)"
| step: "lock_reach hashes f \<Longrightarrow> lock_step f f' \<Longrightarrow> lock_reach hashes f'"

section \<open>The invariant\<close>

definition uses :: "nat \<Rightarrow> upload_pc \<Rightarrow> bool" where
  "uses r pc \<longleftrightarrow> (\<exists>h. pc = Waiting h r \<or> pc = Uploading h r)"

definition holds :: "nat \<Rightarrow> upload_pc \<Rightarrow> bool" where
  "holds r pc \<longleftrightarrow> pc = Unlocking r \<or> (\<exists>h. pc = Uploading h r)"

definition count_pcs :: "(upload_pc \<Rightarrow> bool) \<Rightarrow> upload_pc list \<Rightarrow> int" where
  "count_pcs P pcs = int (length (filter P pcs))"

text \<open>
  The map and the goroutines agree on the lock of a content, a lock in the map is in use and belongs to one content, the
  count of a lock says how many goroutines use it, and one goroutine holds it exactly if it is locked.
\<close>

definition map_agrees :: "(string, nat) gomap \<Rightarrow> lockInfo list \<Rightarrow> upload_pc list \<Rightarrow> bool" where
  "map_agrees m heap pcs \<longleftrightarrow> gomap_ok m \<and>
     (\<forall>h r. gget m h = Some r \<longrightarrow> r < length heap \<and> (\<exists>pc \<in> set pcs. uses r pc) \<and> (\<forall>h'. gget m h' = Some r \<longrightarrow> h' = h)) \<and>
     (\<forall>h r. Waiting h r \<in> set pcs \<or> Uploading h r \<in> set pcs \<longrightarrow> gget m h = Some r) \<and>
     (\<forall>r. Unlocking r \<in> set pcs \<longrightarrow> r < length heap)"

definition locks_agree :: "lockInfo list \<Rightarrow> upload_pc list \<Rightarrow> bool" where
  "locks_agree heap pcs \<longleftrightarrow> (\<forall>r < length heap. li_count (heap ! r) = count_pcs (uses r) pcs \<and>
     count_pcs (holds r) pcs = (if li_locked (heap ! r) then 1 else 0))"

definition locks_ok :: "file_locks \<Rightarrow> bool" where
  "locks_ok f \<longleftrightarrow> map_agrees (fl_uploading f) (fl_heap f) (fl_pcs f) \<and> locks_agree (fl_heap f) (fl_pcs f) \<and> \<not> fl_panicked f"

lemma split_pcs:
  assumes "g < length pcs"
  obtains xs ys where "pcs = xs @ pcs ! g # ys" and "\<And>pc. pcs[g := pc] = xs @ pc # ys"
  using assms by (metis id_take_nth_drop upd_conv_take_nth_drop)

lemma count_pcs_simps [simp]:
  "count_pcs P [] = 0" "count_pcs P (pc # pcs) = (if P pc then 1 else 0) + count_pcs P pcs"
  "count_pcs P (xs @ ys) = count_pcs P xs + count_pcs P ys" "0 \<le> count_pcs P pcs"
  by (simp_all add: count_pcs_def)

lemma count_pcs_zero: "count_pcs P pcs = 0 \<longleftrightarrow> (\<forall>pc \<in> set pcs. \<not> P pc)"
  by (simp add: count_pcs_def filter_empty_conv)

lemma count_pcs_le: "count_pcs P pcs \<le> int (length pcs)"
  by (simp add: count_pcs_def length_filter_le)

lemma uses_simps [simp]: "uses r (Arriving h) = False" "uses r (Waiting h q) = (q = r)" "uses r (Uploading h q) = (q = r)"
    "uses r (Unlocking q) = False" "uses r Finished = False"
  and holds_simps [simp]: "holds r (Arriving h) = False" "holds r (Waiting h q) = False" "holds r (Uploading h q) = (q = r)"
    "holds r (Unlocking q) = (q = r)" "holds r Finished = False"
  by (auto simp: uses_def holds_def)

text \<open>A goroutine arrives at a lock that is there, or at one it makes.\<close>

lemma arrive_ok:
  assumes ok: "locks_ok f" and g: "g < length (fl_pcs f)" "fl_pcs f ! g = Arriving hash" and "length (fl_pcs f) < 2 ^ 31"
  shows "locks_ok (lockHash_map g hash f)"
proof -
  obtain xs ys where pcs: "fl_pcs f = xs @ Arriving hash # ys" "\<And>pc. (fl_pcs f)[g := pc] = xs @ pc # ys"
    using split_pcs [OF g(1)] g(2) by metis
  have small: "i32 (count_pcs (uses r) (fl_pcs f) + 1) = count_pcs (uses r) (fl_pcs f) + 1" for r
    using count_pcs_le [of "uses r" xs] count_pcs_le [of "uses r" ys] assms(4) pcs(1)
    by (intro i32_id) (simp add: is_i32_def)
  show ?thesis
  proof (cases "gget (fl_uploading f) hash")
    case (Some r)
    have r: "r < length (fl_heap f)" using ok Some by (auto simp: locks_ok_def map_agrees_def)
    with ok have "li_count (fl_heap f ! r) = count_pcs (uses r) (fl_pcs f)" by (simp add: locks_ok_def locks_agree_def)
    then have f': "lockHash_map g hash f = f\<lparr>fl_heap := (fl_heap f)[r := (fl_heap f ! r)\<lparr>li_count := count_pcs (uses r) (fl_pcs f) + 1\<rparr>],
        fl_pcs := xs @ Waiting hash r # ys\<rparr>"
      by (simp add: lockHash_map_def Some small pcs(2))
    have "map_agrees (fl_uploading f) ((fl_heap f)[r := x]) (xs @ Waiting hash r # ys)" for x
      using ok Some by (auto simp: locks_ok_def map_agrees_def pcs(1))
    moreover have "locks_agree ((fl_heap f)[r := (fl_heap f ! r)\<lparr>li_count := count_pcs (uses r) (fl_pcs f) + 1\<rparr>]) (xs @ Waiting hash r # ys)"
      using ok r by (auto simp: locks_ok_def locks_agree_def pcs(1) nth_list_update)
    ultimately show ?thesis using ok by (simp add: f' locks_ok_def)
  next
    case None
    let ?r = "length (fl_heap f)"
    have unused: "\<not> uses ?r pc" "\<not> holds ?r pc" if "pc \<in> set (fl_pcs f)" for pc
      using that ok by (auto simp: locks_ok_def map_agrees_def uses_def holds_def)
    then have "count_pcs (uses ?r) (fl_pcs f) = 0" "count_pcs (holds ?r) (fl_pcs f) = 0" by (simp_all add: count_pcs_zero)
    then have zero: "count_pcs (uses ?r) xs + count_pcs (uses ?r) ys = 0" "count_pcs (holds ?r) xs + count_pcs (holds ?r) ys = 0"
      by (simp_all add: pcs(1))
    have f': "lockHash_map g hash f = f\<lparr>fl_uploading := gput hash ?r (fl_uploading f),
        fl_heap := fl_heap f @ [\<lparr>li_count = 1, li_locked = False\<rparr>], fl_pcs := xs @ Waiting hash ?r # ys\<rparr>"
      by (simp add: lockHash_map_def Let_def None pcs(2) i32_id is_i32_def)
    have "map_agrees (gput hash ?r (fl_uploading f)) (fl_heap f @ [x]) (xs @ Waiting hash ?r # ys)" for x
      using ok None by (fastforce simp: locks_ok_def map_agrees_def pcs(1) gget_gput less_Suc_eq)
    moreover have "locks_agree (fl_heap f @ [\<lparr>li_count = 1, li_locked = False\<rparr>]) (xs @ Waiting hash ?r # ys)"
      using ok zero by (auto simp: locks_ok_def locks_agree_def pcs(1) nth_append less_Suc_eq)
    ultimately show ?thesis using ok by (simp add: f' locks_ok_def)
  qed
qed

lemma acquire_ok:
  assumes ok: "locks_ok f" and g: "g < length (fl_pcs f)" "fl_pcs f ! g = Waiting hash r" and free: "\<not> li_locked (fl_heap f ! r)"
  shows "locks_ok (lockHash_lock g hash r f)"
proof -
  obtain xs ys where pcs: "fl_pcs f = xs @ Waiting hash r # ys" "\<And>pc. (fl_pcs f)[g := pc] = xs @ pc # ys"
    using split_pcs [OF g(1)] g(2) by metis
  have f': "lockHash_lock g hash r f = f\<lparr>fl_heap := (fl_heap f)[r := (fl_heap f ! r)\<lparr>li_locked := True\<rparr>], fl_pcs := xs @ Uploading hash r # ys\<rparr>"
    by (simp add: lockHash_lock_def pcs(2))
  have r: "r < length (fl_heap f)" using ok by (auto simp: locks_ok_def map_agrees_def pcs(1))
  have "map_agrees (fl_uploading f) ((fl_heap f)[r := x]) (xs @ Uploading hash r # ys)" for x
    using ok by (auto simp: locks_ok_def map_agrees_def pcs(1))
  moreover have "locks_agree ((fl_heap f)[r := (fl_heap f ! r)\<lparr>li_locked := True\<rparr>]) (xs @ Uploading hash r # ys)"
    using ok r free by (auto simp: locks_ok_def locks_agree_def pcs(1) nth_list_update)
  ultimately show ?thesis using ok by (simp add: f' locks_ok_def)
qed

lemma leave_ok:
  assumes ok: "locks_ok f" and g: "g < length (fl_pcs f)" "fl_pcs f ! g = Uploading hash r" and "length (fl_pcs f) < 2 ^ 31"
  shows "locks_ok (unlockHash_map g hash f)"
proof -
  obtain xs ys where pcs: "fl_pcs f = xs @ Uploading hash r # ys" "\<And>pc. (fl_pcs f)[g := pc] = xs @ pc # ys"
    using split_pcs [OF g(1)] g(2) by metis
  have r: "r < length (fl_heap f)" "gget (fl_uploading f) hash = Some r" using ok by (auto simp: locks_ok_def map_agrees_def pcs(1))
  let ?n = "count_pcs (uses r) xs + count_pcs (uses r) ys"
  have "li_count (fl_heap f ! r) = ?n + 1" using ok r by (simp add: locks_ok_def locks_agree_def pcs(1))
  moreover have "i32 ?n = ?n"
    using count_pcs_le [of "uses r" xs] count_pcs_le [of "uses r" ys] count_pcs_simps(4) [of "uses r" xs]
      count_pcs_simps(4) [of "uses r" ys] assms(4) pcs(1)
    by (intro i32_id) (simp add: is_i32_def del: count_pcs_simps(4))
  ultimately have f': "unlockHash_map g hash f = f\<lparr>fl_uploading := (if ?n = 0 then gdel hash (fl_uploading f) else fl_uploading f),
      fl_heap := (fl_heap f)[r := (fl_heap f ! r)\<lparr>li_count := ?n\<rparr>], fl_pcs := xs @ Unlocking r # ys\<rparr>"
    by (simp add: unlockHash_map_def r Let_def pcs(2))
  have none: "?n = 0 \<longleftrightarrow> (\<forall>pc \<in> set xs \<union> set ys. \<not> uses r pc)"
    using count_pcs_zero [of "uses r" "xs @ ys"] by simp
  have "map_agrees (if ?n = 0 then gdel hash (fl_uploading f) else fl_uploading f) ((fl_heap f)[r := x]) (xs @ Unlocking r # ys)" for x
  proof (cases "?n = 0")
    case True
    with none have "Waiting h r \<notin> set xs \<union> set ys" "Uploading h r \<notin> set xs \<union> set ys" for h by (auto simp: uses_def)
    moreover have "\<exists>pc \<in> set (xs @ Unlocking r # ys). uses q pc" if h: "h \<noteq> hash" "gget (fl_uploading f) h = Some q" for h q
    proof -
      have "q \<noteq> r" using ok r(2) h by (auto simp: locks_ok_def map_agrees_def)
      moreover obtain pc where "pc \<in> set (fl_pcs f)" "uses q pc" using ok h(2) by (fastforce simp: locks_ok_def map_agrees_def)
      ultimately show ?thesis by (auto simp: pcs(1))
    qed
    ultimately show ?thesis using True ok r by (auto simp: locks_ok_def map_agrees_def pcs(1) gget_gdel)
  next
    case False
    with none obtain pc where "pc \<in> set xs \<union> set ys" "uses r pc" by blast
    with False ok r show ?thesis by (auto simp: locks_ok_def map_agrees_def pcs(1))
  qed
  moreover have "locks_agree ((fl_heap f)[r := (fl_heap f ! r)\<lparr>li_count := ?n\<rparr>]) (xs @ Unlocking r # ys)"
    using ok r by (auto simp: locks_ok_def locks_agree_def pcs(1) nth_list_update)
  ultimately show ?thesis using ok by (simp add: f' locks_ok_def)
qed

lemma release_ok:
  assumes ok: "locks_ok f" and g: "g < length (fl_pcs f)" "fl_pcs f ! g = Unlocking r"
  shows "locks_ok (unlockHash_unlock g r f)"
proof -
  obtain xs ys where pcs: "fl_pcs f = xs @ Unlocking r # ys" "\<And>pc. (fl_pcs f)[g := pc] = xs @ pc # ys"
    using split_pcs [OF g(1)] g(2) by metis
  have r: "r < length (fl_heap f)" using ok by (auto simp: locks_ok_def map_agrees_def pcs(1))
  have "count_pcs (holds r) xs + count_pcs (holds r) ys + 1 = (if li_locked (fl_heap f ! r) then 1 else 0)"
    using ok r by (auto simp: locks_ok_def locks_agree_def pcs(1) split: if_splits)
  moreover have "0 \<le> count_pcs (holds r) xs + count_pcs (holds r) ys" by simp
  ultimately have locked: "li_locked (fl_heap f ! r)" and none: "count_pcs (holds r) xs + count_pcs (holds r) ys = 0"
    by (cases "li_locked (fl_heap f ! r)"; simp)+
  have "map_agrees (fl_uploading f) ((fl_heap f)[r := x]) (xs @ Finished # ys)" for x
    using ok by (auto simp: locks_ok_def map_agrees_def pcs(1))
  moreover have "locks_agree ((fl_heap f)[r := (fl_heap f ! r)\<lparr>li_locked := False\<rparr>]) (xs @ Finished # ys)"
    using ok r none by (auto simp: locks_ok_def locks_agree_def pcs(1) nth_list_update)
  ultimately show ?thesis using ok by (simp add: unlockHash_unlock_def locked pcs(2) locks_ok_def)
qed

section \<open>Every run\<close>

fun steps_left :: "upload_pc \<Rightarrow> nat" where
  "steps_left (Arriving h) = 4"
| "steps_left (Waiting h r) = 3"
| "steps_left (Uploading h r) = 2"
| "steps_left (Unlocking r) = 1"
| "steps_left Finished = 0"

definition run_left :: "file_locks \<Rightarrow> nat" where
  "run_left f = sum_list (map steps_left (fl_pcs f))"

lemma lock_step_pcs: "lock_step f f' \<Longrightarrow> length (fl_pcs f') = length (fl_pcs f)"
  by (erule lock_stepE) (auto simp: lockHash_map_def lockHash_lock_def unlockHash_map_def unlockHash_unlock_def Let_def split: option.split)

lemma lock_step_ok: "lock_step f f' \<Longrightarrow> locks_ok f \<Longrightarrow> length (fl_pcs f) < 2 ^ 31 \<Longrightarrow> locks_ok f'"
  by (erule lock_stepE) (use arrive_ok acquire_ok leave_ok release_ok in blast)+

lemma lock_reach_ok:
  assumes "lock_reach hashes f" and "length hashes < 2 ^ 31"
  shows "locks_ok f \<and> length (fl_pcs f) = length hashes"
  using assms(1)
proof induction
  case start
  then show ?case
    by (auto simp: NewFile_locks_def locks_ok_def map_agrees_def locks_agree_def)
next
  case (step f f')
  with lock_step_ok [of f f'] lock_step_pcs [of f f'] assms(2) show ?case by simp
qed

lemma run_left_moved:
  assumes "g < length (fl_pcs f)" and "fl_pcs f' = (fl_pcs f)[g := pc]" and "steps_left pc < steps_left (fl_pcs f ! g)"
  shows "run_left f' < run_left f"
proof -
  obtain xs ys where "fl_pcs f = xs @ fl_pcs f ! g # ys" "\<And>pc. (fl_pcs f)[g := pc] = xs @ pc # ys"
    using split_pcs [OF assms(1)] by metis
  then have "run_left f = sum_list (map steps_left xs) + steps_left (fl_pcs f ! g) + sum_list (map steps_left ys)"
    "run_left f' = sum_list (map steps_left xs) + steps_left pc + sum_list (map steps_left ys)"
    using assms(2) unfolding run_left_def by (metis add.assoc list.simps(9) map_append sum_list.Cons sum_list_append)+
  with assms(3) show ?thesis by linarith
qed

lemma lock_step_left:
  assumes "lock_step f f'" and "locks_ok f'"
  shows "run_left f' < run_left f"
  using assms(1)
proof cases
  case (arrive g hash)
  obtain r where "fl_pcs f' = (fl_pcs f)[g := Waiting hash r]"
    by (cases "gget (fl_uploading f) hash") (auto simp: arrive(1) lockHash_map_def Let_def)
  with run_left_moved arrive show ?thesis by auto
next
  case (acquire g hash r)
  with run_left_moved [of g f f' "Uploading hash r"] show ?thesis by (simp add: lockHash_lock_def)
next
  case (leave g hash r)
  obtain pc where "fl_pcs f' = (fl_pcs f)[g := pc]" "steps_left pc < 2"
    by (cases "gget (fl_uploading f) hash") (auto simp: leave(1) unlockHash_map_def Let_def)
  with run_left_moved leave show ?thesis by auto
next
  case (release g r)
  then have "fl_pcs f' = (fl_pcs f)[g := Finished]"
    using assms(2) by (auto simp: unlockHash_unlock_def locks_ok_def split: if_splits)
  with run_left_moved release show ?thesis by auto
qed

lemma exclusive:
  assumes ok: "locks_ok f" and "g < length (fl_pcs f)" "fl_pcs f ! g = Uploading h r" and "i < length (fl_pcs f)" "fl_pcs f ! i = Uploading h q"
  shows "i = g"
proof (rule ccontr)
  assume "i \<noteq> g"
  have map: "gget (fl_uploading f) h = Some r" "gget (fl_uploading f) h = Some q"
    using assms by (auto simp: locks_ok_def map_agrees_def dest: nth_mem)
  obtain xs ys where pcs: "fl_pcs f = xs @ Uploading h r # ys" "length xs = g"
    using assms(2,3) by (metis id_take_nth_drop length_take min.absorb4)
  have "fl_pcs f ! i \<in> set (xs @ ys)"
    using assms(4) \<open>i \<noteq> g\<close> pcs by (auto simp: nth_append nth_Cons' split: if_splits)
  with assms(5) map have "Uploading h r \<in> set (xs @ ys)" by simp
  then have "count_pcs (holds r) (xs @ ys) \<noteq> 0" unfolding count_pcs_zero by force
  then have "1 < count_pcs (holds r) (fl_pcs f)"
    using count_pcs_simps(4) [of "holds r" "xs @ ys"] by (simp add: pcs(1) del: count_pcs_simps(4))
  moreover have "count_pcs (holds r) (fl_pcs f) \<le> 1" using ok map(1) by (auto simp: locks_ok_def map_agrees_def locks_agree_def)
  ultimately show False by simp
qed

lemma not_stuck:
  assumes ok: "locks_ok f" and "pc \<in> set (fl_pcs f)" "pc \<noteq> Finished"
  shows "\<exists>f'. lock_step f f'"
proof (cases "\<exists>pc \<in> set (fl_pcs f). (\<exists>h. pc = Arriving h) \<or> (\<exists>h r. pc = Uploading h r) \<or> (\<exists>r. pc = Unlocking r)")
  case True
  then obtain g where "g < length (fl_pcs f)"
    "(\<exists>h. fl_pcs f ! g = Arriving h) \<or> (\<exists>h r. fl_pcs f ! g = Uploading h r) \<or> (\<exists>r. fl_pcs f ! g = Unlocking r)"
    by (metis in_set_conv_nth)
  then show ?thesis by (elim disjE exE) (rule exI, erule (1) lock_step.intros)+
next
  case False
  with assms(2) have "pc \<noteq> Arriving h" "pc \<noteq> Uploading h r" "pc \<noteq> Unlocking r" for h r by blast+
  with assms(3) obtain h r where "pc = Waiting h r" by (cases pc) metis+
  with assms(2) have "Waiting h r \<in> set (fl_pcs f)" by simp
  moreover from this have "r < length (fl_heap f)" using ok by (auto simp: locks_ok_def map_agrees_def)
  moreover from False have "count_pcs (holds r) (fl_pcs f) = 0" by (auto simp: count_pcs_zero holds_def)
  ultimately have "\<not> li_locked (fl_heap f ! r)" using ok by (auto simp: locks_ok_def locks_agree_def)
  with \<open>Waiting h r \<in> set (fl_pcs f)\<close> show ?thesis by (auto simp: in_set_conv_nth intro: lock_step.acquire)
qed

lemma no_lock_left:
  assumes ok: "locks_ok f" and "\<forall>pc \<in> set (fl_pcs f). \<forall>r. \<not> uses r pc"
  shows "fl_uploading f = []"
proof (rule ccontr)
  assume "fl_uploading f \<noteq> []"
  then obtain h r rest where "fl_uploading f = (h, r) # rest" by (metis list.exhaust surj_pair)
  then have "gget (fl_uploading f) h = Some r" by simp
  with assms show False by (fastforce simp: locks_ok_def map_agrees_def)
qed

text \<open>
  C31: uploads of one content exclude each other, and nothing of the locks is left behind. In every interleaving of the uploads
  no two goroutines upload the same content at the same time, no unlocked mutex is unlocked, some goroutine can go on until all
  are finished, and each step brings the end nearer, so that every upload gets its turn; and when no goroutine is between
  \<^verbatim>\<open>lockHash\<close> and \<^verbatim>\<open>unlockHash\<close> the map of locks is empty.
\<close>

theorem upload_locks:
  assumes "lock_reach hashes f" and "length hashes < 2 ^ 31"
  shows "\<not> fl_panicked f \<and>
    (\<forall>g i h r q. g < length hashes \<and> i < length hashes \<and> fl_pcs f ! g = Uploading h r \<and> fl_pcs f ! i = Uploading h q \<longrightarrow> i = g) \<and>
    ((\<exists>pc \<in> set (fl_pcs f). pc \<noteq> Finished) \<longrightarrow> (\<exists>f'. lock_step f f')) \<and>
    (\<forall>f'. lock_step f f' \<longrightarrow> run_left f' < run_left f) \<and>
    ((\<forall>pc \<in> set (fl_pcs f). \<forall>r. \<not> uses r pc) \<longrightarrow> fl_uploading f = [])"
proof -
  from lock_reach_ok [OF assms] have ok: "locks_ok f" and len: "length (fl_pcs f) = length hashes" by simp_all
  have "run_left f' < run_left f" if "lock_step f f'" for f'
    using lock_step_left [OF that] lock_step_ok [OF that ok] len assms(2) by simp
  moreover have "\<not> fl_panicked f" using ok by (simp add: locks_ok_def)
  ultimately show ?thesis
    using exclusive [OF ok] not_stuck [OF ok] no_lock_left [OF ok] len by metis
qed

theorem upload_locks_witness:
  "\<exists>f. lock_reach [''x'', ''x''] f \<and> fl_pcs f = [Uploading ''x'' 0, Waiting ''x'' 0] \<and> \<not> fl_panicked f"
proof -
  let ?f1 = "lockHash_map 0 ''x'' (NewFile_locks [''x'', ''x''])"
  let ?f2 = "lockHash_map 1 ''x'' ?f1"
  let ?f3 = "lockHash_lock 0 ''x'' 0 ?f2"
  note eval = lockHash_map_def lockHash_lock_def NewFile_locks_def Let_def
  have "lock_reach [''x'', ''x''] ?f1" by (rule lock_reach.step [OF lock_reach.start lock_step.arrive]) (simp_all add: eval)
  then have "lock_reach [''x'', ''x''] ?f2" by (rule lock_reach.step [OF _ lock_step.arrive]) (simp_all add: eval)
  then have reach: "lock_reach [''x'', ''x''] ?f3" by (rule lock_reach.step [OF _ lock_step.acquire]) (simp_all add: eval)
  then have "\<not> fl_panicked ?f3" using upload_locks [OF reach] by simp
  moreover have "fl_pcs ?f3 = [Uploading ''x'' 0, Waiting ''x'' 0]" by (simp add: eval)
  ultimately show ?thesis using reach by blast
qed

end
