(* ===== verification/Spec2Isabelle.thy ===== *)
theory Spec2Isabelle
  imports FriendSync MsgSyncProps DbProps MessageCheckProps UserGroupProps Bitmap LongConnClaims ConvNewProps UploadProps ConvRevoke ConvRead ConvSyncProps ConvSendProps GroupProps TypingProps LoginProps FriendProps ConvSearchProps UserProps ConvWorkProps UploadLocks
begin

text \<open>
  A model of the OpenIM SDK core (\<^verbatim>\<open>openimsdkcore\<close>, Go): the client side of an instant messenger. A
  client keeps a local database in step with a server over one long connection and over HTTP calls,
  and tells the application what changes through callbacks.

  \<^bold>\<open>The program's parts and how they interact.\<close>
  A session begins with a login and ends with a logout (\<^verbatim>\<open>open_im_sdk/userRelated.go\<close>), which open and close the database and make
  the components. The long connection (\<^verbatim>\<open>internal/interaction/long_conn_mgr.go\<close>) carries requests and their responses and
  receives pushed messages. The message synchroniser (\<^verbatim>\<open>msg_sync.go\<close>) compares sequence numbers, pulls the
  messages that are missing over the long connection, and hands all new messages over a command channel
  (\<^verbatim>\<open>pkg/common/trigger_channel.go\<close>) to the conversation component (\<^verbatim>\<open>internal/conversation_msg\<close>), which stores
  them (\<^verbatim>\<open>pkg/db\<close>), moves the conversations, calls the listeners, and passes notifications to the friend, group and user
  components. The history of a conversation is read from the database, and its gaps are pulled from the server
  (\<^verbatim>\<open>message_check.go\<close>). Friends (\<^verbatim>\<open>internal/friend\<close>), groups (\<^verbatim>\<open>internal/group\<close>), the own user (\<^verbatim>\<open>internal/user\<close>) and the
  conversations are fetched over HTTP (\<^verbatim>\<open>internal/util/post.go\<close>) and reconciled with their tables by the generic syncer
  (\<^verbatim>\<open>pkg/syncer\<close>). Messages are created, stored and sent (\<^verbatim>\<open>create_message.go\<close>, \<^verbatim>\<open>sdk.go\<close>); their files are uploaded in parts
  (\<^verbatim>\<open>internal/file\<close>), with a bitmap of the stored parts in the database.

  \<^bold>\<open>Foundations.\<close>
  \<^theory_text>\<open>Prelude\<close>: Go's error values, signed integers (\<open>int\<close> with \<open>i64\<close> and \<open>i32\<close> where they may wrap), maps as
  association lists whose iteration order is an argument, effectful calls. \<^theory_text>\<open>SdkErrs\<close>, \<^theory_text>\<open>Models\<close>, \<^theory_text>\<open>Messages\<close>,
  \<^theory_text>\<open>Channel\<close>: the error codes, the rows, the messages and the commands. \<^theory_text>\<open>Gorm\<close>: the relational engine
  as a parameter, with the locale \<open>gorm_table\<close> for its documented behaviour and an instance with injected faults.
  \<^theory_text>\<open>Slices\<close>: slices that share backing arrays. \<^theory_text>\<open>Utils\<close>: the pure helpers. \<^theory_text>\<open>Base64\<close>: the standard library's codec.

  \<^bold>\<open>Components.\<close>
  \<^item> \<^theory_text>\<open>Login\<close>, \<^theory_text>\<open>LoginProps\<close>: initialisation, login, logout and the errors that end a session, as steps of a manager. Every reachable
    manager is well formed (C2); interrupted messages are stored as failed (C20, with the locale \<open>recovery_tables\<close>); a failed login
    leaves a cancelled context (C24).
  \<^item> \<^theory_text>\<open>Api\<close>: one API call with every way it can fail, and the page loop.
  \<^item> \<^theory_text>\<open>Syncer\<close>, \<^theory_text>\<open>TableSync\<close>: the reconciliation. The locale \<open>sync_store\<close> is the contract between the syncer and the storage behind
    its callbacks, \<open>table_syncer\<close> that of a storage in one table; they are interpreted on the tables of friends, groups,
    members and conversations. \<^theory_text>\<open>Friend\<close>, \<^theory_text>\<open>FriendSync\<close>, \<^theory_text>\<open>FriendSdk\<close>, \<^theory_text>\<open>FriendProps\<close>: the friend component; its table can always be
    reconciled (C1). \<^theory_text>\<open>Group\<close>, \<^theory_text>\<open>GroupSync\<close>, \<^theory_text>\<open>GroupSdk\<close>, \<^theory_text>\<open>GroupNotify\<close>, \<^theory_text>\<open>GroupProps\<close>: groups and their members (C4, C14) and what a kicked
    user keeps (C16). \<^theory_text>\<open>User\<close>, \<^theory_text>\<open>Full\<close>, \<^theory_text>\<open>UserProps\<close>: the own row, the users with all that is known of them, and the cache of online
    statuses (C32).
  \<^item> \<^theory_text>\<open>MsgSync\<close>, \<^theory_text>\<open>MsgSyncProps\<close>: the synchroniser. Every number up to a recorded one has been pulled (C5), recorded
    numbers go back only at the first comparison after a reinstallation (C6), and what a push does (C7); C8 and C9 show two losses.
  \<^item> \<^theory_text>\<open>ChatLog\<close>, \<^theory_text>\<open>ConvDb\<close>, \<^theory_text>\<open>UserGroupDb\<close>, \<^theory_text>\<open>DbProps\<close>, \<^theory_text>\<open>UserGroupProps\<close>: the statements of \<^verbatim>\<open>pkg/db\<close>.
  \<^item> \<^theory_text>\<open>ConvState\<close>, \<^theory_text>\<open>ConvWorld\<close>: the state and the environment of the conversation component, and the locales \<open>conv_tables\<close> and
    \<open>healthy_tables\<close> for many tables behind one connection. \<^theory_text>\<open>MessageCheck\<close>, \<^theory_text>\<open>MessageStore\<close>, \<^theory_text>\<open>MessageCheckProps\<close>: the
    history and the messages pulled for it: what is asked for (C21), what is stored (C22), and what gets lost (C23).
    \<^theory_text>\<open>ConvNames\<close>, \<^theory_text>\<open>ConvUpdate\<close>, \<^theory_text>\<open>ConvNew\<close>, \<^theory_text>\<open>ConvNewProps\<close>: new messages and their conversations (C35 to C38).
    \<^theory_text>\<open>ConvApi\<close>, \<^theory_text>\<open>ConvDelete\<close>, \<^theory_text>\<open>ConvRevoke\<close>, \<^theory_text>\<open>ConvRead\<close>: deleting, revoking and reading messages. \<^theory_text>\<open>ConvSync\<close>, \<^theory_text>\<open>ConvSyncProps\<close>: the
    settings and read positions of the conversations (C15, C18). \<^theory_text>\<open>ConvSdk\<close>, \<^theory_text>\<open>ConvSearch\<close>, \<^theory_text>\<open>ConvSearchProps\<close>: the calls that read and set
    conversations, and the search with the repository's own substring search (C11, C19). \<^theory_text>\<open>ConvWork\<close>, \<^theory_text>\<open>ConvWorkProps\<close>: the
    commands of the channel and the distribution of the notifications, one of which is lost (C3). The goroutines that it starts are
    recorded as tasks, not run.
  \<^item> \<^theory_text>\<open>MediaFiles\<close>, \<^theory_text>\<open>CreateMsg\<close>, \<^theory_text>\<open>ConvSend\<close>, \<^theory_text>\<open>ConvMedia\<close>, \<^theory_text>\<open>ConvSendProps\<close>: creating and sending messages. Sending refines a small machine
    on the stored status (C13, with the locale \<open>sending_tables\<close>); a forwarded message whose request times out is taken for sent (C25).
  \<^item> \<^theory_text>\<open>Typing\<close>, \<^theory_text>\<open>TypingProps\<close>: who is shown as typing (C10), over the cache library, a parameter with its documented behaviour.
  \<^item> \<^theory_text>\<open>WsResp\<close>, \<^theory_text>\<open>LongConn\<close>, \<^theory_text>\<open>LongConnProps\<close>, \<^theory_text>\<open>LongConnClaims\<close>: the goroutines of the long connection as a
    transition system; its invariants by induction over the reachable states (C28 to C30), what happens on a dead
    connection (C33), and a deadlock (C34).
  \<^item> \<^theory_text>\<open>Bitmap\<close>, \<^theory_text>\<open>Upload\<close>, \<^theory_text>\<open>UploadRuns\<close>, \<^theory_text>\<open>UploadProps\<close>, \<^theory_text>\<open>UploadLocks\<close>: the bitmap refines a set of parts and can be read back
    (C26, C27); the parts cover the file (C39), the loop over the parts ends and reports a progress within the file (C40), an
    interrupted upload is resumed (C12), also with a part that was sent wrong (C17); the locks of the uploads as steps of any
    number of goroutines (C31).

  \<^bold>\<open>Conventions.\<close> A record per struct and a definition per function, under the source's names (with a suffix or a prefix where
  a name is taken); the loops of a function are definitions of their own. A result \<open>go_error + 'a\<close> is Go's pair of a
  value and an error; \<open>None\<close> is a panic, and in the page loop of \<^theory_text>\<open>Api\<close> also a loop that does not end. Logging is left out. The
  operation identifiers and the contexts are left out where they only serve the log. An operation of a component runs to its end
  before the next; where goroutines share state (the long connection, the upload locks) each atomic part is a step.

  \<^bold>\<open>Bounds and fuel.\<close> No loop takes fuel. Loops over lists are structural; the loop that splits a range of
  sequence numbers, the substring search and the reads of a file have measures; the page loop of \<^theory_text>\<open>Api\<close> is a partial
  function, since a server that never sends a short page keeps it running, and its callers' theorems prove that
  it returns for a server that serves a list. The one bound is \<open>se_depth\<close> of \<^theory_text>\<open>ConvSearch\<close>, on how deep quotes and merged messages are
  nested, for which the structure of a message as a decoded text gives no measure; C19 is about messages that are read completely within it.

  \<^bold>\<open>Parameters.\<close> Gorm and SQLite (\<open>se_where\<close> is what it makes of the text of a condition, \<open>fl_not_found\<close> which errors are of a missing row), the
  HTTP transport, the websocket, the JSON codec, gzip and gob, md5 and the digest of the members (\<open>gx_hash\<close>), the clock, random numbers, the
  iteration order of maps, the order of a sort and of requests that run side by side (\<open>gx_order\<close>, \<open>sx_video_first\<close>), the growth
  of slices, \<^verbatim>\<open>go-cmp\<close>, the cache library, the file system, the parsing of addresses, floating-point percentages, and what others do while a
  call sleeps (\<open>others\<close>).

  \<^bold>\<open>Not modelled.\<close> The bindings of \<^verbatim>\<open>open_im_sdk\<close> and \<^verbatim>\<open>wasm\<close> (reflection and marshalling around the same
  operations, and the IndexedDB glue, which forwards each call to JavaScript); the tests and commands; the searches of friends, groups and
  conversations by keyword; the older layout of the message tables (\<^verbatim>\<open>super_group_chat_log_model.go\<close> and most of \<^verbatim>\<open>chat_log_model.go\<close>), the
  reactions and the work moments, which nothing calls; log upload and zip files; the decoding of images.
\<close>

end
